(* ===== verification/Prelude.thy ===== *)
theory Prelude
  imports Main "HOL-Library.Word"
begin

unbundle bit_operations_syntax

text \<open>
  Shared vocabulary of the development: bytes and the constants of C's character
  classes, byte strings written as HOL strings, and the lemmas on lists and segments
  that several components use.
\<close>

named_theorems mem_simps \<open>reading a segment of a byte buffer\<close>
named_theorems wp_rules \<open>weakest preconditions of the parser's operations\<close>
named_theorems spec_intros \<open>contracts of the parser's operations\<close>

type_synonym byte = "8 word"

text \<open>A C string literal as the bytes it stands for.\<close>

definition bytes_of :: "string \<Rightarrow> byte list" where
  "bytes_of s = map of_char s"

lemma bytes_of_simps [simp]:
  "bytes_of [] = []"
  "bytes_of (c # s) = of_char c # bytes_of s"
  "length (bytes_of s) = length s"
  by (simp_all add: bytes_of_def)

subsection \<open>Segments of a buffer\<close>

text \<open>The bytes at the positions \<open>i, \<dots>, j - 1\<close> of a buffer: what a pair of pointers delimits.\<close>

definition segment :: "'a list \<Rightarrow> nat \<Rightarrow> nat \<Rightarrow> 'a list" where
  "segment xs i j = take (j - i) (drop i xs)"

lemma length_segment [mem_simps]: "length (segment xs i j) = min (j - i) (length xs - i)"
  by (simp add: segment_def min.commute)

lemma segment_empty [simp]: "j \<le> i \<Longrightarrow> segment xs i j = []"
  by (simp add: segment_def)

lemma nth_segment [mem_simps]: "k < j - i \<Longrightarrow> i + k < length xs \<Longrightarrow> segment xs i j ! k = xs ! (i + k)"
  by (simp add: segment_def)

lemma segment_Cons [mem_simps]:
  assumes "i < j" and "i < length xs"
  shows "segment xs i j = xs ! i # segment xs (Suc i) j"
  using assms by (simp add: segment_def Suc_diff_Suc Cons_nth_drop_Suc [symmetric] flip: take_Suc_Cons)

lemma segment_snoc [mem_simps]:
  assumes "i < j" and "j \<le> length xs"
  shows "segment xs i j = segment xs i (j - 1) @ [xs ! (j - 1)]"
proof -
  have "j - i = Suc (j - 1 - i)" and "j - 1 - i < length (drop i xs)"
    and "drop i xs ! (j - 1 - i) = xs ! (j - 1)"
    using assms by simp_all
  then show ?thesis by (metis segment_def take_Suc_conv_app_nth)
qed

lemma segment_append [mem_simps]:
  assumes "i \<le> j" and "j \<le> k" and "k \<le> length xs"
  shows "segment xs i j @ segment xs j k = segment xs i k"
proof -
  have "take (k - i) (drop i xs) = take (j - i) (drop i xs) @ take (k - j) (drop j xs)"
    using take_add [of "j - i" "k - j" "drop i xs"] assms by simp
  then show ?thesis by (simp add: segment_def)
qed

lemma segment_whole [simp]: "segment xs 0 (length xs) = xs"
  by (simp add: segment_def)

subsection \<open>List updates\<close>

lemma take_list_update_snoc [mem_simps]:
  "j < length xs \<Longrightarrow> take (Suc j) (xs[j := v]) = take j xs @ [v]"
  by (simp add: take_Suc_conv_app_nth)

subsection \<open>Low bits of a word\<close>

lemma unat_low_bits:
  "unat ((w :: 32 word) AND (2 ^ k - 1)) = unat w mod 2 ^ k"
proof -
  have "w AND (2 ^ k - 1) = take_bit k w"
    by (simp only: take_bit_eq_mask mask_eq_exp_minus_1)
  then have "unat (w AND (2 ^ k - 1)) = take_bit k (unat w)" by (simp only: unsigned_take_bit_eq)
  then show ?thesis by (simp only: take_bit_eq_mod)
qed

end
