(* ===== verification/CString.thy ===== *)
theory CString
  imports Prelude
begin

text \<open>
  \<open>src/string.c\<close>: a string is a pair of pointers into a buffer it does not own. The
  buffer is part of the record, the two pointers are positions in it, and
  \<open>string_bytes\<close> is the abstract value, the bytes between them.
\<close>

record rbs_string =
  buffer :: "byte list"
  start :: nat
  end_ptr :: nat

definition rbs_string_new :: "byte list \<Rightarrow> nat \<Rightarrow> nat \<Rightarrow> rbs_string" where
  "rbs_string_new b s e = \<lparr>buffer = b, start = s, end_ptr = e\<rparr>"

definition string_bytes :: "rbs_string \<Rightarrow> byte list" where
  "string_bytes s = segment (buffer s) (start s) (end_ptr s)"

text \<open>Both pointers are inside the buffer (or one past its last byte), in order.\<close>

definition wf_string :: "rbs_string \<Rightarrow> bool" where
  "wf_string s \<longleftrightarrow> start s \<le> end_ptr s \<and> end_ptr s \<le> length (buffer s)"

text \<open>\<open>isspace\<close> of the C locale: tab, line feed, vertical tab, form feed, carriage return and space.\<close>

definition c_isspace :: "byte \<Rightarrow> bool" where
  "c_isspace c \<longleftrightarrow> c \<in> {9, 10, 11, 12, 13, 32}"

text \<open>The first loop of \<open>rbs_string_strip_whitespace\<close> moves \<open>new_start\<close> up.\<close>

function skip_space_up :: "rbs_string \<Rightarrow> nat \<Rightarrow> nat" where
  "skip_space_up self new_start =
     (if new_start < end_ptr self \<and> c_isspace (buffer self ! new_start)
      then skip_space_up self (Suc new_start) else new_start)"
  by pat_completeness auto
termination
  by (relation "measure (\<lambda>(self, i). end_ptr self - i)") auto

declare skip_space_up.simps [simp del]

text \<open>The second loop moves \<open>new_end\<close>, the position of the last byte kept, down.\<close>

function skip_space_down :: "rbs_string \<Rightarrow> nat \<Rightarrow> nat \<Rightarrow> nat" where
  "skip_space_down self new_start new_end =
     (if new_start < new_end \<and> c_isspace (buffer self ! new_end)
      then skip_space_down self new_start (new_end - 1) else new_end)"
  by pat_completeness auto
termination
  by (relation "measure (\<lambda>(self, s, e). e)") auto

declare skip_space_down.simps [simp del]

definition rbs_string_strip_whitespace :: "rbs_string \<Rightarrow> rbs_string" where
  "rbs_string_strip_whitespace self =
     (let new_start = skip_space_up self (start self) in
      if new_start = end_ptr self then rbs_string_new (buffer self) new_start new_start
      else
        let new_end = skip_space_down self new_start (end_ptr self - 1)
        in rbs_string_new (buffer self) new_start (new_end + 1))"

definition rbs_string_len :: "rbs_string \<Rightarrow> nat" where
  "rbs_string_len self = end_ptr self - start self"

text \<open>
  Two strings over the same buffer with the same pointers are equal without reading a
  byte; otherwise the lengths and then the bytes are compared (\<open>memcmp\<close>).
\<close>

definition rbs_string_equal :: "rbs_string \<Rightarrow> rbs_string \<Rightarrow> bool" where
  "rbs_string_equal lhs rhs =
     (if buffer lhs = buffer rhs \<and> start lhs = start rhs \<and> end_ptr lhs = end_ptr rhs then True
      else if rbs_string_len lhs \<noteq> rbs_string_len rhs then False
      else string_bytes lhs = string_bytes rhs)"

subsection \<open>Trimming\<close>

text \<open>The specification: drop white space from the front, then from the back.\<close>

definition trim :: "byte list \<Rightarrow> byte list" where
  "trim bs = rev (dropWhile c_isspace (rev (dropWhile c_isspace bs)))"

lemma skip_space_up_props:
  assumes "i \<le> end_ptr s" and "end_ptr s \<le> length (buffer s)"
  shows "i \<le> skip_space_up s i \<and> skip_space_up s i \<le> end_ptr s \<and>
    segment (buffer s) (skip_space_up s i) (end_ptr s) =
      dropWhile c_isspace (segment (buffer s) i (end_ptr s)) \<and>
    (skip_space_up s i < end_ptr s \<longrightarrow> \<not> c_isspace (buffer s ! skip_space_up s i))"
  using assms
proof (induction s i rule: skip_space_up.induct)
  case (1 s i)
  show ?case
  proof (cases "i < end_ptr s")
    case True
    with "1.prems" have "segment (buffer s) i (end_ptr s) =
        buffer s ! i # segment (buffer s) (Suc i) (end_ptr s)"
      by (simp add: segment_Cons)
    with True "1.IH" "1.prems" show ?thesis
      by (cases "c_isspace (buffer s ! i)") (auto simp: skip_space_up.simps [of s i])
  next
    case False
    with "1.prems" have "i = end_ptr s" by simp
    then show ?thesis by (simp add: skip_space_up.simps [of s "end_ptr s"])
  qed
qed

lemma skip_space_down_props:
  assumes "i \<le> e" and "e < length (buffer s)" and "\<not> c_isspace (buffer s ! i)"
  shows "i \<le> skip_space_down s i e \<and> skip_space_down s i e \<le> e \<and>
    segment (buffer s) i (Suc (skip_space_down s i e)) =
      rev (dropWhile c_isspace (rev (segment (buffer s) i (Suc e))))"
  using assms
proof (induction s i e rule: skip_space_down.induct)
  case (1 s i e)
  have snoc: "segment (buffer s) i (Suc e) = segment (buffer s) i e @ [buffer s ! e]"
    using "1.prems" by (simp add: segment_snoc)
  show ?case
  proof (cases "i < e \<and> c_isspace (buffer s ! e)")
    case True
    then have pred: "Suc (e - 1) = e" and step: "skip_space_down s i e = skip_space_down s i (e - 1)"
      by (simp_all add: skip_space_down.simps [of s i e])
    have "i \<le> skip_space_down s i (e - 1) \<and> skip_space_down s i (e - 1) \<le> e - 1 \<and>
      segment (buffer s) i (Suc (skip_space_down s i (e - 1))) =
        rev (dropWhile c_isspace (rev (segment (buffer s) i e)))"
      using "1.IH" [OF True] True "1.prems" unfolding pred by linarith
    with True show ?thesis unfolding step snoc by auto
  next
    case False
    with "1.prems" have "\<not> c_isspace (buffer s ! e)" by (cases "i = e") auto
    with False "1.prems" show ?thesis by (simp add: skip_space_down.simps [of s i e] snoc)
  qed
qed

lemma strip_whitespace_bytes:
  assumes "wf_string s"
  shows "string_bytes (rbs_string_strip_whitespace s) = trim (string_bytes s)"
proof -
  let ?i = "skip_space_up s (start s)"
  from assms have le: "start s \<le> end_ptr s" "end_ptr s \<le> length (buffer s)"
    by (auto simp: wf_string_def)
  note up = skip_space_up_props [OF le]
  show ?thesis
  proof (cases "?i = end_ptr s")
    case True
    with up show ?thesis
      by (simp add: rbs_string_strip_whitespace_def rbs_string_new_def string_bytes_def trim_def Let_def)
  next
    case False
    with up le have "?i \<le> end_ptr s - 1" "end_ptr s - 1 < length (buffer s)"
      "\<not> c_isspace (buffer s ! ?i)" by auto
    note down = skip_space_down_props [OF this]
    from False up have "Suc (end_ptr s - 1) = end_ptr s" by simp
    with False up down show ?thesis
      by (simp add: rbs_string_strip_whitespace_def rbs_string_new_def string_bytes_def trim_def Let_def)
  qed
qed

lemma strip_whitespace_wf:
  assumes "wf_string s"
  shows "wf_string (rbs_string_strip_whitespace s)"
    and "buffer (rbs_string_strip_whitespace s) = buffer s"
    and "start s \<le> start (rbs_string_strip_whitespace s)"
    and "end_ptr (rbs_string_strip_whitespace s) \<le> end_ptr s"
proof -
  let ?i = "skip_space_up s (start s)"
  from assms have le: "start s \<le> end_ptr s" "end_ptr s \<le> length (buffer s)"
    by (auto simp: wf_string_def)
  note up = skip_space_up_props [OF le]
  have down: "?i \<le> skip_space_down s ?i (end_ptr s - 1) \<and>
    skip_space_down s ?i (end_ptr s - 1) \<le> end_ptr s - 1" if "?i \<noteq> end_ptr s"
  proof -
    from that up le have "?i \<le> end_ptr s - 1" "end_ptr s - 1 < length (buffer s)"
      "\<not> c_isspace (buffer s ! ?i)" by auto
    from skip_space_down_props [OF this] show ?thesis by simp
  qed
  show "wf_string (rbs_string_strip_whitespace s)"
    and "buffer (rbs_string_strip_whitespace s) = buffer s"
    and "start s \<le> start (rbs_string_strip_whitespace s)"
    and "end_ptr (rbs_string_strip_whitespace s) \<le> end_ptr s"
    using le up down
    by (auto simp: rbs_string_strip_whitespace_def rbs_string_new_def wf_string_def Let_def)
qed

lemma string_equal_iff:
  assumes "wf_string a" and "wf_string b"
  shows "rbs_string_equal a b \<longleftrightarrow> string_bytes a = string_bytes b"
proof -
  have "rbs_string_len a = length (string_bytes a)" and "rbs_string_len b = length (string_bytes b)"
    using assms by (auto simp: rbs_string_len_def string_bytes_def wf_string_def length_segment)
  then show ?thesis
    by (auto simp: rbs_string_equal_def string_bytes_def)
qed

text \<open>
  C35. \<open>rbs_string_strip_whitespace\<close> gives a view into the same buffer, inside the view it was
  given, of the bytes without the white space at their two ends (of none for a string of white
  space only).
\<close>

theorem strip_whitespace_correct:
  assumes "wf_string s"
  shows "string_bytes (rbs_string_strip_whitespace s) = trim (string_bytes s) \<and>
    wf_string (rbs_string_strip_whitespace s) \<and> buffer (rbs_string_strip_whitespace s) = buffer s \<and>
    start s \<le> start (rbs_string_strip_whitespace s) \<and> end_ptr (rbs_string_strip_whitespace s) \<le> end_ptr s"
  using strip_whitespace_bytes [OF assms] strip_whitespace_wf [OF assms] by blast

theorem strip_whitespace_correct_witness:
  "string_bytes (rbs_string_strip_whitespace \<lparr>buffer = [32, 97, 32, 98, 9], start = 0, end_ptr = 5\<rparr>) = [97, 32, 98]"
proof -
  let ?s = "\<lparr>buffer = [32, 97, 32, 98, 9], start = 0, end_ptr = 5\<rparr> :: rbs_string"
  have "wf_string ?s" by (simp add: wf_string_def)
  moreover have "trim (string_bytes ?s) = [97, 32, 98]"
    by (simp add: string_bytes_def segment_def trim_def c_isspace_def)
  ultimately show ?thesis using strip_whitespace_correct [of ?s] by metis
qed

end
