(* ===== verification/Encoding.thy ===== *)
theory Encoding
  imports Prelude
begin

unbundle bit_operations_syntax

text \<open>
  \<open>src/util/rbs_encoding.c\<close>: how many bytes the next character takes in each encoding.
  A \<open>char_width\<close> function is given the bytes that can be read (its \<open>b\<close> and \<open>n\<close> are one
  list) and answers 0 when no character can be decoded. The lexer reads the source
  through this interface only, so the locale \<open>char_encoding\<close> states what it needs of an
  encoding, and the encodings of the table are interpretations of it. The UTF-8 decoder
  is a table-driven automaton; it is proved equal to the well-formed byte sequences of
  the Unicode standard. The classification callbacks (alpha, alnum, isupper) have no
  caller in the library and are left out with their code point tables.
\<close>

subsection \<open>The encoding record\<close>

text \<open>
  \<open>rbs_encoding_t\<close> without the classification callbacks. The addresses of the table's
  entries are compared by the code (\<open>encoding == RBS_ENCODING_UTF_8_ENTRY\<close>); entries have
  distinct names, so the name stands for the address.
\<close>

record rbs_encoding =
  enc_name :: string
  char_width :: "byte list \<Rightarrow> nat"
  multibyte :: bool

subsection \<open>UTF-8\<close>

definition rbs_utf_8_types :: "nat list" where
  "rbs_utf_8_types =
    [0, 0, 0, 0, 0, 0, 0, 0, 0, 0, 0, 0, 0, 0, 0, 0, 0, 0, 0, 0, 0, 0, 0, 0, 0, 0, 0, 0, 0, 0, 0, 0,
     0, 0, 0, 0, 0, 0, 0, 0, 0, 0, 0, 0, 0, 0, 0, 0, 0, 0, 0, 0, 0, 0, 0, 0, 0, 0, 0, 0, 0, 0, 0, 0,
     0, 0, 0, 0, 0, 0, 0, 0, 0, 0, 0, 0, 0, 0, 0, 0, 0, 0, 0, 0, 0, 0, 0, 0, 0, 0, 0, 0, 0, 0, 0, 0,
     0, 0, 0, 0, 0, 0, 0, 0, 0, 0, 0, 0, 0, 0, 0, 0, 0, 0, 0, 0, 0, 0, 0, 0, 0, 0, 0, 0, 0, 0, 0, 0,
     1, 1, 1, 1, 1, 1, 1, 1, 1, 1, 1, 1, 1, 1, 1, 1, 9, 9, 9, 9, 9, 9, 9, 9, 9, 9, 9, 9, 9, 9, 9, 9,
     7, 7, 7, 7, 7, 7, 7, 7, 7, 7, 7, 7, 7, 7, 7, 7, 7, 7, 7, 7, 7, 7, 7, 7, 7, 7, 7, 7, 7, 7, 7, 7,
     8, 8, 2, 2, 2, 2, 2, 2, 2, 2, 2, 2, 2, 2, 2, 2, 2, 2, 2, 2, 2, 2, 2, 2, 2, 2, 2, 2, 2, 2, 2, 2,
     10, 3, 3, 3, 3, 3, 3, 3, 3, 3, 3, 3, 3, 4, 3, 3, 11, 6, 6, 6, 5, 8, 8, 8, 8, 8, 8, 8, 8, 8, 8, 8]"

definition rbs_utf_8_transitions :: "nat list" where
  "rbs_utf_8_transitions =
    [0, 1, 2, 3, 5, 8, 7, 1, 1, 1, 4, 6, 1, 1, 1, 1,
     1, 1, 1, 1, 1, 1, 1, 1, 1, 1, 1, 1, 1, 1, 1, 1,
     1, 0, 1, 1, 1, 1, 1, 0, 1, 0, 1, 1, 1, 1, 1, 1,
     1, 2, 1, 1, 1, 1, 1, 2, 1, 2, 1, 1, 1, 1, 1, 1,
     1, 1, 1, 1, 1, 1, 1, 2, 1, 1, 1, 1, 1, 1, 1, 1,
     1, 2, 1, 1, 1, 1, 1, 1, 1, 2, 1, 1, 1, 1, 1, 1,
     1, 1, 1, 1, 1, 1, 1, 3, 1, 3, 1, 1, 1, 1, 1, 1,
     1, 3, 1, 1, 1, 1, 1, 3, 1, 3, 1, 1, 1, 1, 1, 1,
     1, 3, 1, 1, 1, 1, 1, 1, 1, 1, 1, 1, 1, 1, 1, 1]"

definition rbs_utf_8_dfa :: "nat list" where
  "rbs_utf_8_dfa = rbs_utf_8_types @ rbs_utf_8_transitions"

text \<open>
  The loop of \<open>rbs_encoding_utf_8_char_width\<close>: \<open>index\<close> counts to \<open>maximum\<close>, \<open>state\<close> is the
  automaton's state, and state 0 accepts.
\<close>

function utf_8_width_loop :: "byte list \<Rightarrow> nat \<Rightarrow> nat \<Rightarrow> nat \<Rightarrow> nat" where
  "utf_8_width_loop b maximum index state =
     (if index < maximum then
        let state' = rbs_utf_8_dfa ! (256 + state * 16 + rbs_utf_8_dfa ! unat (b ! index)) in
        if state' = 0 then index + 1 else utf_8_width_loop b maximum (index + 1) state'
      else 0)"
  by pat_completeness auto
termination
  by (relation "measure (\<lambda>(b, m, i, s). m - i)") auto

declare utf_8_width_loop.simps [simp del]

definition rbs_encoding_utf_8_char_width :: "byte list \<Rightarrow> nat" where
  "rbs_encoding_utf_8_char_width b =
     (let n = length b; maximum = (if n > 4 then 4 else n) in utf_8_width_loop b maximum 0 0)"

text \<open>
  \<open>rbs_utf_8_codepoint\<close> decodes with the same automaton; the result is the code point and
  the width (0, 0 when the bytes are not a character).
\<close>

function utf_8_codepoint_loop :: "byte list \<Rightarrow> nat \<Rightarrow> nat \<Rightarrow> nat \<Rightarrow> 32 word \<Rightarrow> 32 word \<times> nat" where
  "utf_8_codepoint_loop b maximum index state codepoint =
     (if index < maximum then
        let byte = ucast (b ! index) :: 32 word;
            type = rbs_utf_8_dfa ! unat (b ! index);
            codepoint' = (if state \<noteq> 0 then (byte AND 0x3F) OR push_bit 6 codepoint
                          else drop_bit type 0xFF AND byte);
            state' = rbs_utf_8_dfa ! (256 + state * 16 + type)
        in if state' = 0 then (codepoint', index + 1)
           else utf_8_codepoint_loop b maximum (index + 1) state' codepoint'
      else (0, 0))"
  by pat_completeness auto
termination
  by (relation "measure (\<lambda>(b, m, i, s, c). m - i)") auto

declare utf_8_codepoint_loop.simps [simp del]

text \<open>The variable \<open>codepoint\<close> starts uninitialised; state 0 never reads it.\<close>

definition rbs_utf_8_codepoint :: "byte list \<Rightarrow> 32 word \<times> nat" where
  "rbs_utf_8_codepoint b =
     (let n = length b; maximum = (if n > 4 then 4 else n) in utf_8_codepoint_loop b maximum 0 0 0)"

text \<open>
  The byte sequences of the Unicode standard (Table 3-7): the width of the well-formed
  character at the front, or 0.
\<close>

definition in_range :: "nat \<Rightarrow> nat \<Rightarrow> byte \<Rightarrow> bool" where
  "in_range lo hi b \<longleftrightarrow> lo \<le> unat b \<and> unat b \<le> hi"

text \<open>What a second byte may be, after each lead byte, and how many bytes follow it.\<close>

definition utf_8_lead :: "byte \<Rightarrow> (nat \<times> nat \<times> nat) option" where
  "utf_8_lead b =
     (if in_range 0xC2 0xDF b then Some (0x80, 0xBF, 0)
      else if in_range 0xE0 0xE0 b then Some (0xA0, 0xBF, 1)
      else if in_range 0xE1 0xEC b then Some (0x80, 0xBF, 1)
      else if in_range 0xED 0xED b then Some (0x80, 0x9F, 1)
      else if in_range 0xEE 0xEF b then Some (0x80, 0xBF, 1)
      else if in_range 0xF0 0xF0 b then Some (0x90, 0xBF, 2)
      else if in_range 0xF1 0xF3 b then Some (0x80, 0xBF, 2)
      else if in_range 0xF4 0xF4 b then Some (0x80, 0x8F, 2)
      else None)"

definition utf_8_well_formed_width :: "byte list \<Rightarrow> nat" where
  "utf_8_well_formed_width b =
     (case b of [] \<Rightarrow> 0
      | b0 # r \<Rightarrow>
          if unat b0 \<le> 0x7F then 1
          else (case utf_8_lead b0 of None \<Rightarrow> 0
            | Some (lo, hi, k) \<Rightarrow>
                (case r of [] \<Rightarrow> 0
                 | b1 # r' \<Rightarrow>
                     if in_range lo hi b1 \<and> k \<le> length r' \<and>
                        (\<forall>c\<in>set (take k r'). in_range 0x80 0xBF c)
                     then k + 2 else 0)))"

subsection \<open>The other encodings\<close>

text \<open>Each width function reads \<open>b[0]\<close> first: it is assumed that one byte can be read.\<close>

definition rbs_encoding_ascii_char_width :: "byte list \<Rightarrow> nat" where
  "rbs_encoding_ascii_char_width b = (if b ! 0 < 0x80 then 1 else 0)"

definition rbs_encoding_single_char_width :: "byte list \<Rightarrow> nat" where
  "rbs_encoding_single_char_width b = 1"

definition rbs_encoding_euc_jp_char_width :: "byte list \<Rightarrow> nat" where
  "rbs_encoding_euc_jp_char_width b =
     (let n = length b in
      if b ! 0 < 0x80 then 1
      else if n > 1 \<and> (b ! 0 = 0x8E \<or> b ! 0 \<ge> 0xA1 \<and> b ! 0 \<le> 0xFE) \<and> (b ! 1 \<ge> 0xA1 \<and> b ! 1 \<le> 0xFE) then 2
      else if n > 2 \<and> b ! 0 = 0x8F \<and> (b ! 1 \<ge> 0xA1 \<and> b ! 2 \<le> 0xFE) \<and> (b ! 2 \<ge> 0xA1 \<and> b ! 2 \<le> 0xFE) then 3
      else 0)"

definition rbs_encoding_shift_jis_char_width :: "byte list \<Rightarrow> nat" where
  "rbs_encoding_shift_jis_char_width b =
     (let n = length b in
      if b ! 0 < 0x80 \<or> b ! 0 \<ge> 0xA1 \<and> b ! 0 \<le> 0xDF then 1
      else if n > 1 \<and> (b ! 0 \<ge> 0x81 \<and> b ! 0 \<le> 0x9F \<or> b ! 0 \<ge> 0xE0 \<and> b ! 0 \<le> 0xFC) \<and>
              (b ! 1 \<ge> 0x40 \<and> b ! 1 \<le> 0xFC \<and> b ! 1 \<noteq> 0x7F) then 2
      else 0)"

definition rbs_encoding_big5_char_width :: "byte list \<Rightarrow> nat" where
  "rbs_encoding_big5_char_width b =
     (let n = length b in
      if b ! 0 < 0x80 then 1
      else if n > 1 \<and> (b ! 0 \<ge> 0xA1 \<and> b ! 0 \<le> 0xFE) \<and>
              (b ! 1 \<ge> 0x40 \<and> b ! 1 \<le> 0x7E \<or> b ! 1 \<ge> 0xA1 \<and> b ! 1 \<le> 0xFE) then 2
      else 0)"

definition rbs_encoding_cp949_char_width :: "byte list \<Rightarrow> nat" where
  "rbs_encoding_cp949_char_width b =
     (let n = length b in
      if b ! 0 \<le> 0x80 then 1
      else if n > 1 \<and> (b ! 0 \<ge> 0x81 \<and> b ! 0 \<le> 0xFE) \<and>
              (b ! 1 \<ge> 0x41 \<and> b ! 1 \<le> 0x5A \<or> b ! 1 \<ge> 0x61 \<and> b ! 1 \<le> 0x7A \<or> b ! 1 \<ge> 0x81 \<and> b ! 1 \<le> 0xFE) then 2
      else 0)"

definition rbs_encoding_emacs_mule_char_width :: "byte list \<Rightarrow> nat" where
  "rbs_encoding_emacs_mule_char_width b =
     (let n = length b in
      if b ! 0 < 0x80 then 1
      else if n > 1 \<and> (b ! 0 \<ge> 0x81 \<and> b ! 0 \<le> 0x8F) \<and> b ! 1 \<ge> 0xA0 then 2
      else if n > 2 \<and>
              ((b ! 0 \<ge> 0x90 \<and> b ! 0 \<le> 0x99) \<and> b ! 1 \<ge> 0xA0 \<or>
               (b ! 0 = 0x9A \<or> b ! 0 = 0x9B) \<and> (b ! 1 \<ge> 0xE0 \<and> b ! 1 \<le> 0xEF)) \<and>
              b ! 2 \<ge> 0xA0 then 3
      else if n > 3 \<and>
              (b ! 0 = 0x9C \<and> b ! 1 \<ge> 0xF0 \<and> b ! 1 \<le> 0xF4 \<or>
               b ! 0 = 0x9D \<and> b ! 1 \<ge> 0xF5 \<and> b ! 1 \<le> 0xFE) \<and>
              b ! 2 \<ge> 0xA0 \<and> b ! 3 \<ge> 0xA0 then 4
      else 0)"

definition rbs_encoding_euc_kr_char_width :: "byte list \<Rightarrow> nat" where
  "rbs_encoding_euc_kr_char_width b =
     (let n = length b in
      if b ! 0 < 0x80 then 1
      else if n > 1 \<and> (b ! 0 \<ge> 0xA1 \<and> b ! 0 \<le> 0xFE) \<and> (b ! 1 \<ge> 0xA1 \<and> b ! 1 \<le> 0xFE) then 2
      else 0)"

definition rbs_encoding_euc_tw_char_width :: "byte list \<Rightarrow> nat" where
  "rbs_encoding_euc_tw_char_width b =
     (let n = length b in
      if b ! 0 < 0x80 then 1
      else if n > 1 \<and> b ! 0 \<ge> 0xA1 \<and> b ! 0 \<le> 0xFE \<and> b ! 1 \<ge> 0xA1 \<and> b ! 1 \<le> 0xFE then 2
      else if n > 3 \<and> b ! 0 = 0x8E \<and> b ! 1 \<ge> 0xA1 \<and> b ! 1 \<le> 0xB0 \<and> b ! 2 \<ge> 0xA1 \<and> b ! 2 \<le> 0xFE \<and>
              b ! 3 \<ge> 0xA1 \<and> b ! 3 \<le> 0xFE then 4
      else 0)"

definition rbs_encoding_gb18030_char_width :: "byte list \<Rightarrow> nat" where
  "rbs_encoding_gb18030_char_width b =
     (let n = length b in
      if b ! 0 < 0x80 then 1
      else if n > 1 \<and> (b ! 0 \<ge> 0x81 \<and> b ! 0 \<le> 0xFE) \<and> (b ! 1 \<ge> 0x40 \<and> b ! 1 \<le> 0xFE \<and> b ! 1 \<noteq> 0x7F) then 2
      else if n > 3 \<and> (b ! 0 \<ge> 0x81 \<and> b ! 0 \<le> 0xFE) \<and> (b ! 1 \<ge> 0x30 \<and> b ! 1 \<le> 0x39) \<and>
              (b ! 2 \<ge> 0x81 \<and> b ! 2 \<le> 0xFE) \<and> (b ! 3 \<ge> 0x30 \<and> b ! 3 \<le> 0x39) then 4
      else 0)"

definition rbs_encoding_gbk_char_width :: "byte list \<Rightarrow> nat" where
  "rbs_encoding_gbk_char_width b =
     (let n = length b in
      if b ! 0 \<le> 0x80 then 1
      else if n > 1 \<and>
              ((b ! 0 \<ge> 0xA1 \<and> b ! 0 \<le> 0xA9) \<and> (b ! 1 \<ge> 0xA1 \<and> b ! 1 \<le> 0xFE) \<or>
               (b ! 0 \<ge> 0xB0 \<and> b ! 0 \<le> 0xF7) \<and> (b ! 1 \<ge> 0xA1 \<and> b ! 1 \<le> 0xFE) \<or>
               (b ! 0 \<ge> 0x81 \<and> b ! 0 \<le> 0xA0) \<and> (b ! 1 \<ge> 0x40 \<and> b ! 1 \<le> 0xFE) \<and> b ! 1 \<noteq> 0x7F \<or>
               (b ! 0 \<ge> 0xAA \<and> b ! 0 \<le> 0xFE) \<and> (b ! 1 \<ge> 0x40 \<and> b ! 1 \<le> 0xA0) \<and> b ! 1 \<noteq> 0x7F \<or>
               (b ! 0 \<ge> 0xA8 \<and> b ! 0 \<le> 0xA9) \<and> (b ! 1 \<ge> 0x40 \<and> b ! 1 \<le> 0xA0) \<and> b ! 1 \<noteq> 0x7F \<or>
               (b ! 0 \<ge> 0xAA \<and> b ! 0 \<le> 0xAF) \<and> (b ! 1 \<ge> 0xA1 \<and> b ! 1 \<le> 0xFE) \<or>
               (b ! 0 \<ge> 0xF8 \<and> b ! 0 \<le> 0xFE) \<and> (b ! 1 \<ge> 0xA1 \<and> b ! 1 \<le> 0xFE) \<or>
               (b ! 0 \<ge> 0xA1 \<and> b ! 0 \<le> 0xA7) \<and> (b ! 1 \<ge> 0x40 \<and> b ! 1 \<le> 0xA0) \<and> b ! 1 \<noteq> 0x7F) then 2
      else 0)"

text \<open>CESU-8: the width is the second result of \<open>rbs_cesu_8_codepoint\<close>.\<close>

definition rbs_cesu_8_codepoint :: "byte list \<Rightarrow> 32 word \<times> nat" where
  "rbs_cesu_8_codepoint b =
     (let n = length b; c = (\<lambda>i. ucast (b ! i) :: 32 word) in
      if b ! 0 < 0x80 then (c 0, 1)
      else if n > 1 \<and> b ! 0 \<ge> 0xC2 \<and> b ! 0 \<le> 0xDF \<and> b ! 1 \<ge> 0x80 \<and> b ! 1 \<le> 0xBF then
        (push_bit 6 (c 0 AND 0x1F) OR (c 1 AND 0x3F), 2)
      else if n > 5 \<and> b ! 0 = 0xED \<and> b ! 1 \<ge> 0xA0 \<and> b ! 1 \<le> 0xAF \<and> b ! 2 \<ge> 0x80 \<and> b ! 2 \<le> 0xBF \<and>
              b ! 3 = 0xED \<and> b ! 4 \<ge> 0xB0 \<and> b ! 4 \<le> 0xBF \<and> b ! 5 \<ge> 0x80 \<and> b ! 5 \<le> 0xBF then
        (0x10000 + (push_bit 16 (c 1 AND 0xF) OR push_bit 10 (c 2 AND 0x3F) OR push_bit 6 (c 4 AND 0xF) OR (c 5 AND 0x3F)), 6)
      else if n > 2 \<and> b ! 0 = 0xED \<and> b ! 1 \<ge> 0xA0 \<and> b ! 1 \<le> 0xBF then
        (0x10000 + (push_bit 16 (c 0 AND 0x03) OR push_bit 10 (c 1 AND 0x3F) OR (c 2 AND 0x3F)), 3)
      else if n > 2 \<and> (b ! 0 = 0xE0 \<and> b ! 1 \<ge> 0xA0 \<or> b ! 0 \<ge> 0xE1 \<and> b ! 0 \<le> 0xEF \<and> b ! 1 \<ge> 0x80) \<and>
              b ! 1 \<le> 0xBF \<and> b ! 2 \<ge> 0x80 \<and> b ! 2 \<le> 0xBF then
        (push_bit 12 (c 0 AND 0xF) OR push_bit 6 (c 1 AND 0x3F) OR (c 2 AND 0x3F), 3)
      else (0, 0))"

definition rbs_encoding_cesu_8_char_width :: "byte list \<Rightarrow> nat" where
  "rbs_encoding_cesu_8_char_width b = snd (rbs_cesu_8_codepoint b)"

subsection \<open>The table of encodings\<close>

definition rbs_encodings :: "rbs_encoding list" where
  "rbs_encodings =
    [\<lparr>enc_name = ''UTF-8'', char_width = rbs_encoding_utf_8_char_width, multibyte = True\<rparr>,
     \<lparr>enc_name = ''US-ASCII'', char_width = rbs_encoding_ascii_char_width, multibyte = False\<rparr>,
     \<lparr>enc_name = ''ASCII-8BIT'', char_width = rbs_encoding_single_char_width, multibyte = False\<rparr>,
     \<lparr>enc_name = ''EUC-JP'', char_width = rbs_encoding_euc_jp_char_width, multibyte = True\<rparr>,
     \<lparr>enc_name = ''Windows-31J'', char_width = rbs_encoding_shift_jis_char_width, multibyte = True\<rparr>,
     \<lparr>enc_name = ''Big5'', char_width = rbs_encoding_big5_char_width, multibyte = True\<rparr>,
     \<lparr>enc_name = ''Big5-HKSCS'', char_width = rbs_encoding_big5_char_width, multibyte = True\<rparr>,
     \<lparr>enc_name = ''Big5-UAO'', char_width = rbs_encoding_big5_char_width, multibyte = True\<rparr>,
     \<lparr>enc_name = ''CESU-8'', char_width = rbs_encoding_cesu_8_char_width, multibyte = True\<rparr>,
     \<lparr>enc_name = ''CP51932'', char_width = rbs_encoding_euc_jp_char_width, multibyte = True\<rparr>,
     \<lparr>enc_name = ''CP850'', char_width = rbs_encoding_single_char_width, multibyte = False\<rparr>,
     \<lparr>enc_name = ''CP852'', char_width = rbs_encoding_single_char_width, multibyte = False\<rparr>,
     \<lparr>enc_name = ''CP855'', char_width = rbs_encoding_single_char_width, multibyte = False\<rparr>,
     \<lparr>enc_name = ''CP949'', char_width = rbs_encoding_cp949_char_width, multibyte = True\<rparr>,
     \<lparr>enc_name = ''CP950'', char_width = rbs_encoding_big5_char_width, multibyte = True\<rparr>,
     \<lparr>enc_name = ''CP951'', char_width = rbs_encoding_big5_char_width, multibyte = True\<rparr>,
     \<lparr>enc_name = ''Emacs-Mule'', char_width = rbs_encoding_emacs_mule_char_width, multibyte = True\<rparr>,
     \<lparr>enc_name = ''eucJP-ms'', char_width = rbs_encoding_euc_jp_char_width, multibyte = True\<rparr>,
     \<lparr>enc_name = ''EUC-JIS-2004'', char_width = rbs_encoding_euc_jp_char_width, multibyte = True\<rparr>,
     \<lparr>enc_name = ''EUC-KR'', char_width = rbs_encoding_euc_kr_char_width, multibyte = True\<rparr>,
     \<lparr>enc_name = ''EUC-TW'', char_width = rbs_encoding_euc_tw_char_width, multibyte = True\<rparr>,
     \<lparr>enc_name = ''GB12345'', char_width = rbs_encoding_euc_kr_char_width, multibyte = True\<rparr>,
     \<lparr>enc_name = ''GB18030'', char_width = rbs_encoding_gb18030_char_width, multibyte = True\<rparr>,
     \<lparr>enc_name = ''GB1988'', char_width = rbs_encoding_single_char_width, multibyte = False\<rparr>,
     \<lparr>enc_name = ''GB2312'', char_width = rbs_encoding_euc_kr_char_width, multibyte = True\<rparr>,
     \<lparr>enc_name = ''GBK'', char_width = rbs_encoding_gbk_char_width, multibyte = True\<rparr>,
     \<lparr>enc_name = ''IBM437'', char_width = rbs_encoding_single_char_width, multibyte = False\<rparr>,
     \<lparr>enc_name = ''IBM720'', char_width = rbs_encoding_single_char_width, multibyte = False\<rparr>,
     \<lparr>enc_name = ''IBM737'', char_width = rbs_encoding_single_char_width, multibyte = False\<rparr>,
     \<lparr>enc_name = ''IBM775'', char_width = rbs_encoding_single_char_width, multibyte = False\<rparr>,
     \<lparr>enc_name = ''IBM852'', char_width = rbs_encoding_single_char_width, multibyte = False\<rparr>,
     \<lparr>enc_name = ''IBM855'', char_width = rbs_encoding_single_char_width, multibyte = False\<rparr>,
     \<lparr>enc_name = ''IBM857'', char_width = rbs_encoding_single_char_width, multibyte = False\<rparr>,
     \<lparr>enc_name = ''IBM860'', char_width = rbs_encoding_single_char_width, multibyte = False\<rparr>,
     \<lparr>enc_name = ''IBM861'', char_width = rbs_encoding_single_char_width, multibyte = False\<rparr>,
     \<lparr>enc_name = ''IBM862'', char_width = rbs_encoding_single_char_width, multibyte = False\<rparr>,
     \<lparr>enc_name = ''IBM863'', char_width = rbs_encoding_single_char_width, multibyte = False\<rparr>,
     \<lparr>enc_name = ''IBM864'', char_width = rbs_encoding_single_char_width, multibyte = False\<rparr>,
     \<lparr>enc_name = ''IBM865'', char_width = rbs_encoding_single_char_width, multibyte = False\<rparr>,
     \<lparr>enc_name = ''IBM866'', char_width = rbs_encoding_single_char_width, multibyte = False\<rparr>,
     \<lparr>enc_name = ''IBM869'', char_width = rbs_encoding_single_char_width, multibyte = False\<rparr>,
     \<lparr>enc_name = ''ISO-8859-1'', char_width = rbs_encoding_single_char_width, multibyte = False\<rparr>,
     \<lparr>enc_name = ''ISO-8859-2'', char_width = rbs_encoding_single_char_width, multibyte = False\<rparr>,
     \<lparr>enc_name = ''ISO-8859-3'', char_width = rbs_encoding_single_char_width, multibyte = False\<rparr>,
     \<lparr>enc_name = ''ISO-8859-4'', char_width = rbs_encoding_single_char_width, multibyte = False\<rparr>,
     \<lparr>enc_name = ''ISO-8859-5'', char_width = rbs_encoding_single_char_width, multibyte = False\<rparr>,
     \<lparr>enc_name = ''ISO-8859-6'', char_width = rbs_encoding_single_char_width, multibyte = False\<rparr>,
     \<lparr>enc_name = ''ISO-8859-7'', char_width = rbs_encoding_single_char_width, multibyte = False\<rparr>,
     \<lparr>enc_name = ''ISO-8859-8'', char_width = rbs_encoding_single_char_width, multibyte = False\<rparr>,
     \<lparr>enc_name = ''ISO-8859-9'', char_width = rbs_encoding_single_char_width, multibyte = False\<rparr>,
     \<lparr>enc_name = ''ISO-8859-10'', char_width = rbs_encoding_single_char_width, multibyte = False\<rparr>,
     \<lparr>enc_name = ''ISO-8859-11'', char_width = rbs_encoding_single_char_width, multibyte = False\<rparr>,
     \<lparr>enc_name = ''ISO-8859-13'', char_width = rbs_encoding_single_char_width, multibyte = False\<rparr>,
     \<lparr>enc_name = ''ISO-8859-14'', char_width = rbs_encoding_single_char_width, multibyte = False\<rparr>,
     \<lparr>enc_name = ''ISO-8859-15'', char_width = rbs_encoding_single_char_width, multibyte = False\<rparr>,
     \<lparr>enc_name = ''ISO-8859-16'', char_width = rbs_encoding_single_char_width, multibyte = False\<rparr>,
     \<lparr>enc_name = ''KOI8-R'', char_width = rbs_encoding_single_char_width, multibyte = False\<rparr>,
     \<lparr>enc_name = ''KOI8-U'', char_width = rbs_encoding_single_char_width, multibyte = False\<rparr>,
     \<lparr>enc_name = ''macCentEuro'', char_width = rbs_encoding_single_char_width, multibyte = False\<rparr>,
     \<lparr>enc_name = ''macCroatian'', char_width = rbs_encoding_single_char_width, multibyte = False\<rparr>,
     \<lparr>enc_name = ''macCyrillic'', char_width = rbs_encoding_single_char_width, multibyte = False\<rparr>,
     \<lparr>enc_name = ''macGreek'', char_width = rbs_encoding_single_char_width, multibyte = False\<rparr>,
     \<lparr>enc_name = ''macIceland'', char_width = rbs_encoding_single_char_width, multibyte = False\<rparr>,
     \<lparr>enc_name = ''MacJapanese'', char_width = rbs_encoding_shift_jis_char_width, multibyte = True\<rparr>,
     \<lparr>enc_name = ''macRoman'', char_width = rbs_encoding_single_char_width, multibyte = False\<rparr>,
     \<lparr>enc_name = ''macRomania'', char_width = rbs_encoding_single_char_width, multibyte = False\<rparr>,
     \<lparr>enc_name = ''macThai'', char_width = rbs_encoding_single_char_width, multibyte = False\<rparr>,
     \<lparr>enc_name = ''macTurkish'', char_width = rbs_encoding_single_char_width, multibyte = False\<rparr>,
     \<lparr>enc_name = ''macUkraine'', char_width = rbs_encoding_single_char_width, multibyte = False\<rparr>,
     \<lparr>enc_name = ''Shift_JIS'', char_width = rbs_encoding_shift_jis_char_width, multibyte = True\<rparr>,
     \<lparr>enc_name = ''SJIS-DoCoMo'', char_width = rbs_encoding_shift_jis_char_width, multibyte = True\<rparr>,
     \<lparr>enc_name = ''SJIS-KDDI'', char_width = rbs_encoding_shift_jis_char_width, multibyte = True\<rparr>,
     \<lparr>enc_name = ''SJIS-SoftBank'', char_width = rbs_encoding_shift_jis_char_width, multibyte = True\<rparr>,
     \<lparr>enc_name = ''stateless-ISO-2022-JP'', char_width = rbs_encoding_emacs_mule_char_width, multibyte = True\<rparr>,
     \<lparr>enc_name = ''stateless-ISO-2022-JP-KDDI'', char_width = rbs_encoding_emacs_mule_char_width, multibyte = True\<rparr>,
     \<lparr>enc_name = ''TIS-620'', char_width = rbs_encoding_single_char_width, multibyte = False\<rparr>,
     \<lparr>enc_name = ''UTF8-MAC'', char_width = rbs_encoding_utf_8_char_width, multibyte = True\<rparr>,
     \<lparr>enc_name = ''UTF8-DoCoMo'', char_width = rbs_encoding_utf_8_char_width, multibyte = True\<rparr>,
     \<lparr>enc_name = ''UTF8-KDDI'', char_width = rbs_encoding_utf_8_char_width, multibyte = True\<rparr>,
     \<lparr>enc_name = ''UTF8-SoftBank'', char_width = rbs_encoding_utf_8_char_width, multibyte = True\<rparr>,
     \<lparr>enc_name = ''Windows-1250'', char_width = rbs_encoding_single_char_width, multibyte = False\<rparr>,
     \<lparr>enc_name = ''Windows-1251'', char_width = rbs_encoding_single_char_width, multibyte = False\<rparr>,
     \<lparr>enc_name = ''Windows-1252'', char_width = rbs_encoding_single_char_width, multibyte = False\<rparr>,
     \<lparr>enc_name = ''Windows-1253'', char_width = rbs_encoding_single_char_width, multibyte = False\<rparr>,
     \<lparr>enc_name = ''Windows-1254'', char_width = rbs_encoding_single_char_width, multibyte = False\<rparr>,
     \<lparr>enc_name = ''Windows-1255'', char_width = rbs_encoding_single_char_width, multibyte = False\<rparr>,
     \<lparr>enc_name = ''Windows-1256'', char_width = rbs_encoding_single_char_width, multibyte = False\<rparr>,
     \<lparr>enc_name = ''Windows-1257'', char_width = rbs_encoding_single_char_width, multibyte = False\<rparr>,
     \<lparr>enc_name = ''Windows-1258'', char_width = rbs_encoding_single_char_width, multibyte = False\<rparr>,
     \<lparr>enc_name = ''Windows-874'', char_width = rbs_encoding_single_char_width, multibyte = False\<rparr>]"

text \<open>\<open>&rbs_encodings[i]\<close>, the index given by the name of the entry.\<close>

definition encoding_entry :: "string \<Rightarrow> rbs_encoding option" where
  "encoding_entry name = List.find (\<lambda>e. enc_name e = name) rbs_encodings"

subsection \<open>Finding an encoding by its name\<close>

text \<open>\<open>tolower\<close> of the C locale, on an unsigned byte.\<close>

definition c_tolower :: "byte \<Rightarrow> int" where
  "c_tolower c = (if 65 \<le> c \<and> c \<le> 90 then uint c + 32 else uint c)"

text \<open>
  \<open>rbs_strncasecmp\<close>: the third argument counts the bytes still to compare; the strings are at
  least that long at every call, or end in a NUL byte.
\<close>

fun rbs_strncasecmp :: "byte list \<Rightarrow> byte list \<Rightarrow> nat \<Rightarrow> int" where
  "rbs_strncasecmp (a # s1) (b # s2) (Suc n) =
     (if a = 0 then 0
      else if b = 0 then uint a
      else let difference = c_tolower a - c_tolower b in
        if difference \<noteq> 0 then difference else rbs_strncasecmp s1 s2 n)"
| "rbs_strncasecmp _ _ _ = 0"

text \<open>The names tried for each first letter of the name, in order, with the entry each stands for.\<close>

definition encoding_names :: "byte \<Rightarrow> (string \<times> string) list" where
  "encoding_names c =
    (if c = of_char (CHR ''A'') \<or> c = of_char (CHR ''a'') then
       [(''ASCII'', ''US-ASCII''),
        (''ASCII-8BIT'', ''ASCII-8BIT''),
        (''ANSI_X3.4-1968'', ''US-ASCII'')]
     else if c = of_char (CHR ''B'') \<or> c = of_char (CHR ''b'') then
       [(''BINARY'', ''ASCII-8BIT''),
        (''Big5'', ''Big5''),
        (''Big5-HKSCS'', ''Big5-HKSCS''),
        (''Big5-HKSCS:2008'', ''Big5-HKSCS''),
        (''Big5-UAO'', ''Big5-UAO'')]
     else if c = of_char (CHR ''C'') \<or> c = of_char (CHR ''c'') then
       [(''CP65001'', ''UTF-8''),
        (''CP932'', ''Windows-31J''),
        (''csWindows31J'', ''Windows-31J''),
        (''CESU-8'', ''CESU-8''),
        (''CP437'', ''IBM437''),
        (''CP720'', ''IBM720''),
        (''CP737'', ''IBM737''),
        (''CP775'', ''IBM775''),
        (''CP850'', ''CP850''),
        (''CP852'', ''CP852''),
        (''CP855'', ''CP855''),
        (''CP857'', ''IBM857''),
        (''CP860'', ''IBM860''),
        (''CP861'', ''IBM861''),
        (''CP862'', ''IBM862''),
        (''CP864'', ''IBM864''),
        (''CP865'', ''IBM865''),
        (''CP866'', ''IBM866''),
        (''CP869'', ''IBM869''),
        (''CP874'', ''Windows-874''),
        (''CP878'', ''KOI8-R''),
        (''CP863'', ''IBM863''),
        (''CP936'', ''GBK''),
        (''CP949'', ''CP949''),
        (''CP950'', ''CP950''),
        (''CP951'', ''CP951''),
        (''CP1250'', ''Windows-1250''),
        (''CP1251'', ''Windows-1251''),
        (''CP1252'', ''Windows-1252''),
        (''CP1253'', ''Windows-1253''),
        (''CP1254'', ''Windows-1254''),
        (''CP1255'', ''Windows-1255''),
        (''CP1256'', ''Windows-1256''),
        (''CP1257'', ''Windows-1257''),
        (''CP1258'', ''Windows-1258''),
        (''CP51932'', ''CP51932'')]
     else if c = of_char (CHR ''E'') \<or> c = of_char (CHR ''e'') then
       [(''EUC-JP'', ''EUC-JP''),
        (''eucJP'', ''EUC-JP''),
        (''eucJP-ms'', ''eucJP-ms''),
        (''euc-jp-ms'', ''eucJP-ms''),
        (''EUC-JIS-2004'', ''EUC-JIS-2004''),
        (''EUC-JISX0213'', ''EUC-JIS-2004''),
        (''EUC-KR'', ''EUC-KR''),
        (''eucKR'', ''EUC-KR''),
        (''EUC-CN'', ''GB2312''),
        (''eucCN'', ''GB2312''),
        (''EUC-TW'', ''EUC-TW''),
        (''eucTW'', ''EUC-TW''),
        (''Emacs-Mule'', ''Emacs-Mule'')]
     else if c = of_char (CHR ''G'') \<or> c = of_char (CHR ''g'') then
       [(''GBK'', ''GBK''),
        (''GB12345'', ''GB12345''),
        (''GB18030'', ''GB18030''),
        (''GB1988'', ''GB1988''),
        (''GB2312'', ''GB2312'')]
     else if c = of_char (CHR ''I'') \<or> c = of_char (CHR ''i'') then
       [(''IBM437'', ''IBM437''),
        (''IBM720'', ''IBM720''),
        (''IBM737'', ''IBM737''),
        (''IBM775'', ''IBM775''),
        (''IBM850'', ''CP850''),
        (''IBM852'', ''IBM852''),
        (''IBM855'', ''IBM855''),
        (''IBM857'', ''IBM857''),
        (''IBM860'', ''IBM860''),
        (''IBM861'', ''IBM861''),
        (''IBM862'', ''IBM862''),
        (''IBM863'', ''IBM863''),
        (''IBM864'', ''IBM864''),
        (''IBM865'', ''IBM865''),
        (''IBM866'', ''IBM866''),
        (''IBM869'', ''IBM869''),
        (''ISO-8859-1'', ''ISO-8859-1''),
        (''ISO8859-1'', ''ISO-8859-1''),
        (''ISO-8859-2'', ''ISO-8859-2''),
        (''ISO8859-2'', ''ISO-8859-2''),
        (''ISO-8859-3'', ''ISO-8859-3''),
        (''ISO8859-3'', ''ISO-8859-3''),
        (''ISO-8859-4'', ''ISO-8859-4''),
        (''ISO8859-4'', ''ISO-8859-4''),
        (''ISO-8859-5'', ''ISO-8859-5''),
        (''ISO8859-5'', ''ISO-8859-5''),
        (''ISO-8859-6'', ''ISO-8859-6''),
        (''ISO8859-6'', ''ISO-8859-6''),
        (''ISO-8859-7'', ''ISO-8859-7''),
        (''ISO8859-7'', ''ISO-8859-7''),
        (''ISO-8859-8'', ''ISO-8859-8''),
        (''ISO8859-8'', ''ISO-8859-8''),
        (''ISO-8859-9'', ''ISO-8859-9''),
        (''ISO8859-9'', ''ISO-8859-9''),
        (''ISO-8859-10'', ''ISO-8859-10''),
        (''ISO8859-10'', ''ISO-8859-10''),
        (''ISO-8859-11'', ''ISO-8859-11''),
        (''ISO8859-11'', ''ISO-8859-11''),
        (''ISO-8859-13'', ''ISO-8859-13''),
        (''ISO8859-13'', ''ISO-8859-13''),
        (''ISO-8859-14'', ''ISO-8859-14''),
        (''ISO8859-14'', ''ISO-8859-14''),
        (''ISO-8859-15'', ''ISO-8859-15''),
        (''ISO8859-15'', ''ISO-8859-15''),
        (''ISO-8859-16'', ''ISO-8859-16''),
        (''ISO8859-16'', ''ISO-8859-16'')]
     else if c = of_char (CHR ''K'') \<or> c = of_char (CHR ''k'') then
       [(''KOI8-R'', ''KOI8-R''),
        (''KOI8-U'', ''KOI8-U'')]
     else if c = of_char (CHR ''M'') \<or> c = of_char (CHR ''m'') then
       [(''macCentEuro'', ''macCentEuro''),
        (''macCroatian'', ''macCroatian''),
        (''macCyrillic'', ''macCyrillic''),
        (''macGreek'', ''macGreek''),
        (''macIceland'', ''macIceland''),
        (''MacJapanese'', ''MacJapanese''),
        (''MacJapan'', ''MacJapanese''),
        (''macRoman'', ''macRoman''),
        (''macRomania'', ''macRomania''),
        (''macThai'', ''macThai''),
        (''macTurkish'', ''macTurkish''),
        (''macUkraine'', ''macUkraine'')]
     else if c = of_char (CHR ''P'') \<or> c = of_char (CHR ''p'') then
       [(''PCK'', ''Windows-31J'')]
     else if c = of_char (CHR ''S'') \<or> c = of_char (CHR ''s'') then
       [(''SJIS'', ''Windows-31J''),
        (''Shift_JIS'', ''Shift_JIS''),
        (''SJIS-DoCoMo'', ''SJIS-DoCoMo''),
        (''SJIS-KDDI'', ''SJIS-KDDI''),
        (''SJIS-SoftBank'', ''SJIS-SoftBank''),
        (''stateless-ISO-2022-JP'', ''stateless-ISO-2022-JP''),
        (''stateless-ISO-2022-JP-KDDI'', ''stateless-ISO-2022-JP-KDDI'')]
     else if c = of_char (CHR ''T'') \<or> c = of_char (CHR ''t'') then
       [(''TIS-620'', ''TIS-620'')]
     else if c = of_char (CHR ''U'') \<or> c = of_char (CHR ''u'') then
       [(''US-ASCII'', ''US-ASCII''),
        (''UTF8-MAC'', ''UTF8-MAC''),
        (''UTF-8-HFS'', ''UTF8-MAC''),
        (''UTF8-DoCoMo'', ''UTF8-DoCoMo''),
        (''UTF8-KDDI'', ''UTF8-KDDI''),
        (''UTF8-SoftBank'', ''UTF8-SoftBank'')]
     else if c = of_char (CHR ''W'') \<or> c = of_char (CHR ''w'') then
       [(''Windows-31J'', ''Windows-31J''),
        (''Windows-874'', ''Windows-874''),
        (''Windows-1250'', ''Windows-1250''),
        (''Windows-1251'', ''Windows-1251''),
        (''Windows-1252'', ''Windows-1252''),
        (''Windows-1253'', ''Windows-1253''),
        (''Windows-1254'', ''Windows-1254''),
        (''Windows-1255'', ''Windows-1255''),
        (''Windows-1256'', ''Windows-1256''),
        (''Windows-1257'', ''Windows-1257''),
        (''Windows-1258'', ''Windows-1258'')]
     else if c = of_char (CHR ''6'') then
       [(''646'', ''US-ASCII'')]
     else [])"

definition rbs_encoding_find :: "byte list \<Rightarrow> rbs_encoding option" where
  "rbs_encoding_find name =
     (let width = length name in
      if 5 \<le> width \<and> rbs_strncasecmp name (bytes_of ''UTF-8'') 5 = 0 then
        (if width = 9 \<and> rbs_strncasecmp (drop 5 name) (bytes_of ''-HFS'') 4 = 0
         then encoding_entry ''UTF8-MAC'' else encoding_entry ''UTF-8'')
      else if 3 \<le> width then
        (case List.find (\<lambda>(n, e). width = length n \<and> rbs_strncasecmp name (bytes_of n) width = 0)
                (encoding_names (name ! 0)) of
           Some (n, e) \<Rightarrow> encoding_entry e
         | None \<Rightarrow> None)
      else None)"

subsection \<open>What the lexer needs of an encoding\<close>

text \<open>
  The lexer moves by \<open>char_width\<close>: a width must not reach past the bytes it was given, or
  the next read is out of the source. An encoding is \<open>CR-safe\<close> if no byte of a
  multi-byte character after the first is a carriage return: the lexer looks one byte
  back for a CR at the end of a comment, and that byte must then be a character.
\<close>

locale char_encoding =
  fixes width :: "byte list \<Rightarrow> nat"
  assumes width_le: "b \<noteq> [] \<Longrightarrow> width b \<le> length b"
begin

lemma width_drop_le:
  assumes "i < length b"
  shows "i + width (drop i b) \<le> length b"
  using width_le [of "drop i b"] assms by simp

end

locale cr_safe_encoding = char_encoding +
  assumes cr_free: "0 < i \<Longrightarrow> i < width b \<Longrightarrow> width b \<le> length b \<Longrightarrow> b ! i \<noteq> 13"

lemma utf_8_width_loop_bounds:
  "utf_8_width_loop b m i s \<noteq> 0 \<Longrightarrow> i < utf_8_width_loop b m i s \<and> utf_8_width_loop b m i s \<le> m"
proof (induction b m i s rule: utf_8_width_loop.induct)
  case (1 b m i s)
  show ?case
  proof (cases "i < m")
    case True
    with 1 show ?thesis
      by (fastforce simp: utf_8_width_loop.simps [of b m i s] Let_def split: if_splits)
  next
    case False
    with "1.prems" show ?thesis by (simp add: utf_8_width_loop.simps [of b m i s])
  qed
qed

lemma utf_8_width_le: "rbs_encoding_utf_8_char_width b \<le> length b"
  using utf_8_width_loop_bounds [of b "if length b > 4 then 4 else length b" 0 0]
  by (cases "rbs_encoding_utf_8_char_width b = 0")
    (auto simp: rbs_encoding_utf_8_char_width_def Let_def split: if_splits)

lemmas other_width_defs =
  rbs_encoding_ascii_char_width_def rbs_encoding_single_char_width_def
  rbs_encoding_euc_jp_char_width_def rbs_encoding_shift_jis_char_width_def
  rbs_encoding_big5_char_width_def rbs_encoding_cp949_char_width_def
  rbs_encoding_emacs_mule_char_width_def rbs_encoding_euc_kr_char_width_def
  rbs_encoding_euc_tw_char_width_def rbs_encoding_gb18030_char_width_def
  rbs_encoding_gbk_char_width_def

subsection \<open>The UTF-8 automaton\<close>

text \<open>The automaton's step, and the same step by ranges of bytes.\<close>

definition utf_8_next :: "nat \<Rightarrow> nat \<Rightarrow> nat" where
  "utf_8_next s n = rbs_utf_8_dfa ! (256 + s * 16 + rbs_utf_8_dfa ! n)"

definition utf_8_type :: "nat \<Rightarrow> nat" where
  "utf_8_type n =
     (if n \<le> 0x7F then 0 else if n \<le> 0x8F then 1 else if n \<le> 0x9F then 9
      else if n \<le> 0xBF then 7 else if n \<le> 0xC1 then 8 else if n \<le> 0xDF then 2
      else if n = 0xE0 then 10 else if n \<le> 0xEC then 3 else if n = 0xED then 4
      else if n \<le> 0xEF then 3 else if n = 0xF0 then 11 else if n \<le> 0xF3 then 6
      else if n = 0xF4 then 5 else 8)"

lemma utf_8_types_checked: "list_all (\<lambda>n. rbs_utf_8_dfa ! n = utf_8_type n) [0..<256]"
  by code_simp

lemma utf_8_types: "n < 256 \<Longrightarrow> rbs_utf_8_dfa ! n = utf_8_type n"
  using utf_8_types_checked by (simp add: list_all_iff)

lemma utf_8_dfa_transitions: "rbs_utf_8_dfa ! (256 + i) = rbs_utf_8_transitions ! i"
proof -
  have "length rbs_utf_8_types = 256" by (simp add: rbs_utf_8_types_def)
  then show ?thesis by (simp add: rbs_utf_8_dfa_def nth_append)
qed

lemma utf_8_next_eq: "n < 256 \<Longrightarrow> utf_8_next s n = rbs_utf_8_transitions ! (s * 16 + utf_8_type n)"
  using utf_8_dfa_transitions [of "s * 16 + utf_8_type n"]
  by (simp add: utf_8_next_def utf_8_types add.assoc)

lemma utf_8_next_0:
  "n < 256 \<Longrightarrow> utf_8_next 0 n =
     (if n \<le> 0x7F then 0 else if n < 0xC2 then 1 else if n \<le> 0xDF then 2
      else if n = 0xE0 then 4 else if n \<le> 0xEC then 3 else if n = 0xED then 5
      else if n \<le> 0xEF then 3 else if n = 0xF0 then 6 else if n \<le> 0xF3 then 7
      else if n = 0xF4 then 8 else 1)"
  by (simp add: utf_8_next_eq utf_8_type_def rbs_utf_8_transitions_def)

lemma utf_8_next_tail:
  assumes "n < 256"
  shows "utf_8_next (Suc 0) n = 1"
    and "utf_8_next 2 n = (if 0x80 \<le> n \<and> n \<le> 0xBF then 0 else 1)"
    and "utf_8_next 3 n = (if 0x80 \<le> n \<and> n \<le> 0xBF then 2 else 1)"
    and "utf_8_next 4 n = (if 0xA0 \<le> n \<and> n \<le> 0xBF then 2 else 1)"
    and "utf_8_next 5 n = (if 0x80 \<le> n \<and> n \<le> 0x9F then 2 else 1)"
    and "utf_8_next 6 n = (if 0x90 \<le> n \<and> n \<le> 0xBF then 3 else 1)"
    and "utf_8_next 7 n = (if 0x80 \<le> n \<and> n \<le> 0xBF then 3 else 1)"
    and "utf_8_next 8 n = (if 0x80 \<le> n \<and> n \<le> 0x8F then 3 else 1)"
  using assms
  by (simp_all add: utf_8_next_eq utf_8_type_def rbs_utf_8_transitions_def)

lemma utf_8_width_loop_step:
  "utf_8_width_loop b m i s =
     (if i < m then
        if utf_8_next s (unat (b ! i)) = 0 then i + 1
        else utf_8_width_loop b m (i + 1) (utf_8_next s (unat (b ! i)))
      else 0)"
  by (simp add: utf_8_width_loop.simps [of b m i s] utf_8_next_def)

lemma unat_byte: "unat (b :: byte) < 256"
proof -
  have "unat b < 2 ^ LENGTH(8)" by (rule unsigned_less)
  then show ?thesis by simp
qed

lemma utf_8_rejected: "utf_8_width_loop b m i (Suc 0) = 0"
proof (induction "m - i" arbitrary: i)
  case 0
  then show ?case by (simp add: utf_8_width_loop_step [of b m i])
next
  case (Suc k)
  then show ?case by (simp add: utf_8_width_loop_step [of b m i] utf_8_next_tail unat_byte)
qed

lemma utf_8_state_2:
  "utf_8_width_loop b m i 2 = (if i < m \<and> in_range 0x80 0xBF (b ! i) then i + 1 else 0)"
  by (simp add: utf_8_width_loop_step [of b m i] utf_8_next_tail unat_byte utf_8_rejected in_range_def)

lemma utf_8_state_3:
  "utf_8_width_loop b m i 3 =
     (if i < m \<and> in_range 0x80 0xBF (b ! i) then utf_8_width_loop b m (i + 1) 2 else 0)"
  by (simp add: utf_8_width_loop_step [of b m i] utf_8_next_tail unat_byte utf_8_rejected in_range_def)

lemma utf_8_second_byte:
  "utf_8_width_loop b m i 4 = (if i < m \<and> in_range 0xA0 0xBF (b ! i) then utf_8_width_loop b m (i + 1) 2 else 0)"
  "utf_8_width_loop b m i 5 = (if i < m \<and> in_range 0x80 0x9F (b ! i) then utf_8_width_loop b m (i + 1) 2 else 0)"
  "utf_8_width_loop b m i 6 = (if i < m \<and> in_range 0x90 0xBF (b ! i) then utf_8_width_loop b m (i + 1) 3 else 0)"
  "utf_8_width_loop b m i 7 = (if i < m \<and> in_range 0x80 0xBF (b ! i) then utf_8_width_loop b m (i + 1) 3 else 0)"
  "utf_8_width_loop b m i 8 = (if i < m \<and> in_range 0x80 0x8F (b ! i) then utf_8_width_loop b m (i + 1) 3 else 0)"
  by (simp_all add: utf_8_width_loop_step [of b m i] utf_8_next_tail unat_byte utf_8_rejected in_range_def)

text \<open>The state the lead byte selects, by what may follow it.\<close>

definition utf_8_lead_state :: "(nat \<times> nat \<times> nat) option \<Rightarrow> nat" where
  "utf_8_lead_state l =
     (if l = Some (0x80, 0xBF, 0) then 2 else if l = Some (0xA0, 0xBF, 1) then 4
      else if l = Some (0x80, 0xBF, 1) then 3 else if l = Some (0x80, 0x9F, 1) then 5
      else if l = Some (0x90, 0xBF, 2) then 6 else if l = Some (0x80, 0xBF, 2) then 7
      else if l = Some (0x80, 0x8F, 2) then 8 else 1)"

lemma utf_8_first_byte:
  "utf_8_next 0 (unat (c :: byte)) = (if unat c \<le> 0x7F then 0 else utf_8_lead_state (utf_8_lead c))"
  using unat_byte [of c]
  by (simp add: utf_8_next_0 utf_8_lead_state_def utf_8_lead_def in_range_def)

lemma utf_8_lead_cases:
  "utf_8_lead c \<in> {None, Some (0x80, 0xBF, 0), Some (0xA0, 0xBF, 1), Some (0x80, 0xBF, 1),
     Some (0x80, 0x9F, 1), Some (0x90, 0xBF, 2), Some (0x80, 0xBF, 2), Some (0x80, 0x8F, 2)}"
  by (simp add: utf_8_lead_def)

lemma utf_8_lead_one: "unat c \<le> 0x7F \<Longrightarrow> utf_8_lead c = None"
  by (simp add: utf_8_lead_def in_range_def)

lemmas utf_8_states = utf_8_state_2 utf_8_state_3 utf_8_second_byte utf_8_rejected

lemma utf_8_char_width_value:
  "rbs_encoding_utf_8_char_width b = utf_8_well_formed_width b"
proof (cases b)
  case Nil
  then show ?thesis
    by (simp add: rbs_encoding_utf_8_char_width_def utf_8_width_loop_step utf_8_well_formed_width_def)
next
  case (Cons x r)
  let ?m = "if length b > 4 then 4 else length b"
  have start: "rbs_encoding_utf_8_char_width b =
      (if unat x \<le> 0x7F then 1 else utf_8_width_loop b ?m 1 (utf_8_lead_state (utf_8_lead x)))"
  proof -
    have nonzero: "(utf_8_lead_state l = 0) = False" for l by (simp add: utf_8_lead_state_def)
    show ?thesis
      by (simp add: nonzero Cons rbs_encoding_utf_8_char_width_def utf_8_width_loop_step [of _ _ 0] utf_8_first_byte)
  qed
  consider "r = []" | y where "r = [y]" | y z where "r = [y, z]" | y z w r' where "r = y # z # w # r'"
    by (metis list.exhaust)
  then show ?thesis
    using utf_8_lead_cases [of x] unfolding start
    by cases (elim insertE emptyE;
      simp add: Cons utf_8_states utf_8_lead_state_def utf_8_well_formed_width_def utf_8_lead_one in_range_def)+
qed

text \<open>
  C21. \<open>rbs_encoding_utf_8_char_width\<close>, the table-driven automaton over the two arrays of
  the source, computes the width of the well-formed UTF-8 character (Unicode, Table 3-7) at
  the front of every byte sequence, and 0 when there is none: overlong forms, surrogates,
  values above 10FFFF and truncated sequences are refused.
\<close>

theorem utf_8_char_width_correct:
  "rbs_encoding_utf_8_char_width b = utf_8_well_formed_width b"
  by (rule utf_8_char_width_value)

subsection \<open>The encodings provide the interface\<close>

lemma utf_8_well_formed_trail:
  "0 < i \<Longrightarrow> i < utf_8_well_formed_width b \<Longrightarrow> 0x80 \<le> unat (b ! i)"
proof -
  assume i: "0 < i" "i < utf_8_well_formed_width b"
  then obtain x y r lo hi k where b: "b = x # y # r" and lead: "utf_8_lead x = Some (lo, hi, k)"
    and y: "in_range lo hi y" and r: "k \<le> length r" "\<forall>c\<in>set (take k r). in_range 0x80 0xBF c"
    and w: "utf_8_well_formed_width b = k + 2"
    by (auto simp: utf_8_well_formed_width_def split: list.splits option.splits if_splits)
  from lead have "0x80 \<le> lo" by (auto simp: utf_8_lead_def split: if_splits)
  with y have y': "0x80 \<le> unat y" by (simp add: in_range_def)
  show ?thesis
  proof (cases "i = 1")
    case True
    with b y' show ?thesis by simp
  next
    case False
    with i w have "i - 2 < k" and "b ! i = r ! (i - 2)"
      unfolding b by (auto simp: nth_Cons' numeral_2_eq_2)
    with r have "b ! i \<in> set (take k r)"
      by (auto simp: in_set_conv_nth intro!: exI [of _ "i - 2"])
    with r(2) show ?thesis by (auto simp: in_range_def)
  qed
qed

interpretation utf_8: cr_safe_encoding rbs_encoding_utf_8_char_width
proof
  show "rbs_encoding_utf_8_char_width b \<le> length b" if "b \<noteq> []" for b
    by (rule utf_8_width_le)
  show "b ! i \<noteq> 13" if "0 < i" and "i < rbs_encoding_utf_8_char_width b"
    and "rbs_encoding_utf_8_char_width b \<le> length b" for i and b :: "byte list"
    using utf_8_well_formed_trail [of i b] that by (auto simp: utf_8_char_width_value)
qed

lemma below_width:
  "i < (2 :: nat) \<longleftrightarrow> i = 0 \<or> i = 1"
  "i < (3 :: nat) \<longleftrightarrow> i = 0 \<or> i = 1 \<or> i = 2"
  "i < (4 :: nat) \<longleftrightarrow> i = 0 \<or> i = 1 \<or> i = 2 \<or> i = 3"
  by auto

interpretation us_ascii: cr_safe_encoding rbs_encoding_ascii_char_width
  by unfold_locales (auto simp: other_width_defs Suc_le_eq split: if_splits)

interpretation single_byte: cr_safe_encoding rbs_encoding_single_char_width
  by unfold_locales (auto simp: other_width_defs Suc_le_eq)

interpretation euc_jp: cr_safe_encoding rbs_encoding_euc_jp_char_width
  by unfold_locales (auto simp: other_width_defs Let_def Suc_le_eq below_width split: if_splits)

interpretation shift_jis: cr_safe_encoding rbs_encoding_shift_jis_char_width
  by unfold_locales (auto simp: other_width_defs Let_def Suc_le_eq below_width split: if_splits)

interpretation big5: cr_safe_encoding rbs_encoding_big5_char_width
  by unfold_locales (auto simp: other_width_defs Let_def Suc_le_eq below_width split: if_splits)

interpretation cp949: cr_safe_encoding rbs_encoding_cp949_char_width
  by unfold_locales (auto simp: other_width_defs Let_def Suc_le_eq below_width split: if_splits)

interpretation emacs_mule: cr_safe_encoding rbs_encoding_emacs_mule_char_width
  by unfold_locales (auto simp: other_width_defs Let_def Suc_le_eq below_width split: if_splits)

interpretation euc_kr: cr_safe_encoding rbs_encoding_euc_kr_char_width
  by unfold_locales (auto simp: other_width_defs Let_def Suc_le_eq below_width split: if_splits)

interpretation euc_tw: cr_safe_encoding rbs_encoding_euc_tw_char_width
  by unfold_locales (auto simp: other_width_defs Let_def Suc_le_eq below_width split: if_splits)

interpretation gb18030: cr_safe_encoding rbs_encoding_gb18030_char_width
  by unfold_locales (auto simp: other_width_defs Let_def Suc_le_eq below_width split: if_splits)

interpretation gbk: cr_safe_encoding rbs_encoding_gbk_char_width
  by unfold_locales (auto simp: other_width_defs Let_def Suc_le_eq below_width split: if_splits)

interpretation cesu_8: char_encoding rbs_encoding_cesu_8_char_width
  by unfold_locales
    (auto simp: rbs_encoding_cesu_8_char_width_def rbs_cesu_8_codepoint_def Let_def Suc_le_eq split: if_splits)

subsection \<open>Every entry of the table\<close>

definition encoding_bounded :: "rbs_encoding \<Rightarrow> bool" where
  "encoding_bounded e \<longleftrightarrow> char_encoding (char_width e)"

lemmas width_interpretations =
  utf_8.char_encoding_axioms us_ascii.char_encoding_axioms single_byte.char_encoding_axioms
  euc_jp.char_encoding_axioms shift_jis.char_encoding_axioms big5.char_encoding_axioms
  cp949.char_encoding_axioms emacs_mule.char_encoding_axioms euc_kr.char_encoding_axioms
  euc_tw.char_encoding_axioms gb18030.char_encoding_axioms gbk.char_encoding_axioms
  cesu_8.char_encoding_axioms

lemmas cr_safe_interpretations =
  utf_8.cr_safe_encoding_axioms us_ascii.cr_safe_encoding_axioms single_byte.cr_safe_encoding_axioms
  euc_jp.cr_safe_encoding_axioms shift_jis.cr_safe_encoding_axioms big5.cr_safe_encoding_axioms
  cp949.cr_safe_encoding_axioms emacs_mule.cr_safe_encoding_axioms euc_kr.cr_safe_encoding_axioms
  euc_tw.cr_safe_encoding_axioms gb18030.cr_safe_encoding_axioms gbk.cr_safe_encoding_axioms

lemma encoding_table_bounded: "list_all encoding_bounded rbs_encodings"
  by (simp add: rbs_encodings_def encoding_bounded_def width_interpretations)

lemma encoding_table_cr_safe:
  "list_all (\<lambda>e. enc_name e \<noteq> ''CESU-8'' \<longrightarrow> cr_safe_encoding (char_width e)) rbs_encodings"
  by (simp add: rbs_encodings_def cr_safe_interpretations)


lemma encoding_entry_sound: "encoding_entry n = Some e \<Longrightarrow> e \<in> set rbs_encodings \<and> enc_name e = n"
  by (auto simp: encoding_entry_def find_Some_iff)

lemma encoding_find_table:
  "rbs_encoding_find n = Some e \<Longrightarrow> e \<in> set rbs_encodings"
  by (auto simp: rbs_encoding_find_def Let_def split: if_splits option.splits dest: encoding_entry_sound)


text \<open>Names are compared without case: by their lower-case bytes.\<close>

definition lower_bytes :: "byte list \<Rightarrow> int list" where
  "lower_bytes b = map c_tolower b"

lemma c_tolower_zero: "c_tolower c = 0 \<longleftrightarrow> c = 0"
  by (auto simp: c_tolower_def word_le_def word_uint_eq_iff)

lemma strncasecmp_zero_iff:
  "length s = length t \<Longrightarrow> 0 \<notin> set s \<Longrightarrow> 0 \<notin> set t \<Longrightarrow>
     rbs_strncasecmp s t (length s) = 0 \<longleftrightarrow> lower_bytes s = lower_bytes t"
proof (induction s arbitrary: t)
  case Nil
  then show ?case by (simp add: lower_bytes_def)
next
  case (Cons a s)
  then obtain b t' where "t = b # t'" by (cases t) auto
  with Cons show ?case by (auto simp: lower_bytes_def Let_def)
qed

lemma lower_bytes_zero: "0 \<in> set b \<longleftrightarrow> 0 \<in> set (lower_bytes b)"
  by (induction b) (auto simp: lower_bytes_def c_tolower_zero)

lemma lower_bytes_take: "lower_bytes (take n b) = take n (lower_bytes b)"
  by (simp add: lower_bytes_def take_map)

lemma lower_bytes_drop: "lower_bytes (drop n b) = drop n (lower_bytes b)"
  by (simp add: lower_bytes_def drop_map)

lemma length_lower_bytes [simp]: "length (lower_bytes b) = length b"
  by (simp add: lower_bytes_def)

lemma strncasecmp_take: "rbs_strncasecmp s t n = rbs_strncasecmp (take n s) t n"
  by (induction s t n rule: rbs_strncasecmp.induct) (auto simp: Let_def)

definition group_ok :: "byte \<Rightarrow> (string \<times> string) list \<Rightarrow> bool" where
  "group_ok c g \<longleftrightarrow> distinct (map (\<lambda>p. lower_bytes (bytes_of (fst p))) g) \<and>
     list_all (\<lambda>(n, e). 3 \<le> length n \<and> 0 \<notin> set (bytes_of n) \<and>
       c_tolower (of_char (hd n)) = c_tolower c \<and>
       (lower_bytes (take 5 (bytes_of n)) \<noteq> lower_bytes (bytes_of ''utf-8'') \<or> n = ''UTF-8-HFS'' \<and> e = ''UTF8-MAC'')) g"

lemma encoding_names_checked: "group_ok c (encoding_names c)"
  unfolding encoding_names_def
  by (simp add: group_ok_def lower_bytes_def c_tolower_def)

lemma prefix_match_iff:
  assumes "0 \<notin> set b" and "0 \<notin> set p" and "k \<le> length b" and "k = length p"
  shows "rbs_strncasecmp b p k = 0 \<longleftrightarrow> lower_bytes (take k b) = lower_bytes p"
proof -
  have "0 \<notin> set (take (length p) b)" using assms(1) by (meson in_set_takeD)
  then show ?thesis
    using strncasecmp_zero_iff [of "take (length p) b" p] assms
    by (simp add: strncasecmp_take [of b p])
qed

lemma letter_case:
  "(c = 65 \<or> c = 97) \<longleftrightarrow> c_tolower c = 97"
  "(c = 66 \<or> c = 98) \<longleftrightarrow> c_tolower c = 98"
  "(c = 67 \<or> c = 99) \<longleftrightarrow> c_tolower c = 99"
  "(c = 69 \<or> c = 101) \<longleftrightarrow> c_tolower c = 101"
  "(c = 71 \<or> c = 103) \<longleftrightarrow> c_tolower c = 103"
  "(c = 73 \<or> c = 105) \<longleftrightarrow> c_tolower c = 105"
  "(c = 75 \<or> c = 107) \<longleftrightarrow> c_tolower c = 107"
  "(c = 77 \<or> c = 109) \<longleftrightarrow> c_tolower c = 109"
  "(c = 80 \<or> c = 112) \<longleftrightarrow> c_tolower c = 112"
  "(c = 83 \<or> c = 115) \<longleftrightarrow> c_tolower c = 115"
  "(c = 84 \<or> c = 116) \<longleftrightarrow> c_tolower c = 116"
  "(c = 85 \<or> c = 117) \<longleftrightarrow> c_tolower c = 117"
  "(c = 87 \<or> c = 119) \<longleftrightarrow> c_tolower c = 119"
  "c = 54 \<longleftrightarrow> c_tolower c = 54"
  by (auto simp: c_tolower_def word_le_def word_uint_eq_iff)

lemma encoding_names_cong:
  assumes "c_tolower c = c_tolower d"
  shows "encoding_names c = encoding_names d"
  using assms by (simp add: encoding_names_def letter_case split del: if_split cong: if_cong)

lemma find_by_key:
  assumes "distinct (map f xs)" and "x \<in> set xs" and "\<And>y. y \<in> set xs \<Longrightarrow> P y \<longleftrightarrow> f y = f x"
  shows "List.find P xs = Some x"
  using assms
proof (induction xs)
  case (Cons z zs)
  show ?case
  proof (cases "z = x")
    case True
    with Cons.prems(3) show ?thesis by simp
  next
    case False
    with Cons.prems have "x \<in> set zs" by simp
    with Cons.prems(1) have "f z \<noteq> f x" by force
    with Cons.prems(3) have "\<not> P z" by simp
    moreover from Cons.prems \<open>x \<in> set zs\<close> Cons.IH have "List.find P zs = Some x" by simp
    ultimately show ?thesis by simp
  qed
qed simp

lemma list_entry_known: "n \<in> set (map enc_name rbs_encodings) \<Longrightarrow> encoding_entry n \<noteq> None"
  by (auto simp: encoding_entry_def find_None_iff)

text \<open>The end of the name \<open>UTF-8-HFS\<close>, in any case of letters.\<close>

lemma hfs_suffix_match:
  assumes same: "lower_bytes b = lower_bytes (bytes_of ''UTF-8-HFS'')" and nonzero: "0 \<notin> set b"
  shows "rbs_strncasecmp (drop 5 b) (bytes_of ''-HFS'') 4 = 0"
proof -
  have len: "length b = 9" using arg_cong [OF same, of length] by (simp add: length_lower_bytes)
  have "lower_bytes (drop 5 b) = lower_bytes (bytes_of ''-HFS'')"
    using same by (simp add: lower_bytes_drop) (simp add: lower_bytes_def)
  moreover have "0 \<notin> set (drop 5 b)" using nonzero by (meson in_set_dropD)
  moreover have "0 \<notin> set (bytes_of ''-HFS'')" by simp
  moreover have "4 \<le> length (drop 5 b)" and "4 = length (bytes_of ''-HFS'')"
    and "take 4 (drop 5 b) = drop 5 b" using len by simp_all
  ultimately show ?thesis by (metis prefix_match_iff)
qed

text \<open>
  C24. \<open>rbs_encoding_find\<close> finds every name of its table, whatever its case: a byte string
  that differs from a listed name only in the case of its letters selects the encoding that
  the list gives for that name, even where an earlier test of the function (the UTF-8 prefix)
  or an earlier name of the list could have answered first.
\<close>

theorem encoding_find_alias:
  assumes entry: "(n, e) \<in> set (encoding_names c)"
    and same: "lower_bytes b = lower_bytes (bytes_of n)"
  shows "rbs_encoding_find b = encoding_entry e"
proof -
  let ?g = "encoding_names c" and ?key = "\<lambda>p :: string \<times> string. lower_bytes (bytes_of (fst p))"
  from encoding_names_checked [of c] have distinct: "distinct (map ?key ?g)"
    and each: "\<And>n e. (n, e) \<in> set ?g \<Longrightarrow> 3 \<le> length n \<and> 0 \<notin> set (bytes_of n) \<and>
       c_tolower (of_char (hd n)) = c_tolower c \<and>
       (lower_bytes (take 5 (bytes_of n)) \<noteq> lower_bytes (bytes_of ''utf-8'') \<or>
        n = ''UTF-8-HFS'' \<and> e = ''UTF8-MAC'')"
    by (auto simp: group_ok_def list_all_iff)
  from same have len: "length b = length n" by (metis length_lower_bytes bytes_of_simps(3))
  from same each [OF entry] have nonzero: "0 \<notin> set b" by (metis lower_bytes_zero)
  have match: "rbs_strncasecmp b (bytes_of m) (length b) = 0 \<longleftrightarrow> lower_bytes (bytes_of m) = lower_bytes (bytes_of n)"
    if "(m, f) \<in> set ?g" and "length b = length m" for m f
    using strncasecmp_zero_iff [of b "bytes_of m"] each [OF that(1)] that nonzero same by auto
  obtain x b' y n' where b: "b = x # b'" and n: "n = y # n'"
    using each [OF entry] len by (cases b; cases n) auto
  with each [OF entry] same have "encoding_names (b ! 0) = ?g"
    by (intro encoding_names_cong) (simp add: lower_bytes_def)
  moreover have "List.find (\<lambda>(m, f). length b = length m \<and> rbs_strncasecmp b (bytes_of m) (length b) = 0) ?g = Some (n, e)"
    using distinct entry
  proof (rule find_by_key)
    fix p assume p: "p \<in> set ?g"
    obtain m f where mf: "p = (m, f)" by (cases p)
    have "?key p = ?key (n, e) \<Longrightarrow> length b = length m"
      using len mf by (metis fst_conv length_lower_bytes bytes_of_simps(3))
    with match [of m f] p show "(case p of (m, f) \<Rightarrow> length b = length m \<and> rbs_strncasecmp b (bytes_of m) (length b) = 0)
      \<longleftrightarrow> ?key p = ?key (n, e)"
      by (auto simp: mf)
  qed
  moreover have prefix: "5 \<le> length b \<Longrightarrow>
      rbs_strncasecmp b (bytes_of ''UTF-8'') 5 = 0 \<longleftrightarrow> lower_bytes (take 5 (bytes_of n)) = lower_bytes (bytes_of ''utf-8'')"
    using prefix_match_iff [of b "bytes_of ''UTF-8''" 5] nonzero same
    by (simp add: lower_bytes_take) (simp add: lower_bytes_def c_tolower_def)
  moreover have "n = ''UTF-8-HFS'' \<Longrightarrow> rbs_strncasecmp (drop 5 b) (bytes_of ''-HFS'') 4 = 0"
    using hfs_suffix_match [OF _ nonzero] same by simp
  ultimately show ?thesis
    using each [OF entry] len by (auto simp: rbs_encoding_find_def Let_def)
qed

theorem encoding_find_alias_witness:
  "rbs_encoding_find (bytes_of ''EUCjp'') = encoding_entry ''EUC-JP''"
  by (rule encoding_find_alias [where c = 69 and n = "''eucJP''"])
    (simp_all add: encoding_names_def lower_bytes_def c_tolower_def)

lemma encoding_width_bounded_fact:
  assumes "e \<in> set rbs_encodings" and "b \<noteq> []"
  shows "char_width e b \<le> length b"
proof -
  have "char_encoding (char_width e)"
    using encoding_table_bounded assms(1) by (auto simp: list_all_iff encoding_bounded_def)
  then show ?thesis using assms(2) by (rule char_encoding.width_le)
qed

text \<open>
  C25. Every entry of \<open>rbs_encodings\<close> has a width function that never reaches past the bytes
  it is given: what the lexer relies on when it moves by the width.
\<close>

theorem encoding_width_bounded:
  assumes "e \<in> set rbs_encodings" and "b \<noteq> []"
  shows "char_width e b \<le> length b"
  using assms by (rule encoding_width_bounded_fact)

theorem encoding_width_bounded_witness:
  "char_width \<lparr>enc_name = ''UTF-8'', char_width = rbs_encoding_utf_8_char_width, multibyte = True\<rparr>
     [0xE3, 0x81] \<le> 2"
  using encoding_width_bounded
    [of "\<lparr>enc_name = ''UTF-8'', char_width = rbs_encoding_utf_8_char_width, multibyte = True\<rparr>"
        "[0xE3, 0x81]"]
  by (simp add: rbs_encodings_def)

lemma encoding_cr_free_fact:
  assumes "e \<in> set rbs_encodings" and "enc_name e \<noteq> ''CESU-8''"
    and "0 < i" and "i < char_width e b" and "char_width e b \<le> length b"
  shows "b ! i \<noteq> 13"
proof -
  have "cr_safe_encoding (char_width e)"
    using encoding_table_cr_safe assms by (auto simp: list_all_iff)
  then show ?thesis using assms(3-5) by (rule cr_safe_encoding.cr_free)
qed

text \<open>
  C26. No encoding of the table but CESU-8 lets a carriage return be a later byte of a
  multi-byte character, so that the byte before a line feed, where it is a carriage return,
  is a character of its own.
\<close>

theorem encoding_cr_free:
  assumes "e \<in> set rbs_encodings" and "enc_name e \<noteq> ''CESU-8''"
    and "0 < i" and "i < char_width e b" and "char_width e b \<le> length b"
  shows "b ! i \<noteq> 13"
  using assms by (rule encoding_cr_free_fact)

theorem encoding_cr_free_witness: "[0xC3, 0xA9 :: byte] ! 1 \<noteq> 13"
proof -
  let ?e = "\<lparr>enc_name = ''UTF-8'', char_width = rbs_encoding_utf_8_char_width, multibyte = True\<rparr>"
  have "rbs_encoding_utf_8_char_width [0xC3, 0xA9] = 2"
    by (simp add: utf_8_char_width_value utf_8_well_formed_width_def utf_8_lead_def in_range_def)
  then show ?thesis
    using encoding_cr_free [of ?e 1 "[0xC3, 0xA9]"] by (simp add: rbs_encodings_def)
qed

text \<open>
  Two deviations of the source, kept by the model. The lone surrogates of CESU-8 are accepted
  without a look at their third byte, which may be a carriage return; the three-byte branch of
  EUC-JP tests the upper bound of the third byte twice and that of the second not at all.
\<close>

lemma cesu_8_surrogate_swallows_cr: "rbs_encoding_cesu_8_char_width [0xED, 0xA0, 13] = 3"
  by (simp add: rbs_encoding_cesu_8_char_width_def rbs_cesu_8_codepoint_def Let_def)

lemma euc_jp_second_byte_unbounded: "rbs_encoding_euc_jp_char_width [0x8F, 0xFF, 0xA1] = 3"
  by (simp add: rbs_encoding_euc_jp_char_width_def Let_def)


end
