(* ===== verification/ConstantPool.thy ===== *)
theory ConstantPool
  imports Prelude "HOL-Library.Multiset"
begin

unbundle bit_operations_syntax

text \<open>
  \<open>src/util/rbs_constant_pool.c\<close>: the hash table that interns the identifiers of a source.
  The open-addressing table (linear probing over a power-of-two number of buckets, ids into
  an array of constants) is refined to a list of distinct byte strings in the order of their
  ids. \<open>calloc\<close> is the C library's and may fail: \<open>calloc_ok\<close> says for how many elements it
  succeeds. \<open>free\<close> is recorded in a log, so that ownership can be stated.
\<close>

subsection \<open>Data\<close>

text \<open>
  \<open>RBS_ASSERT\<close> ends the program (a build with \<open>NDEBUG\<close> has none): it is an error, as is a
  probe that has gone round the whole table (the C loop would never end).
\<close>

datatype pool_error = Assertion_failed | Probe_loops

type_synonym 'a pool_result = "pool_error + 'a"

text \<open>
  A bucket: \<open>id\<close> is a field of 30 bits and \<open>type\<close> one of 2, kept in words with the masks of
  the code. A constant is a pointer with the bytes it points to: nothing writes to them while
  the pool refers to them.
\<close>

record rbs_constant_pool_bucket =
  b_id :: "32 word"
  b_type :: "32 word"
  b_hash :: "32 word"

record rbs_constant =
  c_start :: nat
  c_bytes :: "byte list"

record rbs_constant_pool =
  buckets :: "rbs_constant_pool_bucket list"
  constants :: "rbs_constant list"
  pool_size :: "32 word"
  capacity :: "32 word"
  freed :: "nat list"

definition RBS_CONSTANT_ID_UNSET :: "32 word" where "RBS_CONSTANT_ID_UNSET = 0"
definition RBS_CONSTANT_POOL_BUCKET_DEFAULT :: "32 word" where "RBS_CONSTANT_POOL_BUCKET_DEFAULT = 0"
definition RBS_CONSTANT_POOL_BUCKET_OWNED :: "32 word" where "RBS_CONSTANT_POOL_BUCKET_OWNED = 1"
definition RBS_CONSTANT_POOL_BUCKET_CONSTANT :: "32 word" where "RBS_CONSTANT_POOL_BUCKET_CONSTANT = 2"

text \<open>What \<open>calloc\<close> fills the memory with: zero bytes (a null pointer, an empty string).\<close>

definition zero_bucket :: rbs_constant_pool_bucket where
  "zero_bucket = \<lparr>b_id = 0, b_type = 0, b_hash = 0\<rparr>"

definition zero_constant :: rbs_constant where
  "zero_constant = \<lparr>c_start = 0, c_bytes = []\<rparr>"

subsection \<open>Operations\<close>

definition rbs_constant_pool_hash :: "byte list \<Rightarrow> 32 word" where
  "rbs_constant_pool_hash bs = foldl (\<lambda>value b. (push_bit 5 value + value) + ucast b) 5381 bs"

definition next_power_of_two :: "32 word \<Rightarrow> 32 word" where
  "next_power_of_two v =
     (if v = 0 then 1
      else let v = v - 1;
               v = v OR drop_bit 1 v;
               v = v OR drop_bit 2 v;
               v = v OR drop_bit 4 v;
               v = v OR drop_bit 8 v;
               v = v OR drop_bit 16 v
           in v + 1)"

definition is_power_of_two :: "32 word \<Rightarrow> bool" where
  "is_power_of_two s \<longleftrightarrow> s AND (s - 1) = 0"

text \<open>
  The three probe loops: from \<open>index\<close>, the first bucket at which the loop stops. The fuel is
  the number of buckets; without any left the loop has seen them all and goes round for ever.
\<close>

fun bucket_probe ::
  "(rbs_constant_pool_bucket \<Rightarrow> bool) \<Rightarrow> rbs_constant_pool_bucket list \<Rightarrow> 32 word \<Rightarrow> nat \<Rightarrow> 32 word \<Rightarrow> 32 word option"
where
  "bucket_probe stop bs msk 0 index = None"
| "bucket_probe stop bs msk (Suc fuel) index =
     (if stop (bs ! unat index) then Some index
      else bucket_probe stop bs msk fuel ((index + 1) AND msk))"

text \<open>The body of the loop of \<open>rbs_constant_pool_resize\<close>, and the loop over the old buckets.\<close>

definition resize_bucket ::
  "32 word \<Rightarrow> rbs_constant_pool_bucket \<Rightarrow> rbs_constant_pool_bucket list \<Rightarrow> rbs_constant_pool_bucket list pool_result"
where
  "resize_bucket msk bucket next_buckets =
     (if b_id bucket \<noteq> RBS_CONSTANT_ID_UNSET then
        (case bucket_probe (\<lambda>b. b_id b = RBS_CONSTANT_ID_UNSET) next_buckets msk (length next_buckets)
                (b_hash bucket AND msk) of
           None \<Rightarrow> Inl Probe_loops
         | Some next_index \<Rightarrow> Inr (next_buckets[unat next_index := bucket]))
      else Inr next_buckets)"

fun resize_buckets ::
  "32 word \<Rightarrow> rbs_constant_pool_bucket list \<Rightarrow> rbs_constant_pool_bucket list \<Rightarrow> rbs_constant_pool_bucket list pool_result"
where
  "resize_buckets msk [] next_buckets = Inr next_buckets"
| "resize_buckets msk (bucket # bs) next_buckets =
     (case resize_bucket msk bucket next_buckets of
        Inl e \<Rightarrow> Inl e
      | Inr next_buckets' \<Rightarrow> resize_buckets msk bs next_buckets')"

definition rbs_constant_pool_resize ::
  "(nat \<Rightarrow> bool) \<Rightarrow> rbs_constant_pool \<Rightarrow> (bool \<times> rbs_constant_pool) pool_result"
where
  "rbs_constant_pool_resize calloc_ok pool =
     (if \<not> is_power_of_two (capacity pool) then Inl Assertion_failed
      else let next_capacity = capacity pool * 2 in
        if next_capacity < capacity pool then Inr (False, pool)
        else let msk = next_capacity - 1 in
          if \<not> calloc_ok (unat next_capacity) then Inr (False, pool)
          else (case resize_buckets msk (buckets pool) (replicate (unat next_capacity) zero_bucket) of
              Inl e \<Rightarrow> Inl e
            | Inr next_buckets \<Rightarrow>
                Inr (True, pool\<lparr>buckets := next_buckets,
                  constants := take (unat (pool_size pool)) (constants pool) @
                    replicate (unat next_capacity - unat (pool_size pool)) zero_constant,
                  capacity := next_capacity\<rparr>)))"

definition rbs_constant_pool_init :: "(nat \<Rightarrow> bool) \<Rightarrow> 32 word \<Rightarrow> rbs_constant_pool option" where
  "rbs_constant_pool_init calloc_ok cap =
     (let maximum = NOT (0 :: 32 word) in
      if cap \<ge> maximum div 2 + 1 then None
      else let cap = next_power_of_two cap in
        if \<not> calloc_ok (unat cap) then None
        else Some \<lparr>buckets = replicate (unat cap) zero_bucket,
               constants = replicate (unat cap) zero_constant, pool_size = 0, capacity = cap, freed = []\<rparr>)"

definition rbs_constant_pool_id_to_constant :: "rbs_constant_pool \<Rightarrow> 32 word \<Rightarrow> rbs_constant pool_result" where
  "rbs_constant_pool_id_to_constant pool constant_id =
     (if constant_id \<noteq> RBS_CONSTANT_ID_UNSET \<and> constant_id \<le> pool_size pool
      then Inr (constants pool ! unat (constant_id - 1)) else Inl Assertion_failed)"

text \<open>The comparison both loops make at an occupied bucket.\<close>

definition bucket_matches :: "rbs_constant_pool \<Rightarrow> byte list \<Rightarrow> rbs_constant_pool_bucket \<Rightarrow> bool" where
  "bucket_matches pool bs bucket \<longleftrightarrow> c_bytes (constants pool ! unat (b_id bucket - 1)) = bs"

definition rbs_constant_pool_find :: "rbs_constant_pool \<Rightarrow> byte list \<Rightarrow> 32 word pool_result" where
  "rbs_constant_pool_find pool bs =
     (if \<not> is_power_of_two (capacity pool) then Inl Assertion_failed
      else let msk = capacity pool - 1; hash = rbs_constant_pool_hash bs in
        case bucket_probe (\<lambda>b. b_id b = RBS_CONSTANT_ID_UNSET \<or> bucket_matches pool bs b)
               (buckets pool) msk (unat (capacity pool)) (hash AND msk) of
          None \<Rightarrow> Inl Probe_loops
        | Some index \<Rightarrow>
            let bucket = buckets pool ! unat index in
            if b_id bucket \<noteq> RBS_CONSTANT_ID_UNSET then Inr (b_id bucket) else Inr RBS_CONSTANT_ID_UNSET)"

text \<open>What \<open>rbs_constant_pool_insert\<close> does with a match, and with an empty bucket.\<close>

definition insert_match ::
  "rbs_constant_pool \<Rightarrow> nat \<Rightarrow> rbs_constant \<Rightarrow> 32 word \<Rightarrow> 32 word \<times> rbs_constant_pool"
where
  "insert_match pool i c type =
     (let bucket = buckets pool ! i; id = b_id bucket; k = unat (id - 1); old = constants pool ! k in
      if type = RBS_CONSTANT_POOL_BUCKET_OWNED then
        (id, pool\<lparr>freed := freed pool @ [c_start c]\<rparr>)
      else if b_type bucket = RBS_CONSTANT_POOL_BUCKET_OWNED then
        (id, pool\<lparr>freed := freed pool @ [c_start old],
               constants := (constants pool)[k := old\<lparr>c_start := c_start c\<rparr>],
               buckets := (buckets pool)[i := bucket\<lparr>b_type := RBS_CONSTANT_POOL_BUCKET_DEFAULT AND 3\<rparr>]\<rparr>)
      else (id, pool))"

definition insert_new ::
  "rbs_constant_pool \<Rightarrow> nat \<Rightarrow> rbs_constant \<Rightarrow> 32 word \<Rightarrow> (32 word \<times> rbs_constant_pool) pool_result"
where
  "insert_new pool i c type =
     (let id = pool_size pool + 1 in
      if \<not> id < 0x40000000 then Inl Assertion_failed
      else Inr (id, pool\<lparr>pool_size := id,
        buckets := (buckets pool)[i := \<lparr>b_id = id AND 0x3fffffff, b_type = type AND 3,
                                        b_hash = rbs_constant_pool_hash (c_bytes c)\<rparr>],
        constants := (constants pool)[unat (id - 1) := c]\<rparr>))"

definition insert_probe ::
  "rbs_constant_pool \<Rightarrow> rbs_constant \<Rightarrow> 32 word \<Rightarrow> (32 word \<times> rbs_constant_pool) pool_result"
where
  "insert_probe pool c type =
     (if \<not> is_power_of_two (capacity pool) then Inl Assertion_failed
      else let msk = capacity pool - 1; hash = rbs_constant_pool_hash (c_bytes c) in
        case bucket_probe (\<lambda>b. b_id b = RBS_CONSTANT_ID_UNSET \<or> bucket_matches pool (c_bytes c) b)
               (buckets pool) msk (unat (capacity pool)) (hash AND msk) of
          None \<Rightarrow> Inl Probe_loops
        | Some index \<Rightarrow>
            if b_id (buckets pool ! unat index) \<noteq> RBS_CONSTANT_ID_UNSET
            then Inr (insert_match pool (unat index) c type)
            else insert_new pool (unat index) c type)"

definition rbs_constant_pool_insert ::
  "(nat \<Rightarrow> bool) \<Rightarrow> rbs_constant_pool \<Rightarrow> rbs_constant \<Rightarrow> 32 word \<Rightarrow> (32 word \<times> rbs_constant_pool) pool_result"
where
  "rbs_constant_pool_insert calloc_ok pool c type =
     (if pool_size pool \<ge> capacity pool div 4 * 3 then
        (case rbs_constant_pool_resize calloc_ok pool of
           Inl e \<Rightarrow> Inl e
         | Inr (ok, pool') \<Rightarrow>
             if \<not> ok then Inr (RBS_CONSTANT_ID_UNSET, pool') else insert_probe pool' c type)
      else insert_probe pool c type)"

definition rbs_constant_pool_insert_shared ::
  "(nat \<Rightarrow> bool) \<Rightarrow> rbs_constant_pool \<Rightarrow> rbs_constant \<Rightarrow> (32 word \<times> rbs_constant_pool) pool_result"
where
  "rbs_constant_pool_insert_shared calloc_ok pool c =
     rbs_constant_pool_insert calloc_ok pool c RBS_CONSTANT_POOL_BUCKET_DEFAULT"

definition rbs_constant_pool_insert_owned ::
  "(nat \<Rightarrow> bool) \<Rightarrow> rbs_constant_pool \<Rightarrow> rbs_constant \<Rightarrow> (32 word \<times> rbs_constant_pool) pool_result"
where
  "rbs_constant_pool_insert_owned calloc_ok pool c =
     rbs_constant_pool_insert calloc_ok pool c RBS_CONSTANT_POOL_BUCKET_OWNED"

definition rbs_constant_pool_insert_constant ::
  "(nat \<Rightarrow> bool) \<Rightarrow> rbs_constant_pool \<Rightarrow> rbs_constant \<Rightarrow> (32 word \<times> rbs_constant_pool) pool_result"
where
  "rbs_constant_pool_insert_constant calloc_ok pool c =
     rbs_constant_pool_insert calloc_ok pool c RBS_CONSTANT_POOL_BUCKET_CONSTANT"

text \<open>\<open>rbs_constant_pool_free\<close>: the addresses it passes to \<open>free\<close>, in the order of the buckets.\<close>

definition rbs_constant_pool_free :: "rbs_constant_pool \<Rightarrow> nat list" where
  "rbs_constant_pool_free pool =
     freed pool @ map (\<lambda>b. c_start (constants pool ! unat (b_id b - 1)))
       (filter (\<lambda>b. b_id b \<noteq> RBS_CONSTANT_ID_UNSET \<and> b_type b = RBS_CONSTANT_POOL_BUCKET_OWNED) (buckets pool))"

subsection \<open>Probing\<close>

lemma unat_power_two:
  assumes "k \<le> 31"
  shows "unat ((2 :: 32 word) ^ k) = 2 ^ k"
proof -
  have "(2 :: nat) ^ k < 2 ^ 32" using assms by (intro power_strict_increasing) simp_all
  moreover have "(2 :: 32 word) ^ k = of_nat (2 ^ k)" by simp
  ultimately show ?thesis by (simp only: unat_of_nat) simp
qed

lemma index_step:
  assumes "k \<le> 31" and "unat (i :: 32 word) < 2 ^ k"
  shows "unat ((i + 1) AND (2 ^ k - 1)) = (unat i + 1) mod 2 ^ k"
proof -
  have "(2 :: nat) ^ k \<le> 2 ^ 31" using assms(1) by (rule power_increasing) simp
  with assms(2) have "unat i + 1 < 2 ^ 32" by simp
  then have "unat (i + 1) = unat i + 1" by (simp add: unat_word_ariths)
  then show ?thesis by (simp add: unat_low_bits)
qed

lemma bucket_probe_Some:
  assumes "k \<le> 31" and "unat i < 2 ^ k" and "d < fuel" and "stop (bs ! ((unat i + d) mod 2 ^ k))"
  shows "\<exists>w d'. d' \<le> d \<and> bucket_probe stop bs (2 ^ k - 1) fuel i = Some w \<and>
    unat w = (unat i + d') mod 2 ^ k \<and> stop (bs ! unat w) \<and>
    (\<forall>e<d'. \<not> stop (bs ! ((unat i + e) mod 2 ^ k)))"
  using assms
proof (induction fuel arbitrary: i d)
  case 0
  then show ?case by simp
next
  case (Suc fuel)
  show ?case
  proof (cases "stop (bs ! unat i)")
    case True
    with Suc.prems show ?thesis by (intro exI [of _ i] exI [of _ 0]) simp
  next
    case False
    let ?j = "(i + 1) AND (2 ^ k - 1)"
    have j: "unat ?j = (unat i + 1) mod 2 ^ k" using Suc.prems by (simp add: index_step)
    then have shift: "(unat ?j + e) mod 2 ^ k = (unat i + Suc e) mod 2 ^ k" for e
      by (simp add: mod_simps)
    from False Suc.prems have "d \<noteq> 0" by (auto intro: ccontr)
    then obtain d0 where d: "d = Suc d0" by (cases d) auto
    have "unat ?j < 2 ^ k" using j by simp
    then obtain w d' where w: "d' \<le> d0" "bucket_probe stop bs (2 ^ k - 1) fuel ?j = Some w"
      "unat w = (unat ?j + d') mod 2 ^ k" "stop (bs ! unat w)"
      "\<forall>e<d'. \<not> stop (bs ! ((unat ?j + e) mod 2 ^ k))"
      using Suc.IH [of ?j d0] Suc.prems d shift [of d0] by auto
    have "\<not> stop (bs ! ((unat i + e) mod 2 ^ k))" if "e < Suc d'" for e
      using that w(5) False Suc.prems(2) shift [of "e - 1"] by (cases e) auto
    with w False d shift [of d'] show ?thesis
      by (intro exI [of _ w] exI [of _ "Suc d'"]) simp
  qed
qed

lemma bucket_probe_cong:
  "(\<And>b. b \<in> set bs \<Longrightarrow> f b = g b) \<Longrightarrow> k \<le> 31 \<Longrightarrow> length bs = 2 ^ k \<Longrightarrow> unat i < 2 ^ k \<Longrightarrow>
     bucket_probe f bs (2 ^ k - 1) n i = bucket_probe g bs (2 ^ k - 1) n i"
proof (induction n arbitrary: i)
  case (Suc n)
  have "unat ((i + 1) AND (2 ^ k - 1)) < 2 ^ k" using Suc.prems by (simp add: index_step)
  with Suc show ?case by simp
qed simp

lemma distance_exists:
  assumes "q < (n :: nat)"
  shows "\<exists>d<n. (h + d) mod n = q"
proof -
  let ?d = "(q + (n - h mod n)) mod n"
  have "(h + ?d) mod n = (h mod n + (q + (n - h mod n))) mod n" by (simp add: mod_simps)
  moreover have "h mod n < n" using assms by simp
  moreover from this have "h mod n + (q + (n - h mod n)) = q + n" by simp
  ultimately have "(h + ?d) mod n = q" using assms by simp
  then show ?thesis using assms by (intro exI [of _ ?d]) simp
qed

subsection \<open>The buckets\<close>

text \<open>The buckets in use, and the condition of open addressing: no gap before a bucket's place.\<close>

definition occupants :: "rbs_constant_pool_bucket list \<Rightarrow> rbs_constant_pool_bucket multiset" where
  "occupants bs = filter_mset (\<lambda>b. b_id b \<noteq> 0) (mset bs)"

definition no_gaps :: "nat \<Rightarrow> rbs_constant_pool_bucket list \<Rightarrow> bool" where
  "no_gaps n bs \<longleftrightarrow> (\<forall>p<n. b_id (bs ! p) \<noteq> 0 \<longrightarrow>
     (\<exists>d<n. p = (unat (b_hash (bs ! p)) + d) mod n \<and>
        (\<forall>e<d. b_id (bs ! ((unat (b_hash (bs ! p)) + e) mod n)) \<noteq> 0)))"

lemma occupants_update:
  assumes "i < length bs" and "b_id (bs ! i) = 0" and "b_id b \<noteq> 0"
  shows "occupants (bs[i := b]) = add_mset b (occupants bs)"
  using assms by (simp add: occupants_def mset_update)

lemma occupants_replace:
  assumes "i < length bs" and "b_id (bs ! i) \<noteq> 0" and "b_id b \<noteq> 0"
  shows "occupants (bs[i := b]) = add_mset b (occupants bs - {#bs ! i#})"
  using assms by (simp add: occupants_def mset_update)

lemma occupants_free_slot:
  assumes "size (occupants bs) < length bs"
  obtains q where "q < length bs" and "b_id (bs ! q) = 0"
proof -
  have "\<exists>b\<in>set bs. b_id b = 0"
  proof (rule ccontr)
    assume "\<not> ?thesis"
    then have "occupants bs = mset bs"
      by (auto simp: occupants_def filter_mset_eq_conv)
    with assms show False by simp
  qed
  with that show thesis by (auto simp: in_set_conv_nth)
qed

lemma no_gaps_put:
  assumes "k \<le> 31" and "length bs = 2 ^ k" and "no_gaps (2 ^ k) bs"
    and "q < 2 ^ k" and "b_id (bs ! q) = 0" and "b_id b \<noteq> 0"
  shows "\<exists>w. bucket_probe (\<lambda>x. b_id x = 0) bs (2 ^ k - 1) (2 ^ k) (b_hash b AND (2 ^ k - 1)) = Some w \<and>
    unat w < 2 ^ k \<and> b_id (bs ! unat w) = 0 \<and> no_gaps (2 ^ k) (bs[unat w := b])"
proof -
  let ?n = "2 ^ k :: nat" and ?i = "b_hash b AND (2 ^ k - 1)"
  have i: "unat ?i = unat (b_hash b) mod ?n" by (rule unat_low_bits)
  obtain d where "d < ?n" and "(unat ?i + d) mod ?n = q" using distance_exists [OF assms(4)] by blast
  with assms(5) bucket_probe_Some [of k ?i d ?n "\<lambda>x. b_id x = 0" bs] assms(1) i
  obtain w d' where d': "d' \<le> d"
    and w: "bucket_probe (\<lambda>x. b_id x = 0) bs (2 ^ k - 1) ?n ?i = Some w" "unat w = (unat ?i + d') mod ?n"
      "b_id (bs ! unat w) = 0" and before: "\<forall>e<d'. b_id (bs ! ((unat ?i + e) mod ?n)) \<noteq> 0"
    by auto
  have shift: "(unat ?i + e) mod ?n = (unat (b_hash b) + e) mod ?n" for e using i by (simp add: mod_simps)
  let ?bs = "bs[unat w := b]"
  have keep: "b_id (?bs ! p) \<noteq> 0" if "b_id (bs ! p) \<noteq> 0" "p < ?n" for p
    using that assms(2,6) by (cases "p = unat w") auto
  have "no_gaps ?n ?bs"
    unfolding no_gaps_def
  proof (intro allI impI)
    fix p assume p: "p < ?n" "b_id (?bs ! p) \<noteq> 0"
    show "\<exists>d<?n. p = (unat (b_hash (?bs ! p)) + d) mod ?n \<and>
        (\<forall>e<d. b_id (?bs ! ((unat (b_hash (?bs ! p)) + e) mod ?n)) \<noteq> 0)"
    proof (cases "p = unat w")
      case True
      with p assms(2) have b: "?bs ! p = b" by simp
      from \<open>d < ?n\<close> d' have "d' < ?n" by simp
      moreover have "\<forall>e<d'. b_id (?bs ! ((unat (b_hash b) + e) mod ?n)) \<noteq> 0"
        using before shift keep by simp
      ultimately show ?thesis using True w(2) shift [of d'] b by auto
    next
      case False
      then have same: "?bs ! p = bs ! p" by simp
      with assms(3) p obtain d where "d < ?n" "p = (unat (b_hash (bs ! p)) + d) mod ?n"
        "\<forall>e<d. b_id (bs ! ((unat (b_hash (bs ! p)) + e) mod ?n)) \<noteq> 0"
        unfolding no_gaps_def by metis
      with keep same show ?thesis by (intro exI [of _ d]) simp
    qed
  qed
  moreover have "unat w < ?n" using w(2) by simp
  ultimately show ?thesis using w by blast
qed

lemma resize_buckets_ok:
  assumes "k \<le> 31"
  shows "length bs' = 2 ^ k \<Longrightarrow> no_gaps (2 ^ k) bs' \<Longrightarrow>
    size (occupants bs) + size (occupants bs') < 2 ^ k \<Longrightarrow>
    \<exists>r. resize_buckets (2 ^ k - 1) bs bs' = Inr r \<and> length r = 2 ^ k \<and> no_gaps (2 ^ k) r \<and>
      occupants r = occupants bs + occupants bs'"
proof (induction bs arbitrary: bs')
  case Nil
  then show ?case by (simp add: occupants_def)
next
  case (Cons b bs)
  show ?case
  proof (cases "b_id b = 0")
    case True
    with Cons.IH [of bs'] Cons.prems show ?thesis
      by (simp add: resize_bucket_def RBS_CONSTANT_ID_UNSET_def occupants_def)
  next
    case False
    then have occ: "occupants (b # bs) = add_mset b (occupants bs)" by (simp add: occupants_def)
    with Cons.prems have "size (occupants bs') < length bs'" by simp
    then obtain q where "q < 2 ^ k" "b_id (bs' ! q) = 0"
      using Cons.prems(1) by (metis occupants_free_slot)
    with no_gaps_put [OF assms Cons.prems(1,2) _ _ False] obtain w where
      w: "bucket_probe (\<lambda>x. b_id x = 0) bs' (2 ^ k - 1) (2 ^ k) (b_hash b AND (2 ^ k - 1)) = Some w"
        "unat w < 2 ^ k" "b_id (bs' ! unat w) = 0" "no_gaps (2 ^ k) (bs'[unat w := b])" by blast
    let ?next = "bs'[unat w := b]"
    have "occupants ?next = add_mset b (occupants bs')"
      using w False Cons.prems(1) by (simp add: occupants_update)
    with Cons.IH [of ?next] Cons.prems w occ obtain r where
      "resize_buckets (2 ^ k - 1) bs ?next = Inr r" "length r = 2 ^ k" "no_gaps (2 ^ k) r"
      "occupants r = add_mset b (occupants bs + occupants bs')" by auto
    with w False Cons.prems(1) occ show ?thesis
      by (simp add: resize_bucket_def RBS_CONSTANT_ID_UNSET_def)
  qed
qed

lemma fresh_buckets:
  "length (replicate n zero_bucket) = n" "no_gaps n (replicate n zero_bucket)"
  "occupants (replicate n zero_bucket) = {#}"
  by (auto simp: no_gaps_def zero_bucket_def occupants_def)

subsection \<open>The invariant and the abstraction\<close>

text \<open>The strings of the pool in the order of their ids, which count from 1.\<close>

definition pool_contents :: "rbs_constant_pool \<Rightarrow> byte list list" where
  "pool_contents p = map c_bytes (take (unat (pool_size p)) (constants p))"

definition pool_inv_at :: "nat \<Rightarrow> rbs_constant_pool \<Rightarrow> bool" where
  "pool_inv_at k p \<longleftrightarrow> k \<le> 31 \<and> capacity p = 2 ^ k \<and>
     length (buckets p) = 2 ^ k \<and> length (constants p) = 2 ^ k \<and> unat (pool_size p) < 2 ^ k \<and>
     unat (pool_size p) < 2 ^ 30 \<and> no_gaps (2 ^ k) (buckets p) \<and>
     image_mset (\<lambda>b. unat (b_id b)) (occupants (buckets p)) = mset [1..<Suc (unat (pool_size p))] \<and>
     distinct (pool_contents p) \<and>
     (\<forall>b\<in>#occupants (buckets p). b_hash b = rbs_constant_pool_hash (pool_contents p ! (unat (b_id b) - 1)))"

definition pool_inv :: "rbs_constant_pool \<Rightarrow> bool" where
  "pool_inv p \<longleftrightarrow> (\<exists>k. pool_inv_at k p)"

lemma power_of_two_ok: "k \<le> 31 \<Longrightarrow> is_power_of_two (2 ^ k)"
proof -
  assume "k \<le> 31"
  then have "unat ((2 :: 32 word) ^ k AND (2 ^ k - 1)) = 0"
    by (simp only: unat_low_bits unat_power_two mod_self)
  then show ?thesis by (simp add: is_power_of_two_def unat_eq_0)
qed

text \<open>The position of a string in a list without duplicates, counted from 1, or 0.\<close>

fun intern_id :: "'a list \<Rightarrow> 'a \<Rightarrow> nat" where
  "intern_id [] x = 0"
| "intern_id (y # ys) x = (if x = y then 1 else if intern_id ys x = 0 then 0 else Suc (intern_id ys x))"

lemma intern_id_0 [simp]: "intern_id xs x = 0 \<longleftrightarrow> x \<notin> set xs"
  by (induction xs) auto

lemma intern_id_le: "intern_id xs x \<le> length xs"
  by (induction xs) auto

lemma intern_id_nth: "x \<in> set xs \<Longrightarrow> xs ! (intern_id xs x - Suc 0) = x"
proof (induction xs)
  case (Cons y ys)
  then show ?case by (cases "intern_id ys x") auto
qed simp

lemma intern_id_unique: "distinct xs \<Longrightarrow> i < length xs \<Longrightarrow> intern_id xs (xs ! i) = Suc i"
proof (induction xs arbitrary: i)
  case (Cons y ys)
  then show ?case by (cases i) auto
qed simp

lemma intern_id_append: "x \<in> set xs \<Longrightarrow> intern_id (xs @ ys) x = intern_id xs x"
  by (induction xs) auto

lemma intern_id_snoc: "x \<notin> set xs \<Longrightarrow> intern_id (xs @ [x]) x = Suc (length xs)"
  by (induction xs) auto

text \<open>What the invariant says of a bucket in use.\<close>

lemma occupant_id:
  assumes "pool_inv_at k p" and "b \<in># occupants (buckets p)"
  shows "1 \<le> unat (b_id b)" and "unat (b_id b) \<le> unat (pool_size p)"
    and "unat (b_id b - 1) = unat (b_id b) - 1"
    and "c_bytes (constants p ! unat (b_id b - 1)) = pool_contents p ! (unat (b_id b) - 1)"
proof -
  have "unat (b_id b) \<in># image_mset (\<lambda>b. unat (b_id b)) (occupants (buckets p))"
    using assms(2) by simp
  with assms(1) have "unat (b_id b) \<in># mset [1..<Suc (unat (pool_size p))]"
    unfolding pool_inv_at_def by metis
  then have le: "1 \<le> unat (b_id b) \<and> unat (b_id b) \<le> unat (pool_size p)" by auto
  then show "1 \<le> unat (b_id b)" and "unat (b_id b) \<le> unat (pool_size p)" by auto
  have "b_id b \<noteq> 0" using assms(2) by (simp add: occupants_def)
  then show pred: "unat (b_id b - 1) = unat (b_id b) - 1" by (simp add: unat_minus_one)
  with le assms(1) show "c_bytes (constants p ! unat (b_id b - 1)) = pool_contents p ! (unat (b_id b) - 1)"
    by (auto simp: pool_contents_def pool_inv_at_def)
qed

lemma size_occupants:
  assumes "pool_inv_at k p"
  shows "size (occupants (buckets p)) = unat (pool_size p)"
proof -
  have "size (occupants (buckets p)) = size (image_mset (\<lambda>b. unat (b_id b)) (occupants (buckets p)))" by simp
  also have "\<dots> = unat (pool_size p)" using assms by (simp add: pool_inv_at_def del: size_image_mset)
  finally show ?thesis .
qed

lemma length_pool_contents: "pool_inv_at k p \<Longrightarrow> length (pool_contents p) = unat (pool_size p)"
  by (simp add: pool_contents_def pool_inv_at_def)

lemma occupant_of_string:
  assumes "pool_inv_at k p" and "x \<in> set (pool_contents p)"
  obtains b where "b \<in># occupants (buckets p)" and "unat (b_id b) = intern_id (pool_contents p) x"
proof -
  let ?i = "intern_id (pool_contents p) x"
  have "1 \<le> ?i \<and> ?i \<le> unat (pool_size p)"
    using assms intern_id_le [of "pool_contents p" x] intern_id_0 [of "pool_contents p" x]
    by (auto simp: length_pool_contents Suc_le_eq simp del: intern_id_0)
  then have "?i \<in># mset [1..<Suc (unat (pool_size p))]" by auto
  then have "?i \<in># image_mset (\<lambda>b. unat (b_id b)) (occupants (buckets p))"
    using assms(1) by (simp add: pool_inv_at_def)
  with that show thesis by auto
qed

lemma matches_iff:
  assumes "pool_inv_at k p" and "b \<in># occupants (buckets p)"
  shows "bucket_matches p x b \<longleftrightarrow> x \<in> set (pool_contents p) \<and> unat (b_id b) = intern_id (pool_contents p) x"
proof -
  note id = occupant_id [OF assms]
  let ?j = "unat (b_id b) - 1"
  have j: "?j < length (pool_contents p)" using id assms by (simp add: length_pool_contents)
  have distinct: "distinct (pool_contents p)" using assms(1) by (simp add: pool_inv_at_def)
  show ?thesis
    using id j intern_id_unique [OF distinct j] intern_id_nth [of x "pool_contents p"]
    by (auto simp: bucket_matches_def)
qed

text \<open>Where the probe loop of a lookup stops: at the string's bucket, or at an empty one.\<close>

lemma lookup_probe:
  assumes inv: "pool_inv_at k p"
  shows "\<exists>w. bucket_probe (\<lambda>b. b_id b = 0 \<or> bucket_matches p x b) (buckets p) (2 ^ k - 1) (2 ^ k)
            (rbs_constant_pool_hash x AND (2 ^ k - 1)) = Some w \<and> unat w < 2 ^ k \<and>
          unat (b_id (buckets p ! unat w)) = intern_id (pool_contents p) x"
proof -
  let ?n = "2 ^ k :: nat" and ?bs = "buckets p" and ?h = "rbs_constant_pool_hash x"
  let ?i = "?h AND (2 ^ k - 1)" and ?stop = "\<lambda>b. b_id b = 0 \<or> bucket_matches p x b"
  from inv have k: "k \<le> 31" and len: "length ?bs = ?n" and gaps: "no_gaps ?n ?bs"
    by (simp_all add: pool_inv_at_def)
  have i: "unat ?i = unat ?h mod ?n" by (rule unat_low_bits)
  have shift: "(unat ?i + e) mod ?n = (unat ?h + e) mod ?n" for e using i by (simp add: mod_simps)
  have occ: "?bs ! q \<in># occupants ?bs" if "q < ?n" "b_id (?bs ! q) \<noteq> 0" for q
    using that len by (simp add: occupants_def)
  show ?thesis
  proof (cases "x \<in> set (pool_contents p)")
    case True
    from occupant_of_string [OF inv True] obtain b where b: "b \<in># occupants ?bs"
      "unat (b_id b) = intern_id (pool_contents p) x" .
    then obtain q where q: "q < ?n" "?bs ! q = b" "b_id b \<noteq> 0"
      using len by (auto simp: occupants_def in_set_conv_nth)
    have "b_hash b = ?h"
      using inv b True by (simp add: pool_inv_at_def intern_id_nth)
    with gaps q obtain d where d: "d < ?n" "q = (unat ?h + d) mod ?n"
      "\<forall>e<d. b_id (?bs ! ((unat ?h + e) mod ?n)) \<noteq> 0"
      unfolding no_gaps_def by metis
    have "?stop (?bs ! ((unat ?i + d) mod ?n))"
      using d q b True matches_iff [OF inv b(1)] shift by simp
    then obtain w d' where w: "d' \<le> d" "bucket_probe ?stop ?bs (2 ^ k - 1) ?n ?i = Some w"
      "unat w = (unat ?i + d') mod ?n" "?stop (?bs ! unat w)"
      using bucket_probe_Some [of k ?i d ?n ?stop ?bs] k i d(1) by auto
    have "b_id (?bs ! unat w) \<noteq> 0"
      using w d q shift by (cases "d' = d") auto
    moreover have "unat w < ?n" using w(3) by simp
    ultimately have "bucket_matches p x (?bs ! unat w)" "?bs ! unat w \<in># occupants ?bs"
      using w(4) occ by auto
    with w(2) \<open>unat w < ?n\<close> matches_iff [OF inv] show ?thesis by blast
  next
    case False
    from inv size_occupants [OF inv] obtain q where "q < ?n" "b_id (?bs ! q) = 0"
      by (metis len occupants_free_slot pool_inv_at_def)
    moreover obtain d where "d < ?n" "(unat ?i + d) mod ?n = q"
      using distance_exists [OF \<open>q < ?n\<close>] by blast
    ultimately obtain w d' where w: "bucket_probe ?stop ?bs (2 ^ k - 1) ?n ?i = Some w"
      "unat w = (unat ?i + d') mod ?n" "?stop (?bs ! unat w)"
      using bucket_probe_Some [of k ?i d ?n ?stop ?bs] k i by auto
    have "unat w < ?n" using w(2) by simp
    with w(3) False occ matches_iff [OF inv] have "b_id (?bs ! unat w) = 0" by blast
    with w \<open>unat w < ?n\<close> False show ?thesis by (intro exI [of _ w]) simp
  qed
qed

lemma find_value:
  assumes "pool_inv p"
  shows "rbs_constant_pool_find p x = Inr (of_nat (intern_id (pool_contents p) x))"
proof -
  from assms obtain k where inv: "pool_inv_at k p" by (auto simp: pool_inv_def)
  then have k: "k \<le> 31" "capacity p = 2 ^ k" by (simp_all add: pool_inv_at_def)
  from lookup_probe [OF inv, of x] obtain w where
    w: "bucket_probe (\<lambda>b. b_id b = 0 \<or> bucket_matches p x b) (buckets p) (2 ^ k - 1) (2 ^ k)
            (rbs_constant_pool_hash x AND (2 ^ k - 1)) = Some w"
      "unat (b_id (buckets p ! unat w)) = intern_id (pool_contents p) x" by blast
  from w(2) have "b_id (buckets p ! unat w) = of_nat (intern_id (pool_contents p) x)"
    by (simp flip: w(2))
  with w k show ?thesis
    by (simp add: rbs_constant_pool_find_def power_of_two_ok unat_power_two RBS_CONSTANT_ID_UNSET_def Let_def)
qed

lemma double_capacity:
  assumes "k \<le> 30"
  shows "(2 :: 32 word) ^ k * 2 = 2 ^ Suc k" and "\<not> (2 :: 32 word) ^ k * 2 < 2 ^ k"
proof -
  show eq: "(2 :: 32 word) ^ k * 2 = 2 ^ Suc k" by simp
  have "unat ((2 :: 32 word) ^ k) = 2 ^ k" and "unat ((2 :: 32 word) ^ Suc k) = 2 ^ Suc k"
    using assms by (simp_all only: unat_power_two)
  then show "\<not> (2 :: 32 word) ^ k * 2 < 2 ^ k" unfolding eq word_less_nat_alt by simp
qed

lemma resize_value:
  assumes inv: "pool_inv_at k p" and room: "k \<le> 30" and ok: "calloc_ok (2 ^ Suc k)"
  shows "\<exists>p'. rbs_constant_pool_resize calloc_ok p = Inr (True, p') \<and> pool_inv_at (Suc k) p' \<and>
    pool_size p' = pool_size p \<and> freed p' = freed p \<and>
    occupants (buckets p') = occupants (buckets p) \<and>
    take (unat (pool_size p)) (constants p') = take (unat (pool_size p)) (constants p)"
proof -
  let ?n = "2 ^ Suc k :: nat" and ?s = "unat (pool_size p)"
  from inv have s: "?s < 2 ^ k" by (simp add: pool_inv_at_def)
  have k: "Suc k \<le> 31" using room by simp
  have u: "unat ((2 :: 32 word) ^ Suc k) = ?n" using k by (rule unat_power_two)
  have "size (occupants (buckets p)) + size (occupants (replicate ?n zero_bucket)) < ?n"
    using s size_occupants [OF inv] by (simp add: fresh_buckets)
  with resize_buckets_ok [OF k, of "replicate ?n zero_bucket" "buckets p"] obtain r where
    r: "resize_buckets (2 ^ Suc k - 1) (buckets p) (replicate ?n zero_bucket) = Inr r"
      "length r = ?n" "no_gaps ?n r" "occupants r = occupants (buckets p)"
    by (auto simp only: fresh_buckets add_0_right)
  let ?cs = "take ?s (constants p) @ replicate (?n - ?s) zero_constant"
  let ?p = "p\<lparr>buckets := r, constants := ?cs, capacity := 2 ^ Suc k\<rparr>"
  have cap: "capacity p = 2 ^ k" using inv by (simp add: pool_inv_at_def)
  have "rbs_constant_pool_resize calloc_ok p = Inr (True, ?p)"
    using r(1) ok u power_of_two_ok [of k] room double_capacity [OF room]
    by (simp add: rbs_constant_pool_resize_def cap Let_def del: power_Suc)
  moreover have take: "take ?s ?cs = take ?s (constants p)" using inv by (simp add: pool_inv_at_def)
  moreover from take have "pool_contents ?p = pool_contents p" by (simp add: pool_contents_def)
  then have "pool_inv_at (Suc k) ?p"
    using inv r s k by (simp add: pool_inv_at_def del: upt_Suc)
  ultimately show ?thesis using r(4) by (intro exI [of _ ?p]) simp
qed

text \<open>The strings the pool owns: the starts of the constants of its owned buckets.\<close>

definition pool_owned :: "rbs_constant_pool \<Rightarrow> nat multiset" where
  "pool_owned p = image_mset (\<lambda>b. c_start (constants p ! unat (b_id b - 1)))
     (filter_mset (\<lambda>b. b_type b = RBS_CONSTANT_POOL_BUCKET_OWNED) (occupants (buckets p)))"

lemma pool_owned_cong:
  assumes inv: "pool_inv_at k p" and "occupants (buckets q) = occupants (buckets p)"
    and "take (unat (pool_size p)) (constants q) = take (unat (pool_size p)) (constants p)"
  shows "pool_owned q = pool_owned p"
proof -
  have "constants q ! unat (b_id b - 1) = constants p ! unat (b_id b - 1)"
    if "b \<in># occupants (buckets p)" for b
  proof -
    have "unat (b_id b - 1) < unat (pool_size p)" using occupant_id [OF inv that] by linarith
    then show ?thesis using assms(3) by (metis nth_take)
  qed
  then show ?thesis
    unfolding pool_owned_def assms(2) by (intro image_mset_cong) auto
qed

text \<open>The bucket at a position, and the others.\<close>

lemma occupants_split:
  assumes inv: "pool_inv_at k p" and "i < 2 ^ k" and "b_id (buckets p ! i) \<noteq> 0"
  obtains rest where "occupants (buckets p) = add_mset (buckets p ! i) rest"
    and "\<And>b. b \<in># rest \<Longrightarrow> unat (b_id b) \<noteq> unat (b_id (buckets p ! i))"
proof -
  let ?b = "buckets p ! i"
  have b: "?b \<in># occupants (buckets p)" using assms by (simp add: occupants_def pool_inv_at_def)
  then obtain rest where rest: "occupants (buckets p) = add_mset ?b rest" by (metis multi_member_split)
  have "image_mset (\<lambda>b. unat (b_id b)) (occupants (buckets p)) = mset [1..<Suc (unat (pool_size p))]"
    using inv by (simp add: pool_inv_at_def)
  then have ids: "add_mset (unat (b_id ?b)) (image_mset (\<lambda>b. unat (b_id b)) rest) = mset [1..<Suc (unat (pool_size p))]"
    unfolding rest by simp
  have "count (mset [1..<Suc (unat (pool_size p))]) (unat (b_id ?b)) \<le> 1"
    using distinct_count_atmost_1 [of "[1..<Suc (unat (pool_size p))]"] by (simp del: upt_Suc)
  then have "unat (b_id ?b) \<notin># image_mset (\<lambda>b. unat (b_id b)) rest"
    unfolding ids [symmetric] by (simp add: count_eq_zero_iff)
  then have "unat (b_id b) \<noteq> unat (b_id ?b)" if "b \<in># rest" for b
    using that by (metis image_eqI set_image_mset)
  with rest show thesis using that by blast
qed

subsection \<open>Inserting\<close>

definition ownership :: "rbs_constant_pool \<Rightarrow> nat multiset" where
  "ownership p = mset (freed p) + pool_owned p"

definition taken_over :: "32 word \<Rightarrow> rbs_constant \<Rightarrow> nat multiset" where
  "taken_over type c = (if type = RBS_CONSTANT_POOL_BUCKET_OWNED then {#c_start c#} else {#})"

lemma no_gaps_same:
  assumes "\<And>q. q < n \<Longrightarrow> b_id (cs ! q) = b_id (bs ! q) \<and> b_hash (cs ! q) = b_hash (bs ! q)"
    and "no_gaps n bs" and "0 < n"
  shows "no_gaps n cs"
  using assms unfolding no_gaps_def by simp

lemma insert_match_ok:
  assumes inv: "pool_inv_at k p" and i: "i < 2 ^ k" "b_id (buckets p ! i) \<noteq> 0"
    and match: "insert_match p i c type = (cid, p')"
  shows "cid = b_id (buckets p ! i) \<and> pool_inv_at k p' \<and> pool_contents p' = pool_contents p \<and>
    ownership p' = ownership p + taken_over type c"
proof -
  let ?b = "buckets p ! i"
  let ?j = "unat (b_id ?b - 1)"
  consider (owned) "type = RBS_CONSTANT_POOL_BUCKET_OWNED"
    | (replace) "type \<noteq> RBS_CONSTANT_POOL_BUCKET_OWNED" "b_type ?b = RBS_CONSTANT_POOL_BUCKET_OWNED"
    | (shared) "type \<noteq> RBS_CONSTANT_POOL_BUCKET_OWNED" "b_type ?b \<noteq> RBS_CONSTANT_POOL_BUCKET_OWNED"
    by blast
  then show ?thesis
  proof cases
    case owned
    with match inv show ?thesis
      by (auto simp: insert_match_def Let_def pool_inv_at_def pool_contents_def ownership_def pool_owned_def
          taken_over_def simp del: upt_Suc)
  next
    case shared
    with match inv show ?thesis
      by (auto simp: insert_match_def Let_def ownership_def taken_over_def)
  next
    case replace
    let ?b' = "?b\<lparr>b_type := RBS_CONSTANT_POOL_BUCKET_DEFAULT AND 3\<rparr>" and ?old = "constants p ! ?j"
    let ?cs = "(constants p)[?j := ?old\<lparr>c_start := c_start c\<rparr>]" and ?bs = "(buckets p)[i := ?b']"
    from replace match have id: "cid = b_id ?b"
      and p': "p' = p\<lparr>freed := freed p @ [c_start ?old], constants := ?cs, buckets := ?bs\<rparr>"
      by (auto simp: insert_match_def Let_def)
    from inv i occupants_split [OF inv i] obtain rest where
      rest: "occupants (buckets p) = add_mset ?b rest"
      and others: "\<And>b. b \<in># rest \<Longrightarrow> unat (b_id b) \<noteq> unat (b_id ?b)" by blast
    have len: "length (buckets p) = 2 ^ k" using inv by (simp add: pool_inv_at_def)
    have occ: "occupants ?bs = add_mset ?b' rest"
      using occupants_replace [of i "buckets p" ?b'] len i rest by simp
    have j: "?j < unat (pool_size p)" "?j < length (constants p)"
      using occupant_id [OF inv, of ?b] rest inv by (auto simp: pool_inv_at_def)
    have bytes: "map c_bytes ?cs = map c_bytes (constants p)"
      using j by (simp add: map_update) (metis list_update_id nth_map)
    then have contents: "pool_contents p' = pool_contents p"
      by (simp add: p' pool_contents_def take_map [symmetric])
    have gaps: "no_gaps (2 ^ k) ?bs"
    proof (rule no_gaps_same [of "2 ^ k" ?bs "buckets p"])
      show "b_id (?bs ! q) = b_id (buckets p ! q) \<and> b_hash (?bs ! q) = b_hash (buckets p ! q)" if "q < 2 ^ k" for q
        using that len by (cases "q = i") simp_all
    qed (use inv in \<open>simp_all add: pool_inv_at_def\<close>)
    have inv': "pool_inv_at k p'"
      using inv gaps rest occ contents
      by (simp add: pool_inv_at_def p' del: upt_Suc)
    have far: "unat (b_id b - 1) \<noteq> ?j" if "b \<in># rest" for b
    proof -
      have "b \<in># occupants (buckets p)" "?b \<in># occupants (buckets p)" using rest that by simp_all
      from occupant_id [OF inv this(1)] occupant_id [OF inv this(2)] others [OF that] show ?thesis by linarith
    qed
    have "image_mset (\<lambda>b. c_start (?cs ! unat (b_id b - 1))) (filter_mset (\<lambda>b. b_type b = RBS_CONSTANT_POOL_BUCKET_OWNED) rest)
        = image_mset (\<lambda>b. c_start (constants p ! unat (b_id b - 1))) (filter_mset (\<lambda>b. b_type b = RBS_CONSTANT_POOL_BUCKET_OWNED) rest)"
      using far j(2) by (intro image_mset_cong) (fastforce simp: nth_list_update)
    then have "ownership p' = ownership p"
      using occ rest replace(2)
      by (simp add: ownership_def pool_owned_def p' RBS_CONSTANT_POOL_BUCKET_OWNED_def RBS_CONSTANT_POOL_BUCKET_DEFAULT_def)
    with id inv' contents replace(1) show ?thesis by (simp add: taken_over_def)
  qed
qed

lemma insert_new_ok:
  assumes inv: "pool_inv_at k p" and new: "c_bytes c \<notin> set (pool_contents p)"
    and room: "unat (pool_size p) + 1 < 2 ^ k" and small: "unat (pool_size p) + 1 < 2 ^ 30"
    and i: "i < 2 ^ k" "b_id (buckets p ! i) = 0"
    and gaps: "\<And>b. b_hash b = rbs_constant_pool_hash (c_bytes c) \<Longrightarrow> b_id b \<noteq> 0 \<Longrightarrow> no_gaps (2 ^ k) ((buckets p)[i := b])"
    and type: "type \<in> {0, 1, 2}"
  shows "\<exists>id p'. insert_new p i c type = Inr (id, p') \<and> unat id = Suc (unat (pool_size p)) \<and> pool_inv_at k p' \<and>
    pool_contents p' = pool_contents p @ [c_bytes c] \<and> ownership p' = ownership p + taken_over type c"
proof -
  let ?s = "unat (pool_size p)" and ?id = "pool_size p + 1"
  have id: "unat ?id = Suc ?s" using small by (simp add: unat_word_ariths)
  then have lt: "?id < 0x40000000" using small by (simp add: word_less_nat_alt)
  have low: "?id AND 0x3fffffff = ?id"
  proof -
    have "unat (?id AND (2 ^ 30 - 1)) = unat ?id mod 2 ^ 30" by (rule unat_low_bits)
    also have "\<dots> = unat ?id" using id small by simp
    finally show ?thesis by (simp add: word_unat_eq_iff)
  qed
  have type3: "type AND 3 = type" using type by auto
  let ?b = "\<lparr>b_id = ?id, b_type = type, b_hash = rbs_constant_pool_hash (c_bytes c)\<rparr>"
  let ?cs = "(constants p)[?s := c]" and ?bs = "(buckets p)[i := ?b]"
  let ?p = "p\<lparr>pool_size := ?id, buckets := ?bs, constants := ?cs\<rparr>"
  have pred: "?id - 1 = pool_size p" by simp
  have nz: "?id \<noteq> 0" using id by (metis nat.distinct(1) unat_0)
  have result: "insert_new p i c type = Inr (?id, ?p)"
    using lt by (simp add: insert_new_def Let_def low type3 pred)
  from inv have len: "length (buckets p) = 2 ^ k" "length (constants p) = 2 ^ k" by (simp_all add: pool_inv_at_def)
  have occ: "occupants ?bs = add_mset ?b (occupants (buckets p))"
    using i len nz by (intro occupants_update) simp_all
  have contents: "pool_contents ?p = pool_contents p @ [c_bytes c]"
    using room len by (simp add: pool_contents_def id take_list_update_snoc)
  have at: "pool_contents ?p ! (unat (b_id b) - 1) = pool_contents p ! (unat (b_id b) - 1)"
    if "b \<in># occupants (buckets p)" for b
  proof -
    have "unat (b_id b) - 1 < length (pool_contents p)"
      using occupant_id(1,2) [OF inv that] length_pool_contents [OF inv] by linarith
    then show ?thesis by (simp add: contents nth_append)
  qed
  have "(pool_contents p @ [c_bytes c]) ! ?s = c_bytes c"
    using length_pool_contents [OF inv] by (simp add: nth_append)
  then have inv': "pool_inv_at k ?p"
    using inv new room small len gaps [of ?b] nz occ contents at id length_pool_contents [OF inv]
    by (simp add: pool_inv_at_def)
  have owned: "pool_owned ?p = pool_owned p + taken_over type c"
  proof -
    have "?cs ! unat (b_id b - 1) = constants p ! unat (b_id b - 1)" if "b \<in># occupants (buckets p)" for b
      using occupant_id [OF inv that] by simp
    then have same: "image_mset (\<lambda>b. c_start (?cs ! unat (b_id b - 1))) (filter_mset (\<lambda>b. b_type b = RBS_CONSTANT_POOL_BUCKET_OWNED) (occupants (buckets p)))
        = pool_owned p" unfolding pool_owned_def by (intro image_mset_cong) simp
    show ?thesis
      using same room len pred
      by (simp add: pool_owned_def [of ?p] occ taken_over_def)
  qed
  then have "ownership ?p = ownership p + taken_over type c" by (simp add: ownership_def)
  with result id inv' contents show ?thesis by blast
qed

lemma insert_probe_ok:
  assumes inv: "pool_inv_at k p"
    and room: "unat (pool_size p) + 1 < 2 ^ k" and type: "type \<in> {0, 1, 2}"
  shows "(insert_probe p c type = Inl Assertion_failed \<and> c_bytes c \<notin> set (pool_contents p) \<and>
      unat (pool_size p) + 1 = 2 ^ 30) \<or> (\<exists>id p'. insert_probe p c type = Inr (id, p') \<and> pool_inv_at k p' \<and>
    pool_contents p' = (if c_bytes c \<in> set (pool_contents p) then pool_contents p else pool_contents p @ [c_bytes c]) \<and>
    unat id = intern_id (pool_contents p') (c_bytes c) \<and> ownership p' = ownership p + taken_over type c)"
proof -
  let ?x = "c_bytes c" and ?h = "rbs_constant_pool_hash (c_bytes c)"
  let ?probe = "\<lambda>stop. bucket_probe stop (buckets p) (2 ^ k - 1) (2 ^ k) (?h AND (2 ^ k - 1))"
  from inv have k: "k \<le> 31" "capacity p = 2 ^ k" and len: "length (buckets p) = 2 ^ k"
    and gaps: "no_gaps (2 ^ k) (buckets p)" by (simp_all add: pool_inv_at_def)
  from lookup_probe [OF inv, of ?x] obtain w where
    w: "?probe (\<lambda>b. b_id b = 0 \<or> bucket_matches p ?x b) = Some w" "unat w < 2 ^ k"
      "unat (b_id (buckets p ! unat w)) = intern_id (pool_contents p) ?x" by blast
  have step: "insert_probe p c type =
      (if b_id (buckets p ! unat w) \<noteq> 0 then Inr (insert_match p (unat w) c type) else insert_new p (unat w) c type)"
    using w(1) k by (simp add: insert_probe_def power_of_two_ok unat_power_two RBS_CONSTANT_ID_UNSET_def Let_def)
  show ?thesis
  proof (cases "?x \<in> set (pool_contents p)")
    case True
    then have nz: "b_id (buckets p ! unat w) \<noteq> 0" using w(3) by (metis intern_id_0 unat_0)
    obtain id p' where m: "insert_match p (unat w) c type = (id, p')" by (cases "insert_match p (unat w) c type")
    from insert_match_ok [OF inv w(2) nz m] True w(3) m nz step show ?thesis by auto
  next
    case False
    then have z: "b_id (buckets p ! unat w) = 0" using w(3) by (metis intern_id_0 unat_eq_0)
    have "b_id b = 0 \<or> bucket_matches p ?x b \<longleftrightarrow> b_id b = 0" if "b \<in> set (buckets p)" for b
      using that False matches_iff [OF inv, of b ?x] by (auto simp: occupants_def)
    then have "?probe (\<lambda>b. b_id b = 0) = Some w"
      using w(1) k len bucket_probe_cong [of "buckets p" "\<lambda>b. b_id b = 0 \<or> bucket_matches p ?x b" "\<lambda>b. b_id b = 0" k]
      by (simp add: unat_low_bits)
    then have "no_gaps (2 ^ k) ((buckets p)[unat w := b])" if "b_hash b = ?h" "b_id b \<noteq> 0" for b
      using no_gaps_put [OF k(1) len gaps w(2) z that(2)] that(1) by simp
    note gaps' = this
    show ?thesis
    proof (cases "unat (pool_size p) + 1 < 2 ^ 30")
      case small: True
      from insert_new_ok [OF inv False room small w(2) z gaps' type] False step z
      show ?thesis using length_pool_contents [OF inv] by (auto simp: intern_id_snoc)
    next
      case big: False
      with inv have eq: "unat (pool_size p) + 1 = 2 ^ 30" by (simp add: pool_inv_at_def)
      then have "unat (pool_size p + 1) = 2 ^ 30" by (simp add: unat_word_ariths)
      then have "\<not> pool_size p + 1 < 0x40000000" by (simp add: word_less_nat_alt)
      with step z eq False show ?thesis by (simp add: insert_new_def Let_def)
    qed
  qed
qed

lemma room_cases:
  assumes inv: "pool_inv_at k p" and "\<not> capacity p div 4 * 3 \<le> pool_size p"
  shows "unat (pool_size p) + 1 < 2 ^ k"
proof -
  from inv have k: "k \<le> 31" "capacity p = 2 ^ k" by (simp_all add: pool_inv_at_def)
  have n: "unat (capacity p) = 2 ^ k" "(2 :: nat) ^ k \<le> 2 ^ 31"
    using k by (simp_all only: unat_power_two) (rule power_increasing, simp_all)
  have "unat (capacity p div 4 * 3) = 2 ^ k div 4 * 3"
    using n by (simp add: unat_word_ariths unat_div)
  with assms(2) have "unat (pool_size p) < 2 ^ k div 4 * 3" by (simp add: word_le_nat_alt)
  then show ?thesis by linarith
qed

text \<open>Insertion with a table that can grow: the resize happens below a capacity of 2^31.\<close>

lemma insert_value:
  assumes "pool_inv p" and type: "type \<in> {0, 1, 2}"
  shows "(rbs_constant_pool_insert calloc_ok p c type = Inl Assertion_failed \<and>
      c_bytes c \<notin> set (pool_contents p) \<and> unat (pool_size p) + 1 = 2 ^ 30) \<or>
    (rbs_constant_pool_insert calloc_ok p c type = Inr (0, p) \<and> \<not> calloc_ok (2 * unat (capacity p))) \<or>
    (\<exists>id p'. rbs_constant_pool_insert calloc_ok p c type = Inr (id, p') \<and> pool_inv p' \<and>
      pool_contents p' = (if c_bytes c \<in> set (pool_contents p) then pool_contents p else pool_contents p @ [c_bytes c]) \<and>
      unat id = intern_id (pool_contents p') (c_bytes c) \<and> ownership p' = ownership p + taken_over type c)"
proof -
  from assms obtain k where inv: "pool_inv_at k p" by (auto simp: pool_inv_def)
  then have k: "k \<le> 31" "capacity p = 2 ^ k" by (simp_all add: pool_inv_at_def)
  show ?thesis
  proof (cases "capacity p div 4 * 3 \<le> pool_size p")
    case False
    from insert_probe_ok [OF inv room_cases [OF inv False] type, of c] False show ?thesis
      by (auto simp: rbs_constant_pool_insert_def pool_inv_def)
  next
    case True
    have "k \<noteq> 31"
    proof
      assume "k = 31"
      with True k(2) have "(0x80000000 :: 32 word) div 4 * 3 \<le> pool_size p" by simp
      then have "1610612736 \<le> unat (pool_size p)" by (simp add: word_le_nat_alt)
      with inv show False by (simp add: pool_inv_at_def)
    qed
    with k have k30: "k \<le> 30" by simp
    have cap: "unat (capacity p * 2) = 2 ^ Suc k" "2 * unat (capacity p) = 2 ^ Suc k"
      using k k30 by (simp_all only: double_capacity(1) unat_power_two Suc_le_mono power_Suc)
         (simp add: unat_power_two flip: power_Suc)
    show ?thesis
    proof (cases "calloc_ok (2 ^ Suc k)")
      case True': True
      from resize_value [where calloc_ok = calloc_ok, OF inv k30 True'] obtain q where
        q: "rbs_constant_pool_resize calloc_ok p = Inr (True, q)" "pool_inv_at (Suc k) q"
          "pool_size q = pool_size p" "freed q = freed p" "occupants (buckets q) = occupants (buckets p)"
          "take (unat (pool_size p)) (constants q) = take (unat (pool_size p)) (constants p)" by blast
      have same: "pool_contents q = pool_contents p" using q by (simp add: pool_contents_def)
      have "ownership q = ownership p"
        using pool_owned_cong [OF inv q(5,6)] q(4) by (simp add: ownership_def)
      moreover have "unat (pool_size q) + 1 < 2 ^ Suc k" using inv q(3) by (simp add: pool_inv_at_def)
      ultimately show ?thesis
        using insert_probe_ok [OF q(2) _ type, of c] True q(1,3) same
        by (auto simp: rbs_constant_pool_insert_def pool_inv_def)
    next
      case False
      have "rbs_constant_pool_resize calloc_ok p = Inr (False, p)"
        using False cap k power_of_two_ok [OF k(1)]
        by (simp add: rbs_constant_pool_resize_def Let_def)
      with True False cap show ?thesis
        by (simp add: rbs_constant_pool_insert_def RBS_CONSTANT_ID_UNSET_def)
    qed
  qed
qed

subsection \<open>A new pool\<close>

lemma smear_step:
  assumes "\<And>i. bit x i \<longleftrightarrow> (\<exists>j<n. bit (w :: 32 word) (i + j))"
  shows "bit (x OR drop_bit n x) i \<longleftrightarrow> (\<exists>j<2 * n. bit w (i + j))"
proof
  assume "bit (x OR drop_bit n x) i"
  then consider j where "j < n" "bit w (i + j)" | j where "j < n" "bit w (n + i + j)"
    using assms by (auto simp: bit_or_iff bit_drop_bit_eq)
  then show "\<exists>j<2 * n. bit w (i + j)"
  proof cases
    case (1 j)
    then show ?thesis by (intro exI [of _ j]) simp
  next
    case (2 j)
    then show ?thesis by (intro exI [of _ "n + j"]) (simp add: ac_simps)
  qed
next
  assume "\<exists>j<2 * n. bit w (i + j)"
  then obtain j where j: "j < 2 * n" "bit w (i + j)" by blast
  show "bit (x OR drop_bit n x) i"
  proof (cases "j < n")
    case False
    with j have "bit w (n + i + (j - n))" "j - n < n" by simp_all
    then show ?thesis using assms by (auto simp: bit_or_iff bit_drop_bit_eq)
  qed (use j assms in \<open>auto simp: bit_or_iff\<close>)
qed

definition smear :: "32 word \<Rightarrow> 32 word" where
  "smear v = (let v = v OR drop_bit 1 v; v = v OR drop_bit 2 v; v = v OR drop_bit 4 v;
     v = v OR drop_bit 8 v in v OR drop_bit 16 v)"

lemma bit_smear: "bit (smear w) i \<longleftrightarrow> (\<exists>j<32. bit w (i + j))"
proof -
  let ?a = "w OR drop_bit 1 w" let ?b = "?a OR drop_bit 2 ?a" let ?c = "?b OR drop_bit 4 ?b"
  let ?d = "?c OR drop_bit 8 ?c"
  have "bit w i \<longleftrightarrow> (\<exists>j<1. bit w (i + j))" for i by simp
  from smear_step [OF this] have "bit ?a i \<longleftrightarrow> (\<exists>j<2. bit w (i + j))" for i by simp
  from smear_step [OF this] have "bit ?b i \<longleftrightarrow> (\<exists>j<4. bit w (i + j))" for i by simp
  from smear_step [OF this] have "bit ?c i \<longleftrightarrow> (\<exists>j<8. bit w (i + j))" for i by simp
  from smear_step [OF this] have "bit ?d i \<longleftrightarrow> (\<exists>j<16. bit w (i + j))" for i by simp
  from smear_step [OF this] show ?thesis by (simp add: smear_def Let_def)
qed

lemma smear_mask:
  assumes "2 ^ m \<le> unat w" and "unat w < 2 ^ Suc m"
  shows "smear w = Bit_Operations.mask (Suc m)"
proof (rule bit_word_eqI)
  fix i assume "i < LENGTH(32)"
  have high: "\<not> bit w j" if "m < j" for j
  proof -
    have "(2 :: nat) ^ Suc m \<le> 2 ^ j" using that by (intro power_increasing) simp_all
    with assms(2) have "unat w < 2 ^ j" by simp
    then have "\<not> bit (unat w) j" by (simp add: bit_iff_odd)
    then show ?thesis by (auto simp: bit_unsigned_iff)
  qed
  have top: "bit w m"
  proof -
    have "unat w div 2 ^ m = 1" using assms by (simp add: div_nat_eqI)
    then have "bit (unat w) m" by (simp add: bit_iff_odd)
    then show ?thesis by (simp add: bit_unsigned_iff)
  qed
  then have "m < 32" using bit_imp_le_length [of w m] by simp
  show "bit (smear w) i \<longleftrightarrow> bit (Bit_Operations.mask (Suc m) :: 32 word) i"
  proof (cases "i \<le> m")
    case True
    with top \<open>m < 32\<close> have "\<exists>j<32. bit w (i + j)" by (intro exI [of _ "m - i"]) simp
    with True \<open>m < 32\<close> show ?thesis by (simp add: bit_smear bit_mask_iff)
  next
    case False
    with high show ?thesis by (auto simp: bit_smear bit_mask_iff)
  qed
qed

lemma next_power_of_two_value:
  assumes "unat v \<le> 2 ^ 31"
  shows "\<exists>k\<le>31. next_power_of_two v = 2 ^ k \<and> unat v \<le> 2 ^ k \<and> (\<forall>j<k. 2 ^ j < unat v)"
proof (cases "unat v \<le> 1")
  case True
  then have "v = 0 \<or> v = 1" by (metis One_nat_def le_SucE le_zero_eq unat_1 unat_eq_0 word_unat_eq_iff)
  then show ?thesis by (auto simp: next_power_of_two_def Let_def intro!: exI [of _ 0])
next
  case False
  let ?w = "v - 1"
  have nz: "v \<noteq> 0" using False by auto
  then have w: "unat ?w = unat v - 1" by (rule unat_minus_one)
  with False have "1 \<le> unat ?w" by simp
  then obtain m where m: "2 ^ m \<le> unat ?w" "unat ?w < 2 ^ (m + 1)"
    using ex_power_ivl1 [of 2 "unat ?w"] by auto
  have "next_power_of_two v = smear ?w + 1" using nz by (simp add: next_power_of_two_def smear_def Let_def)
  also have "\<dots> = 2 ^ Suc m"
    using smear_mask [of m ?w] m by (simp add: mask_eq_exp_minus_1)
  finally have r: "next_power_of_two v = 2 ^ Suc m" .
  have "(2 :: nat) ^ m < 2 ^ 31" using m(1) w assms False by linarith
  then have "m < 31" by (simp only: power_strict_increasing_iff)
  moreover have "unat v \<le> 2 ^ Suc m" using m w by simp
  moreover have "2 ^ j < unat v" if "j < Suc m" for j
  proof -
    have "(2 :: nat) ^ j \<le> 2 ^ m" using that by (intro power_increasing) simp_all
    with m(1) w False show ?thesis by linarith
  qed
  ultimately show ?thesis using r by (intro exI [of _ "Suc m"]) (simp del: power_Suc)
qed

lemma init_value:
  assumes "\<And>k. calloc_ok k"
  shows "0x80000000 \<le> n \<Longrightarrow> rbs_constant_pool_init calloc_ok n = None"
    and "n < 0x80000000 \<Longrightarrow> \<exists>p. rbs_constant_pool_init calloc_ok n = Some p \<and> pool_inv p \<and>
      pool_contents p = [] \<and> freed p = [] \<and> unat n \<le> unat (capacity p)"
proof -
  have max: "NOT (0 :: 32 word) div 2 + 1 = 0x80000000" by simp
  show "rbs_constant_pool_init calloc_ok n = None" if "0x80000000 \<le> n"
    using that by (simp add: rbs_constant_pool_init_def Let_def)
  assume n: "n < 0x80000000"
  then have "unat n \<le> 2 ^ 31" by (simp add: word_less_nat_alt)
  then obtain k where k: "k \<le> 31" "next_power_of_two n = 2 ^ k" "unat n \<le> 2 ^ k"
    using next_power_of_two_value by blast
  let ?p = "\<lparr>buckets = replicate (2 ^ k) zero_bucket, constants = replicate (2 ^ k) zero_constant,
    pool_size = 0, capacity = 2 ^ k, freed = []\<rparr>"
  have u: "unat ((2 :: 32 word) ^ k) = 2 ^ k" using k(1) by (rule unat_power_two)
  have "pool_inv_at k ?p" using k(1) by (simp add: pool_inv_at_def fresh_buckets pool_contents_def)
  then have "pool_inv ?p" by (auto simp: pool_inv_def)
  moreover have "rbs_constant_pool_init calloc_ok n = Some ?p"
    using n k u assms by (simp add: rbs_constant_pool_init_def Let_def max not_le)
  ultimately show "\<exists>p. rbs_constant_pool_init calloc_ok n = Some p \<and> pool_inv p \<and>
      pool_contents p = [] \<and> freed p = [] \<and> unat n \<le> unat (capacity p)"
    using k(3) u by (intro exI [of _ ?p]) (simp add: pool_contents_def)
qed

subsection \<open>The interface of the pool\<close>

text \<open>Interning a list of keys one after the other.\<close>

fun intern_all :: "('p \<Rightarrow> 'k \<Rightarrow> (nat \<times> 'p) option) \<Rightarrow> 'p \<Rightarrow> 'k list \<Rightarrow> (nat list \<times> 'p) option" where
  "intern_all intern p [] = Some ([], p)"
| "intern_all intern p (k # ks) =
     (case intern p k of None \<Rightarrow> None
      | Some (i, q) \<Rightarrow> (case intern_all intern q ks of None \<Rightarrow> None | Some (is, r) \<Rightarrow> Some (i # is, r)))"

text \<open>
  What the parser relies on: a table gives each string one id, for ever. The client's lemmas
  are about any such table; \<open>pool\<close> interprets it on the model.
\<close>

locale symbol_table =
  fixes inv :: "'p \<Rightarrow> bool"
    and contents :: "'p \<Rightarrow> 'a list"
    and key :: "'k \<Rightarrow> 'a"
    and intern :: "'p \<Rightarrow> 'k \<Rightarrow> (nat \<times> 'p) option"
  assumes distinct_contents: "inv p \<Longrightarrow> distinct (contents p)"
    and intern_inv: "inv p \<Longrightarrow> intern p k = Some (i, q) \<Longrightarrow> inv q"
    and intern_contents: "inv p \<Longrightarrow> intern p k = Some (i, q) \<Longrightarrow>
      contents q = (if key k \<in> set (contents p) then contents p else contents p @ [key k])"
    and intern_result: "inv p \<Longrightarrow> intern p k = Some (i, q) \<Longrightarrow> i = intern_id (contents q) (key k)"
begin

lemma intern_member: "inv p \<Longrightarrow> intern p k = Some (i, q) \<Longrightarrow> key k \<in> set (contents q)"
  by (simp add: intern_contents)

lemma id_keeps: "inv p \<Longrightarrow> intern p k = Some (i, q) \<Longrightarrow> x \<in> set (contents p) \<Longrightarrow>
    intern_id (contents q) x = intern_id (contents p) x"
  by (simp add: intern_contents intern_id_append)

lemma name_of_id: "inv p \<Longrightarrow> intern p k = Some (i, q) \<Longrightarrow> contents q ! (i - Suc 0) = key k"
  using intern_result intern_member intern_id_nth by fastforce

lemma id_bounds:
  assumes "inv p" and "intern p k = Some (i, q)"
  shows "1 \<le> i" and "i \<le> length (contents q)"
  using intern_result [OF assms] intern_member [OF assms] intern_id_le [of "contents q" "key k"]
    intern_id_0 [of "contents q" "key k"] by (auto simp: Suc_le_eq simp del: intern_id_0)

lemma intern_id_inj: "x \<in> set xs \<Longrightarrow> y \<in> set xs \<Longrightarrow> intern_id xs x = intern_id xs y \<longleftrightarrow> x = y"
  by (metis intern_id_nth)

lemma intern_all_ids:
  "inv p \<Longrightarrow> intern_all intern p ks = Some (is, q) \<Longrightarrow>
     inv q \<and> is = map (\<lambda>k. intern_id (contents q) (key k)) ks \<and> (\<forall>k\<in>set ks. key k \<in> set (contents q)) \<and>
     (\<exists>new. contents q = contents p @ new)"
proof (induction ks arbitrary: p "is" q)
  case (Cons k ks)
  then obtain i r js where step: "intern p k = Some (i, r)" "intern_all intern r ks = Some (js, q)" "is = i # js"
    by (auto split: option.splits)
  from Cons.IH [OF intern_inv [OF Cons.prems(1) step(1)] step(2)] obtain new where
    IH: "inv q" "js = map (\<lambda>k. intern_id (contents q) (key k)) ks"
      "\<forall>k\<in>set ks. key k \<in> set (contents q)" "contents q = contents r @ new" by blast
  have "key k \<in> set (contents r)" using intern_member [OF Cons.prems(1) step(1)] .
  with IH(4) intern_result [OF Cons.prems(1) step(1)] have "i = intern_id (contents q) (key k)"
    by (simp add: intern_id_append)
  moreover have "\<exists>new. contents q = contents p @ new"
    using IH(4) intern_contents [OF Cons.prems(1) step(1)] by (auto split: if_splits)
  ultimately show ?case using IH step(3) \<open>key k \<in> set (contents r)\<close> by auto
qed auto

lemma same_id_iff_same_string:
  assumes "inv p" and "intern_all intern p ks = Some (is, q)" and "i < length ks" and "j < length ks"
  shows "is ! i = is ! j \<longleftrightarrow> key (ks ! i) = key (ks ! j)"
  using intern_all_ids [OF assms(1,2)] assms(3,4) by (simp add: intern_id_inj)

end

text \<open>Interning with memory that does not run out; an assertion that fails gives \<open>None\<close>.\<close>

definition intern_shared :: "rbs_constant_pool \<Rightarrow> rbs_constant \<Rightarrow> (nat \<times> rbs_constant_pool) option" where
  "intern_shared p c =
     (case rbs_constant_pool_insert_shared (\<lambda>_. True) p c of
        Inl e \<Rightarrow> None | Inr (cid, q) \<Rightarrow> Some (unat cid, q))"

lemma intern_shared_value:
  assumes "pool_inv p" and "intern_shared p c = Some (i, q)"
  shows "pool_inv q \<and>
    pool_contents q = (if c_bytes c \<in> set (pool_contents p) then pool_contents p else pool_contents p @ [c_bytes c]) \<and>
    i = intern_id (pool_contents q) (c_bytes c) \<and> ownership q = ownership p"
  using assms insert_value [OF assms(1), of 0 "\<lambda>_. True" c]
  by (auto simp: intern_shared_def rbs_constant_pool_insert_shared_def RBS_CONSTANT_POOL_BUCKET_DEFAULT_def
      taken_over_def RBS_CONSTANT_POOL_BUCKET_OWNED_def split: if_splits)

interpretation pool: symbol_table pool_inv pool_contents c_bytes intern_shared
proof
  show "distinct (pool_contents p)" if "pool_inv p" for p
    using that by (auto simp: pool_inv_def pool_inv_at_def)
qed (use intern_shared_value in \<open>blast+\<close>)


text \<open>A pool to apply the properties to: ''a'' interned in a new pool of one bucket.\<close>

definition new_pool :: rbs_constant_pool where
  "new_pool = \<lparr>buckets = [zero_bucket], constants = [zero_constant], pool_size = 0, capacity = 1, freed = []\<rparr>"

lemma new_pool_init: "rbs_constant_pool_init (\<lambda>_. True) 1 = Some new_pool"
  by (simp add: rbs_constant_pool_init_def next_power_of_two_def new_pool_def Let_def word_le_nat_alt)

lemma new_pool_facts: "pool_inv new_pool" "pool_contents new_pool = []" "pool_size new_pool = 0" "freed new_pool = []"
  by (auto simp: pool_inv_def pool_inv_at_def new_pool_def pool_contents_def no_gaps_def occupants_def
      zero_bucket_def intro!: exI [of _ 0])

subsection \<open>Properties\<close>

text \<open>
  C33. \<open>next_power_of_two\<close>, the bit-smearing code, returns the least power of two that is not
  below its argument, for every argument up to 2^31.
\<close>

theorem next_power_of_two_correct:
  assumes "unat v \<le> 2 ^ 31"
  shows "\<exists>k\<le>31. next_power_of_two v = 2 ^ k \<and> unat v \<le> 2 ^ k \<and> (\<forall>j<k. 2 ^ j < unat v)"
  using assms by (rule next_power_of_two_value)

theorem next_power_of_two_correct_witness:
  "\<exists>k\<le>31. next_power_of_two 26 = 2 ^ k \<and> unat (26 :: 32 word) \<le> 2 ^ k \<and> (\<forall>j<k. 2 ^ j < unat (26 :: 32 word))"
  by (rule next_power_of_two_correct) simp

text \<open>
  C22. \<open>rbs_constant_pool_find\<close> on a well-formed pool always ends its probe loop within one
  round of the table, and returns the position of the string among the strings of the pool
  in the order they were first inserted, counted from 1, or \<open>RBS_CONSTANT_ID_UNSET\<close> when the
  string is not there.
\<close>

theorem constant_pool_find_correct:
  assumes "pool_inv p"
  shows "rbs_constant_pool_find p bs = Inr (of_nat (intern_id (pool_contents p) bs))"
  using assms by (rule find_value)

theorem constant_pool_find_correct_witness: "rbs_constant_pool_find new_pool [97] = Inr 0"
  using constant_pool_find_correct [of new_pool "[97]"] by (simp add: new_pool_facts)

text \<open>
  C19. \<open>rbs_constant_pool_insert\<close> refines interning into a list: on a well-formed pool with
  fewer than 2^30 - 1 strings it ends, keeps the pool well-formed (through a resize as well),
  leaves the strings there with their ids, adds the string at the end exactly when it was not
  there, and returns its position; the only other outcome is the unset id with an unchanged
  pool, when the allocation of a larger table fails. Every owned string is accounted for:
  \<open>ownership\<close>, what was freed with what is still owned, grows by the argument exactly when it
  is passed as owned, so no string is freed twice or forgotten and no shared one is freed.
\<close>

theorem constant_pool_insert_correct:
  assumes "pool_inv p" and "unat (pool_size p) + 1 < 2 ^ 30"
    and "type \<in> {RBS_CONSTANT_POOL_BUCKET_DEFAULT, RBS_CONSTANT_POOL_BUCKET_OWNED, RBS_CONSTANT_POOL_BUCKET_CONSTANT}"
  shows "(rbs_constant_pool_insert calloc_ok p c type = Inr (RBS_CONSTANT_ID_UNSET, p) \<and>
      \<not> calloc_ok (2 * unat (capacity p))) \<or>
    (\<exists>id p'. rbs_constant_pool_insert calloc_ok p c type = Inr (id, p') \<and> pool_inv p' \<and>
      pool_contents p' = (if c_bytes c \<in> set (pool_contents p) then pool_contents p else pool_contents p @ [c_bytes c]) \<and>
      unat id = intern_id (pool_contents p') (c_bytes c) \<and>
      ownership p' = ownership p + (if type = RBS_CONSTANT_POOL_BUCKET_OWNED then {#c_start c#} else {#}))"
  using insert_value [OF assms(1), of type calloc_ok c] assms(2,3)
  by (auto simp: RBS_CONSTANT_POOL_BUCKET_DEFAULT_def RBS_CONSTANT_POOL_BUCKET_OWNED_def
      RBS_CONSTANT_POOL_BUCKET_CONSTANT_def RBS_CONSTANT_ID_UNSET_def taken_over_def)

theorem constant_pool_insert_correct_witness:
  "\<exists>id p'. rbs_constant_pool_insert (\<lambda>_. True) new_pool \<lparr>c_start = 7, c_bytes = [97]\<rparr>
      RBS_CONSTANT_POOL_BUCKET_OWNED = Inr (id, p') \<and> pool_contents p' = [[97]] \<and> unat id = 1"
  using constant_pool_insert_correct [of new_pool RBS_CONSTANT_POOL_BUCKET_OWNED "\<lambda>_. True" "\<lparr>c_start = 7, c_bytes = [97]\<rparr>"]
  by (auto simp: new_pool_facts)


text \<open>
  C32. \<open>rbs_constant_pool_init\<close> refuses a capacity of 2^31 or more; otherwise, memory given, it
  makes a well-formed empty pool with at least the capacity asked for.
\<close>

theorem constant_pool_init_correct:
  "rbs_constant_pool_init (\<lambda>_. True) n =
     (if 0x80000000 \<le> n then None
      else let k = next_power_of_two n in
        Some \<lparr>buckets = replicate (unat k) zero_bucket, constants = replicate (unat k) zero_constant,
              pool_size = 0, capacity = k, freed = []\<rparr>) \<and>
   (case rbs_constant_pool_init (\<lambda>_. True) n of None \<Rightarrow> 0x80000000 \<le> n
    | Some p \<Rightarrow> pool_inv p \<and> pool_contents p = [] \<and> unat n \<le> unat (capacity p))"
proof (cases "0x80000000 \<le> n")
  case True
  with init_value(1) [of "\<lambda>_. True" n] show ?thesis by simp
next
  case False
  then have "n < 0x80000000" by simp
  from init_value(2) [OF _ this, of "\<lambda>_. True"] False show ?thesis
    by (auto simp: rbs_constant_pool_init_def Let_def)
qed


lemma interned_thrice:
  "map_option fst (intern_all intern_shared new_pool
     [\<lparr>c_start = 0, c_bytes = [97]\<rparr>, \<lparr>c_start = 3, c_bytes = [98]\<rparr>, \<lparr>c_start = 9, c_bytes = [97]\<rparr>]) = Some [1, 2, 1]"
  by code_simp


end
