(* ===== verification/Unescape.thy ===== *)
theory Unescape
  imports CString Encoding
begin

unbundle bit_operations_syntax

text \<open>
  \<open>src/util/rbs_unescape.c\<close>: the value of a string literal. The loop writes into a buffer of
  one byte more than the literal has; it is refined to a function on byte lists that reads
  one escape at a time, and the bytes of \<open>\u\<close> escapes are related to the UTF-8 decoder of
  \<open>Encoding\<close>. A string is never a null pointer here and the allocator does not fail.
\<close>

subsection \<open>Character classes and numbers\<close>

text \<open>Characters are \<open>char\<close>, signed, and \<open>isdigit\<close> and the others are those of the C locale.\<close>

definition c_isdigit :: "byte \<Rightarrow> bool" where
  "c_isdigit c \<longleftrightarrow> 48 \<le> c \<and> c \<le> 57"

definition c_isxdigit :: "byte \<Rightarrow> bool" where
  "c_isxdigit c \<longleftrightarrow> 48 \<le> c \<and> c \<le> 57 \<or> 65 \<le> c \<and> c \<le> 70 \<or> 97 \<le> c \<and> c \<le> 102"

definition char_tolower :: "byte \<Rightarrow> int" where
  "char_tolower c = (if 65 \<le> c \<and> c \<le> 90 then sint c + 32 else sint c)"

fun hex_to_int_from :: "int \<Rightarrow> byte list \<Rightarrow> nat \<Rightarrow> int" where
  "hex_to_int_from result (c # hex) (Suc n) =
     hex_to_int_from (result * 16 + (if c_isdigit c then sint c - 48 else char_tolower c - 97 + 10)) hex n"
| "hex_to_int_from result _ _ = result"

definition hex_to_int :: "byte list \<Rightarrow> nat \<Rightarrow> int" where
  "hex_to_int hex n = hex_to_int_from 0 hex n"

fun octal_to_int_from :: "int \<Rightarrow> byte list \<Rightarrow> nat \<Rightarrow> int" where
  "octal_to_int_from result (c # octal) (Suc n) = octal_to_int_from (result * 8 + (sint c - 48)) octal n"
| "octal_to_int_from result _ _ = result"

definition octal_to_int :: "byte list \<Rightarrow> nat \<Rightarrow> int" where
  "octal_to_int octal n = octal_to_int_from 0 octal n"

text \<open>The escape table. \<open>c_string\<close> is a literal with its terminating NUL: \<open>to[0]\<close> of the last entry is that NUL.\<close>

definition c_string :: "byte list \<Rightarrow> byte list" where
  "c_string s = s @ [0]"

definition escape_table :: "(byte list \<times> byte list) list" where
  "escape_table =
     [([92, of_char (CHR ''a'')], c_string [7]),
      ([92, of_char (CHR ''b'')], c_string [8]),
      ([92, of_char (CHR ''e'')], c_string [27]),
      ([92, of_char (CHR ''f'')], c_string [12]),
      ([92, of_char (CHR ''n'')], c_string [10]),
      ([92, of_char (CHR ''r'')], c_string [13]),
      ([92, of_char (CHR ''s'')], c_string [32]),
      ([92, of_char (CHR ''t'')], c_string [9]),
      ([92, of_char (CHR ''v'')], c_string [11]),
      ([92, 34], c_string [34]),
      ([92, 39], c_string [39]),
      ([92, 92], c_string [92]),
      ([92], c_string [])]"

subsection \<open>UTF-8 output\<close>

definition rbs_utf8_fill_codepoint :: "byte list \<Rightarrow> nat \<Rightarrow> nat \<Rightarrow> 32 word \<Rightarrow> byte list \<times> nat" where
  "rbs_utf8_fill_codepoint buf pos bound codepoint =
     (if pos + 4 > bound then (buf, 0)
      else if codepoint \<le> 0x7F then (buf[pos := ucast (codepoint AND 0x7F)], 1)
      else if codepoint \<le> 0x7FF then
        (buf[pos := ucast (0xC0 OR (drop_bit 6 codepoint AND 0x1F)),
             pos + 1 := ucast (0x80 OR (codepoint AND 0x3F))], 2)
      else if codepoint \<le> 0xFFFF then
        (buf[pos := ucast (0xE0 OR (drop_bit 12 codepoint AND 0x0F)),
             pos + 1 := ucast (0x80 OR (drop_bit 6 codepoint AND 0x3F)),
             pos + 2 := ucast (0x80 OR (codepoint AND 0x3F))], 3)
      else if codepoint \<le> 0x10FFFF then
        (buf[pos := ucast (0xF0 OR (drop_bit 18 codepoint AND 0x07)),
             pos + 1 := ucast (0x80 OR (drop_bit 12 codepoint AND 0x3F)),
             pos + 2 := ucast (0x80 OR (drop_bit 6 codepoint AND 0x3F)),
             pos + 3 := ucast (0x80 OR (codepoint AND 0x3F))], 4)
      else (buf, 0))"

subsection \<open>The loop\<close>

text \<open>The inner loop of an octal escape: from \<open>octal_len\<close> digits, how many there are (3 at most).\<close>

function octal_length :: "byte list \<Rightarrow> nat \<Rightarrow> nat \<Rightarrow> nat" where
  "octal_length input i octal_len =
     (if octal_len < 3 \<and> i + 1 + octal_len < length input \<and> c_isdigit (input ! (i + 1 + octal_len))
      then octal_length input i (octal_len + 1) else octal_len)"
  by pat_completeness auto
termination
  by (relation "measure (\<lambda>(input, i, n). 3 - n)") auto

declare octal_length.simps [simp del]

text \<open>
  One round of the loop: the output buffer and the indices \<open>i\<close> (read) and \<open>j\<close> (written).
  \<open>strncmp\<close> with the length of a table entry compares that many bytes.
\<close>

type_synonym unescape_state = "byte list \<times> nat \<times> nat"

definition unescape_step :: "bool \<Rightarrow> bool \<Rightarrow> byte list \<Rightarrow> unescape_state \<Rightarrow> unescape_state" where
  "unescape_step is_double_quote is_unicode input = (\<lambda>(output, i, j).
     let len = length input in
     if input ! i = 92 \<and> i + 1 < len then
       if is_double_quote then
         if c_isdigit (input ! (i + 1)) then
           let octal_len = octal_length input i 1;
               value = octal_to_int (drop (i + 1) input) octal_len
           in (output[j := word_of_int value], i + octal_len + 1, j + 1)
         else if input ! (i + 1) = of_char (CHR ''x'') \<and> i + 3 < len then
           let hex_len = (if c_isxdigit (input ! (i + 3)) then 2 else 1);
               value = hex_to_int (drop (i + 2) input) hex_len
           in (output[j := word_of_int value], i + hex_len + 2, j + 1)
         else if input ! (i + 1) = of_char (CHR ''u'') \<and> i + 5 < len then
           if is_unicode then
             let value = hex_to_int (drop (i + 2) input) 4;
                 (output', n) = rbs_utf8_fill_codepoint output j (len + 1) (word_of_int value)
             in (output', i + 6, j + n)
           else
             (output[j := input ! i, j + 1 := input ! (i + 1), j + 2 := input ! (i + 2),
                     j + 3 := input ! (i + 3), j + 4 := input ! (i + 4), j + 5 := input ! (i + 5)], i + 6, j + 6)
         else
           (case List.find (\<lambda>(from, to). take (length from) (drop i input) = from) escape_table of
              Some (from, to) \<Rightarrow> (output[j := to ! 0], i + length from, j + 1)
            | None \<Rightarrow> (output[j := input ! i], i + 1, j + 1))
       else
         if input ! (i + 1) = 39 \<or> input ! (i + 1) = 92
         then (output[j := input ! (i + 1)], i + 2, j + 1)
         else (output[j := input ! i], i + 1, j + 1)
     else (output[j := input ! i], i + 1, j + 1))"

lemma unescape_step_progress: "i < fst (snd (unescape_step dq uni input (output, i, j)))"
  by (auto simp: unescape_step_def escape_table_def Let_def split: prod.splits)

function unescape_loop :: "bool \<Rightarrow> bool \<Rightarrow> byte list \<Rightarrow> unescape_state \<Rightarrow> unescape_state" where
  "unescape_loop dq uni input s =
     (if fst (snd s) < length input then unescape_loop dq uni input (unescape_step dq uni input s) else s)"
  by pat_completeness auto
termination
proof (relation "measure (\<lambda>(dq, uni, input, s). length input - fst (snd s))")
  fix dq uni input and s :: unescape_state
  obtain out i j where "s = (out, i, j)" by (cases s)
  with unescape_step_progress [of i dq uni input out j]
  show "fst (snd s) < length input \<Longrightarrow>
    ((dq, uni, input, unescape_step dq uni input s), dq, uni, input, s)
      \<in> measure (\<lambda>(dq, uni, input, s). length input - fst (snd s))" by simp
qed simp

declare unescape_loop.simps [simp del]

text \<open>What the allocator hands out is not cleared; nothing reads a byte of it before writing it.\<close>

definition unescape_string :: "rbs_string \<Rightarrow> bool \<Rightarrow> bool \<Rightarrow> rbs_string" where
  "unescape_string string is_double_quote is_unicode =
     (let input = string_bytes string;
          (output, i, j) = unescape_loop is_double_quote is_unicode input (replicate (length input + 1) 0, 0, 0)
      in rbs_string_new (output[j := 0]) 0 j)"

definition rbs_unquote_string :: "rbs_string \<Rightarrow> rbs_encoding \<Rightarrow> rbs_string" where
  "rbs_unquote_string input encoding =
     (let first_char = buffer input ! start input;
          quoted = (first_char = 34 \<or> first_char = 39 \<or> first_char = 96);
          new_start = (if quoted then start input + 1 else start input);
          new_end = (if quoted then end_ptr input - 1 else end_ptr input)
      in unescape_string (rbs_string_new (buffer input) new_start new_end) (first_char = 34)
           (enc_name encoding = ''UTF-8''))"

subsection \<open>The specification\<close>

text \<open>The UTF-8 encoding of a code point; values above 10FFFF have none.\<close>

definition utf8_encode :: "32 word \<Rightarrow> byte list" where
  "utf8_encode c =
     (if c \<le> 0x7F then [ucast (c AND 0x7F)]
      else if c \<le> 0x7FF then
        [ucast (0xC0 OR (drop_bit 6 c AND 0x1F)), ucast (0x80 OR (c AND 0x3F))]
      else if c \<le> 0xFFFF then
        [ucast (0xE0 OR (drop_bit 12 c AND 0x0F)), ucast (0x80 OR (drop_bit 6 c AND 0x3F)),
         ucast (0x80 OR (c AND 0x3F))]
      else if c \<le> 0x10FFFF then
        [ucast (0xF0 OR (drop_bit 18 c AND 0x07)), ucast (0x80 OR (drop_bit 12 c AND 0x3F)),
         ucast (0x80 OR (drop_bit 6 c AND 0x3F)), ucast (0x80 OR (c AND 0x3F))]
      else [])"

definition simple_escape :: "byte \<Rightarrow> byte option" where
  "simple_escape c =
     map_of [(97, 7), (98, 8), (101, 27), (102, 12), (110, 10), (114, 13), (115, 32), (116, 9),
             (118, 11), (34, 34), (39, 39), (92, 92)] c"

text \<open>The bytes the first character or escape of the input stands for, and how many it takes.\<close>

definition unescape_token :: "bool \<Rightarrow> bool \<Rightarrow> byte list \<Rightarrow> byte list \<times> nat" where
  "unescape_token dq uni bs =
     (case bs of
        c # d # r \<Rightarrow>
          if c \<noteq> 92 then ([c], 1)
          else if dq then
            if c_isdigit d then
              let digits = d # takeWhile c_isdigit (take 2 r)
              in ([word_of_int (octal_to_int digits (length digits))], 1 + length digits)
            else if d = of_char (CHR ''x'') \<and> 2 \<le> length r then
              let digits = (if c_isxdigit (r ! 1) then take 2 r else take 1 r)
              in ([word_of_int (hex_to_int digits (length digits))], 2 + length digits)
            else if d = of_char (CHR ''u'') \<and> 4 \<le> length r then
              (if uni then utf8_encode (word_of_int (hex_to_int (take 4 r) 4)) else take 6 bs, 6)
            else (case simple_escape d of Some e \<Rightarrow> ([e], 2) | None \<Rightarrow> ([0], 1))
          else if d = 39 \<or> d = 92 then ([d], 2) else ([c], 1)
      | _ \<Rightarrow> (take 1 bs, 1))"

lemma unescape_token_consumes: "1 \<le> snd (unescape_token dq uni bs)"
  by (auto simp: unescape_token_def Let_def split: list.splits option.splits)

function unescape_bytes :: "bool \<Rightarrow> bool \<Rightarrow> byte list \<Rightarrow> byte list" where
  "unescape_bytes dq uni bs =
     (if bs = [] then []
      else fst (unescape_token dq uni bs) @ unescape_bytes dq uni (drop (snd (unescape_token dq uni bs)) bs))"
  by pat_completeness auto
termination
proof (relation "measure (\<lambda>(dq, uni, bs). length bs)")
  show "bs \<noteq> [] \<Longrightarrow> ((dq, uni, drop (snd (unescape_token dq uni bs)) bs), dq, uni, bs)
      \<in> measure (\<lambda>(dq, uni, bs). length bs)" for dq uni and bs :: "byte list"
    using unescape_token_consumes [of dq uni bs] by simp
qed simp

declare unescape_bytes.simps [simp del]

subsection \<open>Writing into the buffer\<close>

fun write_at :: "'a list \<Rightarrow> nat \<Rightarrow> 'a list \<Rightarrow> 'a list" where
  "write_at buf j [] = buf"
| "write_at buf j (v # vs) = write_at (buf[j := v]) (Suc j) vs"

lemma length_write_at [simp]: "length (write_at buf j vs) = length buf"
  by (induction buf j vs rule: write_at.induct) auto

lemma take_write_at: "j + length vs \<le> length buf \<Longrightarrow> take (j + length vs) (write_at buf j vs) = take j buf @ vs"
proof (induction buf j vs rule: write_at.induct)
  case (2 buf j v vs)
  then show ?case by (simp add: take_list_update_snoc)
qed simp

lemma write_at_several:
  "write_at buf j [] = buf"
  "write_at buf j [a] = buf[j := a]"
  "write_at buf j [a, b] = buf[j := a, Suc j := b]"
  "write_at buf j [a, b, c] = buf[j := a, Suc j := b, j + 2 := c]"
  "write_at buf j [a, b, c, d] = buf[j := a, Suc j := b, j + 2 := c, j + 3 := d]"
  "write_at buf j [a, b, c, d, e, f] = buf[j := a, Suc j := b, j + 2 := c, j + 3 := d, j + 4 := e, j + 5 := f]"
  by (simp_all add: eval_nat_numeral)

declare write_at.simps [simp del]

lemma fill_codepoint_value:
  assumes "pos + 4 \<le> bound"
  shows "rbs_utf8_fill_codepoint buf pos bound c = (write_at buf pos (utf8_encode c), length (utf8_encode c))"
  using assms by (simp add: rbs_utf8_fill_codepoint_def utf8_encode_def write_at_several)

lemma length_utf8_encode: "length (utf8_encode c) \<le> 4"
  by (simp add: utf8_encode_def)

lemma octal_length_value:
  "octal_length input i 1 = 1 + length (takeWhile c_isdigit (take 2 (drop (i + 2) input)))"
proof -
  have three: "octal_length input i 3 = 3" by (simp add: octal_length.simps)
  have two: "octal_length input i 2 = (if i + 3 < length input \<and> c_isdigit (input ! (i + 3)) then 3 else 2)"
    using three by (simp add: octal_length.simps [of input i 2] numeral_3_eq_3)
  have one: "octal_length input i 1 =
      (if i + 2 < length input \<and> c_isdigit (input ! (i + 2)) then octal_length input i 2 else 1)"
    by (simp add: octal_length.simps [of input i "Suc 0"] numeral_2_eq_2)
  consider "length input \<le> i + 2" | "length input = i + 3" | "i + 3 < length input" by linarith
  then show ?thesis
  proof cases
    case 1
    then show ?thesis using one by simp
  next
    case 2
    then have "drop (i + 2) input = [input ! (i + 2)]"
      by (simp add: Cons_nth_drop_Suc [symmetric] numeral_2_eq_2 numeral_3_eq_3)
    with 2 one two show ?thesis by simp
  next
    case 3
    then have "drop (i + 2) input = input ! (i + 2) # input ! (i + 3) # drop (i + 4) input"
      by (simp add: Cons_nth_drop_Suc [symmetric] eval_nat_numeral)
    with 3 one two show ?thesis by simp
  qed
qed

lemma octal_prefix: "octal_to_int_from v bs n = octal_to_int_from v (take n bs) n"
  by (induction v bs n rule: octal_to_int_from.induct) auto

lemma hex_prefix: "hex_to_int_from v bs n = hex_to_int_from v (take n bs) n"
  by (induction v bs n rule: hex_to_int_from.induct) auto

lemma takeWhile_take_digits:
  "take (length (takeWhile P (take n bs))) bs = takeWhile P (take n bs)"
  by (metis min.absorb1 length_takeWhile_le length_take take_take takeWhile_eq_take min.bounded_iff)

lemma find_escape:
  "List.find (\<lambda>(from, to). take (length from) (92 # d # r) = from) escape_table =
     (case simple_escape d of Some e \<Rightarrow> Some ([92, d], c_string [e]) | None \<Rightarrow> Some ([92], c_string []))"
  by (simp add: escape_table_def simple_escape_def)

lemma unescape_step_value:
  assumes i: "i < length input" and j: "j \<le> i" and len: "length out = length input + 1"
    and t: "unescape_token dq uni (drop i input) = (bs, n)"
  shows "unescape_step dq uni input (out, i, j) = (write_at out j bs, i + n, j + length bs)"
    and "length bs \<le> n" and "i + n \<le> length input"
proof -
  let ?thesis = "unescape_step dq uni input (out, i, j) = (write_at out j bs, i + n, j + length bs) \<and>
    length bs \<le> n \<and> i + n \<le> length input"
  have ?thesis
  proof (cases "i + 1 < length input")
    case False
    with i have d: "drop i input = [input ! i]" by (simp add: Cons_nth_drop_Suc [symmetric])
    from t have "bs = [input ! i]" and "n = 1" unfolding d by (simp_all add: unescape_token_def)
    with False i show ?thesis by (simp add: unescape_step_def Let_def write_at_several)
  next
    case True
    let ?c = "input ! i" let ?d = "input ! (i + 1)" let ?r = "drop (i + 2) input"
    have d: "drop i input = ?c # ?d # ?r"
      using i True by (simp add: Cons_nth_drop_Suc [symmetric] numeral_2_eq_2)
    have d1: "drop (Suc i) input = ?d # ?r" using True by (simp add: Cons_nth_drop_Suc [symmetric] numeral_2_eq_2)
    have r: "length ?r = length input - (i + 2)" by simp
    consider (plain) "?c \<noteq> 92" | (single) "?c = 92" "\<not> dq"
      | (octal) "?c = 92" "dq" "c_isdigit ?d"
      | (hex) "?c = 92" "dq" "\<not> c_isdigit ?d" "?d = of_char (CHR ''x'')" "2 \<le> length ?r"
      | (unicode) "?c = 92" "dq" "\<not> c_isdigit ?d" "?d = of_char (CHR ''u'')" "4 \<le> length ?r"
      | (other) "?c = 92" "dq" "\<not> c_isdigit ?d" "\<not> (?d = of_char (CHR ''x'') \<and> 2 \<le> length ?r)"
          "\<not> (?d = of_char (CHR ''u'') \<and> 4 \<le> length ?r)" by blast
    then show ?thesis
    proof cases
      case plain
      with True t show ?thesis by (auto simp: d unescape_step_def unescape_token_def Let_def write_at_several)
    next
      case single
      with True t show ?thesis
        by (auto simp: d unescape_step_def unescape_token_def Let_def write_at_several split: if_splits)
    next
      case octal
      let ?digits = "?d # takeWhile c_isdigit (take 2 ?r)"
      have n: "octal_length input i 1 = length ?digits" unfolding octal_length_value by simp
      have "octal_to_int (?d # ?r) (length ?digits) = octal_to_int ?digits (length ?digits)"
        unfolding octal_to_int_def
        by (subst octal_prefix) (simp add: takeWhile_take_digits)
      moreover have "length ?digits \<le> 1 + length ?r"
        using length_takeWhile_le [of c_isdigit "take 2 ?r"] by simp
      ultimately show ?thesis
        using octal True t n
        by (auto simp: d d1 unescape_step_def unescape_token_def Let_def write_at_several)
    next
      case hex
      let ?n = "if c_isxdigit (?r ! 1) then 2 else 1 :: nat"
      have at: "input ! (i + 3) = ?r ! 1" using hex(5) by (simp add: numeral_3_eq_3 numeral_2_eq_2)
      have "hex_to_int ?r ?n = hex_to_int (take ?n ?r) ?n" unfolding hex_to_int_def by (rule hex_prefix)
      moreover have "i + 3 < length input" using hex(5) by simp
      ultimately show ?thesis
        using hex True t at
        by (auto simp: d unescape_step_def unescape_token_def Let_def write_at_several split: if_splits)
    next
      case unicode
      have long: "i + 5 < length input" using unicode(5) by simp
      have h: "hex_to_int ?r 4 = hex_to_int (take 4 ?r) 4" unfolding hex_to_int_def by (rule hex_prefix)
      have fill: "rbs_utf8_fill_codepoint out j (Suc (length input)) c =
          (write_at out j (utf8_encode c), length (utf8_encode c))" for c
        using long j by (intro fill_codepoint_value) simp
      have six: "take 6 (drop i input) = [?c, ?d, input ! (i + 2), input ! (i + 3), input ! (i + 4), input ! (i + 5)]"
        using long by (simp add: Cons_nth_drop_Suc [symmetric] eval_nat_numeral)
      have tok: "unescape_token dq uni (?c # ?d # ?r) =
          (if uni then utf8_encode (word_of_int (hex_to_int (take 4 ?r) 4)) else take 6 (?c # ?d # ?r), 6)"
        using unicode by (simp add: unescape_token_def)
      have stp: "unescape_step dq uni input (out, i, j) =
          (if uni then (write_at out j (utf8_encode (word_of_int (hex_to_int ?r 4))), i + 6,
                        j + length (utf8_encode (word_of_int (hex_to_int ?r 4))))
           else (write_at out j (take 6 (drop i input)), i + 6, j + 6))"
        using unicode long True by (simp add: unescape_step_def Let_def fill six write_at_several)
      have "length (take 6 (drop i input)) = 6" unfolding six by simp
      moreover have "length (utf8_encode v) \<le> 6" for v using length_utf8_encode [of v] by simp
      moreover have "bs = (if uni then utf8_encode (word_of_int (hex_to_int ?r 4)) else take 6 (drop i input))" "n = 6"
        using t tok unfolding d h by simp_all
      ultimately show ?thesis using stp long by (simp split: if_splits)
    next
      case other
      have "\<not> (?d = of_char (CHR ''x'') \<and> i + 3 < length input)" using other(4) by auto
      moreover have "\<not> (?d = of_char (CHR ''u'') \<and> i + 5 < length input)" using other(5) by auto
      moreover have tok: "(bs, n) = (case simple_escape ?d of Some e \<Rightarrow> ([e], 2) | None \<Rightarrow> ([0], 1))"
        using other t unfolding d by (auto simp: unescape_token_def)
      ultimately have "unescape_step dq uni input (out, i, j) =
          (case simple_escape ?d of Some e \<Rightarrow> (out[j := e], i + 2, j + 1) | None \<Rightarrow> (out[j := 0], i + 1, j + 1))"
        using other(1-3) True find_escape [of ?d ?r]
        by (cases "?d = of_char (CHR ''x'')"; cases "?d = of_char (CHR ''u'')")
          (simp_all add: unescape_step_def Let_def d c_string_def split: option.splits)
      with tok True show ?thesis by (auto simp: write_at_several split: option.splits)
    qed
  qed
  then show "unescape_step dq uni input (out, i, j) = (write_at out j bs, i + n, j + length bs)"
    and "length bs \<le> n" and "i + n \<le> length input" by auto
qed

lemma unescape_loop_value:
  "i \<le> length input \<Longrightarrow> j \<le> i \<Longrightarrow> length out = length input + 1 \<Longrightarrow>
   \<exists>out' j'. unescape_loop dq uni input (out, i, j) = (out', length input, j') \<and>
     length out' = length input + 1 \<and> j' \<le> length input \<and>
     take j' out' = take j out @ unescape_bytes dq uni (drop i input)"
proof (induction "length input - i" arbitrary: i j out rule: less_induct)
  case less
  show ?case
  proof (cases "i < length input")
    case False
    with less.prems have "i = length input" by simp
    with less.prems show ?thesis by (simp add: unescape_loop.simps unescape_bytes.simps)
  next
    case True
    obtain bs n where t: "unescape_token dq uni (drop i input) = (bs, n)" by fastforce
    from unescape_step_value [OF True less.prems(2,3) t] have
      step: "unescape_step dq uni input (out, i, j) = (write_at out j bs, i + n, j + length bs)"
      and n: "length bs \<le> n" "i + n \<le> length input" by auto
    have "1 \<le> n" using unescape_token_consumes [of dq uni "drop i input"] t by simp
    then have smaller: "length input - (i + n) < length input - i" using True by simp
    have le: "j + length bs \<le> i + n" using less.prems(2) n(1) by simp
    have len: "length (write_at out j bs) = length input + 1" using less.prems(3) by simp
    from less.hyps [OF smaller n(2) le len] obtain out' j' where
      r: "unescape_loop dq uni input (write_at out j bs, i + n, j + length bs) = (out', length input, j')"
        "length out' = length input + 1" "j' \<le> length input"
        "take j' out' = take (j + length bs) (write_at out j bs) @ unescape_bytes dq uni (drop (i + n) input)" by blast
    have "take (j + length bs) (write_at out j bs) = take j out @ bs"
      using le n less.prems by (intro take_write_at) simp
    moreover have "unescape_bytes dq uni (drop i input) = bs @ unescape_bytes dq uni (drop (i + n) input)"
      using t True by (simp add: unescape_bytes.simps [of dq uni "drop i input"] add.commute)
    ultimately show ?thesis
      using r step True by (simp add: unescape_loop.simps [of dq uni input "(out, i, j)"])
  qed
qed

lemma unescape_string_value:
  "string_bytes (unescape_string s dq uni) = unescape_bytes dq uni (string_bytes s)"
  "start (unescape_string s dq uni) = 0"
  "end_ptr (unescape_string s dq uni) \<le> length (string_bytes s)"
  "length (buffer (unescape_string s dq uni)) = length (string_bytes s) + 1"
  "buffer (unescape_string s dq uni) ! end_ptr (unescape_string s dq uni) = 0"
proof -
  let ?input = "string_bytes s"
  let ?out = "replicate (length ?input + 1) (0 :: byte)"
  from unescape_loop_value [of 0 ?input 0 ?out dq uni] obtain out' j' where
    r: "unescape_loop dq uni ?input (?out, 0, 0) = (out', length ?input, j')"
      "length out' = length ?input + 1" "j' \<le> length ?input"
      "take j' out' = unescape_bytes dq uni ?input" by auto
  then have eq: "unescape_string s dq uni = \<lparr>buffer = out'[j' := 0], start = 0, end_ptr = j'\<rparr>"
    by (simp add: unescape_string_def rbs_string_new_def)
  have "string_bytes (unescape_string s dq uni) = take j' out'"
    by (simp only: eq string_bytes_def segment_def) simp
  with r show "string_bytes (unescape_string s dq uni) = unescape_bytes dq uni (string_bytes s)" by simp
  show "start (unescape_string s dq uni) = 0"
    "end_ptr (unescape_string s dq uni) \<le> length (string_bytes s)"
    "length (buffer (unescape_string s dq uni)) = length (string_bytes s) + 1"
    "buffer (unescape_string s dq uni) ! end_ptr (unescape_string s dq uni) = 0"
    using r by (simp_all add: eq)
qed

subsection \<open>Quoting\<close>

text \<open>A way to write any bytes in a double-quoted, and in a single-quoted literal.\<close>

definition quote_byte :: "byte \<Rightarrow> byte list" where
  "quote_byte c =
     (case map_of [(7, 97), (8, 98), (27, 101), (12, 102), (10, 110), (13, 114), (32, 115), (9, 116),
                   (11, 118), (34, 34), (39, 39), (92, 92 :: byte)] c of
        Some e \<Rightarrow> [92, e] | None \<Rightarrow> [c])"

definition quote_double :: "byte list \<Rightarrow> byte list" where
  "quote_double bs = [34] @ concat (map quote_byte bs) @ [34]"

definition quote_single_byte :: "byte \<Rightarrow> byte list" where
  "quote_single_byte c = (if c = 39 \<or> c = 92 then [92, c] else [c])"

definition quote_single :: "byte list \<Rightarrow> byte list" where
  "quote_single bs = [39] @ concat (map quote_single_byte bs) @ [39]"

lemma unescape_bytes_Nil [simp]: "unescape_bytes dq uni [] = []"
  by (simp add: unescape_bytes.simps)

lemma unescape_quoted_byte: "unescape_bytes True uni (quote_byte c @ r) = c # unescape_bytes True uni r"
proof -
  have "unescape_token True uni (quote_byte c @ r) = ([c], length (quote_byte c))"
    by (cases r) (auto simp: quote_byte_def unescape_token_def simple_escape_def c_isdigit_def)
  moreover have "quote_byte c \<noteq> []" by (simp add: quote_byte_def split: option.splits)
  ultimately show ?thesis by (simp add: unescape_bytes.simps [of _ _ "quote_byte c @ r"])
qed

lemma unescape_single_byte:
  "unescape_bytes False uni (quote_single_byte c @ r) = c # unescape_bytes False uni r"
  by (cases r) (auto simp: quote_single_byte_def unescape_token_def unescape_bytes.simps [of _ _ "_ # _"])

lemma unescape_quote_double: "unescape_bytes True uni (concat (map quote_byte bs)) = bs"
  by (induction bs) (simp_all add: unescape_quoted_byte)

lemma unescape_quote_single:
  "unescape_bytes False uni (concat (map quote_single_byte bs)) = bs"
  by (induction bs) (simp_all add: unescape_single_byte)

lemma unescape_plain: "92 \<notin> set bs \<Longrightarrow> unescape_bytes dq uni bs = bs"
proof (induction bs)
  case (Cons c r)
  then have "unescape_token dq uni (c # r) = ([c], 1)" by (cases r) (auto simp: unescape_token_def)
  with Cons show ?case by (simp add: unescape_bytes.simps [of _ _ "c # r"])
qed simp

lemma unquote_value:
  assumes "q \<in> {34, 39, 96}"
  shows "string_bytes (rbs_unquote_string (rbs_string_new (q # bs @ [q]) 0 (length bs + 2)) e) =
    unescape_bytes (q = 34) (enc_name e = ''UTF-8'') bs"
proof -
  have "string_bytes (rbs_string_new (q # bs @ [q]) 1 (length bs + 1)) = bs"
    by (simp add: rbs_string_new_def string_bytes_def segment_def)
  then show ?thesis
    using assms unescape_string_value(1) [of "rbs_string_new (q # bs @ [q]) 1 (length bs + 1)"]
    by (auto simp: rbs_unquote_string_def rbs_string_new_def Let_def)
qed

subsection \<open>What is written for a code point decodes to it\<close>

definition tail_byte :: "32 word \<Rightarrow> byte" where
  "tail_byte x = ucast (0x80 OR (x AND 0x3F))"

lemma low_six: "(x :: 32 word) AND 0x3F = take_bit 6 x"
  by (simp add: take_bit_eq_mask mask_eq_exp_minus_1)

lemma tail_byte_low: "(ucast (tail_byte x) :: 32 word) AND 0x3F = x AND 0x3F"
proof (rule bit_word_eqI)
  fix k assume "k < LENGTH(32)"
  have m: "(0x3F :: 32 word) = Bit_Operations.mask 6" "(0x3F :: byte) = Bit_Operations.mask 6"
    by (simp_all add: mask_eq_exp_minus_1)
  have "\<not> bit (0x80 :: 32 word) k" if "k < 6"
  proof -
    have "(0x80 :: 32 word) = 2 ^ 7" by simp
    then show ?thesis using that by (simp only: bit_exp_iff) simp
  qed
  then show "bit ((ucast (tail_byte x) :: 32 word) AND 0x3F) k = bit (x AND 0x3F) k"
    unfolding tail_byte_def m by (auto simp: bit_simps)
qed

lemma tail_byte_unat: "unat (tail_byte x) = 128 + unat x mod 64"
proof -
  have small: "unat (x AND 0x3F) = unat x mod 64"
    using unat_low_bits [of x 6] by simp
  have disj: "0x80 AND (x AND 0x3F) = 0"
    by (subst and.left_commute) simp
  have "0x80 OR (x AND 0x3F) = 0x80 + (x AND 0x3F)"
    using disj by (simp add: disjunctive_add_eq_or)
  then have "unat (0x80 OR (x AND 0x3F)) = 128 + unat x mod 64"
    by (simp add: unat_word_ariths small)
  moreover have "unat x mod 64 < 64" by simp
  ultimately show ?thesis by (simp add: tail_byte_def unsigned_ucast_eq take_bit_eq_mod)
qed

lemma join_six: "(c AND 0x3F) OR push_bit 6 (drop_bit 6 c) = (c :: 32 word)"
proof (rule bit_word_eqI)
  fix k assume "k < LENGTH(32)"
  then show "bit ((c AND 0x3F) OR push_bit 6 (drop_bit 6 c)) k = bit c k"
    unfolding low_six by (cases "k < 6") (auto simp: bit_simps)
qed

lemma word_upto:
  assumes "unat (q :: 32 word) \<le> n"
  shows "q \<in> of_nat ` {0..n}"
proof -
  have "q = of_nat (unat q)" by simp
  with assms show ?thesis by (metis atLeastAtMost_iff image_eqI le0)
qed

lemma codepoint_loop_step:
  "utf_8_codepoint_loop b m i s cp =
     (if i < m then
        let cp' = (if s \<noteq> 0 then (ucast (b ! i) AND 0x3F) OR push_bit 6 cp
                   else drop_bit (utf_8_type (unat (b ! i))) 0xFF AND ucast (b ! i))
        in if utf_8_next s (unat (b ! i)) = 0 then (cp', i + 1)
           else utf_8_codepoint_loop b m (i + 1) (utf_8_next s (unat (b ! i))) cp'
      else (0, 0))"
  using unat_byte [of "b ! i"]
  by (simp add: utf_8_codepoint_loop.simps [of b m i s cp] utf_8_next_def utf_8_types Let_def)

definition lead_bits :: "byte \<Rightarrow> 32 word" where
  "lead_bits b = drop_bit (utf_8_type (unat b)) 0xFF AND ucast b"

lemma lead_checked:
  "list_all (\<lambda>n. let q = of_nat n :: 32 word; b = ucast (0xC0 OR (q AND 0x1F)) :: byte in
     unat b = 192 + n \<and> lead_bits b = q) [2..<32]"
  "list_all (\<lambda>n. let q = of_nat n :: 32 word; b = ucast (0xE0 OR (q AND 0x0F)) :: byte in
     unat b = 224 + n \<and> lead_bits b = q) [0..<16]"
  "list_all (\<lambda>n. let q = of_nat n :: 32 word; b = ucast (0xF0 OR (q AND 0x07)) :: byte in
     unat b = 240 + n \<and> lead_bits b = q) [0..<5]"
  by code_simp+

lemma lead_two:
  assumes "2 \<le> unat q" and "unat q \<le> 31"
  shows "unat (ucast (0xC0 OR (q AND 0x1F)) :: byte) = 192 + unat q \<and>
    lead_bits (ucast (0xC0 OR (q AND 0x1F))) = (q :: 32 word)"
proof -
  have "unat q \<in> set [2..<32]" using assms unfolding set_upt atLeastLessThan_iff by simp
  from bspec [OF lead_checked(1) [unfolded list_all_iff] this] show ?thesis by (simp add: Let_def)
qed

lemma lead_three:
  assumes "unat q \<le> 15"
  shows "unat (ucast (0xE0 OR (q AND 0x0F)) :: byte) = 224 + unat q \<and>
    lead_bits (ucast (0xE0 OR (q AND 0x0F))) = (q :: 32 word)"
proof -
  have "unat q \<in> set [0..<16]" using assms unfolding set_upt atLeastLessThan_iff by simp
  from bspec [OF lead_checked(2) [unfolded list_all_iff] this] show ?thesis by (simp add: Let_def)
qed

lemma lead_four:
  assumes "unat q \<le> 4"
  shows "unat (ucast (0xF0 OR (q AND 0x07)) :: byte) = 240 + unat q \<and>
    lead_bits (ucast (0xF0 OR (q AND 0x07))) = (q :: 32 word)"
proof -
  have "unat q \<in> set [0..<5]" using assms unfolding set_upt atLeastLessThan_iff by simp
  from bspec [OF lead_checked(3) [unfolded list_all_iff] this] show ?thesis by (simp add: Let_def)
qed

lemma unat_drop: "unat (drop_bit n (c :: 32 word)) = unat c div 2 ^ n"
  by (simp only: unat_drop_bit_eq) (simp add: drop_bit_eq_div)

text \<open>A scalar value of Unicode: at most 10FFFF and not a surrogate.\<close>

definition unicode_scalar :: "32 word \<Rightarrow> bool" where
  "unicode_scalar c \<longleftrightarrow> unat c < 0xD800 \<or> 0xE000 \<le> unat c \<and> unat c \<le> 0x10FFFF"

lemma mod_window: "a * 64 \<le> x \<Longrightarrow> x < a * 64 + b \<Longrightarrow> b \<le> 64 \<Longrightarrow> x mod 64 < (b :: nat)"
proof -
  assume le: "a * 64 \<le> x" "x < a * 64 + b" "b \<le> 64"
  then obtain y where x: "x = a * 64 + y" by (metis le_Suc_ex)
  with le have "y < b" and "y < 64" by linarith+
  then show ?thesis unfolding x by simp
qed

lemma decode_encode:
  assumes "unicode_scalar c"
  shows "rbs_utf_8_codepoint (utf8_encode c @ r) = (c, length (utf8_encode c))"
proof -
  let ?b = "utf8_encode c @ r"
  let ?m = "if length ?b > 4 then 4 else length ?b"
  have start: "rbs_utf_8_codepoint ?b = utf_8_codepoint_loop ?b ?m 0 0 0"
    by (simp add: rbs_utf_8_codepoint_def Let_def)
  consider (one) "unat c < 0x80" | (two) "0x80 \<le> unat c" "unat c < 0x800"
    | (three) "0x800 \<le> unat c" "unat c < 0x10000" | (four) "0x10000 \<le> unat c" "unat c \<le> 0x10FFFF"
    using assms unfolding unicode_scalar_def by linarith
  then show ?thesis
  proof cases
    case one
    have "c AND 0x7F = c"
      using one unat_low_bits [of c 7] by (simp add: word_unat_eq_iff)
    then have e: "utf8_encode c = [ucast c]" using one by (simp add: utf8_encode_def word_le_nat_alt)
    have u: "unat (ucast c :: byte) = unat c" using one by (simp add: unsigned_ucast_eq take_bit_eq_mod)
    have "ucast (ucast c :: byte) = c"
      using one by (simp add: word_unat_eq_iff unsigned_ucast_eq take_bit_eq_mod unat_mod_distrib)
    moreover have "0xFF AND c = c"
      using one unat_low_bits [of c 8] by (simp add: word_unat_eq_iff and.commute)
    ultimately have "drop_bit 0 0xFF AND ucast (ucast c :: byte) = c" by simp
    then show ?thesis
      unfolding start using one u by (simp add: e codepoint_loop_step [of _ _ 0] utf_8_next_0 utf_8_type_def Let_def)
  next
    case two
    let ?q = "drop_bit 6 c"
    have q: "2 \<le> unat ?q" "unat ?q \<le> 31" using two by (simp_all add: unat_drop)
    have e: "utf8_encode c = [ucast (0xC0 OR (?q AND 0x1F)), tail_byte c]"
      using two by (simp add: utf8_encode_def word_le_nat_alt tail_byte_def)
    note l = lead_two [OF q]
    let ?lead = "ucast (0xC0 OR (?q AND 0x1F)) :: byte"
    have to_two: "utf_8_next 0 (unat ?lead) = 2" using l q by (simp add: utf_8_next_0)
    have last: "utf_8_next 2 (unat (tail_byte c)) = 0"
      using tail_byte_unat [of c] by (simp add: utf_8_next_tail)
    have first: "drop_bit (utf_8_type (unat ?lead)) 0xFF AND ucast ?lead = ?q"
      using l unfolding lead_bits_def by (rule conjunct2)
    have m: "2 \<le> ?m" by (simp add: e)
    have "utf_8_codepoint_loop ?b ?m 0 0 0 = utf_8_codepoint_loop ?b ?m 1 2 ?q"
      using m to_two first by (simp add: codepoint_loop_step [of _ _ 0] e Let_def)
    also have "\<dots> = (c, 2)"
      using m last tail_byte_low [of c] join_six [of c]
      by (simp add: codepoint_loop_step [of _ _ "Suc 0"] e Let_def)
    finally show ?thesis by (simp add: start) (simp add: e)
  next
    case three
    let ?q = "drop_bit 12 c" and ?p = "drop_bit 6 c"
    have uq: "unat ?q = unat c div 4096" and up: "unat ?p = unat c div 64" by (simp_all add: unat_drop)
    with three have q: "unat ?q \<le> 15" by simp
    have qp: "?q = drop_bit 6 ?p" by simp
    have e: "utf8_encode c = [ucast (0xE0 OR (?q AND 0x0F)), tail_byte ?p, tail_byte c]"
      using three by (simp add: utf8_encode_def word_le_nat_alt tail_byte_def)
    note l = lead_three [OF q]
    let ?lead = "ucast (0xE0 OR (?q AND 0x0F)) :: byte"
    define s where "s = utf_8_next 0 (unat ?lead)"
    have lead_range: "224 \<le> unat ?lead" "unat ?lead \<le> 239" using l q by simp_all
    have s: "s = (if unat ?lead = 0xE0 then 4 else if unat ?lead \<le> 0xEC then 3
        else if unat ?lead = 0xED then 5 else 3)"
      using lead_range by (simp add: s_def utf_8_next_0)
    have second: "utf_8_next s (unat (tail_byte ?p)) = 2"
    proof -
      have "32 \<le> unat ?p mod 64" if "unat ?lead = 0xE0"
      proof -
        from that l uq have "unat c div 4096 = 0" by simp
        with three(1) have "unat c div 64 < 64" and "32 \<le> unat c div 64" by linarith+
        then show ?thesis unfolding up by simp
      qed
      moreover have "unat ?p mod 64 < 32" if "unat ?lead = 0xED"
      proof -
        from that l uq have d: "unat c div 4096 = 13" by simp
        with assms have "unat c < 0xD800" unfolding unicode_scalar_def by linarith
        with d have "13 * 64 \<le> unat c div 64" and "unat c div 64 < 13 * 64 + 32" by linarith+
        then show ?thesis unfolding up by (rule mod_window) simp
      qed
      moreover have "unat ?p mod 64 < 64" by simp
      ultimately show ?thesis
        using s tail_byte_unat [of ?p] by (auto simp: utf_8_next_tail)
    qed
    have third: "utf_8_next 2 (unat (tail_byte c)) = 0"
      using tail_byte_unat [of c] by (simp add: utf_8_next_tail)
    have s_nz: "s \<noteq> 0" using s by simp
    have first: "drop_bit (utf_8_type (unat ?lead)) 0xFF AND ucast ?lead = ?q"
      using l unfolding lead_bits_def by (rule conjunct2)
    have bits: "(c AND 0x3F) OR push_bit 6 ((?p AND 0x3F) OR push_bit 6 ?q) = c"
      using join_six [of ?p] join_six [of c] unfolding qp by simp
    have m: "3 \<le> ?m" by (simp add: e)
    have "utf_8_codepoint_loop ?b ?m 0 0 0 = utf_8_codepoint_loop ?b ?m 1 s ?q"
      using m s_nz first by (simp add: codepoint_loop_step [of _ _ 0] e s_def [symmetric] Let_def)
    also have "\<dots> = utf_8_codepoint_loop ?b ?m 2 2 ((?p AND 0x3F) OR push_bit 6 ?q)"
      using m s_nz second tail_byte_low [of ?p]
      by (simp add: codepoint_loop_step [of _ _ "Suc 0"] e Let_def numeral_2_eq_2)
    also have "\<dots> = (c, 3)"
      using m third tail_byte_low [of c] bits
      by (simp add: codepoint_loop_step [of _ _ 2] e Let_def)
    finally show ?thesis by (simp add: start) (simp add: e)
  next
    case four
    let ?q = "drop_bit 18 c" and ?o = "drop_bit 12 c" and ?p = "drop_bit 6 c"
    have uq: "unat ?q = unat c div 262144" and uo: "unat ?o = unat c div 4096"
      and up: "unat ?p = unat c div 64" by (simp_all add: unat_drop)
    with four have q: "unat ?q \<le> 4" by simp
    have qo: "?q = drop_bit 6 ?o" and op: "?o = drop_bit 6 ?p" by simp_all
    have e: "utf8_encode c = [ucast (0xF0 OR (?q AND 0x07)), tail_byte ?o, tail_byte ?p, tail_byte c]"
      using four by (simp add: utf8_encode_def word_le_nat_alt tail_byte_def)
    note l = lead_four [OF q]
    let ?lead = "ucast (0xF0 OR (?q AND 0x07)) :: byte"
    define s where "s = utf_8_next 0 (unat ?lead)"
    have lead_range: "240 \<le> unat ?lead" "unat ?lead \<le> 244" using l q by simp_all
    have s: "s = (if unat ?lead = 0xF0 then 6 else if unat ?lead \<le> 0xF3 then 7 else 8)"
      using lead_range by (simp add: s_def utf_8_next_0)
    have second: "utf_8_next s (unat (tail_byte ?o)) = 3"
    proof -
      have "16 \<le> unat ?o mod 64" if "unat ?lead = 0xF0"
      proof -
        from that l uq have "unat c div 262144 = 0" by simp
        with four(1) have "unat c div 4096 < 64" and "16 \<le> unat c div 4096" by linarith+
        then show ?thesis unfolding uo by simp
      qed
      moreover have "unat ?o mod 64 < 16" if "\<not> unat ?lead \<le> 0xF3"
      proof -
        from that l uq have "4 \<le> unat c div 262144" by simp
        with four(2) have "4 * 64 \<le> unat c div 4096" and "unat c div 4096 < 4 * 64 + 16" by linarith+
        then show ?thesis unfolding uo by (rule mod_window) simp
      qed
      moreover have "unat ?o mod 64 < 64" by simp
      ultimately show ?thesis
        using s tail_byte_unat [of ?o]
        by (cases "unat ?lead = 0xF0"; cases "unat ?lead \<le> 0xF3") (simp_all add: utf_8_next_tail)
    qed
    have third: "utf_8_next 3 (unat (tail_byte ?p)) = 2" and fourth: "utf_8_next 2 (unat (tail_byte c)) = 0"
      using tail_byte_unat [of c] tail_byte_unat [of ?p] by (simp_all add: utf_8_next_tail)
    have s_nz: "s \<noteq> 0" using s by simp
    have first: "drop_bit (utf_8_type (unat ?lead)) 0xFF AND ucast ?lead = ?q"
      using l unfolding lead_bits_def by (rule conjunct2)
    have bits: "(c AND 0x3F) OR push_bit 6 ((?p AND 0x3F) OR push_bit 6 ((?o AND 0x3F) OR push_bit 6 ?q)) = c"
      using join_six [of ?o] join_six [of ?p] join_six [of c] unfolding qo op by simp
    have m: "4 \<le> ?m" by (simp add: e)
    have "utf_8_codepoint_loop ?b ?m 0 0 0 = utf_8_codepoint_loop ?b ?m 1 s ?q"
      using m s_nz first by (simp add: codepoint_loop_step [of _ _ 0] e s_def [symmetric] Let_def)
    also have "\<dots> = utf_8_codepoint_loop ?b ?m 2 3 ((?o AND 0x3F) OR push_bit 6 ?q)"
      using m s_nz second tail_byte_low [of ?o]
      by (simp add: codepoint_loop_step [of _ _ "Suc 0"] e Let_def numeral_2_eq_2)
    also have "\<dots> = utf_8_codepoint_loop ?b ?m 3 2 ((?p AND 0x3F) OR push_bit 6 ((?o AND 0x3F) OR push_bit 6 ?q))"
      using m third tail_byte_low [of ?p]
      by (simp add: codepoint_loop_step [of _ _ 2] e Let_def)
    also have "\<dots> = (c, 4)"
      using m fourth tail_byte_low [of c] bits
      by (simp add: codepoint_loop_step [of _ _ 3] e Let_def)
    finally show ?thesis by (simp add: start) (simp add: e)
  qed
qed

subsection \<open>Properties\<close>

text \<open>
  C20. \<open>unescape_string\<close> refines the reading of one escape after the other: whatever the
  bytes, the loop ends, the result holds the bytes of \<open>unescape_bytes\<close>, is never longer than
  the literal, and ends in a NUL byte that is still inside the buffer of one byte more.
\<close>

theorem unescape_string_correct:
  "string_bytes (unescape_string s dq uni) = unescape_bytes dq uni (string_bytes s) \<and>
   end_ptr (unescape_string s dq uni) \<le> length (string_bytes s) \<and>
   length (buffer (unescape_string s dq uni)) = length (string_bytes s) + 1 \<and>
   buffer (unescape_string s dq uni) ! end_ptr (unescape_string s dq uni) = 0"
  using unescape_string_value by blast

text \<open>
  C28. Any bytes can be written as a double-quoted literal, each byte that has an escape by
  its escape, and \<open>rbs_unquote_string\<close> reads the literal back, in every encoding.
\<close>

theorem unquote_double_roundtrip:
  "string_bytes (rbs_unquote_string (rbs_string_new (quote_double bs) 0 (length (quote_double bs))) e) = bs"
  using unquote_value [of 34 "concat (map quote_byte bs)" e]
  by (simp add: quote_double_def unescape_quote_double)

text \<open>
  C29. Any bytes can be written as a single-quoted literal, with a backslash before quotes and
  backslashes only, and \<open>rbs_unquote_string\<close> reads the literal back.
\<close>

theorem unquote_single_roundtrip:
  "string_bytes (rbs_unquote_string (rbs_string_new (quote_single bs) 0 (length (quote_single bs))) e) = bs"
  using unquote_value [of 39 "concat (map quote_single_byte bs)" e]
  by (simp add: quote_single_def unescape_quote_single)

text \<open>
  C27. For every scalar value of Unicode the bytes that \<open>rbs_utf8_fill_codepoint\<close> writes,
  followed by anything, are decoded by \<open>rbs_utf_8_codepoint\<close> to that value and their number.
\<close>

theorem fill_codepoint_roundtrip:
  assumes "unicode_scalar c" and "pos + 4 \<le> bound" and "bound \<le> length buf"
  shows "case rbs_utf8_fill_codepoint buf pos bound c of (buf', n) \<Rightarrow>
     1 \<le> n \<and> n \<le> 4 \<and> length buf' = length buf \<and> take pos buf' = take pos buf \<and>
     rbs_utf_8_codepoint (drop pos (take (pos + n) buf') @ r) = (c, n)"
proof -
  let ?e = "utf8_encode c"
  have t: "take (pos + length ?e) (write_at buf pos ?e) = take pos buf @ ?e"
    using assms(2,3) length_utf8_encode [of c] by (intro take_write_at) simp
  have "take pos (write_at buf pos ?e) = take pos (take (pos + length ?e) (write_at buf pos ?e))" by simp
  then have "take pos (write_at buf pos ?e) = take pos buf"
    unfolding t using assms(2,3) by simp
  moreover have "drop pos (take (pos + length ?e) (write_at buf pos ?e)) = ?e"
    unfolding t using assms(2,3) by simp
  moreover have "1 \<le> length ?e"
    using assms(1) by (auto simp: utf8_encode_def unicode_scalar_def word_le_nat_alt)
  ultimately show ?thesis
    using decode_encode [OF assms(1)] length_utf8_encode [of c]
    by (simp add: fill_codepoint_value [OF assms(2)])
qed

theorem fill_codepoint_roundtrip_witness:
  "case rbs_utf8_fill_codepoint [0, 0, 0, 0, 0] 1 5 0x20AC of (buf', n) \<Rightarrow>
     rbs_utf_8_codepoint (drop 1 (take (1 + n) buf')) = (0x20AC, n)"
  using fill_codepoint_roundtrip [where c = "0x20AC" and pos = 1 and bound = 5 and buf = "[0, 0, 0, 0, 0]" and r = "[]"]
  by (simp add: unicode_scalar_def split: prod.splits)

text \<open>
  Deviations of the source that the model keeps. An escape the table does not know is read by
  the last entry, whose \<open>to[0]\<close> is the NUL of an empty literal: the backslash becomes a NUL
  byte. A surrogate is written as three bytes that no decoder accepts. \<open>\x\<close> with one digit at
  the end of a literal is not decoded.
\<close>

lemma unknown_escape_writes_nul: "unescape_bytes True True [92, 113] = [0, 113]"
  by (simp add: unescape_bytes.simps [of _ _ "_ # _"] unescape_token_def simple_escape_def c_isdigit_def)

lemma surrogate_not_utf_8: "rbs_encoding_utf_8_char_width (utf8_encode 0xD800) = 0"
  by (simp add: utf_8_char_width_value utf8_encode_def utf_8_well_formed_width_def utf_8_lead_def in_range_def)

lemma short_hex_escape_kept: "unescape_bytes True True [92, 120, 52] = [0, 120, 52]"
  by (simp add: unescape_bytes.simps [of _ _ "_ # _"] unescape_token_def simple_escape_def c_isdigit_def)

end
