(* ===== verification/LexerState.thy ===== *)
theory LexerState
  imports CString Encoding
begin

text \<open>
  \<open>src/lexstate.c\<close> and \<open>include/rbs/lexer.h\<close>: the state of the lexer and the functions the
  generated lexer is written in. Positions are C \<open>int\<close>s; a source is taken to be shorter
  than 2^31 bytes, so that they are integers here. Code points are naturals.
\<close>

subsection \<open>Tokens, positions, the lexer\<close>

text \<open>
  The enum \<open>RBSTokenType\<close>: its constants are the integers that C gives them.
  \<open>kTODO\<close> stands for \<open>k__TODO__\<close>.
\<close>

datatype RBSTokenType = Token_Type (token_number: int)

definition token_index :: "RBSTokenType \<Rightarrow> nat" where
  "token_index type = nat (token_number type)"

abbreviation NullType :: RBSTokenType where "NullType \<equiv> Token_Type 0"
abbreviation pEOF :: RBSTokenType where "pEOF \<equiv> Token_Type 1"
abbreviation ErrorToken :: RBSTokenType where "ErrorToken \<equiv> Token_Type 2"
abbreviation pLPAREN :: RBSTokenType where "pLPAREN \<equiv> Token_Type 3"
abbreviation pRPAREN :: RBSTokenType where "pRPAREN \<equiv> Token_Type 4"
abbreviation pCOLON :: RBSTokenType where "pCOLON \<equiv> Token_Type 5"
abbreviation pCOLON2 :: RBSTokenType where "pCOLON2 \<equiv> Token_Type 6"
abbreviation pLBRACKET :: RBSTokenType where "pLBRACKET \<equiv> Token_Type 7"
abbreviation pRBRACKET :: RBSTokenType where "pRBRACKET \<equiv> Token_Type 8"
abbreviation pLBRACE :: RBSTokenType where "pLBRACE \<equiv> Token_Type 9"
abbreviation pRBRACE :: RBSTokenType where "pRBRACE \<equiv> Token_Type 10"
abbreviation pHAT :: RBSTokenType where "pHAT \<equiv> Token_Type 11"
abbreviation pARROW :: RBSTokenType where "pARROW \<equiv> Token_Type 12"
abbreviation pFATARROW :: RBSTokenType where "pFATARROW \<equiv> Token_Type 13"
abbreviation pCOMMA :: RBSTokenType where "pCOMMA \<equiv> Token_Type 14"
abbreviation pBAR :: RBSTokenType where "pBAR \<equiv> Token_Type 15"
abbreviation pAMP :: RBSTokenType where "pAMP \<equiv> Token_Type 16"
abbreviation pSTAR :: RBSTokenType where "pSTAR \<equiv> Token_Type 17"
abbreviation pSTAR2 :: RBSTokenType where "pSTAR2 \<equiv> Token_Type 18"
abbreviation pDOT :: RBSTokenType where "pDOT \<equiv> Token_Type 19"
abbreviation pDOT3 :: RBSTokenType where "pDOT3 \<equiv> Token_Type 20"
abbreviation pBANG :: RBSTokenType where "pBANG \<equiv> Token_Type 21"
abbreviation pQUESTION :: RBSTokenType where "pQUESTION \<equiv> Token_Type 22"
abbreviation pLT :: RBSTokenType where "pLT \<equiv> Token_Type 23"
abbreviation pGT :: RBSTokenType where "pGT \<equiv> Token_Type 24"
abbreviation pEQ :: RBSTokenType where "pEQ \<equiv> Token_Type 25"
abbreviation kALIAS :: RBSTokenType where "kALIAS \<equiv> Token_Type 26"
abbreviation kATTRACCESSOR :: RBSTokenType where "kATTRACCESSOR \<equiv> Token_Type 27"
abbreviation kATTRREADER :: RBSTokenType where "kATTRREADER \<equiv> Token_Type 28"
abbreviation kATTRWRITER :: RBSTokenType where "kATTRWRITER \<equiv> Token_Type 29"
abbreviation kBOOL :: RBSTokenType where "kBOOL \<equiv> Token_Type 30"
abbreviation kBOT :: RBSTokenType where "kBOT \<equiv> Token_Type 31"
abbreviation kCLASS :: RBSTokenType where "kCLASS \<equiv> Token_Type 32"
abbreviation kCLASSALIAS :: RBSTokenType where "kCLASSALIAS \<equiv> Token_Type 33"
abbreviation kDEF :: RBSTokenType where "kDEF \<equiv> Token_Type 34"
abbreviation kEND :: RBSTokenType where "kEND \<equiv> Token_Type 35"
abbreviation kEXTEND :: RBSTokenType where "kEXTEND \<equiv> Token_Type 36"
abbreviation kFALSE :: RBSTokenType where "kFALSE \<equiv> Token_Type 37"
abbreviation kIN :: RBSTokenType where "kIN \<equiv> Token_Type 38"
abbreviation kINCLUDE :: RBSTokenType where "kINCLUDE \<equiv> Token_Type 39"
abbreviation kINSTANCE :: RBSTokenType where "kINSTANCE \<equiv> Token_Type 40"
abbreviation kINTERFACE :: RBSTokenType where "kINTERFACE \<equiv> Token_Type 41"
abbreviation kMODULE :: RBSTokenType where "kMODULE \<equiv> Token_Type 42"
abbreviation kMODULEALIAS :: RBSTokenType where "kMODULEALIAS \<equiv> Token_Type 43"
abbreviation kNIL :: RBSTokenType where "kNIL \<equiv> Token_Type 44"
abbreviation kOUT :: RBSTokenType where "kOUT \<equiv> Token_Type 45"
abbreviation kPREPEND :: RBSTokenType where "kPREPEND \<equiv> Token_Type 46"
abbreviation kPRIVATE :: RBSTokenType where "kPRIVATE \<equiv> Token_Type 47"
abbreviation kPUBLIC :: RBSTokenType where "kPUBLIC \<equiv> Token_Type 48"
abbreviation kSELF :: RBSTokenType where "kSELF \<equiv> Token_Type 49"
abbreviation kSINGLETON :: RBSTokenType where "kSINGLETON \<equiv> Token_Type 50"
abbreviation kTOP :: RBSTokenType where "kTOP \<equiv> Token_Type 51"
abbreviation kTRUE :: RBSTokenType where "kTRUE \<equiv> Token_Type 52"
abbreviation kTYPE :: RBSTokenType where "kTYPE \<equiv> Token_Type 53"
abbreviation kUNCHECKED :: RBSTokenType where "kUNCHECKED \<equiv> Token_Type 54"
abbreviation kUNTYPED :: RBSTokenType where "kUNTYPED \<equiv> Token_Type 55"
abbreviation kVOID :: RBSTokenType where "kVOID \<equiv> Token_Type 56"
abbreviation kUSE :: RBSTokenType where "kUSE \<equiv> Token_Type 57"
abbreviation kAS :: RBSTokenType where "kAS \<equiv> Token_Type 58"
abbreviation kTODO :: RBSTokenType where "kTODO \<equiv> Token_Type 59"
abbreviation kATRBS :: RBSTokenType where "kATRBS \<equiv> Token_Type 60"
abbreviation kSKIP :: RBSTokenType where "kSKIP \<equiv> Token_Type 61"
abbreviation kRETURN :: RBSTokenType where "kRETURN \<equiv> Token_Type 62"
abbreviation kMODULESELF :: RBSTokenType where "kMODULESELF \<equiv> Token_Type 63"
abbreviation tLIDENT :: RBSTokenType where "tLIDENT \<equiv> Token_Type 64"
abbreviation tUIDENT :: RBSTokenType where "tUIDENT \<equiv> Token_Type 65"
abbreviation tULIDENT :: RBSTokenType where "tULIDENT \<equiv> Token_Type 66"
abbreviation tULLIDENT :: RBSTokenType where "tULLIDENT \<equiv> Token_Type 67"
abbreviation tNONASCIIIDENT :: RBSTokenType where "tNONASCIIIDENT \<equiv> Token_Type 68"
abbreviation tGIDENT :: RBSTokenType where "tGIDENT \<equiv> Token_Type 69"
abbreviation tAIDENT :: RBSTokenType where "tAIDENT \<equiv> Token_Type 70"
abbreviation tA2IDENT :: RBSTokenType where "tA2IDENT \<equiv> Token_Type 71"
abbreviation tBANGIDENT :: RBSTokenType where "tBANGIDENT \<equiv> Token_Type 72"
abbreviation tEQIDENT :: RBSTokenType where "tEQIDENT \<equiv> Token_Type 73"
abbreviation tQIDENT :: RBSTokenType where "tQIDENT \<equiv> Token_Type 74"
abbreviation pAREF_OPR :: RBSTokenType where "pAREF_OPR \<equiv> Token_Type 75"
abbreviation tOPERATOR :: RBSTokenType where "tOPERATOR \<equiv> Token_Type 76"
abbreviation tCOMMENT :: RBSTokenType where "tCOMMENT \<equiv> Token_Type 77"
abbreviation tLINECOMMENT :: RBSTokenType where "tLINECOMMENT \<equiv> Token_Type 78"
abbreviation tINLINECOMMENT :: RBSTokenType where "tINLINECOMMENT \<equiv> Token_Type 79"
abbreviation tTRIVIA :: RBSTokenType where "tTRIVIA \<equiv> Token_Type 80"
abbreviation tDQSTRING :: RBSTokenType where "tDQSTRING \<equiv> Token_Type 81"
abbreviation tSQSTRING :: RBSTokenType where "tSQSTRING \<equiv> Token_Type 82"
abbreviation tINTEGER :: RBSTokenType where "tINTEGER \<equiv> Token_Type 83"
abbreviation tSYMBOL :: RBSTokenType where "tSYMBOL \<equiv> Token_Type 84"
abbreviation tDQSYMBOL :: RBSTokenType where "tDQSYMBOL \<equiv> Token_Type 85"
abbreviation tSQSYMBOL :: RBSTokenType where "tSQSYMBOL \<equiv> Token_Type 86"
abbreviation tANNOTATION :: RBSTokenType where "tANNOTATION \<equiv> Token_Type 87"

record rbs_position =
  byte_pos :: int
  char_pos :: int
  line :: int
  column :: int

record rbs_range =
  r_start :: rbs_position
  r_end :: rbs_position

record rbs_token =
  tok_type :: RBSTokenType
  tok_range :: rbs_range

record rbs_lexer =
  lx_string :: rbs_string
  start_pos :: int
  end_pos :: int
  lx_current :: rbs_position
  lx_start :: rbs_position
  current_code_point :: nat
  current_character_bytes :: nat
  first_token_of_line :: bool
  lx_encoding :: rbs_encoding

definition NullPosition :: rbs_position where
  "NullPosition = \<lparr>byte_pos = -1, char_pos = -1, line = -1, column = -1\<rparr>"

definition NULL_RANGE :: rbs_range where
  "NULL_RANGE = \<lparr>r_start = NullPosition, r_end = NullPosition\<rparr>"

definition zero_position :: rbs_position where
  "zero_position = \<lparr>byte_pos = 0, char_pos = 0, line = 0, column = 0\<rparr>"

definition NullToken :: rbs_token where
  "NullToken = \<lparr>tok_type = NullType, tok_range = \<lparr>r_start = zero_position, r_end = zero_position\<rparr>\<rparr>"

definition rbs_null_position_p :: "rbs_position \<Rightarrow> bool" where
  "rbs_null_position_p pos \<longleftrightarrow> byte_pos pos = -1"

definition rbs_null_range_p :: "rbs_range \<Rightarrow> bool" where
  "rbs_null_range_p rg \<longleftrightarrow> byte_pos (r_start rg) = -1"

definition rbs_nonnull_pos_or :: "rbs_position \<Rightarrow> rbs_position \<Rightarrow> rbs_position" where
  "rbs_nonnull_pos_or pos1 pos2 = (if rbs_null_position_p pos1 then pos2 else pos1)"

definition rbs_token_chars :: "rbs_token \<Rightarrow> int" where
  "rbs_token_chars tok = char_pos (r_end (tok_range tok)) - char_pos (r_start (tok_range tok))"

definition rbs_token_bytes :: "rbs_token \<Rightarrow> int" where
  "rbs_token_bytes tok = byte_pos (r_end (tok_range tok)) - byte_pos (r_start (tok_range tok))"

subsection \<open>Reading characters\<close>

definition rbs_peek :: "rbs_lexer \<Rightarrow> nat" where
  "rbs_peek lexer = current_code_point lexer"

text \<open>
  \<open>(unsigned int) *start\<close> of a \<open>char\<close>, which is signed: bytes from 80 to FF become large
  numbers, so that only ASCII bytes are below 128.
\<close>

definition unsigned_of_char :: "byte \<Rightarrow> nat" where
  "unsigned_of_char c = unat (scast c :: 32 word)"

text \<open>
  \<open>rbs_next_char\<close>: the code point and the bytes of the character at the current position, or
  \<open>None\<close> (false) at the end. The width function is given the bytes up to the end of the
  string, which may be after \<open>end_pos\<close>.
\<close>

definition rbs_next_char :: "rbs_lexer \<Rightarrow> (nat \<times> nat) option" where
  "rbs_next_char lexer =
     (if byte_pos (lx_current lexer) \<ge> end_pos lexer then None
      else let rest = drop (nat (byte_pos (lx_current lexer))) (string_bytes (lx_string lexer)) in
        if unsigned_of_char (rest ! 0) < 128 then Some (unsigned_of_char (rest ! 0), 1)
        else let byte_len = char_width (lx_encoding lexer) rest in
          if byte_len = 0 then Some (0xFFFD, 1)
          else if byte_len = 1 then Some (unsigned_of_char (rest ! 0), byte_len)
          else Some (12523, byte_len))"

text \<open>The assertion of \<open>rbs_skip\<close>, that \<open>current_character_bytes\<close> is positive, is an invariant.\<close>

definition rbs_skip :: "rbs_lexer \<Rightarrow> rbs_lexer" where
  "rbs_skip lexer =
     (if current_code_point lexer = 0 then lexer
      else
        let pos = lx_current lexer;
            pos = pos\<lparr>byte_pos := byte_pos pos + int (current_character_bytes lexer),
                      char_pos := char_pos pos + 1\<rparr>;
            lexer = (if current_code_point lexer = 10
                     then lexer\<lparr>lx_current := pos\<lparr>line := line pos + 1, column := 0\<rparr>, first_token_of_line := True\<rparr>
                     else lexer\<lparr>lx_current := pos\<lparr>column := column pos + 1\<rparr>\<rparr>)
        in case rbs_next_char lexer of
             Some (codepoint, byte_len) \<Rightarrow>
               lexer\<lparr>current_code_point := codepoint, current_character_bytes := byte_len\<rparr>
           | None \<Rightarrow> lexer\<lparr>current_character_bytes := 1, current_code_point := 0\<rparr>)"

definition rbs_skipn :: "rbs_lexer \<Rightarrow> nat \<Rightarrow> rbs_lexer" where
  "rbs_skipn lexer n = (rbs_skip ^^ n) lexer"

definition rbs_next_token :: "rbs_lexer \<Rightarrow> RBSTokenType \<Rightarrow> rbs_token \<times> rbs_lexer" where
  "rbs_next_token lexer type =
     (let t = \<lparr>tok_type = type, tok_range = \<lparr>r_start = lx_start lexer, r_end = lx_current lexer\<rparr>\<rparr>;
          lexer = lexer\<lparr>lx_start := lx_current lexer\<rparr>;
          lexer = (if type \<noteq> tTRIVIA then lexer\<lparr>first_token_of_line := False\<rparr> else lexer)
      in (t, lexer))"

definition rbs_next_eof_token :: "rbs_lexer \<Rightarrow> rbs_token \<times> rbs_lexer" where
  "rbs_next_eof_token lexer =
     (if byte_pos (lx_current lexer) = int (rbs_string_len (lx_string lexer)) + 1 then
        (\<lparr>tok_type = pEOF, tok_range = \<lparr>r_start = lx_start lexer, r_end = lx_start lexer\<rparr>\<rparr>,
         lexer\<lparr>lx_start := lx_current lexer\<rparr>)
      else rbs_next_token lexer pEOF)"

definition rbs_peek_token :: "rbs_lexer \<Rightarrow> rbs_token \<Rightarrow> nat" where
  "rbs_peek_token lexer tok = start (lx_string lexer) + nat (byte_pos (r_start (tok_range tok)))"

subsection \<open>The blocks of the generated lexer\<close>

text \<open>
  re2c's output is a set of labelled blocks. A block skips a character or not, saves the lexer
  in \<open>backup\<close> with a number in \<open>yyaccept\<close> or not, reads \<open>yych\<close>, and either goes to a label
  by tests on \<open>yych\<close> or runs an action:
    \<^item> \<open>Shift a br\<close> is \<open>[yyaccept = n;] rbs_skip(lexer); [backup = *lexer;] yych = rbs_peek(lexer);\<close>
      and the tests \<open>br\<close>;
    \<^item> \<open>Test br\<close> has the tests only; \<open>Skip d\<close> is \<open>rbs_skip(lexer);\<close> and then \<open>d\<close>;
    \<^item> \<open>Action t\<close> is \<open>return rbs_next_token(lexer, t);\<close> (as is \<open>Accept t\<close>, after tests);
    \<^item> \<open>Restore br\<close> is \<open>*lexer = backup;\<close> and tests on \<open>yyaccept\<close>;
    \<^item> \<open>Eof\<close> and \<open>Comment\<close> are the two actions that do more.
\<close>

datatype yydest = Goto nat | Accept RBSTokenType

datatype yyblock =
    Shift "nat option" "nat \<Rightarrow> yydest"
  | Test "nat \<Rightarrow> yydest"
  | Skip yydest
  | Action RBSTokenType
  | Restore "nat \<Rightarrow> yydest"
  | Eof
  | Comment

end
