(* ===== verification/LexerBlocks1.thy ===== *)
theory LexerBlocks1
  imports LexerState
begin

text \<open>
  The labels 0 to 95 of \<open>rbs_lexer_next_token\<close> in \<open>src/lexer.c\<close>, the code re2c generates
  from \<open>src/lexer.re\<close>: one block per label, its conditions those of the C code.
\<close>

definition yy0 :: yyblock where
  "yy0 = Test
     (\<lambda>yych. if yych \<le> 91 then
          (if yych \<le> 40 then
             (if yych \<le> 32 then
                (if yych \<le> 10 then
                   (if yych \<le> 0 then Goto 1
                    else if yych \<le> 8 then Goto 2
                    else if yych \<le> 9 then Goto 4
                    else Goto 6)
                 else
                   if yych = 13 then Goto 6
                   else if yych \<le> 31 then Goto 2
                   else Goto 4)
              else
                if yych \<le> 36 then
                  (if yych \<le> 33 then Goto 7
                   else if yych \<le> 34 then Goto 9
                   else if yych \<le> 35 then Goto 10
                   else Goto 12)
                else
                  if yych \<le> 37 then Goto 13
                  else if yych \<le> 38 then Goto 14
                  else if yych \<le> 39 then Goto 15
                  else Goto 16)
           else
             if yych \<le> 57 then
               (if yych \<le> 44 then
                  (if yych \<le> 41 then Goto 17
                   else if yych \<le> 42 then Goto 18
                   else if yych \<le> 43 then Goto 19
                   else Goto 20)
                else
                  if yych \<le> 45 then Goto 21
                  else if yych \<le> 46 then Goto 22
                  else if yych \<le> 47 then Goto 24
                  else Goto 25)
             else
               if yych \<le> 61 then
                 (if yych \<le> 58 then Goto 27
                  else if yych \<le> 59 then Goto 2
                  else if yych \<le> 60 then Goto 29
                  else Goto 31)
               else
                 if yych \<le> 63 then
                   (if yych \<le> 62 then Goto 33
                    else Goto 35)
                 else
                   if yych \<le> 64 then Goto 36
                   else if yych \<le> 90 then Goto 37
                   else Goto 39)
        else
          if yych \<le> 110 then
            (if yych \<le> 99 then
               (if yych \<le> 95 then
                  (if yych \<le> 92 then Goto 2
                   else if yych \<le> 93 then Goto 40
                   else if yych \<le> 94 then Goto 41
                   else Goto 42)
                else
                  if yych \<le> 96 then Goto 44
                  else if yych \<le> 97 then Goto 46
                  else if yych \<le> 98 then Goto 48
                  else Goto 49)
             else
               if yych \<le> 104 then
                 (if yych \<le> 100 then Goto 50
                  else if yych \<le> 101 then Goto 51
                  else if yych \<le> 102 then Goto 52
                  else Goto 53)
               else
                 if yych \<le> 105 then Goto 55
                 else if yych \<le> 108 then Goto 53
                 else if yych \<le> 109 then Goto 56
                 else Goto 57)
          else
            if yych \<le> 118 then
              (if yych \<le> 114 then
                 (if yych \<le> 111 then Goto 58
                  else if yych \<le> 112 then Goto 59
                  else if yych \<le> 113 then Goto 53
                  else Goto 60)
               else
                 if yych \<le> 115 then Goto 61
                 else if yych \<le> 116 then Goto 62
                 else if yych \<le> 117 then Goto 63
                 else Goto 64)
            else
              if yych \<le> 125 then
                (if yych \<le> 122 then Goto 53
                 else if yych \<le> 123 then Goto 65
                 else if yych \<le> 124 then Goto 66
                 else Goto 67)
              else
                if yych \<le> 127 then
                  (if yych \<le> 126 then Goto 24
                   else Goto 2)
                else
                  if yych = 65533 then Goto 2
                  else Goto 68)"

definition yy1 :: yyblock where
  "yy1 = Eof"

definition yy2 :: yyblock where
  "yy2 = Skip (Goto 3)"

definition yy3 :: yyblock where
  "yy3 = Action ErrorToken"

definition yy4 :: yyblock where
  "yy4 = Shift None
     (\<lambda>yych. if yych = 9 then Goto 4
        else if yych = 32 then Goto 4
        else Goto 5)"

definition yy5 :: yyblock where
  "yy5 = Action tTRIVIA"

definition yy6 :: yyblock where
  "yy6 = Skip (Goto 5)"

definition yy7 :: yyblock where
  "yy7 = Shift None
     (\<lambda>yych. if yych = 61 then Goto 24
        else if yych = 126 then Goto 24
        else Goto 8)"

definition yy8 :: yyblock where
  "yy8 = Action tOPERATOR"

definition yy9 :: yyblock where
  "yy9 = Shift (Some 0)
     (\<lambda>yych. if yych \<le> 0 then Goto 3
        else Goto 71)"

definition yy10 :: yyblock where
  "yy10 = Shift None
     (\<lambda>yych. if yych \<le> 10 then
          (if yych \<le> 0 then Goto 11
           else if yych \<le> 9 then Goto 10
           else Goto 11)
        else
          if yych \<noteq> 65533 then Goto 10
          else Goto 11)"

definition yy11 :: yyblock where
  "yy11 = Comment"

definition yy12 :: yyblock where
  "yy12 = Shift None
     (\<lambda>yych. if yych \<le> 41 then
          (if yych \<le> 31 then
             (if yych \<le> 10 then
                (if yych \<le> 0 then Goto 3
                 else if yych \<le> 8 then Goto 75
                 else Goto 3)
              else
                if yych = 13 then Goto 3
                else Goto 75)
           else
             if yych \<le> 35 then
               (if yych \<le> 32 then Goto 3
                else if yych \<le> 34 then Goto 77
                else Goto 75)
             else
               if yych = 37 then Goto 3
               else if yych \<le> 39 then Goto 77
               else Goto 3)
        else
          if yych \<le> 90 then
            (if yych \<le> 47 then
               (if yych = 45 then Goto 75
                else Goto 77)
             else
               if yych \<le> 57 then Goto 75
               else if yych \<le> 62 then Goto 77
               else Goto 75)
          else
            if yych \<le> 94 then
              (if yych = 92 then Goto 77
               else Goto 3)
            else
              if yych \<le> 122 then Goto 75
              else if yych \<le> 125 then Goto 3
              else if yych \<le> 126 then Goto 77
              else Goto 75)"

definition yy13 :: yyblock where
  "yy13 = Shift (Some 1)
     (\<lambda>yych. if yych = 97 then Goto 78
        else Goto 8)"

definition yy14 :: yyblock where
  "yy14 = Skip (Accept pAMP)"

definition yy15 :: yyblock where
  "yy15 = Shift (Some 0)
     (\<lambda>yych. if yych \<le> 0 then Goto 3
        else Goto 80)"

definition yy16 :: yyblock where
  "yy16 = Skip (Accept pLPAREN)"

definition yy17 :: yyblock where
  "yy17 = Skip (Accept pRPAREN)"

definition yy18 :: yyblock where
  "yy18 = Shift None
     (\<lambda>yych. if yych = 42 then Goto 84
        else Accept pSTAR)"

definition yy19 :: yyblock where
  "yy19 = Shift None
     (\<lambda>yych. if yych \<le> 47 then Goto 8
        else if yych \<le> 57 then Goto 25
        else if yych = 64 then Goto 24
        else Goto 8)"

definition yy20 :: yyblock where
  "yy20 = Skip (Accept pCOMMA)"

definition yy21 :: yyblock where
  "yy21 = Shift None
     (\<lambda>yych. if yych = 45 then Goto 85
        else if yych \<in> {48, 49, 50, 51, 52, 53, 54, 55, 56, 57} then Goto 25
        else if yych = 62 then Goto 86
        else if yych = 64 then Goto 24
        else Goto 8)"

definition yy22 :: yyblock where
  "yy22 = Shift (Some 2)
     (\<lambda>yych. if yych = 46 then Goto 87
        else Goto 23)"

definition yy23 :: yyblock where
  "yy23 = Action pDOT"

definition yy24 :: yyblock where
  "yy24 = Skip (Goto 8)"

definition yy25 :: yyblock where
  "yy25 = Shift None
     (\<lambda>yych. if yych \<le> 47 then Goto 26
        else if yych \<le> 57 then Goto 25
        else if yych = 95 then Goto 25
        else Goto 26)"

definition yy26 :: yyblock where
  "yy26 = Action tINTEGER"

definition yy27 :: yyblock where
  "yy27 = Shift (Some 3)
     (\<lambda>yych. if yych \<le> 60 then
          (if yych \<le> 42 then
             (if yych \<le> 35 then
                (if yych \<le> 32 then Goto 28
                 else if yych \<le> 33 then Goto 88
                 else if yych \<le> 34 then Goto 90
                 else Goto 28)
              else
                if yych \<le> 38 then
                  (if yych \<le> 36 then Goto 91
                   else Goto 92)
                else
                  if yych \<le> 39 then Goto 93
                  else if yych \<ge> 42 then Goto 94
                  else Goto 28)
           else
             if yych \<le> 46 then
               (if yych = 44 then Goto 28
                else if yych \<le> 45 then Goto 95
                else Goto 28)
             else
               if yych \<le> 57 then
                 (if yych \<le> 47 then Goto 92
                  else Goto 28)
               else
                 if yych \<le> 58 then Goto 96
                 else if yych \<ge> 60 then Goto 97
                 else Goto 28)
        else
          if yych \<le> 95 then
            (if yych \<le> 64 then
               (if yych \<le> 61 then Goto 98
                else if yych \<le> 62 then Goto 99
                else if yych \<ge> 64 then Goto 100
                else Goto 28)
             else
               if yych \<le> 91 then
                 (if yych \<le> 90 then Goto 101
                  else Goto 103)
               else
                 if yych \<le> 93 then Goto 28
                 else if yych \<le> 94 then Goto 92
                 else Goto 101)
          else
            if yych \<le> 125 then
              (if yych \<le> 122 then
                 (if yych \<le> 96 then Goto 92
                  else Goto 101)
               else
                 if yych = 124 then Goto 92
                 else Goto 28)
            else
              if yych \<le> 127 then
                (if yych \<le> 126 then Goto 92
                 else Goto 28)
              else
                if yych \<noteq> 65533 then Goto 101
                else Goto 28)"

definition yy28 :: yyblock where
  "yy28 = Action pCOLON"

definition yy29 :: yyblock where
  "yy29 = Shift None
     (\<lambda>yych. if yych \<le> 59 then Goto 30
        else if yych \<le> 60 then Goto 24
        else if yych \<le> 61 then Goto 104
        else Goto 30)"

definition yy30 :: yyblock where
  "yy30 = Action pLT"

definition yy31 :: yyblock where
  "yy31 = Shift None
     (\<lambda>yych. if yych \<le> 62 then
          (if yych \<le> 60 then Goto 32
           else if yych \<le> 61 then Goto 105
           else Goto 106)
        else
          if yych = 126 then Goto 24
          else Goto 32)"

definition yy32 :: yyblock where
  "yy32 = Action pEQ"

definition yy33 :: yyblock where
  "yy33 = Shift None
     (\<lambda>yych. if yych \<le> 60 then Goto 34
        else if yych \<le> 62 then Goto 24
        else Goto 34)"

definition yy34 :: yyblock where
  "yy34 = Action pGT"

definition yy35 :: yyblock where
  "yy35 = Skip (Accept pQUESTION)"

definition yy36 :: yyblock where
  "yy36 = Shift (Some 0)
     (\<lambda>yych. if yych \<le> 96 then
          (if yych \<le> 90 then
             (if yych \<le> 63 then Goto 3
              else if yych \<le> 64 then Goto 107
              else Goto 108)
           else
             if yych = 95 then Goto 108
             else Goto 3)
        else
          if yych \<le> 122 then
            (if yych = 114 then Goto 111
             else Goto 108)
          else
            if yych \<le> 127 then Goto 3
            else if yych = 65533 then Goto 3
            else Goto 108)"

definition yy37 :: yyblock where
  "yy37 = Shift None
     (\<lambda>yych. if yych \<le> 90 then
          (if yych \<le> 57 then
             (if yych = 33 then Goto 112
              else if yych \<ge> 48 then Goto 37
              else Goto 38)
           else
             if yych = 61 then Goto 113
             else if yych \<ge> 65 then Goto 37
             else Goto 38)
        else
          if yych \<le> 122 then
            (if yych = 95 then Goto 37
             else if yych \<ge> 97 then Goto 37
             else Goto 38)
          else
            if yych \<le> 127 then Goto 38
            else if yych \<noteq> 65533 then Goto 37
            else Goto 38)"

definition yy38 :: yyblock where
  "yy38 = Action tUIDENT"

definition yy39 :: yyblock where
  "yy39 = Shift None
     (\<lambda>yych. if yych = 93 then Goto 114
        else Accept pLBRACKET)"

definition yy40 :: yyblock where
  "yy40 = Skip (Accept pRBRACKET)"

definition yy41 :: yyblock where
  "yy41 = Skip (Accept pHAT)"

definition yy42 :: yyblock where
  "yy42 = Shift None
     (\<lambda>yych. if yych \<le> 90 then
          (if yych \<le> 57 then
             (if yych = 33 then Goto 112
              else if yych \<ge> 48 then Goto 115
              else Goto 43)
           else
             if yych = 61 then Goto 113
             else if yych \<ge> 65 then Goto 118
             else Goto 43)
        else
          if yych \<le> 122 then
            (if yych = 95 then Goto 120
             else if yych \<ge> 97 then Goto 115
             else Goto 43)
          else
            if yych \<le> 127 then Goto 43
            else if yych \<noteq> 65533 then Goto 68
            else Goto 43)"

definition yy43 :: yyblock where
  "yy43 = Action tULLIDENT"

definition yy44 :: yyblock where
  "yy44 = Shift (Some 4)
     (\<lambda>yych. if yych \<le> 32 then
          (if yych \<le> 0 then Goto 45
           else if yych \<le> 31 then Goto 121
           else Goto 45)
        else
          if yych \<noteq> 58 then Goto 121
          else Goto 45)"

definition yy45 :: yyblock where
  "yy45 = Action tOPERATOR"

definition yy46 :: yyblock where
  "yy46 = Shift None
     (\<lambda>yych. if yych \<le> 114 then
          (if yych = 108 then Goto 122
           else Goto 54)
        else
          if yych \<le> 115 then Goto 123
          else if yych \<le> 116 then Goto 125
          else Goto 54)"

definition yy47 :: yyblock where
  "yy47 = Action tLIDENT"

definition yy48 :: yyblock where
  "yy48 = Shift None
     (\<lambda>yych. if yych = 111 then Goto 126
        else Goto 54)"

definition yy49 :: yyblock where
  "yy49 = Shift None
     (\<lambda>yych. if yych = 108 then Goto 127
        else Goto 54)"

definition yy50 :: yyblock where
  "yy50 = Shift None
     (\<lambda>yych. if yych = 101 then Goto 128
        else Goto 54)"

definition yy51 :: yyblock where
  "yy51 = Shift None
     (\<lambda>yych. if yych = 110 then Goto 129
        else if yych = 120 then Goto 130
        else Goto 54)"

definition yy52 :: yyblock where
  "yy52 = Shift None
     (\<lambda>yych. if yych = 97 then Goto 131
        else Goto 54)"

definition yy53 :: yyblock where
  "yy53 = Shift None
     (\<lambda>yych. Goto 54)"

definition yy54 :: yyblock where
  "yy54 = Test
     (\<lambda>yych. if yych \<le> 90 then
          (if yych \<le> 57 then
             (if yych = 33 then Goto 112
              else if yych \<le> 47 then Goto 47
              else Goto 53)
           else
             if yych = 61 then Goto 113
             else if yych \<le> 64 then Goto 47
             else Goto 53)
        else
          if yych \<le> 122 then
            (if yych = 95 then Goto 53
             else if yych \<le> 96 then Goto 47
             else Goto 53)
          else
            if yych \<le> 127 then Goto 47
            else if yych = 65533 then Goto 47
            else Goto 53)"

definition yy55 :: yyblock where
  "yy55 = Shift None
     (\<lambda>yych. if yych = 110 then Goto 132
        else Goto 54)"

definition yy56 :: yyblock where
  "yy56 = Shift None
     (\<lambda>yych. if yych = 111 then Goto 134
        else Goto 54)"

definition yy57 :: yyblock where
  "yy57 = Shift None
     (\<lambda>yych. if yych = 105 then Goto 135
        else Goto 54)"

definition yy58 :: yyblock where
  "yy58 = Shift None
     (\<lambda>yych. if yych = 117 then Goto 136
        else Goto 54)"

definition yy59 :: yyblock where
  "yy59 = Shift None
     (\<lambda>yych. if yych = 114 then Goto 137
        else if yych = 117 then Goto 138
        else Goto 54)"

definition yy60 :: yyblock where
  "yy60 = Shift None
     (\<lambda>yych. if yych = 101 then Goto 139
        else Goto 54)"

definition yy61 :: yyblock where
  "yy61 = Shift None
     (\<lambda>yych. if yych \<le> 104 then
          (if yych = 101 then Goto 140
           else Goto 54)
        else
          if yych \<le> 105 then Goto 141
          else if yych = 107 then Goto 142
          else Goto 54)"

definition yy62 :: yyblock where
  "yy62 = Shift None
     (\<lambda>yych. if yych \<le> 113 then
          (if yych = 111 then Goto 143
           else Goto 54)
        else
          if yych \<le> 114 then Goto 144
          else if yych = 121 then Goto 145
          else Goto 54)"

definition yy63 :: yyblock where
  "yy63 = Shift None
     (\<lambda>yych. if yych = 110 then Goto 146
        else if yych = 115 then Goto 147
        else Goto 54)"

definition yy64 :: yyblock where
  "yy64 = Shift None
     (\<lambda>yych. if yych = 111 then Goto 148
        else Goto 54)"

definition yy65 :: yyblock where
  "yy65 = Skip (Accept pLBRACE)"

definition yy66 :: yyblock where
  "yy66 = Skip (Accept pBAR)"

definition yy67 :: yyblock where
  "yy67 = Skip (Accept pRBRACE)"

definition yy68 :: yyblock where
  "yy68 = Shift None
     (\<lambda>yych. if yych \<le> 90 then
          (if yych \<le> 57 then
             (if yych = 33 then Goto 112
              else if yych \<ge> 48 then Goto 68
              else Goto 69)
           else
             if yych = 61 then Goto 113
             else if yych \<ge> 65 then Goto 68
             else Goto 69)
        else
          if yych \<le> 122 then
            (if yych = 95 then Goto 68
             else if yych \<ge> 97 then Goto 68
             else Goto 69)
          else
            if yych \<le> 127 then Goto 69
            else if yych \<noteq> 65533 then Goto 68
            else Goto 69)"

definition yy69 :: yyblock where
  "yy69 = Action tNONASCIIIDENT"

definition yy70 :: yyblock where
  "yy70 = Shift None
     (\<lambda>yych. Goto 71)"

definition yy71 :: yyblock where
  "yy71 = Test
     (\<lambda>yych. if yych \<le> 34 then
          (if yych \<le> 0 then Goto 72
           else if yych \<le> 33 then Goto 70
           else Goto 73)
        else
          if yych = 92 then Goto 74
          else Goto 70)"

definition yy72 :: yyblock where
  "yy72 = Restore
     (\<lambda>yyaccept. if yyaccept \<le> 4 then
          (if yyaccept \<le> 2 then
             (if yyaccept \<le> 1 then
                (if yyaccept = 0 then Goto 3
                 else Goto 8)
              else Goto 23)
           else
             if yyaccept = 3 then Goto 28
             else Goto 45)
        else
          if yyaccept \<le> 6 then
            (if yyaccept = 5 then Goto 82
             else Goto 164)
          else
            if yyaccept = 7 then Goto 258
            else Goto 285)"

definition yy73 :: yyblock where
  "yy73 = Skip (Accept tDQSTRING)"

definition yy74 :: yyblock where
  "yy74 = Shift None
     (\<lambda>yych. if yych = 117 then Goto 149
        else if yych = 120 then Goto 150
        else Goto 70)"

definition yy75 :: yyblock where
  "yy75 = Shift None
     (\<lambda>yych. if yych \<le> 44 then
          (if yych \<le> 12 then
             (if yych \<le> 0 then Goto 76
              else if yych \<le> 8 then Goto 75
              else if yych \<ge> 11 then Goto 75
              else Goto 76)
           else
             if yych \<le> 31 then
               (if yych \<ge> 14 then Goto 75
                else Goto 76)
             else
               if yych = 35 then Goto 75
               else Goto 76)
        else
          if yych \<le> 62 then
            (if yych \<le> 45 then Goto 75
             else if yych \<le> 47 then Goto 76
             else if yych \<le> 57 then Goto 75
             else Goto 76)
          else
            if yych \<le> 94 then
              (if yych \<le> 90 then Goto 75
               else Goto 76)
            else
              if yych \<le> 122 then Goto 75
              else if yych \<ge> 127 then Goto 75
              else Goto 76)"

definition yy76 :: yyblock where
  "yy76 = Action tGIDENT"

definition yy77 :: yyblock where
  "yy77 = Skip (Goto 76)"

definition yy78 :: yyblock where
  "yy78 = Shift None
     (\<lambda>yych. if yych \<le> 90 then
          (if yych \<le> 40 then
             (if yych \<le> 39 then Goto 72
              else Goto 151)
           else
             if yych = 60 then Goto 152
             else Goto 72)
        else
          if yych \<le> 122 then
            (if yych \<le> 91 then Goto 153
             else Goto 72)
          else
            if yych \<le> 123 then Goto 154
            else if yych \<le> 124 then Goto 155
            else Goto 72)"

definition yy79 :: yyblock where
  "yy79 = Shift None
     (\<lambda>yych. Goto 80)"

definition yy80 :: yyblock where
  "yy80 = Test
     (\<lambda>yych. if yych \<le> 39 then
          (if yych \<le> 0 then Goto 72
           else if yych \<le> 38 then Goto 79
           else Goto 81)
        else
          if yych = 92 then Goto 83
          else Goto 79)"

definition yy81 :: yyblock where
  "yy81 = Skip (Goto 82)"

definition yy82 :: yyblock where
  "yy82 = Action tSQSTRING"

definition yy83 :: yyblock where
  "yy83 = Shift None
     (\<lambda>yych. if yych \<le> 39 then
          (if yych \<le> 0 then Goto 72
           else if yych \<le> 38 then Goto 79
           else Goto 156)
        else
          if yych = 92 then Goto 83
          else Goto 79)"

definition yy84 :: yyblock where
  "yy84 = Skip (Accept pSTAR2)"

definition yy85 :: yyblock where
  "yy85 = Shift None
     (\<lambda>yych. if yych \<ge> 1 then Goto 85
        else Accept tINLINECOMMENT)"

definition yy86 :: yyblock where
  "yy86 = Skip (Accept pARROW)"

definition yy87 :: yyblock where
  "yy87 = Shift None
     (\<lambda>yych. if yych = 46 then Goto 157
        else Goto 72)"

definition yy88 :: yyblock where
  "yy88 = Shift None
     (\<lambda>yych. if yych = 61 then Goto 92
        else if yych = 126 then Goto 92
        else Goto 89)"

definition yy89 :: yyblock where
  "yy89 = Action tSYMBOL"

definition yy90 :: yyblock where
  "yy90 = Shift None
     (\<lambda>yych. if yych \<le> 34 then
          (if yych \<le> 0 then Goto 72
           else if yych \<le> 33 then Goto 90
           else Goto 158)
        else
          if yych = 92 then Goto 159
          else Goto 90)"

definition yy91 :: yyblock where
  "yy91 = Shift None
     (\<lambda>yych. if yych \<le> 41 then
          (if yych \<le> 31 then
             (if yych \<le> 10 then
                (if yych \<le> 0 then Goto 72
                 else if yych \<le> 8 then Goto 160
                 else Goto 72)
              else
                if yych = 13 then Goto 72
                else Goto 160)
           else
             if yych \<le> 35 then
               (if yych \<le> 32 then Goto 72
                else if yych \<le> 34 then Goto 162
                else Goto 160)
             else
               if yych = 37 then Goto 72
               else if yych \<le> 39 then Goto 162
               else Goto 72)
        else
          if yych \<le> 90 then
            (if yych \<le> 47 then
               (if yych = 45 then Goto 160
                else Goto 162)
             else
               if yych \<le> 57 then Goto 160
               else if yych \<le> 62 then Goto 162
               else Goto 160)
          else
            if yych \<le> 94 then
              (if yych = 92 then Goto 162
               else Goto 72)
            else
              if yych \<le> 122 then Goto 160
              else if yych \<le> 125 then Goto 72
              else if yych \<le> 126 then Goto 162
              else Goto 160)"

definition yy92 :: yyblock where
  "yy92 = Skip (Goto 89)"

definition yy93 :: yyblock where
  "yy93 = Shift None
     (\<lambda>yych. if yych \<le> 39 then
          (if yych \<le> 0 then Goto 72
           else if yych \<le> 38 then Goto 93
           else Goto 163)
        else
          if yych = 92 then Goto 165
          else Goto 93)"

definition yy94 :: yyblock where
  "yy94 = Shift None
     (\<lambda>yych. if yych = 42 then Goto 92
        else Goto 89)"

definition yy95 :: yyblock where
  "yy95 = Shift None
     (\<lambda>yych. if yych = 64 then Goto 92
        else Goto 89)"

end
