(* ===== verification/LexerBlocks2.thy ===== *)
theory LexerBlocks2
  imports LexerState
begin

text \<open>
  The labels 96 to 223 of \<open>rbs_lexer_next_token\<close> in \<open>src/lexer.c\<close>, the code re2c generates
  from \<open>src/lexer.re\<close>: one block per label, its conditions those of the C code.
\<close>

definition yy96 :: yyblock where
  "yy96 = Skip (Accept pCOLON2)"

definition yy97 :: yyblock where
  "yy97 = Shift None
     (\<lambda>yych. if yych \<le> 59 then Goto 89
        else if yych \<le> 60 then Goto 92
        else if yych \<le> 61 then Goto 166
        else Goto 89)"

definition yy98 :: yyblock where
  "yy98 = Shift None
     (\<lambda>yych. if yych = 61 then Goto 167
        else if yych = 126 then Goto 92
        else Goto 72)"

definition yy99 :: yyblock where
  "yy99 = Shift None
     (\<lambda>yych. if yych \<le> 60 then Goto 89
        else if yych \<le> 62 then Goto 92
        else Goto 89)"

definition yy100 :: yyblock where
  "yy100 = Shift None
     (\<lambda>yych. if yych \<le> 95 then
          (if yych \<le> 64 then
             (if yych \<le> 63 then Goto 72
              else Goto 168)
           else
             if yych \<le> 90 then Goto 101
             else if yych \<le> 94 then Goto 72
             else Goto 101)
        else
          if yych \<le> 127 then
            (if yych \<le> 96 then Goto 72
             else if yych \<ge> 123 then Goto 72
             else Goto 101)
          else
            if yych = 65533 then Goto 72
            else Goto 101)"

definition yy101 :: yyblock where
  "yy101 = Shift None
     (\<lambda>yych. if yych \<le> 64 then
          (if yych \<le> 57 then
             (if yych = 33 then Goto 169
              else if yych \<ge> 48 then Goto 101
              else Goto 102)
           else
             if yych \<le> 61 then
               (if yych \<ge> 61 then Goto 169
                else Goto 102)
             else
               if yych = 63 then Goto 169
               else Goto 102)
        else
          if yych \<le> 96 then
            (if yych \<le> 90 then Goto 101
             else if yych = 95 then Goto 101
             else Goto 102)
          else
            if yych \<le> 127 then
              (if yych \<le> 122 then Goto 101
               else Goto 102)
            else
              if yych \<noteq> 65533 then Goto 101
              else Goto 102)"

definition yy102 :: yyblock where
  "yy102 = Action tSYMBOL"

definition yy103 :: yyblock where
  "yy103 = Shift None
     (\<lambda>yych. if yych = 93 then Goto 167
        else Goto 72)"

definition yy104 :: yyblock where
  "yy104 = Shift None
     (\<lambda>yych. if yych = 62 then Goto 24
        else Goto 8)"

definition yy105 :: yyblock where
  "yy105 = Shift None
     (\<lambda>yych. if yych = 61 then Goto 24
        else Goto 8)"

definition yy106 :: yyblock where
  "yy106 = Skip (Accept pFATARROW)"

definition yy107 :: yyblock where
  "yy107 = Shift None
     (\<lambda>yych. if yych \<le> 96 then
          (if yych \<le> 90 then
             (if yych \<le> 64 then Goto 72
              else Goto 170)
           else
             if yych = 95 then Goto 170
             else Goto 72)
        else
          if yych \<le> 127 then
            (if yych \<le> 122 then Goto 170
             else Goto 72)
          else
            if yych = 65533 then Goto 72
            else Goto 170)"

definition yy108 :: yyblock where
  "yy108 = Shift None
     (\<lambda>yych. Goto 109)"

definition yy109 :: yyblock where
  "yy109 = Test
     (\<lambda>yych. if yych \<le> 95 then
          (if yych \<le> 64 then
             (if yych \<le> 47 then Goto 110
              else if yych \<le> 57 then Goto 108
              else Goto 110)
           else
             if yych \<le> 90 then Goto 108
             else if yych \<ge> 95 then Goto 108
             else Goto 110)
        else
          if yych \<le> 127 then
            (if yych \<le> 96 then Goto 110
             else if yych \<le> 122 then Goto 108
             else Goto 110)
          else
            if yych \<noteq> 65533 then Goto 108
            else Goto 110)"

definition yy110 :: yyblock where
  "yy110 = Action tAIDENT"

definition yy111 :: yyblock where
  "yy111 = Shift None
     (\<lambda>yych. if yych = 98 then Goto 172
        else Goto 109)"

definition yy112 :: yyblock where
  "yy112 = Skip (Accept tBANGIDENT)"

definition yy113 :: yyblock where
  "yy113 = Skip (Accept tEQIDENT)"

definition yy114 :: yyblock where
  "yy114 = Shift None
     (\<lambda>yych. if yych = 61 then Goto 24
        else Accept pAREF_OPR)"

definition yy115 :: yyblock where
  "yy115 = Shift None
     (\<lambda>yych. Goto 116)"

definition yy116 :: yyblock where
  "yy116 = Test
     (\<lambda>yych. if yych \<le> 90 then
          (if yych \<le> 57 then
             (if yych = 33 then Goto 112
              else if yych \<ge> 48 then Goto 115
              else Goto 117)
           else
             if yych = 61 then Goto 113
             else if yych \<ge> 65 then Goto 115
             else Goto 117)
        else
          if yych \<le> 122 then
            (if yych = 95 then Goto 115
             else if yych \<ge> 97 then Goto 115
             else Goto 117)
          else
            if yych \<le> 127 then Goto 117
            else if yych \<noteq> 65533 then Goto 115
            else Goto 117)"

definition yy117 :: yyblock where
  "yy117 = Action tULLIDENT"

definition yy118 :: yyblock where
  "yy118 = Shift None
     (\<lambda>yych. if yych \<le> 90 then
          (if yych \<le> 57 then
             (if yych = 33 then Goto 112
              else if yych \<ge> 48 then Goto 118
              else Goto 119)
           else
             if yych = 61 then Goto 113
             else if yych \<ge> 65 then Goto 118
             else Goto 119)
        else
          if yych \<le> 122 then
            (if yych = 95 then Goto 118
             else if yych \<ge> 97 then Goto 118
             else Goto 119)
          else
            if yych \<le> 127 then Goto 119
            else if yych \<noteq> 65533 then Goto 118
            else Goto 119)"

definition yy119 :: yyblock where
  "yy119 = Action tULIDENT"

definition yy120 :: yyblock where
  "yy120 = Shift None
     (\<lambda>yych. if yych = 116 then Goto 173
        else Goto 116)"

definition yy121 :: yyblock where
  "yy121 = Shift None
     (\<lambda>yych. if yych \<le> 0 then Goto 72
        else if yych = 96 then Goto 174
        else Goto 121)"

definition yy122 :: yyblock where
  "yy122 = Shift None
     (\<lambda>yych. if yych = 105 then Goto 175
        else Goto 54)"

definition yy123 :: yyblock where
  "yy123 = Shift None
     (\<lambda>yych. if yych \<le> 90 then
          (if yych \<le> 57 then
             (if yych = 33 then Goto 112
              else if yych \<ge> 48 then Goto 53
              else Goto 124)
           else
             if yych = 61 then Goto 113
             else if yych \<ge> 65 then Goto 53
             else Goto 124)
        else
          if yych \<le> 122 then
            (if yych = 95 then Goto 53
             else if yych \<ge> 97 then Goto 53
             else Goto 124)
          else
            if yych \<le> 127 then Goto 124
            else if yych \<noteq> 65533 then Goto 53
            else Goto 124)"

definition yy124 :: yyblock where
  "yy124 = Action kAS"

definition yy125 :: yyblock where
  "yy125 = Shift None
     (\<lambda>yych. if yych = 116 then Goto 176
        else Goto 54)"

definition yy126 :: yyblock where
  "yy126 = Shift None
     (\<lambda>yych. if yych = 111 then Goto 177
        else if yych = 116 then Goto 178
        else Goto 54)"

definition yy127 :: yyblock where
  "yy127 = Shift None
     (\<lambda>yych. if yych = 97 then Goto 180
        else Goto 54)"

definition yy128 :: yyblock where
  "yy128 = Shift None
     (\<lambda>yych. if yych = 102 then Goto 181
        else Goto 54)"

definition yy129 :: yyblock where
  "yy129 = Shift None
     (\<lambda>yych. if yych = 100 then Goto 183
        else Goto 54)"

definition yy130 :: yyblock where
  "yy130 = Shift None
     (\<lambda>yych. if yych = 116 then Goto 185
        else Goto 54)"

definition yy131 :: yyblock where
  "yy131 = Shift None
     (\<lambda>yych. if yych = 108 then Goto 186
        else Goto 54)"

definition yy132 :: yyblock where
  "yy132 = Shift None
     (\<lambda>yych. if yych \<le> 95 then
          (if yych \<le> 60 then
             (if yych \<le> 33 then
                (if yych \<ge> 33 then Goto 112
                 else Goto 133)
              else
                if yych \<le> 47 then Goto 133
                else if yych \<le> 57 then Goto 53
                else Goto 133)
           else
             if yych \<le> 64 then
               (if yych \<le> 61 then Goto 113
                else Goto 133)
             else
               if yych \<le> 90 then Goto 53
               else if yych \<ge> 95 then Goto 53
               else Goto 133)
        else
          if yych \<le> 115 then
            (if yych \<le> 98 then
               (if yych \<ge> 97 then Goto 53
                else Goto 133)
             else
               if yych \<le> 99 then Goto 187
               else if yych \<le> 114 then Goto 53
               else Goto 188)
          else
            if yych \<le> 127 then
              (if yych \<le> 116 then Goto 189
               else if yych \<le> 122 then Goto 53
               else Goto 133)
            else
              if yych \<noteq> 65533 then Goto 53
              else Goto 133)"

definition yy133 :: yyblock where
  "yy133 = Action kIN"

definition yy134 :: yyblock where
  "yy134 = Shift None
     (\<lambda>yych. if yych = 100 then Goto 190
        else Goto 54)"

definition yy135 :: yyblock where
  "yy135 = Shift None
     (\<lambda>yych. if yych = 108 then Goto 191
        else Goto 54)"

definition yy136 :: yyblock where
  "yy136 = Shift None
     (\<lambda>yych. if yych = 116 then Goto 193
        else Goto 54)"

definition yy137 :: yyblock where
  "yy137 = Shift None
     (\<lambda>yych. if yych = 101 then Goto 195
        else if yych = 105 then Goto 196
        else Goto 54)"

definition yy138 :: yyblock where
  "yy138 = Shift None
     (\<lambda>yych. if yych = 98 then Goto 197
        else Goto 54)"

definition yy139 :: yyblock where
  "yy139 = Shift None
     (\<lambda>yych. if yych = 116 then Goto 198
        else Goto 54)"

definition yy140 :: yyblock where
  "yy140 = Shift None
     (\<lambda>yych. if yych = 108 then Goto 199
        else Goto 54)"

definition yy141 :: yyblock where
  "yy141 = Shift None
     (\<lambda>yych. if yych = 110 then Goto 200
        else Goto 54)"

definition yy142 :: yyblock where
  "yy142 = Shift None
     (\<lambda>yych. if yych = 105 then Goto 201
        else Goto 54)"

definition yy143 :: yyblock where
  "yy143 = Shift None
     (\<lambda>yych. if yych = 112 then Goto 202
        else Goto 54)"

definition yy144 :: yyblock where
  "yy144 = Shift None
     (\<lambda>yych. if yych = 117 then Goto 204
        else Goto 54)"

definition yy145 :: yyblock where
  "yy145 = Shift None
     (\<lambda>yych. if yych = 112 then Goto 205
        else Goto 54)"

definition yy146 :: yyblock where
  "yy146 = Shift None
     (\<lambda>yych. if yych = 99 then Goto 206
        else if yych = 116 then Goto 207
        else Goto 54)"

definition yy147 :: yyblock where
  "yy147 = Shift None
     (\<lambda>yych. if yych = 101 then Goto 208
        else Goto 54)"

definition yy148 :: yyblock where
  "yy148 = Shift None
     (\<lambda>yych. if yych = 105 then Goto 210
        else Goto 54)"

definition yy149 :: yyblock where
  "yy149 = Shift None
     (\<lambda>yych. if yych \<le> 64 then
          (if yych \<le> 47 then Goto 72
           else if yych \<le> 57 then Goto 211
           else Goto 72)
        else
          if yych \<le> 70 then Goto 211
          else if yych \<le> 96 then Goto 72
          else if yych \<le> 102 then Goto 211
          else Goto 72)"

definition yy150 :: yyblock where
  "yy150 = Shift None
     (\<lambda>yych. if yych \<le> 64 then
          (if yych \<le> 47 then Goto 72
           else if yych \<le> 57 then Goto 70
           else Goto 72)
        else
          if yych \<le> 70 then Goto 70
          else if yych \<le> 96 then Goto 72
          else if yych \<le> 102 then Goto 70
          else Goto 72)"

definition yy151 :: yyblock where
  "yy151 = Shift None
     (\<lambda>yych. if yych \<le> 0 then Goto 72
        else if yych = 41 then Goto 212
        else Goto 151)"

definition yy152 :: yyblock where
  "yy152 = Shift None
     (\<lambda>yych. if yych \<le> 0 then Goto 72
        else if yych = 62 then Goto 213
        else Goto 152)"

definition yy153 :: yyblock where
  "yy153 = Shift None
     (\<lambda>yych. if yych \<le> 0 then Goto 72
        else if yych = 93 then Goto 214
        else Goto 153)"

definition yy154 :: yyblock where
  "yy154 = Shift None
     (\<lambda>yych. if yych \<le> 0 then Goto 72
        else if yych = 125 then Goto 215
        else Goto 154)"

definition yy155 :: yyblock where
  "yy155 = Shift None
     (\<lambda>yych. if yych \<le> 0 then Goto 72
        else if yych = 124 then Goto 216
        else Goto 155)"

definition yy156 :: yyblock where
  "yy156 = Shift (Some 5)
     (\<lambda>yych. if yych \<le> 39 then
          (if yych \<le> 0 then Goto 82
           else if yych \<le> 38 then Goto 79
           else Goto 81)
        else
          if yych = 92 then Goto 83
          else Goto 79)"

definition yy157 :: yyblock where
  "yy157 = Skip (Accept pDOT3)"

definition yy158 :: yyblock where
  "yy158 = Skip (Accept tDQSYMBOL)"

definition yy159 :: yyblock where
  "yy159 = Shift None
     (\<lambda>yych. if yych = 117 then Goto 217
        else if yych = 120 then Goto 218
        else Goto 90)"

definition yy160 :: yyblock where
  "yy160 = Shift None
     (\<lambda>yych. if yych \<le> 44 then
          (if yych \<le> 12 then
             (if yych \<le> 0 then Goto 161
              else if yych \<le> 8 then Goto 160
              else if yych \<ge> 11 then Goto 160
              else Goto 161)
           else
             if yych \<le> 31 then
               (if yych \<ge> 14 then Goto 160
                else Goto 161)
             else
               if yych = 35 then Goto 160
               else Goto 161)
        else
          if yych \<le> 62 then
            (if yych \<le> 45 then Goto 160
             else if yych \<le> 47 then Goto 161
             else if yych \<le> 57 then Goto 160
             else Goto 161)
          else
            if yych \<le> 94 then
              (if yych \<le> 90 then Goto 160
               else Goto 161)
            else
              if yych \<le> 122 then Goto 160
              else if yych \<ge> 127 then Goto 160
              else Goto 161)"

definition yy161 :: yyblock where
  "yy161 = Action tSYMBOL"

definition yy162 :: yyblock where
  "yy162 = Skip (Goto 161)"

definition yy163 :: yyblock where
  "yy163 = Skip (Goto 164)"

definition yy164 :: yyblock where
  "yy164 = Action tSQSYMBOL"

definition yy165 :: yyblock where
  "yy165 = Shift None
     (\<lambda>yych. if yych \<le> 39 then
          (if yych \<le> 0 then Goto 72
           else if yych \<le> 38 then Goto 93
           else Goto 219)
        else
          if yych = 92 then Goto 165
          else Goto 93)"

definition yy166 :: yyblock where
  "yy166 = Shift None
     (\<lambda>yych. if yych = 62 then Goto 92
        else Goto 89)"

definition yy167 :: yyblock where
  "yy167 = Shift None
     (\<lambda>yych. if yych = 61 then Goto 92
        else Goto 89)"

definition yy168 :: yyblock where
  "yy168 = Shift None
     (\<lambda>yych. if yych \<le> 96 then
          (if yych \<le> 90 then
             (if yych \<le> 64 then Goto 72
              else Goto 101)
           else
             if yych = 95 then Goto 101
             else Goto 72)
        else
          if yych \<le> 127 then
            (if yych \<le> 122 then Goto 101
             else Goto 72)
          else
            if yych = 65533 then Goto 72
            else Goto 101)"

definition yy169 :: yyblock where
  "yy169 = Skip (Goto 102)"

definition yy170 :: yyblock where
  "yy170 = Shift None
     (\<lambda>yych. if yych \<le> 95 then
          (if yych \<le> 64 then
             (if yych \<le> 47 then Goto 171
              else if yych \<le> 57 then Goto 170
              else Goto 171)
           else
             if yych \<le> 90 then Goto 170
             else if yych \<ge> 95 then Goto 170
             else Goto 171)
        else
          if yych \<le> 127 then
            (if yych \<le> 96 then Goto 171
             else if yych \<le> 122 then Goto 170
             else Goto 171)
          else
            if yych \<noteq> 65533 then Goto 170
            else Goto 171)"

definition yy171 :: yyblock where
  "yy171 = Action tA2IDENT"

definition yy172 :: yyblock where
  "yy172 = Shift None
     (\<lambda>yych. if yych = 115 then Goto 220
        else Goto 109)"

definition yy173 :: yyblock where
  "yy173 = Shift None
     (\<lambda>yych. if yych = 111 then Goto 222
        else Goto 116)"

definition yy174 :: yyblock where
  "yy174 = Skip (Accept tQIDENT)"

definition yy175 :: yyblock where
  "yy175 = Shift None
     (\<lambda>yych. if yych = 97 then Goto 223
        else Goto 54)"

definition yy176 :: yyblock where
  "yy176 = Shift None
     (\<lambda>yych. if yych = 114 then Goto 224
        else Goto 54)"

definition yy177 :: yyblock where
  "yy177 = Shift None
     (\<lambda>yych. if yych = 108 then Goto 225
        else Goto 54)"

definition yy178 :: yyblock where
  "yy178 = Shift None
     (\<lambda>yych. if yych \<le> 90 then
          (if yych \<le> 57 then
             (if yych = 33 then Goto 112
              else if yych \<ge> 48 then Goto 53
              else Goto 179)
           else
             if yych = 61 then Goto 113
             else if yych \<ge> 65 then Goto 53
             else Goto 179)
        else
          if yych \<le> 122 then
            (if yych = 95 then Goto 53
             else if yych \<ge> 97 then Goto 53
             else Goto 179)
          else
            if yych \<le> 127 then Goto 179
            else if yych \<noteq> 65533 then Goto 53
            else Goto 179)"

definition yy179 :: yyblock where
  "yy179 = Action kBOT"

definition yy180 :: yyblock where
  "yy180 = Shift None
     (\<lambda>yych. if yych = 115 then Goto 227
        else Goto 54)"

definition yy181 :: yyblock where
  "yy181 = Shift None
     (\<lambda>yych. if yych \<le> 90 then
          (if yych \<le> 57 then
             (if yych = 33 then Goto 112
              else if yych \<ge> 48 then Goto 53
              else Goto 182)
           else
             if yych = 61 then Goto 113
             else if yych \<ge> 65 then Goto 53
             else Goto 182)
        else
          if yych \<le> 122 then
            (if yych = 95 then Goto 53
             else if yych \<ge> 97 then Goto 53
             else Goto 182)
          else
            if yych \<le> 127 then Goto 182
            else if yych \<noteq> 65533 then Goto 53
            else Goto 182)"

definition yy182 :: yyblock where
  "yy182 = Action kDEF"

definition yy183 :: yyblock where
  "yy183 = Shift None
     (\<lambda>yych. if yych \<le> 90 then
          (if yych \<le> 57 then
             (if yych = 33 then Goto 112
              else if yych \<ge> 48 then Goto 53
              else Goto 184)
           else
             if yych = 61 then Goto 113
             else if yych \<ge> 65 then Goto 53
             else Goto 184)
        else
          if yych \<le> 122 then
            (if yych = 95 then Goto 53
             else if yych \<ge> 97 then Goto 53
             else Goto 184)
          else
            if yych \<le> 127 then Goto 184
            else if yych \<noteq> 65533 then Goto 53
            else Goto 184)"

definition yy184 :: yyblock where
  "yy184 = Action kEND"

definition yy185 :: yyblock where
  "yy185 = Shift None
     (\<lambda>yych. if yych = 101 then Goto 228
        else Goto 54)"

definition yy186 :: yyblock where
  "yy186 = Shift None
     (\<lambda>yych. if yych = 115 then Goto 229
        else Goto 54)"

definition yy187 :: yyblock where
  "yy187 = Shift None
     (\<lambda>yych. if yych = 108 then Goto 230
        else Goto 54)"

definition yy188 :: yyblock where
  "yy188 = Shift None
     (\<lambda>yych. if yych = 116 then Goto 231
        else Goto 54)"

definition yy189 :: yyblock where
  "yy189 = Shift None
     (\<lambda>yych. if yych = 101 then Goto 232
        else Goto 54)"

definition yy190 :: yyblock where
  "yy190 = Shift None
     (\<lambda>yych. if yych = 117 then Goto 233
        else Goto 54)"

definition yy191 :: yyblock where
  "yy191 = Shift None
     (\<lambda>yych. if yych \<le> 90 then
          (if yych \<le> 57 then
             (if yych = 33 then Goto 112
              else if yych \<ge> 48 then Goto 53
              else Goto 192)
           else
             if yych = 61 then Goto 113
             else if yych \<ge> 65 then Goto 53
             else Goto 192)
        else
          if yych \<le> 122 then
            (if yych = 95 then Goto 53
             else if yych \<ge> 97 then Goto 53
             else Goto 192)
          else
            if yych \<le> 127 then Goto 192
            else if yych \<noteq> 65533 then Goto 53
            else Goto 192)"

definition yy192 :: yyblock where
  "yy192 = Action kNIL"

definition yy193 :: yyblock where
  "yy193 = Shift None
     (\<lambda>yych. if yych \<le> 90 then
          (if yych \<le> 57 then
             (if yych = 33 then Goto 112
              else if yych \<ge> 48 then Goto 53
              else Goto 194)
           else
             if yych = 61 then Goto 113
             else if yych \<ge> 65 then Goto 53
             else Goto 194)
        else
          if yych \<le> 122 then
            (if yych = 95 then Goto 53
             else if yych \<ge> 97 then Goto 53
             else Goto 194)
          else
            if yych \<le> 127 then Goto 194
            else if yych \<noteq> 65533 then Goto 53
            else Goto 194)"

definition yy194 :: yyblock where
  "yy194 = Action kOUT"

definition yy195 :: yyblock where
  "yy195 = Shift None
     (\<lambda>yych. if yych = 112 then Goto 234
        else Goto 54)"

definition yy196 :: yyblock where
  "yy196 = Shift None
     (\<lambda>yych. if yych = 118 then Goto 235
        else Goto 54)"

definition yy197 :: yyblock where
  "yy197 = Shift None
     (\<lambda>yych. if yych = 108 then Goto 236
        else Goto 54)"

definition yy198 :: yyblock where
  "yy198 = Shift None
     (\<lambda>yych. if yych = 117 then Goto 237
        else Goto 54)"

definition yy199 :: yyblock where
  "yy199 = Shift None
     (\<lambda>yych. if yych = 102 then Goto 238
        else Goto 54)"

definition yy200 :: yyblock where
  "yy200 = Shift None
     (\<lambda>yych. if yych = 103 then Goto 240
        else Goto 54)"

definition yy201 :: yyblock where
  "yy201 = Shift None
     (\<lambda>yych. if yych = 112 then Goto 241
        else Goto 54)"

definition yy202 :: yyblock where
  "yy202 = Shift None
     (\<lambda>yych. if yych \<le> 90 then
          (if yych \<le> 57 then
             (if yych = 33 then Goto 112
              else if yych \<ge> 48 then Goto 53
              else Goto 203)
           else
             if yych = 61 then Goto 113
             else if yych \<ge> 65 then Goto 53
             else Goto 203)
        else
          if yych \<le> 122 then
            (if yych = 95 then Goto 53
             else if yych \<ge> 97 then Goto 53
             else Goto 203)
          else
            if yych \<le> 127 then Goto 203
            else if yych \<noteq> 65533 then Goto 53
            else Goto 203)"

definition yy203 :: yyblock where
  "yy203 = Action kTOP"

definition yy204 :: yyblock where
  "yy204 = Shift None
     (\<lambda>yych. if yych = 101 then Goto 243
        else Goto 54)"

definition yy205 :: yyblock where
  "yy205 = Shift None
     (\<lambda>yych. if yych = 101 then Goto 245
        else Goto 54)"

definition yy206 :: yyblock where
  "yy206 = Shift None
     (\<lambda>yych. if yych = 104 then Goto 247
        else Goto 54)"

definition yy207 :: yyblock where
  "yy207 = Shift None
     (\<lambda>yych. if yych = 121 then Goto 248
        else Goto 54)"

definition yy208 :: yyblock where
  "yy208 = Shift None
     (\<lambda>yych. if yych \<le> 90 then
          (if yych \<le> 57 then
             (if yych = 33 then Goto 112
              else if yych \<ge> 48 then Goto 53
              else Goto 209)
           else
             if yych = 61 then Goto 113
             else if yych \<ge> 65 then Goto 53
             else Goto 209)
        else
          if yych \<le> 122 then
            (if yych = 95 then Goto 53
             else if yych \<ge> 97 then Goto 53
             else Goto 209)
          else
            if yych \<le> 127 then Goto 209
            else if yych \<noteq> 65533 then Goto 53
            else Goto 209)"

definition yy209 :: yyblock where
  "yy209 = Action kUSE"

definition yy210 :: yyblock where
  "yy210 = Shift None
     (\<lambda>yych. if yych = 100 then Goto 249
        else Goto 54)"

definition yy211 :: yyblock where
  "yy211 = Shift None
     (\<lambda>yych. if yych \<le> 64 then
          (if yych \<le> 47 then Goto 72
           else if yych \<le> 57 then Goto 251
           else Goto 72)
        else
          if yych \<le> 70 then Goto 251
          else if yych \<le> 96 then Goto 72
          else if yych \<le> 102 then Goto 251
          else Goto 72)"

definition yy212 :: yyblock where
  "yy212 = Skip (Accept tANNOTATION)"

definition yy213 :: yyblock where
  "yy213 = Skip (Accept tANNOTATION)"

definition yy214 :: yyblock where
  "yy214 = Skip (Accept tANNOTATION)"

definition yy215 :: yyblock where
  "yy215 = Skip (Accept tANNOTATION)"

definition yy216 :: yyblock where
  "yy216 = Skip (Accept tANNOTATION)"

definition yy217 :: yyblock where
  "yy217 = Shift None
     (\<lambda>yych. if yych \<le> 64 then
          (if yych \<le> 47 then Goto 72
           else if yych \<le> 57 then Goto 252
           else Goto 72)
        else
          if yych \<le> 70 then Goto 252
          else if yych \<le> 96 then Goto 72
          else if yych \<le> 102 then Goto 252
          else Goto 72)"

definition yy218 :: yyblock where
  "yy218 = Shift None
     (\<lambda>yych. if yych \<le> 64 then
          (if yych \<le> 47 then Goto 72
           else if yych \<le> 57 then Goto 90
           else Goto 72)
        else
          if yych \<le> 70 then Goto 90
          else if yych \<le> 96 then Goto 72
          else if yych \<le> 102 then Goto 90
          else Goto 72)"

definition yy219 :: yyblock where
  "yy219 = Shift (Some 6)
     (\<lambda>yych. if yych \<le> 39 then
          (if yych \<le> 0 then Goto 164
           else if yych \<le> 38 then Goto 93
           else Goto 163)
        else
          if yych = 92 then Goto 165
          else Goto 93)"

definition yy220 :: yyblock where
  "yy220 = Shift None
     (\<lambda>yych. if yych \<le> 95 then
          (if yych \<le> 64 then
             (if yych \<le> 47 then Goto 221
              else if yych \<le> 57 then Goto 108
              else Goto 221)
           else
             if yych \<le> 90 then Goto 108
             else if yych \<ge> 95 then Goto 108
             else Goto 221)
        else
          if yych \<le> 127 then
            (if yych \<le> 96 then Goto 221
             else if yych \<le> 122 then Goto 108
             else Goto 221)
          else
            if yych \<noteq> 65533 then Goto 108
            else Goto 221)"

definition yy221 :: yyblock where
  "yy221 = Action kATRBS"

definition yy222 :: yyblock where
  "yy222 = Shift None
     (\<lambda>yych. if yych = 100 then Goto 253
        else Goto 116)"

definition yy223 :: yyblock where
  "yy223 = Shift None
     (\<lambda>yych. if yych = 115 then Goto 254
        else Goto 54)"

end
