(* ===== verification/LexerBlocks3.thy ===== *)
theory LexerBlocks3
  imports LexerState
begin

text \<open>
  The labels 224 to 355 of \<open>rbs_lexer_next_token\<close> in \<open>src/lexer.c\<close>, the code re2c generates
  from \<open>src/lexer.re\<close>: one block per label, its conditions those of the C code.
\<close>

definition yy224 :: yyblock where
  "yy224 = Shift None
     (\<lambda>yych. if yych = 95 then Goto 256
        else Goto 54)"

definition yy225 :: yyblock where
  "yy225 = Shift None
     (\<lambda>yych. if yych \<le> 90 then
          (if yych \<le> 57 then
             (if yych = 33 then Goto 112
              else if yych \<ge> 48 then Goto 53
              else Goto 226)
           else
             if yych = 61 then Goto 113
             else if yych \<ge> 65 then Goto 53
             else Goto 226)
        else
          if yych \<le> 122 then
            (if yych = 95 then Goto 53
             else if yych \<ge> 97 then Goto 53
             else Goto 226)
          else
            if yych \<le> 127 then Goto 226
            else if yych \<noteq> 65533 then Goto 53
            else Goto 226)"

definition yy226 :: yyblock where
  "yy226 = Action kBOOL"

definition yy227 :: yyblock where
  "yy227 = Shift None
     (\<lambda>yych. if yych = 115 then Goto 257
        else Goto 54)"

definition yy228 :: yyblock where
  "yy228 = Shift None
     (\<lambda>yych. if yych = 110 then Goto 259
        else Goto 54)"

definition yy229 :: yyblock where
  "yy229 = Shift None
     (\<lambda>yych. if yych = 101 then Goto 260
        else Goto 54)"

definition yy230 :: yyblock where
  "yy230 = Shift None
     (\<lambda>yych. if yych = 117 then Goto 262
        else Goto 54)"

definition yy231 :: yyblock where
  "yy231 = Shift None
     (\<lambda>yych. if yych = 97 then Goto 263
        else Goto 54)"

definition yy232 :: yyblock where
  "yy232 = Shift None
     (\<lambda>yych. if yych = 114 then Goto 264
        else Goto 54)"

definition yy233 :: yyblock where
  "yy233 = Shift None
     (\<lambda>yych. if yych = 108 then Goto 265
        else Goto 54)"

definition yy234 :: yyblock where
  "yy234 = Shift None
     (\<lambda>yych. if yych = 101 then Goto 266
        else Goto 54)"

definition yy235 :: yyblock where
  "yy235 = Shift None
     (\<lambda>yych. if yych = 97 then Goto 267
        else Goto 54)"

definition yy236 :: yyblock where
  "yy236 = Shift None
     (\<lambda>yych. if yych = 105 then Goto 268
        else Goto 54)"

definition yy237 :: yyblock where
  "yy237 = Shift None
     (\<lambda>yych. if yych = 114 then Goto 269
        else Goto 54)"

definition yy238 :: yyblock where
  "yy238 = Shift None
     (\<lambda>yych. if yych \<le> 90 then
          (if yych \<le> 57 then
             (if yych = 33 then Goto 112
              else if yych \<ge> 48 then Goto 53
              else Goto 239)
           else
             if yych = 61 then Goto 113
             else if yych \<ge> 65 then Goto 53
             else Goto 239)
        else
          if yych \<le> 122 then
            (if yych = 95 then Goto 53
             else if yych \<ge> 97 then Goto 53
             else Goto 239)
          else
            if yych \<le> 127 then Goto 239
            else if yych \<noteq> 65533 then Goto 53
            else Goto 239)"

definition yy239 :: yyblock where
  "yy239 = Action kSELF"

definition yy240 :: yyblock where
  "yy240 = Shift None
     (\<lambda>yych. if yych = 108 then Goto 270
        else Goto 54)"

definition yy241 :: yyblock where
  "yy241 = Shift None
     (\<lambda>yych. if yych \<le> 90 then
          (if yych \<le> 57 then
             (if yych = 33 then Goto 112
              else if yych \<ge> 48 then Goto 53
              else Goto 242)
           else
             if yych = 61 then Goto 113
             else if yych \<ge> 65 then Goto 53
             else Goto 242)
        else
          if yych \<le> 122 then
            (if yych = 95 then Goto 53
             else if yych \<ge> 97 then Goto 53
             else Goto 242)
          else
            if yych \<le> 127 then Goto 242
            else if yych \<noteq> 65533 then Goto 53
            else Goto 242)"

definition yy242 :: yyblock where
  "yy242 = Action kSKIP"

definition yy243 :: yyblock where
  "yy243 = Shift None
     (\<lambda>yych. if yych \<le> 90 then
          (if yych \<le> 57 then
             (if yych = 33 then Goto 112
              else if yych \<ge> 48 then Goto 53
              else Goto 244)
           else
             if yych = 61 then Goto 113
             else if yych \<ge> 65 then Goto 53
             else Goto 244)
        else
          if yych \<le> 122 then
            (if yych = 95 then Goto 53
             else if yych \<ge> 97 then Goto 53
             else Goto 244)
          else
            if yych \<le> 127 then Goto 244
            else if yych \<noteq> 65533 then Goto 53
            else Goto 244)"

definition yy244 :: yyblock where
  "yy244 = Action kTRUE"

definition yy245 :: yyblock where
  "yy245 = Shift None
     (\<lambda>yych. if yych \<le> 90 then
          (if yych \<le> 57 then
             (if yych = 33 then Goto 112
              else if yych \<ge> 48 then Goto 53
              else Goto 246)
           else
             if yych = 61 then Goto 113
             else if yych \<ge> 65 then Goto 53
             else Goto 246)
        else
          if yych \<le> 122 then
            (if yych = 95 then Goto 53
             else if yych \<ge> 97 then Goto 53
             else Goto 246)
          else
            if yych \<le> 127 then Goto 246
            else if yych \<noteq> 65533 then Goto 53
            else Goto 246)"

definition yy246 :: yyblock where
  "yy246 = Action kTYPE"

definition yy247 :: yyblock where
  "yy247 = Shift None
     (\<lambda>yych. if yych = 101 then Goto 271
        else Goto 54)"

definition yy248 :: yyblock where
  "yy248 = Shift None
     (\<lambda>yych. if yych = 112 then Goto 272
        else Goto 54)"

definition yy249 :: yyblock where
  "yy249 = Shift None
     (\<lambda>yych. if yych \<le> 90 then
          (if yych \<le> 57 then
             (if yych = 33 then Goto 112
              else if yych \<ge> 48 then Goto 53
              else Goto 250)
           else
             if yych = 61 then Goto 113
             else if yych \<ge> 65 then Goto 53
             else Goto 250)
        else
          if yych \<le> 122 then
            (if yych = 95 then Goto 53
             else if yych \<ge> 97 then Goto 53
             else Goto 250)
          else
            if yych \<le> 127 then Goto 250
            else if yych \<noteq> 65533 then Goto 53
            else Goto 250)"

definition yy250 :: yyblock where
  "yy250 = Action kVOID"

definition yy251 :: yyblock where
  "yy251 = Shift None
     (\<lambda>yych. if yych \<le> 64 then
          (if yych \<le> 47 then Goto 72
           else if yych \<le> 57 then Goto 150
           else Goto 72)
        else
          if yych \<le> 70 then Goto 150
          else if yych \<le> 96 then Goto 72
          else if yych \<le> 102 then Goto 150
          else Goto 72)"

definition yy252 :: yyblock where
  "yy252 = Shift None
     (\<lambda>yych. if yych \<le> 64 then
          (if yych \<le> 47 then Goto 72
           else if yych \<le> 57 then Goto 273
           else Goto 72)
        else
          if yych \<le> 70 then Goto 273
          else if yych \<le> 96 then Goto 72
          else if yych \<le> 102 then Goto 273
          else Goto 72)"

definition yy253 :: yyblock where
  "yy253 = Shift None
     (\<lambda>yych. if yych = 111 then Goto 274
        else Goto 116)"

definition yy254 :: yyblock where
  "yy254 = Shift None
     (\<lambda>yych. if yych \<le> 90 then
          (if yych \<le> 57 then
             (if yych = 33 then Goto 112
              else if yych \<ge> 48 then Goto 53
              else Goto 255)
           else
             if yych = 61 then Goto 113
             else if yych \<ge> 65 then Goto 53
             else Goto 255)
        else
          if yych \<le> 122 then
            (if yych = 95 then Goto 53
             else if yych \<ge> 97 then Goto 53
             else Goto 255)
          else
            if yych \<le> 127 then Goto 255
            else if yych \<noteq> 65533 then Goto 53
            else Goto 255)"

definition yy255 :: yyblock where
  "yy255 = Action kALIAS"

definition yy256 :: yyblock where
  "yy256 = Shift None
     (\<lambda>yych. if yych \<le> 113 then
          (if yych = 97 then Goto 275
           else Goto 54)
        else
          if yych \<le> 114 then Goto 276
          else if yych = 119 then Goto 277
          else Goto 54)"

definition yy257 :: yyblock where
  "yy257 = Shift (Some 7)
     (\<lambda>yych. if yych \<le> 64 then
          (if yych \<le> 45 then
             (if yych = 33 then Goto 112
              else if yych \<ge> 45 then Goto 278
              else Goto 258)
           else
             if yych \<le> 57 then
               (if yych \<ge> 48 then Goto 53
                else Goto 258)
             else
               if yych = 61 then Goto 113
               else Goto 258)
        else
          if yych \<le> 96 then
            (if yych \<le> 90 then Goto 53
             else if yych = 95 then Goto 53
             else Goto 258)
          else
            if yych \<le> 127 then
              (if yych \<le> 122 then Goto 53
               else Goto 258)
            else
              if yych \<noteq> 65533 then Goto 53
              else Goto 258)"

definition yy258 :: yyblock where
  "yy258 = Action kCLASS"

definition yy259 :: yyblock where
  "yy259 = Shift None
     (\<lambda>yych. if yych = 100 then Goto 279
        else Goto 54)"

definition yy260 :: yyblock where
  "yy260 = Shift None
     (\<lambda>yych. if yych \<le> 90 then
          (if yych \<le> 57 then
             (if yych = 33 then Goto 112
              else if yych \<ge> 48 then Goto 53
              else Goto 261)
           else
             if yych = 61 then Goto 113
             else if yych \<ge> 65 then Goto 53
             else Goto 261)
        else
          if yych \<le> 122 then
            (if yych = 95 then Goto 53
             else if yych \<ge> 97 then Goto 53
             else Goto 261)
          else
            if yych \<le> 127 then Goto 261
            else if yych \<noteq> 65533 then Goto 53
            else Goto 261)"

definition yy261 :: yyblock where
  "yy261 = Action kFALSE"

definition yy262 :: yyblock where
  "yy262 = Shift None
     (\<lambda>yych. if yych = 100 then Goto 281
        else Goto 54)"

definition yy263 :: yyblock where
  "yy263 = Shift None
     (\<lambda>yych. if yych = 110 then Goto 282
        else Goto 54)"

definition yy264 :: yyblock where
  "yy264 = Shift None
     (\<lambda>yych. if yych = 102 then Goto 283
        else Goto 54)"

definition yy265 :: yyblock where
  "yy265 = Shift None
     (\<lambda>yych. if yych = 101 then Goto 284
        else Goto 54)"

definition yy266 :: yyblock where
  "yy266 = Shift None
     (\<lambda>yych. if yych = 110 then Goto 286
        else Goto 54)"

definition yy267 :: yyblock where
  "yy267 = Shift None
     (\<lambda>yych. if yych = 116 then Goto 287
        else Goto 54)"

definition yy268 :: yyblock where
  "yy268 = Shift None
     (\<lambda>yych. if yych = 99 then Goto 288
        else Goto 54)"

definition yy269 :: yyblock where
  "yy269 = Shift None
     (\<lambda>yych. if yych = 110 then Goto 290
        else Goto 54)"

definition yy270 :: yyblock where
  "yy270 = Shift None
     (\<lambda>yych. if yych = 101 then Goto 292
        else Goto 54)"

definition yy271 :: yyblock where
  "yy271 = Shift None
     (\<lambda>yych. if yych = 99 then Goto 293
        else Goto 54)"

definition yy272 :: yyblock where
  "yy272 = Shift None
     (\<lambda>yych. if yych = 101 then Goto 294
        else Goto 54)"

definition yy273 :: yyblock where
  "yy273 = Shift None
     (\<lambda>yych. if yych \<le> 64 then
          (if yych \<le> 47 then Goto 72
           else if yych \<le> 57 then Goto 218
           else Goto 72)
        else
          if yych \<le> 70 then Goto 218
          else if yych \<le> 96 then Goto 72
          else if yych \<le> 102 then Goto 218
          else Goto 72)"

definition yy274 :: yyblock where
  "yy274 = Shift None
     (\<lambda>yych. if yych = 95 then Goto 295
        else Goto 116)"

definition yy275 :: yyblock where
  "yy275 = Shift None
     (\<lambda>yych. if yych = 99 then Goto 296
        else Goto 54)"

definition yy276 :: yyblock where
  "yy276 = Shift None
     (\<lambda>yych. if yych = 101 then Goto 297
        else Goto 54)"

definition yy277 :: yyblock where
  "yy277 = Shift None
     (\<lambda>yych. if yych = 114 then Goto 298
        else Goto 54)"

definition yy278 :: yyblock where
  "yy278 = Shift None
     (\<lambda>yych. if yych = 97 then Goto 299
        else Goto 72)"

definition yy279 :: yyblock where
  "yy279 = Shift None
     (\<lambda>yych. if yych \<le> 90 then
          (if yych \<le> 57 then
             (if yych = 33 then Goto 112
              else if yych \<ge> 48 then Goto 53
              else Goto 280)
           else
             if yych = 61 then Goto 113
             else if yych \<ge> 65 then Goto 53
             else Goto 280)
        else
          if yych \<le> 122 then
            (if yych = 95 then Goto 53
             else if yych \<ge> 97 then Goto 53
             else Goto 280)
          else
            if yych \<le> 127 then Goto 280
            else if yych \<noteq> 65533 then Goto 53
            else Goto 280)"

definition yy280 :: yyblock where
  "yy280 = Action kEXTEND"

definition yy281 :: yyblock where
  "yy281 = Shift None
     (\<lambda>yych. if yych = 101 then Goto 300
        else Goto 54)"

definition yy282 :: yyblock where
  "yy282 = Shift None
     (\<lambda>yych. if yych = 99 then Goto 302
        else Goto 54)"

definition yy283 :: yyblock where
  "yy283 = Shift None
     (\<lambda>yych. if yych = 97 then Goto 303
        else Goto 54)"

definition yy284 :: yyblock where
  "yy284 = Shift (Some 8)
     (\<lambda>yych. if yych \<le> 64 then
          (if yych \<le> 45 then
             (if yych = 33 then Goto 112
              else if yych \<ge> 45 then Goto 304
              else Goto 285)
           else
             if yych \<le> 57 then
               (if yych \<ge> 48 then Goto 53
                else Goto 285)
             else
               if yych = 61 then Goto 113
               else Goto 285)
        else
          if yych \<le> 96 then
            (if yych \<le> 90 then Goto 53
             else if yych = 95 then Goto 53
             else Goto 285)
          else
            if yych \<le> 127 then
              (if yych \<le> 122 then Goto 53
               else Goto 285)
            else
              if yych \<noteq> 65533 then Goto 53
              else Goto 285)"

definition yy285 :: yyblock where
  "yy285 = Action kMODULE"

definition yy286 :: yyblock where
  "yy286 = Shift None
     (\<lambda>yych. if yych = 100 then Goto 305
        else Goto 54)"

definition yy287 :: yyblock where
  "yy287 = Shift None
     (\<lambda>yych. if yych = 101 then Goto 307
        else Goto 54)"

definition yy288 :: yyblock where
  "yy288 = Shift None
     (\<lambda>yych. if yych \<le> 90 then
          (if yych \<le> 57 then
             (if yych = 33 then Goto 112
              else if yych \<ge> 48 then Goto 53
              else Goto 289)
           else
             if yych = 61 then Goto 113
             else if yych \<ge> 65 then Goto 53
             else Goto 289)
        else
          if yych \<le> 122 then
            (if yych = 95 then Goto 53
             else if yych \<ge> 97 then Goto 53
             else Goto 289)
          else
            if yych \<le> 127 then Goto 289
            else if yych \<noteq> 65533 then Goto 53
            else Goto 289)"

definition yy289 :: yyblock where
  "yy289 = Action kPUBLIC"

definition yy290 :: yyblock where
  "yy290 = Shift None
     (\<lambda>yych. if yych \<le> 90 then
          (if yych \<le> 57 then
             (if yych = 33 then Goto 112
              else if yych \<ge> 48 then Goto 53
              else Goto 291)
           else
             if yych = 61 then Goto 113
             else if yych \<ge> 65 then Goto 53
             else Goto 291)
        else
          if yych \<le> 122 then
            (if yych = 95 then Goto 53
             else if yych \<ge> 97 then Goto 53
             else Goto 291)
          else
            if yych \<le> 127 then Goto 291
            else if yych \<noteq> 65533 then Goto 53
            else Goto 291)"

definition yy291 :: yyblock where
  "yy291 = Action kRETURN"

definition yy292 :: yyblock where
  "yy292 = Shift None
     (\<lambda>yych. if yych = 116 then Goto 309
        else Goto 54)"

definition yy293 :: yyblock where
  "yy293 = Shift None
     (\<lambda>yych. if yych = 107 then Goto 310
        else Goto 54)"

definition yy294 :: yyblock where
  "yy294 = Shift None
     (\<lambda>yych. if yych = 100 then Goto 311
        else Goto 54)"

definition yy295 :: yyblock where
  "yy295 = Shift None
     (\<lambda>yych. if yych = 95 then Goto 313
        else Goto 116)"

definition yy296 :: yyblock where
  "yy296 = Shift None
     (\<lambda>yych. if yych = 99 then Goto 315
        else Goto 54)"

definition yy297 :: yyblock where
  "yy297 = Shift None
     (\<lambda>yych. if yych = 97 then Goto 316
        else Goto 54)"

definition yy298 :: yyblock where
  "yy298 = Shift None
     (\<lambda>yych. if yych = 105 then Goto 317
        else Goto 54)"

definition yy299 :: yyblock where
  "yy299 = Shift None
     (\<lambda>yych. if yych = 108 then Goto 318
        else Goto 72)"

definition yy300 :: yyblock where
  "yy300 = Shift None
     (\<lambda>yych. if yych \<le> 90 then
          (if yych \<le> 57 then
             (if yych = 33 then Goto 112
              else if yych \<ge> 48 then Goto 53
              else Goto 301)
           else
             if yych = 61 then Goto 113
             else if yych \<ge> 65 then Goto 53
             else Goto 301)
        else
          if yych \<le> 122 then
            (if yych = 95 then Goto 53
             else if yych \<ge> 97 then Goto 53
             else Goto 301)
          else
            if yych \<le> 127 then Goto 301
            else if yych \<noteq> 65533 then Goto 53
            else Goto 301)"

definition yy301 :: yyblock where
  "yy301 = Action kINCLUDE"

definition yy302 :: yyblock where
  "yy302 = Shift None
     (\<lambda>yych. if yych = 101 then Goto 319
        else Goto 54)"

definition yy303 :: yyblock where
  "yy303 = Shift None
     (\<lambda>yych. if yych = 99 then Goto 321
        else Goto 54)"

definition yy304 :: yyblock where
  "yy304 = Shift None
     (\<lambda>yych. if yych = 97 then Goto 322
        else if yych = 115 then Goto 323
        else Goto 72)"

definition yy305 :: yyblock where
  "yy305 = Shift None
     (\<lambda>yych. if yych \<le> 90 then
          (if yych \<le> 57 then
             (if yych = 33 then Goto 112
              else if yych \<ge> 48 then Goto 53
              else Goto 306)
           else
             if yych = 61 then Goto 113
             else if yych \<ge> 65 then Goto 53
             else Goto 306)
        else
          if yych \<le> 122 then
            (if yych = 95 then Goto 53
             else if yych \<ge> 97 then Goto 53
             else Goto 306)
          else
            if yych \<le> 127 then Goto 306
            else if yych \<noteq> 65533 then Goto 53
            else Goto 306)"

definition yy306 :: yyblock where
  "yy306 = Action kPREPEND"

definition yy307 :: yyblock where
  "yy307 = Shift None
     (\<lambda>yych. if yych \<le> 90 then
          (if yych \<le> 57 then
             (if yych = 33 then Goto 112
              else if yych \<ge> 48 then Goto 53
              else Goto 308)
           else
             if yych = 61 then Goto 113
             else if yych \<ge> 65 then Goto 53
             else Goto 308)
        else
          if yych \<le> 122 then
            (if yych = 95 then Goto 53
             else if yych \<ge> 97 then Goto 53
             else Goto 308)
          else
            if yych \<le> 127 then Goto 308
            else if yych \<noteq> 65533 then Goto 53
            else Goto 308)"

definition yy308 :: yyblock where
  "yy308 = Action kPRIVATE"

definition yy309 :: yyblock where
  "yy309 = Shift None
     (\<lambda>yych. if yych = 111 then Goto 324
        else Goto 54)"

definition yy310 :: yyblock where
  "yy310 = Shift None
     (\<lambda>yych. if yych = 101 then Goto 325
        else Goto 54)"

definition yy311 :: yyblock where
  "yy311 = Shift None
     (\<lambda>yych. if yych \<le> 90 then
          (if yych \<le> 57 then
             (if yych = 33 then Goto 112
              else if yych \<ge> 48 then Goto 53
              else Goto 312)
           else
             if yych = 61 then Goto 113
             else if yych \<ge> 65 then Goto 53
             else Goto 312)
        else
          if yych \<le> 122 then
            (if yych = 95 then Goto 53
             else if yych \<ge> 97 then Goto 53
             else Goto 312)
          else
            if yych \<le> 127 then Goto 312
            else if yych \<noteq> 65533 then Goto 53
            else Goto 312)"

definition yy312 :: yyblock where
  "yy312 = Action kUNTYPED"

definition yy313 :: yyblock where
  "yy313 = Shift None
     (\<lambda>yych. if yych \<le> 90 then
          (if yych \<le> 57 then
             (if yych = 33 then Goto 112
              else if yych \<ge> 48 then Goto 115
              else Goto 314)
           else
             if yych = 61 then Goto 113
             else if yych \<ge> 65 then Goto 115
             else Goto 314)
        else
          if yych \<le> 122 then
            (if yych = 95 then Goto 115
             else if yych \<ge> 97 then Goto 115
             else Goto 314)
          else
            if yych \<le> 127 then Goto 314
            else if yych \<noteq> 65533 then Goto 115
            else Goto 314)"

definition yy314 :: yyblock where
  "yy314 = Action kTODO"

definition yy315 :: yyblock where
  "yy315 = Shift None
     (\<lambda>yych. if yych = 101 then Goto 326
        else Goto 54)"

definition yy316 :: yyblock where
  "yy316 = Shift None
     (\<lambda>yych. if yych = 100 then Goto 327
        else Goto 54)"

definition yy317 :: yyblock where
  "yy317 = Shift None
     (\<lambda>yych. if yych = 116 then Goto 328
        else Goto 54)"

definition yy318 :: yyblock where
  "yy318 = Shift None
     (\<lambda>yych. if yych = 105 then Goto 329
        else Goto 72)"

definition yy319 :: yyblock where
  "yy319 = Shift None
     (\<lambda>yych. if yych \<le> 90 then
          (if yych \<le> 57 then
             (if yych = 33 then Goto 112
              else if yych \<ge> 48 then Goto 53
              else Goto 320)
           else
             if yych = 61 then Goto 113
             else if yych \<ge> 65 then Goto 53
             else Goto 320)
        else
          if yych \<le> 122 then
            (if yych = 95 then Goto 53
             else if yych \<ge> 97 then Goto 53
             else Goto 320)
          else
            if yych \<le> 127 then Goto 320
            else if yych \<noteq> 65533 then Goto 53
            else Goto 320)"

definition yy320 :: yyblock where
  "yy320 = Action kINSTANCE"

definition yy321 :: yyblock where
  "yy321 = Shift None
     (\<lambda>yych. if yych = 101 then Goto 330
        else Goto 54)"

definition yy322 :: yyblock where
  "yy322 = Shift None
     (\<lambda>yych. if yych = 108 then Goto 332
        else Goto 72)"

definition yy323 :: yyblock where
  "yy323 = Shift None
     (\<lambda>yych. if yych = 101 then Goto 333
        else Goto 72)"

definition yy324 :: yyblock where
  "yy324 = Shift None
     (\<lambda>yych. if yych = 110 then Goto 334
        else Goto 54)"

definition yy325 :: yyblock where
  "yy325 = Shift None
     (\<lambda>yych. if yych = 100 then Goto 336
        else Goto 54)"

definition yy326 :: yyblock where
  "yy326 = Shift None
     (\<lambda>yych. if yych = 115 then Goto 338
        else Goto 54)"

definition yy327 :: yyblock where
  "yy327 = Shift None
     (\<lambda>yych. if yych = 101 then Goto 339
        else Goto 54)"

definition yy328 :: yyblock where
  "yy328 = Shift None
     (\<lambda>yych. if yych = 101 then Goto 340
        else Goto 54)"

definition yy329 :: yyblock where
  "yy329 = Shift None
     (\<lambda>yych. if yych = 97 then Goto 341
        else Goto 72)"

definition yy330 :: yyblock where
  "yy330 = Shift None
     (\<lambda>yych. if yych \<le> 90 then
          (if yych \<le> 57 then
             (if yych = 33 then Goto 112
              else if yych \<ge> 48 then Goto 53
              else Goto 331)
           else
             if yych = 61 then Goto 113
             else if yych \<ge> 65 then Goto 53
             else Goto 331)
        else
          if yych \<le> 122 then
            (if yych = 95 then Goto 53
             else if yych \<ge> 97 then Goto 53
             else Goto 331)
          else
            if yych \<le> 127 then Goto 331
            else if yych \<noteq> 65533 then Goto 53
            else Goto 331)"

definition yy331 :: yyblock where
  "yy331 = Action kINTERFACE"

definition yy332 :: yyblock where
  "yy332 = Shift None
     (\<lambda>yych. if yych = 105 then Goto 342
        else Goto 72)"

definition yy333 :: yyblock where
  "yy333 = Shift None
     (\<lambda>yych. if yych = 108 then Goto 343
        else Goto 72)"

definition yy334 :: yyblock where
  "yy334 = Shift None
     (\<lambda>yych. if yych \<le> 90 then
          (if yych \<le> 57 then
             (if yych = 33 then Goto 112
              else if yych \<ge> 48 then Goto 53
              else Goto 335)
           else
             if yych = 61 then Goto 113
             else if yych \<ge> 65 then Goto 53
             else Goto 335)
        else
          if yych \<le> 122 then
            (if yych = 95 then Goto 53
             else if yych \<ge> 97 then Goto 53
             else Goto 335)
          else
            if yych \<le> 127 then Goto 335
            else if yych \<noteq> 65533 then Goto 53
            else Goto 335)"

definition yy335 :: yyblock where
  "yy335 = Action kSINGLETON"

definition yy336 :: yyblock where
  "yy336 = Shift None
     (\<lambda>yych. if yych \<le> 90 then
          (if yych \<le> 57 then
             (if yych = 33 then Goto 112
              else if yych \<ge> 48 then Goto 53
              else Goto 337)
           else
             if yych = 61 then Goto 113
             else if yych \<ge> 65 then Goto 53
             else Goto 337)
        else
          if yych \<le> 122 then
            (if yych = 95 then Goto 53
             else if yych \<ge> 97 then Goto 53
             else Goto 337)
          else
            if yych \<le> 127 then Goto 337
            else if yych \<noteq> 65533 then Goto 53
            else Goto 337)"

definition yy337 :: yyblock where
  "yy337 = Action kUNCHECKED"

definition yy338 :: yyblock where
  "yy338 = Shift None
     (\<lambda>yych. if yych = 115 then Goto 344
        else Goto 54)"

definition yy339 :: yyblock where
  "yy339 = Shift None
     (\<lambda>yych. if yych = 114 then Goto 345
        else Goto 54)"

definition yy340 :: yyblock where
  "yy340 = Shift None
     (\<lambda>yych. if yych = 114 then Goto 347
        else Goto 54)"

definition yy341 :: yyblock where
  "yy341 = Shift None
     (\<lambda>yych. if yych = 115 then Goto 349
        else Goto 72)"

definition yy342 :: yyblock where
  "yy342 = Shift None
     (\<lambda>yych. if yych = 97 then Goto 350
        else Goto 72)"

definition yy343 :: yyblock where
  "yy343 = Shift None
     (\<lambda>yych. if yych = 102 then Goto 351
        else Goto 72)"

definition yy344 :: yyblock where
  "yy344 = Shift None
     (\<lambda>yych. if yych = 111 then Goto 352
        else Goto 54)"

definition yy345 :: yyblock where
  "yy345 = Shift None
     (\<lambda>yych. if yych \<le> 90 then
          (if yych \<le> 57 then
             (if yych = 33 then Goto 112
              else if yych \<ge> 48 then Goto 53
              else Goto 346)
           else
             if yych = 61 then Goto 113
             else if yych \<ge> 65 then Goto 53
             else Goto 346)
        else
          if yych \<le> 122 then
            (if yych = 95 then Goto 53
             else if yych \<ge> 97 then Goto 53
             else Goto 346)
          else
            if yych \<le> 127 then Goto 346
            else if yych \<noteq> 65533 then Goto 53
            else Goto 346)"

definition yy346 :: yyblock where
  "yy346 = Action kATTRREADER"

definition yy347 :: yyblock where
  "yy347 = Shift None
     (\<lambda>yych. if yych \<le> 90 then
          (if yych \<le> 57 then
             (if yych = 33 then Goto 112
              else if yych \<ge> 48 then Goto 53
              else Goto 348)
           else
             if yych = 61 then Goto 113
             else if yych \<ge> 65 then Goto 53
             else Goto 348)
        else
          if yych \<le> 122 then
            (if yych = 95 then Goto 53
             else if yych \<ge> 97 then Goto 53
             else Goto 348)
          else
            if yych \<le> 127 then Goto 348
            else if yych \<noteq> 65533 then Goto 53
            else Goto 348)"

definition yy348 :: yyblock where
  "yy348 = Action kATTRWRITER"

definition yy349 :: yyblock where
  "yy349 = Skip (Accept kCLASSALIAS)"

definition yy350 :: yyblock where
  "yy350 = Shift None
     (\<lambda>yych. if yych = 115 then Goto 353
        else Goto 72)"

definition yy351 :: yyblock where
  "yy351 = Skip (Accept kMODULESELF)"

definition yy352 :: yyblock where
  "yy352 = Shift None
     (\<lambda>yych. if yych = 114 then Goto 354
        else Goto 54)"

definition yy353 :: yyblock where
  "yy353 = Skip (Accept kMODULEALIAS)"

definition yy354 :: yyblock where
  "yy354 = Shift None
     (\<lambda>yych. if yych \<le> 90 then
          (if yych \<le> 57 then
             (if yych = 33 then Goto 112
              else if yych \<ge> 48 then Goto 53
              else Goto 355)
           else
             if yych = 61 then Goto 113
             else if yych \<ge> 65 then Goto 53
             else Goto 355)
        else
          if yych \<le> 122 then
            (if yych = 95 then Goto 53
             else if yych \<ge> 97 then Goto 53
             else Goto 355)
          else
            if yych \<le> 127 then Goto 355
            else if yych \<noteq> 65533 then Goto 53
            else Goto 355)"

definition yy355 :: yyblock where
  "yy355 = Action kATTRACCESSOR"

end
