(* ===== verification/LexerTable.thy ===== *)
theory LexerTable
  imports LexerBlocks1 LexerBlocks2 LexerBlocks3
begin

text \<open>
  The table of all labels, and the facts about its 356 blocks that the proofs on the lexer
  need, checked block by block: where each block can go, what it does at the end of the
  input, and that a block which can end in \<open>*lexer = backup;\<close> is entered with a backup.
\<close>

definition yy_table :: "yyblock list" where
  "yy_table =
     [yy0, yy1, yy2, yy3, yy4, yy5, yy6, yy7, yy8, yy9, yy10, yy11, yy12, yy13, yy14, yy15,
      yy16, yy17, yy18, yy19, yy20, yy21, yy22, yy23, yy24, yy25, yy26, yy27, yy28, yy29, yy30,
      yy31, yy32, yy33, yy34, yy35, yy36, yy37, yy38, yy39, yy40, yy41, yy42, yy43, yy44, yy45,
      yy46, yy47, yy48, yy49, yy50, yy51, yy52, yy53, yy54, yy55, yy56, yy57, yy58, yy59, yy60,
      yy61, yy62, yy63, yy64, yy65, yy66, yy67, yy68, yy69, yy70, yy71, yy72, yy73, yy74, yy75,
      yy76, yy77, yy78, yy79, yy80, yy81, yy82, yy83, yy84, yy85, yy86, yy87, yy88, yy89, yy90,
      yy91, yy92, yy93, yy94, yy95, yy96, yy97, yy98, yy99, yy100, yy101, yy102, yy103, yy104,
      yy105, yy106, yy107, yy108, yy109, yy110, yy111, yy112, yy113, yy114, yy115, yy116,
      yy117, yy118, yy119, yy120, yy121, yy122, yy123, yy124, yy125, yy126, yy127, yy128,
      yy129, yy130, yy131, yy132, yy133, yy134, yy135, yy136, yy137, yy138, yy139, yy140,
      yy141, yy142, yy143, yy144, yy145, yy146, yy147, yy148, yy149, yy150, yy151, yy152,
      yy153, yy154, yy155, yy156, yy157, yy158, yy159, yy160, yy161, yy162, yy163, yy164,
      yy165, yy166, yy167, yy168, yy169, yy170, yy171, yy172, yy173, yy174, yy175, yy176,
      yy177, yy178, yy179, yy180, yy181, yy182, yy183, yy184, yy185, yy186, yy187, yy188,
      yy189, yy190, yy191, yy192, yy193, yy194, yy195, yy196, yy197, yy198, yy199, yy200,
      yy201, yy202, yy203, yy204, yy205, yy206, yy207, yy208, yy209, yy210, yy211, yy212,
      yy213, yy214, yy215, yy216, yy217, yy218, yy219, yy220, yy221, yy222, yy223, yy224,
      yy225, yy226, yy227, yy228, yy229, yy230, yy231, yy232, yy233, yy234, yy235, yy236,
      yy237, yy238, yy239, yy240, yy241, yy242, yy243, yy244, yy245, yy246, yy247, yy248,
      yy249, yy250, yy251, yy252, yy253, yy254, yy255, yy256, yy257, yy258, yy259, yy260,
      yy261, yy262, yy263, yy264, yy265, yy266, yy267, yy268, yy269, yy270, yy271, yy272,
      yy273, yy274, yy275, yy276, yy277, yy278, yy279, yy280, yy281, yy282, yy283, yy284,
      yy285, yy286, yy287, yy288, yy289, yy290, yy291, yy292, yy293, yy294, yy295, yy296,
      yy297, yy298, yy299, yy300, yy301, yy302, yy303, yy304, yy305, yy306, yy307, yy308,
      yy309, yy310, yy311, yy312, yy313, yy314, yy315, yy316, yy317, yy318, yy319, yy320,
      yy321, yy322, yy323, yy324, yy325, yy326, yy327, yy328, yy329, yy330, yy331, yy332,
      yy333, yy334, yy335, yy336, yy337, yy338, yy339, yy340, yy341, yy342, yy343, yy344,
      yy345, yy346, yy347, yy348, yy349, yy350, yy351, yy352, yy353, yy354, yy355]"

subsection \<open>Kinds of labels\<close>

text \<open>Labels whose block is an action.\<close>

definition label_final :: "nat \<Rightarrow> bool" where
  "label_final l \<longleftrightarrow> l \<in>
     {3, 5, 8, 11, 23, 26, 28, 30, 32, 34, 38, 43, 45, 47, 69, 76, 82, 89, 102, 110, 117, 119,
      124, 133, 161, 164, 171, 179, 182, 184, 192, 194, 203, 209, 221, 226, 239, 242, 244, 246,
      250, 255, 258, 261, 280, 285, 289, 291, 301, 306, 308, 312, 314, 320, 331, 335, 337, 346,
      348, 355}"

text \<open>Labels that test \<open>yych\<close> without reading.\<close>

definition label_tests :: "nat \<Rightarrow> bool" where
  "label_tests l \<longleftrightarrow> l \<in> {54, 71, 80, 109, 116}"

text \<open>Labels from which the block that restores the backup can be reached without saving one.\<close>

definition needs_backup :: "nat \<Rightarrow> bool" where
  "needs_backup l \<longleftrightarrow> l \<in>
     {70, 71, 72, 74, 78, 79, 80, 83, 87, 90, 91, 93, 98, 100, 103, 107, 121, 149, 150, 151,
      152, 153, 154, 155, 159, 165, 168, 211, 217, 218, 251, 252, 273, 278, 299, 304, 318, 322,
      323, 329, 332, 333, 341, 342, 343, 350}"

text \<open>Labels of a comment.\<close>

definition in_comment :: "nat \<Rightarrow> bool" where
  "in_comment l \<longleftrightarrow> l = 10 \<or> l = 11"

text \<open>How many blocks are still run once the input is at its end (\<open>yych\<close> is 0).\<close>

definition zero_rank :: "nat \<Rightarrow> nat" where
  "zero_rank l =
     (if label_final l then 0 else if l = 72 then 1 else if label_tests l \<or> l = 90 then 2
      else if l = 70 then 3 else 4)"

subsection \<open>The checks\<close>

definition plain_token :: "RBSTokenType \<Rightarrow> bool" where
  "plain_token t \<longleftrightarrow> t \<noteq> pEOF \<and> t \<noteq> NullType \<and> t \<noteq> tCOMMENT \<and> t \<noteq> tLINECOMMENT"

definition dest_ok :: "bool \<Rightarrow> bool \<Rightarrow> bool \<Rightarrow> yydest \<Rightarrow> bool" where
  "dest_ok saved hash test d =
     (case d of
        Goto l \<Rightarrow> 1 < l \<and> l < 356 \<and> (needs_backup l \<longrightarrow> saved) \<and> (in_comment l \<longrightarrow> hash) \<and>
          (test \<longrightarrow> \<not> label_tests l)
      | Accept t \<Rightarrow> plain_token t)"

definition dest_rank :: "yydest \<Rightarrow> nat" where
  "dest_rank d = (case d of Goto l \<Rightarrow> zero_rank l | Accept t \<Rightarrow> 0)"

definition branches_to :: "(yydest \<Rightarrow> bool) \<Rightarrow> (nat \<Rightarrow> yydest) \<Rightarrow> bool" where
  "branches_to P br \<longleftrightarrow> (\<forall>c. P (br c))"

lemma branches_to_const: "branches_to P (\<lambda>c. d) \<longleftrightarrow> P d"
  by (simp add: branches_to_def)

lemma branches_to_if: "branches_to P f \<Longrightarrow> branches_to P g \<Longrightarrow> branches_to P (\<lambda>c. if Q c then f c else g c)"
  by (simp add: branches_to_def)

definition final_dest :: "bool \<Rightarrow> yydest \<Rightarrow> bool" where
  "final_dest hash d = (case d of Goto l \<Rightarrow> label_final l \<and> 1 < l \<and> l < 356 \<and> (in_comment l \<longrightarrow> hash) | Accept t \<Rightarrow> plain_token t)"

definition block_ok :: "nat \<Rightarrow> yyblock \<Rightarrow> bool" where
  "block_ok l b =
     (case b of
        Shift m br \<Rightarrow> branches_to (dest_ok (m \<noteq> None \<or> needs_backup l) (in_comment l) False) br \<and>
          dest_rank (br 0) < zero_rank l \<and> \<not> label_final l \<and> l \<noteq> 72 \<and> \<not> label_tests l
      | Test br \<Rightarrow> branches_to (dest_ok (needs_backup l) (in_comment l) True) br \<and>
          dest_rank (br 0) < zero_rank l \<and> label_tests l
      | Skip d \<Rightarrow> final_dest (in_comment l) d \<and> zero_rank l = 4
      | Action t \<Rightarrow> plain_token t \<and> label_final l
      | Restore br \<Rightarrow> branches_to (final_dest False) br \<and> l = 72 \<and> branches_to (\<lambda>d. \<exists>k. d = Goto k) br
      | Eof \<Rightarrow> l = 1
      | Comment \<Rightarrow> label_final l \<and> in_comment l)"

lemmas block_checks =
  block_ok_def branches_to_const branches_to_if dest_ok_def final_dest_def dest_rank_def zero_rank_def
  needs_backup_def label_final_def label_tests_def in_comment_def plain_token_def

fun blocks_ok :: "nat \<Rightarrow> yyblock list \<Rightarrow> bool" where
  "blocks_ok l [] = True"
| "blocks_ok l (b # bs) = (block_ok l b \<and> blocks_ok (l + 1) bs)"

lemma yy1_ok: "block_ok 1 yy1" by (simp add: yy1_def block_checks)
lemma yy2_ok: "block_ok 2 yy2" by (simp add: yy2_def block_checks)
lemma yy3_ok: "block_ok 3 yy3" by (simp add: yy3_def block_checks)
lemma yy4_ok: "block_ok 4 yy4" by (simp add: yy4_def block_checks)
lemma yy5_ok: "block_ok 5 yy5" by (simp add: yy5_def block_checks)
lemma yy6_ok: "block_ok 6 yy6" by (simp add: yy6_def block_checks)
lemma yy7_ok: "block_ok 7 yy7" by (simp add: yy7_def block_checks)
lemma yy8_ok: "block_ok 8 yy8" by (simp add: yy8_def block_checks)
lemma yy9_ok: "block_ok 9 yy9" by (simp add: yy9_def block_checks)
lemma yy10_ok: "block_ok 10 yy10" by (simp add: yy10_def block_checks)
lemma yy11_ok: "block_ok 11 yy11" by (simp add: yy11_def block_checks)
lemma yy12_ok: "block_ok 12 yy12" by (simp add: yy12_def block_checks)
lemma yy13_ok: "block_ok 13 yy13" by (simp add: yy13_def block_checks)
lemma yy14_ok: "block_ok 14 yy14" by (simp add: yy14_def block_checks)
lemma yy15_ok: "block_ok 15 yy15" by (simp add: yy15_def block_checks)
lemma yy16_ok: "block_ok 16 yy16" by (simp add: yy16_def block_checks)
lemma yy17_ok: "block_ok 17 yy17" by (simp add: yy17_def block_checks)
lemma yy18_ok: "block_ok 18 yy18" by (simp add: yy18_def block_checks)
lemma yy19_ok: "block_ok 19 yy19" by (simp add: yy19_def block_checks)
lemma yy20_ok: "block_ok 20 yy20" by (simp add: yy20_def block_checks)
lemma yy21_ok: "block_ok 21 yy21" by (simp add: yy21_def block_checks)
lemma yy22_ok: "block_ok 22 yy22" by (simp add: yy22_def block_checks)
lemma yy23_ok: "block_ok 23 yy23" by (simp add: yy23_def block_checks)
lemma yy24_ok: "block_ok 24 yy24" by (simp add: yy24_def block_checks)
lemma yy25_ok: "block_ok 25 yy25" by (simp add: yy25_def block_checks)
lemma yy26_ok: "block_ok 26 yy26" by (simp add: yy26_def block_checks)
lemma yy27_ok: "block_ok 27 yy27" by (simp add: yy27_def block_checks)
lemma yy28_ok: "block_ok 28 yy28" by (simp add: yy28_def block_checks)
lemma yy29_ok: "block_ok 29 yy29" by (simp add: yy29_def block_checks)
lemma yy30_ok: "block_ok 30 yy30" by (simp add: yy30_def block_checks)
lemma yy31_ok: "block_ok 31 yy31" by (simp add: yy31_def block_checks)
lemma yy32_ok: "block_ok 32 yy32" by (simp add: yy32_def block_checks)
lemma yy33_ok: "block_ok 33 yy33" by (simp add: yy33_def block_checks)
lemma yy34_ok: "block_ok 34 yy34" by (simp add: yy34_def block_checks)
lemma yy35_ok: "block_ok 35 yy35" by (simp add: yy35_def block_checks)
lemma yy36_ok: "block_ok 36 yy36" by (simp add: yy36_def block_checks)
lemma yy37_ok: "block_ok 37 yy37" by (simp add: yy37_def block_checks)
lemma yy38_ok: "block_ok 38 yy38" by (simp add: yy38_def block_checks)
lemma yy39_ok: "block_ok 39 yy39" by (simp add: yy39_def block_checks)
lemma yy40_ok: "block_ok 40 yy40" by (simp add: yy40_def block_checks)
lemma yy41_ok: "block_ok 41 yy41" by (simp add: yy41_def block_checks)
lemma yy42_ok: "block_ok 42 yy42" by (simp add: yy42_def block_checks)
lemma yy43_ok: "block_ok 43 yy43" by (simp add: yy43_def block_checks)
lemma yy44_ok: "block_ok 44 yy44" by (simp add: yy44_def block_checks)
lemma yy45_ok: "block_ok 45 yy45" by (simp add: yy45_def block_checks)
lemma yy46_ok: "block_ok 46 yy46" by (simp add: yy46_def block_checks)
lemma yy47_ok: "block_ok 47 yy47" by (simp add: yy47_def block_checks)
lemma yy48_ok: "block_ok 48 yy48" by (simp add: yy48_def block_checks)
lemma yy49_ok: "block_ok 49 yy49" by (simp add: yy49_def block_checks)
lemma yy50_ok: "block_ok 50 yy50" by (simp add: yy50_def block_checks)
lemma yy51_ok: "block_ok 51 yy51" by (simp add: yy51_def block_checks)
lemma yy52_ok: "block_ok 52 yy52" by (simp add: yy52_def block_checks)
lemma yy53_ok: "block_ok 53 yy53" by (simp add: yy53_def block_checks)
lemma yy54_ok: "block_ok 54 yy54" by (simp add: yy54_def block_checks)
lemma yy55_ok: "block_ok 55 yy55" by (simp add: yy55_def block_checks)
lemma yy56_ok: "block_ok 56 yy56" by (simp add: yy56_def block_checks)
lemma yy57_ok: "block_ok 57 yy57" by (simp add: yy57_def block_checks)
lemma yy58_ok: "block_ok 58 yy58" by (simp add: yy58_def block_checks)
lemma yy59_ok: "block_ok 59 yy59" by (simp add: yy59_def block_checks)
lemma yy60_ok: "block_ok 60 yy60" by (simp add: yy60_def block_checks)
lemma yy61_ok: "block_ok 61 yy61" by (simp add: yy61_def block_checks)
lemma yy62_ok: "block_ok 62 yy62" by (simp add: yy62_def block_checks)
lemma yy63_ok: "block_ok 63 yy63" by (simp add: yy63_def block_checks)
lemma yy64_ok: "block_ok 64 yy64" by (simp add: yy64_def block_checks)
lemma yy65_ok: "block_ok 65 yy65" by (simp add: yy65_def block_checks)
lemma yy66_ok: "block_ok 66 yy66" by (simp add: yy66_def block_checks)
lemma yy67_ok: "block_ok 67 yy67" by (simp add: yy67_def block_checks)
lemma yy68_ok: "block_ok 68 yy68" by (simp add: yy68_def block_checks)
lemma yy69_ok: "block_ok 69 yy69" by (simp add: yy69_def block_checks)
lemma yy70_ok: "block_ok 70 yy70" by (simp add: yy70_def block_checks)
lemma yy71_ok: "block_ok 71 yy71" by (simp add: yy71_def block_checks)
lemma yy72_ok: "block_ok 72 yy72" by (simp add: yy72_def block_checks)
lemma yy73_ok: "block_ok 73 yy73" by (simp add: yy73_def block_checks)
lemma yy74_ok: "block_ok 74 yy74" by (simp add: yy74_def block_checks)
lemma yy75_ok: "block_ok 75 yy75" by (simp add: yy75_def block_checks)
lemma yy76_ok: "block_ok 76 yy76" by (simp add: yy76_def block_checks)
lemma yy77_ok: "block_ok 77 yy77" by (simp add: yy77_def block_checks)
lemma yy78_ok: "block_ok 78 yy78" by (simp add: yy78_def block_checks)
lemma yy79_ok: "block_ok 79 yy79" by (simp add: yy79_def block_checks)
lemma yy80_ok: "block_ok 80 yy80" by (simp add: yy80_def block_checks)
lemma yy81_ok: "block_ok 81 yy81" by (simp add: yy81_def block_checks)
lemma yy82_ok: "block_ok 82 yy82" by (simp add: yy82_def block_checks)
lemma yy83_ok: "block_ok 83 yy83" by (simp add: yy83_def block_checks)
lemma yy84_ok: "block_ok 84 yy84" by (simp add: yy84_def block_checks)
lemma yy85_ok: "block_ok 85 yy85" by (simp add: yy85_def block_checks)
lemma yy86_ok: "block_ok 86 yy86" by (simp add: yy86_def block_checks)
lemma yy87_ok: "block_ok 87 yy87" by (simp add: yy87_def block_checks)
lemma yy88_ok: "block_ok 88 yy88" by (simp add: yy88_def block_checks)
lemma yy89_ok: "block_ok 89 yy89" by (simp add: yy89_def block_checks)
lemma yy90_ok: "block_ok 90 yy90" by (simp add: yy90_def block_checks)
lemma yy91_ok: "block_ok 91 yy91" by (simp add: yy91_def block_checks)
lemma yy92_ok: "block_ok 92 yy92" by (simp add: yy92_def block_checks)
lemma yy93_ok: "block_ok 93 yy93" by (simp add: yy93_def block_checks)
lemma yy94_ok: "block_ok 94 yy94" by (simp add: yy94_def block_checks)
lemma yy95_ok: "block_ok 95 yy95" by (simp add: yy95_def block_checks)
lemma yy96_ok: "block_ok 96 yy96" by (simp add: yy96_def block_checks)
lemma yy97_ok: "block_ok 97 yy97" by (simp add: yy97_def block_checks)
lemma yy98_ok: "block_ok 98 yy98" by (simp add: yy98_def block_checks)
lemma yy99_ok: "block_ok 99 yy99" by (simp add: yy99_def block_checks)
lemma yy100_ok: "block_ok 100 yy100" by (simp add: yy100_def block_checks)
lemma yy101_ok: "block_ok 101 yy101" by (simp add: yy101_def block_checks)
lemma yy102_ok: "block_ok 102 yy102" by (simp add: yy102_def block_checks)
lemma yy103_ok: "block_ok 103 yy103" by (simp add: yy103_def block_checks)
lemma yy104_ok: "block_ok 104 yy104" by (simp add: yy104_def block_checks)
lemma yy105_ok: "block_ok 105 yy105" by (simp add: yy105_def block_checks)
lemma yy106_ok: "block_ok 106 yy106" by (simp add: yy106_def block_checks)
lemma yy107_ok: "block_ok 107 yy107" by (simp add: yy107_def block_checks)
lemma yy108_ok: "block_ok 108 yy108" by (simp add: yy108_def block_checks)
lemma yy109_ok: "block_ok 109 yy109" by (simp add: yy109_def block_checks)
lemma yy110_ok: "block_ok 110 yy110" by (simp add: yy110_def block_checks)
lemma yy111_ok: "block_ok 111 yy111" by (simp add: yy111_def block_checks)
lemma yy112_ok: "block_ok 112 yy112" by (simp add: yy112_def block_checks)
lemma yy113_ok: "block_ok 113 yy113" by (simp add: yy113_def block_checks)
lemma yy114_ok: "block_ok 114 yy114" by (simp add: yy114_def block_checks)
lemma yy115_ok: "block_ok 115 yy115" by (simp add: yy115_def block_checks)
lemma yy116_ok: "block_ok 116 yy116" by (simp add: yy116_def block_checks)
lemma yy117_ok: "block_ok 117 yy117" by (simp add: yy117_def block_checks)
lemma yy118_ok: "block_ok 118 yy118" by (simp add: yy118_def block_checks)
lemma yy119_ok: "block_ok 119 yy119" by (simp add: yy119_def block_checks)
lemma yy120_ok: "block_ok 120 yy120" by (simp add: yy120_def block_checks)
lemma yy121_ok: "block_ok 121 yy121" by (simp add: yy121_def block_checks)
lemma yy122_ok: "block_ok 122 yy122" by (simp add: yy122_def block_checks)
lemma yy123_ok: "block_ok 123 yy123" by (simp add: yy123_def block_checks)
lemma yy124_ok: "block_ok 124 yy124" by (simp add: yy124_def block_checks)
lemma yy125_ok: "block_ok 125 yy125" by (simp add: yy125_def block_checks)
lemma yy126_ok: "block_ok 126 yy126" by (simp add: yy126_def block_checks)
lemma yy127_ok: "block_ok 127 yy127" by (simp add: yy127_def block_checks)
lemma yy128_ok: "block_ok 128 yy128" by (simp add: yy128_def block_checks)
lemma yy129_ok: "block_ok 129 yy129" by (simp add: yy129_def block_checks)
lemma yy130_ok: "block_ok 130 yy130" by (simp add: yy130_def block_checks)
lemma yy131_ok: "block_ok 131 yy131" by (simp add: yy131_def block_checks)
lemma yy132_ok: "block_ok 132 yy132" by (simp add: yy132_def block_checks)
lemma yy133_ok: "block_ok 133 yy133" by (simp add: yy133_def block_checks)
lemma yy134_ok: "block_ok 134 yy134" by (simp add: yy134_def block_checks)
lemma yy135_ok: "block_ok 135 yy135" by (simp add: yy135_def block_checks)
lemma yy136_ok: "block_ok 136 yy136" by (simp add: yy136_def block_checks)
lemma yy137_ok: "block_ok 137 yy137" by (simp add: yy137_def block_checks)
lemma yy138_ok: "block_ok 138 yy138" by (simp add: yy138_def block_checks)
lemma yy139_ok: "block_ok 139 yy139" by (simp add: yy139_def block_checks)
lemma yy140_ok: "block_ok 140 yy140" by (simp add: yy140_def block_checks)
lemma yy141_ok: "block_ok 141 yy141" by (simp add: yy141_def block_checks)
lemma yy142_ok: "block_ok 142 yy142" by (simp add: yy142_def block_checks)
lemma yy143_ok: "block_ok 143 yy143" by (simp add: yy143_def block_checks)
lemma yy144_ok: "block_ok 144 yy144" by (simp add: yy144_def block_checks)
lemma yy145_ok: "block_ok 145 yy145" by (simp add: yy145_def block_checks)
lemma yy146_ok: "block_ok 146 yy146" by (simp add: yy146_def block_checks)
lemma yy147_ok: "block_ok 147 yy147" by (simp add: yy147_def block_checks)
lemma yy148_ok: "block_ok 148 yy148" by (simp add: yy148_def block_checks)
lemma yy149_ok: "block_ok 149 yy149" by (simp add: yy149_def block_checks)
lemma yy150_ok: "block_ok 150 yy150" by (simp add: yy150_def block_checks)
lemma yy151_ok: "block_ok 151 yy151" by (simp add: yy151_def block_checks)
lemma yy152_ok: "block_ok 152 yy152" by (simp add: yy152_def block_checks)
lemma yy153_ok: "block_ok 153 yy153" by (simp add: yy153_def block_checks)
lemma yy154_ok: "block_ok 154 yy154" by (simp add: yy154_def block_checks)
lemma yy155_ok: "block_ok 155 yy155" by (simp add: yy155_def block_checks)
lemma yy156_ok: "block_ok 156 yy156" by (simp add: yy156_def block_checks)
lemma yy157_ok: "block_ok 157 yy157" by (simp add: yy157_def block_checks)
lemma yy158_ok: "block_ok 158 yy158" by (simp add: yy158_def block_checks)
lemma yy159_ok: "block_ok 159 yy159" by (simp add: yy159_def block_checks)
lemma yy160_ok: "block_ok 160 yy160" by (simp add: yy160_def block_checks)
lemma yy161_ok: "block_ok 161 yy161" by (simp add: yy161_def block_checks)
lemma yy162_ok: "block_ok 162 yy162" by (simp add: yy162_def block_checks)
lemma yy163_ok: "block_ok 163 yy163" by (simp add: yy163_def block_checks)
lemma yy164_ok: "block_ok 164 yy164" by (simp add: yy164_def block_checks)
lemma yy165_ok: "block_ok 165 yy165" by (simp add: yy165_def block_checks)
lemma yy166_ok: "block_ok 166 yy166" by (simp add: yy166_def block_checks)
lemma yy167_ok: "block_ok 167 yy167" by (simp add: yy167_def block_checks)
lemma yy168_ok: "block_ok 168 yy168" by (simp add: yy168_def block_checks)
lemma yy169_ok: "block_ok 169 yy169" by (simp add: yy169_def block_checks)
lemma yy170_ok: "block_ok 170 yy170" by (simp add: yy170_def block_checks)
lemma yy171_ok: "block_ok 171 yy171" by (simp add: yy171_def block_checks)
lemma yy172_ok: "block_ok 172 yy172" by (simp add: yy172_def block_checks)
lemma yy173_ok: "block_ok 173 yy173" by (simp add: yy173_def block_checks)
lemma yy174_ok: "block_ok 174 yy174" by (simp add: yy174_def block_checks)
lemma yy175_ok: "block_ok 175 yy175" by (simp add: yy175_def block_checks)
lemma yy176_ok: "block_ok 176 yy176" by (simp add: yy176_def block_checks)
lemma yy177_ok: "block_ok 177 yy177" by (simp add: yy177_def block_checks)
lemma yy178_ok: "block_ok 178 yy178" by (simp add: yy178_def block_checks)
lemma yy179_ok: "block_ok 179 yy179" by (simp add: yy179_def block_checks)
lemma yy180_ok: "block_ok 180 yy180" by (simp add: yy180_def block_checks)
lemma yy181_ok: "block_ok 181 yy181" by (simp add: yy181_def block_checks)
lemma yy182_ok: "block_ok 182 yy182" by (simp add: yy182_def block_checks)
lemma yy183_ok: "block_ok 183 yy183" by (simp add: yy183_def block_checks)
lemma yy184_ok: "block_ok 184 yy184" by (simp add: yy184_def block_checks)
lemma yy185_ok: "block_ok 185 yy185" by (simp add: yy185_def block_checks)
lemma yy186_ok: "block_ok 186 yy186" by (simp add: yy186_def block_checks)
lemma yy187_ok: "block_ok 187 yy187" by (simp add: yy187_def block_checks)
lemma yy188_ok: "block_ok 188 yy188" by (simp add: yy188_def block_checks)
lemma yy189_ok: "block_ok 189 yy189" by (simp add: yy189_def block_checks)
lemma yy190_ok: "block_ok 190 yy190" by (simp add: yy190_def block_checks)
lemma yy191_ok: "block_ok 191 yy191" by (simp add: yy191_def block_checks)
lemma yy192_ok: "block_ok 192 yy192" by (simp add: yy192_def block_checks)
lemma yy193_ok: "block_ok 193 yy193" by (simp add: yy193_def block_checks)
lemma yy194_ok: "block_ok 194 yy194" by (simp add: yy194_def block_checks)
lemma yy195_ok: "block_ok 195 yy195" by (simp add: yy195_def block_checks)
lemma yy196_ok: "block_ok 196 yy196" by (simp add: yy196_def block_checks)
lemma yy197_ok: "block_ok 197 yy197" by (simp add: yy197_def block_checks)
lemma yy198_ok: "block_ok 198 yy198" by (simp add: yy198_def block_checks)
lemma yy199_ok: "block_ok 199 yy199" by (simp add: yy199_def block_checks)
lemma yy200_ok: "block_ok 200 yy200" by (simp add: yy200_def block_checks)
lemma yy201_ok: "block_ok 201 yy201" by (simp add: yy201_def block_checks)
lemma yy202_ok: "block_ok 202 yy202" by (simp add: yy202_def block_checks)
lemma yy203_ok: "block_ok 203 yy203" by (simp add: yy203_def block_checks)
lemma yy204_ok: "block_ok 204 yy204" by (simp add: yy204_def block_checks)
lemma yy205_ok: "block_ok 205 yy205" by (simp add: yy205_def block_checks)
lemma yy206_ok: "block_ok 206 yy206" by (simp add: yy206_def block_checks)
lemma yy207_ok: "block_ok 207 yy207" by (simp add: yy207_def block_checks)
lemma yy208_ok: "block_ok 208 yy208" by (simp add: yy208_def block_checks)
lemma yy209_ok: "block_ok 209 yy209" by (simp add: yy209_def block_checks)
lemma yy210_ok: "block_ok 210 yy210" by (simp add: yy210_def block_checks)
lemma yy211_ok: "block_ok 211 yy211" by (simp add: yy211_def block_checks)
lemma yy212_ok: "block_ok 212 yy212" by (simp add: yy212_def block_checks)
lemma yy213_ok: "block_ok 213 yy213" by (simp add: yy213_def block_checks)
lemma yy214_ok: "block_ok 214 yy214" by (simp add: yy214_def block_checks)
lemma yy215_ok: "block_ok 215 yy215" by (simp add: yy215_def block_checks)
lemma yy216_ok: "block_ok 216 yy216" by (simp add: yy216_def block_checks)
lemma yy217_ok: "block_ok 217 yy217" by (simp add: yy217_def block_checks)
lemma yy218_ok: "block_ok 218 yy218" by (simp add: yy218_def block_checks)
lemma yy219_ok: "block_ok 219 yy219" by (simp add: yy219_def block_checks)
lemma yy220_ok: "block_ok 220 yy220" by (simp add: yy220_def block_checks)
lemma yy221_ok: "block_ok 221 yy221" by (simp add: yy221_def block_checks)
lemma yy222_ok: "block_ok 222 yy222" by (simp add: yy222_def block_checks)
lemma yy223_ok: "block_ok 223 yy223" by (simp add: yy223_def block_checks)
lemma yy224_ok: "block_ok 224 yy224" by (simp add: yy224_def block_checks)
lemma yy225_ok: "block_ok 225 yy225" by (simp add: yy225_def block_checks)
lemma yy226_ok: "block_ok 226 yy226" by (simp add: yy226_def block_checks)
lemma yy227_ok: "block_ok 227 yy227" by (simp add: yy227_def block_checks)
lemma yy228_ok: "block_ok 228 yy228" by (simp add: yy228_def block_checks)
lemma yy229_ok: "block_ok 229 yy229" by (simp add: yy229_def block_checks)
lemma yy230_ok: "block_ok 230 yy230" by (simp add: yy230_def block_checks)
lemma yy231_ok: "block_ok 231 yy231" by (simp add: yy231_def block_checks)
lemma yy232_ok: "block_ok 232 yy232" by (simp add: yy232_def block_checks)
lemma yy233_ok: "block_ok 233 yy233" by (simp add: yy233_def block_checks)
lemma yy234_ok: "block_ok 234 yy234" by (simp add: yy234_def block_checks)
lemma yy235_ok: "block_ok 235 yy235" by (simp add: yy235_def block_checks)
lemma yy236_ok: "block_ok 236 yy236" by (simp add: yy236_def block_checks)
lemma yy237_ok: "block_ok 237 yy237" by (simp add: yy237_def block_checks)
lemma yy238_ok: "block_ok 238 yy238" by (simp add: yy238_def block_checks)
lemma yy239_ok: "block_ok 239 yy239" by (simp add: yy239_def block_checks)
lemma yy240_ok: "block_ok 240 yy240" by (simp add: yy240_def block_checks)
lemma yy241_ok: "block_ok 241 yy241" by (simp add: yy241_def block_checks)
lemma yy242_ok: "block_ok 242 yy242" by (simp add: yy242_def block_checks)
lemma yy243_ok: "block_ok 243 yy243" by (simp add: yy243_def block_checks)
lemma yy244_ok: "block_ok 244 yy244" by (simp add: yy244_def block_checks)
lemma yy245_ok: "block_ok 245 yy245" by (simp add: yy245_def block_checks)
lemma yy246_ok: "block_ok 246 yy246" by (simp add: yy246_def block_checks)
lemma yy247_ok: "block_ok 247 yy247" by (simp add: yy247_def block_checks)
lemma yy248_ok: "block_ok 248 yy248" by (simp add: yy248_def block_checks)
lemma yy249_ok: "block_ok 249 yy249" by (simp add: yy249_def block_checks)
lemma yy250_ok: "block_ok 250 yy250" by (simp add: yy250_def block_checks)
lemma yy251_ok: "block_ok 251 yy251" by (simp add: yy251_def block_checks)
lemma yy252_ok: "block_ok 252 yy252" by (simp add: yy252_def block_checks)
lemma yy253_ok: "block_ok 253 yy253" by (simp add: yy253_def block_checks)
lemma yy254_ok: "block_ok 254 yy254" by (simp add: yy254_def block_checks)
lemma yy255_ok: "block_ok 255 yy255" by (simp add: yy255_def block_checks)
lemma yy256_ok: "block_ok 256 yy256" by (simp add: yy256_def block_checks)
lemma yy257_ok: "block_ok 257 yy257" by (simp add: yy257_def block_checks)
lemma yy258_ok: "block_ok 258 yy258" by (simp add: yy258_def block_checks)
lemma yy259_ok: "block_ok 259 yy259" by (simp add: yy259_def block_checks)
lemma yy260_ok: "block_ok 260 yy260" by (simp add: yy260_def block_checks)
lemma yy261_ok: "block_ok 261 yy261" by (simp add: yy261_def block_checks)
lemma yy262_ok: "block_ok 262 yy262" by (simp add: yy262_def block_checks)
lemma yy263_ok: "block_ok 263 yy263" by (simp add: yy263_def block_checks)
lemma yy264_ok: "block_ok 264 yy264" by (simp add: yy264_def block_checks)
lemma yy265_ok: "block_ok 265 yy265" by (simp add: yy265_def block_checks)
lemma yy266_ok: "block_ok 266 yy266" by (simp add: yy266_def block_checks)
lemma yy267_ok: "block_ok 267 yy267" by (simp add: yy267_def block_checks)
lemma yy268_ok: "block_ok 268 yy268" by (simp add: yy268_def block_checks)
lemma yy269_ok: "block_ok 269 yy269" by (simp add: yy269_def block_checks)
lemma yy270_ok: "block_ok 270 yy270" by (simp add: yy270_def block_checks)
lemma yy271_ok: "block_ok 271 yy271" by (simp add: yy271_def block_checks)
lemma yy272_ok: "block_ok 272 yy272" by (simp add: yy272_def block_checks)
lemma yy273_ok: "block_ok 273 yy273" by (simp add: yy273_def block_checks)
lemma yy274_ok: "block_ok 274 yy274" by (simp add: yy274_def block_checks)
lemma yy275_ok: "block_ok 275 yy275" by (simp add: yy275_def block_checks)
lemma yy276_ok: "block_ok 276 yy276" by (simp add: yy276_def block_checks)
lemma yy277_ok: "block_ok 277 yy277" by (simp add: yy277_def block_checks)
lemma yy278_ok: "block_ok 278 yy278" by (simp add: yy278_def block_checks)
lemma yy279_ok: "block_ok 279 yy279" by (simp add: yy279_def block_checks)
lemma yy280_ok: "block_ok 280 yy280" by (simp add: yy280_def block_checks)
lemma yy281_ok: "block_ok 281 yy281" by (simp add: yy281_def block_checks)
lemma yy282_ok: "block_ok 282 yy282" by (simp add: yy282_def block_checks)
lemma yy283_ok: "block_ok 283 yy283" by (simp add: yy283_def block_checks)
lemma yy284_ok: "block_ok 284 yy284" by (simp add: yy284_def block_checks)
lemma yy285_ok: "block_ok 285 yy285" by (simp add: yy285_def block_checks)
lemma yy286_ok: "block_ok 286 yy286" by (simp add: yy286_def block_checks)
lemma yy287_ok: "block_ok 287 yy287" by (simp add: yy287_def block_checks)
lemma yy288_ok: "block_ok 288 yy288" by (simp add: yy288_def block_checks)
lemma yy289_ok: "block_ok 289 yy289" by (simp add: yy289_def block_checks)
lemma yy290_ok: "block_ok 290 yy290" by (simp add: yy290_def block_checks)
lemma yy291_ok: "block_ok 291 yy291" by (simp add: yy291_def block_checks)
lemma yy292_ok: "block_ok 292 yy292" by (simp add: yy292_def block_checks)
lemma yy293_ok: "block_ok 293 yy293" by (simp add: yy293_def block_checks)
lemma yy294_ok: "block_ok 294 yy294" by (simp add: yy294_def block_checks)
lemma yy295_ok: "block_ok 295 yy295" by (simp add: yy295_def block_checks)
lemma yy296_ok: "block_ok 296 yy296" by (simp add: yy296_def block_checks)
lemma yy297_ok: "block_ok 297 yy297" by (simp add: yy297_def block_checks)
lemma yy298_ok: "block_ok 298 yy298" by (simp add: yy298_def block_checks)
lemma yy299_ok: "block_ok 299 yy299" by (simp add: yy299_def block_checks)
lemma yy300_ok: "block_ok 300 yy300" by (simp add: yy300_def block_checks)
lemma yy301_ok: "block_ok 301 yy301" by (simp add: yy301_def block_checks)
lemma yy302_ok: "block_ok 302 yy302" by (simp add: yy302_def block_checks)
lemma yy303_ok: "block_ok 303 yy303" by (simp add: yy303_def block_checks)
lemma yy304_ok: "block_ok 304 yy304" by (simp add: yy304_def block_checks)
lemma yy305_ok: "block_ok 305 yy305" by (simp add: yy305_def block_checks)
lemma yy306_ok: "block_ok 306 yy306" by (simp add: yy306_def block_checks)
lemma yy307_ok: "block_ok 307 yy307" by (simp add: yy307_def block_checks)
lemma yy308_ok: "block_ok 308 yy308" by (simp add: yy308_def block_checks)
lemma yy309_ok: "block_ok 309 yy309" by (simp add: yy309_def block_checks)
lemma yy310_ok: "block_ok 310 yy310" by (simp add: yy310_def block_checks)
lemma yy311_ok: "block_ok 311 yy311" by (simp add: yy311_def block_checks)
lemma yy312_ok: "block_ok 312 yy312" by (simp add: yy312_def block_checks)
lemma yy313_ok: "block_ok 313 yy313" by (simp add: yy313_def block_checks)
lemma yy314_ok: "block_ok 314 yy314" by (simp add: yy314_def block_checks)
lemma yy315_ok: "block_ok 315 yy315" by (simp add: yy315_def block_checks)
lemma yy316_ok: "block_ok 316 yy316" by (simp add: yy316_def block_checks)
lemma yy317_ok: "block_ok 317 yy317" by (simp add: yy317_def block_checks)
lemma yy318_ok: "block_ok 318 yy318" by (simp add: yy318_def block_checks)
lemma yy319_ok: "block_ok 319 yy319" by (simp add: yy319_def block_checks)
lemma yy320_ok: "block_ok 320 yy320" by (simp add: yy320_def block_checks)
lemma yy321_ok: "block_ok 321 yy321" by (simp add: yy321_def block_checks)
lemma yy322_ok: "block_ok 322 yy322" by (simp add: yy322_def block_checks)
lemma yy323_ok: "block_ok 323 yy323" by (simp add: yy323_def block_checks)
lemma yy324_ok: "block_ok 324 yy324" by (simp add: yy324_def block_checks)
lemma yy325_ok: "block_ok 325 yy325" by (simp add: yy325_def block_checks)
lemma yy326_ok: "block_ok 326 yy326" by (simp add: yy326_def block_checks)
lemma yy327_ok: "block_ok 327 yy327" by (simp add: yy327_def block_checks)
lemma yy328_ok: "block_ok 328 yy328" by (simp add: yy328_def block_checks)
lemma yy329_ok: "block_ok 329 yy329" by (simp add: yy329_def block_checks)
lemma yy330_ok: "block_ok 330 yy330" by (simp add: yy330_def block_checks)
lemma yy331_ok: "block_ok 331 yy331" by (simp add: yy331_def block_checks)
lemma yy332_ok: "block_ok 332 yy332" by (simp add: yy332_def block_checks)
lemma yy333_ok: "block_ok 333 yy333" by (simp add: yy333_def block_checks)
lemma yy334_ok: "block_ok 334 yy334" by (simp add: yy334_def block_checks)
lemma yy335_ok: "block_ok 335 yy335" by (simp add: yy335_def block_checks)
lemma yy336_ok: "block_ok 336 yy336" by (simp add: yy336_def block_checks)
lemma yy337_ok: "block_ok 337 yy337" by (simp add: yy337_def block_checks)
lemma yy338_ok: "block_ok 338 yy338" by (simp add: yy338_def block_checks)
lemma yy339_ok: "block_ok 339 yy339" by (simp add: yy339_def block_checks)
lemma yy340_ok: "block_ok 340 yy340" by (simp add: yy340_def block_checks)
lemma yy341_ok: "block_ok 341 yy341" by (simp add: yy341_def block_checks)
lemma yy342_ok: "block_ok 342 yy342" by (simp add: yy342_def block_checks)
lemma yy343_ok: "block_ok 343 yy343" by (simp add: yy343_def block_checks)
lemma yy344_ok: "block_ok 344 yy344" by (simp add: yy344_def block_checks)
lemma yy345_ok: "block_ok 345 yy345" by (simp add: yy345_def block_checks)
lemma yy346_ok: "block_ok 346 yy346" by (simp add: yy346_def block_checks)
lemma yy347_ok: "block_ok 347 yy347" by (simp add: yy347_def block_checks)
lemma yy348_ok: "block_ok 348 yy348" by (simp add: yy348_def block_checks)
lemma yy349_ok: "block_ok 349 yy349" by (simp add: yy349_def block_checks)
lemma yy350_ok: "block_ok 350 yy350" by (simp add: yy350_def block_checks)
lemma yy351_ok: "block_ok 351 yy351" by (simp add: yy351_def block_checks)
lemma yy352_ok: "block_ok 352 yy352" by (simp add: yy352_def block_checks)
lemma yy353_ok: "block_ok 353 yy353" by (simp add: yy353_def block_checks)
lemma yy354_ok: "block_ok 354 yy354" by (simp add: yy354_def block_checks)
lemma yy355_ok: "block_ok 355 yy355" by (simp add: yy355_def block_checks)

lemmas blocks_checked =
  yy1_ok yy2_ok yy3_ok yy4_ok yy5_ok yy6_ok yy7_ok yy8_ok yy9_ok yy10_ok yy11_ok
  yy12_ok yy13_ok yy14_ok yy15_ok yy16_ok yy17_ok yy18_ok yy19_ok yy20_ok yy21_ok
  yy22_ok yy23_ok yy24_ok yy25_ok yy26_ok yy27_ok yy28_ok yy29_ok yy30_ok yy31_ok
  yy32_ok yy33_ok yy34_ok yy35_ok yy36_ok yy37_ok yy38_ok yy39_ok yy40_ok yy41_ok
  yy42_ok yy43_ok yy44_ok yy45_ok yy46_ok yy47_ok yy48_ok yy49_ok yy50_ok yy51_ok
  yy52_ok yy53_ok yy54_ok yy55_ok yy56_ok yy57_ok yy58_ok yy59_ok yy60_ok yy61_ok
  yy62_ok yy63_ok yy64_ok yy65_ok yy66_ok yy67_ok yy68_ok yy69_ok yy70_ok yy71_ok
  yy72_ok yy73_ok yy74_ok yy75_ok yy76_ok yy77_ok yy78_ok yy79_ok yy80_ok yy81_ok
  yy82_ok yy83_ok yy84_ok yy85_ok yy86_ok yy87_ok yy88_ok yy89_ok yy90_ok yy91_ok
  yy92_ok yy93_ok yy94_ok yy95_ok yy96_ok yy97_ok yy98_ok yy99_ok yy100_ok yy101_ok
  yy102_ok yy103_ok yy104_ok yy105_ok yy106_ok yy107_ok yy108_ok yy109_ok yy110_ok
  yy111_ok yy112_ok yy113_ok yy114_ok yy115_ok yy116_ok yy117_ok yy118_ok yy119_ok
  yy120_ok yy121_ok yy122_ok yy123_ok yy124_ok yy125_ok yy126_ok yy127_ok yy128_ok
  yy129_ok yy130_ok yy131_ok yy132_ok yy133_ok yy134_ok yy135_ok yy136_ok yy137_ok
  yy138_ok yy139_ok yy140_ok yy141_ok yy142_ok yy143_ok yy144_ok yy145_ok yy146_ok
  yy147_ok yy148_ok yy149_ok yy150_ok yy151_ok yy152_ok yy153_ok yy154_ok yy155_ok
  yy156_ok yy157_ok yy158_ok yy159_ok yy160_ok yy161_ok yy162_ok yy163_ok yy164_ok
  yy165_ok yy166_ok yy167_ok yy168_ok yy169_ok yy170_ok yy171_ok yy172_ok yy173_ok
  yy174_ok yy175_ok yy176_ok yy177_ok yy178_ok yy179_ok yy180_ok yy181_ok yy182_ok
  yy183_ok yy184_ok yy185_ok yy186_ok yy187_ok yy188_ok yy189_ok yy190_ok yy191_ok
  yy192_ok yy193_ok yy194_ok yy195_ok yy196_ok yy197_ok yy198_ok yy199_ok yy200_ok
  yy201_ok yy202_ok yy203_ok yy204_ok yy205_ok yy206_ok yy207_ok yy208_ok yy209_ok
  yy210_ok yy211_ok yy212_ok yy213_ok yy214_ok yy215_ok yy216_ok yy217_ok yy218_ok
  yy219_ok yy220_ok yy221_ok yy222_ok yy223_ok yy224_ok yy225_ok yy226_ok yy227_ok
  yy228_ok yy229_ok yy230_ok yy231_ok yy232_ok yy233_ok yy234_ok yy235_ok yy236_ok
  yy237_ok yy238_ok yy239_ok yy240_ok yy241_ok yy242_ok yy243_ok yy244_ok yy245_ok
  yy246_ok yy247_ok yy248_ok yy249_ok yy250_ok yy251_ok yy252_ok yy253_ok yy254_ok
  yy255_ok yy256_ok yy257_ok yy258_ok yy259_ok yy260_ok yy261_ok yy262_ok yy263_ok
  yy264_ok yy265_ok yy266_ok yy267_ok yy268_ok yy269_ok yy270_ok yy271_ok yy272_ok
  yy273_ok yy274_ok yy275_ok yy276_ok yy277_ok yy278_ok yy279_ok yy280_ok yy281_ok
  yy282_ok yy283_ok yy284_ok yy285_ok yy286_ok yy287_ok yy288_ok yy289_ok yy290_ok
  yy291_ok yy292_ok yy293_ok yy294_ok yy295_ok yy296_ok yy297_ok yy298_ok yy299_ok
  yy300_ok yy301_ok yy302_ok yy303_ok yy304_ok yy305_ok yy306_ok yy307_ok yy308_ok
  yy309_ok yy310_ok yy311_ok yy312_ok yy313_ok yy314_ok yy315_ok yy316_ok yy317_ok
  yy318_ok yy319_ok yy320_ok yy321_ok yy322_ok yy323_ok yy324_ok yy325_ok yy326_ok
  yy327_ok yy328_ok yy329_ok yy330_ok yy331_ok yy332_ok yy333_ok yy334_ok yy335_ok
  yy336_ok yy337_ok yy338_ok yy339_ok yy340_ok yy341_ok yy342_ok yy343_ok yy344_ok
  yy345_ok yy346_ok yy347_ok yy348_ok yy349_ok yy350_ok yy351_ok yy352_ok yy353_ok
  yy354_ok yy355_ok

lemma table_checked: "blocks_ok 2 (drop 2 yy_table)"
  by (simp add: yy_table_def blocks_checked)

lemma length_yy_table: "length yy_table = 356"
  by (simp add: yy_table_def)

lemma blocks_ok_nth: "blocks_ok l bs \<Longrightarrow> i < length bs \<Longrightarrow> block_ok (l + i) (bs ! i)"
proof (induction l bs arbitrary: i rule: blocks_ok.induct)
  case (2 l b bs)
  then show ?case by (cases i) auto
qed simp

lemma table_block_ok:
  assumes "0 < l" and "l < 356"
  shows "block_ok l (yy_table ! l)"
proof (cases "l = 1")
  case True
  then show ?thesis using yy1_ok by (simp add: yy_table_def)
next
  case False
  with assms have "2 \<le> l" by simp
  then have "2 + (l - 2) = l" by simp
  moreover have "block_ok (2 + (l - 2)) (yy_table ! (2 + (l - 2)))"
    using assms(2) \<open>2 \<le> l\<close> blocks_ok_nth [OF table_checked, of "l - 2"] by (simp add: length_yy_table)
  ultimately show ?thesis by simp
qed

text \<open>The first dispatch: a NUL goes to the end-of-file action, and everything else is skipped first.\<close>

lemma yy_table_0: "yy_table ! 0 = yy0"
  by (simp add: yy_table_def)

lemma yy_table_1: "yy_table ! 1 = Eof"
  by (simp add: yy_table_def yy1_def)

definition first_ok :: "nat \<Rightarrow> yydest \<Rightarrow> bool" where
  "first_ok c d =
     (case d of
        Goto l \<Rightarrow> (if c = 0 then l = 1
                   else 1 < l \<and> l < 356 \<and> zero_rank l = 4 \<and> \<not> needs_backup l \<and> (in_comment l \<longrightarrow> c = 35))
      | Accept t \<Rightarrow> False)"

lemma yy0_dispatch: "case yy0 of Test br \<Rightarrow> \<forall>c. first_ok c (br c) | _ \<Rightarrow> False"
  by (simp add: yy0_def first_ok_def zero_rank_def needs_backup_def label_final_def label_tests_def in_comment_def)

end
