(* ===== verification/Lexer.thy ===== *)
theory Lexer
  imports LexerTable
begin

text \<open>
  \<open>rbs_lexer_next_token\<close> (\<open>src/lexer.c\<close>) and \<open>rbs_lexer_new\<close> (\<open>src/parser.c\<close>): the run
  of the generated blocks, one step per block, and what it guarantees to the parser, for every
  source and every encoding of the table: it ends, tokens follow each other without gaps, each
  but the last takes at least one byte, and the positions in them are those of characters.
\<close>

subsection \<open>Running the blocks\<close>

text \<open>
  The action of a comment: \<open>string.start[current.byte_pos - 1]\<close> is the byte before the current
  one; a carriage return there, before a line feed, is given back.
\<close>

definition comment_step_back :: "rbs_lexer \<Rightarrow> rbs_lexer" where
  "comment_step_back lexer =
     (if rbs_peek lexer = 10 \<and>
         string_bytes (lx_string lexer) ! nat (byte_pos (lx_current lexer) - 1) = 13
      then lexer\<lparr>lx_current := (lx_current lexer)\<lparr>byte_pos := byte_pos (lx_current lexer) - 1,
                   char_pos := char_pos (lx_current lexer) - 1, column := column (lx_current lexer) - 1\<rparr>,
                 current_code_point := 13, current_character_bytes := 1\<rparr>
      else lexer)"

definition comment_action :: "rbs_lexer \<Rightarrow> rbs_token \<times> rbs_lexer" where
  "comment_action lexer =
     (let lexer = comment_step_back lexer
      in rbs_next_token lexer (if first_token_of_line lexer then tLINECOMMENT else tCOMMENT))"

text \<open>The local variables of the generated function: the label to run, \<open>yych\<close>, \<open>yyaccept\<close>, \<open>backup\<close>, and the lexer.\<close>

record yy_state =
  yy_label :: nat
  yych :: nat
  yyaccept :: nat
  yy_backup :: rbs_lexer
  yy_lexer :: rbs_lexer

type_synonym yy_outcome = "yy_state + (rbs_token \<times> rbs_lexer)"

definition yy_go :: "yydest \<Rightarrow> yy_state \<Rightarrow> yy_outcome" where
  "yy_go d s = (case d of Goto l \<Rightarrow> Inl (s\<lparr>yy_label := l\<rparr>) | Accept t \<Rightarrow> Inr (rbs_next_token (yy_lexer s) t))"

definition yy_step :: "yyblock \<Rightarrow> yy_state \<Rightarrow> yy_outcome" where
  "yy_step b s =
     (case b of
        Shift m br \<Rightarrow>
          let lexer = rbs_skip (yy_lexer s);
              s = (case m of None \<Rightarrow> s | Some n \<Rightarrow> s\<lparr>yyaccept := n, yy_backup := lexer\<rparr>);
              s = s\<lparr>yy_lexer := lexer, yych := rbs_peek lexer\<rparr>
          in yy_go (br (yych s)) s
      | Test br \<Rightarrow> yy_go (br (yych s)) s
      | Skip d \<Rightarrow> yy_go d (s\<lparr>yy_lexer := rbs_skip (yy_lexer s)\<rparr>)
      | Action t \<Rightarrow> Inr (rbs_next_token (yy_lexer s) t)
      | Restore br \<Rightarrow> yy_go (br (yyaccept s)) (s\<lparr>yy_lexer := yy_backup s\<rparr>)
      | Eof \<Rightarrow> Inr (rbs_next_eof_token (rbs_skip (yy_lexer s)))
      | Comment \<Rightarrow> Inr (comment_action (yy_lexer s)))"

fun yy_run :: "nat \<Rightarrow> yy_state \<Rightarrow> (rbs_token \<times> rbs_lexer) option" where
  "yy_run 0 s = None"
| "yy_run (Suc fuel) s =
     (case yy_step (yy_table ! yy_label s) s of Inl s' \<Rightarrow> yy_run fuel s' | Inr r \<Rightarrow> Some r)"

definition yy_start :: "rbs_lexer \<Rightarrow> yy_state" where
  "yy_start lexer =
     \<lparr>yy_label = 0, yych = rbs_peek lexer, yyaccept = 0, yy_backup = lexer, yy_lexer = lexer\<rparr>"

text \<open>
  The fuel is ten blocks for each byte that is left and ten more: enough for every run
  (\<open>next_token_total\<close>), so that \<open>None\<close> is never the result.
\<close>

definition yy_fuel :: "rbs_lexer \<Rightarrow> nat" where
  "yy_fuel lexer = 10 * nat (end_pos lexer - byte_pos (lx_current lexer)) + 10"

definition rbs_lexer_next_token :: "rbs_lexer \<Rightarrow> (rbs_token \<times> rbs_lexer) option" where
  "rbs_lexer_next_token lexer = yy_run (yy_fuel lexer) (yy_start lexer)"

subsection \<open>A new lexer\<close>

text \<open>The loop of \<open>rbs_lexer_new\<close>: at most one round for each byte before \<open>start_pos\<close>.\<close>

fun lexer_walk :: "nat \<Rightarrow> rbs_lexer \<Rightarrow> rbs_lexer" where
  "lexer_walk 0 lexer = lexer"
| "lexer_walk (Suc fuel) lexer =
     (if byte_pos (lx_current lexer) < start_pos lexer \<and> current_code_point lexer \<noteq> 0
      then lexer_walk fuel (rbs_skip lexer) else lexer)"

definition rbs_lexer_new :: "rbs_string \<Rightarrow> rbs_encoding \<Rightarrow> int \<Rightarrow> int \<Rightarrow> rbs_lexer option" where
  "rbs_lexer_new string encoding first_pos last_pos =
     (let start_position = \<lparr>byte_pos = 0, char_pos = 0, line = 1, column = 0\<rparr>;
          lexer = \<lparr>lx_string = string, start_pos = first_pos, end_pos = last_pos,
                   lx_current = start_position, lx_start = zero_position,
                   current_code_point = 0, current_character_bytes = 0,
                   first_token_of_line = True, lx_encoding = encoding\<rparr>;
          lexer = (case rbs_next_char lexer of
                     Some (codepoint, bytes) \<Rightarrow>
                       lexer\<lparr>current_code_point := codepoint, current_character_bytes := bytes\<rparr>
                   | None \<Rightarrow> lexer\<lparr>current_code_point := 0, current_character_bytes := 1\<rparr>);
          lexer = lexer_walk (nat first_pos) lexer
      in if byte_pos (lx_current lexer) \<noteq> first_pos then None
         else Some (lexer\<lparr>lx_start := lx_current lexer\<rparr>))"

end
