(* ===== verification/LexerProps.thy ===== *)
theory LexerProps
  imports Lexer
begin

text \<open>
  What \<open>rbs_lexer_next_token\<close> guarantees to its callers. The generated blocks are read
  through the facts of \<open>LexerTable\<close> (where each label may jump, which labels restore the
  backup); the run is followed by an invariant and a measure, and gives a contract for one
  call, from which the facts on whole token streams follow.
\<close>

subsection \<open>Well-formed lexers\<close>

text \<open>The code point and the width cached in the lexer are those of the current position.\<close>

definition lexer_coherent :: "rbs_lexer \<Rightarrow> bool" where
  "lexer_coherent lx \<longleftrightarrow>
     (case rbs_next_char lx of
        Some (c, n) \<Rightarrow> current_code_point lx = c \<and> current_character_bytes lx = n
      | None \<Rightarrow> current_code_point lx = 0 \<and> current_character_bytes lx = 1)"

definition lexer_ok :: "rbs_lexer \<Rightarrow> bool" where
  "lexer_ok lx \<longleftrightarrow>
     lx_encoding lx \<in> set rbs_encodings \<and>
     0 \<le> byte_pos (lx_current lx) \<and> byte_pos (lx_current lx) \<le> int (length (string_bytes (lx_string lx))) \<and>
     end_pos lx \<le> int (length (string_bytes (lx_string lx))) \<and> lexer_coherent lx"

text \<open>What no operation of the lexer changes.\<close>

definition lexer_source :: "rbs_lexer \<Rightarrow> rbs_string \<times> int \<times> int \<times> rbs_encoding" where
  "lexer_source lx = (lx_string lx, start_pos lx, end_pos lx, lx_encoding lx)"

lemma next_char_cong:
  "lexer_source a = lexer_source b \<Longrightarrow> byte_pos (lx_current a) = byte_pos (lx_current b) \<Longrightarrow>
     rbs_next_char a = rbs_next_char b"
  by (simp add: rbs_next_char_def lexer_source_def Let_def)

lemma next_char_bounds:
  assumes "lx_encoding lx \<in> set rbs_encodings" and "0 \<le> byte_pos (lx_current lx)"
    and "end_pos lx \<le> int (length (string_bytes (lx_string lx)))"
    and "rbs_next_char lx = Some (c, n)"
  shows "byte_pos (lx_current lx) < end_pos lx" and "1 \<le> n"
    and "byte_pos (lx_current lx) + int n \<le> int (length (string_bytes (lx_string lx)))"
proof -
  let ?p = "byte_pos (lx_current lx)" and ?src = "string_bytes (lx_string lx)"
  show lt: "?p < end_pos lx" using assms(4) by (auto simp: rbs_next_char_def split: if_splits)
  then have in_src: "nat ?p < length ?src" using assms(2,3) by linarith
  then have rest: "drop (nat ?p) ?src \<noteq> []" by simp
  have width: "char_width (lx_encoding lx) (drop (nat ?p) ?src) \<le> length ?src - nat ?p"
    using encoding_width_bounded_fact [OF assms(1) rest] by simp
  show "1 \<le> n" using assms(4) by (auto simp: rbs_next_char_def Let_def split: if_splits)
  have "n \<le> length ?src - nat ?p"
    using assms(4) width in_src by (auto simp: rbs_next_char_def Let_def split: if_splits)
  then show "?p + int n \<le> int (length ?src)" using in_src assms(2) by linarith
qed

lemma coherent_bounds:
  assumes "lexer_ok lx"
  shows "1 \<le> current_character_bytes lx"
    and "current_code_point lx \<noteq> 0 \<Longrightarrow> byte_pos (lx_current lx) < end_pos lx"
    and "current_code_point lx \<noteq> 0 \<Longrightarrow>
      byte_pos (lx_current lx) + int (current_character_bytes lx) \<le> int (length (string_bytes (lx_string lx)))"
  using assms next_char_bounds [of lx "current_code_point lx" "current_character_bytes lx"]
  by (auto simp: lexer_ok_def lexer_coherent_def split: option.splits)

subsection \<open>Skipping\<close>

lemma skip_at_end [simp]: "current_code_point lx = 0 \<Longrightarrow> rbs_skip lx = lx"
  by (simp add: rbs_skip_def)

lemma skip_static [simp]:
  "lx_string (rbs_skip lx) = lx_string lx" "start_pos (rbs_skip lx) = start_pos lx"
  "end_pos (rbs_skip lx) = end_pos lx" "lx_encoding (rbs_skip lx) = lx_encoding lx"
  "lx_start (rbs_skip lx) = lx_start lx" "lexer_source (rbs_skip lx) = lexer_source lx"
  by (auto simp: rbs_skip_def lexer_source_def Let_def split: option.splits)

lemma skip_moves:
  assumes "current_code_point lx \<noteq> 0"
  shows "byte_pos (lx_current (rbs_skip lx)) = byte_pos (lx_current lx) + int (current_character_bytes lx)"
    and "char_pos (lx_current (rbs_skip lx)) = char_pos (lx_current lx) + 1"
    and "line (lx_current (rbs_skip lx)) = line (lx_current lx) + (if current_code_point lx = 10 then 1 else 0)"
    and "column (lx_current (rbs_skip lx)) = (if current_code_point lx = 10 then 0 else column (lx_current lx) + 1)"
  using assms by (auto simp: rbs_skip_def Let_def split: option.splits)

lemma skip_coherent:
  assumes "lexer_coherent lx"
  shows "lexer_coherent (rbs_skip lx)"
proof (cases "current_code_point lx = 0")
  case True
  with assms show ?thesis by simp
next
  case False
  let ?pos = "(lx_current lx)\<lparr>byte_pos := byte_pos (lx_current lx) + int (current_character_bytes lx),
    char_pos := char_pos (lx_current lx) + 1\<rparr>"
  define l where "l = (if current_code_point lx = 10
                     then lx\<lparr>lx_current := ?pos\<lparr>line := line ?pos + 1, column := 0\<rparr>, first_token_of_line := True\<rparr>
                     else lx\<lparr>lx_current := ?pos\<lparr>column := column ?pos + 1\<rparr>\<rparr>)"
  have step: "rbs_skip lx = (case rbs_next_char l of
             Some (codepoint, byte_len) \<Rightarrow>
               l\<lparr>current_code_point := codepoint, current_character_bytes := byte_len\<rparr>
           | None \<Rightarrow> l\<lparr>current_character_bytes := 1, current_code_point := 0\<rparr>)"
    using False by (simp only: rbs_skip_def l_def Let_def if_False)
  have same: "rbs_next_char (l\<lparr>current_code_point := c, current_character_bytes := n\<rparr>) = rbs_next_char l"
    "rbs_next_char (l\<lparr>current_character_bytes := n, current_code_point := c\<rparr>) = rbs_next_char l" for c n
    by (simp_all add: rbs_next_char_def Let_def)
  show ?thesis
    by (auto simp: step lexer_coherent_def same split: option.splits)
qed

lemma skip_ok:
  assumes "lexer_ok lx"
  shows "lexer_ok (rbs_skip lx)"
proof (cases "current_code_point lx = 0")
  case True
  with assms show ?thesis by simp
next
  case False
  with assms coherent_bounds [OF assms] show ?thesis
    by (auto simp: lexer_ok_def skip_moves skip_coherent)
qed

text \<open>A run of the lexer is a number of skips, none of them at the end of the input.\<close>

definition live :: "nat \<Rightarrow> rbs_lexer \<Rightarrow> bool" where
  "live k lx \<longleftrightarrow> (\<forall>i<k. current_code_point ((rbs_skip ^^ i) lx) \<noteq> 0)"

lemma live_Suc: "live (Suc k) lx \<longleftrightarrow> live k lx \<and> current_code_point ((rbs_skip ^^ k) lx) \<noteq> 0"
  by (auto simp: live_def less_Suc_eq)

lemma live_0 [simp]: "live 0 lx"
  by (simp add: live_def)

lemma skips_ok:
  assumes "lexer_ok lx"
  shows "lexer_ok ((rbs_skip ^^ k) lx)"
  using assms by (induction k) (simp_all add: skip_ok)

lemma skips_static [simp]:
  "lexer_source ((rbs_skip ^^ k) lx) = lexer_source lx"
  "lx_start ((rbs_skip ^^ k) lx) = lx_start lx"
  "lx_string ((rbs_skip ^^ k) lx) = lx_string lx" "end_pos ((rbs_skip ^^ k) lx) = end_pos lx"
  "start_pos ((rbs_skip ^^ k) lx) = start_pos lx" "lx_encoding ((rbs_skip ^^ k) lx) = lx_encoding lx"
  by (induction k) simp_all

lemma live_moves:
  assumes "lexer_ok lx" and "live k lx"
  shows "byte_pos (lx_current lx) + int k \<le> byte_pos (lx_current ((rbs_skip ^^ k) lx))"
  using assms(2)
proof (induction k)
  case (Suc k)
  then have "current_code_point ((rbs_skip ^^ k) lx) \<noteq> 0" by (simp add: live_Suc)
  with Suc coherent_bounds(1) [OF skips_ok [OF assms(1)], of k] show ?case
    by (simp add: skip_moves live_Suc)
qed simp

subsection \<open>The invariant of a run\<close>

text \<open>
  During a run from \<open>lx0\<close> the lexer is \<open>lx0\<close> after \<open>k\<close> skips and the backup after \<open>j\<close>; a
  label that may restore the backup has one (\<open>1 \<le> j\<close>), \<open>yych\<close> is the current code point
  wherever it is read, and an action is only reached after a skip.
\<close>

definition yy_inv :: "rbs_lexer \<Rightarrow> yy_state \<Rightarrow> bool" where
  "yy_inv lx0 s \<longleftrightarrow>
     (\<exists>k j. yy_lexer s = (rbs_skip ^^ k) lx0 \<and> live k lx0 \<and> yy_backup s = (rbs_skip ^^ j) lx0 \<and> live j lx0 \<and>
       (needs_backup (yy_label s) \<longrightarrow> 1 \<le> j) \<and> (in_comment (yy_label s) \<longrightarrow> current_code_point lx0 = 35) \<and>
       yy_label s < 356 \<and>
       (if yy_label s = 0 then k = 0 \<and> yych s = current_code_point lx0
        else if yy_label s = 1 then k = 0 \<and> current_code_point lx0 = 0
        else if label_final (yy_label s) then 1 \<le> k
        else yych s = current_code_point (yy_lexer s) \<and> (k = 0 \<longrightarrow> zero_rank (yy_label s) = 4 \<and> yych s \<noteq> 0) \<and>
             (yych s = 0 \<longrightarrow> zero_rank (yy_label s) < 4)))"

definition yy_measure :: "yy_state \<Rightarrow> nat" where
  "yy_measure s =
     (if yy_label s = 1 \<or> label_final (yy_label s) then 0
      else if yy_label s = 72 then 1
      else if yych s = 0 then (if yy_label s = 0 then 5 else zero_rank (yy_label s))
      else 10 * nat (end_pos (yy_lexer s) - byte_pos (lx_current (yy_lexer s))) +
           (if yy_label s = 0 \<or> label_tests (yy_label s) then 1 else 0))"

text \<open>The results a run can have.\<close>

definition yy_result :: "rbs_lexer \<Rightarrow> rbs_token \<times> rbs_lexer \<Rightarrow> bool" where
  "yy_result lx0 r \<longleftrightarrow>
     current_code_point lx0 = 0 \<and> r = rbs_next_eof_token lx0 \<or>
     (\<exists>k t. 1 \<le> k \<and> live k lx0 \<and> plain_token t \<and> r = rbs_next_token ((rbs_skip ^^ k) lx0) t) \<or>
     (\<exists>k. 1 \<le> k \<and> live k lx0 \<and> current_code_point lx0 = 35 \<and> r = comment_action ((rbs_skip ^^ k) lx0))"

definition yy_outcome_ok :: "rbs_lexer \<Rightarrow> nat \<Rightarrow> yy_outcome \<Rightarrow> bool" where
  "yy_outcome_ok lx0 n out =
     (case out of Inl s \<Rightarrow> yy_inv lx0 s \<and> yy_measure s < n | Inr r \<Rightarrow> yy_result lx0 r)"

lemma label_kinds [simp]:
  "\<not> label_final 0" "\<not> label_final (Suc 0)" "\<not> label_final 72" "\<not> label_tests 0" "\<not> label_tests (Suc 0)"
  "\<not> label_tests 72" "zero_rank 72 = 1" "needs_backup 72" "\<not> in_comment 72" "\<not> needs_backup 0" "\<not> in_comment 0"
  "\<not> needs_backup (Suc 0)" "\<not> in_comment (Suc 0)"
  by (simp_all add: label_final_def label_tests_def zero_rank_def needs_backup_def in_comment_def)

lemma final_no_backup: "label_final l \<Longrightarrow> \<not> needs_backup l \<and> \<not> label_tests l \<and> zero_rank l = 0 \<and> l \<noteq> 0 \<and> l \<noteq> 1"
  unfolding label_final_def
  by (elim insertE emptyE) (simp_all add: needs_backup_def label_tests_def zero_rank_def label_final_def)

lemma zero_rank_le: "zero_rank l \<le> 4"
  by (simp add: zero_rank_def)

lemma zero_rank_final: "zero_rank l = 0 \<longleftrightarrow> label_final l"
  by (simp add: zero_rank_def)

lemma final_rank: "label_final l \<Longrightarrow> zero_rank l = 0"
  by (simp add: zero_rank_def)

text \<open>Going to a label after at least one skip.\<close>

lemma go_ok:
  assumes d: "dest_ok saved hash test d"
    and s: "yy_lexer s = (rbs_skip ^^ k) lx0" "live k lx0" "yy_backup s = (rbs_skip ^^ j) lx0" "live j lx0" "1 \<le> k"
    and saved: "saved \<Longrightarrow> 1 \<le> j" and hash: "hash \<Longrightarrow> current_code_point lx0 = 35"
    and yych: "yych s = current_code_point (yy_lexer s)"
    and zero: "yych s = 0 \<Longrightarrow> dest_rank d < m \<and> m \<le> 4"
    and rem: "yych s \<noteq> 0 \<Longrightarrow>
      10 * nat (end_pos (yy_lexer s) - byte_pos (lx_current (yy_lexer s))) + (if test then 0 else 1) < n"
    and zero_n: "yych s = 0 \<Longrightarrow> m \<le> n" and n: "2 \<le> n"
  shows "yy_outcome_ok lx0 n (yy_go d s)"
proof (cases d)
  case (Accept t)
  with d s show ?thesis by (auto simp: yy_go_def yy_outcome_ok_def yy_result_def dest_ok_def)
next
  case (Goto l)
  let ?s = "s\<lparr>yy_label := l\<rparr>"
  from d Goto have l: "1 < l" "l < 356" "needs_backup l \<Longrightarrow> saved" "in_comment l \<Longrightarrow> hash" "test \<Longrightarrow> \<not> label_tests l"
    by (auto simp: dest_ok_def)
  from zero Goto have z: "yych s = 0 \<Longrightarrow> zero_rank l < m \<and> m \<le> 4" by (simp add: dest_rank_def)
  have "yy_inv lx0 ?s"
    unfolding yy_inv_def
    by (rule exI [of _ k], rule exI [of _ j]) (use l s saved hash yych z in auto)
  moreover have "yy_measure ?s < n"
    using l z rem zero_n n by (cases test) (auto simp: yy_measure_def)
  ultimately show ?thesis by (simp add: Goto yy_go_def yy_outcome_ok_def)
qed

text \<open>Going to an action.\<close>

lemma go_final_ok:
  assumes d: "final_dest hash d"
    and s: "yy_lexer s = (rbs_skip ^^ k) lx0" "live k lx0" "yy_backup s = (rbs_skip ^^ j) lx0" "live j lx0" "1 \<le> k"
    and hash: "hash \<Longrightarrow> current_code_point lx0 = 35" and n: "1 \<le> n"
  shows "yy_outcome_ok lx0 n (yy_go d s)"
proof (cases d)
  case (Accept t)
  with d s show ?thesis by (auto simp: yy_go_def yy_outcome_ok_def yy_result_def final_dest_def)
next
  case (Goto l)
  let ?s = "s\<lparr>yy_label := l\<rparr>"
  from d Goto have l: "1 < l" "l < 356" "label_final l" "in_comment l \<Longrightarrow> hash" by (auto simp: final_dest_def)
  have "yy_inv lx0 ?s"
    unfolding yy_inv_def
    by (rule exI [of _ k], rule exI [of _ j]) (use l s hash final_no_backup in auto)
  with l n show ?thesis by (simp add: Goto yy_go_def yy_outcome_ok_def yy_measure_def)
qed

lemma rem_positive:
  assumes "lexer_ok lx" and "current_code_point lx \<noteq> 0"
  shows "1 \<le> nat (end_pos lx - byte_pos (lx_current lx))"
  using coherent_bounds(2) [OF assms] by linarith

lemma rem_decreases:
  assumes "lexer_ok lx" and "current_code_point lx \<noteq> 0"
  shows "nat (end_pos lx - byte_pos (lx_current (rbs_skip lx))) < nat (end_pos lx - byte_pos (lx_current lx))"
  using coherent_bounds(1,2) [OF assms(1)] assms(2) skip_moves(1) [OF assms(2)] by auto

lemma yy_step_ok:
  assumes ok: "lexer_ok lx0" and inv: "yy_inv lx0 s"
  shows "yy_outcome_ok lx0 (yy_measure s) (yy_step (yy_table ! yy_label s) s)"
proof -
  let ?l = "yy_label s" and ?lx = "yy_lexer s"
  from inv obtain k j where k: "?lx = (rbs_skip ^^ k) lx0" "live k lx0"
    and j: "yy_backup s = (rbs_skip ^^ j) lx0" "live j lx0"
    and saved: "needs_backup ?l \<Longrightarrow> 1 \<le> j" and hash: "in_comment ?l \<Longrightarrow> current_code_point lx0 = 35"
    and lt: "?l < 356"
    and cases: "if ?l = 0 then k = 0 \<and> yych s = current_code_point lx0
        else if ?l = 1 then k = 0 \<and> current_code_point lx0 = 0
        else if label_final ?l then 1 \<le> k
        else yych s = current_code_point ?lx \<and> (k = 0 \<longrightarrow> zero_rank ?l = 4 \<and> yych s \<noteq> 0) \<and>
             (yych s = 0 \<longrightarrow> zero_rank ?l < 4)"
    unfolding yy_inv_def by blast
  have lx_ok: "lexer_ok ?lx" unfolding k(1) using ok by (rule skips_ok)
  let ?rem = "\<lambda>lx. nat (end_pos lx - byte_pos (lx_current lx))"
  consider (first) "?l = 0" | (eof) "?l = 1" | (block) "1 < ?l" by linarith
  then show ?thesis
  proof cases
    case eof
    with cases k show ?thesis
      by (simp add: yy_table_1 [simplified] yy_step_def yy_outcome_ok_def yy_result_def)
  next
    case first
    obtain br where br: "yy0 = Test br" "\<And>c. first_ok c (br c)"
      using yy0_dispatch by (auto split: yyblock.split_asm)
    have here: "yych s = current_code_point lx0" "k = 0" using cases first by simp_all
    obtain l where l: "br (yych s) = Goto l" using br(2) [of "yych s"] by (auto simp: first_ok_def split: yydest.splits)
    from br(2) [of "yych s"] l have f: "if yych s = 0 then l = 1 else 1 < l \<and> l < 356 \<and> zero_rank l = 4 \<and>
        \<not> needs_backup l \<and> (in_comment l \<longrightarrow> yych s = 35)" by (simp add: first_ok_def)
    have step: "yy_step (yy_table ! ?l) s = Inl (s\<lparr>yy_label := l\<rparr>)"
      using first l by (simp add: yy_table_0 br(1) yy_step_def yy_go_def)
    have "yy_inv lx0 (s\<lparr>yy_label := l\<rparr>)"
      unfolding yy_inv_def
      by (rule exI [of _ 0], rule exI [of _ j]) (use f here k j first zero_rank_final [of l] in \<open>auto split: if_splits\<close>)
    moreover have "yy_measure (s\<lparr>yy_label := l\<rparr>) < yy_measure s"
    proof (cases "yych s = 0")
      case True
      with f first show ?thesis by (simp add: yy_measure_def)
    next
      case False
      then have "\<not> label_tests l" "l \<noteq> 0" "l \<noteq> 1" using f by (auto simp: zero_rank_def split: if_splits)
      moreover have "1 \<le> ?rem ?lx" using rem_positive [OF lx_ok] False here k by simp
      ultimately show ?thesis using False first by (auto simp: yy_measure_def)
    qed
    ultimately show ?thesis by (simp add: step yy_outcome_ok_def)
  next
    case block
    have b: "block_ok ?l (yy_table ! ?l)" using block lt by (intro table_block_ok) simp_all
    show ?thesis
    proof (cases "yy_table ! ?l")
      case (Action t)
      with b cases block k show ?thesis
        by (auto simp: block_ok_def yy_step_def yy_outcome_ok_def yy_result_def)
    next
      case Eof
      with b block show ?thesis by (simp add: block_ok_def)
    next
      case Comment
      with b cases block k hash show ?thesis
        by (auto simp: block_ok_def yy_step_def yy_outcome_ok_def yy_result_def)
    next
      case (Restore br)
      with b have l: "?l = 72" and br: "branches_to (final_dest False) br" by (simp_all add: block_ok_def)
      have "final_dest False (br (yyaccept s))" using br by (simp add: branches_to_def)
      then have "yy_outcome_ok lx0 (yy_measure s) (yy_go (br (yyaccept s)) (s\<lparr>yy_lexer := yy_backup s\<rparr>))"
        using j saved l by (intro go_final_ok [of False _ _ j _ j]) (auto simp: yy_measure_def)
      with Restore show ?thesis by (simp add: yy_step_def)
    next
      case (Skip d)
      with b have d: "final_dest (in_comment ?l) d" and r: "zero_rank ?l = 4" by (simp_all add: block_ok_def)
      then have nf: "\<not> label_final ?l" "?l \<noteq> 72" by (auto simp: final_rank)
      with cases block r have y: "yych s = current_code_point ?lx" "yych s \<noteq> 0" by auto
      have m: "1 \<le> yy_measure s" using nf block y rem_positive [OF lx_ok] by (auto simp: yy_measure_def)
      let ?s = "s\<lparr>yy_lexer := rbs_skip ?lx\<rparr>"
      have "live (Suc k) lx0" using k y by (simp add: live_Suc)
      then have "yy_outcome_ok lx0 (yy_measure s) (yy_go d ?s)"
        using d k j hash m by (intro go_final_ok [of "in_comment ?l" _ _ "Suc k" _ j]) auto
      with Skip show ?thesis by (simp add: yy_step_def)
    next
      case (Test br)
      with b have br: "branches_to (dest_ok (needs_backup ?l) (in_comment ?l) True) br"
        and r: "dest_rank (br 0) < zero_rank ?l" and t: "label_tests ?l" by (simp_all add: block_ok_def)
      then have nf: "\<not> label_final ?l" "?l \<noteq> 72" by (auto simp: final_no_backup)
      have z: "zero_rank ?l = 2" using t nf by (simp add: zero_rank_def)
      from cases block nf z have y: "yych s = current_code_point ?lx" "1 \<le> k" by auto
      have m: "yy_measure s = (if yych s = 0 then 2 else 10 * ?rem ?lx + 1)"
        using nf block t z by (simp add: yy_measure_def)
      have "dest_ok (needs_backup ?l) (in_comment ?l) True (br (yych s))" using br by (simp add: branches_to_def)
      then have "yy_outcome_ok lx0 (yy_measure s) (yy_go (br (yych s)) s)"
        using k j y saved hash m z r rem_positive [OF lx_ok]
        by (intro go_ok [of "needs_backup ?l" "in_comment ?l" True _ _ k _ j 2]) auto
      with Test show ?thesis by (simp add: yy_step_def)
    next
      case (Shift m br)
      with b have br: "branches_to (dest_ok (m \<noteq> None \<or> needs_backup ?l) (in_comment ?l) False) br"
        and r: "dest_rank (br 0) < zero_rank ?l" and nf: "\<not> label_final ?l" "?l \<noteq> 72" "\<not> label_tests ?l"
        by (simp_all add: block_ok_def)
      from cases block nf have y: "yych s = current_code_point ?lx" by auto
      define lx' where "lx' = rbs_skip ?lx"
      define s' where "s' = (case m of None \<Rightarrow> s | Some n \<Rightarrow> s\<lparr>yyaccept := n, yy_backup := lx'\<rparr>)
        \<lparr>yy_lexer := lx', yych := rbs_peek lx'\<rparr>"
      have step: "yy_step (yy_table ! ?l) s = yy_go (br (yych s')) s'"
        by (simp add: Shift yy_step_def s'_def lx'_def Let_def split: option.splits)
      have s': "yy_lexer s' = lx'" "yych s' = current_code_point lx'"
        by (simp_all add: s'_def rbs_peek_def split: option.splits)
      obtain k' where k': "lx' = (rbs_skip ^^ k') lx0" "live k' lx0" "1 \<le> k'"
        and progress: "yych s \<noteq> 0 \<Longrightarrow> ?rem lx' < ?rem ?lx" and stuck: "yych s = 0 \<Longrightarrow> lx' = ?lx"
      proof (cases "yych s = 0")
        case True
        with cases block nf y k that [of k] show thesis by (auto simp: lx'_def)
      next
        case False
        with y have c: "current_code_point ?lx \<noteq> 0" by simp
        have "live (Suc k) lx0" using c k by (simp add: live_Suc)
        with that [of "Suc k"] k rem_decreases [OF lx_ok c] False show thesis by (simp add: lx'_def)
      qed
      have lx'_ok: "lexer_ok lx'" unfolding k'(1) using ok by (rule skips_ok)
      obtain j' where j': "yy_backup s' = (rbs_skip ^^ j') lx0" "live j' lx0" "m \<noteq> None \<or> needs_backup ?l \<Longrightarrow> 1 \<le> j'"
        using j k' saved by (cases m) (auto simp: s'_def)
      have meas: "yy_measure s = (if yych s = 0 then zero_rank ?l else 10 * ?rem ?lx)"
        using nf block by (simp add: yy_measure_def)
      have same_end: "end_pos lx' = end_pos ?lx" by (simp add: lx'_def)
      have "dest_ok (m \<noteq> None \<or> needs_backup ?l) (in_comment ?l) False (br (yych s'))" using br by (simp add: branches_to_def)
      then have "yy_outcome_ok lx0 (yy_measure s) (yy_go (br (yych s')) s')"
      proof (rule go_ok [of _ _ _ _ s' k' lx0 j' "zero_rank ?l"])
        show "yych s' = 0 \<Longrightarrow> dest_rank (br (yych s')) < zero_rank ?l \<and> zero_rank ?l \<le> 4"
          using r zero_rank_le by simp
        show "yych s' \<noteq> 0 \<Longrightarrow> 10 * ?rem (yy_lexer s') + (if False then 0 else 1) < yy_measure s"
          using meas progress stuck s' y by (cases "yych s = 0") auto
        show "yych s' = 0 \<Longrightarrow> zero_rank ?l \<le> yy_measure s"
          using meas rem_positive [OF lx_ok] y zero_rank_le [of ?l] by (auto intro: le_trans)
        show "2 \<le> yy_measure s"
          using meas rem_positive [OF lx_ok] y nf r by (auto simp: zero_rank_def split: if_splits)
      qed (use s' k' j' hash in auto)
      with step show ?thesis by simp
    qed
  qed
qed

lemma yy_run_ok:
  assumes "lexer_ok lx0"
  shows "yy_inv lx0 s \<Longrightarrow> yy_measure s < fuel \<Longrightarrow> \<exists>r. yy_run fuel s = Some r \<and> yy_result lx0 r"
proof (induction fuel arbitrary: s)
  case (Suc fuel)
  from yy_step_ok [OF assms Suc.prems(1)] show ?case
  proof (cases "yy_step (yy_table ! yy_label s) s")
    case (Inl s')
    with yy_step_ok [OF assms Suc.prems(1)] Suc.prems(2) Suc.IH [of s'] show ?thesis
      by (auto simp: yy_outcome_ok_def)
  qed (auto simp: yy_outcome_ok_def)
qed simp

lemma next_token_result:
  assumes "lexer_ok lx"
  shows "\<exists>r. rbs_lexer_next_token lx = Some r \<and> yy_result lx r"
proof -
  have "yy_inv lx (yy_start lx)"
    unfolding yy_inv_def by (rule exI [of _ 0], rule exI [of _ 0]) (simp add: yy_start_def rbs_peek_def)
  moreover have "yy_measure (yy_start lx) < yy_fuel lx"
    by (simp add: yy_measure_def yy_start_def yy_fuel_def)
  ultimately show ?thesis unfolding rbs_lexer_next_token_def by (rule yy_run_ok [OF assms])
qed

subsection \<open>Tokens\<close>

text \<open>Between two tokens the lexer stands at the start of the next one.\<close>

definition lexer_ready :: "rbs_lexer \<Rightarrow> bool" where
  "lexer_ready lx \<longleftrightarrow> lexer_ok lx \<and> lx_start lx = lx_current lx"

text \<open>The contract of one call, for a call that returns \<open>(tok, lx')\<close>.\<close>

definition token_ok :: "rbs_lexer \<Rightarrow> rbs_token \<Rightarrow> rbs_lexer \<Rightarrow> bool" where
  "token_ok lx tok lx' \<longleftrightarrow>
     lexer_ready lx' \<and> lexer_source lx' = lexer_source lx \<and>
     r_start (tok_range tok) = lx_current lx \<and> r_end (tok_range tok) = lx_current lx' \<and>
     (tok_type tok = pEOF \<longleftrightarrow> current_code_point lx = 0) \<and>
     (if tok_type tok = pEOF then lx_current lx' = lx_current lx \<and> current_code_point lx' = 0
      else byte_pos (r_start (tok_range tok)) < byte_pos (r_end (tok_range tok)))"

lemma next_token_fields:
  assumes "rbs_next_token lx t = (tok, lx')"
  shows "tok_type tok = t" "r_start (tok_range tok) = lx_start lx" "r_end (tok_range tok) = lx_current lx"
    "lx_current lx' = lx_current lx" "lx_start lx' = lx_current lx" "lexer_source lx' = lexer_source lx"
    "current_code_point lx' = current_code_point lx" "current_character_bytes lx' = current_character_bytes lx"
  using assms by (auto simp: rbs_next_token_def lexer_source_def Let_def)

lemma next_token_ok:
  assumes "lexer_ok lx" and "rbs_next_token lx t = (tok, lx')"
  shows "lexer_ready lx'"
proof -
  note f = next_token_fields [OF assms(2)]
  have src: "lx_string lx' = lx_string lx" "end_pos lx' = end_pos lx" "lx_encoding lx' = lx_encoding lx"
    using f(6) by (simp_all add: lexer_source_def)
  have "rbs_next_char lx' = rbs_next_char lx" using f(4,6) by (intro next_char_cong) simp_all
  then have "lexer_coherent lx'" using assms(1) f(7,8) by (simp add: lexer_ok_def lexer_coherent_def split: option.splits prod.splits)
  then show ?thesis using assms(1) f(4,5) src by (simp add: lexer_ready_def lexer_ok_def)
qed

lemma unsigned_of_char_value:
  "unsigned_of_char c = (if unat c < 128 then unat c else unat c + 4294967040)"
proof -
  obtain x where x: "uint c = x" by simp
  have n: "unat c = nat x" unfolding x [symmetric] by (simp only: unat_eq_nat_uint)
  have range: "0 \<le> x" "x < 256" using unsigned_less [of c, where 'a = int] x by auto
  have s: "sint c = (x + 128) mod 256 - 128"
    unfolding x [symmetric] by (simp add: sint_uint signed_take_bit_eq_take_bit_shift take_bit_eq_mod)
  have "uint (scast c :: 32 word) = sint c mod 4294967296" by (simp only: scast_eq uint_word_of_int) simp
  then have u: "unsigned_of_char c = nat (((x + 128) mod 256 - 128) mod 4294967296)"
    by (simp only: unsigned_of_char_def unat_eq_nat_uint s)
  show ?thesis
  proof (cases "x < 128")
    case True
    with range show ?thesis unfolding n u by simp
  next
    case False
    have "(x + 128) mod 256 = x - 128" using False range by (simp add: mod_pos_geq)
    moreover have "(x - 256) mod 4294967296 = (x - 256 + 4294967296) mod 4294967296"
      by (simp only: mod_add_self2)
    moreover have "(x - 256 + 4294967296) mod 4294967296 = x - 256 + 4294967296"
      using False range by (intro mod_pos_pos_trivial) simp_all
    ultimately show ?thesis using False range unfolding n u by (simp add: nat_add_distrib)
  qed
qed

lemma unsigned_of_char_ascii:
  "n < 128 \<Longrightarrow> unsigned_of_char c = n \<longleftrightarrow> unat c = n"
  by (auto simp: unsigned_of_char_value)

text \<open>What the cached character says of the bytes of the source.\<close>

lemma coherent_ascii:
  assumes "lexer_ok lx" and "current_code_point lx = c" and "0 < c" and "c < 128"
  shows "unat (string_bytes (lx_string lx) ! nat (byte_pos (lx_current lx))) = c"
    and "current_character_bytes lx = 1"
proof -
  let ?p = "nat (byte_pos (lx_current lx))" and ?src = "string_bytes (lx_string lx)"
  have lt: "byte_pos (lx_current lx) < end_pos lx" using coherent_bounds(2) [OF assms(1)] assms(2,3) by simp
  then have in_src: "?p < length ?src" using assms(1) unfolding lexer_ok_def by linarith
  then have hd: "drop ?p ?src ! 0 = ?src ! ?p" by simp
  have next_: "rbs_next_char lx = Some (c, current_character_bytes lx)"
    using assms lt by (auto simp: lexer_ok_def lexer_coherent_def rbs_next_char_def Let_def split: if_splits)
  have "unsigned_of_char (?src ! ?p) = c \<and> current_character_bytes lx = 1"
    using next_ lt assms(4) by (auto simp: rbs_next_char_def Let_def hd split: if_splits)
  then show "unat (?src ! ?p) = c" "current_character_bytes lx = 1"
    using assms(4) by (simp_all add: unsigned_of_char_ascii)
qed

lemma step_back_ok:
  assumes ok: "lexer_ok lx" and pos: "1 \<le> byte_pos (lx_current lx)"
  shows "lexer_ok (comment_step_back lx)" and "lexer_source (comment_step_back lx) = lexer_source lx"
    and "lx_start (comment_step_back lx) = lx_start lx"
    and "byte_pos (lx_current (comment_step_back lx)) = byte_pos (lx_current lx) \<or>
      byte_pos (lx_current (comment_step_back lx)) = byte_pos (lx_current lx) - 1 \<and>
      string_bytes (lx_string lx) ! nat (byte_pos (lx_current lx) - 1) = 13"
proof -
  let ?lx = "comment_step_back lx" and ?src = "string_bytes (lx_string lx)"
  show "lexer_source ?lx = lexer_source lx" "lx_start ?lx = lx_start lx"
    "byte_pos (lx_current ?lx) = byte_pos (lx_current lx) \<or>
      byte_pos (lx_current ?lx) = byte_pos (lx_current lx) - 1 \<and>
      ?src ! nat (byte_pos (lx_current lx) - 1) = 13"
    by (auto simp: comment_step_back_def lexer_source_def)
  show "lexer_ok ?lx"
  proof (cases "rbs_peek lx = 10 \<and> ?src ! nat (byte_pos (lx_current lx) - 1) = 13")
    case False
    with ok show ?thesis by (auto simp: comment_step_back_def)
  next
    case True
    then have "byte_pos (lx_current lx) < end_pos lx"
      using coherent_bounds(2) [OF ok] by (simp add: rbs_peek_def)
    moreover have "unsigned_of_char 13 = 13" by (simp add: unsigned_of_char_value)
    moreover have "nat (byte_pos (lx_current lx) - 1) < length ?src"
      using ok pos by (auto simp: lexer_ok_def)
    ultimately have "rbs_next_char ?lx = Some (13, 1)"
      using True by (simp add: comment_step_back_def rbs_next_char_def Let_def)
    then have "lexer_coherent ?lx" using True by (simp add: lexer_coherent_def comment_step_back_def)
    with True ok pos show ?thesis by (simp add: lexer_ok_def comment_step_back_def)
  qed
qed

lemma eof_token_next:
  assumes "lexer_ok lx"
  shows "rbs_next_eof_token lx = rbs_next_token lx pEOF"
proof -
  have "length (string_bytes (lx_string lx)) \<le> rbs_string_len (lx_string lx)"
    by (simp add: string_bytes_def rbs_string_len_def length_segment)
  with assms show ?thesis by (auto simp: rbs_next_eof_token_def lexer_ok_def)
qed

lemma next_token_contract:
  assumes "lexer_ready lx"
  shows "\<exists>tok lx'. rbs_lexer_next_token lx = Some (tok, lx') \<and> token_ok lx tok lx'"
proof -
  from assms have ok: "lexer_ok lx" and start: "lx_start lx = lx_current lx" by (simp_all add: lexer_ready_def)
  from next_token_result [OF ok] obtain tok lx' where r: "rbs_lexer_next_token lx = Some (tok, lx')"
    "yy_result lx (tok, lx')" by auto
  let ?skip = "\<lambda>k. (rbs_skip ^^ k) lx"
  have nonzero: "current_code_point lx \<noteq> 0" if "1 \<le> k" "live k lx" for k
    using that by (auto simp: live_def dest: spec [of _ 0])
  from r(2) consider (eof) "current_code_point lx = 0" "(tok, lx') = rbs_next_token lx pEOF"
    | (plain) k t where "1 \<le> k" "live k lx" "plain_token t" "(tok, lx') = rbs_next_token (?skip k) t"
    | (comment) k where "1 \<le> k" "live k lx" "current_code_point lx = 35" "(tok, lx') = comment_action (?skip k)"
    unfolding yy_result_def eof_token_next [OF ok] by auto
  then have "token_ok lx tok lx'"
  proof cases
    case eof
    note f = next_token_fields [OF eof(2) [symmetric]]
    show ?thesis
      using next_token_ok [OF ok eof(2) [symmetric]] f eof(1) start by (simp add: token_ok_def)
  next
    case plain
    note f = next_token_fields [OF plain(4) [symmetric]]
    have "t \<noteq> pEOF" using plain(3) by (simp add: plain_token_def)
    moreover have "byte_pos (lx_current lx) < byte_pos (lx_current (?skip k))"
      using live_moves [OF ok plain(2)] plain(1) by simp
    ultimately show ?thesis
      using next_token_ok [OF skips_ok [OF ok] plain(4) [symmetric]] f nonzero [OF plain(1,2)] start
      by (simp add: token_ok_def)
  next
    case comment
    let ?lk = "?skip k" and ?b = "comment_step_back (?skip k)"
    have moved: "byte_pos (lx_current lx) + int k \<le> byte_pos (lx_current ?lk)"
      using live_moves [OF ok comment(2)] .
    have p0: "0 \<le> byte_pos (lx_current lx)" using ok by (simp add: lexer_ok_def)
    have pos: "1 \<le> byte_pos (lx_current ?lk)" using moved p0 comment(1) by linarith
    note back_ok = step_back_ok [OF skips_ok [OF ok] pos]
    obtain t where t: "(tok, lx') = rbs_next_token ?b t" "t \<noteq> pEOF"
      using comment(4) by (auto simp: comment_action_def Let_def split: if_splits)
    note f = next_token_fields [OF t(1) [symmetric]]
    have hash: "unat (string_bytes (lx_string lx) ! nat (byte_pos (lx_current lx))) = 35"
      using coherent_ascii(1) [OF ok comment(3)] by simp
    have "byte_pos (lx_current lx) < byte_pos (lx_current ?b)"
    proof (rule ccontr)
      assume "\<not> ?thesis"
      with back_ok(4) moved comment(1) have "byte_pos (lx_current ?lk) - 1 = byte_pos (lx_current lx)"
        and "string_bytes (lx_string lx) ! nat (byte_pos (lx_current ?lk) - 1) = 13" by auto
      with hash show False by simp
    qed
    then show ?thesis
      using next_token_ok [OF back_ok(1) t(1) [symmetric]] f back_ok(2,3) t(2) comment(3) start
      by (simp add: token_ok_def)
  qed
  with r(1) show ?thesis by blast
qed

end
