(* ===== verification/LexerStream.thy ===== *)
theory LexerStream imports LexerProps begin

text \<open>
  Token streams. The source is cut into characters without the lexer (\<open>split_chars\<close>); every
  position of the lexer is then the position after a number of characters, with its byte,
  character, line and column; \<open>rbs_lexer_new\<close> and whole streams (\<open>rbsparser_lex\<close> of
  \<open>ext/rbs_extension/main.c\<close>) are specified by them.
\<close>

subsection \<open>The characters of a source\<close>

text \<open>
  The characters that start within the first \<open>limit\<close> bytes, up to a NUL byte: an ASCII byte is
  one, otherwise the width function of the encoding says how many bytes the character takes,
  and a byte that starts none stands alone.
\<close>

function split_chars :: "(byte list \<Rightarrow> nat) \<Rightarrow> nat \<Rightarrow> byte list \<Rightarrow> byte list list" where
  "split_chars w limit bs =
     (if limit = 0 \<or> bs = [] \<or> hd bs = 0 then []
      else let n = (if unat (hd bs) < 128 then 1 else max 1 (w bs))
           in take n bs # split_chars w (limit - n) (drop n bs))"
  by pat_completeness auto
termination
  by (relation "measure (\<lambda>(w, limit, bs). length bs)") (auto simp: Let_def)

declare split_chars.simps [simp del]

definition position_after :: "byte list list \<Rightarrow> rbs_position" where
  "position_after cs =
     \<lparr>byte_pos = int (length (concat cs)), char_pos = int (length cs),
      line = 1 + int (length (filter (\<lambda>c. c = [10]) cs)),
      column = int (length (takeWhile (\<lambda>c. c \<noteq> [10]) (rev cs)))\<rparr>"

lemma position_after_Nil [simp]:
  "position_after [] = \<lparr>byte_pos = 0, char_pos = 0, line = 1, column = 0\<rparr>"
  by (simp add: position_after_def)

lemma position_after_snoc:
  "position_after (cs @ [c]) =
     (position_after cs)\<lparr>byte_pos := byte_pos (position_after cs) + int (length c),
        char_pos := char_pos (position_after cs) + 1,
        line := line (position_after cs) + (if c = [10] then 1 else 0),
        column := (if c = [10] then 0 else column (position_after cs) + 1)\<rparr>"
  by (simp add: position_after_def)

definition source_chars :: "rbs_string \<Rightarrow> rbs_encoding \<Rightarrow> int \<Rightarrow> byte list list" where
  "source_chars s e last_pos = split_chars (char_width e) (nat last_pos) (string_bytes s)"

definition chars_left :: "rbs_lexer \<Rightarrow> byte list list" where
  "chars_left lx =
     split_chars (char_width (lx_encoding lx)) (nat (end_pos lx - byte_pos (lx_current lx)))
       (drop (nat (byte_pos (lx_current lx))) (string_bytes (lx_string lx)))"

lemma chars_left_cong:
  "lexer_source a = lexer_source b \<Longrightarrow> byte_pos (lx_current a) = byte_pos (lx_current b) \<Longrightarrow>
     chars_left a = chars_left b"
  by (simp add: chars_left_def lexer_source_def)

text \<open>The character the lexer stands before.\<close>

definition here :: "rbs_lexer \<Rightarrow> byte list" where
  "here lx = take (current_character_bytes lx)
     (drop (nat (byte_pos (lx_current lx))) (string_bytes (lx_string lx)))"

lemma position_eqI:
  "byte_pos p = byte_pos q \<Longrightarrow> char_pos p = char_pos q \<Longrightarrow> line p = line q \<Longrightarrow> column p = column q \<Longrightarrow>
     p = (q :: rbs_position)"
  by (cases p; cases q) simp

lemma here_cases:
  assumes ok: "lexer_ok lx"
  shows "current_code_point lx = 0 \<Longrightarrow> chars_left lx = []"
    and "current_code_point lx \<noteq> 0 \<Longrightarrow> chars_left lx = here lx # chars_left (rbs_skip lx)"
    and "current_code_point lx \<noteq> 0 \<Longrightarrow> length (here lx) = current_character_bytes lx"
    and "current_code_point lx \<noteq> 0 \<Longrightarrow> here lx = [10] \<longleftrightarrow> current_code_point lx = 10"
    and "current_code_point lx \<noteq> 0 \<Longrightarrow>
      length (here lx) = 1 \<or> length (here lx) = char_width (lx_encoding lx)
        (drop (nat (byte_pos (lx_current lx))) (string_bytes (lx_string lx)))"
proof -
  let ?p = "byte_pos (lx_current lx)" and ?src = "string_bytes (lx_string lx)"
  let ?rest = "drop (nat ?p) ?src" and ?w = "char_width (lx_encoding lx)"
  have p: "0 \<le> ?p" "?p \<le> int (length ?src)" "end_pos lx \<le> int (length ?src)"
    using ok by (simp_all add: lexer_ok_def)
  have in_src: "?rest \<noteq> [] \<and> ?rest ! 0 = hd ?rest" if "?p < end_pos lx"
  proof -
    have "nat ?p < length ?src" using p that by linarith
    then show ?thesis by (simp add: hd_drop_conv_nth)
  qed
  have zero: "unsigned_of_char b = 0 \<longleftrightarrow> b = 0" for b
    using unsigned_of_char_ascii [of 0 b] by (simp add: word_unat_eq_iff)
  have zero_byte: "unsigned_of_char 0 = 0" by (simp add: unsigned_of_char_value)
  have ten: "unsigned_of_char b = 10 \<longleftrightarrow> b = 10" for b
    using unsigned_of_char_ascii [of 10 b] by (simp add: word_unat_eq_iff)
  have small: "unsigned_of_char b < 128 \<longleftrightarrow> unat b < 128" for b
    by (auto simp: unsigned_of_char_value)
  have coh: "case rbs_next_char lx of
        Some (c, n) \<Rightarrow> current_code_point lx = c \<and> current_character_bytes lx = n
      | None \<Rightarrow> current_code_point lx = 0 \<and> current_character_bytes lx = 1"
    using ok by (simp add: lexer_ok_def lexer_coherent_def)
  show "chars_left lx = []" if "current_code_point lx = 0"
  proof (cases "?p < end_pos lx")
    case False
    then show ?thesis by (simp add: chars_left_def split_chars.simps)
  next
    case True
    with coh that in_src have "hd ?rest = 0"
      by (auto simp: rbs_next_char_def Let_def zero split: if_splits)
    then show ?thesis by (simp add: chars_left_def split_chars.simps)
  qed
  assume live: "current_code_point lx \<noteq> 0"
  then have lt: "?p < end_pos lx" using coherent_bounds(2) [OF ok] by simp
  note rest = in_src [OF lt]
  have n: "current_character_bytes lx = (if unat (hd ?rest) < 128 then 1 else max 1 (?w ?rest))"
    and nz: "hd ?rest \<noteq> 0"
    and code: "current_code_point lx = 10 \<longleftrightarrow> current_character_bytes lx = 1 \<and> hd ?rest = 10"
    using coh lt rest live
    by (auto simp: rbs_next_char_def Let_def zero zero_byte small ten split: if_splits)
  let ?n = "current_character_bytes lx"
  have fits: "?p + int ?n \<le> int (length ?src)" "1 \<le> ?n"
    using coherent_bounds(1,3) [OF ok] live by simp_all
  then have len: "?n \<le> length ?rest" using p by auto
  then show length_here: "length (here lx) = ?n" by (simp add: here_def)
  show "here lx = [10] \<longleftrightarrow> current_code_point lx = 10"
  proof
    assume h: "here lx = [10]"
    then have "?n = 1" using length_here by simp
    with h code rest show "current_code_point lx = 10" by (cases ?rest) (auto simp: here_def)
  next
    assume "current_code_point lx = 10"
    with code rest show "here lx = [10]" by (cases ?rest) (auto simp: here_def)
  qed
  show "length (here lx) = 1 \<or> length (here lx) = ?w ?rest"
    using n length_here by (auto simp: max_def)
  have "nat (end_pos lx - (?p + int ?n)) = nat (end_pos lx - ?p) - ?n" by simp
  then have "chars_left (rbs_skip lx) = split_chars ?w (nat (end_pos lx - ?p) - ?n) (drop ?n ?rest)"
    using fits p by (simp add: chars_left_def skip_moves(1) [OF live] nat_diff_distrib' nat_add_distrib
      algebra_simps)
  then show "chars_left lx = here lx # chars_left (rbs_skip lx)"
    using lt rest nz n by (simp add: chars_left_def [of lx] split_chars.simps [of ?w _ ?rest] here_def Let_def)
qed

subsection \<open>Where the lexer stands\<close>

text \<open>The lexer stands after the first \<open>n\<close> of the characters \<open>cs\<close>.\<close>

definition at_char :: "byte list list \<Rightarrow> nat \<Rightarrow> rbs_lexer \<Rightarrow> bool" where
  "at_char cs n lx \<longleftrightarrow>
     lexer_ok lx \<and> n \<le> length cs \<and> lx_current lx = position_after (take n cs) \<and> chars_left lx = drop n cs"

lemma at_char_end:
  assumes "at_char cs n lx"
  shows "current_code_point lx = 0 \<longleftrightarrow> n = length cs"
proof (cases "current_code_point lx = 0")
  case True
  with assms here_cases(1) [of lx] show ?thesis by (auto simp: at_char_def)
next
  case False
  with assms here_cases(2) [of lx] show ?thesis by (auto simp: at_char_def)
qed

lemma at_char_here:
  assumes "at_char cs n lx" and "current_code_point lx \<noteq> 0"
  shows "n < length cs" and "here lx = cs ! n"
proof -
  show n: "n < length cs" using assms at_char_end [OF assms(1)] by (auto simp: at_char_def)
  have "here lx # chars_left (rbs_skip lx) = drop n cs"
    using assms here_cases(2) [of lx] by (simp add: at_char_def)
  then show "here lx = cs ! n" using n by (simp add: Cons_nth_drop_Suc [symmetric])
qed

lemma at_char_skip:
  assumes "at_char cs n lx" and "current_code_point lx \<noteq> 0"
  shows "at_char cs (Suc n) (rbs_skip lx)"
proof -
  note n = at_char_here [OF assms]
  have ok: "lexer_ok lx" and cur: "lx_current lx = position_after (take n cs)"
    and left: "chars_left lx = drop n cs" using assms(1) by (simp_all add: at_char_def)
  note h = here_cases [OF ok]
  have "lx_current (rbs_skip lx) = position_after (take (Suc n) cs)"
    using skip_moves [OF assms(2)] h(3,4) [OF assms(2)] n
    by (intro position_eqI) (auto simp: take_Suc_conv_app_nth position_after_snoc cur)
  moreover have "chars_left (rbs_skip lx) = drop (Suc n) cs"
    using h(2) [OF assms(2)] left n(1) by (simp add: Cons_nth_drop_Suc [symmetric])
  ultimately show ?thesis using skip_ok [OF ok] n(1) by (simp add: at_char_def)
qed

lemma at_char_skips:
  assumes "at_char cs n lx" and "live k lx"
  shows "at_char cs (n + k) ((rbs_skip ^^ k) lx)"
  using assms(2) by (induction k) (simp_all add: assms(1) live_Suc at_char_skip)

lemma at_char_move:
  assumes "at_char cs n a" and "lexer_ok b" and "lexer_source b = lexer_source a" and "lx_current b = lx_current a"
  shows "at_char cs n b"
  using assms chars_left_cong [OF assms(3)] by (simp add: at_char_def)

lemma last_byte_here:
  assumes ok: "lexer_ok lx" and live: "current_code_point lx \<noteq> 0"
    and cr: "lx_encoding lx \<in> set rbs_encodings" "enc_name (lx_encoding lx) \<noteq> ''CESU-8''"
    and b: "last (here lx) = 13"
  shows "here lx = [13]"
proof -
  let ?rest = "drop (nat (byte_pos (lx_current lx))) (string_bytes (lx_string lx))"
  let ?w = "char_width (lx_encoding lx) ?rest"
  note h = here_cases [OF ok]
  have fits: "length (here lx) \<le> length ?rest" "here lx \<noteq> []"
    using h(3) [OF live] coherent_bounds(1) [OF ok] by (auto simp: here_def)
  from h(5) [OF live] show ?thesis
  proof
    assume "length (here lx) = 1"
    with b show ?thesis by (cases "here lx") auto
  next
    assume w: "length (here lx) = ?w"
    show ?thesis
    proof (cases "?w = 1")
      case True
      with w b show ?thesis by (cases "here lx") auto
    next
      case False
      with w fits have i: "0 < ?w - 1" "?w - 1 < ?w" "?w \<le> length ?rest" by (cases "here lx"; auto)+
      have "last (here lx) = ?rest ! (?w - 1)"
        using fits w h(3) [OF live] i by (simp add: last_conv_nth) (simp add: here_def)
      with b encoding_cr_free_fact [OF cr i] show ?thesis by simp
    qed
  qed
qed

lemma at_char_byte_pos:
  assumes "at_char cs n lx" and "current_code_point lx \<noteq> 0"
  shows "string_bytes (lx_string lx) ! nat (byte_pos (lx_current (rbs_skip lx)) - 1) = last (here lx)"
proof -
  have ok: "lexer_ok lx" using assms(1) by (simp add: at_char_def)
  let ?p = "byte_pos (lx_current lx)" and ?n = "current_character_bytes lx"
  have b: "0 \<le> ?p" "1 \<le> ?n" "?p + int ?n \<le> int (length (string_bytes (lx_string lx)))"
    using ok coherent_bounds [OF ok] assms(2) by (simp_all add: lexer_ok_def)
  have "here lx \<noteq> []" "length (here lx) = ?n" using here_cases(3) [OF ok assms(2)] b(2) by auto
  then have "last (here lx) = string_bytes (lx_string lx) ! (nat ?p + (?n - 1))"
    using b by (simp add: last_conv_nth) (simp add: here_def)
  moreover have "nat (byte_pos (lx_current (rbs_skip lx)) - 1) = nat ?p + (?n - 1)"
    using b by (simp add: skip_moves(1) [OF assms(2)])
  ultimately show ?thesis by simp
qed

lemma at_char_step_back:
  assumes at: "at_char cs n lx" and live: "current_code_point lx \<noteq> 0"
    and cr: "lx_encoding lx \<in> set rbs_encodings" "enc_name (lx_encoding lx) \<noteq> ''CESU-8''"
  shows "at_char cs n (comment_step_back (rbs_skip lx)) \<or> at_char cs (Suc n) (comment_step_back (rbs_skip lx))"
proof (cases "rbs_peek (rbs_skip lx) = 10 \<and>
    string_bytes (lx_string (rbs_skip lx)) ! nat (byte_pos (lx_current (rbs_skip lx)) - 1) = 13")
  case False
  with at_char_skip [OF at live] show ?thesis by (auto simp: comment_step_back_def)
next
  case True
  have ok: "lexer_ok lx" using at by (simp add: at_char_def)
  from True at_char_byte_pos [OF at live] have "last (here lx) = 13" by simp
  then have here: "here lx = [13]" using last_byte_here [OF ok live cr] by simp
  note h = here_cases [OF ok]
  have other: "[13] \<noteq> [10 :: byte]" by simp
  have one: "current_character_bytes lx = 1" "current_code_point lx \<noteq> 10"
    using h(3) [OF live] h(4) [OF live] other by (simp_all add: here)
  note moves = skip_moves [OF live]
  have cur: "lx_current (comment_step_back (rbs_skip lx)) = lx_current lx"
    using True moves one by (intro position_eqI) (simp_all add: comment_step_back_def)
  have pos: "1 \<le> byte_pos (lx_current (rbs_skip lx))" using moves(1) one ok by (simp add: lexer_ok_def)
  note stepped = step_back_ok [OF skip_ok [OF ok] pos]
  show ?thesis
    by (rule disjI1, rule at_char_move [OF at stepped(1)]) (simp_all add: stepped(2) cur)
qed

text \<open>One call, in terms of characters.\<close>

lemma next_token_chars:
  assumes at: "at_char cs n lx" and ready: "lx_start lx = lx_current lx"
    and cr: "lx_encoding lx \<in> set rbs_encodings" "enc_name (lx_encoding lx) \<noteq> ''CESU-8''"
    and r: "rbs_lexer_next_token lx = Some (tok, lx')"
  shows "\<exists>m\<ge>n. at_char cs m lx' \<and> lx_current lx' = position_after (take m cs)"
proof -
  have ok: "lexer_ok lx" using at by (simp add: at_char_def)
  have "\<exists>m\<ge>n. \<exists>l t. at_char cs m l \<and> (tok, lx') = rbs_next_token l t"
  proof -
    from next_token_result [OF ok] r have "yy_result lx (tok, lx')" by auto
    then consider (eof) "(tok, lx') = rbs_next_token lx pEOF"
      | (plain) k t where "live k lx" "(tok, lx') = rbs_next_token ((rbs_skip ^^ k) lx) t"
      | (comment) k where "1 \<le> k" "live k lx" "(tok, lx') = comment_action ((rbs_skip ^^ k) lx)"
      unfolding yy_result_def eof_token_next [OF ok] by auto
    then show ?thesis
    proof cases
      case eof
      with at show ?thesis by auto
    next
      case plain
      with at_char_skips [OF at plain(1)] show ?thesis by (intro exI [of _ "n + k"]) auto
    next
      case comment
      obtain j where j: "k = Suc j" using comment(1) by (cases k) auto
      let ?l = "(rbs_skip ^^ j) lx"
      have live: "live j lx" "current_code_point ?l \<noteq> 0" using comment(2) by (simp_all add: j live_Suc)
      from at_char_step_back [OF at_char_skips [OF at live(1)] live(2)] cr comment(3)
      have "at_char cs (n + j) (comment_step_back (rbs_skip ?l)) \<or>
          at_char cs (n + Suc j) (comment_step_back (rbs_skip ?l))" by simp
      then obtain m where "n \<le> m" "at_char cs m (comment_step_back (rbs_skip ?l))"
        by (meson le_add1)
      then show ?thesis using comment(3) by (auto simp: j comment_action_def Let_def)
    qed
  qed
  then obtain m l t where m: "n \<le> m" "at_char cs m l" "rbs_next_token l t = (tok, lx')" by metis
  have "lexer_ready lx'" using next_token_ok [OF _ m(3)] m(2) by (simp add: at_char_def)
  then have "at_char cs m lx'"
    using at_char_move [OF m(2)] next_token_fields [OF m(3)] by (simp add: lexer_ready_def)
  with m(1) show ?thesis by (auto simp: at_char_def)
qed


subsection \<open>A new lexer\<close>

lemma walk_chars:
  assumes "at_char cs n lx" and "byte_pos (lx_current lx) + int fuel \<ge> start_pos lx"
  shows "\<exists>m\<ge>n. at_char cs m (lexer_walk fuel lx) \<and>
    lexer_source (lexer_walk fuel lx) = lexer_source lx \<and>
    (\<forall>i. n \<le> i \<and> i < m \<longrightarrow> byte_pos (position_after (take i cs)) < start_pos lx) \<and>
    (m = length cs \<or> start_pos lx \<le> byte_pos (position_after (take m cs)))"
  using assms
proof (induction fuel arbitrary: n lx)
  case 0
  then show ?case by (intro exI [of _ n]) (auto simp: at_char_def)
next
  case (Suc fuel)
  have ok: "lexer_ok lx" and cur: "lx_current lx = position_after (take n cs)"
    using Suc.prems(1) by (simp_all add: at_char_def)
  show ?case
  proof (cases "byte_pos (lx_current lx) < start_pos lx \<and> current_code_point lx \<noteq> 0")
    case False
    with Suc.prems(1) at_char_end [OF Suc.prems(1)] cur show ?thesis
      by (intro exI [of _ n]) auto
  next
    case True
    then have live: "current_code_point lx \<noteq> 0" by simp
    have "byte_pos (lx_current (rbs_skip lx)) + int fuel \<ge> start_pos (rbs_skip lx)"
      using Suc.prems(2) coherent_bounds(1) [OF ok] by (simp add: skip_moves(1) [OF live])
    from Suc.IH [OF at_char_skip [OF Suc.prems(1) live] this] obtain m where m: "Suc n \<le> m"
      "at_char cs m (lexer_walk fuel (rbs_skip lx))"
      "lexer_source (lexer_walk fuel (rbs_skip lx)) = lexer_source lx"
      "\<forall>i. Suc n \<le> i \<and> i < m \<longrightarrow> byte_pos (position_after (take i cs)) < start_pos lx"
      "m = length cs \<or> start_pos lx \<le> byte_pos (position_after (take m cs))" by auto
    have "\<forall>i. n \<le> i \<and> i < m \<longrightarrow> byte_pos (position_after (take i cs)) < start_pos lx"
      using m(4) True cur by (metis Suc_leI le_neq_implies_less)
    with m True show ?thesis by (intro exI [of _ m]) auto
  qed
qed

lemma byte_pos_mono:
  assumes "i \<le> j"
  shows "byte_pos (position_after (take i cs)) \<le> byte_pos (position_after (take j cs))"
proof -
  have "take j cs = take i cs @ drop i (take j cs)"
    using assms append_take_drop_id [of i "take j cs"] by (simp add: min_absorb1)
  then have "concat (take j cs) = concat (take i cs) @ concat (drop i (take j cs))"
    by (metis concat_append)
  then show ?thesis by (simp add: position_after_def)
qed

text \<open>The lexer before the walk of \<open>rbs_lexer_new\<close> stands before the first character.\<close>

lemma new_lexer_chars:
  assumes e: "e \<in> set rbs_encodings" and pos: "0 \<le> first_pos"
    and last_pos: "last_pos \<le> int (length (string_bytes s))"
  obtains lx n where "at_char (source_chars s e last_pos) n lx"
    "lexer_source lx = (s, first_pos, last_pos, e)"
    "\<forall>i<n. byte_pos (position_after (take i (source_chars s e last_pos))) < first_pos"
    "n = length (source_chars s e last_pos) \<or> first_pos \<le> byte_pos (lx_current lx)"
    "rbs_lexer_new s e first_pos last_pos =
       (if byte_pos (lx_current lx) \<noteq> first_pos then None else Some (lx\<lparr>lx_start := lx_current lx\<rparr>))"
proof -
  let ?l0 = "\<lparr>lx_string = s, start_pos = first_pos, end_pos = last_pos,
      lx_current = \<lparr>byte_pos = 0, char_pos = 0, line = 1, column = 0\<rparr>, lx_start = zero_position,
      current_code_point = 0, current_character_bytes = 0, first_token_of_line = True, lx_encoding = e\<rparr>"
  define l1 where "l1 = (case rbs_next_char ?l0 of
       Some (codepoint, bytes) \<Rightarrow> ?l0\<lparr>current_code_point := codepoint, current_character_bytes := bytes\<rparr>
     | None \<Rightarrow> ?l0\<lparr>current_code_point := 0, current_character_bytes := 1\<rparr>)"
  have same: "rbs_next_char (l\<lparr>current_code_point := c, current_character_bytes := n\<rparr>) = rbs_next_char l" for l c n
    by (simp add: rbs_next_char_def Let_def)
  have "lexer_coherent l1" by (auto simp: l1_def lexer_coherent_def same simp del: rbs_lexer.update_convs split: option.splits)
  moreover have l1: "lexer_source l1 = (s, first_pos, last_pos, e)"
    "lx_current l1 = \<lparr>byte_pos = 0, char_pos = 0, line = 1, column = 0\<rparr>"
    by (auto simp: l1_def lexer_source_def split: option.splits)
  ultimately have ok: "lexer_ok l1" using e last_pos by (simp add: lexer_ok_def lexer_source_def)
  have "chars_left l1 = source_chars s e last_pos"
    using l1 by (simp add: chars_left_def source_chars_def lexer_source_def)
  with ok l1 have at: "at_char (source_chars s e last_pos) 0 l1" by (simp add: at_char_def)
  have "byte_pos (lx_current l1) + int (nat first_pos) \<ge> start_pos l1"
    using l1 by (simp add: lexer_source_def)
  from walk_chars [OF at this] obtain m where m: "at_char (source_chars s e last_pos) m (lexer_walk (nat first_pos) l1)"
    "lexer_source (lexer_walk (nat first_pos) l1) = (s, first_pos, last_pos, e)"
    "\<forall>i<m. byte_pos (position_after (take i (source_chars s e last_pos))) < first_pos"
    "m = length (source_chars s e last_pos) \<or>
      first_pos \<le> byte_pos (position_after (take m (source_chars s e last_pos)))"
    using l1 by (auto simp: lexer_source_def)
  show ?thesis
    by (rule that [OF m(1,2,3)])
      (use m(1,4) in \<open>auto simp: at_char_def rbs_lexer_new_def l1_def Let_def\<close>)
qed

lemma lexer_new_value:
  assumes "e \<in> set rbs_encodings" and "0 \<le> first_pos" and "last_pos \<le> int (length (string_bytes s))"
  shows "case rbs_lexer_new s e first_pos last_pos of
      None \<Rightarrow> \<forall>n. byte_pos (position_after (take n (source_chars s e last_pos))) \<noteq> first_pos
    | Some lx \<Rightarrow> lexer_ready lx \<and> lexer_source lx = (s, first_pos, last_pos, e) \<and>
        byte_pos (lx_current lx) = first_pos \<and>
        (\<exists>n\<le>length (source_chars s e last_pos).
           lx_current lx = position_after (take n (source_chars s e last_pos)))"
proof -
  let ?cs = "source_chars s e last_pos"
  obtain lx n where n: "at_char ?cs n lx" "lexer_source lx = (s, first_pos, last_pos, e)"
    "\<forall>i<n. byte_pos (position_after (take i ?cs)) < first_pos"
    "n = length ?cs \<or> first_pos \<le> byte_pos (lx_current lx)"
    and new: "rbs_lexer_new s e first_pos last_pos =
       (if byte_pos (lx_current lx) \<noteq> first_pos then None else Some (lx\<lparr>lx_start := lx_current lx\<rparr>))"
    using new_lexer_chars [OF assms] by metis
  have ok: "lexer_ok lx" and cur: "lx_current lx = position_after (take n ?cs)" "n \<le> length ?cs"
    using n(1) by (simp_all add: at_char_def)
  show ?thesis
  proof (cases "byte_pos (lx_current lx) = first_pos")
    case True
    let ?lx = "lx\<lparr>lx_start := lx_current lx\<rparr>"
    have "rbs_next_char ?lx = rbs_next_char lx" by (intro next_char_cong) (simp_all add: lexer_source_def)
    then have "lexer_ready ?lx" using ok 
      by (simp add: lexer_ready_def lexer_ok_def lexer_coherent_def split: option.splits prod.splits)
    then show ?thesis using True new n(2) cur by (auto simp: lexer_source_def)
  next
    case False
    have "byte_pos (position_after (take i ?cs)) \<noteq> first_pos" for i
    proof (cases "i < n")
      case True
      with n(3) show ?thesis by auto
    next
      case False
      then have "byte_pos (position_after (take n ?cs)) \<le> byte_pos (position_after (take i ?cs))"
        by (simp add: byte_pos_mono)
      moreover have "take i ?cs = take n ?cs" if "n = length ?cs" using that False by simp
      ultimately show ?thesis using n(4) cur \<open>byte_pos (lx_current lx) \<noteq> first_pos\<close> by auto
    qed
    with False new show ?thesis by simp
  qed
qed

text \<open>
  C23. \<open>rbs_lexer_new\<close> makes a lexer exactly when \<open>start_pos\<close> is where a character of the source
  starts (or its end, or its first NUL byte): the lexer then stands there, with the character
  position, line and column of that byte, ready for the first token; a position inside a
  character, or past the end, gives no lexer.
\<close>

theorem lexer_new_correct:
  assumes "e \<in> set rbs_encodings" and "0 \<le> first_pos" and "last_pos \<le> int (length (string_bytes s))"
  shows "case rbs_lexer_new s e first_pos last_pos of
      None \<Rightarrow> \<forall>n. byte_pos (position_after (take n (source_chars s e last_pos))) \<noteq> first_pos
    | Some lx \<Rightarrow> lexer_ready lx \<and> lexer_source lx = (s, first_pos, last_pos, e) \<and>
        byte_pos (lx_current lx) = first_pos \<and>
        (\<exists>n\<le>length (source_chars s e last_pos).
           lx_current lx = position_after (take n (source_chars s e last_pos)))"
  using assms by (rule lexer_new_value)

theorem lexer_new_correct_witness:
  "rbs_lexer_new \<lparr>buffer = [97, 0xC3, 0xA9, 98], start = 0, end_ptr = 4\<rparr>
     \<lparr>enc_name = ''UTF-8'', char_width = rbs_encoding_utf_8_char_width, multibyte = True\<rparr> 2 4 = None \<and>
   (\<exists>lx. rbs_lexer_new \<lparr>buffer = [97, 0xC3, 0xA9, 98], start = 0, end_ptr = 4\<rparr>
     \<lparr>enc_name = ''UTF-8'', char_width = rbs_encoding_utf_8_char_width, multibyte = True\<rparr> 3 4 = Some lx \<and>
     char_pos (lx_current lx) = 2)"
proof -
  let ?s = "\<lparr>buffer = [97, 0xC3, 0xA9, 98], start = 0, end_ptr = 4\<rparr> :: rbs_string"
  let ?e = "\<lparr>enc_name = ''UTF-8'', char_width = rbs_encoding_utf_8_char_width, multibyte = True\<rparr>"
  have src: "string_bytes ?s = [97, 0xC3, 0xA9, 98]" by (simp add: string_bytes_def segment_def)
  have w: "rbs_encoding_utf_8_char_width [0xC3, 0xA9, 98] = 2"
    by (simp add: utf_8_char_width_value utf_8_well_formed_width_def utf_8_lead_def in_range_def)
  have cs: "source_chars ?s ?e 4 = [[97], [0xC3, 0xA9], [98]]"
    by (simp add: source_chars_def src split_chars.simps w Let_def)
  let ?pos = "\<lambda>n. position_after (take n (source_chars ?s ?e 4))"
  have n: "n = 0 \<or> n = 1 \<or> n = 2 \<or> n = 3" if "n \<le> 3" for n :: nat using that by linarith
  have at: "byte_pos (?pos 0) = 0" "byte_pos (?pos 1) = 1" "byte_pos (?pos 2) = 3" "byte_pos (?pos 3) = 4"
    "char_pos (?pos 2) = 2" by (simp_all add: cs position_after_def)
  have len: "length (source_chars ?s ?e 4) = 3" by (simp add: cs)
  have e: "?e \<in> set rbs_encodings" by (simp add: rbs_encodings_def)
  have two: "byte_pos (?pos n) \<noteq> 2" if "n \<le> 3" for n using n [OF that] at by auto
  have three: "n = 2" if "n \<le> 3" "byte_pos (?pos n) = 3" for n using n [OF that(1)] at that(2) by auto
  have "rbs_lexer_new ?s ?e 2 4 = None"
    using lexer_new_correct [OF e, of 2 4 ?s] two len by (auto simp: src split: option.splits)
  moreover have "\<exists>lx. rbs_lexer_new ?s ?e 3 4 = Some lx \<and> char_pos (lx_current lx) = 2"
    using lexer_new_correct [OF e, of 3 4 ?s] three len at by (auto simp: src split: option.splits)
  ultimately show ?thesis by blast
qed

subsection \<open>Token streams\<close>

text \<open>
  The loop of \<open>rbsparser_lex\<close>, which collects tokens up to the first \<open>pEOF\<close>. The fuel, one more
  than the bytes of the source, is enough: every token before takes a byte.
\<close>

fun lex_tokens :: "nat \<Rightarrow> rbs_lexer \<Rightarrow> rbs_token list option" where
  "lex_tokens 0 lexer = None"
| "lex_tokens (Suc fuel) lexer =
     (case rbs_lexer_next_token lexer of
        None \<Rightarrow> None
      | Some (token, lexer) \<Rightarrow>
          if tok_type token = pEOF then Some [token]
          else map_option (\<lambda>results. token # results) (lex_tokens fuel lexer))"

text \<open>\<open>None\<close> where \<open>rbsparser_lex\<close> raises an \<open>ArgumentError\<close> for its range.\<close>

definition rbsparser_lex :: "rbs_string \<Rightarrow> rbs_encoding \<Rightarrow> int \<Rightarrow> rbs_token list option" where
  "rbsparser_lex string encoding last_pos =
     (if last_pos < 0 then None
      else case rbs_lexer_new string encoding 0 last_pos of
             None \<Rightarrow> None
           | Some lexer \<Rightarrow> lex_tokens (Suc (nat last_pos)) lexer)"

definition token_text :: "rbs_string \<Rightarrow> rbs_token \<Rightarrow> byte list" where
  "token_text s tok =
     segment (string_bytes s) (nat (byte_pos (r_start (tok_range tok)))) (nat (byte_pos (r_end (tok_range tok))))"

lemma token_text_split:
  assumes "token_ok lx tok lx'" and "lexer_ready lx" and "tok_type tok \<noteq> pEOF"
  shows "take (nat (byte_pos (lx_current lx))) (string_bytes (lx_string lx)) @ token_text (lx_string lx) tok =
    take (nat (byte_pos (lx_current lx'))) (string_bytes (lx_string lx))"
proof -
  have "0 \<le> byte_pos (lx_current lx)" "byte_pos (lx_current lx) < byte_pos (lx_current lx')"
    "byte_pos (lx_current lx') \<le> int (length (string_bytes (lx_string lx)))"
    using assms by (auto simp: token_ok_def lexer_ready_def lexer_ok_def lexer_source_def)
  then show ?thesis
    using segment_append [of 0 "nat (byte_pos (lx_current lx))" "nat (byte_pos (lx_current lx'))" "string_bytes (lx_string lx)"]
      assms(1,3) by (simp add: token_text_def token_ok_def segment_def)
qed

lemma lex_tokens_ok:
  assumes "lexer_ready lx" and "nat (end_pos lx - byte_pos (lx_current lx)) < fuel"
  shows "\<exists>toks final. lex_tokens fuel lx = Some (toks @ [final]) \<and> tok_type final = pEOF \<and>
    (\<forall>t\<in>set toks. tok_type t \<noteq> pEOF \<and> byte_pos (r_start (tok_range t)) < byte_pos (r_end (tok_range t))) \<and>
    r_start (tok_range (hd (toks @ [final]))) = lx_current lx \<and>
    map (\<lambda>t. r_end (tok_range t)) toks = map (\<lambda>t. r_start (tok_range t)) (tl (toks @ [final])) \<and>
    r_end (tok_range final) = r_start (tok_range final) \<and>
    take (nat (byte_pos (lx_current lx))) (string_bytes (lx_string lx)) @ concat (map (token_text (lx_string lx)) toks) =
      take (nat (byte_pos (r_start (tok_range final)))) (string_bytes (lx_string lx))"
  using assms
proof (induction fuel arbitrary: lx)
  case (Suc fuel)
  from next_token_contract [OF Suc.prems(1)] obtain tok lx' where
    r: "rbs_lexer_next_token lx = Some (tok, lx')" "token_ok lx tok lx'" by blast
  show ?case
  proof (cases "tok_type tok = pEOF")
    case True
    with r show ?thesis by (intro exI [of _ "[]"] exI [of _ tok]) (auto simp: token_ok_def)
  next
    case False
    have same: "lexer_source lx' = lexer_source lx" "lexer_ready lx'" using r(2) by (simp_all add: token_ok_def)
    have moved: "byte_pos (lx_current lx) < byte_pos (lx_current lx')" "current_code_point lx \<noteq> 0"
      using r(2) False by (auto simp: token_ok_def)
    have "byte_pos (lx_current lx) < end_pos lx"
      using coherent_bounds(2) Suc.prems(1) moved(2) by (simp add: lexer_ready_def)
    then have "nat (end_pos lx' - byte_pos (lx_current lx')) < fuel"
      using Suc.prems(2) moved(1) same(1) by (auto simp: lexer_source_def)
    from Suc.IH [OF same(2) this] obtain toks final where ih:
      "lex_tokens fuel lx' = Some (toks @ [final])" "tok_type final = pEOF"
      "\<forall>t\<in>set toks. tok_type t \<noteq> pEOF \<and> byte_pos (r_start (tok_range t)) < byte_pos (r_end (tok_range t))"
      "r_start (tok_range (hd (toks @ [final]))) = lx_current lx'"
      "map (\<lambda>t. r_end (tok_range t)) toks = map (\<lambda>t. r_start (tok_range t)) (tl (toks @ [final]))"
      "r_end (tok_range final) = r_start (tok_range final)"
      "take (nat (byte_pos (lx_current lx'))) (string_bytes (lx_string lx')) @ concat (map (token_text (lx_string lx')) toks) =
        take (nat (byte_pos (r_start (tok_range final)))) (string_bytes (lx_string lx'))" by blast
    have str: "lx_string lx' = lx_string lx" using same(1) by (simp add: lexer_source_def)
    have head: "map f (toks @ [final]) = f (hd (toks @ [final])) # map f (tl (toks @ [final]))" for f
      by (cases toks) simp_all
    have "map (\<lambda>t. r_end (tok_range t)) (tok # toks) = map (\<lambda>t. r_start (tok_range t)) (toks @ [final])"
      by (subst head) (use ih(4,5) r(2) in \<open>simp add: token_ok_def del: map_append\<close>)
    then show ?thesis
      using r False ih token_text_split [OF r(2) Suc.prems(1) False] moved
      by (intro exI [of _ "tok # toks"] exI [of _ final]) (auto simp: token_ok_def str simp flip: append_assoc)
  qed
qed simp

text \<open>Positions of a whole stream, for the encodings in which no character ends in a carriage return.\<close>

lemma lex_tokens_chars:
  assumes "at_char cs n lx" and "lx_start lx = lx_current lx"
    and "lx_encoding lx \<in> set rbs_encodings" and "enc_name (lx_encoding lx) \<noteq> ''CESU-8''"
    and "lex_tokens fuel lx = Some toks"
  shows "(\<forall>t\<in>set toks. \<exists>i j. i \<le> j \<and> j \<le> length cs \<and>
      tok_range t = \<lparr>r_start = position_after (take i cs), r_end = position_after (take j cs)\<rparr>) \<and>
    toks \<noteq> [] \<and> r_start (tok_range (last toks)) = position_after cs"
  using assms
proof (induction fuel arbitrary: n lx toks)
  case (Suc fuel)
  have ready: "lexer_ready lx" using Suc.prems(1,2) by (simp add: lexer_ready_def at_char_def)
  from next_token_contract [OF ready] obtain tok lx' where
    r: "rbs_lexer_next_token lx = Some (tok, lx')" "token_ok lx tok lx'" by blast
  from next_token_chars [OF Suc.prems(1-4) r(1)] obtain m where m: "n \<le> m" "at_char cs m lx'" by blast
  have range: "tok_range tok = \<lparr>r_start = position_after (take n cs), r_end = position_after (take m cs)\<rparr>"
    using r(2) Suc.prems(1) m(2) by (cases "tok_range tok") (simp add: token_ok_def at_char_def)
  have bounds: "n \<le> length cs" "m \<le> length cs" using Suc.prems(1) m(2) by (simp_all add: at_char_def)
  show ?case
  proof (cases "tok_type tok = pEOF")
    case True
    then have "n = length cs" using r(2) at_char_end [OF Suc.prems(1)] by (simp add: token_ok_def)
    with True r Suc.prems(5) range bounds m(1) show ?thesis
      by (auto intro!: exI [of _ "length cs"])
  next
    case False
    then obtain rest where rest: "lex_tokens fuel lx' = Some rest" "toks = tok # rest"
      using Suc.prems(5) r(1) by auto
    have "lx_start lx' = lx_current lx'" "lexer_source lx' = lexer_source lx"
      using r(2) by (simp_all add: token_ok_def lexer_ready_def)
    with Suc.IH [OF m(2) _ _ _ rest(1)] Suc.prems(3,4)
    have "(\<forall>t\<in>set rest. \<exists>i j. i \<le> j \<and> j \<le> length cs \<and>
        tok_range t = \<lparr>r_start = position_after (take i cs), r_end = position_after (take j cs)\<rparr>) \<and>
      rest \<noteq> [] \<and> r_start (tok_range (last rest)) = position_after cs"
      by (simp add: lexer_source_def)
    with range rest(2) m(1) bounds show ?thesis by auto
  qed
qed simp

lemma lex_start:
  assumes "e \<in> set rbs_encodings" and "0 \<le> last_pos" and "last_pos \<le> int (length (string_bytes s))"
  obtains lx where "rbs_lexer_new s e 0 last_pos = Some lx" "lexer_ready lx"
    "lexer_source lx = (s, 0, last_pos, e)" "at_char (source_chars s e last_pos) 0 lx"
proof -
  let ?cs = "source_chars s e last_pos"
  obtain lx n where n: "at_char ?cs n lx" "lexer_source lx = (s, 0, last_pos, e)"
    "\<forall>i<n. byte_pos (position_after (take i ?cs)) < 0"
    and new: "rbs_lexer_new s e 0 last_pos =
       (if byte_pos (lx_current lx) \<noteq> 0 then None else Some (lx\<lparr>lx_start := lx_current lx\<rparr>))"
    using new_lexer_chars [OF assms(1) order_refl assms(3)] by metis
  have "n = 0" using n(3) by (auto simp: position_after_def)
  then have zero: "byte_pos (lx_current lx) = 0" using n(1) by (simp add: at_char_def)
  let ?lx = "lx\<lparr>lx_start := lx_current lx\<rparr>"
  have "rbs_next_char ?lx = rbs_next_char lx" by (intro next_char_cong) (simp_all add: lexer_source_def)
  moreover have "lexer_ok lx" using n(1) by (simp add: at_char_def)
  ultimately have ready: "lexer_ready ?lx"
    by (simp add: lexer_ready_def lexer_ok_def lexer_coherent_def split: option.splits prod.splits)
  have "at_char ?cs 0 ?lx"
    using at_char_move [OF n(1), of ?lx] ready \<open>n = 0\<close> by (simp add: lexer_ready_def lexer_source_def)
  with ready zero new n(2) show ?thesis using that by (simp add: lexer_source_def)
qed

text \<open>
  C18. A call of \<open>rbs_lexer_next_token\<close> on a lexer that stands between two tokens always
  returns: with a token that starts where the lexer stood and ends where it stands
  afterwards, again between two tokens; with \<open>pEOF\<close>, without moving, exactly when the lexer
  stands at the end or at a NUL byte; and with a token of at least one byte otherwise.
\<close>

theorem next_token_total:
  assumes "lexer_ready lx"
  shows "\<exists>tok lx'. rbs_lexer_next_token lx = Some (tok, lx') \<and> lexer_ready lx' \<and>
     lexer_source lx' = lexer_source lx \<and>
     tok_range tok = \<lparr>r_start = lx_current lx, r_end = lx_current lx'\<rparr> \<and>
     (tok_type tok = pEOF \<longleftrightarrow> current_code_point lx = 0) \<and>
     (if tok_type tok = pEOF then lx_current lx' = lx_current lx
      else byte_pos (lx_current lx) < byte_pos (lx_current lx'))"
proof -
  from next_token_contract [OF assms] obtain tok lx' where
    "rbs_lexer_next_token lx = Some (tok, lx')" "token_ok lx tok lx'" by blast
  then show ?thesis
    by (intro exI [of _ tok] exI [of _ lx']) (cases "tok_range tok", auto simp: token_ok_def split: if_splits)
qed

text \<open>
  C16. \<open>rbsparser_lex\<close> returns a list of tokens for every source, every encoding of the table and
  every end position inside the source: \<open>pEOF\<close> is its last token and only its last, every
  other token takes at least one byte, each starts where the one before it ends, and their
  texts, one after the other, are the source up to where \<open>pEOF\<close> is: no byte is lost or read
  twice.
\<close>

theorem lex_partitions_source:
  assumes "e \<in> set rbs_encodings" and "0 \<le> last_pos" and "last_pos \<le> int (length (string_bytes s))"
  shows "\<exists>toks final. rbsparser_lex s e last_pos = Some (toks @ [final]) \<and> tok_type final = pEOF \<and>
    (\<forall>t\<in>set toks. tok_type t \<noteq> pEOF \<and> byte_pos (r_start (tok_range t)) < byte_pos (r_end (tok_range t))) \<and>
    map (\<lambda>t. r_end (tok_range t)) toks = map (\<lambda>t. r_start (tok_range t)) (tl (toks @ [final])) \<and>
    concat (map (token_text s) toks) = take (nat (byte_pos (r_start (tok_range final)))) (string_bytes s)"
proof -
  obtain lx where lx: "rbs_lexer_new s e 0 last_pos = Some lx" "lexer_ready lx"
    "lexer_source lx = (s, 0, last_pos, e)" "at_char (source_chars s e last_pos) 0 lx"
    using lex_start [OF assms] by metis
  have "byte_pos (lx_current lx) = 0" using lx(4) by (simp add: at_char_def)
  with lex_tokens_ok [OF lx(2), of "Suc (nat last_pos)"] lx assms(2) show ?thesis
    by (auto simp: rbsparser_lex_def lexer_source_def simp del: lex_tokens.simps)
qed


text \<open>The sources of the witnesses: \<open>class Foo # c\<close>, a CR LF and \<open>end\<close>, in US-ASCII.\<close>

abbreviation ascii_encoding :: rbs_encoding where
  "ascii_encoding \<equiv> \<lparr>enc_name = ''US-ASCII'', char_width = rbs_encoding_ascii_char_width, multibyte = False\<rparr>"

definition string_of :: "byte list \<Rightarrow> rbs_string" where
  "string_of bs = \<lparr>buffer = bs, start = 0, end_ptr = length bs\<rparr>"

lemma ascii_in_table: "ascii_encoding \<in> set rbs_encodings"
  by (simp add: rbs_encodings_def)

lemma string_of_bytes [simp]: "string_bytes (string_of bs) = bs"
  by (simp add: string_of_def string_bytes_def segment_def)

theorem lex_partitions_source_witness:
  "\<exists>toks final. rbsparser_lex (string_of [99, 35, 13, 10]) ascii_encoding 4 = Some (toks @ [final]) \<and>
     concat (map (token_text (string_of [99, 35, 13, 10])) toks) =
       take (nat (byte_pos (r_start (tok_range final)))) [99, 35, 13, 10]"
  using lex_partitions_source [OF ascii_in_table, of 4 "string_of [99, 35, 13, 10]"] by force


theorem next_token_total_witness:
  "\<exists>lx tok lx'. rbs_lexer_new (string_of [99, 35]) ascii_encoding 0 2 = Some lx \<and>
     rbs_lexer_next_token lx = Some (tok, lx') \<and> tok_type tok \<noteq> pEOF \<and> 0 < byte_pos (lx_current lx')"
proof -
  let ?s = "string_of [99, 35]"
  obtain lx where lx: "rbs_lexer_new ?s ascii_encoding 0 2 = Some lx" "lexer_ready lx"
    "at_char (source_chars ?s ascii_encoding 2) 0 lx"
    using lex_start [OF ascii_in_table, of 2 ?s] by auto
  have "source_chars ?s ascii_encoding 2 = [[99], [35]]"
    by (simp add: source_chars_def split_chars.simps Let_def)
  then have "current_code_point lx \<noteq> 0" "byte_pos (lx_current lx) = 0"
    using at_char_end [OF lx(3)] lx(3) by (simp_all add: at_char_def)
  moreover obtain tok lx' where "rbs_lexer_next_token lx = Some (tok, lx')"
    "tok_type tok = pEOF \<longleftrightarrow> current_code_point lx = 0"
    "if tok_type tok = pEOF then lx_current lx' = lx_current lx
     else byte_pos (lx_current lx) < byte_pos (lx_current lx')"
    using next_token_total [OF lx(2)] by (elim exE conjE) (rule that)
  ultimately show ?thesis using lx(1) by auto
qed

end
