(* ===== verification/Buffer.thy ===== *)
theory Buffer
  imports CString
begin

text \<open>
  \<open>src/util/rbs_buffer.c\<close>: a byte buffer that doubles its capacity when it is full. The
  specification is the list of the bytes appended so far (\<open>buffer_contents\<close>).
\<close>

subsection \<open>Operations\<close>

record rbs_buffer =
  buf_length :: nat
  buf_capacity :: nat
  buf_value :: "byte list"

definition RBS_BUFFER_DEFAULT_CAPACITY :: nat where
  "RBS_BUFFER_DEFAULT_CAPACITY = 128"

definition rbs_buffer_init :: rbs_buffer where
  "rbs_buffer_init =
     (let capacity = RBS_BUFFER_DEFAULT_CAPACITY
      in \<lparr>buf_length = 0, buf_capacity = capacity, buf_value = replicate capacity 0\<rparr>)"

definition rbs_buffer_value :: "rbs_buffer \<Rightarrow> byte list" where
  "rbs_buffer_value b = buf_value b"

definition rbs_buffer_length :: "rbs_buffer \<Rightarrow> nat" where
  "rbs_buffer_length b = buf_length b"

text \<open>The doubling loop; \<open>new_capacity\<close> is positive when it starts (an assertion of the code).\<close>

function double_capacity :: "nat \<Rightarrow> nat \<Rightarrow> nat" where
  "double_capacity next_length new_capacity =
     (if next_length > new_capacity \<and> 0 < new_capacity
      then double_capacity next_length (new_capacity * 2) else new_capacity)"
  by pat_completeness auto
termination
  by (relation "measure (\<lambda>(n, c). n - c)") auto

declare double_capacity.simps [simp del]

text \<open>
  \<open>None\<close> is the failed assertion \<open>old_capacity != 0\<close>. \<open>rbs_allocator_realloc\<close> copies the old
  bytes to new memory; what the rest of it holds is never read, and is zero here.
\<close>

definition rbs_buffer_append_string :: "rbs_buffer \<Rightarrow> byte list \<Rightarrow> rbs_buffer option" where
  "rbs_buffer_append_string b source =
     (let next_length = buf_length b + length source;
          write = (\<lambda>b. let cursor = buf_length b in
            b\<lparr>buf_length := next_length,
              buf_value := take cursor (buf_value b) @ source @ drop (cursor + length source) (buf_value b)\<rparr>)
      in if next_length > buf_capacity b then
           (let old_capacity = buf_capacity b in
            if old_capacity = 0 then None
            else let new_capacity = double_capacity next_length (buf_capacity b * 2) in
              Some (write (b\<lparr>buf_value := take old_capacity (buf_value b) @ replicate (new_capacity - old_capacity) 0,
                             buf_capacity := new_capacity\<rparr>)))
         else Some (write b))"

definition rbs_buffer_append_cstr :: "rbs_buffer \<Rightarrow> byte list \<Rightarrow> rbs_buffer option" where
  "rbs_buffer_append_cstr b value = rbs_buffer_append_string b (takeWhile (\<lambda>c. c \<noteq> 0) value)"

definition rbs_buffer_to_string :: "rbs_buffer \<Rightarrow> rbs_string" where
  "rbs_buffer_to_string b = rbs_string_new (buf_value b) 0 (buf_length b)"

subsection \<open>Correctness\<close>

definition buffer_contents :: "rbs_buffer \<Rightarrow> byte list" where
  "buffer_contents b = take (buf_length b) (buf_value b)"

definition buffer_inv :: "rbs_buffer \<Rightarrow> bool" where
  "buffer_inv b \<longleftrightarrow> 0 < buf_capacity b \<and> buf_length b \<le> buf_capacity b \<and> length (buf_value b) = buf_capacity b"

lemma double_capacity_value:
  assumes "0 < c"
  shows "n \<le> double_capacity n c \<and> c \<le> double_capacity n c \<and> (double_capacity n c = c \<or> double_capacity n c < 2 * n)"
  using assms
proof (induction n c rule: double_capacity.induct)
  case (1 n c)
  show ?case
  proof (cases "c < n")
    case True
    with 1 show ?thesis by (subst (1 2 3 4) double_capacity.simps) (auto simp: double_capacity.simps [of n "c * 2"])
  next
    case False
    then show ?thesis by (simp add: double_capacity.simps [of n c])
  qed
qed

lemma buffer_append_value:
  assumes "buffer_inv b"
  shows "\<exists>b'. rbs_buffer_append_string b source = Some b' \<and> buffer_inv b' \<and>
     buffer_contents b' = buffer_contents b @ source \<and> buf_capacity b \<le> buf_capacity b' \<and>
     (buf_capacity b' = buf_capacity b \<or> buf_capacity b' < 2 * buf_length b' \<or> buf_capacity b' = 2 * buf_capacity b)"
proof (cases "buf_length b + length source \<le> buf_capacity b")
  case True
  with assms show ?thesis
    by (cases source) (auto simp: rbs_buffer_append_string_def buffer_inv_def buffer_contents_def Let_def)
next
  case False
  let ?n = "buf_length b + length source" and ?c = "buf_capacity b"
  have d: "?n \<le> double_capacity ?n (?c * 2)" "?c * 2 \<le> double_capacity ?n (?c * 2)"
    "double_capacity ?n (?c * 2) = ?c * 2 \<or> double_capacity ?n (?c * 2) < 2 * ?n"
    using double_capacity_value [of "?c * 2" ?n] assms by (auto simp: buffer_inv_def)
  from False assms d show ?thesis
    by (auto simp: rbs_buffer_append_string_def buffer_inv_def buffer_contents_def Let_def)
qed

lemma buffer_init_value: "buffer_inv rbs_buffer_init" "buffer_contents rbs_buffer_init = []"
  by (simp_all add: rbs_buffer_init_def buffer_inv_def buffer_contents_def RBS_BUFFER_DEFAULT_CAPACITY_def)

lemma buffer_to_string_value: "string_bytes (rbs_buffer_to_string b) = buffer_contents b"
  by (simp add: rbs_buffer_to_string_def rbs_string_new_def string_bytes_def segment_def buffer_contents_def)



end
