(* ===== verification/AstTypes.thy ===== *)
theory AstTypes
  imports CString LexerState
begin

text \<open>
  The syntax tree of types: \<open>include/rbs/location.h\<close>, \<open>src/location.c\<close> and the part of
  \<open>include/rbs/ast.h\<close> and \<open>src/ast.c\<close> that is about types, symbols and names. A node is a tagged
  union in C; here it is a datatype with a constructor for each tag, the location first and
  then the fields of its struct in order. A list of nodes is a list, a hash an association
  list in the order of insertion. \<open>rbs_*_new\<close> sets the optional ranges of a node to the null
  range; the functions \<open>set_*\<close> are the assignments to them.
\<close>

subsection \<open>Locations\<close>

record rbs_location_range =
  start_char :: int
  start_byte :: int
  end_char :: int
  end_byte :: int

definition RBS_LOCATION_NULL_RANGE :: rbs_location_range where
  "RBS_LOCATION_NULL_RANGE = \<lparr>start_char = -1, start_byte = -1, end_char = -1, end_byte = -1\<rparr>"

definition RBS_LOCATION_NULL_RANGE_P :: "rbs_location_range \<Rightarrow> bool" where
  "RBS_LOCATION_NULL_RANGE_P rg \<longleftrightarrow> start_char rg = -1"

definition RBS_RANGE_LEX2AST :: "rbs_range \<Rightarrow> rbs_location_range" where
  "RBS_RANGE_LEX2AST rg =
     \<lparr>start_char = char_pos (r_start rg), start_byte = byte_pos (r_start rg),
      end_char = char_pos (r_end rg), end_byte = byte_pos (r_end rg)\<rparr>"

text \<open>A list of ranges keeps a pointer to its last node; here it is the list.\<close>

definition rbs_location_range_list_new :: "rbs_location_range list" where
  "rbs_location_range_list_new = []"

definition rbs_location_range_list_append ::
  "rbs_location_range list \<Rightarrow> rbs_location_range \<Rightarrow> rbs_location_range list"
where
  "rbs_location_range_list_append xs rg = xs @ [rg]"

subsection \<open>Symbols, names and nodes\<close>

record rbs_ast_symbol =
  sym_location :: rbs_location_range
  sym_constant_id :: "32 word"

record rbs_namespace =
  ns_location :: rbs_location_range
  ns_path :: "rbs_ast_symbol list"
  ns_absolute :: bool

record rbs_type_name =
  tn_location :: rbs_location_range
  tn_rbs_namespace :: rbs_namespace
  tn_name :: rbs_ast_symbol

datatype (plugins only: code size) rbs_node =
    Ast_Symbol rbs_ast_symbol
  | Ast_Bool rbs_location_range bool
  | Ast_Integer rbs_location_range rbs_string
  | Ast_String rbs_location_range rbs_string
  | Types_Alias rbs_location_range rbs_type_name "rbs_node list" rbs_location_range rbs_location_range
  | Types_Bases_Any rbs_location_range bool
  | Types_Bases_Bool rbs_location_range
  | Types_Bases_Bottom rbs_location_range
  | Types_Bases_Class rbs_location_range
  | Types_Bases_Instance rbs_location_range
  | Types_Bases_Nil rbs_location_range
  | Types_Bases_Self rbs_location_range
  | Types_Bases_Top rbs_location_range
  | Types_Bases_Void rbs_location_range
  | Types_Block rbs_location_range rbs_node bool "rbs_node option"
  | Types_Class_Instance rbs_location_range rbs_type_name "rbs_node list" rbs_location_range rbs_location_range
  | Types_Class_Singleton rbs_location_range rbs_type_name "rbs_node list" rbs_location_range rbs_location_range
  | Types_Function rbs_location_range "rbs_node list" "rbs_node list" "rbs_node option" "rbs_node list" "(rbs_node \<times> rbs_node) list" "(rbs_node \<times> rbs_node) list" "rbs_node option" "rbs_node option" rbs_node
  | Types_Function_Forwarding_Param rbs_location_range
  | Types_Function_Param rbs_location_range rbs_node "rbs_ast_symbol option" rbs_location_range
  | Types_Interface rbs_location_range rbs_type_name "rbs_node list" rbs_location_range rbs_location_range
  | Types_Intersection rbs_location_range "rbs_node list"
  | Types_Literal rbs_location_range rbs_node
  | Types_Optional rbs_location_range rbs_node
  | Types_Proc rbs_location_range rbs_node "rbs_node option" "rbs_node option"
  | Types_Record rbs_location_range "(rbs_node \<times> rbs_node) list"
  | Types_Record_Field_Type rbs_location_range rbs_node bool
  | Types_Tuple rbs_location_range "rbs_node list"
  | Types_Union rbs_location_range "rbs_node list"
  | Types_Untyped_Function rbs_location_range rbs_node
  | Types_Variable rbs_location_range rbs_ast_symbol

subsection \<open>Making nodes\<close>

definition rbs_namespace_new :: "rbs_location_range \<Rightarrow> rbs_ast_symbol list \<Rightarrow> bool \<Rightarrow>
    rbs_namespace" where
  "rbs_namespace_new location path absolute = \<lparr>ns_location = location, ns_path = path,
     ns_absolute = absolute\<rparr>"

definition rbs_type_name_new :: "rbs_location_range \<Rightarrow> rbs_namespace \<Rightarrow> rbs_ast_symbol \<Rightarrow>
    rbs_type_name" where
  "rbs_type_name_new location rbs_namespace name = \<lparr>tn_location = location, tn_rbs_namespace
     = rbs_namespace, tn_name = name\<rparr>"

definition rbs_ast_bool_new :: "rbs_location_range \<Rightarrow> bool \<Rightarrow> rbs_node" where
  "rbs_ast_bool_new location value = Ast_Bool location value"

definition rbs_ast_integer_new :: "rbs_location_range \<Rightarrow> rbs_string \<Rightarrow> rbs_node" where
  "rbs_ast_integer_new location string_representation = Ast_Integer location string_representation"

definition rbs_ast_string_new :: "rbs_location_range \<Rightarrow> rbs_string \<Rightarrow> rbs_node" where
  "rbs_ast_string_new location string = Ast_String location string"

definition rbs_types_alias_new :: "rbs_location_range \<Rightarrow> rbs_type_name \<Rightarrow> rbs_node list \<Rightarrow>
    rbs_location_range \<Rightarrow> rbs_node" where
  "rbs_types_alias_new location name args name_range = Types_Alias location name args name_range
     RBS_LOCATION_NULL_RANGE"

definition rbs_types_bases_any_new :: "rbs_location_range \<Rightarrow> bool \<Rightarrow> rbs_node" where
  "rbs_types_bases_any_new location todo = Types_Bases_Any location todo"

definition rbs_types_bases_bool_new :: "rbs_location_range \<Rightarrow> rbs_node" where
  "rbs_types_bases_bool_new location = Types_Bases_Bool location"

definition rbs_types_bases_bottom_new :: "rbs_location_range \<Rightarrow> rbs_node" where
  "rbs_types_bases_bottom_new location = Types_Bases_Bottom location"

definition rbs_types_bases_class_new :: "rbs_location_range \<Rightarrow> rbs_node" where
  "rbs_types_bases_class_new location = Types_Bases_Class location"

definition rbs_types_bases_instance_new :: "rbs_location_range \<Rightarrow> rbs_node" where
  "rbs_types_bases_instance_new location = Types_Bases_Instance location"

definition rbs_types_bases_nil_new :: "rbs_location_range \<Rightarrow> rbs_node" where
  "rbs_types_bases_nil_new location = Types_Bases_Nil location"

definition rbs_types_bases_self_new :: "rbs_location_range \<Rightarrow> rbs_node" where
  "rbs_types_bases_self_new location = Types_Bases_Self location"

definition rbs_types_bases_top_new :: "rbs_location_range \<Rightarrow> rbs_node" where
  "rbs_types_bases_top_new location = Types_Bases_Top location"

definition rbs_types_bases_void_new :: "rbs_location_range \<Rightarrow> rbs_node" where
  "rbs_types_bases_void_new location = Types_Bases_Void location"

definition rbs_types_block_new :: "rbs_location_range \<Rightarrow> rbs_node \<Rightarrow> bool \<Rightarrow> rbs_node option
    \<Rightarrow> rbs_node" where
  "rbs_types_block_new location type required self_type = Types_Block location type required
     self_type"

definition rbs_types_class_instance_new :: "rbs_location_range \<Rightarrow> rbs_type_name \<Rightarrow> rbs_node list \<Rightarrow>
    rbs_location_range \<Rightarrow> rbs_node" where
  "rbs_types_class_instance_new location name args name_range = Types_Class_Instance location name
     args name_range RBS_LOCATION_NULL_RANGE"

definition rbs_types_class_singleton_new :: "rbs_location_range \<Rightarrow> rbs_type_name \<Rightarrow> rbs_node list \<Rightarrow>
    rbs_location_range \<Rightarrow> rbs_node" where
  "rbs_types_class_singleton_new location name args name_range = Types_Class_Singleton location
     name args name_range RBS_LOCATION_NULL_RANGE"

definition rbs_types_function_new :: "rbs_location_range \<Rightarrow> rbs_node list \<Rightarrow> rbs_node list \<Rightarrow>
    rbs_node option \<Rightarrow> rbs_node list \<Rightarrow> (rbs_node \<times> rbs_node) list
    \<Rightarrow> (rbs_node \<times> rbs_node) list \<Rightarrow> rbs_node option \<Rightarrow>
    rbs_node option \<Rightarrow> rbs_node \<Rightarrow> rbs_node" where
  "rbs_types_function_new location required_positionals optional_positionals rest_positionals
     trailing_positionals required_keywords optional_keywords rest_keywords forwarding
     return_type = Types_Function location required_positionals optional_positionals
     rest_positionals trailing_positionals required_keywords optional_keywords rest_keywords
     forwarding return_type"

definition rbs_types_function_forwarding_param_new :: "rbs_location_range \<Rightarrow> rbs_node" where
  "rbs_types_function_forwarding_param_new location = Types_Function_Forwarding_Param location"

definition rbs_types_function_param_new :: "rbs_location_range \<Rightarrow> rbs_node \<Rightarrow> rbs_ast_symbol option \<Rightarrow>
    rbs_node" where
  "rbs_types_function_param_new location type name = Types_Function_Param location type name
     RBS_LOCATION_NULL_RANGE"

definition rbs_types_interface_new :: "rbs_location_range \<Rightarrow> rbs_type_name \<Rightarrow> rbs_node list \<Rightarrow>
    rbs_location_range \<Rightarrow> rbs_node" where
  "rbs_types_interface_new location name args name_range = Types_Interface location name args
     name_range RBS_LOCATION_NULL_RANGE"

definition rbs_types_intersection_new :: "rbs_location_range \<Rightarrow> rbs_node list \<Rightarrow> rbs_node" where
  "rbs_types_intersection_new location types = Types_Intersection location types"

definition rbs_types_literal_new :: "rbs_location_range \<Rightarrow> rbs_node \<Rightarrow> rbs_node" where
  "rbs_types_literal_new location literal = Types_Literal location literal"

definition rbs_types_optional_new :: "rbs_location_range \<Rightarrow> rbs_node \<Rightarrow> rbs_node" where
  "rbs_types_optional_new location type = Types_Optional location type"

definition rbs_types_proc_new :: "rbs_location_range \<Rightarrow> rbs_node \<Rightarrow> rbs_node option \<Rightarrow> rbs_node
    option \<Rightarrow> rbs_node" where
  "rbs_types_proc_new location type block self_type = Types_Proc location type block self_type"

definition rbs_types_record_new :: "rbs_location_range \<Rightarrow> (rbs_node \<times> rbs_node) list \<Rightarrow> rbs_node" where
  "rbs_types_record_new location all_fields = Types_Record location all_fields"

definition rbs_types_record_field_type_new :: "rbs_location_range \<Rightarrow> rbs_node \<Rightarrow> bool \<Rightarrow> rbs_node" where
  "rbs_types_record_field_type_new location type required = Types_Record_Field_Type location type
     required"

definition rbs_types_tuple_new :: "rbs_location_range \<Rightarrow> rbs_node list \<Rightarrow> rbs_node" where
  "rbs_types_tuple_new location types = Types_Tuple location types"

definition rbs_types_union_new :: "rbs_location_range \<Rightarrow> rbs_node list \<Rightarrow> rbs_node" where
  "rbs_types_union_new location types = Types_Union location types"

definition rbs_types_untyped_function_new :: "rbs_location_range \<Rightarrow> rbs_node \<Rightarrow> rbs_node" where
  "rbs_types_untyped_function_new location return_type = Types_Untyped_Function location
     return_type"

definition rbs_types_variable_new :: "rbs_location_range \<Rightarrow> rbs_ast_symbol \<Rightarrow> rbs_node" where
  "rbs_types_variable_new location name = Types_Variable location name"

definition rbs_ast_symbol_new :: "rbs_location_range \<Rightarrow> 32 word \<Rightarrow> rbs_ast_symbol" where
  "rbs_ast_symbol_new location constant_id = \<lparr>sym_location = location, sym_constant_id = constant_id\<rparr>"

text \<open>Assignments to the optional ranges.\<close>

definition set_args_range :: "rbs_location_range \<Rightarrow> rbs_node \<Rightarrow> rbs_node" where
  "set_args_range r node =
     (case node of
        Types_Alias l name args name_range _ \<Rightarrow> Types_Alias l name args name_range r
      | Types_Class_Instance l name args name_range _ \<Rightarrow> Types_Class_Instance l name args name_range r
      | Types_Class_Singleton l name args name_range _ \<Rightarrow> Types_Class_Singleton l name args name_range r
      | Types_Interface l name args name_range _ \<Rightarrow> Types_Interface l name args name_range r
      | _ \<Rightarrow> node)"

definition set_name_range :: "rbs_location_range \<Rightarrow> rbs_node \<Rightarrow> rbs_node" where
  "set_name_range r node =
     (case node of Types_Function_Param l type name _ \<Rightarrow> Types_Function_Param l type name r | _ \<Rightarrow> node)"

text \<open>The test \<open>type->type == RBS_TYPES_BASES_VOID\<close>, and the field \<open>literal\<close> of a literal type.\<close>

definition is_void :: "rbs_node \<Rightarrow> bool" where
  "is_void node \<longleftrightarrow> (case node of Types_Bases_Void _ \<Rightarrow> True | _ \<Rightarrow> False)"

definition literal_of :: "rbs_node \<Rightarrow> rbs_node" where
  "literal_of node = (case node of Types_Literal _ literal \<Rightarrow> literal | _ \<Rightarrow> node)"

subsection \<open>Lists and hashes of nodes\<close>

definition rbs_node_list_new :: "'a list" where
  "rbs_node_list_new = []"

definition rbs_node_list_append :: "'a list \<Rightarrow> 'a \<Rightarrow> 'a list" where
  "rbs_node_list_append xs node = xs @ [node]"

type_synonym rbs_hash = "(rbs_node \<times> rbs_node) list"

definition rbs_hash_new :: rbs_hash where
  "rbs_hash_new = []"

text \<open>
  Equality of keys. The nodes used as keys are symbols and literals; other nodes are equal to
  nothing (the C function prints a message for them).
\<close>

definition rbs_node_equal :: "rbs_node \<Rightarrow> rbs_node \<Rightarrow> bool" where
  "rbs_node_equal lhs rhs =
     (case lhs of
        Ast_Symbol a \<Rightarrow> (case rhs of Ast_Symbol b \<Rightarrow> sym_constant_id a = sym_constant_id b | _ \<Rightarrow> False)
      | Ast_Bool _ a \<Rightarrow> (case rhs of Ast_Bool _ b \<Rightarrow> a = b | _ \<Rightarrow> False)
      | Ast_Integer _ a \<Rightarrow> (case rhs of Ast_Integer _ b \<Rightarrow> rbs_string_equal a b | _ \<Rightarrow> False)
      | Ast_String _ a \<Rightarrow> (case rhs of Ast_String _ b \<Rightarrow> rbs_string_equal a b | _ \<Rightarrow> False)
      | _ \<Rightarrow> False)"

fun rbs_hash_find :: "rbs_hash \<Rightarrow> rbs_node \<Rightarrow> (rbs_node \<times> rbs_node) option" where
  "rbs_hash_find [] key = None"
| "rbs_hash_find (entry # rest) key =
     (if rbs_node_equal key (fst entry) then Some entry else rbs_hash_find rest key)"

fun rbs_hash_set :: "rbs_hash \<Rightarrow> rbs_node \<Rightarrow> rbs_node \<Rightarrow> rbs_hash" where
  "rbs_hash_set [] key value = [(key, value)]"
| "rbs_hash_set (entry # rest) key value =
     (if rbs_node_equal key (fst entry) then (fst entry, value) # rest
      else entry # rbs_hash_set rest key value)"

definition rbs_hash_get :: "rbs_hash \<Rightarrow> rbs_node \<Rightarrow> rbs_node option" where
  "rbs_hash_get hash key = map_option snd (rbs_hash_find hash key)"

end
