(* ===== verification/ParserState.thy ===== *)
theory ParserState
  imports AstTypes ConstantPool Unescape Buffer Lexer
begin

text \<open>
  The state of the parser (\<open>include/rbs/parser.h\<close>) and the operations of \<open>src/parser.c\<close> that
  work on it: the window of four tokens, the tables of type variables, comments, the first
  error, and \<open>rbs_parser_new\<close>. A parsing function of C returns a \<open>bool\<close> and changes the parser
  and its output arguments; here it returns an \<open>outcome\<close>.
\<close>

subsection \<open>Names of token types\<close>

definition RBS_TOKENTYPE_NAMES :: "string list" where
  "RBS_TOKENTYPE_NAMES =
    [''NullType'', ''pEOF'', ''ErrorToken'', ''pLPAREN'', ''pRPAREN'', ''pCOLON'',
     ''pCOLON2'', ''pLBRACKET'', ''pRBRACKET'', ''pLBRACE'', ''pRBRACE'', ''pHAT'',
     ''pARROW'', ''pFATARROW'', ''pCOMMA'', ''pBAR'', ''pAMP'', ''pSTAR'', ''pSTAR2'',
     ''pDOT'', ''pDOT3'', ''pBANG'', ''pQUESTION'', ''pLT'', ''pGT'', ''pEQ'', ''kALIAS'',
     ''kATTRACCESSOR'', ''kATTRREADER'', ''kATTRWRITER'', ''kBOOL'', ''kBOT'', ''kCLASS'',
     ''kCLASSALIAS'', ''kDEF'', ''kEND'', ''kEXTEND'', ''kFALSE'', ''kIN'', ''kINCLUDE'',
     ''kINSTANCE'', ''kINTERFACE'', ''kMODULE'', ''kMODULEALIAS'', ''kNIL'', ''kOUT'',
     ''kPREPEND'', ''kPRIVATE'', ''kPUBLIC'', ''kSELF'', ''kSINGLETON'', ''kTOP'', ''kTRUE'',
     ''kTYPE'', ''kUNCHECKED'', ''kUNTYPED'', ''kVOID'', ''kUSE'', ''kAS'', ''k__TODO__'',
     ''kATRBS'', ''kSKIP'', ''kRETURN'', ''kMODULESELF'', ''tLIDENT'', ''tUIDENT'',
     ''tULIDENT'', ''tULLIDENT'', ''tNONASCIIIDENT'', ''tGIDENT'', ''tAIDENT'', ''tA2IDENT'',
     ''tBANGIDENT'', ''tEQIDENT'', ''tQIDENT'', ''pAREF_OPR'', ''tOPERATOR'', ''tCOMMENT'',
     ''tLINECOMMENT'', ''tINLINECOMMENT'', ''tTRIVIA'', ''tDQSTRING'', ''tSQSTRING'',
     ''tINTEGER'', ''tSYMBOL'', ''tDQSYMBOL'', ''tSQSYMBOL'', ''tANNOTATION'']"

definition rbs_token_type_str :: "RBSTokenType \<Rightarrow> string" where
  "rbs_token_type_str type = RBS_TOKENTYPE_NAMES ! token_index type"

subsection \<open>The parser\<close>

text \<open>
  A table of type variables: \<open>count\<close> is the length of the list of ids, and the capacity \<open>size\<close>
  is 0 in a reset table. The tables are linked through \<open>next\<close>; here they are a list.
\<close>

record id_table =
  table_size :: nat
  table_ids :: "32 word list"

text \<open>A comment: \<open>line_tokens_count\<close> is the length of the list. Comments are linked, newest first.\<close>

record rbs_comment =
  com_start :: rbs_position
  com_end :: rbs_position
  line_tokens_capacity :: nat
  line_tokens :: "rbs_token list"

record rbs_error =
  err_message :: string
  err_token :: rbs_token
  err_syntax_error :: bool

record rbs_parser =
  lexer :: rbs_lexer
  current_token :: rbs_token
  next_token :: rbs_token
  next_token2 :: rbs_token
  next_token3 :: rbs_token
  vars :: "id_table list"
  last_comment :: "rbs_comment list"
  constant_pool :: rbs_constant_pool
  parser_error :: "rbs_error option"
  enable_forwarding_params :: bool

text \<open>
  What a parsing function ends with: \<open>true\<close> with its output, \<open>false\<close>, a failed assertion (the
  program ends), or no fuel left, which is proved never to happen.
\<close>

datatype 'a outcome = Done 'a rbs_parser | Failed rbs_parser | Aborted | Out_of_fuel

text \<open>\<open>CHECK_PARSE\<close>: go on with the output of a call that returned \<open>true\<close>.\<close>

definition check_parse :: "'a outcome \<Rightarrow> ('a \<Rightarrow> rbs_parser \<Rightarrow> 'b outcome) \<Rightarrow> 'b outcome" where
  "check_parse r k =
     (case r of Done v p \<Rightarrow> k v p | Failed p \<Rightarrow> Failed p | Aborted \<Rightarrow> Aborted | Out_of_fuel \<Rightarrow> Out_of_fuel)"

text \<open>Only the first error is kept.\<close>

definition rbs_parser_set_error :: "rbs_parser \<Rightarrow> rbs_token \<Rightarrow> bool \<Rightarrow> string \<Rightarrow> rbs_parser" where
  "rbs_parser_set_error p tok syntax_error message =
     (case parser_error p of
        Some _ \<Rightarrow> p
      | None \<Rightarrow> p\<lparr>parser_error := Some \<lparr>err_message = message, err_token = tok, err_syntax_error = syntax_error\<rparr>\<rparr>)"

text \<open>\<open>rbs_parser_set_error(...); return false;\<close>\<close>

definition fail_with :: "rbs_parser \<Rightarrow> rbs_token \<Rightarrow> bool \<Rightarrow> string \<Rightarrow> 'a outcome" where
  "fail_with p tok syntax_error message = Failed (rbs_parser_set_error p tok syntax_error message)"

subsection \<open>Comments\<close>

text \<open>The comment in the list that ends at a line, as its index.\<close>

fun comment_get_comment :: "rbs_comment list \<Rightarrow> int \<Rightarrow> nat option" where
  "comment_get_comment [] ln = None"
| "comment_get_comment (com # rest) ln =
     (if line (com_end com) < ln then None
      else if line (com_end com) = ln then Some 0
      else map_option Suc (comment_get_comment rest ln))"

definition comment_insert_new_line :: "rbs_comment \<Rightarrow> rbs_token \<Rightarrow> rbs_comment" where
  "comment_insert_new_line com comment_token =
     (let com = (if length (line_tokens com) = line_tokens_capacity com
                 then com\<lparr>line_tokens_capacity := line_tokens_capacity com * 2\<rparr> else com)
      in com\<lparr>line_tokens := line_tokens com @ [comment_token], com_end := r_end (tok_range comment_token)\<rparr>)"

definition alloc_comment :: "rbs_token \<Rightarrow> rbs_comment" where
  "alloc_comment comment_token =
     \<lparr>com_start = r_start (tok_range comment_token), com_end = r_end (tok_range comment_token),
      line_tokens_capacity = 10, line_tokens = [comment_token]\<rparr>"

definition insert_comment_line :: "rbs_parser \<Rightarrow> rbs_token \<Rightarrow> rbs_parser" where
  "insert_comment_line p tok =
     (let prev_line = line (r_start (tok_range tok)) - 1 in
      case comment_get_comment (last_comment p) prev_line of
        Some i \<Rightarrow> p\<lparr>last_comment := (last_comment p)[i := comment_insert_new_line (last_comment p ! i) tok]\<rparr>
      | None \<Rightarrow> p\<lparr>last_comment := alloc_comment tok # last_comment p\<rparr>)"

text \<open>
  The text of a comment: of each line without the \<open>#\<close> and one space, and a line feed. The
  buffer's assertion (\<open>None\<close>) never fails.
\<close>

definition comment_line :: "rbs_lexer \<Rightarrow> rbs_buffer \<Rightarrow> rbs_token \<Rightarrow> rbs_buffer option" where
  "comment_line lx b tok =
     (let hash_bytes = char_width (lx_encoding lx) [35];
          space_bytes = char_width (lx_encoding lx) [32];
          src = buffer (lx_string lx);
          comment_start = start (lx_string lx) + nat (byte_pos (r_start (tok_range tok))) + hash_bytes;
          comment_bytes = nat (rbs_token_bytes tok) - hash_bytes;
          c = src ! comment_start;
          (comment_start, comment_bytes) =
            (if c = 32 then (comment_start + space_bytes, comment_bytes - space_bytes)
             else (comment_start, comment_bytes))
      in case rbs_buffer_append_string b (segment src comment_start (comment_start + comment_bytes)) of
           None \<Rightarrow> None
         | Some b \<Rightarrow> rbs_buffer_append_cstr b [10])"

fun comment_lines :: "rbs_lexer \<Rightarrow> rbs_buffer \<Rightarrow> rbs_token list \<Rightarrow> rbs_buffer option" where
  "comment_lines lx b [] = Some b"
| "comment_lines lx b (tok # toks) =
     (case comment_line lx b tok of None \<Rightarrow> None | Some b \<Rightarrow> comment_lines lx b toks)"

record rbs_ast_comment =
  comment_location :: rbs_location_range
  comment_string :: rbs_string

definition rbs_ast_comment_new :: "rbs_location_range \<Rightarrow> rbs_string \<Rightarrow> rbs_ast_comment" where
  "rbs_ast_comment_new location string = \<lparr>comment_location = location, comment_string =
     string\<rparr>"

definition parse_comment_lines :: "rbs_parser \<Rightarrow> rbs_comment \<Rightarrow> rbs_ast_comment option" where
  "parse_comment_lines p com =
     map_option (\<lambda>b. rbs_ast_comment_new (RBS_RANGE_LEX2AST \<lparr>r_start = com_start com, r_end = com_end com\<rparr>)
         (rbs_buffer_to_string b))
       (comment_lines (lexer p) rbs_buffer_init (line_tokens com))"

text \<open>The comment that ends on the line before the subject (\<open>Some None\<close>: there is none).\<close>

definition rbs_parser_get_comment :: "rbs_parser \<Rightarrow> int \<Rightarrow> rbs_ast_comment option option" where
  "rbs_parser_get_comment p subject_line =
     (let comment_line = subject_line - 1 in
      case comment_get_comment (last_comment p) comment_line of
        Some i \<Rightarrow> map_option Some (parse_comment_lines p (last_comment p ! i))
      | None \<Rightarrow> Some None)"

definition getting_comment ::
  "rbs_parser \<Rightarrow> int \<Rightarrow> (rbs_ast_comment option \<Rightarrow> 'a outcome) \<Rightarrow> 'a outcome"
where
  "getting_comment p subject_line k =
     (case rbs_parser_get_comment p subject_line of None \<Rightarrow> Aborted | Some comment \<Rightarrow> k comment)"

subsection \<open>Advancing\<close>

text \<open>
  The loop of \<open>rbs_parser_advance\<close>: comments and trivia are not tokens of the window. Each
  round takes at least a byte, which bounds the fuel.
\<close>

fun advance_loop :: "nat \<Rightarrow> rbs_parser \<Rightarrow> rbs_parser option" where
  "advance_loop 0 p = None"
| "advance_loop (Suc fuel) p =
     (if tok_type (next_token3 p) = pEOF then Some p
      else case rbs_lexer_next_token (lexer p) of
        None \<Rightarrow> None
      | Some (tok, lx) \<Rightarrow>
          let p = p\<lparr>lexer := lx, next_token3 := tok\<rparr> in
          if tok_type tok = tCOMMENT then advance_loop fuel p
          else if tok_type tok = tLINECOMMENT then advance_loop fuel (insert_comment_line p tok)
          else if tok_type tok = tTRIVIA then advance_loop fuel p
          else Some p)"

definition rbs_parser_advance :: "rbs_parser \<Rightarrow> rbs_parser option" where
  "rbs_parser_advance p =
     advance_loop (nat (end_pos (lexer p) - byte_pos (lx_current (lexer p))) + 2)
       (p\<lparr>current_token := next_token p, next_token := next_token2 p, next_token2 := next_token3 p\<rparr>)"

definition advancing :: "rbs_parser \<Rightarrow> (rbs_parser \<Rightarrow> 'a outcome) \<Rightarrow> 'a outcome" where
  "advancing p k = (case rbs_parser_advance p of None \<Rightarrow> Out_of_fuel | Some p \<Rightarrow> k p)"

text \<open>\<open>ASSERT_TOKEN\<close> and \<open>ADVANCE_ASSERT\<close>.\<close>

definition assert_token :: "rbs_parser \<Rightarrow> RBSTokenType \<Rightarrow> (rbs_parser \<Rightarrow> 'a outcome) \<Rightarrow> 'a outcome" where
  "assert_token p expected_type k =
     (if tok_type (current_token p) \<noteq> expected_type then
        fail_with p (current_token p) True (''expected a token `'' @ rbs_token_type_str expected_type @ ''`'')
      else k p)"

definition advance_assert :: "rbs_parser \<Rightarrow> RBSTokenType \<Rightarrow> (rbs_parser \<Rightarrow> 'a outcome) \<Rightarrow> 'a outcome" where
  "advance_assert p expected_type k = advancing p (\<lambda>p. assert_token p expected_type k)"

text \<open>\<open>parser_advance_if\<close>: the continuation gets whether the parser advanced.\<close>

definition parser_advance_if :: "rbs_parser \<Rightarrow> RBSTokenType \<Rightarrow> (bool \<Rightarrow> rbs_parser \<Rightarrow> 'a outcome) \<Rightarrow> 'a outcome" where
  "parser_advance_if p type k =
     (if tok_type (next_token p) = type then advancing p (k True) else k False p)"

text \<open>\<open>parser_advance_no_gap\<close> sets an error but does not stop the caller.\<close>

definition parser_advance_no_gap :: "rbs_parser \<Rightarrow> (rbs_parser \<Rightarrow> 'a outcome) \<Rightarrow> 'a outcome" where
  "parser_advance_no_gap p k =
     (if byte_pos (r_end (tok_range (current_token p))) = byte_pos (r_start (tok_range (next_token p)))
      then advancing p k
      else k (rbs_parser_set_error p (next_token p) True ''unexpected token''))"

text \<open>
  A \<open>while (true)\<close> loop of a parsing function: a round ends the loop (\<open>Inr\<close>) or goes on with
  new values of the variables (\<open>Inl\<close>). Each round takes a token, so one more round than there
  are bytes left is never needed.
\<close>

fun parse_loop :: "nat \<Rightarrow> ('s \<Rightarrow> rbs_parser \<Rightarrow> ('s + 'b) outcome) \<Rightarrow> 's \<Rightarrow> rbs_parser \<Rightarrow> 'b outcome" where
  "parse_loop 0 body s p = Out_of_fuel"
| "parse_loop (Suc fuel) body s p =
     check_parse (body s p) (\<lambda>r p. case r of Inl s \<Rightarrow> parse_loop fuel body s p | Inr v \<Rightarrow> Done v p)"

text \<open>The bytes from the next token to the end of the source.\<close>

definition bytes_left :: "rbs_parser \<Rightarrow> nat" where
  "bytes_left p =
     nat (int (length (string_bytes (lx_string (lexer p)))) - byte_pos (r_start (tok_range (next_token p))))"

definition while_true :: "('s \<Rightarrow> rbs_parser \<Rightarrow> ('s + 'b) outcome) \<Rightarrow> 's \<Rightarrow> rbs_parser \<Rightarrow> 'b outcome" where
  "while_true body s p = parse_loop (Suc (bytes_left p)) body s p"

subsection \<open>Strings and symbols\<close>

definition rbs_location_range_current_token :: "rbs_parser \<Rightarrow> rbs_location_range" where
  "rbs_location_range_current_token p = RBS_RANGE_LEX2AST (tok_range (current_token p))"

definition rbs_parser_peek_current_token :: "rbs_parser \<Rightarrow> rbs_string" where
  "rbs_parser_peek_current_token p =
     (let rg = tok_range (current_token p);
          first = start (lx_string (lexer p)) + nat (byte_pos (r_start rg));
          len = nat (byte_pos (r_end rg) - byte_pos (r_start rg))
      in rbs_string_new (buffer (lx_string (lexer p))) first (first + len))"

text \<open>
  Interning into the pool of the parser; \<open>calloc\<close> succeeds. The address of a string in the
  pool, which only matters for strings the pool owns, is its offset in its buffer.
\<close>

definition interning ::
  "rbs_parser \<Rightarrow> rbs_constant \<Rightarrow> (32 word \<Rightarrow> rbs_parser \<Rightarrow> 'a outcome) \<Rightarrow> 'a outcome"
where
  "interning p c k =
     (case rbs_constant_pool_insert_shared (\<lambda>_. True) (constant_pool p) c of
        Inl _ \<Rightarrow> Aborted
      | Inr (constant_id, pool) \<Rightarrow> k constant_id (p\<lparr>constant_pool := pool\<rparr>))"

definition rbs_constant_pool_insert_string ::
  "rbs_parser \<Rightarrow> rbs_string \<Rightarrow> (32 word \<Rightarrow> rbs_parser \<Rightarrow> 'a outcome) \<Rightarrow> 'a outcome"
where
  "rbs_constant_pool_insert_string p s k = interning p \<lparr>c_start = start s, c_bytes = string_bytes s\<rparr> k"

text \<open>The bytes of the source from a position on, \<open>len\<close> of them.\<close>

definition source_constant :: "rbs_parser \<Rightarrow> nat \<Rightarrow> nat \<Rightarrow> rbs_constant" where
  "source_constant p first len =
     \<lparr>c_start = first, c_bytes = segment (buffer (lx_string (lexer p))) first (first + len)\<rparr>"

definition INTERN_TOKEN ::
  "rbs_parser \<Rightarrow> rbs_token \<Rightarrow> (32 word \<Rightarrow> rbs_parser \<Rightarrow> 'a outcome) \<Rightarrow> 'a outcome"
where
  "INTERN_TOKEN p tok k =
     interning p (source_constant p (rbs_peek_token (lexer p) tok) (nat (rbs_token_bytes tok))) k"

definition intern_token_start_end ::
  "rbs_parser \<Rightarrow> rbs_token \<Rightarrow> rbs_token \<Rightarrow> (32 word \<Rightarrow> rbs_parser \<Rightarrow> 'a outcome) \<Rightarrow> 'a outcome"
where
  "intern_token_start_end p start_token end_token k =
     interning p (source_constant p (rbs_peek_token (lexer p) start_token)
       (nat (byte_pos (r_end (tok_range end_token)) - byte_pos (r_start (tok_range start_token))))) k"

subsection \<open>Type variables\<close>

definition alloc_empty_table :: id_table where
  "alloc_empty_table = \<lparr>table_size = 10, table_ids = []\<rparr>"

definition alloc_reset_table :: id_table where
  "alloc_reset_table = \<lparr>table_size = 0, table_ids = []\<rparr>"

definition RESET_TABLE_P :: "id_table \<Rightarrow> bool" where
  "RESET_TABLE_P table \<longleftrightarrow> table_size table = 0"

definition rbs_parser_push_typevar_table :: "rbs_parser \<Rightarrow> bool \<Rightarrow> rbs_parser" where
  "rbs_parser_push_typevar_table p reset =
     (let p = (if reset then p\<lparr>vars := alloc_reset_table # vars p\<rparr> else p)
      in p\<lparr>vars := alloc_empty_table # vars p\<rparr>)"

text \<open>\<open>rbs_parser_insert_typevar\<close> reads the first table, so there must be one.\<close>

definition rbs_parser_insert_typevar :: "rbs_parser \<Rightarrow> 32 word \<Rightarrow> unit outcome" where
  "rbs_parser_insert_typevar p constant_id =
     (case vars p of
        [] \<Rightarrow> Aborted
      | table # rest \<Rightarrow>
          if RESET_TABLE_P table then fail_with p (current_token p) False ''Cannot insert to reset table''
          else
            let table = (if table_size table = length (table_ids table)
                         then table\<lparr>table_size := table_size table + 10\<rparr> else table)
            in Done () (p\<lparr>vars := table\<lparr>table_ids := table_ids table @ [constant_id]\<rparr> # rest\<rparr>))"

definition parser_pop_typevar_table :: "rbs_parser \<Rightarrow> unit outcome" where
  "parser_pop_typevar_table p =
     (case vars p of
        [] \<Rightarrow> fail_with p (current_token p) False ''Cannot pop empty table''
      | _ # rest \<Rightarrow>
          (case rest of
             [] \<Rightarrow> Done () (p\<lparr>vars := rest\<rparr>)
           | table # rest' \<Rightarrow> if RESET_TABLE_P table then Done () (p\<lparr>vars := rest'\<rparr>) else Done () (p\<lparr>vars := rest\<rparr>)))"

fun typevar_member :: "id_table list \<Rightarrow> 32 word \<Rightarrow> bool" where
  "typevar_member [] constant_id = False"
| "typevar_member (table # rest) constant_id =
     (if RESET_TABLE_P table then False
      else if constant_id \<in> set (table_ids table) then True else typevar_member rest constant_id)"

definition parser_typevar_member :: "rbs_parser \<Rightarrow> 32 word \<Rightarrow> bool" where
  "parser_typevar_member p constant_id = typevar_member (vars p) constant_id"

subsection \<open>A new parser\<close>

definition rbs_parser_new_with_options ::
  "rbs_string \<Rightarrow> rbs_encoding \<Rightarrow> int \<Rightarrow> int \<Rightarrow> bool \<Rightarrow> unit outcome option"
where
  "rbs_parser_new_with_options string encoding first_pos last_pos forwarding =
     (case rbs_lexer_new string encoding first_pos last_pos of
        None \<Rightarrow> None
      | Some lx \<Rightarrow> Some (
          case rbs_constant_pool_init (\<lambda>_. True) 2 of
            None \<Rightarrow> Aborted
          | Some pool \<Rightarrow>
              advancing \<lparr>lexer = lx, current_token = NullToken, next_token = NullToken,
                 next_token2 = NullToken, next_token3 = NullToken, vars = [], last_comment = [],
                 constant_pool = pool, parser_error = None, enable_forwarding_params = forwarding\<rparr>
                (\<lambda>p. advancing p (\<lambda>p. advancing p (\<lambda>p. Done () p)))))"

definition rbs_parser_new :: "rbs_string \<Rightarrow> rbs_encoding \<Rightarrow> int \<Rightarrow> int \<Rightarrow> unit outcome option" where
  "rbs_parser_new string encoding first_pos last_pos =
     rbs_parser_new_with_options string encoding first_pos last_pos False"

end
