(* ===== verification/TypeParser.thy ===== *)
theory TypeParser
  imports ParserState
begin

text \<open>
  The parser of types: the functions of \<open>src/parser.c\<close> from \<open>parse_type_name\<close> to
  \<open>rbs_parse_type\<close>. All recursion of the C code goes through \<open>parse_simple\<close>, so the functions
  take \<open>parse_simple\<close> as an argument, and \<open>parse_simple\<close> is defined last with fuel: it reads a
  token before it calls itself, so the bytes that are left are enough (\<open>rbs_parse_type\<close>). The
  Boolean arguments are \<open>void_allowed\<close>, \<open>self_allowed\<close> and \<open>classish_allowed\<close>.
\<close>

type_synonym type_parser = "bool \<Rightarrow> bool \<Rightarrow> bool \<Rightarrow> rbs_parser \<Rightarrow> rbs_node outcome"

abbreviation next_type :: "rbs_parser \<Rightarrow> RBSTokenType" where "next_type p \<equiv> tok_type (next_token p)"
abbreviation next_type2 :: "rbs_parser \<Rightarrow> RBSTokenType" where "next_type2 p \<equiv> tok_type (next_token2 p)"
abbreviation current_type :: "rbs_parser \<Rightarrow> RBSTokenType" where "current_type p \<equiv> tok_type (current_token p)"
abbreviation current_start :: "rbs_parser \<Rightarrow> rbs_position" where "current_start p \<equiv> r_start (tok_range (current_token p))"
abbreviation current_end :: "rbs_parser \<Rightarrow> rbs_position" where "current_end p \<equiv> r_end (tok_range (current_token p))"
abbreviation next_start :: "rbs_parser \<Rightarrow> rbs_position" where "next_start p \<equiv> r_start (tok_range (next_token p))"

text \<open>The location from one position to another.\<close>

definition location_from :: "rbs_position \<Rightarrow> rbs_position \<Rightarrow> rbs_location_range" where
  "location_from first till = RBS_RANGE_LEX2AST \<lparr>r_start = first, r_end = till\<rparr>"

text \<open>Two tokens with no space between them.\<close>

definition adjacent :: "rbs_token \<Rightarrow> rbs_token \<Rightarrow> bool" where
  "adjacent a b \<longleftrightarrow> byte_pos (r_end (tok_range a)) = byte_pos (r_start (tok_range b))"

subsection \<open>Token classes\<close>

definition KEYWORD_CASES :: "RBSTokenType list" where
  "KEYWORD_CASES =
     [kBOOL, kBOT, kCLASS, kFALSE, kINSTANCE, kINTERFACE, kNIL, kSELF, kSINGLETON, kTOP, kTRUE, kVOID, kTYPE,
      kUNCHECKED, kIN, kOUT, kEND, kDEF, kINCLUDE, kEXTEND, kPREPEND, kALIAS, kMODULE, kATTRREADER,
      kATTRWRITER, kATTRACCESSOR, kPUBLIC, kPRIVATE, kUNTYPED, kUSE, kAS, kTODO, kSKIP, kRETURN]"

definition is_keyword_token :: "RBSTokenType \<Rightarrow> bool" where
  "is_keyword_token type \<longleftrightarrow>
     type \<in> set ([tLIDENT, tUIDENT, tULIDENT, tULLIDENT, tNONASCIIIDENT, tQIDENT, tBANGIDENT] @ KEYWORD_CASES)"

definition is_keyword :: "rbs_parser \<Rightarrow> bool" where
  "is_keyword p \<longleftrightarrow>
     is_keyword_token (next_type p) \<and>
     (next_type2 p = pCOLON \<and> adjacent (next_token p) (next_token2 p) \<or>
      next_type2 p = pQUESTION \<and> tok_type (next_token3 p) = pCOLON \<and>
        adjacent (next_token p) (next_token2 p) \<and> adjacent (next_token2 p) (next_token3 p))"

subsection \<open>Type names\<close>

text \<open>A set of kinds is a bit mask in C.\<close>

datatype TypeNameKind = CLASS_NAME | INTERFACE_NAME | ALIAS_NAME

definition type_name_path_round ::
  "rbs_ast_symbol list \<Rightarrow> rbs_parser \<Rightarrow> (rbs_ast_symbol list + rbs_ast_symbol list) outcome"
where
  "type_name_path_round path p =
     (if current_type p = tUIDENT \<and> next_type p = pCOLON2 \<and> adjacent (current_token p) (next_token p) \<and>
         adjacent (next_token p) (next_token2 p)
      then INTERN_TOKEN p (current_token p) (\<lambda>symbol_value p'.
        advancing p' (\<lambda>q. advancing q (\<lambda>q.
          Done (Inl (rbs_node_list_append path
            (rbs_ast_symbol_new (RBS_RANGE_LEX2AST (tok_range (next_token p))) symbol_value))) q)))
      else Done (Inr path) p)"

definition type_name_error :: "TypeNameKind set \<Rightarrow> string" where
  "type_name_error kind =
     ''expected one of '' @
     (if CLASS_NAME \<in> kind then ''class/module/constant name''
      else if INTERFACE_NAME \<in> kind then ''interface name'' else ''alias name'')"

definition type_name_end ::
  "TypeNameKind set \<Rightarrow> rbs_position \<Rightarrow> rbs_namespace \<Rightarrow> rbs_parser \<Rightarrow> (rbs_range \<times> rbs_type_name) outcome"
where
  "type_name_end kind first ns p =
     (if current_type p \<in> {tLIDENT, kSKIP, kRETURN} \<and> ALIAS_NAME \<in> kind \<or>
         current_type p = tULIDENT \<and> INTERFACE_NAME \<in> kind \<or>
         current_type p = tUIDENT \<and> CLASS_NAME \<in> kind
      then
        let rg = \<lparr>r_start = first, r_end = current_end p\<rparr>;
            symbol_range = rbs_location_range_current_token p
        in INTERN_TOKEN p (current_token p) (\<lambda>name p.
             Done (rg, rbs_type_name_new (RBS_RANGE_LEX2AST rg) ns (rbs_ast_symbol_new symbol_range name)) p)
      else fail_with p (current_token p) True (type_name_error kind))"

definition type_name_rest ::
  "TypeNameKind set \<Rightarrow> rbs_position \<Rightarrow> bool \<Rightarrow> rbs_parser \<Rightarrow> (rbs_range \<times> rbs_type_name) outcome"
where
  "type_name_rest kind first absolute p =
     check_parse (while_true type_name_path_round rbs_node_list_new p) (\<lambda>path p.
       type_name_end kind first (rbs_namespace_new (location_from first (current_end p)) path absolute) p)"

text \<open>\<open>kind\<close> is never empty, so the assertion on \<open>ids\<close> holds.\<close>

definition parse_type_name :: "TypeNameKind set \<Rightarrow> rbs_parser \<Rightarrow> (rbs_range \<times> rbs_type_name) outcome" where
  "parse_type_name kind p =
     (let first = current_start p in
      if current_type p = pCOLON2 then parser_advance_no_gap p (type_name_rest kind first True)
      else type_name_rest kind first False p)"

subsection \<open>Optional, intersection and union types\<close>

definition parse_optional :: "type_parser \<Rightarrow> type_parser" where
  "parse_optional simple void_allowed self_allowed classish_allowed p =
     (let rg_start = next_start p in
      check_parse (simple void_allowed self_allowed classish_allowed p) (\<lambda>type p.
        if next_type p = pQUESTION then
          if void_allowed \<and> is_void type then
            fail_with p (current_token p) True ''void type is not allowed here''
          else advancing p (\<lambda>p. Done (rbs_types_optional_new (location_from rg_start (current_end p)) type) p)
        else Done type p))"

definition intersection_round ::
  "type_parser \<Rightarrow> bool \<Rightarrow> bool \<Rightarrow> bool \<Rightarrow> rbs_node \<Rightarrow> rbs_node list \<Rightarrow> rbs_parser \<Rightarrow> (rbs_node list + rbs_node list) outcome"
where
  "intersection_round simple void_allowed self_allowed classish_allowed first types p =
     (if next_type p = pAMP then
        if void_allowed \<and> is_void first then
          fail_with p (current_token p) True ''void type is not allowed here''
        else advancing p (\<lambda>p.
          check_parse (parse_optional simple False self_allowed classish_allowed p) (\<lambda>type p.
            Done (Inl (rbs_node_list_append types type)) p))
      else Done (Inr types) p)"

definition parse_intersection :: "type_parser \<Rightarrow> type_parser" where
  "parse_intersection simple void_allowed self_allowed classish_allowed p =
     (let rg_start = next_start p in
      check_parse (parse_optional simple void_allowed self_allowed classish_allowed p) (\<lambda>optional p.
      check_parse (while_true (intersection_round simple void_allowed self_allowed classish_allowed optional)
          (rbs_node_list_append rbs_node_list_new optional) p) (\<lambda>types p.
        Done (if 1 < length types
              then rbs_types_intersection_new (location_from rg_start (current_end p)) types
              else optional) p)))"

definition union_round ::
  "type_parser \<Rightarrow> bool \<Rightarrow> bool \<Rightarrow> bool \<Rightarrow> rbs_node \<Rightarrow> rbs_node list \<Rightarrow> rbs_parser \<Rightarrow> (rbs_node list + rbs_node list) outcome"
where
  "union_round simple void_allowed self_allowed classish_allowed first types p =
     (if next_type p = pBAR then
        if void_allowed \<and> is_void first then
          fail_with p (current_token p) True ''void type is not allowed here''
        else advancing p (\<lambda>p.
          check_parse (parse_intersection simple False self_allowed classish_allowed p) (\<lambda>type p.
            Done (Inl (rbs_node_list_append types type)) p))
      else Done (Inr types) p)"

definition parse_union :: "type_parser \<Rightarrow> type_parser" where
  "parse_union simple void_allowed self_allowed classish_allowed p =
     (let rg_start = next_start p in
      check_parse (parse_intersection simple void_allowed self_allowed classish_allowed p) (\<lambda>intersection p.
      check_parse (while_true (union_round simple void_allowed self_allowed classish_allowed intersection)
          (rbs_node_list_append rbs_node_list_new intersection) p) (\<lambda>types p.
        Done (if 1 < length types
              then rbs_types_union_new (location_from rg_start (current_end p)) types
              else intersection) p)))"

subsection \<open>Lists of types\<close>

definition type_list_round ::
  "type_parser \<Rightarrow> RBSTokenType \<Rightarrow> bool \<Rightarrow> bool \<Rightarrow> bool \<Rightarrow> rbs_node list \<Rightarrow> rbs_parser \<Rightarrow> (rbs_node list + rbs_node list) outcome"
where
  "type_list_round simple eol void_allowed self_allowed classish_allowed types p =
     check_parse (parse_union simple void_allowed self_allowed classish_allowed p) (\<lambda>type p.
       let types = rbs_node_list_append types type in
       if next_type p = pCOMMA then
         advancing p (\<lambda>p. if next_type p = eol then Done (Inr types) p else Done (Inl types) p)
       else if next_type p = eol then Done (Inr types) p
       else fail_with p (next_token p) True ''comma delimited type list is expected'')"

definition parse_type_list ::
  "type_parser \<Rightarrow> RBSTokenType \<Rightarrow> rbs_node list \<Rightarrow> bool \<Rightarrow> bool \<Rightarrow> bool \<Rightarrow> rbs_parser \<Rightarrow> rbs_node list outcome"
where
  "parse_type_list simple eol types void_allowed self_allowed classish_allowed p =
     while_true (type_list_round simple eol void_allowed self_allowed classish_allowed) types p"

text \<open>The variant that also collects the commas and refuses a trailing one before \<open>]\<close>.\<close>

definition type_list_with_commas_round ::
  "type_parser \<Rightarrow> RBSTokenType \<Rightarrow> bool \<Rightarrow> bool \<Rightarrow> bool \<Rightarrow> rbs_node list \<times> rbs_location_range list \<Rightarrow> rbs_parser \<Rightarrow>
   ((rbs_node list \<times> rbs_location_range list) + (rbs_node list \<times> rbs_location_range list)) outcome"
where
  "type_list_with_commas_round simple eol void_allowed self_allowed classish_allowed s p =
     check_parse (parse_union simple void_allowed self_allowed classish_allowed p) (\<lambda>type p.
       let types = rbs_node_list_append (fst s) type; commas = snd s in
       if next_type p = pCOMMA then
         let commas = rbs_location_range_list_append commas (RBS_RANGE_LEX2AST (tok_range (next_token p))) in
         advancing p (\<lambda>p.
           if next_type p = eol then
             if eol = pRBRACKET then fail_with p (next_token p) True ''unexpected trailing comma''
             else Done (Inr (types, commas)) p
           else Done (Inl (types, commas)) p)
       else if next_type p = eol then Done (Inr (types, commas)) p
       else fail_with p (next_token p) True ''comma delimited type list is expected'')"

definition parse_type_list_with_commas ::
  "type_parser \<Rightarrow> RBSTokenType \<Rightarrow> rbs_node list \<Rightarrow> rbs_location_range list \<Rightarrow> bool \<Rightarrow> bool \<Rightarrow> bool \<Rightarrow> rbs_parser \<Rightarrow>
   (rbs_node list \<times> rbs_location_range list) outcome"
where
  "parse_type_list_with_commas simple eol types comma_locations void_allowed self_allowed classish_allowed p =
     while_true (type_list_with_commas_round simple eol void_allowed self_allowed classish_allowed)
       (types, comma_locations) p"

subsection \<open>Parameters\<close>

definition parse_function_param :: "type_parser \<Rightarrow> bool \<Rightarrow> bool \<Rightarrow> rbs_parser \<Rightarrow> rbs_node outcome" where
  "parse_function_param simple self_allowed classish_allowed p =
     (let type_start = next_start p in
      check_parse (parse_union simple False self_allowed classish_allowed p) (\<lambda>type p.
        if next_type p = pCOMMA \<or> next_type p = pRPAREN then
          Done (rbs_types_function_param_new (location_from type_start (current_end p)) type None) p
        else
          let name_range = tok_range (next_token p) in
          advancing p (\<lambda>p.
            let param_range = location_from type_start (r_end name_range) in
            if \<not> is_keyword_token (current_type p) then
              fail_with p (current_token p) True ''unexpected token for function parameter name''
            else
              let unquoted_str = rbs_unquote_string (rbs_parser_peek_current_token p) (lx_encoding (lexer p));
                  symbol_range = rbs_location_range_current_token p
              in rbs_constant_pool_insert_string p unquoted_str (\<lambda>constant_id p.
                   Done (set_name_range (RBS_RANGE_LEX2AST name_range)
                     (rbs_types_function_param_new param_range type
                       (Some (rbs_ast_symbol_new symbol_range constant_id)))) p))))"

definition parse_keyword_key :: "rbs_parser \<Rightarrow> rbs_ast_symbol outcome" where
  "parse_keyword_key p =
     advancing p (\<lambda>p.
       let symbol_range = tok_range (current_token p) in
       if next_type p = pQUESTION then
         let symbol_range = symbol_range\<lparr>r_end := r_end (tok_range (next_token p))\<rparr> in
         intern_token_start_end p (current_token p) (next_token p) (\<lambda>constant_id p.
           advancing p (\<lambda>p. Done (rbs_ast_symbol_new (RBS_RANGE_LEX2AST symbol_range) constant_id) p))
       else
         INTERN_TOKEN p (current_token p) (\<lambda>constant_id p.
           Done (rbs_ast_symbol_new (RBS_RANGE_LEX2AST symbol_range) constant_id) p))"

text \<open>The output is the two hashes, \<open>keywords\<close> and \<open>memo\<close>.\<close>

definition parse_keyword ::
  "type_parser \<Rightarrow> rbs_hash \<Rightarrow> rbs_hash \<Rightarrow> bool \<Rightarrow> bool \<Rightarrow> rbs_parser \<Rightarrow> (rbs_hash \<times> rbs_hash) outcome"
where
  "parse_keyword simple keywords memo self_allowed classish_allowed p =
     check_parse (parse_keyword_key p) (\<lambda>key p.
       if rbs_hash_find memo (Ast_Symbol key) \<noteq> None then
         fail_with p (current_token p) True ''duplicated keyword argument''
       else
         let memo = rbs_hash_set memo (Ast_Symbol key) (rbs_ast_bool_new (rbs_location_range_current_token p) True) in
         advance_assert p pCOLON (\<lambda>p.
           check_parse (parse_function_param simple self_allowed classish_allowed p) (\<lambda>param p.
             Done (rbs_hash_set keywords (Ast_Symbol key) param, memo) p)))"

text \<open>\<open>required_positionals\<close> is \<open>NULL\<close> for untyped parameters.\<close>

record method_params =
  required_positionals :: "rbs_node list option"
  optional_positionals :: "rbs_node list"
  rest_positionals :: "rbs_node option"
  trailing_positionals :: "rbs_node list"
  required_keywords :: rbs_hash
  optional_keywords :: rbs_hash
  rest_keywords :: "rbs_node option"
  params_forwarding :: "rbs_node option"

definition rbs_is_untyped_params :: "method_params \<Rightarrow> bool" where
  "rbs_is_untyped_params params \<longleftrightarrow> required_positionals params = None"

definition initialize_method_params :: method_params where
  "initialize_method_params =
     \<lparr>required_positionals = Some rbs_node_list_new, optional_positionals = rbs_node_list_new,
      rest_positionals = None, trailing_positionals = rbs_node_list_new, required_keywords = rbs_hash_new,
      optional_keywords = rbs_hash_new, rest_keywords = None, params_forwarding = None\<rparr>"

text \<open>
  The labels of \<open>parse_params\<close>: a loop ends with the label it jumps to. The loops work on the
  parameters and \<open>memo\<close>, the keywords seen.
\<close>

datatype params_label = PARSE_OPTIONAL_PARAMS | PARSE_REST_PARAM | PARSE_TRAILING_PARAMS | PARSE_KEYWORDS | EOP

type_synonym params_state = "method_params \<times> rbs_hash"

text \<open>\<open>if (!parser_advance_if(parser, pCOMMA)) { goto EOP; }\<close> at the end of a round.\<close>

definition comma_or_eop ::
  "params_state \<Rightarrow> rbs_parser \<Rightarrow> (params_state + (params_label \<times> params_state)) outcome"
where
  "comma_or_eop s p =
     parser_advance_if p pCOMMA (\<lambda>advanced p. Done (if advanced then Inl s else Inr (EOP, s)) p)"

definition required_params_round ::
  "type_parser \<Rightarrow> bool \<Rightarrow> bool \<Rightarrow> bool \<Rightarrow> params_state \<Rightarrow> rbs_parser \<Rightarrow> (params_state + (params_label \<times> params_state)) outcome"
where
  "required_params_round simple forwarding_allowed self_allowed classish_allowed s p =
     (if next_type p = pQUESTION then Done (Inr (PARSE_OPTIONAL_PARAMS, s)) p
      else if next_type p = pSTAR then Done (Inr (PARSE_REST_PARAM, s)) p
      else if next_type p = pSTAR2 then Done (Inr (PARSE_KEYWORDS, s)) p
      else if next_type p = pRPAREN then Done (Inr (EOP, s)) p
      else if next_type p = pDOT3 then
        if \<not> forwarding_allowed then
          fail_with p (next_token p) True ''forwarding parameter is not allowed in this context''
        else if \<not> enable_forwarding_params p then
          fail_with p (next_token p) True ''forwarding parameter syntax is not enabled''
        else advancing p (\<lambda>p.
          Done (Inr (EOP, (fst s)\<lparr>params_forwarding :=
              Some (rbs_types_function_forwarding_param_new (rbs_location_range_current_token p))\<rparr>, snd s)) p)
      else if is_keyword p then Done (Inr (PARSE_KEYWORDS, s)) p
      else check_parse (parse_function_param simple self_allowed classish_allowed p) (\<lambda>param p.
        comma_or_eop ((fst s)\<lparr>required_positionals :=
            map_option (\<lambda>xs. rbs_node_list_append xs param) (required_positionals (fst s))\<rparr>, snd s) p))"

definition optional_params_round ::
  "type_parser \<Rightarrow> bool \<Rightarrow> bool \<Rightarrow> params_state \<Rightarrow> rbs_parser \<Rightarrow> (params_state + (params_label \<times> params_state)) outcome"
where
  "optional_params_round simple self_allowed classish_allowed s p =
     (if next_type p = pQUESTION then
        advancing p (\<lambda>p.
          if is_keyword p then
            check_parse (parse_keyword simple (optional_keywords (fst s)) (snd s) self_allowed classish_allowed p)
              (\<lambda>(keywords, memo) p.
                parser_advance_if p pCOMMA (\<lambda>_ p.
                  Done (Inr (PARSE_KEYWORDS, (fst s)\<lparr>optional_keywords := keywords\<rparr>, memo)) p))
          else
            check_parse (parse_function_param simple self_allowed classish_allowed p) (\<lambda>param p.
              comma_or_eop ((fst s)\<lparr>optional_positionals :=
                rbs_node_list_append (optional_positionals (fst s)) param\<rparr>, snd s) p))
      else Done (Inr (PARSE_REST_PARAM, s)) p)"

definition parse_rest_param ::
  "type_parser \<Rightarrow> bool \<Rightarrow> bool \<Rightarrow> params_state \<Rightarrow> rbs_parser \<Rightarrow> (params_label \<times> params_state) outcome"
where
  "parse_rest_param simple self_allowed classish_allowed s p =
     (if next_type p = pSTAR then
        advancing p (\<lambda>p.
          check_parse (parse_function_param simple self_allowed classish_allowed p) (\<lambda>param p.
            parser_advance_if p pCOMMA (\<lambda>advanced p.
              Done (if advanced then PARSE_TRAILING_PARAMS else EOP,
                (fst s)\<lparr>rest_positionals := Some param\<rparr>, snd s) p)))
      else Done (PARSE_TRAILING_PARAMS, s) p)"

definition trailing_params_round ::
  "type_parser \<Rightarrow> bool \<Rightarrow> bool \<Rightarrow> params_state \<Rightarrow> rbs_parser \<Rightarrow> (params_state + (params_label \<times> params_state)) outcome"
where
  "trailing_params_round simple self_allowed classish_allowed s p =
     (if next_type p = pQUESTION then Done (Inr (PARSE_KEYWORDS, s)) p
      else if next_type p = pSTAR then Done (Inr (EOP, s)) p
      else if next_type p = pSTAR2 then Done (Inr (PARSE_KEYWORDS, s)) p
      else if next_type p = pRPAREN then Done (Inr (EOP, s)) p
      else if is_keyword p then Done (Inr (PARSE_KEYWORDS, s)) p
      else check_parse (parse_function_param simple self_allowed classish_allowed p) (\<lambda>param p.
        comma_or_eop ((fst s)\<lparr>trailing_positionals :=
          rbs_node_list_append (trailing_positionals (fst s)) param\<rparr>, snd s) p))"

definition keywords_round ::
  "type_parser \<Rightarrow> bool \<Rightarrow> bool \<Rightarrow> params_state \<Rightarrow> rbs_parser \<Rightarrow> (params_state + (params_label \<times> params_state)) outcome"
where
  "keywords_round simple self_allowed classish_allowed s p =
     (if next_type p = pQUESTION then
        advancing p (\<lambda>p.
          if is_keyword p then
            check_parse (parse_keyword simple (optional_keywords (fst s)) (snd s) self_allowed classish_allowed p)
              (\<lambda>(keywords, memo) p. comma_or_eop ((fst s)\<lparr>optional_keywords := keywords\<rparr>, memo) p)
          else fail_with p (next_token p) True ''optional keyword argument type is expected'')
      else if next_type p = pSTAR2 then
        advancing p (\<lambda>p.
          check_parse (parse_function_param simple self_allowed classish_allowed p) (\<lambda>param p.
            comma_or_eop ((fst s)\<lparr>rest_keywords := Some param\<rparr>, snd s) p))
      else if next_type p \<in> set ([tUIDENT, tLIDENT, tQIDENT, tULIDENT, tULLIDENT, tNONASCIIIDENT, tBANGIDENT] @ KEYWORD_CASES) then
        if is_keyword p then
          check_parse (parse_keyword simple (required_keywords (fst s)) (snd s) self_allowed classish_allowed p)
            (\<lambda>(keywords, memo) p. comma_or_eop ((fst s)\<lparr>required_keywords := keywords\<rparr>, memo) p)
        else fail_with p (next_token p) True ''required keyword argument type is expected''
      else Done (Inr (EOP, s)) p)"

text \<open>The code after each label; each goes on to the labels that follow it.\<close>

definition params_from_keywords ::
  "type_parser \<Rightarrow> bool \<Rightarrow> bool \<Rightarrow> params_label \<times> params_state \<Rightarrow> rbs_parser \<Rightarrow> method_params outcome"
where
  "params_from_keywords simple self_allowed classish_allowed ls p =
     check_parse (if fst ls = PARSE_KEYWORDS
                  then while_true (keywords_round simple self_allowed classish_allowed) (snd ls) p
                  else Done ls p) (\<lambda>(label, params, memo) p.
       if next_type p \<noteq> pRPAREN then
         fail_with p (next_token p) True ''unexpected token for method type parameters''
       else Done params p)"

definition params_from_trailing ::
  "type_parser \<Rightarrow> bool \<Rightarrow> bool \<Rightarrow> params_label \<times> params_state \<Rightarrow> rbs_parser \<Rightarrow> method_params outcome"
where
  "params_from_trailing simple self_allowed classish_allowed ls p =
     check_parse (if fst ls = PARSE_TRAILING_PARAMS
                  then while_true (trailing_params_round simple self_allowed classish_allowed) (snd ls) p
                  else Done ls p) (params_from_keywords simple self_allowed classish_allowed)"

definition params_from_rest ::
  "type_parser \<Rightarrow> bool \<Rightarrow> bool \<Rightarrow> params_label \<times> params_state \<Rightarrow> rbs_parser \<Rightarrow> method_params outcome"
where
  "params_from_rest simple self_allowed classish_allowed ls p =
     check_parse (if fst ls = PARSE_REST_PARAM then parse_rest_param simple self_allowed classish_allowed (snd ls) p
                  else Done ls p) (params_from_trailing simple self_allowed classish_allowed)"

definition params_from_optional ::
  "type_parser \<Rightarrow> bool \<Rightarrow> bool \<Rightarrow> params_label \<times> params_state \<Rightarrow> rbs_parser \<Rightarrow> method_params outcome"
where
  "params_from_optional simple self_allowed classish_allowed ls p =
     check_parse (if fst ls = PARSE_OPTIONAL_PARAMS
                  then while_true (optional_params_round simple self_allowed classish_allowed) (snd ls) p
                  else Done ls p) (params_from_rest simple self_allowed classish_allowed)"

definition parse_params ::
  "type_parser \<Rightarrow> method_params \<Rightarrow> bool \<Rightarrow> bool \<Rightarrow> bool \<Rightarrow> rbs_parser \<Rightarrow> method_params outcome"
where
  "parse_params simple params forwarding_allowed self_allowed classish_allowed p =
     (if next_type p = pQUESTION \<and> next_type2 p = pRPAREN then
        advancing p (\<lambda>p. Done (params\<lparr>required_positionals := None\<rparr>) p)
      else if next_type p = pRPAREN then Done params p
      else
        check_parse (while_true (required_params_round simple forwarding_allowed self_allowed classish_allowed)
            (params, rbs_hash_new) p) (params_from_optional simple self_allowed classish_allowed))"

subsection \<open>Functions\<close>

definition parse_self_type_binding :: "type_parser \<Rightarrow> bool \<Rightarrow> bool \<Rightarrow> rbs_parser \<Rightarrow> rbs_node option outcome" where
  "parse_self_type_binding simple self_allowed classish_allowed p =
     (if next_type p = pLBRACKET then
        advancing p (\<lambda>p. advance_assert p kSELF (\<lambda>p. advance_assert p pCOLON (\<lambda>p.
          check_parse (parse_union simple False self_allowed classish_allowed p) (\<lambda>type p.
            advance_assert p pRBRACKET (\<lambda>p. Done (Some type) p)))))
      else Done None p)"

text \<open>The parameters of a function or a block, with their parentheses, if there are any.\<close>

definition parse_params_in_parens :: "type_parser \<Rightarrow> bool \<Rightarrow> bool \<Rightarrow> bool \<Rightarrow> rbs_parser \<Rightarrow> method_params outcome" where
  "parse_params_in_parens simple forwarding_allowed self_allowed classish_allowed p =
     (if next_type p = pLPAREN then
        advancing p (\<lambda>p.
          check_parse (parse_params simple initialize_method_params forwarding_allowed self_allowed classish_allowed p)
            (\<lambda>params p. advance_assert p pRPAREN (\<lambda>p. Done params p)))
      else Done initialize_method_params p)"

definition function_of_params :: "rbs_location_range \<Rightarrow> method_params \<Rightarrow> rbs_node \<Rightarrow> rbs_node" where
  "function_of_params rg params type =
     (case required_positionals params of
        None \<Rightarrow> rbs_types_untyped_function_new rg type
      | Some required \<Rightarrow>
          rbs_types_function_new rg required (optional_positionals params) (rest_positionals params)
            (trailing_positionals params) (required_keywords params) (optional_keywords params)
            (rest_keywords params) (params_forwarding params) type)"

text \<open>From the opening brace of a block.\<close>

definition parse_block ::
  "type_parser \<Rightarrow> bool \<Rightarrow> rbs_position \<Rightarrow> bool \<Rightarrow> bool \<Rightarrow> rbs_parser \<Rightarrow> rbs_node option outcome"
where
  "parse_block simple required block_start self_allowed classish_allowed p =
     advancing p (\<lambda>p.
       check_parse (parse_params_in_parens simple False self_allowed classish_allowed p) (\<lambda>block_params p.
       check_parse (parse_self_type_binding simple self_allowed classish_allowed p) (\<lambda>self_type p.
       advance_assert p pARROW (\<lambda>p.
       check_parse (parse_optional simple True self_allowed classish_allowed p) (\<lambda>block_return_type p.
       advance_assert p pRBRACE (\<lambda>p.
         let block_range = location_from block_start (current_end p);
             block_function = function_of_params block_range block_params block_return_type
         in Done (Some (rbs_types_block_new block_range block_function required self_type)) p))))))"

definition parse_optional_block :: "type_parser \<Rightarrow> bool \<Rightarrow> bool \<Rightarrow> rbs_parser \<Rightarrow> rbs_node option outcome" where
  "parse_optional_block simple self_allowed classish_allowed p =
     (if next_type p = pQUESTION \<and> next_type2 p = pLBRACE then
        advancing p (parse_block simple False (next_start p) self_allowed classish_allowed)
      else if next_type p = pLBRACE then parse_block simple True (next_start p) self_allowed classish_allowed p
      else Done None p)"

text \<open>The result: the function, the block and the self type.\<close>

definition parse_function ::
  "type_parser \<Rightarrow> bool \<Rightarrow> bool \<Rightarrow> bool \<Rightarrow> bool \<Rightarrow> bool \<Rightarrow> rbs_parser \<Rightarrow> (rbs_node \<times> rbs_node option \<times> rbs_node option) outcome"
where
  "parse_function simple accept_type_binding block_allowed forwarding_allowed self_allowed classish_allowed p =
     (let function_start = current_start p in
      check_parse (parse_params_in_parens simple forwarding_allowed self_allowed classish_allowed p) (\<lambda>params p.
      check_parse
        (if accept_type_binding then parse_self_type_binding simple self_allowed classish_allowed p
         else if rbs_is_untyped_params params \<and> next_type p \<noteq> pARROW then
           fail_with p (next_token2 p) True ''A method type with untyped method parameter cannot have block''
         else Done None p) (\<lambda>function_self_type p.
      let has_block = next_type p = pLBRACE \<or> next_type p = pQUESTION \<and> next_type2 p = pLBRACE in
      if params_forwarding params \<noteq> None \<and> has_block then
        fail_with p (next_token p) True ''method type with forwarding parameter cannot have block''
      else if \<not> block_allowed \<and> has_block then
        fail_with p (next_token p) True ''block is not allowed in this context''
      else
        check_parse (parse_optional_block simple self_allowed classish_allowed p) (\<lambda>block p.
        advance_assert p pARROW (\<lambda>p.
        check_parse (parse_optional simple True self_allowed classish_allowed p) (\<lambda>type p.
          Done (function_of_params (location_from function_start (current_end p)) params type,
                block, function_self_type) p))))))"

definition parse_proc_type :: "type_parser \<Rightarrow> bool \<Rightarrow> bool \<Rightarrow> rbs_parser \<Rightarrow> rbs_node outcome" where
  "parse_proc_type simple self_allowed classish_allowed p =
     (let first = current_start p in
      check_parse (parse_function simple True True False self_allowed classish_allowed p)
        (\<lambda>(function, block, function_self_type) p.
          Done (rbs_types_proc_new (location_from first (current_end p)) function block function_self_type) p))"

subsection \<open>Records\<close>

text \<open>An error is set, and the caller goes on.\<close>

definition check_key_duplication :: "rbs_parser \<Rightarrow> rbs_hash \<Rightarrow> rbs_node \<Rightarrow> rbs_parser" where
  "check_key_duplication p all_fields key =
     (if rbs_hash_find all_fields key \<noteq> None
      then rbs_parser_set_error p (current_token p) True ''duplicated record key'' else p)"

definition parse_record_key :: "type_parser \<Rightarrow> rbs_hash \<Rightarrow> bool \<Rightarrow> bool \<Rightarrow> rbs_parser \<Rightarrow> rbs_node outcome" where
  "parse_record_key simple all_fields self_allowed classish_allowed p =
     (if is_keyword p then
        check_parse (parse_keyword_key p) (\<lambda>key p.
          advance_assert (check_key_duplication p all_fields (Ast_Symbol key)) pCOLON (\<lambda>p. Done (Ast_Symbol key) p))
      else if next_type p \<in> {tSYMBOL, tSQSYMBOL, tDQSYMBOL, tSQSTRING, tDQSTRING, tINTEGER, kTRUE, kFALSE} then
        check_parse (simple False self_allowed classish_allowed p) (\<lambda>type p.
          let key = literal_of type in
          advance_assert (check_key_duplication p all_fields key) pFATARROW (\<lambda>p. Done key p))
      else fail_with p (next_token p) True ''unexpected record key token'')"

definition record_attribute ::
  "type_parser \<Rightarrow> bool \<Rightarrow> rbs_hash \<Rightarrow> bool \<Rightarrow> bool \<Rightarrow> rbs_parser \<Rightarrow> (rbs_hash + rbs_hash) outcome"
where
  "record_attribute simple required all_fields self_allowed classish_allowed p =
     check_parse (parse_record_key simple all_fields self_allowed classish_allowed p) (\<lambda>key p.
       let field_start = current_end p in
       check_parse (parse_union simple False self_allowed classish_allowed p) (\<lambda>type p.
         let all_fields = rbs_hash_set all_fields key
               (rbs_types_record_field_type_new (location_from field_start (current_end p)) type required)
         in parser_advance_if p pCOMMA (\<lambda>advanced p.
              if advanced \<and> next_type p \<noteq> pRBRACE then Done (Inl all_fields) p else Done (Inr all_fields) p)))"

definition record_round ::
  "type_parser \<Rightarrow> bool \<Rightarrow> bool \<Rightarrow> rbs_hash \<Rightarrow> rbs_parser \<Rightarrow> (rbs_hash + rbs_hash) outcome"
where
  "record_round simple self_allowed classish_allowed all_fields p =
     (if next_type p = pQUESTION
      then advancing p (record_attribute simple False all_fields self_allowed classish_allowed)
      else record_attribute simple True all_fields self_allowed classish_allowed p)"

definition parse_record_attributes :: "type_parser \<Rightarrow> bool \<Rightarrow> bool \<Rightarrow> rbs_parser \<Rightarrow> rbs_hash outcome" where
  "parse_record_attributes simple self_allowed classish_allowed p =
     (if next_type p = pRBRACE then Done rbs_hash_new p
      else while_true (record_round simple self_allowed classish_allowed) rbs_hash_new p)"

subsection \<open>Simple types\<close>

definition parse_symbol :: "rbs_location_range \<Rightarrow> rbs_parser \<Rightarrow> rbs_node outcome" where
  "parse_symbol location p =
     (let offset_bytes = char_width (lx_encoding (lexer p)) [58];
          bytes = nat (rbs_token_bytes (current_token p)) - offset_bytes;
          symbol_range = rbs_location_range_current_token p;
          literal = (\<lambda>constant_id p.
            Done (rbs_types_literal_new location (Ast_Symbol (rbs_ast_symbol_new symbol_range constant_id))) p)
      in if current_type p = tSYMBOL then
           interning p (source_constant p (rbs_peek_token (lexer p) (current_token p) + offset_bytes) bytes) literal
         else if current_type p = tDQSYMBOL \<or> current_type p = tSQSYMBOL then
           let current = rbs_parser_peek_current_token p;
               symbol = rbs_string_new (buffer current) (start current + offset_bytes) (end_ptr current)
           in rbs_constant_pool_insert_string p (rbs_unquote_string symbol (lx_encoding (lexer p))) literal
         else fail_with p (current_token p) False ''Unexpected error'')"

text \<open>The node for a name of a kind with its arguments.\<close>

definition instance_node ::
  "TypeNameKind \<Rightarrow> rbs_range \<Rightarrow> rbs_type_name \<Rightarrow> rbs_range \<Rightarrow> rbs_node list \<Rightarrow> rbs_node"
where
  "instance_node kind name_range type_name args_range types =
     (let loc = location_from (r_start name_range) (rbs_nonnull_pos_or (r_end args_range) (r_end name_range));
          name_loc = RBS_RANGE_LEX2AST name_range
      in set_args_range (RBS_RANGE_LEX2AST args_range)
        (case kind of
           CLASS_NAME \<Rightarrow> rbs_types_class_instance_new loc type_name types name_loc
         | INTERFACE_NAME \<Rightarrow> rbs_types_interface_new loc type_name types name_loc
         | ALIAS_NAME \<Rightarrow> rbs_types_alias_new loc type_name types name_loc))"

definition instance_args ::
  "type_parser \<Rightarrow> TypeNameKind \<Rightarrow> rbs_range \<Rightarrow> rbs_type_name \<Rightarrow> rbs_parser \<Rightarrow> rbs_node outcome"
where
  "instance_args simple kind name_range type_name p =
     (if next_type p = pLBRACKET then
        advancing p (\<lambda>p.
          let args_start = current_start p in
          check_parse (parse_type_list simple pRBRACKET rbs_node_list_new True True True p) (\<lambda>types p.
            advance_assert p pRBRACKET (\<lambda>p.
              Done (instance_node kind name_range type_name
                \<lparr>r_start = args_start, r_end = current_end p\<rparr> types) p)))
      else Done (instance_node kind name_range type_name NULL_RANGE rbs_node_list_new) p)"

definition parse_instance_type :: "type_parser \<Rightarrow> bool \<Rightarrow> rbs_parser \<Rightarrow> rbs_node outcome" where
  "parse_instance_type simple parse_alias p =
     (let expected_kind = {INTERFACE_NAME, CLASS_NAME} \<union> (if parse_alias then {ALIAS_NAME} else {}) in
      check_parse (parse_type_name expected_kind p) (\<lambda>(name_range, type_name) p.
        if current_type p = tUIDENT then instance_args simple CLASS_NAME name_range type_name p
        else if current_type p = tULIDENT then instance_args simple INTERFACE_NAME name_range type_name p
        else if current_type p \<in> {kSKIP, kRETURN, tLIDENT} then instance_args simple ALIAS_NAME name_range type_name p
        else fail_with p (current_token p) False ''unexpected token for type name''))"

definition singleton_args ::
  "type_parser \<Rightarrow> bool \<Rightarrow> bool \<Rightarrow> rbs_parser \<Rightarrow> (rbs_node list \<times> rbs_location_range) outcome"
where
  "singleton_args simple self_allowed classish_allowed p =
     (if next_type p = pLBRACKET then
        advancing p (\<lambda>p.
          let args_start = current_start p in
          check_parse (parse_type_list simple pRBRACKET rbs_node_list_new True self_allowed classish_allowed p) (\<lambda>types p.
            advance_assert p pRBRACKET (\<lambda>p. Done (types, location_from args_start (current_end p)) p)))
      else Done (rbs_node_list_new, RBS_LOCATION_NULL_RANGE) p)"

definition parse_singleton_type :: "type_parser \<Rightarrow> bool \<Rightarrow> bool \<Rightarrow> rbs_parser \<Rightarrow> rbs_node outcome" where
  "parse_singleton_type simple self_allowed classish_allowed p =
     assert_token p kSINGLETON (\<lambda>p.
       let type_start = current_start p in
       advance_assert p pLPAREN (\<lambda>p. advancing p (\<lambda>p.
         check_parse (parse_type_name {CLASS_NAME} p) (\<lambda>(name_range, type_name) p.
         advance_assert p pRPAREN (\<lambda>p.
         check_parse (singleton_args simple self_allowed classish_allowed p) (\<lambda>(types, args_range) p.
           Done (set_args_range args_range
             (rbs_types_class_singleton_new (location_from type_start (current_end p)) type_name types
               (RBS_RANGE_LEX2AST name_range))) p))))))"

text \<open>The case of an upper-case name: a type variable that is in scope, or an instance type.\<close>

definition parse_variable_or_instance :: "type_parser \<Rightarrow> rbs_parser \<Rightarrow> rbs_node outcome" where
  "parse_variable_or_instance simple p =
     (let first = rbs_peek_token (lexer p) (current_token p);
          len = nat (rbs_token_bytes (current_token p))
      in case rbs_constant_pool_find (constant_pool p) (c_bytes (source_constant p first len)) of
           Inl _ \<Rightarrow> Aborted
         | Inr name \<Rightarrow>
             if parser_typevar_member p name then
               let loc = rbs_location_range_current_token p
               in Done (rbs_types_variable_new loc (rbs_ast_symbol_new loc name)) p
             else parse_instance_type simple True p)"

definition parse_tuple :: "type_parser \<Rightarrow> bool \<Rightarrow> bool \<Rightarrow> rbs_parser \<Rightarrow> rbs_node outcome" where
  "parse_tuple simple self_allowed classish_allowed p =
     (let rg_start = current_start p in
      check_parse (if next_type p \<noteq> pRBRACKET
                   then parse_type_list simple pRBRACKET rbs_node_list_new False self_allowed classish_allowed p
                   else Done rbs_node_list_new p) (\<lambda>types p.
        advance_assert p pRBRACKET (\<lambda>p. Done (rbs_types_tuple_new (location_from rg_start (current_end p)) types) p)))"

definition parse_record :: "type_parser \<Rightarrow> bool \<Rightarrow> bool \<Rightarrow> rbs_parser \<Rightarrow> rbs_node outcome" where
  "parse_record simple self_allowed classish_allowed p =
     (let first = current_start p in
      check_parse (parse_record_attributes simple self_allowed classish_allowed p) (\<lambda>all_fields p.
        advance_assert p pRBRACE (\<lambda>p. Done (rbs_types_record_new (location_from first (current_end p)) all_fields) p)))"

text \<open>\<open>parse_simple\<close> after its first token has become the current one.\<close>

definition simple_on_token :: "type_parser \<Rightarrow> type_parser" where
  "simple_on_token simple void_allowed self_allowed classish_allowed p =
     (let loc = rbs_location_range_current_token p; type = current_type p in
      if type = pLPAREN then
        check_parse (parse_union simple void_allowed self_allowed classish_allowed p) (\<lambda>lparen_type p.
          advance_assert p pRPAREN (\<lambda>p. Done lparen_type p))
      else if type = kBOOL then Done (rbs_types_bases_bool_new loc) p
      else if type = kBOT then Done (rbs_types_bases_bottom_new loc) p
      else if type = kCLASS then
        if \<not> classish_allowed then fail_with p (current_token p) True ''class type is not allowed here''
        else Done (rbs_types_bases_class_new loc) p
      else if type = kINSTANCE then
        if \<not> classish_allowed then fail_with p (current_token p) True ''instance type is not allowed here''
        else Done (rbs_types_bases_instance_new loc) p
      else if type = kNIL then Done (rbs_types_bases_nil_new loc) p
      else if type = kSELF then
        if \<not> self_allowed then fail_with p (current_token p) True ''self type is not allowed here''
        else Done (rbs_types_bases_self_new loc) p
      else if type = kTOP then Done (rbs_types_bases_top_new loc) p
      else if type = kVOID then
        if \<not> void_allowed then fail_with p (current_token p) True ''void type is not allowed here''
        else Done (rbs_types_bases_void_new loc) p
      else if type = kUNTYPED then Done (rbs_types_bases_any_new loc False) p
      else if type = kTODO then Done (rbs_types_bases_any_new loc True) p
      else if type = tINTEGER then
        Done (rbs_types_literal_new loc
          (rbs_ast_integer_new loc (rbs_string_strip_whitespace (rbs_parser_peek_current_token p)))) p
      else if type = kTRUE then Done (rbs_types_literal_new loc (rbs_ast_bool_new loc True)) p
      else if type = kFALSE then Done (rbs_types_literal_new loc (rbs_ast_bool_new loc False)) p
      else if type = tSQSTRING \<or> type = tDQSTRING then
        Done (rbs_types_literal_new loc
          (rbs_ast_string_new loc (rbs_unquote_string (rbs_parser_peek_current_token p) (lx_encoding (lexer p))))) p
      else if type = tSYMBOL \<or> type = tSQSYMBOL \<or> type = tDQSYMBOL then parse_symbol loc p
      else if type = tUIDENT then parse_variable_or_instance simple p
      else if type \<in> {tULIDENT, tLIDENT, kSKIP, kRETURN, pCOLON2} then parse_instance_type simple True p
      else if type = kSINGLETON then parse_singleton_type simple self_allowed classish_allowed p
      else if type = pLBRACKET then parse_tuple simple self_allowed classish_allowed p
      else if type = pAREF_OPR then Done (rbs_types_tuple_new loc rbs_node_list_new) p
      else if type = pLBRACE then parse_record simple self_allowed classish_allowed p
      else if type = pHAT then parse_proc_type simple self_allowed classish_allowed p
      else fail_with p (current_token p) True ''unexpected token for simple type'')"

text \<open>\<open>parse_simple\<close>, with fuel for its recursion.\<close>

primrec parse_simple_fuel :: "nat \<Rightarrow> type_parser" where
  "parse_simple_fuel 0 void_allowed self_allowed classish_allowed p = Out_of_fuel"
| "parse_simple_fuel (Suc fuel) void_allowed self_allowed classish_allowed p =
     advancing p (simple_on_token (parse_simple_fuel fuel) void_allowed self_allowed classish_allowed)"

definition parse_simple :: type_parser where
  "parse_simple void_allowed self_allowed classish_allowed p =
     parse_simple_fuel (Suc (bytes_left p)) void_allowed self_allowed classish_allowed p"

definition rbs_parse_type :: type_parser where
  "rbs_parse_type void_allowed self_allowed classish_allowed p =
     parse_union (parse_simple_fuel (Suc (bytes_left p))) void_allowed self_allowed classish_allowed p"

end
