(* ===== verification/TypeTree.thy ===== *)
theory TypeTree
  imports AstTypes
begin

text \<open>
  What makes a syntax tree of a type well-formed: \<open>located\<close>, the locations of the children of a
  node, of its names and of its optional ranges lie inside the location of the node, and
  \<open>placement\<close>, the types \<open>void\<close>, \<open>self\<close>, \<open>class\<close> and \<open>instance\<close> only occur where they may.
  Both are recursive over \<open>contexts\<close>, which lists the children of a node.
\<close>

subsection \<open>The children of a node\<close>

definition option_nodes :: "rbs_node option \<Rightarrow> rbs_node list" where
  "option_nodes x = (case x of None \<Rightarrow> [] | Some n \<Rightarrow> [n])"

definition hash_nodes :: "rbs_hash \<Rightarrow> rbs_node list" where
  "hash_nodes h = concat (map (\<lambda>(k, v). [k, v]) h)"

text \<open>
  The children, each with whether \<open>void\<close>, \<open>self\<close>, and \<open>class\<close> and \<open>instance\<close> may stand there,
  given what may stand at the node: \<open>void\<close> as a return type and as an argument of a name, and
  everything as an argument of a class, interface or alias.
\<close>

definition contexts :: "bool \<Rightarrow> bool \<Rightarrow> rbs_node \<Rightarrow> ((bool \<times> bool \<times> bool) \<times> rbs_node) list" where
  "contexts s c node =
     (let inner = map (Pair (False, s, c)); free = map (Pair (True, True, True)); result = Pair (True, s, c) in
      case node of
        Types_Alias _ _ args _ _ \<Rightarrow> free args
      | Types_Class_Instance _ _ args _ _ \<Rightarrow> free args
      | Types_Interface _ _ args _ _ \<Rightarrow> free args
      | Types_Class_Singleton _ _ args _ _ \<Rightarrow> map result args
      | Types_Block _ type _ self_type \<Rightarrow> inner (type # option_nodes self_type)
      | Types_Function _ rp op rest tp rk ok rest_kw fwd ret \<Rightarrow>
          inner (rp @ op @ option_nodes rest @ tp @ hash_nodes rk @ hash_nodes ok @ option_nodes rest_kw @ option_nodes fwd) @
          [result ret]
      | Types_Function_Param _ type _ _ \<Rightarrow> inner [type]
      | Types_Intersection _ types \<Rightarrow> inner types
      | Types_Literal _ literal \<Rightarrow> inner [literal]
      | Types_Optional _ type \<Rightarrow> inner [type]
      | Types_Proc _ type block self_type \<Rightarrow> inner (type # option_nodes block @ option_nodes self_type)
      | Types_Record _ fs \<Rightarrow> inner (hash_nodes fs)
      | Types_Record_Field_Type _ type _ \<Rightarrow> inner [type]
      | Types_Tuple _ types \<Rightarrow> inner types
      | Types_Union _ types \<Rightarrow> inner types
      | Types_Untyped_Function _ ret \<Rightarrow> [result ret]
      | _ \<Rightarrow> [])"

lemma size_list_member: "x \<in> set xs \<Longrightarrow> size x < Suc (size_list size xs)"
  by (induction xs) auto

lemma hash_nodes_Cons: "hash_nodes (kv # h) = fst kv # snd kv # hash_nodes h"
  by (cases kv) (simp add: hash_nodes_def)

lemma size_hash_member: "x \<in> set (hash_nodes h) \<Longrightarrow> size x < Suc (size_list (size_prod size size) h)"
  by (induction h) (auto simp: hash_nodes_Cons, simp add: hash_nodes_def)

lemma size_option_member: "x \<in> set (option_nodes y) \<Longrightarrow> size x < Suc (size_option size y)"
  by (auto simp: option_nodes_def split: option.splits)

lemma contexts_size: "(f, x) \<in> set (contexts s c n) \<Longrightarrow> size x < size n"
  by (cases n)
    (auto simp: contexts_def Let_def dest!: size_list_member size_hash_member size_option_member)

subsection \<open>Locations\<close>

fun node_location :: "rbs_node \<Rightarrow> rbs_location_range" where
  "node_location (Ast_Symbol s) = sym_location s"
| "node_location (Ast_Bool l _) = l"
| "node_location (Ast_Integer l _) = l"
| "node_location (Ast_String l _) = l"
| "node_location (Types_Alias l _ _ _ _) = l"
| "node_location (Types_Bases_Any l _) = l"
| "node_location (Types_Bases_Bool l) = l"
| "node_location (Types_Bases_Bottom l) = l"
| "node_location (Types_Bases_Class l) = l"
| "node_location (Types_Bases_Instance l) = l"
| "node_location (Types_Bases_Nil l) = l"
| "node_location (Types_Bases_Self l) = l"
| "node_location (Types_Bases_Top l) = l"
| "node_location (Types_Bases_Void l) = l"
| "node_location (Types_Block l _ _ _) = l"
| "node_location (Types_Class_Instance l _ _ _ _) = l"
| "node_location (Types_Class_Singleton l _ _ _ _) = l"
| "node_location (Types_Function l _ _ _ _ _ _ _ _ _) = l"
| "node_location (Types_Function_Forwarding_Param l) = l"
| "node_location (Types_Function_Param l _ _ _) = l"
| "node_location (Types_Interface l _ _ _ _) = l"
| "node_location (Types_Intersection l _) = l"
| "node_location (Types_Literal l _) = l"
| "node_location (Types_Optional l _) = l"
| "node_location (Types_Proc l _ _ _) = l"
| "node_location (Types_Record l _) = l"
| "node_location (Types_Record_Field_Type l _ _) = l"
| "node_location (Types_Tuple l _) = l"
| "node_location (Types_Union l _) = l"
| "node_location (Types_Untyped_Function l _) = l"
| "node_location (Types_Variable l _) = l"

definition name_ranges :: "rbs_type_name \<Rightarrow> rbs_location_range list" where
  "name_ranges name =
     tn_location name # ns_location (tn_rbs_namespace name) # sym_location (tn_name name) #
     map sym_location (ns_path (tn_rbs_namespace name))"

definition part_ranges :: "rbs_node \<Rightarrow> rbs_location_range list" where
  "part_ranges node =
     (case node of
        Types_Alias _ name _ nr ar \<Rightarrow> nr # ar # name_ranges name
      | Types_Class_Instance _ name _ nr ar \<Rightarrow> nr # ar # name_ranges name
      | Types_Class_Singleton _ name _ nr ar \<Rightarrow> nr # ar # name_ranges name
      | Types_Interface _ name _ nr ar \<Rightarrow> nr # ar # name_ranges name
      | Types_Function_Param _ _ name nr \<Rightarrow> nr # (case name of None \<Rightarrow> [] | Some s \<Rightarrow> [sym_location s])
      | Types_Variable _ name \<Rightarrow> [sym_location name]
      | _ \<Rightarrow> [])"

text \<open>A range between two byte positions, and one that may be null.\<close>

definition between :: "int \<Rightarrow> int \<Rightarrow> rbs_location_range \<Rightarrow> bool" where
  "between lo hi r \<longleftrightarrow> lo \<le> start_byte r \<and> start_byte r \<le> end_byte r \<and> end_byte r \<le> hi"

definition null_or_between :: "int \<Rightarrow> int \<Rightarrow> rbs_location_range \<Rightarrow> bool" where
  "null_or_between lo hi r \<longleftrightarrow> r = RBS_LOCATION_NULL_RANGE \<or> between lo hi r"

function (sequential) located :: "int \<Rightarrow> int \<Rightarrow> rbs_node \<Rightarrow> bool" where
  "located lo hi node \<longleftrightarrow>
     between lo hi (node_location node) \<and>
     (\<forall>r\<in>set (part_ranges node). null_or_between (start_byte (node_location node)) (end_byte (node_location node)) r) \<and>
     (\<forall>y\<in>set (contexts False False node).
        located (start_byte (node_location node)) (end_byte (node_location node)) (snd y))"
  by auto
termination by (relation "measure (\<lambda>(_, _, n). size n)") (auto simp: contexts_size)

declare located.simps [simp del]

lemma between_mono: "between lo hi r \<Longrightarrow> lo' \<le> lo \<Longrightarrow> hi \<le> hi' \<Longrightarrow> between lo' hi' r"
  by (simp add: between_def)

lemma null_or_between_mono: "null_or_between lo hi r \<Longrightarrow> lo' \<le> lo \<Longrightarrow> hi \<le> hi' \<Longrightarrow> null_or_between lo' hi' r"
  by (auto simp: null_or_between_def between_mono)

lemma null_or_between_null [simp]: "null_or_between lo hi RBS_LOCATION_NULL_RANGE"
  by (simp add: null_or_between_def)

lemma located_mono: "located lo hi n \<Longrightarrow> lo' \<le> lo \<Longrightarrow> hi \<le> hi' \<Longrightarrow> located lo' hi' n"
  by (subst located.simps, subst (asm) located.simps) (auto intro: between_mono)

subsection \<open>Where void, self, class and instance may stand\<close>

definition base_allowed :: "bool \<Rightarrow> bool \<Rightarrow> bool \<Rightarrow> rbs_node \<Rightarrow> bool" where
  "base_allowed v s c node =
     (case node of
        Types_Bases_Void _ \<Rightarrow> v
      | Types_Bases_Self _ \<Rightarrow> s
      | Types_Bases_Class _ \<Rightarrow> c
      | Types_Bases_Instance _ \<Rightarrow> c
      | _ \<Rightarrow> True)"

function (sequential) placement :: "bool \<Rightarrow> bool \<Rightarrow> bool \<Rightarrow> rbs_node \<Rightarrow> bool" where
  "placement v s c node \<longleftrightarrow>
     base_allowed v s c node \<and> (\<forall>y\<in>set (contexts s c node).
       placement (fst (fst y)) (fst (snd (fst y))) (snd (snd (fst y))) (snd y))"
  by auto
termination by (relation "measure (\<lambda>(_, _, _, n). size n)") (auto simp: contexts_size)

declare placement.simps [simp del]

lemma placement_not_void: "placement v s c n \<Longrightarrow> \<not> is_void n \<Longrightarrow> placement v' s c n"
  using placement.simps [of v s c n] placement.simps [of v' s c n]
  by (cases n) (simp_all add: base_allowed_def is_void_def)

subsection \<open>Well-formed trees\<close>

definition tree_ok :: "bool \<Rightarrow> bool \<Rightarrow> bool \<Rightarrow> int \<Rightarrow> int \<Rightarrow> rbs_node \<Rightarrow> bool" where
  "tree_ok v s c lo hi n \<longleftrightarrow> located lo hi n \<and> placement v s c n"

definition trees_ok :: "bool \<Rightarrow> bool \<Rightarrow> bool \<Rightarrow> int \<Rightarrow> int \<Rightarrow> rbs_node list \<Rightarrow> bool" where
  "trees_ok v s c lo hi ns \<longleftrightarrow> list_all (tree_ok v s c lo hi) ns"

lemma tree_ok_mono: "tree_ok v s c lo hi n \<Longrightarrow> lo' \<le> lo \<Longrightarrow> hi \<le> hi' \<Longrightarrow> tree_ok v s c lo' hi' n"
  by (auto simp: tree_ok_def intro: located_mono)

lemma tree_ok_not_void: "tree_ok v s c lo hi n \<Longrightarrow> \<not> is_void n \<Longrightarrow> tree_ok v' s c lo hi n"
  by (auto simp: tree_ok_def intro: placement_not_void)

lemma trees_ok_mono: "trees_ok v s c lo hi ns \<Longrightarrow> lo' \<le> lo \<Longrightarrow> hi \<le> hi' \<Longrightarrow> trees_ok v s c lo' hi' ns"
  by (auto simp: trees_ok_def list_all_iff intro: tree_ok_mono)

lemma trees_ok_simps [simp]:
  "trees_ok v s c lo hi []"
  "trees_ok v s c lo hi (n # ns) \<longleftrightarrow> tree_ok v s c lo hi n \<and> trees_ok v s c lo hi ns"
  "trees_ok v s c lo hi (ms @ ns) \<longleftrightarrow> trees_ok v s c lo hi ms \<and> trees_ok v s c lo hi ns"
  "trees_ok v s c lo hi (option_nodes None)"
  "trees_ok v s c lo hi (option_nodes (Some n)) \<longleftrightarrow> tree_ok v s c lo hi n"
  "trees_ok v s c lo hi (hash_nodes [])"
  by (auto simp: trees_ok_def option_nodes_def hash_nodes_def)

lemma hash_set_nodes: "set (hash_nodes (rbs_hash_set h k v)) \<subseteq> set (hash_nodes h) \<union> {k, v}"
proof (induction h)
  case Nil
  show ?case by (simp add: hash_nodes_def)
next
  case (Cons kv h)
  then show ?case by (auto simp: hash_nodes_Cons)
qed

lemma trees_ok_hash_set:
  "trees_ok v s c lo hi (hash_nodes h) \<Longrightarrow> tree_ok v s c lo hi key \<Longrightarrow> tree_ok v s c lo hi x \<Longrightarrow>
   trees_ok v s c lo hi (hash_nodes (rbs_hash_set h key x))"
  using hash_set_nodes [of h key x] by (auto simp: trees_ok_def list_all_iff)

text \<open>The nodes of a tree, by kind.\<close>

lemma tree_ok_unfold:
  "tree_ok v s c lo hi n \<longleftrightarrow>
     between lo hi (node_location n) \<and> base_allowed v s c n \<and>
     list_all (null_or_between (start_byte (node_location n)) (end_byte (node_location n))) (part_ranges n) \<and>
     list_all (\<lambda>((v', s', c'), x). tree_ok v' s' c' (start_byte (node_location n)) (end_byte (node_location n)) x)
       (contexts s c n)"
proof -
  have nodes: "snd ` set (contexts False False n) = snd ` set (contexts s c n)"
    by (cases n) (simp_all add: contexts_def Let_def image_image image_Un)
  have "(\<forall>y\<in>set (contexts False False n). P (snd y)) \<longleftrightarrow> (\<forall>y\<in>set (contexts s c n). P (snd y))" for P
    using arg_cong [OF nodes, of "\<lambda>A. \<forall>x\<in>A. P x"] by simp
  then show ?thesis
    unfolding tree_ok_def located.simps [of lo hi n] placement.simps [of v s c n]
    by (simp add: list_all_iff split_beta ball_conj_distrib conj_ac)
qed

lemma contexts_comp [simp]: "(\<lambda>((v', s', c'), x). P v' s' c' x) \<circ> Pair (v, s, c) = P v s c"
  by (auto simp: comp_def)

lemma tree_ok_simps [simp]:
  "tree_ok v s c lo hi (Ast_Symbol y) \<longleftrightarrow> between lo hi (sym_location y)"
  "tree_ok v s c lo hi (Ast_Bool l b) \<longleftrightarrow> between lo hi l"
  "tree_ok v s c lo hi (Ast_Integer l x) \<longleftrightarrow> between lo hi l"
  "tree_ok v s c lo hi (Ast_String l x) \<longleftrightarrow> between lo hi l"
  "tree_ok v s c lo hi (Types_Bases_Any l b) \<longleftrightarrow> between lo hi l"
  "tree_ok v s c lo hi (Types_Bases_Bool l) \<longleftrightarrow> between lo hi l"
  "tree_ok v s c lo hi (Types_Bases_Bottom l) \<longleftrightarrow> between lo hi l"
  "tree_ok v s c lo hi (Types_Bases_Class l) \<longleftrightarrow> between lo hi l \<and> c"
  "tree_ok v s c lo hi (Types_Bases_Instance l) \<longleftrightarrow> between lo hi l \<and> c"
  "tree_ok v s c lo hi (Types_Bases_Nil l) \<longleftrightarrow> between lo hi l"
  "tree_ok v s c lo hi (Types_Bases_Self l) \<longleftrightarrow> between lo hi l \<and> s"
  "tree_ok v s c lo hi (Types_Bases_Top l) \<longleftrightarrow> between lo hi l"
  "tree_ok v s c lo hi (Types_Bases_Void l) \<longleftrightarrow> between lo hi l \<and> v"
  "tree_ok v s c lo hi (Types_Function_Forwarding_Param l) \<longleftrightarrow> between lo hi l"
  "tree_ok v s c lo hi (Types_Variable l y) \<longleftrightarrow>
     between lo hi l \<and> null_or_between (start_byte l) (end_byte l) (sym_location y)"
  "tree_ok v s c lo hi (Types_Literal l n) \<longleftrightarrow> between lo hi l \<and> tree_ok False s c (start_byte l) (end_byte l) n"
  "tree_ok v s c lo hi (Types_Optional l n) \<longleftrightarrow> between lo hi l \<and> tree_ok False s c (start_byte l) (end_byte l) n"
  "tree_ok v s c lo hi (Types_Record_Field_Type l n b) \<longleftrightarrow>
     between lo hi l \<and> tree_ok False s c (start_byte l) (end_byte l) n"
  "tree_ok v s c lo hi (Types_Untyped_Function l n) \<longleftrightarrow>
     between lo hi l \<and> tree_ok True s c (start_byte l) (end_byte l) n"
  by (subst tree_ok_unfold; simp add: base_allowed_def part_ranges_def contexts_def Let_def)+

lemma tree_ok_lists [simp]:
  "tree_ok v s c lo hi (Types_Tuple l ns) \<longleftrightarrow> between lo hi l \<and> trees_ok False s c (start_byte l) (end_byte l) ns"
  "tree_ok v s c lo hi (Types_Union l ns) \<longleftrightarrow> between lo hi l \<and> trees_ok False s c (start_byte l) (end_byte l) ns"
  "tree_ok v s c lo hi (Types_Intersection l ns) \<longleftrightarrow> between lo hi l \<and> trees_ok False s c (start_byte l) (end_byte l) ns"
  "tree_ok v s c lo hi (Types_Record l fs) \<longleftrightarrow>
     between lo hi l \<and> trees_ok False s c (start_byte l) (end_byte l) (hash_nodes fs)"
  "tree_ok v s c lo hi (Types_Block l n b x) \<longleftrightarrow>
     between lo hi l \<and> trees_ok False s c (start_byte l) (end_byte l) (n # option_nodes x)"
  "tree_ok v s c lo hi (Types_Proc l n x y) \<longleftrightarrow>
     between lo hi l \<and> trees_ok False s c (start_byte l) (end_byte l) (n # option_nodes x @ option_nodes y)"
  "tree_ok v s c lo hi (Types_Function l rp op r tp rk ok rk' fwd ret) \<longleftrightarrow>
     between lo hi l \<and> tree_ok True s c (start_byte l) (end_byte l) ret \<and>
     trees_ok False s c (start_byte l) (end_byte l)
       (rp @ op @ option_nodes r @ tp @ hash_nodes rk @ hash_nodes ok @ option_nodes rk' @ option_nodes fwd)"
  by (subst tree_ok_unfold;
      simp add: base_allowed_def part_ranges_def contexts_def Let_def trees_ok_def list_all_append list.pred_map split: option.splits;
      argo?)+

lemma tree_ok_param [simp]:
  "tree_ok v s c lo hi (Types_Function_Param l n nm nr) \<longleftrightarrow>
     between lo hi l \<and> tree_ok False s c (start_byte l) (end_byte l) n \<and> null_or_between (start_byte l) (end_byte l) nr \<and>
     (\<forall>t. nm = Some t \<longrightarrow> null_or_between (start_byte l) (end_byte l) (sym_location t))"
  by (cases nm; subst tree_ok_unfold; auto simp: base_allowed_def part_ranges_def contexts_def Let_def)

definition name_ok :: "int \<Rightarrow> int \<Rightarrow> rbs_type_name \<Rightarrow> bool" where
  "name_ok lo hi name \<longleftrightarrow> (\<forall>r\<in>set (name_ranges name). between lo hi r)"

lemma name_ok_null_or: "name_ok lo hi name \<Longrightarrow> r \<in> set (name_ranges name) \<Longrightarrow> null_or_between lo hi r"
  by (simp add: name_ok_def null_or_between_def)

lemma name_ok_mono: "name_ok lo hi name \<Longrightarrow> lo' \<le> lo \<Longrightarrow> hi \<le> hi' \<Longrightarrow> name_ok lo' hi' name"
  by (auto simp: name_ok_def intro: between_mono)

lemma tree_ok_named:
  assumes "name_ok (start_byte l) (end_byte l) name" and "null_or_between (start_byte l) (end_byte l) nr"
    and "null_or_between (start_byte l) (end_byte l) ar" and "between lo hi l"
  shows "trees_ok True True True (start_byte l) (end_byte l) args \<Longrightarrow> tree_ok v s c lo hi (Types_Alias l name args nr ar)"
    and "trees_ok True True True (start_byte l) (end_byte l) args \<Longrightarrow> tree_ok v s c lo hi (Types_Class_Instance l name args nr ar)"
    and "trees_ok True True True (start_byte l) (end_byte l) args \<Longrightarrow> tree_ok v s c lo hi (Types_Interface l name args nr ar)"
    and "trees_ok True s c (start_byte l) (end_byte l) args \<Longrightarrow> tree_ok v s c lo hi (Types_Class_Singleton l name args nr ar)"
  using assms name_ok_null_or
  by (subst tree_ok_unfold;
      auto simp: base_allowed_def part_ranges_def contexts_def Let_def trees_ok_def list.pred_map list_all_iff)+

end
