(* ===== verification/ParserSpec.thy ===== *)
theory ParserSpec
  imports ParserState LexerProps
begin

text \<open>
  The invariant of a parser, what every operation does to it, and the rules by which the
  contracts of parsing functions are proved: \<open>run_ok p Q r\<close> says of the outcome \<open>r\<close> of a
  function started in \<open>p\<close> that the function returns (it neither runs out of fuel nor fails an
  assertion), that a parser it ends in is well-formed and further on in the same source, that
  \<open>false\<close> comes with an error, and that \<open>Q\<close> holds of the output and the parser of \<open>true\<close>.
\<close>

subsection \<open>The window\<close>

abbreviation tok_begin :: "rbs_token \<Rightarrow> int" where "tok_begin t \<equiv> byte_pos (r_start (tok_range t))"
abbreviation tok_end :: "rbs_token \<Rightarrow> int" where "tok_end t \<equiv> byte_pos (r_end (tok_range t))"
abbreviation source_length :: "rbs_parser \<Rightarrow> nat" where
  "source_length p \<equiv> length (string_bytes (lx_string (lexer p)))"

definition token_wf :: "rbs_token \<Rightarrow> bool" where
  "token_wf t \<longleftrightarrow> (if tok_type t = pEOF then tok_begin t = tok_end t else tok_begin t < tok_end t) \<and>
     tok_type t \<notin> {tCOMMENT, tLINECOMMENT, tTRIVIA}"

text \<open>
  Tokens of the window follow each other, \<open>pEOF\<close> stays once it is read, and the lexer stands
  after the last of them.
\<close>

definition parser_ok :: "rbs_parser \<Rightarrow> bool" where
  "parser_ok p \<longleftrightarrow>
     lexer_ready (lexer p) \<and> pool_inv (constant_pool p) \<and>
     token_wf (next_token p) \<and> token_wf (next_token2 p) \<and> token_wf (next_token3 p) \<and>
     -1 \<le> tok_begin (current_token p) \<and> tok_begin (current_token p) \<le> tok_end (current_token p) \<and>
     tok_end (current_token p) \<le> tok_begin (next_token p) \<and> 0 \<le> tok_begin (next_token p) \<and>
     tok_end (next_token p) \<le> tok_begin (next_token2 p) \<and>
     tok_end (next_token2 p) \<le> tok_begin (next_token3 p) \<and>
     tok_end (next_token3 p) \<le> byte_pos (lx_current (lexer p)) \<and>
     (tok_type (next_token p) = pEOF \<longrightarrow> next_token2 p = next_token p) \<and>
     (tok_type (next_token2 p) = pEOF \<longrightarrow> next_token3 p = next_token2 p)"

lemma parser_ok_cong:
  assumes "lexer q = lexer p" and "current_token q = current_token p" and "next_token q = next_token p"
    and "next_token2 q = next_token2 p" and "next_token3 q = next_token3 p" and "pool_inv (constant_pool q)"
  shows "parser_ok p \<Longrightarrow> parser_ok q"
  using assms by (simp add: parser_ok_def)

text \<open>The strings interned so far and the bytes after the current token: never more than at the start.\<close>

definition spent :: "rbs_parser \<Rightarrow> nat" where
  "spent p = unat (pool_size (constant_pool p)) + nat (int (source_length p) - tok_end (current_token p))"

text \<open>Room in the pool for all names that are left, and two more.\<close>

definition roomy :: "rbs_parser \<Rightarrow> bool" where
  "roomy p \<longleftrightarrow> spent p + 2 < 1073741824"

subsection \<open>Steps\<close>

text \<open>How the parser after any sequence of operations is related to the one before.\<close>

definition parser_step :: "rbs_parser \<Rightarrow> rbs_parser \<Rightarrow> bool" where
  "parser_step p q \<longleftrightarrow>
     parser_ok q \<and> lexer_source (lexer q) = lexer_source (lexer p) \<and>
     bytes_left q \<le> bytes_left p \<and> tok_begin (next_token p) \<le> tok_begin (next_token q) \<and>
     tok_begin (current_token p) \<le> tok_begin (current_token q) \<and>
     tok_end (current_token p) \<le> tok_end (current_token q) \<and>
     take (length (pool_contents (constant_pool p))) (pool_contents (constant_pool q)) = pool_contents (constant_pool p) \<and>
     (parser_error p \<noteq> None \<longrightarrow> parser_error q = parser_error p) \<and>
     enable_forwarding_params q = enable_forwarding_params p"

lemma step_refl: "parser_ok p \<Longrightarrow> parser_step p p"
  by (simp add: parser_step_def)

lemma step_trans: "parser_step p q \<Longrightarrow> parser_step q r \<Longrightarrow> parser_step p r"
proof -
  have t: "take l cs = as" if "take (length as) bs = as" "take (length bs) cs = bs" "l = length as" for l and as bs cs :: "byte list list"
  proof -
    have "length as \<le> length bs" using that(1) by (metis min.cobounded1 length_take min_def)
    then show ?thesis using that by (metis take_take min_absorb1)
  qed
  show "parser_step p q \<Longrightarrow> parser_step q r \<Longrightarrow> parser_step p r"
    unfolding parser_step_def by (auto intro: t)
qed

lemma step_ok: "parser_step p q \<Longrightarrow> parser_ok q"
  by (simp add: parser_step_def)

subsection \<open>Advancing\<close>

lemma insert_comment_static [simp]:
  "lexer (insert_comment_line p t) = lexer p" "current_token (insert_comment_line p t) = current_token p"
  "next_token (insert_comment_line p t) = next_token p" "next_token2 (insert_comment_line p t) = next_token2 p"
  "next_token3 (insert_comment_line p t) = next_token3 p" "vars (insert_comment_line p t) = vars p"
  "constant_pool (insert_comment_line p t) = constant_pool p" "parser_error (insert_comment_line p t) = parser_error p"
  "enable_forwarding_params (insert_comment_line p t) = enable_forwarding_params p"
  by (simp_all add: insert_comment_line_def Let_def split: option.splits)

text \<open>What the loop of \<open>rbs_parser_advance\<close> does not change.\<close>

definition same_but_third :: "rbs_parser \<Rightarrow> rbs_parser \<Rightarrow> bool" where
  "same_but_third p q \<longleftrightarrow>
     current_token q = current_token p \<and> next_token q = next_token p \<and> next_token2 q = next_token2 p \<and>
     vars q = vars p \<and> constant_pool q = constant_pool p \<and> parser_error q = parser_error p \<and>
     enable_forwarding_params q = enable_forwarding_params p"

lemma same_but_third_trans: "same_but_third p q \<Longrightarrow> same_but_third q r \<Longrightarrow> same_but_third p r"
  by (simp add: same_but_third_def)

lemma advance_loop_reads:
  assumes "lexer_ready (lexer p)" and "tok_type (next_token3 p) \<noteq> pEOF"
    and "nat (end_pos (lexer p) - byte_pos (lx_current (lexer p))) < fuel"
  shows "\<exists>q. advance_loop (Suc fuel) p = Some q \<and> same_but_third p q \<and> lexer_ready (lexer q) \<and>
    lexer_source (lexer q) = lexer_source (lexer p) \<and> token_wf (next_token3 q) \<and>
    byte_pos (lx_current (lexer p)) \<le> tok_begin (next_token3 q) \<and>
    tok_end (next_token3 q) \<le> byte_pos (lx_current (lexer q))"
  using assms
proof (induction fuel arbitrary: p)
  case (Suc fuel)
  from next_token_contract [OF Suc.prems(1)] obtain tok lx where
    r: "rbs_lexer_next_token (lexer p) = Some (tok, lx)" "token_ok (lexer p) tok lx" by blast
  let ?p = "p\<lparr>lexer := lx, next_token3 := tok\<rparr>"
  have src: "lexer_source lx = lexer_source (lexer p)" "lexer_ready lx" using r(2) by (simp_all add: token_ok_def)
  have le: "byte_pos (lx_current (lexer p)) \<le> byte_pos (lx_current lx)"
    using r(2) by (auto simp: token_ok_def split: if_splits)
  show ?case
  proof (cases "tok_type tok \<in> {tCOMMENT, tLINECOMMENT, tTRIVIA}")
    case False
    then have stop: "advance_loop (Suc (Suc fuel)) p = Some ?p" using r(1) Suc.prems(2) by (simp add: Let_def)
    have "token_wf tok" "byte_pos (lx_current (lexer p)) \<le> tok_begin tok" "tok_end tok \<le> byte_pos (lx_current lx)"
      using r(2) False by (auto simp: token_ok_def token_wf_def split: if_splits)
    then have "same_but_third p ?p \<and> lexer_ready (lexer ?p) \<and> lexer_source (lexer ?p) = lexer_source (lexer p) \<and>
        token_wf (next_token3 ?p) \<and> byte_pos (lx_current (lexer p)) \<le> tok_begin (next_token3 ?p) \<and>
        tok_end (next_token3 ?p) \<le> byte_pos (lx_current (lexer ?p))"
      using src by (simp add: same_but_third_def)
    with stop show ?thesis by blast
  next
    case True
    then have ne: "tok_type tok \<noteq> pEOF" by auto
    define q where "q = (if tok_type tok = tLINECOMMENT then insert_comment_line ?p tok else ?p)"
    have q: "advance_loop (Suc (Suc fuel)) p = advance_loop (Suc fuel) q"
      using r(1) Suc.prems(2) True by (auto simp: q_def Let_def simp del: advance_loop.simps(2) [where fuel = fuel])
    have lq: "lexer q = lx" "next_token3 q = tok" "same_but_third p q"
      by (simp_all add: q_def same_but_third_def)
    have "byte_pos (lx_current (lexer p)) < byte_pos (lx_current lx)" "current_code_point (lexer p) \<noteq> 0"
      using r(2) ne by (auto simp: token_ok_def)
    moreover have "byte_pos (lx_current (lexer p)) < end_pos (lexer p)"
      using coherent_bounds(2) Suc.prems(1) calculation(2) by (simp add: lexer_ready_def)
    ultimately have "nat (end_pos (lexer q) - byte_pos (lx_current (lexer q))) < fuel"
      using Suc.prems(3) src lq(1) by (auto simp: lexer_source_def)
    from Suc.IH [of q] this lq(1,2) src(2) ne obtain r where
      "advance_loop (Suc fuel) q = Some r" "same_but_third q r" "lexer_ready (lexer r)"
      "lexer_source (lexer r) = lexer_source lx" "token_wf (next_token3 r)"
      "byte_pos (lx_current lx) \<le> tok_begin (next_token3 r)" "tok_end (next_token3 r) \<le> byte_pos (lx_current (lexer r))"
      by auto
    with q lq(3) src(1) le show ?thesis by (intro exI [of _ r]) (auto intro: same_but_third_trans)
  qed
qed simp

lemma advance_defined:
  assumes "lexer_ready (lexer p)"
  shows "\<exists>q. rbs_parser_advance p = Some q \<and>
    current_token q = next_token p \<and> next_token q = next_token2 p \<and> next_token2 q = next_token3 p \<and>
    vars q = vars p \<and> constant_pool q = constant_pool p \<and> parser_error q = parser_error p \<and>
    enable_forwarding_params q = enable_forwarding_params p \<and>
    lexer_ready (lexer q) \<and> lexer_source (lexer q) = lexer_source (lexer p) \<and>
    (if tok_type (next_token3 p) = pEOF then next_token3 q = next_token3 p \<and> lexer q = lexer p
     else token_wf (next_token3 q) \<and> byte_pos (lx_current (lexer p)) \<le> tok_begin (next_token3 q) \<and>
       tok_end (next_token3 q) \<le> byte_pos (lx_current (lexer q)))"
proof -
  let ?p = "p\<lparr>current_token := next_token p, next_token := next_token2 p, next_token2 := next_token3 p\<rparr>"
  let ?n = "nat (end_pos (lexer p) - byte_pos (lx_current (lexer p)))"
  show ?thesis
  proof (cases "tok_type (next_token3 p) = pEOF")
    case True
    have "rbs_parser_advance p = Some ?p" using True by (simp add: rbs_parser_advance_def numeral_2_eq_2)
    with True assms show ?thesis by simp
  next
    case False
    have "\<exists>q. advance_loop (Suc (Suc ?n)) ?p = Some q \<and> same_but_third ?p q \<and> lexer_ready (lexer q) \<and>
      lexer_source (lexer q) = lexer_source (lexer ?p) \<and> token_wf (next_token3 q) \<and>
      byte_pos (lx_current (lexer ?p)) \<le> tok_begin (next_token3 q) \<and>
      tok_end (next_token3 q) \<le> byte_pos (lx_current (lexer q))"
      by (rule advance_loop_reads) (use assms False in simp_all)
    then obtain q where q: "rbs_parser_advance p = Some q" "same_but_third ?p q" "lexer_ready (lexer q)"
      "lexer_source (lexer q) = lexer_source (lexer p)" "token_wf (next_token3 q)"
      "byte_pos (lx_current (lexer p)) \<le> tok_begin (next_token3 q)"
      "tok_end (next_token3 q) \<le> byte_pos (lx_current (lexer q))"
      by (auto simp: rbs_parser_advance_def simp del: advance_loop.simps)
    with False show ?thesis by (intro exI [of _ q]) (simp add: same_but_third_def)
  qed
qed

lemma source_length_cong: "lexer_source (lexer q) = lexer_source (lexer p) \<Longrightarrow> source_length q = source_length p"
  by (simp add: lexer_source_def)

lemma lexer_inside: "parser_ok p \<Longrightarrow> byte_pos (lx_current (lexer p)) \<le> int (source_length p)"
  by (simp add: parser_ok_def lexer_ready_def lexer_ok_def)

lemma token_wf_le: "token_wf t \<Longrightarrow> tok_begin t \<le> tok_end t"
  by (auto simp: token_wf_def split: if_splits)

lemma window_order:
  assumes "parser_ok p"
  shows "tok_end (current_token p) \<le> tok_begin (next_token p)"
    and "tok_begin (next_token p) \<le> tok_end (next_token p)"
    and "tok_end (next_token p) \<le> tok_begin (next_token2 p)"
    and "tok_begin (next_token2 p) \<le> tok_end (next_token2 p)"
    and "tok_end (next_token2 p) \<le> tok_begin (next_token3 p)"
    and "tok_begin (next_token3 p) \<le> tok_end (next_token3 p)"
    and "tok_end (next_token3 p) \<le> int (source_length p)"
    and "tok_begin (current_token p) \<le> tok_end (current_token p)"
    and "0 \<le> tok_begin (next_token p)"
  using assms lexer_inside [OF assms] token_wf_le by (auto simp: parser_ok_def)

lemma advance_ok:
  assumes ok: "parser_ok p"
  obtains q where "rbs_parser_advance p = Some q" "parser_step p q" "vars q = vars p"
    "current_token q = next_token p" "next_token q = next_token2 p" "next_token2 q = next_token3 p"
    "constant_pool q = constant_pool p" "parser_error q = parser_error p"
    "spent q \<le> spent p"
    "tok_type (next_token p) \<noteq> pEOF \<Longrightarrow> bytes_left q < bytes_left p \<and> spent q < spent p"
proof -
  have ready: "lexer_ready (lexer p)" using ok by (simp add: parser_ok_def)
  obtain q where q: "rbs_parser_advance p = Some q"
    "current_token q = next_token p" "next_token q = next_token2 p" "next_token2 q = next_token3 p"
    "vars q = vars p" "constant_pool q = constant_pool p" "parser_error q = parser_error p"
    "enable_forwarding_params q = enable_forwarding_params p"
    "lexer_ready (lexer q)" "lexer_source (lexer q) = lexer_source (lexer p)"
    "if tok_type (next_token3 p) = pEOF then next_token3 q = next_token3 p \<and> lexer q = lexer p
     else token_wf (next_token3 q) \<and> byte_pos (lx_current (lexer p)) \<le> tok_begin (next_token3 q) \<and>
       tok_end (next_token3 q) \<le> byte_pos (lx_current (lexer q))"
    using advance_defined [OF ready] by (elim exE conjE) (rule that)
  note w = window_order [OF ok]
  have len: "source_length q = source_length p" using source_length_cong [OF q(10)] .
  have third: "token_wf (next_token3 q) \<and> tok_end (next_token3 p) \<le> tok_begin (next_token3 q) \<and>
    tok_end (next_token3 q) \<le> byte_pos (lx_current (lexer q)) \<and>
    (tok_type (next_token3 p) = pEOF \<longrightarrow> next_token3 q = next_token3 p)"
    using q(11) ok by (auto simp: parser_ok_def token_wf_def split: if_splits)
  have q_ok: "parser_ok q"
    using ok third q(2-10) w unfolding parser_ok_def by auto
  have step: "parser_step p q"
    using q_ok q(2,3,6-10) w len by (auto simp: parser_step_def bytes_left_def)
  have spent: "spent q \<le> spent p" using q(2,6) w len by (simp add: spent_def)
  have progress: "bytes_left q < bytes_left p \<and> spent q < spent p" if "tok_type (next_token p) \<noteq> pEOF"
  proof -
    have "tok_begin (next_token p) < tok_end (next_token p)" using ok that by (simp add: parser_ok_def token_wf_def)
    then show ?thesis using q(2,3,6) w len by (simp add: bytes_left_def spent_def)
  qed
  from that [OF q(1) step q(5,2,3,4,6,7) spent progress] show ?thesis .
qed

subsection \<open>Contracts\<close>

fun run_ok :: "rbs_parser \<Rightarrow> ('a \<Rightarrow> rbs_parser \<Rightarrow> bool) \<Rightarrow> 'a outcome \<Rightarrow> bool" where
  "run_ok p Q (Done v q) = (parser_step p q \<and> Q v q)"
| "run_ok p Q (Failed q) = (parser_step p q \<and> parser_error q \<noteq> None)"
| "run_ok p Q Aborted = False"
| "run_ok p Q Out_of_fuel = False"

lemma run_ok_step:
  assumes "parser_step p q" and "run_ok q Q r"
  shows "run_ok p Q r"
  using assms by (cases r) (auto intro: step_trans)

lemma run_ok_mono:
  assumes "run_ok p Q r" and "\<And>v q. parser_step p q \<Longrightarrow> Q v q \<Longrightarrow> R v q"
  shows "run_ok p R r"
  using assms by (cases r) auto

lemma run_ok_done: "parser_ok p \<Longrightarrow> Q v p \<Longrightarrow> run_ok p Q (Done v p)"
  by (simp add: step_refl)

lemma run_ok_check:
  assumes "run_ok p Q r" and "\<And>v q. parser_step p q \<Longrightarrow> parser_ok q \<Longrightarrow> Q v q \<Longrightarrow> run_ok q R (k v q)"
  shows "run_ok p R (check_parse r k)"
  using assms by (cases r) (auto simp: check_parse_def step_ok intro: run_ok_step)

lemma run_ok_advancing:
  assumes "parser_ok p"
    and "\<And>q. parser_step p q \<Longrightarrow> parser_ok q \<Longrightarrow> vars q = vars p \<Longrightarrow> current_token q = next_token p \<Longrightarrow>
      next_token q = next_token2 p \<Longrightarrow> next_token2 q = next_token3 p \<Longrightarrow> constant_pool q = constant_pool p \<Longrightarrow>
      parser_error q = parser_error p \<Longrightarrow> spent q \<le> spent p \<Longrightarrow> bytes_left q \<le> bytes_left p \<Longrightarrow>
      (tok_type (next_token p) = pEOF \<or> bytes_left q < bytes_left p \<and> spent q < spent p) \<Longrightarrow> run_ok q Q (k q)"
  shows "run_ok p Q (advancing p k)"
proof -
  obtain q where q: "rbs_parser_advance p = Some q" "parser_step p q" "vars q = vars p"
    "current_token q = next_token p" "next_token q = next_token2 p" "next_token2 q = next_token3 p"
    "constant_pool q = constant_pool p" "parser_error q = parser_error p" "spent q \<le> spent p"
    "tok_type (next_token p) \<noteq> pEOF \<Longrightarrow> bytes_left q < bytes_left p \<and> spent q < spent p"
    using advance_ok [OF assms(1)] by metis
  have "run_ok q Q (k q)"
    by (rule assms(2)) (use q step_ok [OF q(2)] in \<open>auto simp: parser_step_def\<close>)
  with q(1,2) show ?thesis by (simp add: advancing_def run_ok_step)
qed

lemma set_error_static [simp]:
  "lexer (rbs_parser_set_error p t s m) = lexer p" "current_token (rbs_parser_set_error p t s m) = current_token p"
  "next_token (rbs_parser_set_error p t s m) = next_token p" "next_token2 (rbs_parser_set_error p t s m) = next_token2 p"
  "next_token3 (rbs_parser_set_error p t s m) = next_token3 p" "vars (rbs_parser_set_error p t s m) = vars p"
  "constant_pool (rbs_parser_set_error p t s m) = constant_pool p"
  "enable_forwarding_params (rbs_parser_set_error p t s m) = enable_forwarding_params p"
  "bytes_left (rbs_parser_set_error p t s m) = bytes_left p" "spent (rbs_parser_set_error p t s m) = spent p"
  by (simp_all add: rbs_parser_set_error_def bytes_left_def spent_def split: option.splits)

lemma set_error_is_error [simp]: "parser_error (rbs_parser_set_error p t s m) \<noteq> None"
  "\<exists>e. parser_error (rbs_parser_set_error p t s m) = Some e"
  by (auto simp: rbs_parser_set_error_def split: option.splits)

lemma set_error_keeps: "parser_error p \<noteq> None \<Longrightarrow> parser_error (rbs_parser_set_error p t s m) = parser_error p"
  by (auto simp: rbs_parser_set_error_def)

lemma set_error_step [intro]: "parser_ok p \<Longrightarrow> parser_step p (rbs_parser_set_error p t s m)"
  using parser_ok_cong [of "rbs_parser_set_error p t s m" p] set_error_keeps [of p t s m]
  by (simp add: parser_step_def parser_ok_def)

subsection \<open>Progress\<close>

text \<open>
  How far a function has come since it started in \<open>p\<close>: \<open>within\<close>, names and bytes are not more; \<open>consumed\<close>, at least a token has been read;
  \<open>ahead\<close>, and there is a name of a token still to be interned.
\<close>

definition within :: "rbs_parser \<Rightarrow> rbs_parser \<Rightarrow> bool" where
  "within p q \<longleftrightarrow> parser_step p q \<and> spent q \<le> spent p"

definition consumed :: "rbs_parser \<Rightarrow> rbs_parser \<Rightarrow> bool" where
  "consumed p q \<longleftrightarrow>
     within p q \<and> bytes_left q < bytes_left p \<and> tok_begin (next_token p) \<le> tok_begin (current_token q)"

definition ahead :: "rbs_parser \<Rightarrow> rbs_parser \<Rightarrow> bool" where
  "ahead p q \<longleftrightarrow> consumed p q \<and> spent q < spent p"

text \<open>A function may start: there are fewer than \<open>m\<close> bytes left, and room for all names.\<close>

definition ready :: "nat \<Rightarrow> rbs_parser \<Rightarrow> bool" where
  "ready m p \<longleftrightarrow> parser_ok p \<and> roomy p \<and> bytes_left p < m"

lemma within_refl [simp]: "parser_ok p \<Longrightarrow> within p p"
  by (simp add: within_def step_refl)

lemma within_trans: "within p q \<Longrightarrow> within q r \<Longrightarrow> within p r"
  by (auto simp: within_def intro: step_trans)

lemma consumed_within: "consumed p q \<Longrightarrow> within p q"
  by (simp add: consumed_def)

lemma ahead_consumed: "ahead p q \<Longrightarrow> consumed p q"
  by (simp add: ahead_def)

lemma within_ok: "within p q \<Longrightarrow> parser_ok q"
  by (simp add: within_def parser_step_def)

lemma within_consumed: "within p q \<Longrightarrow> consumed q r \<Longrightarrow> consumed p r"
  unfolding consumed_def by (auto simp: within_trans) (auto simp: within_def parser_step_def)

lemma consumed_trans: "consumed p q \<Longrightarrow> within q r \<Longrightarrow> consumed p r"
  unfolding consumed_def by (auto simp: within_trans) (auto simp: within_def parser_step_def)

lemma within_ready: "within p q \<Longrightarrow> ready m p \<Longrightarrow> ready m q"
  by (auto simp: ready_def within_def parser_step_def roomy_def)

lemma consumed_ready: "consumed p q \<Longrightarrow> ready (Suc m) p \<Longrightarrow> ready m q"
  by (auto simp: ready_def within_def parser_step_def roomy_def consumed_def)

lemma ready_ok: "ready m p \<Longrightarrow> parser_ok p"
  by (simp add: ready_def)

lemma within_pos: "within p q \<Longrightarrow> tok_end (current_token p) \<le> tok_end (current_token q)"
  "within p q \<Longrightarrow> tok_begin (current_token p) \<le> tok_begin (current_token q)"
  "within p q \<Longrightarrow> tok_begin (next_token p) \<le> tok_begin (next_token q)"
  by (simp_all add: within_def parser_step_def)

lemma set_error_within: "within p q \<Longrightarrow> within p (rbs_parser_set_error q t s m)"
  by (rule within_trans) (auto simp: within_def set_error_step dest: step_ok)

subsection \<open>Rules\<close>

text \<open>
  The rules prove \<open>run_ok p Q\<close> of the rest of a function that started in \<open>p\<close>. A call is made
  from a parser \<open>q\<close> the function has come to.
\<close>

definition reads :: "rbs_parser \<Rightarrow> (rbs_parser \<Rightarrow> 'a \<Rightarrow> rbs_parser \<Rightarrow> bool) \<Rightarrow> 'a outcome \<Rightarrow> bool" where
  "reads p V r \<longleftrightarrow> run_ok p (\<lambda>v q. consumed p q \<and> vars q = vars p \<and> V p v q) r"

text \<open>A function that starts on a token the caller has advanced to.\<close>

definition reads_on :: "rbs_parser \<Rightarrow> (rbs_parser \<Rightarrow> 'a \<Rightarrow> rbs_parser \<Rightarrow> bool) \<Rightarrow> 'a outcome \<Rightarrow> bool" where
  "reads_on p V r \<longleftrightarrow>
     run_ok p (\<lambda>v q. vars q = vars p \<and> spent q \<le> spent p + 1 \<and> V p v q) r"

text \<open>A function that may read nothing.\<close>

definition may_read :: "rbs_parser \<Rightarrow> (rbs_parser \<Rightarrow> 'a \<Rightarrow> rbs_parser \<Rightarrow> bool) \<Rightarrow> 'a outcome \<Rightarrow> bool" where
  "may_read p V r \<longleftrightarrow> run_ok p (\<lambda>v q. within p q \<and> vars q = vars p \<and> V p v q) r"

lemma run_ok_within: "within p q \<Longrightarrow> run_ok q Q r \<Longrightarrow> run_ok p Q r"
  by (rule run_ok_step) (simp_all add: within_def)

lemma run_ok_if:
  "(b \<Longrightarrow> run_ok p Q x) \<Longrightarrow> (\<not> b \<Longrightarrow> run_ok p Q y) \<Longrightarrow> run_ok p Q (if b then x else y)"
  by simp

lemma run_ok_let: "(\<And>x. x = e \<Longrightarrow> run_ok p Q (f x)) \<Longrightarrow> run_ok p Q (let x = e in f x)"
  by (simp add: Let_def)

lemma run_ok_return: "within p q \<Longrightarrow> Q v q \<Longrightarrow> run_ok p Q (Done v q)"
  by (simp add: within_def)

lemma run_ok_fail: "within p q \<Longrightarrow> run_ok p Q (fail_with q t s m)"
  using set_error_within [of p q t s m] by (simp add: fail_with_def within_def)

lemma run_ok_call:
  assumes "reads q V r" and w: "within p q"
    and k: "\<And>v q'. consumed p q' \<Longrightarrow> within p q' \<Longrightarrow> within q q' \<Longrightarrow>
      vars q' = vars q \<Longrightarrow> tok_end (current_token q) \<le> tok_end (current_token q') \<Longrightarrow> V q v q' \<Longrightarrow> run_ok p Q (k v q')"
  shows "run_ok p Q (check_parse r k)"
proof (cases r)
  case (Done v q')
  with assms(1) have "consumed q q'" "vars q' = vars q" "V q v q'" by (simp_all add: reads_def)
  with Done show ?thesis by (simp add: check_parse_def k consumed_within within_consumed [OF w] within_pos)
qed (use assms(1) w in \<open>auto simp: check_parse_def reads_def within_def intro: step_trans\<close>)

lemma run_ok_call_on:
  assumes "reads_on q V r" and w: "ahead p q"
    and k: "\<And>v q'. consumed p q' \<Longrightarrow> within p q' \<Longrightarrow> parser_step q q' \<Longrightarrow>
      vars q' = vars q \<Longrightarrow> tok_end (current_token q) \<le> tok_end (current_token q') \<Longrightarrow> V q v q' \<Longrightarrow> run_ok p Q (k v q')"
  shows "run_ok p Q (check_parse r k)"
proof (cases r)
  case (Done v q')
  with assms(1) have q': "parser_step q q'" "vars q' = vars q" "spent q' \<le> spent q + 1" "V q v q'"
    by (auto simp: reads_on_def)
  have "parser_step p q'"
    using w q'(1) by (auto simp: ahead_def consumed_def within_def intro: step_trans)
  then have "within p q'" using w q' by (auto simp: ahead_def consumed_def within_def)
  with w q'(1) have "consumed p q'" by (auto simp: ahead_def consumed_def parser_step_def)
  moreover note \<open>within p q'\<close>
  moreover have "tok_end (current_token q) \<le> tok_end (current_token q')" using q'(1) by (simp add: parser_step_def)
  ultimately show ?thesis using Done q' k by (simp add: check_parse_def)
qed (use assms(1) w in \<open>auto simp: check_parse_def reads_on_def ahead_def consumed_def within_def intro: step_trans\<close>)

lemma run_ok_may_call:
  assumes "may_read q V r" and w: "within p q"
    and k: "\<And>v q'. within p q' \<Longrightarrow> within q q' \<Longrightarrow>
      vars q' = vars q \<Longrightarrow> tok_end (current_token q) \<le> tok_end (current_token q') \<Longrightarrow> V q v q' \<Longrightarrow> run_ok p Q (k v q')"
  shows "run_ok p Q (check_parse r k)"
proof (cases r)
  case (Done v q')
  with assms(1) have "within q q'" "vars q' = vars q" "V q v q'" by (simp_all add: may_read_def)
  with Done show ?thesis by (simp add: check_parse_def k within_trans [OF w] within_pos)
qed (use assms(1) w in \<open>auto simp: check_parse_def may_read_def within_def intro: step_trans\<close>)

lemma run_ok_advance:
  assumes "within p q"
    and "\<And>q'. within p q' \<Longrightarrow> within q q' \<Longrightarrow>
      vars q' = vars q \<Longrightarrow> tok_end (current_token q) \<le> tok_end (current_token q') \<Longrightarrow> (tok_type (current_token q') \<noteq> pEOF \<Longrightarrow> ahead p q' \<and> ahead q q') \<Longrightarrow>
      next_token q = current_token q' \<Longrightarrow> next_token2 q = next_token q' \<Longrightarrow> next_token3 q = next_token2 q' \<Longrightarrow>
      run_ok p Q (k q')"
  shows "run_ok p Q (advancing q k)"
proof -
  obtain q' where q': "rbs_parser_advance q = Some q'" "parser_step q q'" "vars q' = vars q"
    "current_token q' = next_token q" "next_token q' = next_token2 q" "next_token2 q' = next_token3 q" "spent q' \<le> spent q"
    "tok_type (next_token q) \<noteq> pEOF \<Longrightarrow> bytes_left q' < bytes_left q \<and> spent q' < spent q"
    using advance_ok [OF within_ok [OF assms(1)]] by metis
  from q' have "within q q'" by (simp add: within_def)
  moreover from this have "ahead q q'" if "tok_type (current_token q') \<noteq> pEOF"
    using that q' calculation by (simp add: ahead_def consumed_def)
  moreover have "ahead p q'" if "ahead q q'"
    using that assms(1) within_consumed by (auto simp: ahead_def within_def)
  ultimately have "run_ok p Q (k q')"
    using q' within_pos(1) [OF \<open>within q q'\<close>] by (intro assms(2)) (auto intro: within_trans [OF assms(1)])
  then show ?thesis using q'(1) by (simp add: advancing_def)
qed

lemma run_ok_advance_on:
  assumes "within p q" and "tok_type (next_token q) \<noteq> pEOF"
    and "\<And>q'. ahead p q' \<Longrightarrow> consumed p q' \<Longrightarrow> within p q' \<Longrightarrow> within q q' \<Longrightarrow>
      vars q' = vars q \<Longrightarrow> tok_end (current_token q) \<le> tok_end (current_token q') \<Longrightarrow> ahead q q' \<Longrightarrow>
      next_token q = current_token q' \<Longrightarrow> next_token2 q = next_token q' \<Longrightarrow>
      next_token3 q = next_token2 q' \<Longrightarrow> run_ok p Q (k q')"
  shows "run_ok p Q (advancing q k)"
  by (rule run_ok_advance) (use assms in \<open>auto intro!: assms(3) simp: ahead_def\<close>)

lemma run_ok_assert:
  assumes "within p q" and "tok_type (current_token q) = t \<Longrightarrow> run_ok p Q (k q)"
  shows "run_ok p Q (assert_token q t k)"
  using assms by (auto simp: assert_token_def intro: run_ok_fail)

lemma run_ok_advance_assert:
  assumes "within p q" and "t \<noteq> pEOF"
    and "\<And>q'. ahead p q' \<Longrightarrow> consumed p q' \<Longrightarrow> within p q' \<Longrightarrow> within q q' \<Longrightarrow>
      vars q' = vars q \<Longrightarrow> tok_end (current_token q) \<le> tok_end (current_token q') \<Longrightarrow> ahead q q' \<Longrightarrow>
      next_token q = current_token q' \<Longrightarrow> next_token2 q = next_token q' \<Longrightarrow>
      next_token3 q = next_token2 q' \<Longrightarrow> tok_type (current_token q') = t \<Longrightarrow> run_ok p Q (k q')"
  shows "run_ok p Q (advance_assert q t k)"
  unfolding advance_assert_def
  using assms by (intro run_ok_advance run_ok_assert) (auto simp: ahead_def)

lemma run_ok_advance_if:
  assumes "within p q" and "t \<noteq> pEOF"
    and "\<And>q'. ahead p q' \<Longrightarrow> consumed p q' \<Longrightarrow> within p q' \<Longrightarrow> within q q' \<Longrightarrow>
      vars q' = vars q \<Longrightarrow> tok_end (current_token q) \<le> tok_end (current_token q') \<Longrightarrow> ahead q q' \<Longrightarrow>
      next_token q = current_token q' \<Longrightarrow> next_token2 q = next_token q' \<Longrightarrow>
      next_token3 q = next_token2 q' \<Longrightarrow> tok_type (current_token q') = t \<Longrightarrow> run_ok p Q (k True q')"
    and "tok_type (next_token q) \<noteq> t \<Longrightarrow> run_ok p Q (k False q)"
  shows "run_ok p Q (parser_advance_if q t k)"
  unfolding parser_advance_if_def
  using assms by (intro run_ok_if run_ok_advance) (auto simp: ahead_def)

lemma run_ok_no_gap:
  assumes "within p q"
    and "\<And>q'. within p q' \<Longrightarrow> within q q' \<Longrightarrow> vars q' = vars q \<Longrightarrow> run_ok p Q (k q')"
  shows "run_ok p Q (parser_advance_no_gap q k)"
  unfolding parser_advance_no_gap_def
  using assms set_error_within [OF within_refl [OF within_ok [OF assms(1)]]]
  by (intro run_ok_if run_ok_advance assms(2)) (auto intro: set_error_within)

text \<open>Interning: the window does not move, and there may be one name more.\<close>

lemma insert_shared_ok:
  assumes "pool_inv pool" and "unat (pool_size pool) + 1 < 2 ^ 30"
  shows "\<exists>i pool'. rbs_constant_pool_insert_shared (\<lambda>_. True) pool c = Inr (i, pool') \<and> pool_inv pool' \<and>
    take (length (pool_contents pool)) (pool_contents pool') = pool_contents pool \<and>
    unat (pool_size pool') \<le> unat (pool_size pool) + 1 \<and>
    pool_contents pool' ! (unat i - 1) = c_bytes c \<and> 0 < unat i \<and> unat i \<le> length (pool_contents pool')"
proof -
  have "\<exists>i pool'. rbs_constant_pool_insert_shared (\<lambda>_. True) pool c = Inr (i, pool') \<and> pool_inv pool' \<and>
      pool_contents pool' = (if c_bytes c \<in> set (pool_contents pool) then pool_contents pool else pool_contents pool @ [c_bytes c]) \<and>
      unat i = intern_id (pool_contents pool') (c_bytes c)"
    using insert_value [OF assms(1), of 0 "\<lambda>_. True" c] assms(2)
    by (auto simp: rbs_constant_pool_insert_shared_def RBS_CONSTANT_POOL_BUCKET_DEFAULT_def)
  then obtain i pool' where r: "rbs_constant_pool_insert_shared (\<lambda>_. True) pool c = Inr (i, pool')" "pool_inv pool'"
    "pool_contents pool' = (if c_bytes c \<in> set (pool_contents pool) then pool_contents pool else pool_contents pool @ [c_bytes c])"
    "unat i = intern_id (pool_contents pool') (c_bytes c)" by (elim exE conjE) (rule that)
  have len: "length (pool_contents pool) = unat (pool_size pool)" "length (pool_contents pool') = unat (pool_size pool')"
    using assms(1) r(2) length_pool_contents by (auto simp: pool_inv_def)
  have mem: "c_bytes c \<in> set (pool_contents pool')" using r(3) by auto
  have "0 < intern_id (pool_contents pool') (c_bytes c)" by (metis gr0I intern_id_0 mem)
  then show ?thesis
    using r len mem intern_id_nth [OF mem] intern_id_le [of "pool_contents pool'" "c_bytes c"]
    by (intro exI [of _ i] exI [of _ pool']) (auto split: if_splits)
qed

definition name_of :: "rbs_parser \<Rightarrow> 32 word \<Rightarrow> byte list" where
  "name_of p i = pool_contents (constant_pool p) ! (unat i - 1)"

definition names :: "rbs_parser \<Rightarrow> 32 word \<Rightarrow> bool" where
  "names p i \<longleftrightarrow> 0 < unat i \<and> unat i \<le> length (pool_contents (constant_pool p))"

lemma interning_ok:
  assumes ok: "parser_ok q" and "spent q + 1 < 1073741824"
  obtains i q' where "interning q c k = k i q'" "parser_step q q'" "vars q' = vars q" "spent q' \<le> spent q + 1"
    "bytes_left q' = bytes_left q" "lexer q' = lexer q"
    "current_token q' = current_token q" "next_token q' = next_token q" "next_token2 q' = next_token2 q"
    "next_token3 q' = next_token3 q" "names q' i" "name_of q' i = c_bytes c"
proof -
  have "pool_inv (constant_pool q)" "unat (pool_size (constant_pool q)) + 1 < 2 ^ 30"
    using assms by (simp_all add: parser_ok_def spent_def)
  from insert_shared_ok [OF this, of c] obtain i pool' where
    r: "rbs_constant_pool_insert_shared (\<lambda>_. True) (constant_pool q) c = Inr (i, pool')" "pool_inv pool'"
      "take (length (pool_contents (constant_pool q))) (pool_contents pool') = pool_contents (constant_pool q)"
      "unat (pool_size pool') \<le> unat (pool_size (constant_pool q)) + 1"
      "pool_contents pool' ! (unat i - 1) = c_bytes c" "0 < unat i" "unat i \<le> length (pool_contents pool')"
    by (elim exE conjE) (rule that)
  let ?q = "q\<lparr>constant_pool := pool'\<rparr>"
  have "parser_ok ?q" using parser_ok_cong [of ?q q] ok r(2) by simp
  then have "parser_step q ?q" using r(3) by (simp add: parser_step_def bytes_left_def)
  moreover have "spent ?q \<le> spent q + 1" using r(4) by (simp add: spent_def)
  moreover have "interning q c k = k i ?q" using r(1) by (simp add: interning_def)
  ultimately show ?thesis
    using r by (intro that [of i ?q]) (simp_all add: bytes_left_def name_of_def names_def)
qed

lemma run_ok_interning:
  assumes "ahead p q" and "ready m p"
    and "\<And>i q'. consumed p q' \<Longrightarrow> within p q' \<Longrightarrow> parser_step q q' \<Longrightarrow> vars q' = vars q \<Longrightarrow> lexer q' = lexer q \<Longrightarrow>
      current_token q' = current_token q \<Longrightarrow> next_token q' = next_token q \<Longrightarrow> next_token2 q' = next_token2 q \<Longrightarrow>
      next_token3 q' = next_token3 q \<Longrightarrow> names q' i \<Longrightarrow> name_of q' i = c_bytes c \<Longrightarrow> run_ok p Q (k i q')"
  shows "run_ok p Q (interning q c k)"
proof -
  have "parser_ok q" "spent q + 1 < 1073741824"
    using assms(1,2) by (auto simp: ahead_def consumed_def within_def ready_def roomy_def dest: step_ok)
  then obtain i q' where q': "interning q c k = k i q'" "parser_step q q'" "vars q' = vars q" "spent q' \<le> spent q + 1"
    "bytes_left q' = bytes_left q" "lexer q' = lexer q"
    "current_token q' = current_token q" "next_token q' = next_token q" "next_token2 q' = next_token2 q"
    "next_token3 q' = next_token3 q" "names q' i" "name_of q' i = c_bytes c" by (rule interning_ok)
  have "parser_step p q'" using assms(1) q'(2) by (auto simp: ahead_def consumed_def within_def intro: step_trans)
  then have "consumed p q'" "within p q'" using assms(1) q' by (auto simp: ahead_def consumed_def within_def)
  with assms(3) q' show ?thesis by simp
qed

lemma run_ok_intern_advance:
  assumes w: "within p q" and "ready m p" and ne: "tok_type (next_token q) \<noteq> pEOF"
    and k: "\<And>i q0 q'. consumed p q' \<Longrightarrow> consumed q q' \<Longrightarrow> within p q' \<Longrightarrow> within q q' \<Longrightarrow> vars q' = vars q \<Longrightarrow>
      next_token q = current_token q' \<Longrightarrow> next_token2 q = next_token q' \<Longrightarrow> run_ok p Q (k i q0 q')"
  shows "run_ok p Q (interning q c (\<lambda>i q0. advancing q0 (k i q0)))"
proof -
  have ok: "parser_ok q" "spent q + 1 < 1073741824"
    using assms(1,2) within_ok by (auto simp: within_def ready_def roomy_def)
  obtain i q0 where
    q0: "interning q c (\<lambda>i q0. advancing q0 (k i q0)) = advancing q0 (k i q0)" "parser_step q q0" "vars q0 = vars q"
      "spent q0 \<le> spent q + 1" "bytes_left q0 = bytes_left q" "current_token q0 = current_token q"
      "next_token q0 = next_token q" "next_token2 q0 = next_token2 q"
    by (rule interning_ok [OF ok, of c "\<lambda>i q0. advancing q0 (k i q0)"]) (rule that)
  obtain q' where q': "rbs_parser_advance q0 = Some q'" "parser_step q0 q'" "vars q' = vars q0"
    "current_token q' = next_token q0" "next_token q' = next_token2 q0"
    "tok_type (next_token q0) \<noteq> pEOF \<Longrightarrow> bytes_left q' < bytes_left q0 \<and> spent q' < spent q0"
    using advance_ok [OF step_ok [OF q0(2)]] by metis
  have "within q q'" using q' q0 ne by (auto simp: within_def intro: step_trans)
  moreover from this have "consumed q q'" using q' q0 ne by (auto simp: consumed_def)
  ultimately have "run_ok p Q (k i q0 q')"
    using q' q0 within_trans [OF w] within_consumed [OF w] by (intro k) auto
  then show ?thesis using q0(1) q'(1) by (simp add: advancing_def)
qed

text \<open>A function that starts on a token may intern the name of that token.\<close>

definition ready_on :: "nat \<Rightarrow> rbs_parser \<Rightarrow> bool" where
  "ready_on m p \<longleftrightarrow> parser_ok p \<and> spent p + 3 < 1073741824 \<and> bytes_left p < m"

lemma ready_on_ready: "ready_on m p \<Longrightarrow> ready m p"
  by (simp add: ready_on_def ready_def roomy_def)

lemma ahead_ready_on: "ahead p q \<Longrightarrow> ready (Suc m) p \<Longrightarrow> ready_on m q"
  by (auto simp: ready_on_def ready_def roomy_def ahead_def consumed_def within_def dest: step_ok)

lemma ahead_ready_on': "ahead p q \<Longrightarrow> ready m p \<Longrightarrow> ready_on m q"
  by (auto simp: ready_on_def ready_def roomy_def ahead_def consumed_def within_def dest: step_ok)

lemma ahead_within: "ahead p q \<Longrightarrow> within q r \<Longrightarrow> ahead p r"
  using consumed_trans [of p q r] by (simp add: ahead_def) (simp add: within_def)

lemma run_ok_intern_return:
  assumes w: "within p q" and "ready m p"
    and Q: "\<And>i q'. parser_step p q' \<Longrightarrow> parser_step q q' \<Longrightarrow> vars q' = vars q \<Longrightarrow> spent q' \<le> spent p + 1 \<Longrightarrow>
      current_token q' = current_token q \<Longrightarrow> next_token q' = next_token q \<Longrightarrow> Q (v i) q'"
  shows "run_ok p Q (interning q c (\<lambda>i q. Done (v i) q))"
proof -
  have ok: "parser_ok q" "spent q + 1 < 1073741824"
    using assms(1,2) within_ok by (auto simp: within_def ready_def roomy_def)
  obtain i q' where
    q': "interning q c (\<lambda>i q. Done (v i) q) = Done (v i) q'" "parser_step q q'" "vars q' = vars q"
      "spent q' \<le> spent q + 1" "current_token q' = current_token q" "next_token q' = next_token q"
    by (rule interning_ok [OF ok, of c "\<lambda>i q. Done (v i) q"]) (rule that)
  have "parser_step p q'" using w q'(2) by (auto simp: within_def intro: step_trans)
  with q' w show ?thesis by (auto simp: within_def run_ok.simps intro!: Q)
qed

text \<open>Contracts used as others.\<close>

lemma reads_may_read: "reads p V r \<Longrightarrow> may_read p V r"
  unfolding reads_def may_read_def by (erule run_ok_mono) (simp add: consumed_within)

lemma may_read_reads: "may_read p (\<lambda>p v q. consumed p q \<and> V p v q) r \<Longrightarrow> reads p V r"
  unfolding reads_def may_read_def by (erule run_ok_mono) simp

lemma may_read_reads_on: "may_read p V r \<Longrightarrow> reads_on p V r"
  unfolding may_read_def reads_on_def by (erule run_ok_mono) (simp add: within_def)

lemma run_ok_advance_to:
  assumes "ahead p q" and "reads_on q V r" and "\<And>v q'. consumed p q' \<Longrightarrow> parser_step q q' \<Longrightarrow> vars q' = vars q \<Longrightarrow> V q v q' \<Longrightarrow> Q v q'"
  shows "run_ok p Q r"
proof -
  have "run_ok p Q (check_parse r Done)"
    by (rule run_ok_call_on [OF assms(2,1)]) (auto simp: run_ok.simps consumed_def within_def intro!: assms(3))
  moreover have "check_parse r Done = r" by (cases r) (simp_all add: check_parse_def)
  ultimately show ?thesis by simp
qed

text \<open>Loops: a round that goes on has read a token.\<close>

lemma run_ok_loop:
  assumes round: "\<And>s q. within p q \<Longrightarrow> I s q \<Longrightarrow>
      run_ok q (\<lambda>r q'. within q q' \<and> (case r of Inl s' \<Rightarrow> I s' q' \<and> consumed q q' | Inr v \<Rightarrow> J v q')) (body s q)"
  shows "bytes_left q < fuel \<Longrightarrow> within p q \<Longrightarrow> I s q \<Longrightarrow> run_ok q (\<lambda>v q'. within q q' \<and> J v q') (parse_loop fuel body s q)"
proof (induction fuel arbitrary: s q)
  case (Suc fuel)
  show ?case
    unfolding parse_loop.simps
  proof (rule run_ok_check [OF round [OF Suc.prems(2,3)]], elim conjE)
    fix r q' assume q': "parser_ok q'" "within q q'" and r: "case r of Inl s' \<Rightarrow> I s' q' \<and> consumed q q' | Inr v \<Rightarrow> J v q'"
    show "run_ok q' (\<lambda>v qa. within q qa \<and> J v qa) (case r of Inl s' \<Rightarrow> parse_loop fuel body s' q' | Inr v \<Rightarrow> Done v q')"
    proof (cases r)
      case (Inl s')
      with r Suc.prems have "run_ok q' (\<lambda>v qa. within q' qa \<and> J v qa) (parse_loop fuel body s' q')"
        by (intro Suc.IH) (auto simp: consumed_def intro: within_trans)
      with Inl q'(2) show ?thesis by (auto elim!: run_ok_mono intro: within_trans)
    next
      case (Inr v)
      with r q' show ?thesis by (simp add: step_refl)
    qed
  qed
qed simp

text \<open>A round of a loop that leaves the type variables as they are.\<close>

definition round_post ::
  "('s \<Rightarrow> rbs_parser \<Rightarrow> bool) \<Rightarrow> ('b \<Rightarrow> rbs_parser \<Rightarrow> bool) \<Rightarrow> rbs_parser \<Rightarrow> ('s + 'b) \<Rightarrow> rbs_parser \<Rightarrow> bool"
where
  "round_post I J q r q' \<longleftrightarrow>
     within q q' \<and> vars q' = vars q \<and> (case r of Inl s \<Rightarrow> I s q' \<and> consumed q q' | Inr v \<Rightarrow> J v q')"

lemma round_post_simps [simp]:
  "round_post I J q (Inl s) q' \<longleftrightarrow> vars q' = vars q \<and> I s q' \<and> consumed q q'"
  "round_post I J q (Inr v) q' \<longleftrightarrow> vars q' = vars q \<and> within q q' \<and> J v q'"
  by (auto simp: round_post_def consumed_within)

lemma while_rule:
  assumes w: "within p q" and I: "I s q"
    and round: "\<And>s q. within p q \<Longrightarrow> I s q \<Longrightarrow> run_ok q (round_post I J q) (body s q)"
  shows "may_read q (\<lambda>_. J) (while_true body s q)"
  unfolding may_read_def while_true_def
proof (rule run_ok_loop [where p = p and I = "\<lambda>s q'. vars q' = vars q \<and> I s q'"])
  fix s' q' assume q': "within p q'" "vars q' = vars q \<and> I s' q'"
  then have "run_ok q' (round_post I J q') (body s' q')" using round by simp
  then show "run_ok q' (\<lambda>r q''. within q' q'' \<and>
      (case r of Inl s' \<Rightarrow> (vars q'' = vars q \<and> I s' q'') \<and> consumed q' q'' | Inr v \<Rightarrow> vars q'' = vars q \<and> J v q'')) (body s' q')"
    by (rule run_ok_mono) (use q' in \<open>auto simp: round_post_def split: sum.splits\<close>)
qed (use w I in auto)

declare run_ok.simps [simp del]

end
