(* ===== verification/TypeParserSpec.thy ===== *)
theory TypeParserSpec
  imports TypeParser TypeTree ParserSpec
begin

text \<open>
  The contracts of the parser of types. The functions are proved correct once, in the locale
  \<open>simple_parser\<close>, for any \<open>parse_simple\<close> that keeps its contract on a parser with fewer than
  \<open>m\<close> bytes left; \<open>parse_simple_fuel\<close> is then an instance of the locale for every fuel.
\<close>

definition type_post :: "bool \<Rightarrow> bool \<Rightarrow> bool \<Rightarrow> rbs_parser \<Rightarrow> rbs_node \<Rightarrow> rbs_parser \<Rightarrow> bool" where
  "type_post v s c p n q \<longleftrightarrow> tree_ok v s c (tok_begin (next_token p)) (tok_end (current_token q)) n"

definition types_post :: "bool \<Rightarrow> bool \<Rightarrow> bool \<Rightarrow> rbs_parser \<Rightarrow> rbs_node list \<Rightarrow> rbs_parser \<Rightarrow> bool" where
  "types_post v s c p ns q \<longleftrightarrow> trees_ok v s c (tok_begin (next_token p)) (tok_end (current_token q)) ns"

text \<open>The tokens a literal type starts with, and the cast of \<open>parse_record_attributes\<close>.\<close>

definition literal_tokens :: "RBSTokenType set" where
  "literal_tokens = {tSYMBOL, tSQSYMBOL, tDQSYMBOL, tSQSTRING, tDQSTRING, tINTEGER, kTRUE, kFALSE}"

definition is_literal :: "rbs_node \<Rightarrow> bool" where
  "is_literal n \<longleftrightarrow> (\<exists>l x. n = Types_Literal l x)"

definition simple_post :: "bool \<Rightarrow> bool \<Rightarrow> bool \<Rightarrow> rbs_parser \<Rightarrow> rbs_node \<Rightarrow> rbs_parser \<Rightarrow> bool" where
  "simple_post v s c p n q \<longleftrightarrow> type_post v s c p n q \<and> (next_type p \<in> literal_tokens \<longrightarrow> is_literal n)"

lemma location_from_bytes [simp]:
  "start_byte (location_from a b) = byte_pos a" "end_byte (location_from a b) = byte_pos b"
  "start_byte (RBS_RANGE_LEX2AST r) = byte_pos (r_start r)" "end_byte (RBS_RANGE_LEX2AST r) = byte_pos (r_end r)"
  "between lo hi (location_from a b) \<longleftrightarrow> lo \<le> byte_pos a \<and> byte_pos a \<le> byte_pos b \<and> byte_pos b \<le> hi"
  "between lo hi (RBS_RANGE_LEX2AST r) \<longleftrightarrow>
     lo \<le> byte_pos (r_start r) \<and> byte_pos (r_start r) \<le> byte_pos (r_end r) \<and> byte_pos (r_end r) \<le> hi"
  by (simp_all add: location_from_def RBS_RANGE_LEX2AST_def between_def)

subsection \<open>Positions\<close>

text \<open>Values made before stay within bounds when the parser goes on.\<close>

lemma type_post_start: "within p q \<Longrightarrow> type_post v s c q n r \<Longrightarrow> type_post v s c p n r"
  by (auto simp: type_post_def dest: within_pos(3) intro: tree_ok_mono)

lemma type_post_later: "type_post v s c p n q \<Longrightarrow> within q r \<Longrightarrow> type_post v s c p n r"
  by (auto simp: type_post_def dest: within_pos(1) intro: tree_ok_mono)

lemma types_post_start: "within p q \<Longrightarrow> types_post v s c q n r \<Longrightarrow> types_post v s c p n r"
  by (auto simp: types_post_def dest: within_pos(3) intro: trees_ok_mono)

lemma types_post_later: "types_post v s c p n q \<Longrightarrow> within q r \<Longrightarrow> types_post v s c p n r"
  by (auto simp: types_post_def dest: within_pos(1) intro: trees_ok_mono)

lemma types_post_simps [simp]:
  "types_post v s c p [] q"
  "types_post v s c p (n # ns) q \<longleftrightarrow> type_post v s c p n q \<and> types_post v s c p ns q"
  "types_post v s c p (ns @ ns') q \<longleftrightarrow> types_post v s c p ns q \<and> types_post v s c p ns' q"
  by (simp_all add: types_post_def type_post_def)

lemma type_post_not_void: "type_post v s c p n q \<Longrightarrow> \<not> (v \<and> is_void n) \<Longrightarrow> type_post False s c p n q"
  by (cases v) (auto simp: type_post_def intro: tree_ok_not_void)

lemma consumed_order: "consumed p q \<Longrightarrow> tok_begin (next_token p) \<le> tok_end (current_token q)"
  using window_order(8) [of q] within_ok [of p q] by (auto simp: consumed_def)


lemma type_post_mono:
  "type_post v s c p n q \<Longrightarrow> within q r \<Longrightarrow> within p' p \<Longrightarrow> type_post v s c p' n r"
  by (blast intro: type_post_start type_post_later)

lemma type_post_later_not_void:
  "type_post v s c p n q \<Longrightarrow> within q r \<Longrightarrow> \<not> is_void n \<Longrightarrow> type_post v' s c p n r"
  by (auto simp: type_post_def dest: within_pos(1) intro: tree_ok_mono tree_ok_not_void)

lemma type_post_optional:
  assumes "consumed p q" and "type_post False s c p n q"
  shows "type_post v s c p (rbs_types_optional_new (location_from (next_start p) (current_end q)) n) q"
  using assms consumed_order by (simp add: type_post_def rbs_types_optional_new_def)

lemma type_post_intersection:
  assumes "consumed p q" and "types_post False s c p ns q"
  shows "type_post v s c p (rbs_types_intersection_new (location_from (next_start p) (current_end q)) ns) q"
  using assms consumed_order by (simp add: type_post_def types_post_def rbs_types_intersection_new_def)

lemma type_post_union:
  assumes "consumed p q" and "types_post False s c p ns q"
  shows "type_post v s c p (rbs_types_union_new (location_from (next_start p) (current_end q)) ns) q"
  using assms consumed_order by (simp add: type_post_def types_post_def rbs_types_union_new_def)

text \<open>The operands of an intersection or a union: only a single one may be \<open>void\<close>.\<close>

definition operands ::
  "bool \<Rightarrow> bool \<Rightarrow> bool \<Rightarrow> rbs_parser \<Rightarrow> rbs_node \<Rightarrow> rbs_node list \<Rightarrow> rbs_parser \<Rightarrow> bool"
where
  "operands v s c p n ns q \<longleftrightarrow>
     consumed p q \<and> type_post v s c p n q \<and> (ns = [n] \<or> 1 < length ns \<and> types_post False s c p ns q)"

lemma operands_later: "operands v s c p n ns q \<Longrightarrow> within q r \<Longrightarrow> operands v s c p n ns r"
  by (auto simp: operands_def intro: consumed_trans type_post_later types_post_later)

lemma operands_first: "consumed p q \<Longrightarrow> type_post v s c p n q \<Longrightarrow> operands v s c p n (rbs_node_list_append rbs_node_list_new n) q"
  by (simp add: operands_def rbs_node_list_append_def rbs_node_list_new_def)

lemma operands_next:
  assumes "operands v s c p n ns q" and "within p q'" "within q r" and "\<not> (v \<and> is_void n)" and "type_post False s c q' x r"
  shows "operands v s c p n (rbs_node_list_append ns x) r"
proof -
  have "type_post False s c p n r" "type_post False s c p x r"
    using assms by (auto simp: operands_def intro: type_post_later_not_void type_post_start dest: type_post_not_void type_post_later)
  with operands_later [OF assms(1,3)] show ?thesis by (auto simp: operands_def rbs_node_list_append_def)
qed

lemma operands_many: "operands v s c p n ns q \<Longrightarrow> 1 < length ns \<Longrightarrow> types_post False s c p ns q"
  and operands_one: "operands v s c p n ns q \<Longrightarrow> type_post v s c p n q"
  and operands_consumed: "operands v s c p n ns q \<Longrightarrow> consumed p q"
  by (auto simp: operands_def)

lemma while_reads:
  assumes "parser_ok p" and "I s p"
    and "\<And>s q. within p q \<Longrightarrow> I s q \<Longrightarrow> run_ok q (round_post I (\<lambda>v q. consumed p q \<and> V p v q) q) (body s q)"
  shows "reads p V (while_true body s p)"
  using while_rule [OF within_refl [OF assms(1)] assms(2,3)] unfolding reads_def may_read_def
  by (rule run_ok_mono) auto

lemma while_may_read:
  assumes "parser_ok p" and "I s p"
    and "\<And>s q. within p q \<Longrightarrow> I s q \<Longrightarrow> run_ok q (round_post I (V p) q) (body s q)"
  shows "may_read p V (while_true body s p)"
  using while_rule [OF within_refl [OF assms(1)] assms(2,3)] unfolding may_read_def
  by (rule run_ok_mono) auto

lemmas progress_intros = consumed_within ahead_consumed consumed_trans within_consumed
  within_trans within_ready consumed_ready

subsection \<open>Type names\<close>

definition path_ok :: "rbs_parser \<Rightarrow> rbs_ast_symbol list \<Rightarrow> rbs_parser \<Rightarrow> bool" where
  "path_ok p path q \<longleftrightarrow>
     (\<forall>y\<in>set path. between (tok_begin (current_token p)) (tok_end (current_token q)) (sym_location y))"

text \<open>The range of a type name is from the first token to the current one, which is of a kind that is expected.\<close>

definition name_token :: "TypeNameKind set \<Rightarrow> RBSTokenType \<Rightarrow> bool" where
  "name_token kind type \<longleftrightarrow>
     type \<in> {tLIDENT, kSKIP, kRETURN} \<and> ALIAS_NAME \<in> kind \<or> type = tULIDENT \<and> INTERFACE_NAME \<in> kind \<or>
     type = tUIDENT \<and> CLASS_NAME \<in> kind"

definition name_post :: "TypeNameKind set \<Rightarrow> rbs_parser \<Rightarrow> rbs_range \<times> rbs_type_name \<Rightarrow> rbs_parser \<Rightarrow> bool" where
  "name_post kind p x q \<longleftrightarrow>
     r_start (fst x) = current_start p \<and> r_end (fst x) = current_end q \<and>
     name_ok (tok_begin (current_token p)) (tok_end (current_token q)) (snd x) \<and>
     name_token kind (current_type q)"

lemma path_ok_next:
  assumes "path_ok p path q" and "within p q" "within q q1" "within q1 r"
  shows "path_ok p (rbs_node_list_append path (rbs_ast_symbol_new (RBS_RANGE_LEX2AST (tok_range (current_token q1))) i)) r"
  using assms within_pos(1) [of q q1] within_pos(1) [of q1 r] within_pos(2) [of p q] within_pos(2) [of q q1]
    window_order(8) [of q1] within_ok [of q q1]
  by (auto simp: path_ok_def rbs_node_list_append_def rbs_ast_symbol_new_def intro: between_mono)

lemma type_name_path_ok:
  assumes "within p q" "ready m p" "path_ok p path q"
  shows "run_ok q (round_post (path_ok p) (path_ok p) q) (type_name_path_round path q)"
  unfolding type_name_path_round_def INTERN_TOKEN_def
  using assms
  by (auto simp: within_ok ready_ok intro!: run_ok_if run_ok_intern_advance [where m = m] run_ok_advance run_ok_return
     intro: progress_intros dest: path_ok_next)

lemma type_name_end_ok:
  assumes "within p q" "ready m p" "path_ok p path q" "vars q = vars p"
  shows "run_ok p (\<lambda>v q'. vars q' = vars p \<and> spent q' \<le> spent p + 1 \<and> name_post kind p v q')
     (type_name_end kind (current_start p) (rbs_namespace_new (location_from (current_start p) (current_end q)) path absolute) q)"
proof -
  have "name_post kind p (\<lparr>r_start = current_start p, r_end = current_end q\<rparr>,
      rbs_type_name_new (RBS_RANGE_LEX2AST \<lparr>r_start = current_start p, r_end = current_end q\<rparr>)
        (rbs_namespace_new (location_from (current_start p) (current_end q)) path absolute)
        (rbs_ast_symbol_new (rbs_location_range_current_token q) i)) q'"
    if "name_token kind (current_type q)" "current_token q' = current_token q" for i and q' :: rbs_parser
    using that assms within_pos(2) [of p q] window_order(8) [of q] within_ok [of p q]
    by (auto simp: name_post_def name_ok_def name_ranges_def path_ok_def rbs_type_name_new_def
        rbs_namespace_new_def rbs_ast_symbol_new_def rbs_location_range_current_token_def)
  then show ?thesis
    unfolding type_name_end_def INTERN_TOKEN_def Let_def
    by (intro run_ok_if run_ok_intern_return [OF assms(1,2)] run_ok_fail) (auto simp: name_token_def assms)
qed

lemma type_name_rest_ok:
  assumes "within p q" "ready m p" "vars q = vars p"
  shows "run_ok p (\<lambda>v q'. vars q' = vars p \<and> spent q' \<le> spent p + 1 \<and> name_post kind p v q')
     (type_name_rest kind (current_start p) absolute q)"
proof -
  have "may_read q (\<lambda>_. path_ok p) (while_true type_name_path_round rbs_node_list_new q)"
    by (rule while_rule [OF assms(1) _ type_name_path_ok [OF _ assms(2)]]) (auto simp: path_ok_def rbs_node_list_new_def)
  then show ?thesis
    unfolding type_name_rest_def
    by (rule run_ok_may_call [OF _ assms(1)]) (rule type_name_end_ok [OF _ assms(2)]; simp add: assms(3))
qed

lemma type_name_ok: "ready m p \<Longrightarrow> reads_on p (name_post kind) (parse_type_name kind p)"
  unfolding reads_on_def parse_type_name_def Let_def
  by (intro run_ok_if run_ok_no_gap type_name_rest_ok) (simp_all add: ready_ok)

subsection \<open>The functions that parse types\<close>

lemma keyword_not_eof: "is_keyword_token t \<Longrightarrow> t \<noteq> pEOF"
  by (auto simp: is_keyword_token_def KEYWORD_CASES_def)

lemma is_keyword_not_eof: "is_keyword p \<Longrightarrow> next_type p \<noteq> pEOF"
  by (auto simp: is_keyword_def keyword_not_eof)

lemma type_post_param:
  assumes "type_post False s c p n q" and "consumed p q"
  shows "type_post v s c p (rbs_types_function_param_new (location_from (next_start p) (current_end q)) n None) q"
  using assms consumed_order by (simp add: type_post_def rbs_types_function_param_new_def)

lemma type_post_named_param:
  assumes "type_post False s c p n q0" and "within q0 q" and "consumed p q" and "current_token r = current_token q"
  shows "type_post v s c p
     (set_name_range (RBS_RANGE_LEX2AST (tok_range (current_token q)))
       (rbs_types_function_param_new (location_from (next_start p) (current_end q)) n
         (Some (rbs_ast_symbol_new (rbs_location_range_current_token q) i)))) r"
proof -
  have "tok_begin (next_token p) \<le> tok_begin (current_token q)" "tok_begin (current_token q) \<le> tok_end (current_token q)"
    using assms(3) window_order(8) [OF within_ok [OF consumed_within]] by (auto simp: consumed_def)
  with type_post_later [OF assms(1,2)] show ?thesis
    by (simp add: type_post_def assms(4) rbs_types_function_param_new_def set_name_range_def null_or_between_def
        rbs_ast_symbol_new_def rbs_location_range_current_token_def)
qed

definition key_post :: "rbs_parser \<Rightarrow> rbs_ast_symbol \<Rightarrow> rbs_parser \<Rightarrow> bool" where
  "key_post p y q \<longleftrightarrow> between (tok_begin (next_token p)) (tok_end (current_token q)) (sym_location y)"

lemma key_post_type: "key_post p y q \<Longrightarrow> type_post v s c p (Ast_Symbol y) q"
  by (simp add: key_post_def type_post_def)

lemma keyword_key_ok:
  assumes "ready m p" "next_type p \<noteq> pEOF"
  shows "reads p key_post (parse_keyword_key p)"
proof -
  have key: "key_post p (rbs_ast_symbol_new (RBS_RANGE_LEX2AST (tok_range (current_token q))) i) r"
    if "consumed p q" "current_token r = current_token q" for q r :: rbs_parser and i
    using that window_order(8) [OF within_ok [OF consumed_within [OF that(1)]]]
    by (simp add: key_post_def rbs_ast_symbol_new_def consumed_def)
  have optional_key: "key_post p (rbs_ast_symbol_new (RBS_RANGE_LEX2AST ((tok_range (current_token q))\<lparr>r_end := r_end (tok_range (next_token q))\<rparr>)) i) r"
    if "consumed p q" "current_token q' = current_token q" "within q' r" "current_token r = next_token q" for q q' r :: rbs_parser and i
    using that window_order(8) [OF within_ok [OF consumed_within [OF that(1)]]] within_pos(1) [of q' r]
    by (simp add: key_post_def rbs_ast_symbol_new_def consumed_def)
  show ?thesis
    unfolding reads_def parse_keyword_key_def intern_token_start_end_def INTERN_TOKEN_def Let_def
    by (intro run_ok_if run_ok_advance_on run_ok_interning [OF _ assms(1)] run_ok_return)
      (use assms in \<open>auto simp: ready_ok intro: progress_intros key optional_key\<close>)
qed

subsection \<open>Parameters\<close>

definition params_nodes :: "method_params \<Rightarrow> rbs_node list" where
  "params_nodes params =
     (case required_positionals params of None \<Rightarrow> [] | Some xs \<Rightarrow> xs) @ optional_positionals params @
     option_nodes (rest_positionals params) @ trailing_positionals params @ hash_nodes (required_keywords params) @
     hash_nodes (optional_keywords params) @ option_nodes (rest_keywords params) @
     option_nodes (params_forwarding params)"

definition params_post :: "bool \<Rightarrow> bool \<Rightarrow> rbs_parser \<Rightarrow> method_params \<Rightarrow> rbs_parser \<Rightarrow> bool" where
  "params_post s c p params q \<longleftrightarrow> types_post False s c p (params_nodes params) q"

lemma types_post_option [simp]:
  "types_post v s c p (option_nodes None) q"
  "types_post v s c p (option_nodes (Some n)) q \<longleftrightarrow> type_post v s c p n q"
  "types_post v s c p (hash_nodes rbs_hash_new) q"
  by (simp_all add: types_post_def type_post_def rbs_hash_new_def)

lemma params_post_later: "params_post s c p params q \<Longrightarrow> within q r \<Longrightarrow> params_post s c p params r"
  by (auto simp: params_post_def intro: types_post_later)

lemma params_post_initial: "params_post s c p initialize_method_params q"
  by (simp add: params_post_def params_nodes_def initialize_method_params_def rbs_node_list_new_def)

lemma params_post_untyped: "params_post s c p params q \<Longrightarrow> params_post s c p (params\<lparr>required_positionals := None\<rparr>) q"
  by (simp add: params_post_def params_nodes_def)

lemma params_post_add:
  assumes "params_post s c p params q" and "type_post False s c p n q"
  shows "params_post s c p (params\<lparr>required_positionals :=
      map_option (\<lambda>xs. rbs_node_list_append xs n) (required_positionals params)\<rparr>) q"
    and "params_post s c p (params\<lparr>optional_positionals := rbs_node_list_append (optional_positionals params) n\<rparr>) q"
    and "params_post s c p (params\<lparr>trailing_positionals := rbs_node_list_append (trailing_positionals params) n\<rparr>) q"
    and "params_post s c p (params\<lparr>rest_positionals := Some n\<rparr>) q"
    and "params_post s c p (params\<lparr>rest_keywords := Some n\<rparr>) q"
    and "params_post s c p (params\<lparr>params_forwarding := Some n\<rparr>) q"
  using assms by (auto simp: params_post_def params_nodes_def rbs_node_list_append_def split: option.splits)

lemma params_post_next:
  assumes "params_post s c p params q" and "type_post False s c q' n r" and "within q r" and "within p q'"
  shows "params_post s c p (params\<lparr>required_positionals :=
      map_option (\<lambda>xs. rbs_node_list_append xs n) (required_positionals params)\<rparr>) r"
    and "params_post s c p (params\<lparr>optional_positionals := rbs_node_list_append (optional_positionals params) n\<rparr>) r"
    and "params_post s c p (params\<lparr>trailing_positionals := rbs_node_list_append (trailing_positionals params) n\<rparr>) r"
    and "params_post s c p (params\<lparr>rest_positionals := Some n\<rparr>) r"
    and "params_post s c p (params\<lparr>rest_keywords := Some n\<rparr>) r"
    and "params_post s c p (params\<lparr>params_forwarding := Some n\<rparr>) r"
  using params_post_add [OF params_post_later [OF assms(1,3)] type_post_start [OF assms(4,2)]] by blast+

lemma params_post_keywords:
  assumes "params_post s c p params q" and "types_post False s c p (hash_nodes kws) q"
  shows "params_post s c p (params\<lparr>required_keywords := kws\<rparr>) q"
    and "params_post s c p (params\<lparr>optional_keywords := kws\<rparr>) q"
  using assms by (auto simp: params_post_def params_nodes_def)

lemma params_post_next_keywords:
  assumes "params_post s c p params q" and "types_post False s c p (hash_nodes kws) q'" and "within q r" and "within q' r"
  shows "params_post s c p (params\<lparr>required_keywords := kws\<rparr>) r"
    and "params_post s c p (params\<lparr>optional_keywords := kws\<rparr>) r"
  using params_post_keywords [OF params_post_later [OF assms(1,3)] types_post_later [OF assms(2,4)]] by blast+

lemma params_post_hashes:
  assumes "params_post s c p params q" and "within q r"
  shows "types_post False s c p (hash_nodes (required_keywords params)) r"
    and "types_post False s c p (hash_nodes (optional_keywords params)) r"
  using params_post_later [OF assms] by (auto simp: params_post_def params_nodes_def)

lemma forwarding_param_ok:
  "consumed p q \<Longrightarrow> type_post v s c p (rbs_types_function_forwarding_param_new (rbs_location_range_current_token q)) q"
  using window_order(8) [OF within_ok [OF consumed_within]]
  by (auto simp: type_post_def consumed_def rbs_types_function_forwarding_param_new_def rbs_location_range_current_token_def)

lemma keyword_first_token: "next_type p \<in> set ([tUIDENT, tLIDENT, tQIDENT, tULIDENT, tULLIDENT, tNONASCIIIDENT, tBANGIDENT] @ KEYWORD_CASES) \<longleftrightarrow>
    is_keyword_token (next_type p)"
  by (auto simp: is_keyword_token_def)

abbreviation label_post :: "bool \<Rightarrow> bool \<Rightarrow> rbs_parser \<Rightarrow> params_label \<times> params_state \<Rightarrow> rbs_parser \<Rightarrow> bool" where
  "label_post s c p r q \<equiv> params_post s c p (fst (snd r)) q"

lemma comma_or_eop_ok:
  assumes "consumed q q'" "vars q' = vars q" "params_post s c p (fst st) q'"
  shows "run_ok q (round_post (\<lambda>st. params_post s c p (fst st)) (label_post s c p) q) (comma_or_eop st q')"
  unfolding comma_or_eop_def
  by (intro run_ok_advance_if run_ok_return)
    (use assms in \<open>auto intro: progress_intros params_post_later\<close>)

lemma run_ok_at_label:
  assumes "b \<Longrightarrow> may_read q (\<lambda>_. V) x" and "within p q" and "V ls q"
    and "\<And>v q'. within p q' \<Longrightarrow> vars q' = vars q \<Longrightarrow> V v q' \<Longrightarrow> run_ok p Q (k v q')"
  shows "run_ok p Q (check_parse (if b then x else Done ls q) k)"
proof -
  have "may_read q (\<lambda>_. V) (if b then x else Done ls q)"
    using assms(1,3) within_ok [OF assms(2)] by (auto simp: may_read_def intro: run_ok_return)
  then show ?thesis by (rule run_ok_may_call) (use assms in auto)
qed

subsection \<open>Functions\<close>

text \<open>A node, and nodes, from the current token of \<open>p\<close> on.\<close>

definition on_post :: "bool \<Rightarrow> bool \<Rightarrow> bool \<Rightarrow> rbs_parser \<Rightarrow> rbs_node \<Rightarrow> rbs_parser \<Rightarrow> bool" where
  "on_post v s c p n q \<longleftrightarrow> tree_ok v s c (tok_begin (current_token p)) (tok_end (current_token q)) n"

lemma types_post_on:
  "types_post v s c p ns q \<Longrightarrow> parser_ok p \<Longrightarrow> trees_ok v s c (tok_begin (current_token p)) (tok_end (current_token q)) ns"
  using window_order(1,8) [of p] by (auto simp: types_post_def intro: trees_ok_mono)

lemma type_post_on: "type_post v s c p n q \<Longrightarrow> parser_ok p \<Longrightarrow> on_post v s c p n q"
  using window_order(1,8) [of p] by (auto simp: type_post_def on_post_def intro: tree_ok_mono)

lemma function_of_params_ok:
  assumes "tree_ok True s c (start_byte l) (end_byte l) ret" and "between lo hi l"
    and "trees_ok False s c (start_byte l) (end_byte l) (params_nodes params)"
  shows "tree_ok v s c lo hi (function_of_params l params ret)"
  using assms
  by (auto simp: function_of_params_def params_nodes_def rbs_types_function_new_def rbs_types_untyped_function_new_def
      split: option.splits)

text \<open>The block whose first token is the next one of \<open>p\<close>.\<close>

lemma block_post:
  assumes "consumed p q" and "params_post s c p params q" and "types_post False s c p (option_nodes self) q"
    and "type_post True s c p ret q"
  shows "types_post False s c p (option_nodes (Some (rbs_types_block_new (location_from (next_start p) (current_end q))
      (function_of_params (location_from (next_start p) (current_end q)) params ret) required self))) q"
  using assms consumed_order [OF assms(1)]
  by (simp add: types_post_def type_post_def params_post_def rbs_types_block_new_def)
    (auto intro!: function_of_params_ok)

text \<open>The function from the current token of \<open>p\<close> on, with its block and self type.\<close>

definition function_post :: "bool \<Rightarrow> bool \<Rightarrow> rbs_parser \<Rightarrow> rbs_node \<times> rbs_node option \<times> rbs_node option \<Rightarrow> rbs_parser \<Rightarrow> bool" where
  "function_post s c p r q \<longleftrightarrow>
     trees_ok False s c (tok_begin (current_token p)) (tok_end (current_token q))
       (fst r # option_nodes (fst (snd r)) @ option_nodes (snd (snd r)))"

lemma current_to_end: "within p q \<Longrightarrow> tok_begin (current_token p) \<le> tok_end (current_token q)"
  using window_order(8) [of q] within_pos(2) [of p q] within_ok [of p q] by simp

lemma function_post_intro:
  assumes "consumed p q" and "parser_ok p" and "params_post s c p params q" and "types_post False s c p (option_nodes block) q"
    and "types_post False s c p (option_nodes self) q" and "type_post True s c p ret q"
  shows "function_post s c p
     (function_of_params (location_from (current_start p) (current_end q)) params ret, block, self) q"
proof -
  have "tok_begin (current_token p) \<le> tok_end (current_token q)"
    using consumed_order [OF assms(1)] window_order(1,8) [OF assms(2)] by linarith
  moreover have "trees_ok False s c (tok_begin (current_token p)) (tok_end (current_token q)) (params_nodes params)"
    "trees_ok False s c (tok_begin (current_token p)) (tok_end (current_token q)) (option_nodes block)"
    "trees_ok False s c (tok_begin (current_token p)) (tok_end (current_token q)) (option_nodes self)"
    using assms types_post_on by (auto simp: params_post_def)
  moreover have "tree_ok True s c (tok_begin (current_token p)) (tok_end (current_token q)) ret"
    using type_post_on [OF assms(6,2)] by (simp add: on_post_def)
  ultimately show ?thesis by (simp add: function_post_def function_of_params_ok)
qed

lemma params_post_start: "within p q \<Longrightarrow> params_post s c q params r \<Longrightarrow> params_post s c p params r"
  by (auto simp: params_post_def intro: types_post_start)

lemma params_post_mono: "params_post s c q params r \<Longrightarrow> within r r' \<Longrightarrow> within p q \<Longrightarrow> params_post s c p params r'"
  by (auto intro: params_post_start params_post_later)

lemma types_post_mono: "types_post v s c q ns r \<Longrightarrow> within r r' \<Longrightarrow> within p q \<Longrightarrow> types_post v s c p ns r'"
  by (auto intro: types_post_start types_post_later)

text \<open>The same from positions, which are compared by arithmetic.\<close>

lemma type_post_move:
  "type_post v s c q n r \<Longrightarrow> within p q \<Longrightarrow> tok_end (current_token r) \<le> tok_end (current_token r') \<Longrightarrow> type_post v s c p n r'"
  by (drule (1) type_post_start) (auto simp: type_post_def intro: tree_ok_mono)

lemma types_post_move:
  "types_post v s c q ns r \<Longrightarrow> within p q \<Longrightarrow> tok_end (current_token r) \<le> tok_end (current_token r') \<Longrightarrow> types_post v s c p ns r'"
  by (drule (1) types_post_start) (auto simp: types_post_def intro: trees_ok_mono)

lemma params_post_move:
  "params_post s c p params r \<Longrightarrow> tok_end (current_token r) \<le> tok_end (current_token r') \<Longrightarrow> params_post s c p params r'"
  by (auto simp: params_post_def types_post_def intro: trees_ok_mono)

subsection \<open>Records and names\<close>

lemma key_duplication_static [simp]:
  "next_token (check_key_duplication p h k) = next_token p" "next_token2 (check_key_duplication p h k) = next_token2 p"
  "next_token3 (check_key_duplication p h k) = next_token3 p" "current_token (check_key_duplication p h k) = current_token p"
  "vars (check_key_duplication p h k) = vars p"
  by (simp_all add: check_key_duplication_def)

lemma key_duplication_within: "within p q \<Longrightarrow> within p (check_key_duplication q h k)"
  by (simp add: check_key_duplication_def set_error_within)

lemma literal_of_ok: "type_post v s c p n q \<Longrightarrow> is_literal n \<Longrightarrow> type_post False s c p (literal_of n) q"
  by (auto simp: type_post_def is_literal_def literal_of_def between_def intro: tree_ok_mono)

text \<open>A field, from the end of the colon or arrow to the end of its type.\<close>

lemma record_field_ok:
  assumes "types_post False s c p (hash_nodes h) q1" and "type_post False s c p key q2" and "type_post False s c q2 n q3"
    and "consumed p q2" and "within q2 q3" and "tok_end (current_token q1) \<le> tok_end (current_token q3)"
  shows "types_post False s c p (hash_nodes (rbs_hash_set h key
      (rbs_types_record_field_type_new (location_from (current_end q2) (current_end q3)) n required))) q3"
proof -
  have "tok_begin (next_token p) \<le> tok_end (current_token q2)" by (rule consumed_order [OF assms(4)])
  moreover have "tok_end (current_token q2) \<le> tok_begin (next_token q2)"
    using window_order(1) [OF within_ok [OF consumed_within [OF assms(4)]]] .
  ultimately have "type_post False s c p (rbs_types_record_field_type_new (location_from (current_end q2) (current_end q3)) n required) q3"
    using assms(3) within_pos(1) [OF assms(5)]
    by (auto simp: type_post_def rbs_types_record_field_type_new_def intro: tree_ok_mono)
  moreover have "types_post False s c p (hash_nodes h) q3"
    using assms(1,6) by (auto simp: types_post_def intro: trees_ok_mono)
  ultimately show ?thesis
    using type_post_later [OF assms(2,5)] by (simp add: types_post_def type_post_def trees_ok_hash_set)
qed

lemma null_range_location [simp]: "RBS_RANGE_LEX2AST NULL_RANGE = RBS_LOCATION_NULL_RANGE"
  by (simp add: RBS_RANGE_LEX2AST_def NULL_RANGE_def NullPosition_def RBS_LOCATION_NULL_RANGE_def)

lemma nonnull_pos_or_null [simp]: "rbs_nonnull_pos_or (r_end NULL_RANGE) x = x"
  by (simp add: rbs_nonnull_pos_or_def NULL_RANGE_def NullPosition_def rbs_null_position_p_def)

text \<open>The node of a name, without arguments and with arguments in brackets.\<close>

lemma instance_node_plain:
  assumes "name_ok (byte_pos (r_start rg)) (byte_pos (r_end rg)) name" and "lo \<le> byte_pos (r_start rg)"
    and "byte_pos (r_start rg) \<le> byte_pos (r_end rg)" and "byte_pos (r_end rg) \<le> hi"
  shows "tree_ok v s c lo hi (instance_node kind rg name NULL_RANGE [])"
  using assms
  by (cases kind)
    (auto simp: instance_node_def set_args_range_def rbs_types_class_instance_new_def rbs_types_interface_new_def
      rbs_types_alias_new_def null_or_between_def intro!: tree_ok_named)

lemma instance_node_args:
  assumes "name_ok (byte_pos (r_start rg)) (byte_pos (r_end rg)) name" and "lo \<le> byte_pos (r_start rg)"
    and "byte_pos (r_start rg) \<le> byte_pos (r_end rg)" and "byte_pos (r_end rg) \<le> byte_pos (r_start ar)"
    and "byte_pos (r_start ar) \<le> byte_pos (r_end ar)" and "byte_pos (r_end ar) \<le> hi" and "0 \<le> byte_pos (r_end ar)"
    and "trees_ok True True True (byte_pos (r_start ar)) (byte_pos (r_end ar)) args"
  shows "tree_ok v s c lo hi (instance_node kind rg name ar args)"
  using assms
  by (cases kind)
    (auto simp: instance_node_def set_args_range_def rbs_types_class_instance_new_def rbs_types_interface_new_def
      rbs_types_alias_new_def rbs_nonnull_pos_or_def rbs_null_position_p_def null_or_between_def
      intro!: tree_ok_named intro: name_ok_mono trees_ok_mono)

lemma symbol_ok:
  assumes "ready m p"
  shows "reads_on p (\<lambda>p n q. on_post v s c p n q \<and> is_literal n) (parse_symbol (rbs_location_range_current_token p) p)"
proof -
  have "on_post v s c p (rbs_types_literal_new (rbs_location_range_current_token p)
      (Ast_Symbol (rbs_ast_symbol_new (rbs_location_range_current_token p) i))) q"
    if "current_token q = current_token p" for i and q :: rbs_parser
    using that window_order(8) [OF ready_ok [OF assms]]
    by (simp add: on_post_def rbs_types_literal_new_def rbs_ast_symbol_new_def rbs_location_range_current_token_def)
  then show ?thesis
    unfolding reads_on_def parse_symbol_def rbs_constant_pool_insert_string_def Let_def
    by (intro run_ok_if run_ok_intern_return [OF _ assms] run_ok_fail)
      (use assms in \<open>auto simp: ready_ok is_literal_def rbs_types_literal_new_def\<close>)
qed

lemma ready_after_name: "ready_on m p \<Longrightarrow> parser_step p q \<Longrightarrow> spent q \<le> spent p + 1 \<Longrightarrow> ready m q"
  by (auto simp: ready_on_def ready_def roomy_def parser_step_def)

text \<open>Returning from a function that starts on a token.\<close>

lemma reads_on_return: "within p q \<Longrightarrow> vars q = vars p \<Longrightarrow> V p v q \<Longrightarrow> reads_on p V (Done v q)"
  unfolding reads_on_def by (rule run_ok_return) (auto simp: within_def)

lemma reads_on_fail: "within p q \<Longrightarrow> reads_on p V (fail_with q t b msg)"
  unfolding reads_on_def by (rule run_ok_fail)

lemma reads_on_if: "(b \<Longrightarrow> reads_on p V x) \<Longrightarrow> (\<not> b \<Longrightarrow> reads_on p V y) \<Longrightarrow> reads_on p V (if b then x else y)"
  by simp

lemma reads_on_mono: "reads_on p V r \<Longrightarrow> (\<And>v q. V p v q \<Longrightarrow> W p v q) \<Longrightarrow> reads_on p W r"
  unfolding reads_on_def by (erule run_ok_mono) auto

lemma reads_reads_on: "reads p V r \<Longrightarrow> reads_on p V r"
  by (rule may_read_reads_on) (rule reads_may_read)

text \<open>The nodes made of the current token only.\<close>

lemma token_node_ok:
  assumes "parser_ok p" and "\<And>lo hi. between lo hi (rbs_location_range_current_token p) \<Longrightarrow> tree_ok v s c lo hi n"
  shows "on_post v s c p n p"
  using window_order(8) [OF assms(1)] unfolding on_post_def
  by (intro assms(2)) (simp add: rbs_location_range_current_token_def)

lemmas token_node_defs = rbs_types_bases_bool_new_def rbs_types_bases_bottom_new_def rbs_types_bases_class_new_def
  rbs_types_bases_instance_new_def rbs_types_bases_nil_new_def rbs_types_bases_self_new_def rbs_types_bases_top_new_def
  rbs_types_bases_void_new_def rbs_types_bases_any_new_def rbs_types_literal_new_def rbs_ast_integer_new_def
  rbs_ast_bool_new_def rbs_ast_string_new_def rbs_types_tuple_new_def rbs_node_list_new_def rbs_types_variable_new_def
  rbs_ast_symbol_new_def

lemma singleton_node_ok:
  assumes "name_post {CLASS_NAME} q1 (rg, name) q2" and "types_post True s c q3 types q4" and "parser_step q1 q2"
    and "within p q1" and "within q2 q3" and "within q3 q4"
    and "null_or_between (tok_begin (next_token q3)) (tok_end (current_token q4)) ar"
  shows "on_post v s c p (set_args_range ar (rbs_types_class_singleton_new
      (location_from (current_start p) (current_end q4)) name types (RBS_RANGE_LEX2AST rg))) q4"
proof -
  have le: "tok_begin (current_token p) \<le> tok_begin (current_token q1)" "tok_begin (current_token q1) \<le> tok_begin (current_token q2)"
    "tok_begin (current_token q2) \<le> tok_end (current_token q2)" "tok_end (current_token q2) \<le> tok_end (current_token q4)"
    "tok_begin (current_token p) \<le> tok_begin (next_token q3)"
    using within_pos(2) [OF assms(4)] assms(3) within_pos(1) [OF assms(6)] within_pos(1) [OF assms(5)]
      window_order(8) [OF step_ok [OF assms(3)]]
      window_order(1,8) [OF within_ok [OF assms(5)]] within_pos(2) [OF assms(5)] by (auto simp: parser_step_def)
  have "name_ok (tok_begin (current_token p)) (tok_end (current_token q4)) name"
    using assms(1) le by (auto simp: name_post_def intro: name_ok_mono)
  moreover have "trees_ok True s c (tok_begin (current_token p)) (tok_end (current_token q4)) types"
    using assms(2) le by (auto simp: types_post_def intro: trees_ok_mono)
  ultimately show ?thesis
    using assms(1,7) le unfolding on_post_def rbs_types_class_singleton_new_def set_args_range_def
    by (auto intro!: tree_ok_named(4) simp: name_post_def null_or_between_def between_def)
qed

lemma type_post_on_later:
  "type_post v s c p n q \<Longrightarrow> tok_end (current_token q) \<le> tok_end (current_token r) \<Longrightarrow> parser_ok p \<Longrightarrow> on_post v s c p n r"
  using type_post_on [of v s c p n q] by (auto simp: on_post_def intro: tree_ok_mono)

locale simple_parser =
  fixes simple :: type_parser and m :: nat
  assumes simple_ok: "ready m p \<Longrightarrow> reads p (simple_post v s c) (simple v s c p)"
begin

lemma optional_ok: "ready m p \<Longrightarrow> reads p (type_post v s c) (parse_optional simple v s c p)"
  unfolding reads_def parse_optional_def Let_def
  by (auto simp: ready_ok simple_post_def
     intro!: run_ok_call [OF simple_ok] run_ok_if run_ok_fail run_ok_advance_on run_ok_return type_post_optional
     intro: progress_intros type_post_later type_post_later_not_void)

lemma intersection_round_ok:
  assumes "within p q" "ready m p" "operands v s c p n ns q"
  shows "run_ok q (round_post (operands v s c p n) (operands v s c p n) q) (intersection_round simple v s c n ns q)"
  unfolding intersection_round_def
  using assms
  by (auto simp: within_ok
     intro!: run_ok_call [OF optional_ok] run_ok_if run_ok_fail run_ok_advance_on run_ok_return
     intro: progress_intros operands_later elim!: operands_next)

lemma intersection_ok: "ready m p \<Longrightarrow> reads p (type_post v s c) (parse_intersection simple v s c p)"
  unfolding reads_def parse_intersection_def Let_def
  by (auto simp: ready_ok operands_def rbs_node_list_append_def rbs_node_list_new_def
     intro!: run_ok_call [OF optional_ok] run_ok_may_call [OF while_rule [OF _ _ intersection_round_ok]] run_ok_return
       type_post_intersection
     intro: progress_intros)

lemma union_round_ok:
  assumes "within p q" "ready m p" "operands v s c p n ns q"
  shows "run_ok q (round_post (operands v s c p n) (operands v s c p n) q) (union_round simple v s c n ns q)"
  unfolding union_round_def
  using assms
  by (auto simp: within_ok
     intro!: run_ok_call [OF intersection_ok] run_ok_if run_ok_fail run_ok_advance_on run_ok_return
     intro: progress_intros operands_later elim!: operands_next)

lemma union_ok: "ready m p \<Longrightarrow> reads p (type_post v s c) (parse_union simple v s c p)"
  unfolding reads_def parse_union_def Let_def
  by (auto simp: ready_ok operands_def rbs_node_list_append_def rbs_node_list_new_def
     intro!: run_ok_call [OF intersection_ok] run_ok_may_call [OF while_rule [OF _ _ union_round_ok]] run_ok_return
       type_post_union
     intro: progress_intros)

lemma type_list_round_ok:
  assumes "within p q" "ready m p" "types_post v s c p ns q"
  shows "run_ok q (round_post (types_post v s c p) (\<lambda>ns q. consumed p q \<and> types_post v s c p ns q) q)
     (type_list_round simple eol v s c ns q)"
  unfolding type_list_round_def Let_def rbs_node_list_append_def
  using assms
  by (intro run_ok_call [OF union_ok] run_ok_if run_ok_fail run_ok_advance_on run_ok_return;
      auto simp: within_ok intro: progress_intros types_post_later type_post_mono)

lemma type_list_ok: "ready m p \<Longrightarrow> reads p (types_post v s c) (parse_type_list simple eol rbs_node_list_new v s c p)"
  unfolding parse_type_list_def
  by (rule while_reads [OF ready_ok _ type_list_round_ok]) (auto simp: rbs_node_list_new_def)

lemma function_param_ok: "ready m p \<Longrightarrow> reads p (type_post False s c) (parse_function_param simple s c p)"
  unfolding reads_def parse_function_param_def rbs_constant_pool_insert_string_def Let_def
  by (intro run_ok_call [OF union_ok] run_ok_if run_ok_fail run_ok_advance run_ok_interning run_ok_return)
    (auto simp: ready_ok keyword_not_eof intro: progress_intros type_post_param type_post_named_param)

lemma keyword_ok:
  assumes "ready m p" "is_keyword p" "within p0 p" "types_post False s c p0 (hash_nodes kws) p"
  shows "reads p (\<lambda>_ r q. types_post False s c p0 (hash_nodes (fst r)) q) (parse_keyword simple kws memo s c p)"
proof -
  have result: "types_post False s c p0 (hash_nodes (rbs_hash_set kws (Ast_Symbol key) x)) q3"
    if "key_post p key q1" "within q1 q3" "within p q3" "type_post False s c q2 x q3" "within p q2" for key x q1 q2 q3
  proof -
    have "type_post False s c p0 (Ast_Symbol key) q3" "type_post False s c p0 x q3"
      using that assms(3) by (auto intro: type_post_mono type_post_start within_trans dest: key_post_type)
    with types_post_later [OF assms(4) that(3)] show ?thesis
      by (simp add: types_post_def type_post_def trees_ok_hash_set)
  qed
  show ?thesis
    unfolding reads_def parse_keyword_def Let_def
    by (intro run_ok_call [OF keyword_key_ok] run_ok_call [OF function_param_ok] run_ok_if run_ok_fail run_ok_advance_assert
        run_ok_return)
      (use assms in \<open>auto simp: ready_ok is_keyword_not_eof intro: progress_intros result\<close>)
qed

lemma required_params_ok:
  assumes "within p q" "ready m p" "params_post s c p (fst st) q"
  shows "run_ok q (round_post (\<lambda>st. params_post s c p (fst st)) (label_post s c p) q) (required_params_round simple fwd s c st q)"
  unfolding required_params_round_def
  by (intro run_ok_if run_ok_call [OF function_param_ok] run_ok_fail run_ok_advance_on run_ok_return comma_or_eop_ok)
    (use assms in \<open>auto simp: within_ok intro: progress_intros params_post_later params_post_next forwarding_param_ok\<close>)

lemma optional_params_ok:
  assumes "within p q" "ready m p" "params_post s c p (fst st) q"
  shows "run_ok q (round_post (\<lambda>st. params_post s c p (fst st)) (label_post s c p) q) (optional_params_round simple s c st q)"
  unfolding optional_params_round_def split_beta
  by (intro run_ok_if run_ok_call [OF function_param_ok] run_ok_call [OF keyword_ok [where ?p0.0 = p]] run_ok_fail run_ok_advance_on
      run_ok_advance_if run_ok_return comma_or_eop_ok)
    (use assms in \<open>auto simp: within_ok
      intro: progress_intros params_post_later params_post_next params_post_hashes params_post_next_keywords\<close>)

lemma rest_param_ok:
  assumes "within p q" "ready m p" "params_post s c p (fst st) q"
  shows "may_read q (\<lambda>_. label_post s c p) (parse_rest_param simple s c st q)"
  unfolding may_read_def parse_rest_param_def
  by (intro run_ok_if run_ok_call [OF function_param_ok] run_ok_advance_on run_ok_advance_if run_ok_return)
    (use assms in \<open>auto simp: within_ok intro: progress_intros params_post_later params_post_next\<close>)

lemma trailing_params_ok:
  assumes "within p q" "ready m p" "params_post s c p (fst st) q"
  shows "run_ok q (round_post (\<lambda>st. params_post s c p (fst st)) (label_post s c p) q) (trailing_params_round simple s c st q)"
  unfolding trailing_params_round_def
  by (intro run_ok_if run_ok_call [OF function_param_ok] run_ok_return comma_or_eop_ok)
    (use assms in \<open>auto simp: within_ok intro: progress_intros params_post_later params_post_next\<close>)

lemma keywords_ok:
  assumes "within p q" "ready m p" "params_post s c p (fst st) q"
  shows "run_ok q (round_post (\<lambda>st. params_post s c p (fst st)) (label_post s c p) q) (keywords_round simple s c st q)"
  unfolding keywords_round_def split_beta
  by (intro run_ok_if run_ok_call [OF function_param_ok] run_ok_call [OF keyword_ok [where ?p0.0 = p]] run_ok_fail run_ok_advance_on
      run_ok_return comma_or_eop_ok)
    (use assms in \<open>auto simp: within_ok
      intro: progress_intros params_post_later params_post_next params_post_hashes params_post_next_keywords\<close>)

lemma params_from_keywords_ok:
  assumes "within p q" "ready m p" "label_post s c p ls q" "vars q = vars p"
  shows "run_ok p (\<lambda>v q'. within p q' \<and> vars q' = vars p \<and> params_post s c p v q') (params_from_keywords simple s c ls q)"
  unfolding params_from_keywords_def split_beta
  by (rule run_ok_at_label [OF while_rule [OF assms(1) _ keywords_ok]])
    (use assms in \<open>auto intro: run_ok_fail run_ok_return\<close>)

lemma params_from_trailing_ok:
  assumes "within p q" "ready m p" "label_post s c p ls q" "vars q = vars p"
  shows "run_ok p (\<lambda>v q'. within p q' \<and> vars q' = vars p \<and> params_post s c p v q') (params_from_trailing simple s c ls q)"
  unfolding params_from_trailing_def
  by (rule run_ok_at_label [OF while_rule [OF assms(1) _ trailing_params_ok]])
    (use assms in \<open>auto intro: params_from_keywords_ok\<close>)

lemma params_from_rest_ok:
  assumes "within p q" "ready m p" "label_post s c p ls q" "vars q = vars p"
  shows "run_ok p (\<lambda>v q'. within p q' \<and> vars q' = vars p \<and> params_post s c p v q') (params_from_rest simple s c ls q)"
  unfolding params_from_rest_def
  by (rule run_ok_at_label [OF rest_param_ok [OF assms(1)]])
    (use assms in \<open>auto intro: params_from_trailing_ok\<close>)

lemma params_from_optional_ok:
  assumes "within p q" "ready m p" "label_post s c p ls q" "vars q = vars p"
  shows "run_ok p (\<lambda>v q'. within p q' \<and> vars q' = vars p \<and> params_post s c p v q') (params_from_optional simple s c ls q)"
  unfolding params_from_optional_def
  by (rule run_ok_at_label [OF while_rule [OF assms(1) _ optional_params_ok]])
    (use assms in \<open>auto intro: params_from_rest_ok\<close>)

lemma params_ok: "ready m p \<Longrightarrow> may_read p (params_post s c) (parse_params simple initialize_method_params fwd s c p)"
  unfolding may_read_def parse_params_def
  by (intro run_ok_if run_ok_advance_on run_ok_return
      run_ok_may_call [OF while_rule [OF _ _ required_params_ok]] params_from_optional_ok)
    (auto simp: ready_ok intro: progress_intros params_post_initial params_post_untyped)

lemma params_in_parens_ok: "ready m p \<Longrightarrow> may_read p (params_post s c) (parse_params_in_parens simple fwd s c p)"
  unfolding may_read_def parse_params_in_parens_def
  by (intro run_ok_if run_ok_advance_on run_ok_may_call [OF params_ok] run_ok_advance_assert run_ok_return)
    (auto simp: ready_ok params_post_def intro: progress_intros params_post_initial [unfolded params_post_def] types_post_later types_post_start)

lemma self_type_binding_ok:
  "ready m p \<Longrightarrow> may_read p (\<lambda>p x q. types_post False s c p (option_nodes x) q) (parse_self_type_binding simple s c p)"
  unfolding may_read_def parse_self_type_binding_def
  by (intro run_ok_if run_ok_advance_on run_ok_call [OF union_ok] run_ok_advance_assert run_ok_return)
    (auto simp: ready_ok intro: progress_intros type_post_mono)

lemma block_ok:
  assumes "within p q" "ready m p" "next_type q = pLBRACE" "vars q = vars p"
  shows "run_ok p (\<lambda>x q'. consumed p q' \<and> vars q' = vars p \<and> types_post False s c p (option_nodes x) q')
     (parse_block simple required (next_start p) s c q)"
  unfolding parse_block_def Let_def
  by (intro run_ok_advance_on run_ok_may_call [OF params_in_parens_ok] run_ok_may_call [OF self_type_binding_ok]
      run_ok_call [OF optional_ok] run_ok_advance_assert run_ok_return conjI block_post)
    (use assms in \<open>auto intro: progress_intros params_post_mono types_post_mono type_post_mono\<close>)

lemma optional_block_ok:
  "ready m p \<Longrightarrow> may_read p (\<lambda>p x q. types_post False s c p (option_nodes x) q) (parse_optional_block simple s c p)"
  unfolding may_read_def parse_optional_block_def
  by (intro run_ok_if run_ok_advance_on run_ok_return run_ok_mono [OF block_ok])
    (auto simp: ready_ok consumed_within intro: progress_intros)

lemma function_ok:
  assumes "ready m p"
  shows "reads p (function_post s c) (parse_function simple binding block_allowed fwd s c p)"
proof -
  have binding: "may_read q (\<lambda>p x q. types_post False s c p (option_nodes x) q)
      (if binding then parse_self_type_binding simple s c q
       else if rbs_is_untyped_params params \<and> next_type q \<noteq> pARROW
       then fail_with q t True msg else Done None q)" if "within p q" for params t msg q
    using self_type_binding_ok [OF within_ready [OF that assms]] within_ok [OF that]
    by (auto simp: may_read_def intro: run_ok_fail run_ok_return)
  show ?thesis
    unfolding reads_def parse_function_def Let_def
    by (intro run_ok_may_call [OF params_in_parens_ok] run_ok_may_call [OF binding] run_ok_may_call [OF optional_block_ok]
        run_ok_if run_ok_fail run_ok_advance_assert run_ok_call [OF optional_ok] run_ok_return conjI function_post_intro)
      (use assms in \<open>auto simp: ready_ok intro: progress_intros params_post_move types_post_move type_post_move\<close>)
qed

lemma proc_ok: "ready m p \<Longrightarrow> reads p (on_post v s c) (parse_proc_type simple s c p)"
  unfolding reads_def parse_proc_type_def Let_def split_beta
  by (intro run_ok_call [OF function_ok] run_ok_return)
    (auto simp: ready_ok function_post_def on_post_def rbs_types_proc_new_def current_to_end intro: consumed_within)

lemma record_key_ok:
  assumes "within p q" "ready m p"
  shows "reads q (type_post False s c) (parse_record_key simple h s c q)"
  unfolding reads_def parse_record_key_def [folded literal_tokens_def] Let_def
  by (intro run_ok_if run_ok_call [OF keyword_key_ok] run_ok_call [OF simple_ok] run_ok_advance_assert run_ok_fail run_ok_return)
    (use assms in \<open>auto simp: within_ok is_keyword_not_eof simple_post_def
      intro: progress_intros key_duplication_within literal_of_ok [THEN type_post_move] key_post_type [THEN type_post_move]\<close>)

lemma record_attribute_ok:
  assumes "within p q0" "within q0 q" "vars q = vars q0" "ready m p" "types_post False s c p (hash_nodes h) q0"
  shows "run_ok q0 (round_post (\<lambda>h. types_post False s c p (hash_nodes h)) (\<lambda>h. types_post False s c p (hash_nodes h)) q0)
     (record_attribute simple required h s c q)"
proof -
  have field: "types_post False s c p (hash_nodes (rbs_hash_set h key
      (rbs_types_record_field_type_new (location_from (current_end q2) (current_end q3)) n required))) q4"
    if "type_post False s c q key q2" "type_post False s c q2 n q3" "within q2 q3" "consumed q0 q2" "within q q2"
      "tok_end (current_token q3) \<le> tok_end (current_token q4)" for key n q2 q3 q4
  proof -
    have "types_post False s c p (hash_nodes (rbs_hash_set h key
      (rbs_types_record_field_type_new (location_from (current_end q2) (current_end q3)) n required))) q3"
      by (rule record_field_ok [OF assms(5)])
        (use that assms in \<open>auto intro: type_post_start within_trans within_consumed within_pos\<close>)
    then show ?thesis using that(6) by (auto simp: types_post_def intro: trees_ok_mono)
  qed
  show ?thesis
    unfolding record_attribute_def Let_def
    by (intro run_ok_if run_ok_call [OF record_key_ok] run_ok_call [OF union_ok] run_ok_advance_if run_ok_return)
      (use assms in \<open>auto simp: within_ok intro: progress_intros field\<close>)
qed

lemma record_round_ok:
  assumes "within p q" "ready m p" "types_post False s c p (hash_nodes h) q"
  shows "run_ok q (round_post (\<lambda>h. types_post False s c p (hash_nodes h)) (\<lambda>h. types_post False s c p (hash_nodes h)) q)
     (record_round simple s c h q)"
  unfolding record_round_def
  by (intro run_ok_if run_ok_advance_on record_attribute_ok) (use assms in \<open>auto simp: within_ok\<close>)

lemma record_attributes_ok:
  assumes "ready m p"
  shows "may_read p (\<lambda>p h q. types_post False s c p (hash_nodes h) q) (parse_record_attributes simple s c p)"
proof (cases "next_type p = pRBRACE")
  case True
  then show ?thesis using assms
    unfolding may_read_def parse_record_attributes_def by (auto simp: ready_ok intro!: run_ok_return)
next
  case False
  have "may_read p (\<lambda>p h q. types_post False s c p (hash_nodes h) q) (while_true (record_round simple s c) rbs_hash_new p)"
  proof (rule while_may_read [where I = "\<lambda>h. types_post False s c p (hash_nodes h)"])
    show "run_ok q (round_post (\<lambda>h. types_post False s c p (hash_nodes h)) (\<lambda>h. types_post False s c p (hash_nodes h)) q)
        (record_round simple s c h q)" if "within p q" "types_post False s c p (hash_nodes h) q" for h q
      using record_round_ok [OF that(1) assms that(2)] .
  qed (use assms in \<open>auto simp: ready_ok\<close>)
  with False show ?thesis by (simp add: parse_record_attributes_def)
qed

lemma instance_args_ok:
  assumes "ready m q" and "name_ok (byte_pos (r_start rg)) (tok_end (current_token q)) name"
    and "byte_pos (r_start rg) \<le> tok_end (current_token q)" and "r_end rg = current_end q"
  shows "may_read q (\<lambda>_ n q'. tree_ok v s c (byte_pos (r_start rg)) (tok_end (current_token q')) n)
     (instance_args simple kind rg name q)"
proof -
  have args: "tree_ok v s c (byte_pos (r_start rg)) (tok_end (current_token q3))
      (instance_node kind rg name \<lparr>r_start = current_start q1, r_end = current_end q3\<rparr> ns)"
    if "consumed q q1" "types_post True True True q1 ns q2" "within q1 q2"
      "tok_end (current_token q2) \<le> tok_end (current_token q3)" "consumed q q3" for ns q1 q2 q3
  proof -
    have le: "tok_end (current_token q) \<le> tok_begin (current_token q1)" "0 \<le> tok_begin (current_token q1)"
      using that(1) window_order(1,9) [OF ready_ok [OF assms(1)]] by (auto simp: consumed_def)
    have le1: "tok_begin (current_token q1) \<le> tok_end (current_token q2)"
      by (rule current_to_end [OF that(3)])
    have "trees_ok True True True (tok_begin (current_token q1)) (tok_end (current_token q3)) ns"
      using types_post_on [OF that(2) within_ok [OF consumed_within [OF that(1)]]] that(4) by (auto intro: trees_ok_mono)
    then show ?thesis
      using le le1 assms that(4) by (intro instance_node_args) simp_all
  qed
  show ?thesis
    unfolding may_read_def instance_args_def Let_def
    by (intro run_ok_if run_ok_advance_on run_ok_call [OF type_list_ok] run_ok_advance_assert run_ok_return)
      (use assms in \<open>auto simp: ready_ok rbs_node_list_new_def intro: progress_intros args instance_node_plain\<close>)
qed

lemma instance_type_ok:
  assumes "ready_on m p"
  shows "reads_on p (on_post v s c) (parse_instance_type simple parse_alias p)"
  unfolding reads_on_def parse_instance_type_def Let_def
proof (rule run_ok_check)
  let ?kind = "{INTERFACE_NAME, CLASS_NAME} \<union> (if parse_alias then {ALIAS_NAME} else {})"
  show "run_ok p (\<lambda>v q. vars q = vars p \<and> spent q \<le> spent p + 1 \<and> name_post ?kind p v q) (parse_type_name ?kind p)"
    using type_name_ok [OF ready_on_ready [OF assms]] by (simp add: reads_on_def)
  fix x :: "rbs_range \<times> rbs_type_name" and q
  assume q: "parser_step p q" "parser_ok q" "vars q = vars p \<and> spent q \<le> spent p + 1 \<and> name_post ?kind p x q"
  obtain rg name where x: "x = (rg, name)" by (cases x)
  have ready: "ready m q" using ready_after_name [OF assms q(1)] q(3) by simp
  have le: "tok_begin (current_token p) \<le> tok_end (current_token q)"
    using q(1,2) window_order(8) [of q] by (simp add: parser_step_def)
  have args: "run_ok q (\<lambda>n q'. vars q' = vars p \<and> spent q' \<le> spent p + 1 \<and> on_post v s c p n q')
      (instance_args simple kind rg name q)" for kind
    by (rule run_ok_mono [OF instance_args_ok [OF ready, unfolded may_read_def]])
      (use q(3) x le in \<open>auto simp: name_post_def on_post_def within_def\<close>)
  show "run_ok q (\<lambda>n q'. vars q' = vars p \<and> spent q' \<le> spent p + 1 \<and> on_post v s c p n q')
     ((case x of (rg, name) \<Rightarrow> \<lambda>q.
        if current_type q = tUIDENT then instance_args simple CLASS_NAME rg name q
        else if current_type q = tULIDENT then instance_args simple INTERFACE_NAME rg name q
        else if current_type q \<in> {kSKIP, kRETURN, tLIDENT} then instance_args simple ALIAS_NAME rg name q
        else fail_with q (current_token q) False ''unexpected token for type name'') q)"
    using args q(2) by (simp add: x run_ok_fail)
qed

lemma singleton_args_ok:
  assumes "ready m p"
  shows "may_read p (\<lambda>p r q. types_post True s c p (fst r) q \<and>
      null_or_between (tok_begin (next_token p)) (tok_end (current_token q)) (snd r)) (singleton_args simple s c p)"
  unfolding may_read_def singleton_args_def Let_def
  by (intro run_ok_if run_ok_advance_on run_ok_call [OF type_list_ok] run_ok_advance_assert run_ok_return)
    (use assms in \<open>auto simp: ready_ok rbs_node_list_new_def null_or_between_def consumed_def
      intro: progress_intros types_post_move current_to_end\<close>)

lemma singleton_type_ok:
  assumes "ready m p"
  shows "may_read p (on_post v s c) (parse_singleton_type simple s c p)"
  unfolding may_read_def parse_singleton_type_def Let_def split_beta
  by (intro run_ok_assert run_ok_advance_assert run_ok_advance run_ok_call_on [OF type_name_ok]
      run_ok_may_call [OF singleton_args_ok] run_ok_return)
    (use assms in \<open>auto simp: ready_ok intro: progress_intros ahead_within singleton_node_ok\<close>)

lemma tuple_ok:
  assumes "ready m p"
  shows "may_read p (on_post v s c) (parse_tuple simple s c p)"
proof -
  have types: "may_read p (types_post False s c)
     (if next_type p \<noteq> pRBRACKET then parse_type_list simple pRBRACKET rbs_node_list_new False s c p else Done rbs_node_list_new p)"
    using reads_may_read [OF type_list_ok [OF assms]] ready_ok [OF assms]
    by (auto simp: may_read_def rbs_node_list_new_def intro: run_ok_return)
  have node: "on_post v s c p (rbs_types_tuple_new (location_from (current_start p) (current_end q2)) ns) q2"
    if "types_post False s c p ns q1" "tok_end (current_token q1) \<le> tok_end (current_token q2)" "within p q2" for ns q1 q2
    using types_post_on [OF that(1) ready_ok [OF assms]] that(2) current_to_end [OF that(3)]
    by (auto simp: on_post_def rbs_types_tuple_new_def intro: trees_ok_mono)
  show ?thesis
    unfolding may_read_def parse_tuple_def Let_def
    by (intro run_ok_may_call [OF types] run_ok_advance_assert run_ok_return)
      (use assms in \<open>auto simp: ready_ok intro: progress_intros node\<close>)
qed

lemma record_ok:
  assumes "ready m p"
  shows "may_read p (on_post v s c) (parse_record simple s c p)"
proof -
  have node: "on_post v s c p (rbs_types_record_new (location_from (current_start p) (current_end q2)) h) q2"
    if "types_post False s c p (hash_nodes h) q1" "tok_end (current_token q1) \<le> tok_end (current_token q2)" "within p q2" for h q1 q2
    using types_post_on [OF that(1) ready_ok [OF assms]] that(2) current_to_end [OF that(3)]
    by (auto simp: on_post_def rbs_types_record_new_def intro: trees_ok_mono)
  show ?thesis
    unfolding may_read_def parse_record_def Let_def
    by (intro run_ok_may_call [OF record_attributes_ok] run_ok_advance_assert run_ok_return)
      (use assms in \<open>auto simp: ready_ok intro: progress_intros node\<close>)
qed

lemma variable_or_instance_ok:
  assumes "ready_on m p"
  shows "reads_on p (on_post v s c) (parse_variable_or_instance simple p)"
proof -
  have "pool_inv (constant_pool p)" "parser_ok p" using assms by (simp_all add: ready_on_def parser_ok_def)
  then show ?thesis
    unfolding parse_variable_or_instance_def Let_def
    by (simp add: find_value reads_on_if instance_type_ok [OF assms])
      (auto intro!: reads_on_return token_node_ok simp: token_node_defs null_or_between_def between_def)
qed

lemma paren_ok:
  assumes "ready m p"
  shows "may_read p (on_post v s c) (check_parse (parse_union simple v s c p) (\<lambda>t p. advance_assert p pRPAREN (\<lambda>p. Done t p)))"
  unfolding may_read_def
  by (intro run_ok_call [OF union_ok] run_ok_advance_assert run_ok_return)
    (use assms in \<open>auto simp: ready_ok intro: progress_intros type_post_on_later\<close>)

text \<open>\<open>parse_simple\<close> after its first token.\<close>

lemma simple_on_token_ok:
  assumes "ready_on m p"
  shows "reads_on p (\<lambda>p n q. on_post v s c p n q \<and> (current_type p \<in> literal_tokens \<longrightarrow> is_literal n))
    (simple_on_token simple v s c p)"
proof -
  let ?V = "\<lambda>p n q. on_post v s c p n q \<and> (current_type p \<in> literal_tokens \<longrightarrow> is_literal n)"
  have ready: "ready m p" "parser_ok p" using assms ready_on_ready by (auto simp: ready_on_def)
  have other: "reads_on p ?V r" if "reads_on p (on_post v s c) r" "current_type p \<notin> literal_tokens" for r
    by (rule reads_on_mono [OF that(1)]) (simp add: that(2))
  have symbol: "reads_on p ?V (parse_symbol (rbs_location_range_current_token p) p)"
    by (rule reads_on_mono [OF symbol_ok [OF ready(1), of v s c]]) simp
  have node: "reads_on p ?V (Done n p)"
    if "\<And>lo hi. between lo hi (rbs_location_range_current_token p) \<Longrightarrow> tree_ok v s c lo hi n"
      "current_type p \<in> literal_tokens \<longrightarrow> is_literal n" for n
    using token_node_ok [OF ready(2) that(1)] that(2) ready(2) by (intro reads_on_return) simp_all
  show ?thesis
    unfolding simple_on_token_def Let_def
    by (intro reads_on_if reads_on_fail symbol node other [OF may_read_reads_on [OF paren_ok]] other [OF variable_or_instance_ok]
        other [OF instance_type_ok] other [OF may_read_reads_on [OF singleton_type_ok]] other [OF may_read_reads_on [OF tuple_ok]]
        other [OF may_read_reads_on [OF record_ok]] other [OF reads_reads_on [OF proc_ok]])
      (use assms ready in \<open>auto simp: literal_tokens_def token_node_defs between_def is_literal_def\<close>)
qed

end

text \<open>\<open>parse_simple\<close> with fuel for fewer than \<open>n\<close> bytes keeps the contract for every \<open>n\<close>.\<close>

lemma simple_at_eof: "current_type q = pEOF \<Longrightarrow>
    simple_on_token simple v s c q = fail_with q (current_token q) True ''unexpected token for simple type''"
  by (simp add: simple_on_token_def Let_def)

lemma parse_simple_fuel_ok: "ready n p \<Longrightarrow> reads p (simple_post v s c) (parse_simple_fuel n v s c p)"
proof (induction n arbitrary: p v s c)
  case 0
  then show ?case by (simp add: ready_def)
next
  case (Suc n)
  then have IH: "simple_parser (parse_simple_fuel n) n" by unfold_locales
  show ?case
    unfolding reads_def parse_simple_fuel.simps
  proof (rule run_ok_advance)
    show "within p p" using Suc.prems by (simp add: ready_ok)
    fix q assume q: "within p q" "current_type q \<noteq> pEOF \<Longrightarrow> ahead p q \<and> ahead p q" "next_token p = current_token q" "vars q = vars p"
    show "run_ok p (\<lambda>n q. consumed p q \<and> vars q = vars p \<and> simple_post v s c p n q) (simple_on_token (parse_simple_fuel n) v s c q)"
    proof (cases "current_type q = pEOF")
      case True
      then show ?thesis using q(1) by (simp add: simple_at_eof run_ok_fail)
    next
      case False
      then have ahead: "ahead p q" using q(2) by simp
      from simple_parser.simple_on_token_ok [OF IH ahead_ready_on [OF this Suc.prems]]
      show ?thesis
        by (rule run_ok_advance_to [OF ahead]) (simp add: simple_post_def type_post_def on_post_def q(3,4))
    qed
  qed
qed

interpretation types: simple_parser "parse_simple_fuel n" n for n
  by unfold_locales (rule parse_simple_fuel_ok)

subsection \<open>Parsing a type\<close>

lemma parse_type_ok:
  assumes "parser_ok p" "roomy p"
  shows "reads p (type_post v s c) (rbs_parse_type v s c p)"
  unfolding rbs_parse_type_def by (rule types.union_ok) (use assms in \<open>simp add: ready_def\<close>)

end
