(* ===== verification/ParserNew.thy ===== *)
theory ParserNew
  imports ParserSpec LexerStream
begin

text \<open>
  \<open>rbs_parser_new_with_options\<close>: a new parser satisfies the invariant, and comments. The window
  of a new parser starts with null tokens; three calls of \<open>rbs_parser_advance\<close> fill it.
\<close>

subsection \<open>New parsers\<close>

lemma advance_new:
  assumes "lexer_ready (lexer p)" and "next_token2 p = t2" and "next_token3 p = t3"
    and "tok_type t3 \<noteq> pEOF \<or> token_wf t3 \<and> tok_end t3 \<le> byte_pos (lx_current (lexer p))"
  obtains q where "rbs_parser_advance p = Some q" "current_token q = next_token p" "next_token q = t2" "next_token2 q = t3"
    "vars q = vars p" "constant_pool q = constant_pool p" "parser_error q = parser_error p"
    "enable_forwarding_params q = enable_forwarding_params p"
    "lexer_ready (lexer q)" "lexer_source (lexer q) = lexer_source (lexer p)"
    "token_wf (next_token3 q)" "tok_end (next_token3 q) \<le> byte_pos (lx_current (lexer q))"
    "tok_type t3 = pEOF \<longrightarrow> next_token3 q = t3"
    "tok_type t3 \<noteq> pEOF \<longrightarrow> byte_pos (lx_current (lexer p)) \<le> tok_begin (next_token3 q)"
proof -
  obtain q where q: "rbs_parser_advance p = Some q"
    "current_token q = next_token p" "next_token q = next_token2 p" "next_token2 q = next_token3 p"
    "vars q = vars p" "constant_pool q = constant_pool p" "parser_error q = parser_error p"
    "enable_forwarding_params q = enable_forwarding_params p"
    "lexer_ready (lexer q)" "lexer_source (lexer q) = lexer_source (lexer p)"
    "if tok_type (next_token3 p) = pEOF then next_token3 q = next_token3 p \<and> lexer q = lexer p
     else token_wf (next_token3 q) \<and> byte_pos (lx_current (lexer p)) \<le> tok_begin (next_token3 q) \<and>
       tok_end (next_token3 q) \<le> byte_pos (lx_current (lexer q))"
    using advance_defined [OF assms(1)] by (elim exE conjE) (rule that)
  show ?thesis
    by (rule that [OF q(1)]) (use q(2-) assms in \<open>auto split: if_splits\<close>)
qed

lemma null_token [simp]: "tok_type NullToken = NullType" "tok_begin NullToken = 0" "tok_end NullToken = 0"
  by (simp_all add: NullToken_def zero_position_def)

lemma parser_new_value:
  assumes "e \<in> set rbs_encodings" and "0 \<le> first_pos" and "last_pos \<le> int (length (string_bytes s))"
  shows "case rbs_parser_new_with_options s e first_pos last_pos fwd of
      None \<Rightarrow> rbs_lexer_new s e first_pos last_pos = None
    | Some r \<Rightarrow> \<exists>p. r = Done () p \<and> parser_ok p \<and> lexer_source (lexer p) = (s, first_pos, last_pos, e) \<and>
        current_token p = NullToken \<and> vars p = [] \<and> pool_contents (constant_pool p) = [] \<and> parser_error p = None \<and>
        enable_forwarding_params p = fwd \<and> first_pos \<le> tok_begin (next_token p)"
proof (cases "rbs_lexer_new s e first_pos last_pos")
  case None
  then show ?thesis by (simp add: rbs_parser_new_with_options_def)
next
  case (Some lx)
  with lexer_new_value [OF assms] have lx: "lexer_ready lx" "lexer_source lx = (s, first_pos, last_pos, e)"
    "byte_pos (lx_current lx) = first_pos" by simp_all
  obtain pool where pool: "rbs_constant_pool_init (\<lambda>_. True) 2 = Some pool" "pool_inv pool" "pool_contents pool = []"
    using init_value(2) [of "\<lambda>_. True" 2] by (auto simp: word_less_nat_alt)
  let ?p = "\<lparr>lexer = lx, current_token = NullToken, next_token = NullToken, next_token2 = NullToken, next_token3 = NullToken,
    vars = [], last_comment = [], constant_pool = pool, parser_error = None, enable_forwarding_params = fwd\<rparr>"
  obtain p1 where p1: "rbs_parser_advance ?p = Some p1" "current_token p1 = NullToken" "next_token p1 = NullToken"
    "next_token2 p1 = NullToken" "vars p1 = []" "constant_pool p1 = pool" "parser_error p1 = None"
    "enable_forwarding_params p1 = fwd" "lexer_ready (lexer p1)" "lexer_source (lexer p1) = lexer_source lx"
    "token_wf (next_token3 p1)" "tok_end (next_token3 p1) \<le> byte_pos (lx_current (lexer p1))"
    "first_pos \<le> tok_begin (next_token3 p1)"
    by (rule advance_new [of ?p NullToken NullToken]) (use lx in auto)
  obtain p2 where p2: "rbs_parser_advance p1 = Some p2" "current_token p2 = NullToken" "next_token p2 = NullToken"
    "next_token2 p2 = next_token3 p1" "vars p2 = []" "constant_pool p2 = pool" "parser_error p2 = None"
    "enable_forwarding_params p2 = fwd" "lexer_ready (lexer p2)" "lexer_source (lexer p2) = lexer_source lx"
    "token_wf (next_token3 p2)" "tok_end (next_token3 p2) \<le> byte_pos (lx_current (lexer p2))"
    "tok_type (next_token3 p1) = pEOF \<longrightarrow> next_token3 p2 = next_token3 p1"
    "tok_type (next_token3 p1) \<noteq> pEOF \<longrightarrow> byte_pos (lx_current (lexer p1)) \<le> tok_begin (next_token3 p2)"
    by (rule advance_new [OF p1(9) p1(4) refl]) (use p1 in auto)
  obtain p3 where p3: "rbs_parser_advance p2 = Some p3" "current_token p3 = NullToken" "next_token p3 = next_token3 p1"
    "next_token2 p3 = next_token3 p2" "vars p3 = []" "constant_pool p3 = pool" "parser_error p3 = None"
    "enable_forwarding_params p3 = fwd" "lexer_ready (lexer p3)" "lexer_source (lexer p3) = lexer_source lx"
    "token_wf (next_token3 p3)" "tok_end (next_token3 p3) \<le> byte_pos (lx_current (lexer p3))"
    "tok_type (next_token3 p2) = pEOF \<longrightarrow> next_token3 p3 = next_token3 p2"
    "tok_type (next_token3 p2) \<noteq> pEOF \<longrightarrow> byte_pos (lx_current (lexer p2)) \<le> tok_begin (next_token3 p3)"
    by (rule advance_new [OF p2(9) p2(4) refl]) (use p2 in auto)
  have "parser_ok p3"
    using p1(11,12,13) p2(11-14) p3(2-14) assms(2) pool(2) token_wf_le [OF p1(11)] token_wf_le [OF p2(11)]
    by (auto simp: parser_ok_def token_wf_def)
  moreover have "rbs_parser_new_with_options s e first_pos last_pos fwd = Some (Done () p3)"
    using Some pool(1) p1(1) p2(1) p3(1) by (simp add: rbs_parser_new_with_options_def advancing_def)
  ultimately show ?thesis using p3 p1(13) pool(3) lx(2) by simp
qed



end
