(* ===== verification/TypeProps.thy ===== *)
theory TypeProps
  imports TypeParserSpec ParserNew
begin

text \<open>
  The properties of the parser of types: it always returns and reports every failure, the
  locations in its trees are nested, and the types that are restricted only occur where they
  may. The examples are parsed from a window of three tokens.
\<close>

subsection \<open>A parser with a given window\<close>

text \<open>A token on the first line of an ASCII source.\<close>

definition ascii_token :: "RBSTokenType \<Rightarrow> int \<Rightarrow> int \<Rightarrow> rbs_token" where
  "ascii_token type a b =
     \<lparr>tok_type = type, tok_range =
        \<lparr>r_start = \<lparr>byte_pos = a, char_pos = a, line = 1, column = a\<rparr>,
         r_end = \<lparr>byte_pos = b, char_pos = b, line = 1, column = b\<rparr>\<rparr>\<rparr>"

definition window_parser :: "rbs_lexer \<Rightarrow> rbs_token \<Rightarrow> rbs_token \<Rightarrow> rbs_token \<Rightarrow> rbs_parser" where
  "window_parser lx t1 t2 t3 =
     \<lparr>lexer = lx, current_token = NullToken, next_token = t1, next_token2 = t2, next_token3 = t3, vars = [],
      last_comment = [], constant_pool = new_pool, parser_error = None, enable_forwarding_params = False\<rparr>"

text \<open>A lexer at the end of a source of ASCII characters.\<close>

lemma split_ascii:
  "list_all (\<lambda>b. b \<noteq> 0 \<and> unat b < 128) bs \<Longrightarrow> split_chars w (length bs) bs = map (\<lambda>b. [b]) bs"
proof (induction bs)
  case (Cons b bs)
  then show ?case by (subst split_chars.simps) simp
qed (subst split_chars.simps, simp)

lemma lexer_at_end:
  assumes "list_all (\<lambda>b. b \<noteq> 0 \<and> unat b < 128) bs"
  obtains lx where "lexer_ready lx" "lx_string lx = string_of bs" "byte_pos (lx_current lx) = int (length bs)"
proof -
  have "source_chars (string_of bs) ascii_encoding (int (length bs)) = map (\<lambda>b. [b]) bs"
    using split_ascii [OF assms] by (simp add: source_chars_def)
  then have pos: "byte_pos (position_after (take (length bs) (source_chars (string_of bs) ascii_encoding (int (length bs))))) =
      int (length bs)" by (simp add: position_after_def)
  show ?thesis
    using lexer_new_value [of ascii_encoding "int (length bs)" "int (length bs)" "string_of bs"] ascii_in_table pos
    by (auto split: option.splits simp: lexer_source_def intro: that)
qed

text \<open>With the end of the source in the window, no token is read.\<close>

lemma advance_at_eof:
  "tok_type (next_token3 p) = pEOF \<Longrightarrow>
   rbs_parser_advance p =
     Some (p\<lparr>current_token := next_token p, next_token := next_token2 p, next_token2 := next_token3 p\<rparr>)"
  by (simp add: rbs_parser_advance_def numeral_2_eq_2)

text \<open>The source \<open>self?\<close> read into the window.\<close>

lemma ascii_token_simps [simp]:
  "tok_type (ascii_token t a b) = t" "tok_begin (ascii_token t a b) = a" "tok_end (ascii_token t a b) = b"
  "RBS_RANGE_LEX2AST (tok_range (ascii_token t a b)) = \<lparr>start_char = a, start_byte = a, end_char = b, end_byte = b\<rparr>"
  "location_from (r_start (tok_range (ascii_token t a b))) (r_end (tok_range (ascii_token t' a' b'))) =
     \<lparr>start_char = a, start_byte = a, end_char = b', end_byte = b'\<rparr>"
  by (simp_all add: ascii_token_def RBS_RANGE_LEX2AST_def location_from_def)

lemma self_parser:
  obtains p q where "parser_ok p" "spent p = 5"
    "next_token p = ascii_token kSELF 0 4" "current_token q = ascii_token pQUESTION 4 5"
    "\<And>v c. rbs_parse_type v True c p = Done
      (Types_Optional \<lparr>start_char = 0, start_byte = 0, end_char = 5, end_byte = 5\<rparr>
        (Types_Bases_Self \<lparr>start_char = 0, start_byte = 0, end_char = 4, end_byte = 4\<rparr>)) q"
proof -
  let ?bs = "[115, 101, 108, 102, 63] :: byte list"
  obtain lx where lx: "lexer_ready lx" "lx_string lx = string_of ?bs" "byte_pos (lx_current lx) = 5"
    by (rule lexer_at_end [of ?bs]) simp_all
  let ?p = "window_parser lx (ascii_token kSELF 0 4) (ascii_token pQUESTION 4 5) (ascii_token pEOF 5 5)"
  let ?q = "?p\<lparr>current_token := ascii_token pQUESTION 4 5, next_token := ascii_token pEOF 5 5, next_token2 := ascii_token pEOF 5 5\<rparr>"
  have "parser_ok ?p" using lx(1,3) by (simp add: parser_ok_def window_parser_def token_wf_def new_pool_facts)
  moreover have "spent ?p = 5" by (simp add: spent_def window_parser_def new_pool_facts lx(2))
  moreover have "rbs_parse_type v True c ?p = Done
      (Types_Optional \<lparr>start_char = 0, start_byte = 0, end_char = 5, end_byte = 5\<rparr>
        (Types_Bases_Self \<lparr>start_char = 0, start_byte = 0, end_char = 4, end_byte = 4\<rparr>)) ?q" for v c
    by (simp add: rbs_parse_type_def parse_union_def parse_intersection_def parse_optional_def check_parse_def advancing_def
        advance_at_eof window_parser_def simple_on_token_def rbs_location_range_current_token_def rbs_types_bases_self_new_def
        while_true_def union_round_def intersection_round_def rbs_types_optional_new_def is_void_def
        rbs_node_list_append_def rbs_node_list_new_def)
  ultimately show ?thesis by (intro that [of ?p ?q]) (simp_all add: window_parser_def)
qed

subsection \<open>Properties\<close>



text \<open>
  C6. In the tree of a type, the location of every node lies inside the location of its parent,
  starts no later than it ends, and contains the ranges of its name, its arguments and its
  symbols; the whole tree lies between the first token that was read and the last.
\<close>

theorem parse_type_locations:
  assumes "parser_ok p" and "spent p + 2 < 2 ^ 30" and "rbs_parse_type v s c p = Done n q"
  shows "located (tok_begin (next_token p)) (tok_end (current_token q)) n"
  using parse_type_ok [of p v s c] assms by (auto simp: reads_def roomy_def run_ok.simps type_post_def tree_ok_def)

theorem parse_type_locations_witness:
  "located 0 5 (Types_Optional \<lparr>start_char = 0, start_byte = 0, end_char = 5, end_byte = 5\<rparr>
     (Types_Bases_Self \<lparr>start_char = 0, start_byte = 0, end_char = 4, end_byte = 4\<rparr>))"
  by (rule self_parser) (use parse_type_locations [of _ True True True] in force)

text \<open>
  C7. The type \<open>self\<close> only occurs in the tree where the caller allows it or in the arguments of a
  class, an interface or an alias, and so do \<open>class\<close> and \<open>instance\<close>; \<open>void\<close> only occurs as the
  whole type when the caller allows it, as a return type, or as an argument, and never in a
  union, an intersection, an optional type, a tuple, a record or a parameter.
\<close>

theorem parse_type_placement:
  assumes "parser_ok p" and "spent p + 2 < 2 ^ 30" and "rbs_parse_type v s c p = Done n q"
  shows "placement v s c n"
  using parse_type_ok [of p v s c] assms by (auto simp: reads_def roomy_def run_ok.simps type_post_def tree_ok_def)

theorem parse_type_placement_witness:
  "placement False True False (Types_Optional \<lparr>start_char = 0, start_byte = 0, end_char = 5, end_byte = 5\<rparr>
     (Types_Bases_Self \<lparr>start_char = 0, start_byte = 0, end_char = 4, end_byte = 4\<rparr>))"
  by (rule self_parser) (use parse_type_placement [of _ False True False] in force)

end
