(* ===== verification/AstDecls.thy ===== *)
theory AstDecls
  imports AstTypes ParserState
begin

text \<open>
  The syntax tree of declarations, members and directives: the rest of \<open>include/rbs/ast.h\<close> and
  \<open>src/ast.c\<close> that the parser of signatures makes. As in the tree of types, a tagged union is a
  datatype with the fields of each struct in order, and structs that only occur as themselves
  are records. Declarations and members are one datatype, because a declaration may be a member
  of a class or a module. The functions \<open>set_member_*\<close> and \<open>set_use_*\<close> are the assignments to
  the optional ranges, which \<open>rbs_*_new\<close> sets to the null range.
\<close>

subsection \<open>Enumerations\<close>

datatype (plugins only: code size) rbs_attribute_visibility =
    RBS_ATTRIBUTE_VISIBILITY_UNSPECIFIED
  | RBS_ATTRIBUTE_VISIBILITY_PUBLIC
  | RBS_ATTRIBUTE_VISIBILITY_PRIVATE

datatype (plugins only: code size) rbs_attribute_kind =
    RBS_ATTRIBUTE_KIND_INSTANCE
  | RBS_ATTRIBUTE_KIND_SINGLETON

datatype (plugins only: code size) rbs_alias_kind =
    RBS_ALIAS_KIND_INSTANCE
  | RBS_ALIAS_KIND_SINGLETON

datatype (plugins only: code size) rbs_method_definition_kind =
    RBS_METHOD_DEFINITION_KIND_INSTANCE
  | RBS_METHOD_DEFINITION_KIND_SINGLETON
  | RBS_METHOD_DEFINITION_KIND_SINGLETON_INSTANCE

datatype (plugins only: code size) rbs_method_definition_visibility =
    RBS_METHOD_DEFINITION_VISIBILITY_UNSPECIFIED
  | RBS_METHOD_DEFINITION_VISIBILITY_PUBLIC
  | RBS_METHOD_DEFINITION_VISIBILITY_PRIVATE

datatype (plugins only: code size) rbs_type_param_variance =
    RBS_TYPE_PARAM_VARIANCE_INVARIANT
  | RBS_TYPE_PARAM_VARIANCE_COVARIANT
  | RBS_TYPE_PARAM_VARIANCE_CONTRAVARIANT

datatype (plugins only: code size) rbs_attr_ivar_name_tag =
    RBS_ATTR_IVAR_NAME_TAG_UNSPECIFIED
  | RBS_ATTR_IVAR_NAME_TAG_EMPTY
  | RBS_ATTR_IVAR_NAME_TAG_NAME

text \<open>The name of an attribute's instance variable is only valid with the tag \<open>NAME\<close>.\<close>

record rbs_attr_ivar_name =
  attr_ivar_tag :: rbs_attr_ivar_name_tag
  attr_ivar_name :: "32 word"

subsection \<open>Structs\<close>

record rbs_ast_annotation =
  annot_location :: rbs_location_range
  annot_string :: rbs_string

record rbs_ast_type_param =
  tp_location :: rbs_location_range
  tp_name :: rbs_ast_symbol
  tp_variance :: rbs_type_param_variance
  tp_upper_bound :: "rbs_node option"
  tp_lower_bound :: "rbs_node option"
  tp_default_type :: "rbs_node option"
  tp_unchecked :: bool
  tp_name_range :: rbs_location_range
  tp_variance_range :: rbs_location_range
  tp_unchecked_range :: rbs_location_range
  tp_upper_bound_range :: rbs_location_range
  tp_lower_bound_range :: rbs_location_range
  tp_default_range :: rbs_location_range

record rbs_method_type =
  mt_location :: rbs_location_range
  mt_type_params :: "rbs_ast_type_param list"
  mt_type :: rbs_node
  mt_block :: "rbs_node option"
  mt_type_range :: rbs_location_range
  mt_type_params_range :: rbs_location_range

record rbs_ast_members_method_definition_overload =
  overload_location :: rbs_location_range
  overload_annotations :: "rbs_ast_annotation list"
  overload_method_type :: rbs_method_type

record rbs_ast_declarations_class_super =
  super_location :: rbs_location_range
  super_name :: rbs_type_name
  super_args :: "rbs_node list"
  super_name_range :: rbs_location_range
  super_args_range :: rbs_location_range

record rbs_ast_declarations_module_self =
  mself_location :: rbs_location_range
  mself_name :: rbs_type_name
  mself_args :: "rbs_node list"
  mself_name_range :: rbs_location_range
  mself_args_range :: rbs_location_range

subsection \<open>Declarations and members\<close>

datatype (plugins only: code size) rbs_member =
    Ast_Declarations_Class rbs_location_range rbs_type_name "rbs_ast_type_param list"
      "rbs_ast_declarations_class_super option" "rbs_member list" "rbs_ast_annotation list"
      "rbs_ast_comment option" rbs_location_range rbs_location_range rbs_location_range
      rbs_location_range rbs_location_range
  | Ast_Declarations_Class_Alias rbs_location_range rbs_type_name rbs_type_name
      "rbs_ast_comment option" "rbs_ast_annotation list" rbs_location_range rbs_location_range
      rbs_location_range rbs_location_range
  | Ast_Declarations_Constant rbs_location_range rbs_type_name rbs_node "rbs_ast_comment option"
      "rbs_ast_annotation list" rbs_location_range rbs_location_range
  | Ast_Declarations_Global rbs_location_range rbs_ast_symbol rbs_node "rbs_ast_comment option"
      "rbs_ast_annotation list" rbs_location_range rbs_location_range
  | Ast_Declarations_Interface rbs_location_range rbs_type_name "rbs_ast_type_param list"
      "rbs_member list" "rbs_ast_annotation list" "rbs_ast_comment option" rbs_location_range
      rbs_location_range rbs_location_range rbs_location_range
  | Ast_Declarations_Module rbs_location_range rbs_type_name "rbs_ast_type_param list"
      "rbs_ast_declarations_module_self list" "rbs_member list" "rbs_ast_annotation list"
      "rbs_ast_comment option" rbs_location_range rbs_location_range rbs_location_range
      rbs_location_range rbs_location_range rbs_location_range
  | Ast_Declarations_Module_Alias rbs_location_range rbs_type_name rbs_type_name
      "rbs_ast_comment option" "rbs_ast_annotation list" rbs_location_range rbs_location_range
      rbs_location_range rbs_location_range
  | Ast_Declarations_Type_Alias rbs_location_range rbs_type_name "rbs_ast_type_param list"
      rbs_node "rbs_ast_annotation list" "rbs_ast_comment option" rbs_location_range
      rbs_location_range rbs_location_range rbs_location_range
  | Ast_Members_Alias rbs_location_range rbs_ast_symbol rbs_ast_symbol rbs_alias_kind
      "rbs_ast_annotation list" "rbs_ast_comment option" rbs_location_range rbs_location_range
      rbs_location_range rbs_location_range rbs_location_range
  | Ast_Members_Attr_Accessor rbs_location_range rbs_ast_symbol rbs_node rbs_attr_ivar_name
      rbs_attribute_kind "rbs_ast_annotation list" "rbs_ast_comment option"
      rbs_attribute_visibility rbs_location_range rbs_location_range rbs_location_range
      rbs_location_range rbs_location_range rbs_location_range rbs_location_range
  | Ast_Members_Attr_Reader rbs_location_range rbs_ast_symbol rbs_node rbs_attr_ivar_name
      rbs_attribute_kind "rbs_ast_annotation list" "rbs_ast_comment option"
      rbs_attribute_visibility rbs_location_range rbs_location_range rbs_location_range
      rbs_location_range rbs_location_range rbs_location_range rbs_location_range
  | Ast_Members_Attr_Writer rbs_location_range rbs_ast_symbol rbs_node rbs_attr_ivar_name
      rbs_attribute_kind "rbs_ast_annotation list" "rbs_ast_comment option"
      rbs_attribute_visibility rbs_location_range rbs_location_range rbs_location_range
      rbs_location_range rbs_location_range rbs_location_range rbs_location_range
  | Ast_Members_Class_Instance_Variable rbs_location_range rbs_ast_symbol rbs_node
      "rbs_ast_comment option" rbs_location_range rbs_location_range rbs_location_range
  | Ast_Members_Class_Variable rbs_location_range rbs_ast_symbol rbs_node "rbs_ast_comment option"
      rbs_location_range rbs_location_range rbs_location_range
  | Ast_Members_Extend rbs_location_range rbs_type_name "rbs_node list" "rbs_ast_annotation list"
      "rbs_ast_comment option" rbs_location_range rbs_location_range rbs_location_range
  | Ast_Members_Include rbs_location_range rbs_type_name "rbs_node list" "rbs_ast_annotation list"
      "rbs_ast_comment option" rbs_location_range rbs_location_range rbs_location_range
  | Ast_Members_Instance_Variable rbs_location_range rbs_ast_symbol rbs_node
      "rbs_ast_comment option" rbs_location_range rbs_location_range rbs_location_range
  | Ast_Members_Method_Definition rbs_location_range rbs_ast_symbol rbs_method_definition_kind
      "rbs_ast_members_method_definition_overload list" "rbs_ast_annotation list"
      "rbs_ast_comment option" bool rbs_method_definition_visibility rbs_location_range
      rbs_location_range rbs_location_range rbs_location_range rbs_location_range
  | Ast_Members_Prepend rbs_location_range rbs_type_name "rbs_node list" "rbs_ast_annotation list"
      "rbs_ast_comment option" rbs_location_range rbs_location_range rbs_location_range
  | Ast_Members_Private rbs_location_range
  | Ast_Members_Public rbs_location_range

subsection \<open>Directives and signatures\<close>

datatype (plugins only: code size) rbs_use_clause =
    Ast_Directives_Use_Single_Clause rbs_location_range rbs_type_name "rbs_ast_symbol option"
      rbs_location_range rbs_location_range rbs_location_range
  | Ast_Directives_Use_Wildcard_Clause rbs_location_range rbs_namespace rbs_location_range
      rbs_location_range

record rbs_ast_directives_use =
  use_location :: rbs_location_range
  use_clauses :: "rbs_use_clause list"
  use_keyword_range :: rbs_location_range

record rbs_signature =
  sig_location :: rbs_location_range
  sig_directives :: "rbs_ast_directives_use list"
  sig_declarations :: "rbs_member list"

subsection \<open>Making nodes\<close>

definition rbs_ast_annotation_new :: "rbs_location_range \<Rightarrow> rbs_string \<Rightarrow> rbs_ast_annotation" where
  "rbs_ast_annotation_new location string = \<lparr>annot_location = location, annot_string =
     string\<rparr>"

definition rbs_ast_type_param_new :: "rbs_location_range \<Rightarrow> rbs_ast_symbol \<Rightarrow> rbs_type_param_variance
    \<Rightarrow> rbs_node option \<Rightarrow> rbs_node option \<Rightarrow> rbs_node option
    \<Rightarrow> bool \<Rightarrow> rbs_location_range \<Rightarrow> rbs_ast_type_param" where
  "rbs_ast_type_param_new location name variance upper_bound lower_bound default_type unchecked
     name_range = \<lparr>tp_location = location, tp_name = name, tp_variance = variance,
     tp_upper_bound = upper_bound, tp_lower_bound = lower_bound, tp_default_type = default_type,
     tp_unchecked = unchecked, tp_name_range = name_range, tp_variance_range =
     RBS_LOCATION_NULL_RANGE, tp_unchecked_range = RBS_LOCATION_NULL_RANGE, tp_upper_bound_range
     = RBS_LOCATION_NULL_RANGE, tp_lower_bound_range = RBS_LOCATION_NULL_RANGE, tp_default_range
     = RBS_LOCATION_NULL_RANGE\<rparr>"

definition rbs_method_type_new :: "rbs_location_range \<Rightarrow> rbs_ast_type_param list \<Rightarrow> rbs_node \<Rightarrow>
    rbs_node option \<Rightarrow> rbs_location_range \<Rightarrow> rbs_method_type" where
  "rbs_method_type_new location type_params type block type_range = \<lparr>mt_location = location,
     mt_type_params = type_params, mt_type = type, mt_block = block, mt_type_range = type_range,
     mt_type_params_range = RBS_LOCATION_NULL_RANGE\<rparr>"

definition rbs_ast_members_method_definition_overload_new :: "rbs_location_range \<Rightarrow> rbs_ast_annotation list \<Rightarrow> rbs_method_type
    \<Rightarrow> rbs_ast_members_method_definition_overload" where
  "rbs_ast_members_method_definition_overload_new location annotations method_type =
     \<lparr>overload_location = location, overload_annotations = annotations,
     overload_method_type = method_type\<rparr>"

definition rbs_ast_declarations_class_super_new :: "rbs_location_range \<Rightarrow> rbs_type_name \<Rightarrow> rbs_node list \<Rightarrow>
    rbs_location_range \<Rightarrow> rbs_ast_declarations_class_super" where
  "rbs_ast_declarations_class_super_new location name args name_range = \<lparr>super_location =
     location, super_name = name, super_args = args, super_name_range = name_range,
     super_args_range = RBS_LOCATION_NULL_RANGE\<rparr>"

definition rbs_ast_declarations_module_self_new :: "rbs_location_range \<Rightarrow> rbs_type_name \<Rightarrow> rbs_node list \<Rightarrow>
    rbs_location_range \<Rightarrow> rbs_ast_declarations_module_self" where
  "rbs_ast_declarations_module_self_new location name args name_range = \<lparr>mself_location =
     location, mself_name = name, mself_args = args, mself_name_range = name_range,
     mself_args_range = RBS_LOCATION_NULL_RANGE\<rparr>"

definition rbs_ast_declarations_class_new :: "rbs_location_range \<Rightarrow> rbs_type_name \<Rightarrow> rbs_ast_type_param list
    \<Rightarrow> rbs_ast_declarations_class_super option \<Rightarrow> rbs_member list
    \<Rightarrow> rbs_ast_annotation list \<Rightarrow> rbs_ast_comment option \<Rightarrow>
    rbs_location_range \<Rightarrow> rbs_location_range \<Rightarrow> rbs_location_range
    \<Rightarrow> rbs_member" where
  "rbs_ast_declarations_class_new location name type_params super_class members annotations comment
     keyword_range name_range end_range = Ast_Declarations_Class location name type_params
     super_class members annotations comment keyword_range name_range end_range
     RBS_LOCATION_NULL_RANGE RBS_LOCATION_NULL_RANGE"

definition rbs_ast_declarations_class_alias_new :: "rbs_location_range \<Rightarrow> rbs_type_name \<Rightarrow> rbs_type_name \<Rightarrow>
    rbs_ast_comment option \<Rightarrow> rbs_ast_annotation list \<Rightarrow>
    rbs_location_range \<Rightarrow> rbs_location_range \<Rightarrow> rbs_location_range
    \<Rightarrow> rbs_location_range \<Rightarrow> rbs_member" where
  "rbs_ast_declarations_class_alias_new location new_name old_name comment annotations
     keyword_range new_name_range eq_range old_name_range = Ast_Declarations_Class_Alias
     location new_name old_name comment annotations keyword_range new_name_range eq_range
     old_name_range"

definition rbs_ast_declarations_constant_new :: "rbs_location_range \<Rightarrow> rbs_type_name \<Rightarrow> rbs_node \<Rightarrow>
    rbs_ast_comment option \<Rightarrow> rbs_ast_annotation list \<Rightarrow>
    rbs_location_range \<Rightarrow> rbs_location_range \<Rightarrow> rbs_member" where
  "rbs_ast_declarations_constant_new location name type comment annotations name_range colon_range
     = Ast_Declarations_Constant location name type comment annotations name_range colon_range"

definition rbs_ast_declarations_global_new :: "rbs_location_range \<Rightarrow> rbs_ast_symbol \<Rightarrow> rbs_node \<Rightarrow>
    rbs_ast_comment option \<Rightarrow> rbs_ast_annotation list \<Rightarrow>
    rbs_location_range \<Rightarrow> rbs_location_range \<Rightarrow> rbs_member" where
  "rbs_ast_declarations_global_new location name type comment annotations name_range colon_range =
     Ast_Declarations_Global location name type comment annotations name_range colon_range"

definition rbs_ast_declarations_interface_new :: "rbs_location_range \<Rightarrow> rbs_type_name \<Rightarrow> rbs_ast_type_param list
    \<Rightarrow> rbs_member list \<Rightarrow> rbs_ast_annotation list \<Rightarrow>
    rbs_ast_comment option \<Rightarrow> rbs_location_range \<Rightarrow> rbs_location_range
    \<Rightarrow> rbs_location_range \<Rightarrow> rbs_member" where
  "rbs_ast_declarations_interface_new location name type_params members annotations comment
     keyword_range name_range end_range = Ast_Declarations_Interface location name type_params
     members annotations comment keyword_range name_range end_range RBS_LOCATION_NULL_RANGE"

definition rbs_ast_declarations_module_new :: "rbs_location_range \<Rightarrow> rbs_type_name \<Rightarrow> rbs_ast_type_param list
    \<Rightarrow> rbs_ast_declarations_module_self list \<Rightarrow> rbs_member list
    \<Rightarrow> rbs_ast_annotation list \<Rightarrow> rbs_ast_comment option \<Rightarrow>
    rbs_location_range \<Rightarrow> rbs_location_range \<Rightarrow> rbs_location_range
    \<Rightarrow> rbs_member" where
  "rbs_ast_declarations_module_new location name type_params self_types members annotations comment
     keyword_range name_range end_range = Ast_Declarations_Module location name type_params
     self_types members annotations comment keyword_range name_range end_range
     RBS_LOCATION_NULL_RANGE RBS_LOCATION_NULL_RANGE RBS_LOCATION_NULL_RANGE"

definition rbs_ast_declarations_module_alias_new :: "rbs_location_range \<Rightarrow> rbs_type_name \<Rightarrow> rbs_type_name \<Rightarrow>
    rbs_ast_comment option \<Rightarrow> rbs_ast_annotation list \<Rightarrow>
    rbs_location_range \<Rightarrow> rbs_location_range \<Rightarrow> rbs_location_range
    \<Rightarrow> rbs_location_range \<Rightarrow> rbs_member" where
  "rbs_ast_declarations_module_alias_new location new_name old_name comment annotations
     keyword_range new_name_range eq_range old_name_range = Ast_Declarations_Module_Alias
     location new_name old_name comment annotations keyword_range new_name_range eq_range
     old_name_range"

definition rbs_ast_declarations_type_alias_new :: "rbs_location_range \<Rightarrow> rbs_type_name \<Rightarrow> rbs_ast_type_param list
    \<Rightarrow> rbs_node \<Rightarrow> rbs_ast_annotation list \<Rightarrow> rbs_ast_comment
    option \<Rightarrow> rbs_location_range \<Rightarrow> rbs_location_range \<Rightarrow>
    rbs_location_range \<Rightarrow> rbs_member" where
  "rbs_ast_declarations_type_alias_new location name type_params type annotations comment
     keyword_range name_range eq_range = Ast_Declarations_Type_Alias location name type_params
     type annotations comment keyword_range name_range eq_range RBS_LOCATION_NULL_RANGE"

definition rbs_ast_members_alias_new :: "rbs_location_range \<Rightarrow> rbs_ast_symbol \<Rightarrow> rbs_ast_symbol \<Rightarrow>
    rbs_alias_kind \<Rightarrow> rbs_ast_annotation list \<Rightarrow> rbs_ast_comment option
    \<Rightarrow> rbs_location_range \<Rightarrow> rbs_location_range \<Rightarrow>
    rbs_location_range \<Rightarrow> rbs_member" where
  "rbs_ast_members_alias_new location new_name old_name kind annotations comment keyword_range
     new_name_range old_name_range = Ast_Members_Alias location new_name old_name kind
     annotations comment keyword_range new_name_range old_name_range RBS_LOCATION_NULL_RANGE
     RBS_LOCATION_NULL_RANGE"

definition rbs_ast_members_attr_accessor_new :: "rbs_location_range \<Rightarrow> rbs_ast_symbol \<Rightarrow> rbs_node \<Rightarrow>
    rbs_attr_ivar_name \<Rightarrow> rbs_attribute_kind \<Rightarrow> rbs_ast_annotation list
    \<Rightarrow> rbs_ast_comment option \<Rightarrow> rbs_attribute_visibility \<Rightarrow>
    rbs_location_range \<Rightarrow> rbs_location_range \<Rightarrow> rbs_location_range
    \<Rightarrow> rbs_member" where
  "rbs_ast_members_attr_accessor_new location name type ivar_name kind annotations comment
     visibility keyword_range name_range colon_range = Ast_Members_Attr_Accessor location name
     type ivar_name kind annotations comment visibility keyword_range name_range colon_range
     RBS_LOCATION_NULL_RANGE RBS_LOCATION_NULL_RANGE RBS_LOCATION_NULL_RANGE
     RBS_LOCATION_NULL_RANGE"

definition rbs_ast_members_attr_reader_new :: "rbs_location_range \<Rightarrow> rbs_ast_symbol \<Rightarrow> rbs_node \<Rightarrow>
    rbs_attr_ivar_name \<Rightarrow> rbs_attribute_kind \<Rightarrow> rbs_ast_annotation list
    \<Rightarrow> rbs_ast_comment option \<Rightarrow> rbs_attribute_visibility \<Rightarrow>
    rbs_location_range \<Rightarrow> rbs_location_range \<Rightarrow> rbs_location_range
    \<Rightarrow> rbs_member" where
  "rbs_ast_members_attr_reader_new location name type ivar_name kind annotations comment visibility
     keyword_range name_range colon_range = Ast_Members_Attr_Reader location name type ivar_name
     kind annotations comment visibility keyword_range name_range colon_range
     RBS_LOCATION_NULL_RANGE RBS_LOCATION_NULL_RANGE RBS_LOCATION_NULL_RANGE
     RBS_LOCATION_NULL_RANGE"

definition rbs_ast_members_attr_writer_new :: "rbs_location_range \<Rightarrow> rbs_ast_symbol \<Rightarrow> rbs_node \<Rightarrow>
    rbs_attr_ivar_name \<Rightarrow> rbs_attribute_kind \<Rightarrow> rbs_ast_annotation list
    \<Rightarrow> rbs_ast_comment option \<Rightarrow> rbs_attribute_visibility \<Rightarrow>
    rbs_location_range \<Rightarrow> rbs_location_range \<Rightarrow> rbs_location_range
    \<Rightarrow> rbs_member" where
  "rbs_ast_members_attr_writer_new location name type ivar_name kind annotations comment visibility
     keyword_range name_range colon_range = Ast_Members_Attr_Writer location name type ivar_name
     kind annotations comment visibility keyword_range name_range colon_range
     RBS_LOCATION_NULL_RANGE RBS_LOCATION_NULL_RANGE RBS_LOCATION_NULL_RANGE
     RBS_LOCATION_NULL_RANGE"

definition rbs_ast_members_class_instance_variable_new :: "rbs_location_range \<Rightarrow> rbs_ast_symbol \<Rightarrow> rbs_node \<Rightarrow>
    rbs_ast_comment option \<Rightarrow> rbs_location_range \<Rightarrow> rbs_location_range
    \<Rightarrow> rbs_member" where
  "rbs_ast_members_class_instance_variable_new location name type comment name_range colon_range =
     Ast_Members_Class_Instance_Variable location name type comment name_range colon_range
     RBS_LOCATION_NULL_RANGE"

definition rbs_ast_members_class_variable_new :: "rbs_location_range \<Rightarrow> rbs_ast_symbol \<Rightarrow> rbs_node \<Rightarrow>
    rbs_ast_comment option \<Rightarrow> rbs_location_range \<Rightarrow> rbs_location_range
    \<Rightarrow> rbs_member" where
  "rbs_ast_members_class_variable_new location name type comment name_range colon_range =
     Ast_Members_Class_Variable location name type comment name_range colon_range
     RBS_LOCATION_NULL_RANGE"

definition rbs_ast_members_extend_new :: "rbs_location_range \<Rightarrow> rbs_type_name \<Rightarrow> rbs_node list \<Rightarrow>
    rbs_ast_annotation list \<Rightarrow> rbs_ast_comment option \<Rightarrow>
    rbs_location_range \<Rightarrow> rbs_location_range \<Rightarrow> rbs_member" where
  "rbs_ast_members_extend_new location name args annotations comment name_range keyword_range =
     Ast_Members_Extend location name args annotations comment name_range keyword_range
     RBS_LOCATION_NULL_RANGE"

definition rbs_ast_members_include_new :: "rbs_location_range \<Rightarrow> rbs_type_name \<Rightarrow> rbs_node list \<Rightarrow>
    rbs_ast_annotation list \<Rightarrow> rbs_ast_comment option \<Rightarrow>
    rbs_location_range \<Rightarrow> rbs_location_range \<Rightarrow> rbs_member" where
  "rbs_ast_members_include_new location name args annotations comment name_range keyword_range =
     Ast_Members_Include location name args annotations comment name_range keyword_range
     RBS_LOCATION_NULL_RANGE"

definition rbs_ast_members_instance_variable_new :: "rbs_location_range \<Rightarrow> rbs_ast_symbol \<Rightarrow> rbs_node \<Rightarrow>
    rbs_ast_comment option \<Rightarrow> rbs_location_range \<Rightarrow> rbs_location_range
    \<Rightarrow> rbs_member" where
  "rbs_ast_members_instance_variable_new location name type comment name_range colon_range =
     Ast_Members_Instance_Variable location name type comment name_range colon_range
     RBS_LOCATION_NULL_RANGE"

definition rbs_ast_members_method_definition_new :: "rbs_location_range \<Rightarrow> rbs_ast_symbol \<Rightarrow> rbs_method_definition_kind
    \<Rightarrow> rbs_ast_members_method_definition_overload list \<Rightarrow>
    rbs_ast_annotation list \<Rightarrow> rbs_ast_comment option \<Rightarrow> bool
    \<Rightarrow> rbs_method_definition_visibility \<Rightarrow> rbs_location_range
    \<Rightarrow> rbs_location_range \<Rightarrow> rbs_member" where
  "rbs_ast_members_method_definition_new location name kind overloads annotations comment
     overloading visibility keyword_range name_range = Ast_Members_Method_Definition location
     name kind overloads annotations comment overloading visibility keyword_range name_range
     RBS_LOCATION_NULL_RANGE RBS_LOCATION_NULL_RANGE RBS_LOCATION_NULL_RANGE"

definition rbs_ast_members_prepend_new :: "rbs_location_range \<Rightarrow> rbs_type_name \<Rightarrow> rbs_node list \<Rightarrow>
    rbs_ast_annotation list \<Rightarrow> rbs_ast_comment option \<Rightarrow>
    rbs_location_range \<Rightarrow> rbs_location_range \<Rightarrow> rbs_member" where
  "rbs_ast_members_prepend_new location name args annotations comment name_range keyword_range =
     Ast_Members_Prepend location name args annotations comment name_range keyword_range
     RBS_LOCATION_NULL_RANGE"

definition rbs_ast_members_private_new :: "rbs_location_range \<Rightarrow> rbs_member" where
  "rbs_ast_members_private_new location = Ast_Members_Private location"

definition rbs_ast_members_public_new :: "rbs_location_range \<Rightarrow> rbs_member" where
  "rbs_ast_members_public_new location = Ast_Members_Public location"

definition rbs_ast_directives_use_single_clause_new :: "rbs_location_range \<Rightarrow> rbs_type_name \<Rightarrow> rbs_ast_symbol option \<Rightarrow>
    rbs_location_range \<Rightarrow> rbs_use_clause" where
  "rbs_ast_directives_use_single_clause_new location type_name new_name type_name_range =
     Ast_Directives_Use_Single_Clause location type_name new_name type_name_range
     RBS_LOCATION_NULL_RANGE RBS_LOCATION_NULL_RANGE"

definition rbs_ast_directives_use_wildcard_clause_new :: "rbs_location_range \<Rightarrow> rbs_namespace \<Rightarrow> rbs_location_range \<Rightarrow>
    rbs_location_range \<Rightarrow> rbs_use_clause" where
  "rbs_ast_directives_use_wildcard_clause_new location rbs_namespace namespace_range star_range =
     Ast_Directives_Use_Wildcard_Clause location rbs_namespace namespace_range star_range"

definition rbs_ast_directives_use_new :: "rbs_location_range \<Rightarrow> rbs_use_clause list \<Rightarrow> rbs_location_range
    \<Rightarrow> rbs_ast_directives_use" where
  "rbs_ast_directives_use_new location clauses keyword_range = \<lparr>use_location = location,
     use_clauses = clauses, use_keyword_range = keyword_range\<rparr>"

definition rbs_signature_new :: "rbs_location_range \<Rightarrow> rbs_ast_directives_use list \<Rightarrow> rbs_member list
    \<Rightarrow> rbs_signature" where
  "rbs_signature_new location directives declarations = \<lparr>sig_location = location,
     sig_directives = directives, sig_declarations = declarations\<rparr>"

subsection \<open>Assignments to optional ranges\<close>

definition set_member_type_params_range :: "rbs_location_range \<Rightarrow> rbs_member \<Rightarrow> rbs_member" where
  "set_member_type_params_range r node =
     (case node of
        Ast_Declarations_Class a0 a1 a2 a3 a4 a5 a6 a7 a8 a9 _ a11 \<Rightarrow>
          Ast_Declarations_Class a0 a1 a2 a3 a4 a5 a6 a7 a8 a9 r a11
      | Ast_Declarations_Interface a0 a1 a2 a3 a4 a5 a6 a7 a8 _ \<Rightarrow>
          Ast_Declarations_Interface a0 a1 a2 a3 a4 a5 a6 a7 a8 r
      | Ast_Declarations_Module a0 a1 a2 a3 a4 a5 a6 a7 a8 a9 _ a11 a12 \<Rightarrow>
          Ast_Declarations_Module a0 a1 a2 a3 a4 a5 a6 a7 a8 a9 r a11 a12
      | Ast_Declarations_Type_Alias a0 a1 a2 a3 a4 a5 a6 a7 a8 _ \<Rightarrow>
          Ast_Declarations_Type_Alias a0 a1 a2 a3 a4 a5 a6 a7 a8 r
      | _ \<Rightarrow> node)"

definition set_member_lt_range :: "rbs_location_range \<Rightarrow> rbs_member \<Rightarrow> rbs_member" where
  "set_member_lt_range r node =
     (case node of
        Ast_Declarations_Class a0 a1 a2 a3 a4 a5 a6 a7 a8 a9 a10 _ \<Rightarrow>
          Ast_Declarations_Class a0 a1 a2 a3 a4 a5 a6 a7 a8 a9 a10 r
      | _ \<Rightarrow> node)"

definition set_member_colon_range :: "rbs_location_range \<Rightarrow> rbs_member \<Rightarrow> rbs_member" where
  "set_member_colon_range r node =
     (case node of
        Ast_Declarations_Module a0 a1 a2 a3 a4 a5 a6 a7 a8 a9 a10 _ a12 \<Rightarrow>
          Ast_Declarations_Module a0 a1 a2 a3 a4 a5 a6 a7 a8 a9 a10 r a12
      | _ \<Rightarrow> node)"

definition set_member_self_types_range :: "rbs_location_range \<Rightarrow> rbs_member \<Rightarrow> rbs_member" where
  "set_member_self_types_range r node =
     (case node of
        Ast_Declarations_Module a0 a1 a2 a3 a4 a5 a6 a7 a8 a9 a10 a11 _ \<Rightarrow>
          Ast_Declarations_Module a0 a1 a2 a3 a4 a5 a6 a7 a8 a9 a10 a11 r
      | _ \<Rightarrow> node)"

definition set_member_new_kind_range :: "rbs_location_range \<Rightarrow> rbs_member \<Rightarrow> rbs_member" where
  "set_member_new_kind_range r node =
     (case node of
        Ast_Members_Alias a0 a1 a2 a3 a4 a5 a6 a7 a8 _ a10 \<Rightarrow>
          Ast_Members_Alias a0 a1 a2 a3 a4 a5 a6 a7 a8 r a10
      | _ \<Rightarrow> node)"

definition set_member_old_kind_range :: "rbs_location_range \<Rightarrow> rbs_member \<Rightarrow> rbs_member" where
  "set_member_old_kind_range r node =
     (case node of
        Ast_Members_Alias a0 a1 a2 a3 a4 a5 a6 a7 a8 a9 _ \<Rightarrow>
          Ast_Members_Alias a0 a1 a2 a3 a4 a5 a6 a7 a8 a9 r
      | _ \<Rightarrow> node)"

definition set_member_kind_range :: "rbs_location_range \<Rightarrow> rbs_member \<Rightarrow> rbs_member" where
  "set_member_kind_range r node =
     (case node of
        Ast_Members_Attr_Accessor a0 a1 a2 a3 a4 a5 a6 a7 a8 a9 a10 _ a12 a13 a14 \<Rightarrow>
          Ast_Members_Attr_Accessor a0 a1 a2 a3 a4 a5 a6 a7 a8 a9 a10 r a12 a13 a14
      | Ast_Members_Attr_Reader a0 a1 a2 a3 a4 a5 a6 a7 a8 a9 a10 _ a12 a13 a14 \<Rightarrow>
          Ast_Members_Attr_Reader a0 a1 a2 a3 a4 a5 a6 a7 a8 a9 a10 r a12 a13 a14
      | Ast_Members_Attr_Writer a0 a1 a2 a3 a4 a5 a6 a7 a8 a9 a10 _ a12 a13 a14 \<Rightarrow>
          Ast_Members_Attr_Writer a0 a1 a2 a3 a4 a5 a6 a7 a8 a9 a10 r a12 a13 a14
      | Ast_Members_Class_Instance_Variable a0 a1 a2 a3 a4 a5 _ \<Rightarrow>
          Ast_Members_Class_Instance_Variable a0 a1 a2 a3 a4 a5 r
      | Ast_Members_Class_Variable a0 a1 a2 a3 a4 a5 _ \<Rightarrow>
          Ast_Members_Class_Variable a0 a1 a2 a3 a4 a5 r
      | Ast_Members_Instance_Variable a0 a1 a2 a3 a4 a5 _ \<Rightarrow>
          Ast_Members_Instance_Variable a0 a1 a2 a3 a4 a5 r
      | Ast_Members_Method_Definition a0 a1 a2 a3 a4 a5 a6 a7 a8 a9 _ a11 a12 \<Rightarrow>
          Ast_Members_Method_Definition a0 a1 a2 a3 a4 a5 a6 a7 a8 a9 r a11 a12
      | _ \<Rightarrow> node)"

definition set_member_ivar_range :: "rbs_location_range \<Rightarrow> rbs_member \<Rightarrow> rbs_member" where
  "set_member_ivar_range r node =
     (case node of
        Ast_Members_Attr_Accessor a0 a1 a2 a3 a4 a5 a6 a7 a8 a9 a10 a11 _ a13 a14 \<Rightarrow>
          Ast_Members_Attr_Accessor a0 a1 a2 a3 a4 a5 a6 a7 a8 a9 a10 a11 r a13 a14
      | Ast_Members_Attr_Reader a0 a1 a2 a3 a4 a5 a6 a7 a8 a9 a10 a11 _ a13 a14 \<Rightarrow>
          Ast_Members_Attr_Reader a0 a1 a2 a3 a4 a5 a6 a7 a8 a9 a10 a11 r a13 a14
      | Ast_Members_Attr_Writer a0 a1 a2 a3 a4 a5 a6 a7 a8 a9 a10 a11 _ a13 a14 \<Rightarrow>
          Ast_Members_Attr_Writer a0 a1 a2 a3 a4 a5 a6 a7 a8 a9 a10 a11 r a13 a14
      | _ \<Rightarrow> node)"

definition set_member_ivar_name_range :: "rbs_location_range \<Rightarrow> rbs_member \<Rightarrow> rbs_member" where
  "set_member_ivar_name_range r node =
     (case node of
        Ast_Members_Attr_Accessor a0 a1 a2 a3 a4 a5 a6 a7 a8 a9 a10 a11 a12 _ a14 \<Rightarrow>
          Ast_Members_Attr_Accessor a0 a1 a2 a3 a4 a5 a6 a7 a8 a9 a10 a11 a12 r a14
      | Ast_Members_Attr_Reader a0 a1 a2 a3 a4 a5 a6 a7 a8 a9 a10 a11 a12 _ a14 \<Rightarrow>
          Ast_Members_Attr_Reader a0 a1 a2 a3 a4 a5 a6 a7 a8 a9 a10 a11 a12 r a14
      | Ast_Members_Attr_Writer a0 a1 a2 a3 a4 a5 a6 a7 a8 a9 a10 a11 a12 _ a14 \<Rightarrow>
          Ast_Members_Attr_Writer a0 a1 a2 a3 a4 a5 a6 a7 a8 a9 a10 a11 a12 r a14
      | _ \<Rightarrow> node)"

definition set_member_visibility_range :: "rbs_location_range \<Rightarrow> rbs_member \<Rightarrow> rbs_member" where
  "set_member_visibility_range r node =
     (case node of
        Ast_Members_Attr_Accessor a0 a1 a2 a3 a4 a5 a6 a7 a8 a9 a10 a11 a12 a13 _ \<Rightarrow>
          Ast_Members_Attr_Accessor a0 a1 a2 a3 a4 a5 a6 a7 a8 a9 a10 a11 a12 a13 r
      | Ast_Members_Attr_Reader a0 a1 a2 a3 a4 a5 a6 a7 a8 a9 a10 a11 a12 a13 _ \<Rightarrow>
          Ast_Members_Attr_Reader a0 a1 a2 a3 a4 a5 a6 a7 a8 a9 a10 a11 a12 a13 r
      | Ast_Members_Attr_Writer a0 a1 a2 a3 a4 a5 a6 a7 a8 a9 a10 a11 a12 a13 _ \<Rightarrow>
          Ast_Members_Attr_Writer a0 a1 a2 a3 a4 a5 a6 a7 a8 a9 a10 a11 a12 a13 r
      | Ast_Members_Method_Definition a0 a1 a2 a3 a4 a5 a6 a7 a8 a9 a10 a11 _ \<Rightarrow>
          Ast_Members_Method_Definition a0 a1 a2 a3 a4 a5 a6 a7 a8 a9 a10 a11 r
      | _ \<Rightarrow> node)"

definition set_member_args_range :: "rbs_location_range \<Rightarrow> rbs_member \<Rightarrow> rbs_member" where
  "set_member_args_range r node =
     (case node of
        Ast_Members_Extend a0 a1 a2 a3 a4 a5 a6 _ \<Rightarrow>
          Ast_Members_Extend a0 a1 a2 a3 a4 a5 a6 r
      | Ast_Members_Include a0 a1 a2 a3 a4 a5 a6 _ \<Rightarrow>
          Ast_Members_Include a0 a1 a2 a3 a4 a5 a6 r
      | Ast_Members_Prepend a0 a1 a2 a3 a4 a5 a6 _ \<Rightarrow>
          Ast_Members_Prepend a0 a1 a2 a3 a4 a5 a6 r
      | _ \<Rightarrow> node)"

definition set_member_overloading_range :: "rbs_location_range \<Rightarrow> rbs_member \<Rightarrow> rbs_member" where
  "set_member_overloading_range r node =
     (case node of
        Ast_Members_Method_Definition a0 a1 a2 a3 a4 a5 a6 a7 a8 a9 a10 _ a12 \<Rightarrow>
          Ast_Members_Method_Definition a0 a1 a2 a3 a4 a5 a6 a7 a8 a9 a10 r a12
      | _ \<Rightarrow> node)"

definition set_use_keyword_range :: "rbs_location_range \<Rightarrow> rbs_use_clause \<Rightarrow> rbs_use_clause" where
  "set_use_keyword_range r node =
     (case node of
        Ast_Directives_Use_Single_Clause a0 a1 a2 a3 _ a5 \<Rightarrow>
          Ast_Directives_Use_Single_Clause a0 a1 a2 a3 r a5
      | _ \<Rightarrow> node)"

definition set_use_new_name_range :: "rbs_location_range \<Rightarrow> rbs_use_clause \<Rightarrow> rbs_use_clause" where
  "set_use_new_name_range r node =
     (case node of
        Ast_Directives_Use_Single_Clause a0 a1 a2 a3 a4 _ \<Rightarrow>
          Ast_Directives_Use_Single_Clause a0 a1 a2 a3 a4 r
      | _ \<Rightarrow> node)"

end
