(* ===== verification/MethodTypeParser.thy ===== *)
theory MethodTypeParser
  imports AstDecls TypeParser
begin

text \<open>
  The parsers of type parameters and of method types in \<open>src/parser.c\<close>: \<open>parse_type_params\<close>,
  \<open>rbs_parse_method_type\<close> and \<open>rbs_parse_type_params\<close>.
\<close>

subsection \<open>Type parameters\<close>

text \<open>The switch on \<open>kIN\<close> and \<open>kOUT\<close> has an error for other tokens, which do not get there.\<close>

definition type_param_unchecked :: "bool \<Rightarrow> rbs_parser \<Rightarrow> (bool \<times> rbs_range) outcome" where
  "type_param_unchecked module_type_params p =
     (if module_type_params \<and> next_type p = kUNCHECKED
      then advancing p (\<lambda>p. Done (True, tok_range (current_token p)) p)
      else Done (False, NULL_RANGE) p)"

definition type_param_variance :: "bool \<Rightarrow> rbs_parser \<Rightarrow> (rbs_type_param_variance \<times> rbs_range) outcome" where
  "type_param_variance module_type_params p =
     (if module_type_params \<and> (next_type p = kIN \<or> next_type p = kOUT) then
        let variance = (if next_type p = kIN then RBS_TYPE_PARAM_VARIANCE_CONTRAVARIANT
                        else RBS_TYPE_PARAM_VARIANCE_COVARIANT)
        in advancing p (\<lambda>p. Done (variance, tok_range (current_token p)) p)
      else Done (RBS_TYPE_PARAM_VARIANCE_INVARIANT, NULL_RANGE) p)"

text \<open>The bounds that have been read, with their ranges.\<close>

record param_bounds =
  upper_bound :: "rbs_node option"
  lower_bound :: "rbs_node option"
  upper_bound_range :: rbs_range
  lower_bound_range :: rbs_range

definition no_bounds :: param_bounds where
  "no_bounds =
     \<lparr>upper_bound = None, lower_bound = None, upper_bound_range = NULL_RANGE, lower_bound_range = NULL_RANGE\<rparr>"

text \<open>A round of the loop with two \<open>bound_parse_attempt\<close>s.\<close>

definition type_param_bound :: "param_bounds \<Rightarrow> rbs_parser \<Rightarrow> param_bounds outcome" where
  "type_param_bound bounds p =
     (if next_type p = pLT then
        if upper_bound bounds \<noteq> None then
          fail_with p (next_token p) True ''duplicate upper bound ('<') for type parameter''
        else advancing p (\<lambda>p.
          let first = current_start p in
          check_parse (rbs_parse_type False False False p) (\<lambda>type p.
            Done (bounds\<lparr>upper_bound := Some type, upper_bound_range := \<lparr>r_start = first, r_end = current_end p\<rparr>\<rparr>) p))
      else if next_type p = pGT then
        if lower_bound bounds \<noteq> None then
          fail_with p (next_token p) True ''duplicate lower bound ('>') for type parameter''
        else advancing p (\<lambda>p.
          let first = current_start p in
          check_parse (rbs_parse_type False False False p) (\<lambda>type p.
            Done (bounds\<lparr>lower_bound := Some type, lower_bound_range := \<lparr>r_start = first, r_end = current_end p\<rparr>\<rparr>) p))
      else Done bounds p)"

text \<open>The default type, its range, and the new value of \<open>required_param_allowed\<close>.\<close>

definition type_param_default :: "bool \<Rightarrow> bool \<Rightarrow> rbs_parser \<Rightarrow> (rbs_node option \<times> rbs_range \<times> bool) outcome" where
  "type_param_default module_type_params required_param_allowed p =
     (if \<not> module_type_params then Done (None, NULL_RANGE, required_param_allowed) p
      else if next_type p = pEQ then
        advancing p (\<lambda>p.
          let first = current_start p in
          check_parse (rbs_parse_type True False False p) (\<lambda>default_type p.
            Done (Some default_type, \<lparr>r_start = first, r_end = current_end p\<rparr>, False) p))
      else if \<not> required_param_allowed then
        fail_with p (current_token p) True ''required type parameter is not allowed after optional type parameter''
      else Done (None, NULL_RANGE, required_param_allowed) p)"

definition type_param_node ::
  "rbs_position \<Rightarrow> rbs_position \<Rightarrow> rbs_ast_symbol \<Rightarrow> rbs_range \<Rightarrow> bool \<times> rbs_range \<Rightarrow>
   rbs_type_param_variance \<times> rbs_range \<Rightarrow> param_bounds \<Rightarrow> rbs_node option \<times> rbs_range \<Rightarrow> rbs_ast_type_param"
where
  "type_param_node first till name name_range unchecked variance bounds default_type =
     (rbs_ast_type_param_new (location_from first till) name (fst variance) (upper_bound bounds) (lower_bound bounds)
        (fst default_type) (fst unchecked) (RBS_RANGE_LEX2AST name_range))
     \<lparr>tp_variance_range := RBS_RANGE_LEX2AST (snd variance),
      tp_unchecked_range := RBS_RANGE_LEX2AST (snd unchecked),
      tp_upper_bound_range := RBS_RANGE_LEX2AST (upper_bound_range bounds),
      tp_lower_bound_range := RBS_RANGE_LEX2AST (lower_bound_range bounds),
      tp_default_range := RBS_RANGE_LEX2AST (snd default_type)\<rparr>"

text \<open>A parameter from its name on; the result has the new value of \<open>required_param_allowed\<close>.\<close>

definition type_param_named ::
  "bool \<Rightarrow> bool \<Rightarrow> rbs_position \<Rightarrow> bool \<times> rbs_range \<Rightarrow> rbs_type_param_variance \<times> rbs_range \<Rightarrow> rbs_parser \<Rightarrow>
   (rbs_ast_type_param \<times> bool) outcome"
where
  "type_param_named module_type_params required_param_allowed first unchecked variance p =
     advance_assert p tUIDENT (\<lambda>p.
       let name_range = tok_range (current_token p);
           name_symbol_range = rbs_location_range_current_token p
       in rbs_constant_pool_insert_string p (rbs_parser_peek_current_token p) (\<lambda>name_id p.
         let name = rbs_ast_symbol_new name_symbol_range name_id in
         check_parse (rbs_parser_insert_typevar p name_id) (\<lambda>_ p.
         check_parse (type_param_bound no_bounds p) (\<lambda>bounds p.
         check_parse (type_param_bound bounds p) (\<lambda>bounds p.
         check_parse (type_param_default module_type_params required_param_allowed p)
           (\<lambda>(default_type, default_type_range, required_param_allowed) p.
           Done (type_param_node first (current_end p) name name_range unchecked variance bounds
                   (default_type, default_type_range), required_param_allowed) p))))))"

definition type_param ::
  "bool \<Rightarrow> bool \<Rightarrow> rbs_parser \<Rightarrow> (rbs_ast_type_param \<times> bool) outcome"
where
  "type_param module_type_params required_param_allowed p =
     (let first = next_start p in
      check_parse (type_param_unchecked module_type_params p) (\<lambda>unchecked p.
      check_parse (type_param_variance module_type_params p) (\<lambda>variance p.
        type_param_named module_type_params required_param_allowed first unchecked variance p)))"

definition type_params_round ::
  "bool \<Rightarrow> bool \<times> rbs_ast_type_param list \<Rightarrow> rbs_parser \<Rightarrow>
   ((bool \<times> rbs_ast_type_param list) + rbs_ast_type_param list) outcome"
where
  "type_params_round module_type_params state p =
     check_parse (type_param module_type_params (fst state) p) (\<lambda>(param, required_param_allowed) p.
       let params = rbs_node_list_append (snd state) param in
       if next_type p = pCOMMA then advancing p (\<lambda>p. Done (Inl (required_param_allowed, params)) p)
       else if next_type p = pRBRACKET then Done (Inr params) p
       else fail_with p (next_token p) True
         (''expected ',' or ']' after type parameter, got '' @ rbs_token_type_str (next_type p)))"

text \<open>The range of the brackets, and the parameters.\<close>

definition parse_type_params :: "bool \<Rightarrow> rbs_parser \<Rightarrow> (rbs_range \<times> rbs_ast_type_param list) outcome" where
  "parse_type_params module_type_params p =
     (if next_type p = pLBRACKET then
        advancing p (\<lambda>p.
          let first = current_start p in
          check_parse (while_true (type_params_round module_type_params) (True, rbs_node_list_new) p) (\<lambda>params p.
          advance_assert p pRBRACKET (\<lambda>p. Done (\<lparr>r_start = first, r_end = current_end p\<rparr>, params) p)))
      else Done (NULL_RANGE, rbs_node_list_new) p)"

subsection \<open>Method types\<close>

definition assert_eof :: "rbs_parser \<Rightarrow> (rbs_parser \<Rightarrow> 'a outcome) \<Rightarrow> 'a outcome" where
  "assert_eof p k =
     advancing p (\<lambda>p.
       if current_type p \<noteq> pEOF then
         fail_with p (current_token p) True (''expected a token `'' @ rbs_token_type_str pEOF @ ''`'')
       else k p)"

definition rbs_parse_method_type :: "bool \<Rightarrow> bool \<Rightarrow> rbs_parser \<Rightarrow> rbs_method_type outcome" where
  "rbs_parse_method_type require_eof classish_allowed p =
     (let p = rbs_parser_push_typevar_table p False;
          first = next_start p
      in check_parse (parse_type_params False p) (\<lambda>(params_range, type_params) p.
         let type_first = next_start p in
         check_parse (parse_function parse_simple False True True True classish_allowed p) (\<lambda>(function, block, _) p.
         check_parse (parser_pop_typevar_table p) (\<lambda>_ p.
         let till = current_end p;
             method_type = (rbs_method_type_new (location_from first till) type_params function block
                 (location_from type_first till))
               \<lparr>mt_type_params_range := RBS_RANGE_LEX2AST params_range\<rparr>
         in if require_eof then assert_eof p (Done method_type) else Done method_type p))))"

text \<open>
  \<open>rbs_parse_type_params\<close> advances and checks for the end before it returns the result of
  \<open>parse_type_params\<close>, also when that is \<open>false\<close>, and pushes a table where it could pop one.
\<close>

definition rbs_parse_type_params :: "bool \<Rightarrow> rbs_parser \<Rightarrow> rbs_ast_type_param list outcome" where
  "rbs_parse_type_params module_type_params p =
     (if next_type p \<noteq> pLBRACKET then fail_with p (next_token p) True ''expected a token `pLBRACKET`''
      else
        case parse_type_params module_type_params (rbs_parser_push_typevar_table p True) of
          Done (rg, params) p \<Rightarrow> assert_eof (rbs_parser_push_typevar_table p False) (Done params)
        | Failed p \<Rightarrow> assert_eof (rbs_parser_push_typevar_table p False) Failed
        | Aborted \<Rightarrow> Aborted
        | Out_of_fuel \<Rightarrow> Out_of_fuel)"

end
