(* ===== verification/MemberParser.thy ===== *)
theory MemberParser
  imports MethodTypeParser
begin

text \<open>
  The parsers of annotations, method names and members in \<open>src/parser.c\<close>, from
  \<open>parse_annotation\<close> to \<open>parse_attribute_member\<close>. A function that parses a member starts on
  its first token. The case of a quoted method name does not set the range of the name, so that
  callers read an uninitialised variable: \<open>uninit\<close> is the value they find there.
\<close>

subsection \<open>Annotations\<close>

definition annotation_close :: "byte \<Rightarrow> byte option" where
  "annotation_close open_char =
     (if open_char = 123 then Some 125
      else if open_char = 40 then Some 41
      else if open_char = 91 then Some 93
      else if open_char = 60 then Some 62
      else if open_char = 124 then Some 124
      else None)"

definition parse_annotation :: "rbs_parser \<Rightarrow> rbs_ast_annotation outcome" where
  "parse_annotation p =
     (let rg = tok_range (current_token p);
          enc = lx_encoding (lexer p);
          offset_bytes = char_width enc [37] + char_width enc [97];
          open_char = buffer (lx_string (lexer p)) !
            (start (lx_string (lexer p)) + nat (byte_pos (r_start rg)) + offset_bytes)
      in case annotation_close open_char of
           None \<Rightarrow> fail_with p (current_token p) False ''Unexpected error''
         | Some close_char \<Rightarrow>
             let open_bytes = char_width enc [open_char];
                 close_bytes = char_width enc [close_char];
                 current = rbs_parser_peek_current_token p;
                 total_offset = offset_bytes + open_bytes;
                 annotation_str = rbs_string_new (buffer current) (start current + total_offset)
                   (end_ptr current - close_bytes)
             in Done (rbs_ast_annotation_new (RBS_RANGE_LEX2AST rg) (rbs_string_strip_whitespace annotation_str)) p)"

definition annotations_round ::
  "rbs_ast_annotation list \<times> rbs_position \<Rightarrow> rbs_parser \<Rightarrow>
   ((rbs_ast_annotation list \<times> rbs_position) + (rbs_ast_annotation list \<times> rbs_position)) outcome"
where
  "annotations_round state p =
     (if next_type p = tANNOTATION then
        advancing p (\<lambda>p.
          let annot_pos = rbs_nonnull_pos_or (snd state) (current_start p) in
          check_parse (parse_annotation p) (\<lambda>annotation p.
            Done (Inl (rbs_node_list_append (fst state) annotation, annot_pos)) p))
      else Done (Inr state) p)"

text \<open>The annotations, and the position of the first one.\<close>

definition parse_annotations ::
  "rbs_ast_annotation list \<Rightarrow> rbs_parser \<Rightarrow> (rbs_ast_annotation list \<times> rbs_position) outcome"
where
  "parse_annotations annotations p = while_true annotations_round (annotations, NullPosition) p"

subsection \<open>Method names\<close>

definition method_name_token :: "rbs_parser \<Rightarrow> (rbs_range \<times> rbs_ast_symbol) outcome" where
  "method_name_token p =
     (let rg = tok_range (current_token p) in
      INTERN_TOKEN p (current_token p) (\<lambda>constant_id p.
        Done (rg, rbs_ast_symbol_new (RBS_RANGE_LEX2AST rg) constant_id) p))"

definition method_name_question :: "rbs_parser \<Rightarrow> (rbs_range \<times> rbs_ast_symbol) outcome" where
  "method_name_question p =
     (let rg = \<lparr>r_start = current_start p, r_end = r_end (tok_range (next_token p))\<rparr> in
      advancing p (\<lambda>p.
        interning p (source_constant p (start (lx_string (lexer p)) + nat (byte_pos (r_start rg)))
            (nat (byte_pos (r_end rg) - byte_pos (r_start rg)))) (\<lambda>constant_id p.
          Done (rg, rbs_ast_symbol_new (RBS_RANGE_LEX2AST rg) constant_id) p)))"

definition parse_method_name :: "rbs_range \<Rightarrow> rbs_parser \<Rightarrow> (rbs_range \<times> rbs_ast_symbol) outcome" where
  "parse_method_name uninit p =
     advancing p (\<lambda>p.
       if current_type p \<in> set ([tUIDENT, tLIDENT, tULIDENT, tULLIDENT, tNONASCIIIDENT] @ KEYWORD_CASES) then
         if next_type p = pQUESTION \<and> adjacent (current_token p) (next_token p)
         then method_name_question p else method_name_token p
       else if current_type p \<in> {tBANGIDENT, tEQIDENT} then method_name_token p
       else if current_type p = tQIDENT then
         rbs_constant_pool_insert_string p
           (rbs_unquote_string (rbs_parser_peek_current_token p) (lx_encoding (lexer p))) (\<lambda>constant_id p.
             Done (uninit, rbs_ast_symbol_new (rbs_location_range_current_token p) constant_id) p)
       else if current_type p \<in> {pBAR, pHAT, pAMP, pSTAR, pSTAR2, pLT, pGT, pAREF_OPR, tOPERATOR} then
         method_name_token p
       else fail_with p (current_token p) True ''unexpected token for method name'')"

datatype InstanceSingletonKind = INSTANCE_KIND | SINGLETON_KIND | INSTANCE_SINGLETON_KIND

text \<open>The function cannot fail. Its range starts at \<open>self\<close> even when nothing is read.\<close>

definition parse_instance_singleton_kind ::
  "bool \<Rightarrow> rbs_parser \<Rightarrow> (InstanceSingletonKind \<times> rbs_range) outcome"
where
  "parse_instance_singleton_kind allow_selfq p =
     (if next_type p = kSELF then
        let self_range = tok_range (next_token p);
            kind_on = (\<lambda>kind p. Done (kind, \<lparr>r_start = r_start self_range, r_end = current_end p\<rparr>) p)
        in if next_type2 p = pDOT then advancing p (\<lambda>p. advancing p (kind_on SINGLETON_KIND))
           else if next_type2 p = pQUESTION \<and>
             char_pos (r_end (tok_range (next_token p))) = char_pos (r_start (tok_range (next_token2 p))) \<and>
             tok_type (next_token3 p) = pDOT \<and> allow_selfq
           then advancing p (\<lambda>p. advancing p (\<lambda>p. advancing p (kind_on INSTANCE_SINGLETON_KIND)))
           else kind_on INSTANCE_KIND p
      else Done (INSTANCE_KIND, NULL_RANGE) p)"

subsection \<open>Method definitions\<close>

text \<open>The bytes of the constant \<open>self?\<close>, which is not in the source.\<close>

definition SELF_ID :: "rbs_parser \<Rightarrow> (32 word \<Rightarrow> rbs_parser \<Rightarrow> 'a outcome) \<Rightarrow> 'a outcome" where
  "SELF_ID p k =
     (case rbs_constant_pool_insert_constant (\<lambda>_. True) (constant_pool p)
         \<lparr>c_start = 0, c_bytes = [115, 101, 108, 102, 63]\<rparr> of
        Inl _ \<Rightarrow> Aborted
      | Inr (constant_id, pool) \<Rightarrow> k constant_id (p\<lparr>constant_pool := pool\<rparr>))"

definition member_def_colon :: "rbs_ast_symbol \<Rightarrow> rbs_parser \<Rightarrow> (rbs_parser \<Rightarrow> 'a outcome) \<Rightarrow> 'a outcome" where
  "member_def_colon name p k =
     (if next_type p = pDOT then
        SELF_ID p (\<lambda>self_id p.
          if sym_constant_id name = self_id
          then fail_with p (next_token p) True ''`self?` method cannot have visibility''
          else advance_assert p pCOLON k)
      else advance_assert p pCOLON k)"

definition def_visibility :: "rbs_parser \<Rightarrow> (rbs_range \<times> rbs_method_definition_visibility) outcome" where
  "def_visibility p =
     (if current_type p = kPRIVATE then
        advancing p (Done (tok_range (current_token p), RBS_METHOD_DEFINITION_VISIBILITY_PRIVATE))
      else if current_type p = kPUBLIC then
        advancing p (Done (tok_range (current_token p), RBS_METHOD_DEFINITION_VISIBILITY_PUBLIC))
      else Done (NULL_RANGE, RBS_METHOD_DEFINITION_VISIBILITY_UNSPECIFIED) p)"

text \<open>
  A round of the loop over method types. The loop ends with the overloads, whether there is a
  \<open>...\<close> and its range, and the end of the member; a bar after \<open>...\<close> is skipped.
\<close>

definition overload_round ::
  "bool \<Rightarrow> bool \<Rightarrow> rbs_ast_members_method_definition_overload list \<Rightarrow> rbs_parser \<Rightarrow>
   (rbs_ast_members_method_definition_overload list +
    (rbs_ast_members_method_definition_overload list \<times> bool \<times> rbs_range \<times> rbs_position)) outcome"
where
  "overload_round instance_only accept_overload overloads p =
     (let overload_start = current_start p in
      check_parse (if next_type p = tANNOTATION then parse_annotations rbs_node_list_new p
                   else Done (rbs_node_list_new, NullPosition) p) (\<lambda>(annotations, _) p.
        if next_type p \<in> {pLPAREN, pARROW, pLBRACE, pLBRACKET, pQUESTION} then
          check_parse (rbs_parse_method_type False (\<not> instance_only) p) (\<lambda>method_type p.
            let overloads = rbs_node_list_append overloads
                  (rbs_ast_members_method_definition_overload_new (location_from overload_start (current_end p))
                    annotations method_type);
                member_end = current_end p
            in if next_type p = pBAR then advancing p (Done (Inl overloads))
               else Done (Inr (overloads, False, NULL_RANGE, member_end)) p)
        else if next_type p = pDOT3 then
          if accept_overload then
            advancing p (\<lambda>p.
              let result = Inr (overloads, True, tok_range (current_token p), current_end p) in
              if next_type p = pBAR then advancing p (Done result) else Done result p)
          else fail_with p (next_token p) True ''unexpected overloading method definition''
        else fail_with p (next_token p) True ''unexpected token for method type''))"

definition definition_kind :: "InstanceSingletonKind \<Rightarrow> rbs_method_definition_kind" where
  "definition_kind kind =
     (case kind of
        INSTANCE_KIND \<Rightarrow> RBS_METHOD_DEFINITION_KIND_INSTANCE
      | SINGLETON_KIND \<Rightarrow> RBS_METHOD_DEFINITION_KIND_SINGLETON
      | INSTANCE_SINGLETON_KIND \<Rightarrow> RBS_METHOD_DEFINITION_KIND_SINGLETON_INSTANCE)"

definition parse_member_def ::
  "rbs_range \<Rightarrow> bool \<Rightarrow> bool \<Rightarrow> rbs_position \<Rightarrow> rbs_ast_annotation list \<Rightarrow> rbs_parser \<Rightarrow> rbs_member outcome"
where
  "parse_member_def uninit instance_only accept_overload comment_pos annotations p =
     (let member_start = current_start p;
          comment_pos = rbs_nonnull_pos_or comment_pos member_start
      in getting_comment p (line comment_pos) (\<lambda>comment.
         check_parse (def_visibility p) (\<lambda>(visibility_range, visibility) p.
         let keyword_range = tok_range (current_token p) in
         check_parse (if instance_only then Done (INSTANCE_KIND, NULL_RANGE) p
                      else parse_instance_singleton_kind (visibility = RBS_METHOD_DEFINITION_VISIBILITY_UNSPECIFIED) p)
           (\<lambda>(kind, kind_range) p.
         check_parse (parse_method_name uninit p) (\<lambda>(name_range, name) p.
         member_def_colon name p (\<lambda>p.
         check_parse (while_true (overload_round instance_only accept_overload) rbs_node_list_new
             (rbs_parser_push_typevar_table p (kind \<noteq> INSTANCE_KIND)))
           (\<lambda>(overloads, overloading, overloading_range, member_end) p.
         check_parse (parser_pop_typevar_table p) (\<lambda>_ p.
           Done (set_member_visibility_range (RBS_RANGE_LEX2AST visibility_range)
             (set_member_overloading_range (RBS_RANGE_LEX2AST overloading_range)
             (set_member_kind_range (RBS_RANGE_LEX2AST kind_range)
               (rbs_ast_members_method_definition_new (location_from member_start member_end) name
                 (definition_kind kind) overloads annotations comment overloading visibility
                 (RBS_RANGE_LEX2AST keyword_range) (RBS_RANGE_LEX2AST name_range))))) p))))))))"

subsection \<open>Mixins and aliases\<close>

text \<open>The range of the name, the name, the arguments and their range.\<close>

definition class_instance_name ::
  "TypeNameKind set \<Rightarrow> rbs_node list \<Rightarrow> bool \<Rightarrow> rbs_parser \<Rightarrow>
   (rbs_range \<times> rbs_type_name \<times> rbs_node list \<times> rbs_range) outcome"
where
  "class_instance_name kind args classish_allowed p =
     advancing p (\<lambda>p.
       check_parse (parse_type_name kind p) (\<lambda>(name_range, type_name) p.
         if next_type p = pLBRACKET then
           advancing p (\<lambda>p.
             let args_start = current_start p in
             check_parse (parse_type_list parse_simple pRBRACKET args True False classish_allowed p) (\<lambda>args p.
             advance_assert p pRBRACKET (\<lambda>p.
               Done (name_range, type_name, args, \<lparr>r_start = args_start, r_end = current_end p\<rparr>) p)))
         else Done (name_range, type_name, args, NULL_RANGE) p))"

text \<open>The node of a mixin; other tokens have been rejected before.\<close>

definition mixin_node ::
  "RBSTokenType \<Rightarrow> rbs_location_range \<Rightarrow> rbs_type_name \<Rightarrow> rbs_node list \<Rightarrow> rbs_ast_annotation list \<Rightarrow>
   rbs_ast_comment option \<Rightarrow> rbs_location_range \<Rightarrow> rbs_location_range \<Rightarrow> rbs_location_range \<Rightarrow> rbs_member"
where
  "mixin_node type loc name args annotations comment name_rg keyword_rg args_rg =
     set_member_args_range args_rg
       (if type = kINCLUDE then rbs_ast_members_include_new loc name args annotations comment name_rg keyword_rg
        else if type = kEXTEND then rbs_ast_members_extend_new loc name args annotations comment name_rg keyword_rg
        else rbs_ast_members_prepend_new loc name args annotations comment name_rg keyword_rg)"

definition parse_mixin_member ::
  "bool \<Rightarrow> rbs_position \<Rightarrow> rbs_ast_annotation list \<Rightarrow> rbs_parser \<Rightarrow> rbs_member outcome"
where
  "parse_mixin_member from_interface comment_pos annotations p =
     (let member_start = current_start p;
          comment_pos = rbs_nonnull_pos_or comment_pos member_start;
          type = current_type p;
          keyword_range = tok_range (current_token p)
      in if type \<notin> {kINCLUDE, kEXTEND, kPREPEND} then
           fail_with p (current_token p) False ''Unexpected error''
         else if from_interface \<and> type \<noteq> kINCLUDE then
           fail_with p (current_token p) True ''unexpected mixin in interface declaration''
         else
           check_parse (class_instance_name
               (if from_interface then {INTERFACE_NAME} else {INTERFACE_NAME, CLASS_NAME}) rbs_node_list_new
               (\<not> from_interface) (rbs_parser_push_typevar_table p (type = kEXTEND)))
             (\<lambda>(name_range, name, args, args_range) p.
           check_parse (parser_pop_typevar_table p) (\<lambda>_ p.
           let loc = location_from member_start (current_end p) in
           getting_comment p (line comment_pos) (\<lambda>comment.
             Done (mixin_node type loc name args annotations comment (RBS_RANGE_LEX2AST name_range)
               (RBS_RANGE_LEX2AST keyword_range) (RBS_RANGE_LEX2AST args_range)) p))))"

text \<open>\<open>self.\<close> and a method name: the range of \<open>self.\<close>, and the name with its range.\<close>

definition alias_singleton_name ::
  "rbs_range \<Rightarrow> rbs_parser \<Rightarrow> (rbs_range \<times> rbs_range \<times> rbs_ast_symbol) outcome"
where
  "alias_singleton_name uninit p =
     (let kind_range = \<lparr>r_start = next_start p, r_end = r_end (tok_range (next_token2 p))\<rparr> in
      advance_assert p kSELF (\<lambda>p. advance_assert p pDOT (\<lambda>p.
        check_parse (parse_method_name uninit p) (\<lambda>(name_range, name) p. Done (kind_range, name_range, name) p))))"

definition alias_instance_name ::
  "rbs_range \<Rightarrow> rbs_parser \<Rightarrow> (rbs_range \<times> rbs_range \<times> rbs_ast_symbol) outcome"
where
  "alias_instance_name uninit p =
     check_parse (parse_method_name uninit p) (\<lambda>(name_range, name) p. Done (NULL_RANGE, name_range, name) p)"

definition parse_alias_member ::
  "rbs_range \<Rightarrow> bool \<Rightarrow> rbs_position \<Rightarrow> rbs_ast_annotation list \<Rightarrow> rbs_parser \<Rightarrow> rbs_member outcome"
where
  "parse_alias_member uninit instance_only comment_pos annotations p =
     (let member_start = current_start p;
          keyword_range = tok_range (current_token p);
          comment_pos = rbs_nonnull_pos_or comment_pos member_start;
          singleton = (\<not> instance_only \<and> next_type p = kSELF);
          kind = (if singleton then RBS_ALIAS_KIND_SINGLETON else RBS_ALIAS_KIND_INSTANCE);
          parse_name = (if singleton then alias_singleton_name else alias_instance_name)
      in getting_comment p (line comment_pos) (\<lambda>comment.
         check_parse (parse_name uninit p) (\<lambda>(new_kind_range, new_name_range, new_name) p.
         check_parse (parse_name uninit p) (\<lambda>(old_kind_range, old_name_range, old_name) p.
           Done (set_member_old_kind_range (RBS_RANGE_LEX2AST old_kind_range)
             (set_member_new_kind_range (RBS_RANGE_LEX2AST new_kind_range)
               (rbs_ast_members_alias_new (location_from member_start (current_end p)) new_name old_name kind
                 annotations comment (RBS_RANGE_LEX2AST keyword_range) (RBS_RANGE_LEX2AST new_name_range)
                 (RBS_RANGE_LEX2AST old_name_range)))) p))))"

subsection \<open>Variables, visibility and attributes\<close>

text \<open>The \<open>:\<close> and the type of a variable, in a new scope when \<open>scoped\<close>: its range, and the type.\<close>

definition variable_type :: "bool \<Rightarrow> bool \<Rightarrow> rbs_parser \<Rightarrow> (rbs_range \<times> rbs_node) outcome" where
  "variable_type scoped self_allowed p =
     advance_assert p pCOLON (\<lambda>p.
       let colon_range = tok_range (current_token p) in
       if scoped then
         check_parse (rbs_parse_type False self_allowed True (rbs_parser_push_typevar_table p True)) (\<lambda>type p.
         check_parse (parser_pop_typevar_table p) (\<lambda>_ p. Done (colon_range, type) p))
       else check_parse (rbs_parse_type False self_allowed True p) (\<lambda>type p. Done (colon_range, type) p))"

definition parse_variable_member ::
  "rbs_position \<Rightarrow> rbs_ast_annotation list \<Rightarrow> rbs_parser \<Rightarrow> rbs_member outcome"
where
  "parse_variable_member comment_pos annotations p =
     (if 0 < length annotations then
        fail_with p (current_token p) True ''annotation cannot be given to variable members''
      else
        let member_start = current_start p;
            comment_pos = rbs_nonnull_pos_or comment_pos member_start
        in getting_comment p (line comment_pos) (\<lambda>comment.
          if current_type p \<in> {tAIDENT, kATRBS} then
            let name_range = tok_range (current_token p) in
            INTERN_TOKEN p (current_token p) (\<lambda>name_id p.
            check_parse (variable_type False True p) (\<lambda>(colon_range, type) p.
              Done (rbs_ast_members_instance_variable_new (location_from member_start (current_end p))
                (rbs_ast_symbol_new (RBS_RANGE_LEX2AST name_range) name_id) type comment
                (RBS_RANGE_LEX2AST name_range) (RBS_RANGE_LEX2AST colon_range)) p))
          else if current_type p = tA2IDENT then
            let name_range = tok_range (current_token p) in
            INTERN_TOKEN p (current_token p) (\<lambda>name_id p.
            check_parse (variable_type True False p) (\<lambda>(colon_range, type) p.
              Done (rbs_ast_members_class_variable_new (location_from member_start (current_end p))
                (rbs_ast_symbol_new (RBS_RANGE_LEX2AST name_range) name_id) type comment
                (RBS_RANGE_LEX2AST name_range) (RBS_RANGE_LEX2AST colon_range)) p))
          else if current_type p = kSELF then
            let kind_range = \<lparr>r_start = current_start p, r_end = r_end (tok_range (next_token p))\<rparr> in
            advance_assert p pDOT (\<lambda>p.
            if next_type p \<in> {tAIDENT, kATRBS} then
              advancing p (\<lambda>p.
              let name_range = tok_range (current_token p) in
              INTERN_TOKEN p (current_token p) (\<lambda>name_id p.
              check_parse (variable_type True True p) (\<lambda>(colon_range, type) p.
                Done (set_member_kind_range (RBS_RANGE_LEX2AST kind_range)
                  (rbs_ast_members_class_instance_variable_new (location_from member_start (current_end p))
                    (rbs_ast_symbol_new (RBS_RANGE_LEX2AST name_range) name_id) type comment
                    (RBS_RANGE_LEX2AST name_range) (RBS_RANGE_LEX2AST colon_range))) p)))
            else fail_with p (current_token p) False ''Unexpected error'')
          else fail_with p (current_token p) False ''Unexpected error''))"

definition parse_visibility_member :: "rbs_ast_annotation list \<Rightarrow> rbs_parser \<Rightarrow> rbs_member outcome" where
  "parse_visibility_member annotations p =
     (if 0 < length annotations then
        fail_with p (current_token p) True ''annotation cannot be given to visibility members''
      else
        let location = rbs_location_range_current_token p in
        if current_type p = kPUBLIC then Done (rbs_ast_members_public_new location) p
        else if current_type p = kPRIVATE then Done (rbs_ast_members_private_new location) p
        else fail_with p (current_token p) False ''Unexpected error'')"

definition attribute_visibility :: "rbs_parser \<Rightarrow> (rbs_range \<times> rbs_attribute_visibility) outcome" where
  "attribute_visibility p =
     (if current_type p = kPRIVATE then
        advancing p (Done (tok_range (current_token p), RBS_ATTRIBUTE_VISIBILITY_PRIVATE))
      else if current_type p = kPUBLIC then
        advancing p (Done (tok_range (current_token p), RBS_ATTRIBUTE_VISIBILITY_PUBLIC))
      else Done (NULL_RANGE, RBS_ATTRIBUTE_VISIBILITY_UNSPECIFIED) p)"

text \<open>The instance variable in parentheses: its name, the range of the parentheses and of the name.\<close>

definition attribute_ivar ::
  "rbs_parser \<Rightarrow> (rbs_attr_ivar_name \<times> rbs_location_range \<times> rbs_location_range) outcome"
where
  "attribute_ivar p =
     (if next_type p = pLPAREN then
        advance_assert p pLPAREN (\<lambda>p.
        let ivar_start = current_start p;
            close = (\<lambda>ivar ivar_name_range p. advance_assert p pRPAREN (\<lambda>p.
              Done (ivar, location_from ivar_start (current_end p), ivar_name_range) p));
            named = (\<lambda>p. INTERN_TOKEN p (current_token p) (\<lambda>name_id p.
              close \<lparr>attr_ivar_tag = RBS_ATTR_IVAR_NAME_TAG_NAME, attr_ivar_name = name_id\<rparr>
                (rbs_location_range_current_token p) p))
        in parser_advance_if p tAIDENT (\<lambda>advanced p.
           if advanced then named p
           else parser_advance_if p kATRBS (\<lambda>advanced p.
             if advanced then named p
             else close \<lparr>attr_ivar_tag = RBS_ATTR_IVAR_NAME_TAG_EMPTY, attr_ivar_name = 0\<rparr>
                    RBS_LOCATION_NULL_RANGE p)))
      else Done (\<lparr>attr_ivar_tag = RBS_ATTR_IVAR_NAME_TAG_UNSPECIFIED, attr_ivar_name = 0\<rparr>,
                 RBS_LOCATION_NULL_RANGE, RBS_LOCATION_NULL_RANGE) p)"

text \<open>The assignments of the four optional ranges.\<close>

definition set_attribute_ranges ::
  "rbs_location_range \<Rightarrow> rbs_location_range \<Rightarrow> rbs_location_range \<Rightarrow> rbs_location_range \<Rightarrow> rbs_member \<Rightarrow> rbs_member"
where
  "set_attribute_ranges kind_rg ivar_range ivar_name_range visibility_rg attr =
     set_member_visibility_range visibility_rg (set_member_ivar_name_range ivar_name_range
       (set_member_ivar_range ivar_range (set_member_kind_range kind_rg attr)))"

definition parse_attribute_member ::
  "rbs_range \<Rightarrow> rbs_position \<Rightarrow> rbs_ast_annotation list \<Rightarrow> rbs_parser \<Rightarrow> rbs_member outcome"
where
  "parse_attribute_member uninit comment_pos annotations p =
     (let member_start = current_start p;
          comment_pos = rbs_nonnull_pos_or comment_pos member_start
      in getting_comment p (line comment_pos) (\<lambda>comment.
         check_parse (attribute_visibility p) (\<lambda>(visibility_range, visibility) p.
         let attr_type = current_type p; keyword_range = tok_range (current_token p) in
         check_parse (parse_instance_singleton_kind False p) (\<lambda>(is_kind, kind_range) p.
         let kind = (if is_kind = INSTANCE_KIND then RBS_ATTRIBUTE_KIND_INSTANCE else RBS_ATTRIBUTE_KIND_SINGLETON) in
         check_parse (parse_method_name uninit p) (\<lambda>(name_range, attr_name) p.
         check_parse (attribute_ivar p) (\<lambda>(ivar_name, ivar_range, ivar_name_range) p.
         advance_assert p pCOLON (\<lambda>p.
         let colon_range = tok_range (current_token p) in
         check_parse (rbs_parse_type False True True (rbs_parser_push_typevar_table p (is_kind = SINGLETON_KIND)))
           (\<lambda>type p.
         check_parse (parser_pop_typevar_table p) (\<lambda>_ p.
         let loc = location_from member_start (current_end p);
             set_ranges = set_attribute_ranges (RBS_RANGE_LEX2AST kind_range) ivar_range ivar_name_range
               (RBS_RANGE_LEX2AST visibility_range);
             keyword_rg = RBS_RANGE_LEX2AST keyword_range;
             name_rg = RBS_RANGE_LEX2AST name_range;
             colon_rg = RBS_RANGE_LEX2AST colon_range
         in if attr_type = kATTRREADER then
              Done (set_ranges (rbs_ast_members_attr_reader_new loc attr_name type ivar_name kind annotations comment
                visibility keyword_rg name_rg colon_rg)) p
            else if attr_type = kATTRWRITER then
              Done (set_ranges (rbs_ast_members_attr_writer_new loc attr_name type ivar_name kind annotations comment
                visibility keyword_rg name_rg colon_rg)) p
            else if attr_type = kATTRACCESSOR then
              Done (set_ranges (rbs_ast_members_attr_accessor_new loc attr_name type ivar_name kind annotations comment
                visibility keyword_rg name_rg colon_rg)) p
            else fail_with p (current_token p) False ''Unexpected error'')))))))))"

end
