(* ===== verification/DeclParser.thy ===== *)
theory DeclParser
  imports MemberParser
begin

text \<open>
  The parsers of declarations, of \<open>use\<close> directives and of signatures in \<open>src/parser.c\<close>. A
  declaration starts on its first token. Members of a class or module may be declarations
  again: what parses members takes the parser of nested declarations as the argument
  \<open>nested\<close>, and \<open>parse_nested_decl_fuel\<close> ties the knot, with fuel for every byte left.
\<close>

subsection \<open>Globals, constants and type aliases\<close>

definition parse_global_decl :: "rbs_position \<Rightarrow> rbs_ast_annotation list \<Rightarrow> rbs_parser \<Rightarrow> rbs_member outcome" where
  "parse_global_decl comment_pos annotations p =
     (let decl_start = current_start p;
          comment_pos = rbs_nonnull_pos_or comment_pos decl_start
      in getting_comment p (line comment_pos) (\<lambda>comment.
         let name_range = tok_range (current_token p) in
         INTERN_TOKEN p (current_token p) (\<lambda>name_id p.
         let type_name = rbs_ast_symbol_new (RBS_RANGE_LEX2AST name_range) name_id in
         advance_assert p pCOLON (\<lambda>p.
         let colon_range = tok_range (current_token p) in
         check_parse (rbs_parse_type False False False p) (\<lambda>type p.
           Done (rbs_ast_declarations_global_new (location_from decl_start (current_end p)) type_name type comment
             annotations (RBS_RANGE_LEX2AST name_range) (RBS_RANGE_LEX2AST colon_range)) p)))))"

definition parse_const_decl :: "rbs_position \<Rightarrow> rbs_ast_annotation list \<Rightarrow> rbs_parser \<Rightarrow> rbs_member outcome" where
  "parse_const_decl comment_pos annotations p =
     (let decl_start = current_start p;
          comment_pos = rbs_nonnull_pos_or comment_pos decl_start
      in getting_comment p (line comment_pos) (\<lambda>comment.
         check_parse (parse_type_name {CLASS_NAME} p) (\<lambda>(name_range, type_name) p.
         advance_assert p pCOLON (\<lambda>p.
         let colon_range = tok_range (current_token p) in
         check_parse (rbs_parse_type False False False p) (\<lambda>type p.
           Done (rbs_ast_declarations_constant_new (location_from decl_start (current_end p)) type_name type comment
             annotations (RBS_RANGE_LEX2AST name_range) (RBS_RANGE_LEX2AST colon_range)) p)))))"

definition parse_type_decl :: "rbs_position \<Rightarrow> rbs_ast_annotation list \<Rightarrow> rbs_parser \<Rightarrow> rbs_member outcome" where
  "parse_type_decl comment_pos annotations p =
     (let p = rbs_parser_push_typevar_table p True;
          decl_start = current_start p;
          comment_pos = rbs_nonnull_pos_or comment_pos decl_start;
          keyword_range = tok_range (current_token p)
      in advancing p (\<lambda>p.
         check_parse (parse_type_name {ALIAS_NAME} p) (\<lambda>(name_range, type_name) p.
         check_parse (parse_type_params True p) (\<lambda>(params_range, type_params) p.
         advance_assert p pEQ (\<lambda>p.
         let eq_range = tok_range (current_token p) in
         check_parse (rbs_parse_type False False False p) (\<lambda>type p.
         let loc = location_from decl_start (current_end p) in
         check_parse (parser_pop_typevar_table p) (\<lambda>_ p.
         getting_comment p (line comment_pos) (\<lambda>comment.
           Done (set_member_type_params_range (RBS_RANGE_LEX2AST params_range)
             (rbs_ast_declarations_type_alias_new loc type_name type_params type annotations comment
               (RBS_RANGE_LEX2AST keyword_range) (RBS_RANGE_LEX2AST name_range) (RBS_RANGE_LEX2AST eq_range))) p))))))))"

subsection \<open>Interfaces\<close>

text \<open>A member of an interface; the current token is its first.\<close>

definition interface_member_on_token ::
  "rbs_range \<Rightarrow> rbs_position \<Rightarrow> rbs_ast_annotation list \<Rightarrow> rbs_parser \<Rightarrow> rbs_member outcome"
where
  "interface_member_on_token uninit annot_pos annotations p =
     (if current_type p = kDEF then parse_member_def uninit True True annot_pos annotations p
      else if current_type p \<in> {kINCLUDE, kEXTEND, kPREPEND} then parse_mixin_member True annot_pos annotations p
      else if current_type p = kALIAS then parse_alias_member uninit True annot_pos annotations p
      else fail_with p (current_token p) True ''unexpected token for interface declaration member'')"

text \<open>A round of the loops over members, where \<open>member\<close> parses one.\<close>

definition members_round ::
  "(rbs_position \<Rightarrow> rbs_ast_annotation list \<Rightarrow> rbs_parser \<Rightarrow> rbs_member outcome) \<Rightarrow>
   rbs_member list \<Rightarrow> rbs_parser \<Rightarrow> (rbs_member list + rbs_member list) outcome"
where
  "members_round member members p =
     (if next_type p \<noteq> kEND then
        check_parse (parse_annotations rbs_node_list_new p) (\<lambda>(annotations, annot_pos) p.
        advancing p (\<lambda>p.
        check_parse (member annot_pos annotations p) (\<lambda>member p.
          Done (Inl (rbs_node_list_append members member)) p)))
      else Done (Inr members) p)"

definition parse_interface_members :: "rbs_range \<Rightarrow> rbs_parser \<Rightarrow> rbs_member list outcome" where
  "parse_interface_members uninit p =
     while_true (members_round (interface_member_on_token uninit)) rbs_node_list_new p"

definition parse_interface_decl ::
  "rbs_range \<Rightarrow> rbs_position \<Rightarrow> rbs_ast_annotation list \<Rightarrow> rbs_parser \<Rightarrow> rbs_member outcome"
where
  "parse_interface_decl uninit comment_pos annotations p =
     (let p = rbs_parser_push_typevar_table p True;
          member_start = current_start p;
          comment_pos = rbs_nonnull_pos_or comment_pos member_start;
          keyword_range = tok_range (current_token p)
      in advancing p (\<lambda>p.
         check_parse (parse_type_name {INTERFACE_NAME} p) (\<lambda>(name_range, name) p.
         check_parse (parse_type_params True p) (\<lambda>(type_params_range, type_params) p.
         check_parse (parse_interface_members uninit p) (\<lambda>members p.
         advance_assert p kEND (\<lambda>p.
         let end_range = tok_range (current_token p) in
         check_parse (parser_pop_typevar_table p) (\<lambda>_ p.
         let loc = location_from member_start (r_end end_range) in
         getting_comment p (line comment_pos) (\<lambda>comment.
           Done (set_member_type_params_range (RBS_RANGE_LEX2AST type_params_range)
             (rbs_ast_declarations_interface_new loc name type_params members annotations comment
               (RBS_RANGE_LEX2AST keyword_range) (RBS_RANGE_LEX2AST name_range) (RBS_RANGE_LEX2AST end_range))) p))))))))"

subsection \<open>Modules\<close>

definition self_types_round ::
  "rbs_ast_declarations_module_self list \<Rightarrow> rbs_parser \<Rightarrow>
   (rbs_ast_declarations_module_self list + rbs_ast_declarations_module_self list) outcome"
where
  "self_types_round array p =
     advancing p (\<lambda>p.
       let self_start = current_start p in
       check_parse (parse_type_name {CLASS_NAME, INTERFACE_NAME} p) (\<lambda>(name_range, module_name) p.
       let add = (\<lambda>args args_range self_end p.
             let self_type = (rbs_ast_declarations_module_self_new (location_from self_start self_end) module_name args
                     (RBS_RANGE_LEX2AST name_range))\<lparr>mself_args_range := RBS_RANGE_LEX2AST args_range\<rparr>;
                 array = rbs_node_list_append array self_type
             in if next_type p = pCOMMA then advancing p (Done (Inl array)) else Done (Inr array) p)
       in if next_type p = pLBRACKET then
            advancing p (\<lambda>p.
            let args_start = current_start p in
            check_parse (parse_type_list parse_simple pRBRACKET rbs_node_list_new True False False p) (\<lambda>args p.
            advancing p (\<lambda>p. add args \<lparr>r_start = args_start, r_end = current_end p\<rparr> (current_end p) p)))
          else add rbs_node_list_new NULL_RANGE (r_end name_range) p))"

definition parse_module_self_types ::
  "rbs_ast_declarations_module_self list \<Rightarrow> rbs_parser \<Rightarrow> rbs_ast_declarations_module_self list outcome"
where
  "parse_module_self_types array p = while_true self_types_round array p"

type_synonym decl_parser = "rbs_position \<Rightarrow> rbs_ast_annotation list \<Rightarrow> rbs_parser \<Rightarrow> rbs_member outcome"

text \<open>A member of a class or module; the current token is its first.\<close>

definition module_member_on_token :: "decl_parser \<Rightarrow> rbs_range \<Rightarrow> decl_parser" where
  "module_member_on_token nested uninit annot_pos annotations p =
     (if current_type p = kDEF then parse_member_def uninit False True annot_pos annotations p
      else if current_type p \<in> {kINCLUDE, kEXTEND, kPREPEND} then parse_mixin_member False annot_pos annotations p
      else if current_type p = kALIAS then parse_alias_member uninit False annot_pos annotations p
      else if current_type p \<in> {tAIDENT, tA2IDENT, kATRBS, kSELF} then parse_variable_member annot_pos annotations p
      else if current_type p \<in> {kATTRREADER, kATTRWRITER, kATTRACCESSOR} then
        parse_attribute_member uninit annot_pos annotations p
      else if current_type p \<in> {kPUBLIC, kPRIVATE} then
        if line (next_start p) = line (current_start p) then
          if next_type p = kDEF then parse_member_def uninit False True annot_pos annotations p
          else if next_type p \<in> {kATTRREADER, kATTRWRITER, kATTRACCESSOR} then
            parse_attribute_member uninit annot_pos annotations p
          else fail_with p (next_token p) True ''method or attribute definition is expected after visibility modifier''
        else parse_visibility_member annotations p
      else nested annot_pos annotations p)"

definition parse_module_members :: "decl_parser \<Rightarrow> rbs_range \<Rightarrow> rbs_parser \<Rightarrow> rbs_member list outcome" where
  "parse_module_members nested uninit p =
     while_true (members_round (module_member_on_token nested uninit)) rbs_node_list_new p"

text \<open>The colon, the self types and their range, when there are any.\<close>

definition module_self_part ::
  "rbs_parser \<Rightarrow> (rbs_range \<times> rbs_range \<times> rbs_ast_declarations_module_self list) outcome"
where
  "module_self_part p =
     (if next_type p = pCOLON then
        advancing p (\<lambda>p.
          let colon_range = tok_range (current_token p); self_types_start = next_start p in
          check_parse (parse_module_self_types rbs_node_list_new p) (\<lambda>self_types p.
            Done (colon_range, \<lparr>r_start = self_types_start, r_end = current_end p\<rparr>, self_types) p))
      else Done (NULL_RANGE, NULL_RANGE, rbs_node_list_new) p)"

definition parse_module_decl0 ::
  "decl_parser \<Rightarrow> rbs_range \<Rightarrow> rbs_range \<Rightarrow> rbs_type_name \<Rightarrow> rbs_range \<Rightarrow> rbs_ast_comment option \<Rightarrow>
   rbs_ast_annotation list \<Rightarrow> rbs_parser \<Rightarrow> rbs_member outcome"
where
  "parse_module_decl0 nested uninit keyword_range module_name name_range comment annotations p =
     (let p = rbs_parser_push_typevar_table p True in
      check_parse (parse_type_params True p) (\<lambda>(type_params_range, type_params) p.
      check_parse (module_self_part p) (\<lambda>(colon_range, self_types_range, self_types) p.
      check_parse (parse_module_members nested uninit p) (\<lambda>members p.
      advance_assert p kEND (\<lambda>p.
      let end_range = tok_range (current_token p);
          loc = location_from (r_start keyword_range) (current_end p)
      in check_parse (parser_pop_typevar_table p) (\<lambda>_ p.
         Done (set_member_self_types_range (RBS_RANGE_LEX2AST self_types_range)
           (set_member_colon_range (RBS_RANGE_LEX2AST colon_range)
           (set_member_type_params_range (RBS_RANGE_LEX2AST type_params_range)
             (rbs_ast_declarations_module_new loc module_name type_params self_types members annotations comment
               (RBS_RANGE_LEX2AST keyword_range) (RBS_RANGE_LEX2AST name_range) (RBS_RANGE_LEX2AST end_range))))) p))))))"

text \<open>What follows the keyword and name in an alias: \<open>=\<close> and the old name.\<close>

definition alias_decl ::
  "(rbs_location_range \<Rightarrow> rbs_type_name \<Rightarrow> rbs_location_range \<Rightarrow> rbs_location_range \<Rightarrow> rbs_member) \<Rightarrow>
   rbs_range \<Rightarrow> rbs_parser \<Rightarrow> rbs_member outcome"
where
  "alias_decl mk_node keyword_range p =
     (let eq_range = tok_range (next_token p) in
      advancing p (\<lambda>p. advancing p (\<lambda>p.
      check_parse (parse_type_name {CLASS_NAME} p) (\<lambda>(old_name_range, old_name) p.
        Done (mk_node (location_from (r_start keyword_range) (r_end old_name_range)) old_name
          (RBS_RANGE_LEX2AST eq_range) (RBS_RANGE_LEX2AST old_name_range)) p))))"

definition parse_module_decl :: "decl_parser \<Rightarrow> rbs_range \<Rightarrow> decl_parser" where
  "parse_module_decl nested uninit comment_pos annotations p =
     (let keyword_range = tok_range (current_token p);
          comment_pos = rbs_nonnull_pos_or comment_pos (current_start p)
      in getting_comment p (line comment_pos) (\<lambda>comment.
         advancing p (\<lambda>p.
         check_parse (parse_type_name {CLASS_NAME} p) (\<lambda>(module_name_range, module_name) p.
           if next_type p = pEQ then
             alias_decl (\<lambda>loc old_name eq_rg old_name_rg.
               rbs_ast_declarations_module_alias_new loc module_name old_name comment annotations
                 (RBS_RANGE_LEX2AST keyword_range) (RBS_RANGE_LEX2AST module_name_range) eq_rg old_name_rg)
               keyword_range p
           else parse_module_decl0 nested uninit keyword_range module_name module_name_range comment annotations p))))"

subsection \<open>Classes\<close>

text \<open>The range of \<open><\<close>, and the super class.\<close>

definition parse_class_decl_super ::
  "rbs_parser \<Rightarrow> (rbs_range \<times> rbs_ast_declarations_class_super option) outcome"
where
  "parse_class_decl_super p =
     parser_advance_if p pLT (\<lambda>advanced p.
       if advanced then
         let lt_range = tok_range (current_token p); super_start = next_start p in
         check_parse (class_instance_name {CLASS_NAME} rbs_node_list_new False p) (\<lambda>(name_range, name, args, args_range) p.
           Done (lt_range, Some ((rbs_ast_declarations_class_super_new (location_from super_start (current_end p)) name
             args (RBS_RANGE_LEX2AST name_range))\<lparr>super_args_range := RBS_RANGE_LEX2AST args_range\<rparr>)) p)
       else Done (NULL_RANGE, None) p)"

definition parse_class_decl0 ::
  "decl_parser \<Rightarrow> rbs_range \<Rightarrow> rbs_range \<Rightarrow> rbs_type_name \<Rightarrow> rbs_range \<Rightarrow> rbs_ast_comment option \<Rightarrow>
   rbs_ast_annotation list \<Rightarrow> rbs_parser \<Rightarrow> rbs_member outcome"
where
  "parse_class_decl0 nested uninit keyword_range name name_range comment annotations p =
     (let p = rbs_parser_push_typevar_table p True in
      check_parse (parse_type_params True p) (\<lambda>(type_params_range, type_params) p.
      check_parse (parse_class_decl_super p) (\<lambda>(lt_range, super) p.
      check_parse (parse_module_members nested uninit p) (\<lambda>members p.
      advance_assert p kEND (\<lambda>p.
      let end_range = tok_range (current_token p);
          loc = location_from (r_start keyword_range) (r_end end_range)
      in check_parse (parser_pop_typevar_table p) (\<lambda>_ p.
         Done (set_member_lt_range (RBS_RANGE_LEX2AST lt_range)
           (set_member_type_params_range (RBS_RANGE_LEX2AST type_params_range)
             (rbs_ast_declarations_class_new loc name type_params super members annotations comment
               (RBS_RANGE_LEX2AST keyword_range) (RBS_RANGE_LEX2AST name_range) (RBS_RANGE_LEX2AST end_range)))) p))))))"

definition parse_class_decl :: "decl_parser \<Rightarrow> rbs_range \<Rightarrow> decl_parser" where
  "parse_class_decl nested uninit comment_pos annotations p =
     (let keyword_range = tok_range (current_token p);
          comment_pos = rbs_nonnull_pos_or comment_pos (current_start p)
      in getting_comment p (line comment_pos) (\<lambda>comment.
         advancing p (\<lambda>p.
         check_parse (parse_type_name {CLASS_NAME} p) (\<lambda>(class_name_range, class_name) p.
           if next_type p = pEQ then
             alias_decl (\<lambda>loc old_name eq_rg old_name_rg.
               rbs_ast_declarations_class_alias_new loc class_name old_name comment annotations
                 (RBS_RANGE_LEX2AST keyword_range) (RBS_RANGE_LEX2AST class_name_range) eq_rg old_name_rg)
               keyword_range p
           else parse_class_decl0 nested uninit keyword_range class_name class_name_range comment annotations p))))"

subsection \<open>Declarations\<close>

text \<open>The switch over the first token, with the message for the other tokens.\<close>

definition decl_on_token :: "string \<Rightarrow> decl_parser \<Rightarrow> rbs_range \<Rightarrow> decl_parser" where
  "decl_on_token message nested uninit annot_pos annotations p =
     (if current_type p \<in> {tUIDENT, pCOLON2} then parse_const_decl annot_pos annotations p
      else if current_type p = tGIDENT then parse_global_decl annot_pos annotations p
      else if current_type p = kTYPE then parse_type_decl annot_pos annotations p
      else if current_type p = kINTERFACE then parse_interface_decl uninit annot_pos annotations p
      else if current_type p = kMODULE then parse_module_decl nested uninit annot_pos annotations p
      else if current_type p = kCLASS then parse_class_decl nested uninit annot_pos annotations p
      else fail_with p (current_token p) True message)"

primrec parse_nested_decl_fuel :: "nat \<Rightarrow> rbs_range \<Rightarrow> decl_parser" where
  "parse_nested_decl_fuel 0 uninit annot_pos annotations p = Out_of_fuel"
| "parse_nested_decl_fuel (Suc fuel) uninit annot_pos annotations p =
     check_parse (decl_on_token ''unexpected token for class/module declaration member'' (parse_nested_decl_fuel fuel uninit)
         uninit annot_pos annotations (rbs_parser_push_typevar_table p True)) (\<lambda>decl p.
     check_parse (parser_pop_typevar_table p) (\<lambda>_ p. Done decl p))"

definition parse_nested_decl :: "rbs_range \<Rightarrow> decl_parser" where
  "parse_nested_decl uninit annot_pos annotations p =
     parse_nested_decl_fuel (Suc (bytes_left p)) uninit annot_pos annotations p"

definition parse_decl :: "rbs_range \<Rightarrow> rbs_parser \<Rightarrow> rbs_member outcome" where
  "parse_decl uninit p =
     check_parse (parse_annotations rbs_node_list_new p) (\<lambda>(annotations, annot_pos) p.
       advancing p (\<lambda>p.
         decl_on_token ''cannot start a declaration'' (parse_nested_decl uninit) uninit annot_pos annotations p))"

subsection \<open>Directives\<close>

definition namespace_round ::
  "rbs_range \<times> rbs_ast_symbol list \<Rightarrow> rbs_parser \<Rightarrow>
   ((rbs_range \<times> rbs_ast_symbol list) + (rbs_range \<times> rbs_ast_symbol list)) outcome"
where
  "namespace_round state p =
     (if next_type p = tUIDENT \<and> next_type2 p = pCOLON2 then
        let symbol_loc = RBS_RANGE_LEX2AST (tok_range (next_token p));
            ns_start = (if rbs_null_position_p (r_start (fst state)) then next_start p else r_start (fst state));
            ns_end = r_end (tok_range (next_token2 p))
        in INTERN_TOKEN p (next_token p) (\<lambda>symbol_id p.
             advancing p (\<lambda>p. advancing p (\<lambda>p.
               Done (Inl (\<lparr>r_start = ns_start, r_end = ns_end\<rparr>,
                 rbs_node_list_append (snd state) (rbs_ast_symbol_new symbol_loc symbol_id))) p)))
      else Done (Inr state) p)"

text \<open>The range of a namespace, and the namespace; the null range stands for an empty one.\<close>

definition parse_namespace :: "rbs_parser \<Rightarrow> (rbs_range \<times> rbs_namespace) outcome" where
  "parse_namespace p =
     (let path = (\<lambda>rg is_absolute p.
            check_parse (while_true namespace_round (rg, rbs_node_list_new) p) (\<lambda>(rg, path) p.
              Done (rg, rbs_namespace_new (RBS_RANGE_LEX2AST rg) path is_absolute) p))
      in if next_type p = pCOLON2 then
           let rg = tok_range (next_token p) in advancing p (path rg True)
         else path NULL_RANGE False p)"

text \<open>
  The part with \<open>as\<close>, if there is one: the range of the clause, of the keyword and of the new
  name, and the new name. Its location is the null range, because it is made before its range
  is set.
\<close>

definition use_as ::
  "RBSTokenType \<Rightarrow> rbs_range \<Rightarrow> rbs_parser \<Rightarrow> (rbs_range \<times> rbs_range \<times> rbs_range \<times> rbs_ast_symbol option) outcome"
where
  "use_as ident_type type_name_range p =
     (if next_type p = kAS then
        advancing p (\<lambda>p.
          let keyword_range = tok_range (current_token p) in
          advance_assert p ident_type (\<lambda>p.
          INTERN_TOKEN p (current_token p) (\<lambda>new_id p.
            let new_name_range = tok_range (current_token p) in
            Done (\<lparr>r_start = r_start type_name_range, r_end = r_end new_name_range\<rparr>, keyword_range, new_name_range,
              Some (rbs_ast_symbol_new (RBS_RANGE_LEX2AST NULL_RANGE) new_id)) p)))
      else Done (type_name_range, NULL_RANGE, NULL_RANGE, None) p)"

definition use_single_clause :: "rbs_range \<Rightarrow> rbs_namespace \<Rightarrow> rbs_parser \<Rightarrow> rbs_use_clause outcome" where
  "use_single_clause namespace_range ns p =
     advancing p (\<lambda>p.
       let ident_type = current_type p;
           type_name_range =
             (if rbs_null_range_p namespace_range then tok_range (current_token p)
              else \<lparr>r_start = r_start namespace_range, r_end = current_end p\<rparr>);
           symbol_loc = rbs_location_range_current_token p
       in INTERN_TOKEN p (current_token p) (\<lambda>symbol_id p.
          let type_name = rbs_type_name_new (RBS_RANGE_LEX2AST type_name_range) ns (rbs_ast_symbol_new symbol_loc symbol_id) in
          check_parse (use_as ident_type type_name_range p) (\<lambda>(clause_range, keyword_range, new_name_range, new_name) p.
            Done (set_use_new_name_range (RBS_RANGE_LEX2AST new_name_range)
              (set_use_keyword_range (RBS_RANGE_LEX2AST keyword_range)
                (rbs_ast_directives_use_single_clause_new (RBS_RANGE_LEX2AST clause_range) type_name new_name
                  (RBS_RANGE_LEX2AST type_name_range)))) p)))"

definition use_wildcard_clause :: "rbs_range \<Rightarrow> rbs_namespace \<Rightarrow> rbs_parser \<Rightarrow> rbs_use_clause outcome" where
  "use_wildcard_clause namespace_range ns p =
     advancing p (\<lambda>p.
       let star_range = tok_range (current_token p);
           clause_range = \<lparr>r_start = r_start namespace_range, r_end = r_end star_range\<rparr>
       in Done (rbs_ast_directives_use_wildcard_clause_new (RBS_RANGE_LEX2AST clause_range) ns
            (RBS_RANGE_LEX2AST namespace_range) (RBS_RANGE_LEX2AST star_range)) p)"

definition use_clauses_round ::
  "rbs_use_clause list \<Rightarrow> rbs_parser \<Rightarrow> (rbs_use_clause list + rbs_use_clause list) outcome"
where
  "use_clauses_round clauses p =
     check_parse (parse_namespace p) (\<lambda>(namespace_range, ns) p.
     check_parse
       (if next_type p \<in> {tLIDENT, tULIDENT, tUIDENT} then use_single_clause namespace_range ns p
        else if next_type p = pSTAR then use_wildcard_clause namespace_range ns p
        else fail_with p (next_token p) True ''use clause is expected'') (\<lambda>clause p.
     let clauses = rbs_node_list_append clauses clause in
     if next_type p = pCOMMA then advancing p (Done (Inl clauses)) else Done (Inr clauses) p))"

definition parse_use_clauses :: "rbs_use_clause list \<Rightarrow> rbs_parser \<Rightarrow> rbs_use_clause list outcome" where
  "parse_use_clauses clauses p = while_true use_clauses_round clauses p"

text \<open>The only caller has seen \<open>use\<close>.\<close>

definition parse_use_directive :: "rbs_parser \<Rightarrow> rbs_ast_directives_use outcome" where
  "parse_use_directive p =
     advancing p (\<lambda>p.
       let keyword_range = tok_range (current_token p) in
       check_parse (parse_use_clauses rbs_node_list_new p) (\<lambda>clauses p.
         Done (rbs_ast_directives_use_new (location_from (r_start keyword_range) (current_end p)) clauses
           (RBS_RANGE_LEX2AST keyword_range)) p))"

subsection \<open>Signatures\<close>

definition directives_round ::
  "rbs_ast_directives_use list \<Rightarrow> rbs_parser \<Rightarrow> (rbs_ast_directives_use list + rbs_ast_directives_use list) outcome"
where
  "directives_round dirs p =
     (if next_type p = kUSE then
        check_parse (parse_use_directive p) (\<lambda>use_node p. Done (Inl (rbs_node_list_append dirs use_node)) p)
      else Done (Inr dirs) p)"

definition decls_round ::
  "rbs_range \<Rightarrow> rbs_member list \<Rightarrow> rbs_parser \<Rightarrow> (rbs_member list + rbs_member list) outcome"
where
  "decls_round uninit decls p =
     (if next_type p \<noteq> pEOF then
        check_parse (parse_decl uninit p) (\<lambda>decl p. Done (Inl (rbs_node_list_append decls decl)) p)
      else Done (Inr decls) p)"

definition rbs_parse_signature :: "rbs_range \<Rightarrow> rbs_parser \<Rightarrow> rbs_signature outcome" where
  "rbs_parse_signature uninit p =
     (let signature_start = current_start p in
      check_parse (while_true directives_round rbs_node_list_new p) (\<lambda>dirs p.
      check_parse (while_true (decls_round uninit) rbs_node_list_new p) (\<lambda>decls p.
        Done (rbs_signature_new (location_from signature_start (current_end p)) dirs decls) p)))"

end
