(* ===== verification/DeclTree.thy ===== *)
theory DeclTree
  imports AstDecls TypeTree
begin

text \<open>
  What makes the syntax tree of a declaration well-formed (\<open>member_ok\<close>): the parts of a
  declaration or member lie inside its location, the types in it are well-formed and only have
  \<open>void\<close>, \<open>self\<close>, \<open>class\<close> and \<open>instance\<close> where the grammar allows them, and its members are
  well-formed inside it. Annotations and comments come before a member and are not part of its
  location.
\<close>

subsection \<open>Type parameters and method types\<close>

definition type_param_ok :: "int \<Rightarrow> int \<Rightarrow> rbs_ast_type_param \<Rightarrow> bool" where
  "type_param_ok lo hi tp \<longleftrightarrow>
     (let a = start_byte (tp_location tp); b = end_byte (tp_location tp) in
      between lo hi (tp_location tp) \<and> between a b (tp_name_range tp) \<and> between a b (sym_location (tp_name tp)) \<and>
      list_all (null_or_between a b)
        [tp_variance_range tp, tp_unchecked_range tp, tp_upper_bound_range tp, tp_lower_bound_range tp, tp_default_range tp] \<and>
      trees_ok False False False a b (option_nodes (tp_upper_bound tp) @ option_nodes (tp_lower_bound tp)) \<and>
      trees_ok True False False a b (option_nodes (tp_default_type tp)))"

text \<open>Parameters with a default come last, and those of a method type are only names with bounds.\<close>

definition defaults_last :: "rbs_ast_type_param list \<Rightarrow> bool" where
  "defaults_last params \<longleftrightarrow> sorted_wrt (\<lambda>a b. tp_default_type a \<noteq> None \<longrightarrow> tp_default_type b \<noteq> None) params"

definition plain_param :: "rbs_ast_type_param \<Rightarrow> bool" where
  "plain_param tp \<longleftrightarrow> tp_default_type tp = None \<and> \<not> tp_unchecked tp \<and> tp_variance tp = RBS_TYPE_PARAM_VARIANCE_INVARIANT"

text \<open>
  A method type. The location of its function starts at the token before it, so it lies
  between \<open>lo\<close> and \<open>hi\<close> and not always inside the location of the method type.
\<close>

definition method_type_ok :: "bool \<Rightarrow> int \<Rightarrow> int \<Rightarrow> rbs_method_type \<Rightarrow> bool" where
  "method_type_ok c lo hi mt \<longleftrightarrow>
     (let a = start_byte (mt_location mt); b = end_byte (mt_location mt) in
      between lo hi (mt_location mt) \<and> between a b (mt_type_range mt) \<and> null_or_between a b (mt_type_params_range mt) \<and>
      list_all (type_param_ok a b) (mt_type_params mt) \<and> list_all plain_param (mt_type_params mt) \<and>
      trees_ok False True c lo hi (mt_type mt # option_nodes (mt_block mt)))"

definition overload_ok :: "bool \<Rightarrow> int \<Rightarrow> int \<Rightarrow> rbs_ast_members_method_definition_overload \<Rightarrow> bool" where
  "overload_ok c lo hi ov \<longleftrightarrow>
     (let a = start_byte (overload_location ov); b = end_byte (overload_location ov) in
      between lo hi (overload_location ov) \<and> method_type_ok c a b (overload_method_type ov) \<and>
      list_all (\<lambda>an. between a b (annot_location an)) (overload_annotations ov))"

definition super_ok :: "int \<Rightarrow> int \<Rightarrow> rbs_ast_declarations_class_super \<Rightarrow> bool" where
  "super_ok lo hi sc \<longleftrightarrow>
     (let a = start_byte (super_location sc); b = end_byte (super_location sc) in
      between lo hi (super_location sc) \<and> name_ok a b (super_name sc) \<and> between a b (super_name_range sc) \<and>
      null_or_between a b (super_args_range sc) \<and> trees_ok True False False a b (super_args sc))"

definition self_type_ok :: "int \<Rightarrow> int \<Rightarrow> rbs_ast_declarations_module_self \<Rightarrow> bool" where
  "self_type_ok lo hi st \<longleftrightarrow>
     (let a = start_byte (mself_location st); b = end_byte (mself_location st) in
      between lo hi (mself_location st) \<and> name_ok a b (mself_name st) \<and> between a b (mself_name_range st) \<and>
      null_or_between a b (mself_args_range st) \<and> trees_ok True False False a b (mself_args st))"

subsection \<open>The parts of a declaration or member\<close>

text \<open>
  The ranges that are always there, the optional ones, the ranges of method names, and those
  of \<open>self.\<close> before a method name; the Boolean argument of \<open>member_types\<close> is for a member of an
  interface, and the types come with whether \<open>void\<close>, \<open>self\<close>, and \<open>class\<close> and \<open>instance\<close> may stand there.
\<close>

definition member_location :: "rbs_member \<Rightarrow> rbs_location_range" where
  "member_location node =
     (case node of
        Ast_Declarations_Class l _ _ _ _ _ _ _ _ _ _ _ \<Rightarrow> l
      | Ast_Declarations_Class_Alias l _ _ _ _ _ _ _ _ \<Rightarrow> l
      | Ast_Declarations_Constant l _ _ _ _ _ _ \<Rightarrow> l
      | Ast_Declarations_Global l _ _ _ _ _ _ \<Rightarrow> l
      | Ast_Declarations_Interface l _ _ _ _ _ _ _ _ _ \<Rightarrow> l
      | Ast_Declarations_Module l _ _ _ _ _ _ _ _ _ _ _ _ \<Rightarrow> l
      | Ast_Declarations_Module_Alias l _ _ _ _ _ _ _ _ \<Rightarrow> l
      | Ast_Declarations_Type_Alias l _ _ _ _ _ _ _ _ _ \<Rightarrow> l
      | Ast_Members_Alias l _ _ _ _ _ _ _ _ _ _ \<Rightarrow> l
      | Ast_Members_Attr_Accessor l _ _ _ _ _ _ _ _ _ _ _ _ _ _ \<Rightarrow> l
      | Ast_Members_Attr_Reader l _ _ _ _ _ _ _ _ _ _ _ _ _ _ \<Rightarrow> l
      | Ast_Members_Attr_Writer l _ _ _ _ _ _ _ _ _ _ _ _ _ _ \<Rightarrow> l
      | Ast_Members_Class_Instance_Variable l _ _ _ _ _ _ \<Rightarrow> l
      | Ast_Members_Class_Variable l _ _ _ _ _ _ \<Rightarrow> l
      | Ast_Members_Extend l _ _ _ _ _ _ _ \<Rightarrow> l
      | Ast_Members_Include l _ _ _ _ _ _ _ \<Rightarrow> l
      | Ast_Members_Instance_Variable l _ _ _ _ _ _ \<Rightarrow> l
      | Ast_Members_Method_Definition l _ _ _ _ _ _ _ _ _ _ _ _ \<Rightarrow> l
      | Ast_Members_Prepend l _ _ _ _ _ _ _ \<Rightarrow> l
      | Ast_Members_Private l \<Rightarrow> l
      | Ast_Members_Public l \<Rightarrow> l)"

definition member_ranges :: "rbs_member \<Rightarrow> rbs_location_range list" where
  "member_ranges node =
     (case node of
        Ast_Declarations_Class _ _ _ _ _ _ _ kw nr er _ _ \<Rightarrow> [kw, nr, er]
      | Ast_Declarations_Class_Alias _ _ _ _ _ kw nr1 eq nr2 \<Rightarrow> [kw, nr1, eq, nr2]
      | Ast_Declarations_Constant _ _ _ _ _ nr cr \<Rightarrow> [nr, cr]
      | Ast_Declarations_Global _ _ _ _ _ nr cr \<Rightarrow> [nr, cr]
      | Ast_Declarations_Interface _ _ _ _ _ _ kw nr er _ \<Rightarrow> [kw, nr, er]
      | Ast_Declarations_Module _ _ _ _ _ _ _ kw nr er _ _ _ \<Rightarrow> [kw, nr, er]
      | Ast_Declarations_Module_Alias _ _ _ _ _ kw nr1 eq nr2 \<Rightarrow> [kw, nr1, eq, nr2]
      | Ast_Declarations_Type_Alias _ _ _ _ _ _ kw nr eq _ \<Rightarrow> [kw, nr, eq]
      | Ast_Members_Alias _ _ _ _ _ _ kw _ _ _ _ \<Rightarrow> [kw]
      | Ast_Members_Attr_Accessor _ _ _ _ _ _ _ _ kw _ cr _ _ _ _ \<Rightarrow> [kw, cr]
      | Ast_Members_Attr_Reader _ _ _ _ _ _ _ _ kw _ cr _ _ _ _ \<Rightarrow> [kw, cr]
      | Ast_Members_Attr_Writer _ _ _ _ _ _ _ _ kw _ cr _ _ _ _ \<Rightarrow> [kw, cr]
      | Ast_Members_Class_Instance_Variable _ _ _ _ nr cr _ \<Rightarrow> [nr, cr]
      | Ast_Members_Class_Variable _ _ _ _ nr cr _ \<Rightarrow> [nr, cr]
      | Ast_Members_Extend _ _ _ _ _ nr kw _ \<Rightarrow> [nr, kw]
      | Ast_Members_Include _ _ _ _ _ nr kw _ \<Rightarrow> [nr, kw]
      | Ast_Members_Instance_Variable _ _ _ _ nr cr _ \<Rightarrow> [nr, cr]
      | Ast_Members_Method_Definition _ _ _ _ _ _ _ _ kw _ _ _ _ \<Rightarrow> [kw]
      | Ast_Members_Prepend _ _ _ _ _ nr kw _ \<Rightarrow> [nr, kw]
      | _ \<Rightarrow> [])"

definition member_optional_ranges :: "rbs_member \<Rightarrow> rbs_location_range list" where
  "member_optional_ranges node =
     (case node of
        Ast_Declarations_Class _ _ _ _ _ _ _ _ _ _ pr lt \<Rightarrow> [pr, lt]
      | Ast_Declarations_Interface _ _ _ _ _ _ _ _ _ pr \<Rightarrow> [pr]
      | Ast_Declarations_Module _ _ _ _ _ _ _ _ _ _ pr cr sr \<Rightarrow> [pr, cr, sr]
      | Ast_Declarations_Type_Alias _ _ _ _ _ _ _ _ _ pr \<Rightarrow> [pr]
      | Ast_Members_Alias _ _ _ _ _ _ _ _ _ kr1 kr2 \<Rightarrow> [kr1, kr2]
      | Ast_Members_Attr_Accessor _ _ _ _ _ _ _ _ _ _ _ _ ir inr vr \<Rightarrow> [ir, inr, vr]
      | Ast_Members_Attr_Reader _ _ _ _ _ _ _ _ _ _ _ _ ir inr vr \<Rightarrow> [ir, inr, vr]
      | Ast_Members_Attr_Writer _ _ _ _ _ _ _ _ _ _ _ _ ir inr vr \<Rightarrow> [ir, inr, vr]
      | Ast_Members_Class_Instance_Variable _ _ _ _ _ _ kr \<Rightarrow> [kr]
      | Ast_Members_Class_Variable _ _ _ _ _ _ kr \<Rightarrow> [kr]
      | Ast_Members_Extend _ _ _ _ _ _ _ ar \<Rightarrow> [ar]
      | Ast_Members_Include _ _ _ _ _ _ _ ar \<Rightarrow> [ar]
      | Ast_Members_Instance_Variable _ _ _ _ _ _ kr \<Rightarrow> [kr]
      | Ast_Members_Method_Definition _ _ _ _ _ _ _ _ _ _ _ ovr vr \<Rightarrow> [ovr, vr]
      | Ast_Members_Prepend _ _ _ _ _ _ _ ar \<Rightarrow> [ar]
      | _ \<Rightarrow> [])"

definition method_name_ranges :: "rbs_member \<Rightarrow> rbs_location_range list" where
  "method_name_ranges node =
     (case node of
        Ast_Members_Alias _ _ _ _ _ _ _ nr1 nr2 _ _ \<Rightarrow> [nr1, nr2]
      | Ast_Members_Attr_Accessor _ _ _ _ _ _ _ _ _ nr _ _ _ _ _ \<Rightarrow> [nr]
      | Ast_Members_Attr_Reader _ _ _ _ _ _ _ _ _ nr _ _ _ _ _ \<Rightarrow> [nr]
      | Ast_Members_Attr_Writer _ _ _ _ _ _ _ _ _ nr _ _ _ _ _ \<Rightarrow> [nr]
      | Ast_Members_Method_Definition _ _ _ _ _ _ _ _ _ nr _ _ _ \<Rightarrow> [nr]
      | _ \<Rightarrow> [])"

definition member_kind_ranges :: "rbs_member \<Rightarrow> rbs_location_range list" where
  "member_kind_ranges node =
     (case node of
        Ast_Members_Attr_Accessor _ _ _ _ _ _ _ _ _ _ _ kr _ _ _ \<Rightarrow> [kr]
      | Ast_Members_Attr_Reader _ _ _ _ _ _ _ _ _ _ _ kr _ _ _ \<Rightarrow> [kr]
      | Ast_Members_Attr_Writer _ _ _ _ _ _ _ _ _ _ _ kr _ _ _ \<Rightarrow> [kr]
      | Ast_Members_Method_Definition _ _ _ _ _ _ _ _ _ _ kr _ _ \<Rightarrow> [kr]
      | _ \<Rightarrow> [])"

definition member_names :: "rbs_member \<Rightarrow> rbs_type_name list" where
  "member_names node =
     (case node of
        Ast_Declarations_Class _ nm _ _ _ _ _ _ _ _ _ _ \<Rightarrow> [nm]
      | Ast_Declarations_Class_Alias _ n1 n2 _ _ _ _ _ _ \<Rightarrow> [n1, n2]
      | Ast_Declarations_Constant _ nm _ _ _ _ _ \<Rightarrow> [nm]
      | Ast_Declarations_Interface _ nm _ _ _ _ _ _ _ _ \<Rightarrow> [nm]
      | Ast_Declarations_Module _ nm _ _ _ _ _ _ _ _ _ _ _ \<Rightarrow> [nm]
      | Ast_Declarations_Module_Alias _ n1 n2 _ _ _ _ _ _ \<Rightarrow> [n1, n2]
      | Ast_Declarations_Type_Alias _ nm _ _ _ _ _ _ _ _ \<Rightarrow> [nm]
      | Ast_Members_Extend _ nm _ _ _ _ _ _ \<Rightarrow> [nm]
      | Ast_Members_Include _ nm _ _ _ _ _ _ \<Rightarrow> [nm]
      | Ast_Members_Prepend _ nm _ _ _ _ _ _ \<Rightarrow> [nm]
      | _ \<Rightarrow> [])"

definition member_symbols :: "rbs_member \<Rightarrow> rbs_ast_symbol list" where
  "member_symbols node =
     (case node of
        Ast_Declarations_Global _ nm _ _ _ _ _ \<Rightarrow> [nm]
      | Ast_Members_Alias _ n1 n2 _ _ _ _ _ _ _ _ \<Rightarrow> [n1, n2]
      | Ast_Members_Attr_Accessor _ nm _ _ _ _ _ _ _ _ _ _ _ _ _ \<Rightarrow> [nm]
      | Ast_Members_Attr_Reader _ nm _ _ _ _ _ _ _ _ _ _ _ _ _ \<Rightarrow> [nm]
      | Ast_Members_Attr_Writer _ nm _ _ _ _ _ _ _ _ _ _ _ _ _ \<Rightarrow> [nm]
      | Ast_Members_Class_Instance_Variable _ nm _ _ _ _ _ \<Rightarrow> [nm]
      | Ast_Members_Class_Variable _ nm _ _ _ _ _ \<Rightarrow> [nm]
      | Ast_Members_Instance_Variable _ nm _ _ _ _ _ \<Rightarrow> [nm]
      | Ast_Members_Method_Definition _ nm _ _ _ _ _ _ _ _ _ _ _ \<Rightarrow> [nm]
      | _ \<Rightarrow> [])"

definition member_types :: "bool \<Rightarrow> rbs_member \<Rightarrow> ((bool \<times> bool \<times> bool) \<times> rbs_node) list" where
  "member_types i node =
     (case node of
        Ast_Declarations_Constant _ _ t _ _ _ _ \<Rightarrow> [((False, False, False), t)]
      | Ast_Declarations_Global _ _ t _ _ _ _ \<Rightarrow> [((False, False, False), t)]
      | Ast_Declarations_Type_Alias _ _ _ t _ _ _ _ _ _ \<Rightarrow> [((False, False, False), t)]
      | Ast_Members_Attr_Accessor _ _ t _ _ _ _ _ _ _ _ _ _ _ _ \<Rightarrow> [((False, True, True), t)]
      | Ast_Members_Attr_Reader _ _ t _ _ _ _ _ _ _ _ _ _ _ _ \<Rightarrow> [((False, True, True), t)]
      | Ast_Members_Attr_Writer _ _ t _ _ _ _ _ _ _ _ _ _ _ _ \<Rightarrow> [((False, True, True), t)]
      | Ast_Members_Class_Instance_Variable _ _ t _ _ _ _ \<Rightarrow> [((False, True, True), t)]
      | Ast_Members_Class_Variable _ _ t _ _ _ _ \<Rightarrow> [((False, False, True), t)]
      | Ast_Members_Extend _ _ args _ _ _ _ _ \<Rightarrow> map (Pair (True, False, \<not> i)) args
      | Ast_Members_Include _ _ args _ _ _ _ _ \<Rightarrow> map (Pair (True, False, \<not> i)) args
      | Ast_Members_Instance_Variable _ _ t _ _ _ _ \<Rightarrow> [((False, True, True), t)]
      | Ast_Members_Prepend _ _ args _ _ _ _ _ \<Rightarrow> map (Pair (True, False, \<not> i)) args
      | _ \<Rightarrow> [])"

definition member_type_params :: "rbs_member \<Rightarrow> rbs_ast_type_param list" where
  "member_type_params node =
     (case node of
        Ast_Declarations_Class _ _ ps _ _ _ _ _ _ _ _ _ \<Rightarrow> ps
      | Ast_Declarations_Interface _ _ ps _ _ _ _ _ _ _ \<Rightarrow> ps
      | Ast_Declarations_Module _ _ ps _ _ _ _ _ _ _ _ _ _ \<Rightarrow> ps
      | Ast_Declarations_Type_Alias _ _ ps _ _ _ _ _ _ _ \<Rightarrow> ps
      | _ \<Rightarrow> [])"

definition member_overloads :: "rbs_member \<Rightarrow> rbs_ast_members_method_definition_overload list" where
  "member_overloads node =
     (case node of
        Ast_Members_Method_Definition _ _ _ os _ _ _ _ _ _ _ _ _ \<Rightarrow> os
      | _ \<Rightarrow> [])"

definition member_members :: "rbs_member \<Rightarrow> rbs_member list" where
  "member_members node =
     (case node of
        Ast_Declarations_Class _ _ _ _ ms _ _ _ _ _ _ _ \<Rightarrow> ms
      | Ast_Declarations_Interface _ _ _ ms _ _ _ _ _ _ \<Rightarrow> ms
      | Ast_Declarations_Module _ _ _ _ ms _ _ _ _ _ _ _ _ \<Rightarrow> ms
      | _ \<Rightarrow> [])"

definition member_supers :: "rbs_member \<Rightarrow> rbs_ast_declarations_class_super list" where
  "member_supers node =
     (case node of
        Ast_Declarations_Class _ _ _ sc _ _ _ _ _ _ _ _ \<Rightarrow> (case sc of None \<Rightarrow> [] | Some x \<Rightarrow> [x])
      | _ \<Rightarrow> [])"

definition member_self_types :: "rbs_member \<Rightarrow> rbs_ast_declarations_module_self list" where
  "member_self_types node =
     (case node of
        Ast_Declarations_Module _ _ _ st _ _ _ _ _ _ _ _ _ \<Rightarrow> st
      | _ \<Rightarrow> [])"

definition is_interface :: "rbs_member \<Rightarrow> bool" where
  "is_interface node \<longleftrightarrow> (case node of Ast_Declarations_Interface _ _ _ _ _ _ _ _ _ _ \<Rightarrow> True | _ \<Rightarrow> False)"

definition is_declaration :: "rbs_member \<Rightarrow> bool" where
  "is_declaration node \<longleftrightarrow>
     (case node of
        Ast_Declarations_Class _ _ _ _ _ _ _ _ _ _ _ _ \<Rightarrow> True
      | Ast_Declarations_Class_Alias _ _ _ _ _ _ _ _ _ \<Rightarrow> True
      | Ast_Declarations_Constant _ _ _ _ _ _ _ \<Rightarrow> True
      | Ast_Declarations_Global _ _ _ _ _ _ _ \<Rightarrow> True
      | Ast_Declarations_Interface _ _ _ _ _ _ _ _ _ _ \<Rightarrow> True
      | Ast_Declarations_Module _ _ _ _ _ _ _ _ _ _ _ _ _ \<Rightarrow> True
      | Ast_Declarations_Module_Alias _ _ _ _ _ _ _ _ _ \<Rightarrow> True
      | Ast_Declarations_Type_Alias _ _ _ _ _ _ _ _ _ _ \<Rightarrow> True
      | _ \<Rightarrow> False)"

text \<open>What may stand in an interface: methods and aliases of instances, and \<open>include\<close>.\<close>

definition interface_member :: "rbs_member \<Rightarrow> bool" where
  "interface_member node \<longleftrightarrow>
     (case node of
        Ast_Members_Method_Definition _ _ k _ _ _ _ _ _ _ _ _ _ \<Rightarrow> k = RBS_METHOD_DEFINITION_KIND_INSTANCE
      | Ast_Members_Alias _ _ _ k _ _ _ _ _ _ _ \<Rightarrow> k = RBS_ALIAS_KIND_INSTANCE
      | Ast_Members_Include _ _ _ _ _ _ _ _ \<Rightarrow> True
      | _ \<Rightarrow> False)"

subsection \<open>Well-formed declarations\<close>

text \<open>Both ends of a range lie between two positions.\<close>

definition ends_between :: "int \<Rightarrow> int \<Rightarrow> rbs_location_range \<Rightarrow> bool" where
  "ends_between lo hi r \<longleftrightarrow> lo \<le> start_byte r \<and> start_byte r \<le> hi \<and> lo \<le> end_byte r \<and> end_byte r \<le> hi"

text \<open>
  \<open>u\<close> is the range the parser leaves for the name of a quoted method, and \<open>i\<close> is for a member
  of an interface.
\<close>

definition parts_ok :: "rbs_location_range \<Rightarrow> bool \<Rightarrow> int \<Rightarrow> int \<Rightarrow> rbs_member \<Rightarrow> bool" where
  "parts_ok u i a b m \<longleftrightarrow>
     list_all (between a b) (member_ranges m) \<and>
     list_all (null_or_between a b) (member_optional_ranges m) \<and>
     list_all (\<lambda>r. r = u \<or> between a b r) (method_name_ranges m) \<and>
     list_all (\<lambda>r. r = RBS_LOCATION_NULL_RANGE \<or> ends_between a b r) (member_kind_ranges m) \<and>
     list_all (name_ok a b) (member_names m) \<and>
     list_all (\<lambda>y. between a b (sym_location y)) (member_symbols m) \<and>
     list_all (\<lambda>((v, s, c), n). tree_ok v s c a b n) (member_types i m) \<and>
     list_all (type_param_ok a b) (member_type_params m) \<and> defaults_last (member_type_params m) \<and>
     list_all (overload_ok (\<not> i) a b) (member_overloads m) \<and>
     list_all (super_ok a b) (member_supers m) \<and> list_all (self_type_ok a b) (member_self_types m) \<and>
     (i \<longrightarrow> interface_member m)"

lemma member_size: "x \<in> set (member_members m) \<Longrightarrow> size x < size m"
  by (cases m) (auto simp: member_members_def dest!: size_list_member)

function (sequential) member_ok :: "rbs_location_range \<Rightarrow> bool \<Rightarrow> int \<Rightarrow> int \<Rightarrow> rbs_member \<Rightarrow> bool" where
  "member_ok u i lo hi m \<longleftrightarrow>
     between lo hi (member_location m) \<and>
     parts_ok u i (start_byte (member_location m)) (end_byte (member_location m)) m \<and>
     (\<forall>x\<in>set (member_members m).
        member_ok u (is_interface m) (start_byte (member_location m)) (end_byte (member_location m)) x)"
  by auto
termination by (relation "measure (\<lambda>(_, _, _, _, m). size m)") (auto simp: member_size)

declare member_ok.simps [simp del]

lemma type_param_ok_mono: "type_param_ok lo hi tp \<Longrightarrow> lo' \<le> lo \<Longrightarrow> hi \<le> hi' \<Longrightarrow> type_param_ok lo' hi' tp"
  by (auto simp: type_param_ok_def Let_def intro: between_mono)

lemma method_type_ok_mono: "method_type_ok c lo hi mt \<Longrightarrow> lo' \<le> lo \<Longrightarrow> hi \<le> hi' \<Longrightarrow> method_type_ok c lo' hi' mt"
  by (auto simp: method_type_ok_def Let_def intro: between_mono trees_ok_mono tree_ok_mono)

lemma overload_ok_mono: "overload_ok c lo hi ov \<Longrightarrow> lo' \<le> lo \<Longrightarrow> hi \<le> hi' \<Longrightarrow> overload_ok c lo' hi' ov"
  by (auto simp: overload_ok_def Let_def intro: between_mono)

lemma super_ok_mono: "super_ok lo hi sc \<Longrightarrow> lo' \<le> lo \<Longrightarrow> hi \<le> hi' \<Longrightarrow> super_ok lo' hi' sc"
  by (auto simp: super_ok_def Let_def intro: between_mono)

lemma self_type_ok_mono: "self_type_ok lo hi st \<Longrightarrow> lo' \<le> lo \<Longrightarrow> hi \<le> hi' \<Longrightarrow> self_type_ok lo' hi' st"
  by (auto simp: self_type_ok_def Let_def intro: between_mono)

lemma member_ok_mono: "member_ok u i lo hi m \<Longrightarrow> lo' \<le> lo \<Longrightarrow> hi \<le> hi' \<Longrightarrow> member_ok u i lo' hi' m"
  by (subst member_ok.simps, subst (asm) member_ok.simps) (auto intro: between_mono)

lemmas list_all_mono = list.pred_mono_strong

text \<open>The parts of the node at hand.\<close>

lemmas member_parts =
  member_location_def member_ranges_def member_optional_ranges_def method_name_ranges_def member_kind_ranges_def
  member_names_def member_symbols_def member_types_def member_type_params_def member_overloads_def member_members_def
  member_supers_def member_self_types_def is_interface_def interface_member_def defaults_last_def

end
