(* ===== verification/ScopeRules.thy ===== *)
theory ScopeRules
  imports TypeParserSpec
begin

text \<open>
  Rules for the functions that change the tables of type variables, that read comments, and
  that start on a token: what a parsing function may do apart from reading tokens and interning.
\<close>

subsection \<open>Nothing but scopes depends on the tables\<close>

lemma parser_ok_vars [simp]: "parser_ok (p\<lparr>vars := vs\<rparr>) \<longleftrightarrow> parser_ok p"
  by (simp add: parser_ok_def)

lemma parser_step_vars [simp]:
  "parser_step (p\<lparr>vars := vs\<rparr>) q \<longleftrightarrow> parser_step p q"
  "parser_step p (q\<lparr>vars := vs\<rparr>) \<longleftrightarrow> parser_step p q"
  by (simp_all add: parser_step_def bytes_left_def)

lemma measures_vars [simp]: "spent (p\<lparr>vars := vs\<rparr>) = spent p" "bytes_left (p\<lparr>vars := vs\<rparr>) = bytes_left p"
  by (simp_all add: spent_def bytes_left_def)

lemma progress_vars [simp]:
  "within (p\<lparr>vars := vs\<rparr>) q \<longleftrightarrow> within p q" "within p (q\<lparr>vars := vs\<rparr>) \<longleftrightarrow> within p q"
  "consumed (p\<lparr>vars := vs\<rparr>) q \<longleftrightarrow> consumed p q" "consumed p (q\<lparr>vars := vs\<rparr>) \<longleftrightarrow> consumed p q"
  "ahead (p\<lparr>vars := vs\<rparr>) q \<longleftrightarrow> ahead p q" "ahead p (q\<lparr>vars := vs\<rparr>) \<longleftrightarrow> ahead p q"
  "ready m (p\<lparr>vars := vs\<rparr>) \<longleftrightarrow> ready m p" "roomy (p\<lparr>vars := vs\<rparr>) \<longleftrightarrow> roomy p"
  "ready_on m (p\<lparr>vars := vs\<rparr>) \<longleftrightarrow> ready_on m p"
  by (simp_all add: within_def consumed_def ahead_def ready_def ready_on_def roomy_def)

lemma posts_vars [simp]:
  "type_post v s c (p\<lparr>vars := vs\<rparr>) n q \<longleftrightarrow> type_post v s c p n q"
  "type_post v s c p n (q\<lparr>vars := vs\<rparr>) \<longleftrightarrow> type_post v s c p n q"
  "types_post v s c (p\<lparr>vars := vs\<rparr>) ns q \<longleftrightarrow> types_post v s c p ns q"
  "types_post v s c p ns (q\<lparr>vars := vs\<rparr>) \<longleftrightarrow> types_post v s c p ns q"
  by (simp_all add: type_post_def types_post_def)

lemma run_ok_vars: "run_ok (p\<lparr>vars := vs\<rparr>) Q r \<longleftrightarrow> run_ok p Q r"
  by (cases r) (simp_all add: run_ok.simps)

subsection \<open>Scopes\<close>

text \<open>The tables after \<open>rbs_parser_push_typevar_table\<close>.\<close>

definition pushed :: "bool \<Rightarrow> id_table list \<Rightarrow> id_table list" where
  "pushed reset vs = alloc_empty_table # (if reset then alloc_reset_table # vs else vs)"

lemma push_value: "rbs_parser_push_typevar_table p reset = p\<lparr>vars := pushed reset (vars p)\<rparr>"
  by (simp add: rbs_parser_push_typevar_table_def pushed_def Let_def)

text \<open>The innermost table is one that variables can be added to.\<close>

definition scope_open :: "id_table list \<Rightarrow> bool" where
  "scope_open vs \<longleftrightarrow> (case vs of [] \<Rightarrow> True | t # _ \<Rightarrow> \<not> RESET_TABLE_P t)"

text \<open>\<open>vs'\<close> is \<open>vs\<close> with \<open>ids\<close> added to the innermost table.\<close>

definition declares :: "id_table list \<Rightarrow> 32 word list \<Rightarrow> id_table list \<Rightarrow> bool" where
  "declares vs ids vs' \<longleftrightarrow>
     (\<exists>t t' rest. vs = t # rest \<and> vs' = t' # rest \<and> \<not> RESET_TABLE_P t \<and> \<not> RESET_TABLE_P t' \<and>
        table_ids t' = table_ids t @ ids)"

lemma pushed_open [simp]: "scope_open (pushed reset vs)"
  by (simp add: scope_open_def pushed_def RESET_TABLE_P_def alloc_empty_table_def)

lemma declares_pushed [simp]: "declares (pushed reset vs) [] (pushed reset vs)"
  by (simp add: declares_def pushed_def RESET_TABLE_P_def alloc_empty_table_def)

lemma declares_refl: "declares vs ids vs' \<Longrightarrow> declares vs [] vs" "declares vs ids vs' \<Longrightarrow> declares vs' [] vs'"
  by (auto simp: declares_def)

lemma declares_trans: "declares vs ids vs' \<Longrightarrow> declares vs' ids' vs'' \<Longrightarrow> declares vs (ids @ ids') vs''"
  by (auto simp: declares_def)

lemma declares_open: "declares vs ids vs' \<Longrightarrow> scope_open vs'"
  by (auto simp: declares_def scope_open_def)

subsection \<open>Rules\<close>

lemma run_ok_bind:
  assumes "run_ok p R r" and "\<And>v q. parser_step p q \<Longrightarrow> R v q \<Longrightarrow> run_ok p Q (k v q)"
  shows "run_ok p Q (check_parse r k)"
  using assms by (cases r) (auto simp: check_parse_def run_ok.simps)

lemma run_ok_call_consumed:
  assumes "reads q V r" and w: "within p q"
    and k: "\<And>v q'. consumed q q' \<Longrightarrow> consumed p q' \<Longrightarrow> within p q' \<Longrightarrow> within q q' \<Longrightarrow> vars q' = vars q \<Longrightarrow>
      tok_end (current_token q) \<le> tok_end (current_token q') \<Longrightarrow> V q v q' \<Longrightarrow> run_ok p Q (k v q')"
  shows "run_ok p Q (check_parse r k)"
  using run_ok_within [OF w assms(1) [unfolded reads_def]]
  by (rule run_ok_bind) (use k within_consumed [OF w] consumed_within within_pos(1) in blast)

text \<open>A call of a function that may change the tables.\<close>

lemma run_ok_scope_call:
  assumes "run_ok q (\<lambda>v q'. within q q' \<and> V v q') r" and w: "within p q"
    and k: "\<And>v q'. within p q' \<Longrightarrow> within q q' \<Longrightarrow> tok_end (current_token q) \<le> tok_end (current_token q') \<Longrightarrow>
      V v q' \<Longrightarrow> run_ok p Q (k v q')"
  shows "run_ok p Q (check_parse r k)"
  using run_ok_within [OF w assms(1)]
proof (rule run_ok_bind, elim conjE)
  fix v q' assume "within q q'" "V v q'"
  then show "run_ok p Q (k v q')" using k within_trans [OF w] within_pos by blast
qed

lemma run_ok_scope_loop:
  assumes w: "within p q" and I: "I s q"
    and round: "\<And>s q. within p q \<Longrightarrow> I s q \<Longrightarrow>
      run_ok q (\<lambda>r q'. within q q' \<and> (case r of Inl s' \<Rightarrow> I s' q' \<and> consumed q q' | Inr v \<Rightarrow> J v q')) (body s q)"
  shows "run_ok q (\<lambda>v q'. within q q' \<and> J v q') (while_true body s q)"
  unfolding while_true_def by (rule run_ok_loop [where p = p and I = I]) (use assms in auto)

lemma run_ok_pop:
  assumes "within p q" and "vars q = t # (if reset then alloc_reset_table # vs else vs)" and "reset \<or> scope_open vs"
    and "run_ok p Q (k () (q\<lparr>vars := vs\<rparr>))"
  shows "run_ok p Q (check_parse (parser_pop_typevar_table q) k)"
  using assms
  by (auto simp: parser_pop_typevar_table_def check_parse_def scope_open_def RESET_TABLE_P_def alloc_reset_table_def
      split: list.splits if_splits)

lemma run_ok_pop_pushed:
  assumes "within p q" and "declares (pushed reset vs) ids (vars q)" and "scope_open vs"
    and "run_ok p Q (k () (q\<lparr>vars := vs\<rparr>))"
  shows "run_ok p Q (check_parse (parser_pop_typevar_table q) k)"
proof -
  obtain t where "vars q = t # (if reset then alloc_reset_table # vs else vs)"
    using assms(2) by (auto simp: declares_def pushed_def)
  then show ?thesis using run_ok_pop [OF assms(1)] assms(3,4) by blast
qed

lemma run_ok_pop_same:
  assumes "within p q" and "vars q = pushed reset vs" and "scope_open vs" and "run_ok p Q (k () (q\<lparr>vars := vs\<rparr>))"
  shows "run_ok p Q (check_parse (parser_pop_typevar_table q) k)"
  by (rule run_ok_pop_pushed [where reset = reset and vs = vs and ids = "[]"]) (use assms in simp_all)

lemma run_ok_insert_typevar:
  assumes "within p q" and "declares vs ids (vars q)"
    and "\<And>vs'. declares vs (ids @ [i]) vs' \<Longrightarrow> run_ok p Q (k () (q\<lparr>vars := vs'\<rparr>))"
  shows "run_ok p Q (check_parse (rbs_parser_insert_typevar q i) k)"
proof -
  obtain t t' rest where v: "vs = t # rest" "vars q = t' # rest" "\<not> RESET_TABLE_P t" "\<not> RESET_TABLE_P t'"
    "table_ids t' = table_ids t @ ids" using assms(2) by (auto simp: declares_def)
  let ?t = "if table_size t' = length (table_ids t') then t'\<lparr>table_size := table_size t' + 10\<rparr> else t'"
  have "declares vs (ids @ [i]) (?t\<lparr>table_ids := table_ids ?t @ [i]\<rparr> # rest)"
    using v by (auto simp: declares_def RESET_TABLE_P_def)
  from assms(3) [OF this] show ?thesis
    using v by (simp add: rbs_parser_insert_typevar_def check_parse_def Let_def)
qed

subsection \<open>Comments\<close>

lemma comment_line_defined:
  assumes "buffer_inv b"
  shows "\<exists>b'. comment_line lx b tok = Some b' \<and> buffer_inv b'"
proof -
  have "\<exists>b'. (case rbs_buffer_append_string b xs of None \<Rightarrow> None | Some b \<Rightarrow> rbs_buffer_append_cstr b [10]) = Some b' \<and> buffer_inv b'" for xs
  proof -
    obtain b1 where b1: "rbs_buffer_append_string b xs = Some b1" "buffer_inv b1"
      using buffer_append_value [OF assms, of xs] by auto
    show ?thesis
      using b1(1) buffer_append_value [OF b1(2), of "takeWhile (\<lambda>c. c \<noteq> 0) [10]"] unfolding rbs_buffer_append_cstr_def by auto
  qed
  then show ?thesis unfolding comment_line_def Let_def by (simp add: split_beta)
qed

lemma comment_lines_defined: "buffer_inv b \<Longrightarrow> \<exists>b'. comment_lines lx b toks = Some b'"
proof (induction toks arbitrary: b)
  case (Cons tok toks)
  obtain b1 where "comment_line lx b tok = Some b1" "buffer_inv b1" using comment_line_defined [OF Cons.prems] by blast
  with Cons.IH show ?case by simp
qed simp

lemma get_comment_defined: "\<exists>c. rbs_parser_get_comment p n = Some c"
proof -
  have "\<exists>c. parse_comment_lines p com = Some c" for com
    using comment_lines_defined [OF buffer_init_value(1), of "lexer p" "line_tokens com"]
    by (auto simp: parse_comment_lines_def)
  then show ?thesis by (auto simp: rbs_parser_get_comment_def Let_def split: option.splits)
qed

lemma run_ok_comment: "(\<And>c. run_ok p Q (k c)) \<Longrightarrow> run_ok p Q (getting_comment q n k)"
  using get_comment_defined [of q n] by (auto simp: getting_comment_def)

subsection \<open>The parser of types at the top\<close>

lemma parse_simple_ok: "ready m p \<Longrightarrow> reads p (simple_post v s c) (parse_simple v s c p)"
  unfolding parse_simple_def by (rule parse_simple_fuel_ok) (simp add: ready_def)

interpretation top: simple_parser parse_simple m for m
  by unfold_locales (rule parse_simple_ok)

lemma type_ok: "ready m p \<Longrightarrow> reads p (type_post v s c) (rbs_parse_type v s c p)"
  by (rule parse_type_ok) (simp_all add: ready_def)

end
