(* ===== verification/MethodTypeSpec.thy ===== *)
theory MethodTypeSpec
  imports MethodTypeParser DeclTree ScopeRules
begin

text \<open>The contracts of the parsers of type parameters and method types.\<close>

subsection \<open>Type parameters\<close>

definition param_ids :: "rbs_ast_type_param list \<Rightarrow> 32 word list" where
  "param_ids params = map (\<lambda>tp. sym_constant_id (tp_name tp)) params"

definition params_ok :: "bool \<Rightarrow> int \<Rightarrow> int \<Rightarrow> rbs_ast_type_param list \<Rightarrow> bool" where
  "params_ok m lo hi params \<longleftrightarrow>
     list_all (type_param_ok lo hi) params \<and> defaults_last params \<and> (\<not> m \<longrightarrow> list_all plain_param params)"

definition bounds_ok :: "int \<Rightarrow> int \<Rightarrow> param_bounds \<Rightarrow> bool" where
  "bounds_ok lo hi b \<longleftrightarrow>
     trees_ok False False False lo hi (option_nodes (upper_bound b) @ option_nodes (lower_bound b)) \<and>
     null_or_between lo hi (RBS_RANGE_LEX2AST (upper_bound_range b)) \<and>
     null_or_between lo hi (RBS_RANGE_LEX2AST (lower_bound_range b))"

lemma bounds_ok_mono: "bounds_ok lo hi b \<Longrightarrow> lo' \<le> lo \<Longrightarrow> hi \<le> hi' \<Longrightarrow> bounds_ok lo' hi' b"
  by (auto simp: bounds_ok_def intro: trees_ok_mono null_or_between_mono)

lemma null_location [simp]: "null_or_between lo hi (RBS_RANGE_LEX2AST NULL_RANGE)"
  by (simp add: null_range_location)

lemma token_order: "within p q \<Longrightarrow> tok_begin (current_token q) \<le> tok_end (current_token q)"
  using window_order(8) [OF within_ok] .

lemma unchecked_ok:
  assumes "ready k p"
  shows "may_read p (\<lambda>p x q. null_or_between (tok_begin (next_token p)) (tok_end (current_token q)) (RBS_RANGE_LEX2AST (snd x)) \<and>
    (\<not> m \<longrightarrow> \<not> fst x)) (type_param_unchecked m p)"
  unfolding may_read_def type_param_unchecked_def
  by (intro run_ok_if run_ok_advance_on run_ok_return) (use assms in \<open>auto simp: ready_ok null_or_between_def dest: token_order\<close>)

lemma variance_ok:
  assumes "ready k p"
  shows "may_read p (\<lambda>p x q. null_or_between (tok_begin (next_token p)) (tok_end (current_token q)) (RBS_RANGE_LEX2AST (snd x)) \<and>
    (\<not> m \<longrightarrow> fst x = RBS_TYPE_PARAM_VARIANCE_INVARIANT)) (type_param_variance m p)"
  unfolding may_read_def type_param_variance_def Let_def
  by (intro run_ok_if run_ok_advance_on run_ok_return)
    (use assms in \<open>auto simp: ready_ok null_or_between_def dest: token_order\<close>)

lemma bound_value:
  assumes "bounds_ok lo hi b" and "consumed p q" and "within p q0" and "type_post False False False q n r" and "within q r"
    and "lo \<le> tok_begin (next_token p)" and "hi \<le> tok_end (current_token r)"
  shows "bounds_ok lo (tok_end (current_token r))
      (b\<lparr>upper_bound := Some n, upper_bound_range := \<lparr>r_start = current_start q, r_end = current_end r\<rparr>\<rparr>)"
    and "bounds_ok lo (tok_end (current_token r))
      (b\<lparr>lower_bound := Some n, lower_bound_range := \<lparr>r_start = current_start q, r_end = current_end r\<rparr>\<rparr>)"
proof -
  have q: "lo \<le> tok_begin (current_token q)" "tok_begin (current_token q) \<le> tok_end (current_token r)"
    using assms(2,6) current_to_end [OF assms(5)] by (auto simp: consumed_def)
  have "tok_end (current_token q) \<le> tok_begin (next_token q)" "tok_begin (current_token q) \<le> tok_end (current_token q)"
    using window_order(1,8) [OF within_ok [OF consumed_within [OF assms(2)]]] by simp_all
  then have "tree_ok False False False lo (tok_end (current_token r)) n"
    using q assms(4) by (auto simp: type_post_def intro: tree_ok_mono)
  with q show "bounds_ok lo (tok_end (current_token r))
      (b\<lparr>upper_bound := Some n, upper_bound_range := \<lparr>r_start = current_start q, r_end = current_end r\<rparr>\<rparr>)"
    "bounds_ok lo (tok_end (current_token r))
      (b\<lparr>lower_bound := Some n, lower_bound_range := \<lparr>r_start = current_start q, r_end = current_end r\<rparr>\<rparr>)"
    using bounds_ok_mono [OF assms(1) order_refl assms(7)]
    by (simp_all add: bounds_ok_def) (simp_all add: null_or_between_def)
qed

lemma bound_ok:
  assumes "ready k p" and "bounds_ok lo (tok_end (current_token p)) b" and "lo \<le> tok_begin (next_token p)"
  shows "may_read p (\<lambda>p b q. bounds_ok lo (tok_end (current_token q)) b) (type_param_bound b p)"
  unfolding may_read_def type_param_bound_def Let_def
  by (intro run_ok_if run_ok_fail run_ok_advance_on run_ok_call [OF type_ok] run_ok_return)
    (use assms in \<open>auto simp: ready_ok intro: progress_intros bound_value\<close>)

lemma default_ok:
  assumes "ready k p" and "lo \<le> tok_begin (next_token p)"
  shows "may_read p (\<lambda>p x q.
      trees_ok True False False lo (tok_end (current_token q)) (option_nodes (fst x)) \<and>
      null_or_between lo (tok_end (current_token q)) (RBS_RANGE_LEX2AST (fst (snd x))) \<and>
      (snd (snd x) \<longleftrightarrow> required \<and> fst x = None) \<and> (m \<and> fst x = None \<longrightarrow> required) \<and> (\<not> m \<longrightarrow> fst x = None))
    (type_param_default m required p)"
proof -
  have d: "tree_ok True False False lo (tok_end (current_token r)) n"
    "lo \<le> tok_begin (current_token q) \<and> tok_begin (current_token q) \<le> tok_end (current_token r)"
    if "consumed p q" "within q r" "type_post True False False q n r" for q r n
    using that assms(2) window_order(1,8) [OF within_ok [OF consumed_within [OF that(1)]]] current_to_end [OF that(2)]
    by (auto simp: type_post_def consumed_def intro: tree_ok_mono)
  show ?thesis
    unfolding may_read_def type_param_default_def Let_def
    by (intro run_ok_if run_ok_fail run_ok_advance_on run_ok_call [OF type_ok] run_ok_return)
      (use assms d in \<open>auto simp: ready_ok null_or_between_def intro: progress_intros\<close>)
qed

lemma param_node_ok:
  assumes "lo \<le> byte_pos first" "byte_pos first \<le> byte_pos till" "byte_pos till \<le> hi"
    and "between (byte_pos first) (byte_pos till) (sym_location name)"
    and "between (byte_pos first) (byte_pos till) (RBS_RANGE_LEX2AST name_range)"
    and "null_or_between (byte_pos first) (byte_pos till) (RBS_RANGE_LEX2AST (snd unchecked))"
    and "null_or_between (byte_pos first) (byte_pos till) (RBS_RANGE_LEX2AST (snd variance))"
    and "bounds_ok (byte_pos first) (byte_pos till) bounds"
    and "trees_ok True False False (byte_pos first) (byte_pos till) (option_nodes (fst dflt))"
    and "null_or_between (byte_pos first) (byte_pos till) (RBS_RANGE_LEX2AST (snd dflt))"
  shows "type_param_ok lo hi (type_param_node first till name name_range unchecked variance bounds dflt)"
  using assms by (simp add: type_param_ok_def type_param_node_def rbs_ast_type_param_new_def bounds_ok_def)

lemma param_node_fields [simp]:
  "tp_name (type_param_node first till name name_range unchecked variance bounds dflt) = name"
  "tp_default_type (type_param_node first till name name_range unchecked variance bounds dflt) = fst dflt"
  "tp_unchecked (type_param_node first till name name_range unchecked variance bounds dflt) = fst unchecked"
  "tp_variance (type_param_node first till name name_range unchecked variance bounds dflt) = fst variance"
  by (simp_all add: type_param_node_def rbs_ast_type_param_new_def)

definition param_post ::
  "bool \<Rightarrow> bool \<Rightarrow> id_table list \<Rightarrow> 32 word list \<Rightarrow> int \<Rightarrow> rbs_ast_type_param \<times> bool \<Rightarrow> rbs_parser \<Rightarrow> bool"
where
  "param_post m required vs ids lo x q \<longleftrightarrow>
     declares vs (ids @ param_ids [fst x]) (vars q) \<and> type_param_ok lo (tok_end (current_token q)) (fst x) \<and>
     (snd x \<longleftrightarrow> required \<and> tp_default_type (fst x) = None) \<and> (m \<and> tp_default_type (fst x) = None \<longrightarrow> required) \<and>
     (\<not> m \<longrightarrow> plain_param (fst x))"

lemma no_bounds_ok [simp]: "bounds_ok lo hi no_bounds"
  by (simp add: bounds_ok_def no_bounds_def)

lemma param_named_ok:
  assumes "ready k p" and "within p q" and "declares vs ids (vars q)"
    and "null_or_between (tok_begin (next_token p)) (tok_end (current_token q)) (RBS_RANGE_LEX2AST (snd unchecked))"
    and "null_or_between (tok_begin (next_token p)) (tok_end (current_token q)) (RBS_RANGE_LEX2AST (snd variance))"
    and "\<not> m \<longrightarrow> \<not> fst unchecked \<and> fst variance = RBS_TYPE_PARAM_VARIANCE_INVARIANT"
  shows "run_ok p (\<lambda>x q'. consumed p q' \<and> param_post m required vs ids (tok_begin (next_token p)) x q')
     (type_param_named m required (next_start p) unchecked variance q)"
proof -
  let ?lo = "tok_begin (next_token p)"
  have result: "param_post m required vs ids ?lo
      (type_param_node (next_start p) (current_end r) (rbs_ast_symbol_new (rbs_location_range_current_token q1) i)
        (tok_range (current_token q1)) unchecked variance b (fst d, fst (snd d)), snd (snd d)) r"
    if r: "consumed p q1" "tok_end (current_token q) \<le> tok_end (current_token q1)"
      "tok_end (current_token q1) \<le> tok_end (current_token r)" "declares vs (ids @ [i]) (vars r)"
      "bounds_ok ?lo (tok_end (current_token r)) b"
      "trees_ok True False False ?lo (tok_end (current_token r)) (option_nodes (fst d))"
      "null_or_between ?lo (tok_end (current_token r)) (RBS_RANGE_LEX2AST (fst (snd d)))"
      "(snd (snd d) \<longleftrightarrow> required \<and> fst d = None) \<and> (m \<and> fst d = None \<longrightarrow> required) \<and> (\<not> m \<longrightarrow> fst d = None)"
    for q1 i r b d
  proof -
    have q1: "?lo \<le> tok_begin (current_token q1)" "tok_begin (current_token q1) \<le> tok_end (current_token q1)"
      using r(1) token_order by (auto simp: consumed_def)
    have "type_param_ok ?lo (tok_end (current_token r))
      (type_param_node (next_start p) (current_end r) (rbs_ast_symbol_new (rbs_location_range_current_token q1) i)
        (tok_range (current_token q1)) unchecked variance b (fst d, fst (snd d)))"
    proof (rule param_node_ok)
      show "null_or_between ?lo (tok_end (current_token r)) (RBS_RANGE_LEX2AST (snd unchecked))"
        "null_or_between ?lo (tok_end (current_token r)) (RBS_RANGE_LEX2AST (snd variance))"
        using assms(4,5) r(2,3) by (auto intro: null_or_between_mono)
    qed (use q1 r(2,3,5-7) in \<open>simp_all add: rbs_ast_symbol_new_def rbs_location_range_current_token_def\<close>)
    then show ?thesis
      using r(4,8) assms(6) by (simp add: param_post_def param_ids_def plain_param_def rbs_ast_symbol_new_def)
  qed
  show ?thesis
    unfolding type_param_named_def Let_def rbs_constant_pool_insert_string_def split_beta
    by (intro run_ok_advance_assert run_ok_interning run_ok_insert_typevar
        run_ok_may_call [OF bound_ok [where lo = ?lo]] run_ok_may_call [OF default_ok [where required = required and m = m and lo = ?lo]] run_ok_return conjI result)
      (use assms in \<open>auto intro: progress_intros within_pos(3) bounds_ok_mono [OF _ order_refl]\<close>)
qed

lemma param_ok:
  assumes "ready k p" and "declares vs ids (vars p)"
  shows "run_ok p (\<lambda>x q'. consumed p q' \<and> param_post m required vs ids (tok_begin (next_token p)) x q')
     (type_param m required p)"
  unfolding type_param_def Let_def
  by (intro run_ok_may_call [OF unchecked_ok [where m = m]] run_ok_may_call [OF variance_ok [where m = m]] param_named_ok)
    (use assms in \<open>auto simp: ready_ok intro: progress_intros within_pos(3) null_or_between_mono\<close>)

text \<open>The state of the loop: whether required parameters are still allowed, and the parameters so far.\<close>

definition params_state_ok ::
  "bool \<Rightarrow> id_table list \<Rightarrow> int \<Rightarrow> bool \<times> rbs_ast_type_param list \<Rightarrow> rbs_parser \<Rightarrow> bool"
where
  "params_state_ok m vs lo st q \<longleftrightarrow>
     declares vs (param_ids (snd st)) (vars q) \<and> params_ok m lo (tok_end (current_token q)) (snd st) \<and>
     (fst st \<longleftrightarrow> list_all (\<lambda>tp. tp_default_type tp = None) (snd st))"

lemma params_state_next:
  assumes "params_state_ok m vs lo st q" and "param_post m (fst st) vs (param_ids (snd st)) lo' (tp, b) r"
    and "within q r" and "lo \<le> lo'" and "current_token r' = current_token r \<or> within r r'" and "vars r' = vars r"
  shows "params_state_ok m vs lo (b, rbs_node_list_append (snd st) tp) r'"
proof -
  have le: "tok_end (current_token q) \<le> tok_end (current_token r')" "tok_end (current_token r) \<le> tok_end (current_token r')"
    using assms(3,5) within_pos(1) [of q r] within_pos(1) [of r r'] by auto
  have "list_all (type_param_ok lo (tok_end (current_token r'))) (snd st)"
    using assms(1) le(1) by (auto simp: params_state_ok_def params_ok_def list_all_iff intro: type_param_ok_mono)
  moreover have "type_param_ok lo (tok_end (current_token r')) tp"
    using assms(2,4) le(2) by (auto simp: param_post_def intro: type_param_ok_mono)
  ultimately show ?thesis
    using assms(1,2,6)
    by (auto simp: params_state_ok_def param_post_def params_ok_def rbs_node_list_append_def param_ids_def
        defaults_last_def sorted_wrt_append list_all_iff plain_param_def)
qed

lemma params_round_ok:
  assumes "within p q" and "ready k p" and "params_state_ok m vs (tok_end (current_token p)) st q"
  shows "run_ok q (\<lambda>r q'. within q q' \<and>
      (case r of Inl st' \<Rightarrow> params_state_ok m vs (tok_end (current_token p)) st' q' \<and> consumed q q'
       | Inr ps \<Rightarrow> \<exists>b. params_state_ok m vs (tok_end (current_token p)) (b, ps) q'))
     (type_params_round m st q)"
proof -
  have start: "tok_end (current_token p) \<le> tok_begin (next_token q)"
    using within_pos(3) [OF assms(1)] window_order(1) [OF ready_ok [OF assms(2)]] by simp
  have ready: "ready k q" using within_ready [OF assms(1,2)] .
  have declares: "declares vs (param_ids (snd st)) (vars q)" using assms(3) by (simp add: params_state_ok_def)
  show ?thesis
    unfolding type_params_round_def
  proof (rule run_ok_bind [OF param_ok [OF ready declares, where required = "fst st" and m = m]], elim conjE, unfold split_beta Let_def)
    fix x r
    assume r: "consumed q r" "param_post m (fst st) vs (param_ids (snd st)) (tok_begin (next_token q)) x r"
    then have "param_post m (fst st) vs (param_ids (snd st)) (tok_begin (next_token q)) (fst x, snd x) r" by simp
    note next_state = params_state_next [OF assms(3) this consumed_within [OF r(1)] start]
    show "run_ok q (\<lambda>r q'. within q q' \<and>
        (case r of Inl st' \<Rightarrow> params_state_ok m vs (tok_end (current_token p)) st' q' \<and> consumed q q'
         | Inr ps \<Rightarrow> \<exists>b. params_state_ok m vs (tok_end (current_token p)) (b, ps) q'))
       (if next_type r = pCOMMA then advancing r (Done (Inl (snd x, rbs_node_list_append (snd st) (fst x))))
        else if next_type r = pRBRACKET then Done (Inr (rbs_node_list_append (snd st) (fst x))) r
        else fail_with r (next_token r) True
          (''expected ',' or ']' after type parameter, got '' @ rbs_token_type_str (next_type r)))"
      by (intro run_ok_if run_ok_advance_on run_ok_return run_ok_fail)
        (use r(1) next_state in \<open>auto intro: progress_intros\<close>)
  qed
qed

definition type_params_post ::
  "bool \<Rightarrow> rbs_parser \<Rightarrow> rbs_range \<times> rbs_ast_type_param list \<Rightarrow> rbs_parser \<Rightarrow> bool"
where
  "type_params_post m p x q \<longleftrightarrow>
     params_ok m (tok_begin (next_token p)) (tok_end (current_token q)) (snd x) \<and>
     null_or_between (tok_begin (next_token p)) (tok_end (current_token q)) (RBS_RANGE_LEX2AST (fst x))"

lemma type_params_post_vars [simp]:
  "type_params_post m (p\<lparr>vars := vs\<rparr>) x q \<longleftrightarrow> type_params_post m p x q"
  "type_params_post m p x (q\<lparr>vars := vs\<rparr>) \<longleftrightarrow> type_params_post m p x q"
  by (simp_all add: type_params_post_def)

lemma params_ok_mono: "params_ok m lo hi ps \<Longrightarrow> lo' \<le> lo \<Longrightarrow> hi \<le> hi' \<Longrightarrow> params_ok m lo' hi' ps"
  by (auto simp: params_ok_def list_all_iff intro: type_param_ok_mono)

lemma params_ok_Nil [simp]: "params_ok m lo hi []"
  by (simp add: params_ok_def defaults_last_def)

lemma type_params_ok:
  assumes "ready k p" and "declares vs [] (vars p)"
  shows "run_ok p (\<lambda>x q. within p q \<and> declares vs (param_ids (snd x)) (vars q) \<and> type_params_post m p x q) (parse_type_params m p)"
proof -
  have loop: "run_ok q (\<lambda>ps q'. within q q' \<and> (\<exists>b. params_state_ok m vs (tok_end (current_token q)) (b, ps) q'))
      (while_true (type_params_round m) (True, rbs_node_list_new) q)"
    if "within p q" "vars q = vars p" for q
  proof (rule run_ok_scope_loop [where p = q and I = "params_state_ok m vs (tok_end (current_token q))"])
    show "within q q" using that(1) within_ok by simp
    show "params_state_ok m vs (tok_end (current_token q)) (True, rbs_node_list_new) q"
      using assms(2) that(2) by (simp add: params_state_ok_def rbs_node_list_new_def param_ids_def)
  qed (use that within_ready [OF that(1) assms(1)] in \<open>auto intro: params_round_ok\<close>)
  have result: "declares vs (param_ids ps) (vars r') \<and> type_params_post m p (\<lparr>r_start = current_start q, r_end = current_end r'\<rparr>, ps) r'"
    if "consumed p q" "within q r" "params_state_ok m vs (tok_end (current_token q)) (b, ps) r" "consumed p r'"
      "tok_end (current_token r) \<le> tok_end (current_token r')" "vars r' = vars r" for q r r' b ps
  proof -
    have "tok_begin (next_token p) \<le> tok_begin (current_token q)" "tok_begin (current_token q) \<le> tok_end (current_token q)"
      "tok_end (current_token q) \<le> tok_end (current_token r)"
      using that(1) token_order [OF consumed_within [OF that(1)]] within_pos(1) [OF that(2)] by (simp_all add: consumed_def)
    with that(3,5,6) show ?thesis
      by (auto simp: type_params_post_def params_state_ok_def null_or_between_def intro: params_ok_mono)
  qed
  show ?thesis
    unfolding parse_type_params_def Let_def
    by (intro run_ok_if run_ok_advance_on run_ok_scope_call [OF loop] run_ok_advance_assert run_ok_return)
      (use assms result in \<open>auto simp: ready_ok type_params_post_def rbs_node_list_new_def param_ids_def intro: progress_intros\<close>)
qed

subsection \<open>Method types\<close>

text \<open>The method type, with the tables of type variables as they were.\<close>

definition method_type_post :: "bool \<Rightarrow> rbs_parser \<Rightarrow> rbs_method_type \<Rightarrow> rbs_parser \<Rightarrow> bool" where
  "method_type_post c p mt q \<longleftrightarrow>
     method_type_ok c (tok_begin (current_token p)) (tok_end (current_token q)) mt \<and>
     tok_begin (next_token p) \<le> start_byte (mt_location mt)"

lemma assert_eof_ok:
  assumes "within p q" and "\<And>q'. within q q' \<Longrightarrow> vars q' = vars q \<Longrightarrow> tok_end (current_token q) \<le> tok_end (current_token q') \<Longrightarrow>
      current_type q' = pEOF \<Longrightarrow> run_ok p Q (k q')"
  shows "run_ok p Q (assert_eof q k)"
  unfolding assert_eof_def
  by (intro run_ok_advance run_ok_if run_ok_fail) (use assms in auto)

lemma method_type_ok:
  assumes "ready k p" and "scope_open (vars p)"
  shows "reads p (method_type_post c) (rbs_parse_method_type eof c p)"
proof -
  have result: "method_type_post c p
      (rbs_method_type_new (location_from (next_start p) (current_end r)) ps fn block (location_from (next_start q) (current_end r))
        \<lparr>mt_type_params_range := RBS_RANGE_LEX2AST rg\<rparr>) r'"
    if "within p q" "type_params_post False p (rg, ps) q" "consumed q r"
      "function_post True c q (fn, block, x) r" "tok_end (current_token r) \<le> tok_end (current_token r')" for q rg ps r fn block x r'
  proof -
    note w = window_order [OF within_ok [OF that(1)]] window_order [OF ready_ok [OF assms(1)]]
    have le: "tok_begin (current_token p) \<le> tok_begin (next_token p)" "tok_begin (current_token p) \<le> tok_begin (current_token q)"
      "tok_begin (next_token p) \<le> tok_begin (next_token q)" "tok_begin (next_token q) \<le> tok_end (current_token r)"
      "tok_end (current_token q) \<le> tok_end (current_token r)"
      using w within_pos [OF that(1)] consumed_order [OF that(3)] within_pos(1) [OF consumed_within [OF that(3)]] by auto
    have "params_ok False (tok_begin (next_token p)) (tok_end (current_token r)) ps"
      "null_or_between (tok_begin (next_token p)) (tok_end (current_token r)) (RBS_RANGE_LEX2AST rg)"
      using that(2) le by (auto simp: type_params_post_def intro: params_ok_mono null_or_between_mono)
    moreover have "trees_ok False True c (tok_begin (current_token p)) (tok_end (current_token r')) (fn # option_nodes block)"
      using that(4) le(2) that(5) by (auto simp: function_post_def intro: tree_ok_mono trees_ok_mono)
    ultimately show ?thesis
      using le that(5) by (simp add: method_type_post_def method_type_ok_def rbs_method_type_new_def params_ok_def)
  qed
  have start: "ready k (p\<lparr>vars := pushed False (vars p)\<rparr>)" "declares (pushed False (vars p)) [] (vars (p\<lparr>vars := pushed False (vars p)\<rparr>))"
    using assms by simp_all
  show ?thesis
    unfolding reads_def rbs_parse_method_type_def Let_def push_value split_beta
    by (intro run_ok_scope_call [OF type_params_ok [OF start, unfolded run_ok_vars progress_vars]]
        run_ok_call_consumed [OF top.function_ok] run_ok_pop_pushed run_ok_if assert_eof_ok run_ok_return)
      (use assms in \<open>auto simp: ready_ok intro: progress_intros result\<close>)
qed

end
