(* ===== verification/MemberSpec.thy ===== *)
theory MemberSpec
  imports MemberParser MethodTypeSpec
begin

text \<open>
  The contracts of the parsers of members. A member starts on its first token, to which its
  caller has advanced from \<open>p\<close>: progress and room are counted from there.
\<close>

definition reads_at :: "rbs_parser \<Rightarrow> rbs_parser \<Rightarrow> ('a \<Rightarrow> rbs_parser \<Rightarrow> bool) \<Rightarrow> 'a outcome \<Rightarrow> bool" where
  "reads_at p0 p V r \<longleftrightarrow> run_ok p0 (\<lambda>v q. consumed p0 q \<and> vars q = vars p \<and> V v q) r"

definition member_post :: "rbs_range \<Rightarrow> bool \<Rightarrow> rbs_parser \<Rightarrow> rbs_member \<Rightarrow> rbs_parser \<Rightarrow> bool" where
  "member_post u i p m q \<longleftrightarrow>
     member_ok (RBS_RANGE_LEX2AST u) i (tok_begin (current_token p)) (tok_end (current_token q)) m"

lemma leaf_member_ok:
  "member_members m = [] \<Longrightarrow> member_ok u i lo hi m \<longleftrightarrow>
     between lo hi (member_location m) \<and> parts_ok u i (start_byte (member_location m)) (end_byte (member_location m)) m"
  by (subst member_ok.simps) simp

lemma member_post_vars [simp]:
  "member_post u i (p\<lparr>vars := vs\<rparr>) m q \<longleftrightarrow> member_post u i p m q"
  "member_post u i p m (q\<lparr>vars := vs\<rparr>) \<longleftrightarrow> member_post u i p m q"
  by (simp_all add: member_post_def)

lemma ahead_ok: "ahead p q \<Longrightarrow> parser_ok q" "ahead p q \<Longrightarrow> within p q"
  by (auto simp: ahead_def consumed_def within_ok)

subsection \<open>Annotations\<close>

definition annotations_ok :: "int \<Rightarrow> int \<Rightarrow> rbs_ast_annotation list \<Rightarrow> bool" where
  "annotations_ok lo hi as \<longleftrightarrow> list_all (\<lambda>an. between lo hi (annot_location an)) as"

lemma annotations_ok_simps [simp]:
  "annotations_ok lo hi []"
  "annotations_ok lo hi (as @ bs) \<longleftrightarrow> annotations_ok lo hi as \<and> annotations_ok lo hi bs"
  "annotations_ok lo hi [a] \<longleftrightarrow> between lo hi (annot_location a)"
  by (auto simp: annotations_ok_def)

lemma annotations_ok_mono: "annotations_ok lo hi as \<Longrightarrow> lo' \<le> lo \<Longrightarrow> hi \<le> hi' \<Longrightarrow> annotations_ok lo' hi' as"
  by (auto simp: annotations_ok_def list_all_iff intro: between_mono)

lemma annotation_ok:
  assumes "parser_ok p"
  shows "may_read p (\<lambda>p a q. q = p \<and> annot_location a = RBS_RANGE_LEX2AST (tok_range (current_token p))) (parse_annotation p)"
  using assms
  by (auto simp: may_read_def parse_annotation_def Let_def rbs_ast_annotation_new_def
      intro!: run_ok_return run_ok_fail split: option.splits)

definition annotations_post :: "rbs_parser \<Rightarrow> rbs_ast_annotation list \<times> rbs_position \<Rightarrow> rbs_parser \<Rightarrow> bool" where
  "annotations_post p x q \<longleftrightarrow> annotations_ok (tok_end (current_token p)) (tok_end (current_token q)) (fst x)"

lemma annotations_round_ok:
  assumes "within p q" and "annotations_post p st q"
  shows "run_ok q (round_post (annotations_post p) (annotations_post p) q) (annotations_round st q)"
proof -
  have step: "annotations_post p (rbs_node_list_append (fst st) a, pos) r"
    if "consumed q r" "annot_location a = RBS_RANGE_LEX2AST (tok_range (current_token r))" for a pos r
  proof -
    have "tok_end (current_token p) \<le> tok_begin (current_token r)" "tok_begin (current_token r) \<le> tok_end (current_token r)"
      "tok_end (current_token q) \<le> tok_end (current_token r)"
      using that(1) within_pos(1) [OF assms(1)] window_order(1) [OF within_ok [OF assms(1)]]
        token_order [OF consumed_within [OF that(1)]] within_pos(1) [OF consumed_within [OF that(1)]]
      by (auto simp: consumed_def)
    with assms(2) that(2) show ?thesis
      by (auto simp: annotations_post_def rbs_node_list_append_def intro: annotations_ok_mono)
  qed
  show ?thesis
    unfolding annotations_round_def Let_def
    by (intro run_ok_if run_ok_advance_on run_ok_may_call [OF annotation_ok] run_ok_return)
      (use assms step in \<open>auto simp: within_ok intro: progress_intros\<close>)
qed

lemma annotations_parsed:
  assumes "parser_ok p"
  shows "may_read p annotations_post (parse_annotations rbs_node_list_new p)"
  unfolding parse_annotations_def
proof (rule while_may_read [OF assms, where I = "annotations_post p"])
  show "annotations_post p (rbs_node_list_new, NullPosition) p"
    by (simp add: annotations_post_def rbs_node_list_new_def)
qed (rule annotations_round_ok)

subsection \<open>Method names\<close>

definition method_name_post :: "rbs_range \<Rightarrow> rbs_parser \<Rightarrow> rbs_range \<times> rbs_ast_symbol \<Rightarrow> rbs_parser \<Rightarrow> bool" where
  "method_name_post u p x q \<longleftrightarrow>
     (fst x = u \<or> between (tok_begin (next_token p)) (tok_end (current_token q)) (RBS_RANGE_LEX2AST (fst x))) \<and>
     between (tok_begin (next_token p)) (tok_end (current_token q)) (sym_location (snd x))"

lemma method_name_token_ok:
  assumes "ahead p q" "vars q = vars p" "ready m p"
  shows "run_ok p (\<lambda>x r. consumed p r \<and> vars r = vars p \<and> method_name_post u p x r) (method_name_token q)"
  unfolding method_name_token_def Let_def INTERN_TOKEN_def
  by (intro run_ok_interning [OF assms(1,3)] run_ok_return)
    (use assms token_order [OF ahead_ok(2) [OF assms(1)]] in
      \<open>simp_all add: method_name_post_def rbs_ast_symbol_new_def ahead_def consumed_def\<close>)

lemma method_name_question_ok:
  assumes "ahead p q" "vars q = vars p" "ready m p" "next_type q = pQUESTION"
  shows "run_ok p (\<lambda>x r. consumed p r \<and> vars r = vars p \<and> method_name_post u p x r) (method_name_question q)"
  unfolding method_name_question_def Let_def
  by (intro run_ok_advance_on run_ok_interning [OF _ assms(3)] run_ok_return)
    (use assms token_order [OF ahead_ok(2) [OF assms(1)]] ahead_ok(2) [OF assms(1)] in
      \<open>simp_all add: method_name_post_def rbs_ast_symbol_new_def ahead_def consumed_def\<close>)

lemma method_name_ok:
  assumes "ready m p"
  shows "reads p (method_name_post u) (parse_method_name u p)"
  unfolding reads_def parse_method_name_def
proof (rule run_ok_advance [OF within_refl [OF ready_ok [OF assms]]])
  fix q assume q: "within p q" "vars q = vars p" "current_type q \<noteq> pEOF \<Longrightarrow> ahead p q \<and> ahead p q"
  let ?r = "if current_type q \<in> set ([tUIDENT, tLIDENT, tULIDENT, tULLIDENT, tNONASCIIIDENT] @ KEYWORD_CASES) then
      if next_type q = pQUESTION \<and> adjacent (current_token q) (next_token q) then method_name_question q else method_name_token q
    else if current_type q \<in> {tBANGIDENT, tEQIDENT} then method_name_token q
    else if current_type q = tQIDENT then
      rbs_constant_pool_insert_string q (rbs_unquote_string (rbs_parser_peek_current_token q) (lx_encoding (lexer q)))
        (\<lambda>constant_id q. Done (u, rbs_ast_symbol_new (rbs_location_range_current_token q) constant_id) q)
    else if current_type q \<in> {pBAR, pHAT, pAMP, pSTAR, pSTAR2, pLT, pGT, pAREF_OPR, tOPERATOR} then method_name_token q
    else fail_with q (current_token q) True ''unexpected token for method name''"
  show "run_ok p (\<lambda>v q. consumed p q \<and> vars q = vars p \<and> method_name_post u p v q) ?r"
  proof (cases "current_type q = pEOF")
    case True
    with q(1) show ?thesis by (simp add: KEYWORD_CASES_def run_ok_fail)
  next
    case False
    with q(3) have a: "ahead p q" by simp
    show ?thesis
      unfolding rbs_constant_pool_insert_string_def
      by (intro run_ok_if run_ok_fail [OF q(1)] method_name_token_ok [OF a q(2) assms] method_name_question_ok [OF a q(2) assms]
          run_ok_interning [OF a assms] run_ok_return)
        (use a q(2) in \<open>simp_all add: method_name_post_def rbs_ast_symbol_new_def rbs_location_range_current_token_def consumed_def token_order [OF q(1)]\<close>)
  qed
qed

definition kind_post :: "rbs_parser \<Rightarrow> InstanceSingletonKind \<times> rbs_range \<Rightarrow> rbs_parser \<Rightarrow> bool" where
  "kind_post p x q \<longleftrightarrow>
     snd x = NULL_RANGE \<or>
     byte_pos (r_start (snd x)) = tok_begin (next_token p) \<and> byte_pos (r_end (snd x)) = tok_end (current_token q)"

lemma kind_ok:
  assumes "parser_ok p"
  shows "may_read p kind_post (parse_instance_singleton_kind selfq p)"
  unfolding may_read_def parse_instance_singleton_kind_def Let_def
  by (intro run_ok_if run_ok_advance run_ok_return) (use assms in \<open>auto simp: kind_post_def\<close>)

subsection \<open>Method definitions\<close>

lemma insert_constant_ok:
  assumes "pool_inv pool" and "unat (pool_size pool) + 1 < 2 ^ 30"
  shows "\<exists>i pool'. rbs_constant_pool_insert_constant (\<lambda>_. True) pool c = Inr (i, pool') \<and> pool_inv pool' \<and>
    take (length (pool_contents pool)) (pool_contents pool') = pool_contents pool"
  using insert_value [OF assms(1), of RBS_CONSTANT_POOL_BUCKET_CONSTANT "\<lambda>_. True" c] assms(2)
  by (auto simp: rbs_constant_pool_insert_constant_def RBS_CONSTANT_POOL_BUCKET_CONSTANT_def)

text \<open>\<open>self?\<close> is only interned where an error follows.\<close>

lemma run_ok_def_colon:
  assumes "within p q" and "ready m p"
    and "\<And>q'. ahead p q' \<Longrightarrow> consumed p q' \<Longrightarrow> within p q' \<Longrightarrow> within q q' \<Longrightarrow> vars q' = vars q \<Longrightarrow>
      tok_end (current_token q) \<le> tok_end (current_token q') \<Longrightarrow> ahead q q' \<Longrightarrow> next_token q = current_token q' \<Longrightarrow> run_ok p Q (k q')"
  shows "run_ok p Q (member_def_colon name q k)"
proof (cases "next_type q = pDOT")
  case False
  then show ?thesis
    unfolding member_def_colon_def
    by (simp, intro run_ok_advance_assert) (use assms in auto)
next
  case True
  let ?c = "\<lparr>c_start = 0, c_bytes = [115, 101, 108, 102, 63]\<rparr>"
  have q: "parser_ok q" "spent q + 1 < 1073741824" using assms(1,2) within_ok by (auto simp: within_def ready_def roomy_def)
  then have "pool_inv (constant_pool q)" "unat (pool_size (constant_pool q)) + 1 < 2 ^ 30" by (simp_all add: parser_ok_def spent_def)
  from insert_constant_ok [OF this, of ?c] obtain i pool where
    r: "rbs_constant_pool_insert_constant (\<lambda>_. True) (constant_pool q) ?c = Inr (i, pool)" "pool_inv pool"
      "take (length (pool_contents (constant_pool q))) (pool_contents pool) = pool_contents (constant_pool q)" by blast
  let ?q = "q\<lparr>constant_pool := pool\<rparr>"
  have ok: "parser_ok ?q" using parser_ok_cong [of ?q q] q(1) r(2) by simp
  then have step: "parser_step q ?q" using r(3) by (simp add: parser_step_def bytes_left_def)
  have ne: "next_type ?q \<noteq> pCOLON" using True by simp
  have "run_ok ?q Q (advance_assert ?q pCOLON k)"
  proof -
    obtain q' where q': "rbs_parser_advance ?q = Some q'" "parser_step ?q q'" "current_token q' = next_token ?q"
      using advance_ok [OF ok] by metis
    have "run_ok ?q Q (fail_with q' t b msg)" for t b msg
      using run_ok_step [OF q'(2) run_ok_fail [OF within_refl [OF step_ok [OF q'(2)]]]] .
    with q' ne show ?thesis by (simp add: advance_assert_def advancing_def assert_token_def)
  qed
  moreover have "run_ok ?q Q (fail_with ?q t b msg)" for t b msg using run_ok_fail [OF within_refl [OF ok]] .
  ultimately have "run_ok ?q Q (if sym_constant_id name = i then fail_with ?q t b msg else advance_assert ?q pCOLON k)" for t b msg
    by simp
  from run_ok_within [OF assms(1) run_ok_step [OF step this]] show ?thesis
    using True r(1) by (simp add: member_def_colon_def SELF_ID_def)
qed

definition visibility_post :: "rbs_parser \<Rightarrow> rbs_range \<times> rbs_method_definition_visibility \<Rightarrow> rbs_parser \<Rightarrow> bool" where
  "visibility_post p x q \<longleftrightarrow> fst x = NULL_RANGE \<or> fst x = tok_range (current_token p)"

lemma def_visibility_ok:
  assumes "parser_ok p"
  shows "may_read p visibility_post (def_visibility p)"
  unfolding may_read_def def_visibility_def visibility_post_def
  by (intro run_ok_if run_ok_advance run_ok_return) (use assms in auto)

definition method_kind_post :: "bool \<Rightarrow> rbs_parser \<Rightarrow> InstanceSingletonKind \<times> rbs_range \<Rightarrow> rbs_parser \<Rightarrow> bool" where
  "method_kind_post io p x q \<longleftrightarrow> kind_post p x q \<and> (io \<longrightarrow> fst x = INSTANCE_KIND)"

definition overloads_ok :: "bool \<Rightarrow> int \<Rightarrow> int \<Rightarrow> rbs_ast_members_method_definition_overload list \<Rightarrow> bool" where
  "overloads_ok c lo hi os \<longleftrightarrow> list_all (overload_ok c lo hi) os"

lemma overloads_ok_simps [simp]:
  "overloads_ok c lo hi []"
  "overloads_ok c lo hi (os @ [x]) \<longleftrightarrow> overloads_ok c lo hi os \<and> overload_ok c lo hi x"
  by (simp_all add: overloads_ok_def)

lemma overloads_ok_mono: "overloads_ok c lo hi os \<Longrightarrow> lo' \<le> lo \<Longrightarrow> hi \<le> hi' \<Longrightarrow> overloads_ok c lo' hi' os"
  by (auto simp: overloads_ok_def list_all_iff intro: overload_ok_mono)

text \<open>The end of the member in the result of the loop bounds the overloads and the range of \<open>...\<close>.\<close>

definition overloads_post ::
  "bool \<Rightarrow> rbs_parser \<Rightarrow> rbs_ast_members_method_definition_overload list \<times> bool \<times> rbs_range \<times> rbs_position \<Rightarrow> rbs_parser \<Rightarrow> bool"
where
  "overloads_post c p x q \<longleftrightarrow>
     (let till = byte_pos (snd (snd (snd x))) in
      overloads_ok c (tok_begin (current_token p)) till (fst x) \<and>
      tok_begin (current_token p) \<le> till \<and> tok_end (current_token p) \<le> till \<and> till \<le> tok_end (current_token q) \<and>
      null_or_between (tok_begin (current_token p)) till (RBS_RANGE_LEX2AST (fst (snd (snd x)))))"

lemma overloads_post_vars [simp]:
  "overloads_post c (p\<lparr>vars := vs\<rparr>) x q \<longleftrightarrow> overloads_post c p x q"
  "overloads_post c p x (q\<lparr>vars := vs\<rparr>) \<longleftrightarrow> overloads_post c p x q"
  by (simp_all add: overloads_post_def)

lemma overload_next:
  assumes "within p q" and "overloads_ok c (tok_begin (current_token p)) (tok_end (current_token q)) os"
    and "within q q1" "annotations_post q x q1" and "within q1 r" "method_type_post c q1 mt r"
  shows "overloads_ok c (tok_begin (current_token p)) (tok_end (current_token r)) (rbs_node_list_append os
     (rbs_ast_members_method_definition_overload_new (location_from (current_start q) (current_end r)) (fst x) mt))"
proof -
  have le: "tok_begin (current_token p) \<le> tok_begin (current_token q)" "tok_begin (current_token q) \<le> tok_end (current_token q)"
    "tok_begin (current_token q) \<le> tok_begin (current_token q1)"
    "tok_end (current_token q) \<le> tok_end (current_token q1)" "tok_end (current_token q1) \<le> tok_end (current_token r)"
    using within_pos [OF assms(1)] within_pos [OF assms(3)] within_pos [OF assms(5)] token_order [OF assms(1)] by auto
  have "method_type_ok c (tok_begin (current_token q)) (tok_end (current_token r)) mt"
    using assms(6) le by (auto simp: method_type_post_def intro: method_type_ok_mono)
  moreover have "annotations_ok (tok_begin (current_token q)) (tok_end (current_token r)) (fst x)"
    using assms(4) le by (auto simp: annotations_post_def intro: annotations_ok_mono)
  ultimately have "overload_ok c (tok_begin (current_token p)) (tok_end (current_token r))
      (rbs_ast_members_method_definition_overload_new (location_from (current_start q) (current_end r)) (fst x) mt)"
    using le by (simp add: overload_ok_def rbs_ast_members_method_definition_overload_new_def annotations_ok_def)
  moreover have "overloads_ok c (tok_begin (current_token p)) (tok_end (current_token r)) os"
    using assms(2) le by (auto intro: overloads_ok_mono)
  ultimately show ?thesis by (simp add: rbs_node_list_append_def)
qed

lemma overload_round_ok:
  assumes "within p q" and "ready m p" and "overloads_ok (\<not> io) (tok_begin (current_token p)) (tok_end (current_token q)) os"
    and "scope_open (vars q)"
  shows "run_ok q (round_post
      (\<lambda>os q. overloads_ok (\<not> io) (tok_begin (current_token p)) (tok_end (current_token q)) os \<and> scope_open (vars q))
      (overloads_post (\<not> io) p) q) (overload_round io ao os q)"
proof -
  have annotations: "may_read q annotations_post
      (if next_type q = tANNOTATION then parse_annotations rbs_node_list_new q else Done (rbs_node_list_new, NullPosition) q)"
    using annotations_parsed [OF within_ok [OF assms(1)]] within_ok [OF assms(1)]
    by (auto simp: may_read_def annotations_post_def rbs_node_list_new_def intro: run_ok_return)
  have more: "overloads_ok (\<not> io) (tok_begin (current_token p)) (tok_end (current_token r')) (rbs_node_list_append os
      (rbs_ast_members_method_definition_overload_new (location_from (current_start q) (current_end r)) (fst x) mt))"
    if "within q q1" "annotations_post q x q1" "within q1 r" "method_type_post (\<not> io) q1 mt r" "within r r'" for q1 x r mt r'
    using overload_next [OF assms(1,3) that(1-4)] within_pos(1) [OF that(5)] by (auto intro: overloads_ok_mono)
  have single: "overloads_post (\<not> io) p (rbs_node_list_append os
      (rbs_ast_members_method_definition_overload_new (location_from (current_start q) (current_end r)) (fst x) mt),
      False, NULL_RANGE, current_end r) r"
    if r: "within q q1" "annotations_post q x q1" "within q1 r" "method_type_post (\<not> io) q1 mt r" for q1 x r mt
  proof -
    have "within p r" using r(1,3) assms(1) within_trans by blast
    then show ?thesis
      using overload_next [OF assms(1,3) r] current_to_end [OF \<open>within p r\<close>] within_pos(1) [OF \<open>within p r\<close>]
      by (simp add: overloads_post_def Let_def)
  qed
  have dots: "overloads_post (\<not> io) p (os, True, tok_range (current_token r), current_end r) r'"
    if r: "within q q1" "consumed q r" "tok_end (current_token r) \<le> tok_end (current_token r')" for q1 r r'
  proof -
    have "within p r" using consumed_within [OF r(2)] assms(1) within_trans by blast
    then show ?thesis
      using assms(3) within_pos [OF \<open>within p r\<close>] within_pos(1) [OF consumed_within [OF r(2)]] token_order [OF \<open>within p r\<close>] r(3)
      by (auto simp: overloads_post_def Let_def null_or_between_def intro: overloads_ok_mono)
  qed
  show ?thesis
    unfolding overload_round_def Let_def split_beta
    by (intro run_ok_may_call [OF annotations] run_ok_if run_ok_call [OF method_type_ok] run_ok_advance_on run_ok_return run_ok_fail)
      (use assms in \<open>auto simp: within_ok intro: progress_intros more single dots\<close>)
qed

lemma overloads_parsed:
  assumes "ready m p" and "scope_open (vars p)"
  shows "may_read p (\<lambda>_. overloads_post (\<not> io) p) (while_true (overload_round io ao) rbs_node_list_new p)"
  by (rule while_rule [OF within_refl [OF ready_ok [OF assms(1)]] _ overload_round_ok])
    (use assms in \<open>auto simp: rbs_node_list_new_def\<close>)

lemma def_node_ok:
  assumes "lo \<le> byte_pos first" "byte_pos first \<le> byte_pos till" "byte_pos till \<le> hi"
    and "between (byte_pos first) (byte_pos till) (RBS_RANGE_LEX2AST keyword_range)"
    and "null_or_between (byte_pos first) (byte_pos till) (RBS_RANGE_LEX2AST visibility_range)"
    and "null_or_between (byte_pos first) (byte_pos till) (RBS_RANGE_LEX2AST overloading_range)"
    and "name_range = u \<or> between (byte_pos first) (byte_pos till) (RBS_RANGE_LEX2AST name_range)"
    and "kind_range = NULL_RANGE \<or> ends_between (byte_pos first) (byte_pos till) (RBS_RANGE_LEX2AST kind_range)"
    and "between (byte_pos first) (byte_pos till) (sym_location name)"
    and "overloads_ok (\<not> i) (byte_pos first) (byte_pos till) overloads" and "i \<longrightarrow> kind = INSTANCE_KIND"
  shows "member_ok (RBS_RANGE_LEX2AST u) i lo hi
    (set_member_visibility_range (RBS_RANGE_LEX2AST visibility_range)
      (set_member_overloading_range (RBS_RANGE_LEX2AST overloading_range)
      (set_member_kind_range (RBS_RANGE_LEX2AST kind_range)
        (rbs_ast_members_method_definition_new (location_from first till) name (definition_kind kind) overloads
          annotations comment overloading visibility (RBS_RANGE_LEX2AST keyword_range) (RBS_RANGE_LEX2AST name_range)))))"
  using assms
  by (auto simp: leaf_member_ok member_parts parts_ok_def rbs_ast_members_method_definition_new_def
      set_member_visibility_range_def set_member_overloading_range_def set_member_kind_range_def overloads_ok_def
      null_range_location definition_kind_def simp del: location_from_bytes(6))

lemma member_def_ok:
  assumes "ready m p0" and "within p0 p" and "scope_open (vars p)"
  shows "reads_at p0 p (member_post u io p) (parse_member_def u io ao comment_pos annotations p)"
proof -
  have kind: "may_read q (method_kind_post io)
      (if io then Done (INSTANCE_KIND, NULL_RANGE) q else parse_instance_singleton_kind selfq q)" if "parser_ok q" for q selfq
    using kind_ok [OF that, of selfq] that by (auto simp: may_read_def kind_post_def method_kind_post_def intro: run_ok_return)
  have result: "member_post u io p
    (set_member_visibility_range (RBS_RANGE_LEX2AST vr)
      (set_member_overloading_range (RBS_RANGE_LEX2AST orr)
      (set_member_kind_range (RBS_RANGE_LEX2AST kr)
        (rbs_ast_members_method_definition_new (location_from (current_start p) till) nm
          (definition_kind k) os annotations comment ov v
          (RBS_RANGE_LEX2AST (tok_range (current_token p1))) (RBS_RANGE_LEX2AST nr))))) q"
    if mk: "method_kind_post io p1 (k, kr) p2" and n: "method_name_post u p2 (nr, nm) p3"
      and os: "overloads_post (\<not> io) p4 (os, ov, orr, till) q"
      and w: "within p p1" "within p1 p2" "consumed p2 p3" "within p3 p4"
      and v: "visibility_post p (vr, v) p1"
    for p1 p2 p3 p4 vr v k kr nr nm os ov orr till q comment
  proof -
    have k: "kind_post p1 (k, kr) p2" and i: "io \<longrightarrow> k = INSTANCE_KIND" using mk by (simp_all add: method_kind_post_def)
    let ?a = "tok_begin (current_token p)" and ?b = "byte_pos till"
    have le: "?a \<le> tok_end (current_token p)" "?a \<le> tok_begin (current_token p1)" "tok_begin (current_token p1) \<le> tok_end (current_token p1)"
      "tok_end (current_token p) \<le> tok_end (current_token p1)" "tok_end (current_token p1) \<le> tok_end (current_token p2)"
      "tok_end (current_token p1) \<le> tok_begin (next_token p1)" "tok_begin (next_token p1) \<le> tok_begin (next_token p2)"
      "tok_end (current_token p2) \<le> tok_end (current_token p3)" "tok_begin (next_token p2) \<le> tok_end (current_token p3)"
      "tok_end (current_token p3) \<le> tok_end (current_token p4)" "?a \<le> tok_begin (current_token p4)"
      using token_order [OF assms(2)] within_pos [OF w(1)] within_pos [OF w(2)] token_order [OF w(1)]
        window_order(1) [OF within_ok [OF w(1)]] consumed_order [OF w(3)] within_pos [OF consumed_within [OF w(3)]]
        within_pos [OF w(4)] by auto
    have till: "tok_end (current_token p4) \<le> ?b" "?b \<le> tok_end (current_token q)"
      "overloads_ok (\<not> io) ?a ?b os" "null_or_between ?a ?b (RBS_RANGE_LEX2AST orr)"
      using os le(11) by (auto simp: overloads_post_def Let_def intro: overloads_ok_mono null_or_between_mono)
    have name: "nr = u \<or> between ?a ?b (RBS_RANGE_LEX2AST nr)" "between ?a ?b (sym_location nm)"
      using n le till(1) by (auto simp: method_name_post_def between_def)
    have visibility: "null_or_between ?a ?b (RBS_RANGE_LEX2AST vr)"
      using v le till(1) by (auto simp: visibility_post_def null_or_between_def null_range_location)
    have kind: "kr = NULL_RANGE \<or> ends_between ?a ?b (RBS_RANGE_LEX2AST kr)"
      using k le till(1) by (auto simp: kind_post_def ends_between_def)
    show ?thesis
      unfolding member_post_def
      by (rule def_node_ok [OF _ _ till(2) _ visibility till(4) name(1) kind name(2) till(3) i]) (use le till(1) in simp_all)
  qed
  show ?thesis
    unfolding reads_at_def parse_member_def_def Let_def split_beta push_value
    by (intro run_ok_comment run_ok_may_call [OF def_visibility_ok] run_ok_may_call [OF kind] run_ok_call_consumed [OF method_name_ok]
        run_ok_def_colon run_ok_may_call [OF overloads_parsed] run_ok_pop_same run_ok_return)
      (use assms in \<open>auto simp: within_ok intro: progress_intros result\<close>)
qed

subsection \<open>Type names\<close>

definition type_name_post :: "TypeNameKind set \<Rightarrow> rbs_parser \<Rightarrow> rbs_range \<times> rbs_type_name \<Rightarrow> rbs_parser \<Rightarrow> bool" where
  "type_name_post kind p x q \<longleftrightarrow>
     (let a = tok_begin (next_token p); b = tok_end (current_token q) in
      between a b (RBS_RANGE_LEX2AST (fst x)) \<and> name_ok a b (snd x)) \<and>
     r_start (fst x) = next_start p \<and> r_end (fst x) = current_end q \<and> name_token kind (current_type q)"

lemma type_name_post_vars [simp]:
  "type_name_post kind (p\<lparr>vars := vs\<rparr>) x q \<longleftrightarrow> type_name_post kind p x q"
  "type_name_post kind p x (q\<lparr>vars := vs\<rparr>) \<longleftrightarrow> type_name_post kind p x q"
  by (simp_all add: type_name_post_def)

lemma type_name_at_eof:
  "current_type q = pEOF \<Longrightarrow> parse_type_name kind q = fail_with q (current_token q) True (type_name_error kind)"
  by (simp add: parse_type_name_def type_name_rest_def type_name_end_def type_name_path_round_def while_true_def check_parse_def)

lemma run_ok_advance_name:
  assumes "within p q" and "ready m p"
    and k: "\<And>q1 x r. consumed p r \<Longrightarrow> consumed q r \<Longrightarrow> within p r \<Longrightarrow> within q r \<Longrightarrow> vars r = vars q \<Longrightarrow>
      next_token q = current_token q1 \<Longrightarrow> tok_end (current_token q) \<le> tok_end (current_token r) \<Longrightarrow>
      type_name_post kind q x r \<Longrightarrow> run_ok p Q (k q1 x r)"
  shows "run_ok p Q (advancing q (\<lambda>q1. check_parse (parse_type_name kind q1) (k q1)))"
proof (rule run_ok_advance [OF assms(1)])
  fix q1 assume q1: "within p q1" "within q q1" "vars q1 = vars q" "next_token q = current_token q1"
    "current_type q1 \<noteq> pEOF \<Longrightarrow> ahead p q1 \<and> ahead q q1"
  show "run_ok p Q (check_parse (parse_type_name kind q1) (k q1))"
  proof (cases "current_type q1 = pEOF")
    case True
    show ?thesis
      using run_ok_fail [OF q1(1)] unfolding type_name_at_eof [OF True] by (simp add: check_parse_def fail_with_def run_ok.simps)
  next
    case False
    with q1(5) have a: "ahead q q1" by simp
    have "reads q (type_name_post kind) (parse_type_name kind q1)"
      unfolding reads_def
    proof (rule run_ok_advance_to [OF a type_name_ok [OF within_ready [OF q1(1) assms(2)]]])
      fix x r assume r: "consumed q r" "parser_step q1 r" "vars r = vars q1" "name_post kind q1 x r"
      have "tok_begin (current_token q1) \<le> tok_end (current_token r)"
        using r(2) token_order [OF consumed_within [OF r(1)]] by (simp add: parser_step_def)
      then show "consumed q r \<and> vars r = vars q \<and> type_name_post kind q x r"
        using r q1(3,4) by (auto simp: type_name_post_def name_post_def between_def)
    qed
    then show ?thesis
      by (rule run_ok_call_consumed [OF _ assms(1)]) (use q1(4) k in blast)
  qed
qed

subsection \<open>Mixins\<close>

definition instance_name_post ::
  "TypeNameKind set \<Rightarrow> bool \<Rightarrow> rbs_parser \<Rightarrow> rbs_range \<times> rbs_type_name \<times> rbs_node list \<times> rbs_range \<Rightarrow> rbs_parser \<Rightarrow> bool"
where
  "instance_name_post kind c p x q \<longleftrightarrow>
     (case x of (nr, nm, args, ar) \<Rightarrow>
      let a = tok_begin (next_token p); b = tok_end (current_token q) in
      between a b (RBS_RANGE_LEX2AST nr) \<and> name_ok a b nm \<and> trees_ok True False c a b args \<and>
      null_or_between a b (RBS_RANGE_LEX2AST ar))"

lemma instance_name_post_vars [simp]:
  "instance_name_post kind c (p\<lparr>vars := vs\<rparr>) x q \<longleftrightarrow> instance_name_post kind c p x q"
  "instance_name_post kind c p x (q\<lparr>vars := vs\<rparr>) \<longleftrightarrow> instance_name_post kind c p x q"
  by (simp_all add: instance_name_post_def)

lemma class_instance_name_ok:
  assumes "ready m p"
  shows "reads p (instance_name_post kind c) (class_instance_name kind rbs_node_list_new c p)"
proof -
  have plain: "instance_name_post kind c p (rg, nm, rbs_node_list_new, NULL_RANGE) q"
    if "type_name_post kind p (rg, nm) q" for rg nm q
    using that by (simp add: instance_name_post_def type_name_post_def Let_def rbs_node_list_new_def)
  have args: "instance_name_post kind c p (rg, nm, ns, \<lparr>r_start = current_start q2, r_end = current_end q4\<rparr>) q4"
    if "type_name_post kind p (rg, nm) q" "types_post True False c q2 ns q3" "within q q2" "consumed p q2" "within q2 q3"
      "tok_end (current_token q3) \<le> tok_end (current_token q4)" for rg nm q q2 ns q3 q4
  proof -
    have "tok_begin (next_token p) \<le> tok_begin (current_token q2)" "tok_begin (current_token q2) \<le> tok_end (current_token q4)"
      "tok_end (current_token q) \<le> tok_end (current_token q4)"
      using that(4,6) current_to_end [OF that(5)] within_pos(1) [OF that(3)] within_pos(1) [OF that(5)] by (simp_all add: consumed_def)
    moreover have "trees_ok True False c (tok_begin (current_token q2)) (tok_end (current_token q3)) ns"
      using types_post_on [OF that(2) within_ok [OF that(3)]] .
    ultimately show ?thesis
      using that(1,6)
      by (auto simp: instance_name_post_def type_name_post_def Let_def null_or_between_def intro: name_ok_mono trees_ok_mono between_mono)
  qed
  show ?thesis
    unfolding reads_def class_instance_name_def Let_def split_beta
    by (intro run_ok_advance_name [OF _ assms] run_ok_if run_ok_advance_on run_ok_call [OF top.type_list_ok]
        run_ok_advance_assert run_ok_return)
      (use assms in \<open>auto simp: ready_ok intro: progress_intros plain args\<close>)
qed

lemma mixin_node_ok:
  assumes "instance_name_post kind (\<not> i) p (nr, nm, args, ar) q"
    and "lo \<le> byte_pos first" "byte_pos first \<le> tok_begin (next_token p)"
    and "between (byte_pos first) (tok_end (current_token q)) (RBS_RANGE_LEX2AST keyword_range)"
    and "tok_end (current_token q) \<le> hi" and "i \<longrightarrow> type = kINCLUDE"
  shows "member_ok u i lo hi
    (mixin_node type (location_from first (current_end q)) nm args annotations comment (RBS_RANGE_LEX2AST nr)
      (RBS_RANGE_LEX2AST keyword_range) (RBS_RANGE_LEX2AST ar))"
proof -
  let ?a = "byte_pos first" and ?b = "tok_end (current_token q)"
  have "between ?a ?b (RBS_RANGE_LEX2AST nr)" "name_ok ?a ?b nm" "trees_ok True False (\<not> i) ?a ?b args"
    "null_or_between ?a ?b (RBS_RANGE_LEX2AST ar)"
    using assms(1,3) by (auto simp: instance_name_post_def Let_def between_def intro: name_ok_mono trees_ok_mono null_or_between_mono)
  then show ?thesis
    using assms(2-6)
    by (auto simp: leaf_member_ok member_parts parts_ok_def mixin_node_def set_member_args_range_def rbs_ast_members_include_new_def
        rbs_ast_members_extend_new_def rbs_ast_members_prepend_new_def list_all_iff trees_ok_def between_def)
qed

lemma mixin_ok:
  assumes "ready m p0" and "within p0 p" and "scope_open (vars p)"
  shows "reads_at p0 p (member_post u i p) (parse_mixin_member i comment_pos annotations p)"
proof -
  have result: "member_post u i p (mixin_node type (location_from (current_start p) (current_end q)) nm args annotations comment
      (RBS_RANGE_LEX2AST nr) (RBS_RANGE_LEX2AST (tok_range (current_token p))) (RBS_RANGE_LEX2AST ar)) q"
    if "instance_name_post kind c p (nr, nm, args, ar) q" "consumed p q" "i \<longrightarrow> type = kINCLUDE" "c = (\<not> i)"
    for kind c nr nm args ar q type comment
    unfolding member_post_def
    by (rule mixin_node_ok [where kind = kind and p = p])
      (use that window_order(1,8) [OF within_ok [OF assms(2)]] within_pos(1) [OF consumed_within [OF that(2)]] in \<open>auto simp: between_def\<close>)
  show ?thesis
    unfolding reads_at_def parse_mixin_member_def Let_def split_beta push_value
    by (intro run_ok_comment run_ok_call_consumed [OF class_instance_name_ok] run_ok_if run_ok_pop_same run_ok_return run_ok_fail)
      (use assms in \<open>auto simp: within_ok intro: progress_intros result\<close>)
qed

subsection \<open>Aliases\<close>

definition alias_name_post :: "rbs_range \<Rightarrow> rbs_parser \<Rightarrow> rbs_range \<times> rbs_range \<times> rbs_ast_symbol \<Rightarrow> rbs_parser \<Rightarrow> bool" where
  "alias_name_post u p x q \<longleftrightarrow>
     (case x of (kr, nr, nm) \<Rightarrow>
      let a = tok_begin (next_token p); b = tok_end (current_token q) in
      null_or_between a b (RBS_RANGE_LEX2AST kr) \<and> (nr = u \<or> between a b (RBS_RANGE_LEX2AST nr)) \<and> between a b (sym_location nm))"

lemma alias_instance_ok: "ready m p \<Longrightarrow> reads p (alias_name_post u) (alias_instance_name u p)"
  unfolding reads_def alias_instance_name_def split_beta
  by (intro run_ok_call [OF method_name_ok] run_ok_return)
    (auto simp: ready_ok alias_name_post_def method_name_post_def intro: progress_intros)

lemma alias_singleton_ok:
  assumes "ready m p"
  shows "reads p (alias_name_post u) (alias_singleton_name u p)"
proof -
  have result: "alias_name_post u p (\<lparr>r_start = current_start p1, r_end = current_end p2\<rparr>, nr, nm) q"
    if "method_name_post u p2 (nr, nm) q" "ahead p p1" "ahead p1 p2" "within p2 q" for p1 p2 nr nm q
  proof -
    have "within p p2" using that(2,3) by (meson ahead_consumed consumed_within within_trans)
    have le: "tok_begin (next_token p) \<le> tok_begin (current_token p1)" "tok_begin (current_token p1) \<le> tok_begin (current_token p2)"
      "tok_begin (current_token p2) \<le> tok_end (current_token p2)" "tok_end (current_token p2) \<le> tok_begin (next_token p2)"
      "tok_end (current_token p2) \<le> tok_end (current_token q)"
      using that(2) within_pos(2) [OF consumed_within [OF ahead_consumed [OF that(3)]]] token_order [OF \<open>within p p2\<close>]
        window_order(1) [OF within_ok [OF \<open>within p p2\<close>]] within_pos(1) [OF that(4)]
      by (simp_all add: ahead_def consumed_def)
    with that(1) show ?thesis
      by (auto simp: alias_name_post_def method_name_post_def Let_def null_or_between_def between_def)
  qed
  show ?thesis
    unfolding reads_def alias_singleton_name_def Let_def split_beta
    by (intro run_ok_advance_assert run_ok_call [OF method_name_ok] run_ok_return)
      (use assms in \<open>auto simp: ready_ok intro: progress_intros result\<close>)
qed

lemma alias_node_ok:
  assumes "alias_name_post u p (nkr, nnr, nn) q" and "alias_name_post u q (okr, onr, on) r"
    and "within p q" "consumed q r" and "i \<longrightarrow> kind = RBS_ALIAS_KIND_INSTANCE" and "parser_ok p"
  shows "member_post u i p
    (set_member_old_kind_range (RBS_RANGE_LEX2AST okr) (set_member_new_kind_range (RBS_RANGE_LEX2AST nkr)
      (rbs_ast_members_alias_new (location_from (current_start p) (current_end r)) nn on kind annotations comment
        (RBS_RANGE_LEX2AST (tok_range (current_token p))) (RBS_RANGE_LEX2AST nnr) (RBS_RANGE_LEX2AST onr)))) r"
proof -
  let ?a = "tok_begin (current_token p)" and ?b = "tok_end (current_token r)"
  have le: "?a \<le> tok_begin (next_token p)" "?a \<le> tok_begin (next_token q)" "?a \<le> tok_end (current_token p)"
    "tok_end (current_token p) \<le> ?b" "tok_end (current_token q) \<le> ?b"
    using token_order [OF within_refl [OF assms(6)]] window_order(1) [OF assms(6)]
      within_pos(3) [OF assms(3)] within_pos(1) [OF assms(3)] within_pos(1) [OF consumed_within [OF assms(4)]] by auto
  have "null_or_between ?a ?b (RBS_RANGE_LEX2AST nkr)" "nnr = u \<or> between ?a ?b (RBS_RANGE_LEX2AST nnr)" "between ?a ?b (sym_location nn)"
    "null_or_between ?a ?b (RBS_RANGE_LEX2AST okr)" "onr = u \<or> between ?a ?b (RBS_RANGE_LEX2AST onr)" "between ?a ?b (sym_location on)"
    using assms(1,2) le by (auto simp: alias_name_post_def Let_def intro: null_or_between_mono between_mono)
  then show ?thesis
    using assms(5) le
    by (auto simp: member_post_def leaf_member_ok member_parts parts_ok_def rbs_ast_members_alias_new_def
        set_member_old_kind_range_def set_member_new_kind_range_def)
qed

lemma alias_ok:
  assumes "ready m p0" and "within p0 p"
  shows "reads_at p0 p (member_post u io p) (parse_alias_member u io comment_pos annotations p)"
proof -
  have name: "reads q (alias_name_post u) ((if b then alias_singleton_name else alias_instance_name) u q)" if "ready m q" for b q
    using that by (simp add: alias_singleton_ok alias_instance_ok)
  show ?thesis
    unfolding reads_at_def parse_alias_member_def Let_def split_beta
    by (intro run_ok_comment run_ok_call_consumed [OF name] run_ok_return)
      (use assms in \<open>auto simp: within_ok intro: progress_intros alias_node_ok\<close>)
qed

subsection \<open>Variables and visibility\<close>

definition variable_type_post :: "bool \<Rightarrow> rbs_parser \<Rightarrow> rbs_range \<times> rbs_node \<Rightarrow> rbs_parser \<Rightarrow> bool" where
  "variable_type_post s p x q \<longleftrightarrow>
     between (tok_begin (next_token p)) (tok_end (current_token q)) (RBS_RANGE_LEX2AST (fst x)) \<and>
     tree_ok False s True (tok_begin (next_token p)) (tok_end (current_token q)) (snd x)"

lemma variable_type_result:
  assumes "ahead p q" and "type_post False s True q n r" and "within q r" and "tok_end (current_token r) \<le> tok_end (current_token r')"
  shows "variable_type_post s p (tok_range (current_token q), n) r'"
proof -
  have "tok_begin (next_token p) \<le> tok_begin (current_token q)" "tok_begin (current_token q) \<le> tok_end (current_token q)"
    "tok_end (current_token q) \<le> tok_end (current_token r)" "tok_begin (current_token q) \<le> tok_begin (next_token q)"
    using assms(1) token_order [OF consumed_within [OF ahead_consumed [OF assms(1)]]] within_pos(1) [OF assms(3)]
      window_order(1) [OF within_ok [OF consumed_within [OF ahead_consumed [OF assms(1)]]]]
    by (simp_all add: ahead_def consumed_def)
  with assms(2,4) show ?thesis
    by (auto simp: variable_type_post_def type_post_def between_def intro: tree_ok_mono)
qed

lemma variable_type_ok:
  assumes "ready m p" and "scope_open (vars p)"
  shows "reads p (variable_type_post s) (variable_type scoped s p)"
  unfolding reads_def variable_type_def Let_def push_value
  by (intro run_ok_advance_assert run_ok_if run_ok_call [OF type_ok] run_ok_pop_same run_ok_return)
    (use assms in \<open>auto simp: ready_ok intro: progress_intros variable_type_result\<close>)

lemma variable_node_ok:
  assumes "variable_type_post s q (cr, t) r" and "tok_begin (current_token p) \<le> tok_begin (next_token q)"
    and "between (tok_begin (current_token p)) (tok_end (current_token r)) (RBS_RANGE_LEX2AST nr)"
    and "between (tok_begin (current_token p)) (tok_end (current_token r)) (RBS_RANGE_LEX2AST kr)"
  shows "s \<Longrightarrow> member_post u False p (rbs_ast_members_instance_variable_new (location_from (current_start p) (current_end r))
      (rbs_ast_symbol_new (RBS_RANGE_LEX2AST nr) i) t comment (RBS_RANGE_LEX2AST nr) (RBS_RANGE_LEX2AST cr)) r"
    and "\<not> s \<Longrightarrow> member_post u False p (rbs_ast_members_class_variable_new (location_from (current_start p) (current_end r))
      (rbs_ast_symbol_new (RBS_RANGE_LEX2AST nr) i) t comment (RBS_RANGE_LEX2AST nr) (RBS_RANGE_LEX2AST cr)) r"
    and "s \<Longrightarrow> member_post u False p (set_member_kind_range (RBS_RANGE_LEX2AST kr)
      (rbs_ast_members_class_instance_variable_new (location_from (current_start p) (current_end r))
        (rbs_ast_symbol_new (RBS_RANGE_LEX2AST nr) i) t comment (RBS_RANGE_LEX2AST nr) (RBS_RANGE_LEX2AST cr))) r"
proof -
  let ?a = "tok_begin (current_token p)" and ?b = "tok_end (current_token r)"
  have t: "between ?a ?b (RBS_RANGE_LEX2AST cr)" "tree_ok False s True ?a ?b t"
    using assms(1,2) by (auto simp: variable_type_post_def between_def intro: tree_ok_mono)
  note defs = member_post_def leaf_member_ok member_parts parts_ok_def rbs_ast_symbol_new_def between_def null_or_between_def
    rbs_ast_members_instance_variable_new_def rbs_ast_members_class_variable_new_def rbs_ast_members_class_instance_variable_new_def
    set_member_kind_range_def
  show "s \<Longrightarrow> member_post u False p (rbs_ast_members_instance_variable_new (location_from (current_start p) (current_end r))
      (rbs_ast_symbol_new (RBS_RANGE_LEX2AST nr) i) t comment (RBS_RANGE_LEX2AST nr) (RBS_RANGE_LEX2AST cr)) r"
    and "\<not> s \<Longrightarrow> member_post u False p (rbs_ast_members_class_variable_new (location_from (current_start p) (current_end r))
      (rbs_ast_symbol_new (RBS_RANGE_LEX2AST nr) i) t comment (RBS_RANGE_LEX2AST nr) (RBS_RANGE_LEX2AST cr)) r"
    and "s \<Longrightarrow> member_post u False p (set_member_kind_range (RBS_RANGE_LEX2AST kr)
      (rbs_ast_members_class_instance_variable_new (location_from (current_start p) (current_end r))
        (rbs_ast_symbol_new (RBS_RANGE_LEX2AST nr) i) t comment (RBS_RANGE_LEX2AST nr) (RBS_RANGE_LEX2AST cr))) r"
    using t assms(3,4) by (auto simp: defs)
qed

lemma variable_ok:
  assumes "ready m p0" and "ahead p0 p" and "scope_open (vars p)"
  shows "reads_at p0 p (member_post u False p) (parse_variable_member comment_pos annotations p)"
proof -
  note w = ahead_ok(2) [OF assms(2)]
  have first: "tok_begin (current_token p) \<le> tok_begin (next_token q)"
      "between (tok_begin (current_token p)) (tok_end (current_token r)) (RBS_RANGE_LEX2AST (tok_range (current_token p)))"
    if "next_token q = next_token p" "current_token q = current_token p" "within q r" for q r
    using that token_order [OF w] window_order(1) [OF within_ok [OF w]] within_pos(1) [OF that(3)] by (auto simp: between_def)
  have singleton: "member_post u False p
      (set_member_kind_range (RBS_RANGE_LEX2AST \<lparr>r_start = current_start p, r_end = current_end q1\<rparr>)
        (rbs_ast_members_class_instance_variable_new (location_from (current_start p) (current_end r))
          (rbs_ast_symbol_new (RBS_RANGE_LEX2AST (tok_range (current_token q2))) i) t comment
          (RBS_RANGE_LEX2AST (tok_range (current_token q2))) (RBS_RANGE_LEX2AST cr))) r"
    if "variable_type_post True q3 (cr, t) r" "within p q1" "within q1 q2" "next_token q3 = next_token q2"
      "tok_end (current_token q2) \<le> tok_end (current_token r)" for q1 q2 q3 cr t r i comment
  proof -
    have w2: "within p q2" using within_trans [OF that(2,3)] .
    show ?thesis
      by (rule variable_node_ok(3) [OF that(1)])
        (use that(4,5) within_pos [OF that(2)] within_pos [OF that(3)] current_to_end [OF that(2)] token_order [OF w2]
            window_order(1) [OF within_ok [OF w2]] in \<open>auto simp: between_def\<close>)
  qed
  show ?thesis
    unfolding reads_at_def parse_variable_member_def INTERN_TOKEN_def Let_def split_beta
    by (intro run_ok_comment run_ok_if run_ok_fail run_ok_interning [OF _ assms(1)] run_ok_call_consumed [OF variable_type_ok]
        run_ok_advance_assert run_ok_advance_on run_ok_return)
      (use assms w in \<open>auto simp: within_ok intro: progress_intros first singleton variable_node_ok(1,2)\<close>)
qed

lemma visibility_ok:
  assumes "ahead p0 p"
  shows "reads_at p0 p (member_post u False p) (parse_visibility_member annotations p)"
proof -
  have "member_post u False p (rbs_ast_members_public_new (RBS_RANGE_LEX2AST (tok_range (current_token p)))) p"
    "member_post u False p (rbs_ast_members_private_new (RBS_RANGE_LEX2AST (tok_range (current_token p)))) p"
    using token_order [OF ahead_ok(2) [OF assms]]
    by (simp_all add: member_post_def leaf_member_ok member_parts parts_ok_def rbs_ast_members_public_new_def
        rbs_ast_members_private_new_def)
  then show ?thesis
    unfolding reads_at_def parse_visibility_member_def Let_def rbs_location_range_current_token_def
    by (intro run_ok_if run_ok_fail run_ok_return) (use assms ahead_ok(2) in \<open>auto intro: ahead_consumed\<close>)
qed

subsection \<open>Attributes\<close>

definition attribute_visibility_post :: "rbs_parser \<Rightarrow> rbs_range \<times> rbs_attribute_visibility \<Rightarrow> rbs_parser \<Rightarrow> bool" where
  "attribute_visibility_post p x q \<longleftrightarrow> fst x = NULL_RANGE \<or> fst x = tok_range (current_token p)"

lemma attribute_visibility_ok: "parser_ok p \<Longrightarrow> may_read p attribute_visibility_post (attribute_visibility p)"
  unfolding may_read_def attribute_visibility_def attribute_visibility_post_def
  by (intro run_ok_if run_ok_advance run_ok_return) auto

definition ivar_post :: "rbs_parser \<Rightarrow> rbs_attr_ivar_name \<times> rbs_location_range \<times> rbs_location_range \<Rightarrow> rbs_parser \<Rightarrow> bool" where
  "ivar_post p x q \<longleftrightarrow>
     null_or_between (tok_end (current_token p)) (tok_end (current_token q)) (fst (snd x)) \<and>
     null_or_between (tok_end (current_token p)) (tok_end (current_token q)) (snd (snd x))"

lemma ivar_ok:
  assumes "ready m p"
  shows "may_read p ivar_post (attribute_ivar p)"
proof -
  have range: "null_or_between (tok_end (current_token p)) (tok_end (current_token r)) (location_from (current_start q) (current_end r))"
    if "ahead p q" "within q r" for q r
    using that(1) current_to_end [OF that(2)] window_order(1) [OF ready_ok [OF assms]]
    by (simp add: null_or_between_def ahead_def consumed_def)
  have name: "null_or_between (tok_end (current_token p)) (tok_end (current_token r)) (rbs_location_range_current_token q')"
    if "ahead p q" "within q' r" "current_token q' = current_token q" for q q' r
    using that token_order [OF ahead_ok(2) [OF that(1)]] within_pos(1) [OF that(2)] window_order(1) [OF ready_ok [OF assms]]
    by (simp add: null_or_between_def rbs_location_range_current_token_def ahead_def consumed_def)
  have named: "ivar_post p (x, location_from (current_start q1) e, rbs_location_range_current_token q3) q4"
    if "e = current_end q4" "current_token q3 = current_token q2" "ahead p q1" "ahead p q2" "within q1 q2" "within q3 q4" for x e q1 q2 q3 q4
  proof -
    have "tok_begin (current_token q1) \<le> tok_end (current_token q4)"
      using current_to_end [OF that(5)] that(2) within_pos(1) [OF that(6)] by simp
    then show ?thesis
      using name [OF that(4,6,2)] that(1,3) window_order(1) [OF ready_ok [OF assms]]
      by (simp add: ivar_post_def null_or_between_def ahead_def consumed_def)
  qed
  have empty: "ivar_post p (x, location_from (current_start q1) (current_end q2), RBS_LOCATION_NULL_RANGE) q2"
    if "ahead p q1" "within q1 q2" for x q1 q2
    using range [OF that] by (simp add: ivar_post_def)
  have none: "ivar_post p (x, RBS_LOCATION_NULL_RANGE, RBS_LOCATION_NULL_RANGE) p" for x
    by (simp add: ivar_post_def)
  show ?thesis
    unfolding may_read_def attribute_ivar_def Let_def INTERN_TOKEN_def
    by (intro run_ok_if run_ok_advance_assert run_ok_advance_if run_ok_interning [OF _ assms] run_ok_return)
      (use assms ready_ok [OF assms] in \<open>auto intro: progress_intros named empty none\<close>)
qed

lemma attribute_node_ok:
  assumes "between a b (RBS_RANGE_LEX2AST keyword_range)" "between a b (RBS_RANGE_LEX2AST colon_range)"
    and "nr = u \<or> between a b (RBS_RANGE_LEX2AST nr)" "between a b (sym_location nm)"
    and "kr = NULL_RANGE \<or> ends_between a b (RBS_RANGE_LEX2AST kr)"
    and "null_or_between a b ir" "null_or_between a b inr" "null_or_between a b (RBS_RANGE_LEX2AST vr)"
    and "tree_ok False True True a b t" "a = byte_pos first" "b = byte_pos till" "lo \<le> a" "a \<le> b" "b \<le> hi"
  shows "member_ok (RBS_RANGE_LEX2AST u) False lo hi (set_attribute_ranges (RBS_RANGE_LEX2AST kr) ir inr (RBS_RANGE_LEX2AST vr)
      (rbs_ast_members_attr_reader_new (location_from first till) nm t ivar kind annotations comment visibility
        (RBS_RANGE_LEX2AST keyword_range) (RBS_RANGE_LEX2AST nr) (RBS_RANGE_LEX2AST colon_range)))"
    and "member_ok (RBS_RANGE_LEX2AST u) False lo hi (set_attribute_ranges (RBS_RANGE_LEX2AST kr) ir inr (RBS_RANGE_LEX2AST vr)
      (rbs_ast_members_attr_writer_new (location_from first till) nm t ivar kind annotations comment visibility
        (RBS_RANGE_LEX2AST keyword_range) (RBS_RANGE_LEX2AST nr) (RBS_RANGE_LEX2AST colon_range)))"
    and "member_ok (RBS_RANGE_LEX2AST u) False lo hi (set_attribute_ranges (RBS_RANGE_LEX2AST kr) ir inr (RBS_RANGE_LEX2AST vr)
      (rbs_ast_members_attr_accessor_new (location_from first till) nm t ivar kind annotations comment visibility
        (RBS_RANGE_LEX2AST keyword_range) (RBS_RANGE_LEX2AST nr) (RBS_RANGE_LEX2AST colon_range)))"
  using assms
  by (auto simp: leaf_member_ok member_parts parts_ok_def set_attribute_ranges_def set_member_visibility_range_def
      set_member_ivar_name_range_def set_member_ivar_range_def set_member_kind_range_def
      rbs_ast_members_attr_reader_new_def rbs_ast_members_attr_writer_new_def rbs_ast_members_attr_accessor_new_def
      null_range_location simp del: location_from_bytes(6))

text \<open>The ranges and the type of an attribute, read from the parser \<open>p\<close> on its first token to \<open>q\<close>.\<close>

definition attribute_parts ::
  "rbs_range \<Rightarrow> rbs_parser \<Rightarrow> rbs_range \<Rightarrow> rbs_range \<Rightarrow> rbs_range \<times> rbs_ast_symbol \<Rightarrow> rbs_attr_ivar_name \<times> rbs_location_range \<times> rbs_location_range \<Rightarrow>
   rbs_range \<Rightarrow> rbs_range \<Rightarrow> rbs_node \<Rightarrow> rbs_parser \<Rightarrow> bool"
where
  "attribute_parts u p vr kwr name ivar kr cr t q \<longleftrightarrow>
     (let a = tok_begin (current_token p); b = tok_end (current_token q) in
      a \<le> b \<and> between a b (RBS_RANGE_LEX2AST kwr) \<and> between a b (RBS_RANGE_LEX2AST cr) \<and>
      (fst name = u \<or> between a b (RBS_RANGE_LEX2AST (fst name))) \<and> between a b (sym_location (snd name)) \<and>
      (kr = NULL_RANGE \<or> ends_between a b (RBS_RANGE_LEX2AST kr)) \<and>
      null_or_between a b (fst (snd ivar)) \<and> null_or_between a b (snd (snd ivar)) \<and> null_or_between a b (RBS_RANGE_LEX2AST vr) \<and>
      tree_ok False True True a b t)"

lemma attribute_parts_ok:
  assumes "parser_ok p" and "attribute_visibility_post p (vr, v) p1" "kind_post p1 (k, kr) p2" "method_name_post u p2 name p3" "ivar_post p3 ivar p4"
    and "type_post False True True p5 t q"
    and "within p p1" "within p1 p2" "consumed p2 p3" "within p3 p4" "ahead p4 p5" "consumed p5 q"
  shows "attribute_parts u p vr (tok_range (current_token p1)) name ivar kr (tok_range (current_token p5)) t q"
proof -
  have w: "within p2 p3" "within p4 p5" "within p5 q" "within p p2" "within p p3" "within p p4" "within p p5" "within p q"
    using assms(7-12) by (meson ahead_consumed consumed_within within_trans)+
  let ?a = "tok_begin (current_token p)" and ?b = "tok_end (current_token q)"
  have le: "?a \<le> tok_end (current_token p)" "tok_end (current_token p) \<le> ?b" "?a \<le> tok_begin (current_token p1)"
    "tok_begin (current_token p1) \<le> tok_end (current_token p1)" "tok_end (current_token p1) \<le> tok_end (current_token p2)"
    "tok_end (current_token p1) \<le> tok_begin (next_token p1)" "tok_begin (next_token p1) \<le> tok_begin (next_token p2)"
    "tok_end (current_token p2) \<le> tok_end (current_token p3)" "tok_end (current_token p3) \<le> tok_end (current_token p4)"
    "tok_end (current_token p4) \<le> tok_end (current_token p5)" "tok_begin (current_token p5) \<le> tok_end (current_token p5)"
    "tok_end (current_token p5) \<le> ?b" "?a \<le> tok_begin (current_token p5)" "?a \<le> tok_begin (next_token p2)"
    "?a \<le> tok_end (current_token p3)" "?a \<le> tok_begin (next_token p5)" "tok_begin (next_token p2) \<le> tok_end (current_token p3)"
    using token_order [OF within_refl [OF assms(1)]] token_order [OF assms(7)] token_order [OF w(7)] window_order(1) [OF within_ok [OF assms(7)]]
      window_order(1) [OF within_ok [OF w(7)]] window_order(1) [OF within_ok [OF w(4)]]
      within_pos [OF assms(7)] within_pos [OF assms(8)] within_pos [OF w(1)] within_pos [OF w(2)] within_pos [OF w(3)]
      within_pos [OF assms(10)] within_pos [OF w(8)] within_pos [OF w(5)] within_pos [OF w(7)] within_pos [OF w(4)] consumed_order [OF assms(9)] by linarith+
  have "fst name = u \<or> between ?a ?b (RBS_RANGE_LEX2AST (fst name))" "between ?a ?b (sym_location (snd name))"
    using assms(4) le by (auto simp: method_name_post_def between_def)
  moreover have "kr = NULL_RANGE \<or> ends_between ?a ?b (RBS_RANGE_LEX2AST kr)"
    using assms(3) le by (auto simp: kind_post_def ends_between_def)
  moreover have "null_or_between ?a ?b (fst (snd ivar))" "null_or_between ?a ?b (snd (snd ivar))"
    using assms(5) le by (auto simp: ivar_post_def intro: null_or_between_mono)
  moreover have "null_or_between ?a ?b (RBS_RANGE_LEX2AST vr)"
    using assms(2) le by (auto simp: attribute_visibility_post_def null_or_between_def null_range_location)
  moreover have "tree_ok False True True ?a ?b t"
    using assms(6) le by (auto simp: type_post_def intro: tree_ok_mono)
  ultimately show ?thesis
    using le by (simp add: attribute_parts_def between_def)
qed

lemma attribute_ok:
  assumes "ready m p0" and "within p0 p" and "scope_open (vars p)"
  shows "reads_at p0 p (member_post u False p) (parse_attribute_member u comment_pos annotations p)"
proof -
  have node: "attribute_parts u p vr kwr (nr, nm) (iv, ir, inr) kr cr t q \<Longrightarrow> member_post u False p
      (set_attribute_ranges (RBS_RANGE_LEX2AST kr) ir inr (RBS_RANGE_LEX2AST vr) (f (location_from (current_start p) (current_end q))
        nm t iv kind annotations comment visibility (RBS_RANGE_LEX2AST kwr) (RBS_RANGE_LEX2AST nr) (RBS_RANGE_LEX2AST cr))) q"
    if "f \<in> {rbs_ast_members_attr_reader_new, rbs_ast_members_attr_writer_new, rbs_ast_members_attr_accessor_new}"
    for f vr kwr nr nm iv ir inr kr cr t q comment kind visibility
    unfolding member_post_def
    using that by (elim insertE emptyE; simp; intro attribute_node_ok) (auto simp: attribute_parts_def Let_def)
  note parts = attribute_parts_ok [OF within_ok [OF assms(2)]]
  note results = node [OF _ parts, of rbs_ast_members_attr_reader_new] node [OF _ parts, of rbs_ast_members_attr_writer_new]
    node [OF _ parts, of rbs_ast_members_attr_accessor_new]
  show ?thesis
    unfolding reads_at_def parse_attribute_member_def Let_def split_beta push_value
    by (intro run_ok_comment run_ok_may_call [OF attribute_visibility_ok] run_ok_may_call [OF kind_ok]
        run_ok_call_consumed [OF method_name_ok] run_ok_may_call [OF ivar_ok] run_ok_advance_assert run_ok_call_consumed [OF type_ok]
        run_ok_pop_same run_ok_if run_ok_return run_ok_fail)
      (use assms in \<open>auto simp: within_ok intro: progress_intros results\<close>)
qed

end
