(* ===== verification/DeclSpec.thy ===== *)
theory DeclSpec
  imports DeclParser MemberSpec
begin

text \<open>
  The contracts of the parsers of declarations. Every function for a declaration returns a
  well-formed one inside the tokens it has read, and leaves the tables of type variables as they
  were.
\<close>

definition decl_post :: "rbs_range \<Rightarrow> rbs_parser \<Rightarrow> rbs_member \<Rightarrow> rbs_parser \<Rightarrow> bool" where
  "decl_post u p m q \<longleftrightarrow> member_post u False p m q \<and> is_declaration m"

lemma decl_post_vars [simp]:
  "decl_post u (p\<lparr>vars := vs\<rparr>) m q \<longleftrightarrow> decl_post u p m q"
  "decl_post u p m (q\<lparr>vars := vs\<rparr>) \<longleftrightarrow> decl_post u p m q"
  by (simp_all add: decl_post_def)

text \<open>A call of a function that starts on the token of \<open>q\<close>, which has been reached from \<open>p\<close>.\<close>

lemma run_ok_call_at:
  assumes "reads_at p1 q V r" and w: "within p p1"
    and k: "\<And>v q'. consumed p q' \<Longrightarrow> within p q' \<Longrightarrow> consumed p1 q' \<Longrightarrow> within p1 q' \<Longrightarrow> vars q' = vars q \<Longrightarrow> V v q' \<Longrightarrow>
      run_ok p Q (k v q')"
  shows "run_ok p Q (check_parse r k)"
  using run_ok_within [OF w assms(1) [unfolded reads_at_def]]
  by (rule run_ok_bind) (use k within_consumed [OF w] consumed_within in blast)

lemma member_between:
  assumes "member_post u i q m r" and "lo \<le> tok_begin (current_token q)" and "tok_end (current_token r) \<le> hi"
  shows "member_ok (RBS_RANGE_LEX2AST u) i lo hi m"
  using assms by (auto simp: member_post_def intro: member_ok_mono)

subsection \<open>Globals, constants and type aliases\<close>

lemmas decl_defs = decl_post_def member_post_def leaf_member_ok member_parts parts_ok_def is_declaration_def

lemma after_first:
  assumes "within p0 p"
  shows "tok_begin (current_token p) \<le> tok_end (current_token p)" "tok_end (current_token p) \<le> tok_begin (next_token p)"
    "tok_begin (current_token p) \<le> tok_begin (next_token p)"
  using token_order [OF assms] window_order(1) [OF within_ok [OF assms]] by simp_all

lemma global_ok:
  assumes "ready m p0" and "ahead p0 p"
  shows "reads_at p0 p (decl_post u p) (parse_global_decl comment_pos annotations p)"
proof -
  note w = ahead_ok(2) [OF assms(2)]
  have result: "decl_post u p (rbs_ast_declarations_global_new (location_from (current_start p) (current_end r))
      (rbs_ast_symbol_new (RBS_RANGE_LEX2AST (tok_range (current_token p))) i) t comment annotations
      (RBS_RANGE_LEX2AST (tok_range (current_token p))) (RBS_RANGE_LEX2AST cr)) r"
    if "type_post False False False q t r" "within q r" "consumed p0 q" "tok_end (current_token p) \<le> tok_begin (current_token q)"
      "cr = tok_range (current_token q)" for i t q r cr comment
    using that after_first [OF w] after_first [OF consumed_within [OF that(3)]] within_pos(1) [OF that(2)]
    by (auto simp: decl_defs rbs_ast_declarations_global_new_def rbs_ast_symbol_new_def between_def type_post_def intro: tree_ok_mono)
  show ?thesis
    unfolding reads_at_def parse_global_decl_def INTERN_TOKEN_def Let_def
    by (intro run_ok_comment run_ok_interning [OF _ assms(1)] run_ok_advance_assert run_ok_call [OF type_ok] run_ok_return)
      (use assms w after_first(2) [OF w] in \<open>auto intro: progress_intros result\<close>)
qed

lemma const_ok:
  assumes "ready m p0" and "ahead p0 p"
  shows "reads_at p0 p (decl_post u p) (parse_const_decl comment_pos annotations p)"
proof -
  note w = ahead_ok(2) [OF assms(2)]
  have result: "decl_post u p (rbs_ast_declarations_constant_new (location_from (current_start p) (current_end r)) nm t comment annotations
      (RBS_RANGE_LEX2AST nr) (RBS_RANGE_LEX2AST cr)) r"
    if "name_post {CLASS_NAME} p (nr, nm) q1" "type_post False False False q t r" "parser_step p q1" "ahead q1 q" "within q r"
      "within p0 q1" "within p0 q" "cr = tok_range (current_token q)" for nr nm q1 q t r cr comment
  proof -
    have "tok_begin (current_token p) \<le> tok_begin (current_token q1)" "tok_end (current_token q1) \<le> tok_begin (current_token q)"
      using that(3) that(4) after_first(2) [OF that(6)] by (simp_all add: parser_step_def ahead_def consumed_def)
    then show ?thesis
      using that after_first(1) [OF that(6)] after_first [OF that(7)] within_pos(1) [OF that(5)]
      by (auto simp: decl_defs name_post_def rbs_ast_declarations_constant_new_def between_def type_post_def
          intro: tree_ok_mono name_ok_mono)
  qed
  show ?thesis
    unfolding reads_at_def parse_const_decl_def Let_def split_beta
    by (intro run_ok_comment run_ok_call_on [OF type_name_ok assms(2)] run_ok_advance_assert run_ok_call [OF type_ok] run_ok_return)
      (use assms w within_ready [OF w assms(1)] in \<open>auto intro: progress_intros result\<close>)
qed

text \<open>Where a declaration with a name and type parameters has come to.\<close>

definition header_post ::
  "TypeNameKind set \<Rightarrow> rbs_parser \<Rightarrow> rbs_range \<Rightarrow> rbs_type_name \<Rightarrow> rbs_range \<times> rbs_ast_type_param list \<Rightarrow> rbs_parser \<Rightarrow> bool"
where
  "header_post kind p nr nm ps q \<longleftrightarrow>
     (let a = tok_begin (current_token p); b = tok_end (current_token q) in
      between a b (RBS_RANGE_LEX2AST (tok_range (current_token p))) \<and>
      between a b (RBS_RANGE_LEX2AST nr) \<and> name_ok a b nm \<and> params_ok True a b (snd ps) \<and>
      null_or_between a b (RBS_RANGE_LEX2AST (fst ps)))"

lemma header_intro:
  assumes "type_name_post kind p (nr, nm) q" and "type_params_post True q ps r"
    and "parser_ok p" "within p q" "within q r"
  shows "header_post kind p nr nm ps r"
proof -
  have "tok_begin (current_token p) \<le> tok_end (current_token p)" "tok_end (current_token p) \<le> tok_begin (next_token p)"
    "tok_begin (next_token p) \<le> tok_begin (next_token q)" "tok_end (current_token q) \<le> tok_end (current_token r)"
    "tok_end (current_token p) \<le> tok_end (current_token r)"
    using after_first [OF within_refl [OF assms(3)]] within_pos [OF assms(4)] within_pos [OF assms(5)] by simp_all
  then show ?thesis
    using assms(1,2)
    by (auto simp: header_post_def type_name_post_def type_params_post_def Let_def between_def
        intro: name_ok_mono params_ok_mono null_or_between_mono)
qed

lemma header_params_ok:
  assumes "ready k p" and "vars p = pushed True vs"
  shows "run_ok p (\<lambda>x q. within p q \<and> (declares (pushed True vs) (param_ids (snd x)) (vars q) \<and> type_params_post True p x q))
    (parse_type_params True p)"
  using type_params_ok [OF assms(1), of "pushed True vs" True] assms(2) by simp

lemma header_mono: "header_post kind p nr nm ps q \<Longrightarrow> within q r \<Longrightarrow> header_post kind p nr nm ps r"
  using within_pos(1) [of q r]
  by (auto simp: header_post_def Let_def between_def intro: name_ok_mono params_ok_mono null_or_between_mono)

lemma type_decl_ok:
  assumes "ready m p0" and "within p0 p" and "scope_open (vars p)"
  shows "reads_at p0 p (decl_post u p) (parse_type_decl comment_pos annotations p)"
proof -
  have result: "decl_post u p (set_member_type_params_range (RBS_RANGE_LEX2AST pr)
      (rbs_ast_declarations_type_alias_new (location_from (current_start p) (current_end r)) nm ps t annotations comment
        (RBS_RANGE_LEX2AST (tok_range (current_token p))) (RBS_RANGE_LEX2AST nr) (RBS_RANGE_LEX2AST eq))) r"
    if "type_name_post {ALIAS_NAME} p (nr, nm) q1" "type_params_post True q1 (pr, ps) q2" "type_post False False False q3 t r"
      "within p q1" "within q1 q2" "within q2 q3" "within q3 r" "eq = tok_range (current_token q3)"
    for nr nm q1 pr ps q2 q3 t r eq comment
  proof -
    have w: "within p q2" "within p q3" using that(4-6) within_trans by blast+
    have h: "header_post {ALIAS_NAME} p nr nm (pr, ps) r"
      using header_mono [OF header_intro [OF that(1,2) within_ok [OF assms(2)] that(4,5)]] that(6,7) within_trans by blast
    have le: "tok_begin (current_token p) \<le> tok_begin (current_token q3)" "tok_begin (current_token p) \<le> tok_begin (next_token q3)"
      "tok_begin (current_token q3) \<le> tok_end (current_token q3)" "tok_end (current_token q3) \<le> tok_end (current_token r)"
      using within_pos(2) [OF w(2)] after_first [OF w(2)] within_pos(1) [OF that(7)] by simp_all
    then have "tree_ok False False False (tok_begin (current_token p)) (tok_end (current_token r)) t"
      "between (tok_begin (current_token p)) (tok_end (current_token r)) (RBS_RANGE_LEX2AST eq)"
      using that(3,8) by (auto simp: type_post_def between_def intro: tree_ok_mono)
    with h le show ?thesis
      by (simp add: decl_defs header_post_def Let_def params_ok_def rbs_ast_declarations_type_alias_new_def
          set_member_type_params_range_def)
  qed
  show ?thesis
    unfolding reads_at_def parse_type_decl_def Let_def split_beta push_value
    by (intro run_ok_comment run_ok_advance_name [OF _ assms(1)] run_ok_scope_call [OF header_params_ok [where vs = "vars p"]]
        run_ok_advance_assert run_ok_call [OF type_ok] run_ok_pop_pushed [where reset = True and vs = "vars p"] run_ok_return)
      (use assms in \<open>auto simp: within_ok intro: progress_intros result\<close>)
qed

subsection \<open>Members\<close>

definition members_ok :: "rbs_range \<Rightarrow> bool \<Rightarrow> int \<Rightarrow> int \<Rightarrow> rbs_member list \<Rightarrow> bool" where
  "members_ok u i lo hi ms \<longleftrightarrow> list_all (member_ok (RBS_RANGE_LEX2AST u) i lo hi) ms"

lemma members_ok_simps [simp]:
  "members_ok u i lo hi []"
  "members_ok u i lo hi (ms @ [m]) \<longleftrightarrow> members_ok u i lo hi ms \<and> member_ok (RBS_RANGE_LEX2AST u) i lo hi m"
  by (simp_all add: members_ok_def)

lemma members_ok_mono: "members_ok u i lo hi ms \<Longrightarrow> lo' \<le> lo \<Longrightarrow> hi \<le> hi' \<Longrightarrow> members_ok u i lo' hi' ms"
  by (auto simp: members_ok_def list_all_iff intro: member_ok_mono)

lemma members_member_ok:
  "member_members m \<noteq> [] \<or> is_declaration m \<Longrightarrow> member_ok v i lo hi m \<longleftrightarrow>
     between lo hi (member_location m) \<and> parts_ok v i (start_byte (member_location m)) (end_byte (member_location m)) m \<and>
     list_all (member_ok v (is_interface m) (start_byte (member_location m)) (end_byte (member_location m))) (member_members m)"
  by (subst member_ok.simps) (simp add: list_all_iff)

definition members_post :: "rbs_range \<Rightarrow> bool \<Rightarrow> rbs_parser \<Rightarrow> rbs_member list \<Rightarrow> rbs_parser \<Rightarrow> bool" where
  "members_post u i p ms q \<longleftrightarrow> members_ok u i (tok_end (current_token p)) (tok_end (current_token q)) ms"

lemma members_next:
  assumes "within p q" and "members_post u i p ms q" and "within q q1" "next_token q1 = current_token q2"
    and "member_post u i q2 m r" and "consumed q r"
  shows "members_post u i p (rbs_node_list_append ms m) r"
proof -
  have "tok_end (current_token p) \<le> tok_begin (current_token q2)"
    using within_pos(1) [OF assms(1)] within_pos(1) [OF assms(3)] after_first(2) [OF assms(3)] assms(4) by simp
  then have "member_ok (RBS_RANGE_LEX2AST u) i (tok_end (current_token p)) (tok_end (current_token r)) m"
    using member_between [OF assms(5)] by simp
  moreover have "members_ok u i (tok_end (current_token p)) (tok_end (current_token r)) ms"
    using assms(2) within_pos(1) [OF consumed_within [OF assms(6)]] by (auto simp: members_post_def intro: members_ok_mono)
  ultimately show ?thesis by (simp add: members_post_def rbs_node_list_append_def)
qed

text \<open>The loops over members, for a parser \<open>member\<close> that is correct on what it is called on.\<close>

lemma members_loop_ok:
  assumes "parser_ok p"
    and member: "\<And>q q1 annot_pos annotations. within p q \<Longrightarrow> vars q1 = vars p \<Longrightarrow> within q q1 \<Longrightarrow> (current_type q1 \<noteq> pEOF \<Longrightarrow> ahead q q1) \<Longrightarrow>
      reads_at q q1 (member_post u i q1) (member annot_pos annotations q1)"
  shows "may_read p (members_post u i) (while_true (members_round member) rbs_node_list_new p)"
proof -
  have round: "run_ok q (round_post (\<lambda>ms q. members_post u i p ms q \<and> vars q = vars p) (members_post u i p) q) (members_round member ms q)"
    if "within p q" "members_post u i p ms q \<and> vars q = vars p" for ms q
  proof -
    have q: "parser_ok q" using within_ok [OF that(1)] .
    show ?thesis
      unfolding members_round_def split_beta
    proof (intro run_ok_if run_ok_may_call [OF annotations_parsed [OF q]] run_ok_return within_refl [OF q])
      fix x q1 assume q1: "within q q1" "vars q1 = vars q"
      show "run_ok q (round_post (\<lambda>ms q. members_post u i p ms q \<and> vars q = vars p) (members_post u i p) q)
          (advancing q1 (\<lambda>q2. check_parse (member (snd x) (fst x) q2) (\<lambda>m r. Done (Inl (rbs_node_list_append ms m)) r)))"
      proof (rule run_ok_advance [OF q1(1)])
        fix q2 assume q2: "within q q2" "within q1 q2" "vars q2 = vars q1" "next_token q1 = current_token q2"
          "current_type q2 \<noteq> pEOF \<Longrightarrow> ahead q q2 \<and> ahead q1 q2"
        have "reads_at q q2 (member_post u i q2) (member (snd x) (fst x) q2)"
          using that q1 q2 by (intro member) simp_all
        then show "run_ok q (round_post (\<lambda>ms q. members_post u i p ms q \<and> vars q = vars p) (members_post u i p) q)
            (check_parse (member (snd x) (fst x) q2) (\<lambda>m r. Done (Inl (rbs_node_list_append ms m)) r))"
          by (rule run_ok_call_at [OF _ within_refl [OF q]])
            (auto simp: that q1 q2 intro!: run_ok_return members_next [OF that(1) _ q1(1) q2(4)])
      qed
    qed (use that q in auto)
  qed
  show ?thesis
    by (rule while_may_read [where I = "\<lambda>ms q. members_post u i p ms q \<and> vars q = vars p"])
      (use assms(1) round in \<open>auto simp: members_post_def rbs_node_list_new_def\<close>)
qed

subsection \<open>Interfaces\<close>

lemma interface_members_ok:
  assumes "ready m p" and "scope_open (vars p)"
  shows "may_read p (members_post u True) (parse_interface_members u p)"
  unfolding parse_interface_members_def
proof (rule members_loop_ok [OF ready_ok [OF assms(1)]])
  fix q q1 annot_pos annotations
  assume q: "within p q" "vars q1 = vars p" "within q q1"
  have r: "ready m q" "scope_open (vars q1)" using within_ready [OF q(1) assms(1)] assms(2) q(2) by simp_all
  have fail: "reads_at q q1 (member_post u True q1) (fail_with q1 t b msg)" for t b msg
    unfolding reads_at_def by (rule run_ok_fail [OF q(3)])
  show "reads_at q q1 (member_post u True q1) (interface_member_on_token u annot_pos annotations q1)"
    unfolding interface_member_on_token_def
    using member_def_ok [OF r(1) q(3) r(2)] mixin_ok [OF r(1) q(3) r(2)] alias_ok [OF r(1) q(3)] fail by simp
qed

lemma body_result:
  assumes "members_post u i q ms r" and "within p0 p" "consumed p q" "within q r" "within r r'"
  shows "members_ok u i (tok_begin (current_token p)) (tok_end (current_token r')) ms"
    "between (tok_begin (current_token p)) (tok_end (current_token r')) (RBS_RANGE_LEX2AST (tok_range (current_token r')))"
proof -
  have w: "within p r'" using assms(3-5) by (meson consumed_within within_trans)
  have "tok_begin (current_token p) \<le> tok_end (current_token q)" using current_to_end [OF consumed_within [OF assms(3)]] .
  then show "members_ok u i (tok_begin (current_token p)) (tok_end (current_token r')) ms"
    using assms(1) within_pos(1) [OF assms(5)] by (auto simp: members_post_def intro: members_ok_mono)
  show "between (tok_begin (current_token p)) (tok_end (current_token r')) (RBS_RANGE_LEX2AST (tok_range (current_token r')))"
    using within_pos(2) [OF w] after_first [OF w] by (simp add: between_def)
qed

lemma interface_decl_ok:
  assumes "ready m p0" and "within p0 p" and "scope_open (vars p)"
  shows "reads_at p0 p (decl_post u p) (parse_interface_decl u comment_pos annotations p)"
proof -
  have result: "decl_post u p (set_member_type_params_range (RBS_RANGE_LEX2AST pr)
      (rbs_ast_declarations_interface_new (location_from (current_start p) e) nm ps ms annotations comment
        (RBS_RANGE_LEX2AST (tok_range (current_token p))) (RBS_RANGE_LEX2AST nr) (RBS_RANGE_LEX2AST er))) r"
    if "type_name_post {INTERFACE_NAME} p (nr, nm) q1" "type_params_post True q1 (pr, ps) q2" "members_post u True q2 ms q3"
      "within p q1" "within q1 q2" "within q2 q3" "within q3 r" "er = tok_range (current_token r)" "e = r_end er" "consumed p q1"
    for nr nm q1 pr ps q2 ms q3 r er e comment
  proof -
    have "consumed p q2" using that(5,10) consumed_trans by blast
    note b = body_result [OF that(3) assms(2) this that(6,7)]
    have "header_post {INTERFACE_NAME} p nr nm (pr, ps) r"
      using header_mono [OF header_intro [OF that(1,2) within_ok [OF assms(2)] that(4,5)]] that(6,7) within_trans by blast
    with b show ?thesis
      using that(8,9)
      by (simp add: decl_post_def member_post_def members_member_ok is_declaration_def member_parts parts_ok_def header_post_def
          Let_def params_ok_def members_ok_def rbs_ast_declarations_interface_new_def set_member_type_params_range_def)
  qed
  show ?thesis
    unfolding reads_at_def parse_interface_decl_def Let_def split_beta push_value
    by (intro run_ok_comment run_ok_advance_name [OF _ assms(1)] run_ok_scope_call [OF header_params_ok [where vs = "vars p"]]
        run_ok_advance_assert run_ok_may_call [OF interface_members_ok] run_ok_pop_pushed [where reset = True and vs = "vars p"] run_ok_return)
      (use assms in \<open>auto simp: within_ok declares_open intro: progress_intros result\<close>)
qed

subsection \<open>Self types and super classes\<close>

definition self_types_ok :: "int \<Rightarrow> int \<Rightarrow> rbs_ast_declarations_module_self list \<Rightarrow> bool" where
  "self_types_ok lo hi sts \<longleftrightarrow> list_all (self_type_ok lo hi) sts"

lemma self_types_ok_simps [simp]:
  "self_types_ok lo hi []"
  "self_types_ok lo hi (sts @ [st]) \<longleftrightarrow> self_types_ok lo hi sts \<and> self_type_ok lo hi st"
  by (simp_all add: self_types_ok_def)

lemma self_types_ok_mono: "self_types_ok lo hi sts \<Longrightarrow> lo' \<le> lo \<Longrightarrow> hi \<le> hi' \<Longrightarrow> self_types_ok lo' hi' sts"
  by (auto simp: self_types_ok_def list_all_iff intro: self_type_ok_mono)

definition self_types_post :: "rbs_parser \<Rightarrow> rbs_ast_declarations_module_self list \<Rightarrow> rbs_parser \<Rightarrow> bool" where
  "self_types_post p sts q \<longleftrightarrow> self_types_ok (tok_begin (next_token p)) (tok_end (current_token q)) sts"

text \<open>A self type from the parser \<open>q\<close>, before its name, to \<open>r\<close>.\<close>

lemma self_type_next:
  assumes "self_types_post p sts q" and "within p q" and "within q r" "within r r'"
    and "name_ok (tok_begin (next_token q)) (tok_end (current_token r)) nm"
    and "between (tok_begin (next_token q)) (tok_end (current_token r)) (RBS_RANGE_LEX2AST nr)"
    and "null_or_between (tok_begin (next_token q)) (tok_end (current_token r)) (RBS_RANGE_LEX2AST ar)"
    and "trees_ok True False False (tok_begin (next_token q)) (tok_end (current_token r)) args"
    and "byte_pos first = tok_begin (next_token q)" "byte_pos till = tok_end (current_token r)"
  shows "self_types_post p (rbs_node_list_append sts
    ((rbs_ast_declarations_module_self_new (location_from first till) nm args (RBS_RANGE_LEX2AST nr))
      \<lparr>mself_args_range := RBS_RANGE_LEX2AST ar\<rparr>)) r'"
proof -
  have le: "tok_end (current_token r) \<le> tok_end (current_token r')" "tok_begin (next_token p) \<le> tok_begin (next_token q)"
    "tok_end (current_token q) \<le> tok_end (current_token r')"
    using within_pos(1) [OF assms(3)] within_pos(1) [OF assms(4)] within_pos(3) [OF assms(2)] by simp_all
  have "tok_begin (next_token q) \<le> tok_end (current_token r)" using assms(6) by (simp add: between_def)
  then have "self_type_ok (tok_begin (next_token p)) (tok_end (current_token r'))
      ((rbs_ast_declarations_module_self_new (location_from first till) nm args (RBS_RANGE_LEX2AST nr))
        \<lparr>mself_args_range := RBS_RANGE_LEX2AST ar\<rparr>)"
    using assms(5-10) le by (simp add: self_type_ok_def rbs_ast_declarations_module_self_new_def)
  moreover have "self_types_ok (tok_begin (next_token p)) (tok_end (current_token r')) sts"
    using assms(1) le by (auto simp: self_types_post_def intro: self_types_ok_mono)
  ultimately show ?thesis by (simp add: self_types_post_def rbs_node_list_append_def)
qed

lemma self_types_round_ok:
  assumes "ready m p" and "within p q" and "self_types_post p sts q"
  shows "run_ok q (round_post (self_types_post p) (\<lambda>sts r. consumed p r \<and> self_types_post p sts r) q) (self_types_round sts q)"
proof -
  note q = within_ok [OF assms(2)] and ready = within_ready [OF assms(2,1)]
  have plain: "self_types_post p (rbs_node_list_append sts
      ((rbs_ast_declarations_module_self_new (location_from (current_start q1) (r_end nr)) nm rbs_node_list_new (RBS_RANGE_LEX2AST nr))
        \<lparr>mself_args_range := RBS_LOCATION_NULL_RANGE\<rparr>)) r'"
    if "type_name_post {CLASS_NAME, INTERFACE_NAME} q (nr, nm) r" "next_token q = current_token q1" "within q r" "within r r'" for q1 nr nm r r'
    using self_type_next [OF assms(3,2) that(3,4), where ar = NULL_RANGE and args = "[]"] that(1,2)
    by (simp add: type_name_post_def Let_def rbs_node_list_new_def)
  have args: "self_types_post p (rbs_node_list_append sts
      ((rbs_ast_declarations_module_self_new (location_from (current_start q1) e) nm as (RBS_RANGE_LEX2AST nr))
        \<lparr>mself_args_range := RBS_RANGE_LEX2AST \<lparr>r_start = current_start q2, r_end = e\<rparr>\<rparr>)) r'"
    if "type_name_post {CLASS_NAME, INTERFACE_NAME} q (nr, nm) r" "types_post True False False q2 as q3" "e = current_end q4"
      "next_token q = current_token q1" "within q r" "within r q2" "within q2 q3" "within q3 q4" "within q4 r'" "consumed q q2"
    for q1 nr nm r q2 as q3 q4 e r'
  proof -
    have w: "within q q4" using that(5-8) by (meson within_trans)
    have le: "tok_begin (next_token q) \<le> tok_begin (current_token q2)" "tok_begin (current_token q2) \<le> tok_end (current_token q3)"
      "tok_end (current_token q3) \<le> tok_end (current_token q4)" "tok_end (current_token r) \<le> tok_end (current_token q4)"
      using that(10) current_to_end [OF that(7)] within_pos(1) [OF that(8)] within_pos(1) [OF that(6)] within_pos(1) [OF that(7)]
      by (simp_all add: consumed_def)
    have "trees_ok True False False (tok_begin (current_token q2)) (tok_end (current_token q3)) as"
      using types_post_on [OF that(2) within_ok [OF that(6)]] .
    then have "trees_ok True False False (tok_begin (next_token q)) (tok_end (current_token q4)) as"
      using le by (auto intro: trees_ok_mono)
    then show ?thesis
      using that(1,3,4) le
      by (intro self_type_next [OF assms(3,2) w that(9)])
        (auto simp: type_name_post_def Let_def null_or_between_def intro: name_ok_mono between_mono)
  qed
  show ?thesis
    unfolding self_types_round_def Let_def split_beta
    by (intro run_ok_advance_name [OF _ ready] run_ok_if run_ok_call [OF top.type_list_ok] run_ok_advance run_ok_return)
      (use assms ready q in \<open>auto simp: within_ok intro: progress_intros plain args\<close>)
qed

lemma self_types_parsed:
  assumes "ready m p"
  shows "reads p self_types_post (parse_module_self_types rbs_node_list_new p)"
  unfolding parse_module_self_types_def
  by (rule while_reads [where I = "self_types_post p"])
    (use assms self_types_round_ok [OF assms] in \<open>auto simp: ready_ok self_types_post_def rbs_node_list_new_def\<close>)

definition self_part_post ::
  "rbs_parser \<Rightarrow> rbs_range \<times> rbs_range \<times> rbs_ast_declarations_module_self list \<Rightarrow> rbs_parser \<Rightarrow> bool"
where
  "self_part_post p x q \<longleftrightarrow>
     (case x of (cr, sr, sts) \<Rightarrow>
      let a = tok_begin (next_token p); b = tok_end (current_token q) in
      null_or_between a b (RBS_RANGE_LEX2AST cr) \<and> null_or_between a b (RBS_RANGE_LEX2AST sr) \<and> self_types_ok a b sts)"

lemma self_part_ok:
  assumes "ready m p"
  shows "may_read p self_part_post (module_self_part p)"
proof -
  have result: "self_part_post p (tok_range (current_token q), \<lparr>r_start = next_start q, r_end = current_end r\<rparr>, sts) r"
    if "self_types_post q sts r" "ahead p q" "consumed q r" for q sts r
    using that after_first [OF ahead_ok(2) [OF that(2)]] consumed_order [OF that(3)] within_pos(1) [OF consumed_within [OF that(3)]]
    by (auto simp: self_part_post_def self_types_post_def null_or_between_def between_def ahead_def consumed_def intro: self_types_ok_mono)
  have none: "self_part_post p (NULL_RANGE, NULL_RANGE, rbs_node_list_new) p"
    by (simp add: self_part_post_def rbs_node_list_new_def)
  show ?thesis
    unfolding may_read_def module_self_part_def Let_def
    by (intro run_ok_if run_ok_advance_on run_ok_call_consumed [OF self_types_parsed] run_ok_return)
      (use assms ready_ok [OF assms] in \<open>auto intro: progress_intros result none\<close>)
qed

definition super_part_post :: "rbs_parser \<Rightarrow> rbs_range \<times> rbs_ast_declarations_class_super option \<Rightarrow> rbs_parser \<Rightarrow> bool" where
  "super_part_post p x q \<longleftrightarrow>
     (let a = tok_begin (next_token p); b = tok_end (current_token q) in
      null_or_between a b (RBS_RANGE_LEX2AST (fst x)) \<and> pred_option (super_ok a b) (snd x))"

lemma super_part_ok:
  assumes "ready m p"
  shows "may_read p super_part_post (parse_class_decl_super p)"
proof -
  have result: "super_part_post p (tok_range (current_token q), Some ((rbs_ast_declarations_class_super_new
      (location_from (next_start q) (current_end r)) nm args (RBS_RANGE_LEX2AST nr))\<lparr>super_args_range := RBS_RANGE_LEX2AST ar\<rparr>)) r"
    if "instance_name_post {CLASS_NAME} False q (nr, nm, args, ar) r" "ahead p q" "consumed q r" for q nr nm args ar r
    using that after_first [OF ahead_ok(2) [OF that(2)]] consumed_order [OF that(3)] within_pos(1) [OF consumed_within [OF that(3)]]
    by (auto simp: super_part_post_def instance_name_post_def Let_def null_or_between_def between_def ahead_def consumed_def super_ok_def
        rbs_ast_declarations_class_super_new_def)
  have none: "super_part_post p (NULL_RANGE, None) p"
    by (simp add: super_part_post_def)
  show ?thesis
    unfolding may_read_def parse_class_decl_super_def Let_def split_beta
    by (intro run_ok_if run_ok_advance_if run_ok_call_consumed [OF class_instance_name_ok] run_ok_return)
      (use assms ready_ok [OF assms] in \<open>auto intro: progress_intros result none\<close>)
qed

subsection \<open>Modules and classes\<close>

text \<open>Both kinds of alias; \<open>q\<close> has read the new name of the declaration that starts on \<open>p\<close>.\<close>

lemma alias_decl_ok:
  assumes "ready m p0" and "within p0 p" and "within p q" "next_type q = pEQ" and "vars q = vars p"
    and "type_name_post {CLASS_NAME} p (nr, nm) q"
    and mk: "\<And>l on er onr. between (tok_begin (current_token p)) (end_byte l) er \<Longrightarrow>
      between (tok_begin (current_token p)) (end_byte l) onr \<Longrightarrow> name_ok (tok_begin (current_token p)) (end_byte l) on \<Longrightarrow>
      start_byte l = tok_begin (current_token p) \<Longrightarrow> tok_end (current_token q) \<le> end_byte l \<Longrightarrow>
      member_ok (RBS_RANGE_LEX2AST u) False (tok_begin (current_token p)) (end_byte l) (f l on er onr) \<and> is_declaration (f l on er onr)"
  shows "reads_at p0 p (decl_post u p) (alias_decl f (tok_range (current_token p)) q)"
proof -
  have result: "decl_post u p (f (location_from (current_start p) (r_end onr)) on (RBS_RANGE_LEX2AST er) (RBS_RANGE_LEX2AST onr)) r"
    if "type_name_post {CLASS_NAME} q1 (onr, on) r" "ahead q q1" "within q1 r" "er = tok_range (current_token q1)" for q1 onr on r er
  proof -
    have w: "within p q1" using that(2) assms(3) by (meson ahead_consumed consumed_within within_trans)
    have "tok_begin (current_token p) \<le> tok_begin (current_token q1)" "tok_begin (current_token q1) \<le> tok_end (current_token q1)"
      "tok_end (current_token q1) \<le> tok_end (current_token r)" "tok_begin (current_token p) \<le> tok_begin (next_token q1)"
      "tok_end (current_token q) \<le> tok_end (current_token r)"
      using within_pos(2) [OF w] after_first [OF w] within_pos(1) [OF that(3)]
        within_pos(1) [OF consumed_within [OF ahead_consumed [OF that(2)]]] by simp_all
    then show ?thesis
      using that(1,4) mk [of "location_from (current_start p) (r_end onr)" "RBS_RANGE_LEX2AST er" "RBS_RANGE_LEX2AST onr" on]
      by (auto simp: decl_post_def member_post_def type_name_post_def Let_def between_def intro: name_ok_mono)
  qed
  show ?thesis
    unfolding reads_at_def alias_decl_def Let_def split_beta
    by (intro run_ok_advance_on run_ok_advance_name [OF _ assms(1)] run_ok_return)
      (use assms within_trans [OF assms(2,3)] in \<open>auto intro: progress_intros result\<close>)
qed

subsection \<open>Nested declarations\<close>

text \<open>
  What the functions for classes and modules need of the parser of nested declarations, which
  they may call where fewer than \<open>m\<close> bytes are left.
\<close>

lemma bytes_within: "within p q \<Longrightarrow> bytes_left q \<le> bytes_left p"
  by (simp add: within_def parser_step_def)

lemma ready_fewer: "ready k q \<Longrightarrow> bytes_left q < m \<Longrightarrow> ready m q"
  by (simp add: ready_def)

locale nested_decls =
  fixes nested :: decl_parser and u :: rbs_range and m :: nat
  assumes nested_ok: "ready k p0 \<Longrightarrow> bytes_left p < m \<Longrightarrow> within p0 p \<Longrightarrow> (current_type p \<noteq> pEOF \<Longrightarrow> ahead p0 p) \<Longrightarrow> scope_open (vars p) \<Longrightarrow>
    reads_at p0 p (decl_post u p) (nested comment_pos annotations p)"
begin

lemma module_members_ok:
  assumes "ready m p" and "scope_open (vars p)"
  shows "may_read p (members_post u False) (parse_module_members nested u p)"
  unfolding parse_module_members_def
proof (rule members_loop_ok [OF ready_ok [OF assms(1)]])
  fix q q1 annot_pos annotations
  assume q: "within p q" "vars q1 = vars p" "within q q1" "current_type q1 \<noteq> pEOF \<Longrightarrow> ahead q q1"
  have r: "ready m q" "scope_open (vars q1)" using within_ready [OF q(1) assms(1)] assms(2) q(2) by simp_all
  have fail: "reads_at q q1 (member_post u False q1) (fail_with q1 t b msg)" for t b msg
    unfolding reads_at_def by (rule run_ok_fail [OF q(3)])
  have few: "bytes_left q1 < m" using assms(1) bytes_within [OF q(1)] bytes_within [OF q(3)] by (simp add: ready_def)
  have decl: "reads_at q q1 (member_post u False q1) (nested annot_pos annotations q1)"
    using nested_ok [OF r(1) few q(3,4) r(2)] unfolding reads_at_def decl_post_def by (rule run_ok_mono) simp_all
  show "reads_at q q1 (member_post u False q1) (module_member_on_token nested u annot_pos annotations q1)"
    unfolding module_member_on_token_def
    using member_def_ok [OF r(1) q(3) r(2)] mixin_ok [OF r(1) q(3) r(2)] alias_ok [OF r(1) q(3)]
      variable_ok [OF r(1) _ r(2)] attribute_ok [OF r(1) q(3) r(2)] visibility_ok fail decl q(4)
    by auto
qed

lemma module_decl0_ok:
  assumes "ready m q" and "within p0 p" "consumed p q" "vars q = vars p" and "scope_open (vars p)"
    and "type_name_post {CLASS_NAME} p (nr, nm) q"
  shows "reads_at p0 p (decl_post u p) (parse_module_decl0 nested u (tok_range (current_token p)) nm nr comment annotations q)"
proof -
  note pq = consumed_within [OF assms(3)]
  have result: "decl_post u p
      (set_member_self_types_range (RBS_RANGE_LEX2AST sr) (set_member_colon_range (RBS_RANGE_LEX2AST cr)
        (set_member_type_params_range (RBS_RANGE_LEX2AST pr)
          (rbs_ast_declarations_module_new (location_from (current_start p) e) nm ps sts ms annotations comment
            (RBS_RANGE_LEX2AST (tok_range (current_token p))) (RBS_RANGE_LEX2AST nr) (RBS_RANGE_LEX2AST er))))) r"
    if "type_params_post True q (pr, ps) q1" "self_part_post q1 (cr, sr, sts) q2" "members_post u False q2 ms q3"
      "within q q1" "within q1 q2" "within q2 q3" "within q3 r" "er = tok_range (current_token r)" "e = r_end er"
    for pr ps q1 cr sr sts q2 ms q3 r er e
  proof -
    have c: "consumed p q1" "consumed p q2" "within p q1" "within q1 r" "within q2 r"
      using that(4-7) assms(3) by (meson consumed_trans consumed_within within_trans)+
    have le: "tok_begin (current_token p) \<le> tok_begin (next_token q1)" "tok_end (current_token q2) \<le> tok_end (current_token r)"
      using after_first(3) [OF within_trans [OF assms(2) c(3)]] within_pos(2) [OF c(3)] within_pos(1) [OF c(5)] by simp_all
    note b = body_result [OF that(3) assms(2) c(2) that(6,7)]
    have "header_post {CLASS_NAME} p nr nm (pr, ps) r"
      using header_mono [OF header_intro [OF assms(6) that(1) within_ok [OF assms(2)] pq that(4)] c(4)] .
    moreover have "null_or_between (tok_begin (current_token p)) (tok_end (current_token r)) (RBS_RANGE_LEX2AST cr)"
      "null_or_between (tok_begin (current_token p)) (tok_end (current_token r)) (RBS_RANGE_LEX2AST sr)"
      "self_types_ok (tok_begin (current_token p)) (tok_end (current_token r)) sts"
      using that(2) le by (auto simp: self_part_post_def Let_def intro: null_or_between_mono self_types_ok_mono)
    ultimately show ?thesis
      using b that(8,9)
      by (simp add: decl_post_def member_post_def members_member_ok is_declaration_def member_parts parts_ok_def header_post_def
          Let_def params_ok_def members_ok_def self_types_ok_def rbs_ast_declarations_module_new_def set_member_type_params_range_def
          set_member_colon_range_def set_member_self_types_range_def)
  qed
  show ?thesis
    unfolding reads_at_def parse_module_decl0_def Let_def split_beta push_value
    by (intro run_ok_scope_call [OF header_params_ok [where vs = "vars p"]] run_ok_may_call [OF self_part_ok]
        run_ok_may_call [OF module_members_ok] run_ok_advance_assert run_ok_pop_pushed [where reset = True and vs = "vars p"] run_ok_return)
      (use assms pq within_trans [OF assms(2) pq] in \<open>auto simp: within_ok declares_open intro: progress_intros result\<close>)
qed

lemma class_decl0_ok:
  assumes "ready m q" and "within p0 p" "consumed p q" "vars q = vars p" and "scope_open (vars p)"
    and "type_name_post {CLASS_NAME} p (nr, nm) q"
  shows "reads_at p0 p (decl_post u p) (parse_class_decl0 nested u (tok_range (current_token p)) nm nr comment annotations q)"
proof -
  note pq = consumed_within [OF assms(3)]
  have result: "decl_post u p
      (set_member_lt_range (RBS_RANGE_LEX2AST lt) (set_member_type_params_range (RBS_RANGE_LEX2AST pr)
          (rbs_ast_declarations_class_new (location_from (current_start p) e) nm ps sc ms annotations comment
            (RBS_RANGE_LEX2AST (tok_range (current_token p))) (RBS_RANGE_LEX2AST nr) (RBS_RANGE_LEX2AST er)))) r"
    if "type_params_post True q (pr, ps) q1" "super_part_post q1 (lt, sc) q2" "members_post u False q2 ms q3"
      "within q q1" "within q1 q2" "within q2 q3" "within q3 r" "er = tok_range (current_token r)" "e = r_end er"
    for pr ps q1 lt sc q2 ms q3 r er e
  proof -
    have c: "consumed p q1" "consumed p q2" "within p q1" "within q1 r" "within q2 r"
      using that(4-7) assms(3) by (meson consumed_trans consumed_within within_trans)+
    have le: "tok_begin (current_token p) \<le> tok_begin (next_token q1)" "tok_end (current_token q2) \<le> tok_end (current_token r)"
      using after_first(3) [OF within_trans [OF assms(2) c(3)]] within_pos(2) [OF c(3)] within_pos(1) [OF c(5)] by simp_all
    note b = body_result [OF that(3) assms(2) c(2) that(6,7)]
    have "header_post {CLASS_NAME} p nr nm (pr, ps) r"
      using header_mono [OF header_intro [OF assms(6) that(1) within_ok [OF assms(2)] pq that(4)] c(4)] .
    moreover have "null_or_between (tok_begin (current_token p)) (tok_end (current_token r)) (RBS_RANGE_LEX2AST lt)"
      "pred_option (super_ok (tok_begin (current_token p)) (tok_end (current_token r))) sc"
      using that(2) le by (auto simp: super_part_post_def Let_def pred_option_def intro: null_or_between_mono super_ok_mono)
    ultimately show ?thesis
      using b that(8,9)
      by (cases sc)
        (simp_all add: decl_post_def member_post_def members_member_ok is_declaration_def member_parts parts_ok_def header_post_def
          Let_def params_ok_def members_ok_def rbs_ast_declarations_class_new_def set_member_type_params_range_def
          set_member_lt_range_def)
  qed
  show ?thesis
    unfolding reads_at_def parse_class_decl0_def Let_def split_beta push_value
    by (intro run_ok_scope_call [OF header_params_ok [where vs = "vars p"]] run_ok_may_call [OF super_part_ok]
        run_ok_may_call [OF module_members_ok] run_ok_advance_assert run_ok_pop_pushed [where reset = True and vs = "vars p"] run_ok_return)
      (use assms pq within_trans [OF assms(2) pq] in \<open>auto simp: within_ok declares_open intro: progress_intros result\<close>)
qed

lemma module_decl_ok:
  assumes "ready k p0" and "ahead p0 p" and "scope_open (vars p)" and "bytes_left p \<le> m"
  shows "reads_at p0 p (decl_post u p) (parse_module_decl nested u comment_pos annotations p)"
proof -
  note w = ahead_ok(2) [OF assms(2)]
  show ?thesis
    unfolding reads_at_def parse_module_decl_def Let_def split_beta
  proof (intro run_ok_comment run_ok_advance_name [OF w assms(1)] run_ok_if)
    fix comment q1 x q
    assume q: "consumed p0 q" "consumed p q" "within p q" "vars q = vars p" "type_name_post {CLASS_NAME} p x q" "next_type q = pEQ"
    show "run_ok p0 (\<lambda>v r. consumed p0 r \<and> vars r = vars p \<and> decl_post u p v r)
        (alias_decl (\<lambda>loc old_name eq_rg. rbs_ast_declarations_module_alias_new loc (snd x) old_name comment annotations
             (RBS_RANGE_LEX2AST (tok_range (current_token p))) (RBS_RANGE_LEX2AST (fst x)) eq_rg)
           (tok_range (current_token p)) q)"
      using q(5) after_first [OF w] within_pos(1) [OF q(3)]
      by (intro alias_decl_ok [unfolded reads_at_def, OF assms(1) w q(3,6,4), where nr = "fst x" and nm = "snd x"])
        (auto simp: decl_defs rbs_ast_declarations_module_alias_new_def type_name_post_def Let_def between_def intro: name_ok_mono)
  next
    fix comment q1 x q
    assume q: "consumed p0 q" "consumed p q" "within p q" "vars q = vars p" "type_name_post {CLASS_NAME} p x q"
    then show "run_ok p0 (\<lambda>v r. consumed p0 r \<and> vars r = vars p \<and> decl_post u p v r)
        (parse_module_decl0 nested u (tok_range (current_token p)) (snd x) (fst x) comment annotations q)"
      using module_decl0_ok [OF ready_fewer [OF within_ready [OF consumed_within [OF q(1)] assms(1)]] w, of "fst x" "snd x"] assms(3,4)
      by (simp add: reads_at_def consumed_def)
  qed
qed

lemma class_decl_ok:
  assumes "ready k p0" and "ahead p0 p" and "scope_open (vars p)" and "bytes_left p \<le> m"
  shows "reads_at p0 p (decl_post u p) (parse_class_decl nested u comment_pos annotations p)"
proof -
  note w = ahead_ok(2) [OF assms(2)]
  show ?thesis
    unfolding reads_at_def parse_class_decl_def Let_def split_beta
  proof (intro run_ok_comment run_ok_advance_name [OF w assms(1)] run_ok_if)
    fix comment q1 x q
    assume q: "consumed p0 q" "consumed p q" "within p q" "vars q = vars p" "type_name_post {CLASS_NAME} p x q" "next_type q = pEQ"
    show "run_ok p0 (\<lambda>v r. consumed p0 r \<and> vars r = vars p \<and> decl_post u p v r)
        (alias_decl (\<lambda>loc old_name eq_rg. rbs_ast_declarations_class_alias_new loc (snd x) old_name comment annotations
             (RBS_RANGE_LEX2AST (tok_range (current_token p))) (RBS_RANGE_LEX2AST (fst x)) eq_rg)
           (tok_range (current_token p)) q)"
      using q(5) after_first [OF w] within_pos(1) [OF q(3)]
      by (intro alias_decl_ok [unfolded reads_at_def, OF assms(1) w q(3,6,4), where nr = "fst x" and nm = "snd x"])
        (auto simp: decl_defs rbs_ast_declarations_class_alias_new_def type_name_post_def Let_def between_def intro: name_ok_mono)
  next
    fix comment q1 x q
    assume q: "consumed p0 q" "consumed p q" "within p q" "vars q = vars p" "type_name_post {CLASS_NAME} p x q"
    then show "run_ok p0 (\<lambda>v r. consumed p0 r \<and> vars r = vars p \<and> decl_post u p v r)
        (parse_class_decl0 nested u (tok_range (current_token p)) (snd x) (fst x) comment annotations q)"
      using class_decl0_ok [OF ready_fewer [OF within_ready [OF consumed_within [OF q(1)] assms(1)]] w, of "fst x" "snd x"] assms(3,4)
      by (simp add: reads_at_def consumed_def)
  qed
qed

lemma decl_on_token_ok:
  assumes "ready k p0" and "within p0 p" and "current_type p \<noteq> pEOF \<Longrightarrow> ahead p0 p" and "scope_open (vars p)" and "bytes_left p \<le> m"
  shows "reads_at p0 p (decl_post u p) (decl_on_token message nested u comment_pos annotations p)"
proof -
  have fail: "reads_at p0 p (decl_post u p) (fail_with p t b msg)" for t b msg
    unfolding reads_at_def by (rule run_ok_fail [OF assms(2)])
  show ?thesis
    unfolding decl_on_token_def
    using const_ok [OF assms(1,3)] global_ok [OF assms(1,3)] type_decl_ok [OF assms(1,2,4)] interface_decl_ok [OF assms(1,2,4)]
      module_decl_ok [OF assms(1,3,4,5)] class_decl_ok [OF assms(1,3,4,5)] fail
    by auto
qed

end

text \<open>The fuel is enough: every nested declaration has read a token more.\<close>

lemma nested_decl_fuel_ok: "nested_decls (parse_nested_decl_fuel n u) u n"
proof (induction n)
  case 0
  show ?case by unfold_locales simp
next
  case (Suc n)
  show ?case
  proof
    fix k p0 p comment_pos annotations
    assume p: "ready k p0" "bytes_left p < Suc n" "within p0 p" "current_type p \<noteq> pEOF \<Longrightarrow> ahead p0 p" "scope_open (vars p)"
    let ?p = "p\<lparr>vars := pushed True (vars p)\<rparr>"
    have "reads_at p0 ?p (decl_post u ?p) (decl_on_token message (parse_nested_decl_fuel n u) u comment_pos annotations ?p)" for message
      by (rule nested_decls.decl_on_token_ok [OF Suc.IH]) (use p in simp_all)
    note call = run_ok_call_at [OF this within_refl [OF ready_ok [OF p(1)]]]
    show "reads_at p0 p (decl_post u p) (parse_nested_decl_fuel (Suc n) u comment_pos annotations p)"
      unfolding reads_at_def parse_nested_decl_fuel.simps push_value
      by (intro call run_ok_pop_same run_ok_return) (use p in auto)
  qed
qed

interpretation nested: nested_decls "parse_nested_decl u" u m for u m
proof
  fix k p0 p comment_pos annotations
  assume p: "ready k p0" "within p0 p" "current_type p \<noteq> pEOF \<Longrightarrow> ahead p0 p" "scope_open (vars p)"
  show "reads_at p0 p (decl_post u p) (parse_nested_decl u comment_pos annotations p)"
    unfolding parse_nested_decl_def
    by (rule nested_decls.nested_ok [OF nested_decl_fuel_ok p(1) _ p(2,3,4)]) simp_all
qed

lemma decl_ok:
  assumes "ready m p" and "scope_open (vars p)"
  shows "reads p (\<lambda>p d q. is_declaration d \<and> member_ok (RBS_RANGE_LEX2AST u) False (tok_end (current_token p)) (tok_end (current_token q)) d)
    (parse_decl u p)"
  unfolding reads_def parse_decl_def split_beta
proof (intro run_ok_may_call [OF annotations_parsed [OF ready_ok [OF assms(1)]]] within_refl [OF ready_ok [OF assms(1)]])
  fix x q assume q: "within p q" "vars q = vars p"
  show "run_ok p (\<lambda>d r. consumed p r \<and> vars r = vars p \<and> is_declaration d \<and>
        member_ok (RBS_RANGE_LEX2AST u) False (tok_end (current_token p)) (tok_end (current_token r)) d)
      (advancing q (\<lambda>q. decl_on_token ''cannot start a declaration'' (parse_nested_decl u) u (snd x) (fst x) q))"
  proof (rule run_ok_advance [OF q(1)])
    fix q1 assume q1: "within p q1" "vars q1 = vars q" "next_token q = current_token q1" "current_type q1 \<noteq> pEOF \<Longrightarrow> ahead p q1 \<and> ahead q q1"
    have le: "tok_end (current_token p) \<le> tok_begin (current_token q1)"
      using within_pos(1) [OF q(1)] after_first(2) [OF q(1)] q1(3) by simp
    have "reads_at p q1 (decl_post u q1) (decl_on_token message (parse_nested_decl u) u (snd x) (fst x) q1)" for message
      by (rule nested.decl_on_token_ok [OF assms(1) q1(1)]) (use assms(2) q(2) q1 in auto)
    then show "run_ok p (\<lambda>d r. consumed p r \<and> vars r = vars p \<and> is_declaration d \<and>
          member_ok (RBS_RANGE_LEX2AST u) False (tok_end (current_token p)) (tok_end (current_token r)) d)
        (decl_on_token ''cannot start a declaration'' (parse_nested_decl u) u (snd x) (fst x) q1)"
      unfolding reads_at_def
      by (rule run_ok_mono) (use q(2) q1(2) le in \<open>auto simp: decl_post_def intro: member_between\<close>)
  qed
qed

end
