(* ===== verification/SignatureSpec.thy ===== *)
theory SignatureSpec
  imports DeclSpec
begin

text \<open>
  The contracts of the parsers of \<open>use\<close> directives and of whole signatures.
\<close>

subsection \<open>Directives\<close>

text \<open>
  A clause has a namespace only when there are tokens of it; the name after \<open>as\<close> has the null
  range as its location, and the location of a wildcard without a namespace starts at \<open>-1\<close>.
\<close>

definition namespace_ok :: "int \<Rightarrow> int \<Rightarrow> rbs_namespace \<Rightarrow> bool" where
  "namespace_ok lo hi ns \<longleftrightarrow>
     null_or_between lo hi (ns_location ns) \<and> list_all (\<lambda>y. between lo hi (sym_location y)) (ns_path ns)"

definition use_clause_ok :: "int \<Rightarrow> int \<Rightarrow> rbs_use_clause \<Rightarrow> bool" where
  "use_clause_ok lo hi clause \<longleftrightarrow>
     (case clause of
        Ast_Directives_Use_Single_Clause l name new_name name_range keyword_range new_name_range \<Rightarrow>
          between lo hi l \<and> between (start_byte l) (end_byte l) name_range \<and> tn_location name = name_range \<and>
          namespace_ok (start_byte name_range) (end_byte name_range) (tn_rbs_namespace name) \<and>
          between (start_byte name_range) (end_byte name_range) (sym_location (tn_name name)) \<and>
          null_or_between (start_byte l) (end_byte l) keyword_range \<and>
          null_or_between (start_byte l) (end_byte l) new_name_range \<and>
          pred_option (\<lambda>y. sym_location y = RBS_LOCATION_NULL_RANGE) new_name
      | Ast_Directives_Use_Wildcard_Clause l ns namespace_range star_range \<Rightarrow>
          (start_byte l = -1 \<or> lo \<le> start_byte l) \<and> end_byte l \<le> hi \<and> between lo hi star_range \<and>
          end_byte l = end_byte star_range \<and> ns_location ns = namespace_range \<and> namespace_ok lo hi ns)"

definition namespace_post :: "rbs_parser \<Rightarrow> rbs_range \<times> rbs_namespace \<Rightarrow> rbs_parser \<Rightarrow> bool" where
  "namespace_post p x q \<longleftrightarrow>
     (let a = tok_begin (next_token p); b = tok_end (current_token q) in
      ns_location (snd x) = RBS_RANGE_LEX2AST (fst x) \<and>
      (if fst x = NULL_RANGE then ns_path (snd x) = [] \<and> q = p
       else between a b (RBS_RANGE_LEX2AST (fst x)) \<and>
         list_all (\<lambda>y. between (byte_pos (r_start (fst x))) (byte_pos (r_end (fst x))) (sym_location y)) (ns_path (snd x))))"

definition namespace_state :: "rbs_parser \<Rightarrow> rbs_range \<times> rbs_ast_symbol list \<Rightarrow> rbs_parser \<Rightarrow> bool" where
  "namespace_state p x q \<longleftrightarrow>
     (let a = tok_begin (next_token p); b = tok_end (current_token q) in
      if fst x = NULL_RANGE then snd x = [] \<and> q = p
      else between a b (RBS_RANGE_LEX2AST (fst x)) \<and>
        list_all (\<lambda>y. between (byte_pos (r_start (fst x))) (byte_pos (r_end (fst x))) (sym_location y)) (snd x))"

lemma namespace_next:
  assumes "parser_ok p" and "namespace_state p x q" and "within p q" and "consumed q q1" "consumed q1 q2"
    and "ns_start = (if rbs_null_position_p (r_start (fst x)) then current_start q1 else r_start (fst x))"
  shows "namespace_state p (\<lparr>r_start = ns_start, r_end = current_end q2\<rparr>,
    rbs_node_list_append (snd x) (rbs_ast_symbol_new (RBS_RANGE_LEX2AST (tok_range (current_token q1))) i)) q2"
proof -
  have w: "within p q1" "within p q2" "within q1 q2"
    using assms(3-5) by (meson consumed_within within_trans)+
  have le: "0 \<le> tok_begin (next_token p)" "tok_begin (next_token p) \<le> tok_begin (current_token q1)"
    "tok_begin (current_token q1) \<le> tok_end (current_token q1)" "tok_end (current_token q1) \<le> tok_end (current_token q2)"
    "tok_end (current_token q) \<le> tok_begin (current_token q1)"
    using window_order(9) [OF assms(1)] within_pos(3) [OF assms(3)] assms(4) after_first [OF w(1)] within_pos(1) [OF w(3)]
      after_first(2) [OF assms(3)] by (simp_all add: consumed_def)
  show ?thesis
  proof (cases "fst x = NULL_RANGE")
    case True
    with assms(2,6) le show ?thesis
      by (auto simp: namespace_state_def rbs_node_list_append_def rbs_ast_symbol_new_def NULL_RANGE_def NullPosition_def
          rbs_null_position_p_def between_def)
  next
    case False
    then have s: "between (tok_begin (next_token p)) (tok_end (current_token q)) (RBS_RANGE_LEX2AST (fst x))"
      "list_all (\<lambda>y. between (byte_pos (r_start (fst x))) (byte_pos (r_end (fst x))) (sym_location y)) (snd x)"
      using assms(2) by (simp_all add: namespace_state_def Let_def)
    then have "ns_start = r_start (fst x)" using le assms(6) by (simp add: between_def rbs_null_position_p_def)
    with s le show ?thesis
      by (auto simp: namespace_state_def rbs_node_list_append_def rbs_ast_symbol_new_def NULL_RANGE_def NullPosition_def
          between_def list_all_iff)
  qed
qed

lemma namespace_round_ok:
  assumes "ready m p" and "within p q" and "namespace_state p x q"
  shows "run_ok q (round_post (namespace_state p) (namespace_state p) q) (namespace_round x q)"
proof -
  have ready: "ready m q" "parser_ok q" using within_ready [OF assms(2,1)] ready_ok by auto
  show ?thesis
    unfolding namespace_round_def INTERN_TOKEN_def Let_def
    by (intro run_ok_if run_ok_intern_advance [OF _ ready(1)] run_ok_advance_on run_ok_return)
      (use assms ready in \<open>auto intro: progress_intros namespace_next ready_ok\<close>)
qed

lemma namespace_parsed:
  assumes "ready m p"
  shows "may_read p namespace_post (parse_namespace p)"
proof -
  have path: "may_read q (\<lambda>_. namespace_state p) (while_true namespace_round x q)" if "within p q" "namespace_state p x q" for q x
    by (rule while_rule [where p = p and I = "namespace_state p"]) (use that namespace_round_ok [OF assms] in auto)
  have result: "namespace_post p (rg, rbs_namespace_new (RBS_RANGE_LEX2AST rg) path absolute) q"
    if "namespace_state p (rg, path) q" for rg path absolute q
    using that by (auto simp: namespace_post_def namespace_state_def rbs_namespace_new_def Let_def)
  have initial: "namespace_state p (NULL_RANGE, rbs_node_list_new) p"
    by (simp add: namespace_state_def rbs_node_list_new_def)
  have absolute: "namespace_state p (tok_range (current_token q), rbs_node_list_new) q" if "ahead p q" for q
  proof -
    have "0 \<le> tok_begin (next_token p)" "tok_begin (next_token p) \<le> tok_begin (current_token q)" "tok_begin (current_token q) \<le> tok_end (current_token q)"
      using that window_order(9) [OF ready_ok [OF assms]] after_first(1) [OF ahead_ok(2) [OF that]] by (simp_all add: ahead_def consumed_def)
    then show ?thesis
      by (auto simp: namespace_state_def rbs_node_list_new_def between_def NULL_RANGE_def NullPosition_def)
  qed
  show ?thesis
    unfolding may_read_def parse_namespace_def Let_def split_beta
    by (intro run_ok_if run_ok_advance_on run_ok_may_call [OF path] run_ok_return)
      (use assms ready_ok [OF assms] in \<open>auto intro: progress_intros result initial absolute\<close>)
qed

definition clause_post :: "rbs_parser \<Rightarrow> rbs_use_clause \<Rightarrow> rbs_parser \<Rightarrow> bool" where
  "clause_post p clause q \<longleftrightarrow> use_clause_ok (tok_begin (next_token p)) (tok_end (current_token q)) clause"

text \<open>The range of the name of a clause; \<open>q\<close> is after the namespace, and \<open>r\<close> on the name.\<close>

definition clause_name :: "rbs_parser \<Rightarrow> rbs_range \<Rightarrow> rbs_namespace \<Rightarrow> rbs_range \<Rightarrow> rbs_token \<Rightarrow> bool" where
  "clause_name p tr ns sr tok \<longleftrightarrow>
     tok_begin (next_token p) \<le> byte_pos (r_start tr) \<and> byte_pos (r_start tr) \<le> tok_begin tok \<and>
     tok_begin tok \<le> tok_end tok \<and> byte_pos (r_end tr) = tok_end tok \<and> sr = tok_range tok \<and>
     namespace_ok (byte_pos (r_start tr)) (byte_pos (r_end tr)) ns"

lemma clause_name_ok:
  assumes "namespace_post p (nsr, ns) q" and "within p q" and "ahead q r" and "within p r"
    and "tr = (if rbs_null_range_p nsr then tok_range (current_token r) else \<lparr>r_start = r_start nsr, r_end = current_end r\<rparr>)" and "parser_ok p"
  shows "clause_name p tr ns (tok_range (current_token r)) (current_token r)"
proof -
  have le: "tok_begin (next_token p) \<le> tok_begin (next_token q)" "tok_begin (next_token q) \<le> tok_begin (current_token r)"
    "tok_end (current_token q) \<le> tok_begin (current_token r)" "tok_begin (current_token r) \<le> tok_end (current_token r)"
    "0 \<le> tok_begin (next_token p)"
    using within_pos(3) [OF assms(2)] assms(3) after_first(2) [OF assms(2)] after_first(1) [OF assms(4)]
      window_order(9) [OF assms(6)] by (simp_all add: ahead_def consumed_def)
  show ?thesis
  proof (cases "nsr = NULL_RANGE")
    case True
    with assms(1,5) le show ?thesis
      by (simp add: clause_name_def namespace_post_def namespace_ok_def rbs_null_range_p_def NULL_RANGE_def NullPosition_def
          null_range_location [unfolded NULL_RANGE_def NullPosition_def])
  next
    case False
    with assms(1) have ns: "between (tok_begin (next_token p)) (tok_end (current_token q)) (RBS_RANGE_LEX2AST nsr)"
      "list_all (\<lambda>y. between (byte_pos (r_start nsr)) (byte_pos (r_end nsr)) (sym_location y)) (ns_path ns)"
      "ns_location ns = RBS_RANGE_LEX2AST nsr"
      by (simp_all add: namespace_post_def Let_def)
    then have "\<not> rbs_null_range_p nsr" using le by (simp add: between_def rbs_null_range_p_def)
    with assms(5) ns le show ?thesis
      by (auto simp: clause_name_def namespace_ok_def null_or_between_def between_def list_all_iff)
  qed
qed

definition as_post :: "rbs_range \<Rightarrow> rbs_parser \<Rightarrow> rbs_range \<times> rbs_range \<times> rbs_range \<times> rbs_ast_symbol option \<Rightarrow> rbs_parser \<Rightarrow> bool" where
  "as_post tr p x q \<longleftrightarrow>
     (case x of (cr, kr, nr, new_name) \<Rightarrow>
      r_start cr = r_start tr \<and> tok_end (current_token p) \<le> byte_pos (r_end cr) \<and> byte_pos (r_end cr) \<le> tok_end (current_token q) \<and>
      null_or_between (tok_end (current_token p)) (byte_pos (r_end cr)) (RBS_RANGE_LEX2AST kr) \<and>
      null_or_between (tok_end (current_token p)) (byte_pos (r_end cr)) (RBS_RANGE_LEX2AST nr) \<and>
      pred_option (\<lambda>y. sym_location y = RBS_LOCATION_NULL_RANGE) new_name)"

lemma as_ok:
  assumes "ready m p" and "byte_pos (r_end tr) = tok_end (current_token p)" and "t \<noteq> pEOF"
  shows "may_read p (as_post tr) (use_as t tr p)"
proof -
  have result: "as_post tr p (\<lparr>r_start = r_start tr, r_end = r_end nr\<rparr>, kr, nr,
      Some (rbs_ast_symbol_new RBS_LOCATION_NULL_RANGE i)) r"
    if "kr = tok_range (current_token q)" "nr = tok_range (current_token q1)" "current_token r = current_token q1"
      "ahead p q" "ahead q q1" for kr nr q q1 r i
  proof -
    have w: "within p q" "within q q1" "within p q1"
      using that(4,5) ahead_ok(2) within_trans by blast+
    have "tok_end (current_token p) \<le> tok_begin (current_token q)" "tok_begin (current_token q) \<le> tok_end (current_token q)"
      "tok_end (current_token q) \<le> tok_begin (current_token q1)" "tok_begin (current_token q1) \<le> tok_end (current_token q1)"
      using window_order(1) [OF ready_ok [OF assms(1)]] that(4,5) after_first(1,2) [OF w(1)] after_first(1) [OF w(3)]
      by (auto simp: ahead_def consumed_def)
    then show ?thesis
      using that(1-3) by (auto simp: as_post_def null_or_between_def between_def rbs_ast_symbol_new_def)
  qed
  have none: "as_post tr p (tr, NULL_RANGE, NULL_RANGE, None) p"
    using assms(2) by (simp add: as_post_def)
  show ?thesis
    unfolding may_read_def use_as_def INTERN_TOKEN_def Let_def
    by (intro run_ok_if run_ok_advance_on run_ok_advance_assert run_ok_interning [OF _ assms(1)] run_ok_return)
      (use assms ready_ok [OF assms(1)] in \<open>auto intro: progress_intros result none\<close>)
qed

lemma single_node_ok:
  assumes "as_post tr q (cr, kr, nr, new_name) r" and "clause_name p tr ns sr (current_token q)"
  shows "clause_post p
    (set_use_new_name_range (RBS_RANGE_LEX2AST nr) (set_use_keyword_range (RBS_RANGE_LEX2AST kr)
      (rbs_ast_directives_use_single_clause_new (RBS_RANGE_LEX2AST cr)
        (rbs_type_name_new (RBS_RANGE_LEX2AST tr) ns (rbs_ast_symbol_new (RBS_RANGE_LEX2AST sr) i)) new_name (RBS_RANGE_LEX2AST tr)))) r"
  using assms
  by (auto simp: clause_post_def as_post_def use_clause_ok_def clause_name_def set_use_new_name_range_def set_use_keyword_range_def
      rbs_type_name_new_def rbs_ast_symbol_new_def rbs_ast_directives_use_single_clause_new_def between_def null_or_between_def)

lemma single_clause_ok:
  assumes "ready m p" and "namespace_post p (nsr, ns) q" and "within p q" and "next_type q \<noteq> pEOF"
  shows "reads q (\<lambda>_. clause_post p) (use_single_clause nsr ns q)"
  unfolding reads_def use_single_clause_def INTERN_TOKEN_def rbs_location_range_current_token_def Let_def
proof (rule run_ok_advance_on [OF within_refl])
  fix r assume r: "ahead q r" "within q r" "vars r = vars q" "next_token q = current_token r"
  have ready: "ready m q" using within_ready [OF assms(3,1)] .
  define tr where "tr = (if rbs_null_range_p nsr then tok_range (current_token r) else \<lparr>r_start = r_start nsr, r_end = current_end r\<rparr>)"
  have name: "clause_name p tr ns (tok_range (current_token r)) (current_token r)"
    unfolding tr_def by (rule clause_name_ok [OF assms(2,3) r(1) within_trans [OF assms(3) r(2)] refl ready_ok [OF assms(1)]])
  then have tr: "byte_pos (r_end tr) = tok_end (current_token r)" by (simp add: clause_name_def)
  have "run_ok q (\<lambda>v r. consumed q r \<and> vars r = vars q \<and> clause_post p v r)
     (interning r (source_constant r (rbs_peek_token (lexer r) (current_token r)) (nat (rbs_token_bytes (current_token r))))
       (\<lambda>i r1. check_parse (use_as (current_type r) tr r1) (\<lambda>(cr, kr, nr, new_name). Done
          (set_use_new_name_range (RBS_RANGE_LEX2AST nr) (set_use_keyword_range (RBS_RANGE_LEX2AST kr)
            (rbs_ast_directives_use_single_clause_new (RBS_RANGE_LEX2AST cr)
              (rbs_type_name_new (RBS_RANGE_LEX2AST tr) ns (rbs_ast_symbol_new (RBS_RANGE_LEX2AST (tok_range (current_token r))) i))
              new_name (RBS_RANGE_LEX2AST tr)))))))"
    unfolding split_beta
    by (intro run_ok_interning [OF r(1) ready] run_ok_may_call [OF as_ok] run_ok_return)
      (use assms r tr name in \<open>auto intro: progress_intros single_node_ok\<close>)
  then show "run_ok q (\<lambda>v r. consumed q r \<and> vars r = vars q \<and> clause_post p v r)
     (interning r (source_constant r (rbs_peek_token (lexer r) (current_token r)) (nat (rbs_token_bytes (current_token r))))
       (\<lambda>i r1. check_parse (use_as (current_type r)
            (if rbs_null_range_p nsr then tok_range (current_token r) else \<lparr>r_start = r_start nsr, r_end = current_end r\<rparr>) r1)
          (\<lambda>(cr, kr, nr, new_name). Done
          (set_use_new_name_range (RBS_RANGE_LEX2AST nr) (set_use_keyword_range (RBS_RANGE_LEX2AST kr)
            (rbs_ast_directives_use_single_clause_new (RBS_RANGE_LEX2AST cr)
              (rbs_type_name_new (RBS_RANGE_LEX2AST (if rbs_null_range_p nsr then tok_range (current_token r)
                else \<lparr>r_start = r_start nsr, r_end = current_end r\<rparr>)) ns (rbs_ast_symbol_new (RBS_RANGE_LEX2AST (tok_range (current_token r))) i))
              new_name (RBS_RANGE_LEX2AST (if rbs_null_range_p nsr then tok_range (current_token r)
                else \<lparr>r_start = r_start nsr, r_end = current_end r\<rparr>))))))))"
    unfolding tr_def .
qed (use assms within_ok in auto)

lemma wildcard_ok:
  assumes "ready m p" and "namespace_post p (nsr, ns) q" and "within p q" and "next_type q \<noteq> pEOF"
  shows "reads q (\<lambda>_. clause_post p) (use_wildcard_clause nsr ns q)"
proof -
  have result: "clause_post p (rbs_ast_directives_use_wildcard_clause_new
      (RBS_RANGE_LEX2AST \<lparr>r_start = r_start nsr, r_end = e\<rparr>) ns (RBS_RANGE_LEX2AST nsr) (RBS_RANGE_LEX2AST sr)) r"
    if "ahead q r" "sr = tok_range (current_token r)" "e = r_end sr" for r sr e
  proof -
    have w: "within p r" using that(1) assms(3) by (meson ahead_consumed consumed_within within_trans)
    have le: "tok_begin (next_token p) \<le> tok_begin (current_token r)" "tok_begin (current_token r) \<le> tok_end (current_token r)"
      "tok_end (current_token q) \<le> tok_end (current_token r)"
      using within_pos(3) [OF assms(3)] that(1) after_first(1) [OF w] within_pos(1) [OF ahead_ok(2) [OF that(1)]]
      by (simp_all add: ahead_def consumed_def)
    show ?thesis
    proof (cases "nsr = NULL_RANGE")
      case True
      with assms(2) that le show ?thesis
        by (simp add: clause_post_def use_clause_ok_def namespace_post_def namespace_ok_def Let_def
            rbs_ast_directives_use_wildcard_clause_new_def between_def null_range_location [unfolded NULL_RANGE_def NullPosition_def]
            NULL_RANGE_def NullPosition_def)
    next
      case False
      with assms(2) that le show ?thesis
        by (auto simp: clause_post_def use_clause_ok_def namespace_post_def namespace_ok_def Let_def null_or_between_def
            rbs_ast_directives_use_wildcard_clause_new_def between_def list_all_iff)
    qed
  qed
  show ?thesis
    unfolding reads_def use_wildcard_clause_def Let_def
    by (intro run_ok_advance_on run_ok_return) (use assms within_ok in \<open>auto intro: progress_intros result\<close>)
qed

definition clauses_post :: "rbs_parser \<Rightarrow> rbs_use_clause list \<Rightarrow> rbs_parser \<Rightarrow> bool" where
  "clauses_post p clauses q \<longleftrightarrow> list_all (use_clause_ok (tok_begin (next_token p)) (tok_end (current_token q))) clauses"

lemma use_clause_ok_mono: "use_clause_ok lo hi c \<Longrightarrow> lo' \<le> lo \<Longrightarrow> hi \<le> hi' \<Longrightarrow> use_clause_ok lo' hi' c"
  by (auto simp: use_clause_ok_def namespace_ok_def list_all_iff split: rbs_use_clause.splits
      intro: between_mono null_or_between_mono)

lemma clauses_next:
  assumes "clauses_post p cs q" and "within p q" and "clause_post q c r" and "within q r" "tok_end (current_token r) \<le> tok_end (current_token r')"
  shows "clauses_post p (rbs_node_list_append cs c) r'"
  using assms within_pos(3) [OF assms(2)] within_pos(1) [OF assms(4)]
  by (auto simp: clauses_post_def clause_post_def rbs_node_list_append_def list_all_iff intro: use_clause_ok_mono)

lemma clauses_round_ok:
  assumes "ready m p" and "within p q" and "clauses_post p cs q"
  shows "run_ok q (round_post (clauses_post p) (\<lambda>cs r. consumed p r \<and> clauses_post p cs r) q) (use_clauses_round cs q)"
proof -
  have ready: "ready m q" "parser_ok q" using within_ready [OF assms(2,1)] ready_ok by auto
  have clause: "reads r (\<lambda>_. clause_post q) (if next_type r \<in> {tLIDENT, tULIDENT, tUIDENT} then use_single_clause nsr ns r
      else if next_type r = pSTAR then use_wildcard_clause nsr ns r else fail_with r (next_token r) True msg)"
    if "namespace_post q (nsr, ns) r" "within q r" for nsr ns r msg
    using single_clause_ok [OF ready(1) that] wildcard_ok [OF ready(1) that] within_ok [OF that(2)]
    by (auto simp: reads_def intro: run_ok_fail)
  show ?thesis
    unfolding use_clauses_round_def Let_def split_beta
    by (intro run_ok_may_call [OF namespace_parsed [OF ready(1)]] run_ok_call [OF clause] run_ok_if run_ok_advance_on run_ok_return)
      (use assms ready in \<open>auto intro: progress_intros clauses_next\<close>)
qed

lemma clauses_parsed:
  assumes "ready m p"
  shows "reads p clauses_post (parse_use_clauses rbs_node_list_new p)"
proof -
  have "clauses_post p rbs_node_list_new p" by (simp add: clauses_post_def rbs_node_list_new_def)
  then show ?thesis
    unfolding parse_use_clauses_def
    by (rule while_reads [where I = "clauses_post p", OF ready_ok [OF assms]]) (use clauses_round_ok [OF assms] in auto)
qed

definition directive_ok :: "int \<Rightarrow> int \<Rightarrow> rbs_ast_directives_use \<Rightarrow> bool" where
  "directive_ok lo hi d \<longleftrightarrow>
     (let a = start_byte (use_location d); b = end_byte (use_location d) in
      between lo hi (use_location d) \<and> between a b (use_keyword_range d) \<and> list_all (use_clause_ok a b) (use_clauses d))"

lemma directive_ok_mono: "directive_ok lo hi d \<Longrightarrow> lo' \<le> lo \<Longrightarrow> hi \<le> hi' \<Longrightarrow> directive_ok lo' hi' d"
  by (auto simp: directive_ok_def Let_def intro: between_mono)

lemma directive_parsed:
  assumes "ready m p" and "next_type p \<noteq> pEOF"
  shows "reads p (\<lambda>p d q. directive_ok (tok_begin (next_token p)) (tok_end (current_token q)) d) (parse_use_directive p)"
proof -
  have result: "directive_ok (tok_begin (current_token q)) (tok_end (current_token r))
      (rbs_ast_directives_use_new (location_from (current_start q) (current_end r)) cs (RBS_RANGE_LEX2AST (tok_range (current_token q))))"
    if "clauses_post q cs r" "ahead p q" "consumed q r" for q cs r
  proof -
    have "tok_begin (current_token q) \<le> tok_end (current_token q)" "tok_end (current_token q) \<le> tok_end (current_token r)"
      "tok_begin (current_token q) \<le> tok_begin (next_token q)"
      using after_first [OF ahead_ok(2) [OF that(2)]] within_pos(1) [OF consumed_within [OF that(3)]] by simp_all
    with that(1) show ?thesis
      by (auto simp: directive_ok_def rbs_ast_directives_use_new_def clauses_post_def list_all_iff intro: use_clause_ok_mono)
  qed
  show ?thesis
    unfolding reads_def parse_use_directive_def Let_def
    by (intro run_ok_advance_on run_ok_call_consumed [OF clauses_parsed] run_ok_return)
      (use assms in \<open>auto simp: ready_ok intro: progress_intros result\<close>)
qed

subsection \<open>Signatures\<close>

text \<open>Declarations that follow each other in the source.\<close>

definition in_order :: "rbs_member list \<Rightarrow> bool" where
  "in_order ms \<longleftrightarrow> sorted_wrt (\<lambda>a b. end_byte (member_location a) \<le> start_byte (member_location b)) ms"

definition decls_post :: "rbs_range \<Rightarrow> rbs_parser \<Rightarrow> rbs_member list \<Rightarrow> rbs_parser \<Rightarrow> bool" where
  "decls_post u p ds q \<longleftrightarrow>
     members_ok u False (tok_end (current_token p)) (tok_end (current_token q)) ds \<and> list_all is_declaration ds \<and> in_order ds"

lemma member_ok_between: "member_ok v i lo hi m \<Longrightarrow> between lo hi (member_location m)"
  by (subst (asm) member_ok.simps) simp

lemma decls_next:
  assumes "decls_post u p ds q" and "within p q" "within q r" and "is_declaration d"
    and "member_ok (RBS_RANGE_LEX2AST u) False (tok_end (current_token q)) (tok_end (current_token r)) d"
  shows "decls_post u p (rbs_node_list_append ds d) r"
proof -
  have "tok_end (current_token q) \<le> start_byte (member_location d)"
    using member_ok_between [OF assms(5)] by (simp add: between_def)
  moreover have "\<forall>x\<in>set ds. end_byte (member_location x) \<le> tok_end (current_token q)"
    using assms(1) by (auto simp: decls_post_def members_ok_def list_all_iff between_def dest!: member_ok_between)
  ultimately have "in_order (ds @ [d])"
    using assms(1) by (fastforce simp: decls_post_def in_order_def sorted_wrt_append)
  then show ?thesis
    using assms(1,4) members_ok_mono [of u False "tok_end (current_token p)" "tok_end (current_token q)" ds]
      member_ok_mono [OF assms(5)] within_pos(1) [OF assms(2)] within_pos(1) [OF assms(3)]
    by (simp add: decls_post_def rbs_node_list_append_def)
qed

lemma directives_parsed:
  assumes "ready m p"
  shows "may_read p (\<lambda>p ds q. list_all (directive_ok (tok_begin (next_token p)) (tok_end (current_token q))) ds)
    (while_true directives_round rbs_node_list_new p)"
proof (rule while_may_read [where I = "\<lambda>ds q. list_all (directive_ok (tok_begin (next_token p)) (tok_end (current_token q))) ds"])
  fix ds q assume q: "within p q" "list_all (directive_ok (tok_begin (next_token p)) (tok_end (current_token q))) ds"
  have ready: "ready m q" using within_ready [OF q(1) assms] .
  have add: "list_all (directive_ok (tok_begin (next_token p)) (tok_end (current_token r))) (rbs_node_list_append ds d)"
    if "directive_ok (tok_begin (next_token q)) (tok_end (current_token r)) d" "within q r" for d r
    using q(2) that within_pos(3) [OF q(1)] within_pos(1) [OF that(2)]
    by (auto simp: rbs_node_list_append_def list_all_iff intro: directive_ok_mono)
  show "run_ok q (round_post (\<lambda>ds q. list_all (directive_ok (tok_begin (next_token p)) (tok_end (current_token q))) ds)
      (\<lambda>ds q. list_all (directive_ok (tok_begin (next_token p)) (tok_end (current_token q))) ds) q) (directives_round ds q)"
    unfolding directives_round_def
    by (intro run_ok_if run_ok_call_consumed [OF directive_parsed] run_ok_return)
      (use q ready ready_ok [OF ready] in \<open>auto intro: progress_intros add\<close>)
qed (use assms in \<open>auto simp: ready_ok rbs_node_list_new_def\<close>)

lemma decls_parsed:
  assumes "ready m p" and "scope_open (vars p)"
  shows "may_read p (\<lambda>p ds q. decls_post u p ds q \<and> next_type q = pEOF) (while_true (decls_round u) rbs_node_list_new p)"
proof (rule while_may_read [where I = "\<lambda>ds q. decls_post u p ds q \<and> vars q = vars p"])
  fix ds q assume q: "within p q" "decls_post u p ds q \<and> vars q = vars p"
  have ready: "ready m q" "scope_open (vars q)" using within_ready [OF q(1) assms(1)] assms(2) q(2) by simp_all
  show "run_ok q (round_post (\<lambda>ds q. decls_post u p ds q \<and> vars q = vars p) (\<lambda>ds q. decls_post u p ds q \<and> next_type q = pEOF) q)
      (decls_round u ds q)"
    unfolding decls_round_def
    by (intro run_ok_if run_ok_call_consumed [OF decl_ok [OF ready]] run_ok_return)
      (use q ready ready_ok [OF ready(1)] in \<open>auto intro: progress_intros decls_next\<close>)
qed (use assms in \<open>auto simp: ready_ok rbs_node_list_new_def decls_post_def in_order_def\<close>)

definition signature_post :: "rbs_range \<Rightarrow> rbs_parser \<Rightarrow> rbs_signature \<Rightarrow> rbs_parser \<Rightarrow> bool" where
  "signature_post u p sig q \<longleftrightarrow>
     sig_location sig = location_from (current_start p) (current_end q) \<and>
     list_all (directive_ok (tok_begin (next_token p)) (tok_end (current_token q))) (sig_directives sig) \<and>
     decls_post u p (sig_declarations sig) q \<and> next_type q = pEOF"

lemma signature_ok:
  assumes "ready m p" and "scope_open (vars p)"
  shows "may_read p (signature_post u) (rbs_parse_signature u p)"
proof -
  have result: "signature_post u p (rbs_signature_new (location_from (current_start p) (current_end r)) dirs ds) r"
    if "decls_post u q ds r" "list_all (directive_ok (tok_begin (next_token p)) (tok_end (current_token q))) dirs"
      "within p q" "within q r" "next_type r = pEOF" for dirs q ds r
  proof -
    have "decls_post u p ds r"
      using that(1) within_pos(1) [OF that(3)] by (auto simp: decls_post_def intro: members_ok_mono)
    moreover have "list_all (directive_ok (tok_begin (next_token p)) (tok_end (current_token r))) dirs"
      using that(2) within_pos(1) [OF that(4)] by (auto simp: list_all_iff intro: directive_ok_mono)
    ultimately show ?thesis using that(5) by (simp add: signature_post_def rbs_signature_new_def)
  qed
  show ?thesis
    unfolding may_read_def rbs_parse_signature_def Let_def
    by (intro run_ok_may_call [OF directives_parsed [OF assms(1)]] run_ok_may_call [OF decls_parsed] run_ok_return)
      (use assms in \<open>auto simp: ready_ok intro: progress_intros result\<close>)
qed

end
