(* ===== verification/AstInline.thy ===== *)
theory AstInline
  imports AstDecls
begin

text \<open>
  The annotations that are written in the comments of Ruby files: the structs
  \<open>rbs_ast_ruby_annotations_*\<close> of \<open>include/rbs/ast.h\<close> as a datatype, and the functions of
  \<open>src/ast.c\<close> that make them.
\<close>

datatype (plugins only: code size) rbs_ruby_annotation =
    Ast_Ruby_Annotations_Block_Param_Type_Annotation rbs_location_range rbs_location_range
      rbs_location_range rbs_location_range rbs_location_range rbs_location_range
      rbs_location_range rbs_node rbs_location_range
  | Ast_Ruby_Annotations_Class_Alias_Annotation rbs_location_range rbs_location_range
      rbs_location_range "rbs_type_name option" rbs_location_range
  | Ast_Ruby_Annotations_Colon_Method_Type_Annotation rbs_location_range rbs_location_range
      "rbs_ast_annotation list" rbs_method_type
  | Ast_Ruby_Annotations_Double_Splat_Param_Type_Annotation rbs_location_range rbs_location_range
      rbs_location_range rbs_location_range rbs_location_range rbs_node rbs_location_range
  | Ast_Ruby_Annotations_Instance_Variable_Annotation rbs_location_range rbs_location_range
      rbs_ast_symbol rbs_location_range rbs_location_range rbs_node rbs_location_range
  | Ast_Ruby_Annotations_Method_Types_Annotation rbs_location_range rbs_location_range
      "rbs_ast_members_method_definition_overload list" "rbs_location_range list"
      rbs_location_range
  | Ast_Ruby_Annotations_Module_Alias_Annotation rbs_location_range rbs_location_range
      rbs_location_range "rbs_type_name option" rbs_location_range
  | Ast_Ruby_Annotations_Module_Self_Annotation rbs_location_range rbs_location_range
      rbs_location_range rbs_location_range rbs_type_name "rbs_node list" rbs_location_range
      rbs_location_range "rbs_location_range list" rbs_location_range
  | Ast_Ruby_Annotations_Node_Type_Assertion rbs_location_range rbs_location_range rbs_node
  | Ast_Ruby_Annotations_Param_Type_Annotation rbs_location_range rbs_location_range
      rbs_location_range rbs_location_range rbs_node rbs_location_range
  | Ast_Ruby_Annotations_Return_Type_Annotation rbs_location_range rbs_location_range
      rbs_location_range rbs_location_range rbs_node rbs_location_range
  | Ast_Ruby_Annotations_Skip_Annotation rbs_location_range rbs_location_range rbs_location_range
      rbs_location_range
  | Ast_Ruby_Annotations_Splat_Param_Type_Annotation rbs_location_range rbs_location_range
      rbs_location_range rbs_location_range rbs_location_range rbs_node rbs_location_range
  | Ast_Ruby_Annotations_Type_Application_Annotation rbs_location_range rbs_location_range
      "rbs_node list" rbs_location_range "rbs_location_range list"

definition rbs_ast_ruby_annotations_block_param_type_annotation_new :: "rbs_location_range \<Rightarrow> rbs_location_range \<Rightarrow> rbs_location_range
    \<Rightarrow> rbs_location_range \<Rightarrow> rbs_location_range \<Rightarrow>
    rbs_location_range \<Rightarrow> rbs_location_range \<Rightarrow> rbs_node \<Rightarrow>
    rbs_location_range \<Rightarrow> rbs_ruby_annotation" where
  "rbs_ast_ruby_annotations_block_param_type_annotation_new location prefix_location
     ampersand_location name_location colon_location question_location type_location type
     comment_loc = Ast_Ruby_Annotations_Block_Param_Type_Annotation location
     prefix_location ampersand_location name_location colon_location question_location
     type_location type comment_loc"

definition rbs_ast_ruby_annotations_class_alias_annotation_new :: "rbs_location_range \<Rightarrow> rbs_location_range \<Rightarrow> rbs_location_range
    \<Rightarrow> rbs_type_name option \<Rightarrow> rbs_location_range \<Rightarrow>
    rbs_ruby_annotation" where
  "rbs_ast_ruby_annotations_class_alias_annotation_new location prefix_location keyword_location
     type_name type_name_location = Ast_Ruby_Annotations_Class_Alias_Annotation location
     prefix_location keyword_location type_name type_name_location"

definition rbs_ast_ruby_annotations_colon_method_type_annotation_new :: "rbs_location_range \<Rightarrow> rbs_location_range \<Rightarrow> rbs_ast_annotation list
    \<Rightarrow> rbs_method_type \<Rightarrow> rbs_ruby_annotation" where
  "rbs_ast_ruby_annotations_colon_method_type_annotation_new location prefix_location annotations
     method_type = Ast_Ruby_Annotations_Colon_Method_Type_Annotation location prefix_location
     annotations method_type"

definition rbs_ast_ruby_annotations_double_splat_param_type_annotation_new :: "rbs_location_range \<Rightarrow> rbs_location_range \<Rightarrow> rbs_location_range
    \<Rightarrow> rbs_location_range \<Rightarrow> rbs_location_range \<Rightarrow> rbs_node
    \<Rightarrow> rbs_location_range \<Rightarrow> rbs_ruby_annotation" where
  "rbs_ast_ruby_annotations_double_splat_param_type_annotation_new location prefix_location
     star2_location name_location colon_location param_type comment_loc =
     Ast_Ruby_Annotations_Double_Splat_Param_Type_Annotation location prefix_location
     star2_location name_location colon_location param_type comment_loc"

definition rbs_ast_ruby_annotations_instance_variable_annotation_new :: "rbs_location_range \<Rightarrow> rbs_location_range \<Rightarrow> rbs_ast_symbol \<Rightarrow>
    rbs_location_range \<Rightarrow> rbs_location_range \<Rightarrow> rbs_node \<Rightarrow>
    rbs_location_range \<Rightarrow> rbs_ruby_annotation" where
  "rbs_ast_ruby_annotations_instance_variable_annotation_new location prefix_location ivar_name
     ivar_name_location colon_location type comment_loc =
     Ast_Ruby_Annotations_Instance_Variable_Annotation location prefix_location ivar_name
     ivar_name_location colon_location type comment_loc"

definition rbs_ast_ruby_annotations_method_types_annotation_new :: "rbs_location_range \<Rightarrow> rbs_location_range \<Rightarrow>
    rbs_ast_members_method_definition_overload list \<Rightarrow> rbs_location_range list
    \<Rightarrow> rbs_location_range \<Rightarrow> rbs_ruby_annotation" where
  "rbs_ast_ruby_annotations_method_types_annotation_new location prefix_location overloads
     vertical_bar_locations dot3_location = Ast_Ruby_Annotations_Method_Types_Annotation
     location prefix_location overloads vertical_bar_locations dot3_location"

definition rbs_ast_ruby_annotations_module_alias_annotation_new :: "rbs_location_range \<Rightarrow> rbs_location_range \<Rightarrow> rbs_location_range
    \<Rightarrow> rbs_type_name option \<Rightarrow> rbs_location_range \<Rightarrow>
    rbs_ruby_annotation" where
  "rbs_ast_ruby_annotations_module_alias_annotation_new location prefix_location keyword_location
     type_name type_name_location = Ast_Ruby_Annotations_Module_Alias_Annotation location
     prefix_location keyword_location type_name type_name_location"

definition rbs_ast_ruby_annotations_module_self_annotation_new :: "rbs_location_range \<Rightarrow> rbs_location_range \<Rightarrow> rbs_location_range
    \<Rightarrow> rbs_location_range \<Rightarrow> rbs_type_name \<Rightarrow> rbs_node list
    \<Rightarrow> rbs_location_range \<Rightarrow> rbs_location_range \<Rightarrow>
    rbs_location_range list \<Rightarrow> rbs_location_range \<Rightarrow> rbs_ruby_annotation" where
  "rbs_ast_ruby_annotations_module_self_annotation_new location prefix_location keyword_location
     colon_location name args open_bracket_location close_bracket_location args_comma_locations
     comment_loc = Ast_Ruby_Annotations_Module_Self_Annotation location prefix_location
     keyword_location colon_location name args open_bracket_location close_bracket_location
     args_comma_locations comment_loc"

definition rbs_ast_ruby_annotations_node_type_assertion_new :: "rbs_location_range \<Rightarrow> rbs_location_range \<Rightarrow> rbs_node \<Rightarrow>
    rbs_ruby_annotation" where
  "rbs_ast_ruby_annotations_node_type_assertion_new location prefix_location type =
     Ast_Ruby_Annotations_Node_Type_Assertion location prefix_location type"

definition rbs_ast_ruby_annotations_param_type_annotation_new :: "rbs_location_range \<Rightarrow> rbs_location_range \<Rightarrow> rbs_location_range
    \<Rightarrow> rbs_location_range \<Rightarrow> rbs_node \<Rightarrow> rbs_location_range
    \<Rightarrow> rbs_ruby_annotation" where
  "rbs_ast_ruby_annotations_param_type_annotation_new location prefix_location name_location
     colon_location param_type comment_loc = Ast_Ruby_Annotations_Param_Type_Annotation
     location prefix_location name_location colon_location param_type comment_loc"

definition rbs_ast_ruby_annotations_return_type_annotation_new :: "rbs_location_range \<Rightarrow> rbs_location_range \<Rightarrow> rbs_location_range
    \<Rightarrow> rbs_location_range \<Rightarrow> rbs_node \<Rightarrow> rbs_location_range
    \<Rightarrow> rbs_ruby_annotation" where
  "rbs_ast_ruby_annotations_return_type_annotation_new location prefix_location return_location
     colon_location return_type comment_loc = Ast_Ruby_Annotations_Return_Type_Annotation
     location prefix_location return_location colon_location return_type comment_loc"

definition rbs_ast_ruby_annotations_skip_annotation_new :: "rbs_location_range \<Rightarrow> rbs_location_range \<Rightarrow> rbs_location_range
    \<Rightarrow> rbs_location_range \<Rightarrow> rbs_ruby_annotation" where
  "rbs_ast_ruby_annotations_skip_annotation_new location prefix_location skip_location
     comment_loc = Ast_Ruby_Annotations_Skip_Annotation location prefix_location
     skip_location comment_loc"

definition rbs_ast_ruby_annotations_splat_param_type_annotation_new :: "rbs_location_range \<Rightarrow> rbs_location_range \<Rightarrow> rbs_location_range
    \<Rightarrow> rbs_location_range \<Rightarrow> rbs_location_range \<Rightarrow> rbs_node
    \<Rightarrow> rbs_location_range \<Rightarrow> rbs_ruby_annotation" where
  "rbs_ast_ruby_annotations_splat_param_type_annotation_new location prefix_location star_location
     name_location colon_location param_type comment_loc =
     Ast_Ruby_Annotations_Splat_Param_Type_Annotation location prefix_location star_location
     name_location colon_location param_type comment_loc"

definition rbs_ast_ruby_annotations_type_application_annotation_new :: "rbs_location_range \<Rightarrow> rbs_location_range \<Rightarrow> rbs_node list \<Rightarrow>
    rbs_location_range \<Rightarrow> rbs_location_range list \<Rightarrow> rbs_ruby_annotation" where
  "rbs_ast_ruby_annotations_type_application_annotation_new location prefix_location type_args
     close_bracket_location comma_locations = Ast_Ruby_Annotations_Type_Application_Annotation
     location prefix_location type_args close_bracket_location comma_locations"

end
