(* ===== verification/InlineParser.thy ===== *)
theory InlineParser
  imports AstInline MemberParser
begin

text \<open>
  The parsers of annotations in Ruby comments in \<open>src/parser.c\<close>, from \<open>parse_method_overload\<close> to
  \<open>rbs_parse_inline_trailing_annotation\<close>. Each case of the two switches is a definition; it starts
  where the case starts, and \<open>rbs_range\<close> is the range of \<open>@rbs\<close>.
\<close>

subsection \<open>Overloads and comments\<close>

definition parse_method_overload ::
  "rbs_ast_annotation list \<Rightarrow> rbs_parser \<Rightarrow> (rbs_ast_annotation list \<times> rbs_method_type) outcome"
where
  "parse_method_overload annotations p =
     check_parse (parse_annotations annotations p) (\<lambda>(annotations, _) p.
     check_parse (rbs_parse_method_type False True p) (\<lambda>method_type p. Done (annotations, method_type) p))"

text \<open>The state is the overloads and the locations of the bars; the result has that of \<open>...\<close> too.\<close>

definition inline_overloads_round ::
  "rbs_ast_members_method_definition_overload list \<times> rbs_location_range list \<Rightarrow> rbs_parser \<Rightarrow>
   ((rbs_ast_members_method_definition_overload list \<times> rbs_location_range list) +
    (rbs_ast_members_method_definition_overload list \<times> rbs_location_range list \<times> rbs_location_range)) outcome"
where
  "inline_overloads_round state p =
     check_parse (parse_method_overload rbs_node_list_new p) (\<lambda>(annotations, method_type) p.
       let location = rbs_location_range_current_token p;
           overloads = rbs_node_list_append (fst state)
             (rbs_ast_members_method_definition_overload_new location annotations method_type)
       in if next_type p = pBAR then
            let bar_locations = rbs_location_range_list_append (snd state) (RBS_RANGE_LEX2AST (tok_range (next_token p))) in
            advancing p (\<lambda>p.
              if next_type p = pDOT3 then
                let dot3_location = RBS_RANGE_LEX2AST (tok_range (next_token p)) in
                advancing p (\<lambda>p. Done (Inr (overloads, bar_locations, dot3_location)) p)
              else Done (Inl (overloads, bar_locations)) p)
          else Done (Inr (overloads, snd state, RBS_LOCATION_NULL_RANGE)) p)"

definition parse_inline_method_overloads ::
  "rbs_parser \<Rightarrow>
   (rbs_ast_members_method_definition_overload list \<times> rbs_location_range list \<times> rbs_location_range) outcome"
where
  "parse_inline_method_overloads p =
     while_true inline_overloads_round (rbs_node_list_new, rbs_location_range_list_new) p"

definition parse_inline_comment :: "rbs_parser \<Rightarrow> rbs_location_range outcome" where
  "parse_inline_comment p =
     (if next_type p \<noteq> tINLINECOMMENT then Done RBS_LOCATION_NULL_RANGE p
      else let comment_range = RBS_RANGE_LEX2AST (tok_range (next_token p)) in
        advancing p (\<lambda>p. Done comment_range p))"

text \<open>The colon, the type and the comment that end most annotations.\<close>

definition inline_type :: "bool \<Rightarrow> rbs_parser \<Rightarrow> (rbs_location_range \<times> rbs_node \<times> rbs_location_range) outcome" where
  "inline_type void_allowed p =
     advance_assert p pCOLON (\<lambda>p.
       let colon_loc = rbs_location_range_current_token p in
       check_parse (rbs_parse_type void_allowed True True p) (\<lambda>type p.
       check_parse (parse_inline_comment p) (\<lambda>comment_loc p. Done (colon_loc, type, comment_loc) p)))"

subsection \<open>Parameters\<close>

definition PARAM_NAME_CASES :: "RBSTokenType list" where
  "PARAM_NAME_CASES =
     [kBOOL, kBOT, kCLASS, kFALSE, kINSTANCE, kINTERFACE, kNIL, kSELF, kSINGLETON, kTOP, kTRUE, kVOID, kTYPE,
      kUNCHECKED, kIN, kOUT, kEND, kDEF, kINCLUDE, kEXTEND, kPREPEND, kALIAS, kMODULE, kATTRREADER, kATTRWRITER,
      kATTRACCESSOR, kPUBLIC, kPRIVATE, kUNTYPED, kUSE, kAS, kTODO]"

definition is_param_name_token :: "RBSTokenType \<Rightarrow> bool" where
  "is_param_name_token type \<longleftrightarrow> type = tLIDENT \<or> type = tNONASCIIIDENT"

definition parse_inline_param_type_annotation :: "rbs_range \<Rightarrow> rbs_parser \<Rightarrow> rbs_ruby_annotation outcome" where
  "parse_inline_param_type_annotation rbs_range p =
     advancing p (\<lambda>p.
       let name_loc = rbs_location_range_current_token p in
       check_parse (inline_type False p) (\<lambda>(colon_loc, param_type, comment_loc) p.
         Done (rbs_ast_ruby_annotations_param_type_annotation_new (location_from (r_start rbs_range) (current_end p))
           (RBS_RANGE_LEX2AST rbs_range) name_loc colon_loc param_type comment_loc) p))"

text \<open>The name that may follow \<open>*\<close>, \<open>**\<close> and \<open>&\<close>.\<close>

definition inline_param_name :: "rbs_parser \<Rightarrow> rbs_location_range outcome" where
  "inline_param_name p =
     (if is_param_name_token (next_type p)
      then advancing p (\<lambda>p. Done (rbs_location_range_current_token p) p)
      else Done RBS_LOCATION_NULL_RANGE p)"

definition inline_splat ::
  "(rbs_location_range \<Rightarrow> rbs_location_range \<Rightarrow> rbs_location_range \<Rightarrow> rbs_location_range \<Rightarrow> rbs_location_range \<Rightarrow>
    rbs_node \<Rightarrow> rbs_location_range \<Rightarrow> rbs_ruby_annotation) \<Rightarrow> rbs_range \<Rightarrow> rbs_parser \<Rightarrow> rbs_ruby_annotation outcome"
where
  "inline_splat annotation_new rbs_range p =
     advancing p (\<lambda>p.
       let star_loc = rbs_location_range_current_token p in
       check_parse (inline_param_name p) (\<lambda>name_loc p.
       check_parse (inline_type False p) (\<lambda>(colon_loc, param_type, comment_loc) p.
         Done (annotation_new (location_from (r_start rbs_range) (current_end p)) (RBS_RANGE_LEX2AST rbs_range)
           star_loc name_loc colon_loc param_type comment_loc) p)))"

definition inline_question :: "rbs_parser \<Rightarrow> rbs_location_range outcome" where
  "inline_question p =
     (if next_type p = pQUESTION then advancing p (\<lambda>p. Done (rbs_location_range_current_token p) p)
      else Done RBS_LOCATION_NULL_RANGE p)"

definition inline_block :: "rbs_range \<Rightarrow> rbs_parser \<Rightarrow> rbs_ruby_annotation outcome" where
  "inline_block rbs_range p =
     advancing p (\<lambda>p.
       let ampersand_loc = rbs_location_range_current_token p in
       check_parse (inline_param_name p) (\<lambda>name_loc p.
       advance_assert p pCOLON (\<lambda>p.
       let colon_loc = rbs_location_range_current_token p in
       check_parse (inline_question p) (\<lambda>question_loc p.
       let type_start = next_start p in
       check_parse (parse_function parse_simple True False False True True p) (\<lambda>(function, _, _) p.
       let type_loc = location_from type_start (current_end p) in
       check_parse (parse_inline_comment p) (\<lambda>comment_loc p.
         Done (rbs_ast_ruby_annotations_block_param_type_annotation_new
           (location_from (r_start rbs_range) (current_end p)) (RBS_RANGE_LEX2AST rbs_range) ampersand_loc name_loc
           colon_loc question_loc type_loc function comment_loc) p))))))"

subsection \<open>The other annotations with \<open>@rbs\<close>\<close>

definition inline_dot3 :: "rbs_range \<Rightarrow> rbs_parser \<Rightarrow> rbs_ruby_annotation outcome" where
  "inline_dot3 rbs_range p =
     (let dot3_range = RBS_RANGE_LEX2AST (tok_range (next_token p)) in
      advancing p (\<lambda>p.
        Done (rbs_ast_ruby_annotations_method_types_annotation_new (location_from (r_start rbs_range) (current_end p))
          (RBS_RANGE_LEX2AST rbs_range) rbs_node_list_new rbs_location_range_list_new dot3_range) p))"

definition inline_method_types :: "rbs_range \<Rightarrow> rbs_parser \<Rightarrow> rbs_ruby_annotation outcome" where
  "inline_method_types rbs_range p =
     check_parse (parse_inline_method_overloads p) (\<lambda>(overloads, bar_locations, dot3_location) p.
       Done (rbs_ast_ruby_annotations_method_types_annotation_new (location_from (r_start rbs_range) (current_end p))
         (RBS_RANGE_LEX2AST rbs_range) overloads bar_locations dot3_location) p)"

definition inline_skip :: "rbs_range \<Rightarrow> rbs_parser \<Rightarrow> rbs_ruby_annotation outcome" where
  "inline_skip rbs_range p =
     advancing p (\<lambda>p.
       let skip_range = tok_range (current_token p) in
       check_parse (parse_inline_comment p) (\<lambda>comment_loc p.
         Done (rbs_ast_ruby_annotations_skip_annotation_new (location_from (r_start rbs_range) (current_end p))
           (RBS_RANGE_LEX2AST rbs_range) (RBS_RANGE_LEX2AST skip_range) comment_loc) p))"

definition inline_return :: "rbs_range \<Rightarrow> rbs_parser \<Rightarrow> rbs_ruby_annotation outcome" where
  "inline_return rbs_range p =
     advancing p (\<lambda>p.
       let return_range = tok_range (current_token p) in
       check_parse (inline_type True p) (\<lambda>(colon_loc, return_type, comment_loc) p.
         Done (rbs_ast_ruby_annotations_return_type_annotation_new (location_from (r_start rbs_range) (current_end p))
           (RBS_RANGE_LEX2AST rbs_range) (RBS_RANGE_LEX2AST return_range) colon_loc return_type comment_loc) p))"

definition inline_instance_variable :: "rbs_range \<Rightarrow> rbs_parser \<Rightarrow> rbs_ruby_annotation outcome" where
  "inline_instance_variable rbs_range p =
     advancing p (\<lambda>p.
       let ivar_name_loc = rbs_location_range_current_token p in
       rbs_constant_pool_insert_string p (rbs_parser_peek_current_token p) (\<lambda>ivar_id p.
       let ivar_name = rbs_ast_symbol_new ivar_name_loc ivar_id in
       check_parse (inline_type False p) (\<lambda>(colon_loc, type, comment_loc) p.
         Done (rbs_ast_ruby_annotations_instance_variable_annotation_new
           (location_from (r_start rbs_range) (current_end p)) (RBS_RANGE_LEX2AST rbs_range) ivar_name ivar_name_loc
           colon_loc type comment_loc) p)))"

text \<open>The arguments in brackets, with the location of the brackets and the commas.\<close>

definition module_self_args ::
  "rbs_parser \<Rightarrow> (rbs_node list \<times> rbs_location_range \<times> rbs_location_range \<times> rbs_location_range list) outcome"
where
  "module_self_args p =
     (if next_type p = pLBRACKET then
        advancing p (\<lambda>p.
          let open_bracket_loc = rbs_location_range_current_token p in
          check_parse (parse_type_list_with_commas parse_simple pRBRACKET rbs_node_list_new rbs_location_range_list_new
              True False False p) (\<lambda>(args, commas) p.
            advancing p (\<lambda>p. Done (args, open_bracket_loc, rbs_location_range_current_token p, commas) p)))
      else Done (rbs_node_list_new, RBS_LOCATION_NULL_RANGE, RBS_LOCATION_NULL_RANGE, rbs_location_range_list_new) p)"

definition inline_module_self :: "rbs_range \<Rightarrow> rbs_parser \<Rightarrow> rbs_ruby_annotation outcome" where
  "inline_module_self rbs_range p =
     advancing p (\<lambda>p.
       let keyword_range = tok_range (current_token p) in
       advance_assert p pCOLON (\<lambda>p.
       let colon_range = tok_range (current_token p) in
       advancing p (\<lambda>p.
       check_parse (parse_type_name {CLASS_NAME, INTERFACE_NAME} p) (\<lambda>(name_range, type_name) p.
       check_parse (module_self_args p) (\<lambda>(args, open_bracket_loc, close_bracket_loc, commas) p.
       check_parse (parse_inline_comment p) (\<lambda>comment_loc p.
         Done (rbs_ast_ruby_annotations_module_self_annotation_new (location_from (r_start rbs_range) (current_end p))
           (RBS_RANGE_LEX2AST rbs_range) (RBS_RANGE_LEX2AST keyword_range) (RBS_RANGE_LEX2AST colon_range) type_name
           args open_bracket_loc close_bracket_loc commas comment_loc) p))))))"

subsection \<open>Leading annotations\<close>

definition inline_colon :: "rbs_parser \<Rightarrow> rbs_ruby_annotation outcome" where
  "inline_colon p =
     (let colon_range = tok_range (next_token p) in
      advancing p (\<lambda>p.
        check_parse (parse_method_overload rbs_node_list_new p) (\<lambda>(annotations, method_type) p.
          Done (rbs_ast_ruby_annotations_colon_method_type_annotation_new
            (location_from (r_start colon_range) (current_end p)) (RBS_RANGE_LEX2AST colon_range) annotations
            method_type) p)))"

text \<open>The inner switch, after \<open>@rbs\<close>.\<close>

definition inline_rbs :: "rbs_range \<Rightarrow> rbs_parser \<Rightarrow> rbs_ruby_annotation outcome" where
  "inline_rbs rbs_range p =
     (if next_type p = pDOT3 then inline_dot3 rbs_range p
      else if next_type p \<in> {pLPAREN, pLBRACKET, pLBRACE, tANNOTATION} then inline_method_types rbs_range p
      else if next_type p = kSKIP then
        if next_type2 p = pCOLON then parse_inline_param_type_annotation rbs_range p else inline_skip rbs_range p
      else if next_type p = kRETURN then inline_return rbs_range p
      else if next_type p = tAIDENT then inline_instance_variable rbs_range p
      else if next_type p \<in> set ([tLIDENT, tNONASCIIIDENT] @ PARAM_NAME_CASES) then
        parse_inline_param_type_annotation rbs_range p
      else if next_type p = pSTAR then
        inline_splat rbs_ast_ruby_annotations_splat_param_type_annotation_new rbs_range p
      else if next_type p = pSTAR2 then
        inline_splat rbs_ast_ruby_annotations_double_splat_param_type_annotation_new rbs_range p
      else if next_type p = pAMP then inline_block rbs_range p
      else if next_type p = kMODULESELF then inline_module_self rbs_range p
      else fail_with p (next_token p) True ''unexpected token for @rbs annotation'')"

definition parse_inline_leading_annotation :: "rbs_parser \<Rightarrow> rbs_ruby_annotation outcome" where
  "parse_inline_leading_annotation p =
     (if next_type p = pCOLON then inline_colon p
      else if next_type p = kATRBS then
        let rbs_range = tok_range (next_token p) in advancing p (\<lambda>p. inline_rbs rbs_range p)
      else fail_with p (next_token p) True ''unexpected token for inline leading annotation'')"

subsection \<open>Trailing annotations\<close>

text \<open>The name of the class or module, its location, and the end of the annotation.\<close>

definition inline_alias_name ::
  "rbs_range \<Rightarrow> rbs_parser \<Rightarrow> (rbs_type_name option \<times> rbs_location_range \<times> rbs_position) outcome"
where
  "inline_alias_name keyword_range p =
     (if next_type p = tUIDENT \<or> next_type p = pCOLON2 then
        advancing p (\<lambda>p.
          check_parse (parse_type_name {CLASS_NAME} p) (\<lambda>(type_name_range, type_name) p.
            Done (Some type_name, RBS_RANGE_LEX2AST type_name_range, r_end type_name_range) p))
      else Done (None, RBS_LOCATION_NULL_RANGE, r_end keyword_range) p)"

definition inline_alias :: "rbs_range \<Rightarrow> rbs_parser \<Rightarrow> rbs_ruby_annotation outcome" where
  "inline_alias prefix_range p =
     (let is_class_alias = (next_type p = kCLASSALIAS);
          keyword_range = tok_range (next_token p)
      in advancing p (\<lambda>p.
         check_parse (inline_alias_name keyword_range p) (\<lambda>(type_name, type_name_loc, till) p.
           let full_loc = location_from (r_start prefix_range) till in
           if is_class_alias then
             Done (rbs_ast_ruby_annotations_class_alias_annotation_new full_loc (RBS_RANGE_LEX2AST prefix_range)
               (RBS_RANGE_LEX2AST keyword_range) type_name type_name_loc) p
           else
             Done (rbs_ast_ruby_annotations_module_alias_annotation_new full_loc (RBS_RANGE_LEX2AST prefix_range)
               (RBS_RANGE_LEX2AST keyword_range) type_name type_name_loc) p)))"

definition inline_assertion :: "rbs_range \<Rightarrow> rbs_parser \<Rightarrow> rbs_ruby_annotation outcome" where
  "inline_assertion prefix_range p =
     check_parse (rbs_parse_type True True True p) (\<lambda>type p.
       Done (rbs_ast_ruby_annotations_node_type_assertion_new (location_from (r_start prefix_range) (current_end p))
         (RBS_RANGE_LEX2AST prefix_range) type) p)"

definition inline_application :: "rbs_range \<Rightarrow> rbs_parser \<Rightarrow> rbs_ruby_annotation outcome" where
  "inline_application prefix_range p =
     (if next_type p = pRBRACKET then fail_with p (next_token p) True ''type application cannot be empty''
      else
        check_parse (parse_type_list_with_commas parse_simple pRBRACKET rbs_node_list_new rbs_location_range_list_new
            True True False p) (\<lambda>(type_args, comma_locations) p.
          let close_bracket_range = tok_range (next_token p) in
          advancing p (\<lambda>p.
            Done (rbs_ast_ruby_annotations_type_application_annotation_new
              (location_from (r_start prefix_range) (r_end close_bracket_range)) (RBS_RANGE_LEX2AST prefix_range)
              type_args (RBS_RANGE_LEX2AST close_bracket_range) comma_locations) p)))"

definition parse_inline_trailing_annotation :: "rbs_parser \<Rightarrow> rbs_ruby_annotation outcome" where
  "parse_inline_trailing_annotation p =
     (let prefix_range = tok_range (next_token p) in
      if next_type p = pCOLON then
        advancing p (\<lambda>p.
          if next_type p \<in> {kCLASSALIAS, kMODULEALIAS} then inline_alias prefix_range p
          else inline_assertion prefix_range p)
      else if next_type p = pLBRACKET then advancing p (\<lambda>p. inline_application prefix_range p)
      else fail_with p (next_token p) True ''unexpected token for inline trailing annotation'')"

subsection \<open>Entry points\<close>

text \<open>The end of the source is checked for after a failure, too.\<close>

definition inline_entry :: "'a outcome \<Rightarrow> 'a outcome" where
  "inline_entry r =
     (case r of
        Done annotation p \<Rightarrow> advance_assert p pEOF (Done annotation)
      | Failed p \<Rightarrow> advance_assert p pEOF Failed
      | Aborted \<Rightarrow> Aborted
      | Out_of_fuel \<Rightarrow> Out_of_fuel)"

definition rbs_parse_inline_leading_annotation :: "rbs_parser \<Rightarrow> rbs_ruby_annotation outcome" where
  "rbs_parse_inline_leading_annotation p = inline_entry (parse_inline_leading_annotation p)"

definition rbs_parse_inline_trailing_annotation :: "rbs_parser \<Rightarrow> rbs_ruby_annotation outcome" where
  "rbs_parse_inline_trailing_annotation p = inline_entry (parse_inline_trailing_annotation p)"

end
