(* ===== verification/InlineSpec.thy ===== *)
theory InlineSpec
  imports InlineParser MemberSpec
begin

text \<open>What makes an annotation in a comment well-formed, and the contracts of its parsers.\<close>

subsection \<open>Well-formed annotations\<close>

definition inline_overload_ok :: "int \<Rightarrow> int \<Rightarrow> rbs_ast_members_method_definition_overload \<Rightarrow> bool" where
  "inline_overload_ok a b ov \<longleftrightarrow>
     between a b (overload_location ov) \<and> annotations_ok a b (overload_annotations ov) \<and>
     method_type_ok True a b (overload_method_type ov)"

text \<open>
  The location of an annotation lies between \<open>lo\<close> and \<open>hi\<close>, and everything else inside it. The
  location of an overload is only the last token of its method type.
\<close>

definition inline_location :: "rbs_ruby_annotation \<Rightarrow> rbs_location_range" where
  "inline_location annotation =
     (case annotation of
        Ast_Ruby_Annotations_Block_Param_Type_Annotation l _ _ _ _ _ _ _ _ \<Rightarrow> l
      | Ast_Ruby_Annotations_Class_Alias_Annotation l _ _ _ _ \<Rightarrow> l
      | Ast_Ruby_Annotations_Colon_Method_Type_Annotation l _ _ _ \<Rightarrow> l
      | Ast_Ruby_Annotations_Double_Splat_Param_Type_Annotation l _ _ _ _ _ _ \<Rightarrow> l
      | Ast_Ruby_Annotations_Instance_Variable_Annotation l _ _ _ _ _ _ \<Rightarrow> l
      | Ast_Ruby_Annotations_Method_Types_Annotation l _ _ _ _ \<Rightarrow> l
      | Ast_Ruby_Annotations_Module_Alias_Annotation l _ _ _ _ \<Rightarrow> l
      | Ast_Ruby_Annotations_Module_Self_Annotation l _ _ _ _ _ _ _ _ _ \<Rightarrow> l
      | Ast_Ruby_Annotations_Node_Type_Assertion l _ _ \<Rightarrow> l
      | Ast_Ruby_Annotations_Param_Type_Annotation l _ _ _ _ _ \<Rightarrow> l
      | Ast_Ruby_Annotations_Return_Type_Annotation l _ _ _ _ _ \<Rightarrow> l
      | Ast_Ruby_Annotations_Skip_Annotation l _ _ _ \<Rightarrow> l
      | Ast_Ruby_Annotations_Splat_Param_Type_Annotation l _ _ _ _ _ _ \<Rightarrow> l
      | Ast_Ruby_Annotations_Type_Application_Annotation l _ _ _ _ \<Rightarrow> l)"

definition inline_parts_ok :: "int \<Rightarrow> int \<Rightarrow> rbs_ruby_annotation \<Rightarrow> bool" where
  "inline_parts_ok a b annotation \<longleftrightarrow>
     (case annotation of
        Ast_Ruby_Annotations_Block_Param_Type_Annotation _ prefix amp name colon question type_loc t comment \<Rightarrow>
          list_all (between a b) [prefix, amp, colon, type_loc] \<and> list_all (null_or_between a b) [name, question, comment] \<and>
          tree_ok False True True a b t
      | Ast_Ruby_Annotations_Class_Alias_Annotation _ prefix keyword name name_loc \<Rightarrow>
          list_all (between a b) [prefix, keyword] \<and> null_or_between a b name_loc \<and> pred_option (name_ok a b) name
      | Ast_Ruby_Annotations_Colon_Method_Type_Annotation _ prefix annotations mt \<Rightarrow>
          between a b prefix \<and> annotations_ok a b annotations \<and> method_type_ok True a b mt
      | Ast_Ruby_Annotations_Double_Splat_Param_Type_Annotation _ prefix star name colon t comment \<Rightarrow>
          list_all (between a b) [prefix, star, colon] \<and> list_all (null_or_between a b) [name, comment] \<and>
          tree_ok False True True a b t
      | Ast_Ruby_Annotations_Instance_Variable_Annotation _ prefix name name_loc colon t comment \<Rightarrow>
          list_all (between a b) [prefix, sym_location name, name_loc, colon] \<and> null_or_between a b comment \<and>
          tree_ok False True True a b t
      | Ast_Ruby_Annotations_Method_Types_Annotation _ prefix overloads bars dot3 \<Rightarrow>
          between a b prefix \<and> list_all (inline_overload_ok a b) overloads \<and> list_all (between a b) bars \<and>
          null_or_between a b dot3
      | Ast_Ruby_Annotations_Module_Alias_Annotation _ prefix keyword name name_loc \<Rightarrow>
          list_all (between a b) [prefix, keyword] \<and> null_or_between a b name_loc \<and> pred_option (name_ok a b) name
      | Ast_Ruby_Annotations_Module_Self_Annotation _ prefix keyword colon name args open_loc close_loc commas comment \<Rightarrow>
          list_all (between a b) [prefix, keyword, colon] \<and> name_ok a b name \<and> trees_ok True False False a b args \<and>
          list_all (null_or_between a b) [open_loc, close_loc, comment] \<and> list_all (between a b) commas
      | Ast_Ruby_Annotations_Node_Type_Assertion _ prefix t \<Rightarrow> between a b prefix \<and> tree_ok True True True a b t
      | Ast_Ruby_Annotations_Param_Type_Annotation _ prefix name colon t comment \<Rightarrow>
          list_all (between a b) [prefix, name, colon] \<and> null_or_between a b comment \<and> tree_ok False True True a b t
      | Ast_Ruby_Annotations_Return_Type_Annotation _ prefix keyword colon t comment \<Rightarrow>
          list_all (between a b) [prefix, keyword, colon] \<and> null_or_between a b comment \<and> tree_ok True True True a b t
      | Ast_Ruby_Annotations_Skip_Annotation _ prefix skip comment \<Rightarrow>
          list_all (between a b) [prefix, skip] \<and> null_or_between a b comment
      | Ast_Ruby_Annotations_Splat_Param_Type_Annotation _ prefix star name colon t comment \<Rightarrow>
          list_all (between a b) [prefix, star, colon] \<and> list_all (null_or_between a b) [name, comment] \<and>
          tree_ok False True True a b t
      | Ast_Ruby_Annotations_Type_Application_Annotation _ prefix args close_loc commas \<Rightarrow>
          list_all (between a b) [prefix, close_loc] \<and> trees_ok True True False a b args \<and> list_all (between a b) commas)"

definition inline_ok :: "int \<Rightarrow> int \<Rightarrow> rbs_ruby_annotation \<Rightarrow> bool" where
  "inline_ok lo hi annotation \<longleftrightarrow>
     between lo hi (inline_location annotation) \<and>
     inline_parts_ok (start_byte (inline_location annotation)) (end_byte (inline_location annotation)) annotation"

lemmas inline_new_defs = rbs_ast_ruby_annotations_block_param_type_annotation_new_def
  rbs_ast_ruby_annotations_class_alias_annotation_new_def rbs_ast_ruby_annotations_colon_method_type_annotation_new_def
  rbs_ast_ruby_annotations_double_splat_param_type_annotation_new_def
  rbs_ast_ruby_annotations_instance_variable_annotation_new_def rbs_ast_ruby_annotations_method_types_annotation_new_def
  rbs_ast_ruby_annotations_module_alias_annotation_new_def rbs_ast_ruby_annotations_module_self_annotation_new_def
  rbs_ast_ruby_annotations_node_type_assertion_new_def rbs_ast_ruby_annotations_param_type_annotation_new_def
  rbs_ast_ruby_annotations_return_type_annotation_new_def rbs_ast_ruby_annotations_skip_annotation_new_def
  rbs_ast_ruby_annotations_splat_param_type_annotation_new_def
  rbs_ast_ruby_annotations_type_application_annotation_new_def

lemmas inline_node_simps = inline_ok_def inline_location_def inline_parts_ok_def inline_new_defs

subsection \<open>What has been seen\<close>

text \<open>A location in the text from the current token of \<open>p\<close> to the current token of \<open>q\<close>.\<close>

definition seen :: "rbs_parser \<Rightarrow> rbs_location_range \<Rightarrow> rbs_parser \<Rightarrow> bool" where
  "seen p r q \<longleftrightarrow> between (tok_begin (current_token p)) (tok_end (current_token q)) r"

definition maybe_seen :: "rbs_parser \<Rightarrow> rbs_location_range \<Rightarrow> rbs_parser \<Rightarrow> bool" where
  "maybe_seen p r q \<longleftrightarrow> null_or_between (tok_begin (current_token p)) (tok_end (current_token q)) r"

lemma seen_token: "within p q \<Longrightarrow> seen p (RBS_RANGE_LEX2AST (tok_range (current_token q))) q"
  using token_order [of p q] by (simp add: seen_def within_pos)

lemma seen_later: "seen p r q \<Longrightarrow> tok_end (current_token q) \<le> tok_end (current_token q') \<Longrightarrow> seen p r q'"
  by (auto simp: seen_def intro: between_mono)

lemma maybe_later: "maybe_seen p r q \<Longrightarrow> tok_end (current_token q) \<le> tok_end (current_token q') \<Longrightarrow> maybe_seen p r q'"
  by (auto simp: maybe_seen_def intro: null_or_between_mono)

lemma seen_maybe: "seen p r q \<Longrightarrow> maybe_seen p r q"
  by (simp add: seen_def maybe_seen_def null_or_between_def)

lemma maybe_seen_null [simp]: "maybe_seen p RBS_LOCATION_NULL_RANGE q"
  by (simp add: maybe_seen_def)

lemma seen_from: "seen q r q' \<Longrightarrow> within p q \<Longrightarrow> seen p r q'"
  using within_pos(2) [of p q] by (auto simp: seen_def intro: between_mono)

lemma maybe_seen_from: "maybe_seen q r q' \<Longrightarrow> within p q \<Longrightarrow> maybe_seen p r q'"
  using within_pos(2) [of p q] by (auto simp: maybe_seen_def intro: null_or_between_mono)

definition type_seen :: "bool \<Rightarrow> bool \<Rightarrow> bool \<Rightarrow> rbs_parser \<Rightarrow> rbs_node \<Rightarrow> rbs_parser \<Rightarrow> bool" where
  "type_seen v s c p n q \<longleftrightarrow> tree_ok v s c (tok_begin (current_token p)) (tok_end (current_token q)) n"

lemma next_from: "within p q \<Longrightarrow> tok_begin (current_token p) \<le> tok_begin (next_token q)"
  using within_pos(2) [of p q] window_order(1,8) [OF within_ok, of p q] by linarith

lemma type_post_seen: "type_post v s c q n q' \<Longrightarrow> within p q \<Longrightarrow> tok_end (current_token q') \<le> tok_end (current_token r) \<Longrightarrow> type_seen v s c p n r"
  using next_from [of p q] by (auto simp: type_post_def type_seen_def intro: tree_ok_mono)

lemma type_later: "type_seen v s c p n q \<Longrightarrow> tok_end (current_token q) \<le> tok_end (current_token q') \<Longrightarrow> type_seen v s c p n q'"
  by (auto simp: type_seen_def intro: tree_ok_mono)

lemma type_seen_from: "type_seen v s c q n q' \<Longrightarrow> within p q \<Longrightarrow> type_seen v s c p n q'"
  using within_pos(2) [of p q] by (auto simp: type_seen_def intro: tree_ok_mono)

subsection \<open>Comments and types\<close>

lemma inline_comment_ok:
  assumes "parser_ok p"
  shows "may_read p maybe_seen (parse_inline_comment p)"
  unfolding may_read_def parse_inline_comment_def Let_def
  by (intro run_ok_if run_ok_advance_on run_ok_return)
    (use assms in \<open>auto intro: progress_intros seen_maybe seen_token\<close>)

definition inline_type_post :: "bool \<Rightarrow> rbs_parser \<Rightarrow> rbs_location_range \<times> rbs_node \<times> rbs_location_range \<Rightarrow> rbs_parser \<Rightarrow> bool" where
  "inline_type_post v p x q \<longleftrightarrow> seen p (fst x) q \<and> type_seen v True True p (fst (snd x)) q \<and> maybe_seen p (snd (snd x)) q"

lemma inline_type_ok:
  assumes "ready m p"
  shows "reads p (inline_type_post v) (inline_type v p)"
proof -
  have result: "inline_type_post v p (RBS_RANGE_LEX2AST (tok_range (current_token q)), t, c) q2"
    if "consumed p q" "within q q1" "within q1 q2" "type_post v True True q t q1" "maybe_seen q1 c q2" for q q1 q2 t c
    using that within_pos(1) [OF that(2)] within_pos(1) [OF that(3)] consumed_within [OF that(1)] within_trans [OF consumed_within [OF that(1)] that(2)]
    by (auto simp: inline_type_post_def intro: seen_later seen_token type_post_seen maybe_seen_from)
  show ?thesis
    unfolding reads_def inline_type_def Let_def rbs_location_range_current_token_def
    by (intro run_ok_advance_assert run_ok_call [OF type_ok] run_ok_may_call [OF inline_comment_ok] run_ok_return)
      (use assms in \<open>auto simp: ready_ok within_ok intro: progress_intros result\<close>)
qed

lemma run_ok_inline_type:
  assumes "within p q" and "ready m p"
    and "\<And>x q'. consumed p q' \<Longrightarrow> within p q' \<Longrightarrow> vars q' = vars q \<Longrightarrow> tok_end (current_token q) \<le> tok_end (current_token q') \<Longrightarrow>
      seen p (fst x) q' \<Longrightarrow> type_seen v True True p (fst (snd x)) q' \<Longrightarrow> maybe_seen p (snd (snd x)) q' \<Longrightarrow> run_ok p Q (k x q')"
  shows "run_ok p Q (check_parse (inline_type v q) k)"
  by (rule run_ok_call [OF inline_type_ok [OF within_ready [OF assms(1,2)]] assms(1)], rule assms(3))
    (use assms(1) in \<open>auto simp: inline_type_post_def intro: seen_from type_seen_from maybe_seen_from\<close>)

subsection \<open>Annotations with \<open>@rbs\<close>\<close>

text \<open>The current token is \<open>@rbs\<close>, where the annotation starts.\<close>

definition inline_post :: "rbs_parser \<Rightarrow> rbs_ruby_annotation \<Rightarrow> rbs_parser \<Rightarrow> bool" where
  "inline_post p annotation q \<longleftrightarrow> inline_ok (tok_begin (current_token p)) (tok_end (current_token q)) annotation"

lemma seen_start: "parser_ok p \<Longrightarrow> within p q \<Longrightarrow> seen p (RBS_RANGE_LEX2AST (tok_range (current_token p))) q"
  by (rule seen_later [OF seen_token within_pos(1)]) simp_all

lemma inline_post_intro:
  assumes "within p q" and "inline_location a = location_from (current_start p) (current_end q)"
    and "inline_parts_ok (tok_begin (current_token p)) (tok_end (current_token q)) a"
  shows "inline_post p a q"
  using assms current_to_end [OF assms(1)] by (simp add: inline_post_def inline_ok_def)

lemmas inline_parts = inline_location_def inline_parts_ok_def inline_new_defs seen_def maybe_seen_def type_seen_def

lemma param_annotation_ok:
  assumes "ready m p" and "next_type p \<noteq> pEOF"
  shows "reads p inline_post (parse_inline_param_type_annotation (tok_range (current_token p)) p)"
proof -
  have node: "inline_post p (rbs_ast_ruby_annotations_param_type_annotation_new (location_from (current_start p) (current_end q2))
      (RBS_RANGE_LEX2AST (tok_range (current_token p))) (RBS_RANGE_LEX2AST (tok_range (current_token q))) c t cm) q2"
    if "within p q" "within p q2" "tok_end (current_token q) \<le> tok_end (current_token q2)" "seen p c q2" "type_seen False True True p t q2"
      "maybe_seen p cm q2" for q q2 c t cm
    by (rule inline_post_intro [OF that(2)])
      (use that seen_start [OF ready_ok [OF assms(1)] that(2)] seen_later [OF seen_token [OF that(1)] that(3)] in \<open>simp_all add: inline_parts\<close>)
  show ?thesis
    unfolding reads_def parse_inline_param_type_annotation_def Let_def split_beta rbs_location_range_current_token_def
    by (intro run_ok_advance_on run_ok_inline_type run_ok_return)
      (use assms in \<open>auto simp: ready_ok intro: progress_intros node\<close>)
qed

lemma return_annotation_ok:
  assumes "ready m p" and "next_type p \<noteq> pEOF"
  shows "reads p inline_post (inline_return (tok_range (current_token p)) p)"
proof -
  have node: "inline_post p (rbs_ast_ruby_annotations_return_type_annotation_new (location_from (current_start p) (current_end q2))
      (RBS_RANGE_LEX2AST (tok_range (current_token p))) (RBS_RANGE_LEX2AST (tok_range (current_token q))) c t cm) q2"
    if "within p q" "within p q2" "tok_end (current_token q) \<le> tok_end (current_token q2)" "seen p c q2" "type_seen True True True p t q2"
      "maybe_seen p cm q2" for q q2 c t cm
    by (rule inline_post_intro [OF that(2)])
      (use that seen_start [OF ready_ok [OF assms(1)] that(2)] seen_later [OF seen_token [OF that(1)] that(3)] in \<open>simp_all add: inline_parts\<close>)
  show ?thesis
    unfolding reads_def inline_return_def Let_def split_beta
    by (intro run_ok_advance_on run_ok_inline_type run_ok_return)
      (use assms in \<open>auto simp: ready_ok intro: progress_intros node\<close>)
qed

lemma ivar_annotation_ok:
  assumes "ready m p" and "next_type p \<noteq> pEOF"
  shows "reads p inline_post (inline_instance_variable (tok_range (current_token p)) p)"
proof -
  have node: "inline_post p (rbs_ast_ruby_annotations_instance_variable_annotation_new
      (location_from (current_start p) (current_end q2)) (RBS_RANGE_LEX2AST (tok_range (current_token p)))
      (rbs_ast_symbol_new (RBS_RANGE_LEX2AST (tok_range (current_token q))) i) (RBS_RANGE_LEX2AST (tok_range (current_token q))) c t cm) q2"
    if "within p q" "within p q2" "tok_end (current_token q) \<le> tok_end (current_token q2)" "seen p c q2" "type_seen False True True p t q2"
      "maybe_seen p cm q2" for q q2 c t cm i
    by (rule inline_post_intro [OF that(2)])
      (use that seen_start [OF ready_ok [OF assms(1)] that(2)] seen_later [OF seen_token [OF that(1)] that(3)] in \<open>simp_all add: inline_parts rbs_ast_symbol_new_def\<close>)
  show ?thesis
    unfolding reads_def inline_instance_variable_def Let_def split_beta rbs_location_range_current_token_def rbs_constant_pool_insert_string_def
    by (intro run_ok_advance_on run_ok_interning run_ok_inline_type run_ok_return)
      (use assms in \<open>auto simp: ready_ok intro: progress_intros node\<close>)
qed

lemma param_name_ok:
  assumes "parser_ok p"
  shows "may_read p maybe_seen (inline_param_name p)"
  unfolding may_read_def inline_param_name_def rbs_location_range_current_token_def
  by (intro run_ok_if run_ok_advance_on run_ok_return)
    (use assms in \<open>auto simp: is_param_name_token_def intro: progress_intros seen_maybe seen_token\<close>)

lemma splat_annotation_ok:
  assumes "ready m p" and "next_type p \<noteq> pEOF"
    and "annotation_new \<in> {rbs_ast_ruby_annotations_splat_param_type_annotation_new,
      rbs_ast_ruby_annotations_double_splat_param_type_annotation_new}"
  shows "reads p inline_post (inline_splat annotation_new (tok_range (current_token p)) p)"
proof -
  have node: "inline_post p (annotation_new (location_from (current_start p) (current_end q2))
      (RBS_RANGE_LEX2AST (tok_range (current_token p))) (RBS_RANGE_LEX2AST (tok_range (current_token q))) nm c t cm) q2"
    if "within p q" "within p q2" "tok_end (current_token q) \<le> tok_end (current_token q1)" "tok_end (current_token q1) \<le> tok_end (current_token q2)"
      "maybe_seen q nm q1" "seen p c q2" "type_seen False True True p t q2" "maybe_seen p cm q2" for q q1 q2 nm c t cm
    by (rule inline_post_intro [OF that(2)])
      (use that assms(3) seen_start [OF ready_ok [OF assms(1)] that(2)] seen_later [OF seen_token [OF that(1)] order_trans [OF that(3,4)]]
        maybe_later [OF maybe_seen_from [OF that(5,1)] that(4)] in \<open>auto simp: inline_parts\<close>)
  show ?thesis
    unfolding reads_def inline_splat_def Let_def split_beta rbs_location_range_current_token_def
    by (intro run_ok_advance_on run_ok_may_call [OF param_name_ok] run_ok_inline_type run_ok_return)
      (use assms(1,2) in \<open>auto simp: ready_ok within_ok intro: progress_intros node\<close>)
qed

lemma question_ok:
  assumes "parser_ok p"
  shows "may_read p maybe_seen (inline_question p)"
  unfolding may_read_def inline_question_def rbs_location_range_current_token_def
  by (intro run_ok_if run_ok_advance_on run_ok_return)
    (use assms in \<open>auto intro: progress_intros seen_maybe seen_token\<close>)

lemma skip_annotation_ok:
  assumes "ready m p" and "next_type p \<noteq> pEOF"
  shows "reads p inline_post (inline_skip (tok_range (current_token p)) p)"
proof -
  have node: "inline_post p (rbs_ast_ruby_annotations_skip_annotation_new (location_from (current_start p) (current_end q2))
      (RBS_RANGE_LEX2AST (tok_range (current_token p))) (RBS_RANGE_LEX2AST (tok_range (current_token q))) cm) q2"
    if "within p q" "within p q2" "tok_end (current_token q) \<le> tok_end (current_token q2)" "maybe_seen q cm q2" for q q2 cm
    by (rule inline_post_intro [OF that(2)])
      (use seen_start [OF ready_ok [OF assms(1)] that(2)] seen_later [OF seen_token [OF that(1)] that(3)] maybe_seen_from [OF that(4,1)] in \<open>simp_all add: inline_parts\<close>)
  show ?thesis
    unfolding reads_def inline_skip_def Let_def
    by (intro run_ok_advance_on run_ok_may_call [OF inline_comment_ok] run_ok_return)
      (use assms in \<open>auto simp: ready_ok within_ok intro: progress_intros node\<close>)
qed

lemma dot3_annotation_ok:
  assumes "ready m p" and "next_type p \<noteq> pEOF"
  shows "reads p inline_post (inline_dot3 (tok_range (current_token p)) p)"
proof -
  have node: "inline_post p (rbs_ast_ruby_annotations_method_types_annotation_new (location_from (current_start p) (current_end q))
      (RBS_RANGE_LEX2AST (tok_range (current_token p))) rbs_node_list_new rbs_location_range_list_new (RBS_RANGE_LEX2AST (tok_range t))) q"
    if "within p q" "t = current_token q" for q t
    by (rule inline_post_intro [OF that(1)])
      (use seen_start [OF ready_ok [OF assms(1)] that(1)] seen_token [OF that(1)] that(2) in
        \<open>simp_all add: inline_parts rbs_node_list_new_def rbs_location_range_list_new_def null_or_between_def\<close>)
  show ?thesis
    unfolding reads_def inline_dot3_def Let_def
    by (intro run_ok_advance_on run_ok_return)
      (use assms in \<open>auto simp: ready_ok intro: progress_intros node\<close>)
qed

subsection \<open>Lists of types with their commas\<close>

definition commas_post ::
  "bool \<Rightarrow> bool \<Rightarrow> bool \<Rightarrow> rbs_parser \<Rightarrow> rbs_node list \<times> rbs_location_range list \<Rightarrow> rbs_parser \<Rightarrow> bool"
where
  "commas_post v s c p x q \<longleftrightarrow> types_post v s c p (fst x) q \<and> list_all (\<lambda>r. seen p r q) (snd x)"

lemma commas_post_next:
  assumes "commas_post v s c p x q" and "within p q" and "within q r" and "type_post v s c q n r"
  shows "commas_post v s c p (rbs_node_list_append (fst x) n, snd x) r"
  using assms(1) types_post_later [of v s c p "fst x" q r] type_post_mono [OF assms(4) _ assms(2), of r] within_ok [OF assms(3)] assms(3)
  by (auto simp: commas_post_def rbs_node_list_append_def list_all_iff intro: seen_later within_pos)

lemma commas_post_comma:
  assumes "commas_post v s c p x q" and "within p r" and "within q r" and "t = current_token r"
  shows "commas_post v s c p (fst x, rbs_location_range_list_append (snd x) (RBS_RANGE_LEX2AST (tok_range t))) r"
  using assms(1,4) types_post_later [of v s c p "fst x" q r] seen_token [OF assms(2)] assms(3)
  by (auto simp: commas_post_def rbs_location_range_list_append_def list_all_iff intro: seen_later within_pos)

lemma type_list_with_commas_ok:
  assumes "ready m p"
  shows "reads p (commas_post v s c) (parse_type_list_with_commas parse_simple eol rbs_node_list_new rbs_location_range_list_new v s c p)"
  unfolding parse_type_list_with_commas_def
proof (rule while_reads [OF ready_ok [OF assms], where I = "commas_post v s c p"])
  show "commas_post v s c p (rbs_node_list_new, rbs_location_range_list_new) p"
    by (simp add: commas_post_def rbs_node_list_new_def rbs_location_range_list_new_def)
next
  fix x q assume q: "within p q" "commas_post v s c p x q"
  have comma: "commas_post v s c p (rbs_node_list_append (fst x) n, rbs_location_range_list_append (snd x) (RBS_RANGE_LEX2AST (tok_range t))) r'"
    if "within q r" "type_post v s c q n r" "within r r'" "t = current_token r'" for n r r' t
    using commas_post_comma [OF commas_post_next [OF q(2,1) that(1,2)] within_trans [OF within_trans [OF q(1) that(1)] that(3)] that(3,4)] by simp
  show "run_ok q (round_post (commas_post v s c p) (\<lambda>v' q. consumed p q \<and> commas_post v s c p v' q) q)
      (type_list_with_commas_round parse_simple eol v s c x q)"
    unfolding type_list_with_commas_round_def Let_def
    by (intro run_ok_call [OF top.union_ok] run_ok_if run_ok_fail run_ok_advance_on run_ok_return)
      (use assms q in \<open>auto simp: within_ok intro: progress_intros comma commas_post_next\<close>)
qed

lemma commas_post_seen:
  assumes "commas_post v s c q x r" and "within p q" and "tok_end (current_token r) \<le> tok_end (current_token r')"
  shows "trees_ok v s c (tok_begin (current_token p)) (tok_end (current_token r')) (fst x)"
    and "list_all (between (tok_begin (current_token p)) (tok_end (current_token r'))) (snd x)"
proof -
  show "trees_ok v s c (tok_begin (current_token p)) (tok_end (current_token r')) (fst x)"
    using assms(1,3) next_from [OF assms(2)] by (auto simp: commas_post_def types_post_def intro: trees_ok_mono)
  show "list_all (between (tok_begin (current_token p)) (tok_end (current_token r'))) (snd x)"
    using assms within_pos(2) [OF assms(2)] by (auto simp: commas_post_def seen_def list_all_iff intro: between_mono)
qed

subsection \<open>Overloads\<close>

definition method_overload_post ::
  "rbs_parser \<Rightarrow> rbs_ast_annotation list \<times> rbs_method_type \<Rightarrow> rbs_parser \<Rightarrow> bool"
where
  "method_overload_post p x q \<longleftrightarrow>
     annotations_ok (tok_begin (current_token p)) (tok_end (current_token q)) (fst x) \<and>
     method_type_ok True (tok_begin (current_token p)) (tok_end (current_token q)) (snd x)"

lemma method_overload_ok:
  assumes "ready m p" and "scope_open (vars p)"
  shows "reads p method_overload_post (parse_method_overload rbs_node_list_new p)"
proof -
  have result: "method_overload_post p (fst x, mt) r"
    if "within p q" "annotations_post p x q" "within q r" "method_type_post True q mt r" for q x mt r
    using that within_pos [OF that(1)] within_pos(1) [OF that(3)] token_order [OF within_refl [OF ready_ok [OF assms(1)]]]
    by (auto simp: method_overload_post_def annotations_post_def method_type_post_def intro: annotations_ok_mono method_type_ok_mono)
  show ?thesis
    unfolding reads_def parse_method_overload_def split_beta
    by (intro run_ok_may_call [OF annotations_parsed] run_ok_call [OF method_type_ok] run_ok_return)
      (use assms in \<open>auto simp: ready_ok intro: progress_intros result\<close>)
qed

text \<open>The overloads and bars so far.\<close>

definition inline_overloads_so_far ::
  "rbs_parser \<Rightarrow> rbs_ast_members_method_definition_overload list \<times> rbs_location_range list \<Rightarrow> rbs_parser \<Rightarrow> bool"
where
  "inline_overloads_so_far p x q \<longleftrightarrow>
     list_all (inline_overload_ok (tok_begin (current_token p)) (tok_end (current_token q))) (fst x) \<and>
     list_all (\<lambda>r. seen p r q) (snd x)"

lemma inline_overload_mono: "inline_overload_ok a b ov \<Longrightarrow> a' \<le> a \<Longrightarrow> b \<le> b' \<Longrightarrow> inline_overload_ok a' b' ov"
  by (auto simp: inline_overload_ok_def intro: between_mono annotations_ok_mono method_type_ok_mono)

lemma so_far_later:
  "inline_overloads_so_far p x q \<Longrightarrow> tok_end (current_token q) \<le> tok_end (current_token r) \<Longrightarrow> inline_overloads_so_far p x r"
  by (auto simp: inline_overloads_so_far_def list_all_iff intro: inline_overload_mono seen_later)

lemma so_far_next:
  assumes "inline_overloads_so_far p x q" and "within p q" and "within q r" and "method_overload_post q y r"
  shows "inline_overloads_so_far p (rbs_node_list_append (fst x)
      (rbs_ast_members_method_definition_overload_new (RBS_RANGE_LEX2AST (tok_range (current_token r))) (fst y) (snd y)), snd x) r"
proof -
  have "inline_overloads_so_far p x r" using so_far_later [OF assms(1)] within_pos(1) [OF assms(3)] by simp
  moreover have "seen p (RBS_RANGE_LEX2AST (tok_range (current_token r))) r"
    using seen_token within_trans [OF assms(2,3)] by blast
  ultimately show ?thesis
    using assms(4) within_pos(2) [OF assms(2)]
    by (auto simp: inline_overloads_so_far_def rbs_node_list_append_def inline_overload_ok_def method_overload_post_def
        rbs_ast_members_method_definition_overload_new_def seen_def intro: annotations_ok_mono method_type_ok_mono)
qed

lemma so_far_bar:
  assumes "inline_overloads_so_far p (os, bars) q" and "within p r" and "within q r" and "t = current_token r"
  shows "inline_overloads_so_far p (os, rbs_location_range_list_append bars (RBS_RANGE_LEX2AST (tok_range t))) r"
  using so_far_later [OF assms(1) within_pos(1) [OF assms(3)]] seen_token [OF assms(2)] assms(4)
  by (simp add: inline_overloads_so_far_def rbs_location_range_list_append_def)

definition inline_overloads_post ::
  "rbs_parser \<Rightarrow> rbs_ast_members_method_definition_overload list \<times> rbs_location_range list \<times> rbs_location_range \<Rightarrow>
   rbs_parser \<Rightarrow> bool"
where
  "inline_overloads_post p x q \<longleftrightarrow> inline_overloads_so_far p (fst x, fst (snd x)) q \<and> maybe_seen p (snd (snd x)) q"

lemma inline_overloads_ok:
  assumes "ready m p" and "scope_open (vars p)"
  shows "reads p inline_overloads_post (parse_inline_method_overloads p)"
  unfolding parse_inline_method_overloads_def
proof (rule while_reads [OF ready_ok [OF assms(1)], where I = "\<lambda>x q. inline_overloads_so_far p x q \<and> scope_open (vars q)"])
  show "inline_overloads_so_far p (rbs_node_list_new, rbs_location_range_list_new) p \<and> scope_open (vars p)"
    using assms(2) by (simp add: inline_overloads_so_far_def rbs_node_list_new_def rbs_location_range_list_new_def)
next
  fix x q assume q: "within p q" "inline_overloads_so_far p x q \<and> scope_open (vars q)"
  let ?new = "\<lambda>r y. rbs_node_list_append (fst x)
      (rbs_ast_members_method_definition_overload_new (RBS_RANGE_LEX2AST (tok_range (current_token r))) (fst y) (snd y))"
  have next_state: "inline_overloads_so_far p (?new r y, snd x) r" if "within q r" "method_overload_post q y r" for r y
    using so_far_next [OF _ q(1) that] q(2) by simp
  have bar: "inline_overloads_so_far p (?new r y, rbs_location_range_list_append (snd x) (RBS_RANGE_LEX2AST (tok_range t))) r'"
    if "within q r" "method_overload_post q y r" "within r r'" "t = current_token r'" for r y r' t
    using so_far_bar [OF next_state [OF that(1,2)] within_trans [OF within_trans [OF q(1) that(1)] that(3)] that(3,4)] .
  have dots: "inline_overloads_post p (?new r y, rbs_location_range_list_append (snd x) (RBS_RANGE_LEX2AST (tok_range t)),
      RBS_RANGE_LEX2AST (tok_range t')) r''"
    if "within q r" "method_overload_post q y r" "within r r'" "t = current_token r'" "within r' r''" "t' = current_token r''" for r y r' t r'' t'
    using so_far_later [OF bar [OF that(1-4)] within_pos(1) [OF that(5)]] that(6)
      seen_maybe [OF seen_token [OF within_trans [OF within_trans [OF within_trans [OF q(1) that(1)] that(3)] that(5)]]]
    by (simp add: inline_overloads_post_def)
  have last_one: "inline_overloads_post p (?new r y, snd x, RBS_LOCATION_NULL_RANGE) r" if "within q r" "method_overload_post q y r" for r y
    using next_state [OF that] by (simp add: inline_overloads_post_def)
  show "run_ok q (round_post (\<lambda>x q. inline_overloads_so_far p x q \<and> scope_open (vars q))
      (\<lambda>v' q. consumed p q \<and> inline_overloads_post p v' q) q) (inline_overloads_round x q)"
    unfolding inline_overloads_round_def Let_def split_beta rbs_location_range_current_token_def
    by (intro run_ok_call [OF method_overload_ok] run_ok_if run_ok_advance_on run_ok_return)
      (use assms q in \<open>auto simp: within_ok intro: progress_intros bar dots last_one\<close>)
qed

subsection \<open>Annotations with overloads, blocks and self types\<close>

lemma method_types_annotation_ok:
  assumes "ready m p" and "scope_open (vars p)"
  shows "reads p inline_post (inline_method_types (tok_range (current_token p)) p)"
proof -
  have node: "inline_post p (rbs_ast_ruby_annotations_method_types_annotation_new (location_from (current_start p) (current_end q))
      (RBS_RANGE_LEX2AST (tok_range (current_token p))) os bars dot3) q"
    if "within p q" "inline_overloads_post p (os, bars, dot3) q" for q os bars dot3
    by (rule inline_post_intro [OF that(1)])
      (use seen_start [OF ready_ok [OF assms(1)] that(1)] that(2) in \<open>simp_all add: inline_parts inline_overloads_post_def inline_overloads_so_far_def\<close>)
  show ?thesis
    unfolding reads_def inline_method_types_def split_beta
    by (intro run_ok_call [OF inline_overloads_ok] run_ok_return) (use assms in \<open>auto simp: ready_ok intro: progress_intros node\<close>)
qed

lemma block_annotation_ok:
  assumes "ready m p" and "next_type p \<noteq> pEOF"
  shows "reads p inline_post (inline_block (tok_range (current_token p)) p)"
proof -
  have node: "inline_post p (rbs_ast_ruby_annotations_block_param_type_annotation_new (location_from (current_start p) (current_end q5))
      (RBS_RANGE_LEX2AST (tok_range (current_token p))) (RBS_RANGE_LEX2AST (tok_range (current_token q))) nm
      (RBS_RANGE_LEX2AST (tok_range (current_token q2))) qu (location_from (next_start q3) (current_end q4)) fn cm) q5"
    if le: "tok_end (current_token q) \<le> tok_end (current_token q1)" "tok_end (current_token q1) \<le> tok_end (current_token q2)"
        "tok_end (current_token q2) \<le> tok_end (current_token q3)" "tok_end (current_token q3) \<le> tok_end (current_token q4)"
        "tok_end (current_token q4) \<le> tok_end (current_token q5)"
      and w: "within p q" "within p q2" "within p q3" "consumed q3 q4" "within p q4" "within p q5"
      and post: "maybe_seen q nm q1" "maybe_seen q2 qu q3" "function_post True True q3 (fn, y) q4" "maybe_seen q4 cm q5"
    for q q1 q2 q3 q4 q5 nm qu fn y cm
  proof (rule inline_post_intro [OF w(6)])
    let ?a = "tok_begin (current_token p)" and ?b = "tok_end (current_token q5)"
    have "between ?a ?b (RBS_RANGE_LEX2AST (tok_range (current_token q)))" "between ?a ?b (RBS_RANGE_LEX2AST (tok_range (current_token q2)))"
      "between ?a ?b (RBS_RANGE_LEX2AST (tok_range (current_token p)))"
      using seen_later [OF seen_token [OF w(1)], of q5] seen_later [OF seen_token [OF w(2)], of q5] seen_start [OF ready_ok [OF assms(1)] w(6)] le
      by (simp_all add: seen_def)
    moreover have "null_or_between ?a ?b nm" "null_or_between ?a ?b qu" "null_or_between ?a ?b cm"
      using maybe_later [OF maybe_seen_from [OF post(1) w(1)], of q5] maybe_later [OF maybe_seen_from [OF post(2) w(2)], of q5]
        maybe_seen_from [OF post(4) w(5)] le by (simp_all add: maybe_seen_def)
    moreover have "between ?a ?b (location_from (next_start q3) (current_end q4))"
      using next_from [OF w(3)] consumed_order [OF w(4)] le(5) by (simp add: between_def)
    moreover have "tree_ok False True True ?a ?b fn"
      using post(3) within_pos(2) [OF w(3)] le(5) by (auto simp: function_post_def intro: tree_ok_mono)
    ultimately show "inline_parts_ok ?a ?b (rbs_ast_ruby_annotations_block_param_type_annotation_new
        (location_from (current_start p) (current_end q5)) (RBS_RANGE_LEX2AST (tok_range (current_token p)))
        (RBS_RANGE_LEX2AST (tok_range (current_token q))) nm (RBS_RANGE_LEX2AST (tok_range (current_token q2))) qu
        (location_from (next_start q3) (current_end q4)) fn cm)"
      by (simp add: inline_parts)
  qed (simp add: inline_parts)
  show ?thesis
    unfolding reads_def inline_block_def Let_def split_beta rbs_location_range_current_token_def
    by (intro run_ok_advance_on run_ok_may_call [OF param_name_ok] run_ok_advance_assert run_ok_may_call [OF question_ok]
        run_ok_call_consumed [OF top.function_ok] run_ok_may_call [OF inline_comment_ok] run_ok_return)
      (use assms in \<open>auto simp: ready_ok within_ok intro: progress_intros node\<close>)
qed

definition self_args_post ::
  "rbs_parser \<Rightarrow> rbs_node list \<times> rbs_location_range \<times> rbs_location_range \<times> rbs_location_range list \<Rightarrow> rbs_parser \<Rightarrow> bool"
where
  "self_args_post p x q \<longleftrightarrow>
     (case x of (args, open_loc, close_loc, commas) \<Rightarrow>
      trees_ok True False False (tok_begin (current_token p)) (tok_end (current_token q)) args \<and>
      maybe_seen p open_loc q \<and> maybe_seen p close_loc q \<and>
      list_all (between (tok_begin (current_token p)) (tok_end (current_token q))) commas)"

lemma self_args_ok:
  assumes "ready m p"
  shows "may_read p self_args_post (module_self_args p)"
proof -
  have none: "self_args_post p (rbs_node_list_new, RBS_LOCATION_NULL_RANGE, RBS_LOCATION_NULL_RANGE, rbs_location_range_list_new) p"
    by (simp add: self_args_post_def rbs_node_list_new_def rbs_location_range_list_new_def trees_ok_def)
  have result: "self_args_post p (fst x, RBS_RANGE_LEX2AST (tok_range (current_token q)), RBS_RANGE_LEX2AST (tok_range (current_token r')), snd x) r'"
    if "within p q" "tok_end (current_token q) \<le> tok_end (current_token r)" "tok_end (current_token r) \<le> tok_end (current_token r')"
      "within p r'" "commas_post True False False q x r" for q x r r'
    using commas_post_seen [OF that(5,1,3)] seen_maybe [OF seen_later [OF seen_token [OF that(1)] order_trans [OF that(2,3)]]]
      seen_maybe [OF seen_token [OF that(4)]] by (simp add: self_args_post_def)
  show ?thesis
    unfolding may_read_def module_self_args_def Let_def split_beta rbs_location_range_current_token_def
    by (intro run_ok_if run_ok_advance run_ok_call [OF type_list_with_commas_ok] run_ok_return)
      (use assms in \<open>auto simp: ready_ok within_ok intro: progress_intros result none\<close>)
qed

lemma module_self_annotation_ok:
  assumes "ready m p" and "next_type p \<noteq> pEOF"
  shows "reads p inline_post (inline_module_self (tok_range (current_token p)) p)"
proof -
  have node: "inline_post p (rbs_ast_ruby_annotations_module_self_annotation_new (location_from (current_start p) (current_end q5))
      (RBS_RANGE_LEX2AST (tok_range (current_token p))) (RBS_RANGE_LEX2AST (tok_range (current_token q)))
      (RBS_RANGE_LEX2AST (tok_range (current_token q2))) nm args ol cl commas cm) q5"
    if le: "tok_end (current_token q) \<le> tok_end (current_token q2)" "tok_end (current_token q2) \<le> tok_end (current_token q3)"
        "tok_end (current_token q3) \<le> tok_end (current_token q4)" "tok_end (current_token q4) \<le> tok_end (current_token q5)"
      and w: "within p q" "within p q2" "within p q3" "within p q4" "within p q5"
      and post: "type_name_post k q2 (rg, nm) q3" "self_args_post q3 (args, ol, cl, commas) q4" "maybe_seen q4 cm q5"
    for q q2 q3 q4 q5 k rg nm args ol cl commas cm
  proof (rule inline_post_intro [OF w(5)])
    let ?a = "tok_begin (current_token p)" and ?b = "tok_end (current_token q5)"
    have "between ?a ?b (RBS_RANGE_LEX2AST (tok_range (current_token q)))" "between ?a ?b (RBS_RANGE_LEX2AST (tok_range (current_token q2)))"
      "between ?a ?b (RBS_RANGE_LEX2AST (tok_range (current_token p)))"
      using seen_later [OF seen_token [OF w(1)], of q5] seen_later [OF seen_token [OF w(2)], of q5] seen_start [OF ready_ok [OF assms(1)] w(5)] le
      by (simp_all add: seen_def)
    moreover have "name_ok ?a ?b nm"
      using post(1) next_from [OF w(2)] le(3,4) by (auto simp: type_name_post_def Let_def intro: name_ok_mono)
    moreover have "trees_ok True False False ?a ?b args" "list_all (between ?a ?b) commas"
      using post(2) within_pos(2) [OF w(3)] le(4) by (auto simp: self_args_post_def list_all_iff intro: trees_ok_mono between_mono)
    moreover have "null_or_between ?a ?b ol" "null_or_between ?a ?b cl" "null_or_between ?a ?b cm"
      using post(2) maybe_later [OF maybe_seen_from [OF _ w(3)] le(4)] maybe_seen_from [OF post(3) w(4)]
      by (auto simp: self_args_post_def maybe_seen_def)
    ultimately show "inline_parts_ok ?a ?b (rbs_ast_ruby_annotations_module_self_annotation_new
        (location_from (current_start p) (current_end q5)) (RBS_RANGE_LEX2AST (tok_range (current_token p)))
        (RBS_RANGE_LEX2AST (tok_range (current_token q))) (RBS_RANGE_LEX2AST (tok_range (current_token q2))) nm args ol cl commas cm)"
      by (simp add: inline_parts)
  qed (simp add: inline_parts)
  show ?thesis
    unfolding reads_def inline_module_self_def Let_def split_beta
    by (intro run_ok_advance_on run_ok_advance_assert run_ok_advance_name run_ok_may_call [OF self_args_ok]
        run_ok_may_call [OF inline_comment_ok] run_ok_return)
      (use assms in \<open>auto simp: ready_ok within_ok intro: progress_intros node\<close>)
qed

subsection \<open>Leading annotations\<close>

lemma run_ok_reads: "reads q V r \<Longrightarrow> within p q \<Longrightarrow> (\<And>v q'. consumed p q' \<Longrightarrow> vars q' = vars q \<Longrightarrow> V q v q' \<Longrightarrow> Q v q') \<Longrightarrow> run_ok p Q r"
  unfolding reads_def by (rule run_ok_within, assumption, erule run_ok_mono) (auto intro: within_consumed)

lemma rbs_annotation_ok:
  assumes "ready m p" and "scope_open (vars p)"
  shows "reads p inline_post (inline_rbs (tok_range (current_token p)) p)"
proof -
  have fail: "reads p inline_post (fail_with p t b msg)" for t b msg
    unfolding reads_def by (rule run_ok_fail) (use ready_ok [OF assms(1)] in simp)
  show ?thesis
    unfolding inline_rbs_def
    using assms fail
    by (auto simp: PARAM_NAME_CASES_def intro!: dot3_annotation_ok method_types_annotation_ok param_annotation_ok skip_annotation_ok
        return_annotation_ok ivar_annotation_ok splat_annotation_ok block_annotation_ok module_self_annotation_ok)
qed

lemma colon_annotation_ok:
  assumes "ready m p" and "scope_open (vars p)" and "next_type p \<noteq> pEOF"
  shows "reads p (\<lambda>p a q. inline_ok (tok_begin (next_token p)) (tok_end (current_token q)) a) (inline_colon p)"
proof -
  have node: "inline_ok (tok_begin t) (tok_end (current_token r))
      (rbs_ast_ruby_annotations_colon_method_type_annotation_new (location_from (r_start (tok_range t)) (current_end r))
        (RBS_RANGE_LEX2AST (tok_range t)) as mt)"
    if "within p q" "t = current_token q" "within q r" "method_overload_post q (as, mt) r" for t q as mt r
    using that seen_start [OF within_ok [OF that(1)] that(3)] current_to_end [OF that(3)]
    by (simp add: inline_ok_def inline_parts method_overload_post_def)
  show ?thesis
    unfolding reads_def inline_colon_def Let_def split_beta
    by (intro run_ok_advance_on run_ok_call [OF method_overload_ok] run_ok_return)
      (use assms in \<open>auto simp: ready_ok intro: progress_intros node\<close>)
qed

text \<open>Both parsers return an annotation that starts at the first token.\<close>

definition annotation_post :: "rbs_parser \<Rightarrow> rbs_ruby_annotation \<Rightarrow> rbs_parser \<Rightarrow> bool" where
  "annotation_post p a q \<longleftrightarrow> inline_ok (tok_begin (next_token p)) (tok_end (current_token q)) a"

lemma leading_ok:
  assumes "ready m p" and "scope_open (vars p)"
  shows "reads p annotation_post (parse_inline_leading_annotation p)"
proof -
  have rbs: "reads p annotation_post (let rg = tok_range (next_token p) in advancing p (inline_rbs rg))" if "next_type p \<noteq> pEOF"
    unfolding reads_def Let_def
  proof (rule run_ok_advance_on [OF within_refl [OF ready_ok [OF assms(1)]] that])
    fix q assume q: "within p q" "vars q = vars p" "next_token p = current_token q"
    have "reads q inline_post (inline_rbs (tok_range (current_token q)) q)"
      by (rule rbs_annotation_ok [OF within_ready [OF q(1) assms(1)]]) (simp add: q(2) assms(2))
    then show "run_ok p (\<lambda>v q. consumed p q \<and> vars q = vars p \<and> annotation_post p v q) (inline_rbs (tok_range (next_token p)) q)"
      unfolding q(3) by (rule run_ok_reads [OF _ q(1)]) (simp add: q annotation_post_def inline_post_def)
  qed
  show ?thesis
    unfolding parse_inline_leading_annotation_def
    using assms rbs colon_annotation_ok [OF assms] ready_ok [OF assms(1)]
    by (auto simp: annotation_post_def [abs_def] reads_def intro: run_ok_fail)
qed

subsection \<open>Trailing annotations\<close>

definition alias_name_ok ::
  "rbs_range \<Rightarrow> rbs_parser \<Rightarrow> rbs_type_name option \<times> rbs_location_range \<times> rbs_position \<Rightarrow> rbs_parser \<Rightarrow> bool"
where
  "alias_name_ok keyword_range p x q \<longleftrightarrow>
     (let a = tok_begin (current_token p); b = byte_pos (snd (snd x)) in
      pred_option (name_ok a b) (fst x) \<and> null_or_between a b (fst (snd x)) \<and>
      byte_pos (r_end keyword_range) \<le> b \<and> b \<le> tok_end (current_token q))"

lemma inline_alias_name_ok:
  assumes "ready m p" and "kw = tok_range (current_token p)"
  shows "may_read p (alias_name_ok kw) (inline_alias_name kw p)"
proof -
  have name: "alias_name_ok kw p (Some nm, RBS_RANGE_LEX2AST rg, r_end rg) q"
    if "within p q" "type_name_post k p (rg, nm) q" for k rg nm q
    using that assms(2) next_from [OF within_refl [OF ready_ok [OF assms(1)]]] within_pos(1) [OF that(1)]
    by (auto simp: alias_name_ok_def type_name_post_def Let_def null_or_between_def between_def intro: name_ok_mono)
  have none: "alias_name_ok kw p (None, RBS_LOCATION_NULL_RANGE, r_end kw) p"
    using assms(2) by (simp add: alias_name_ok_def Let_def)
  show ?thesis
    unfolding may_read_def inline_alias_name_def split_beta
    by (intro run_ok_if run_ok_advance_name run_ok_return)
      (use assms(1) in \<open>auto simp: ready_ok intro: progress_intros name none\<close>)
qed

lemma alias_annotation_ok:
  assumes "ready m p" and "next_type p \<noteq> pEOF"
  shows "reads p inline_post (inline_alias (tok_range (current_token p)) p)"
proof -
  have node: "inline_post p (node (location_from (current_start p) till) (RBS_RANGE_LEX2AST (tok_range (current_token p)))
      (RBS_RANGE_LEX2AST (tok_range (current_token q))) nm nl) r"
    if "node = rbs_ast_ruby_annotations_class_alias_annotation_new \<or> node = rbs_ast_ruby_annotations_module_alias_annotation_new"
      "ahead p q" "next_token p = current_token q" "alias_name_ok (tok_range (current_token q)) q (nm, nl, till) r" for node q nm nl till r
  proof -
    have le: "tok_begin (current_token p) \<le> tok_end (current_token p)" "tok_end (current_token p) \<le> tok_begin (current_token q)"
      "tok_begin (current_token q) \<le> tok_end (current_token q)" "tok_end (current_token q) \<le> byte_pos till" "byte_pos till \<le> tok_end (current_token r)"
      using window_order(8,1,2) [OF ready_ok [OF assms(1)]] that(3,4) by (auto simp: alias_name_ok_def Let_def)
    have "pred_option (name_ok (tok_begin (current_token p)) (byte_pos till)) nm" "null_or_between (tok_begin (current_token p)) (byte_pos till) nl"
      using that(4) le by (auto simp: alias_name_ok_def Let_def intro: name_ok_mono null_or_between_mono elim!: option.pred_mono_strong)
    then show ?thesis using le that(1) by (auto simp: inline_post_def inline_ok_def inline_parts between_def)
  qed
  show ?thesis
    unfolding reads_def inline_alias_def Let_def split_beta
  proof (rule run_ok_advance_on [OF within_refl [OF ready_ok [OF assms(1)]] assms(2)])
    fix q assume q: "ahead p q" "consumed p q" "within p q" "vars q = vars p" "next_token p = current_token q"
    have ready: "ready m q" using within_ready [OF q(3) assms(1)] .
    show "run_ok p (\<lambda>v q. consumed p q \<and> vars q = vars p \<and> inline_post p v q)
        (check_parse (inline_alias_name (tok_range (next_token p)) q) (\<lambda>x r.
          if next_type p = kCLASSALIAS then
            Done (rbs_ast_ruby_annotations_class_alias_annotation_new (location_from (current_start p) (snd (snd x)))
              (RBS_RANGE_LEX2AST (tok_range (current_token p))) (RBS_RANGE_LEX2AST (tok_range (next_token p))) (fst x) (fst (snd x))) r
          else
            Done (rbs_ast_ruby_annotations_module_alias_annotation_new (location_from (current_start p) (snd (snd x)))
              (RBS_RANGE_LEX2AST (tok_range (current_token p))) (RBS_RANGE_LEX2AST (tok_range (next_token p))) (fst x) (fst (snd x))) r))"
      unfolding q(5)
      by (intro run_ok_may_call [OF inline_alias_name_ok [OF ready refl]] run_ok_if run_ok_return)
        (use q in \<open>auto intro: progress_intros node\<close>)
  qed
qed

lemma assertion_annotation_ok:
  assumes "ready m p"
  shows "reads p inline_post (inline_assertion (tok_range (current_token p)) p)"
proof -
  have node: "inline_post p (rbs_ast_ruby_annotations_node_type_assertion_new (location_from (current_start p) (current_end q))
      (RBS_RANGE_LEX2AST (tok_range (current_token p))) t) q"
    if "within p q" "type_post True True True p t q" for q t
    by (rule inline_post_intro [OF that(1)])
      (use seen_start [OF ready_ok [OF assms]  that(1)] type_post_seen [OF that(2) within_refl [OF ready_ok [OF assms]]] in \<open>simp_all add: inline_parts\<close>)
  show ?thesis
    unfolding reads_def inline_assertion_def
    by (intro run_ok_call [OF type_ok] run_ok_return) (use assms in \<open>auto simp: ready_ok intro: progress_intros node\<close>)
qed

lemma application_annotation_ok:
  assumes "ready m p"
  shows "reads p inline_post (inline_application (tok_range (current_token p)) p)"
proof -
  have node: "inline_post p (rbs_ast_ruby_annotations_type_application_annotation_new
      (location_from (current_start p) (r_end (tok_range t))) (RBS_RANGE_LEX2AST (tok_range (current_token p))) (fst x)
      (RBS_RANGE_LEX2AST (tok_range t)) (snd x)) r"
    if "within p r" "commas_post True True False p x q" "tok_end (current_token q) \<le> tok_end (current_token r)" "t = current_token r" for q x r t
    using inline_post_intro [OF that(1), of "rbs_ast_ruby_annotations_type_application_annotation_new
      (location_from (current_start p) (current_end r)) (RBS_RANGE_LEX2AST (tok_range (current_token p))) (fst x)
      (RBS_RANGE_LEX2AST (tok_range (current_token r))) (snd x)"]
      seen_start [OF ready_ok [OF assms] that(1)] seen_token [OF that(1)] that(4)
      commas_post_seen [OF that(2) within_refl [OF ready_ok [OF assms]] that(3)] by (simp add: inline_parts)
  show ?thesis
    unfolding reads_def inline_application_def Let_def split_beta
    by (intro run_ok_if run_ok_fail run_ok_call [OF type_list_with_commas_ok] run_ok_advance run_ok_return)
      (use assms in \<open>auto simp: ready_ok intro: progress_intros node\<close>)
qed

lemma trailing_ok:
  assumes "ready m p"
  shows "reads p annotation_post (parse_inline_trailing_annotation p)"
proof -
  have step: "reads p annotation_post (advancing p (k (tok_range (next_token p))))"
    if "next_type p \<noteq> pEOF" "\<And>q. within p q \<Longrightarrow> reads q inline_post (k (tok_range (current_token q)) q)" for k
    unfolding reads_def
  proof (rule run_ok_advance_on [OF within_refl [OF ready_ok [OF assms]] that(1)])
    fix q assume q: "within p q" "vars q = vars p" "next_token p = current_token q"
    show "run_ok p (\<lambda>v q. consumed p q \<and> vars q = vars p \<and> annotation_post p v q) (k (tok_range (next_token p)) q)"
      unfolding q(3) by (rule run_ok_reads [OF that(2) [OF q(1)] q(1)]) (simp add: q annotation_post_def inline_post_def)
  qed
  have colon: "reads q inline_post (if next_type q \<in> {kCLASSALIAS, kMODULEALIAS} then inline_alias (tok_range (current_token q)) q
      else inline_assertion (tok_range (current_token q)) q)" if "within p q" for q
    using alias_annotation_ok [OF within_ready [OF that assms]] assertion_annotation_ok [OF within_ready [OF that assms]] by auto
  show ?thesis
    unfolding parse_inline_trailing_annotation_def Let_def
    using step [of "\<lambda>rg q. if next_type q \<in> {kCLASSALIAS, kMODULEALIAS} then inline_alias rg q else inline_assertion rg q", OF _ colon]
      step [of inline_application, OF _ application_annotation_ok [OF within_ready [OF _ assms]]] ready_ok [OF assms]
    by (auto simp: reads_def intro: run_ok_fail)
qed

subsection \<open>Entry points\<close>

lemma annotation_post_later: "annotation_post p a q \<Longrightarrow> tok_end (current_token q) \<le> tok_end (current_token r) \<Longrightarrow> annotation_post p a r"
  by (auto simp: annotation_post_def inline_ok_def intro: between_mono)

lemma entry_ok:
  assumes "reads p annotation_post r"
  shows "run_ok p (\<lambda>a q. vars q = vars p \<and> current_type q = pEOF \<and> annotation_post p a q) (inline_entry r)"
proof (cases r)
  case (Done a q)
  with assms have q: "within p q" "vars q = vars p" "annotation_post p a q" by (auto simp: reads_def run_ok.simps consumed_within)
  show ?thesis
    unfolding Done inline_entry_def advance_assert_def outcome.case
    by (intro run_ok_advance run_ok_assert run_ok_return) (use q in \<open>auto intro: annotation_post_later\<close>)
next
  case (Failed q)
  with assms have q: "parser_step p q" "parser_error q \<noteq> None" by (auto simp: reads_def run_ok.simps)
  obtain q' where q': "rbs_parser_advance q = Some q'" "parser_step q q'" using advance_ok [OF step_ok [OF q(1)]] by metis
  have s: "parser_step p q'" "parser_error q' \<noteq> None" using step_trans [OF q(1) q'(2)] q(2) q'(2) by (auto simp: parser_step_def)
  then have "parser_step p (rbs_parser_set_error q' t b msg)" for t b msg
    using step_trans set_error_step step_ok by blast
  with s show ?thesis
    unfolding Failed inline_entry_def advance_assert_def outcome.case
    by (simp add: advancing_def q'(1) assert_token_def fail_with_def run_ok.simps)
qed (use assms in \<open>auto simp: reads_def run_ok.simps\<close>)

end
