(* ===== verification/SignatureProps.thy ===== *)
theory SignatureProps
  imports SignatureSpec InlineSpec TypeProps
begin

text \<open>
  The properties of the parsers of signatures, method types and type parameters, and of the
  window of tokens. The examples are parsed from their bytes by evaluation.
\<close>

subsection \<open>New parsers\<close>

text \<open>A new parser of a source below 1 GB may call every parsing function.\<close>

lemma new_parser_ready:
  assumes "e \<in> set rbs_encodings" and "0 \<le> first_pos" and "last_pos \<le> int (length (string_bytes s))"
    and "length (string_bytes s) + 2 < 2 ^ 30" and "rbs_parser_new s e first_pos last_pos = Some (Done () p)"
  shows "ready (Suc (bytes_left p)) p" "scope_open (vars p)" "vars p = []" "lexer_source (lexer p) = (s, first_pos, last_pos, e)"
    "parser_error p = None"
proof -
  have p: "parser_ok p" "vars p = []" "current_token p = NullToken" "pool_contents (constant_pool p) = []"
    "lexer_source (lexer p) = (s, first_pos, last_pos, e)" "parser_error p = None"
    using parser_new_value [OF assms(1-3), of False] assms(5) by (simp_all add: rbs_parser_new_def)
  have "unat (pool_size (constant_pool p)) = 0"
    using length_pool_contents [of _ "constant_pool p"] p(1,4) by (auto simp: parser_ok_def pool_inv_def)
  moreover have "source_length p = length (string_bytes s)" using p(5) by (simp add: lexer_source_def)
  ultimately have "spent p = length (string_bytes s)" by (simp add: spent_def p(3))
  then show "ready (Suc (bytes_left p)) p" using p(1) assms(4) by (simp add: ready_def roomy_def)
  show "scope_open (vars p)" using p(2) by (simp add: scope_open_def)
qed (use parser_new_value [OF assms(1-3), of False] assms(5) in \<open>simp_all add: rbs_parser_new_def\<close>)

subsection \<open>Signatures\<close>


text \<open>The source of the examples: an interface with a method, and a constant.\<close>

definition example_source :: rbs_string where
  "example_source = string_of
     [105, 110, 116, 101, 114, 102, 97, 99, 101, 32, 95, 65, 10, 100, 101, 102, 32, 102, 58, 32, 40, 41, 32, 45, 62, 32,
      115, 101, 108, 102, 10, 101, 110, 100, 10, 66, 58, 32, 116, 111, 112]"

lemma example_length: "length (string_bytes example_source) = 41"
  by (simp add: example_source_def)

text \<open>The method type \<open>()->top\<close>, and the list \<open>[A]\<close> of type parameters.\<close>

definition method_type_source :: rbs_string where
  "method_type_source = string_of [40, 41, 45, 62, 116, 111, 112]"

definition type_params_source :: rbs_string where
  "type_params_source = string_of [91, 65, 93]"

lemma examples_parsed:
  "(case rbs_parser_new example_source ascii_encoding 0 41 of
     Some (Done _ p) \<Rightarrow>
       (case rbs_parse_signature NULL_RANGE p of
          Done sig q \<Rightarrow> map is_interface (sig_declarations sig) = [True, False] \<and>
            map (length \<circ> member_members) (sig_declarations sig) = [1, 0]
        | _ \<Rightarrow> False)
   | _ \<Rightarrow> False) \<and>
   (case rbs_parser_new method_type_source ascii_encoding 0 7 of
     Some (Done _ p) \<Rightarrow> (case rbs_parse_method_type True True p of Done mt q \<Rightarrow> mt_type_params mt = [] | _ \<Rightarrow> False)
   | _ \<Rightarrow> False) \<and>
   (case rbs_parser_new type_params_source ascii_encoding 0 3 of
     Some (Done _ p) \<Rightarrow> (case rbs_parse_type_params True p of Done ps q \<Rightarrow> length ps = 1 | _ \<Rightarrow> False) \<and>
       (case rbs_parse_inline_trailing_annotation p of Done a q \<Rightarrow> end_byte (inline_location a) = 3 | _ \<Rightarrow> False)
   | _ \<Rightarrow> False)"
  by code_simp

lemma example_signature:
  obtains p sig q where "rbs_parser_new example_source ascii_encoding 0 41 = Some (Done () p)"
    "rbs_parse_signature NULL_RANGE p = Done sig q" "map is_interface (sig_declarations sig) = [True, False]"
    "map (length \<circ> member_members) (sig_declarations sig) = [1, 0]"
  using examples_parsed by (auto split: option.splits outcome.splits)




text \<open>A declaration or member \<open>m\<close>, and its members at any depth.\<close>

inductive occurs_in :: "rbs_member \<Rightarrow> rbs_member \<Rightarrow> bool" for m where
  here: "occurs_in m m"
| member: "occurs_in m x \<Longrightarrow> y \<in> set (member_members x) \<Longrightarrow> occurs_in m y"

lemma occurs_member_ok: "occurs_in m x \<Longrightarrow> member_ok u i lo hi m \<Longrightarrow> \<exists>i' lo' hi'. member_ok u i' lo' hi' x"
proof (induction rule: occurs_in.induct)
  case (member x y)
  then obtain i' lo' hi' where "member_ok u i' lo' hi' x" by blast
  with member.hyps(2) show ?case by (subst (asm) member_ok.simps) blast
qed blast

lemma interface_member_ok:
  assumes "member_ok u i lo hi x" and "is_interface x" and "y \<in> set (member_members x)"
  shows "interface_member y" and "list_all (\<lambda>ov. placement False True False (mt_type (overload_method_type ov))) (member_overloads y)"
proof -
  obtain lo' hi' where "member_ok u True lo' hi' y"
    using assms by (subst (asm) member_ok.simps) auto
  then have "parts_ok u True (start_byte (member_location y)) (end_byte (member_location y)) y"
    by (subst (asm) member_ok.simps) simp
  then show "interface_member y" "list_all (\<lambda>ov. placement False True False (mt_type (overload_method_type ov))) (member_overloads y)"
    by (auto simp: parts_ok_def list_all_iff overload_ok_def method_type_ok_def Let_def tree_ok_def)
qed



text \<open>The source stays, an error stays, and \<open>false\<close> comes with an error.\<close>

definition keeps_error :: "rbs_parser \<Rightarrow> 'a outcome \<Rightarrow> bool" where
  "keeps_error p r \<longleftrightarrow>
     (case r of
        Done _ q \<Rightarrow> lexer_source (lexer q) = lexer_source (lexer p) \<and> (parser_error p \<noteq> None \<longrightarrow> parser_error q = parser_error p)
      | Failed q \<Rightarrow> lexer_source (lexer q) = lexer_source (lexer p) \<and> parser_error q \<noteq> None \<and>
          (parser_error p \<noteq> None \<longrightarrow> parser_error q = parser_error p)
      | Aborted \<Rightarrow> False
      | Out_of_fuel \<Rightarrow> False)"

lemma run_keeps_error: "run_ok p Q r \<Longrightarrow> keeps_error p r"
  by (cases r) (auto simp: keeps_error_def run_ok.simps parser_step_def)

text \<open>
  C4. The error that is reported is the first one: a parser that has an error keeps it, whatever
  \<open>rbs_parse_signature\<close>, \<open>rbs_parse_method_type\<close> or \<open>rbs_parse_type\<close> does afterwards, and one that has none has an
  error after each of them returns \<open>false\<close>. The source, the range and the encoding are never
  changed.
\<close>

theorem parse_errors_first:
  assumes "parser_ok p" and "spent p + 2 < 2 ^ 30" and "scope_open (vars p)"
  shows "keeps_error p (rbs_parse_signature uninit p) \<and> keeps_error p (rbs_parse_method_type require_eof c p) \<and>
    keeps_error p (rbs_parse_type v s c p)"
proof -
  have r: "ready (Suc (bytes_left p)) p" using assms by (simp add: ready_def roomy_def)
  show ?thesis
    using run_keeps_error signature_ok [OF r assms(3)] method_type_ok [OF r assms(3)] type_ok [OF r]
    unfolding reads_def may_read_def by metis
qed

theorem parse_errors_first_witness:
  "\<exists>p err. parser_error p = Some err \<and>
     (case rbs_parse_signature NULL_RANGE p of Done _ q \<Rightarrow> parser_error q = Some err | Failed q \<Rightarrow> parser_error q = Some err | _ \<Rightarrow> False)"
proof -
  obtain p where p: "rbs_parser_new example_source ascii_encoding 0 41 = Some (Done () p)" by (rule example_signature)
  have r: "ready (Suc (bytes_left p)) p" "scope_open (vars p)"
    using new_parser_ready(1,2) [OF ascii_in_table _ _ _ p] by (simp_all add: example_length)
  obtain err :: rbs_error where True by simp
  let ?p = "p\<lparr>parser_error := Some err\<rparr>"
  have "parser_ok ?p" "spent ?p + 2 < 2 ^ 30" "scope_open (vars ?p)"
    using r parser_ok_cong [of ?p p] by (auto simp: ready_def roomy_def spent_def parser_ok_def)
  from parse_errors_first [OF this, of NULL_RANGE] show ?thesis
    by (intro exI [of _ ?p] exI [of _ err]) (auto simp: keeps_error_def split: outcome.splits)
qed

subsection \<open>The window of tokens\<close>

text \<open>\<open>k\<close> calls of \<open>rbs_parser_advance\<close>.\<close>

primrec advance_times :: "nat \<Rightarrow> rbs_parser \<Rightarrow> rbs_parser option" where
  "advance_times 0 p = Some p"
| "advance_times (Suc k) p = (case rbs_parser_advance p of None \<Rightarrow> None | Some q \<Rightarrow> advance_times k q)"

lemma advance_times_eof: "parser_ok p \<Longrightarrow> \<exists>k q. k \<le> Suc (bytes_left p) \<and> advance_times k p = Some q \<and> current_type q = pEOF \<and> parser_ok q"
proof (induction "bytes_left p" arbitrary: p rule: less_induct)
  case less
  obtain q where q: "rbs_parser_advance p = Some q" "parser_step p q" "current_token q = next_token p"
    "next_type p \<noteq> pEOF \<Longrightarrow> bytes_left q < bytes_left p"
    using advance_ok [OF less.prems] by metis
  show ?case
  proof (cases "next_type p = pEOF")
    case True
    with q show ?thesis by (intro exI [of _ 1] exI [of _ q]) (auto simp: parser_step_def)
  next
    case False
    with less.hyps [OF q(4)] q(2) obtain k r where "k \<le> Suc (bytes_left q)" "advance_times k q = Some r" "current_type r = pEOF" "parser_ok r"
      by (auto simp: parser_step_def)
    with False q(1,4) show ?thesis by (intro exI [of _ "Suc k"] exI [of _ r]) auto
  qed
qed



subsection \<open>Method types and type parameters\<close>

lemma check_parse_Done: "check_parse r k = Done v q \<longleftrightarrow> (\<exists>x p. r = Done x p \<and> k x p = Done v q)"
  by (cases r) (simp_all add: check_parse_def)

lemma assert_eof_Done: "assert_eof p (Done x) = Done v q \<Longrightarrow> current_type q = pEOF"
  by (auto simp: assert_eof_def advancing_def fail_with_def split: option.splits if_splits)

lemma method_type_at_eof: "rbs_parse_method_type True c p = Done mt q \<Longrightarrow> current_type q = pEOF"
  by (auto simp: rbs_parse_method_type_def Let_def check_parse_Done split_beta dest: assert_eof_Done)



lemma assert_eof_run:
  assumes "within p q" and "\<And>r. within p r \<Longrightarrow> vars r = vars q \<Longrightarrow> current_type r = pEOF \<Longrightarrow>
      parser_error r = parser_error q \<Longrightarrow> tok_end (current_token q) \<le> tok_end (current_token r) \<Longrightarrow> run_ok p Q (k r)"
  shows "run_ok p Q (assert_eof q k)"
proof -
  obtain r where r: "rbs_parser_advance q = Some r" "parser_step q r" "vars r = vars q" "parser_error r = parser_error q" "spent r \<le> spent q"
    using advance_ok [OF within_ok [OF assms(1)]] by metis
  then have "within q r" by (simp add: within_def)
  with assms(1) have w: "within p r" by (rule within_trans)
  show ?thesis
    using r(1) assms(2) [OF w r(3) _ r(4) within_pos(1) [OF \<open>within q r\<close>]]
    by (auto simp: assert_eof_def advancing_def intro: run_ok_fail [OF w])
qed

lemma type_params_entry:
  assumes "ready k p"
  shows "run_ok p (\<lambda>ps q. current_type q = pEOF \<and> params_ok m (tok_begin (next_token p)) (tok_end (current_token q)) ps \<and>
      (\<exists>t. vars q = alloc_empty_table # t # alloc_reset_table # vars p \<and> table_ids t = param_ids ps)) (rbs_parse_type_params m p)"
proof -
  let ?p = "p\<lparr>vars := pushed True (vars p)\<rparr>"
  have "run_ok ?p (\<lambda>x q. within ?p q \<and> declares (pushed True (vars p)) (param_ids (snd x)) (vars q) \<and> type_params_post m ?p x q)
      (parse_type_params m ?p)"
    by (rule type_params_ok) (use assms in simp_all)
  then have run: "run_ok p (\<lambda>x q. within p q \<and> declares (pushed True (vars p)) (param_ids (snd x)) (vars q) \<and> type_params_post m p x q)
      (parse_type_params m ?p)" by (simp add: run_ok_vars)
  show ?thesis
  proof (cases "parse_type_params m ?p")
    case (Done x q)
    with run have q: "within p q" "declares (pushed True (vars p)) (param_ids (snd x)) (vars q)" "type_params_post m p x q"
      by (simp_all add: run_ok.simps)
    from q(2) obtain t where t: "vars q = t # alloc_reset_table # vars p" "table_ids t = param_ids (snd x)"
      by (auto simp: declares_def pushed_def alloc_empty_table_def)
    have "run_ok p (\<lambda>ps q. current_type q = pEOF \<and> params_ok m (tok_begin (next_token p)) (tok_end (current_token q)) ps \<and>
        (\<exists>t. vars q = alloc_empty_table # t # alloc_reset_table # vars p \<and> table_ids t = param_ids ps))
        (assert_eof (q\<lparr>vars := pushed False (vars q)\<rparr>) (Done (snd x)))"
      by (rule assert_eof_run)
        (use q t in \<open>auto simp: pushed_def type_params_post_def intro!: run_ok_return intro: params_ok_mono\<close>)
    then show ?thesis
      using Done
      by (auto simp: rbs_parse_type_params_def push_value split_beta intro: run_ok_fail [OF within_refl [OF ready_ok [OF assms]]])
  next
    case (Failed q)
    with run have q: "parser_step p q" "parser_error q \<noteq> None" by (simp_all add: run_ok.simps)
    have "run_ok p Q (assert_eof (q\<lparr>vars := pushed False (vars q)\<rparr>) Failed)" for Q :: "rbs_ast_type_param list \<Rightarrow> rbs_parser \<Rightarrow> bool"
    proof -
      obtain r where r: "rbs_parser_advance (q\<lparr>vars := pushed False (vars q)\<rparr>) = Some r" "parser_step q r"
        using advance_ok [of "q\<lparr>vars := pushed False (vars q)\<rparr>"] step_ok [OF q(1)] by (metis parser_ok_vars parser_step_vars(1))
      have pr: "parser_step p r" using step_trans [OF q(1) r(2)] .
      moreover have "parser_error r \<noteq> None" using q(2) r(2) by (simp add: parser_step_def)
      moreover have "parser_step p (rbs_parser_set_error r t b msg)" for t b msg
        using step_trans [OF pr set_error_step [OF step_ok [OF pr]]] .
      ultimately show ?thesis
        using r(1) by (simp add: assert_eof_def advancing_def fail_with_def run_ok.simps)
    qed
    then show ?thesis
      using Failed
      by (auto simp: rbs_parse_type_params_def push_value split_beta intro: run_ok_fail [OF within_refl [OF ready_ok [OF assms]]])
  qed (use run in \<open>auto simp: run_ok.simps\<close>)
qed



subsection \<open>Annotations in Ruby comments\<close>

text \<open>What the two parsers of annotations may do.\<close>

definition annotation_outcome :: "rbs_parser \<Rightarrow> rbs_ruby_annotation outcome \<Rightarrow> bool" where
  "annotation_outcome p r \<longleftrightarrow>
     (case r of
        Done a q \<Rightarrow> parser_ok q \<and> vars q = vars p \<and> current_type q = pEOF \<and>
          inline_ok (tok_begin (next_token p)) (tok_end (current_token q)) a
      | Failed q \<Rightarrow> parser_ok q \<and> parser_error q \<noteq> None
      | Aborted \<Rightarrow> False
      | Out_of_fuel \<Rightarrow> False)"

lemma entry_outcome: "reads p annotation_post r \<Longrightarrow> annotation_outcome p (inline_entry r)"
  using entry_ok [of p r]
  by (auto simp: annotation_outcome_def run_ok.simps annotation_post_def parser_step_def split: outcome.splits)



end
