(* ===== verification/Serializer.thy ===== *)
theory Serializer
  imports AstInline Buffer
begin

text \<open>
  \<open>src/serialize.c\<close>: the syntax tree as bytes, for the hosts that run the parser in WebAssembly.
  A \<open>writer\<close> is a function that writes to the state it is given; \<open>None\<close> is the failed assertion
  of \<open>w_constant\<close>, or that of the buffer. The function \<open>serialize_node\<close> of the code is one switch
  over all tags; here each datatype and record of the tree has its own part of it, and the
  calls in a case are a list of writers that are run in order. A list or hash is the list of
  the writers of its nodes, and a pointer that may be \<open>NULL\<close> an optional one. The lists of the
  tree are never \<open>NULL\<close>.
\<close>

subsection \<open>Values\<close>

record rbs_serialize_state =
  ser_constant_pool :: rbs_constant_pool
  ser_buffer :: rbs_buffer

type_synonym writer = "rbs_serialize_state \<Rightarrow> rbs_serialize_state option"

primrec write_all :: "writer list \<Rightarrow> writer" where
  "write_all [] state = Some state"
| "write_all (w # ws) state = (case w state of None \<Rightarrow> None | Some state \<Rightarrow> write_all ws state)"

definition w_bytes :: "byte list \<Rightarrow> writer" where
  "w_bytes value state =
     (if 0 < length value
      then map_option (\<lambda>b. state\<lparr>ser_buffer := b\<rparr>) (rbs_buffer_append_string (ser_buffer state) value)
      else Some state)"

definition w_u8 :: "byte \<Rightarrow> writer" where
  "w_u8 value = w_bytes [value]"

text \<open>The bytes of an integer are written from the lowest to the highest.\<close>

definition w_u32 :: "32 word \<Rightarrow> writer" where
  "w_u32 value = w_bytes
     [ucast (value AND 0xff), ucast (drop_bit 8 value AND 0xff), ucast (drop_bit 16 value AND 0xff),
      ucast (drop_bit 24 value AND 0xff)]"

definition w_i32 :: "int \<Rightarrow> writer" where
  "w_i32 value = w_u32 (word_of_int value)"

definition w_bool :: "bool \<Rightarrow> writer" where
  "w_bool value = w_u8 (if value then 1 else 0)"

text \<open>A string that is not inside its buffer is read out of bounds: \<open>None\<close> as well.\<close>

definition w_string :: "rbs_string \<Rightarrow> writer" where
  "w_string string =
     (let len = rbs_string_len string
      in if length (string_bytes string) = len then write_all [w_u32 (of_nat len), w_bytes (string_bytes string)]
         else (\<lambda>_. None))"

definition w_constant :: "32 word \<Rightarrow> writer" where
  "w_constant constant_id state =
     (case rbs_constant_pool_id_to_constant (ser_constant_pool state) constant_id of
        Inl _ \<Rightarrow> None
      | Inr constant \<Rightarrow> write_all [w_u32 (of_nat (length (c_bytes constant))), w_bytes (c_bytes constant)] state)"

text \<open>A presence byte, and the character positions.\<close>

definition w_loc_range :: "rbs_location_range \<Rightarrow> writer" where
  "w_loc_range rg =
     (if RBS_LOCATION_NULL_RANGE_P rg then w_u8 0
      else write_all [w_u8 1, w_i32 (start_char rg), w_i32 (end_char rg)])"

definition w_loc_range_list :: "rbs_location_range list \<Rightarrow> writer" where
  "w_loc_range_list ranges = write_all (w_u32 (of_nat (length ranges)) # map w_loc_range ranges)"

primrec attr_ivar_name_tag_value :: "rbs_attr_ivar_name_tag \<Rightarrow> byte" where
  "attr_ivar_name_tag_value RBS_ATTR_IVAR_NAME_TAG_UNSPECIFIED = 0"
| "attr_ivar_name_tag_value RBS_ATTR_IVAR_NAME_TAG_EMPTY = 1"
| "attr_ivar_name_tag_value RBS_ATTR_IVAR_NAME_TAG_NAME = 2"

definition w_attr_ivar_name :: "rbs_attr_ivar_name \<Rightarrow> writer" where
  "w_attr_ivar_name ivar_name =
     write_all (w_u8 (attr_ivar_name_tag_value (attr_ivar_tag ivar_name)) #
       (if attr_ivar_tag ivar_name = RBS_ATTR_IVAR_NAME_TAG_NAME
        then [w_constant (rbs_attr_ivar_name.attr_ivar_name ivar_name)] else []))"

definition w_node_list :: "writer list \<Rightarrow> writer" where
  "w_node_list nodes = write_all (w_u32 (of_nat (length nodes)) # nodes)"

definition w_hash :: "(writer \<times> writer) list \<Rightarrow> writer" where
  "w_hash entries = write_all (w_u32 (of_nat (length entries)) # concat (map (\<lambda>(key, value). [key, value]) entries))"

text \<open>The test of \<open>serialize_node\<close> for \<open>NULL\<close>.\<close>

definition w_nullable :: "writer option \<Rightarrow> writer" where
  "w_nullable node = (case node of None \<Rightarrow> w_u8 0 | Some w \<Rightarrow> w)"

subsection \<open>Enumerations\<close>

primrec attribute_visibility_value :: "rbs_attribute_visibility \<Rightarrow> byte" where
  "attribute_visibility_value RBS_ATTRIBUTE_VISIBILITY_UNSPECIFIED = 0"
| "attribute_visibility_value RBS_ATTRIBUTE_VISIBILITY_PUBLIC = 1"
| "attribute_visibility_value RBS_ATTRIBUTE_VISIBILITY_PRIVATE = 2"

primrec attribute_kind_value :: "rbs_attribute_kind \<Rightarrow> byte" where
  "attribute_kind_value RBS_ATTRIBUTE_KIND_INSTANCE = 0"
| "attribute_kind_value RBS_ATTRIBUTE_KIND_SINGLETON = 1"

primrec alias_kind_value :: "rbs_alias_kind \<Rightarrow> byte" where
  "alias_kind_value RBS_ALIAS_KIND_INSTANCE = 0"
| "alias_kind_value RBS_ALIAS_KIND_SINGLETON = 1"

primrec method_definition_kind_value :: "rbs_method_definition_kind \<Rightarrow> byte" where
  "method_definition_kind_value RBS_METHOD_DEFINITION_KIND_INSTANCE = 0"
| "method_definition_kind_value RBS_METHOD_DEFINITION_KIND_SINGLETON = 1"
| "method_definition_kind_value RBS_METHOD_DEFINITION_KIND_SINGLETON_INSTANCE = 2"

primrec method_definition_visibility_value :: "rbs_method_definition_visibility \<Rightarrow> byte" where
  "method_definition_visibility_value RBS_METHOD_DEFINITION_VISIBILITY_UNSPECIFIED = 0"
| "method_definition_visibility_value RBS_METHOD_DEFINITION_VISIBILITY_PUBLIC = 1"
| "method_definition_visibility_value RBS_METHOD_DEFINITION_VISIBILITY_PRIVATE = 2"

primrec type_param_variance_value :: "rbs_type_param_variance \<Rightarrow> byte" where
  "type_param_variance_value RBS_TYPE_PARAM_VARIANCE_INVARIANT = 0"
| "type_param_variance_value RBS_TYPE_PARAM_VARIANCE_COVARIANT = 1"
| "type_param_variance_value RBS_TYPE_PARAM_VARIANCE_CONTRAVARIANT = 2"

subsection \<open>Nodes\<close>

text \<open>The tag of a node comes first; 0 is for \<open>NULL\<close>.\<close>

definition RBS_SERIALIZE_TAG_SYMBOL :: byte where
  "RBS_SERIALIZE_TAG_SYMBOL = 79"

definition serialize_symbol :: "rbs_ast_symbol \<Rightarrow> writer" where
  "serialize_symbol node =
     write_all [w_u8 RBS_SERIALIZE_TAG_SYMBOL, w_constant (sym_constant_id node)]"

definition serialize_namespace :: "rbs_namespace \<Rightarrow> writer" where
  "serialize_namespace node =
     write_all [w_u8 49, w_node_list (map serialize_symbol (ns_path node)), w_bool (ns_absolute node)]"

definition serialize_type_name :: "rbs_type_name \<Rightarrow> writer" where
  "serialize_type_name node =
     write_all [w_u8 51, serialize_namespace (tn_rbs_namespace node), serialize_symbol (tn_name node)]"

definition serialize_comment :: "rbs_ast_comment \<Rightarrow> writer" where
  "serialize_comment node =
     write_all [w_u8 3, w_loc_range (comment_location node), w_string (comment_string node)]"

definition serialize_annotation :: "rbs_ast_annotation \<Rightarrow> writer" where
  "serialize_annotation node =
     write_all [w_u8 1, w_loc_range (annot_location node), w_string (annot_string node)]"

text \<open>Types, literals and keys.\<close>

primrec serialize_node :: "rbs_node \<Rightarrow> writer" where
  "serialize_node (Ast_Symbol symbol) = serialize_symbol symbol"
| "serialize_node (Ast_Bool _ value) = write_all [w_u8 2, w_bool value]"
| "serialize_node (Ast_Integer _ string_representation) =
     write_all [w_u8 17, w_string string_representation]"
| "serialize_node (Ast_String _ string) = write_all [w_u8 46, w_string string]"
| "serialize_node (Types_Alias location name args name_range args_range) =
     write_all [w_u8 52, w_loc_range location, w_loc_range name_range, w_loc_range args_range,
       serialize_type_name name, w_node_list (map serialize_node args)]"
| "serialize_node (Types_Bases_Any location todo) =
     write_all [w_u8 53, w_loc_range location, w_bool todo]"
| "serialize_node (Types_Bases_Bool location) = write_all [w_u8 54, w_loc_range location]"
| "serialize_node (Types_Bases_Bottom location) = write_all [w_u8 55, w_loc_range location]"
| "serialize_node (Types_Bases_Class location) = write_all [w_u8 56, w_loc_range location]"
| "serialize_node (Types_Bases_Instance location) = write_all [w_u8 57, w_loc_range location]"
| "serialize_node (Types_Bases_Nil location) = write_all [w_u8 58, w_loc_range location]"
| "serialize_node (Types_Bases_Self location) = write_all [w_u8 59, w_loc_range location]"
| "serialize_node (Types_Bases_Top location) = write_all [w_u8 60, w_loc_range location]"
| "serialize_node (Types_Bases_Void location) = write_all [w_u8 61, w_loc_range location]"
| "serialize_node (Types_Block location type required self_type) =
     write_all [w_u8 62, w_loc_range location, serialize_node type, w_bool required,
       w_nullable (map_option serialize_node self_type)]"
| "serialize_node (Types_Class_Instance location name args name_range args_range) =
     write_all [w_u8 63, w_loc_range location, w_loc_range name_range, w_loc_range args_range,
       serialize_type_name name, w_node_list (map serialize_node args)]"
| "serialize_node (Types_Class_Singleton location name args name_range args_range) =
     write_all [w_u8 64, w_loc_range location, w_loc_range name_range, w_loc_range args_range,
       serialize_type_name name, w_node_list (map serialize_node args)]"
| "serialize_node (Types_Function _ required_positionals optional_positionals rest_positionals
      trailing_positionals required_keywords optional_keywords rest_keywords forwarding
      return_type) =
     write_all [w_u8 65, w_node_list (map serialize_node required_positionals),
       w_node_list (map serialize_node optional_positionals),
       w_nullable (map_option serialize_node rest_positionals),
       w_node_list (map serialize_node trailing_positionals),
       w_hash (map (map_prod serialize_node serialize_node) required_keywords),
       w_hash (map (map_prod serialize_node serialize_node) optional_keywords),
       w_nullable (map_option serialize_node rest_keywords),
       w_nullable (map_option serialize_node forwarding), serialize_node return_type]"
| "serialize_node (Types_Function_Forwarding_Param location) =
     write_all [w_u8 66, w_loc_range location]"
| "serialize_node (Types_Function_Param location type name name_range) =
     write_all [w_u8 67, w_loc_range location, w_loc_range name_range, serialize_node type,
       w_nullable (map_option serialize_symbol name)]"
| "serialize_node (Types_Interface location name args name_range args_range) =
     write_all [w_u8 68, w_loc_range location, w_loc_range name_range, w_loc_range args_range,
       serialize_type_name name, w_node_list (map serialize_node args)]"
| "serialize_node (Types_Intersection location types) =
     write_all [w_u8 69, w_loc_range location, w_node_list (map serialize_node types)]"
| "serialize_node (Types_Literal location literal) =
     write_all [w_u8 70, w_loc_range location, serialize_node literal]"
| "serialize_node (Types_Optional location type) =
     write_all [w_u8 71, w_loc_range location, serialize_node type]"
| "serialize_node (Types_Proc location type block self_type) =
     write_all [w_u8 72, w_loc_range location, serialize_node type,
       w_nullable (map_option serialize_node block),
       w_nullable (map_option serialize_node self_type)]"
| "serialize_node (Types_Record location all_fields) =
     write_all [w_u8 73, w_loc_range location,
       w_hash (map (map_prod serialize_node serialize_node) all_fields)]"
| "serialize_node (Types_Record_Field_Type _ type required) =
     write_all [w_u8 74, serialize_node type, w_bool required]"
| "serialize_node (Types_Tuple location types) =
     write_all [w_u8 75, w_loc_range location, w_node_list (map serialize_node types)]"
| "serialize_node (Types_Union location types) =
     write_all [w_u8 76, w_loc_range location, w_node_list (map serialize_node types)]"
| "serialize_node (Types_Untyped_Function _ return_type) =
     write_all [w_u8 77, serialize_node return_type]"
| "serialize_node (Types_Variable location name) =
     write_all [w_u8 78, w_loc_range location, serialize_symbol name]"

definition serialize_type_param :: "rbs_ast_type_param \<Rightarrow> writer" where
  "serialize_type_param node =
     write_all [w_u8 47, w_loc_range (tp_location node), w_loc_range (tp_name_range node),
       w_loc_range (tp_variance_range node), w_loc_range (tp_unchecked_range node),
       w_loc_range (tp_upper_bound_range node), w_loc_range (tp_lower_bound_range node),
       w_loc_range (tp_default_range node), serialize_symbol (tp_name node),
       w_u8 (type_param_variance_value (tp_variance node)),
       w_nullable (map_option serialize_node (tp_upper_bound node)),
       w_nullable (map_option serialize_node (tp_lower_bound node)),
       w_nullable (map_option serialize_node (tp_default_type node)), w_bool (tp_unchecked node)]"

definition serialize_method_type :: "rbs_method_type \<Rightarrow> writer" where
  "serialize_method_type node =
     write_all [w_u8 48, w_loc_range (mt_location node), w_loc_range (mt_type_range node),
       w_loc_range (mt_type_params_range node),
       w_node_list (map serialize_type_param (mt_type_params node)),
       serialize_node (mt_type node), w_nullable (map_option serialize_node (mt_block node))]"

definition serialize_overload :: "rbs_ast_members_method_definition_overload \<Rightarrow> writer" where
  "serialize_overload node =
     write_all [w_u8 28, w_node_list (map serialize_annotation (overload_annotations node)),
       serialize_method_type (overload_method_type node)]"

definition serialize_class_super :: "rbs_ast_declarations_class_super \<Rightarrow> writer" where
  "serialize_class_super node =
     write_all [w_u8 5, w_loc_range (super_location node), w_loc_range (super_name_range node),
       w_loc_range (super_args_range node), serialize_type_name (super_name node),
       w_node_list (map serialize_node (super_args node))]"

definition serialize_module_self :: "rbs_ast_declarations_module_self \<Rightarrow> writer" where
  "serialize_module_self node =
     write_all [w_u8 11, w_loc_range (mself_location node), w_loc_range (mself_name_range node),
       w_loc_range (mself_args_range node), serialize_type_name (mself_name node),
       w_node_list (map serialize_node (mself_args node))]"

text \<open>Declarations and members.\<close>

primrec serialize_member :: "rbs_member \<Rightarrow> writer" where
  "serialize_member (Ast_Declarations_Class location name type_params super_class members
      annotations comment keyword_range name_range end_range type_params_range lt_range) =
     write_all [w_u8 4, w_loc_range location, w_loc_range keyword_range, w_loc_range name_range,
       w_loc_range end_range, w_loc_range type_params_range, w_loc_range lt_range,
       serialize_type_name name, w_node_list (map serialize_type_param type_params),
       w_nullable (map_option serialize_class_super super_class),
       w_node_list (map serialize_member members),
       w_node_list (map serialize_annotation annotations),
       w_nullable (map_option serialize_comment comment)]"
| "serialize_member (Ast_Declarations_Class_Alias location new_name old_name comment annotations
      keyword_range new_name_range eq_range old_name_range) =
     write_all [w_u8 6, w_loc_range location, w_loc_range keyword_range, w_loc_range new_name_range,
       w_loc_range eq_range, w_loc_range old_name_range, serialize_type_name new_name,
       serialize_type_name old_name, w_nullable (map_option serialize_comment comment),
       w_node_list (map serialize_annotation annotations)]"
| "serialize_member (Ast_Declarations_Constant location name type comment annotations name_range
      colon_range) =
     write_all [w_u8 7, w_loc_range location, w_loc_range name_range, w_loc_range colon_range,
       serialize_type_name name, serialize_node type,
       w_nullable (map_option serialize_comment comment),
       w_node_list (map serialize_annotation annotations)]"
| "serialize_member (Ast_Declarations_Global location name type comment annotations name_range
      colon_range) =
     write_all [w_u8 8, w_loc_range location, w_loc_range name_range, w_loc_range colon_range,
       serialize_symbol name, serialize_node type,
       w_nullable (map_option serialize_comment comment),
       w_node_list (map serialize_annotation annotations)]"
| "serialize_member (Ast_Declarations_Interface location name type_params members annotations
      comment keyword_range name_range end_range type_params_range) =
     write_all [w_u8 9, w_loc_range location, w_loc_range keyword_range, w_loc_range name_range,
       w_loc_range end_range, w_loc_range type_params_range, serialize_type_name name,
       w_node_list (map serialize_type_param type_params),
       w_node_list (map serialize_member members),
       w_node_list (map serialize_annotation annotations),
       w_nullable (map_option serialize_comment comment)]"
| "serialize_member (Ast_Declarations_Module location name type_params self_types members
      annotations comment keyword_range name_range end_range type_params_range colon_range
      self_types_range) =
     write_all [w_u8 10, w_loc_range location, w_loc_range keyword_range, w_loc_range name_range,
       w_loc_range end_range, w_loc_range type_params_range, w_loc_range colon_range,
       w_loc_range self_types_range, serialize_type_name name,
       w_node_list (map serialize_type_param type_params),
       w_node_list (map serialize_module_self self_types),
       w_node_list (map serialize_member members),
       w_node_list (map serialize_annotation annotations),
       w_nullable (map_option serialize_comment comment)]"
| "serialize_member (Ast_Declarations_Module_Alias location new_name old_name comment annotations
      keyword_range new_name_range eq_range old_name_range) =
     write_all [w_u8 12, w_loc_range location, w_loc_range keyword_range, w_loc_range new_name_range,
       w_loc_range eq_range, w_loc_range old_name_range, serialize_type_name new_name,
       serialize_type_name old_name, w_nullable (map_option serialize_comment comment),
       w_node_list (map serialize_annotation annotations)]"
| "serialize_member (Ast_Declarations_Type_Alias location name type_params type annotations comment
      keyword_range name_range eq_range type_params_range) =
     write_all [w_u8 13, w_loc_range location, w_loc_range keyword_range, w_loc_range name_range,
       w_loc_range eq_range, w_loc_range type_params_range, serialize_type_name name,
       w_node_list (map serialize_type_param type_params), serialize_node type,
       w_node_list (map serialize_annotation annotations),
       w_nullable (map_option serialize_comment comment)]"
| "serialize_member (Ast_Members_Alias location new_name old_name kind annotations comment
      keyword_range new_name_range old_name_range new_kind_range old_kind_range) =
     write_all [w_u8 18, w_loc_range location, w_loc_range keyword_range, w_loc_range new_name_range,
       w_loc_range old_name_range, w_loc_range new_kind_range, w_loc_range old_kind_range,
       serialize_symbol new_name, serialize_symbol old_name, w_u8 (alias_kind_value kind),
       w_node_list (map serialize_annotation annotations),
       w_nullable (map_option serialize_comment comment)]"
| "serialize_member (Ast_Members_Attr_Accessor location name type ivar_name kind annotations
      comment visibility keyword_range name_range colon_range kind_range ivar_range
      ivar_name_range visibility_range) =
     write_all [w_u8 19, w_loc_range location, w_loc_range keyword_range, w_loc_range name_range,
       w_loc_range colon_range, w_loc_range kind_range, w_loc_range ivar_range,
       w_loc_range ivar_name_range, w_loc_range visibility_range, serialize_symbol name,
       serialize_node type, w_attr_ivar_name ivar_name, w_u8 (attribute_kind_value kind),
       w_node_list (map serialize_annotation annotations),
       w_nullable (map_option serialize_comment comment),
       w_u8 (attribute_visibility_value visibility)]"
| "serialize_member (Ast_Members_Attr_Reader location name type ivar_name kind annotations comment
      visibility keyword_range name_range colon_range kind_range ivar_range ivar_name_range
      visibility_range) =
     write_all [w_u8 20, w_loc_range location, w_loc_range keyword_range, w_loc_range name_range,
       w_loc_range colon_range, w_loc_range kind_range, w_loc_range ivar_range,
       w_loc_range ivar_name_range, w_loc_range visibility_range, serialize_symbol name,
       serialize_node type, w_attr_ivar_name ivar_name, w_u8 (attribute_kind_value kind),
       w_node_list (map serialize_annotation annotations),
       w_nullable (map_option serialize_comment comment),
       w_u8 (attribute_visibility_value visibility)]"
| "serialize_member (Ast_Members_Attr_Writer location name type ivar_name kind annotations comment
      visibility keyword_range name_range colon_range kind_range ivar_range ivar_name_range
      visibility_range) =
     write_all [w_u8 21, w_loc_range location, w_loc_range keyword_range, w_loc_range name_range,
       w_loc_range colon_range, w_loc_range kind_range, w_loc_range ivar_range,
       w_loc_range ivar_name_range, w_loc_range visibility_range, serialize_symbol name,
       serialize_node type, w_attr_ivar_name ivar_name, w_u8 (attribute_kind_value kind),
       w_node_list (map serialize_annotation annotations),
       w_nullable (map_option serialize_comment comment),
       w_u8 (attribute_visibility_value visibility)]"
| "serialize_member (Ast_Members_Class_Instance_Variable location name type comment name_range
      colon_range kind_range) =
     write_all [w_u8 22, w_loc_range location, w_loc_range name_range, w_loc_range colon_range,
       w_loc_range kind_range, serialize_symbol name, serialize_node type,
       w_nullable (map_option serialize_comment comment)]"
| "serialize_member (Ast_Members_Class_Variable location name type comment name_range colon_range
      kind_range) =
     write_all [w_u8 23, w_loc_range location, w_loc_range name_range, w_loc_range colon_range,
       w_loc_range kind_range, serialize_symbol name, serialize_node type,
       w_nullable (map_option serialize_comment comment)]"
| "serialize_member (Ast_Members_Extend location name args annotations comment name_range
      keyword_range args_range) =
     write_all [w_u8 24, w_loc_range location, w_loc_range name_range, w_loc_range keyword_range,
       w_loc_range args_range, serialize_type_name name, w_node_list (map serialize_node args),
       w_node_list (map serialize_annotation annotations),
       w_nullable (map_option serialize_comment comment)]"
| "serialize_member (Ast_Members_Include location name args annotations comment name_range
      keyword_range args_range) =
     write_all [w_u8 25, w_loc_range location, w_loc_range name_range, w_loc_range keyword_range,
       w_loc_range args_range, serialize_type_name name, w_node_list (map serialize_node args),
       w_node_list (map serialize_annotation annotations),
       w_nullable (map_option serialize_comment comment)]"
| "serialize_member (Ast_Members_Instance_Variable location name type comment name_range
      colon_range kind_range) =
     write_all [w_u8 26, w_loc_range location, w_loc_range name_range, w_loc_range colon_range,
       w_loc_range kind_range, serialize_symbol name, serialize_node type,
       w_nullable (map_option serialize_comment comment)]"
| "serialize_member (Ast_Members_Method_Definition location name kind overloads annotations comment
      overloading visibility keyword_range name_range kind_range overloading_range
      visibility_range) =
     write_all [w_u8 27, w_loc_range location, w_loc_range keyword_range, w_loc_range name_range,
       w_loc_range kind_range, w_loc_range overloading_range, w_loc_range visibility_range,
       serialize_symbol name, w_u8 (method_definition_kind_value kind),
       w_node_list (map serialize_overload overloads),
       w_node_list (map serialize_annotation annotations),
       w_nullable (map_option serialize_comment comment), w_bool overloading,
       w_u8 (method_definition_visibility_value visibility)]"
| "serialize_member (Ast_Members_Prepend location name args annotations comment name_range
      keyword_range args_range) =
     write_all [w_u8 29, w_loc_range location, w_loc_range name_range, w_loc_range keyword_range,
       w_loc_range args_range, serialize_type_name name, w_node_list (map serialize_node args),
       w_node_list (map serialize_annotation annotations),
       w_nullable (map_option serialize_comment comment)]"
| "serialize_member (Ast_Members_Private location) = write_all [w_u8 30, w_loc_range location]"
| "serialize_member (Ast_Members_Public location) = write_all [w_u8 31, w_loc_range location]"

text \<open>Directives and signatures.\<close>

primrec serialize_use_clause :: "rbs_use_clause \<Rightarrow> writer" where
  "serialize_use_clause (Ast_Directives_Use_Single_Clause location type_name new_name
      type_name_range keyword_range new_name_range) =
     write_all [w_u8 15, w_loc_range location, w_loc_range type_name_range, w_loc_range keyword_range,
       w_loc_range new_name_range, serialize_type_name type_name,
       w_nullable (map_option serialize_symbol new_name)]"
| "serialize_use_clause (Ast_Directives_Use_Wildcard_Clause location rbs_namespace namespace_range
      star_range) =
     write_all [w_u8 16, w_loc_range location, w_loc_range namespace_range, w_loc_range star_range,
       serialize_namespace rbs_namespace]"

definition serialize_use :: "rbs_ast_directives_use \<Rightarrow> writer" where
  "serialize_use node =
     write_all [w_u8 14, w_loc_range (use_location node), w_loc_range (use_keyword_range node),
       w_node_list (map serialize_use_clause (use_clauses node))]"

definition serialize_signature :: "rbs_signature \<Rightarrow> writer" where
  "serialize_signature node =
     write_all [w_u8 50, w_node_list (map serialize_use (sig_directives node)),
       w_node_list (map serialize_member (sig_declarations node))]"

text \<open>Annotations in comments.\<close>

primrec serialize_ruby_annotation :: "rbs_ruby_annotation \<Rightarrow> writer" where
  "serialize_ruby_annotation (Ast_Ruby_Annotations_Block_Param_Type_Annotation location
      prefix_location ampersand_location name_location colon_location question_location
      type_location type comment_loc) =
     write_all [w_u8 32, w_loc_range location, w_loc_range prefix_location,
       w_loc_range ampersand_location, w_loc_range name_location, w_loc_range colon_location,
       w_loc_range question_location, w_loc_range type_location, serialize_node type,
       w_loc_range comment_loc]"
| "serialize_ruby_annotation (Ast_Ruby_Annotations_Class_Alias_Annotation location prefix_location
      keyword_location type_name type_name_location) =
     write_all [w_u8 33, w_loc_range location, w_loc_range prefix_location,
       w_loc_range keyword_location, w_nullable (map_option serialize_type_name type_name),
       w_loc_range type_name_location]"
| "serialize_ruby_annotation (Ast_Ruby_Annotations_Colon_Method_Type_Annotation location
      prefix_location annotations method_type) =
     write_all [w_u8 34, w_loc_range location, w_loc_range prefix_location,
       w_node_list (map serialize_annotation annotations), serialize_method_type method_type]"
| "serialize_ruby_annotation (Ast_Ruby_Annotations_Double_Splat_Param_Type_Annotation location
      prefix_location star2_location name_location colon_location param_type comment_loc) =
     write_all [w_u8 35, w_loc_range location, w_loc_range prefix_location, w_loc_range star2_location,
       w_loc_range name_location, w_loc_range colon_location, serialize_node param_type,
       w_loc_range comment_loc]"
| "serialize_ruby_annotation (Ast_Ruby_Annotations_Instance_Variable_Annotation location
      prefix_location ivar_name ivar_name_location colon_location type comment_loc) =
     write_all [w_u8 36, w_loc_range location, w_loc_range prefix_location, serialize_symbol ivar_name,
       w_loc_range ivar_name_location, w_loc_range colon_location, serialize_node type,
       w_loc_range comment_loc]"
| "serialize_ruby_annotation (Ast_Ruby_Annotations_Method_Types_Annotation location prefix_location
      overloads vertical_bar_locations dot3_location) =
     write_all [w_u8 37, w_loc_range location, w_loc_range prefix_location,
       w_node_list (map serialize_overload overloads), w_loc_range_list vertical_bar_locations,
       w_loc_range dot3_location]"
| "serialize_ruby_annotation (Ast_Ruby_Annotations_Module_Alias_Annotation location prefix_location
      keyword_location type_name type_name_location) =
     write_all [w_u8 38, w_loc_range location, w_loc_range prefix_location,
       w_loc_range keyword_location, w_nullable (map_option serialize_type_name type_name),
       w_loc_range type_name_location]"
| "serialize_ruby_annotation (Ast_Ruby_Annotations_Module_Self_Annotation location prefix_location
      keyword_location colon_location name args open_bracket_location close_bracket_location
      args_comma_locations comment_loc) =
     write_all [w_u8 39, w_loc_range location, w_loc_range prefix_location,
       w_loc_range keyword_location, w_loc_range colon_location, serialize_type_name name,
       w_node_list (map serialize_node args), w_loc_range open_bracket_location,
       w_loc_range close_bracket_location, w_loc_range_list args_comma_locations,
       w_loc_range comment_loc]"
| "serialize_ruby_annotation (Ast_Ruby_Annotations_Node_Type_Assertion location prefix_location
      type) =
     write_all [w_u8 40, w_loc_range location, w_loc_range prefix_location, serialize_node type]"
| "serialize_ruby_annotation (Ast_Ruby_Annotations_Param_Type_Annotation location prefix_location
      name_location colon_location param_type comment_loc) =
     write_all [w_u8 41, w_loc_range location, w_loc_range prefix_location, w_loc_range name_location,
       w_loc_range colon_location, serialize_node param_type, w_loc_range comment_loc]"
| "serialize_ruby_annotation (Ast_Ruby_Annotations_Return_Type_Annotation location prefix_location
      return_location colon_location return_type comment_loc) =
     write_all [w_u8 42, w_loc_range location, w_loc_range prefix_location,
       w_loc_range return_location, w_loc_range colon_location, serialize_node return_type,
       w_loc_range comment_loc]"
| "serialize_ruby_annotation (Ast_Ruby_Annotations_Skip_Annotation location prefix_location
      skip_location comment_loc) =
     write_all [w_u8 43, w_loc_range location, w_loc_range prefix_location, w_loc_range skip_location,
       w_loc_range comment_loc]"
| "serialize_ruby_annotation (Ast_Ruby_Annotations_Splat_Param_Type_Annotation location
      prefix_location star_location name_location colon_location param_type comment_loc) =
     write_all [w_u8 44, w_loc_range location, w_loc_range prefix_location, w_loc_range star_location,
       w_loc_range name_location, w_loc_range colon_location, serialize_node param_type,
       w_loc_range comment_loc]"
| "serialize_ruby_annotation (Ast_Ruby_Annotations_Type_Application_Annotation location
      prefix_location type_args close_bracket_location comma_locations) =
     write_all [w_u8 45, w_loc_range location, w_loc_range prefix_location,
       w_node_list (map serialize_node type_args), w_loc_range close_bracket_location,
       w_loc_range_list comma_locations]"

subsection \<open>Entry points\<close>

text \<open>The node is given by its writer.\<close>

definition rbs_serialize_node :: "rbs_constant_pool \<Rightarrow> writer \<Rightarrow> rbs_string option" where
  "rbs_serialize_node pool node =
     (case node \<lparr>ser_constant_pool = pool, ser_buffer = rbs_buffer_init\<rparr> of
        None \<Rightarrow> None
      | Some state \<Rightarrow> Some (rbs_buffer_to_string (ser_buffer state)))"

definition rbs_serialize_node_list :: "rbs_constant_pool \<Rightarrow> writer list \<Rightarrow> rbs_string option" where
  "rbs_serialize_node_list pool nodes =
     (case w_node_list nodes \<lparr>ser_constant_pool = pool, ser_buffer = rbs_buffer_init\<rparr> of
        None \<Rightarrow> None
      | Some state \<Rightarrow> Some (rbs_buffer_to_string (ser_buffer state)))"

end
