(* ===== verification/Serializable.thy ===== *)
theory Serializable
  imports Serializer
begin

text \<open>
  The trees that can be serialized: every constant of the tree is in the pool, and every string
  lies inside its buffer (\<open>valid_node\<close> for types, \<open>valid_member\<close> for declarations and members, and
  so on). Nothing else is asked of a tree.
\<close>

definition string_inside :: "rbs_string \<Rightarrow> bool" where
  "string_inside string \<longleftrightarrow> length (string_bytes string) = rbs_string_len string"

definition valid_id :: "rbs_constant_pool \<Rightarrow> 32 word \<Rightarrow> bool" where
  "valid_id pool constant_id \<longleftrightarrow> constant_id \<noteq> 0 \<and> constant_id \<le> pool_size pool"

definition valid_list :: "bool list \<Rightarrow> bool" where
  "valid_list nodes \<longleftrightarrow> (\<forall>b\<in>set nodes. b)"

definition valid_hash :: "(bool \<times> bool) list \<Rightarrow> bool" where
  "valid_hash entries \<longleftrightarrow> (\<forall>(key, value)\<in>set entries. key \<and> value)"

definition valid_nullable :: "bool option \<Rightarrow> bool" where
  "valid_nullable node \<longleftrightarrow> (case node of None \<Rightarrow> True | Some b \<Rightarrow> b)"

definition valid_symbol :: "rbs_constant_pool \<Rightarrow> rbs_ast_symbol \<Rightarrow> bool" where
  "valid_symbol pool node \<longleftrightarrow> valid_id pool (sym_constant_id node)"

definition valid_ivar_name :: "rbs_constant_pool \<Rightarrow> rbs_attr_ivar_name \<Rightarrow> bool" where
  "valid_ivar_name pool ivar_name \<longleftrightarrow>
     (attr_ivar_tag ivar_name = RBS_ATTR_IVAR_NAME_TAG_NAME \<longrightarrow> valid_id pool (rbs_attr_ivar_name.attr_ivar_name ivar_name))"

definition valid_namespace :: "rbs_constant_pool \<Rightarrow> rbs_namespace \<Rightarrow> bool" where
  "valid_namespace pool node \<longleftrightarrow>
     valid_list (map (valid_symbol pool) (ns_path node))"

definition valid_type_name :: "rbs_constant_pool \<Rightarrow> rbs_type_name \<Rightarrow> bool" where
  "valid_type_name pool node \<longleftrightarrow>
     valid_namespace pool (tn_rbs_namespace node) \<and> valid_symbol pool (tn_name node)"

definition valid_comment :: "rbs_constant_pool \<Rightarrow> rbs_ast_comment \<Rightarrow> bool" where
  "valid_comment pool node \<longleftrightarrow>
     string_inside (comment_string node)"

definition valid_annotation :: "rbs_constant_pool \<Rightarrow> rbs_ast_annotation \<Rightarrow> bool" where
  "valid_annotation pool node \<longleftrightarrow>
     string_inside (annot_string node)"

primrec valid_node :: "rbs_constant_pool \<Rightarrow> rbs_node \<Rightarrow> bool" where
  "valid_node pool (Ast_Symbol symbol) \<longleftrightarrow> valid_symbol pool symbol"
| "valid_node pool (Ast_Bool _ _) \<longleftrightarrow> True"
| "valid_node pool (Ast_Integer _ string_representation) \<longleftrightarrow>
     string_inside string_representation"
| "valid_node pool (Ast_String _ string) \<longleftrightarrow> string_inside string"
| "valid_node pool (Types_Alias _ name args _ _) \<longleftrightarrow>
     valid_type_name pool name \<and> valid_list (map (valid_node pool) args)"
| "valid_node pool (Types_Bases_Any _ _) \<longleftrightarrow> True"
| "valid_node pool (Types_Bases_Bool _) \<longleftrightarrow> True"
| "valid_node pool (Types_Bases_Bottom _) \<longleftrightarrow> True"
| "valid_node pool (Types_Bases_Class _) \<longleftrightarrow> True"
| "valid_node pool (Types_Bases_Instance _) \<longleftrightarrow> True"
| "valid_node pool (Types_Bases_Nil _) \<longleftrightarrow> True"
| "valid_node pool (Types_Bases_Self _) \<longleftrightarrow> True"
| "valid_node pool (Types_Bases_Top _) \<longleftrightarrow> True"
| "valid_node pool (Types_Bases_Void _) \<longleftrightarrow> True"
| "valid_node pool (Types_Block _ type _ self_type) \<longleftrightarrow>
     valid_node pool type \<and> valid_nullable (map_option (valid_node pool) self_type)"
| "valid_node pool (Types_Class_Instance _ name args _ _) \<longleftrightarrow>
     valid_type_name pool name \<and> valid_list (map (valid_node pool) args)"
| "valid_node pool (Types_Class_Singleton _ name args _ _) \<longleftrightarrow>
     valid_type_name pool name \<and> valid_list (map (valid_node pool) args)"
| "valid_node pool (Types_Function _ required_positionals optional_positionals rest_positionals
      trailing_positionals required_keywords optional_keywords rest_keywords forwarding
      return_type) \<longleftrightarrow>
     valid_list (map (valid_node pool) required_positionals) \<and>
       valid_list (map (valid_node pool) optional_positionals) \<and>
       valid_nullable (map_option (valid_node pool) rest_positionals) \<and>
       valid_list (map (valid_node pool) trailing_positionals) \<and>
       valid_hash (map (map_prod (valid_node pool) (valid_node pool)) required_keywords) \<and>
       valid_hash (map (map_prod (valid_node pool) (valid_node pool)) optional_keywords) \<and>
       valid_nullable (map_option (valid_node pool) rest_keywords) \<and>
       valid_nullable (map_option (valid_node pool) forwarding) \<and> valid_node pool return_type"
| "valid_node pool (Types_Function_Forwarding_Param _) \<longleftrightarrow> True"
| "valid_node pool (Types_Function_Param _ type name _) \<longleftrightarrow>
     valid_node pool type \<and> valid_nullable (map_option (valid_symbol pool) name)"
| "valid_node pool (Types_Interface _ name args _ _) \<longleftrightarrow>
     valid_type_name pool name \<and> valid_list (map (valid_node pool) args)"
| "valid_node pool (Types_Intersection _ types) \<longleftrightarrow>
     valid_list (map (valid_node pool) types)"
| "valid_node pool (Types_Literal _ literal) \<longleftrightarrow> valid_node pool literal"
| "valid_node pool (Types_Optional _ type) \<longleftrightarrow> valid_node pool type"
| "valid_node pool (Types_Proc _ type block self_type) \<longleftrightarrow>
     valid_node pool type \<and> valid_nullable (map_option (valid_node pool) block) \<and>
       valid_nullable (map_option (valid_node pool) self_type)"
| "valid_node pool (Types_Record _ all_fields) \<longleftrightarrow>
     valid_hash (map (map_prod (valid_node pool) (valid_node pool)) all_fields)"
| "valid_node pool (Types_Record_Field_Type _ type _) \<longleftrightarrow> valid_node pool type"
| "valid_node pool (Types_Tuple _ types) \<longleftrightarrow>
     valid_list (map (valid_node pool) types)"
| "valid_node pool (Types_Union _ types) \<longleftrightarrow>
     valid_list (map (valid_node pool) types)"
| "valid_node pool (Types_Untyped_Function _ return_type) \<longleftrightarrow>
     valid_node pool return_type"
| "valid_node pool (Types_Variable _ name) \<longleftrightarrow> valid_symbol pool name"

definition valid_type_param :: "rbs_constant_pool \<Rightarrow> rbs_ast_type_param \<Rightarrow> bool" where
  "valid_type_param pool node \<longleftrightarrow>
     valid_symbol pool (tp_name node) \<and>
       valid_nullable (map_option (valid_node pool) (tp_upper_bound node)) \<and>
       valid_nullable (map_option (valid_node pool) (tp_lower_bound node)) \<and>
       valid_nullable (map_option (valid_node pool) (tp_default_type node))"

definition valid_method_type :: "rbs_constant_pool \<Rightarrow> rbs_method_type \<Rightarrow> bool" where
  "valid_method_type pool node \<longleftrightarrow>
     valid_list (map (valid_type_param pool) (mt_type_params node)) \<and>
       valid_node pool (mt_type node) \<and>
       valid_nullable (map_option (valid_node pool) (mt_block node))"

definition valid_overload :: "rbs_constant_pool \<Rightarrow> rbs_ast_members_method_definition_overload \<Rightarrow> bool" where
  "valid_overload pool node \<longleftrightarrow>
     valid_list (map (valid_annotation pool) (overload_annotations node)) \<and>
       valid_method_type pool (overload_method_type node)"

definition valid_class_super :: "rbs_constant_pool \<Rightarrow> rbs_ast_declarations_class_super \<Rightarrow> bool" where
  "valid_class_super pool node \<longleftrightarrow>
     valid_type_name pool (super_name node) \<and> valid_list (map (valid_node pool) (super_args node))"

definition valid_module_self :: "rbs_constant_pool \<Rightarrow> rbs_ast_declarations_module_self \<Rightarrow> bool" where
  "valid_module_self pool node \<longleftrightarrow>
     valid_type_name pool (mself_name node) \<and> valid_list (map (valid_node pool) (mself_args node))"

primrec valid_member :: "rbs_constant_pool \<Rightarrow> rbs_member \<Rightarrow> bool" where
  "valid_member pool (Ast_Declarations_Class _ name type_params super_class members annotations
      comment _ _ _ _ _) \<longleftrightarrow>
     valid_type_name pool name \<and> valid_list (map (valid_type_param pool) type_params) \<and>
       valid_nullable (map_option (valid_class_super pool) super_class) \<and>
       valid_list (map (valid_member pool) members) \<and>
       valid_list (map (valid_annotation pool) annotations) \<and>
       valid_nullable (map_option (valid_comment pool) comment)"
| "valid_member pool (Ast_Declarations_Class_Alias _ new_name old_name comment annotations _ _ _ _)
      \<longleftrightarrow>
     valid_type_name pool new_name \<and> valid_type_name pool old_name \<and>
       valid_nullable (map_option (valid_comment pool) comment) \<and>
       valid_list (map (valid_annotation pool) annotations)"
| "valid_member pool (Ast_Declarations_Constant _ name type comment annotations _ _)
      \<longleftrightarrow>
     valid_type_name pool name \<and> valid_node pool type \<and>
       valid_nullable (map_option (valid_comment pool) comment) \<and>
       valid_list (map (valid_annotation pool) annotations)"
| "valid_member pool (Ast_Declarations_Global _ name type comment annotations _ _)
      \<longleftrightarrow>
     valid_symbol pool name \<and> valid_node pool type \<and>
       valid_nullable (map_option (valid_comment pool) comment) \<and>
       valid_list (map (valid_annotation pool) annotations)"
| "valid_member pool (Ast_Declarations_Interface _ name type_params members annotations comment _ _
      _ _) \<longleftrightarrow>
     valid_type_name pool name \<and> valid_list (map (valid_type_param pool) type_params) \<and>
       valid_list (map (valid_member pool) members) \<and>
       valid_list (map (valid_annotation pool) annotations) \<and>
       valid_nullable (map_option (valid_comment pool) comment)"
| "valid_member pool (Ast_Declarations_Module _ name type_params self_types members annotations
      comment _ _ _ _ _ _) \<longleftrightarrow>
     valid_type_name pool name \<and> valid_list (map (valid_type_param pool) type_params) \<and>
       valid_list (map (valid_module_self pool) self_types) \<and>
       valid_list (map (valid_member pool) members) \<and>
       valid_list (map (valid_annotation pool) annotations) \<and>
       valid_nullable (map_option (valid_comment pool) comment)"
| "valid_member pool (Ast_Declarations_Module_Alias _ new_name old_name comment annotations _ _ _
      _) \<longleftrightarrow>
     valid_type_name pool new_name \<and> valid_type_name pool old_name \<and>
       valid_nullable (map_option (valid_comment pool) comment) \<and>
       valid_list (map (valid_annotation pool) annotations)"
| "valid_member pool (Ast_Declarations_Type_Alias _ name type_params type annotations comment _ _ _
      _) \<longleftrightarrow>
     valid_type_name pool name \<and> valid_list (map (valid_type_param pool) type_params) \<and>
       valid_node pool type \<and> valid_list (map (valid_annotation pool) annotations) \<and>
       valid_nullable (map_option (valid_comment pool) comment)"
| "valid_member pool (Ast_Members_Alias _ new_name old_name _ annotations comment _ _ _ _ _)
      \<longleftrightarrow>
     valid_symbol pool new_name \<and> valid_symbol pool old_name \<and>
       valid_list (map (valid_annotation pool) annotations) \<and>
       valid_nullable (map_option (valid_comment pool) comment)"
| "valid_member pool (Ast_Members_Attr_Accessor _ name type ivar_name _ annotations comment _ _ _ _
      _ _ _ _) \<longleftrightarrow>
     valid_symbol pool name \<and> valid_node pool type \<and> valid_ivar_name pool ivar_name \<and>
       valid_list (map (valid_annotation pool) annotations) \<and>
       valid_nullable (map_option (valid_comment pool) comment)"
| "valid_member pool (Ast_Members_Attr_Reader _ name type ivar_name _ annotations comment _ _ _ _ _
      _ _ _) \<longleftrightarrow>
     valid_symbol pool name \<and> valid_node pool type \<and> valid_ivar_name pool ivar_name \<and>
       valid_list (map (valid_annotation pool) annotations) \<and>
       valid_nullable (map_option (valid_comment pool) comment)"
| "valid_member pool (Ast_Members_Attr_Writer _ name type ivar_name _ annotations comment _ _ _ _ _
      _ _ _) \<longleftrightarrow>
     valid_symbol pool name \<and> valid_node pool type \<and> valid_ivar_name pool ivar_name \<and>
       valid_list (map (valid_annotation pool) annotations) \<and>
       valid_nullable (map_option (valid_comment pool) comment)"
| "valid_member pool (Ast_Members_Class_Instance_Variable _ name type comment _ _ _)
      \<longleftrightarrow>
     valid_symbol pool name \<and> valid_node pool type \<and>
       valid_nullable (map_option (valid_comment pool) comment)"
| "valid_member pool (Ast_Members_Class_Variable _ name type comment _ _ _) \<longleftrightarrow>
     valid_symbol pool name \<and> valid_node pool type \<and>
       valid_nullable (map_option (valid_comment pool) comment)"
| "valid_member pool (Ast_Members_Extend _ name args annotations comment _ _ _)
      \<longleftrightarrow>
     valid_type_name pool name \<and> valid_list (map (valid_node pool) args) \<and>
       valid_list (map (valid_annotation pool) annotations) \<and>
       valid_nullable (map_option (valid_comment pool) comment)"
| "valid_member pool (Ast_Members_Include _ name args annotations comment _ _ _)
      \<longleftrightarrow>
     valid_type_name pool name \<and> valid_list (map (valid_node pool) args) \<and>
       valid_list (map (valid_annotation pool) annotations) \<and>
       valid_nullable (map_option (valid_comment pool) comment)"
| "valid_member pool (Ast_Members_Instance_Variable _ name type comment _ _ _)
      \<longleftrightarrow>
     valid_symbol pool name \<and> valid_node pool type \<and>
       valid_nullable (map_option (valid_comment pool) comment)"
| "valid_member pool (Ast_Members_Method_Definition _ name _ overloads annotations comment _ _ _ _
      _ _ _) \<longleftrightarrow>
     valid_symbol pool name \<and> valid_list (map (valid_overload pool) overloads) \<and>
       valid_list (map (valid_annotation pool) annotations) \<and>
       valid_nullable (map_option (valid_comment pool) comment)"
| "valid_member pool (Ast_Members_Prepend _ name args annotations comment _ _ _)
      \<longleftrightarrow>
     valid_type_name pool name \<and> valid_list (map (valid_node pool) args) \<and>
       valid_list (map (valid_annotation pool) annotations) \<and>
       valid_nullable (map_option (valid_comment pool) comment)"
| "valid_member pool (Ast_Members_Private _) \<longleftrightarrow> True"
| "valid_member pool (Ast_Members_Public _) \<longleftrightarrow> True"

primrec valid_use_clause :: "rbs_constant_pool \<Rightarrow> rbs_use_clause \<Rightarrow> bool" where
  "valid_use_clause pool (Ast_Directives_Use_Single_Clause _ type_name new_name _ _ _)
      \<longleftrightarrow>
     valid_type_name pool type_name \<and> valid_nullable (map_option (valid_symbol pool) new_name)"
| "valid_use_clause pool (Ast_Directives_Use_Wildcard_Clause _ rbs_namespace _ _)
      \<longleftrightarrow>
     valid_namespace pool rbs_namespace"

definition valid_use :: "rbs_constant_pool \<Rightarrow> rbs_ast_directives_use \<Rightarrow> bool" where
  "valid_use pool node \<longleftrightarrow>
     valid_list (map (valid_use_clause pool) (use_clauses node))"

definition valid_signature :: "rbs_constant_pool \<Rightarrow> rbs_signature \<Rightarrow> bool" where
  "valid_signature pool node \<longleftrightarrow>
     valid_list (map (valid_use pool) (sig_directives node)) \<and>
       valid_list (map (valid_member pool) (sig_declarations node))"

primrec valid_ruby_annotation :: "rbs_constant_pool \<Rightarrow> rbs_ruby_annotation \<Rightarrow> bool" where
  "valid_ruby_annotation pool (Ast_Ruby_Annotations_Block_Param_Type_Annotation _ _ _ _ _ _ _ type
      _) \<longleftrightarrow>
     valid_node pool type"
| "valid_ruby_annotation pool (Ast_Ruby_Annotations_Class_Alias_Annotation _ _ _ type_name _)
      \<longleftrightarrow>
     valid_nullable (map_option (valid_type_name pool) type_name)"
| "valid_ruby_annotation pool (Ast_Ruby_Annotations_Colon_Method_Type_Annotation _ _ annotations
      method_type) \<longleftrightarrow>
     valid_list (map (valid_annotation pool) annotations) \<and> valid_method_type pool method_type"
| "valid_ruby_annotation pool (Ast_Ruby_Annotations_Double_Splat_Param_Type_Annotation _ _ _ _ _
      param_type _) \<longleftrightarrow>
     valid_node pool param_type"
| "valid_ruby_annotation pool (Ast_Ruby_Annotations_Instance_Variable_Annotation _ _ ivar_name _ _
      type _) \<longleftrightarrow>
     valid_symbol pool ivar_name \<and> valid_node pool type"
| "valid_ruby_annotation pool (Ast_Ruby_Annotations_Method_Types_Annotation _ _ overloads _ _)
      \<longleftrightarrow>
     valid_list (map (valid_overload pool) overloads)"
| "valid_ruby_annotation pool (Ast_Ruby_Annotations_Module_Alias_Annotation _ _ _ type_name _)
      \<longleftrightarrow>
     valid_nullable (map_option (valid_type_name pool) type_name)"
| "valid_ruby_annotation pool (Ast_Ruby_Annotations_Module_Self_Annotation _ _ _ _ name args _ _ _
      _) \<longleftrightarrow>
     valid_type_name pool name \<and> valid_list (map (valid_node pool) args)"
| "valid_ruby_annotation pool (Ast_Ruby_Annotations_Node_Type_Assertion _ _ type)
      \<longleftrightarrow>
     valid_node pool type"
| "valid_ruby_annotation pool (Ast_Ruby_Annotations_Param_Type_Annotation _ _ _ _ param_type _)
      \<longleftrightarrow>
     valid_node pool param_type"
| "valid_ruby_annotation pool (Ast_Ruby_Annotations_Return_Type_Annotation _ _ _ _ return_type _)
      \<longleftrightarrow>
     valid_node pool return_type"
| "valid_ruby_annotation pool (Ast_Ruby_Annotations_Skip_Annotation _ _ _ _) \<longleftrightarrow>
     True"
| "valid_ruby_annotation pool (Ast_Ruby_Annotations_Splat_Param_Type_Annotation _ _ _ _ _
      param_type _) \<longleftrightarrow>
     valid_node pool param_type"
| "valid_ruby_annotation pool (Ast_Ruby_Annotations_Type_Application_Annotation _ _ type_args _ _)
      \<longleftrightarrow>
     valid_list (map (valid_node pool) type_args)"

end
