(* ===== verification/Deserializer.thy ===== *)
theory Deserializer
  imports CString
begin

text \<open>
  The other end of \<open>src/serialize.c\<close>: \<open>RBS::WASM::Deserializer\<close> of \<open>lib/rbs/wasm/deserializer.rb\<close>,
  which reads the bytes and makes Ruby objects, driven by the table of
  \<open>lib/rbs/wasm/serialization_schema.rb\<close>. A reader takes the bytes from the current position on;
  \<open>None\<close> is an exception, or bytes that end inside a value. The objects are values of
  \<open>ruby_value\<close>: an object is its class, location and keyword arguments, an integer the text it is
  made from, and a hash the assignments that make it. The encodings of
  strings, and what \<open>TypeParam.resolve_variables\<close> does with the arguments of some objects, are
  not part of it.
\<close>

subsection \<open>Ruby values\<close>

datatype (plugins only: code size) ruby_value =
    Ruby_nil
  | Ruby_bool bool
  | Ruby_symbol "byte list"
  | Ruby_integer "byte list"
  | Ruby_string "byte list"
  | Ruby_array "ruby_value list"
  | Ruby_hash "(ruby_value \<times> ruby_value) list"
  | Ruby_enum "string option"
  | Ruby_location int int "(string \<times> bool \<times> (int \<times> int) option) list"
  | Ruby_object string "ruby_value option" "(string \<times> ruby_value) list"
  | Ruby_namespace ruby_value bool
  | Ruby_type_name ruby_value ruby_value

subsection \<open>The schema\<close>

datatype (plugins only: code size) field_reader =
    Read_node | Read_node_list | Read_hash | Read_string | Read_bool | Read_location_range
  | Read_location_range_list | Read_attr_ivar_name | Read_enum "string option list"

text \<open>
  An entry for a node has its class, whether it has a location, the children of the location and
  whether they are required, the fields, and whether type variables are resolved.
\<close>

datatype (plugins only: code size) schema_entry =
    Entry_node string bool "(string \<times> bool) list" "(string option \<times> field_reader) list" bool
  | Entry_bool | Entry_integer | Entry_string_value | Entry_record_field | Entry_signature
  | Entry_namespace | Entry_type_name

definition SYMBOL_TAG :: byte where
  "SYMBOL_TAG = 79"

definition entry_AST_Annotation :: schema_entry where
  "entry_AST_Annotation =
     Entry_node ''RBS::AST::Annotation'' True [] [(Some ''string'', Read_string)] False"

definition entry_AST_Comment :: schema_entry where
  "entry_AST_Comment = Entry_node ''RBS::AST::Comment'' True [] [(None, Read_string)] False"

definition entry_AST_Declarations_Class :: schema_entry where
  "entry_AST_Declarations_Class =
     Entry_node ''RBS::AST::Declarations::Class'' True [(''keyword'', True), (''name'', True),
       (''end'', True), (''type_params'', False), (''lt'', False)] [(Some ''name'', Read_node),
       (Some ''type_params'', Read_node_list), (Some ''super_class'', Read_node),
       (Some ''members'', Read_node_list), (Some ''annotations'', Read_node_list),
       (Some ''comment'', Read_node)] True"

definition entry_AST_Declarations_Class_Super :: schema_entry where
  "entry_AST_Declarations_Class_Super =
     Entry_node ''RBS::AST::Declarations::Class::Super'' True [(''name'', True), (''args'', False)]
       [(Some ''name'', Read_node), (Some ''args'', Read_node_list)] False"

definition entry_AST_Declarations_ClassAlias :: schema_entry where
  "entry_AST_Declarations_ClassAlias =
     Entry_node ''RBS::AST::Declarations::ClassAlias'' True [(''keyword'', True), (''new_name'', True),
       (''eq'', True), (''old_name'', True)] [(Some ''new_name'', Read_node),
       (Some ''old_name'', Read_node), (Some ''comment'', Read_node),
       (Some ''annotations'', Read_node_list)] False"

definition entry_AST_Declarations_Constant :: schema_entry where
  "entry_AST_Declarations_Constant =
     Entry_node ''RBS::AST::Declarations::Constant'' True [(''name'', True), (''colon'', True)]
       [(Some ''name'', Read_node), (Some ''type'', Read_node), (Some ''comment'', Read_node),
       (Some ''annotations'', Read_node_list)] False"

definition entry_AST_Declarations_Global :: schema_entry where
  "entry_AST_Declarations_Global =
     Entry_node ''RBS::AST::Declarations::Global'' True [(''name'', True), (''colon'', True)]
       [(Some ''name'', Read_node), (Some ''type'', Read_node), (Some ''comment'', Read_node),
       (Some ''annotations'', Read_node_list)] False"

definition entry_AST_Declarations_Interface :: schema_entry where
  "entry_AST_Declarations_Interface =
     Entry_node ''RBS::AST::Declarations::Interface'' True [(''keyword'', True), (''name'', True),
       (''end'', True), (''type_params'', False)] [(Some ''name'', Read_node),
       (Some ''type_params'', Read_node_list), (Some ''members'', Read_node_list),
       (Some ''annotations'', Read_node_list), (Some ''comment'', Read_node)] True"

definition entry_AST_Declarations_Module :: schema_entry where
  "entry_AST_Declarations_Module =
     Entry_node ''RBS::AST::Declarations::Module'' True [(''keyword'', True), (''name'', True),
       (''end'', True), (''type_params'', False), (''colon'', False), (''self_types'', False)]
       [(Some ''name'', Read_node), (Some ''type_params'', Read_node_list),
       (Some ''self_types'', Read_node_list), (Some ''members'', Read_node_list),
       (Some ''annotations'', Read_node_list), (Some ''comment'', Read_node)] True"

definition entry_AST_Declarations_Module_Self :: schema_entry where
  "entry_AST_Declarations_Module_Self =
     Entry_node ''RBS::AST::Declarations::Module::Self'' True [(''name'', True), (''args'', False)]
       [(Some ''name'', Read_node), (Some ''args'', Read_node_list)] False"

definition entry_AST_Declarations_ModuleAlias :: schema_entry where
  "entry_AST_Declarations_ModuleAlias =
     Entry_node ''RBS::AST::Declarations::ModuleAlias'' True [(''keyword'', True),
       (''new_name'', True), (''eq'', True), (''old_name'', True)]
       [(Some ''new_name'', Read_node), (Some ''old_name'', Read_node),
       (Some ''comment'', Read_node), (Some ''annotations'', Read_node_list)] False"

definition entry_AST_Declarations_TypeAlias :: schema_entry where
  "entry_AST_Declarations_TypeAlias =
     Entry_node ''RBS::AST::Declarations::TypeAlias'' True [(''keyword'', True), (''name'', True),
       (''eq'', True), (''type_params'', False)] [(Some ''name'', Read_node),
       (Some ''type_params'', Read_node_list), (Some ''type'', Read_node),
       (Some ''annotations'', Read_node_list), (Some ''comment'', Read_node)] True"

definition entry_AST_Directives_Use :: schema_entry where
  "entry_AST_Directives_Use =
     Entry_node ''RBS::AST::Directives::Use'' True [(''keyword'', True)]
       [(Some ''clauses'', Read_node_list)] False"

definition entry_AST_Directives_Use_SingleClause :: schema_entry where
  "entry_AST_Directives_Use_SingleClause =
     Entry_node ''RBS::AST::Directives::Use::SingleClause'' True [(''type_name'', True),
       (''keyword'', False), (''new_name'', False)] [(Some ''type_name'', Read_node),
       (Some ''new_name'', Read_node)] False"

definition entry_AST_Directives_Use_WildcardClause :: schema_entry where
  "entry_AST_Directives_Use_WildcardClause =
     Entry_node ''RBS::AST::Directives::Use::WildcardClause'' True [(''namespace'', True),
       (''star'', True)] [(Some ''namespace'', Read_node)] False"

definition entry_AST_Members_Alias :: schema_entry where
  "entry_AST_Members_Alias =
     Entry_node ''RBS::AST::Members::Alias'' True [(''keyword'', True), (''new_name'', True),
       (''old_name'', True), (''new_kind'', False), (''old_kind'', False)]
       [(Some ''new_name'', Read_node), (Some ''old_name'', Read_node),
       (Some ''kind'', Read_enum [Some ''instance'', Some ''singleton'']),
       (Some ''annotations'', Read_node_list), (Some ''comment'', Read_node)] False"

definition entry_AST_Members_AttrAccessor :: schema_entry where
  "entry_AST_Members_AttrAccessor =
     Entry_node ''RBS::AST::Members::AttrAccessor'' True [(''keyword'', True), (''name'', True),
       (''colon'', True), (''kind'', False), (''ivar'', False), (''ivar_name'', False),
       (''visibility'', False)] [(Some ''name'', Read_node), (Some ''type'', Read_node),
       (Some ''ivar_name'', Read_attr_ivar_name),
       (Some ''kind'', Read_enum [Some ''instance'', Some ''singleton'']),
       (Some ''annotations'', Read_node_list), (Some ''comment'', Read_node),
       (Some ''visibility'', Read_enum [None, Some ''public'', Some ''private''])] False"

definition entry_AST_Members_AttrReader :: schema_entry where
  "entry_AST_Members_AttrReader =
     Entry_node ''RBS::AST::Members::AttrReader'' True [(''keyword'', True), (''name'', True),
       (''colon'', True), (''kind'', False), (''ivar'', False), (''ivar_name'', False),
       (''visibility'', False)] [(Some ''name'', Read_node), (Some ''type'', Read_node),
       (Some ''ivar_name'', Read_attr_ivar_name),
       (Some ''kind'', Read_enum [Some ''instance'', Some ''singleton'']),
       (Some ''annotations'', Read_node_list), (Some ''comment'', Read_node),
       (Some ''visibility'', Read_enum [None, Some ''public'', Some ''private''])] False"

definition entry_AST_Members_AttrWriter :: schema_entry where
  "entry_AST_Members_AttrWriter =
     Entry_node ''RBS::AST::Members::AttrWriter'' True [(''keyword'', True), (''name'', True),
       (''colon'', True), (''kind'', False), (''ivar'', False), (''ivar_name'', False),
       (''visibility'', False)] [(Some ''name'', Read_node), (Some ''type'', Read_node),
       (Some ''ivar_name'', Read_attr_ivar_name),
       (Some ''kind'', Read_enum [Some ''instance'', Some ''singleton'']),
       (Some ''annotations'', Read_node_list), (Some ''comment'', Read_node),
       (Some ''visibility'', Read_enum [None, Some ''public'', Some ''private''])] False"

definition entry_AST_Members_ClassInstanceVariable :: schema_entry where
  "entry_AST_Members_ClassInstanceVariable =
     Entry_node ''RBS::AST::Members::ClassInstanceVariable'' True [(''name'', True), (''colon'', True),
       (''kind'', False)] [(Some ''name'', Read_node), (Some ''type'', Read_node),
       (Some ''comment'', Read_node)] False"

definition entry_AST_Members_ClassVariable :: schema_entry where
  "entry_AST_Members_ClassVariable =
     Entry_node ''RBS::AST::Members::ClassVariable'' True [(''name'', True), (''colon'', True),
       (''kind'', False)] [(Some ''name'', Read_node), (Some ''type'', Read_node),
       (Some ''comment'', Read_node)] False"

definition entry_AST_Members_Extend :: schema_entry where
  "entry_AST_Members_Extend =
     Entry_node ''RBS::AST::Members::Extend'' True [(''name'', True), (''keyword'', True),
       (''args'', False)] [(Some ''name'', Read_node), (Some ''args'', Read_node_list),
       (Some ''annotations'', Read_node_list), (Some ''comment'', Read_node)] False"

definition entry_AST_Members_Include :: schema_entry where
  "entry_AST_Members_Include =
     Entry_node ''RBS::AST::Members::Include'' True [(''name'', True), (''keyword'', True),
       (''args'', False)] [(Some ''name'', Read_node), (Some ''args'', Read_node_list),
       (Some ''annotations'', Read_node_list), (Some ''comment'', Read_node)] False"

definition entry_AST_Members_InstanceVariable :: schema_entry where
  "entry_AST_Members_InstanceVariable =
     Entry_node ''RBS::AST::Members::InstanceVariable'' True [(''name'', True), (''colon'', True),
       (''kind'', False)] [(Some ''name'', Read_node), (Some ''type'', Read_node),
       (Some ''comment'', Read_node)] False"

definition entry_AST_Members_MethodDefinition :: schema_entry where
  "entry_AST_Members_MethodDefinition =
     Entry_node ''RBS::AST::Members::MethodDefinition'' True [(''keyword'', True), (''name'', True),
       (''kind'', False), (''overloading'', False), (''visibility'', False)]
       [(Some ''name'', Read_node),
       (Some ''kind'', Read_enum [Some ''instance'', Some ''singleton'', Some ''singleton_instance'']),
       (Some ''overloads'', Read_node_list), (Some ''annotations'', Read_node_list),
       (Some ''comment'', Read_node), (Some ''overloading'', Read_bool),
       (Some ''visibility'', Read_enum [None, Some ''public'', Some ''private''])] False"

definition entry_AST_Members_MethodDefinition_Overload :: schema_entry where
  "entry_AST_Members_MethodDefinition_Overload =
     Entry_node ''RBS::AST::Members::MethodDefinition::Overload'' False []
       [(Some ''annotations'', Read_node_list), (Some ''method_type'', Read_node)] False"

definition entry_AST_Members_Prepend :: schema_entry where
  "entry_AST_Members_Prepend =
     Entry_node ''RBS::AST::Members::Prepend'' True [(''name'', True), (''keyword'', True),
       (''args'', False)] [(Some ''name'', Read_node), (Some ''args'', Read_node_list),
       (Some ''annotations'', Read_node_list), (Some ''comment'', Read_node)] False"

definition entry_AST_Members_Private :: schema_entry where
  "entry_AST_Members_Private = Entry_node ''RBS::AST::Members::Private'' True [] [] False"

definition entry_AST_Members_Public :: schema_entry where
  "entry_AST_Members_Public = Entry_node ''RBS::AST::Members::Public'' True [] [] False"

definition entry_AST_Ruby_Annotations_BlockParamTypeAnnotation :: schema_entry where
  "entry_AST_Ruby_Annotations_BlockParamTypeAnnotation =
     Entry_node ''RBS::AST::Ruby::Annotations::BlockParamTypeAnnotation'' True []
       [(Some ''prefix_location'', Read_location_range),
       (Some ''ampersand_location'', Read_location_range),
       (Some ''name_location'', Read_location_range),
       (Some ''colon_location'', Read_location_range),
       (Some ''question_location'', Read_location_range),
       (Some ''type_location'', Read_location_range), (Some ''type'', Read_node),
       (Some ''comment_location'', Read_location_range)] False"

definition entry_AST_Ruby_Annotations_ClassAliasAnnotation :: schema_entry where
  "entry_AST_Ruby_Annotations_ClassAliasAnnotation =
     Entry_node ''RBS::AST::Ruby::Annotations::ClassAliasAnnotation'' True []
       [(Some ''prefix_location'', Read_location_range),
       (Some ''keyword_location'', Read_location_range), (Some ''type_name'', Read_node),
       (Some ''type_name_location'', Read_location_range)] False"

definition entry_AST_Ruby_Annotations_ColonMethodTypeAnnotation :: schema_entry where
  "entry_AST_Ruby_Annotations_ColonMethodTypeAnnotation =
     Entry_node ''RBS::AST::Ruby::Annotations::ColonMethodTypeAnnotation'' True []
       [(Some ''prefix_location'', Read_location_range), (Some ''annotations'', Read_node_list),
       (Some ''method_type'', Read_node)] False"

definition entry_AST_Ruby_Annotations_DoubleSplatParamTypeAnnotation :: schema_entry where
  "entry_AST_Ruby_Annotations_DoubleSplatParamTypeAnnotation =
     Entry_node ''RBS::AST::Ruby::Annotations::DoubleSplatParamTypeAnnotation'' True []
       [(Some ''prefix_location'', Read_location_range),
       (Some ''star2_location'', Read_location_range),
       (Some ''name_location'', Read_location_range),
       (Some ''colon_location'', Read_location_range), (Some ''param_type'', Read_node),
       (Some ''comment_location'', Read_location_range)] False"

definition entry_AST_Ruby_Annotations_InstanceVariableAnnotation :: schema_entry where
  "entry_AST_Ruby_Annotations_InstanceVariableAnnotation =
     Entry_node ''RBS::AST::Ruby::Annotations::InstanceVariableAnnotation'' True []
       [(Some ''prefix_location'', Read_location_range), (Some ''ivar_name'', Read_node),
       (Some ''ivar_name_location'', Read_location_range),
       (Some ''colon_location'', Read_location_range), (Some ''type'', Read_node),
       (Some ''comment_location'', Read_location_range)] False"

definition entry_AST_Ruby_Annotations_MethodTypesAnnotation :: schema_entry where
  "entry_AST_Ruby_Annotations_MethodTypesAnnotation =
     Entry_node ''RBS::AST::Ruby::Annotations::MethodTypesAnnotation'' True []
       [(Some ''prefix_location'', Read_location_range), (Some ''overloads'', Read_node_list),
       (Some ''vertical_bar_locations'', Read_location_range_list),
       (Some ''dot3_location'', Read_location_range)] False"

definition entry_AST_Ruby_Annotations_ModuleAliasAnnotation :: schema_entry where
  "entry_AST_Ruby_Annotations_ModuleAliasAnnotation =
     Entry_node ''RBS::AST::Ruby::Annotations::ModuleAliasAnnotation'' True []
       [(Some ''prefix_location'', Read_location_range),
       (Some ''keyword_location'', Read_location_range), (Some ''type_name'', Read_node),
       (Some ''type_name_location'', Read_location_range)] False"

definition entry_AST_Ruby_Annotations_ModuleSelfAnnotation :: schema_entry where
  "entry_AST_Ruby_Annotations_ModuleSelfAnnotation =
     Entry_node ''RBS::AST::Ruby::Annotations::ModuleSelfAnnotation'' True []
       [(Some ''prefix_location'', Read_location_range),
       (Some ''keyword_location'', Read_location_range),
       (Some ''colon_location'', Read_location_range), (Some ''name'', Read_node),
       (Some ''args'', Read_node_list), (Some ''open_bracket_location'', Read_location_range),
       (Some ''close_bracket_location'', Read_location_range),
       (Some ''args_comma_locations'', Read_location_range_list),
       (Some ''comment_location'', Read_location_range)] False"

definition entry_AST_Ruby_Annotations_NodeTypeAssertion :: schema_entry where
  "entry_AST_Ruby_Annotations_NodeTypeAssertion =
     Entry_node ''RBS::AST::Ruby::Annotations::NodeTypeAssertion'' True []
       [(Some ''prefix_location'', Read_location_range), (Some ''type'', Read_node)] False"

definition entry_AST_Ruby_Annotations_ParamTypeAnnotation :: schema_entry where
  "entry_AST_Ruby_Annotations_ParamTypeAnnotation =
     Entry_node ''RBS::AST::Ruby::Annotations::ParamTypeAnnotation'' True []
       [(Some ''prefix_location'', Read_location_range),
       (Some ''name_location'', Read_location_range),
       (Some ''colon_location'', Read_location_range), (Some ''param_type'', Read_node),
       (Some ''comment_location'', Read_location_range)] False"

definition entry_AST_Ruby_Annotations_ReturnTypeAnnotation :: schema_entry where
  "entry_AST_Ruby_Annotations_ReturnTypeAnnotation =
     Entry_node ''RBS::AST::Ruby::Annotations::ReturnTypeAnnotation'' True []
       [(Some ''prefix_location'', Read_location_range),
       (Some ''return_location'', Read_location_range),
       (Some ''colon_location'', Read_location_range), (Some ''return_type'', Read_node),
       (Some ''comment_location'', Read_location_range)] False"

definition entry_AST_Ruby_Annotations_SkipAnnotation :: schema_entry where
  "entry_AST_Ruby_Annotations_SkipAnnotation =
     Entry_node ''RBS::AST::Ruby::Annotations::SkipAnnotation'' True []
       [(Some ''prefix_location'', Read_location_range),
       (Some ''skip_location'', Read_location_range),
       (Some ''comment_location'', Read_location_range)] False"

definition entry_AST_Ruby_Annotations_SplatParamTypeAnnotation :: schema_entry where
  "entry_AST_Ruby_Annotations_SplatParamTypeAnnotation =
     Entry_node ''RBS::AST::Ruby::Annotations::SplatParamTypeAnnotation'' True []
       [(Some ''prefix_location'', Read_location_range),
       (Some ''star_location'', Read_location_range),
       (Some ''name_location'', Read_location_range),
       (Some ''colon_location'', Read_location_range), (Some ''param_type'', Read_node),
       (Some ''comment_location'', Read_location_range)] False"

definition entry_AST_Ruby_Annotations_TypeApplicationAnnotation :: schema_entry where
  "entry_AST_Ruby_Annotations_TypeApplicationAnnotation =
     Entry_node ''RBS::AST::Ruby::Annotations::TypeApplicationAnnotation'' True []
       [(Some ''prefix_location'', Read_location_range), (Some ''type_args'', Read_node_list),
       (Some ''close_bracket_location'', Read_location_range),
       (Some ''comma_locations'', Read_location_range_list)] False"

definition entry_AST_TypeParam :: schema_entry where
  "entry_AST_TypeParam =
     Entry_node ''RBS::AST::TypeParam'' True [(''name'', True), (''variance'', False),
       (''unchecked'', False), (''upper_bound'', False), (''lower_bound'', False),
       (''default'', False)] [(Some ''name'', Read_node),
       (Some ''variance'', Read_enum [Some ''invariant'', Some ''covariant'', Some ''contravariant'']),
       (Some ''upper_bound'', Read_node), (Some ''lower_bound'', Read_node),
       (Some ''default_type'', Read_node), (Some ''unchecked'', Read_bool)] False"

definition entry_MethodType :: schema_entry where
  "entry_MethodType =
     Entry_node ''RBS::MethodType'' True [(''type'', True), (''type_params'', False)]
       [(Some ''type_params'', Read_node_list), (Some ''type'', Read_node),
       (Some ''block'', Read_node)] True"

definition entry_Types_Alias :: schema_entry where
  "entry_Types_Alias =
     Entry_node ''RBS::Types::Alias'' True [(''name'', True), (''args'', False)]
       [(Some ''name'', Read_node), (Some ''args'', Read_node_list)] False"

definition entry_Types_Bases_Any :: schema_entry where
  "entry_Types_Bases_Any =
     Entry_node ''RBS::Types::Bases::Any'' True [] [(Some ''todo'', Read_bool)] False"

definition entry_Types_Bases_Bool :: schema_entry where
  "entry_Types_Bases_Bool = Entry_node ''RBS::Types::Bases::Bool'' True [] [] False"

definition entry_Types_Bases_Bottom :: schema_entry where
  "entry_Types_Bases_Bottom = Entry_node ''RBS::Types::Bases::Bottom'' True [] [] False"

definition entry_Types_Bases_Class :: schema_entry where
  "entry_Types_Bases_Class = Entry_node ''RBS::Types::Bases::Class'' True [] [] False"

definition entry_Types_Bases_Instance :: schema_entry where
  "entry_Types_Bases_Instance = Entry_node ''RBS::Types::Bases::Instance'' True [] [] False"

definition entry_Types_Bases_Nil :: schema_entry where
  "entry_Types_Bases_Nil = Entry_node ''RBS::Types::Bases::Nil'' True [] [] False"

definition entry_Types_Bases_Self :: schema_entry where
  "entry_Types_Bases_Self = Entry_node ''RBS::Types::Bases::Self'' True [] [] False"

definition entry_Types_Bases_Top :: schema_entry where
  "entry_Types_Bases_Top = Entry_node ''RBS::Types::Bases::Top'' True [] [] False"

definition entry_Types_Bases_Void :: schema_entry where
  "entry_Types_Bases_Void = Entry_node ''RBS::Types::Bases::Void'' True [] [] False"

definition entry_Types_Block :: schema_entry where
  "entry_Types_Block =
     Entry_node ''RBS::Types::Block'' True [] [(Some ''type'', Read_node),
       (Some ''required'', Read_bool), (Some ''self_type'', Read_node)] False"

definition entry_Types_ClassInstance :: schema_entry where
  "entry_Types_ClassInstance =
     Entry_node ''RBS::Types::ClassInstance'' True [(''name'', True), (''args'', False)]
       [(Some ''name'', Read_node), (Some ''args'', Read_node_list)] False"

definition entry_Types_ClassSingleton :: schema_entry where
  "entry_Types_ClassSingleton =
     Entry_node ''RBS::Types::ClassSingleton'' True [(''name'', True), (''args'', False)]
       [(Some ''name'', Read_node), (Some ''args'', Read_node_list)] False"

definition entry_Types_Function :: schema_entry where
  "entry_Types_Function =
     Entry_node ''RBS::Types::Function'' False [] [(Some ''required_positionals'', Read_node_list),
       (Some ''optional_positionals'', Read_node_list), (Some ''rest_positionals'', Read_node),
       (Some ''trailing_positionals'', Read_node_list), (Some ''required_keywords'', Read_hash),
       (Some ''optional_keywords'', Read_hash), (Some ''rest_keywords'', Read_node),
       (Some ''forwarding'', Read_node), (Some ''return_type'', Read_node)] False"

definition entry_Types_Function_ForwardingParam :: schema_entry where
  "entry_Types_Function_ForwardingParam =
     Entry_node ''RBS::Types::Function::ForwardingParam'' True [] [] False"

definition entry_Types_Function_Param :: schema_entry where
  "entry_Types_Function_Param =
     Entry_node ''RBS::Types::Function::Param'' True [(''name'', False)] [(Some ''type'', Read_node),
       (Some ''name'', Read_node)] False"

definition entry_Types_Interface :: schema_entry where
  "entry_Types_Interface =
     Entry_node ''RBS::Types::Interface'' True [(''name'', True), (''args'', False)]
       [(Some ''name'', Read_node), (Some ''args'', Read_node_list)] False"

definition entry_Types_Intersection :: schema_entry where
  "entry_Types_Intersection =
     Entry_node ''RBS::Types::Intersection'' True [] [(Some ''types'', Read_node_list)] False"

definition entry_Types_Literal :: schema_entry where
  "entry_Types_Literal =
     Entry_node ''RBS::Types::Literal'' True [] [(Some ''literal'', Read_node)] False"

definition entry_Types_Optional :: schema_entry where
  "entry_Types_Optional =
     Entry_node ''RBS::Types::Optional'' True [] [(Some ''type'', Read_node)] False"

definition entry_Types_Proc :: schema_entry where
  "entry_Types_Proc =
     Entry_node ''RBS::Types::Proc'' True [] [(Some ''type'', Read_node), (Some ''block'', Read_node),
       (Some ''self_type'', Read_node)] False"

definition entry_Types_Record :: schema_entry where
  "entry_Types_Record =
     Entry_node ''RBS::Types::Record'' True [] [(Some ''all_fields'', Read_hash)] False"

definition entry_Types_Tuple :: schema_entry where
  "entry_Types_Tuple =
     Entry_node ''RBS::Types::Tuple'' True [] [(Some ''types'', Read_node_list)] False"

definition entry_Types_Union :: schema_entry where
  "entry_Types_Union =
     Entry_node ''RBS::Types::Union'' True [] [(Some ''types'', Read_node_list)] False"

definition entry_Types_UntypedFunction :: schema_entry where
  "entry_Types_UntypedFunction =
     Entry_node ''RBS::Types::UntypedFunction'' False [] [(Some ''return_type'', Read_node)] False"

definition entry_Types_Variable :: schema_entry where
  "entry_Types_Variable =
     Entry_node ''RBS::Types::Variable'' True [] [(Some ''name'', Read_node)] False"

definition SCHEMA :: "schema_entry option list" where
  "SCHEMA =
    [None,
     Some entry_AST_Annotation,
     Some Entry_bool,
     Some entry_AST_Comment,
     Some entry_AST_Declarations_Class,
     Some entry_AST_Declarations_Class_Super,
     Some entry_AST_Declarations_ClassAlias,
     Some entry_AST_Declarations_Constant,
     Some entry_AST_Declarations_Global,
     Some entry_AST_Declarations_Interface,
     Some entry_AST_Declarations_Module,
     Some entry_AST_Declarations_Module_Self,
     Some entry_AST_Declarations_ModuleAlias,
     Some entry_AST_Declarations_TypeAlias,
     Some entry_AST_Directives_Use,
     Some entry_AST_Directives_Use_SingleClause,
     Some entry_AST_Directives_Use_WildcardClause,
     Some Entry_integer,
     Some entry_AST_Members_Alias,
     Some entry_AST_Members_AttrAccessor,
     Some entry_AST_Members_AttrReader,
     Some entry_AST_Members_AttrWriter,
     Some entry_AST_Members_ClassInstanceVariable,
     Some entry_AST_Members_ClassVariable,
     Some entry_AST_Members_Extend,
     Some entry_AST_Members_Include,
     Some entry_AST_Members_InstanceVariable,
     Some entry_AST_Members_MethodDefinition,
     Some entry_AST_Members_MethodDefinition_Overload,
     Some entry_AST_Members_Prepend,
     Some entry_AST_Members_Private,
     Some entry_AST_Members_Public,
     Some entry_AST_Ruby_Annotations_BlockParamTypeAnnotation,
     Some entry_AST_Ruby_Annotations_ClassAliasAnnotation,
     Some entry_AST_Ruby_Annotations_ColonMethodTypeAnnotation,
     Some entry_AST_Ruby_Annotations_DoubleSplatParamTypeAnnotation,
     Some entry_AST_Ruby_Annotations_InstanceVariableAnnotation,
     Some entry_AST_Ruby_Annotations_MethodTypesAnnotation,
     Some entry_AST_Ruby_Annotations_ModuleAliasAnnotation,
     Some entry_AST_Ruby_Annotations_ModuleSelfAnnotation,
     Some entry_AST_Ruby_Annotations_NodeTypeAssertion,
     Some entry_AST_Ruby_Annotations_ParamTypeAnnotation,
     Some entry_AST_Ruby_Annotations_ReturnTypeAnnotation,
     Some entry_AST_Ruby_Annotations_SkipAnnotation,
     Some entry_AST_Ruby_Annotations_SplatParamTypeAnnotation,
     Some entry_AST_Ruby_Annotations_TypeApplicationAnnotation,
     Some Entry_string_value,
     Some entry_AST_TypeParam,
     Some entry_MethodType,
     Some Entry_namespace,
     Some Entry_signature,
     Some Entry_type_name,
     Some entry_Types_Alias,
     Some entry_Types_Bases_Any,
     Some entry_Types_Bases_Bool,
     Some entry_Types_Bases_Bottom,
     Some entry_Types_Bases_Class,
     Some entry_Types_Bases_Instance,
     Some entry_Types_Bases_Nil,
     Some entry_Types_Bases_Self,
     Some entry_Types_Bases_Top,
     Some entry_Types_Bases_Void,
     Some entry_Types_Block,
     Some entry_Types_ClassInstance,
     Some entry_Types_ClassSingleton,
     Some entry_Types_Function,
     Some entry_Types_Function_ForwardingParam,
     Some entry_Types_Function_Param,
     Some entry_Types_Interface,
     Some entry_Types_Intersection,
     Some entry_Types_Literal,
     Some entry_Types_Optional,
     Some entry_Types_Proc,
     Some entry_Types_Record,
     Some Entry_record_field,
     Some entry_Types_Tuple,
     Some entry_Types_Union,
     Some entry_Types_UntypedFunction,
     Some entry_Types_Variable]"

subsection \<open>Values\<close>

type_synonym 'a reader = "byte list \<Rightarrow> ('a \<times> byte list) option"

definition reading :: "'a reader \<Rightarrow> ('a \<Rightarrow> 'b reader) \<Rightarrow> 'b reader" where
  "reading r k bytes = (case r bytes of None \<Rightarrow> None | Some (x, rest) \<Rightarrow> k x rest)"

definition value_read :: "'a \<Rightarrow> 'a reader" where
  "value_read x bytes = Some (x, bytes)"

fun read_u8 :: "byte reader" where
  "read_u8 [] = None"
| "read_u8 (b # bytes) = Some (b, bytes)"

fun read_u32 :: "nat reader" where
  "read_u32 (b0 # b1 # b2 # b3 # bytes) = Some (unat b0 + 256 * unat b1 + 65536 * unat b2 + 16777216 * unat b3, bytes)"
| "read_u32 _ = None"

definition read_i32 :: "int reader" where
  "read_i32 = reading read_u32 (\<lambda>value. value_read (if value < 2147483648 then int value else int value - 4294967296))"

definition read_string :: "byte list reader" where
  "read_string = reading read_u32 (\<lambda>len bytes. if len \<le> length bytes then Some (take len bytes, drop len bytes) else None)"

text \<open>A count of items, each of which is at least one byte.\<close>

definition read_count :: "nat reader" where
  "read_count = reading read_u32 (\<lambda>count bytes. if count > length bytes then None else Some (count, bytes))"

primrec read_times :: "nat \<Rightarrow> 'a reader \<Rightarrow> 'a list reader" where
  "read_times 0 r = value_read []"
| "read_times (Suc n) r = reading r (\<lambda>x. reading (read_times n r) (\<lambda>xs. value_read (x # xs)))"

subsection \<open>Locations\<close>

definition read_range :: "(int \<times> int) option reader" where
  "read_range =
     reading read_u8 (\<lambda>present.
       if present = 0 then value_read None
       else reading read_i32 (\<lambda>start_char. reading read_i32 (\<lambda>end_char. value_read (Some (start_char, end_char)))))"

text \<open>A required child that is missing is not added.\<close>

definition make_location :: "(int \<times> int) option \<Rightarrow> (string \<times> bool \<times> (int \<times> int) option) list \<Rightarrow> ruby_value" where
  "make_location base children =
     (case base of
        None \<Rightarrow> Ruby_nil
      | Some (first, till) \<Rightarrow>
          Ruby_location first till (filter (\<lambda>(_, required, rg). required \<longrightarrow> rg \<noteq> None) children))"

primrec read_children :: "(string \<times> bool) list \<Rightarrow> (string \<times> bool \<times> (int \<times> int) option) list reader" where
  "read_children [] = value_read []"
| "read_children (child # children) =
     reading read_range (\<lambda>rg. reading (read_children children) (\<lambda>rest. value_read ((fst child, snd child, rg) # rest)))"

definition read_location :: "(string \<times> bool) list \<Rightarrow> ruby_value reader" where
  "read_location loc_children =
     reading read_range (\<lambda>base. reading (read_children loc_children) (\<lambda>children. value_read (make_location base children)))"

definition read_location_value :: "ruby_value reader" where
  "read_location_value = reading read_range (\<lambda>rg. value_read (make_location rg []))"

definition read_location_value_list :: "ruby_value reader" where
  "read_location_value_list =
     reading read_count (\<lambda>count. reading (read_times count read_location_value) (\<lambda>xs. value_read (Ruby_array xs)))"

subsection \<open>Nodes\<close>

definition read_attr_ivar_name :: "ruby_value reader" where
  "read_attr_ivar_name =
     reading read_u8 (\<lambda>tag.
       if tag = 0 then value_read Ruby_nil
       else if tag = 1 then value_read (Ruby_bool False)
       else reading read_string (\<lambda>name. value_read (Ruby_symbol name)))"

definition read_node_list :: "ruby_value reader \<Rightarrow> ruby_value reader" where
  "read_node_list node =
     reading read_count (\<lambda>count. reading (read_times count node) (\<lambda>xs. value_read (Ruby_array xs)))"

definition read_hash :: "ruby_value reader \<Rightarrow> ruby_value reader" where
  "read_hash node =
     reading read_count (\<lambda>count.
     reading (read_times count (reading node (\<lambda>key. reading node (\<lambda>value. value_read (key, value)))))
       (\<lambda>entries. value_read (Ruby_hash entries)))"

definition read_bool :: "bool reader" where
  "read_bool = reading read_u8 (\<lambda>b. value_read (b \<noteq> 0))"

text \<open>\<open>node\<close> is \<open>read_node\<close>. An index beyond a list of values gives \<open>nil\<close>.\<close>

definition read_field :: "ruby_value reader \<Rightarrow> field_reader \<Rightarrow> ruby_value reader" where
  "read_field node r =
     (case r of
        Read_node \<Rightarrow> node
      | Read_node_list \<Rightarrow> read_node_list node
      | Read_hash \<Rightarrow> read_hash node
      | Read_string \<Rightarrow> reading read_string (\<lambda>s. value_read (Ruby_string s))
      | Read_bool \<Rightarrow> reading read_bool (\<lambda>b. value_read (Ruby_bool b))
      | Read_location_range \<Rightarrow> read_location_value
      | Read_location_range_list \<Rightarrow> read_location_value_list
      | Read_attr_ivar_name \<Rightarrow> read_attr_ivar_name
      | Read_enum values \<Rightarrow>
          reading read_u8 (\<lambda>i. value_read (Ruby_enum (if unat i < length values then values ! unat i else None))))"

primrec read_fields ::
  "ruby_value reader \<Rightarrow> (string option \<times> field_reader) list \<Rightarrow> (string option \<times> ruby_value) list reader"
where
  "read_fields node [] = value_read []"
| "read_fields node (f # fs) =
     reading (read_field node (snd f)) (\<lambda>value. reading (read_fields node fs) (\<lambda>rest. value_read ((fst f, value) # rest)))"

text \<open>Fields without a name are read and dropped.\<close>

definition kwargs :: "(string option \<times> ruby_value) list \<Rightarrow> (string \<times> ruby_value) list" where
  "kwargs fs = map (\<lambda>(name, value). (the name, value)) (filter (\<lambda>(name, _). name \<noteq> None) fs)"

definition read_struct ::
  "ruby_value reader \<Rightarrow> string \<Rightarrow> bool \<Rightarrow> (string \<times> bool) list \<Rightarrow> (string option \<times> field_reader) list \<Rightarrow> ruby_value reader"
where
  "read_struct node class_name expose_location loc_children fs =
     (if expose_location then
        reading (read_location loc_children) (\<lambda>location.
        reading (read_fields node fs) (\<lambda>values. value_read (Ruby_object class_name (Some location) (kwargs values))))
      else
        reading (read_fields node fs) (\<lambda>values. value_read (Ruby_object class_name None (kwargs values))))"

definition read_entry :: "ruby_value reader \<Rightarrow> schema_entry \<Rightarrow> ruby_value reader" where
  "read_entry node entry =
     (case entry of
        Entry_node class_name expose_location loc_children fs _ \<Rightarrow>
          read_struct node class_name expose_location loc_children fs
      | Entry_bool \<Rightarrow> reading read_bool (\<lambda>b. value_read (Ruby_bool b))
      | Entry_integer \<Rightarrow> reading read_string (\<lambda>s. value_read (Ruby_integer s))
      | Entry_string_value \<Rightarrow> reading read_string (\<lambda>s. value_read (Ruby_string s))
      | Entry_record_field \<Rightarrow>
          reading node (\<lambda>x. reading read_bool (\<lambda>required. value_read (Ruby_array [x, Ruby_bool required])))
      | Entry_signature \<Rightarrow>
          reading (read_node_list node) (\<lambda>directives. reading (read_node_list node) (\<lambda>declarations.
            value_read (Ruby_array [directives, declarations])))
      | Entry_namespace \<Rightarrow>
          reading (read_node_list node) (\<lambda>path. reading read_bool (\<lambda>absolute. value_read (Ruby_namespace path absolute)))
      | Entry_type_name \<Rightarrow> reading node (\<lambda>namespace. reading node (\<lambda>name. value_read (Ruby_type_name namespace name))))"

definition schema_lookup :: "byte \<Rightarrow> schema_entry option" where
  "schema_lookup tag = (if unat tag < length SCHEMA then SCHEMA ! unat tag else None)"

text \<open>A node reads a tag before the nodes in it: the number of bytes is enough fuel.\<close>

primrec read_node :: "nat \<Rightarrow> ruby_value reader" where
  "read_node 0 bytes = None"
| "read_node (Suc fuel) bytes =
     reading read_u8 (\<lambda>tag.
       if tag = 0 then value_read Ruby_nil
       else if tag = SYMBOL_TAG then reading read_string (\<lambda>s. value_read (Ruby_symbol s))
       else case schema_lookup tag of None \<Rightarrow> (\<lambda>_. None) | Some entry \<Rightarrow> read_entry (read_node fuel) entry) bytes"

subsection \<open>Entry points\<close>

definition deserialize :: "byte list \<Rightarrow> ruby_value option" where
  "deserialize bytes = map_option fst (read_node (Suc (length bytes)) bytes)"

definition deserialize_node_list :: "byte list \<Rightarrow> ruby_value option" where
  "deserialize_node_list bytes = map_option fst (read_node_list (read_node (Suc (length bytes))) bytes)"

end
