(* ===== verification/RubyView.thy ===== *)
theory RubyView
  imports Serializer Deserializer
begin

text \<open>
  The Ruby object that each node of the syntax tree stands for: its class, the children of its
  location and its keyword arguments, each by the name of the field it comes from. This is what
  \<open>Serializer\<close> and \<open>Deserializer\<close> together have to give. Positions are the 32-bit integers of C.
\<close>

definition as_i32 :: "int \<Rightarrow> int" where
  "as_i32 value = sint (word_of_int value :: 32 word)"

definition view_range :: "rbs_location_range \<Rightarrow> (int \<times> int) option" where
  "view_range rg =
     (if RBS_LOCATION_NULL_RANGE_P rg then None else Some (as_i32 (start_char rg), as_i32 (end_char rg)))"

definition view_location :: "rbs_location_range \<Rightarrow> ruby_value" where
  "view_location rg = make_location (view_range rg) []"

text \<open>An object with a location, and the children of the location with their ranges.\<close>

definition located_object ::
  "string \<Rightarrow> rbs_location_range \<Rightarrow> (string \<times> bool \<times> rbs_location_range) list \<Rightarrow> (string \<times> ruby_value) list \<Rightarrow> ruby_value"
where
  "located_object class_name location children arguments =
     Ruby_object class_name
       (Some (make_location (view_range location) (map (\<lambda>(name, required, rg). (name, required, view_range rg)) children)))
       arguments"

definition view_nullable :: "ruby_value option \<Rightarrow> ruby_value" where
  "view_nullable value = (case value of None \<Rightarrow> Ruby_nil | Some x \<Rightarrow> x)"

definition constant_name :: "rbs_constant_pool \<Rightarrow> 32 word \<Rightarrow> byte list" where
  "constant_name pool constant_id = c_bytes (constants pool ! unat (constant_id - 1))"

definition view_symbol :: "rbs_constant_pool \<Rightarrow> rbs_ast_symbol \<Rightarrow> ruby_value" where
  "view_symbol pool node = Ruby_symbol (constant_name pool (sym_constant_id node))"

definition view_ivar_name :: "rbs_constant_pool \<Rightarrow> rbs_attr_ivar_name \<Rightarrow> ruby_value" where
  "view_ivar_name pool ivar_name =
     (case attr_ivar_tag ivar_name of
        RBS_ATTR_IVAR_NAME_TAG_UNSPECIFIED \<Rightarrow> Ruby_nil
      | RBS_ATTR_IVAR_NAME_TAG_EMPTY \<Rightarrow> Ruby_bool False
      | RBS_ATTR_IVAR_NAME_TAG_NAME \<Rightarrow> Ruby_symbol (constant_name pool (rbs_attr_ivar_name.attr_ivar_name ivar_name)))"

primrec attribute_visibility_view :: "rbs_attribute_visibility \<Rightarrow> string option" where
  "attribute_visibility_view RBS_ATTRIBUTE_VISIBILITY_UNSPECIFIED = None"
| "attribute_visibility_view RBS_ATTRIBUTE_VISIBILITY_PUBLIC = Some ''public''"
| "attribute_visibility_view RBS_ATTRIBUTE_VISIBILITY_PRIVATE = Some ''private''"

primrec attribute_kind_view :: "rbs_attribute_kind \<Rightarrow> string option" where
  "attribute_kind_view RBS_ATTRIBUTE_KIND_INSTANCE = Some ''instance''"
| "attribute_kind_view RBS_ATTRIBUTE_KIND_SINGLETON = Some ''singleton''"

primrec alias_kind_view :: "rbs_alias_kind \<Rightarrow> string option" where
  "alias_kind_view RBS_ALIAS_KIND_INSTANCE = Some ''instance''"
| "alias_kind_view RBS_ALIAS_KIND_SINGLETON = Some ''singleton''"

primrec method_definition_kind_view :: "rbs_method_definition_kind \<Rightarrow> string option" where
  "method_definition_kind_view RBS_METHOD_DEFINITION_KIND_INSTANCE = Some ''instance''"
| "method_definition_kind_view RBS_METHOD_DEFINITION_KIND_SINGLETON = Some ''singleton''"
| "method_definition_kind_view RBS_METHOD_DEFINITION_KIND_SINGLETON_INSTANCE = Some ''singleton_instance''"

primrec method_definition_visibility_view :: "rbs_method_definition_visibility \<Rightarrow> string option" where
  "method_definition_visibility_view RBS_METHOD_DEFINITION_VISIBILITY_UNSPECIFIED = None"
| "method_definition_visibility_view RBS_METHOD_DEFINITION_VISIBILITY_PUBLIC = Some ''public''"
| "method_definition_visibility_view RBS_METHOD_DEFINITION_VISIBILITY_PRIVATE = Some ''private''"

primrec type_param_variance_view :: "rbs_type_param_variance \<Rightarrow> string option" where
  "type_param_variance_view RBS_TYPE_PARAM_VARIANCE_INVARIANT = Some ''invariant''"
| "type_param_variance_view RBS_TYPE_PARAM_VARIANCE_COVARIANT = Some ''covariant''"
| "type_param_variance_view RBS_TYPE_PARAM_VARIANCE_CONTRAVARIANT = Some ''contravariant''"

definition view_namespace :: "rbs_constant_pool \<Rightarrow> rbs_namespace \<Rightarrow> ruby_value" where
  "view_namespace pool node =
     Ruby_namespace (Ruby_array (map (view_symbol pool) (ns_path node))) (ns_absolute node)"

definition view_type_name :: "rbs_constant_pool \<Rightarrow> rbs_type_name \<Rightarrow> ruby_value" where
  "view_type_name pool node =
     Ruby_type_name (view_namespace pool (tn_rbs_namespace node)) (view_symbol pool (tn_name node))"

definition view_comment :: "rbs_constant_pool \<Rightarrow> rbs_ast_comment \<Rightarrow> ruby_value" where
  "view_comment pool node =
     located_object ''RBS::AST::Comment'' (comment_location node) [] []"

definition view_annotation :: "rbs_constant_pool \<Rightarrow> rbs_ast_annotation \<Rightarrow> ruby_value" where
  "view_annotation pool node =
     located_object ''RBS::AST::Annotation'' (annot_location node) []
       [(''string'', Ruby_string (string_bytes (annot_string node)))]"

primrec view_node :: "rbs_constant_pool \<Rightarrow> rbs_node \<Rightarrow> ruby_value" where
  "view_node pool (Ast_Symbol symbol) = view_symbol pool symbol"
| "view_node pool (Ast_Bool _ value) = Ruby_bool value"
| "view_node pool (Ast_Integer _ string_representation) =
     Ruby_integer (string_bytes string_representation)"
| "view_node pool (Ast_String _ string) = Ruby_string (string_bytes string)"
| "view_node pool (Types_Alias location name args name_range args_range) =
     located_object ''RBS::Types::Alias'' location [(''name'', True, name_range),
       (''args'', False, args_range)] [(''name'', view_type_name pool name),
       (''args'', Ruby_array (map (view_node pool) args))]"
| "view_node pool (Types_Bases_Any location todo) =
     located_object ''RBS::Types::Bases::Any'' location [] [(''todo'', Ruby_bool todo)]"
| "view_node pool (Types_Bases_Bool location) =
     located_object ''RBS::Types::Bases::Bool'' location [] []"
| "view_node pool (Types_Bases_Bottom location) =
     located_object ''RBS::Types::Bases::Bottom'' location [] []"
| "view_node pool (Types_Bases_Class location) =
     located_object ''RBS::Types::Bases::Class'' location [] []"
| "view_node pool (Types_Bases_Instance location) =
     located_object ''RBS::Types::Bases::Instance'' location [] []"
| "view_node pool (Types_Bases_Nil location) =
     located_object ''RBS::Types::Bases::Nil'' location [] []"
| "view_node pool (Types_Bases_Self location) =
     located_object ''RBS::Types::Bases::Self'' location [] []"
| "view_node pool (Types_Bases_Top location) =
     located_object ''RBS::Types::Bases::Top'' location [] []"
| "view_node pool (Types_Bases_Void location) =
     located_object ''RBS::Types::Bases::Void'' location [] []"
| "view_node pool (Types_Block location type required self_type) =
     located_object ''RBS::Types::Block'' location [] [(''type'', view_node pool type),
       (''required'', Ruby_bool required),
       (''self_type'', view_nullable (map_option (view_node pool) self_type))]"
| "view_node pool (Types_Class_Instance location name args name_range args_range) =
     located_object ''RBS::Types::ClassInstance'' location [(''name'', True, name_range),
       (''args'', False, args_range)] [(''name'', view_type_name pool name),
       (''args'', Ruby_array (map (view_node pool) args))]"
| "view_node pool (Types_Class_Singleton location name args name_range args_range) =
     located_object ''RBS::Types::ClassSingleton'' location [(''name'', True, name_range),
       (''args'', False, args_range)] [(''name'', view_type_name pool name),
       (''args'', Ruby_array (map (view_node pool) args))]"
| "view_node pool (Types_Function _ required_positionals optional_positionals rest_positionals
      trailing_positionals required_keywords optional_keywords rest_keywords forwarding
      return_type) =
     Ruby_object ''RBS::Types::Function'' None
       [(''required_positionals'', Ruby_array (map (view_node pool) required_positionals)),
       (''optional_positionals'', Ruby_array (map (view_node pool) optional_positionals)),
       (''rest_positionals'', view_nullable (map_option (view_node pool) rest_positionals)),
       (''trailing_positionals'', Ruby_array (map (view_node pool) trailing_positionals)),
       (''required_keywords'', Ruby_hash (map (map_prod (view_node pool) (view_node pool)) required_keywords)),
       (''optional_keywords'', Ruby_hash (map (map_prod (view_node pool) (view_node pool)) optional_keywords)),
       (''rest_keywords'', view_nullable (map_option (view_node pool) rest_keywords)),
       (''forwarding'', view_nullable (map_option (view_node pool) forwarding)),
       (''return_type'', view_node pool return_type)]"
| "view_node pool (Types_Function_Forwarding_Param location) =
     located_object ''RBS::Types::Function::ForwardingParam'' location [] []"
| "view_node pool (Types_Function_Param location type name name_range) =
     located_object ''RBS::Types::Function::Param'' location [(''name'', False, name_range)]
       [(''type'', view_node pool type),
       (''name'', view_nullable (map_option (view_symbol pool) name))]"
| "view_node pool (Types_Interface location name args name_range args_range) =
     located_object ''RBS::Types::Interface'' location [(''name'', True, name_range),
       (''args'', False, args_range)] [(''name'', view_type_name pool name),
       (''args'', Ruby_array (map (view_node pool) args))]"
| "view_node pool (Types_Intersection location types) =
     located_object ''RBS::Types::Intersection'' location []
       [(''types'', Ruby_array (map (view_node pool) types))]"
| "view_node pool (Types_Literal location literal) =
     located_object ''RBS::Types::Literal'' location [] [(''literal'', view_node pool literal)]"
| "view_node pool (Types_Optional location type) =
     located_object ''RBS::Types::Optional'' location [] [(''type'', view_node pool type)]"
| "view_node pool (Types_Proc location type block self_type) =
     located_object ''RBS::Types::Proc'' location [] [(''type'', view_node pool type),
       (''block'', view_nullable (map_option (view_node pool) block)),
       (''self_type'', view_nullable (map_option (view_node pool) self_type))]"
| "view_node pool (Types_Record location all_fields) =
     located_object ''RBS::Types::Record'' location []
       [(''all_fields'', Ruby_hash (map (map_prod (view_node pool) (view_node pool)) all_fields))]"
| "view_node pool (Types_Record_Field_Type _ type required) =
     Ruby_array [view_node pool type, Ruby_bool required]"
| "view_node pool (Types_Tuple location types) =
     located_object ''RBS::Types::Tuple'' location []
       [(''types'', Ruby_array (map (view_node pool) types))]"
| "view_node pool (Types_Union location types) =
     located_object ''RBS::Types::Union'' location []
       [(''types'', Ruby_array (map (view_node pool) types))]"
| "view_node pool (Types_Untyped_Function _ return_type) =
     Ruby_object ''RBS::Types::UntypedFunction'' None [(''return_type'', view_node pool return_type)]"
| "view_node pool (Types_Variable location name) =
     located_object ''RBS::Types::Variable'' location [] [(''name'', view_symbol pool name)]"

definition view_type_param :: "rbs_constant_pool \<Rightarrow> rbs_ast_type_param \<Rightarrow> ruby_value" where
  "view_type_param pool node =
     located_object ''RBS::AST::TypeParam'' (tp_location node) [(''name'', True, (tp_name_range node)),
       (''variance'', False, (tp_variance_range node)),
       (''unchecked'', False, (tp_unchecked_range node)),
       (''upper_bound'', False, (tp_upper_bound_range node)),
       (''lower_bound'', False, (tp_lower_bound_range node)),
       (''default'', False, (tp_default_range node))]
       [(''name'', view_symbol pool (tp_name node)),
       (''variance'', Ruby_enum (type_param_variance_view (tp_variance node))),
       (''upper_bound'', view_nullable (map_option (view_node pool) (tp_upper_bound node))),
       (''lower_bound'', view_nullable (map_option (view_node pool) (tp_lower_bound node))),
       (''default_type'', view_nullable (map_option (view_node pool) (tp_default_type node))),
       (''unchecked'', Ruby_bool (tp_unchecked node))]"

definition view_method_type :: "rbs_constant_pool \<Rightarrow> rbs_method_type \<Rightarrow> ruby_value" where
  "view_method_type pool node =
     located_object ''RBS::MethodType'' (mt_location node) [(''type'', True, (mt_type_range node)),
       (''type_params'', False, (mt_type_params_range node))]
       [(''type_params'', Ruby_array (map (view_type_param pool) (mt_type_params node))),
       (''type'', view_node pool (mt_type node)),
       (''block'', view_nullable (map_option (view_node pool) (mt_block node)))]"

definition view_overload :: "rbs_constant_pool \<Rightarrow> rbs_ast_members_method_definition_overload \<Rightarrow> ruby_value" where
  "view_overload pool node =
     Ruby_object ''RBS::AST::Members::MethodDefinition::Overload'' None
       [(''annotations'', Ruby_array (map (view_annotation pool) (overload_annotations node))),
       (''method_type'', view_method_type pool (overload_method_type node))]"

definition view_class_super :: "rbs_constant_pool \<Rightarrow> rbs_ast_declarations_class_super \<Rightarrow> ruby_value" where
  "view_class_super pool node =
     located_object ''RBS::AST::Declarations::Class::Super'' (super_location node)
       [(''name'', True, (super_name_range node)), (''args'', False, (super_args_range node))]
       [(''name'', view_type_name pool (super_name node)),
       (''args'', Ruby_array (map (view_node pool) (super_args node)))]"

definition view_module_self :: "rbs_constant_pool \<Rightarrow> rbs_ast_declarations_module_self \<Rightarrow> ruby_value" where
  "view_module_self pool node =
     located_object ''RBS::AST::Declarations::Module::Self'' (mself_location node)
       [(''name'', True, (mself_name_range node)), (''args'', False, (mself_args_range node))]
       [(''name'', view_type_name pool (mself_name node)),
       (''args'', Ruby_array (map (view_node pool) (mself_args node)))]"

primrec view_member :: "rbs_constant_pool \<Rightarrow> rbs_member \<Rightarrow> ruby_value" where
  "view_member pool (Ast_Declarations_Class location name type_params super_class members
      annotations comment keyword_range name_range end_range type_params_range lt_range) =
     located_object ''RBS::AST::Declarations::Class'' location [(''keyword'', True, keyword_range),
       (''name'', True, name_range), (''end'', True, end_range),
       (''type_params'', False, type_params_range), (''lt'', False, lt_range)]
       [(''name'', view_type_name pool name),
       (''type_params'', Ruby_array (map (view_type_param pool) type_params)),
       (''super_class'', view_nullable (map_option (view_class_super pool) super_class)),
       (''members'', Ruby_array (map (view_member pool) members)),
       (''annotations'', Ruby_array (map (view_annotation pool) annotations)),
       (''comment'', view_nullable (map_option (view_comment pool) comment))]"
| "view_member pool (Ast_Declarations_Class_Alias location new_name old_name comment annotations
      keyword_range new_name_range eq_range old_name_range) =
     located_object ''RBS::AST::Declarations::ClassAlias'' location
       [(''keyword'', True, keyword_range), (''new_name'', True, new_name_range),
       (''eq'', True, eq_range), (''old_name'', True, old_name_range)]
       [(''new_name'', view_type_name pool new_name),
       (''old_name'', view_type_name pool old_name),
       (''comment'', view_nullable (map_option (view_comment pool) comment)),
       (''annotations'', Ruby_array (map (view_annotation pool) annotations))]"
| "view_member pool (Ast_Declarations_Constant location name type comment annotations name_range
      colon_range) =
     located_object ''RBS::AST::Declarations::Constant'' location [(''name'', True, name_range),
       (''colon'', True, colon_range)] [(''name'', view_type_name pool name),
       (''type'', view_node pool type),
       (''comment'', view_nullable (map_option (view_comment pool) comment)),
       (''annotations'', Ruby_array (map (view_annotation pool) annotations))]"
| "view_member pool (Ast_Declarations_Global location name type comment annotations name_range
      colon_range) =
     located_object ''RBS::AST::Declarations::Global'' location [(''name'', True, name_range),
       (''colon'', True, colon_range)] [(''name'', view_symbol pool name),
       (''type'', view_node pool type),
       (''comment'', view_nullable (map_option (view_comment pool) comment)),
       (''annotations'', Ruby_array (map (view_annotation pool) annotations))]"
| "view_member pool (Ast_Declarations_Interface location name type_params members annotations
      comment keyword_range name_range end_range type_params_range) =
     located_object ''RBS::AST::Declarations::Interface'' location [(''keyword'', True, keyword_range),
       (''name'', True, name_range), (''end'', True, end_range),
       (''type_params'', False, type_params_range)] [(''name'', view_type_name pool name),
       (''type_params'', Ruby_array (map (view_type_param pool) type_params)),
       (''members'', Ruby_array (map (view_member pool) members)),
       (''annotations'', Ruby_array (map (view_annotation pool) annotations)),
       (''comment'', view_nullable (map_option (view_comment pool) comment))]"
| "view_member pool (Ast_Declarations_Module location name type_params self_types members
      annotations comment keyword_range name_range end_range type_params_range colon_range
      self_types_range) =
     located_object ''RBS::AST::Declarations::Module'' location [(''keyword'', True, keyword_range),
       (''name'', True, name_range), (''end'', True, end_range),
       (''type_params'', False, type_params_range), (''colon'', False, colon_range),
       (''self_types'', False, self_types_range)] [(''name'', view_type_name pool name),
       (''type_params'', Ruby_array (map (view_type_param pool) type_params)),
       (''self_types'', Ruby_array (map (view_module_self pool) self_types)),
       (''members'', Ruby_array (map (view_member pool) members)),
       (''annotations'', Ruby_array (map (view_annotation pool) annotations)),
       (''comment'', view_nullable (map_option (view_comment pool) comment))]"
| "view_member pool (Ast_Declarations_Module_Alias location new_name old_name comment annotations
      keyword_range new_name_range eq_range old_name_range) =
     located_object ''RBS::AST::Declarations::ModuleAlias'' location
       [(''keyword'', True, keyword_range), (''new_name'', True, new_name_range),
       (''eq'', True, eq_range), (''old_name'', True, old_name_range)]
       [(''new_name'', view_type_name pool new_name),
       (''old_name'', view_type_name pool old_name),
       (''comment'', view_nullable (map_option (view_comment pool) comment)),
       (''annotations'', Ruby_array (map (view_annotation pool) annotations))]"
| "view_member pool (Ast_Declarations_Type_Alias location name type_params type annotations comment
      keyword_range name_range eq_range type_params_range) =
     located_object ''RBS::AST::Declarations::TypeAlias'' location [(''keyword'', True, keyword_range),
       (''name'', True, name_range), (''eq'', True, eq_range),
       (''type_params'', False, type_params_range)] [(''name'', view_type_name pool name),
       (''type_params'', Ruby_array (map (view_type_param pool) type_params)),
       (''type'', view_node pool type),
       (''annotations'', Ruby_array (map (view_annotation pool) annotations)),
       (''comment'', view_nullable (map_option (view_comment pool) comment))]"
| "view_member pool (Ast_Members_Alias location new_name old_name kind annotations comment
      keyword_range new_name_range old_name_range new_kind_range old_kind_range) =
     located_object ''RBS::AST::Members::Alias'' location [(''keyword'', True, keyword_range),
       (''new_name'', True, new_name_range), (''old_name'', True, old_name_range),
       (''new_kind'', False, new_kind_range), (''old_kind'', False, old_kind_range)]
       [(''new_name'', view_symbol pool new_name), (''old_name'', view_symbol pool old_name),
       (''kind'', Ruby_enum (alias_kind_view kind)),
       (''annotations'', Ruby_array (map (view_annotation pool) annotations)),
       (''comment'', view_nullable (map_option (view_comment pool) comment))]"
| "view_member pool (Ast_Members_Attr_Accessor location name type ivar_name kind annotations
      comment visibility keyword_range name_range colon_range kind_range ivar_range
      ivar_name_range visibility_range) =
     located_object ''RBS::AST::Members::AttrAccessor'' location [(''keyword'', True, keyword_range),
       (''name'', True, name_range), (''colon'', True, colon_range),
       (''kind'', False, kind_range), (''ivar'', False, ivar_range),
       (''ivar_name'', False, ivar_name_range), (''visibility'', False, visibility_range)]
       [(''name'', view_symbol pool name), (''type'', view_node pool type),
       (''ivar_name'', view_ivar_name pool ivar_name),
       (''kind'', Ruby_enum (attribute_kind_view kind)),
       (''annotations'', Ruby_array (map (view_annotation pool) annotations)),
       (''comment'', view_nullable (map_option (view_comment pool) comment)),
       (''visibility'', Ruby_enum (attribute_visibility_view visibility))]"
| "view_member pool (Ast_Members_Attr_Reader location name type ivar_name kind annotations comment
      visibility keyword_range name_range colon_range kind_range ivar_range ivar_name_range
      visibility_range) =
     located_object ''RBS::AST::Members::AttrReader'' location [(''keyword'', True, keyword_range),
       (''name'', True, name_range), (''colon'', True, colon_range),
       (''kind'', False, kind_range), (''ivar'', False, ivar_range),
       (''ivar_name'', False, ivar_name_range), (''visibility'', False, visibility_range)]
       [(''name'', view_symbol pool name), (''type'', view_node pool type),
       (''ivar_name'', view_ivar_name pool ivar_name),
       (''kind'', Ruby_enum (attribute_kind_view kind)),
       (''annotations'', Ruby_array (map (view_annotation pool) annotations)),
       (''comment'', view_nullable (map_option (view_comment pool) comment)),
       (''visibility'', Ruby_enum (attribute_visibility_view visibility))]"
| "view_member pool (Ast_Members_Attr_Writer location name type ivar_name kind annotations comment
      visibility keyword_range name_range colon_range kind_range ivar_range ivar_name_range
      visibility_range) =
     located_object ''RBS::AST::Members::AttrWriter'' location [(''keyword'', True, keyword_range),
       (''name'', True, name_range), (''colon'', True, colon_range),
       (''kind'', False, kind_range), (''ivar'', False, ivar_range),
       (''ivar_name'', False, ivar_name_range), (''visibility'', False, visibility_range)]
       [(''name'', view_symbol pool name), (''type'', view_node pool type),
       (''ivar_name'', view_ivar_name pool ivar_name),
       (''kind'', Ruby_enum (attribute_kind_view kind)),
       (''annotations'', Ruby_array (map (view_annotation pool) annotations)),
       (''comment'', view_nullable (map_option (view_comment pool) comment)),
       (''visibility'', Ruby_enum (attribute_visibility_view visibility))]"
| "view_member pool (Ast_Members_Class_Instance_Variable location name type comment name_range
      colon_range kind_range) =
     located_object ''RBS::AST::Members::ClassInstanceVariable'' location
       [(''name'', True, name_range), (''colon'', True, colon_range),
       (''kind'', False, kind_range)] [(''name'', view_symbol pool name),
       (''type'', view_node pool type),
       (''comment'', view_nullable (map_option (view_comment pool) comment))]"
| "view_member pool (Ast_Members_Class_Variable location name type comment name_range colon_range
      kind_range) =
     located_object ''RBS::AST::Members::ClassVariable'' location [(''name'', True, name_range),
       (''colon'', True, colon_range), (''kind'', False, kind_range)]
       [(''name'', view_symbol pool name), (''type'', view_node pool type),
       (''comment'', view_nullable (map_option (view_comment pool) comment))]"
| "view_member pool (Ast_Members_Extend location name args annotations comment name_range
      keyword_range args_range) =
     located_object ''RBS::AST::Members::Extend'' location [(''name'', True, name_range),
       (''keyword'', True, keyword_range), (''args'', False, args_range)]
       [(''name'', view_type_name pool name), (''args'', Ruby_array (map (view_node pool) args)),
       (''annotations'', Ruby_array (map (view_annotation pool) annotations)),
       (''comment'', view_nullable (map_option (view_comment pool) comment))]"
| "view_member pool (Ast_Members_Include location name args annotations comment name_range
      keyword_range args_range) =
     located_object ''RBS::AST::Members::Include'' location [(''name'', True, name_range),
       (''keyword'', True, keyword_range), (''args'', False, args_range)]
       [(''name'', view_type_name pool name), (''args'', Ruby_array (map (view_node pool) args)),
       (''annotations'', Ruby_array (map (view_annotation pool) annotations)),
       (''comment'', view_nullable (map_option (view_comment pool) comment))]"
| "view_member pool (Ast_Members_Instance_Variable location name type comment name_range
      colon_range kind_range) =
     located_object ''RBS::AST::Members::InstanceVariable'' location [(''name'', True, name_range),
       (''colon'', True, colon_range), (''kind'', False, kind_range)]
       [(''name'', view_symbol pool name), (''type'', view_node pool type),
       (''comment'', view_nullable (map_option (view_comment pool) comment))]"
| "view_member pool (Ast_Members_Method_Definition location name kind overloads annotations comment
      overloading visibility keyword_range name_range kind_range overloading_range
      visibility_range) =
     located_object ''RBS::AST::Members::MethodDefinition'' location
       [(''keyword'', True, keyword_range), (''name'', True, name_range),
       (''kind'', False, kind_range), (''overloading'', False, overloading_range),
       (''visibility'', False, visibility_range)] [(''name'', view_symbol pool name),
       (''kind'', Ruby_enum (method_definition_kind_view kind)),
       (''overloads'', Ruby_array (map (view_overload pool) overloads)),
       (''annotations'', Ruby_array (map (view_annotation pool) annotations)),
       (''comment'', view_nullable (map_option (view_comment pool) comment)),
       (''overloading'', Ruby_bool overloading),
       (''visibility'', Ruby_enum (method_definition_visibility_view visibility))]"
| "view_member pool (Ast_Members_Prepend location name args annotations comment name_range
      keyword_range args_range) =
     located_object ''RBS::AST::Members::Prepend'' location [(''name'', True, name_range),
       (''keyword'', True, keyword_range), (''args'', False, args_range)]
       [(''name'', view_type_name pool name), (''args'', Ruby_array (map (view_node pool) args)),
       (''annotations'', Ruby_array (map (view_annotation pool) annotations)),
       (''comment'', view_nullable (map_option (view_comment pool) comment))]"
| "view_member pool (Ast_Members_Private location) =
     located_object ''RBS::AST::Members::Private'' location [] []"
| "view_member pool (Ast_Members_Public location) =
     located_object ''RBS::AST::Members::Public'' location [] []"

primrec view_use_clause :: "rbs_constant_pool \<Rightarrow> rbs_use_clause \<Rightarrow> ruby_value" where
  "view_use_clause pool (Ast_Directives_Use_Single_Clause location type_name new_name
      type_name_range keyword_range new_name_range) =
     located_object ''RBS::AST::Directives::Use::SingleClause'' location
       [(''type_name'', True, type_name_range), (''keyword'', False, keyword_range),
       (''new_name'', False, new_name_range)] [(''type_name'', view_type_name pool type_name),
       (''new_name'', view_nullable (map_option (view_symbol pool) new_name))]"
| "view_use_clause pool (Ast_Directives_Use_Wildcard_Clause location rbs_namespace namespace_range
      star_range) =
     located_object ''RBS::AST::Directives::Use::WildcardClause'' location
       [(''namespace'', True, namespace_range), (''star'', True, star_range)]
       [(''namespace'', view_namespace pool rbs_namespace)]"

definition view_use :: "rbs_constant_pool \<Rightarrow> rbs_ast_directives_use \<Rightarrow> ruby_value" where
  "view_use pool node =
     located_object ''RBS::AST::Directives::Use'' (use_location node)
       [(''keyword'', True, (use_keyword_range node))]
       [(''clauses'', Ruby_array (map (view_use_clause pool) (use_clauses node)))]"

definition view_signature :: "rbs_constant_pool \<Rightarrow> rbs_signature \<Rightarrow> ruby_value" where
  "view_signature pool node =
     Ruby_array [Ruby_array (map (view_use pool) (sig_directives node)), Ruby_array (map (view_member pool) (sig_declarations node))]"

primrec view_ruby_annotation :: "rbs_constant_pool \<Rightarrow> rbs_ruby_annotation \<Rightarrow> ruby_value" where
  "view_ruby_annotation pool (Ast_Ruby_Annotations_Block_Param_Type_Annotation location
      prefix_location ampersand_location name_location colon_location question_location
      type_location type comment_loc) =
     located_object ''RBS::AST::Ruby::Annotations::BlockParamTypeAnnotation'' location []
       [(''prefix_location'', view_location prefix_location),
       (''ampersand_location'', view_location ampersand_location),
       (''name_location'', view_location name_location),
       (''colon_location'', view_location colon_location),
       (''question_location'', view_location question_location),
       (''type_location'', view_location type_location), (''type'', view_node pool type),
       (''comment_location'', view_location comment_loc)]"
| "view_ruby_annotation pool (Ast_Ruby_Annotations_Class_Alias_Annotation location prefix_location
      keyword_location type_name type_name_location) =
     located_object ''RBS::AST::Ruby::Annotations::ClassAliasAnnotation'' location []
       [(''prefix_location'', view_location prefix_location),
       (''keyword_location'', view_location keyword_location),
       (''type_name'', view_nullable (map_option (view_type_name pool) type_name)),
       (''type_name_location'', view_location type_name_location)]"
| "view_ruby_annotation pool (Ast_Ruby_Annotations_Colon_Method_Type_Annotation location
      prefix_location annotations method_type) =
     located_object ''RBS::AST::Ruby::Annotations::ColonMethodTypeAnnotation'' location []
       [(''prefix_location'', view_location prefix_location),
       (''annotations'', Ruby_array (map (view_annotation pool) annotations)),
       (''method_type'', view_method_type pool method_type)]"
| "view_ruby_annotation pool (Ast_Ruby_Annotations_Double_Splat_Param_Type_Annotation location
      prefix_location star2_location name_location colon_location param_type comment_loc) =
     located_object ''RBS::AST::Ruby::Annotations::DoubleSplatParamTypeAnnotation'' location []
       [(''prefix_location'', view_location prefix_location),
       (''star2_location'', view_location star2_location),
       (''name_location'', view_location name_location),
       (''colon_location'', view_location colon_location),
       (''param_type'', view_node pool param_type),
       (''comment_location'', view_location comment_loc)]"
| "view_ruby_annotation pool (Ast_Ruby_Annotations_Instance_Variable_Annotation location
      prefix_location ivar_name ivar_name_location colon_location type comment_loc) =
     located_object ''RBS::AST::Ruby::Annotations::InstanceVariableAnnotation'' location []
       [(''prefix_location'', view_location prefix_location),
       (''ivar_name'', view_symbol pool ivar_name),
       (''ivar_name_location'', view_location ivar_name_location),
       (''colon_location'', view_location colon_location), (''type'', view_node pool type),
       (''comment_location'', view_location comment_loc)]"
| "view_ruby_annotation pool (Ast_Ruby_Annotations_Method_Types_Annotation location prefix_location
      overloads vertical_bar_locations dot3_location) =
     located_object ''RBS::AST::Ruby::Annotations::MethodTypesAnnotation'' location []
       [(''prefix_location'', view_location prefix_location),
       (''overloads'', Ruby_array (map (view_overload pool) overloads)),
       (''vertical_bar_locations'', Ruby_array (map view_location vertical_bar_locations)),
       (''dot3_location'', view_location dot3_location)]"
| "view_ruby_annotation pool (Ast_Ruby_Annotations_Module_Alias_Annotation location prefix_location
      keyword_location type_name type_name_location) =
     located_object ''RBS::AST::Ruby::Annotations::ModuleAliasAnnotation'' location []
       [(''prefix_location'', view_location prefix_location),
       (''keyword_location'', view_location keyword_location),
       (''type_name'', view_nullable (map_option (view_type_name pool) type_name)),
       (''type_name_location'', view_location type_name_location)]"
| "view_ruby_annotation pool (Ast_Ruby_Annotations_Module_Self_Annotation location prefix_location
      keyword_location colon_location name args open_bracket_location close_bracket_location
      args_comma_locations comment_loc) =
     located_object ''RBS::AST::Ruby::Annotations::ModuleSelfAnnotation'' location []
       [(''prefix_location'', view_location prefix_location),
       (''keyword_location'', view_location keyword_location),
       (''colon_location'', view_location colon_location), (''name'', view_type_name pool name),
       (''args'', Ruby_array (map (view_node pool) args)),
       (''open_bracket_location'', view_location open_bracket_location),
       (''close_bracket_location'', view_location close_bracket_location),
       (''args_comma_locations'', Ruby_array (map view_location args_comma_locations)),
       (''comment_location'', view_location comment_loc)]"
| "view_ruby_annotation pool (Ast_Ruby_Annotations_Node_Type_Assertion location prefix_location
      type) =
     located_object ''RBS::AST::Ruby::Annotations::NodeTypeAssertion'' location []
       [(''prefix_location'', view_location prefix_location), (''type'', view_node pool type)]"
| "view_ruby_annotation pool (Ast_Ruby_Annotations_Param_Type_Annotation location prefix_location
      name_location colon_location param_type comment_loc) =
     located_object ''RBS::AST::Ruby::Annotations::ParamTypeAnnotation'' location []
       [(''prefix_location'', view_location prefix_location),
       (''name_location'', view_location name_location),
       (''colon_location'', view_location colon_location),
       (''param_type'', view_node pool param_type),
       (''comment_location'', view_location comment_loc)]"
| "view_ruby_annotation pool (Ast_Ruby_Annotations_Return_Type_Annotation location prefix_location
      return_location colon_location return_type comment_loc) =
     located_object ''RBS::AST::Ruby::Annotations::ReturnTypeAnnotation'' location []
       [(''prefix_location'', view_location prefix_location),
       (''return_location'', view_location return_location),
       (''colon_location'', view_location colon_location),
       (''return_type'', view_node pool return_type),
       (''comment_location'', view_location comment_loc)]"
| "view_ruby_annotation pool (Ast_Ruby_Annotations_Skip_Annotation location prefix_location
      skip_location comment_loc) =
     located_object ''RBS::AST::Ruby::Annotations::SkipAnnotation'' location []
       [(''prefix_location'', view_location prefix_location),
       (''skip_location'', view_location skip_location),
       (''comment_location'', view_location comment_loc)]"
| "view_ruby_annotation pool (Ast_Ruby_Annotations_Splat_Param_Type_Annotation location
      prefix_location star_location name_location colon_location param_type comment_loc) =
     located_object ''RBS::AST::Ruby::Annotations::SplatParamTypeAnnotation'' location []
       [(''prefix_location'', view_location prefix_location),
       (''star_location'', view_location star_location),
       (''name_location'', view_location name_location),
       (''colon_location'', view_location colon_location),
       (''param_type'', view_node pool param_type),
       (''comment_location'', view_location comment_loc)]"
| "view_ruby_annotation pool (Ast_Ruby_Annotations_Type_Application_Annotation location
      prefix_location type_args close_bracket_location comma_locations) =
     located_object ''RBS::AST::Ruby::Annotations::TypeApplicationAnnotation'' location []
       [(''prefix_location'', view_location prefix_location),
       (''type_args'', Ruby_array (map (view_node pool) type_args)),
       (''close_bracket_location'', view_location close_bracket_location),
       (''comma_locations'', Ruby_array (map view_location comma_locations))]"

end
