(* ===== verification/WriterRules.thy ===== *)
theory WriterRules
  imports Serializable RubyView
begin

text \<open>
  How a writer of \<open>Serializer\<close> and a reader of \<open>Deserializer\<close> fit together. \<open>sends pool r w v\<close>: with
  the constant pool \<open>pool\<close>, \<open>w\<close> always writes, and \<open>r\<close> reads \<open>v\<close> from what it has written and
  leaves what follows. There is a rule for each combinator of writers, and one for each kind of
  entry and of field of the schema.
\<close>

subsection \<open>What a writer writes\<close>

definition writes :: "rbs_constant_pool \<Rightarrow> writer \<Rightarrow> byte list \<Rightarrow> bool" where
  "writes pool w bs \<longleftrightarrow>
     (\<forall>s. buffer_inv (ser_buffer s) \<longrightarrow> ser_constant_pool s = pool \<longrightarrow>
       (\<exists>s'. w s = Some s' \<and> buffer_inv (ser_buffer s') \<and> ser_constant_pool s' = pool \<and>
         buffer_contents (ser_buffer s') = buffer_contents (ser_buffer s) @ bs))"

text \<open>
  The bytes are at least one, and \<open>r\<close> with enough fuel for them reads \<open>v\<close> from them, unless they
  are so many that lengths do not fit in 32 bits.
\<close>

definition understood :: "(nat \<Rightarrow> 'a reader) \<Rightarrow> byte list \<Rightarrow> 'a \<Rightarrow> bool" where
  "understood r bs v \<longleftrightarrow>
     (length bs < 2 ^ 32 \<longrightarrow> (\<forall>fuel rest. length bs \<le> fuel \<longrightarrow> r fuel (bs @ rest) = Some (v, rest)))"

definition sends_rest :: "rbs_constant_pool \<Rightarrow> (nat \<Rightarrow> 'a reader) \<Rightarrow> writer list \<Rightarrow> 'a \<Rightarrow> bool" where
  "sends_rest pool r ws v \<longleftrightarrow> (\<exists>bs. writes pool (write_all ws) bs \<and> understood r bs v)"

definition sends :: "rbs_constant_pool \<Rightarrow> (nat \<Rightarrow> 'a reader) \<Rightarrow> writer \<Rightarrow> 'a \<Rightarrow> bool" where
  "sends pool r w v \<longleftrightarrow> (\<exists>bs. bs \<noteq> [] \<and> writes pool w bs \<and> understood r bs v)"

lemma writes_nil: "writes pool (write_all []) []"
  by (simp add: writes_def)

lemma writes_cons: "writes pool w bs \<Longrightarrow> writes pool (write_all ws) cs \<Longrightarrow> writes pool (write_all (w # ws)) (bs @ cs)"
  unfolding writes_def
proof (intro allI impI)
  fix s :: rbs_serialize_state
  assume w: "\<forall>s. buffer_inv (ser_buffer s) \<longrightarrow> ser_constant_pool s = pool \<longrightarrow>
      (\<exists>s'. w s = Some s' \<and> buffer_inv (ser_buffer s') \<and> ser_constant_pool s' = pool \<and>
        buffer_contents (ser_buffer s') = buffer_contents (ser_buffer s) @ bs)"
    and ws: "\<forall>s. buffer_inv (ser_buffer s) \<longrightarrow> ser_constant_pool s = pool \<longrightarrow>
      (\<exists>s'. write_all ws s = Some s' \<and> buffer_inv (ser_buffer s') \<and> ser_constant_pool s' = pool \<and>
        buffer_contents (ser_buffer s') = buffer_contents (ser_buffer s) @ cs)"
    and s: "buffer_inv (ser_buffer s)" "ser_constant_pool s = pool"
  from w s obtain s1 where s1: "w s = Some s1" "buffer_inv (ser_buffer s1)" "ser_constant_pool s1 = pool"
    "buffer_contents (ser_buffer s1) = buffer_contents (ser_buffer s) @ bs" by blast
  from ws s1(2,3) obtain s2 where "write_all ws s1 = Some s2" "buffer_inv (ser_buffer s2)" "ser_constant_pool s2 = pool"
    "buffer_contents (ser_buffer s2) = buffer_contents (ser_buffer s1) @ cs" by blast
  with s1 show "\<exists>s'. write_all (w # ws) s = Some s' \<and> buffer_inv (ser_buffer s') \<and> ser_constant_pool s' = pool \<and>
      buffer_contents (ser_buffer s') = buffer_contents (ser_buffer s) @ bs @ cs" by simp
qed

lemma writes_bytes: "writes pool (w_bytes bs) bs"
proof -
  have "\<exists>s'. w_bytes bs s = Some s' \<and> buffer_inv (ser_buffer s') \<and> ser_constant_pool s' = pool \<and>
      buffer_contents (ser_buffer s') = buffer_contents (ser_buffer s) @ bs"
    if "buffer_inv (ser_buffer s)" "ser_constant_pool s = pool" for s
    using buffer_append_value [OF that(1), of bs] that by (auto simp: w_bytes_def)
  then show ?thesis by (simp add: writes_def)
qed

lemma writes_one: "writes pool (write_all [w]) bs \<longleftrightarrow> writes pool w bs"
proof -
  have "write_all [w] = w" by (rule ext) (simp split: option.split)
  then show ?thesis by simp
qed

lemma understood_reading:
  assumes "understood r bs v" and "understood (\<lambda>fuel. k fuel v) cs u"
  shows "understood (\<lambda>fuel. reading (r fuel) (k fuel)) (bs @ cs) u"
  unfolding understood_def
proof (intro impI allI)
  fix fuel rest assume l: "length (bs @ cs) < 2 ^ 32" "length (bs @ cs) \<le> fuel"
  then have "r fuel (bs @ cs @ rest) = Some (v, cs @ rest)" "k fuel v (cs @ rest) = Some (u, rest)"
    using assms by (simp_all add: understood_def)
  then show "reading (r fuel) (k fuel) ((bs @ cs) @ rest) = Some (u, rest)" by (simp add: reading_def)
qed

lemma understood_value: "understood (\<lambda>fuel. value_read v) [] v"
  by (simp add: understood_def value_read_def)

text \<open>Composition: a writer after a writer is a reader after a reader.\<close>

lemma sends_rest_cons:
  assumes "sends pool r w v" and "sends_rest pool (\<lambda>fuel. k fuel v) ws u"
  shows "sends_rest pool (\<lambda>fuel. reading (r fuel) (k fuel)) (w # ws) u"
    and "sends pool (\<lambda>fuel. reading (r fuel) (k fuel)) (write_all (w # ws)) u"
proof -
  obtain bs where bs: "bs \<noteq> []" "writes pool w bs" "understood r bs v" using assms(1) by (auto simp: sends_def)
  obtain cs where cs: "writes pool (write_all ws) cs" "understood (\<lambda>fuel. k fuel v) cs u"
    using assms(2) by (auto simp: sends_rest_def)
  have "writes pool (write_all (w # ws)) (bs @ cs)" "understood (\<lambda>fuel. reading (r fuel) (k fuel)) (bs @ cs) u" "bs @ cs \<noteq> []"
    using writes_cons [OF bs(2) cs(1)] understood_reading [where k = k, OF bs(3) cs(2)] bs(1) by simp_all
  then show "sends_rest pool (\<lambda>fuel. reading (r fuel) (k fuel)) (w # ws) u"
    "sends pool (\<lambda>fuel. reading (r fuel) (k fuel)) (write_all (w # ws)) u"
    unfolding sends_def sends_rest_def by blast+
qed

lemma sends_rest_nil: "sends_rest pool (\<lambda>fuel. value_read v) [] v"
  unfolding sends_rest_def by (intro exI [of _ "[]"] conjI writes_nil understood_value)

lemma sends_then:
  assumes "sends pool r w v" and "\<And>fuel. k fuel v = value_read u"
  shows "sends pool (\<lambda>fuel. reading (r fuel) (k fuel)) w u"
proof -
  obtain bs where bs: "bs \<noteq> []" "writes pool w bs" "understood r bs v" using assms(1) by (auto simp: sends_def)
  have "understood (\<lambda>fuel. reading (r fuel) (k fuel)) (bs @ []) u"
    by (rule understood_reading [OF bs(3)]) (simp add: assms(2) understood_value)
  with bs(1,2) show ?thesis unfolding sends_def append_Nil2 by blast
qed

subsection \<open>Integers and strings\<close>

lemma sends_bytes:
  assumes "bs \<noteq> []" and "\<And>fuel rest. r fuel (bs @ rest) = Some (v, rest)"
  shows "sends pool r (w_bytes bs) v"
proof -
  have "understood r bs v" by (simp add: understood_def assms(2))
  then show ?thesis using assms(1) writes_bytes unfolding sends_def by blast
qed

lemma sends_u8: "sends pool (\<lambda>fuel. read_u8) (w_u8 b) b"
  by (simp add: w_u8_def sends_bytes)

lemma byte_of_word: "unat (ucast (drop_bit k (x :: 32 word) AND 0xff) :: byte) = unat x div 2 ^ k mod 256"
proof -
  have "drop_bit k x AND 0xff = take_bit 8 (drop_bit k x)" by (simp add: take_bit_eq_mask mask_eq_exp_minus_1)
  moreover have "unat (take_bit 8 (drop_bit k x)) = unat x div 2 ^ k mod 256"
    by (simp only: unsigned_take_bit_eq unat_drop_bit_eq) (simp only: drop_bit_eq_div take_bit_eq_mod, simp)
  ultimately show ?thesis by (simp add: unsigned_ucast_eq take_bit_nat_eq_self)
qed

lemma digits: "(n :: nat) = n mod 256 + 256 * (n div 256 mod 256) + 65536 * (n div 65536 mod 256) + 16777216 * (n div 16777216)"
proof -
  have "n = r + 256 * s + 65536 * t + 16777216 * c"
    if "n = r + 256 * a" "a = s + 256 * b" "b = t + 256 * c" for r s t a b c using that by simp
  from this [OF mod_mult_div_eq [symmetric] mod_mult_div_eq [symmetric] mod_mult_div_eq [symmetric]]
  show ?thesis by (simp only: div_mult2_eq [symmetric]) simp
qed

lemma bytes_of_u32:
  assumes "n < 2 ^ 32"
  shows "n mod 256 + 256 * (n div 256 mod 256) + 65536 * (n div 65536 mod 256) + 16777216 * (n div 16777216 mod 256) = (n :: nat)"
proof -
  have "n div 16777216 < 256" using assms by (simp add: less_mult_imp_div_less)
  then show ?thesis using digits [of n] by simp
qed

lemma u32_bytes: "\<exists>cs. length cs = 4 \<and> writes pool (w_u32 x) cs \<and> (\<forall>rest. read_u32 (cs @ rest) = Some (unat x, rest))"
proof -
  let ?cs = "[ucast (x AND 0xff), ucast (drop_bit 8 x AND 0xff), ucast (drop_bit 16 x AND 0xff), ucast (drop_bit 24 x AND 0xff)] :: byte list"
  have "unat x < 2 ^ 32" using unsigned_less [of x] by simp
  from bytes_of_u32 [OF this] have "read_u32 (?cs @ rest) = Some (unat x, rest)" for rest
    using byte_of_word [of 0 x] byte_of_word [of 8 x] byte_of_word [of 16 x] byte_of_word [of 24 x] by simp
  moreover have "writes pool (w_u32 x) ?cs" by (simp add: w_u32_def writes_bytes)
  ultimately show ?thesis by (intro exI [of _ ?cs]) simp
qed

lemma sends_u32: "sends pool (\<lambda>fuel. read_u32) (w_u32 x) (unat x)"
proof -
  obtain cs where cs: "length cs = 4" "writes pool (w_u32 x) cs" "\<And>rest. read_u32 (cs @ rest) = Some (unat x, rest)"
    using u32_bytes [of pool x] by blast
  then have "cs \<noteq> []" "understood (\<lambda>fuel. read_u32) cs (unat x)" by (auto simp: understood_def)
  with cs(2) show ?thesis unfolding sends_def by blast
qed

lemma sint_unat: "sint (w :: 32 word) = (if unat w < 2147483648 then int (unat w) else int (unat w) - 4294967296)"
proof -
  have small: "uint w < 4294967296" "0 \<le> uint w" using uint_bounded [of w] by simp_all
  have eq: "uint w + 2147483648 = (uint w - 2147483648) + 4294967296" by simp
  have "(uint w + 2147483648) mod 4294967296 = (if uint w < 2147483648 then uint w + 2147483648 else uint w - 2147483648)"
  proof (cases "uint w < 2147483648")
    case True
    with small show ?thesis by (simp only: if_True) (rule mod_pos_pos_trivial, simp_all)
  next
    case False
    with small show ?thesis by (simp only: if_False eq mod_add_self2) (rule mod_pos_pos_trivial, simp_all)
  qed
  moreover have "sint w = (uint w + 2147483648) mod 4294967296 - 2147483648"
    by (simp only: sint_uint signed_take_bit_eq_take_bit_shift take_bit_eq_mod) simp
  moreover have "unat w < 2147483648 \<longleftrightarrow> uint w < 2147483648" 
    by (simp only: unat_eq_nat_uint nat_less_iff [OF small(2)]) simp
  ultimately show ?thesis by simp
qed

lemma sends_i32: "sends pool (\<lambda>fuel. read_i32) (w_i32 i) (as_i32 i)"
  unfolding read_i32_def w_i32_def as_i32_def by (rule sends_then [OF sends_u32]) (simp add: sint_unat)

lemma sends_bool: "sends pool (\<lambda>fuel. read_bool) (w_bool b) b"
  unfolding read_bool_def w_bool_def by (rule sends_then [OF sends_u8]) simp

text \<open>A count, followed by as many bytes or more.\<close>

lemma sends_sized:
  assumes "writes pool (write_all ws) bs" and "n \<le> length bs"
    and "\<And>fuel rest. length bs < 2 ^ 32 \<Longrightarrow> length bs \<le> fuel \<Longrightarrow> k fuel n (bs @ rest) = Some (v, rest)"
  shows "sends pool (\<lambda>fuel. reading read_u32 (k fuel)) (write_all (w_u32 (of_nat n) # ws)) v"
proof -
  obtain cs where cs: "length cs = 4" "writes pool (w_u32 (of_nat n)) cs"
    "\<And>rest. read_u32 (cs @ rest) = Some (unat (of_nat n :: 32 word), rest)"
    using u32_bytes [of pool "of_nat n"] by blast
  have "understood (\<lambda>fuel. reading read_u32 (k fuel)) (cs @ bs) v"
    using assms(2,3) cs(3) by (auto simp: understood_def reading_def unat_of_nat)
  moreover have "cs @ bs \<noteq> []" using cs(1) by auto
  ultimately show ?thesis using writes_cons [OF cs(2) assms(1)] unfolding sends_def by blast
qed

lemma sends_text:
  "sends pool (\<lambda>fuel. read_string) (write_all [w_u32 (of_nat (length bs)), w_bytes bs]) bs"
  unfolding read_string_def by (rule sends_sized) (use writes_bytes in \<open>auto simp: writes_one\<close>)

lemma sends_string: "string_inside s \<Longrightarrow> sends pool (\<lambda>fuel. read_string) (w_string s) (string_bytes s)"
  using sends_text [of pool "string_bytes s"] by (simp add: w_string_def string_inside_def Let_def)

lemma sends_cong: "(\<And>s. ser_constant_pool s = pool \<Longrightarrow> w s = w' s) \<Longrightarrow> sends pool r w' v \<Longrightarrow> sends pool r w v"
  by (simp add: sends_def writes_def)

lemma sends_constant: "valid_id pool k \<Longrightarrow> sends pool (\<lambda>fuel. read_string) (w_constant k) (constant_name pool k)"
  by (rule sends_cong [OF _ sends_text])
    (simp add: w_constant_def rbs_constant_pool_id_to_constant_def valid_id_def constant_name_def RBS_CONSTANT_ID_UNSET_def)

lemma sends_range: "sends pool (\<lambda>fuel. read_range) (w_loc_range rg) (view_range rg)"
proof (cases "RBS_LOCATION_NULL_RANGE_P rg")
  case True
  show ?thesis unfolding read_range_def
    by (rule sends_then [of pool _ _ 0]) (use True in \<open>simp_all add: w_loc_range_def view_range_def sends_u8\<close>)
next
  case False
  have "sends pool (\<lambda>fuel. read_range) (write_all [w_u8 1, w_i32 (start_char rg), w_i32 (end_char rg)])
      (Some (as_i32 (start_char rg), as_i32 (end_char rg)))"
    unfolding read_range_def
    by (rule sends_rest_cons(2) [OF sends_u8]) (simp, intro sends_rest_cons(1) [OF sends_i32] sends_rest_nil)
  with False show ?thesis by (simp add: w_loc_range_def view_range_def)
qed

subsection \<open>Lists\<close>

lemma writes_append: "writes pool (write_all ws) bs \<Longrightarrow> writes pool (write_all vs) cs \<Longrightarrow> writes pool (write_all (ws @ vs)) (bs @ cs)"
proof -
  have "write_all (ws @ vs) s = (case write_all ws s of None \<Rightarrow> None | Some s' \<Rightarrow> write_all vs s')" for s
    by (induction ws arbitrary: s) (auto split: option.splits)
  then have eq: "write_all (ws @ vs) = write_all [write_all ws, write_all vs]"
    by (auto split: option.splits)
  assume "writes pool (write_all ws) bs" and "writes pool (write_all vs) cs"
  then show ?thesis using writes_cons [of pool "write_all ws" bs "[write_all vs]" cs] by (simp add: eq writes_one)
qed

lemma sends_times:
  assumes "\<forall>x\<in>set xs. sends pool r (write_all (f x)) (g x)"
  shows "\<exists>bs. length xs \<le> length bs \<and> writes pool (write_all (concat (map f xs))) bs \<and>
    understood (\<lambda>fuel. read_times (length xs) (r fuel)) bs (map g xs)"
  using assms
proof (induction xs)
  case Nil
  show ?case by (intro exI [of _ "[]"]) (simp add: writes_def understood_value)
next
  case (Cons x xs)
  then obtain bs where bs: "length xs \<le> length bs" "writes pool (write_all (concat (map f xs))) bs"
    "understood (\<lambda>fuel. read_times (length xs) (r fuel)) bs (map g xs)" by auto
  from Cons.prems obtain cs where cs: "cs \<noteq> []" "writes pool (write_all (f x)) cs" "understood r cs (g x)"
    by (auto simp: sends_def)
  have "understood (\<lambda>fuel. read_times (length (x # xs)) (r fuel)) (cs @ bs @ []) (map g (x # xs))"
    unfolding length_Cons read_times.simps list.map(2)
    by (intro understood_reading [where k = "\<lambda>fuel x. reading (read_times (length xs) (r fuel)) (\<lambda>xs. value_read (x # xs))", OF cs(3)]
      understood_reading [where k = "\<lambda>fuel xs. value_read (g x # xs)", OF bs(3)] understood_value)
  moreover have "writes pool (write_all (concat (map f (x # xs)))) (cs @ bs)" using writes_append [OF cs(2) bs(2)] by simp
  moreover have "length (x # xs) \<le> length (cs @ bs)" using bs(1) cs(1) by (cases cs) simp_all
  ultimately show ?case unfolding append_Nil2 by blast
qed

lemma sends_counted:
  assumes "\<forall>x\<in>set xs. sends pool r (write_all (f x)) (g x)"
  shows "sends pool (\<lambda>fuel. reading read_count (\<lambda>count. reading (read_times count (r fuel)) (\<lambda>xs. value_read (h xs))))
    (write_all (w_u32 (of_nat (length xs)) # concat (map f xs))) (h (map g xs))"
proof -
  from sends_times [OF assms] obtain bs where bs: "length xs \<le> length bs"
    "writes pool (write_all (concat (map f xs))) bs" "understood (\<lambda>fuel. read_times (length xs) (r fuel)) bs (map g xs)"
    by blast
  have "reading read_count (\<lambda>count. reading (read_times count (r fuel)) (\<lambda>xs. value_read (h xs))) =
      reading read_u32 (\<lambda>count bytes. if count > length bytes then None
        else reading (read_times count (r fuel)) (\<lambda>xs. value_read (h xs)) bytes)" for fuel
    by (rule ext) (simp add: read_count_def reading_def split: option.split)
  then show ?thesis
    by (simp only:) (rule sends_sized [OF bs(2,1)], use bs(1,3) in \<open>simp add: understood_def reading_def value_read_def\<close>)
qed

lemma sends_node_list:
  assumes "\<forall>x\<in>set xs. sends pool r (f x) (g x)"
  shows "sends pool (\<lambda>fuel. read_node_list (r fuel)) (w_node_list (map f xs)) (Ruby_array (map g xs))"
proof -
  have "concat (map (\<lambda>x. [f x]) xs) = map f xs" by (induction xs) simp_all
  moreover have "write_all [w] = w" for w by (rule ext) (simp split: option.split)
  ultimately show ?thesis
    using sends_counted [of xs pool r "\<lambda>x. [f x]" g Ruby_array] assms by (simp add: read_node_list_def w_node_list_def)
qed

lemma sends_hash:
  assumes "\<forall>(a, b)\<in>set xs. sends pool r (f a) (g a) \<and> sends pool r (f b) (g b)"
  shows "sends pool (\<lambda>fuel. read_hash (r fuel)) (w_hash (map (map_prod f f) xs)) (Ruby_hash (map (map_prod g g) xs))"
proof -
  have pair: "sends pool (\<lambda>fuel. reading (r fuel) (\<lambda>key. reading (r fuel) (\<lambda>value. value_read (key, value))))
      (write_all [f (fst x), f (snd x)]) (map_prod g g x)" if "x \<in> set xs" for x
  proof -
    have x: "sends pool r (f (fst x)) (g (fst x))" "sends pool r (f (snd x)) (g (snd x))" using assms that by auto
    show ?thesis
      unfolding map_prod_def split_beta
      by (rule sends_rest_cons(2) [where k = "\<lambda>fuel key. reading (r fuel) (\<lambda>value. value_read (key, value))", OF x(1)
          sends_rest_cons(1) [where k = "\<lambda>fuel value. value_read (_, value)", OF x(2) sends_rest_nil]])
  qed
  have eq: "map (\<lambda>(key, value). [key, value]) (map (map_prod f f) xs) = map (\<lambda>x. [f (fst x), f (snd x)]) xs" by auto
  show ?thesis
    unfolding read_hash_def w_hash_def eq length_map
    by (rule sends_counted [where g = "map_prod g g" and h = Ruby_hash]) (use pair in blast)
qed

lemma sends_location_value: "sends pool (\<lambda>fuel. read_location_value) (w_loc_range rg) (view_location rg)"
  unfolding read_location_value_def view_location_def by (rule sends_then [OF sends_range]) simp

lemma sends_location_list:
  "sends pool (\<lambda>fuel. read_location_value_list) (w_loc_range_list rgs) (Ruby_array (map view_location rgs))"
  using sends_node_list [of rgs pool "\<lambda>fuel. read_location_value" w_loc_range view_location] sends_location_value
  by (simp add: read_location_value_list_def read_node_list_def w_node_list_def w_loc_range_list_def)

subsection \<open>Nodes\<close>

lemma sends_node:
  assumes "tag \<noteq> 0" and "tag \<noteq> SYMBOL_TAG" and "schema_lookup tag = Some entry"
    and "sends_rest pool (\<lambda>fuel. read_entry (read_node fuel) entry) ws v"
  shows "sends pool read_node (write_all (w_u8 tag # ws)) v"
proof -
  obtain bs where bs: "writes pool (write_all ws) bs" "understood (\<lambda>fuel. read_entry (read_node fuel) entry) bs v"
    using assms(4) by (auto simp: sends_rest_def)
  have "understood read_node (tag # bs) v"
    unfolding understood_def
  proof (intro impI allI)
    fix fuel rest assume l: "length (tag # bs) < 2 ^ 32" "length (tag # bs) \<le> fuel"
    then obtain fuel' where f: "fuel = Suc fuel'" by (cases fuel) auto
    with l bs(2) have "read_entry (read_node fuel') entry (bs @ rest) = Some (v, rest)" by (simp add: understood_def)
    then show "read_node fuel ((tag # bs) @ rest) = Some (v, rest)" using assms(1-3) f by (simp add: reading_def)
  qed
  moreover have "writes pool (write_all (w_u8 tag # ws)) ([tag] @ bs)"
    by (rule writes_cons [OF _ bs(1)]) (simp add: w_u8_def writes_bytes)
  ultimately show ?thesis unfolding sends_def by (metis append_Cons append_Nil list.distinct(1))
qed

lemma sends_nil: "sends pool read_node (w_u8 0) Ruby_nil"
proof -
  have "understood read_node [0] Ruby_nil"
    unfolding understood_def
  proof (intro impI allI)
    fix fuel rest assume "length [0 :: byte] \<le> fuel"
    then obtain fuel' where "fuel = Suc fuel'" by (cases fuel) auto
    then show "read_node fuel ([0] @ rest) = Some (Ruby_nil, rest)" by (simp add: reading_def value_read_def)
  qed
  then show ?thesis using writes_bytes [of pool "[0]"] unfolding sends_def w_u8_def by blast
qed

lemma sends_nullable:
  assumes "\<And>x. node = Some x \<Longrightarrow> sends pool read_node (f x) (g x)"
  shows "sends pool read_node (w_nullable (map_option f node)) (view_nullable (map_option g node))"
  using assms sends_nil by (cases node) (simp_all add: w_nullable_def view_nullable_def)

lemma sends_symbol:
  assumes "valid_symbol pool node"
  shows "sends pool read_node (serialize_symbol node) (view_symbol pool node)"
proof -
  obtain bs where bs: "writes pool (w_constant (sym_constant_id node)) bs"
    "understood (\<lambda>fuel. read_string) bs (constant_name pool (sym_constant_id node))"
    using sends_constant [of pool "sym_constant_id node"] assms by (auto simp: sends_def valid_symbol_def)
  have "understood read_node (SYMBOL_TAG # bs) (view_symbol pool node)"
    unfolding understood_def
  proof (intro impI allI)
    fix fuel rest assume l: "length (SYMBOL_TAG # bs) < 2 ^ 32" "length (SYMBOL_TAG # bs) \<le> fuel"
    then obtain fuel' where f: "fuel = Suc fuel'" by (cases fuel) auto
    have "length bs < 2 ^ 32" "length bs \<le> fuel'" using l f by simp_all
    with bs(2) have "read_string (bs @ rest) = Some (constant_name pool (sym_constant_id node), rest)"
      unfolding understood_def by blast
    then show "read_node fuel ((SYMBOL_TAG # bs) @ rest) = Some (view_symbol pool node, rest)"
      using f by (simp add: reading_def value_read_def view_symbol_def SYMBOL_TAG_def)
  qed
  moreover have "writes pool (serialize_symbol node) ([SYMBOL_TAG] @ bs)"
    unfolding serialize_symbol_def RBS_SERIALIZE_TAG_SYMBOL_def SYMBOL_TAG_def
    by (rule writes_cons) (simp_all add: w_u8_def writes_bytes writes_one bs(1))
  ultimately show ?thesis unfolding sends_def by (metis append_Cons append_Nil list.distinct(1))
qed

text \<open>The ranges of the children of a location, and the fields of an object.\<close>

definition children_sent ::
  "(string \<times> bool) list \<Rightarrow> writer list \<Rightarrow> (string \<times> bool \<times> rbs_location_range) list \<Rightarrow> writer list \<Rightarrow> bool"
where
  "children_sent children ws ch ws' \<longleftrightarrow>
     children = map (\<lambda>(name, required, _). (name, required)) ch \<and> ws = map (\<lambda>(_, _, rg). w_loc_range rg) ch @ ws'"

lemma children_sent_nil: "children_sent [] ws [] ws"
  by (simp add: children_sent_def)

lemma children_sent_cons:
  "children_sent cs ws ch ws' \<Longrightarrow> children_sent ((name, required) # cs) (w_loc_range rg # ws) ((name, required, rg) # ch) ws'"
  by (simp add: children_sent_def)

inductive fields_sent ::
  "rbs_constant_pool \<Rightarrow> (string option \<times> field_reader) list \<Rightarrow> writer list \<Rightarrow> (string \<times> ruby_value) list \<Rightarrow> bool"
for pool where
  fields_nil: "fields_sent pool [] [] []"
| fields_named: "sends pool (\<lambda>fuel. read_field (read_node fuel) k) w v \<Longrightarrow> fields_sent pool fs ws vs \<Longrightarrow>
    fields_sent pool ((Some name, k) # fs) (w # ws) ((name, v) # vs)"
| fields_unnamed: "sends pool (\<lambda>fuel. read_field (read_node fuel) k) w v \<Longrightarrow> fields_sent pool fs ws vs \<Longrightarrow>
    fields_sent pool ((None, k) # fs) (w # ws) vs"

lemma reading_assoc: "reading (reading r f) k = reading r (\<lambda>x. reading (f x) k)"
  by (rule ext) (simp add: reading_def split: option.split)

lemma reading_value: "reading (value_read x) k = k x"
  by (rule ext) (simp add: reading_def value_read_def)

lemma sends_children:
  assumes "sends_rest pool (\<lambda>fuel. k fuel (map (\<lambda>(name, required, rg). (name, required, view_range rg)) ch)) ws u"
  shows "sends_rest pool (\<lambda>fuel. reading (read_children (map (\<lambda>(name, required, _). (name, required)) ch)) (k fuel))
    (map (\<lambda>(_, _, rg). w_loc_range rg) ch @ ws) u"
  using assms
proof (induction ch arbitrary: k)
  case Nil
  then show ?case by (simp add: reading_value)
next
  case (Cons c ch)
  obtain name required rg where c: "c = (name, required, rg)" by (cases c)
  have "sends_rest pool (\<lambda>fuel. reading (read_children (map (\<lambda>(name, required, _). (name, required)) ch))
      (\<lambda>rest. k fuel ((name, required, view_range rg) # rest))) (map (\<lambda>(_, _, rg). w_loc_range rg) ch @ ws) u"
    by (rule Cons.IH [where k = "\<lambda>fuel rest. k fuel ((name, required, view_range rg) # rest)"]) (use Cons.prems c in simp)
  then show ?case
    using sends_rest_cons(1) [OF sends_range, where k = "\<lambda>fuel rg. reading (read_children (map (\<lambda>(name, required, _). (name, required)) ch))
      (\<lambda>rest. k fuel ((name, required, rg) # rest))"] c by (simp add: reading_assoc reading_value)
qed

lemma sends_rest_then:
  assumes "sends_rest pool r ws v"
  shows "sends_rest pool (\<lambda>fuel. reading (r fuel) (\<lambda>x. value_read (h x))) ws (h v)"
proof -
  obtain bs where bs: "writes pool (write_all ws) bs" "understood r bs v" using assms by (auto simp: sends_rest_def)
  have "understood (\<lambda>fuel. reading (r fuel) (\<lambda>x. value_read (h x))) (bs @ []) (h v)"
    by (rule understood_reading [where k = "\<lambda>fuel x. value_read (h x)", OF bs(2) understood_value])
  with bs(1) show ?thesis unfolding sends_rest_def append_Nil2 by blast
qed

lemma sends_fields:
  assumes "fields_sent pool fs ws vs"
  shows "\<exists>vals. kwargs vals = vs \<and> sends_rest pool (\<lambda>fuel. read_fields (read_node fuel) fs) ws vals"
  using assms
proof (induction rule: fields_sent.induct)
  case fields_nil
  show ?case by (intro exI [of _ "[]"]) (simp add: kwargs_def sends_rest_nil)
next
  case (fields_named k w v fs ws vs name)
  then obtain vals where v: "kwargs vals = vs" "sends_rest pool (\<lambda>fuel. read_fields (read_node fuel) fs) ws vals" by blast
  have "sends_rest pool (\<lambda>fuel. read_fields (read_node fuel) ((Some name, k) # fs)) (w # ws) ((Some name, v) # vals)"
    unfolding read_fields.simps fst_conv snd_conv
    by (rule sends_rest_cons(1) [OF fields_named.hyps(1)]) (rule sends_rest_then [OF v(2)])
  with v(1) show ?case by (intro exI [of _ "(Some name, v) # vals"]) (simp add: kwargs_def)
next
  case (fields_unnamed k w v fs ws vs)
  then obtain vals where v: "kwargs vals = vs" "sends_rest pool (\<lambda>fuel. read_fields (read_node fuel) fs) ws vals" by blast
  have "sends_rest pool (\<lambda>fuel. read_fields (read_node fuel) ((None, k) # fs)) (w # ws) ((None, v) # vals)"
    unfolding read_fields.simps fst_conv snd_conv
    by (rule sends_rest_cons(1) [OF fields_unnamed.hyps(1)]) (rule sends_rest_then [OF v(2)])
  with v(1) show ?case by (intro exI [of _ "(None, v) # vals"]) (simp add: kwargs_def)
qed

text \<open>The rules for the nodes with and without a location.\<close>

lemma sends_located:
  assumes "tag \<noteq> 0" and "tag \<noteq> SYMBOL_TAG" and "schema_lookup tag = Some (Entry_node name True children fs res)"
    and "children_sent children ws ch ws'" and "fields_sent pool fs ws' arguments"
  shows "sends pool read_node (write_all (w_u8 tag # w_loc_range location # ws)) (located_object name location ch arguments)"
proof (rule sends_node [OF assms(1-3)])
  obtain vals where v: "kwargs vals = arguments" "sends_rest pool (\<lambda>fuel. read_fields (read_node fuel) fs) ws' vals"
    using sends_fields [OF assms(5)] by blast
  let ?ch = "map (\<lambda>(name, required, rg). (name, required, view_range rg)) ch"
  have "sends_rest pool (\<lambda>fuel. reading (read_fields (read_node fuel) fs)
      (\<lambda>vals. value_read (Ruby_object name (Some (make_location (view_range location) ?ch)) (kwargs vals)))) ws'
      (located_object name location ch arguments)"
    unfolding located_object_def v(1) [symmetric] by (rule sends_rest_then [OF v(2)])
  then have "sends_rest pool (\<lambda>fuel. reading (read_children children) (\<lambda>ch. reading (read_fields (read_node fuel) fs)
      (\<lambda>vals. value_read (Ruby_object name (Some (make_location (view_range location) ch)) (kwargs vals))))) ws
      (located_object name location ch arguments)"
    using assms(4) by (simp add: children_sent_def) (rule sends_children)
  then show "sends_rest pool (\<lambda>fuel. read_entry (read_node fuel) (Entry_node name True children fs res))
      (w_loc_range location # ws) (located_object name location ch arguments)"
    unfolding read_entry_def read_struct_def read_location_def schema_entry.case if_True reading_assoc reading_value
    by (rule sends_rest_cons(1) [OF sends_range])
qed

lemma sends_object:
  assumes "tag \<noteq> 0" and "tag \<noteq> SYMBOL_TAG" and "schema_lookup tag = Some (Entry_node name False children fs res)"
    and "fields_sent pool fs ws arguments"
  shows "sends pool read_node (write_all (w_u8 tag # ws)) (Ruby_object name None arguments)"
proof (rule sends_node [OF assms(1-3)])
  obtain vals where v: "kwargs vals = arguments" "sends_rest pool (\<lambda>fuel. read_fields (read_node fuel) fs) ws vals"
    using sends_fields [OF assms(4)] by blast
  then show "sends_rest pool (\<lambda>fuel. read_entry (read_node fuel) (Entry_node name False children fs res)) ws
      (Ruby_object name None arguments)"
    unfolding read_entry_def read_struct_def schema_entry.case if_False v(1) [symmetric] by (intro sends_rest_then)
qed

subsection \<open>Fields\<close>

lemma field_node: "sends pool read_node w v \<Longrightarrow> sends pool (\<lambda>fuel. read_field (read_node fuel) Read_node) w v"
  by (simp add: read_field_def)

lemma field_node_list:
  "(\<And>x. x \<in> set xs \<Longrightarrow> sends pool read_node (f x) (g x)) \<Longrightarrow>
   sends pool (\<lambda>fuel. read_field (read_node fuel) Read_node_list) (w_node_list (map f xs)) (Ruby_array (map g xs))"
  by (simp add: read_field_def sends_node_list)

lemma field_hash:
  "(\<And>x. x \<in> fst ` set xs \<union> snd ` set xs \<Longrightarrow> sends pool read_node (f x) (g x)) \<Longrightarrow>
   sends pool (\<lambda>fuel. read_field (read_node fuel) Read_hash) (w_hash (map (map_prod f f) xs)) (Ruby_hash (map (map_prod g g) xs))"
  unfolding read_field_def field_reader.case by (rule sends_hash) force

lemma field_string:
  "string_inside s \<Longrightarrow> sends pool (\<lambda>fuel. read_field (read_node fuel) Read_string) (w_string s) (Ruby_string (string_bytes s))"
  unfolding read_field_def field_reader.case by (rule sends_then [OF sends_string]) simp_all

lemma field_bool: "sends pool (\<lambda>fuel. read_field (read_node fuel) Read_bool) (w_bool b) (Ruby_bool b)"
  unfolding read_field_def field_reader.case by (rule sends_then [OF sends_bool]) simp

lemma field_range: "sends pool (\<lambda>fuel. read_field (read_node fuel) Read_location_range) (w_loc_range rg) (view_location rg)"
  by (simp add: read_field_def sends_location_value)

lemma field_range_list:
  "sends pool (\<lambda>fuel. read_field (read_node fuel) Read_location_range_list) (w_loc_range_list rgs) (Ruby_array (map view_location rgs))"
  by (simp add: read_field_def sends_location_list)

lemma field_ivar_name:
  assumes "valid_ivar_name pool ivar_name"
  shows "sends pool (\<lambda>fuel. read_field (read_node fuel) Read_attr_ivar_name) (w_attr_ivar_name ivar_name) (view_ivar_name pool ivar_name)"
  unfolding read_field_def field_reader.case read_attr_ivar_name_def w_attr_ivar_name_def
proof (rule sends_rest_cons(2) [OF sends_u8])
  show "sends_rest pool (\<lambda>fuel. if attr_ivar_name_tag_value (attr_ivar_tag ivar_name) = 0 then value_read Ruby_nil
      else if attr_ivar_name_tag_value (attr_ivar_tag ivar_name) = 1 then value_read (Ruby_bool False)
      else reading read_string (\<lambda>name. value_read (Ruby_symbol name)))
     (if attr_ivar_tag ivar_name = RBS_ATTR_IVAR_NAME_TAG_NAME then [w_constant (rbs_attr_ivar_name.attr_ivar_name ivar_name)] else [])
     (view_ivar_name pool ivar_name)"
    using assms sends_rest_cons(1) [OF sends_constant sends_rest_nil]
    by (cases "attr_ivar_tag ivar_name") (auto simp: view_ivar_name_def valid_ivar_name_def sends_rest_nil)
qed

lemma field_enum:
  assumes "unat b < length vals" and "vals ! unat b = v"
  shows "sends pool (\<lambda>fuel. read_field (read_node fuel) (Read_enum vals)) (w_u8 b) (Ruby_enum v)"
  unfolding read_field_def field_reader.case by (rule sends_then [OF sends_u8]) (simp add: assms)

end
