(* ===== verification/SerializeProps.thy ===== *)
theory SerializeProps
  imports WriterRules DeclTree
begin

text \<open>
  The serializer and the reader on the Ruby side agree: every tree whose constants are in the
  pool is serialized, and what is read back is the object that the tree stands for.
\<close>

subsection \<open>Types\<close>

text \<open>The entries of the schema.\<close>

lemmas entry_defs =
  entry_AST_Annotation_def entry_AST_Comment_def entry_AST_Declarations_Class_def
  entry_AST_Declarations_Class_Super_def entry_AST_Declarations_ClassAlias_def
  entry_AST_Declarations_Constant_def entry_AST_Declarations_Global_def entry_AST_Declarations_Interface_def
  entry_AST_Declarations_Module_def entry_AST_Declarations_Module_Self_def
  entry_AST_Declarations_ModuleAlias_def entry_AST_Declarations_TypeAlias_def entry_AST_Directives_Use_def
  entry_AST_Directives_Use_SingleClause_def entry_AST_Directives_Use_WildcardClause_def
  entry_AST_Members_Alias_def entry_AST_Members_AttrAccessor_def entry_AST_Members_AttrReader_def
  entry_AST_Members_AttrWriter_def entry_AST_Members_ClassInstanceVariable_def
  entry_AST_Members_ClassVariable_def entry_AST_Members_Extend_def entry_AST_Members_Include_def
  entry_AST_Members_InstanceVariable_def entry_AST_Members_MethodDefinition_def
  entry_AST_Members_MethodDefinition_Overload_def entry_AST_Members_Prepend_def
  entry_AST_Members_Private_def entry_AST_Members_Public_def
  entry_AST_Ruby_Annotations_BlockParamTypeAnnotation_def
  entry_AST_Ruby_Annotations_ClassAliasAnnotation_def
  entry_AST_Ruby_Annotations_ColonMethodTypeAnnotation_def
  entry_AST_Ruby_Annotations_DoubleSplatParamTypeAnnotation_def
  entry_AST_Ruby_Annotations_InstanceVariableAnnotation_def
  entry_AST_Ruby_Annotations_MethodTypesAnnotation_def entry_AST_Ruby_Annotations_ModuleAliasAnnotation_def
  entry_AST_Ruby_Annotations_ModuleSelfAnnotation_def entry_AST_Ruby_Annotations_NodeTypeAssertion_def
  entry_AST_Ruby_Annotations_ParamTypeAnnotation_def entry_AST_Ruby_Annotations_ReturnTypeAnnotation_def
  entry_AST_Ruby_Annotations_SkipAnnotation_def entry_AST_Ruby_Annotations_SplatParamTypeAnnotation_def
  entry_AST_Ruby_Annotations_TypeApplicationAnnotation_def entry_AST_TypeParam_def entry_MethodType_def
  entry_Types_Alias_def entry_Types_Bases_Any_def entry_Types_Bases_Bool_def entry_Types_Bases_Bottom_def
  entry_Types_Bases_Class_def entry_Types_Bases_Instance_def entry_Types_Bases_Nil_def
  entry_Types_Bases_Self_def entry_Types_Bases_Top_def entry_Types_Bases_Void_def entry_Types_Block_def
  entry_Types_ClassInstance_def entry_Types_ClassSingleton_def entry_Types_Function_def
  entry_Types_Function_ForwardingParam_def entry_Types_Function_Param_def entry_Types_Interface_def
  entry_Types_Intersection_def entry_Types_Literal_def entry_Types_Optional_def entry_Types_Proc_def
  entry_Types_Record_def entry_Types_Tuple_def entry_Types_Union_def entry_Types_UntypedFunction_def
  entry_Types_Variable_def

lemmas schema_lookups =
  schema_lookup_def [of 1, unfolded SCHEMA_def, simplified] schema_lookup_def [of 2, unfolded SCHEMA_def, simplified]
  schema_lookup_def [of 3, unfolded SCHEMA_def, simplified] schema_lookup_def [of 4, unfolded SCHEMA_def, simplified]
  schema_lookup_def [of 5, unfolded SCHEMA_def, simplified] schema_lookup_def [of 6, unfolded SCHEMA_def, simplified]
  schema_lookup_def [of 7, unfolded SCHEMA_def, simplified] schema_lookup_def [of 8, unfolded SCHEMA_def, simplified]
  schema_lookup_def [of 9, unfolded SCHEMA_def, simplified] schema_lookup_def [of 10, unfolded SCHEMA_def, simplified]
  schema_lookup_def [of 11, unfolded SCHEMA_def, simplified] schema_lookup_def [of 12, unfolded SCHEMA_def, simplified]
  schema_lookup_def [of 13, unfolded SCHEMA_def, simplified] schema_lookup_def [of 14, unfolded SCHEMA_def, simplified]
  schema_lookup_def [of 15, unfolded SCHEMA_def, simplified] schema_lookup_def [of 16, unfolded SCHEMA_def, simplified]
  schema_lookup_def [of 17, unfolded SCHEMA_def, simplified] schema_lookup_def [of 18, unfolded SCHEMA_def, simplified]
  schema_lookup_def [of 19, unfolded SCHEMA_def, simplified] schema_lookup_def [of 20, unfolded SCHEMA_def, simplified]
  schema_lookup_def [of 21, unfolded SCHEMA_def, simplified] schema_lookup_def [of 22, unfolded SCHEMA_def, simplified]
  schema_lookup_def [of 23, unfolded SCHEMA_def, simplified] schema_lookup_def [of 24, unfolded SCHEMA_def, simplified]
  schema_lookup_def [of 25, unfolded SCHEMA_def, simplified] schema_lookup_def [of 26, unfolded SCHEMA_def, simplified]
  schema_lookup_def [of 27, unfolded SCHEMA_def, simplified] schema_lookup_def [of 28, unfolded SCHEMA_def, simplified]
  schema_lookup_def [of 29, unfolded SCHEMA_def, simplified] schema_lookup_def [of 30, unfolded SCHEMA_def, simplified]
  schema_lookup_def [of 31, unfolded SCHEMA_def, simplified] schema_lookup_def [of 32, unfolded SCHEMA_def, simplified]
  schema_lookup_def [of 33, unfolded SCHEMA_def, simplified] schema_lookup_def [of 34, unfolded SCHEMA_def, simplified]
  schema_lookup_def [of 35, unfolded SCHEMA_def, simplified] schema_lookup_def [of 36, unfolded SCHEMA_def, simplified]
  schema_lookup_def [of 37, unfolded SCHEMA_def, simplified] schema_lookup_def [of 38, unfolded SCHEMA_def, simplified]
  schema_lookup_def [of 39, unfolded SCHEMA_def, simplified] schema_lookup_def [of 40, unfolded SCHEMA_def, simplified]
  schema_lookup_def [of 41, unfolded SCHEMA_def, simplified] schema_lookup_def [of 42, unfolded SCHEMA_def, simplified]
  schema_lookup_def [of 43, unfolded SCHEMA_def, simplified] schema_lookup_def [of 44, unfolded SCHEMA_def, simplified]
  schema_lookup_def [of 45, unfolded SCHEMA_def, simplified] schema_lookup_def [of 46, unfolded SCHEMA_def, simplified]
  schema_lookup_def [of 47, unfolded SCHEMA_def, simplified] schema_lookup_def [of 48, unfolded SCHEMA_def, simplified]
  schema_lookup_def [of 49, unfolded SCHEMA_def, simplified] schema_lookup_def [of 50, unfolded SCHEMA_def, simplified]
  schema_lookup_def [of 51, unfolded SCHEMA_def, simplified] schema_lookup_def [of 52, unfolded SCHEMA_def, simplified]
  schema_lookup_def [of 53, unfolded SCHEMA_def, simplified] schema_lookup_def [of 54, unfolded SCHEMA_def, simplified]
  schema_lookup_def [of 55, unfolded SCHEMA_def, simplified] schema_lookup_def [of 56, unfolded SCHEMA_def, simplified]
  schema_lookup_def [of 57, unfolded SCHEMA_def, simplified] schema_lookup_def [of 58, unfolded SCHEMA_def, simplified]
  schema_lookup_def [of 59, unfolded SCHEMA_def, simplified] schema_lookup_def [of 60, unfolded SCHEMA_def, simplified]
  schema_lookup_def [of 61, unfolded SCHEMA_def, simplified] schema_lookup_def [of 62, unfolded SCHEMA_def, simplified]
  schema_lookup_def [of 63, unfolded SCHEMA_def, simplified] schema_lookup_def [of 64, unfolded SCHEMA_def, simplified]
  schema_lookup_def [of 65, unfolded SCHEMA_def, simplified] schema_lookup_def [of 66, unfolded SCHEMA_def, simplified]
  schema_lookup_def [of 67, unfolded SCHEMA_def, simplified] schema_lookup_def [of 68, unfolded SCHEMA_def, simplified]
  schema_lookup_def [of 69, unfolded SCHEMA_def, simplified] schema_lookup_def [of 70, unfolded SCHEMA_def, simplified]
  schema_lookup_def [of 71, unfolded SCHEMA_def, simplified] schema_lookup_def [of 72, unfolded SCHEMA_def, simplified]
  schema_lookup_def [of 73, unfolded SCHEMA_def, simplified] schema_lookup_def [of 74, unfolded SCHEMA_def, simplified]
  schema_lookup_def [of 75, unfolded SCHEMA_def, simplified] schema_lookup_def [of 76, unfolded SCHEMA_def, simplified]
  schema_lookup_def [of 77, unfolded SCHEMA_def, simplified] schema_lookup_def [of 78, unfolded SCHEMA_def, simplified]

lemmas schema_entries = schema_lookups [unfolded entry_defs]

text \<open>The values of the enumerations.\<close>

lemma field_enums:
  "sends pool (\<lambda>fuel. read_field (read_node fuel) (Read_enum [Some ''instance'', Some ''singleton'']))
     (w_u8 (attribute_kind_value ak)) (Ruby_enum (attribute_kind_view ak))"
  "sends pool (\<lambda>fuel. read_field (read_node fuel) (Read_enum [Some ''instance'', Some ''singleton'']))
     (w_u8 (alias_kind_value lk)) (Ruby_enum (alias_kind_view lk))"
  "sends pool (\<lambda>fuel. read_field (read_node fuel) (Read_enum [None, Some ''public'', Some ''private'']))
     (w_u8 (attribute_visibility_value av)) (Ruby_enum (attribute_visibility_view av))"
  "sends pool (\<lambda>fuel. read_field (read_node fuel) (Read_enum [None, Some ''public'', Some ''private'']))
     (w_u8 (method_definition_visibility_value mv)) (Ruby_enum (method_definition_visibility_view mv))"
  "sends pool (\<lambda>fuel. read_field (read_node fuel) (Read_enum [Some ''instance'', Some ''singleton'', Some ''singleton_instance'']))
     (w_u8 (method_definition_kind_value mk)) (Ruby_enum (method_definition_kind_view mk))"
  "sends pool (\<lambda>fuel. read_field (read_node fuel) (Read_enum [Some ''invariant'', Some ''covariant'', Some ''contravariant'']))
     (w_u8 (type_param_variance_value tv)) (Ruby_enum (type_param_variance_view tv))"
  by (cases ak, simp_all add: field_enum) (cases lk, simp_all add: field_enum, (cases av, simp_all add: field_enum)?,
    (cases mv, simp_all add: field_enum)?, (cases mk, simp_all add: field_enum)?, (cases tv, simp_all add: field_enum)?)

lemmas field_rules = field_node_list field_hash field_string field_bool field_range field_range_list field_ivar_name field_enums

lemma sends_namespace:
  assumes "valid_namespace pool node"
  shows "sends pool read_node (serialize_namespace node) (view_namespace pool node)"
  unfolding serialize_namespace_def
proof (rule sends_node [OF _ _ schema_entries(49)])
  have "\<forall>x\<in>set (ns_path node). sends pool read_node (serialize_symbol x) (view_symbol pool x)"
    using assms sends_symbol by (auto simp: valid_namespace_def valid_list_def)
  from sends_node_list [OF this]
  show "sends_rest pool (\<lambda>fuel. read_entry (read_node fuel) Entry_namespace)
      [w_node_list (map serialize_symbol (ns_path node)), w_bool (ns_absolute node)] (view_namespace pool node)"
    unfolding read_entry_def schema_entry.case view_namespace_def
    by (rule sends_rest_cons(1)) (rule sends_rest_cons(1) [OF sends_bool], rule sends_rest_nil)
qed (simp_all add: SYMBOL_TAG_def)

lemma sends_type_name:
  assumes "valid_type_name pool node"
  shows "sends pool read_node (serialize_type_name node) (view_type_name pool node)"
  unfolding serialize_type_name_def
proof (rule sends_node [OF _ _ schema_entries(51)])
  have names: "sends pool read_node (serialize_namespace (tn_rbs_namespace node)) (view_namespace pool (tn_rbs_namespace node))"
    "sends pool read_node (serialize_symbol (tn_name node)) (view_symbol pool (tn_name node))"
    using assms by (simp_all add: valid_type_name_def sends_namespace sends_symbol)
  show "sends_rest pool (\<lambda>fuel. read_entry (read_node fuel) Entry_type_name)
      [serialize_namespace (tn_rbs_namespace node), serialize_symbol (tn_name node)] (view_type_name pool node)"
    unfolding read_entry_def schema_entry.case view_type_name_def
    by (rule sends_rest_cons(1) [OF names(1)]) (rule sends_rest_cons(1) [OF names(2)], rule sends_rest_nil)
qed (simp_all add: SYMBOL_TAG_def)

text \<open>Literals.\<close>

lemma sends_ast_bool: "sends pool read_node (write_all [w_u8 2, w_bool b]) (Ruby_bool b)"
  by (rule sends_node [OF _ _ schema_entries(2)])
    (simp_all add: SYMBOL_TAG_def read_entry_def sends_rest_cons(1) [OF sends_bool sends_rest_nil])

lemma sends_ast_integer: "string_inside s \<Longrightarrow> sends pool read_node (write_all [w_u8 17, w_string s]) (Ruby_integer (string_bytes s))"
  by (rule sends_node [OF _ _ schema_entries(17)])
    (simp_all add: SYMBOL_TAG_def read_entry_def sends_rest_cons(1) [OF sends_string sends_rest_nil])

lemma sends_ast_string: "string_inside s \<Longrightarrow> sends pool read_node (write_all [w_u8 46, w_string s]) (Ruby_string (string_bytes s))"
  by (rule sends_node [OF _ _ schema_entries(46)])
    (simp_all add: SYMBOL_TAG_def read_entry_def sends_rest_cons(1) [OF sends_string sends_rest_nil])

lemma sends_record_field:
  assumes "sends pool read_node w v"
  shows "sends pool read_node (write_all [w_u8 74, w, w_bool b]) (Ruby_array [v, Ruby_bool b])"
proof (rule sends_node [OF _ _ schema_entries(74)])
  show "sends_rest pool (\<lambda>fuel. read_entry (read_node fuel) Entry_record_field) [w, w_bool b] (Ruby_array [v, Ruby_bool b])"
    unfolding read_entry_def schema_entry.case
    by (rule sends_rest_cons(1) [OF assms]) (rule sends_rest_cons(1) [OF sends_bool], rule sends_rest_nil)
qed (simp_all add: SYMBOL_TAG_def)

lemmas part_rules = field_rules fields_nil fields_named fields_unnamed field_node sends_type_name sends_namespace sends_symbol
  sends_nullable

lemma valid_parts:
  "valid_list (map f xs) \<longleftrightarrow> (\<forall>x\<in>set xs. f x)"
  "valid_hash (map (map_prod f f) h) \<longleftrightarrow> (\<forall>x\<in>fst ` set h \<union> snd ` set h. f x)"
  "valid_nullable (map_option f y) \<longleftrightarrow> (\<forall>x. y = Some x \<longrightarrow> f x)"
  "valid_nullable (Some b) \<longleftrightarrow> b"
  by (force simp: valid_list_def valid_hash_def valid_nullable_def split: option.splits)+

text \<open>The children of a node, as in \<open>contexts\<close>.\<close>

definition child_of :: "rbs_node \<Rightarrow> rbs_node \<Rightarrow> bool" where
  "child_of node x \<longleftrightarrow> x \<in> snd ` set (contexts False False node)"

lemma option_child: "x \<in> set (option_nodes y) \<longleftrightarrow> y = Some x"
  by (auto simp: option_nodes_def split: option.splits)

lemma hash_child: "x \<in> set (hash_nodes h) \<longleftrightarrow> x \<in> fst ` set h \<union> snd ` set h"
  by (induction h) (auto simp: hash_nodes_def)

lemmas child_simps = child_of_def contexts_def Let_def image_Un image_image option_child hash_child Un_iff

lemma child_size: "child_of node x \<Longrightarrow> size x < size node"
  using contexts_size by (auto simp: child_of_def)

lemma child_valid: "valid_node pool node \<Longrightarrow> child_of node x \<Longrightarrow> valid_node pool x"
  by (cases node) (auto simp: child_simps valid_parts)

lemma sends_types:
  "valid_node pool node \<Longrightarrow> sends pool read_node (serialize_node node) (view_node pool node)"
proof (induction "size node" arbitrary: node rule: less_induct)
  case less
  have IH: "sends pool read_node (serialize_node x) (view_node pool x)" if "child_of node x" for x
    using less child_size [OF that] child_valid [OF less.prems that] by blast
  show ?case
    by (insert less.prems; cases node; simp only: serialize_node.simps view_node.simps;
      ((rule sends_symbol sends_ast_bool sends_ast_integer sends_ast_string)
        | (rule sends_record_field, rule IH)
        | (rule sends_object, simp, simp add: SYMBOL_TAG_def, rule schema_entries, intro part_rules IH)
        | (rule sends_located, simp, simp add: SYMBOL_TAG_def, rule schema_entries,
            (rule children_sent_cons children_sent_nil)+, intro part_rules IH));
      simp add: child_simps valid_parts)
qed


subsection \<open>Declarations and members\<close>

lemma sends_comment: "valid_comment pool node \<Longrightarrow> sends pool read_node (serialize_comment node) (view_comment pool node)"
  unfolding serialize_comment_def view_comment_def
  by (rule sends_located, simp, simp add: SYMBOL_TAG_def, rule schema_entries, rule children_sent_nil, intro part_rules,
      rule field_string)
    (simp add: valid_comment_def)

lemma sends_annotation: "valid_annotation pool node \<Longrightarrow> sends pool read_node (serialize_annotation node) (view_annotation pool node)"
  unfolding serialize_annotation_def view_annotation_def
  by (rule sends_located, simp, simp add: SYMBOL_TAG_def, rule schema_entries, rule children_sent_nil, intro part_rules)
    (simp add: valid_annotation_def)

lemma sends_type_param: "valid_type_param pool node \<Longrightarrow> sends pool read_node (serialize_type_param node) (view_type_param pool node)"
  unfolding serialize_type_param_def view_type_param_def
  by (rule sends_located, simp, simp add: SYMBOL_TAG_def, rule schema_entries, (rule children_sent_cons children_sent_nil)+,
      intro part_rules sends_types)
    (simp_all add: valid_type_param_def valid_parts)

lemma sends_method_type: "valid_method_type pool node \<Longrightarrow> sends pool read_node (serialize_method_type node) (view_method_type pool node)"
  unfolding serialize_method_type_def view_method_type_def
  by (rule sends_located, simp, simp add: SYMBOL_TAG_def, rule schema_entries, (rule children_sent_cons children_sent_nil)+,
      intro part_rules sends_types sends_type_param)
    (simp_all add: valid_method_type_def valid_parts)

lemma sends_overload: "valid_overload pool node \<Longrightarrow> sends pool read_node (serialize_overload node) (view_overload pool node)"
  unfolding serialize_overload_def view_overload_def
  by (rule sends_object, simp, simp add: SYMBOL_TAG_def, rule schema_entries, intro part_rules sends_annotation sends_method_type)
    (simp_all add: valid_overload_def valid_parts)

lemma sends_class_super: "valid_class_super pool node \<Longrightarrow> sends pool read_node (serialize_class_super node) (view_class_super pool node)"
  unfolding serialize_class_super_def view_class_super_def
  by (rule sends_located, simp, simp add: SYMBOL_TAG_def, rule schema_entries, (rule children_sent_cons children_sent_nil)+,
      intro part_rules sends_types)
    (simp_all add: valid_class_super_def valid_parts)

lemma sends_module_self: "valid_module_self pool node \<Longrightarrow> sends pool read_node (serialize_module_self node) (view_module_self pool node)"
  unfolding serialize_module_self_def view_module_self_def
  by (rule sends_located, simp, simp add: SYMBOL_TAG_def, rule schema_entries, (rule children_sent_cons children_sent_nil)+,
      intro part_rules sends_types)
    (simp_all add: valid_module_self_def valid_parts)

lemmas decl_rules = sends_types sends_comment sends_annotation sends_type_param sends_method_type sends_overload
  sends_class_super sends_module_self

lemma member_valid: "valid_member pool m \<Longrightarrow> x \<in> set (member_members m) \<Longrightarrow> valid_member pool x"
  by (cases m) (auto simp: member_members_def valid_parts)

lemma sends_member:
  "valid_member pool node \<Longrightarrow> sends pool read_node (serialize_member node) (view_member pool node)"
proof (induction "size node" arbitrary: node rule: less_induct)
  case less
  have IH: "sends pool read_node (serialize_member x) (view_member pool x)" if "x \<in> set (member_members node)" for x
    using less member_size [OF that] member_valid [OF less.prems that] by blast
  show ?case
    by (insert less.prems; cases node; simp only: serialize_member.simps view_member.simps;
      (rule sends_located, simp, simp add: SYMBOL_TAG_def, rule schema_entries,
        (rule children_sent_cons children_sent_nil)+, intro part_rules decl_rules IH);
      simp add: member_members_def valid_parts)
qed

subsection \<open>Signatures\<close>

lemma sends_use_clause: "valid_use_clause pool node \<Longrightarrow> sends pool read_node (serialize_use_clause node) (view_use_clause pool node)"
  by (cases node; simp only: serialize_use_clause.simps view_use_clause.simps;
    (rule sends_located, simp, simp add: SYMBOL_TAG_def, rule schema_entries,
      (rule children_sent_cons children_sent_nil)+, intro part_rules);
    simp add: valid_parts)

lemma sends_use: "valid_use pool node \<Longrightarrow> sends pool read_node (serialize_use node) (view_use pool node)"
  unfolding serialize_use_def view_use_def
  by (rule sends_located, simp, simp add: SYMBOL_TAG_def, rule schema_entries, (rule children_sent_cons children_sent_nil)+,
      intro part_rules sends_use_clause)
    (simp_all add: valid_use_def valid_parts)

lemma sends_signature:
  assumes "valid_signature pool node"
  shows "sends pool read_node (serialize_signature node) (view_signature pool node)"
  unfolding serialize_signature_def
proof (rule sends_node [OF _ _ schema_entries(50)])
  have uses: "\<forall>x\<in>set (sig_directives node). sends pool read_node (serialize_use x) (view_use pool x)"
    and decls: "\<forall>x\<in>set (sig_declarations node). sends pool read_node (serialize_member x) (view_member pool x)"
    using assms by (auto simp: valid_signature_def valid_parts sends_use sends_member)
  show "sends_rest pool (\<lambda>fuel. read_entry (read_node fuel) Entry_signature)
      [w_node_list (map serialize_use (sig_directives node)), w_node_list (map serialize_member (sig_declarations node))]
      (view_signature pool node)"
    unfolding read_entry_def schema_entry.case view_signature_def
    by (rule sends_rest_cons(1) [OF sends_node_list [OF uses]])
      (rule sends_rest_cons(1) [OF sends_node_list [OF decls]], rule sends_rest_nil)
qed (simp_all add: SYMBOL_TAG_def)

lemma sends_ruby_annotation:
  "valid_ruby_annotation pool node \<Longrightarrow> sends pool read_node (serialize_ruby_annotation node) (view_ruby_annotation pool node)"
  by (cases node; simp only: serialize_ruby_annotation.simps view_ruby_annotation.simps;
    (rule sends_located, simp, simp add: SYMBOL_TAG_def, rule schema_entries,
      (rule children_sent_cons children_sent_nil)+, intro part_rules decl_rules);
    simp add: valid_parts)

subsection \<open>The round trip\<close>

lemma serialize_node_value:
  assumes "sends pool read_node w v"
  shows "\<exists>out. rbs_serialize_node pool w = Some out \<and>
    (length (string_bytes out) < 2 ^ 32 \<longrightarrow> deserialize (string_bytes out) = Some v)"
proof -
  obtain bs where bs: "writes pool w bs" "understood read_node bs v" using assms by (auto simp: sends_def)
  let ?s = "\<lparr>ser_constant_pool = pool, ser_buffer = rbs_buffer_init\<rparr>"
  from bs(1) obtain s where "w ?s = Some s" "buffer_contents (ser_buffer s) = bs"
    unfolding writes_def using buffer_init_value by (fastforce dest: spec [of _ ?s])
  moreover have "length bs < 2 ^ 32 \<Longrightarrow> read_node (Suc (length bs)) (bs @ []) = Some (v, [])"
    
    using bs(2) unfolding understood_def by (blast intro: le_SucI)
  ultimately show ?thesis by (simp add: rbs_serialize_node_def buffer_to_string_value deserialize_def del: read_node.simps)
qed

lemma serialize_list_value:
  assumes "\<And>x. x \<in> set xs \<Longrightarrow> sends pool read_node (f x) (g x)"
  shows "\<exists>out. rbs_serialize_node_list pool (map f xs) = Some out \<and>
    (length (string_bytes out) < 2 ^ 32 \<longrightarrow> deserialize_node_list (string_bytes out) = Some (Ruby_array (map g xs)))"
proof -
  have "sends pool (\<lambda>fuel. read_node_list (read_node fuel)) (w_node_list (map f xs)) (Ruby_array (map g xs))"
    using assms by (intro sends_node_list) blast
  then obtain bs where bs: "writes pool (w_node_list (map f xs)) bs"
    "understood (\<lambda>fuel. read_node_list (read_node fuel)) bs (Ruby_array (map g xs))" by (auto simp: sends_def)
  let ?s = "\<lparr>ser_constant_pool = pool, ser_buffer = rbs_buffer_init\<rparr>"
  from bs(1) obtain s where "w_node_list (map f xs) ?s = Some s" "buffer_contents (ser_buffer s) = bs"
    unfolding writes_def using buffer_init_value by (fastforce dest: spec [of _ ?s])
  moreover have "length bs < 2 ^ 32 \<Longrightarrow> read_node_list (read_node (Suc (length bs))) (bs @ []) = Some (Ruby_array (map g xs), [])"
    
    using bs(2) unfolding understood_def by (blast intro: le_SucI)
  ultimately show ?thesis
    by (simp add: rbs_serialize_node_list_def buffer_to_string_value deserialize_node_list_def del: read_node.simps)
qed

text \<open>The examples: \<open>$a: top\<close>, the type \<open>top?\<close> and the annotation \<open>: top\<close>.\<close>

definition example_pool :: rbs_constant_pool where
  "example_pool = \<lparr>buckets = [], constants = [\<lparr>c_start = 0, c_bytes = [36, 97]\<rparr>], pool_size = 1, capacity = 1, freed = []\<rparr>"

definition range_of :: "int \<Rightarrow> int \<Rightarrow> rbs_location_range" where
  "range_of a b = \<lparr>start_char = a, start_byte = a, end_char = b, end_byte = b\<rparr>"

definition example_signature :: rbs_signature where
  "example_signature =
     \<lparr>sig_location = range_of 0 7, sig_directives = [],
      sig_declarations = [Ast_Declarations_Global (range_of 0 7) \<lparr>sym_location = range_of 0 2, sym_constant_id = 1\<rparr>
        (Types_Bases_Top (range_of 4 7)) None [] (range_of 0 2) (range_of 2 3)]\<rparr>"

definition example_type :: rbs_node where
  "example_type = Types_Optional (range_of 0 4) (Types_Bases_Top (range_of 0 3))"

definition example_annotation :: rbs_ruby_annotation where
  "example_annotation = Ast_Ruby_Annotations_Node_Type_Assertion (range_of 0 5) (range_of 0 1) (Types_Bases_Top (range_of 2 5))"

definition short :: "rbs_string option \<Rightarrow> bool" where
  "short r = (case r of None \<Rightarrow> False | Some out \<Rightarrow> length (string_bytes out) < 100)"

lemma examples_short:
  "short (rbs_serialize_node example_pool (serialize_signature example_signature))"
  "short (rbs_serialize_node example_pool (serialize_node example_type))"
  "short (rbs_serialize_node example_pool (serialize_ruby_annotation example_annotation))"
  by code_simp+

lemma shortD: "short r \<Longrightarrow> r = Some out \<Longrightarrow> length (string_bytes out) < 2 ^ 32"
  by (simp add: short_def)







end
