(* ===== verification/LegacyLocation.thy ===== *)
theory LegacyLocation
  imports Prelude "HOL-Library.AList" "HOL-Library.Multiset"
begin

text \<open>
  \<open>ext/rbs_extension/legacy_location.c\<close>: the primitives of the class \<open>RBS::Location\<close> in C, and
  \<open>lib/rbs/wasm/location.rb\<close>, which stands in for them where there is no extension. A location has a
  range and children with names, some of which are required. The C code has the children in an
  array, and a bitmap of the required ones; the Ruby code has two hashes. The locale
  \<open>location_children\<close> is what the rest of the program relies on, and both provide it.
\<close>

subsection \<open>Ranges and children in C\<close>

text \<open>An \<open>ID\<close> is the name it stands for.\<close>

record rbs_loc_range =
  rg_start :: int
  rg_end :: int

record rbs_loc_entry =
  entry_name :: string
  entry_rg :: rbs_loc_range

record rbs_loc_children =
  ch_len :: nat
  ch_cap :: nat
  ch_required_p :: "32 word"
  ch_entries :: "rbs_loc_entry list"

text \<open>The buffer is a reference to a Ruby object, \<open>None\<close> for \<open>Qnil\<close>; \<open>loc_children\<close> is \<open>None\<close> for \<open>NULL\<close>.\<close>

record rbs_loc =
  loc_buffer :: "nat option"
  loc_rg :: rbs_loc_range
  loc_children :: "rbs_loc_children option"

datatype loc_error = Too_many_children | Unknown_child_name string | Write_out_of_bounds

type_synonym 'a loc_result = "loc_error + 'a"

definition RBS_LOC_NULL_RANGE :: rbs_loc_range where
  "RBS_LOC_NULL_RANGE = \<lparr>rg_start = -1, rg_end = -1\<rparr>"

definition NULL_LOC_RANGE_P :: "rbs_loc_range \<Rightarrow> bool" where
  "NULL_LOC_RANGE_P rg \<longleftrightarrow> rg_start rg = -1"

definition RBS_LOC_REQUIRED_P :: "rbs_loc_children \<Rightarrow> nat \<Rightarrow> bool" where
  "RBS_LOC_REQUIRED_P ch i \<longleftrightarrow> ch_required_p ch AND push_bit i 1 \<noteq> 0"

definition RBS_LOC_OPTIONAL_P :: "rbs_loc_children \<Rightarrow> nat \<Rightarrow> bool" where
  "RBS_LOC_OPTIONAL_P ch i \<longleftrightarrow> \<not> RBS_LOC_REQUIRED_P ch i"

definition check_children_max :: "nat \<Rightarrow> unit loc_result" where
  "check_children_max n = (let m = 4 * 8 in if n > m then Inl Too_many_children else Inr ())"

text \<open>What \<open>malloc\<close> and \<open>realloc\<close> leave in the new entries is never read; it is zero here.\<close>

definition zero_entry :: rbs_loc_entry where
  "zero_entry = \<lparr>entry_name = [], entry_rg = \<lparr>rg_start = 0, rg_end = 0\<rparr>\<rparr>"

definition rbs_loc_legacy_alloc_children :: "rbs_loc \<Rightarrow> nat \<Rightarrow> rbs_loc loc_result" where
  "rbs_loc_legacy_alloc_children loc cap =
     (case check_children_max cap of
        Inl e \<Rightarrow> Inl e
      | Inr _ \<Rightarrow> Inr (loc\<lparr>loc_children :=
          Some \<lparr>ch_len = 0, ch_cap = cap, ch_required_p = 0, ch_entries = replicate cap zero_entry\<rparr>\<rparr>))"

definition check_children_cap :: "rbs_loc \<Rightarrow> rbs_loc loc_result" where
  "check_children_cap loc =
     (case loc_children loc of
        None \<Rightarrow> rbs_loc_legacy_alloc_children loc 1
      | Some ch \<Rightarrow>
          if ch_len ch = ch_cap ch then
            (case check_children_max (ch_cap ch + 1) of
               Inl e \<Rightarrow> Inl e
             | Inr _ \<Rightarrow> Inr (loc\<lparr>loc_children :=
                 Some (ch\<lparr>ch_cap := ch_cap ch + 1, ch_entries := ch_entries ch @ [zero_entry]\<rparr>)\<rparr>))
          else Inr loc)"

definition rbs_loc_legacy_add_optional_child :: "rbs_loc \<Rightarrow> string \<Rightarrow> rbs_loc_range \<Rightarrow> rbs_loc loc_result" where
  "rbs_loc_legacy_add_optional_child loc name r =
     (case check_children_cap loc of
        Inl e \<Rightarrow> Inl e
      | Inr loc \<Rightarrow>
          (case loc_children loc of
             None \<Rightarrow> Inl Write_out_of_bounds
           | Some ch \<Rightarrow>
               let i = ch_len ch in
               if i < length (ch_entries ch) then
                 Inr (loc\<lparr>loc_children := Some (ch\<lparr>ch_len := i + 1,
                   ch_entries := (ch_entries ch)[i := \<lparr>entry_name = name, entry_rg = r\<rparr>]\<rparr>)\<rparr>)
               else Inl Write_out_of_bounds))"

definition rbs_loc_legacy_add_required_child :: "rbs_loc \<Rightarrow> string \<Rightarrow> rbs_loc_range \<Rightarrow> rbs_loc loc_result" where
  "rbs_loc_legacy_add_required_child loc name r =
     (case rbs_loc_legacy_add_optional_child loc name r of
        Inl e \<Rightarrow> Inl e
      | Inr loc \<Rightarrow>
          (case loc_children loc of
             None \<Rightarrow> Inl Write_out_of_bounds
           | Some ch \<Rightarrow>
               let last_index = ch_len ch - 1 in
               Inr (loc\<lparr>loc_children := Some (ch\<lparr>ch_required_p := ch_required_p ch OR push_bit last_index 1\<rparr>)\<rparr>)))"

subsection \<open>The methods of the class\<close>

definition rbs_loc_init :: "nat option \<Rightarrow> rbs_loc_range \<Rightarrow> rbs_loc" where
  "rbs_loc_init buffer rg = \<lparr>loc_buffer = buffer, loc_rg = rg, loc_children = None\<rparr>"

definition location_s_allocate :: rbs_loc where
  "location_s_allocate = rbs_loc_init None RBS_LOC_NULL_RANGE"

definition location_initialize :: "nat option \<Rightarrow> int \<Rightarrow> int \<Rightarrow> rbs_loc" where
  "location_initialize buffer start_pos end_pos =
     (let loc = \<lparr>loc_buffer = None, loc_rg = \<lparr>rg_start = start_pos, rg_end = end_pos\<rparr>, loc_children = None\<rparr>
      in loc\<lparr>loc_buffer := buffer\<rparr>)"

definition location_initialize_copy :: "rbs_loc \<Rightarrow> rbs_loc loc_result" where
  "location_initialize_copy other_loc =
     (let self_loc = \<lparr>loc_buffer = loc_buffer other_loc, loc_rg = loc_rg other_loc, loc_children = None\<rparr> in
      case loc_children other_loc of
        None \<Rightarrow> Inr self_loc
      | Some ch \<Rightarrow>
          (case rbs_loc_legacy_alloc_children self_loc (ch_cap ch) of
             Inl e \<Rightarrow> Inl e
           | Inr self_loc \<Rightarrow> Inr (self_loc\<lparr>loc_children := Some ch\<rparr>)))"

definition location_buffer :: "rbs_loc \<Rightarrow> nat option" where
  "location_buffer loc = loc_buffer loc"

definition location_start_pos :: "rbs_loc \<Rightarrow> int" where
  "location_start_pos loc = rg_start (loc_rg loc)"

definition location_end_pos :: "rbs_loc \<Rightarrow> int" where
  "location_end_pos loc = rg_end (loc_rg loc)"

definition location_add_required_child :: "rbs_loc \<Rightarrow> string \<Rightarrow> int \<Rightarrow> int \<Rightarrow> rbs_loc loc_result" where
  "location_add_required_child loc name first till =
     rbs_loc_legacy_add_required_child loc name \<lparr>rg_start = first, rg_end = till\<rparr>"

definition location_add_optional_child :: "rbs_loc \<Rightarrow> string \<Rightarrow> int \<Rightarrow> int \<Rightarrow> rbs_loc loc_result" where
  "location_add_optional_child loc name first till =
     rbs_loc_legacy_add_optional_child loc name \<lparr>rg_start = first, rg_end = till\<rparr>"

definition location_add_optional_no_child :: "rbs_loc \<Rightarrow> string \<Rightarrow> rbs_loc loc_result" where
  "location_add_optional_no_child loc name = rbs_loc_legacy_add_optional_child loc name RBS_LOC_NULL_RANGE"

definition rbs_new_location_from_loc_range :: "nat option \<Rightarrow> rbs_loc_range \<Rightarrow> rbs_loc" where
  "rbs_new_location_from_loc_range buffer rg = (rbs_loc_init None rg)\<lparr>loc_buffer := buffer\<rparr>"

definition rbs_new_location2 :: "nat option \<Rightarrow> int \<Rightarrow> int \<Rightarrow> rbs_loc" where
  "rbs_new_location2 buffer first till = (rbs_loc_init None \<lparr>rg_start = first, rg_end = till\<rparr>)\<lparr>loc_buffer := buffer\<rparr>"

text \<open>The loop from \<open>i\<close> on; \<open>Inr None\<close> is \<open>nil\<close>.\<close>

function aref_from :: "rbs_loc \<Rightarrow> rbs_loc_children \<Rightarrow> string \<Rightarrow> nat \<Rightarrow> rbs_loc option loc_result" where
  "aref_from loc ch name i =
     (if i < ch_len ch then
        (if entry_name (ch_entries ch ! i) = name then
           let result = entry_rg (ch_entries ch ! i) in
           if RBS_LOC_OPTIONAL_P ch i \<and> NULL_LOC_RANGE_P result then Inr None
           else Inr (Some (rbs_new_location_from_loc_range (loc_buffer loc) result))
         else aref_from loc ch name (i + 1))
      else Inl (Unknown_child_name name))"
  by pat_completeness auto
termination
  by (relation "measure (\<lambda>(_, ch, _, i). ch_len ch - i)") auto

declare aref_from.simps [simp del]

definition location_aref :: "rbs_loc \<Rightarrow> string \<Rightarrow> rbs_loc option loc_result" where
  "location_aref loc name =
     (case loc_children loc of
        None \<Rightarrow> Inl (Unknown_child_name name)
      | Some ch \<Rightarrow> aref_from loc ch name 0)"

definition location_optional_keys :: "rbs_loc \<Rightarrow> string list" where
  "location_optional_keys loc =
     (case loc_children loc of
        None \<Rightarrow> []
      | Some ch \<Rightarrow> map (\<lambda>i. entry_name (ch_entries ch ! i)) (filter (RBS_LOC_OPTIONAL_P ch) [0..<ch_len ch]))"

definition location_required_keys :: "rbs_loc \<Rightarrow> string list" where
  "location_required_keys loc =
     (case loc_children loc of
        None \<Rightarrow> []
      | Some ch \<Rightarrow> map (\<lambda>i. entry_name (ch_entries ch ! i)) (filter (RBS_LOC_REQUIRED_P ch) [0..<ch_len ch]))"

subsection \<open>The class in Ruby\<close>

text \<open>A Ruby hash keeps the order of insertion, as \<open>AList.update\<close> does.\<close>

record ruby_loc =
  r_buffer :: "nat option"
  r_start_pos :: int
  r_end_pos :: int
  r_required_children :: "(string \<times> int \<times> int) list"
  r_optional_children :: "(string \<times> (int \<times> int) option) list"

definition ruby_loc_initialize :: "nat option \<Rightarrow> int \<Rightarrow> int \<Rightarrow> ruby_loc" where
  "ruby_loc_initialize buffer start_pos end_pos =
     \<lparr>r_buffer = buffer, r_start_pos = start_pos, r_end_pos = end_pos, r_required_children = [], r_optional_children = []\<rparr>"

definition ruby_loc_add_required_child :: "ruby_loc \<Rightarrow> string \<Rightarrow> int \<Rightarrow> int \<Rightarrow> ruby_loc loc_result" where
  "ruby_loc_add_required_child loc name first till =
     Inr (loc\<lparr>r_required_children := AList.update name (first, till) (r_required_children loc)\<rparr>)"

definition ruby_loc_add_optional_child :: "ruby_loc \<Rightarrow> string \<Rightarrow> int \<Rightarrow> int \<Rightarrow> ruby_loc loc_result" where
  "ruby_loc_add_optional_child loc name first till =
     Inr (loc\<lparr>r_optional_children := AList.update name (Some (first, till)) (r_optional_children loc)\<rparr>)"

definition ruby_loc_add_optional_no_child :: "ruby_loc \<Rightarrow> string \<Rightarrow> ruby_loc loc_result" where
  "ruby_loc_add_optional_no_child loc name =
     Inr (loc\<lparr>r_optional_children := AList.update name None (r_optional_children loc)\<rparr>)"

definition ruby_loc_required_keys :: "ruby_loc \<Rightarrow> string list" where
  "ruby_loc_required_keys loc = map fst (r_required_children loc)"

definition ruby_loc_optional_keys :: "ruby_loc \<Rightarrow> string list" where
  "ruby_loc_optional_keys loc = map fst (r_optional_children loc)"

definition ruby_loc_aref :: "ruby_loc \<Rightarrow> string \<Rightarrow> ruby_loc option loc_result" where
  "ruby_loc_aref loc name =
     (case map_of (r_required_children loc) name of
        Some (first, till) \<Rightarrow> Inr (Some (ruby_loc_initialize (r_buffer loc) first till))
      | None \<Rightarrow>
          (case map_of (r_optional_children loc) name of
             Some rg \<Rightarrow> Inr (map_option (\<lambda>(first, till). ruby_loc_initialize (r_buffer loc) first till) rg)
           | None \<Rightarrow> Inl (Unknown_child_name name)))"

subsection \<open>What a location is for its clients\<close>

text \<open>
  The contract: the required and the optional children in the order they were added, a child
  by its name. Names are added once, there are at most 32, and -1 is not a position.
\<close>

definition child_range :: "(string \<times> int \<times> int) list \<Rightarrow> (string \<times> (int \<times> int) option) list \<Rightarrow> string \<Rightarrow> (int \<times> int) option loc_result" where
  "child_range required optional name =
     (case map_of required name of
        Some r \<Rightarrow> Inr (Some r)
      | None \<Rightarrow> (case map_of optional name of Some r \<Rightarrow> Inr r | None \<Rightarrow> Inl (Unknown_child_name name)))"

definition positions :: "('l \<Rightarrow> int) \<Rightarrow> ('l \<Rightarrow> int) \<Rightarrow> 'l option loc_result \<Rightarrow> (int \<times> int) option loc_result" where
  "positions start_pos end_pos r = map_sum id (map_option (\<lambda>l. (start_pos l, end_pos l))) r"

definition names_of :: "(string \<times> int \<times> int) list \<Rightarrow> (string \<times> (int \<times> int) option) list \<Rightarrow> string list" where
  "names_of required optional = map fst required @ map fst optional"

locale location_children =
  fixes new :: "nat option \<Rightarrow> int \<Rightarrow> int \<Rightarrow> 'l"
    and add_required :: "'l \<Rightarrow> string \<Rightarrow> int \<Rightarrow> int \<Rightarrow> 'l loc_result"
    and add_optional :: "'l \<Rightarrow> string \<Rightarrow> int \<Rightarrow> int \<Rightarrow> 'l loc_result"
    and add_optional_no :: "'l \<Rightarrow> string \<Rightarrow> 'l loc_result"
    and required_keys :: "'l \<Rightarrow> string list"
    and optional_keys :: "'l \<Rightarrow> string list"
    and aref :: "'l \<Rightarrow> string \<Rightarrow> 'l option loc_result"
    and start_pos :: "'l \<Rightarrow> int"
    and end_pos :: "'l \<Rightarrow> int"
    and inv :: "'l \<Rightarrow> bool"
    and required :: "'l \<Rightarrow> (string \<times> int \<times> int) list"
    and optional :: "'l \<Rightarrow> (string \<times> (int \<times> int) option) list"
  assumes new_ok: "inv (new b i j) \<and> required (new b i j) = [] \<and> optional (new b i j) = [] \<and>
      start_pos (new b i j) = i \<and> end_pos (new b i j) = j"
    and add_required_ok: "inv l \<Longrightarrow> length (names_of (required l) (optional l)) < 32 \<Longrightarrow>
      name \<notin> set (names_of (required l) (optional l)) \<Longrightarrow>
      \<exists>l'. add_required l name i j = Inr l' \<and> inv l' \<and> required l' = required l @ [(name, i, j)] \<and> optional l' = optional l \<and>
        start_pos l' = start_pos l \<and> end_pos l' = end_pos l"
    and add_optional_ok: "inv l \<Longrightarrow> length (names_of (required l) (optional l)) < 32 \<Longrightarrow>
      name \<notin> set (names_of (required l) (optional l)) \<Longrightarrow> i \<noteq> -1 \<Longrightarrow>
      \<exists>l'. add_optional l name i j = Inr l' \<and> inv l' \<and> required l' = required l \<and> optional l' = optional l @ [(name, Some (i, j))] \<and>
        start_pos l' = start_pos l \<and> end_pos l' = end_pos l"
    and add_optional_no_ok: "inv l \<Longrightarrow> length (names_of (required l) (optional l)) < 32 \<Longrightarrow>
      name \<notin> set (names_of (required l) (optional l)) \<Longrightarrow>
      \<exists>l'. add_optional_no l name = Inr l' \<and> inv l' \<and> required l' = required l \<and> optional l' = optional l @ [(name, None)] \<and>
        start_pos l' = start_pos l \<and> end_pos l' = end_pos l"
    and required_keys_ok: "inv l \<Longrightarrow> required_keys l = map fst (required l)"
    and optional_keys_ok: "inv l \<Longrightarrow> optional_keys l = map fst (optional l)"
    and aref_ok: "inv l \<Longrightarrow> positions start_pos end_pos (aref l name) = child_range (required l) (optional l) name"

text \<open>The children that a location gets, one after the other.\<close>

datatype child_op = Required_child string int int | Optional_child string int int | No_child string

primrec op_name :: "child_op \<Rightarrow> string" where
  "op_name (Required_child name _ _) = name"
| "op_name (Optional_child name _ _) = name"
| "op_name (No_child name) = name"

definition op_ok :: "child_op \<Rightarrow> bool" where
  "op_ok c \<longleftrightarrow> (case c of Optional_child _ i _ \<Rightarrow> i \<noteq> -1 | _ \<Rightarrow> True)"

primrec add_children ::
  "('l \<Rightarrow> string \<Rightarrow> int \<Rightarrow> int \<Rightarrow> 'l loc_result) \<Rightarrow> ('l \<Rightarrow> string \<Rightarrow> int \<Rightarrow> int \<Rightarrow> 'l loc_result) \<Rightarrow>
   ('l \<Rightarrow> string \<Rightarrow> 'l loc_result) \<Rightarrow> 'l \<Rightarrow> child_op list \<Rightarrow> 'l loc_result"
where
  "add_children r opt no l [] = Inr l"
| "add_children r opt no l (c # cs) =
     (case (case c of
              Required_child name i j \<Rightarrow> r l name i j
            | Optional_child name i j \<Rightarrow> opt l name i j
            | No_child name \<Rightarrow> no l name) of
        Inl e \<Rightarrow> Inl e
      | Inr l' \<Rightarrow> add_children r opt no l' cs)"

definition required_children :: "child_op list \<Rightarrow> (string \<times> int \<times> int) list" where
  "required_children cs = List.map_filter (\<lambda>c. case c of Required_child name i j \<Rightarrow> Some (name, i, j) | _ \<Rightarrow> None) cs"

definition optional_children :: "child_op list \<Rightarrow> (string \<times> (int \<times> int) option) list" where
  "optional_children cs = List.map_filter (\<lambda>c. case c of Optional_child name i j \<Rightarrow> Some (name, Some (i, j))
     | No_child name \<Rightarrow> Some (name, None) | _ \<Rightarrow> None) cs"

lemma children_simps [simp]:
  "required_children [] = []" "optional_children [] = []"
  "required_children (Required_child name i j # cs) = (name, i, j) # required_children cs"
  "required_children (Optional_child name i j # cs) = required_children cs"
  "required_children (No_child name # cs) = required_children cs"
  "optional_children (Required_child name i j # cs) = optional_children cs"
  "optional_children (Optional_child name i j # cs) = (name, Some (i, j)) # optional_children cs"
  "optional_children (No_child name # cs) = (name, None) # optional_children cs"
  by (simp_all add: required_children_def optional_children_def map_filter_simps)

context location_children
begin

lemma add_children_ok:
  assumes "inv l" and "list_all op_ok cs" and "distinct (map op_name cs)"
    and "set (map op_name cs) \<inter> set (names_of (required l) (optional l)) = {}"
    and "length (names_of (required l) (optional l)) + length cs \<le> 32"
  shows "\<exists>l'. add_children add_required add_optional add_optional_no l cs = Inr l' \<and> inv l' \<and>
     required l' = required l @ required_children cs \<and> optional l' = optional l @ optional_children cs \<and>
     start_pos l' = start_pos l \<and> end_pos l' = end_pos l"
  using assms
proof (induction cs arbitrary: l)
  case (Cons c cs)
  have room: "length (names_of (required l) (optional l)) < 32" and fresh: "op_name c \<notin> set (names_of (required l) (optional l))"
    using Cons.prems by auto
  have step: "\<exists>l'. add_children add_required add_optional add_optional_no l (c # cs) = Inr l' \<and> inv l' \<and>
     required l' = required l @ required_children (c # cs) \<and> optional l' = optional l @ optional_children (c # cs) \<and>
     start_pos l' = start_pos l \<and> end_pos l' = end_pos l"
    if l1: "(case c of Required_child name i j \<Rightarrow> add_required l name i j | Optional_child name i j \<Rightarrow> add_optional l name i j
        | No_child name \<Rightarrow> add_optional_no l name) = Inr l1" "inv l1" "required l1 = required l @ required_children [c]"
      "optional l1 = optional l @ optional_children [c]" "start_pos l1 = start_pos l" "end_pos l1 = end_pos l" for l1
  proof -
    have names: "set (names_of (required l1) (optional l1)) = insert (op_name c) (set (names_of (required l) (optional l)))"
      "length (names_of (required l1) (optional l1)) = Suc (length (names_of (required l) (optional l)))"
      using l1(3,4) by (cases c; simp add: names_of_def)+
    have "set (map op_name cs) \<inter> set (names_of (required l1) (optional l1)) = {}"
      "length (names_of (required l1) (optional l1)) + length cs \<le> 32" "list_all op_ok cs" "distinct (map op_name cs)"
      using names Cons.prems by auto
    from Cons.IH [OF l1(2) this(3,4,1,2)] l1 show ?thesis by (cases c) auto
  qed
  show ?case
  proof (cases c)
    case (Required_child name i j)
    with add_required_ok [OF Cons.prems(1) room, of name i j] fresh step show ?thesis by fastforce
  next
    case (Optional_child name i j)
    with add_optional_ok [OF Cons.prems(1) room, of name i j] fresh step Cons.prems(2) show ?thesis by (fastforce simp: op_ok_def)
  next
    case (No_child name)
    with add_optional_no_ok [OF Cons.prems(1) room, of name] fresh step show ?thesis by fastforce
  qed
qed simp

lemma children_ok:
  assumes "list_all op_ok cs" and "distinct (map op_name cs)" and "length cs \<le> 32"
  shows "\<exists>l. add_children add_required add_optional add_optional_no (new b i j) cs = Inr l \<and>
     required_keys l = map fst (required_children cs) \<and> optional_keys l = map fst (optional_children cs) \<and>
     start_pos l = i \<and> end_pos l = j \<and>
     (\<forall>name. positions start_pos end_pos (aref l name) = child_range (required_children cs) (optional_children cs) name)"
  using add_children_ok [of "new b i j" cs] new_ok [of b i j] assms required_keys_ok optional_keys_ok aref_ok
  by (fastforce simp: names_of_def)

end

subsection \<open>Both classes keep the contract\<close>

lemma update_fresh: "name \<notin> fst ` set xs \<Longrightarrow> AList.update name v xs = xs @ [(name, v)]"
  by (induction xs) auto

interpretation ruby_location: location_children ruby_loc_initialize ruby_loc_add_required_child ruby_loc_add_optional_child
  ruby_loc_add_optional_no_child ruby_loc_required_keys ruby_loc_optional_keys ruby_loc_aref r_start_pos r_end_pos
  "\<lambda>_. True" r_required_children r_optional_children
  by unfold_locales
    (auto simp: ruby_loc_initialize_def ruby_loc_add_required_child_def ruby_loc_add_optional_child_def
      ruby_loc_add_optional_no_child_def ruby_loc_required_keys_def ruby_loc_optional_keys_def ruby_loc_aref_def
      names_of_def update_fresh positions_def child_range_def map_option_case split: option.splits)

text \<open>The children of a location in C, and the invariant: the entries are in the array, and no bit is set beyond them.\<close>

definition pair_of :: "rbs_loc_range \<Rightarrow> int \<times> int" where
  "pair_of rg = (rg_start rg, rg_end rg)"

definition entry_required :: "rbs_loc_children \<Rightarrow> nat \<Rightarrow> string \<times> int \<times> int" where
  "entry_required ch i = (entry_name (ch_entries ch ! i), pair_of (entry_rg (ch_entries ch ! i)))"

definition entry_optional :: "rbs_loc_children \<Rightarrow> nat \<Rightarrow> string \<times> (int \<times> int) option" where
  "entry_optional ch i =
     (let rg = entry_rg (ch_entries ch ! i)
      in (entry_name (ch_entries ch ! i), if NULL_LOC_RANGE_P rg then None else Some (pair_of rg)))"

definition c_required :: "rbs_loc \<Rightarrow> (string \<times> int \<times> int) list" where
  "c_required loc =
     (case loc_children loc of None \<Rightarrow> [] | Some ch \<Rightarrow> map (entry_required ch) (filter (RBS_LOC_REQUIRED_P ch) [0..<ch_len ch]))"

definition c_optional :: "rbs_loc \<Rightarrow> (string \<times> (int \<times> int) option) list" where
  "c_optional loc =
     (case loc_children loc of None \<Rightarrow> [] | Some ch \<Rightarrow> map (entry_optional ch) (filter (RBS_LOC_OPTIONAL_P ch) [0..<ch_len ch]))"

definition children_inv :: "rbs_loc_children \<Rightarrow> bool" where
  "children_inv ch \<longleftrightarrow> ch_len ch \<le> ch_cap ch \<and> ch_cap ch \<le> 32 \<and> length (ch_entries ch) = ch_cap ch \<and>
     (\<forall>i. ch_len ch \<le> i \<longrightarrow> \<not> bit (ch_required_p ch) i) \<and> distinct (map (\<lambda>i. entry_name (ch_entries ch ! i)) [0..<ch_len ch])"

definition loc_inv :: "rbs_loc \<Rightarrow> bool" where
  "loc_inv loc \<longleftrightarrow> (case loc_children loc of None \<Rightarrow> True | Some ch \<Rightarrow> children_inv ch)"

lemma required_bit: "RBS_LOC_REQUIRED_P ch i \<longleftrightarrow> bit (ch_required_p ch) i"
  by (simp add: RBS_LOC_REQUIRED_P_def push_bit_of_1 and_exp_eq_0_iff_not_bit)

lemma names_partition:
  "mset (map f (filter P xs) @ map f (filter (\<lambda>x. \<not> P x) xs)) = mset (map f xs)"
  by (induction xs) auto

lemma c_names: "mset (names_of (c_required loc) (c_optional loc)) =
    mset (case loc_children loc of None \<Rightarrow> [] | Some ch \<Rightarrow> map (\<lambda>i. entry_name (ch_entries ch ! i)) [0..<ch_len ch])"
proof (cases "loc_children loc")
  case (Some ch)
  then have "names_of (c_required loc) (c_optional loc) = map (\<lambda>i. entry_name (ch_entries ch ! i)) (filter (RBS_LOC_REQUIRED_P ch) [0..<ch_len ch]) @
      map (\<lambda>i. entry_name (ch_entries ch ! i)) (filter (\<lambda>i. \<not> RBS_LOC_REQUIRED_P ch i) [0..<ch_len ch])"
    by (simp add: names_of_def c_required_def c_optional_def entry_required_def entry_optional_def RBS_LOC_OPTIONAL_P_def [abs_def] comp_def Let_def)
  then show ?thesis using Some by (simp only: names_partition option.case)
qed (simp add: names_of_def c_required_def c_optional_def)

lemma same_children:
  assumes "ch_len ch' = ch_len ch" and "ch_required_p ch' = ch_required_p ch"
    and "\<And>i. i < ch_len ch \<Longrightarrow> ch_entries ch' ! i = ch_entries ch ! i"
  shows "filter (RBS_LOC_REQUIRED_P ch') [0..<ch_len ch] = filter (RBS_LOC_REQUIRED_P ch) [0..<ch_len ch] \<and>
    filter (RBS_LOC_OPTIONAL_P ch') [0..<ch_len ch] = filter (RBS_LOC_OPTIONAL_P ch) [0..<ch_len ch] \<and>
    map (\<lambda>i. entry_name (ch_entries ch' ! i)) [0..<ch_len ch] = map (\<lambda>i. entry_name (ch_entries ch ! i)) [0..<ch_len ch] \<and>
    map (entry_required ch') (filter P [0..<ch_len ch]) = map (entry_required ch) (filter P [0..<ch_len ch]) \<and>
    map (entry_optional ch') (filter P [0..<ch_len ch]) = map (entry_optional ch) (filter P [0..<ch_len ch])"
  using assms(3) by (auto simp: entry_required_def entry_optional_def RBS_LOC_REQUIRED_P_def [abs_def] RBS_LOC_OPTIONAL_P_def [abs_def] assms(2))

text \<open>What \<open>check_children_cap\<close> leaves: the same children, and room for one more.\<close>

lemma cap_value:
  assumes "loc_inv loc" and "length (names_of (c_required loc) (c_optional loc)) < 32"
  shows "\<exists>loc' ch. check_children_cap loc = Inr loc' \<and> loc_children loc' = Some ch \<and> children_inv ch \<and> ch_len ch < ch_cap ch \<and>
     c_required loc' = c_required loc \<and> c_optional loc' = c_optional loc \<and> loc_rg loc' = loc_rg loc \<and>
     set (names_of (c_required loc) (c_optional loc)) = (\<lambda>i. entry_name (ch_entries ch ! i)) ` {..<ch_len ch}"
proof (cases "loc_children loc")
  case None
  then show ?thesis
    by (simp add: check_children_cap_def rbs_loc_legacy_alloc_children_def check_children_max_def children_inv_def
      c_required_def c_optional_def names_of_def)
next
  case (Some ch)
  have m: "mset (names_of (c_required loc) (c_optional loc)) = mset (map (\<lambda>i. entry_name (ch_entries ch ! i)) [0..<ch_len ch])"
    using c_names [of loc] Some by simp
  then have len: "ch_len ch < 32" using assms(2) by (metis length_map length_upt mset_eq_length diff_zero)
  have names: "set (names_of (c_required loc) (c_optional loc)) = (\<lambda>i. entry_name (ch_entries ch ! i)) ` {..<ch_len ch}"
    using mset_eq_setD [OF m] by (simp add: atLeast0LessThan)
  have inv: "children_inv ch" using assms(1) Some by (simp add: loc_inv_def)
  show ?thesis
  proof (cases "ch_len ch = ch_cap ch")
    case False
    with Some inv names show ?thesis by (auto simp: check_children_cap_def children_inv_def)
  next
    case True
    let ?ch = "ch\<lparr>ch_cap := ch_cap ch + 1, ch_entries := ch_entries ch @ [zero_entry]\<rparr>"
    have same: "ch_entries ?ch ! i = ch_entries ch ! i" if "i < ch_len ch" for i
      using that inv by (simp add: children_inv_def nth_append)
    have grown: "ch_len ?ch = ch_len ch" "ch_required_p ?ch = ch_required_p ch" by simp_all
    have lists: "filter (RBS_LOC_REQUIRED_P ?ch) [0..<ch_len ch] = filter (RBS_LOC_REQUIRED_P ch) [0..<ch_len ch]"
      "filter (RBS_LOC_OPTIONAL_P ?ch) [0..<ch_len ch] = filter (RBS_LOC_OPTIONAL_P ch) [0..<ch_len ch]"
      "map (\<lambda>i. entry_name (ch_entries ?ch ! i)) [0..<ch_len ch] = map (\<lambda>i. entry_name (ch_entries ch ! i)) [0..<ch_len ch]"
      "map (entry_required ?ch) (filter P [0..<ch_len ch]) = map (entry_required ch) (filter P [0..<ch_len ch])"
      "map (entry_optional ?ch) (filter P [0..<ch_len ch]) = map (entry_optional ch) (filter P [0..<ch_len ch])" for P
      using same_children [OF grown same] by blast+
    have entries: "(\<lambda>i. entry_name (ch_entries ?ch ! i)) ` {..<ch_len ch} = (\<lambda>i. entry_name (ch_entries ch ! i)) ` {..<ch_len ch}"
      by (rule image_cong [OF refl]) (simp only: same lessThan_iff)
    have "distinct (map (\<lambda>i. entry_name (ch_entries ?ch ! i)) [0..<ch_len ?ch])"
      unfolding grown lists(3) using inv by (simp add: children_inv_def)
    then have "children_inv ?ch"
      using inv len True unfolding children_inv_def by simp
    moreover have "check_children_cap loc = Inr (loc\<lparr>loc_children := Some ?ch\<rparr>)"
      using Some len True by (simp add: check_children_cap_def check_children_max_def)
    moreover have "c_required (loc\<lparr>loc_children := Some ?ch\<rparr>) = c_required loc" "c_optional (loc\<lparr>loc_children := Some ?ch\<rparr>) = c_optional loc"
      using Some lists by (simp_all add: c_required_def c_optional_def)
    moreover have "set (names_of (c_required loc) (c_optional loc)) = (\<lambda>i. entry_name (ch_entries ?ch ! i)) ` {..<ch_len ?ch}"
      by (simp only: names entries grown)
    moreover have "ch_len ?ch < ch_cap ?ch" "loc_children (loc\<lparr>loc_children := Some ?ch\<rparr>) = Some ?ch" "loc_rg (loc\<lparr>loc_children := Some ?ch\<rparr>) = loc_rg loc"
      using True by simp_all
    ultimately show ?thesis by blast
  qed
qed

text \<open>Adding a child, required or not.\<close>

definition child_added :: "rbs_loc_children \<Rightarrow> string \<Rightarrow> rbs_loc_range \<Rightarrow> bool \<Rightarrow> rbs_loc_children" where
  "child_added ch name r is_required =
     ch\<lparr>ch_len := ch_len ch + 1, ch_entries := (ch_entries ch)[ch_len ch := \<lparr>entry_name = name, entry_rg = r\<rparr>],
        ch_required_p := (if is_required then ch_required_p ch OR push_bit (ch_len ch) 1 else ch_required_p ch)\<rparr>"

lemma child_added_at:
  assumes "ch_len ch < length (ch_entries ch)" and "ch_len ch < 32" and "\<forall>i. ch_len ch \<le> i \<longrightarrow> \<not> bit (ch_required_p ch) i"
  shows "i < ch_len ch \<Longrightarrow> ch_entries (child_added ch name r q) ! i = ch_entries ch ! i \<and>
      RBS_LOC_REQUIRED_P (child_added ch name r q) i = RBS_LOC_REQUIRED_P ch i"
    and "ch_entries (child_added ch name r q) ! ch_len ch = \<lparr>entry_name = name, entry_rg = r\<rparr> \<and>
      RBS_LOC_REQUIRED_P (child_added ch name r q) (ch_len ch) = q"
  using assms by (auto simp: child_added_def required_bit bit_simps)

lemma child_added_value:
  assumes "children_inv ch" and "ch_len ch < ch_cap ch" and "name \<notin> (\<lambda>i. entry_name (ch_entries ch ! i)) ` {..<ch_len ch}"
  shows "children_inv (child_added ch name r q)"
    and "map (entry_required (child_added ch name r q)) (filter (RBS_LOC_REQUIRED_P (child_added ch name r q)) [0..<ch_len (child_added ch name r q)]) =
      map (entry_required ch) (filter (RBS_LOC_REQUIRED_P ch) [0..<ch_len ch]) @ (if q then [(name, pair_of r)] else [])"
    and "map (entry_optional (child_added ch name r q)) (filter (RBS_LOC_OPTIONAL_P (child_added ch name r q)) [0..<ch_len (child_added ch name r q)]) =
      map (entry_optional ch) (filter (RBS_LOC_OPTIONAL_P ch) [0..<ch_len ch]) @
      (if q then [] else [(name, if NULL_LOC_RANGE_P r then None else Some (pair_of r))])"
proof -
  let ?ch = "child_added ch name r q"
  have n: "ch_len ch < 32" "ch_len ch < length (ch_entries ch)" using assms(1,2) by (auto simp: children_inv_def)
  have unset: "\<forall>i. ch_len ch \<le> i \<longrightarrow> \<not> bit (ch_required_p ch) i" using assms(1) by (simp add: children_inv_def)
  note old = child_added_at(1) [OF n(2,1) unset, THEN conjunct1] child_added_at(1) [OF n(2,1) unset, THEN conjunct2]
  note at = child_added_at(2) [OF n(2,1) unset, THEN conjunct1] child_added_at(2) [OF n(2,1) unset, THEN conjunct2]
  have len: "ch_len ?ch = Suc (ch_len ch)" by (simp add: child_added_def)
  have "map (\<lambda>i. entry_name (ch_entries ?ch ! i)) [0..<ch_len ch] = map (\<lambda>i. entry_name (ch_entries ch ! i)) [0..<ch_len ch]"
    using old by (auto cong: map_cong)
  then have "map (\<lambda>i. entry_name (ch_entries ?ch ! i)) [0..<ch_len ?ch] = map (\<lambda>i. entry_name (ch_entries ch ! i)) [0..<ch_len ch] @ [name]"
    using at(1) by (simp add: len)
  moreover have "name \<notin> set (map (\<lambda>i. entry_name (ch_entries ch ! i)) [0..<ch_len ch])"
    using assms(3) by (simp add: atLeast0LessThan)
  ultimately have "distinct (map (\<lambda>i. entry_name (ch_entries ?ch ! i)) [0..<ch_len ?ch])"
    using assms(1) by (simp only: children_inv_def distinct_append distinct.simps set_simps) simp
  moreover have "\<not> bit (ch_required_p ?ch) i" if "ch_len ?ch \<le> i" for i
    using that assms(1) by (auto simp: child_added_def children_inv_def bit_simps)
  moreover have "ch_len ?ch \<le> ch_cap ?ch" "ch_cap ?ch \<le> 32" "length (ch_entries ?ch) = ch_cap ?ch"
    using assms(1,2) by (simp_all add: child_added_def children_inv_def)
  ultimately show "children_inv ?ch" unfolding children_inv_def by blast
  have "filter (RBS_LOC_REQUIRED_P ?ch) [0..<ch_len ch] = filter (RBS_LOC_REQUIRED_P ch) [0..<ch_len ch]"
    "filter (RBS_LOC_OPTIONAL_P ?ch) [0..<ch_len ch] = filter (RBS_LOC_OPTIONAL_P ch) [0..<ch_len ch]"
    using old by (auto intro!: filter_cong simp: RBS_LOC_OPTIONAL_P_def)
  moreover have "map (entry_required ?ch) (filter P [0..<ch_len ch]) = map (entry_required ch) (filter P [0..<ch_len ch])"
    "map (entry_optional ?ch) (filter P [0..<ch_len ch]) = map (entry_optional ch) (filter P [0..<ch_len ch])" for P
    using old by (auto simp: entry_required_def entry_optional_def)
  ultimately show "map (entry_required ?ch) (filter (RBS_LOC_REQUIRED_P ?ch) [0..<ch_len ?ch]) =
      map (entry_required ch) (filter (RBS_LOC_REQUIRED_P ch) [0..<ch_len ch]) @ (if q then [(name, pair_of r)] else [])"
    and "map (entry_optional ?ch) (filter (RBS_LOC_OPTIONAL_P ?ch) [0..<ch_len ?ch]) =
      map (entry_optional ch) (filter (RBS_LOC_OPTIONAL_P ch) [0..<ch_len ch]) @
      (if q then [] else [(name, if NULL_LOC_RANGE_P r then None else Some (pair_of r))])"
    using at by (auto simp: len entry_required_def entry_optional_def RBS_LOC_OPTIONAL_P_def Let_def)
qed

lemma add_optional_value:
  assumes "loc_inv loc" and "length (names_of (c_required loc) (c_optional loc)) < 32"
    and "name \<notin> set (names_of (c_required loc) (c_optional loc))"
  shows "\<exists>loc' ch. rbs_loc_legacy_add_optional_child loc name r = Inr (loc'\<lparr>loc_children := Some (child_added ch name r False)\<rparr>) \<and>
    children_inv ch \<and> ch_len ch < ch_cap ch \<and> name \<notin> (\<lambda>i. entry_name (ch_entries ch ! i)) ` {..<ch_len ch} \<and>
    loc_children loc' = Some ch \<and> c_required loc' = c_required loc \<and> c_optional loc' = c_optional loc \<and> loc_rg loc' = loc_rg loc"
proof -
  obtain loc' ch where cap: "check_children_cap loc = Inr loc'" "loc_children loc' = Some ch" "children_inv ch" "ch_len ch < ch_cap ch"
    "c_required loc' = c_required loc" "c_optional loc' = c_optional loc" "loc_rg loc' = loc_rg loc"
    "set (names_of (c_required loc) (c_optional loc)) = (\<lambda>i. entry_name (ch_entries ch ! i)) ` {..<ch_len ch}"
    using cap_value [OF assms(1,2)] by blast
  have "rbs_loc_legacy_add_optional_child loc name r = Inr (loc'\<lparr>loc_children := Some (child_added ch name r False)\<rparr>)"
    using cap(1-4) by (simp add: rbs_loc_legacy_add_optional_child_def children_inv_def child_added_def Let_def)
  then show ?thesis using cap assms(3) by blast
qed

lemma add_required_value:
  assumes "rbs_loc_legacy_add_optional_child loc name r = Inr (loc'\<lparr>loc_children := Some (child_added ch name r False)\<rparr>)"
  shows "rbs_loc_legacy_add_required_child loc name r = Inr (loc'\<lparr>loc_children := Some (child_added ch name r True)\<rparr>)"
  using assms by (simp add: rbs_loc_legacy_add_required_child_def child_added_def)

lemma child_added_loc:
  assumes "children_inv ch" and "ch_len ch < ch_cap ch" and "name \<notin> (\<lambda>i. entry_name (ch_entries ch ! i)) ` {..<ch_len ch}"
    and "loc_children loc = Some ch"
  shows "loc_inv (loc\<lparr>loc_children := Some (child_added ch name r q)\<rparr>) \<and>
    c_required (loc\<lparr>loc_children := Some (child_added ch name r q)\<rparr>) = c_required loc @ (if q then [(name, pair_of r)] else []) \<and>
    c_optional (loc\<lparr>loc_children := Some (child_added ch name r q)\<rparr>) = c_optional loc @
      (if q then [] else [(name, if NULL_LOC_RANGE_P r then None else Some (pair_of r))])"
  using child_added_value [OF assms(1-3)] assms(4) by (simp add: loc_inv_def c_required_def c_optional_def)

lemma map_of_skip: "fst e \<noteq> name \<Longrightarrow> map_of (e # es) name = map_of es name"
  by (cases e) simp

lemma child_range_skip:
  "fst e \<noteq> name \<Longrightarrow> child_range (e # es) os name = child_range es os name"
  "fst e' \<noteq> name \<Longrightarrow> child_range es (e' # os) name = child_range es os name"
  by (simp_all add: child_range_def map_of_skip del: map_of.simps cong: option.case_cong)

text \<open>The loop of \<open>[]\<close> finds a child among those from \<open>i\<close> on.\<close>

lemma aref_from_value:
  "distinct (map (\<lambda>i. entry_name (ch_entries ch ! i)) [i..<ch_len ch]) \<Longrightarrow>
   positions location_start_pos location_end_pos (aref_from loc ch name i) =
     child_range (map (entry_required ch) (filter (RBS_LOC_REQUIRED_P ch) [i..<ch_len ch]))
       (map (entry_optional ch) (filter (RBS_LOC_OPTIONAL_P ch) [i..<ch_len ch])) name"
proof (induction loc ch name i rule: aref_from.induct)
  case (1 loc ch name i)
  show ?case
  proof (cases "i < ch_len ch")
    case True
    then have up: "[i..<ch_len ch] = i # [Suc i..<ch_len ch]" by (simp add: upt_conv_Cons)
    have new: "positions location_start_pos location_end_pos (Inr (Some (rbs_new_location_from_loc_range b rg))) = Inr (Some (pair_of rg))" for b rg
      by (simp add: positions_def location_start_pos_def location_end_pos_def rbs_new_location_from_loc_range_def rbs_loc_init_def pair_of_def)
    show ?thesis
    proof (cases "entry_name (ch_entries ch ! i) = name")
      case found: True
      then have "map_of (map (entry_required ch) (filter (RBS_LOC_REQUIRED_P ch) [Suc i..<ch_len ch])) name = None"
        using 1(2) by (force simp: up map_of_eq_None_iff entry_required_def)
      then show ?thesis
        using True found by (subst aref_from.simps)
          (auto simp: up new child_range_def entry_required_def entry_optional_def RBS_LOC_OPTIONAL_P_def Let_def positions_def [of _ _ "Inr None"])
    next
      case False
      moreover have "fst (entry_required ch i) \<noteq> name" "fst (entry_optional ch i) \<noteq> name"
        using False by (simp_all add: entry_required_def entry_optional_def Let_def)
      ultimately show ?thesis
        using 1(1) [OF True False] 1(2) True by (subst aref_from.simps) (auto simp: up child_range_skip RBS_LOC_OPTIONAL_P_def [abs_def])
    qed
  qed (subst aref_from.simps, simp add: positions_def child_range_def)
qed

interpretation c_location: location_children location_initialize location_add_required_child location_add_optional_child
  location_add_optional_no_child location_required_keys location_optional_keys location_aref location_start_pos location_end_pos
  loc_inv c_required c_optional
proof unfold_locales
  fix b :: "nat option" and i j :: int
  show "loc_inv (location_initialize b i j) \<and> c_required (location_initialize b i j) = [] \<and> c_optional (location_initialize b i j) = [] \<and>
      location_start_pos (location_initialize b i j) = i \<and> location_end_pos (location_initialize b i j) = j"
    by (simp add: location_initialize_def loc_inv_def c_required_def c_optional_def location_start_pos_def location_end_pos_def)
next
  fix l name and i j :: int
  assume a: "loc_inv l" "length (names_of (c_required l) (c_optional l)) < 32" "name \<notin> set (names_of (c_required l) (c_optional l))"
  show "\<exists>l'. location_add_required_child l name i j = Inr l' \<and> loc_inv l' \<and> c_required l' = c_required l @ [(name, i, j)] \<and>
      c_optional l' = c_optional l \<and> location_start_pos l' = location_start_pos l \<and> location_end_pos l' = location_end_pos l"
    using add_optional_value [OF a, of "\<lparr>rg_start = i, rg_end = j\<rparr>"]
    by (auto dest!: add_required_value dest: child_added_loc [of _ _ _ "\<lparr>rg_start = i, rg_end = j\<rparr>" True]
      simp: location_add_required_child_def pair_of_def location_start_pos_def location_end_pos_def)
  show "\<exists>l'. location_add_optional_no_child l name = Inr l' \<and> loc_inv l' \<and> c_required l' = c_required l \<and>
      c_optional l' = c_optional l @ [(name, None)] \<and> location_start_pos l' = location_start_pos l \<and> location_end_pos l' = location_end_pos l"
    using add_optional_value [OF a, of RBS_LOC_NULL_RANGE]
    by (auto dest: child_added_loc [of _ _ _ RBS_LOC_NULL_RANGE False]
      simp: location_add_optional_no_child_def NULL_LOC_RANGE_P_def RBS_LOC_NULL_RANGE_def location_start_pos_def location_end_pos_def)
  assume "i \<noteq> -1"
  then show "\<exists>l'. location_add_optional_child l name i j = Inr l' \<and> loc_inv l' \<and> c_required l' = c_required l \<and>
      c_optional l' = c_optional l @ [(name, Some (i, j))] \<and> location_start_pos l' = location_start_pos l \<and> location_end_pos l' = location_end_pos l"
    using add_optional_value [OF a, of "\<lparr>rg_start = i, rg_end = j\<rparr>"]
    by (auto dest: child_added_loc [of _ _ _ "\<lparr>rg_start = i, rg_end = j\<rparr>" False]
      simp: location_add_optional_child_def NULL_LOC_RANGE_P_def pair_of_def location_start_pos_def location_end_pos_def)
next
  fix l name
  assume "loc_inv l"
  then show "location_required_keys l = map fst (c_required l)" "location_optional_keys l = map fst (c_optional l)"
    "positions location_start_pos location_end_pos (location_aref l name) = child_range (c_required l) (c_optional l) name"
    by (auto simp: location_required_keys_def location_optional_keys_def location_aref_def c_required_def c_optional_def
      entry_required_def entry_optional_def Let_def loc_inv_def children_inv_def aref_from_value positions_def [of _ _ "Inl _"] child_range_def [of "[]"]
      split: option.split)
qed

text \<open>
  C16. The class in C and the class in Ruby are interchangeable: with the same range and the same
  children (each name once, at most 32, no optional child at -1), both take every child, and give
  the same range, the same required and optional names in the same order, and for every name the
  same child: its range, \<open>nil\<close>, or the same error.
\<close>
theorem location_classes_agree:
  assumes "list_all op_ok cs" and "distinct (map op_name cs)" and "length cs \<le> 32"
  shows "\<exists>c r. add_children location_add_required_child location_add_optional_child location_add_optional_no_child
       (location_initialize buf i j) cs = Inr c \<and>
     add_children ruby_loc_add_required_child ruby_loc_add_optional_child ruby_loc_add_optional_no_child
       (ruby_loc_initialize buf i j) cs = Inr r \<and>
     location_start_pos c = i \<and> r_start_pos r = i \<and> location_end_pos c = j \<and> r_end_pos r = j \<and>
     location_required_keys c = map fst (required_children cs) \<and> ruby_loc_required_keys r = map fst (required_children cs) \<and>
     location_optional_keys c = map fst (optional_children cs) \<and> ruby_loc_optional_keys r = map fst (optional_children cs) \<and>
     (\<forall>name. positions location_start_pos location_end_pos (location_aref c name) =
       child_range (required_children cs) (optional_children cs) name \<and>
       positions r_start_pos r_end_pos (ruby_loc_aref r name) = child_range (required_children cs) (optional_children cs) name)"
  using c_location.children_ok [OF assms, of buf i j] ruby_location.children_ok [OF assms, of buf i j] by blast

lemma location_classes_agree_witness:
  "\<exists>c r. add_children location_add_required_child location_add_optional_child location_add_optional_no_child
       (location_initialize (Some 0) 0 9) [Required_child ''name'' 0 4, No_child ''args'', Optional_child ''kind'' 5 9] = Inr c \<and>
     add_children ruby_loc_add_required_child ruby_loc_add_optional_child ruby_loc_add_optional_no_child
       (ruby_loc_initialize (Some 0) 0 9) [Required_child ''name'' 0 4, No_child ''args'', Optional_child ''kind'' 5 9] = Inr r \<and>
     location_optional_keys c = [''args'', ''kind''] \<and> ruby_loc_optional_keys r = [''args'', ''kind''] \<and>
     positions location_start_pos location_end_pos (location_aref c ''kind'') = Inr (Some (5, 9)) \<and>
     positions r_start_pos r_end_pos (ruby_loc_aref r ''args'') = Inr None"
  using location_classes_agree [of "[Required_child ''name'' 0 4, No_child ''args'', Optional_child ''kind'' 5 9]" "Some 0" 0 9]
  by (auto simp: op_ok_def child_range_def)

text \<open>The 33rd child is an error in C.\<close>

lemma check_children_max_value: "check_children_max n = (if n \<le> 32 then Inr () else Inl Too_many_children)"
  by (simp add: check_children_max_def)

end
