(* ===== verification/AstTranslation.thy ===== *)
theory AstTranslation
  imports AstInline Deserializer LegacyLocation
begin

text \<open>
  \<open>ext/rbs_extension/ast_translation.c\<close>: the syntax tree as Ruby objects, in the C extension.
  \<open>rbs_struct_to_ruby_value\<close> is one switch over the types of nodes, and calls itself for the nodes
  below. Here each case is a definition of its own, over the fields of the node, in which a node
  below is the result of its translation; \<open>node_to_ruby\<close>, \<open>member_to_ruby\<close> and so on are the switch
  and the recursion, one for each datatype of the tree. A result is a Ruby value, as for
  \<open>Deserializer\<close>, or what is raised. The hash of keyword arguments that all cases share is
  cleared and filled once all arguments are there, so it is the list of the arguments of
  this object. The encodings of strings and \<open>TypeParam.resolve_variables\<close> are not part of it.
\<close>

subsection \<open>Locations\<close>

record rbs_translation_context =
  tr_constant_pool :: rbs_constant_pool
  tr_buffer :: "nat option"

datatype translation_error = Constant_is_null | Not_a_location | Location_error loc_error | Read_out_of_bounds

type_synonym 'a translation = "translation_error + 'a"

text \<open>What \<open>[]\<close> and the keys of a location show of it.\<close>

definition loc_entry :: "rbs_loc_children \<Rightarrow> nat \<Rightarrow> string \<times> bool \<times> (int \<times> int) option" where
  "loc_entry ch i =
     (let rg = entry_rg (ch_entries ch ! i)
      in (entry_name (ch_entries ch ! i), RBS_LOC_REQUIRED_P ch i,
          if RBS_LOC_OPTIONAL_P ch i \<and> NULL_LOC_RANGE_P rg then None else Some (rg_start rg, rg_end rg)))"

definition loc_entries :: "rbs_loc \<Rightarrow> (string \<times> bool \<times> (int \<times> int) option) list" where
  "loc_entries loc = (case loc_children loc of None \<Rightarrow> [] | Some ch \<Rightarrow> map (loc_entry ch) [0..<ch_len ch])"

definition location_object :: "rbs_loc \<Rightarrow> ruby_value" where
  "location_object loc = Ruby_location (location_start_pos loc) (location_end_pos loc) (loc_entries loc)"

definition rbs_new_location :: "nat option \<Rightarrow> rbs_range \<Rightarrow> rbs_loc" where
  "rbs_new_location buf rg =
     (rbs_loc_init None \<lparr>rg_start = char_pos (r_start rg), rg_end = char_pos (r_end rg)\<rparr>)\<lparr>loc_buffer := buf\<rparr>"

definition rbs_location_range_to_ruby_location :: "rbs_translation_context \<Rightarrow> rbs_location_range \<Rightarrow> rbs_loc option" where
  "rbs_location_range_to_ruby_location ctx rg =
     (if RBS_LOCATION_NULL_RANGE_P rg then None else Some (rbs_new_location2 (tr_buffer ctx) (start_char rg) (end_char rg)))"

definition nil_or_location :: "rbs_loc option \<Rightarrow> ruby_value" where
  "nil_or_location loc = (case loc of None \<Rightarrow> Ruby_nil | Some loc \<Rightarrow> location_object loc)"

text \<open>A \<open>TypeError\<close> for \<open>nil\<close>.\<close>

definition rbs_check_location :: "rbs_loc option \<Rightarrow> rbs_loc translation" where
  "rbs_check_location obj = (case obj of None \<Rightarrow> Inl Not_a_location | Some loc \<Rightarrow> Inr loc)"

definition rbs_location_range_list_to_ruby_array :: "rbs_translation_context \<Rightarrow> rbs_location_range list \<Rightarrow> ruby_value" where
  "rbs_location_range_list_to_ruby_array ctx list =
     Ruby_array (map (\<lambda>rg. nil_or_location (rbs_location_range_to_ruby_location ctx rg)) list)"

text \<open>The calls that add the children: \<open>True\<close> for a required child.\<close>

definition add_location_child :: "rbs_loc \<Rightarrow> string \<times> bool \<times> rbs_location_range \<Rightarrow> rbs_loc loc_result" where
  "add_location_child loc child =
     (case child of (name, required, rg) \<Rightarrow>
        (if required then rbs_loc_legacy_add_required_child else rbs_loc_legacy_add_optional_child)
          loc name \<lparr>rg_start = start_char rg, rg_end = end_char rg\<rparr>)"

primrec add_location_children :: "rbs_loc \<Rightarrow> (string \<times> bool \<times> rbs_location_range) list \<Rightarrow> rbs_loc loc_result" where
  "add_location_children loc [] = Inr loc"
| "add_location_children loc (child # children) =
     (case add_location_child loc child of Inl e \<Rightarrow> Inl e | Inr loc \<Rightarrow> add_location_children loc children)"

subsection \<open>Values\<close>

definition rbs_string_to_ruby_string :: "rbs_string \<Rightarrow> ruby_value translation" where
  "rbs_string_to_ruby_string self =
     (if length (string_bytes self) = rbs_string_len self then Inr (Ruby_string (string_bytes self)) else Inl Read_out_of_bounds)"

definition constant_to_symbol :: "rbs_translation_context \<Rightarrow> 32 word \<Rightarrow> ruby_value translation" where
  "constant_to_symbol ctx constant_id =
     (case rbs_constant_pool_id_to_constant (tr_constant_pool ctx) constant_id of
        Inr constant \<Rightarrow> Inr (Ruby_symbol (c_bytes constant))
      | Inl _ \<Rightarrow> Inl Constant_is_null)"

definition rbs_attr_ivar_name_to_ruby :: "rbs_translation_context \<Rightarrow> rbs_attr_ivar_name \<Rightarrow> ruby_value translation" where
  "rbs_attr_ivar_name_to_ruby ctx ivar_name =
     (case attr_ivar_tag ivar_name of
        RBS_ATTR_IVAR_NAME_TAG_NAME \<Rightarrow> constant_to_symbol ctx (rbs_attr_ivar_name.attr_ivar_name ivar_name)
      | RBS_ATTR_IVAR_NAME_TAG_UNSPECIFIED \<Rightarrow> Inr Ruby_nil
      | RBS_ATTR_IVAR_NAME_TAG_EMPTY \<Rightarrow> Inr (Ruby_bool False))"

text \<open>A value of an enumeration is a symbol or \<open>nil\<close>.\<close>

primrec rbs_attribute_visibility_to_ruby :: "rbs_attribute_visibility \<Rightarrow> ruby_value" where
  "rbs_attribute_visibility_to_ruby RBS_ATTRIBUTE_VISIBILITY_UNSPECIFIED = Ruby_enum None"
| "rbs_attribute_visibility_to_ruby RBS_ATTRIBUTE_VISIBILITY_PUBLIC = Ruby_enum (Some ''public'')"
| "rbs_attribute_visibility_to_ruby RBS_ATTRIBUTE_VISIBILITY_PRIVATE = Ruby_enum (Some ''private'')"

primrec rbs_attribute_kind_to_ruby :: "rbs_attribute_kind \<Rightarrow> ruby_value" where
  "rbs_attribute_kind_to_ruby RBS_ATTRIBUTE_KIND_INSTANCE = Ruby_enum (Some ''instance'')"
| "rbs_attribute_kind_to_ruby RBS_ATTRIBUTE_KIND_SINGLETON = Ruby_enum (Some ''singleton'')"

primrec rbs_alias_kind_to_ruby :: "rbs_alias_kind \<Rightarrow> ruby_value" where
  "rbs_alias_kind_to_ruby RBS_ALIAS_KIND_INSTANCE = Ruby_enum (Some ''instance'')"
| "rbs_alias_kind_to_ruby RBS_ALIAS_KIND_SINGLETON = Ruby_enum (Some ''singleton'')"

primrec rbs_method_definition_kind_to_ruby :: "rbs_method_definition_kind \<Rightarrow> ruby_value" where
  "rbs_method_definition_kind_to_ruby RBS_METHOD_DEFINITION_KIND_INSTANCE = Ruby_enum (Some ''instance'')"
| "rbs_method_definition_kind_to_ruby RBS_METHOD_DEFINITION_KIND_SINGLETON = Ruby_enum (Some ''singleton'')"
| "rbs_method_definition_kind_to_ruby RBS_METHOD_DEFINITION_KIND_SINGLETON_INSTANCE = Ruby_enum (Some ''singleton_instance'')"

primrec rbs_method_definition_visibility_to_ruby :: "rbs_method_definition_visibility \<Rightarrow> ruby_value" where
  "rbs_method_definition_visibility_to_ruby RBS_METHOD_DEFINITION_VISIBILITY_UNSPECIFIED = Ruby_enum None"
| "rbs_method_definition_visibility_to_ruby RBS_METHOD_DEFINITION_VISIBILITY_PUBLIC = Ruby_enum (Some ''public'')"
| "rbs_method_definition_visibility_to_ruby RBS_METHOD_DEFINITION_VISIBILITY_PRIVATE = Ruby_enum (Some ''private'')"

primrec rbs_type_param_variance_to_ruby :: "rbs_type_param_variance \<Rightarrow> ruby_value" where
  "rbs_type_param_variance_to_ruby RBS_TYPE_PARAM_VARIANCE_INVARIANT = Ruby_enum (Some ''invariant'')"
| "rbs_type_param_variance_to_ruby RBS_TYPE_PARAM_VARIANCE_COVARIANT = Ruby_enum (Some ''covariant'')"
| "rbs_type_param_variance_to_ruby RBS_TYPE_PARAM_VARIANCE_CONTRAVARIANT = Ruby_enum (Some ''contravariant'')"

text \<open>A pointer that may be \<open>NULL\<close>, a list and a hash, from the first node to the last.\<close>

definition rbs_struct_to_ruby_value :: "ruby_value translation option \<Rightarrow> ruby_value translation" where
  "rbs_struct_to_ruby_value instance' = (case instance' of None \<Rightarrow> Inr Ruby_nil | Some value \<Rightarrow> value)"

primrec rbs_nodes_to_ruby :: "ruby_value translation list \<Rightarrow> ruby_value list translation" where
  "rbs_nodes_to_ruby [] = Inr []"
| "rbs_nodes_to_ruby (node # nodes) =
     (case node of
        Inl e \<Rightarrow> Inl e
      | Inr value \<Rightarrow> (case rbs_nodes_to_ruby nodes of Inl e \<Rightarrow> Inl e | Inr values \<Rightarrow> Inr (value # values)))"

definition rbs_node_list_to_ruby_array :: "ruby_value translation list \<Rightarrow> ruby_value translation" where
  "rbs_node_list_to_ruby_array list = map_sum (\<lambda>e. e) Ruby_array (rbs_nodes_to_ruby list)"

primrec rbs_entries_to_ruby ::
  "(ruby_value translation \<times> ruby_value translation) list \<Rightarrow> (ruby_value \<times> ruby_value) list translation"
where
  "rbs_entries_to_ruby [] = Inr []"
| "rbs_entries_to_ruby (entry # entries) =
     (case fst entry of
        Inl e \<Rightarrow> Inl e
      | Inr key \<Rightarrow>
          (case snd entry of
             Inl e \<Rightarrow> Inl e
           | Inr value \<Rightarrow>
               (case rbs_entries_to_ruby entries of Inl e \<Rightarrow> Inl e | Inr rest \<Rightarrow> Inr ((key, value) # rest))))"

definition rbs_hash_to_ruby_hash :: "(ruby_value translation \<times> ruby_value translation) list \<Rightarrow> ruby_value translation" where
  "rbs_hash_to_ruby_hash rbs_hash = map_sum (\<lambda>e. e) Ruby_hash (rbs_entries_to_ruby rbs_hash)"

subsection \<open>Objects\<close>

text \<open>The keyword arguments are evaluated in their order, and the first error is raised.\<close>

primrec keyword_arguments :: "(string \<times> ruby_value translation) list \<Rightarrow> (string \<times> ruby_value) list translation" where
  "keyword_arguments [] = Inr []"
| "keyword_arguments (argument # arguments) =
     (case snd argument of
        Inl e \<Rightarrow> Inl e
      | Inr value \<Rightarrow>
          (case keyword_arguments arguments of Inl e \<Rightarrow> Inl e | Inr rest \<Rightarrow> Inr ((fst argument, value) # rest)))"

definition CLASS_NEW_INSTANCE :: "string \<Rightarrow> ruby_value option \<Rightarrow> (string \<times> ruby_value translation) list \<Rightarrow> ruby_value translation" where
  "CLASS_NEW_INSTANCE klass location arguments =
     (case keyword_arguments arguments of Inl e \<Rightarrow> Inl e | Inr h \<Rightarrow> Inr (Ruby_object klass location h))"

text \<open>A node with a location, and one with children of its location, for which \<open>cap\<close> entries are allocated.\<close>

definition new_with_location ::
  "rbs_translation_context \<Rightarrow> string \<Rightarrow> rbs_location_range \<Rightarrow> (string \<times> ruby_value translation) list \<Rightarrow> ruby_value translation"
where
  "new_with_location ctx klass location arguments =
     CLASS_NEW_INSTANCE klass (Some (nil_or_location (rbs_location_range_to_ruby_location ctx location))) arguments"

definition new_with_children ::
  "rbs_translation_context \<Rightarrow> string \<Rightarrow> rbs_location_range \<Rightarrow> nat \<Rightarrow> (string \<times> bool \<times> rbs_location_range) list \<Rightarrow>
   (string \<times> ruby_value translation) list \<Rightarrow> ruby_value translation"
where
  "new_with_children ctx klass location cap children arguments =
     (case rbs_check_location (rbs_location_range_to_ruby_location ctx location) of
        Inl e \<Rightarrow> Inl e
      | Inr loc \<Rightarrow>
          (case rbs_loc_legacy_alloc_children loc cap of
             Inl e \<Rightarrow> Inl (Location_error e)
           | Inr loc \<Rightarrow>
               (case add_location_children loc children of
                  Inl e \<Rightarrow> Inl (Location_error e)
                | Inr loc \<Rightarrow> CLASS_NEW_INSTANCE klass (Some (location_object loc)) arguments)))"

subsection \<open>Types\<close>

definition symbol_to_ruby :: "rbs_translation_context \<Rightarrow> rbs_ast_symbol \<Rightarrow> ruby_value translation" where
  "symbol_to_ruby ctx node = constant_to_symbol ctx (sym_constant_id node)"

definition namespace_to_ruby :: "rbs_translation_context \<Rightarrow> rbs_namespace \<Rightarrow> ruby_value translation" where
  "namespace_to_ruby ctx node =
     map_sum (\<lambda>e. e) (\<lambda>path. Ruby_namespace path (ns_absolute node))
       (rbs_node_list_to_ruby_array (map (symbol_to_ruby ctx) (ns_path node)))"

definition type_name_to_ruby :: "rbs_translation_context \<Rightarrow> rbs_type_name \<Rightarrow> ruby_value translation" where
  "type_name_to_ruby ctx node =
     (case namespace_to_ruby ctx (tn_rbs_namespace node) of
        Inl e \<Rightarrow> Inl e
      | Inr ns \<Rightarrow> map_sum (\<lambda>e. e) (Ruby_type_name ns) (symbol_to_ruby ctx (tn_name node)))"

definition comment_to_ruby :: "rbs_translation_context \<Rightarrow> rbs_ast_comment \<Rightarrow> ruby_value translation" where
  "comment_to_ruby ctx node =
     new_with_location ctx ''RBS::AST::Comment'' (comment_location node) []"

definition annotation_to_ruby :: "rbs_translation_context \<Rightarrow> rbs_ast_annotation \<Rightarrow> ruby_value translation" where
  "annotation_to_ruby ctx node =
     new_with_location ctx ''RBS::AST::Annotation'' (annot_location node)
       [(''string'', rbs_string_to_ruby_string (annot_string node))]"

definition ast_bool_to_ruby :: "bool \<Rightarrow> ruby_value translation" where
  "ast_bool_to_ruby value =
     Inr (Ruby_bool value)"

definition ast_integer_to_ruby :: "rbs_string \<Rightarrow> ruby_value translation" where
  "ast_integer_to_ruby string_representation =
     (if length (string_bytes string_representation) = rbs_string_len string_representation
      then Inr (Ruby_integer (string_bytes string_representation)) else Inl Read_out_of_bounds)"

definition ast_string_to_ruby :: "rbs_string \<Rightarrow> ruby_value translation" where
  "ast_string_to_ruby string =
     (if length (string_bytes string) = rbs_string_len string then Inr (Ruby_string (string_bytes string))
      else Inl Read_out_of_bounds)"

definition types_alias_to_ruby ::
  "rbs_translation_context \<Rightarrow> rbs_location_range \<Rightarrow>
   ruby_value translation \<Rightarrow> ruby_value translation list \<Rightarrow>
   rbs_location_range \<Rightarrow> rbs_location_range \<Rightarrow> ruby_value translation"
where
  "types_alias_to_ruby ctx location name args name_range args_range =
     new_with_children ctx ''RBS::Types::Alias'' location 2 [(''name'', True, name_range),
       (''args'', False, args_range)] [(''name'', name),
       (''args'', rbs_node_list_to_ruby_array args)]"

definition types_bases_any_to_ruby ::
  "rbs_translation_context \<Rightarrow> rbs_location_range \<Rightarrow> bool \<Rightarrow>
   ruby_value translation"
where
  "types_bases_any_to_ruby ctx location todo =
     new_with_location ctx ''RBS::Types::Bases::Any'' location [(''todo'', Inr (Ruby_bool todo))]"

definition types_bases_bool_to_ruby ::
  "rbs_translation_context \<Rightarrow> rbs_location_range \<Rightarrow> ruby_value translation"
where
  "types_bases_bool_to_ruby ctx location =
     new_with_location ctx ''RBS::Types::Bases::Bool'' location []"

definition types_bases_bottom_to_ruby ::
  "rbs_translation_context \<Rightarrow> rbs_location_range \<Rightarrow> ruby_value translation"
where
  "types_bases_bottom_to_ruby ctx location =
     new_with_location ctx ''RBS::Types::Bases::Bottom'' location []"

definition types_bases_class_to_ruby ::
  "rbs_translation_context \<Rightarrow> rbs_location_range \<Rightarrow> ruby_value translation"
where
  "types_bases_class_to_ruby ctx location =
     new_with_location ctx ''RBS::Types::Bases::Class'' location []"

definition types_bases_instance_to_ruby ::
  "rbs_translation_context \<Rightarrow> rbs_location_range \<Rightarrow> ruby_value translation"
where
  "types_bases_instance_to_ruby ctx location =
     new_with_location ctx ''RBS::Types::Bases::Instance'' location []"

definition types_bases_nil_to_ruby ::
  "rbs_translation_context \<Rightarrow> rbs_location_range \<Rightarrow> ruby_value translation"
where
  "types_bases_nil_to_ruby ctx location =
     new_with_location ctx ''RBS::Types::Bases::Nil'' location []"

definition types_bases_self_to_ruby ::
  "rbs_translation_context \<Rightarrow> rbs_location_range \<Rightarrow> ruby_value translation"
where
  "types_bases_self_to_ruby ctx location =
     new_with_location ctx ''RBS::Types::Bases::Self'' location []"

definition types_bases_top_to_ruby ::
  "rbs_translation_context \<Rightarrow> rbs_location_range \<Rightarrow> ruby_value translation"
where
  "types_bases_top_to_ruby ctx location =
     new_with_location ctx ''RBS::Types::Bases::Top'' location []"

definition types_bases_void_to_ruby ::
  "rbs_translation_context \<Rightarrow> rbs_location_range \<Rightarrow> ruby_value translation"
where
  "types_bases_void_to_ruby ctx location =
     new_with_location ctx ''RBS::Types::Bases::Void'' location []"

definition types_block_to_ruby ::
  "rbs_translation_context \<Rightarrow> rbs_location_range \<Rightarrow>
   ruby_value translation \<Rightarrow> bool \<Rightarrow>
   ruby_value translation option \<Rightarrow> ruby_value translation"
where
  "types_block_to_ruby ctx location type required self_type =
     new_with_location ctx ''RBS::Types::Block'' location [(''type'', type),
       (''required'', Inr (Ruby_bool required)),
       (''self_type'', rbs_struct_to_ruby_value self_type)]"

definition types_class_instance_to_ruby ::
  "rbs_translation_context \<Rightarrow> rbs_location_range \<Rightarrow>
   ruby_value translation \<Rightarrow> ruby_value translation list \<Rightarrow>
   rbs_location_range \<Rightarrow> rbs_location_range \<Rightarrow> ruby_value translation"
where
  "types_class_instance_to_ruby ctx location name args name_range args_range =
     new_with_children ctx ''RBS::Types::ClassInstance'' location 2 [(''name'', True, name_range),
       (''args'', False, args_range)] [(''name'', name),
       (''args'', rbs_node_list_to_ruby_array args)]"

definition types_class_singleton_to_ruby ::
  "rbs_translation_context \<Rightarrow> rbs_location_range \<Rightarrow>
   ruby_value translation \<Rightarrow> ruby_value translation list \<Rightarrow>
   rbs_location_range \<Rightarrow> rbs_location_range \<Rightarrow> ruby_value translation"
where
  "types_class_singleton_to_ruby ctx location name args name_range args_range =
     new_with_children ctx ''RBS::Types::ClassSingleton'' location 2 [(''name'', True, name_range),
       (''args'', False, args_range)] [(''name'', name),
       (''args'', rbs_node_list_to_ruby_array args)]"

definition types_function_to_ruby ::
  "ruby_value translation list \<Rightarrow> ruby_value translation list \<Rightarrow>
   ruby_value translation option \<Rightarrow> ruby_value translation list \<Rightarrow>
   (ruby_value translation \<times> ruby_value translation) list \<Rightarrow>
   (ruby_value translation \<times> ruby_value translation) list \<Rightarrow>
   ruby_value translation option \<Rightarrow> ruby_value translation option \<Rightarrow>
   ruby_value translation \<Rightarrow> ruby_value translation"
where
  "types_function_to_ruby required_positionals optional_positionals rest_positionals
     trailing_positionals required_keywords optional_keywords rest_keywords forwarding
     return_type =
     CLASS_NEW_INSTANCE ''RBS::Types::Function'' None
       [(''required_positionals'', rbs_node_list_to_ruby_array required_positionals),
       (''optional_positionals'', rbs_node_list_to_ruby_array optional_positionals),
       (''rest_positionals'', rbs_struct_to_ruby_value rest_positionals),
       (''trailing_positionals'', rbs_node_list_to_ruby_array trailing_positionals),
       (''required_keywords'', rbs_hash_to_ruby_hash required_keywords),
       (''optional_keywords'', rbs_hash_to_ruby_hash optional_keywords),
       (''rest_keywords'', rbs_struct_to_ruby_value rest_keywords),
       (''forwarding'', rbs_struct_to_ruby_value forwarding), (''return_type'', return_type)]"

definition types_function_forwarding_param_to_ruby ::
  "rbs_translation_context \<Rightarrow> rbs_location_range \<Rightarrow> ruby_value translation"
where
  "types_function_forwarding_param_to_ruby ctx location =
     new_with_location ctx ''RBS::Types::Function::ForwardingParam'' location []"

definition types_function_param_to_ruby ::
  "rbs_translation_context \<Rightarrow> rbs_location_range \<Rightarrow>
   ruby_value translation \<Rightarrow> ruby_value translation option \<Rightarrow>
   rbs_location_range \<Rightarrow> ruby_value translation"
where
  "types_function_param_to_ruby ctx location type name name_range =
     new_with_children ctx ''RBS::Types::Function::Param'' location 1 [(''name'', False, name_range)]
       [(''type'', type), (''name'', rbs_struct_to_ruby_value name)]"

definition types_interface_to_ruby ::
  "rbs_translation_context \<Rightarrow> rbs_location_range \<Rightarrow>
   ruby_value translation \<Rightarrow> ruby_value translation list \<Rightarrow>
   rbs_location_range \<Rightarrow> rbs_location_range \<Rightarrow> ruby_value translation"
where
  "types_interface_to_ruby ctx location name args name_range args_range =
     new_with_children ctx ''RBS::Types::Interface'' location 2 [(''name'', True, name_range),
       (''args'', False, args_range)] [(''name'', name),
       (''args'', rbs_node_list_to_ruby_array args)]"

definition types_intersection_to_ruby ::
  "rbs_translation_context \<Rightarrow> rbs_location_range \<Rightarrow>
   ruby_value translation list \<Rightarrow> ruby_value translation"
where
  "types_intersection_to_ruby ctx location types =
     new_with_location ctx ''RBS::Types::Intersection'' location
       [(''types'', rbs_node_list_to_ruby_array types)]"

definition types_literal_to_ruby ::
  "rbs_translation_context \<Rightarrow> rbs_location_range \<Rightarrow>
   ruby_value translation \<Rightarrow> ruby_value translation"
where
  "types_literal_to_ruby ctx location literal =
     new_with_location ctx ''RBS::Types::Literal'' location [(''literal'', literal)]"

definition types_optional_to_ruby ::
  "rbs_translation_context \<Rightarrow> rbs_location_range \<Rightarrow>
   ruby_value translation \<Rightarrow> ruby_value translation"
where
  "types_optional_to_ruby ctx location type =
     new_with_location ctx ''RBS::Types::Optional'' location [(''type'', type)]"

definition types_proc_to_ruby ::
  "rbs_translation_context \<Rightarrow> rbs_location_range \<Rightarrow>
   ruby_value translation \<Rightarrow> ruby_value translation option \<Rightarrow>
   ruby_value translation option \<Rightarrow> ruby_value translation"
where
  "types_proc_to_ruby ctx location type block self_type =
     new_with_location ctx ''RBS::Types::Proc'' location [(''type'', type),
       (''block'', rbs_struct_to_ruby_value block),
       (''self_type'', rbs_struct_to_ruby_value self_type)]"

definition types_record_to_ruby ::
  "rbs_translation_context \<Rightarrow> rbs_location_range \<Rightarrow>
   (ruby_value translation \<times> ruby_value translation) list \<Rightarrow>
   ruby_value translation"
where
  "types_record_to_ruby ctx location all_fields =
     new_with_location ctx ''RBS::Types::Record'' location
       [(''all_fields'', rbs_hash_to_ruby_hash all_fields)]"

definition types_record_field_type_to_ruby ::
  "ruby_value translation \<Rightarrow> bool \<Rightarrow> ruby_value translation"
where
  "types_record_field_type_to_ruby type required =
     (case type of
        Inl e \<Rightarrow> Inl e
      | Inr value \<Rightarrow> Inr (Ruby_array [value, Ruby_bool required]))"

definition types_tuple_to_ruby ::
  "rbs_translation_context \<Rightarrow> rbs_location_range \<Rightarrow>
   ruby_value translation list \<Rightarrow> ruby_value translation"
where
  "types_tuple_to_ruby ctx location types =
     new_with_location ctx ''RBS::Types::Tuple'' location
       [(''types'', rbs_node_list_to_ruby_array types)]"

definition types_union_to_ruby ::
  "rbs_translation_context \<Rightarrow> rbs_location_range \<Rightarrow>
   ruby_value translation list \<Rightarrow> ruby_value translation"
where
  "types_union_to_ruby ctx location types =
     new_with_location ctx ''RBS::Types::Union'' location
       [(''types'', rbs_node_list_to_ruby_array types)]"

definition types_untyped_function_to_ruby ::
  "ruby_value translation \<Rightarrow> ruby_value translation"
where
  "types_untyped_function_to_ruby return_type =
     CLASS_NEW_INSTANCE ''RBS::Types::UntypedFunction'' None [(''return_type'', return_type)]"

definition types_variable_to_ruby ::
  "rbs_translation_context \<Rightarrow> rbs_location_range \<Rightarrow>
   ruby_value translation \<Rightarrow> ruby_value translation"
where
  "types_variable_to_ruby ctx location name =
     new_with_location ctx ''RBS::Types::Variable'' location [(''name'', name)]"

primrec node_to_ruby :: "rbs_translation_context \<Rightarrow> rbs_node \<Rightarrow> ruby_value translation" where
  "node_to_ruby ctx (Ast_Symbol symbol) = symbol_to_ruby ctx symbol"
| "node_to_ruby ctx (Ast_Bool _ value) = ast_bool_to_ruby value"
| "node_to_ruby ctx (Ast_Integer _ string_representation) =
     ast_integer_to_ruby string_representation"
| "node_to_ruby ctx (Ast_String _ string) = ast_string_to_ruby string"
| "node_to_ruby ctx (Types_Alias location name args name_range args_range) =
     types_alias_to_ruby ctx location (type_name_to_ruby ctx name) (map (node_to_ruby ctx) args)
       name_range args_range"
| "node_to_ruby ctx (Types_Bases_Any location todo) = types_bases_any_to_ruby ctx location todo"
| "node_to_ruby ctx (Types_Bases_Bool location) = types_bases_bool_to_ruby ctx location"
| "node_to_ruby ctx (Types_Bases_Bottom location) = types_bases_bottom_to_ruby ctx location"
| "node_to_ruby ctx (Types_Bases_Class location) = types_bases_class_to_ruby ctx location"
| "node_to_ruby ctx (Types_Bases_Instance location) = types_bases_instance_to_ruby ctx location"
| "node_to_ruby ctx (Types_Bases_Nil location) = types_bases_nil_to_ruby ctx location"
| "node_to_ruby ctx (Types_Bases_Self location) = types_bases_self_to_ruby ctx location"
| "node_to_ruby ctx (Types_Bases_Top location) = types_bases_top_to_ruby ctx location"
| "node_to_ruby ctx (Types_Bases_Void location) = types_bases_void_to_ruby ctx location"
| "node_to_ruby ctx (Types_Block location type required self_type) =
     types_block_to_ruby ctx location (node_to_ruby ctx type) required (map_option (node_to_ruby ctx)
       self_type)"
| "node_to_ruby ctx (Types_Class_Instance location name args name_range args_range) =
     types_class_instance_to_ruby ctx location (type_name_to_ruby ctx name) (map (node_to_ruby ctx)
       args) name_range args_range"
| "node_to_ruby ctx (Types_Class_Singleton location name args name_range args_range) =
     types_class_singleton_to_ruby ctx location (type_name_to_ruby ctx name) (map (node_to_ruby ctx)
       args) name_range args_range"
| "node_to_ruby ctx (Types_Function _ required_positionals optional_positionals rest_positionals
      trailing_positionals required_keywords optional_keywords rest_keywords forwarding
      return_type) =
     types_function_to_ruby (map (node_to_ruby ctx) required_positionals) (map (node_to_ruby ctx)
       optional_positionals) (map_option (node_to_ruby ctx) rest_positionals)
       (map (node_to_ruby ctx) trailing_positionals) (map
       (map_prod (node_to_ruby ctx) (node_to_ruby ctx)) required_keywords) (map
       (map_prod (node_to_ruby ctx) (node_to_ruby ctx)) optional_keywords)
       (map_option (node_to_ruby ctx) rest_keywords) (map_option (node_to_ruby ctx) forwarding)
       (node_to_ruby ctx return_type)"
| "node_to_ruby ctx (Types_Function_Forwarding_Param location) =
     types_function_forwarding_param_to_ruby ctx location"
| "node_to_ruby ctx (Types_Function_Param location type name name_range) =
     types_function_param_to_ruby ctx location (node_to_ruby ctx type) (map_option (symbol_to_ruby ctx)
       name) name_range"
| "node_to_ruby ctx (Types_Interface location name args name_range args_range) =
     types_interface_to_ruby ctx location (type_name_to_ruby ctx name) (map (node_to_ruby ctx) args)
       name_range args_range"
| "node_to_ruby ctx (Types_Intersection location types) =
     types_intersection_to_ruby ctx location (map (node_to_ruby ctx) types)"
| "node_to_ruby ctx (Types_Literal location literal) =
     types_literal_to_ruby ctx location (node_to_ruby ctx literal)"
| "node_to_ruby ctx (Types_Optional location type) =
     types_optional_to_ruby ctx location (node_to_ruby ctx type)"
| "node_to_ruby ctx (Types_Proc location type block self_type) =
     types_proc_to_ruby ctx location (node_to_ruby ctx type) (map_option (node_to_ruby ctx) block)
       (map_option (node_to_ruby ctx) self_type)"
| "node_to_ruby ctx (Types_Record location all_fields) =
     types_record_to_ruby ctx location (map (map_prod (node_to_ruby ctx) (node_to_ruby ctx))
       all_fields)"
| "node_to_ruby ctx (Types_Record_Field_Type _ type required) =
     types_record_field_type_to_ruby (node_to_ruby ctx type) required"
| "node_to_ruby ctx (Types_Tuple location types) =
     types_tuple_to_ruby ctx location (map (node_to_ruby ctx) types)"
| "node_to_ruby ctx (Types_Union location types) =
     types_union_to_ruby ctx location (map (node_to_ruby ctx) types)"
| "node_to_ruby ctx (Types_Untyped_Function _ return_type) =
     types_untyped_function_to_ruby (node_to_ruby ctx return_type)"
| "node_to_ruby ctx (Types_Variable location name) =
     types_variable_to_ruby ctx location (symbol_to_ruby ctx name)"

subsection \<open>Declarations and members\<close>

definition type_param_to_ruby :: "rbs_translation_context \<Rightarrow> rbs_ast_type_param \<Rightarrow> ruby_value translation" where
  "type_param_to_ruby ctx node =
     new_with_children ctx ''RBS::AST::TypeParam'' (tp_location node) 6
       [(''name'', True, (tp_name_range node)), (''variance'', False, (tp_variance_range node)),
       (''unchecked'', False, (tp_unchecked_range node)),
       (''upper_bound'', False, (tp_upper_bound_range node)),
       (''lower_bound'', False, (tp_lower_bound_range node)),
       (''default'', False, (tp_default_range node))]
       [(''name'', (symbol_to_ruby ctx (tp_name node))),
       (''variance'', Inr (rbs_type_param_variance_to_ruby (tp_variance node))),
       (''upper_bound'', rbs_struct_to_ruby_value (map_option (node_to_ruby ctx) (tp_upper_bound node))),
       (''lower_bound'', rbs_struct_to_ruby_value (map_option (node_to_ruby ctx) (tp_lower_bound node))),
       (''default_type'', rbs_struct_to_ruby_value (map_option (node_to_ruby ctx) (tp_default_type node))),
       (''unchecked'', Inr (Ruby_bool (tp_unchecked node)))]"

definition method_type_to_ruby :: "rbs_translation_context \<Rightarrow> rbs_method_type \<Rightarrow> ruby_value translation" where
  "method_type_to_ruby ctx node =
     new_with_children ctx ''RBS::MethodType'' (mt_location node) 2
       [(''type'', True, (mt_type_range node)),
       (''type_params'', False, (mt_type_params_range node))]
       [(''type_params'', rbs_node_list_to_ruby_array (map (type_param_to_ruby ctx) (mt_type_params node))),
       (''type'', (node_to_ruby ctx (mt_type node))),
       (''block'', rbs_struct_to_ruby_value (map_option (node_to_ruby ctx) (mt_block node)))]"

definition overload_to_ruby :: "rbs_translation_context \<Rightarrow> rbs_ast_members_method_definition_overload \<Rightarrow> ruby_value translation" where
  "overload_to_ruby ctx node =
     CLASS_NEW_INSTANCE ''RBS::AST::Members::MethodDefinition::Overload'' None
       [(''annotations'', rbs_node_list_to_ruby_array (map (annotation_to_ruby ctx) (overload_annotations node))),
       (''method_type'', (method_type_to_ruby ctx (overload_method_type node)))]"

definition class_super_to_ruby :: "rbs_translation_context \<Rightarrow> rbs_ast_declarations_class_super \<Rightarrow> ruby_value translation" where
  "class_super_to_ruby ctx node =
     new_with_children ctx ''RBS::AST::Declarations::Class::Super'' (super_location node) 2
       [(''name'', True, (super_name_range node)), (''args'', False, (super_args_range node))]
       [(''name'', (type_name_to_ruby ctx (super_name node))),
       (''args'', rbs_node_list_to_ruby_array (map (node_to_ruby ctx) (super_args node)))]"

definition module_self_to_ruby :: "rbs_translation_context \<Rightarrow> rbs_ast_declarations_module_self \<Rightarrow> ruby_value translation" where
  "module_self_to_ruby ctx node =
     new_with_children ctx ''RBS::AST::Declarations::Module::Self'' (mself_location node) 2
       [(''name'', True, (mself_name_range node)), (''args'', False, (mself_args_range node))]
       [(''name'', (type_name_to_ruby ctx (mself_name node))),
       (''args'', rbs_node_list_to_ruby_array (map (node_to_ruby ctx) (mself_args node)))]"

definition ast_declarations_class_to_ruby ::
  "rbs_translation_context \<Rightarrow> rbs_location_range \<Rightarrow>
   ruby_value translation \<Rightarrow> ruby_value translation list \<Rightarrow>
   ruby_value translation option \<Rightarrow> ruby_value translation list \<Rightarrow>
   ruby_value translation list \<Rightarrow> ruby_value translation option \<Rightarrow>
   rbs_location_range \<Rightarrow> rbs_location_range \<Rightarrow>
   rbs_location_range \<Rightarrow> rbs_location_range \<Rightarrow>
   rbs_location_range \<Rightarrow> ruby_value translation"
where
  "ast_declarations_class_to_ruby ctx location name type_params super_class members annotations
     comment keyword_range name_range end_range type_params_range lt_range =
     new_with_children ctx ''RBS::AST::Declarations::Class'' location 5
       [(''keyword'', True, keyword_range), (''name'', True, name_range),
       (''end'', True, end_range), (''type_params'', False, type_params_range),
       (''lt'', False, lt_range)] [(''name'', name),
       (''type_params'', rbs_node_list_to_ruby_array type_params),
       (''super_class'', rbs_struct_to_ruby_value super_class),
       (''members'', rbs_node_list_to_ruby_array members),
       (''annotations'', rbs_node_list_to_ruby_array annotations),
       (''comment'', rbs_struct_to_ruby_value comment)]"

definition ast_declarations_class_alias_to_ruby ::
  "rbs_translation_context \<Rightarrow> rbs_location_range \<Rightarrow>
   ruby_value translation \<Rightarrow> ruby_value translation \<Rightarrow>
   ruby_value translation option \<Rightarrow> ruby_value translation list \<Rightarrow>
   rbs_location_range \<Rightarrow> rbs_location_range \<Rightarrow>
   rbs_location_range \<Rightarrow> rbs_location_range \<Rightarrow> ruby_value translation"
where
  "ast_declarations_class_alias_to_ruby ctx location new_name old_name comment annotations
     keyword_range new_name_range eq_range old_name_range =
     new_with_children ctx ''RBS::AST::Declarations::ClassAlias'' location 4
       [(''keyword'', True, keyword_range), (''new_name'', True, new_name_range),
       (''eq'', True, eq_range), (''old_name'', True, old_name_range)] [(''new_name'', new_name),
       (''old_name'', old_name), (''comment'', rbs_struct_to_ruby_value comment),
       (''annotations'', rbs_node_list_to_ruby_array annotations)]"

definition ast_declarations_constant_to_ruby ::
  "rbs_translation_context \<Rightarrow> rbs_location_range \<Rightarrow>
   ruby_value translation \<Rightarrow> ruby_value translation \<Rightarrow>
   ruby_value translation option \<Rightarrow> ruby_value translation list \<Rightarrow>
   rbs_location_range \<Rightarrow> rbs_location_range \<Rightarrow> ruby_value translation"
where
  "ast_declarations_constant_to_ruby ctx location name type comment annotations name_range
     colon_range =
     new_with_children ctx ''RBS::AST::Declarations::Constant'' location 2
       [(''name'', True, name_range), (''colon'', True, colon_range)] [(''name'', name),
       (''type'', type), (''comment'', rbs_struct_to_ruby_value comment),
       (''annotations'', rbs_node_list_to_ruby_array annotations)]"

definition ast_declarations_global_to_ruby ::
  "rbs_translation_context \<Rightarrow> rbs_location_range \<Rightarrow>
   ruby_value translation \<Rightarrow> ruby_value translation \<Rightarrow>
   ruby_value translation option \<Rightarrow> ruby_value translation list \<Rightarrow>
   rbs_location_range \<Rightarrow> rbs_location_range \<Rightarrow> ruby_value translation"
where
  "ast_declarations_global_to_ruby ctx location name type comment annotations name_range
     colon_range =
     new_with_children ctx ''RBS::AST::Declarations::Global'' location 2 [(''name'', True, name_range),
       (''colon'', True, colon_range)] [(''name'', name), (''type'', type),
       (''comment'', rbs_struct_to_ruby_value comment),
       (''annotations'', rbs_node_list_to_ruby_array annotations)]"

definition ast_declarations_interface_to_ruby ::
  "rbs_translation_context \<Rightarrow> rbs_location_range \<Rightarrow>
   ruby_value translation \<Rightarrow> ruby_value translation list \<Rightarrow>
   ruby_value translation list \<Rightarrow> ruby_value translation list \<Rightarrow>
   ruby_value translation option \<Rightarrow> rbs_location_range \<Rightarrow>
   rbs_location_range \<Rightarrow> rbs_location_range \<Rightarrow>
   rbs_location_range \<Rightarrow> ruby_value translation"
where
  "ast_declarations_interface_to_ruby ctx location name type_params members annotations comment
     keyword_range name_range end_range type_params_range =
     new_with_children ctx ''RBS::AST::Declarations::Interface'' location 4
       [(''keyword'', True, keyword_range), (''name'', True, name_range),
       (''end'', True, end_range), (''type_params'', False, type_params_range)] [(''name'', name),
       (''type_params'', rbs_node_list_to_ruby_array type_params),
       (''members'', rbs_node_list_to_ruby_array members),
       (''annotations'', rbs_node_list_to_ruby_array annotations),
       (''comment'', rbs_struct_to_ruby_value comment)]"

definition ast_declarations_module_to_ruby ::
  "rbs_translation_context \<Rightarrow> rbs_location_range \<Rightarrow>
   ruby_value translation \<Rightarrow> ruby_value translation list \<Rightarrow>
   ruby_value translation list \<Rightarrow> ruby_value translation list \<Rightarrow>
   ruby_value translation list \<Rightarrow> ruby_value translation option \<Rightarrow>
   rbs_location_range \<Rightarrow> rbs_location_range \<Rightarrow>
   rbs_location_range \<Rightarrow> rbs_location_range \<Rightarrow>
   rbs_location_range \<Rightarrow> rbs_location_range \<Rightarrow> ruby_value translation"
where
  "ast_declarations_module_to_ruby ctx location name type_params self_types members annotations
     comment keyword_range name_range end_range type_params_range colon_range self_types_range =
     new_with_children ctx ''RBS::AST::Declarations::Module'' location 6
       [(''keyword'', True, keyword_range), (''name'', True, name_range),
       (''end'', True, end_range), (''type_params'', False, type_params_range),
       (''colon'', False, colon_range), (''self_types'', False, self_types_range)]
       [(''name'', name), (''type_params'', rbs_node_list_to_ruby_array type_params),
       (''self_types'', rbs_node_list_to_ruby_array self_types),
       (''members'', rbs_node_list_to_ruby_array members),
       (''annotations'', rbs_node_list_to_ruby_array annotations),
       (''comment'', rbs_struct_to_ruby_value comment)]"

definition ast_declarations_module_alias_to_ruby ::
  "rbs_translation_context \<Rightarrow> rbs_location_range \<Rightarrow>
   ruby_value translation \<Rightarrow> ruby_value translation \<Rightarrow>
   ruby_value translation option \<Rightarrow> ruby_value translation list \<Rightarrow>
   rbs_location_range \<Rightarrow> rbs_location_range \<Rightarrow>
   rbs_location_range \<Rightarrow> rbs_location_range \<Rightarrow> ruby_value translation"
where
  "ast_declarations_module_alias_to_ruby ctx location new_name old_name comment annotations
     keyword_range new_name_range eq_range old_name_range =
     new_with_children ctx ''RBS::AST::Declarations::ModuleAlias'' location 4
       [(''keyword'', True, keyword_range), (''new_name'', True, new_name_range),
       (''eq'', True, eq_range), (''old_name'', True, old_name_range)] [(''new_name'', new_name),
       (''old_name'', old_name), (''comment'', rbs_struct_to_ruby_value comment),
       (''annotations'', rbs_node_list_to_ruby_array annotations)]"

definition ast_declarations_type_alias_to_ruby ::
  "rbs_translation_context \<Rightarrow> rbs_location_range \<Rightarrow>
   ruby_value translation \<Rightarrow> ruby_value translation list \<Rightarrow>
   ruby_value translation \<Rightarrow> ruby_value translation list \<Rightarrow>
   ruby_value translation option \<Rightarrow> rbs_location_range \<Rightarrow>
   rbs_location_range \<Rightarrow> rbs_location_range \<Rightarrow>
   rbs_location_range \<Rightarrow> ruby_value translation"
where
  "ast_declarations_type_alias_to_ruby ctx location name type_params type annotations comment
     keyword_range name_range eq_range type_params_range =
     new_with_children ctx ''RBS::AST::Declarations::TypeAlias'' location 4
       [(''keyword'', True, keyword_range), (''name'', True, name_range),
       (''eq'', True, eq_range), (''type_params'', False, type_params_range)] [(''name'', name),
       (''type_params'', rbs_node_list_to_ruby_array type_params), (''type'', type),
       (''annotations'', rbs_node_list_to_ruby_array annotations),
       (''comment'', rbs_struct_to_ruby_value comment)]"

definition ast_members_alias_to_ruby ::
  "rbs_translation_context \<Rightarrow> rbs_location_range \<Rightarrow>
   ruby_value translation \<Rightarrow> ruby_value translation \<Rightarrow>
   rbs_alias_kind \<Rightarrow> ruby_value translation list \<Rightarrow>
   ruby_value translation option \<Rightarrow> rbs_location_range \<Rightarrow>
   rbs_location_range \<Rightarrow> rbs_location_range \<Rightarrow>
   rbs_location_range \<Rightarrow> rbs_location_range \<Rightarrow> ruby_value translation"
where
  "ast_members_alias_to_ruby ctx location new_name old_name kind annotations comment keyword_range
     new_name_range old_name_range new_kind_range old_kind_range =
     new_with_children ctx ''RBS::AST::Members::Alias'' location 5 [(''keyword'', True, keyword_range),
       (''new_name'', True, new_name_range), (''old_name'', True, old_name_range),
       (''new_kind'', False, new_kind_range), (''old_kind'', False, old_kind_range)]
       [(''new_name'', new_name), (''old_name'', old_name),
       (''kind'', Inr (rbs_alias_kind_to_ruby kind)),
       (''annotations'', rbs_node_list_to_ruby_array annotations),
       (''comment'', rbs_struct_to_ruby_value comment)]"

definition ast_members_attr_accessor_to_ruby ::
  "rbs_translation_context \<Rightarrow> rbs_location_range \<Rightarrow>
   ruby_value translation \<Rightarrow> ruby_value translation \<Rightarrow>
   rbs_attr_ivar_name \<Rightarrow> rbs_attribute_kind \<Rightarrow>
   ruby_value translation list \<Rightarrow> ruby_value translation option \<Rightarrow>
   rbs_attribute_visibility \<Rightarrow> rbs_location_range \<Rightarrow>
   rbs_location_range \<Rightarrow> rbs_location_range \<Rightarrow>
   rbs_location_range \<Rightarrow> rbs_location_range \<Rightarrow>
   rbs_location_range \<Rightarrow> rbs_location_range \<Rightarrow> ruby_value translation"
where
  "ast_members_attr_accessor_to_ruby ctx location name type ivar_name kind annotations comment
     visibility keyword_range name_range colon_range kind_range ivar_range ivar_name_range
     visibility_range =
     new_with_children ctx ''RBS::AST::Members::AttrAccessor'' location 7
       [(''keyword'', True, keyword_range), (''name'', True, name_range),
       (''colon'', True, colon_range), (''kind'', False, kind_range),
       (''ivar'', False, ivar_range), (''ivar_name'', False, ivar_name_range),
       (''visibility'', False, visibility_range)] [(''name'', name), (''type'', type),
       (''ivar_name'', rbs_attr_ivar_name_to_ruby ctx ivar_name),
       (''kind'', Inr (rbs_attribute_kind_to_ruby kind)),
       (''annotations'', rbs_node_list_to_ruby_array annotations),
       (''comment'', rbs_struct_to_ruby_value comment),
       (''visibility'', Inr (rbs_attribute_visibility_to_ruby visibility))]"

definition ast_members_attr_reader_to_ruby ::
  "rbs_translation_context \<Rightarrow> rbs_location_range \<Rightarrow>
   ruby_value translation \<Rightarrow> ruby_value translation \<Rightarrow>
   rbs_attr_ivar_name \<Rightarrow> rbs_attribute_kind \<Rightarrow>
   ruby_value translation list \<Rightarrow> ruby_value translation option \<Rightarrow>
   rbs_attribute_visibility \<Rightarrow> rbs_location_range \<Rightarrow>
   rbs_location_range \<Rightarrow> rbs_location_range \<Rightarrow>
   rbs_location_range \<Rightarrow> rbs_location_range \<Rightarrow>
   rbs_location_range \<Rightarrow> rbs_location_range \<Rightarrow> ruby_value translation"
where
  "ast_members_attr_reader_to_ruby ctx location name type ivar_name kind annotations comment
     visibility keyword_range name_range colon_range kind_range ivar_range ivar_name_range
     visibility_range =
     new_with_children ctx ''RBS::AST::Members::AttrReader'' location 7
       [(''keyword'', True, keyword_range), (''name'', True, name_range),
       (''colon'', True, colon_range), (''kind'', False, kind_range),
       (''ivar'', False, ivar_range), (''ivar_name'', False, ivar_name_range),
       (''visibility'', False, visibility_range)] [(''name'', name), (''type'', type),
       (''ivar_name'', rbs_attr_ivar_name_to_ruby ctx ivar_name),
       (''kind'', Inr (rbs_attribute_kind_to_ruby kind)),
       (''annotations'', rbs_node_list_to_ruby_array annotations),
       (''comment'', rbs_struct_to_ruby_value comment),
       (''visibility'', Inr (rbs_attribute_visibility_to_ruby visibility))]"

definition ast_members_attr_writer_to_ruby ::
  "rbs_translation_context \<Rightarrow> rbs_location_range \<Rightarrow>
   ruby_value translation \<Rightarrow> ruby_value translation \<Rightarrow>
   rbs_attr_ivar_name \<Rightarrow> rbs_attribute_kind \<Rightarrow>
   ruby_value translation list \<Rightarrow> ruby_value translation option \<Rightarrow>
   rbs_attribute_visibility \<Rightarrow> rbs_location_range \<Rightarrow>
   rbs_location_range \<Rightarrow> rbs_location_range \<Rightarrow>
   rbs_location_range \<Rightarrow> rbs_location_range \<Rightarrow>
   rbs_location_range \<Rightarrow> rbs_location_range \<Rightarrow> ruby_value translation"
where
  "ast_members_attr_writer_to_ruby ctx location name type ivar_name kind annotations comment
     visibility keyword_range name_range colon_range kind_range ivar_range ivar_name_range
     visibility_range =
     new_with_children ctx ''RBS::AST::Members::AttrWriter'' location 7
       [(''keyword'', True, keyword_range), (''name'', True, name_range),
       (''colon'', True, colon_range), (''kind'', False, kind_range),
       (''ivar'', False, ivar_range), (''ivar_name'', False, ivar_name_range),
       (''visibility'', False, visibility_range)] [(''name'', name), (''type'', type),
       (''ivar_name'', rbs_attr_ivar_name_to_ruby ctx ivar_name),
       (''kind'', Inr (rbs_attribute_kind_to_ruby kind)),
       (''annotations'', rbs_node_list_to_ruby_array annotations),
       (''comment'', rbs_struct_to_ruby_value comment),
       (''visibility'', Inr (rbs_attribute_visibility_to_ruby visibility))]"

definition ast_members_class_instance_variable_to_ruby ::
  "rbs_translation_context \<Rightarrow> rbs_location_range \<Rightarrow>
   ruby_value translation \<Rightarrow> ruby_value translation \<Rightarrow>
   ruby_value translation option \<Rightarrow> rbs_location_range \<Rightarrow>
   rbs_location_range \<Rightarrow> rbs_location_range \<Rightarrow> ruby_value translation"
where
  "ast_members_class_instance_variable_to_ruby ctx location name type comment name_range
     colon_range kind_range =
     new_with_children ctx ''RBS::AST::Members::ClassInstanceVariable'' location 3
       [(''name'', True, name_range), (''colon'', True, colon_range),
       (''kind'', False, kind_range)] [(''name'', name), (''type'', type),
       (''comment'', rbs_struct_to_ruby_value comment)]"

definition ast_members_class_variable_to_ruby ::
  "rbs_translation_context \<Rightarrow> rbs_location_range \<Rightarrow>
   ruby_value translation \<Rightarrow> ruby_value translation \<Rightarrow>
   ruby_value translation option \<Rightarrow> rbs_location_range \<Rightarrow>
   rbs_location_range \<Rightarrow> rbs_location_range \<Rightarrow> ruby_value translation"
where
  "ast_members_class_variable_to_ruby ctx location name type comment name_range colon_range
     kind_range =
     new_with_children ctx ''RBS::AST::Members::ClassVariable'' location 3
       [(''name'', True, name_range), (''colon'', True, colon_range),
       (''kind'', False, kind_range)] [(''name'', name), (''type'', type),
       (''comment'', rbs_struct_to_ruby_value comment)]"

definition ast_members_extend_to_ruby ::
  "rbs_translation_context \<Rightarrow> rbs_location_range \<Rightarrow>
   ruby_value translation \<Rightarrow> ruby_value translation list \<Rightarrow>
   ruby_value translation list \<Rightarrow> ruby_value translation option \<Rightarrow>
   rbs_location_range \<Rightarrow> rbs_location_range \<Rightarrow>
   rbs_location_range \<Rightarrow> ruby_value translation"
where
  "ast_members_extend_to_ruby ctx location name args annotations comment name_range keyword_range
     args_range =
     new_with_children ctx ''RBS::AST::Members::Extend'' location 3 [(''name'', True, name_range),
       (''keyword'', True, keyword_range), (''args'', False, args_range)] [(''name'', name),
       (''args'', rbs_node_list_to_ruby_array args),
       (''annotations'', rbs_node_list_to_ruby_array annotations),
       (''comment'', rbs_struct_to_ruby_value comment)]"

definition ast_members_include_to_ruby ::
  "rbs_translation_context \<Rightarrow> rbs_location_range \<Rightarrow>
   ruby_value translation \<Rightarrow> ruby_value translation list \<Rightarrow>
   ruby_value translation list \<Rightarrow> ruby_value translation option \<Rightarrow>
   rbs_location_range \<Rightarrow> rbs_location_range \<Rightarrow>
   rbs_location_range \<Rightarrow> ruby_value translation"
where
  "ast_members_include_to_ruby ctx location name args annotations comment name_range keyword_range
     args_range =
     new_with_children ctx ''RBS::AST::Members::Include'' location 3 [(''name'', True, name_range),
       (''keyword'', True, keyword_range), (''args'', False, args_range)] [(''name'', name),
       (''args'', rbs_node_list_to_ruby_array args),
       (''annotations'', rbs_node_list_to_ruby_array annotations),
       (''comment'', rbs_struct_to_ruby_value comment)]"

definition ast_members_instance_variable_to_ruby ::
  "rbs_translation_context \<Rightarrow> rbs_location_range \<Rightarrow>
   ruby_value translation \<Rightarrow> ruby_value translation \<Rightarrow>
   ruby_value translation option \<Rightarrow> rbs_location_range \<Rightarrow>
   rbs_location_range \<Rightarrow> rbs_location_range \<Rightarrow> ruby_value translation"
where
  "ast_members_instance_variable_to_ruby ctx location name type comment name_range colon_range
     kind_range =
     new_with_children ctx ''RBS::AST::Members::InstanceVariable'' location 3
       [(''name'', True, name_range), (''colon'', True, colon_range),
       (''kind'', False, kind_range)] [(''name'', name), (''type'', type),
       (''comment'', rbs_struct_to_ruby_value comment)]"

definition ast_members_method_definition_to_ruby ::
  "rbs_translation_context \<Rightarrow> rbs_location_range \<Rightarrow>
   ruby_value translation \<Rightarrow> rbs_method_definition_kind \<Rightarrow>
   ruby_value translation list \<Rightarrow> ruby_value translation list \<Rightarrow>
   ruby_value translation option \<Rightarrow> bool \<Rightarrow>
   rbs_method_definition_visibility \<Rightarrow> rbs_location_range \<Rightarrow>
   rbs_location_range \<Rightarrow> rbs_location_range \<Rightarrow>
   rbs_location_range \<Rightarrow> rbs_location_range \<Rightarrow> ruby_value translation"
where
  "ast_members_method_definition_to_ruby ctx location name kind overloads annotations comment
     overloading visibility keyword_range name_range kind_range overloading_range
     visibility_range =
     new_with_children ctx ''RBS::AST::Members::MethodDefinition'' location 5
       [(''keyword'', True, keyword_range), (''name'', True, name_range),
       (''kind'', False, kind_range), (''overloading'', False, overloading_range),
       (''visibility'', False, visibility_range)] [(''name'', name),
       (''kind'', Inr (rbs_method_definition_kind_to_ruby kind)),
       (''overloads'', rbs_node_list_to_ruby_array overloads),
       (''annotations'', rbs_node_list_to_ruby_array annotations),
       (''comment'', rbs_struct_to_ruby_value comment),
       (''overloading'', Inr (Ruby_bool overloading)),
       (''visibility'', Inr (rbs_method_definition_visibility_to_ruby visibility))]"

definition ast_members_prepend_to_ruby ::
  "rbs_translation_context \<Rightarrow> rbs_location_range \<Rightarrow>
   ruby_value translation \<Rightarrow> ruby_value translation list \<Rightarrow>
   ruby_value translation list \<Rightarrow> ruby_value translation option \<Rightarrow>
   rbs_location_range \<Rightarrow> rbs_location_range \<Rightarrow>
   rbs_location_range \<Rightarrow> ruby_value translation"
where
  "ast_members_prepend_to_ruby ctx location name args annotations comment name_range keyword_range
     args_range =
     new_with_children ctx ''RBS::AST::Members::Prepend'' location 3 [(''name'', True, name_range),
       (''keyword'', True, keyword_range), (''args'', False, args_range)] [(''name'', name),
       (''args'', rbs_node_list_to_ruby_array args),
       (''annotations'', rbs_node_list_to_ruby_array annotations),
       (''comment'', rbs_struct_to_ruby_value comment)]"

definition ast_members_private_to_ruby ::
  "rbs_translation_context \<Rightarrow> rbs_location_range \<Rightarrow> ruby_value translation"
where
  "ast_members_private_to_ruby ctx location =
     new_with_location ctx ''RBS::AST::Members::Private'' location []"

definition ast_members_public_to_ruby ::
  "rbs_translation_context \<Rightarrow> rbs_location_range \<Rightarrow> ruby_value translation"
where
  "ast_members_public_to_ruby ctx location =
     new_with_location ctx ''RBS::AST::Members::Public'' location []"

primrec member_to_ruby :: "rbs_translation_context \<Rightarrow> rbs_member \<Rightarrow> ruby_value translation" where
  "member_to_ruby ctx (Ast_Declarations_Class location name type_params super_class members
      annotations comment keyword_range name_range end_range type_params_range lt_range) =
     ast_declarations_class_to_ruby ctx location (type_name_to_ruby ctx name)
       (map (type_param_to_ruby ctx) type_params) (map_option (class_super_to_ruby ctx)
       super_class) (map (member_to_ruby ctx) members) (map (annotation_to_ruby ctx) annotations)
       (map_option (comment_to_ruby ctx) comment)
       keyword_range name_range end_range type_params_range lt_range"
| "member_to_ruby ctx (Ast_Declarations_Class_Alias location new_name old_name comment annotations
      keyword_range new_name_range eq_range old_name_range) =
     ast_declarations_class_alias_to_ruby ctx location (type_name_to_ruby ctx new_name)
       (type_name_to_ruby ctx old_name) (map_option (comment_to_ruby ctx) comment)
       (map (annotation_to_ruby ctx) annotations)
       keyword_range new_name_range eq_range old_name_range"
| "member_to_ruby ctx (Ast_Declarations_Constant location name type comment annotations name_range
      colon_range) =
     ast_declarations_constant_to_ruby ctx location (type_name_to_ruby ctx name)
       (node_to_ruby ctx type) (map_option (comment_to_ruby ctx) comment)
       (map (annotation_to_ruby ctx) annotations) name_range colon_range"
| "member_to_ruby ctx (Ast_Declarations_Global location name type comment annotations name_range
      colon_range) =
     ast_declarations_global_to_ruby ctx location (symbol_to_ruby ctx name) (node_to_ruby ctx type)
       (map_option (comment_to_ruby ctx) comment) (map (annotation_to_ruby ctx) annotations)
       name_range colon_range"
| "member_to_ruby ctx (Ast_Declarations_Interface location name type_params members annotations
      comment keyword_range name_range end_range type_params_range) =
     ast_declarations_interface_to_ruby ctx location (type_name_to_ruby ctx name)
       (map (type_param_to_ruby ctx) type_params) (map (member_to_ruby ctx) members)
       (map (annotation_to_ruby ctx) annotations) (map_option (comment_to_ruby ctx) comment)
       keyword_range name_range end_range type_params_range"
| "member_to_ruby ctx (Ast_Declarations_Module location name type_params self_types members
      annotations comment keyword_range name_range end_range type_params_range colon_range
      self_types_range) =
     ast_declarations_module_to_ruby ctx location (type_name_to_ruby ctx name)
       (map (type_param_to_ruby ctx) type_params) (map (module_self_to_ruby ctx) self_types)
       (map (member_to_ruby ctx) members) (map (annotation_to_ruby ctx) annotations)
       (map_option (comment_to_ruby ctx) comment)
       keyword_range name_range end_range type_params_range colon_range self_types_range"
| "member_to_ruby ctx (Ast_Declarations_Module_Alias location new_name old_name comment annotations
      keyword_range new_name_range eq_range old_name_range) =
     ast_declarations_module_alias_to_ruby ctx location (type_name_to_ruby ctx new_name)
       (type_name_to_ruby ctx old_name) (map_option (comment_to_ruby ctx) comment)
       (map (annotation_to_ruby ctx) annotations)
       keyword_range new_name_range eq_range old_name_range"
| "member_to_ruby ctx (Ast_Declarations_Type_Alias location name type_params type annotations
      comment keyword_range name_range eq_range type_params_range) =
     ast_declarations_type_alias_to_ruby ctx location (type_name_to_ruby ctx name)
       (map (type_param_to_ruby ctx) type_params) (node_to_ruby ctx type)
       (map (annotation_to_ruby ctx) annotations) (map_option (comment_to_ruby ctx) comment)
       keyword_range name_range eq_range type_params_range"
| "member_to_ruby ctx (Ast_Members_Alias location new_name old_name kind annotations comment
      keyword_range new_name_range old_name_range new_kind_range old_kind_range) =
     ast_members_alias_to_ruby ctx location (symbol_to_ruby ctx new_name) (symbol_to_ruby ctx old_name)
       kind (map (annotation_to_ruby ctx) annotations) (map_option (comment_to_ruby ctx) comment)
       keyword_range new_name_range old_name_range new_kind_range old_kind_range"
| "member_to_ruby ctx (Ast_Members_Attr_Accessor location name type ivar_name kind annotations
      comment visibility keyword_range name_range colon_range kind_range ivar_range
      ivar_name_range visibility_range) =
     ast_members_attr_accessor_to_ruby ctx location (symbol_to_ruby ctx name) (node_to_ruby ctx type)
       ivar_name kind (map (annotation_to_ruby ctx) annotations) (map_option (comment_to_ruby ctx)
       comment)
       visibility keyword_range name_range colon_range kind_range ivar_range ivar_name_range visibility_range"
| "member_to_ruby ctx (Ast_Members_Attr_Reader location name type ivar_name kind annotations
      comment visibility keyword_range name_range colon_range kind_range ivar_range
      ivar_name_range visibility_range) =
     ast_members_attr_reader_to_ruby ctx location (symbol_to_ruby ctx name) (node_to_ruby ctx type)
       ivar_name kind (map (annotation_to_ruby ctx) annotations) (map_option (comment_to_ruby ctx)
       comment)
       visibility keyword_range name_range colon_range kind_range ivar_range ivar_name_range visibility_range"
| "member_to_ruby ctx (Ast_Members_Attr_Writer location name type ivar_name kind annotations
      comment visibility keyword_range name_range colon_range kind_range ivar_range
      ivar_name_range visibility_range) =
     ast_members_attr_writer_to_ruby ctx location (symbol_to_ruby ctx name) (node_to_ruby ctx type)
       ivar_name kind (map (annotation_to_ruby ctx) annotations) (map_option (comment_to_ruby ctx)
       comment)
       visibility keyword_range name_range colon_range kind_range ivar_range ivar_name_range visibility_range"
| "member_to_ruby ctx (Ast_Members_Class_Instance_Variable location name type comment name_range
      colon_range kind_range) =
     ast_members_class_instance_variable_to_ruby ctx location (symbol_to_ruby ctx name)
       (node_to_ruby ctx type) (map_option (comment_to_ruby ctx) comment)
       name_range colon_range kind_range"
| "member_to_ruby ctx (Ast_Members_Class_Variable location name type comment name_range colon_range
      kind_range) =
     ast_members_class_variable_to_ruby ctx location (symbol_to_ruby ctx name) (node_to_ruby ctx type)
       (map_option (comment_to_ruby ctx) comment) name_range colon_range kind_range"
| "member_to_ruby ctx (Ast_Members_Extend location name args annotations comment name_range
      keyword_range args_range) =
     ast_members_extend_to_ruby ctx location (type_name_to_ruby ctx name) (map (node_to_ruby ctx) args)
       (map (annotation_to_ruby ctx) annotations) (map_option (comment_to_ruby ctx) comment)
       name_range keyword_range args_range"
| "member_to_ruby ctx (Ast_Members_Include location name args annotations comment name_range
      keyword_range args_range) =
     ast_members_include_to_ruby ctx location (type_name_to_ruby ctx name) (map (node_to_ruby ctx)
       args) (map (annotation_to_ruby ctx) annotations) (map_option (comment_to_ruby ctx) comment)
       name_range keyword_range args_range"
| "member_to_ruby ctx (Ast_Members_Instance_Variable location name type comment name_range
      colon_range kind_range) =
     ast_members_instance_variable_to_ruby ctx location (symbol_to_ruby ctx name)
       (node_to_ruby ctx type) (map_option (comment_to_ruby ctx) comment)
       name_range colon_range kind_range"
| "member_to_ruby ctx (Ast_Members_Method_Definition location name kind overloads annotations
      comment overloading visibility keyword_range name_range kind_range overloading_range
      visibility_range) =
     ast_members_method_definition_to_ruby ctx location (symbol_to_ruby ctx name) kind
       (map (overload_to_ruby ctx) overloads) (map (annotation_to_ruby ctx) annotations)
       (map_option (comment_to_ruby ctx) comment)
       overloading visibility keyword_range name_range kind_range overloading_range visibility_range"
| "member_to_ruby ctx (Ast_Members_Prepend location name args annotations comment name_range
      keyword_range args_range) =
     ast_members_prepend_to_ruby ctx location (type_name_to_ruby ctx name) (map (node_to_ruby ctx)
       args) (map (annotation_to_ruby ctx) annotations) (map_option (comment_to_ruby ctx) comment)
       name_range keyword_range args_range"
| "member_to_ruby ctx (Ast_Members_Private location) = ast_members_private_to_ruby ctx location"
| "member_to_ruby ctx (Ast_Members_Public location) = ast_members_public_to_ruby ctx location"

subsection \<open>Directives, signatures and annotations\<close>

definition ast_directives_use_single_clause_to_ruby ::
  "rbs_translation_context \<Rightarrow> rbs_location_range \<Rightarrow>
   ruby_value translation \<Rightarrow> ruby_value translation option \<Rightarrow>
   rbs_location_range \<Rightarrow> rbs_location_range \<Rightarrow>
   rbs_location_range \<Rightarrow> ruby_value translation"
where
  "ast_directives_use_single_clause_to_ruby ctx location type_name new_name type_name_range
     keyword_range new_name_range =
     new_with_children ctx ''RBS::AST::Directives::Use::SingleClause'' location 3
       [(''type_name'', True, type_name_range), (''keyword'', False, keyword_range),
       (''new_name'', False, new_name_range)] [(''type_name'', type_name),
       (''new_name'', rbs_struct_to_ruby_value new_name)]"

definition ast_directives_use_wildcard_clause_to_ruby ::
  "rbs_translation_context \<Rightarrow> rbs_location_range \<Rightarrow>
   ruby_value translation \<Rightarrow> rbs_location_range \<Rightarrow>
   rbs_location_range \<Rightarrow> ruby_value translation"
where
  "ast_directives_use_wildcard_clause_to_ruby ctx location rbs_namespace namespace_range star_range
     =
     new_with_children ctx ''RBS::AST::Directives::Use::WildcardClause'' location 2
       [(''namespace'', True, namespace_range), (''star'', True, star_range)]
       [(''namespace'', rbs_namespace)]"

primrec use_clause_to_ruby :: "rbs_translation_context \<Rightarrow> rbs_use_clause \<Rightarrow> ruby_value translation" where
  "use_clause_to_ruby ctx (Ast_Directives_Use_Single_Clause location type_name new_name
      type_name_range keyword_range new_name_range) =
     ast_directives_use_single_clause_to_ruby ctx location (type_name_to_ruby ctx type_name)
       (map_option (symbol_to_ruby ctx) new_name) type_name_range keyword_range new_name_range"
| "use_clause_to_ruby ctx (Ast_Directives_Use_Wildcard_Clause location rbs_namespace
      namespace_range star_range) =
     ast_directives_use_wildcard_clause_to_ruby ctx location (namespace_to_ruby ctx rbs_namespace)
       namespace_range star_range"

definition use_to_ruby :: "rbs_translation_context \<Rightarrow> rbs_ast_directives_use \<Rightarrow> ruby_value translation" where
  "use_to_ruby ctx node =
     new_with_children ctx ''RBS::AST::Directives::Use'' (use_location node) 1
       [(''keyword'', True, (use_keyword_range node))]
       [(''clauses'', rbs_node_list_to_ruby_array (map (use_clause_to_ruby ctx) (use_clauses node)))]"

definition signature_to_ruby :: "rbs_translation_context \<Rightarrow> rbs_signature \<Rightarrow> ruby_value translation" where
  "signature_to_ruby ctx node =
     (case rbs_node_list_to_ruby_array (map (use_to_ruby ctx) (sig_directives node)) of
        Inl e \<Rightarrow> Inl e
      | Inr directives \<Rightarrow>
          map_sum (\<lambda>e. e) (\<lambda>declarations. Ruby_array [directives, declarations])
            (rbs_node_list_to_ruby_array (map (member_to_ruby ctx) (sig_declarations node))))"

definition ast_ruby_annotations_block_param_type_annotation_to_ruby ::
  "rbs_translation_context \<Rightarrow> rbs_location_range \<Rightarrow>
   rbs_location_range \<Rightarrow> rbs_location_range \<Rightarrow>
   rbs_location_range \<Rightarrow> rbs_location_range \<Rightarrow>
   rbs_location_range \<Rightarrow> rbs_location_range \<Rightarrow>
   ruby_value translation \<Rightarrow> rbs_location_range \<Rightarrow> ruby_value translation"
where
  "ast_ruby_annotations_block_param_type_annotation_to_ruby ctx location prefix_location
     ampersand_location name_location colon_location question_location type_location type
     comment_loc =
     new_with_location ctx ''RBS::AST::Ruby::Annotations::BlockParamTypeAnnotation'' location
       [(''prefix_location'', Inr (nil_or_location (rbs_location_range_to_ruby_location ctx prefix_location))),
       (''ampersand_location'', Inr (nil_or_location (rbs_location_range_to_ruby_location ctx ampersand_location))),
       (''name_location'', Inr (nil_or_location (rbs_location_range_to_ruby_location ctx name_location))),
       (''colon_location'', Inr (nil_or_location (rbs_location_range_to_ruby_location ctx colon_location))),
       (''question_location'', Inr (nil_or_location (rbs_location_range_to_ruby_location ctx question_location))),
       (''type_location'', Inr (nil_or_location (rbs_location_range_to_ruby_location ctx type_location))),
       (''type'', type),
       (''comment_location'', Inr (nil_or_location (rbs_location_range_to_ruby_location ctx comment_loc)))]"

definition ast_ruby_annotations_class_alias_annotation_to_ruby ::
  "rbs_translation_context \<Rightarrow> rbs_location_range \<Rightarrow>
   rbs_location_range \<Rightarrow> rbs_location_range \<Rightarrow>
   ruby_value translation option \<Rightarrow> rbs_location_range \<Rightarrow>
   ruby_value translation"
where
  "ast_ruby_annotations_class_alias_annotation_to_ruby ctx location prefix_location
     keyword_location type_name type_name_location =
     new_with_location ctx ''RBS::AST::Ruby::Annotations::ClassAliasAnnotation'' location
       [(''prefix_location'', Inr (nil_or_location (rbs_location_range_to_ruby_location ctx prefix_location))),
       (''keyword_location'', Inr (nil_or_location (rbs_location_range_to_ruby_location ctx keyword_location))),
       (''type_name'', rbs_struct_to_ruby_value type_name),
       (''type_name_location'', Inr (nil_or_location (rbs_location_range_to_ruby_location ctx type_name_location)))]"

definition ast_ruby_annotations_colon_method_type_annotation_to_ruby ::
  "rbs_translation_context \<Rightarrow> rbs_location_range \<Rightarrow>
   rbs_location_range \<Rightarrow> ruby_value translation list \<Rightarrow>
   ruby_value translation \<Rightarrow> ruby_value translation"
where
  "ast_ruby_annotations_colon_method_type_annotation_to_ruby ctx location prefix_location
     annotations method_type =
     new_with_location ctx ''RBS::AST::Ruby::Annotations::ColonMethodTypeAnnotation'' location
       [(''prefix_location'', Inr (nil_or_location (rbs_location_range_to_ruby_location ctx prefix_location))),
       (''annotations'', rbs_node_list_to_ruby_array annotations), (''method_type'', method_type)]"

definition ast_ruby_annotations_double_splat_param_type_annotation_to_ruby ::
  "rbs_translation_context \<Rightarrow> rbs_location_range \<Rightarrow>
   rbs_location_range \<Rightarrow> rbs_location_range \<Rightarrow>
   rbs_location_range \<Rightarrow> rbs_location_range \<Rightarrow>
   ruby_value translation \<Rightarrow> rbs_location_range \<Rightarrow> ruby_value translation"
where
  "ast_ruby_annotations_double_splat_param_type_annotation_to_ruby ctx location prefix_location
     star2_location name_location colon_location param_type comment_loc =
     new_with_location ctx ''RBS::AST::Ruby::Annotations::DoubleSplatParamTypeAnnotation'' location
       [(''prefix_location'', Inr (nil_or_location (rbs_location_range_to_ruby_location ctx prefix_location))),
       (''star2_location'', Inr (nil_or_location (rbs_location_range_to_ruby_location ctx star2_location))),
       (''name_location'', Inr (nil_or_location (rbs_location_range_to_ruby_location ctx name_location))),
       (''colon_location'', Inr (nil_or_location (rbs_location_range_to_ruby_location ctx colon_location))),
       (''param_type'', param_type),
       (''comment_location'', Inr (nil_or_location (rbs_location_range_to_ruby_location ctx comment_loc)))]"

definition ast_ruby_annotations_instance_variable_annotation_to_ruby ::
  "rbs_translation_context \<Rightarrow> rbs_location_range \<Rightarrow>
   rbs_location_range \<Rightarrow> ruby_value translation \<Rightarrow>
   rbs_location_range \<Rightarrow> rbs_location_range \<Rightarrow>
   ruby_value translation \<Rightarrow> rbs_location_range \<Rightarrow> ruby_value translation"
where
  "ast_ruby_annotations_instance_variable_annotation_to_ruby ctx location prefix_location ivar_name
     ivar_name_location colon_location type comment_loc =
     new_with_location ctx ''RBS::AST::Ruby::Annotations::InstanceVariableAnnotation'' location
       [(''prefix_location'', Inr (nil_or_location (rbs_location_range_to_ruby_location ctx prefix_location))),
       (''ivar_name'', ivar_name),
       (''ivar_name_location'', Inr (nil_or_location (rbs_location_range_to_ruby_location ctx ivar_name_location))),
       (''colon_location'', Inr (nil_or_location (rbs_location_range_to_ruby_location ctx colon_location))),
       (''type'', type),
       (''comment_location'', Inr (nil_or_location (rbs_location_range_to_ruby_location ctx comment_loc)))]"

definition ast_ruby_annotations_method_types_annotation_to_ruby ::
  "rbs_translation_context \<Rightarrow> rbs_location_range \<Rightarrow>
   rbs_location_range \<Rightarrow> ruby_value translation list \<Rightarrow>
   rbs_location_range list \<Rightarrow> rbs_location_range \<Rightarrow> ruby_value translation"
where
  "ast_ruby_annotations_method_types_annotation_to_ruby ctx location prefix_location overloads
     vertical_bar_locations dot3_location =
     new_with_location ctx ''RBS::AST::Ruby::Annotations::MethodTypesAnnotation'' location
       [(''prefix_location'', Inr (nil_or_location (rbs_location_range_to_ruby_location ctx prefix_location))),
       (''overloads'', rbs_node_list_to_ruby_array overloads),
       (''vertical_bar_locations'', Inr (rbs_location_range_list_to_ruby_array ctx vertical_bar_locations)),
       (''dot3_location'', Inr (nil_or_location (rbs_location_range_to_ruby_location ctx dot3_location)))]"

definition ast_ruby_annotations_module_alias_annotation_to_ruby ::
  "rbs_translation_context \<Rightarrow> rbs_location_range \<Rightarrow>
   rbs_location_range \<Rightarrow> rbs_location_range \<Rightarrow>
   ruby_value translation option \<Rightarrow> rbs_location_range \<Rightarrow>
   ruby_value translation"
where
  "ast_ruby_annotations_module_alias_annotation_to_ruby ctx location prefix_location
     keyword_location type_name type_name_location =
     new_with_location ctx ''RBS::AST::Ruby::Annotations::ModuleAliasAnnotation'' location
       [(''prefix_location'', Inr (nil_or_location (rbs_location_range_to_ruby_location ctx prefix_location))),
       (''keyword_location'', Inr (nil_or_location (rbs_location_range_to_ruby_location ctx keyword_location))),
       (''type_name'', rbs_struct_to_ruby_value type_name),
       (''type_name_location'', Inr (nil_or_location (rbs_location_range_to_ruby_location ctx type_name_location)))]"

definition ast_ruby_annotations_module_self_annotation_to_ruby ::
  "rbs_translation_context \<Rightarrow> rbs_location_range \<Rightarrow>
   rbs_location_range \<Rightarrow> rbs_location_range \<Rightarrow>
   rbs_location_range \<Rightarrow> ruby_value translation \<Rightarrow>
   ruby_value translation list \<Rightarrow> rbs_location_range \<Rightarrow>
   rbs_location_range \<Rightarrow> rbs_location_range list \<Rightarrow>
   rbs_location_range \<Rightarrow> ruby_value translation"
where
  "ast_ruby_annotations_module_self_annotation_to_ruby ctx location prefix_location
     keyword_location colon_location name args open_bracket_location close_bracket_location
     args_comma_locations comment_loc =
     new_with_location ctx ''RBS::AST::Ruby::Annotations::ModuleSelfAnnotation'' location
       [(''prefix_location'', Inr (nil_or_location (rbs_location_range_to_ruby_location ctx prefix_location))),
       (''keyword_location'', Inr (nil_or_location (rbs_location_range_to_ruby_location ctx keyword_location))),
       (''colon_location'', Inr (nil_or_location (rbs_location_range_to_ruby_location ctx colon_location))),
       (''name'', name), (''args'', rbs_node_list_to_ruby_array args),
       (''open_bracket_location'', Inr (nil_or_location (rbs_location_range_to_ruby_location ctx open_bracket_location))),
       (''close_bracket_location'', Inr (nil_or_location (rbs_location_range_to_ruby_location ctx close_bracket_location))),
       (''args_comma_locations'', Inr (rbs_location_range_list_to_ruby_array ctx args_comma_locations)),
       (''comment_location'', Inr (nil_or_location (rbs_location_range_to_ruby_location ctx comment_loc)))]"

definition ast_ruby_annotations_node_type_assertion_to_ruby ::
  "rbs_translation_context \<Rightarrow> rbs_location_range \<Rightarrow>
   rbs_location_range \<Rightarrow> ruby_value translation \<Rightarrow> ruby_value translation"
where
  "ast_ruby_annotations_node_type_assertion_to_ruby ctx location prefix_location type =
     new_with_location ctx ''RBS::AST::Ruby::Annotations::NodeTypeAssertion'' location
       [(''prefix_location'', Inr (nil_or_location (rbs_location_range_to_ruby_location ctx prefix_location))),
       (''type'', type)]"

definition ast_ruby_annotations_param_type_annotation_to_ruby ::
  "rbs_translation_context \<Rightarrow> rbs_location_range \<Rightarrow>
   rbs_location_range \<Rightarrow> rbs_location_range \<Rightarrow>
   rbs_location_range \<Rightarrow> ruby_value translation \<Rightarrow>
   rbs_location_range \<Rightarrow> ruby_value translation"
where
  "ast_ruby_annotations_param_type_annotation_to_ruby ctx location prefix_location name_location
     colon_location param_type comment_loc =
     new_with_location ctx ''RBS::AST::Ruby::Annotations::ParamTypeAnnotation'' location
       [(''prefix_location'', Inr (nil_or_location (rbs_location_range_to_ruby_location ctx prefix_location))),
       (''name_location'', Inr (nil_or_location (rbs_location_range_to_ruby_location ctx name_location))),
       (''colon_location'', Inr (nil_or_location (rbs_location_range_to_ruby_location ctx colon_location))),
       (''param_type'', param_type),
       (''comment_location'', Inr (nil_or_location (rbs_location_range_to_ruby_location ctx comment_loc)))]"

definition ast_ruby_annotations_return_type_annotation_to_ruby ::
  "rbs_translation_context \<Rightarrow> rbs_location_range \<Rightarrow>
   rbs_location_range \<Rightarrow> rbs_location_range \<Rightarrow>
   rbs_location_range \<Rightarrow> ruby_value translation \<Rightarrow>
   rbs_location_range \<Rightarrow> ruby_value translation"
where
  "ast_ruby_annotations_return_type_annotation_to_ruby ctx location prefix_location return_location
     colon_location return_type comment_loc =
     new_with_location ctx ''RBS::AST::Ruby::Annotations::ReturnTypeAnnotation'' location
       [(''prefix_location'', Inr (nil_or_location (rbs_location_range_to_ruby_location ctx prefix_location))),
       (''return_location'', Inr (nil_or_location (rbs_location_range_to_ruby_location ctx return_location))),
       (''colon_location'', Inr (nil_or_location (rbs_location_range_to_ruby_location ctx colon_location))),
       (''return_type'', return_type),
       (''comment_location'', Inr (nil_or_location (rbs_location_range_to_ruby_location ctx comment_loc)))]"

definition ast_ruby_annotations_skip_annotation_to_ruby ::
  "rbs_translation_context \<Rightarrow> rbs_location_range \<Rightarrow>
   rbs_location_range \<Rightarrow> rbs_location_range \<Rightarrow>
   rbs_location_range \<Rightarrow> ruby_value translation"
where
  "ast_ruby_annotations_skip_annotation_to_ruby ctx location prefix_location skip_location
     comment_loc =
     new_with_location ctx ''RBS::AST::Ruby::Annotations::SkipAnnotation'' location
       [(''prefix_location'', Inr (nil_or_location (rbs_location_range_to_ruby_location ctx prefix_location))),
       (''skip_location'', Inr (nil_or_location (rbs_location_range_to_ruby_location ctx skip_location))),
       (''comment_location'', Inr (nil_or_location (rbs_location_range_to_ruby_location ctx comment_loc)))]"

definition ast_ruby_annotations_splat_param_type_annotation_to_ruby ::
  "rbs_translation_context \<Rightarrow> rbs_location_range \<Rightarrow>
   rbs_location_range \<Rightarrow> rbs_location_range \<Rightarrow>
   rbs_location_range \<Rightarrow> rbs_location_range \<Rightarrow>
   ruby_value translation \<Rightarrow> rbs_location_range \<Rightarrow> ruby_value translation"
where
  "ast_ruby_annotations_splat_param_type_annotation_to_ruby ctx location prefix_location
     star_location name_location colon_location param_type comment_loc =
     new_with_location ctx ''RBS::AST::Ruby::Annotations::SplatParamTypeAnnotation'' location
       [(''prefix_location'', Inr (nil_or_location (rbs_location_range_to_ruby_location ctx prefix_location))),
       (''star_location'', Inr (nil_or_location (rbs_location_range_to_ruby_location ctx star_location))),
       (''name_location'', Inr (nil_or_location (rbs_location_range_to_ruby_location ctx name_location))),
       (''colon_location'', Inr (nil_or_location (rbs_location_range_to_ruby_location ctx colon_location))),
       (''param_type'', param_type),
       (''comment_location'', Inr (nil_or_location (rbs_location_range_to_ruby_location ctx comment_loc)))]"

definition ast_ruby_annotations_type_application_annotation_to_ruby ::
  "rbs_translation_context \<Rightarrow> rbs_location_range \<Rightarrow>
   rbs_location_range \<Rightarrow> ruby_value translation list \<Rightarrow>
   rbs_location_range \<Rightarrow> rbs_location_range list \<Rightarrow> ruby_value translation"
where
  "ast_ruby_annotations_type_application_annotation_to_ruby ctx location prefix_location type_args
     close_bracket_location comma_locations =
     new_with_location ctx ''RBS::AST::Ruby::Annotations::TypeApplicationAnnotation'' location
       [(''prefix_location'', Inr (nil_or_location (rbs_location_range_to_ruby_location ctx prefix_location))),
       (''type_args'', rbs_node_list_to_ruby_array type_args),
       (''close_bracket_location'', Inr (nil_or_location (rbs_location_range_to_ruby_location ctx close_bracket_location))),
       (''comma_locations'', Inr (rbs_location_range_list_to_ruby_array ctx comma_locations))]"

primrec ruby_annotation_to_ruby :: "rbs_translation_context \<Rightarrow> rbs_ruby_annotation \<Rightarrow> ruby_value translation" where
  "ruby_annotation_to_ruby ctx (Ast_Ruby_Annotations_Block_Param_Type_Annotation location
      prefix_location ampersand_location name_location colon_location question_location
      type_location type comment_loc) =
     ast_ruby_annotations_block_param_type_annotation_to_ruby ctx location prefix_location ampersand_location name_location colon_location question_location type_location
       (node_to_ruby ctx type) comment_loc"
| "ruby_annotation_to_ruby ctx (Ast_Ruby_Annotations_Class_Alias_Annotation location
      prefix_location keyword_location type_name type_name_location) =
     ast_ruby_annotations_class_alias_annotation_to_ruby ctx location prefix_location keyword_location
       (map_option (type_name_to_ruby ctx) type_name) type_name_location"
| "ruby_annotation_to_ruby ctx (Ast_Ruby_Annotations_Colon_Method_Type_Annotation location
      prefix_location annotations method_type) =
     ast_ruby_annotations_colon_method_type_annotation_to_ruby ctx location prefix_location
       (map (annotation_to_ruby ctx) annotations) (method_type_to_ruby ctx method_type)"
| "ruby_annotation_to_ruby ctx (Ast_Ruby_Annotations_Double_Splat_Param_Type_Annotation location
      prefix_location star2_location name_location colon_location param_type comment_loc) =
     ast_ruby_annotations_double_splat_param_type_annotation_to_ruby ctx location prefix_location star2_location name_location colon_location
       (node_to_ruby ctx param_type) comment_loc"
| "ruby_annotation_to_ruby ctx (Ast_Ruby_Annotations_Instance_Variable_Annotation location
      prefix_location ivar_name ivar_name_location colon_location type comment_loc) =
     ast_ruby_annotations_instance_variable_annotation_to_ruby ctx location prefix_location
       (symbol_to_ruby ctx ivar_name) ivar_name_location colon_location (node_to_ruby ctx type)
       comment_loc"
| "ruby_annotation_to_ruby ctx (Ast_Ruby_Annotations_Method_Types_Annotation location
      prefix_location overloads vertical_bar_locations dot3_location) =
     ast_ruby_annotations_method_types_annotation_to_ruby ctx location prefix_location
       (map (overload_to_ruby ctx) overloads) vertical_bar_locations dot3_location"
| "ruby_annotation_to_ruby ctx (Ast_Ruby_Annotations_Module_Alias_Annotation location
      prefix_location keyword_location type_name type_name_location) =
     ast_ruby_annotations_module_alias_annotation_to_ruby ctx location prefix_location keyword_location
       (map_option (type_name_to_ruby ctx) type_name) type_name_location"
| "ruby_annotation_to_ruby ctx (Ast_Ruby_Annotations_Module_Self_Annotation location
      prefix_location keyword_location colon_location name args open_bracket_location
      close_bracket_location args_comma_locations comment_loc) =
     ast_ruby_annotations_module_self_annotation_to_ruby ctx location prefix_location keyword_location colon_location
       (type_name_to_ruby ctx name) (map (node_to_ruby ctx) args)
       open_bracket_location close_bracket_location args_comma_locations comment_loc"
| "ruby_annotation_to_ruby ctx (Ast_Ruby_Annotations_Node_Type_Assertion location prefix_location
      type) =
     ast_ruby_annotations_node_type_assertion_to_ruby ctx location prefix_location
       (node_to_ruby ctx type)"
| "ruby_annotation_to_ruby ctx (Ast_Ruby_Annotations_Param_Type_Annotation location prefix_location
      name_location colon_location param_type comment_loc) =
     ast_ruby_annotations_param_type_annotation_to_ruby ctx location prefix_location name_location colon_location
       (node_to_ruby ctx param_type) comment_loc"
| "ruby_annotation_to_ruby ctx (Ast_Ruby_Annotations_Return_Type_Annotation location
      prefix_location return_location colon_location return_type comment_loc) =
     ast_ruby_annotations_return_type_annotation_to_ruby ctx location prefix_location return_location colon_location
       (node_to_ruby ctx return_type) comment_loc"
| "ruby_annotation_to_ruby ctx (Ast_Ruby_Annotations_Skip_Annotation location prefix_location
      skip_location comment_loc) =
     ast_ruby_annotations_skip_annotation_to_ruby ctx location prefix_location skip_location comment_loc"
| "ruby_annotation_to_ruby ctx (Ast_Ruby_Annotations_Splat_Param_Type_Annotation location
      prefix_location star_location name_location colon_location param_type comment_loc) =
     ast_ruby_annotations_splat_param_type_annotation_to_ruby ctx location prefix_location star_location name_location colon_location
       (node_to_ruby ctx param_type) comment_loc"
| "ruby_annotation_to_ruby ctx (Ast_Ruby_Annotations_Type_Application_Annotation location
      prefix_location type_args close_bracket_location comma_locations) =
     ast_ruby_annotations_type_application_annotation_to_ruby ctx location prefix_location
       (map (node_to_ruby ctx) type_args) close_bracket_location comma_locations"

end
