(* ===== verification/Translatable.thy ===== *)
theory Translatable
  imports AstTranslation Serializable
begin

text \<open>
  The trees that the C extension turns into Ruby objects: every position is a 32-bit integer, a node
  whose location has children has a location, and so has each required child
  (\<open>translatable_node\<close> for types, \<open>translatable_member\<close> for declarations and members, and so on). Lists, hashes
  and pointers are as in \<open>Serializable\<close>, which says what is asked of constants and strings.
\<close>

definition fits_range :: "rbs_location_range \<Rightarrow> bool" where
  "fits_range rg \<longleftrightarrow>
     - (2 ^ 31) \<le> start_char rg \<and> start_char rg < 2 ^ 31 \<and> - (2 ^ 31) \<le> end_char rg \<and> end_char rg < 2 ^ 31"

definition given_range :: "rbs_location_range \<Rightarrow> bool" where
  "given_range rg \<longleftrightarrow> fits_range rg \<and> \<not> RBS_LOCATION_NULL_RANGE_P rg"

definition translatable_comment :: "rbs_ast_comment \<Rightarrow> bool" where
  "translatable_comment node \<longleftrightarrow>
     fits_range (comment_location node)"

definition translatable_annotation :: "rbs_ast_annotation \<Rightarrow> bool" where
  "translatable_annotation node \<longleftrightarrow>
     fits_range (annot_location node)"

primrec translatable_node :: "rbs_node \<Rightarrow> bool" where
  "translatable_node (Ast_Symbol _) \<longleftrightarrow> True"
| "translatable_node (Ast_Bool _ _) \<longleftrightarrow> True"
| "translatable_node (Ast_Integer _ _) \<longleftrightarrow> True"
| "translatable_node (Ast_String _ _) \<longleftrightarrow> True"
| "translatable_node (Types_Alias location _ args name_range args_range) \<longleftrightarrow>
     given_range location \<and> given_range name_range \<and> fits_range args_range \<and>
       valid_list (map translatable_node args)"
| "translatable_node (Types_Bases_Any location _) \<longleftrightarrow> fits_range location"
| "translatable_node (Types_Bases_Bool location) \<longleftrightarrow> fits_range location"
| "translatable_node (Types_Bases_Bottom location) \<longleftrightarrow> fits_range location"
| "translatable_node (Types_Bases_Class location) \<longleftrightarrow> fits_range location"
| "translatable_node (Types_Bases_Instance location) \<longleftrightarrow> fits_range location"
| "translatable_node (Types_Bases_Nil location) \<longleftrightarrow> fits_range location"
| "translatable_node (Types_Bases_Self location) \<longleftrightarrow> fits_range location"
| "translatable_node (Types_Bases_Top location) \<longleftrightarrow> fits_range location"
| "translatable_node (Types_Bases_Void location) \<longleftrightarrow> fits_range location"
| "translatable_node (Types_Block location type _ self_type) \<longleftrightarrow>
     fits_range location \<and> translatable_node type \<and>
       valid_nullable (map_option translatable_node self_type)"
| "translatable_node (Types_Class_Instance location _ args name_range args_range)
      \<longleftrightarrow>
     given_range location \<and> given_range name_range \<and> fits_range args_range \<and>
       valid_list (map translatable_node args)"
| "translatable_node (Types_Class_Singleton location _ args name_range args_range)
      \<longleftrightarrow>
     given_range location \<and> given_range name_range \<and> fits_range args_range \<and>
       valid_list (map translatable_node args)"
| "translatable_node (Types_Function _ required_positionals optional_positionals rest_positionals
      trailing_positionals required_keywords optional_keywords rest_keywords forwarding
      return_type) \<longleftrightarrow>
     valid_list (map translatable_node required_positionals) \<and>
       valid_list (map translatable_node optional_positionals) \<and>
       valid_nullable (map_option translatable_node rest_positionals) \<and>
       valid_list (map translatable_node trailing_positionals) \<and>
       valid_hash (map (map_prod translatable_node translatable_node) required_keywords) \<and>
       valid_hash (map (map_prod translatable_node translatable_node) optional_keywords) \<and>
       valid_nullable (map_option translatable_node rest_keywords) \<and>
       valid_nullable (map_option translatable_node forwarding) \<and>
       translatable_node return_type"
| "translatable_node (Types_Function_Forwarding_Param location) \<longleftrightarrow>
     fits_range location"
| "translatable_node (Types_Function_Param location type _ name_range) \<longleftrightarrow>
     given_range location \<and> fits_range name_range \<and> translatable_node type"
| "translatable_node (Types_Interface location _ args name_range args_range) \<longleftrightarrow>
     given_range location \<and> given_range name_range \<and> fits_range args_range \<and>
       valid_list (map translatable_node args)"
| "translatable_node (Types_Intersection location types) \<longleftrightarrow>
     fits_range location \<and> valid_list (map translatable_node types)"
| "translatable_node (Types_Literal location literal) \<longleftrightarrow>
     fits_range location \<and> translatable_node literal"
| "translatable_node (Types_Optional location type) \<longleftrightarrow>
     fits_range location \<and> translatable_node type"
| "translatable_node (Types_Proc location type block self_type) \<longleftrightarrow>
     fits_range location \<and> translatable_node type \<and>
       valid_nullable (map_option translatable_node block) \<and>
       valid_nullable (map_option translatable_node self_type)"
| "translatable_node (Types_Record location all_fields) \<longleftrightarrow>
     fits_range location \<and>
       valid_hash (map (map_prod translatable_node translatable_node) all_fields)"
| "translatable_node (Types_Record_Field_Type _ type _) \<longleftrightarrow> translatable_node type"
| "translatable_node (Types_Tuple location types) \<longleftrightarrow>
     fits_range location \<and> valid_list (map translatable_node types)"
| "translatable_node (Types_Union location types) \<longleftrightarrow>
     fits_range location \<and> valid_list (map translatable_node types)"
| "translatable_node (Types_Untyped_Function _ return_type) \<longleftrightarrow>
     translatable_node return_type"
| "translatable_node (Types_Variable location _) \<longleftrightarrow> fits_range location"

definition translatable_type_param :: "rbs_ast_type_param \<Rightarrow> bool" where
  "translatable_type_param node \<longleftrightarrow>
     given_range (tp_location node) \<and> given_range (tp_name_range node) \<and>
       fits_range (tp_variance_range node) \<and> fits_range (tp_unchecked_range node) \<and>
       fits_range (tp_upper_bound_range node) \<and> fits_range (tp_lower_bound_range node) \<and>
       fits_range (tp_default_range node) \<and>
       valid_nullable (map_option translatable_node (tp_upper_bound node)) \<and>
       valid_nullable (map_option translatable_node (tp_lower_bound node)) \<and>
       valid_nullable (map_option translatable_node (tp_default_type node))"

definition translatable_method_type :: "rbs_method_type \<Rightarrow> bool" where
  "translatable_method_type node \<longleftrightarrow>
     given_range (mt_location node) \<and> given_range (mt_type_range node) \<and>
       fits_range (mt_type_params_range node) \<and>
       valid_list (map translatable_type_param (mt_type_params node)) \<and>
       translatable_node (mt_type node) \<and>
       valid_nullable (map_option translatable_node (mt_block node))"

definition translatable_overload :: "rbs_ast_members_method_definition_overload \<Rightarrow> bool" where
  "translatable_overload node \<longleftrightarrow>
     valid_list (map translatable_annotation (overload_annotations node)) \<and>
       translatable_method_type (overload_method_type node)"

definition translatable_class_super :: "rbs_ast_declarations_class_super \<Rightarrow> bool" where
  "translatable_class_super node \<longleftrightarrow>
     given_range (super_location node) \<and> given_range (super_name_range node) \<and>
       fits_range (super_args_range node) \<and>
       valid_list (map translatable_node (super_args node))"

definition translatable_module_self :: "rbs_ast_declarations_module_self \<Rightarrow> bool" where
  "translatable_module_self node \<longleftrightarrow>
     given_range (mself_location node) \<and> given_range (mself_name_range node) \<and>
       fits_range (mself_args_range node) \<and>
       valid_list (map translatable_node (mself_args node))"

primrec translatable_member :: "rbs_member \<Rightarrow> bool" where
  "translatable_member (Ast_Declarations_Class location _ type_params super_class members
      annotations comment keyword_range name_range end_range type_params_range lt_range)
      \<longleftrightarrow>
     given_range location \<and> given_range keyword_range \<and> given_range name_range \<and>
       given_range end_range \<and> fits_range type_params_range \<and> fits_range lt_range \<and>
       valid_list (map translatable_type_param type_params) \<and>
       valid_nullable (map_option translatable_class_super super_class) \<and>
       valid_list (map translatable_member members) \<and>
       valid_list (map translatable_annotation annotations) \<and>
       valid_nullable (map_option translatable_comment comment)"
| "translatable_member (Ast_Declarations_Class_Alias location _ _ comment annotations keyword_range
      new_name_range eq_range old_name_range) \<longleftrightarrow>
     given_range location \<and> given_range keyword_range \<and> given_range new_name_range \<and>
       given_range eq_range \<and> given_range old_name_range \<and>
       valid_nullable (map_option translatable_comment comment) \<and>
       valid_list (map translatable_annotation annotations)"
| "translatable_member (Ast_Declarations_Constant location _ type comment annotations name_range
      colon_range) \<longleftrightarrow>
     given_range location \<and> given_range name_range \<and> given_range colon_range \<and>
       translatable_node type \<and>
       valid_nullable (map_option translatable_comment comment) \<and>
       valid_list (map translatable_annotation annotations)"
| "translatable_member (Ast_Declarations_Global location _ type comment annotations name_range
      colon_range) \<longleftrightarrow>
     given_range location \<and> given_range name_range \<and> given_range colon_range \<and>
       translatable_node type \<and>
       valid_nullable (map_option translatable_comment comment) \<and>
       valid_list (map translatable_annotation annotations)"
| "translatable_member (Ast_Declarations_Interface location _ type_params members annotations
      comment keyword_range name_range end_range type_params_range) \<longleftrightarrow>
     given_range location \<and> given_range keyword_range \<and> given_range name_range \<and>
       given_range end_range \<and> fits_range type_params_range \<and>
       valid_list (map translatable_type_param type_params) \<and>
       valid_list (map translatable_member members) \<and>
       valid_list (map translatable_annotation annotations) \<and>
       valid_nullable (map_option translatable_comment comment)"
| "translatable_member (Ast_Declarations_Module location _ type_params self_types members
      annotations comment keyword_range name_range end_range type_params_range colon_range
      self_types_range) \<longleftrightarrow>
     given_range location \<and> given_range keyword_range \<and> given_range name_range \<and>
       given_range end_range \<and> fits_range type_params_range \<and>
       fits_range colon_range \<and> fits_range self_types_range \<and>
       valid_list (map translatable_type_param type_params) \<and>
       valid_list (map translatable_module_self self_types) \<and>
       valid_list (map translatable_member members) \<and>
       valid_list (map translatable_annotation annotations) \<and>
       valid_nullable (map_option translatable_comment comment)"
| "translatable_member (Ast_Declarations_Module_Alias location _ _ comment annotations
      keyword_range new_name_range eq_range old_name_range) \<longleftrightarrow>
     given_range location \<and> given_range keyword_range \<and> given_range new_name_range \<and>
       given_range eq_range \<and> given_range old_name_range \<and>
       valid_nullable (map_option translatable_comment comment) \<and>
       valid_list (map translatable_annotation annotations)"
| "translatable_member (Ast_Declarations_Type_Alias location _ type_params type annotations comment
      keyword_range name_range eq_range type_params_range) \<longleftrightarrow>
     given_range location \<and> given_range keyword_range \<and> given_range name_range \<and>
       given_range eq_range \<and> fits_range type_params_range \<and>
       valid_list (map translatable_type_param type_params) \<and> translatable_node type \<and>
       valid_list (map translatable_annotation annotations) \<and>
       valid_nullable (map_option translatable_comment comment)"
| "translatable_member (Ast_Members_Alias location _ _ _ annotations comment keyword_range
      new_name_range old_name_range new_kind_range old_kind_range) \<longleftrightarrow>
     given_range location \<and> given_range keyword_range \<and> given_range new_name_range \<and>
       given_range old_name_range \<and> fits_range new_kind_range \<and>
       fits_range old_kind_range \<and>
       valid_list (map translatable_annotation annotations) \<and>
       valid_nullable (map_option translatable_comment comment)"
| "translatable_member (Ast_Members_Attr_Accessor location _ type _ _ annotations comment _
      keyword_range name_range colon_range kind_range ivar_range ivar_name_range
      visibility_range) \<longleftrightarrow>
     given_range location \<and> given_range keyword_range \<and> given_range name_range \<and>
       given_range colon_range \<and> fits_range kind_range \<and> fits_range ivar_range \<and>
       fits_range ivar_name_range \<and> fits_range visibility_range \<and>
       translatable_node type \<and> valid_list (map translatable_annotation annotations) \<and>
       valid_nullable (map_option translatable_comment comment)"
| "translatable_member (Ast_Members_Attr_Reader location _ type _ _ annotations comment _
      keyword_range name_range colon_range kind_range ivar_range ivar_name_range
      visibility_range) \<longleftrightarrow>
     given_range location \<and> given_range keyword_range \<and> given_range name_range \<and>
       given_range colon_range \<and> fits_range kind_range \<and> fits_range ivar_range \<and>
       fits_range ivar_name_range \<and> fits_range visibility_range \<and>
       translatable_node type \<and> valid_list (map translatable_annotation annotations) \<and>
       valid_nullable (map_option translatable_comment comment)"
| "translatable_member (Ast_Members_Attr_Writer location _ type _ _ annotations comment _
      keyword_range name_range colon_range kind_range ivar_range ivar_name_range
      visibility_range) \<longleftrightarrow>
     given_range location \<and> given_range keyword_range \<and> given_range name_range \<and>
       given_range colon_range \<and> fits_range kind_range \<and> fits_range ivar_range \<and>
       fits_range ivar_name_range \<and> fits_range visibility_range \<and>
       translatable_node type \<and> valid_list (map translatable_annotation annotations) \<and>
       valid_nullable (map_option translatable_comment comment)"
| "translatable_member (Ast_Members_Class_Instance_Variable location _ type comment name_range
      colon_range kind_range) \<longleftrightarrow>
     given_range location \<and> given_range name_range \<and> given_range colon_range \<and>
       fits_range kind_range \<and> translatable_node type \<and>
       valid_nullable (map_option translatable_comment comment)"
| "translatable_member (Ast_Members_Class_Variable location _ type comment name_range colon_range
      kind_range) \<longleftrightarrow>
     given_range location \<and> given_range name_range \<and> given_range colon_range \<and>
       fits_range kind_range \<and> translatable_node type \<and>
       valid_nullable (map_option translatable_comment comment)"
| "translatable_member (Ast_Members_Extend location _ args annotations comment name_range
      keyword_range args_range) \<longleftrightarrow>
     given_range location \<and> given_range name_range \<and> given_range keyword_range \<and>
       fits_range args_range \<and> valid_list (map translatable_node args) \<and>
       valid_list (map translatable_annotation annotations) \<and>
       valid_nullable (map_option translatable_comment comment)"
| "translatable_member (Ast_Members_Include location _ args annotations comment name_range
      keyword_range args_range) \<longleftrightarrow>
     given_range location \<and> given_range name_range \<and> given_range keyword_range \<and>
       fits_range args_range \<and> valid_list (map translatable_node args) \<and>
       valid_list (map translatable_annotation annotations) \<and>
       valid_nullable (map_option translatable_comment comment)"
| "translatable_member (Ast_Members_Instance_Variable location _ type comment name_range
      colon_range kind_range) \<longleftrightarrow>
     given_range location \<and> given_range name_range \<and> given_range colon_range \<and>
       fits_range kind_range \<and> translatable_node type \<and>
       valid_nullable (map_option translatable_comment comment)"
| "translatable_member (Ast_Members_Method_Definition location _ _ overloads annotations comment _
      _ keyword_range name_range kind_range overloading_range visibility_range)
      \<longleftrightarrow>
     given_range location \<and> given_range keyword_range \<and> given_range name_range \<and>
       fits_range kind_range \<and> fits_range overloading_range \<and>
       fits_range visibility_range \<and> valid_list (map translatable_overload overloads) \<and>
       valid_list (map translatable_annotation annotations) \<and>
       valid_nullable (map_option translatable_comment comment)"
| "translatable_member (Ast_Members_Prepend location _ args annotations comment name_range
      keyword_range args_range) \<longleftrightarrow>
     given_range location \<and> given_range name_range \<and> given_range keyword_range \<and>
       fits_range args_range \<and> valid_list (map translatable_node args) \<and>
       valid_list (map translatable_annotation annotations) \<and>
       valid_nullable (map_option translatable_comment comment)"
| "translatable_member (Ast_Members_Private location) \<longleftrightarrow> fits_range location"
| "translatable_member (Ast_Members_Public location) \<longleftrightarrow> fits_range location"

primrec translatable_use_clause :: "rbs_use_clause \<Rightarrow> bool" where
  "translatable_use_clause (Ast_Directives_Use_Single_Clause location _ _ type_name_range
      keyword_range new_name_range) \<longleftrightarrow>
     given_range location \<and> given_range type_name_range \<and> fits_range keyword_range \<and>
       fits_range new_name_range"
| "translatable_use_clause (Ast_Directives_Use_Wildcard_Clause location _ namespace_range
      star_range) \<longleftrightarrow>
     given_range location \<and> given_range namespace_range \<and> given_range star_range"

definition translatable_use :: "rbs_ast_directives_use \<Rightarrow> bool" where
  "translatable_use node \<longleftrightarrow>
     given_range (use_location node) \<and> given_range (use_keyword_range node) \<and>
       valid_list (map translatable_use_clause (use_clauses node))"

definition translatable_signature :: "rbs_signature \<Rightarrow> bool" where
  "translatable_signature node \<longleftrightarrow>
     valid_list (map translatable_use (sig_directives node)) \<and>
       valid_list (map translatable_member (sig_declarations node))"

primrec translatable_ruby_annotation :: "rbs_ruby_annotation \<Rightarrow> bool" where
  "translatable_ruby_annotation (Ast_Ruby_Annotations_Block_Param_Type_Annotation location
      prefix_location ampersand_location name_location colon_location question_location
      type_location type comment_loc) \<longleftrightarrow>
     fits_range location \<and> fits_range prefix_location \<and> fits_range ampersand_location \<and>
       fits_range name_location \<and> fits_range colon_location \<and>
       fits_range question_location \<and> fits_range type_location \<and>
       translatable_node type \<and> fits_range comment_loc"
| "translatable_ruby_annotation (Ast_Ruby_Annotations_Class_Alias_Annotation location
      prefix_location keyword_location _ type_name_location) \<longleftrightarrow>
     fits_range location \<and> fits_range prefix_location \<and> fits_range keyword_location \<and>
       fits_range type_name_location"
| "translatable_ruby_annotation (Ast_Ruby_Annotations_Colon_Method_Type_Annotation location
      prefix_location annotations method_type) \<longleftrightarrow>
     fits_range location \<and> fits_range prefix_location \<and>
       valid_list (map translatable_annotation annotations) \<and>
       translatable_method_type method_type"
| "translatable_ruby_annotation (Ast_Ruby_Annotations_Double_Splat_Param_Type_Annotation location
      prefix_location star2_location name_location colon_location param_type comment_loc)
      \<longleftrightarrow>
     fits_range location \<and> fits_range prefix_location \<and> fits_range star2_location \<and>
       fits_range name_location \<and> fits_range colon_location \<and>
       translatable_node param_type \<and> fits_range comment_loc"
| "translatable_ruby_annotation (Ast_Ruby_Annotations_Instance_Variable_Annotation location
      prefix_location _ ivar_name_location colon_location type comment_loc)
      \<longleftrightarrow>
     fits_range location \<and> fits_range prefix_location \<and> fits_range ivar_name_location \<and>
       fits_range colon_location \<and> translatable_node type \<and> fits_range comment_loc"
| "translatable_ruby_annotation (Ast_Ruby_Annotations_Method_Types_Annotation location
      prefix_location overloads vertical_bar_locations dot3_location) \<longleftrightarrow>
     fits_range location \<and> fits_range prefix_location \<and>
       valid_list (map translatable_overload overloads) \<and>
       valid_list (map fits_range vertical_bar_locations) \<and> fits_range dot3_location"
| "translatable_ruby_annotation (Ast_Ruby_Annotations_Module_Alias_Annotation location
      prefix_location keyword_location _ type_name_location) \<longleftrightarrow>
     fits_range location \<and> fits_range prefix_location \<and> fits_range keyword_location \<and>
       fits_range type_name_location"
| "translatable_ruby_annotation (Ast_Ruby_Annotations_Module_Self_Annotation location
      prefix_location keyword_location colon_location _ args open_bracket_location
      close_bracket_location args_comma_locations comment_loc) \<longleftrightarrow>
     fits_range location \<and> fits_range prefix_location \<and> fits_range keyword_location \<and>
       fits_range colon_location \<and> valid_list (map translatable_node args) \<and>
       fits_range open_bracket_location \<and> fits_range close_bracket_location \<and>
       valid_list (map fits_range args_comma_locations) \<and> fits_range comment_loc"
| "translatable_ruby_annotation (Ast_Ruby_Annotations_Node_Type_Assertion location prefix_location
      type) \<longleftrightarrow>
     fits_range location \<and> fits_range prefix_location \<and> translatable_node type"
| "translatable_ruby_annotation (Ast_Ruby_Annotations_Param_Type_Annotation location
      prefix_location name_location colon_location param_type comment_loc) \<longleftrightarrow>
     fits_range location \<and> fits_range prefix_location \<and> fits_range name_location \<and>
       fits_range colon_location \<and> translatable_node param_type \<and> fits_range comment_loc"
| "translatable_ruby_annotation (Ast_Ruby_Annotations_Return_Type_Annotation location
      prefix_location return_location colon_location return_type comment_loc)
      \<longleftrightarrow>
     fits_range location \<and> fits_range prefix_location \<and> fits_range return_location \<and>
       fits_range colon_location \<and> translatable_node return_type \<and>
       fits_range comment_loc"
| "translatable_ruby_annotation (Ast_Ruby_Annotations_Skip_Annotation location prefix_location
      skip_location comment_loc) \<longleftrightarrow>
     fits_range location \<and> fits_range prefix_location \<and> fits_range skip_location \<and>
       fits_range comment_loc"
| "translatable_ruby_annotation (Ast_Ruby_Annotations_Splat_Param_Type_Annotation location
      prefix_location star_location name_location colon_location param_type comment_loc)
      \<longleftrightarrow>
     fits_range location \<and> fits_range prefix_location \<and> fits_range star_location \<and>
       fits_range name_location \<and> fits_range colon_location \<and>
       translatable_node param_type \<and> fits_range comment_loc"
| "translatable_ruby_annotation (Ast_Ruby_Annotations_Type_Application_Annotation location
      prefix_location type_args close_bracket_location comma_locations) \<longleftrightarrow>
     fits_range location \<and> fits_range prefix_location \<and>
       valid_list (map translatable_node type_args) \<and>
       fits_range close_bracket_location \<and> valid_list (map fits_range comma_locations)"

end
