(* ===== verification/AstTranslationProps.thy ===== *)
theory AstTranslationProps
  imports Translatable SerializeProps
begin

text \<open>
  The two ways to Ruby objects agree: the C extension makes the object that a tree stands for
  (\<open>view_node\<close> and so on), and that is what the reader makes of the bytes of the serializer.
\<close>

subsection \<open>Locations\<close>

lemma as_i32_fits: "- (2 ^ 31) \<le> i \<Longrightarrow> i < 2 ^ 31 \<Longrightarrow> as_i32 i = i"
  by (simp add: as_i32_def sint_sbintrunc' signed_take_bit_int_eq_self)

lemma view_range_fits: "fits_range rg \<Longrightarrow>
    view_range rg = (if start_char rg = -1 then None else Some (start_char rg, end_char rg))"
  by (simp add: view_range_def RBS_LOCATION_NULL_RANGE_P_def fits_range_def as_i32_fits)

lemma location_object_new:
  "location_object (rbs_new_location2 buf i j) = Ruby_location i j []"
  by (simp add: location_object_def rbs_new_location2_def rbs_loc_init_def location_start_pos_def location_end_pos_def loc_entries_def)

lemma location_value: "fits_range rg \<Longrightarrow> nil_or_location (rbs_location_range_to_ruby_location ctx rg) = view_location rg"
  by (simp add: nil_or_location_def rbs_location_range_to_ruby_location_def view_location_def view_range_fits make_location_def
    location_object_new RBS_LOCATION_NULL_RANGE_P_def)

lemma location_values: "valid_list (map fits_range rgs) \<Longrightarrow>
    rbs_location_range_list_to_ruby_array ctx rgs = Ruby_array (map view_location rgs)"
  by (simp add: rbs_location_range_list_to_ruby_array_def location_value valid_parts)

text \<open>There is room for all children, and each is added at the end.\<close>

definition loc_room :: "rbs_loc \<Rightarrow> nat \<Rightarrow> bool" where
  "loc_room loc n \<longleftrightarrow> (case loc_children loc of None \<Rightarrow> False
     | Some ch \<Rightarrow> ch_len ch + n \<le> ch_cap ch \<and> ch_cap ch \<le> 32 \<and> length (ch_entries ch) = ch_cap ch \<and>
         (\<forall>i. ch_len ch \<le> i \<longrightarrow> \<not> bit (ch_required_p ch) i))"

definition shown_range :: "bool \<Rightarrow> rbs_location_range \<Rightarrow> (int \<times> int) option" where
  "shown_range required rg = (if \<not> required \<and> start_char rg = -1 then None else Some (start_char rg, end_char rg))"

lemma add_child_value:
  assumes "loc_room loc (Suc n)"
  shows "\<exists>loc'. add_location_child loc (name, required, rg) = Inr loc' \<and> loc_room loc' n \<and> loc_rg loc' = loc_rg loc \<and>
    loc_entries loc' = loc_entries loc @ [(name, required, shown_range required rg)]"
proof -
  obtain ch where ch: "loc_children loc = Some ch" and len: "ch_len ch + Suc n \<le> ch_cap ch" "ch_cap ch \<le> 32"
    "length (ch_entries ch) = ch_cap ch" and unset: "\<forall>i. ch_len ch \<le> i \<longrightarrow> \<not> bit (ch_required_p ch) i"
    using assms by (auto simp: loc_room_def split: option.splits)
  let ?r = "\<lparr>rg_start = start_char rg, rg_end = end_char rg\<rparr>"
  let ?ch = "child_added ch name ?r required"
  have opt: "rbs_loc_legacy_add_optional_child loc name ?r = Inr (loc\<lparr>loc_children := Some (child_added ch name ?r False)\<rparr>)"
    using ch len by (simp add: rbs_loc_legacy_add_optional_child_def check_children_cap_def child_added_def Let_def)
  then have "add_location_child loc (name, required, rg) = Inr (loc\<lparr>loc_children := Some ?ch\<rparr>)"
    using add_required_value [OF opt] by (simp add: add_location_child_def)
  moreover have "loc_room (loc\<lparr>loc_children := Some ?ch\<rparr>) n"
    using len unset by (simp add: loc_room_def child_added_def bit_simps)
  moreover have "loc_entries (loc\<lparr>loc_children := Some ?ch\<rparr>) = loc_entries loc @ [(name, required, shown_range required rg)]"
  proof -
    have room: "ch_len ch < length (ch_entries ch)" "ch_len ch < 32" using len by simp_all
    have "loc_entry ?ch i = loc_entry ch i" if "i < ch_len ch" for i
      using child_added_at(1) [OF room unset that, of name ?r required] by (simp add: loc_entry_def RBS_LOC_OPTIONAL_P_def)
    moreover have "loc_entry ?ch (ch_len ch) = (name, required, shown_range required rg)"
      using child_added_at(2) [OF room unset, of name ?r required]
      by (simp add: loc_entry_def RBS_LOC_OPTIONAL_P_def NULL_LOC_RANGE_P_def shown_range_def Let_def)
    moreover have "ch_len ?ch = Suc (ch_len ch)" by (simp add: child_added_def)
    ultimately show ?thesis
      using ch by (simp add: loc_entries_def)
  qed
  ultimately show ?thesis by auto
qed

lemma add_children_value:
  "loc_room loc (length children) \<Longrightarrow> \<exists>loc'. add_location_children loc children = Inr loc' \<and> loc_rg loc' = loc_rg loc \<and>
     loc_entries loc' = loc_entries loc @ map (\<lambda>(name, required, rg). (name, required, shown_range required rg)) children"
proof (induction children arbitrary: loc)
  case (Cons child children)
  obtain name required rg where child: "child = (name, required, rg)" by (cases child)
  from add_child_value [of loc "length children" name required rg] Cons.prems
  obtain loc1 where "add_location_child loc child = Inr loc1" "loc_room loc1 (length children)" "loc_rg loc1 = loc_rg loc"
    "loc_entries loc1 = loc_entries loc @ [(name, required, shown_range required rg)]"
    by (auto simp: child)
  with Cons.IH [of loc1] show ?case by (auto simp: child)
qed simp

subsection \<open>Objects\<close>

lemma arguments_nil: "keyword_arguments [] = Inr []"
  by simp

lemma arguments_cons: "t = Inr v \<Longrightarrow> keyword_arguments args = Inr kw \<Longrightarrow> keyword_arguments ((n, t) # args) = Inr ((n, v) # kw)"
  by simp

lemma new_object_ok: "keyword_arguments args = Inr kw \<Longrightarrow> CLASS_NEW_INSTANCE k loc args = Inr (Ruby_object k loc kw)"
  by (simp add: CLASS_NEW_INSTANCE_def)

lemma new_with_location_ok:
  "fits_range location \<Longrightarrow> keyword_arguments args = Inr kw \<Longrightarrow> new_with_location ctx k location args = Inr (located_object k location [] kw)"
  by (simp add: new_with_location_def new_object_ok located_object_def location_value view_location_def)

definition child_given :: "string \<times> bool \<times> rbs_location_range \<Rightarrow> bool" where
  "child_given child \<longleftrightarrow> fits_range (snd (snd child)) \<and> (fst (snd child) \<longrightarrow> \<not> RBS_LOCATION_NULL_RANGE_P (snd (snd child)))"

lemma children_given:
  "list_all child_given []"
  "given_range rg \<Longrightarrow> list_all child_given cs \<Longrightarrow> list_all child_given ((n, True, rg) # cs)"
  "fits_range rg \<Longrightarrow> list_all child_given cs \<Longrightarrow> list_all child_given ((n, False, rg) # cs)"
  by (simp_all add: child_given_def given_range_def)

lemma new_with_children_ok:
  assumes "given_range location" and "cap \<le> 32" and "length children \<le> cap" and "list_all child_given children"
    and "keyword_arguments args = Inr kw"
  shows "new_with_children ctx k location cap children args = Inr (located_object k location children kw)"
proof -
  let ?loc = "rbs_new_location2 (tr_buffer ctx) (start_char location) (end_char location)"
  let ?new = "?loc\<lparr>loc_children := Some \<lparr>ch_len = 0, ch_cap = cap, ch_required_p = 0, ch_entries = replicate cap zero_entry\<rparr>\<rparr>"
  have "loc_room ?new (length children)" "loc_entries ?new = []"
    using assms(2,3) by (simp_all add: loc_room_def loc_entries_def)
  with add_children_value [of ?new children] obtain loc where
    loc: "add_location_children ?new children = Inr loc" "loc_rg loc = loc_rg ?new"
      "loc_entries loc = map (\<lambda>(name, required, rg). (name, required, shown_range required rg)) children"
    by auto
  have "rbs_loc_legacy_alloc_children ?loc cap = Inr ?new"
    using assms(2) by (simp add: rbs_loc_legacy_alloc_children_def check_children_max_def)
  moreover have "rbs_check_location (rbs_location_range_to_ruby_location ctx location) = Inr ?loc"
    using assms(1) by (simp add: rbs_check_location_def rbs_location_range_to_ruby_location_def given_range_def)
  ultimately have result: "new_with_children ctx k location cap children args = Inr (Ruby_object k (Some (location_object loc)) kw)"
    using loc(1) assms(5) by (simp add: new_with_children_def new_object_ok)
  have shown: "shown_range q rg = view_range rg \<and> (q \<longrightarrow> view_range rg \<noteq> None)" if "(n, q, rg) \<in> set children" for n q rg
    using that assms(4) by (auto simp: list_all_iff child_given_def view_range_fits shown_range_def RBS_LOCATION_NULL_RANGE_P_def)
  have "loc_entries loc = map (\<lambda>(name, required, rg). (name, required, view_range rg)) children"
    unfolding loc(3) using shown by (intro map_cong) auto
  moreover have "filter (\<lambda>(_, required, rg). required \<longrightarrow> rg \<noteq> None) (map (\<lambda>(name, required, rg). (name, required, view_range rg)) children) =
      map (\<lambda>(name, required, rg). (name, required, view_range rg)) children"
    using shown by (intro filter_True) auto
  ultimately have "location_object loc = make_location (view_range location) (map (\<lambda>(name, required, rg). (name, required, view_range rg)) children)"
    using assms(1) loc(2) by (simp add: location_object_def make_location_def view_range_fits given_range_def RBS_LOCATION_NULL_RANGE_P_def
      location_start_pos_def location_end_pos_def rbs_new_location2_def rbs_loc_init_def)
  then show ?thesis by (simp add: result located_object_def)
qed

subsection \<open>The values of arguments\<close>

lemma nodes_value: "\<forall>x\<in>set xs. f x = Inr (g x) \<Longrightarrow> rbs_nodes_to_ruby (map f xs) = Inr (map g xs)"
  by (induction xs) auto

lemma node_list_value: "(\<And>x. x \<in> set xs \<Longrightarrow> f x = Inr (g x)) \<Longrightarrow> rbs_node_list_to_ruby_array (map f xs) = Inr (Ruby_array (map g xs))"
  using nodes_value [of xs f g] by (simp add: rbs_node_list_to_ruby_array_def)

lemma entries_value: "\<forall>x\<in>fst ` set h \<union> snd ` set h. f x = Inr (g x) \<Longrightarrow>
    rbs_entries_to_ruby (map (map_prod f f) h) = Inr (map (map_prod g g) h)"
  by (induction h) auto

lemma hash_value: "(\<And>x. x \<in> fst ` set h \<union> snd ` set h \<Longrightarrow> f x = Inr (g x)) \<Longrightarrow>
    rbs_hash_to_ruby_hash (map (map_prod f f) h) = Inr (Ruby_hash (map (map_prod g g) h))"
  using entries_value [of h f g] by (simp add: rbs_hash_to_ruby_hash_def)

lemma nullable_value: "(\<And>x. y = Some x \<Longrightarrow> f x = Inr (g x)) \<Longrightarrow>
    rbs_struct_to_ruby_value (map_option f y) = Inr (view_nullable (map_option g y))"
  by (cases y) (simp_all add: rbs_struct_to_ruby_value_def view_nullable_def)

lemma enum_values:
  "Inr (rbs_attribute_visibility_to_ruby av) = Inr (Ruby_enum (attribute_visibility_view av))"
  "Inr (rbs_attribute_kind_to_ruby ak) = Inr (Ruby_enum (attribute_kind_view ak))"
  "Inr (rbs_alias_kind_to_ruby lk) = Inr (Ruby_enum (alias_kind_view lk))"
  "Inr (rbs_method_definition_kind_to_ruby mk) = Inr (Ruby_enum (method_definition_kind_view mk))"
  "Inr (rbs_method_definition_visibility_to_ruby mv) = Inr (Ruby_enum (method_definition_visibility_view mv))"
  "Inr (rbs_type_param_variance_to_ruby tv) = Inr (Ruby_enum (type_param_variance_view tv))"
  subgoal by (cases av) simp_all
  subgoal by (cases ak) simp_all
  subgoal by (cases lk) simp_all
  subgoal by (cases mk) simp_all
  subgoal by (cases mv) simp_all
  subgoal by (cases tv) simp_all
  done

lemma constant_value: "valid_id pool k \<Longrightarrow> tr_constant_pool ctx = pool \<Longrightarrow>
    constant_to_symbol ctx k = Inr (Ruby_symbol (constant_name pool k))"
  by (simp add: constant_to_symbol_def rbs_constant_pool_id_to_constant_def valid_id_def constant_name_def RBS_CONSTANT_ID_UNSET_def)

lemma ivar_name_value: "valid_ivar_name pool ivar \<Longrightarrow> tr_constant_pool ctx = pool \<Longrightarrow>
    rbs_attr_ivar_name_to_ruby ctx ivar = Inr (view_ivar_name pool ivar)"
  by (cases "attr_ivar_tag ivar") (simp_all add: rbs_attr_ivar_name_to_ruby_def view_ivar_name_def valid_ivar_name_def constant_value)

lemma string_value: "string_inside s \<Longrightarrow> rbs_string_to_ruby_string s = Inr (Ruby_string (string_bytes s))"
  by (simp add: rbs_string_to_ruby_string_def string_inside_def)

lemma location_argument: "fits_range rg \<Longrightarrow>
    Inr (nil_or_location (rbs_location_range_to_ruby_location ctx rg)) = Inr (view_location rg)"
  by (simp add: location_value)

lemma locations_argument: "valid_list (map fits_range rgs) \<Longrightarrow>
    Inr (rbs_location_range_list_to_ruby_array ctx rgs) = Inr (Ruby_array (map view_location rgs))"
  by (simp add: location_values)

subsection \<open>Types\<close>

lemma symbol_translated: "valid_symbol pool node \<Longrightarrow> tr_constant_pool ctx = pool \<Longrightarrow> symbol_to_ruby ctx node = Inr (view_symbol pool node)"
  by (simp add: symbol_to_ruby_def valid_symbol_def view_symbol_def constant_value)

lemma namespace_translated:
  assumes "valid_namespace pool node" and "tr_constant_pool ctx = pool"
  shows "namespace_to_ruby ctx node = Inr (view_namespace pool node)"
proof -
  have "rbs_node_list_to_ruby_array (map (symbol_to_ruby ctx) (ns_path node)) = Inr (Ruby_array (map (view_symbol pool) (ns_path node)))"
    using assms by (intro node_list_value symbol_translated) (auto simp: valid_namespace_def valid_list_def)
  then show ?thesis by (simp add: namespace_to_ruby_def view_namespace_def)
qed

lemma type_name_translated: "valid_type_name pool node \<Longrightarrow> tr_constant_pool ctx = pool \<Longrightarrow>
    type_name_to_ruby ctx node = Inr (view_type_name pool node)"
  by (simp add: type_name_to_ruby_def valid_type_name_def view_type_name_def namespace_translated [of pool] symbol_translated [of pool])

lemmas argument_rules = arguments_nil arguments_cons node_list_value hash_value nullable_value enum_values refl
  ivar_name_value string_value location_argument locations_argument symbol_translated namespace_translated type_name_translated

lemmas node_cases =
  ast_bool_to_ruby_def ast_integer_to_ruby_def ast_string_to_ruby_def types_alias_to_ruby_def
  types_bases_any_to_ruby_def types_bases_bool_to_ruby_def types_bases_bottom_to_ruby_def
  types_bases_class_to_ruby_def types_bases_instance_to_ruby_def types_bases_nil_to_ruby_def
  types_bases_self_to_ruby_def types_bases_top_to_ruby_def types_bases_void_to_ruby_def
  types_block_to_ruby_def types_class_instance_to_ruby_def types_class_singleton_to_ruby_def
  types_function_to_ruby_def types_function_forwarding_param_to_ruby_def types_function_param_to_ruby_def
  types_interface_to_ruby_def types_intersection_to_ruby_def types_literal_to_ruby_def
  types_optional_to_ruby_def types_proc_to_ruby_def types_record_to_ruby_def
  types_record_field_type_to_ruby_def types_tuple_to_ruby_def types_union_to_ruby_def
  types_untyped_function_to_ruby_def types_variable_to_ruby_def

lemma child_translatable: "translatable_node node \<Longrightarrow> child_of node x \<Longrightarrow> translatable_node x"
  by (cases node) (auto simp: child_simps valid_parts)

lemma node_translated:
  "valid_node pool node \<Longrightarrow> translatable_node node \<Longrightarrow> tr_constant_pool ctx = pool \<Longrightarrow>
   node_to_ruby ctx node = Inr (view_node pool node)"
proof (induction "size node" arbitrary: node rule: less_induct)
  case less
  have IH: "node_to_ruby ctx x = Inr (view_node pool x)" if "child_of node x" for x
    using less child_size [OF that] child_valid [OF less.prems(1) that] child_translatable [OF less.prems(2) that] by blast
  show ?case
    by (insert less.prems; cases node; simp only: node_to_ruby.simps view_node.simps node_cases;
      ((rule new_with_children_ok; (intro argument_rules IH children_given)?)
        | (rule new_with_location_ok; (intro argument_rules IH)?)
        | (rule new_object_ok, intro argument_rules IH)
        | (rule symbol_translated)
        | (simp add: string_inside_def IH child_simps));
      (simp add: child_simps valid_parts)?)
qed

subsection \<open>Declarations and members\<close>

lemma comment_translated: "valid_comment pool node \<Longrightarrow> translatable_comment node \<Longrightarrow> tr_constant_pool ctx = pool \<Longrightarrow>
    comment_to_ruby ctx node = Inr (view_comment pool node)"
  unfolding comment_to_ruby_def view_comment_def
  by (rule new_with_location_ok; (intro argument_rules )?; (simp add: valid_comment_def translatable_comment_def valid_parts)?)

lemma annotation_translated: "valid_annotation pool node \<Longrightarrow> translatable_annotation node \<Longrightarrow> tr_constant_pool ctx = pool \<Longrightarrow>
    annotation_to_ruby ctx node = Inr (view_annotation pool node)"
  unfolding annotation_to_ruby_def view_annotation_def
  by (rule new_with_location_ok; (intro argument_rules )?; (simp add: valid_annotation_def translatable_annotation_def valid_parts)?)

lemma type_param_translated: "valid_type_param pool node \<Longrightarrow> translatable_type_param node \<Longrightarrow> tr_constant_pool ctx = pool \<Longrightarrow>
    type_param_to_ruby ctx node = Inr (view_type_param pool node)"
  unfolding type_param_to_ruby_def view_type_param_def
  by (rule new_with_children_ok; (intro argument_rules node_translated children_given)?; (simp add: valid_type_param_def translatable_type_param_def valid_parts)?)

lemma method_type_translated: "valid_method_type pool node \<Longrightarrow> translatable_method_type node \<Longrightarrow> tr_constant_pool ctx = pool \<Longrightarrow>
    method_type_to_ruby ctx node = Inr (view_method_type pool node)"
  unfolding method_type_to_ruby_def view_method_type_def
  by (rule new_with_children_ok; (intro argument_rules node_translated type_param_translated children_given)?; (simp add: valid_method_type_def translatable_method_type_def valid_parts)?)

lemma overload_translated: "valid_overload pool node \<Longrightarrow> translatable_overload node \<Longrightarrow> tr_constant_pool ctx = pool \<Longrightarrow>
    overload_to_ruby ctx node = Inr (view_overload pool node)"
  unfolding overload_to_ruby_def view_overload_def
  by (rule new_object_ok; (intro argument_rules annotation_translated method_type_translated)?; (simp add: valid_overload_def translatable_overload_def valid_parts)?)

lemma class_super_translated: "valid_class_super pool node \<Longrightarrow> translatable_class_super node \<Longrightarrow> tr_constant_pool ctx = pool \<Longrightarrow>
    class_super_to_ruby ctx node = Inr (view_class_super pool node)"
  unfolding class_super_to_ruby_def view_class_super_def
  by (rule new_with_children_ok; (intro argument_rules node_translated children_given)?; (simp add: valid_class_super_def translatable_class_super_def valid_parts)?)

lemma module_self_translated: "valid_module_self pool node \<Longrightarrow> translatable_module_self node \<Longrightarrow> tr_constant_pool ctx = pool \<Longrightarrow>
    module_self_to_ruby ctx node = Inr (view_module_self pool node)"
  unfolding module_self_to_ruby_def view_module_self_def
  by (rule new_with_children_ok; (intro argument_rules node_translated children_given)?; (simp add: valid_module_self_def translatable_module_self_def valid_parts)?)

lemmas decl_translated = node_translated comment_translated annotation_translated type_param_translated
  method_type_translated overload_translated class_super_translated module_self_translated

lemmas member_cases =
  ast_declarations_class_to_ruby_def ast_declarations_class_alias_to_ruby_def
  ast_declarations_constant_to_ruby_def ast_declarations_global_to_ruby_def
  ast_declarations_interface_to_ruby_def ast_declarations_module_to_ruby_def
  ast_declarations_module_alias_to_ruby_def ast_declarations_type_alias_to_ruby_def
  ast_members_alias_to_ruby_def ast_members_attr_accessor_to_ruby_def ast_members_attr_reader_to_ruby_def
  ast_members_attr_writer_to_ruby_def ast_members_class_instance_variable_to_ruby_def
  ast_members_class_variable_to_ruby_def ast_members_extend_to_ruby_def ast_members_include_to_ruby_def
  ast_members_instance_variable_to_ruby_def ast_members_method_definition_to_ruby_def
  ast_members_prepend_to_ruby_def ast_members_private_to_ruby_def ast_members_public_to_ruby_def

lemma member_translatable: "translatable_member m \<Longrightarrow> x \<in> set (member_members m) \<Longrightarrow> translatable_member x"
  by (cases m) (auto simp: member_members_def valid_parts)

lemma member_translated:
  "valid_member pool node \<Longrightarrow> translatable_member node \<Longrightarrow> tr_constant_pool ctx = pool \<Longrightarrow>
   member_to_ruby ctx node = Inr (view_member pool node)"
proof (induction "size node" arbitrary: node rule: less_induct)
  case less
  have IH: "member_to_ruby ctx x = Inr (view_member pool x)" if "x \<in> set (member_members node)" for x
    using less member_size [OF that] member_valid [OF less.prems(1) that] member_translatable [OF less.prems(2) that] by blast
  show ?case
    by (insert less.prems; cases node; simp only: member_to_ruby.simps view_member.simps member_cases;
      ((rule new_with_children_ok; (intro argument_rules decl_translated IH children_given)?)
        | (rule new_with_location_ok; (intro argument_rules decl_translated IH)?));
      (simp add: member_members_def valid_parts)?)
qed

subsection \<open>Signatures and annotations\<close>

lemmas clause_cases =
  ast_directives_use_single_clause_to_ruby_def ast_directives_use_wildcard_clause_to_ruby_def

lemma use_clause_translated: "valid_use_clause pool node \<Longrightarrow> translatable_use_clause node \<Longrightarrow> tr_constant_pool ctx = pool \<Longrightarrow>
    use_clause_to_ruby ctx node = Inr (view_use_clause pool node)"
  by (cases node; simp only: use_clause_to_ruby.simps view_use_clause.simps clause_cases;
    (rule new_with_children_ok; (intro argument_rules children_given)?); (simp add: valid_parts)?)

lemma use_translated: "valid_use pool node \<Longrightarrow> translatable_use node \<Longrightarrow> tr_constant_pool ctx = pool \<Longrightarrow>
    use_to_ruby ctx node = Inr (view_use pool node)"
  unfolding use_to_ruby_def view_use_def
  by (rule new_with_children_ok; (intro argument_rules use_clause_translated children_given)?; (simp add: valid_use_def translatable_use_def valid_parts)?)

lemma signature_translated:
  assumes "valid_signature pool node" and "translatable_signature node" and "tr_constant_pool ctx = pool"
  shows "signature_to_ruby ctx node = Inr (view_signature pool node)"
proof -
  have "rbs_node_list_to_ruby_array (map (use_to_ruby ctx) (sig_directives node)) = Inr (Ruby_array (map (view_use pool) (sig_directives node)))"
    "rbs_node_list_to_ruby_array (map (member_to_ruby ctx) (sig_declarations node)) = Inr (Ruby_array (map (view_member pool) (sig_declarations node)))"
    using assms by (intro node_list_value use_translated member_translated; simp add: valid_signature_def translatable_signature_def valid_parts)+
  then show ?thesis by (simp add: signature_to_ruby_def view_signature_def)
qed

lemmas annotation_cases =
  ast_ruby_annotations_block_param_type_annotation_to_ruby_def
  ast_ruby_annotations_class_alias_annotation_to_ruby_def
  ast_ruby_annotations_colon_method_type_annotation_to_ruby_def
  ast_ruby_annotations_double_splat_param_type_annotation_to_ruby_def
  ast_ruby_annotations_instance_variable_annotation_to_ruby_def
  ast_ruby_annotations_method_types_annotation_to_ruby_def
  ast_ruby_annotations_module_alias_annotation_to_ruby_def
  ast_ruby_annotations_module_self_annotation_to_ruby_def
  ast_ruby_annotations_node_type_assertion_to_ruby_def
  ast_ruby_annotations_param_type_annotation_to_ruby_def
  ast_ruby_annotations_return_type_annotation_to_ruby_def
  ast_ruby_annotations_skip_annotation_to_ruby_def
  ast_ruby_annotations_splat_param_type_annotation_to_ruby_def
  ast_ruby_annotations_type_application_annotation_to_ruby_def

lemma ruby_annotation_translated:
  "valid_ruby_annotation pool node \<Longrightarrow> translatable_ruby_annotation node \<Longrightarrow> tr_constant_pool ctx = pool \<Longrightarrow>
   ruby_annotation_to_ruby ctx node = Inr (view_ruby_annotation pool node)"
  by (cases node; simp only: ruby_annotation_to_ruby.simps view_ruby_annotation.simps annotation_cases;
    ((rule new_with_children_ok; (intro argument_rules decl_translated children_given)?)
      | (rule new_with_location_ok; (intro argument_rules decl_translated)?));
    (simp add: valid_parts)?)

text \<open>The wildcard clause of \<open>use *\<close>, whose location starts where no namespace does.\<close>

lemma wildcard_without_namespace:
  "start_char location = -1 \<Longrightarrow>
   use_clause_to_ruby ctx (Ast_Directives_Use_Wildcard_Clause location ns ns_range star_range) = Inl Not_a_location"
  by (simp add: clause_cases new_with_children_def rbs_location_range_to_ruby_location_def RBS_LOCATION_NULL_RANGE_P_def
    rbs_check_location_def)

text \<open>
  C14. The two ways from a tree to Ruby objects agree: for every signature, type, method type and
  annotation whose constants are in the pool, whose strings are inside their buffers and whose
  locations are there, the C extension raises nothing, the serializer returns, and the reader
  on the Ruby side makes of the bytes the same object as the C extension, with the same
  locations, the same children of locations and the same keyword arguments in every node.
\<close>
theorem extension_agrees_with_reader:
  "(valid_signature (tr_constant_pool ctx) sig \<and> translatable_signature sig \<longrightarrow>
     (\<exists>out v. rbs_serialize_node (tr_constant_pool ctx) (serialize_signature sig) = Some out \<and> signature_to_ruby ctx sig = Inr v \<and>
       (length (string_bytes out) < 2 ^ 32 \<longrightarrow> deserialize (string_bytes out) = Some v))) \<and>
   (valid_node (tr_constant_pool ctx) type \<and> translatable_node type \<longrightarrow>
     (\<exists>out v. rbs_serialize_node (tr_constant_pool ctx) (serialize_node type) = Some out \<and> node_to_ruby ctx type = Inr v \<and>
       (length (string_bytes out) < 2 ^ 32 \<longrightarrow> deserialize (string_bytes out) = Some v))) \<and>
   (valid_method_type (tr_constant_pool ctx) mt \<and> translatable_method_type mt \<longrightarrow>
     (\<exists>out v. rbs_serialize_node (tr_constant_pool ctx) (serialize_method_type mt) = Some out \<and> method_type_to_ruby ctx mt = Inr v \<and>
       (length (string_bytes out) < 2 ^ 32 \<longrightarrow> deserialize (string_bytes out) = Some v))) \<and>
   (valid_ruby_annotation (tr_constant_pool ctx) annotation \<and> translatable_ruby_annotation annotation \<longrightarrow>
     (\<exists>out v. rbs_serialize_node (tr_constant_pool ctx) (serialize_ruby_annotation annotation) = Some out \<and>
       ruby_annotation_to_ruby ctx annotation = Inr v \<and>
       (length (string_bytes out) < 2 ^ 32 \<longrightarrow> deserialize (string_bytes out) = Some v)))"
  by (intro conjI impI; elim conjE)
    (use serialize_node_value [OF sends_signature] serialize_node_value [OF sends_types] serialize_node_value [OF sends_method_type]
      serialize_node_value [OF sends_ruby_annotation] signature_translated [OF _ _ refl] node_translated [OF _ _ refl]
      method_type_translated [OF _ _ refl] ruby_annotation_translated [OF _ _ refl] in blast)+

theorem extension_agrees_with_reader_witness:
  "\<exists>out v. rbs_serialize_node example_pool (serialize_signature example_signature) = Some out \<and>
     signature_to_ruby \<lparr>tr_constant_pool = example_pool, tr_buffer = Some 0\<rparr> example_signature = Inr v \<and>
     deserialize (string_bytes out) = Some v"
proof -
  have "valid_signature example_pool example_signature" "translatable_signature example_signature"
    by (simp_all add: valid_signature_def example_signature_def example_pool_def valid_list_def valid_nullable_def
      valid_symbol_def valid_id_def translatable_signature_def given_range_def fits_range_def range_of_def RBS_LOCATION_NULL_RANGE_P_def)
  then obtain out v where "rbs_serialize_node example_pool (serialize_signature example_signature) = Some out"
    "signature_to_ruby \<lparr>tr_constant_pool = example_pool, tr_buffer = Some 0\<rparr> example_signature = Inr v"
    "length (string_bytes out) < 2 ^ 32 \<longrightarrow> deserialize (string_bytes out) = Some v"
    using extension_agrees_with_reader [of "\<lparr>tr_constant_pool = example_pool, tr_buffer = Some 0\<rparr>" example_signature, THEN conjunct1] by auto
  then show ?thesis using shortD [OF examples_short(1)] by blast
qed

end
