(* ===== verification/Allocator.thy ===== *)
theory Allocator
  imports Prelude
begin

text \<open>
  \<open>src/util/rbs_allocator.c\<close>: the arena that all nodes of a tree live in. An arena is a list of
  pages that come from \<open>malloc\<close>; small allocations are cut off the first page, a large one gets a
  page of its own behind the first. \<open>malloc\<close> is a parameter: it is given the blocks that are
  in use, and \<open>malloc_ok\<close> is what the C standard says of it. Pointers and sizes are those of a
  64-bit platform; \<open>None\<close> is the use of a null pointer, or a failed assertion.
\<close>

type_synonym address = "64 word"

type_synonym malloc_function = "(address \<times> address) list \<Rightarrow> address \<Rightarrow> address option"

subsection \<open>Pages\<close>

record rbs_allocator_page =
  pg_address :: address
  pg_size :: address
  pg_used :: address

text \<open>The pages from the head on.\<close>

record rbs_allocator =
  al_address :: address
  al_pages :: "rbs_allocator_page list"
  default_page_payload_size :: address

text \<open>\<open>sizeof(rbs_allocator_page_t)\<close> and \<open>sizeof(rbs_allocator_t)\<close>.\<close>

definition page_header_size :: address where
  "page_header_size = 24"

definition allocator_size :: address where
  "allocator_size = 16"

text \<open>The blocks in use, with their sizes.\<close>

definition live_blocks :: "rbs_allocator \<Rightarrow> (address \<times> address) list" where
  "live_blocks allocator =
     (al_address allocator, allocator_size) # map (\<lambda>page. (pg_address page, page_header_size + pg_size page)) (al_pages allocator)"

definition rbs_allocator_normalize_page_size :: "int \<Rightarrow> address" where
  "rbs_allocator_normalize_page_size raw =
     (if raw \<le> 0 then 4096
      else let page_size = word_of_int raw in if page_size \<le> page_header_size then 4096 else page_size)"

definition rbs_align_up_uintptr :: "address \<Rightarrow> address \<Rightarrow> address option" where
  "rbs_align_up_uintptr value' alignment =
     (if alignment \<noteq> 0 \<and> alignment AND (alignment - 1) = 0
      then Some ((value' + (alignment - 1)) AND NOT (alignment - 1)) else None)"

definition rbs_allocator_page_new :: "malloc_function \<Rightarrow> (address \<times> address) list \<Rightarrow> address \<Rightarrow> rbs_allocator_page option" where
  "rbs_allocator_page_new malloc live payload_size =
     (case malloc live (page_header_size + payload_size) of
        None \<Rightarrow> None
      | Some page \<Rightarrow> Some \<lparr>pg_address = page, pg_size = payload_size, pg_used = 0\<rparr>)"

subsection \<open>Operations\<close>

text \<open>\<open>raw\<close> is what \<open>sysconf(_SC_PAGESIZE)\<close> returns.\<close>

definition rbs_allocator_init :: "malloc_function \<Rightarrow> int \<Rightarrow> rbs_allocator option" where
  "rbs_allocator_init malloc raw =
     (case malloc [] allocator_size of
        None \<Rightarrow> None
      | Some allocator \<Rightarrow>
          let system_page_size = rbs_allocator_normalize_page_size raw; payload_size = system_page_size - page_header_size in
          (case rbs_allocator_page_new malloc [(allocator, allocator_size)] payload_size of
             None \<Rightarrow> None
           | Some page \<Rightarrow> Some \<lparr>al_address = allocator, al_pages = [page], default_page_payload_size = payload_size\<rparr>))"

text \<open>The blocks that are given to \<open>free\<close>, in order.\<close>

definition rbs_allocator_free :: "rbs_allocator \<Rightarrow> address list" where
  "rbs_allocator_free allocator = map pg_address (al_pages allocator) @ [al_address allocator]"

definition large_allocation ::
  "malloc_function \<Rightarrow> rbs_allocator \<Rightarrow> address \<Rightarrow> address \<Rightarrow> (address \<times> rbs_allocator) option"
where
  "large_allocation malloc allocator size' alignment =
     (case rbs_allocator_page_new malloc (live_blocks allocator) (size' + (alignment - 1)) of
        None \<Rightarrow> None
      | Some new_page \<Rightarrow>
          (case al_pages allocator of
             [] \<Rightarrow> None
           | page # rest \<Rightarrow>
               (case rbs_align_up_uintptr (pg_address new_page + page_header_size) alignment of
                  None \<Rightarrow> None
                | Some aligned_ptr \<Rightarrow> Some (aligned_ptr, allocator\<lparr>al_pages := page # new_page # rest\<rparr>))))"

text \<open>In a new page the space is not looked at again.\<close>

definition new_page_allocation ::
  "malloc_function \<Rightarrow> rbs_allocator \<Rightarrow> address \<Rightarrow> address \<Rightarrow> (address \<times> rbs_allocator) option"
where
  "new_page_allocation malloc allocator size' alignment =
     (case rbs_allocator_page_new malloc (live_blocks allocator) (default_page_payload_size allocator) of
        None \<Rightarrow> None
      | Some page \<Rightarrow>
          let base = pg_address page + page_header_size in
          (case rbs_align_up_uintptr base alignment of
             None \<Rightarrow> None
           | Some aligned \<Rightarrow>
               let used_aligned = aligned - base in
               Some (base + used_aligned, allocator\<lparr>al_pages := page\<lparr>pg_used := used_aligned + size'\<rparr> # al_pages allocator\<rparr>)))"

definition rbs_allocator_malloc_impl ::
  "malloc_function \<Rightarrow> rbs_allocator \<Rightarrow> address \<Rightarrow> address \<Rightarrow> (address \<times> rbs_allocator) option"
where
  "rbs_allocator_malloc_impl malloc allocator size' alignment =
     (if default_page_payload_size allocator < size' then large_allocation malloc allocator size' alignment
      else
        (case al_pages allocator of
           [] \<Rightarrow> None
         | page # rest \<Rightarrow>
             let base = pg_address page + page_header_size in
             (case rbs_align_up_uintptr (base + pg_used page) alignment of
                None \<Rightarrow> None
              | Some aligned \<Rightarrow>
                  let used_aligned = aligned - base in
                  if pg_size page < used_aligned + size' then new_page_allocation malloc allocator size' alignment
                  else Some (base + used_aligned, allocator\<lparr>al_pages := page\<lparr>pg_used := used_aligned + size'\<rparr> # rest\<rparr>))))"

definition rbs_allocator_malloc_many_impl ::
  "malloc_function \<Rightarrow> rbs_allocator \<Rightarrow> address \<Rightarrow> address \<Rightarrow> address \<Rightarrow> (address \<times> rbs_allocator) option"
where
  "rbs_allocator_malloc_many_impl malloc allocator count size' alignment =
     rbs_allocator_malloc_impl malloc allocator (count * size') alignment"

text \<open>The contents of memory, for the two operations that write to it.\<close>

type_synonym memory = "address \<Rightarrow> byte"

definition memory_set :: "memory \<Rightarrow> address \<Rightarrow> byte \<Rightarrow> address \<Rightarrow> memory" where
  "memory_set mem p c n = (\<lambda>a. if a - p < n then c else mem a)"

definition memory_copy :: "memory \<Rightarrow> address \<Rightarrow> address \<Rightarrow> address \<Rightarrow> memory" where
  "memory_copy mem p q n = (\<lambda>a. if a - p < n then mem (q + (a - p)) else mem a)"

definition rbs_allocator_calloc_impl ::
  "malloc_function \<Rightarrow> rbs_allocator \<Rightarrow> memory \<Rightarrow> address \<Rightarrow> address \<Rightarrow> address \<Rightarrow> (address \<times> rbs_allocator \<times> memory) option"
where
  "rbs_allocator_calloc_impl malloc allocator mem count size' alignment =
     (case rbs_allocator_malloc_many_impl malloc allocator count size' alignment of
        None \<Rightarrow> None
      | Some (p, allocator) \<Rightarrow> Some (p, allocator, memory_set mem p 0 (count * size')))"

definition rbs_allocator_realloc_impl ::
  "malloc_function \<Rightarrow> rbs_allocator \<Rightarrow> memory \<Rightarrow> address \<Rightarrow> address \<Rightarrow> address \<Rightarrow> address \<Rightarrow>
   (address \<times> rbs_allocator \<times> memory) option"
where
  "rbs_allocator_realloc_impl malloc allocator mem ptr old_size new_size alignment =
     (case rbs_allocator_malloc_impl malloc allocator new_size alignment of
        None \<Rightarrow> None
      | Some (p, allocator) \<Rightarrow> Some (p, allocator, memory_copy mem p ptr old_size))"

subsection \<open>Alignment\<close>

text \<open>The addresses of \<open>n\<close> bytes from \<open>p\<close> on.\<close>

definition region :: "address \<Rightarrow> address \<Rightarrow> nat set" where
  "region p n = {unat p..<unat p + unat n}"

definition usable_alignment :: "address \<Rightarrow> bool" where
  "usable_alignment alignment \<longleftrightarrow> alignment \<in> {1, 2, 4, 8}"

text \<open>Alignments up to that of a page header; they are those of all types of the library.\<close>

lemma usable_power: "usable_alignment alignment \<Longrightarrow> \<exists>k\<le>3. alignment = 2 ^ k"
  unfolding usable_alignment_def
  by (elim insertE emptyE) (rule exI [of _ 0], simp, rule exI [of _ 1], simp, rule exI [of _ 2], simp, rule exI [of _ 3], simp)

lemma and_not_mask: "unat (x AND NOT (mask k) :: 64 word) = unat x - unat x mod 2 ^ k"
proof -
  have t: "unat (take_bit k x) = unat x mod 2 ^ k"
    by (simp only: unsigned_take_bit_eq) (simp only: take_bit_eq_mod)
  then have le: "take_bit k x \<le> x" by (simp add: word_le_nat_alt)
  have "x AND NOT (mask k) = x AND NOT (take_bit k x)"
    by (rule bit_word_eqI) (auto simp: bit_simps)
  also have "\<dots> = x - take_bit k x"
    by (rule disjunctive_diff [symmetric]) (simp add: bit_simps)
  finally show ?thesis using unat_sub [OF le] t by simp
qed

lemma align_up_value:
  assumes "usable_alignment alignment" and "unat v + 8 < 2 ^ 64"
  shows "\<exists>p. rbs_align_up_uintptr v alignment = Some p \<and> unat v \<le> unat p \<and> unat p < unat v + unat alignment \<and> unat alignment dvd unat p"
proof -
  obtain k where k: "k \<le> 3" "alignment = 2 ^ k" using usable_power [OF assms(1)] by blast
  then have pow: "(2::nat) ^ k \<le> 8" using power_increasing [of k 3 "2::nat"] by simp
  have m: "alignment - 1 = mask k" using k by (simp add: mask_eq_exp_minus_1)
  have small: "k = 0 \<or> k = 1 \<or> k = 2 \<or> k = 3" using k(1) by linarith
  then have un: "unat alignment = 2 ^ k" using k(2) by (elim disjE) simp_all
  have um: "unat (mask k :: address) = 2 ^ k - 1"
    using small by (elim disjE) (simp_all add: mask_eq_exp_minus_1)
  let ?x = "v + mask k"
  have x: "unat ?x = unat v + (2 ^ k - 1)"
    using assms(2) pow um by (subst unat_add_lem [THEN iffD1]) auto
  let ?p = "?x AND NOT (mask k)"
  have p: "unat ?p = unat ?x - unat ?x mod 2 ^ k" by (rule and_not_mask)
  have "alignment \<noteq> 0" using un by (metis power_not_zero unat_0 zero_neq_numeral)
  moreover have "alignment AND (alignment - 1) = 0"
    using small k(2) by (elim disjE) simp_all
  ultimately have "rbs_align_up_uintptr v alignment = Some ?p"
    by (simp add: rbs_align_up_uintptr_def m)
  moreover have "unat ?x mod 2 ^ k < 2 ^ k" by simp
  then have "unat v \<le> unat ?p" "unat ?p < unat v + unat alignment"
    unfolding p x un by linarith+
  moreover have "unat alignment dvd unat ?p"
    unfolding p un by (simp add: minus_mod_eq_mult_div)
  ultimately show ?thesis by blast
qed

subsection \<open>What malloc promises\<close>

text \<open>
  A block that \<open>malloc\<close> returns lies in the lower half of the address space, its address is
  a multiple of 16, and it has no byte in common with the blocks in use.
\<close>

definition malloc_ok :: "malloc_function \<Rightarrow> bool" where
  "malloc_ok malloc \<longleftrightarrow>
     (\<forall>live n a. malloc live n = Some a \<longrightarrow>
        unat a + unat n \<le> 2 ^ 63 \<and> 16 dvd unat a \<and> (\<forall>b\<in>set live. region a n \<inter> region (fst b) (snd b) = {}))"

text \<open>The simplest one: every block comes after those in use.\<close>

definition bump_malloc :: malloc_function where
  "bump_malloc live n =
     (let top = foldr (\<lambda>b. max ((unat (fst b) + unat (snd b) + 15) div 16 * 16)) live 16
      in if top + unat n \<le> 2 ^ 63 then Some (of_nat top) else None)"

lemma bump_above: "b \<in> set live \<Longrightarrow>
    unat (fst b) + unat (snd b) \<le> foldr (\<lambda>b. max ((unat (fst b) + unat (snd b) + 15) div 16 * 16)) live (16::nat)"
proof (induction live)
  case (Cons c live)
  have "unat (fst c) + unat (snd c) \<le> (unat (fst c) + unat (snd c) + 15) div 16 * 16"
    using div_mult_mod_eq [of "unat (fst c) + unat (snd c) + 15" 16] mod_less_divisor [of 16 "unat (fst c) + unat (snd c) + 15"]
    by linarith
  with Cons show ?case by auto
qed simp

lemma bump_aligned: "16 dvd foldr (\<lambda>b. max ((unat (fst b) + unat (snd b) + 15) div 16 * 16)) live (16::nat)"
  by (induction live) (auto simp: max_def)

lemma bump_malloc_ok: "malloc_ok bump_malloc"
proof -
  have "unat a + unat n \<le> 2 ^ 63 \<and> 16 dvd unat a \<and> (\<forall>b\<in>set live. region a n \<inter> region (fst b) (snd b) = {})"
    if "bump_malloc live n = Some a" for live n a
  proof -
    let ?top = "foldr (\<lambda>b. max ((unat (fst b) + unat (snd b) + 15) div 16 * 16)) live (16::nat)"
    have a: "?top + unat n \<le> 2 ^ 63" "a = of_nat ?top"
      using that by (auto simp: bump_malloc_def Let_def split: if_splits)
    then have "unat a = ?top" by (simp add: unsigned_of_nat take_bit_nat_eq_self)
    with a(1) bump_aligned [of live] bump_above [of _ live] show ?thesis by (fastforce simp: region_def)
  qed
  then show ?thesis by (simp add: malloc_ok_def)
qed

subsection \<open>The invariant\<close>

definition disjoint :: "nat set \<Rightarrow> nat set \<Rightarrow> bool" where
  "disjoint A B \<longleftrightarrow> A \<inter> B = {}"

definition payload :: "rbs_allocator_page \<Rightarrow> nat set" where
  "payload page = {unat (pg_address page) + 24..<unat (pg_address page) + 24 + unat (pg_size page)}"

definition free_part :: "rbs_allocator_page \<Rightarrow> nat set" where
  "free_part page = {unat (pg_address page) + 24 + unat (pg_used page)..<unat (pg_address page) + 24 + unat (pg_size page)}"

definition page_ok :: "rbs_allocator_page \<Rightarrow> bool" where
  "page_ok page \<longleftrightarrow> unat (pg_address page) + 24 + unat (pg_size page) \<le> 2 ^ 63 \<and> 16 dvd unat (pg_address page) \<and>
     unat (pg_used page) \<le> unat (pg_size page)"

definition page_block :: "rbs_allocator_page \<Rightarrow> nat set" where
  "page_block page = {unat (pg_address page)..<unat (pg_address page) + 24 + unat (pg_size page)}"

text \<open>With the regions that have been handed out so far.\<close>

definition arena_ok :: "rbs_allocator \<Rightarrow> (address \<times> address) list \<Rightarrow> bool" where
  "arena_ok allocator given \<longleftrightarrow>
     al_pages allocator \<noteq> [] \<and> list_all page_ok (al_pages allocator) \<and>
     sorted_wrt disjoint (region (al_address allocator) allocator_size # map page_block (al_pages allocator)) \<and>
     (\<forall>r\<in>set given. \<exists>page\<in>set (al_pages allocator). region (fst r) (snd r) \<subseteq> payload page) \<and>
     (\<forall>r\<in>set given. disjoint (region (fst r) (snd r)) (free_part (hd (al_pages allocator)))) \<and>
     sorted_wrt (\<lambda>r r'. disjoint (region (fst r) (snd r)) (region (fst r') (snd r'))) given"

lemma page_new_value:
  assumes "malloc_ok malloc" and "rbs_allocator_page_new malloc (live_blocks allocator) n = Some page" and "unat n < 2 ^ 63"
    and "list_all page_ok (al_pages allocator)"
  shows "page_ok page" "pg_size page = n" "pg_used page = 0" "disjoint (page_block page) (region (al_address allocator) allocator_size)"
    "\<forall>q\<in>set (al_pages allocator). disjoint (page_block page) (page_block q)"
proof -
  have size: "unat (page_header_size + m) = 24 + unat m" if "unat m < 2 ^ 63" for m :: address
    using that by (subst unat_add_lem [THEN iffD1]) (simp_all add: page_header_size_def)
  obtain a where a: "malloc (live_blocks allocator) (page_header_size + n) = Some a" "page = \<lparr>pg_address = a, pg_size = n, pg_used = 0\<rparr>"
    using assms(2) by (auto simp: rbs_allocator_page_new_def split: option.splits)
  have ok: "unat a + unat (page_header_size + n) \<le> 2 ^ 63" "16 dvd unat a"
    "\<forall>b\<in>set (live_blocks allocator). region a (page_header_size + n) \<inter> region (fst b) (snd b) = {}"
    using assms(1) a(1) by (auto simp: malloc_ok_def)
  show "page_ok page" "pg_size page = n" "pg_used page = 0" using a(2) ok size [OF assms(3)] by (auto simp: page_ok_def)
  have block: "page_block page = region a (page_header_size + n)" using a(2) size [OF assms(3)] by (simp add: page_block_def region_def add.assoc)
  show "disjoint (page_block page) (region (al_address allocator) allocator_size)"
    using ok(3) by (simp add: block disjoint_def live_blocks_def)
  have "page_block q = region (pg_address q) (page_header_size + pg_size q)" if "q \<in> set (al_pages allocator)" for q
  proof -
    have "unat (pg_size q) < 2 ^ 63" using assms(4) that by (auto simp: list_all_iff page_ok_def)
    then show ?thesis using size by (simp add: page_block_def region_def add.assoc)
  qed
  with ok(3) show "\<forall>q\<in>set (al_pages allocator). disjoint (page_block page) (page_block q)"
    by (auto simp: block disjoint_def live_blocks_def)
qed

lemma payload_parts: "payload page \<subseteq> page_block page" "free_part page \<subseteq> payload page" "free_part page \<subseteq> page_block page"
  by (auto simp: payload_def page_block_def free_part_def)

text \<open>A region in the free part of a page starts where the page, used up to there, ends.\<close>

lemma aligned_value:
  assumes "page_ok page" and "usable_alignment alignment"
  shows "\<exists>p. rbs_align_up_uintptr (pg_address page + page_header_size + pg_used page) alignment = Some p \<and>
    unat alignment dvd unat p \<and> unat (pg_address page) + 24 + unat (pg_used page) \<le> unat p \<and>
    unat p < unat (pg_address page) + 24 + unat (pg_used page) + 8 \<and>
    unat (p - (pg_address page + page_header_size)) = unat p - (unat (pg_address page) + 24) \<and>
    (pg_used page = 0 \<longrightarrow> p = pg_address page + page_header_size)"
proof -
  have le8: "unat alignment \<le> 8" using assms(2) by (auto simp: usable_alignment_def)
  have base: "unat (pg_address page + page_header_size) = unat (pg_address page) + 24"
    using assms(1) by (subst unat_add_lem [THEN iffD1]) (auto simp: page_ok_def page_header_size_def)
  then have used: "unat (pg_address page + page_header_size + pg_used page) = unat (pg_address page) + 24 + unat (pg_used page)"
    using assms(1) by (subst unat_add_lem [THEN iffD1]) (auto simp: page_ok_def)
  obtain p where p: "rbs_align_up_uintptr (pg_address page + page_header_size + pg_used page) alignment = Some p"
    "unat (pg_address page) + 24 + unat (pg_used page) \<le> unat p" "unat p < unat (pg_address page) + 24 + unat (pg_used page) + unat alignment"
    "unat alignment dvd unat p"
    using align_up_value [OF assms(2), of "pg_address page + page_header_size + pg_used page"] assms(1) used by (auto simp: page_ok_def)
  have "pg_address page + page_header_size \<le> p" using base p(2) by (simp add: word_le_nat_alt)
  then have "unat (p - (pg_address page + page_header_size)) = unat p - (unat (pg_address page) + 24)"
    using base by (simp add: unat_sub)
  moreover have "p = pg_address page + page_header_size" if "pg_used page = 0"
  proof -
    have "unat alignment dvd unat (pg_address page) + 24"
      using assms by (auto simp: page_ok_def usable_alignment_def intro: dvd_trans [of _ 8] dvd_trans [of _ "16::nat"])
    moreover have "unat (pg_address page) + 24 \<le> unat p" "unat p < unat (pg_address page) + 24 + unat alignment" using p(2,3) that by simp_all
    ultimately have "unat p = unat (pg_address page) + 24"
      using p(4) by (metis add_diff_inverse_nat dvd_add_right_iff dvd_imp_le gr0I leD add_less_cancel_left add.right_neutral)
    then show ?thesis using base by (simp add: word_unat_eq_iff)
  qed
  ultimately show ?thesis using p le8 by (intro exI [of _ p]) auto
qed

text \<open>The three ways to make an allocation, each with what it leaves.\<close>

definition allocated :: "rbs_allocator \<Rightarrow> (address \<times> address) list \<Rightarrow> address \<Rightarrow> address \<Rightarrow> (address \<times> rbs_allocator) option \<Rightarrow> bool" where
  "allocated allocator given n alignment r \<longleftrightarrow>
     (case r of
        None \<Rightarrow> True
      | Some (p, allocator') \<Rightarrow> unat alignment dvd unat p \<and> arena_ok allocator' (given @ [(p, n)]) \<and>
          default_page_payload_size allocator' = default_page_payload_size allocator)"

lemma disjoint_mono: "disjoint A B \<Longrightarrow> A' \<subseteq> A \<Longrightarrow> B' \<subseteq> B \<Longrightarrow> disjoint A' B'"
  by (auto simp: disjoint_def)

lemma disjoint_sym: "disjoint A B \<Longrightarrow> disjoint B A"
  by (auto simp: disjoint_def)

text \<open>A new page is disjoint from all regions given so far.\<close>

lemma new_page_disjoint:
  assumes "arena_ok allocator given" and "\<forall>q\<in>set (al_pages allocator). disjoint (page_block page) (page_block q)" and "r \<in> set given"
    and "A \<subseteq> page_block page"
  shows "disjoint (region (fst r) (snd r)) A"
proof -
  obtain q where "q \<in> set (al_pages allocator)" "region (fst r) (snd r) \<subseteq> payload q"
    using assms(1,3) by (auto simp: arena_ok_def)
  with assms(2,4) payload_parts(1) [of q] show ?thesis
    by (blast intro: disjoint_mono disjoint_sym)
qed

lemma sorted_insert_second:
  assumes "sorted_wrt disjoint (A # B # Cs)" and "disjoint N A" and "\<forall>C\<in>set (B # Cs). disjoint N C"
  shows "sorted_wrt disjoint (A # B # N # Cs)"
  using assms disjoint_sym by auto

text \<open>The invariant after an allocation, from what the page or pages are that it leaves.\<close>

lemma arena_extend:
  assumes "arena_ok allocator given" and "al_pages allocator' = page # rest" and "list_all page_ok (page # rest)"
    and "sorted_wrt disjoint (region (al_address allocator') allocator_size # map page_block (page # rest))"
    and "\<And>q. q \<in> set (al_pages allocator) \<Longrightarrow> \<exists>q'\<in>set (page # rest). payload q' = payload q"
    and "\<exists>q\<in>set (page # rest). region p n \<subseteq> payload q"
    and "\<And>r. r \<in> set given \<Longrightarrow> disjoint (region (fst r) (snd r)) (free_part page)"
    and "\<And>r. r \<in> set given \<Longrightarrow> disjoint (region (fst r) (snd r)) (region p n)"
    and "disjoint (region p n) (free_part page)"
  shows "arena_ok allocator' (given @ [(p, n)])"
  unfolding arena_ok_def
proof (intro conjI ballI)
  fix r assume r: "r \<in> set (given @ [(p, n)])"
  show "\<exists>q\<in>set (al_pages allocator'). region (fst r) (snd r) \<subseteq> payload q"
  proof (cases "r \<in> set given")
    case True
    then obtain q where "q \<in> set (al_pages allocator)" "region (fst r) (snd r) \<subseteq> payload q"
      using assms(1) by (auto simp: arena_ok_def)
    with assms(5) [of q] show ?thesis unfolding assms(2) by auto
  qed (use r assms(2,6) in auto)
  show "disjoint (region (fst r) (snd r)) (free_part (hd (al_pages allocator')))"
    using r assms(7,9) by (auto simp: assms(2))
next
  show "sorted_wrt (\<lambda>r r'. disjoint (region (fst r) (snd r)) (region (fst r') (snd r'))) (given @ [(p, n)])"
    using assms(1,8) by (simp add: sorted_wrt_append arena_ok_def)
qed (use assms in simp_all)

lemma large_ok:
  assumes "malloc_ok malloc" and "arena_ok allocator given" and "usable_alignment alignment" and "unat n < 2 ^ 62"
  shows "allocated allocator given n alignment (large_allocation malloc allocator n alignment)"
proof (cases "rbs_allocator_page_new malloc (live_blocks allocator) (n + (alignment - 1))")
  case None
  then show ?thesis by (simp add: large_allocation_def allocated_def)
next
  case (Some new_page)
  have al: "unat (alignment - 1) = unat alignment - 1" "1 \<le> unat alignment" "unat alignment \<le> 8"
    using assms(3) by (auto simp: usable_alignment_def)
  then have n: "unat (n + (alignment - 1)) = unat n + (unat alignment - 1)"
    using assms(4) by (subst unat_add_lem [THEN iffD1]) auto
  have pages: "list_all page_ok (al_pages allocator)" using assms(2) by (simp add: arena_ok_def)
  have size: "unat (n + (alignment - 1)) < 2 ^ 63" using n al assms(4) by simp
  note new = page_new_value [OF assms(1) Some size pages]
  obtain page rest where split: "al_pages allocator = page # rest" using assms(2) by (cases "al_pages allocator") (auto simp: arena_ok_def)
  obtain p where p: "rbs_align_up_uintptr (pg_address new_page + page_header_size) alignment = Some p" "unat alignment dvd unat p"
    "p = pg_address new_page + page_header_size"
    using aligned_value [OF new(1) assms(3)] new(3) by auto
  have base: "unat p = unat (pg_address new_page) + 24"
    using new(1) by (subst p(3), subst unat_add_lem [THEN iffD1]) (auto simp: page_ok_def page_header_size_def)
  have inside: "region p n \<subseteq> payload new_page"
    using base new(2) n al by (auto simp: region_def payload_def)
  let ?al = "allocator\<lparr>al_pages := page # new_page # rest\<rparr>"
  have "arena_ok ?al (given @ [(p, n)])"
  proof (rule arena_extend [OF assms(2), of ?al page "new_page # rest"])
    show "sorted_wrt disjoint (region (al_address ?al) allocator_size # map page_block (page # new_page # rest))"
      using sorted_insert_second [of _ "page_block page" "map page_block rest" "page_block new_page"] assms(2) new(4,5) split
      by (auto simp: arena_ok_def)
    show "disjoint (region p n) (free_part page)"
    proof (rule disjoint_mono [OF _ subset_trans [OF inside payload_parts(1)] payload_parts(3)])
      show "disjoint (page_block new_page) (page_block page)" using new(5) split by simp
    qed
    show "disjoint (region (fst r) (snd r)) (region p n)" if "r \<in> set given" for r
      using new_page_disjoint [OF assms(2) new(5) that] inside payload_parts(1) [of new_page] by blast
    show "disjoint (region (fst r) (snd r)) (free_part page)" if "r \<in> set given" for r
      using assms(2) split that by (simp add: arena_ok_def)
    show "list_all page_ok (page # new_page # rest)" using pages new(1) split by simp
    show "\<exists>q\<in>set (page # new_page # rest). region p n \<subseteq> payload q" using inside by simp
    show "\<exists>q'\<in>set (page # new_page # rest). payload q' = payload q" if "q \<in> set (al_pages allocator)" for q
      using that split by auto
  qed simp
  then show ?thesis using Some split p by (simp add: large_allocation_def allocated_def)
qed

lemma new_page_ok:
  assumes "malloc_ok malloc" and "arena_ok allocator given" and "usable_alignment alignment"
    and "unat (default_page_payload_size allocator) < 2 ^ 63" and "n \<le> default_page_payload_size allocator"
  shows "allocated allocator given n alignment (new_page_allocation malloc allocator n alignment)"
proof (cases "rbs_allocator_page_new malloc (live_blocks allocator) (default_page_payload_size allocator)")
  case None
  then show ?thesis by (simp add: new_page_allocation_def allocated_def)
next
  case (Some page)
  have pages: "list_all page_ok (al_pages allocator)" using assms(2) by (simp add: arena_ok_def)
  note new = page_new_value [OF assms(1) Some assms(4) pages]
  obtain p where p: "rbs_align_up_uintptr (pg_address page + page_header_size) alignment = Some p" "unat alignment dvd unat p"
    "p = pg_address page + page_header_size"
    using aligned_value [OF new(1) assms(3)] new(3) by auto
  have base: "unat p = unat (pg_address page) + 24"
    using new(1) by (subst p(3), subst unat_add_lem [THEN iffD1]) (auto simp: page_ok_def page_header_size_def)
  let ?page = "page\<lparr>pg_used := n\<rparr>"
  let ?al = "allocator\<lparr>al_pages := ?page # al_pages allocator\<rparr>"
  have n: "unat n \<le> unat (pg_size page)" using assms(5) new(2) by (simp add: word_le_nat_alt)
  have same: "page_block ?page = page_block page" "payload ?page = payload page" by (simp_all add: page_block_def payload_def)
  have inside: "region p n \<subseteq> payload page" using base n by (auto simp: region_def payload_def)
  have "arena_ok ?al (given @ [(p, n)])"
  proof (rule arena_extend [OF assms(2), of ?al ?page "al_pages allocator"])
    show "list_all page_ok (?page # al_pages allocator)" using new(1) n pages by (simp add: page_ok_def)
    show "sorted_wrt disjoint (region (al_address ?al) allocator_size # map page_block (?page # al_pages allocator))"
      using assms(2) new(4,5) same(1) by (auto simp: arena_ok_def intro: disjoint_sym)
    show "disjoint (region p n) (free_part ?page)"
      using base by (auto simp: region_def free_part_def disjoint_def)
    show "disjoint (region (fst r) (snd r)) (region p n)" if "r \<in> set given" for r
      using new_page_disjoint [OF assms(2) new(5) that] inside payload_parts(1) [of page] by blast
    show "disjoint (region (fst r) (snd r)) (free_part ?page)" if "r \<in> set given" for r
      using new_page_disjoint [OF assms(2) new(5) that] payload_parts(3) [of ?page] same(1) by blast
    show "\<exists>q\<in>set (?page # al_pages allocator). region p n \<subseteq> payload q" using inside same(2) by simp
  qed auto
  then show ?thesis using Some p by (simp add: new_page_allocation_def allocated_def)
qed

lemma malloc_impl_ok:
  assumes "malloc_ok malloc" and "arena_ok allocator given" and "usable_alignment alignment" and "unat n < 2 ^ 62"
    and "unat (default_page_payload_size allocator) < 2 ^ 63"
  shows "allocated allocator given n alignment (rbs_allocator_malloc_impl malloc allocator n alignment)"
proof (cases "default_page_payload_size allocator < n")
  case True
  with large_ok [OF assms(1-4)] show ?thesis by (simp add: rbs_allocator_malloc_impl_def)
next
  case False
  obtain page rest where split: "al_pages allocator = page # rest" using assms(2) by (cases "al_pages allocator") (auto simp: arena_ok_def)
  have page: "page_ok page" using assms(2) split by (simp add: arena_ok_def)
  let ?base = "pg_address page + page_header_size"
  obtain p where p: "rbs_align_up_uintptr (?base + pg_used page) alignment = Some p" "unat alignment dvd unat p"
    "unat (pg_address page) + 24 + unat (pg_used page) \<le> unat p" "unat p < unat (pg_address page) + 24 + unat (pg_used page) + 8"
    "unat (p - ?base) = unat p - (unat (pg_address page) + 24)"
    using aligned_value [OF page assms(3)] by blast
  have used: "unat (p - ?base + n) = unat p - (unat (pg_address page) + 24) + unat n"
    using p page assms(4) by (subst unat_add_lem [THEN iffD1]) (auto simp: page_ok_def)
  show ?thesis
  proof (cases "pg_size page < p - ?base + n")
    case True
    have "n \<le> default_page_payload_size allocator" using False by simp
    from new_page_ok [OF assms(1-3,5) this] True False p(1) split show ?thesis
      by (simp add: rbs_allocator_malloc_impl_def Let_def)
  next
    case fits: False
    let ?page = "page\<lparr>pg_used := p - ?base + n\<rparr>"
    let ?al = "allocator\<lparr>al_pages := ?page # rest\<rparr>"
    have le: "unat p - (unat (pg_address page) + 24) + unat n \<le> unat (pg_size page)"
      using fits used by (simp add: not_less word_le_nat_alt)
    have same: "page_block ?page = page_block page" "payload ?page = payload page" by (simp_all add: page_block_def payload_def)
    have "region p n \<subseteq> free_part page" "region p n \<subseteq> payload page"
      using p(3) le by (auto simp: region_def free_part_def payload_def)
    note inside = this
    have less: "free_part ?page \<subseteq> free_part page" using p(3) used by (auto simp: free_part_def)
    have before: "disjoint (region (fst r) (snd r)) (free_part page)" if "r \<in> set given" for r
      using assms(2) split that by (simp add: arena_ok_def)
    have "arena_ok ?al (given @ [(p, n)])"
    proof (rule arena_extend [OF assms(2), of ?al ?page rest])
      show "list_all page_ok (?page # rest)" using page le used assms(2) split by (simp add: page_ok_def arena_ok_def)
      show "sorted_wrt disjoint (region (al_address ?al) allocator_size # map page_block (?page # rest))"
        using assms(2) split same(1) by (simp add: arena_ok_def)
      show "disjoint (region p n) (free_part ?page)"
        using p(3) used by (auto simp: region_def free_part_def disjoint_def)
      show "disjoint (region (fst r) (snd r)) (region p n)" "disjoint (region (fst r) (snd r)) (free_part ?page)" if "r \<in> set given" for r
        using before [OF that] inside(1) less by (blast intro: disjoint_mono)+
    qed (use split inside(2) same(2) in auto)
    moreover have "rbs_allocator_malloc_impl malloc allocator n alignment = Some (p, ?al)"
      using False fits split p(1) by (simp add: rbs_allocator_malloc_impl_def Let_def)
    ultimately show ?thesis using p(2) by (simp add: allocated_def)
  qed
qed

subsection \<open>A new arena, and any number of allocations\<close>

lemma normalize_value: "page_header_size < rbs_allocator_normalize_page_size raw"
  by (auto simp: rbs_allocator_normalize_page_size_def page_header_size_def Let_def not_le)

lemma init_ok:
  assumes "malloc_ok malloc" and "rbs_allocator_init malloc raw = Some allocator"
  shows "arena_ok allocator []" "unat (default_page_payload_size allocator) < 2 ^ 63"
proof -
  let ?n = "rbs_allocator_normalize_page_size raw"
  obtain a b where a: "malloc [] allocator_size = Some a" "malloc [(a, allocator_size)] (page_header_size + (?n - page_header_size)) = Some b"
    "allocator = \<lparr>al_address = a, al_pages = [\<lparr>pg_address = b, pg_size = ?n - page_header_size, pg_used = 0\<rparr>],
       default_page_payload_size = ?n - page_header_size\<rparr>"
    using assms(2) by (auto simp: rbs_allocator_init_def rbs_allocator_page_new_def Let_def split: option.splits)
  have b: "unat b + unat ?n \<le> 2 ^ 63" "16 dvd unat b" "region b ?n \<inter> region a allocator_size = {}"
    using assms(1) a(2) unfolding malloc_ok_def by (force simp: add_diff_eq)+
  have "page_header_size \<le> ?n" using normalize_value [of raw] by simp
  then have n: "unat (?n - page_header_size) = unat ?n - 24" by (simp add: unat_sub page_header_size_def)
  have big: "24 < unat ?n" using normalize_value [of raw] by (simp add: word_less_nat_alt page_header_size_def)
  show "unat (default_page_payload_size allocator) < 2 ^ 63" using a(3) n b(1) big by simp
  show "arena_ok allocator []"
    using a(3) b n big by (auto simp: arena_ok_def page_ok_def page_block_def region_def disjoint_def)
qed

text \<open>Requests of a size and an alignment, one after the other.\<close>

primrec allocate_all ::
  "malloc_function \<Rightarrow> rbs_allocator \<Rightarrow> (address \<times> address) list \<Rightarrow> (address list \<times> rbs_allocator) option"
where
  "allocate_all malloc allocator [] = Some ([], allocator)"
| "allocate_all malloc allocator (request # requests) =
     (case rbs_allocator_malloc_impl malloc allocator (fst request) (snd request) of
        None \<Rightarrow> None
      | Some (p, allocator) \<Rightarrow> map_option (\<lambda>(ps, allocator). (p # ps, allocator)) (allocate_all malloc allocator requests))"

definition request_ok :: "address \<times> address \<Rightarrow> bool" where
  "request_ok request \<longleftrightarrow> unat (fst request) < 2 ^ 62 \<and> usable_alignment (snd request)"

lemma allocate_all_ok:
  "malloc_ok malloc \<Longrightarrow> arena_ok allocator given \<Longrightarrow> unat (default_page_payload_size allocator) < 2 ^ 63 \<Longrightarrow>
   list_all request_ok requests \<Longrightarrow> allocate_all malloc allocator requests = Some (ps, allocator') \<Longrightarrow>
   length ps = length requests \<and> arena_ok allocator' (given @ zip ps (map fst requests)) \<and>
   list_all2 (\<lambda>p request. unat (snd request) dvd unat p) ps requests"
proof (induction requests arbitrary: allocator given ps)
  case (Cons request requests)
  from Cons.prems(5) obtain p allocator1 qs where run: "rbs_allocator_malloc_impl malloc allocator (fst request) (snd request) = Some (p, allocator1)"
    "allocate_all malloc allocator1 requests = Some (qs, allocator')" "ps = p # qs"
    by (auto split: option.splits)
  have "allocated allocator given (fst request) (snd request) (Some (p, allocator1))"
    using malloc_impl_ok [OF Cons.prems(1,2), of "snd request" "fst request"] Cons.prems(3,4) run(1) by (simp add: request_ok_def)
  then have one: "unat (snd request) dvd unat p" "arena_ok allocator1 (given @ [(p, fst request)])"
    "unat (default_page_payload_size allocator1) < 2 ^ 63"
    using Cons.prems(3) by (simp_all add: allocated_def)
  from Cons.IH [OF Cons.prems(1) one(2,3) _ run(2)] Cons.prems(4) one(1) run(3) show ?case by simp
qed simp

lemma blocks_distinct: "sorted_wrt disjoint (map page_block pages) \<Longrightarrow> distinct (map pg_address pages)"
proof (induction pages)
  case (Cons p pages)
  have "pg_address p \<noteq> pg_address q" if "q \<in> set pages" for q
  proof -
    have "disjoint (page_block p) (page_block q)" using Cons.prems that by simp
    then show ?thesis by (auto simp: disjoint_def page_block_def)
  qed
  with Cons show ?case by auto
qed simp

lemma free_distinct:
  assumes "arena_ok allocator given"
  shows "distinct (rbs_allocator_free allocator)"
proof -
  have "al_address allocator \<noteq> pg_address q" if "q \<in> set (al_pages allocator)" for q
  proof -
    have "disjoint (region (al_address allocator) allocator_size) (page_block q)" using assms that by (simp add: arena_ok_def)
    then show ?thesis by (auto simp: disjoint_def page_block_def region_def allocator_size_def)
  qed
  moreover have "distinct (map pg_address (al_pages allocator))"
    using assms by (intro blocks_distinct) (simp add: arena_ok_def)
  ultimately show ?thesis by (auto simp: rbs_allocator_free_def)
qed

lemmas allocator_evaluation = rbs_allocator_init_def rbs_allocator_page_new_def rbs_allocator_normalize_page_size_def
  bump_malloc_def allocator_size_def page_header_size_def rbs_allocator_malloc_impl_def large_allocation_def
  new_page_allocation_def rbs_align_up_uintptr_def live_blocks_def Let_def

text \<open>
  C17. The arena hands out memory that is there and that nothing else uses: for whatever \<open>malloc\<close>
  does within its contract, after any requests for less than 2^62 bytes with an alignment of at
  most 8, every pointer has its alignment, every region lies in the payload of one of the pages
  of the arena, no two regions have a byte in common, and \<open>rbs_allocator_free\<close> frees every block
  once.
\<close>
theorem allocator_correct:
  assumes "malloc_ok malloc" and "rbs_allocator_init malloc raw = Some allocator" and "list_all request_ok requests"
    and "allocate_all malloc allocator requests = Some (ps, allocator')"
  shows "list_all2 (\<lambda>p request. unat (snd request) dvd unat p \<and>
      (\<exists>page\<in>set (al_pages allocator'). region p (fst request) \<subseteq> payload page)) ps requests \<and>
    sorted_wrt (\<lambda>r r'. region (fst r) (snd r) \<inter> region (fst r') (snd r') = {}) (zip ps (map fst requests)) \<and>
    distinct (rbs_allocator_free allocator')"
proof -
  have run: "length ps = length requests" "arena_ok allocator' (zip ps (map fst requests))"
    "list_all2 (\<lambda>p request. unat (snd request) dvd unat p) ps requests"
    using allocate_all_ok [OF assms(1) init_ok [OF assms(1,2)] assms(3,4)] by simp_all
  have "\<exists>page\<in>set (al_pages allocator'). region (ps ! i) (fst (requests ! i)) \<subseteq> payload page" if "i < length ps" for i
  proof -
    have "(ps ! i, fst (requests ! i)) \<in> set (zip ps (map fst requests))"
      using that run(1) by (auto simp: set_zip)
    with run(2) show ?thesis by (fastforce simp: arena_ok_def)
  qed
  with run free_distinct [OF run(2)] show ?thesis
    by (simp add: list_all2_conv_all_nth arena_ok_def disjoint_def)
qed

lemma allocator_correct_witness:
  "\<exists>allocator ps allocator'. rbs_allocator_init bump_malloc 4096 = Some allocator \<and>
     allocate_all bump_malloc allocator [(40, 8), (1, 1), (5000, 8), (4060, 4)] = Some (ps, allocator') \<and> length ps = 4 \<and>
     sorted_wrt (\<lambda>r r'. region (fst r) (snd r) \<inter> region (fst r') (snd r') = {}) (zip ps [40, 1, 5000, 4060]) \<and>
     distinct (rbs_allocator_free allocator')"
proof -
  have "(case rbs_allocator_init bump_malloc 4096 of None \<Rightarrow> False
     | Some allocator \<Rightarrow> allocate_all bump_malloc allocator [(40, 8), (1, 1), (5000, 8), (4060, 4)] \<noteq> None)"
    by (simp add: allocator_evaluation)
  then obtain allocator ps allocator' where run: "rbs_allocator_init bump_malloc 4096 = Some allocator"
    "allocate_all bump_malloc allocator [(40, 8), (1, 1), (5000, 8), (4060, 4)] = Some (ps, allocator')"
    by (auto split: option.splits)
  have "list_all request_ok [(40, 8), (1, 1), (5000, 8), (4060, 4)]"
    by (simp add: request_ok_def usable_alignment_def)
  from allocator_correct [OF bump_malloc_ok run(1) this run(2)] have "list_all2 (\<lambda>p request. True) ps [(40, 8), (1, 1), (5000, 8), (4060, 4 :: address) :: address \<times> address]"
    "sorted_wrt (\<lambda>r r'. region (fst r) (snd r) \<inter> region (fst r') (snd r') = {}) (zip ps [40, 1, 5000, 4060])"
    "distinct (rbs_allocator_free allocator')"
    by (auto elim: list_all2_mono)
  moreover from this(1) have "length ps = 4" by (simp add: list_all2_lengthD)
  ultimately show ?thesis using run by blast
qed

text \<open>\<open>calloc\<close> and \<open>realloc\<close> only write to what they return.\<close>

lemma region_offset:
  assumes "unat p + unat n \<le> 2 ^ 64"
  shows "a - p < n \<longleftrightarrow> unat a \<in> region p n"
proof -
  have "unat a < 2 ^ 64" by (rule order.strict_trans2 [OF unsigned_less]) simp
  with assms show ?thesis by (auto simp: word_less_nat_alt unat_sub_if' region_def not_le word_le_nat_alt)
qed

lemma memory_region:
  assumes "unat p + unat n \<le> 2 ^ 64"
  shows "memory_set mem p c n a = (if unat a \<in> region p n then c else mem a)"
    and "memory_copy mem p q n a = (if unat a \<in> region p n then mem (q + (a - p)) else mem a)"
  using region_offset [OF assms] by (simp_all add: memory_set_def memory_copy_def)

text \<open>
  In a new page the room after the alignment is not checked: with an alignment of 16, which the
  header of a page does not keep, the last 8 bytes of the largest allocation that is not large are behind the page.
\<close>

lemma new_page_overrun:
  "(case rbs_allocator_init bump_malloc 4096 of None \<Rightarrow> False
    | Some allocator \<Rightarrow>
        (case allocate_all bump_malloc allocator [(1, 1), (4072, 16)] of None \<Rightarrow> False
         | Some (ps, allocator') \<Rightarrow>
             (let page = hd (al_pages allocator')
              in unat (ps ! 1) + 4072 = unat (pg_address page) + 24 + unat (pg_size page) + 8)))"
  by (simp add: allocator_evaluation)

end
