(* ===== verification/ExtensionEntry.thy ===== *)
theory ExtensionEntry
  imports AstTranslation Serializer DeclParser InlineParser LexerStream
begin

text \<open>
  \<open>ext/rbs_extension/main.c\<close>: the methods of \<open>RBS::Parser\<close> in the C extension. A method returns a
  Ruby value or raises an exception; \<open>None\<close> is a failed assertion or the use of a null or
  uninitialised pointer. The memory of the parser, which \<open>rb_ensure\<close> frees in every case, is not
  part of the model. A buffer is its content with the encoding, and the object itself.
\<close>

subsection \<open>Errors and arguments\<close>

datatype ruby_error =
    Argument_error
  | Type_error
  | Not_implemented_error
  | Runtime_error
  | Parsing_error ruby_value "byte list" "byte list"
  | Translation_error translation_error

type_synonym 'a method_result = "(ruby_error + 'a) option"

record ruby_buffer =
  rb_object :: "nat option"
  rb_content :: rbs_string
  rb_encoding_name :: "byte list"

definition raise_error :: "ruby_buffer \<Rightarrow> rbs_error \<Rightarrow> ruby_error" where
  "raise_error buf error =
     (if \<not> err_syntax_error error then Runtime_error
      else
        let location = location_object (rbs_new_location (rb_object buf) (tok_range (err_token error)));
            type = bytes_of (rbs_token_type_str (tok_type (err_token error)))
        in Parsing_error location (bytes_of (err_message error)) type)"

text \<open>What is raised, if anything.\<close>

definition raise_error_if_any :: "ruby_buffer \<Rightarrow> rbs_parser \<Rightarrow> ruby_error option" where
  "raise_error_if_any buf p = map_option (raise_error buf) (parser_error p)"

text \<open>The variables are copied for the pool; the address of a copy is not looked at, and is 0 here.\<close>

definition declare_type_variable :: "ruby_buffer \<Rightarrow> rbs_parser \<Rightarrow> byte list \<Rightarrow> rbs_parser method_result" where
  "declare_type_variable buf p name =
     (case rbs_constant_pool_insert_owned (\<lambda>_. True) (constant_pool p) \<lparr>c_start = 0, c_bytes = name\<rparr> of
        Inl _ \<Rightarrow> None
      | Inr (constant_id, pool) \<Rightarrow>
          (case rbs_parser_insert_typevar (p\<lparr>constant_pool := pool\<rparr>) constant_id of
             Done _ p \<Rightarrow> Some (Inr p)
           | Failed p \<Rightarrow> (case raise_error_if_any buf p of None \<Rightarrow> None | Some e \<Rightarrow> Some (Inl e))
           | Aborted \<Rightarrow> None
           | Out_of_fuel \<Rightarrow> None))"

fun declare_each :: "ruby_buffer \<Rightarrow> rbs_parser \<Rightarrow> ruby_value list \<Rightarrow> rbs_parser method_result" where
  "declare_each buf p [] = Some (Inr p)"
| "declare_each buf p (Ruby_symbol name # variables) =
     (case declare_type_variable buf p name of
        Some (Inr p) \<Rightarrow> declare_each buf p variables
      | r \<Rightarrow> r)"
| "declare_each buf p (_ # variables) = Some (Inl Type_error)"

definition declare_type_variables :: "ruby_buffer \<Rightarrow> rbs_parser \<Rightarrow> ruby_value \<Rightarrow> rbs_parser method_result" where
  "declare_type_variables buf p variables =
     (case variables of
        Ruby_nil \<Rightarrow> Some (Inr p)
      | Ruby_array elements \<Rightarrow> declare_each buf (rbs_parser_push_typevar_table p True) elements
      | _ \<Rightarrow> Some (Inl Type_error))"

definition validate_position_range :: "rbs_string \<Rightarrow> int \<Rightarrow> int \<Rightarrow> ruby_error option" where
  "validate_position_range string first_pos last_pos =
     (if first_pos < 0 \<or> last_pos < 0 then Some Argument_error
      else if first_pos > last_pos then Some Argument_error
      else let len = length (string_bytes string) in if first_pos > int len then Some Argument_error else None)"

text \<open>\<open>StringValueCStr\<close> raises an \<open>ArgumentError\<close> for a string with a NUL byte.\<close>

definition rbs_string_from_ruby_string :: "rbs_string \<Rightarrow> ruby_error + rbs_string" where
  "rbs_string_from_ruby_string ruby_string =
     (if 0 \<in> set (string_bytes ruby_string) then Inl Argument_error else Inr ruby_string)"

text \<open>Where there is an encoding that is not in the table, its null pointer is used.\<close>

definition alloc_parser_from_buffer_with_options :: "ruby_buffer \<Rightarrow> int \<Rightarrow> int \<Rightarrow> bool \<Rightarrow> rbs_parser method_result" where
  "alloc_parser_from_buffer_with_options buf first_pos last_pos options =
     (let string = rb_content buf in
      case validate_position_range string first_pos last_pos of
        Some e \<Rightarrow> Some (Inl e)
      | None \<Rightarrow>
          (case rbs_string_from_ruby_string string of
             Inl e \<Rightarrow> Some (Inl e)
           | Inr string \<Rightarrow>
               (case rbs_encoding_find (rb_encoding_name buf) of
                  None \<Rightarrow> None
                | Some encoding \<Rightarrow>
                    (case rbs_parser_new_with_options string encoding first_pos last_pos options of
                       None \<Rightarrow> Some (Inl Argument_error)
                     | Some (Done _ p) \<Rightarrow> Some (Inr p)
                     | Some _ \<Rightarrow> None))))"

definition alloc_parser_from_buffer :: "ruby_buffer \<Rightarrow> int \<Rightarrow> int \<Rightarrow> rbs_parser method_result" where
  "alloc_parser_from_buffer buf first_pos last_pos = alloc_parser_from_buffer_with_options buf first_pos last_pos False"

subsection \<open>What all methods do\<close>

text \<open>Go on with the output of a call that may raise, and with the parser after a parse.\<close>

definition and_then :: "'a method_result \<Rightarrow> ('a \<Rightarrow> 'b method_result) \<Rightarrow> 'b method_result" where
  "and_then r k = (case r of None \<Rightarrow> None | Some (Inl e) \<Rightarrow> Some (Inl e) | Some (Inr x) \<Rightarrow> k x)"

text \<open>The output of a parse that fails is the \<open>NULL\<close> it was initialised with.\<close>

definition parsed :: "'a outcome \<Rightarrow> ('a option \<Rightarrow> rbs_parser \<Rightarrow> 'b option) \<Rightarrow> 'b option" where
  "parsed r k = (case r of Done v p \<Rightarrow> k (Some v) p | Failed p \<Rightarrow> k None p | Aborted \<Rightarrow> None | Out_of_fuel \<Rightarrow> None)"

definition unless_error :: "ruby_buffer \<Rightarrow> rbs_parser \<Rightarrow> 'a method_result \<Rightarrow> 'a method_result" where
  "unless_error buf p r = (case raise_error_if_any buf p of Some e \<Rightarrow> Some (Inl e) | None \<Rightarrow> r)"

definition translated ::
  "ruby_buffer \<Rightarrow> rbs_parser \<Rightarrow> (rbs_translation_context \<Rightarrow> ruby_value translation) \<Rightarrow> ruby_value method_result"
where
  "translated buf p value' =
     Some (map_sum Translation_error (\<lambda>v. v) (value' \<lparr>tr_constant_pool = constant_pool p, tr_buffer = rb_object buf\<rparr>))"

text \<open>A pointer to a node that may be \<open>NULL\<close>.\<close>

definition translated_pointer ::
  "ruby_buffer \<Rightarrow> rbs_parser \<Rightarrow> (rbs_translation_context \<Rightarrow> 'n \<Rightarrow> ruby_value translation) \<Rightarrow> 'n option \<Rightarrow> ruby_value method_result"
where
  "translated_pointer buf p value' node =
     translated buf p (\<lambda>ctx. rbs_struct_to_ruby_value (map_option (value' ctx) node))"

definition serialized_node_to_string :: "rbs_parser \<Rightarrow> writer \<Rightarrow> ruby_value method_result" where
  "serialized_node_to_string p node =
     map_option (\<lambda>bytes. Inr (Ruby_string (string_bytes bytes))) (rbs_serialize_node (constant_pool p) node)"

text \<open>The check for the end of the source in \<open>parse_type_try\<close>.\<close>

definition require_end :: "ruby_buffer \<Rightarrow> bool \<Rightarrow> rbs_parser \<Rightarrow> rbs_parser method_result" where
  "require_end buf require_eof p =
     (if require_eof then
        (case rbs_parser_advance p of
           None \<Rightarrow> None
         | Some p \<Rightarrow>
             if tok_type (current_token p) \<noteq> pEOF then
               (case raise_error_if_any buf (rbs_parser_set_error p (current_token p) True
                   (''expected a token `'' @ rbs_token_type_str pEOF @ ''`'')) of
                  None \<Rightarrow> None
                | Some e \<Rightarrow> Some (Inl e))
             else Some (Inr p))
      else Some (Inr p))"

subsection \<open>Types\<close>

text \<open>In \<open>parse_type_try\<close> the pointer to the type is not initialised.\<close>

definition parse_type_try :: "ruby_buffer \<Rightarrow> bool \<Rightarrow> bool \<Rightarrow> bool \<Rightarrow> bool \<Rightarrow> rbs_parser \<Rightarrow> ruby_value method_result" where
  "parse_type_try buf require_eof void_allowed self_allowed classish_allowed p =
     (if tok_type (next_token p) = pEOF then Some (Inr Ruby_nil)
      else parsed (rbs_parse_type void_allowed self_allowed classish_allowed p) (\<lambda>type p.
        unless_error buf p (and_then (require_end buf require_eof p) (\<lambda>p.
          case type of None \<Rightarrow> None | Some type \<Rightarrow> translated buf p (\<lambda>ctx. node_to_ruby ctx type)))))"

definition rbsparser_parse_type ::
  "ruby_buffer \<Rightarrow> int \<Rightarrow> int \<Rightarrow> ruby_value \<Rightarrow> bool \<Rightarrow> bool \<Rightarrow> bool \<Rightarrow> bool \<Rightarrow> ruby_value method_result"
where
  "rbsparser_parse_type buf first_pos last_pos variables require_eof void_allowed self_allowed classish_allowed =
     and_then (alloc_parser_from_buffer buf first_pos last_pos) (\<lambda>p.
     and_then (declare_type_variables buf p variables)
       (parse_type_try buf require_eof void_allowed self_allowed classish_allowed))"

definition parse_type_to_bytes_try :: "ruby_buffer \<Rightarrow> bool \<Rightarrow> bool \<Rightarrow> bool \<Rightarrow> bool \<Rightarrow> rbs_parser \<Rightarrow> ruby_value method_result" where
  "parse_type_to_bytes_try buf require_eof void_allowed self_allowed classish_allowed p =
     (if tok_type (next_token p) = pEOF then Some (Inr Ruby_nil)
      else parsed (rbs_parse_type void_allowed self_allowed classish_allowed p) (\<lambda>type p.
        unless_error buf p (and_then (require_end buf require_eof p) (\<lambda>p.
          case type of None \<Rightarrow> None | Some type \<Rightarrow> serialized_node_to_string p (serialize_node type)))))"

definition rbsparser_parse_type_to_bytes ::
  "ruby_buffer \<Rightarrow> int \<Rightarrow> int \<Rightarrow> ruby_value \<Rightarrow> bool \<Rightarrow> bool \<Rightarrow> bool \<Rightarrow> bool \<Rightarrow> ruby_value method_result"
where
  "rbsparser_parse_type_to_bytes buf first_pos last_pos variables require_eof void_allowed self_allowed classish_allowed =
     and_then (alloc_parser_from_buffer buf first_pos last_pos) (\<lambda>p.
     and_then (declare_type_variables buf p variables)
       (parse_type_to_bytes_try buf require_eof void_allowed self_allowed classish_allowed))"

subsection \<open>Method types\<close>

definition parse_method_type_try :: "ruby_buffer \<Rightarrow> bool \<Rightarrow> rbs_parser \<Rightarrow> ruby_value method_result" where
  "parse_method_type_try buf require_eof p =
     (if tok_type (next_token p) = pEOF then Some (Inr Ruby_nil)
      else parsed (rbs_parse_method_type require_eof True p) (\<lambda>method_type p.
        unless_error buf p (translated_pointer buf p method_type_to_ruby method_type)))"

definition rbsparser_parse_method_type ::
  "ruby_buffer \<Rightarrow> int \<Rightarrow> int \<Rightarrow> ruby_value \<Rightarrow> bool \<Rightarrow> bool \<Rightarrow> ruby_value method_result"
where
  "rbsparser_parse_method_type buf first_pos last_pos variables require_eof forwarding_params =
     and_then (alloc_parser_from_buffer_with_options buf first_pos last_pos forwarding_params) (\<lambda>p.
     and_then (declare_type_variables buf p variables) (parse_method_type_try buf require_eof))"

definition parse_method_type_to_bytes_try :: "ruby_buffer \<Rightarrow> bool \<Rightarrow> rbs_parser \<Rightarrow> ruby_value method_result" where
  "parse_method_type_to_bytes_try buf require_eof p =
     (if tok_type (next_token p) = pEOF then Some (Inr Ruby_nil)
      else parsed (rbs_parse_method_type require_eof True p) (\<lambda>method_type p.
        unless_error buf p (serialized_node_to_string p (w_nullable (map_option serialize_method_type method_type)))))"

definition rbsparser_parse_method_type_to_bytes ::
  "ruby_buffer \<Rightarrow> int \<Rightarrow> int \<Rightarrow> ruby_value \<Rightarrow> bool \<Rightarrow> bool \<Rightarrow> ruby_value method_result"
where
  "rbsparser_parse_method_type_to_bytes buf first_pos last_pos variables require_eof forwarding_params =
     and_then (alloc_parser_from_buffer_with_options buf first_pos last_pos forwarding_params) (\<lambda>p.
     and_then (declare_type_variables buf p variables) (parse_method_type_to_bytes_try buf require_eof))"

subsection \<open>Signatures\<close>

text \<open>\<open>uninit\<close> is what \<open>rbs_parse_signature\<close> finds in a range that was never set.\<close>

definition parse_signature_try :: "rbs_range \<Rightarrow> ruby_buffer \<Rightarrow> rbs_parser \<Rightarrow> ruby_value method_result" where
  "parse_signature_try uninit buf p =
     parsed (rbs_parse_signature uninit p) (\<lambda>signature p.
       unless_error buf p (translated_pointer buf p signature_to_ruby signature))"

definition rbsparser_parse_signature :: "rbs_range \<Rightarrow> ruby_buffer \<Rightarrow> int \<Rightarrow> int \<Rightarrow> bool \<Rightarrow> ruby_value method_result" where
  "rbsparser_parse_signature uninit buf first_pos last_pos forwarding_params =
     and_then (alloc_parser_from_buffer_with_options buf first_pos last_pos forwarding_params) (parse_signature_try uninit buf)"

definition parse_signature_to_bytes_try :: "rbs_range \<Rightarrow> ruby_buffer \<Rightarrow> rbs_parser \<Rightarrow> ruby_value method_result" where
  "parse_signature_to_bytes_try uninit buf p =
     parsed (rbs_parse_signature uninit p) (\<lambda>signature p.
       unless_error buf p (serialized_node_to_string p (w_nullable (map_option serialize_signature signature))))"

definition rbsparser_parse_signature_to_bytes :: "rbs_range \<Rightarrow> ruby_buffer \<Rightarrow> int \<Rightarrow> int \<Rightarrow> bool \<Rightarrow> ruby_value method_result" where
  "rbsparser_parse_signature_to_bytes uninit buf first_pos last_pos forwarding_params =
     and_then (alloc_parser_from_buffer_with_options buf first_pos last_pos forwarding_params) (parse_signature_to_bytes_try uninit buf)"

subsection \<open>Type parameters\<close>

text \<open>
  The Ruby value \<open>module_type_params\<close> is passed where a \<open>bool\<close> is expected: every value but \<open>false\<close>
  is true, \<open>nil\<close> as well. A list that is \<open>NULL\<close> is used by \<open>rbs_node_list_to_ruby_array\<close>.
\<close>

definition parse_type_params_try :: "ruby_buffer \<Rightarrow> ruby_value \<Rightarrow> rbs_parser \<Rightarrow> ruby_value method_result" where
  "parse_type_params_try buf module_type_params p =
     (if tok_type (next_token p) = pEOF then Some (Inr Ruby_nil)
      else parsed (rbs_parse_type_params (module_type_params \<noteq> Ruby_bool False) p) (\<lambda>params p.
        unless_error buf p
          (case params of None \<Rightarrow> None
           | Some params \<Rightarrow> translated buf p (\<lambda>ctx. rbs_node_list_to_ruby_array (map (type_param_to_ruby ctx) params)))))"

definition rbsparser_parse_type_params :: "ruby_buffer \<Rightarrow> int \<Rightarrow> int \<Rightarrow> ruby_value \<Rightarrow> ruby_value method_result" where
  "rbsparser_parse_type_params buf first_pos last_pos module_type_params =
     and_then (alloc_parser_from_buffer buf first_pos last_pos) (parse_type_params_try buf module_type_params)"

subsection \<open>Annotations\<close>

definition parse_inline_leading_annotation_try :: "ruby_buffer \<Rightarrow> rbs_parser \<Rightarrow> ruby_value method_result" where
  "parse_inline_leading_annotation_try buf p =
     parsed (rbs_parse_inline_leading_annotation p) (\<lambda>annotation p.
       unless_error buf p
         (case annotation of None \<Rightarrow> Some (Inr Ruby_nil)
          | Some annotation \<Rightarrow> translated buf p (\<lambda>ctx. ruby_annotation_to_ruby ctx annotation)))"

definition rbsparser_parse_inline_leading_annotation :: "ruby_buffer \<Rightarrow> int \<Rightarrow> int \<Rightarrow> ruby_value \<Rightarrow> ruby_value method_result" where
  "rbsparser_parse_inline_leading_annotation buf first_pos last_pos variables =
     and_then (alloc_parser_from_buffer buf first_pos last_pos) (\<lambda>p.
     and_then (declare_type_variables buf p variables) (parse_inline_leading_annotation_try buf))"

definition parse_inline_trailing_annotation_try :: "ruby_buffer \<Rightarrow> rbs_parser \<Rightarrow> ruby_value method_result" where
  "parse_inline_trailing_annotation_try buf p =
     parsed (rbs_parse_inline_trailing_annotation p) (\<lambda>annotation p.
       unless_error buf p
         (case annotation of None \<Rightarrow> Some (Inr Ruby_nil)
          | Some annotation \<Rightarrow> translated buf p (\<lambda>ctx. ruby_annotation_to_ruby ctx annotation)))"

definition rbsparser_parse_inline_trailing_annotation :: "ruby_buffer \<Rightarrow> int \<Rightarrow> int \<Rightarrow> ruby_value \<Rightarrow> ruby_value method_result" where
  "rbsparser_parse_inline_trailing_annotation buf first_pos last_pos variables =
     and_then (alloc_parser_from_buffer buf first_pos last_pos) (\<lambda>p.
     and_then (declare_type_variables buf p variables) (parse_inline_trailing_annotation_try buf))"

end
