(* ===== verification/RbsWasm.thy ===== *)
theory RbsWasm
  imports ExtensionEntry
begin

text \<open>
  \<open>wasm/rbs_wasm.c\<close>, the entry points of the parser in WebAssembly, and \<open>lib/rbs/wasm/parser.rb\<close>
  with \<open>runtime.rb\<close>, which are the methods of \<open>RBS::Parser\<close> on top of them where there is no C
  extension. An entry point returns its status and leaves its result in a static buffer, that each
  call replaces; \<open>None\<close> is a failed assertion or the use of a null pointer. Every call of Ruby
  reads the result before the next one. The host copies its strings to the memory of the
  parser, and an argument with a length is the list of the bytes, \<open>None\<close> for a negative length.
\<close>

subsection \<open>Results\<close>

definition RBS_WASM_INVALID_START_POS :: int where
  "RBS_WASM_INVALID_START_POS = -2"

definition RBS_WASM_INVALID_RANGE :: int where
  "RBS_WASM_INVALID_RANGE = -1"

definition RBS_WASM_PARSE_ERROR :: int where
  "RBS_WASM_PARSE_ERROR = 0"

definition RBS_WASM_OK :: int where
  "RBS_WASM_OK = 1"

text \<open>The result of the last call.\<close>

record wasm_result =
  result_buffer :: "byte list"
  result_length :: int

text \<open>A new buffer, with what the caller writes to it; its length is a 32-bit integer.\<close>

definition allocate_result :: "byte list \<Rightarrow> wasm_result" where
  "allocate_result contents =
     \<lparr>result_buffer = contents, result_length = sint (of_nat (length contents) :: 32 word)\<rparr>"

definition rbs_wasm_result_len :: "wasm_result \<Rightarrow> int" where
  "rbs_wasm_result_len result = result_length result"

type_synonym wasm_call = "(int \<times> wasm_result) option"

text \<open>An integer in memory: WebAssembly is little-endian.\<close>

definition i32_bytes :: "int \<Rightarrow> byte list" where
  "i32_bytes value' =
     (let w = word_of_int value' :: 32 word
      in [ucast (w AND 0xff), ucast (drop_bit 8 w AND 0xff), ucast (drop_bit 16 w AND 0xff), ucast (drop_bit 24 w AND 0xff)])"

definition set_error_result :: "rbs_parser \<Rightarrow> wasm_call" where
  "set_error_result p =
     (case parser_error p of
        None \<Rightarrow> None
      | Some error \<Rightarrow>
          let token_type = bytes_of (rbs_token_type_str (tok_type (err_token error)));
              message = bytes_of (err_message error);
              start_position = char_pos (r_start (tok_range (err_token error)));
              end_position = char_pos (r_end (tok_range (err_token error)));
              syntax_error = (if err_syntax_error error then 1 else 0)
          in Some (RBS_WASM_PARSE_ERROR, allocate_result
               (i32_bytes start_position @ i32_bytes end_position @ [syntax_error] @ i32_bytes (int (length token_type)) @ token_type @
                i32_bytes (int (length message)) @ message)))"

definition set_serialized_result :: "rbs_parser \<Rightarrow> writer \<Rightarrow> wasm_call" where
  "set_serialized_result p node =
     (case rbs_serialize_node (constant_pool p) node of
        None \<Rightarrow> None
      | Some bytes \<Rightarrow> Some (RBS_WASM_OK, allocate_result (string_bytes bytes)))"

subsection \<open>Arguments\<close>

definition range_is_valid :: "int \<Rightarrow> int \<Rightarrow> bool" where
  "range_is_valid first_pos last_pos \<longleftrightarrow> first_pos \<ge> 0 \<and> last_pos \<ge> 0 \<and> first_pos \<le> last_pos"

definition clamp_end_pos :: "int \<Rightarrow> int \<Rightarrow> int" where
  "clamp_end_pos last_pos len = (if last_pos < len then last_pos else len)"

definition RBS_ENCODING_UTF_8_ENTRY :: rbs_encoding where
  "RBS_ENCODING_UTF_8_ENTRY = rbs_encodings ! 0"

definition resolve_encoding :: "byte list \<Rightarrow> rbs_encoding" where
  "resolve_encoding name =
     (if length name > 0 then
        (case rbs_encoding_find name of Some encoding \<Rightarrow> encoding | None \<Rightarrow> RBS_ENCODING_UTF_8_ENTRY)
      else RBS_ENCODING_UTF_8_ENTRY)"

text \<open>
  The names are separated by line feeds, and empty ones skipped. What \<open>rbs_parser_insert_typevar\<close>
  returns is not looked at. As in the extension, the address of a copy is 0.
\<close>

definition declare_variable :: "rbs_parser \<Rightarrow> byte list \<Rightarrow> rbs_parser option" where
  "declare_variable p name =
     (if length name > 0 then
        (case rbs_constant_pool_insert_owned (\<lambda>_. True) (constant_pool p) \<lparr>c_start = 0, c_bytes = name\<rparr> of
           Inl _ \<Rightarrow> None
         | Inr (constant_id, pool) \<Rightarrow>
             (case rbs_parser_insert_typevar (p\<lparr>constant_pool := pool\<rparr>) constant_id of
                Done _ p \<Rightarrow> Some p
              | Failed p \<Rightarrow> Some p
              | Aborted \<Rightarrow> None
              | Out_of_fuel \<Rightarrow> None))
      else Some p)"

text \<open>The loop: the bytes of the name so far, and those from the cursor on.\<close>

fun declare_names :: "rbs_parser \<Rightarrow> byte list \<Rightarrow> byte list \<Rightarrow> rbs_parser option" where
  "declare_names p name [] = declare_variable p name"
| "declare_names p name (c # cursor) =
     (if c = 10 then (case declare_variable p name of None \<Rightarrow> None | Some p \<Rightarrow> declare_names p [] cursor)
      else declare_names p (name @ [c]) cursor)"

definition declare_variables :: "rbs_parser \<Rightarrow> byte list option \<Rightarrow> rbs_parser option" where
  "declare_variables p variables =
     (case variables of
        None \<Rightarrow> Some p
      | Some names \<Rightarrow> declare_names (rbs_parser_push_typevar_table p True) [] names)"

subsection \<open>Entry points\<close>

text \<open>How each of them starts.\<close>

definition with_parser ::
  "byte list \<Rightarrow> byte list \<Rightarrow> int \<Rightarrow> int \<Rightarrow> (rbs_parser \<Rightarrow> wasm_call) \<Rightarrow> wasm_call"
where
  "with_parser source encoding first_pos last_pos k =
     (if \<not> range_is_valid first_pos last_pos then Some (RBS_WASM_INVALID_RANGE, allocate_result [])
      else
        (case rbs_parser_new (rbs_string_new source 0 (length source)) (resolve_encoding encoding) first_pos
            (clamp_end_pos last_pos (int (length source))) of
           None \<Rightarrow> Some (RBS_WASM_INVALID_START_POS, allocate_result [])
         | Some (Done _ p) \<Rightarrow> k p
         | Some _ \<Rightarrow> None))"

definition rbs_wasm_parse_signature :: "rbs_range \<Rightarrow> byte list \<Rightarrow> byte list \<Rightarrow> int \<Rightarrow> int \<Rightarrow> wasm_call" where
  "rbs_wasm_parse_signature uninit source encoding first_pos last_pos =
     with_parser source encoding first_pos last_pos (\<lambda>p.
       parsed (rbs_parse_signature uninit p) (\<lambda>signature p.
         if parser_error p = None then set_serialized_result p (w_nullable (map_option serialize_signature signature))
         else set_error_result p))"

definition rbs_wasm_parse_type ::
  "byte list \<Rightarrow> byte list \<Rightarrow> int \<Rightarrow> int \<Rightarrow> byte list option \<Rightarrow> bool \<Rightarrow> bool \<Rightarrow> bool \<Rightarrow> bool \<Rightarrow> wasm_call"
where
  "rbs_wasm_parse_type source encoding first_pos last_pos variables require_eof void_allowed self_allowed classish_allowed =
     with_parser source encoding first_pos last_pos (\<lambda>p.
       case declare_variables p variables of
         None \<Rightarrow> None
       | Some p \<Rightarrow>
           if tok_type (next_token p) = pEOF then Some (RBS_WASM_OK, allocate_result [])
           else parsed (rbs_parse_type void_allowed self_allowed classish_allowed p) (\<lambda>type p.
             case (if parser_error p = None \<and> require_eof then
                     map_option (\<lambda>p. if tok_type (current_token p) \<noteq> pEOF then
                         rbs_parser_set_error p (current_token p) True (''expected a token `'' @ rbs_token_type_str pEOF @ ''`'')
                       else p) (rbs_parser_advance p)
                   else Some p) of
               None \<Rightarrow> None
             | Some p \<Rightarrow>
                 if parser_error p = None then set_serialized_result p (w_nullable (map_option serialize_node type))
                 else set_error_result p))"

definition rbs_wasm_parse_method_type ::
  "byte list \<Rightarrow> byte list \<Rightarrow> int \<Rightarrow> int \<Rightarrow> byte list option \<Rightarrow> bool \<Rightarrow> wasm_call"
where
  "rbs_wasm_parse_method_type source encoding first_pos last_pos variables require_eof =
     with_parser source encoding first_pos last_pos (\<lambda>p.
       case declare_variables p variables of
         None \<Rightarrow> None
       | Some p \<Rightarrow>
           if tok_type (next_token p) = pEOF then Some (RBS_WASM_OK, allocate_result [])
           else parsed (rbs_parse_method_type require_eof True p) (\<lambda>method_type p.
             if parser_error p = None then set_serialized_result p (w_nullable (map_option serialize_method_type method_type))
             else set_error_result p))"

text \<open>A list that is \<open>NULL\<close> is used by \<open>rbs_serialize_node_list\<close>.\<close>

definition rbs_wasm_parse_type_params :: "byte list \<Rightarrow> byte list \<Rightarrow> int \<Rightarrow> int \<Rightarrow> bool \<Rightarrow> wasm_call" where
  "rbs_wasm_parse_type_params source encoding first_pos last_pos module_type_params =
     with_parser source encoding first_pos last_pos (\<lambda>p.
       if tok_type (next_token p) = pEOF then Some (RBS_WASM_OK, allocate_result [])
       else parsed (rbs_parse_type_params module_type_params p) (\<lambda>params p.
         if parser_error p = None then
           (case params of
              None \<Rightarrow> None
            | Some params \<Rightarrow>
                (case rbs_serialize_node_list (constant_pool p) (map serialize_type_param params) of
                   None \<Rightarrow> None
                 | Some bytes \<Rightarrow> Some (RBS_WASM_OK, allocate_result (string_bytes bytes))))
         else set_error_result p))"

definition wasm_parse_inline_annotation ::
  "byte list \<Rightarrow> byte list \<Rightarrow> int \<Rightarrow> int \<Rightarrow> byte list option \<Rightarrow> bool \<Rightarrow> wasm_call"
where
  "wasm_parse_inline_annotation source encoding first_pos last_pos variables leading =
     with_parser source encoding first_pos last_pos (\<lambda>p.
       case declare_variables p variables of
         None \<Rightarrow> None
       | Some p \<Rightarrow>
           parsed (if leading then rbs_parse_inline_leading_annotation p else rbs_parse_inline_trailing_annotation p) (\<lambda>annotation p.
             if parser_error p \<noteq> None then set_error_result p
             else
               (case annotation of
                  None \<Rightarrow> Some (RBS_WASM_OK, allocate_result [])
                | Some annotation \<Rightarrow> set_serialized_result p (serialize_ruby_annotation annotation))))"

definition rbs_wasm_parse_inline_leading_annotation ::
  "byte list \<Rightarrow> byte list \<Rightarrow> int \<Rightarrow> int \<Rightarrow> byte list option \<Rightarrow> wasm_call"
where
  "rbs_wasm_parse_inline_leading_annotation source encoding first_pos last_pos variables =
     wasm_parse_inline_annotation source encoding first_pos last_pos variables True"

definition rbs_wasm_parse_inline_trailing_annotation ::
  "byte list \<Rightarrow> byte list \<Rightarrow> int \<Rightarrow> int \<Rightarrow> byte list option \<Rightarrow> wasm_call"
where
  "rbs_wasm_parse_inline_trailing_annotation source encoding first_pos last_pos variables =
     wasm_parse_inline_annotation source encoding first_pos last_pos variables False"

subsection \<open>Lexing\<close>

definition w_lex_u32 :: "rbs_buffer \<Rightarrow> int \<Rightarrow> rbs_buffer option" where
  "w_lex_u32 b value' =
     (let w = word_of_int value' :: 32 word
      in rbs_buffer_append_string b
        [ucast (w AND 0xff), ucast (drop_bit 8 w AND 0xff), ucast (drop_bit 16 w AND 0xff), ucast (drop_bit 24 w AND 0xff)])"

text \<open>What is written for a token.\<close>

definition w_token :: "rbs_buffer \<Rightarrow> rbs_token \<Rightarrow> rbs_buffer option" where
  "w_token b token =
     (let type_name = bytes_of (rbs_token_type_str (tok_type token)) in
      case w_lex_u32 b (int (length type_name)) of
        None \<Rightarrow> None
      | Some b \<Rightarrow>
          (case rbs_buffer_append_string b type_name of
             None \<Rightarrow> None
           | Some b \<Rightarrow>
               (case w_lex_u32 b (char_pos (r_start (tok_range token))) of
                  None \<Rightarrow> None
                | Some b \<Rightarrow> w_lex_u32 b (char_pos (r_end (tok_range token))))))"

text \<open>The loop, with the fuel of \<open>rbsparser_lex\<close>.\<close>

fun wasm_lex_loop :: "nat \<Rightarrow> rbs_lexer \<Rightarrow> rbs_buffer \<Rightarrow> rbs_buffer option" where
  "wasm_lex_loop 0 lx b = None"
| "wasm_lex_loop (Suc fuel) lx b =
     (case rbs_lexer_next_token lx of
        None \<Rightarrow> None
      | Some (token, lx) \<Rightarrow>
          (case w_token b token of
             None \<Rightarrow> None
           | Some b \<Rightarrow> if tok_type token = pEOF then Some b else wasm_lex_loop fuel lx b))"

definition rbs_wasm_lex :: "byte list \<Rightarrow> byte list \<Rightarrow> int \<Rightarrow> wasm_call" where
  "rbs_wasm_lex source encoding last_pos =
     (if \<not> range_is_valid 0 last_pos then Some (RBS_WASM_INVALID_RANGE, allocate_result [])
      else
        (let last_pos = clamp_end_pos last_pos (int (length source)) in
         case rbs_lexer_new (rbs_string_new source 0 (length source)) (resolve_encoding encoding) 0 last_pos of
           None \<Rightarrow> None
         | Some lx \<Rightarrow>
             (case wasm_lex_loop (Suc (nat last_pos)) lx rbs_buffer_init of
                None \<Rightarrow> None
              | Some b \<Rightarrow> Some (RBS_WASM_OK, allocate_result (string_bytes (rbs_buffer_to_string b))))))"

subsection \<open>The methods in Ruby\<close>

text \<open>\<open>read_result\<close>, with the status.\<close>

definition run_result :: "wasm_call \<Rightarrow> (int \<times> byte list) option" where
  "run_result call = map_option (\<lambda>(status, result). (status, take (nat (rbs_wasm_result_len result)) (result_buffer result))) call"

text \<open>The parts of the error are read in the order they are written in.\<close>

definition raise_parsing_error :: "byte list \<Rightarrow> ruby_error option" where
  "raise_parsing_error blob =
     map_option fst
       (reading read_i32 (\<lambda>start_position. reading read_i32 (\<lambda>end_position. reading read_u8 (\<lambda>syntax_error.
          if syntax_error = 0 then value_read Runtime_error
          else reading read_string (\<lambda>token_type. reading read_string (\<lambda>message.
            value_read (Parsing_error (Ruby_location start_position end_position []) message token_type)))))) blob)"

definition raise_parse_failure :: "int \<Rightarrow> byte list \<Rightarrow> ruby_error option" where
  "raise_parse_failure status bytes =
     (if status = RBS_WASM_INVALID_START_POS then Some Argument_error
      else if status = RBS_WASM_INVALID_RANGE then Some Argument_error
      else raise_parsing_error bytes)"

definition ruby_validate_variables :: "ruby_value \<Rightarrow> ruby_error option" where
  "ruby_validate_variables variables =
     (case variables of
        Ruby_nil \<Rightarrow> None
      | Ruby_array elements \<Rightarrow> if list_all (\<lambda>v. case v of Ruby_symbol _ \<Rightarrow> True | _ \<Rightarrow> False) elements then None else Some Type_error
      | _ \<Rightarrow> Some Type_error)"

text \<open>\<open>with_variables\<close>: the names joined by line feeds.\<close>

fun join_names :: "ruby_value list \<Rightarrow> byte list" where
  "join_names [] = []"
| "join_names [Ruby_symbol name] = name"
| "join_names (Ruby_symbol name # names) = name @ [10] @ join_names names"
| "join_names (_ # names) = join_names names"

definition with_variables :: "ruby_value \<Rightarrow> byte list option" where
  "with_variables variables = (case variables of Ruby_array elements \<Rightarrow> Some (join_names elements) | _ \<Rightarrow> None)"

text \<open>What a method makes of the status and the bytes.\<close>

definition finish_call :: "wasm_call \<Rightarrow> (byte list \<Rightarrow> ruby_value option) \<Rightarrow> ruby_value method_result" where
  "finish_call call decode =
     (case run_result call of
        None \<Rightarrow> None
      | Some (status, bytes) \<Rightarrow>
          if status = RBS_WASM_OK then map_option Inr (decode bytes)
          else map_option Inl (raise_parse_failure status bytes))"

definition deserialize_or_nil :: "byte list \<Rightarrow> ruby_value option" where
  "deserialize_or_nil bytes = (if bytes = [] then Some Ruby_nil else deserialize bytes)"

text \<open>The validation of ranges is the one of the extension.\<close>

definition wasm_parse_signature :: "rbs_range \<Rightarrow> ruby_buffer \<Rightarrow> int \<Rightarrow> int \<Rightarrow> bool \<Rightarrow> ruby_value method_result" where
  "wasm_parse_signature uninit buf first_pos last_pos forwarding_params =
     (case validate_position_range (rb_content buf) first_pos last_pos of
        Some e \<Rightarrow> Some (Inl e)
      | None \<Rightarrow>
          if forwarding_params then Some (Inl Not_implemented_error)
          else finish_call (rbs_wasm_parse_signature uninit (string_bytes (rb_content buf)) (rb_encoding_name buf) first_pos last_pos)
            deserialize)"

definition wasm_parse_type ::
  "ruby_buffer \<Rightarrow> int \<Rightarrow> int \<Rightarrow> ruby_value \<Rightarrow> bool \<Rightarrow> bool \<Rightarrow> bool \<Rightarrow> bool \<Rightarrow> ruby_value method_result"
where
  "wasm_parse_type buf first_pos last_pos variables require_eof void_allowed self_allowed classish_allowed =
     (case validate_position_range (rb_content buf) first_pos last_pos of
        Some e \<Rightarrow> Some (Inl e)
      | None \<Rightarrow>
          (case ruby_validate_variables variables of
             Some e \<Rightarrow> Some (Inl e)
           | None \<Rightarrow>
               finish_call (rbs_wasm_parse_type (string_bytes (rb_content buf)) (rb_encoding_name buf) first_pos last_pos
                 (with_variables variables) require_eof void_allowed self_allowed classish_allowed) deserialize_or_nil))"

definition wasm_parse_method_type ::
  "ruby_buffer \<Rightarrow> int \<Rightarrow> int \<Rightarrow> ruby_value \<Rightarrow> bool \<Rightarrow> bool \<Rightarrow> ruby_value method_result"
where
  "wasm_parse_method_type buf first_pos last_pos variables require_eof forwarding_params =
     (case validate_position_range (rb_content buf) first_pos last_pos of
        Some e \<Rightarrow> Some (Inl e)
      | None \<Rightarrow>
          (case ruby_validate_variables variables of
             Some e \<Rightarrow> Some (Inl e)
           | None \<Rightarrow>
               if forwarding_params then Some (Inl Not_implemented_error)
               else finish_call (rbs_wasm_parse_method_type (string_bytes (rb_content buf)) (rb_encoding_name buf) first_pos last_pos
                 (with_variables variables) require_eof) deserialize_or_nil))"

definition wasm_parse_type_params :: "ruby_buffer \<Rightarrow> int \<Rightarrow> int \<Rightarrow> ruby_value \<Rightarrow> ruby_value method_result" where
  "wasm_parse_type_params buf first_pos last_pos module_type_params =
     (case validate_position_range (rb_content buf) first_pos last_pos of
        Some e \<Rightarrow> Some (Inl e)
      | None \<Rightarrow>
          finish_call (rbs_wasm_parse_type_params (string_bytes (rb_content buf)) (rb_encoding_name buf) first_pos last_pos
            (module_type_params \<noteq> Ruby_nil \<and> module_type_params \<noteq> Ruby_bool False))
            (\<lambda>bytes. if bytes = [] then Some Ruby_nil else deserialize_node_list bytes))"

definition wasm_parse_inline ::
  "bool \<Rightarrow> ruby_buffer \<Rightarrow> int \<Rightarrow> int \<Rightarrow> ruby_value \<Rightarrow> ruby_value method_result"
where
  "wasm_parse_inline leading buf first_pos last_pos variables =
     (case validate_position_range (rb_content buf) first_pos last_pos of
        Some e \<Rightarrow> Some (Inl e)
      | None \<Rightarrow>
          (case ruby_validate_variables variables of
             Some e \<Rightarrow> Some (Inl e)
           | None \<Rightarrow>
               finish_call ((if leading then rbs_wasm_parse_inline_leading_annotation else rbs_wasm_parse_inline_trailing_annotation)
                 (string_bytes (rb_content buf)) (rb_encoding_name buf) first_pos last_pos (with_variables variables)) deserialize_or_nil))"

text \<open>\<open>read_tokens\<close>: a token takes at least twelve bytes.\<close>

primrec read_tokens :: "nat \<Rightarrow> ruby_value list reader" where
  "read_tokens 0 bytes = None"
| "read_tokens (Suc fuel) bytes =
     (if bytes = [] then Some ([], [])
      else reading read_string (\<lambda>type. reading read_i32 (\<lambda>start_position. reading read_i32 (\<lambda>end_position.
        reading (read_tokens fuel) (\<lambda>tokens.
          value_read (Ruby_array [Ruby_symbol type, Ruby_location start_position end_position []] # tokens))))) bytes)"

definition deserialize_tokens :: "byte list \<Rightarrow> ruby_value option" where
  "deserialize_tokens bytes = map_option (\<lambda>(tokens, _). Ruby_array tokens) (read_tokens (Suc (length bytes)) bytes)"

text \<open>\<open>_lex\<close> does not look at the status.\<close>

definition wasm_lex :: "ruby_buffer \<Rightarrow> int \<Rightarrow> ruby_value method_result" where
  "wasm_lex buf last_pos =
     (case run_result (rbs_wasm_lex (string_bytes (rb_content buf)) (rb_encoding_name buf) last_pos) of
        None \<Rightarrow> None
      | Some (_, bytes) \<Rightarrow> map_option Inr (deserialize_tokens bytes))"

text \<open>The same method in the extension: the pairs of the tokens that \<open>rbsparser_lex\<close> collects.\<close>

definition token_pair :: "ruby_buffer \<Rightarrow> rbs_token \<Rightarrow> ruby_value" where
  "token_pair buf token =
     Ruby_array [Ruby_symbol (bytes_of (rbs_token_type_str (tok_type token))), location_object (rbs_new_location (rb_object buf) (tok_range token))]"

definition rbsparser_lex_pairs :: "ruby_buffer \<Rightarrow> rbs_encoding \<Rightarrow> int \<Rightarrow> ruby_value option" where
  "rbsparser_lex_pairs buf encoding last_pos =
     map_option (\<lambda>tokens. Ruby_array (map (token_pair buf) tokens)) (rbsparser_lex (rb_content buf) encoding last_pos)"

end
