(* ===== verification/HostProps.thy ===== *)
theory HostProps
  imports RbsWasm AstTranslationProps SignatureProps
begin

text \<open>
  The two implementations of \<open>RBS::Parser\<close> side by side: the C extension, and the WebAssembly module
  with the Ruby code that decodes what it returns.
\<close>

subsection \<open>The bytes of an error\<close>

lemma read_u32_bytes: "read_u32 ([ucast (x AND 0xff), ucast (drop_bit 8 x AND 0xff), ucast (drop_bit 16 x AND 0xff),
    ucast (drop_bit 24 x AND 0xff)] @ rest) = Some (unat (x :: 32 word), rest)"
proof -
  have "unat x < 2 ^ 32" using unsigned_less [of x] by simp
  from bytes_of_u32 [OF this] show ?thesis
    using byte_of_word [of 0 x] byte_of_word [of 8 x] byte_of_word [of 16 x] byte_of_word [of 24 x] by simp
qed

lemma read_u32_i32_bytes: "read_u32 (i32_bytes i @ rest) = Some (unat (word_of_int i :: 32 word), rest)"
  unfolding i32_bytes_def Let_def by (rule read_u32_bytes)

lemma read_i32_bytes: "read_i32 (i32_bytes i @ rest) = Some (as_i32 i, rest)"
  by (simp add: read_i32_def reading_def read_u32_i32_bytes value_read_def as_i32_def sint_unat)

lemma read_string_bytes:
  assumes "length s < 2 ^ 32"
  shows "read_string (i32_bytes (int (length s)) @ s @ rest) = Some (s, rest)"
  using assms by (simp add: read_string_def reading_def read_u32_i32_bytes unsigned_of_nat take_bit_nat_eq_self)

lemma length_i32_bytes [simp]: "length (i32_bytes i) = 4"
  by (simp add: i32_bytes_def Let_def)

lemma run_result_allocated:
  assumes "length bytes < 2 ^ 31"
  shows "run_result (Some (status, allocate_result bytes)) = Some (status, bytes)"
proof -
  have "sint (of_nat (length bytes) :: 32 word) = int (length bytes)"
    using assms by (simp add: sint_unat unsigned_of_nat take_bit_nat_eq_self)
  then show ?thesis by (simp add: run_result_def allocate_result_def rbs_wasm_result_len_def)
qed

text \<open>
  The positions of the error are C integers, and its strings with 17 more bytes are shorter than
  2 GB.
\<close>

definition error_fits :: "rbs_error \<Rightarrow> bool" where
  "error_fits error \<longleftrightarrow>
     as_i32 (char_pos (r_start (tok_range (err_token error)))) = char_pos (r_start (tok_range (err_token error))) \<and>
     as_i32 (char_pos (r_end (tok_range (err_token error)))) = char_pos (r_end (tok_range (err_token error))) \<and>
     int (length (err_message error)) + int (length (rbs_token_type_str (tok_type (err_token error)))) + 17 < 2 ^ 31"

lemma length_bytes_of [simp]: "length (bytes_of s) = length s"
  by (simp add: bytes_of_def)

lemma error_blob:
  assumes "length t < 2 ^ 32" and "length m < 2 ^ 32"
  shows "raise_parsing_error (i32_bytes i @ i32_bytes j @ [b] @ i32_bytes (int (length t)) @ t @ i32_bytes (int (length m)) @ m) =
    Some (if b = 0 then Runtime_error else Parsing_error (Ruby_location (as_i32 i) (as_i32 j) []) m t)"
proof -
  have "read_string (i32_bytes (int (length m)) @ m) = Some (m, [])"
    using read_string_bytes [OF assms(2), of "[]"] by simp
  then show ?thesis
    by (simp add: raise_parsing_error_def reading_def value_read_def read_i32_bytes read_string_bytes [OF assms(1)])
qed

lemma error_decoded:
  assumes "parser_error p = Some error" and "error_fits error"
  shows "finish_call (set_error_result p) decode = Some (Inl (raise_error buf error))"
proof -
  let ?type = "bytes_of (rbs_token_type_str (tok_type (err_token error)))" and ?message = "bytes_of (err_message error)"
  let ?i = "char_pos (r_start (tok_range (err_token error)))" and ?j = "char_pos (r_end (tok_range (err_token error)))"
  let ?bytes = "i32_bytes ?i @ i32_bytes ?j @ [if err_syntax_error error then 1 else 0] @ i32_bytes (int (length ?type)) @ ?type @
    i32_bytes (int (length ?message)) @ ?message"
  have "location_object (rbs_new_location (rb_object buf) (tok_range (err_token error))) = Ruby_location ?i ?j []"
    by (simp add: rbs_new_location_def rbs_loc_init_def location_object_def location_start_pos_def location_end_pos_def loc_entries_def)
  moreover have "raise_parsing_error ?bytes = Some (if (if err_syntax_error error then 1 else 0 :: byte) = 0 then Runtime_error
      else Parsing_error (Ruby_location (as_i32 ?i) (as_i32 ?j) []) ?message ?type)"
    by (rule error_blob) (use assms(2) in \<open>simp_all add: error_fits_def\<close>)
  ultimately have "raise_parsing_error ?bytes = Some (raise_error buf error)"
    using assms(2) by (simp add: raise_error_def error_fits_def)
  moreover have "set_error_result p = Some (RBS_WASM_PARSE_ERROR, allocate_result ?bytes)"
    using assms(1) by (simp add: set_error_result_def Let_def)
  moreover have "length ?bytes < 2 ^ 31" using assms(2) by (simp add: error_fits_def)
  ultimately show ?thesis
    by (simp only: finish_call_def run_result_allocated option.case prod.case)
      (simp add: RBS_WASM_PARSE_ERROR_def RBS_WASM_OK_def raise_parse_failure_def
      RBS_WASM_INVALID_START_POS_def RBS_WASM_INVALID_RANGE_def)
qed

subsection \<open>The bytes of a tree\<close>

text \<open>
  What a parse leaves can be sent: there is an error that fits, or the tree is valid and its bytes
  are less than 2 GB.
\<close>

definition carries :: "(rbs_constant_pool \<Rightarrow> 'n \<Rightarrow> bool) \<Rightarrow> ('n \<Rightarrow> writer) \<Rightarrow> 'n outcome \<Rightarrow> bool" where
  "carries ok w r \<longleftrightarrow>
     (case r of
        Done node p \<Rightarrow>
          (case parser_error p of
             Some error \<Rightarrow> error_fits error
           | None \<Rightarrow> ok (constant_pool p) node \<and>
               (case rbs_serialize_node (constant_pool p) (w node) of None \<Rightarrow> True | Some out \<Rightarrow> int (length (string_bytes out)) < 2 ^ 31))
      | Failed p \<Rightarrow> (case parser_error p of Some error \<Rightarrow> error_fits error | None \<Rightarrow> True)
      | _ \<Rightarrow> True)"

lemma serialized_decoded:
  assumes "sends (constant_pool p) read_node w v"
    and "\<forall>out. rbs_serialize_node (constant_pool p) w = Some out \<longrightarrow> length (string_bytes out) < 2 ^ 31"
  shows "finish_call (set_serialized_result p w) deserialize = Some (Inr v)"
    and "finish_call (set_serialized_result p w) deserialize_or_nil = Some (Inr v)"
proof -
  obtain out where out: "rbs_serialize_node (constant_pool p) w = Some out"
    "length (string_bytes out) < 2 ^ 32 \<longrightarrow> deserialize (string_bytes out) = Some v"
    using serialize_node_value [OF assms(1)] by blast
  then have len: "length (string_bytes out) < 2 ^ 31" using assms(2) by blast
  then have d: "deserialize (string_bytes out) = Some v" using out(2) by simp
  then have "string_bytes out \<noteq> []" by (auto simp: deserialize_def reading_def)
  with d show "finish_call (set_serialized_result p w) deserialize = Some (Inr v)"
    and "finish_call (set_serialized_result p w) deserialize_or_nil = Some (Inr v)"
    by (simp_all add: finish_call_def set_serialized_result_def out(1) run_result_allocated [OF len] deserialize_or_nil_def)
qed

text \<open>A method of the extension after the parse, and the same of the other host.\<close>

lemma results_agree:
  assumes "carries ok w r" and "run_ok q Q r"
    and "\<And>pool node. ok pool node \<Longrightarrow> sends pool read_node (w node) (view pool node)"
    and "\<And>ctx node. ok (tr_constant_pool ctx) node \<Longrightarrow> to_ruby ctx node = Inr (view (tr_constant_pool ctx) node)"
    and "decode = deserialize \<or> decode = deserialize_or_nil"
  shows "parsed r (\<lambda>node p. unless_error buf p (translated_pointer buf p to_ruby node)) =
    finish_call (parsed r (\<lambda>node p. if parser_error p = None then set_serialized_result p (w_nullable (map_option w node))
      else set_error_result p)) decode"
proof (cases r)
  case (Done node p)
  show ?thesis
  proof (cases "parser_error p")
    case None
    then have "ok (constant_pool p) node"
      and short: "\<forall>out. rbs_serialize_node (constant_pool p) (w node) = Some out \<longrightarrow> length (string_bytes out) < 2 ^ 31"
      using assms(1) Done by (auto simp: carries_def)
    then have "finish_call (set_serialized_result p (w node)) decode = Some (Inr (view (constant_pool p) node))"
      using serialized_decoded [OF assms(3)] assms(5) by blast
    moreover have "to_ruby \<lparr>tr_constant_pool = constant_pool p, tr_buffer = rb_object buf\<rparr> node = Inr (view (constant_pool p) node)"
      using assms(4) [of "\<lparr>tr_constant_pool = constant_pool p, tr_buffer = rb_object buf\<rparr>"] \<open>ok (constant_pool p) node\<close> by simp
    ultimately show ?thesis using Done None
      by (simp add: parsed_def unless_error_def raise_error_if_any_def translated_pointer_def translated_def
        rbs_struct_to_ruby_value_def w_nullable_def)
  next
    case (Some error)
    then show ?thesis using Done assms(1) error_decoded [OF Some, of decode buf]
      by (simp add: parsed_def carries_def unless_error_def raise_error_if_any_def)
  qed
next
  case (Failed p)
  then show ?thesis using assms(1,2) error_decoded [of p _ decode buf]
    by (auto simp: parsed_def carries_def unless_error_def raise_error_if_any_def run_ok.simps split: option.splits)
qed (use assms(2) in \<open>simp_all add: run_ok.simps\<close>)

subsection \<open>The arguments\<close>

text \<open>
  A buffer and the rest of the arguments that both hosts take in the same way: no NUL byte, an
  encoding of the table, an end that is not behind the source, names of type variables that are
  not empty and have no line feed, and room for them and all names of the source in the pool.
\<close>

definition host_input :: "ruby_buffer \<Rightarrow> int \<Rightarrow> byte list list option \<Rightarrow> bool" where
  "host_input buf last_pos variables \<longleftrightarrow>
     rb_content buf = rbs_string_new (string_bytes (rb_content buf)) 0 (length (string_bytes (rb_content buf))) \<and>
     0 \<notin> set (string_bytes (rb_content buf)) \<and> rbs_encoding_find (rb_encoding_name buf) \<noteq> None \<and>
     last_pos \<le> int (length (string_bytes (rb_content buf))) \<and>
     (case variables of None \<Rightarrow> length (string_bytes (rb_content buf)) + 2 < 2 ^ 30
      | Some tvs \<Rightarrow> length (string_bytes (rb_content buf)) + length tvs + 2 < 2 ^ 30 \<and>
          list_all (\<lambda>name. name \<noteq> [] \<and> 10 \<notin> set name) tvs)"

definition variables_value :: "byte list list option \<Rightarrow> ruby_value" where
  "variables_value variables = (case variables of None \<Rightarrow> Ruby_nil | Some tvs \<Rightarrow> Ruby_array (map Ruby_symbol tvs))"

text \<open>The parser that a method with variables starts with, in the extension.\<close>

definition starting_parser :: "ruby_buffer \<Rightarrow> int \<Rightarrow> int \<Rightarrow> byte list list option \<Rightarrow> rbs_parser method_result" where
  "starting_parser buf first_pos last_pos variables =
     and_then (alloc_parser_from_buffer buf first_pos last_pos) (\<lambda>p. declare_type_variables buf p (variables_value variables))"

text \<open>A parser with \<open>n\<close> more strings in its pool still has room.\<close>

definition prepared :: "nat \<Rightarrow> rbs_parser \<Rightarrow> bool" where
  "prepared n p \<longleftrightarrow> parser_ok p \<and> spent p + n + 2 < 2 ^ 30 \<and> scope_open (vars p) \<and> parser_error p = None"

lemma declare_variable_value:
  assumes "prepared (Suc n) p" and "vars p \<noteq> []" and "name \<noteq> []"
  obtains q where "declare_variable p name = Some q" "declare_type_variable buf p name = Some (Inr q)" "prepared n q" "vars q \<noteq> []"
proof -
  let ?c = "\<lparr>c_start = 0, c_bytes = name\<rparr>"
  have inv: "pool_inv (constant_pool p)" and size: "unat (pool_size (constant_pool p)) + 1 < 2 ^ 30"
    using assms(1) by (simp_all add: prepared_def parser_ok_def spent_def)
  have "\<exists>i pool. rbs_constant_pool_insert_owned (\<lambda>_. True) (constant_pool p) ?c = Inr (i, pool) \<and> pool_inv pool \<and>
      pool_contents pool = (if name \<in> set (pool_contents (constant_pool p)) then pool_contents (constant_pool p)
        else pool_contents (constant_pool p) @ [name])"
    using insert_value [OF inv, of 1 "\<lambda>_. True" ?c] size
    by (auto simp: rbs_constant_pool_insert_owned_def RBS_CONSTANT_POOL_BUCKET_OWNED_def)
  then obtain i pool where pool: "rbs_constant_pool_insert_owned (\<lambda>_. True) (constant_pool p) ?c = Inr (i, pool)" "pool_inv pool"
    "length (pool_contents pool) \<le> Suc (length (pool_contents (constant_pool p)))" by (auto split: if_splits)
  have le: "unat (pool_size pool) \<le> Suc (unat (pool_size (constant_pool p)))"
    using pool(2,3) inv length_pool_contents by (auto simp: pool_inv_def)
  obtain t rest where v: "vars p = t # rest" "\<not> RESET_TABLE_P t"
    using assms(1,2) by (cases "vars p") (auto simp: prepared_def scope_open_def)
  let ?t = "if table_size t = length (table_ids t) then t\<lparr>table_size := table_size t + 10\<rparr> else t"
  let ?q = "p\<lparr>constant_pool := pool, vars := ?t\<lparr>table_ids := table_ids ?t @ [i]\<rparr> # rest\<rparr>"
  have insert: "rbs_parser_insert_typevar (p\<lparr>constant_pool := pool\<rparr>) i = Done () ?q"
    using v by (auto simp: rbs_parser_insert_typevar_def Let_def)
  have "parser_ok ?q" using parser_ok_cong [of ?q p] assms(1) pool(2) by (simp add: prepared_def)
  moreover have "spent ?q \<le> Suc (spent p)" using le by (simp add: spent_def)
  ultimately have "prepared n ?q" using assms(1) v(2) by (simp add: prepared_def scope_open_def RESET_TABLE_P_def)
  then show ?thesis
    using that [of ?q] assms(3) pool(1) insert by (simp add: declare_variable_def declare_type_variable_def)
qed

lemma declare_names_line: "10 \<notin> set name \<Longrightarrow> declare_names p acc (name @ cursor) = declare_names p (acc @ name) cursor"
  by (induction name arbitrary: acc) auto

lemma declare_names_agree:
  assumes "prepared (length tvs) p" and "vars p \<noteq> []" and "list_all (\<lambda>name. name \<noteq> [] \<and> 10 \<notin> set name) tvs"
  shows "\<exists>q. declare_each buf p (map Ruby_symbol tvs) = Some (Inr q) \<and>
    declare_names p [] (join_names (map Ruby_symbol tvs)) = Some q \<and> prepared 0 q"
  using assms
proof (induction tvs arbitrary: p)
  case Nil
  then show ?case by (simp add: declare_variable_def)
next
  case (Cons name tvs)
  obtain q where q: "declare_variable p name = Some q" "declare_type_variable buf p name = Some (Inr q)" "prepared (length tvs) q" "vars q \<noteq> []"
    using declare_variable_value [of "length tvs" p name buf] Cons.prems by auto
  from Cons.IH [OF q(3,4)] Cons.prems obtain r where r: "declare_each buf q (map Ruby_symbol tvs) = Some (Inr r)"
    "declare_names q [] (join_names (map Ruby_symbol tvs)) = Some r" "prepared 0 r" by auto
  have line: "10 \<notin> set name" using Cons.prems by simp
  have "declare_names p [] (join_names (map Ruby_symbol (name # tvs))) = Some r"
  proof (cases tvs)
    case Nil
    then have "r = q" using r(1) by simp
    with Nil q(1) show ?thesis using declare_names_line [OF line, of p "[]" "[]"] by simp
  next
    case (Cons m ms)
    then show ?thesis
      using declare_names_line [OF line, of p "[]" "10 # join_names (map Ruby_symbol tvs)"] q(1) r(2) by simp
  qed
  with q(2) r(1,3) show ?case by simp
qed

lemma declared:
  assumes "prepared (case variables of None \<Rightarrow> 0 | Some tvs \<Rightarrow> length tvs) p"
    and "host_input buf last_pos variables"
  shows "\<exists>q. declare_type_variables buf p (variables_value variables) = Some (Inr q) \<and>
    declare_variables p (with_variables (variables_value variables)) = Some q \<and> prepared 0 q"
proof (cases variables)
  case None
  then show ?thesis using assms(1)
    by (simp add: declare_type_variables_def variables_value_def declare_variables_def with_variables_def)
next
  case (Some tvs)
  let ?p = "rbs_parser_push_typevar_table p True"
  have "parser_ok ?p" "spent ?p = spent p" "parser_error ?p = parser_error p"
    using assms(1) parser_ok_cong [of ?p p] by (simp_all add: rbs_parser_push_typevar_table_def prepared_def spent_def parser_ok_def Let_def)
  then have "prepared (length tvs) ?p" "vars ?p \<noteq> []"
    using assms(1) Some by (simp_all add: prepared_def rbs_parser_push_typevar_table_def scope_open_def RESET_TABLE_P_def alloc_empty_table_def)
  from declare_names_agree [OF this, of buf] assms(2) Some show ?thesis
    by (auto simp: declare_type_variables_def variables_value_def declare_variables_def with_variables_def host_input_def)
qed

lemma empty_encoding_name: "rbs_encoding_find [] = None"
  by (simp add: rbs_encoding_find_def)

text \<open>A method of the extension with variables, and the same call of the other host.\<close>

definition extension_call ::
  "ruby_buffer \<Rightarrow> int \<Rightarrow> int \<Rightarrow> byte list list option \<Rightarrow> (rbs_parser \<Rightarrow> 'a method_result) \<Rightarrow> 'a method_result"
where
  "extension_call buf first_pos last_pos variables k =
     and_then (alloc_parser_from_buffer buf first_pos last_pos) (\<lambda>p. and_then (declare_type_variables buf p (variables_value variables)) k)"

definition host_call ::
  "ruby_buffer \<Rightarrow> int \<Rightarrow> int \<Rightarrow> byte list list option \<Rightarrow> (rbs_parser \<Rightarrow> wasm_call) \<Rightarrow> (byte list \<Rightarrow> ruby_value option) \<Rightarrow> ruby_value method_result"
where
  "host_call buf first_pos last_pos variables k decode =
     (case validate_position_range (rb_content buf) first_pos last_pos of
        Some e \<Rightarrow> Some (Inl e)
      | None \<Rightarrow> finish_call (with_parser (string_bytes (rb_content buf)) (rb_encoding_name buf) first_pos last_pos
          (\<lambda>p. case declare_variables p (with_variables (variables_value variables)) of None \<Rightarrow> None | Some p \<Rightarrow> k p)) decode)"

lemma calls_agree:
  assumes input: "host_input buf last_pos variables"
    and same: "\<And>p. starting_parser buf first_pos last_pos variables = Some (Inr p) \<Longrightarrow> prepared 0 p \<Longrightarrow>
      k p = finish_call (k' p) decode \<and> k p \<noteq> None"
  shows "extension_call buf first_pos last_pos variables k = host_call buf first_pos last_pos variables k' decode"
    and "extension_call buf first_pos last_pos variables k \<noteq> None"
proof -
  let ?c = "rb_content buf" and ?n = "length (string_bytes (rb_content buf))"
  let ?extra = "case variables of None \<Rightarrow> 0 | Some tvs \<Rightarrow> length tvs"
  have in1: "rbs_string_new (string_bytes ?c) 0 ?n = ?c" "0 \<notin> set (string_bytes ?c)" "last_pos \<le> int ?n"
    using input by (simp_all add: host_input_def)
  have room: "?n + ?extra + 2 < 2 ^ 30" using input by (auto simp: host_input_def split: option.splits)
  obtain e where e: "rbs_encoding_find (rb_encoding_name buf) = Some e" "e \<in> set rbs_encodings"
    using input encoding_find_table by (auto simp: host_input_def)
  then have enc: "resolve_encoding (rb_encoding_name buf) = e"
    using empty_encoding_name by (auto simp: resolve_encoding_def)
  have ext: "extension_call buf first_pos last_pos variables k = host_call buf first_pos last_pos variables k' decode \<and>
    extension_call buf first_pos last_pos variables k \<noteq> None"
  proof (cases "validate_position_range ?c first_pos last_pos")
    case (Some e)
    then show ?thesis
      by (simp add: extension_call_def host_call_def alloc_parser_from_buffer_def alloc_parser_from_buffer_with_options_def and_then_def)
  next
    case None
    then have pos: "0 \<le> first_pos" "range_is_valid first_pos last_pos"
      by (auto simp: validate_position_range_def range_is_valid_def split: if_splits)
    have clamp: "clamp_end_pos last_pos (int ?n) = last_pos" using in1(3) by (simp add: clamp_end_pos_def)
    show ?thesis
    proof (cases "rbs_parser_new ?c e first_pos last_pos")
      case new: None
      then show ?thesis using None e(1) in1 pos enc clamp
        by (simp add: extension_call_def host_call_def alloc_parser_from_buffer_def alloc_parser_from_buffer_with_options_def and_then_def
          rbs_string_from_ruby_string_def with_parser_def rbs_parser_new_def finish_call_def run_result_allocated
          raise_parse_failure_def RBS_WASM_OK_def RBS_WASM_INVALID_START_POS_def)
    next
      case new: (Some r)
      then obtain p where p: "r = Done () p"
        using parser_new_value [OF e(2) pos(1) in1(3), of False] by (auto simp: rbs_parser_new_def)
      have alloc: "alloc_parser_from_buffer buf first_pos last_pos = Some (Inr p)"
        using None e(1) in1 new p
        by (simp add: alloc_parser_from_buffer_def alloc_parser_from_buffer_with_options_def rbs_string_from_ruby_string_def rbs_parser_new_def)
      have small: "?n + 2 < 2 ^ 30" using room by simp
      note fresh = new_parser_ready [OF e(2) pos(1) in1(3) small new [unfolded p]]
      have "spent p = ?n"
      proof -
        note v = parser_new_value [OF e(2) pos(1) in1(3), of False]
        have "parser_ok p" "pool_contents (constant_pool p) = []" "current_token p = NullToken"
          using v new p by (auto simp: rbs_parser_new_def)
        then have "unat (pool_size (constant_pool p)) = 0" "current_token p = NullToken"
          using length_pool_contents [of _ "constant_pool p"] by (auto simp: parser_ok_def pool_inv_def)
        moreover have "source_length p = ?n" using fresh(4) by (simp add: lexer_source_def)
        ultimately show ?thesis by (simp add: spent_def)
      qed
      then have "prepared ?extra p" using fresh room by (simp add: prepared_def ready_def)
      from declared [OF this input] obtain q where q: "declare_type_variables buf p (variables_value variables) = Some (Inr q)"
        "declare_variables p (with_variables (variables_value variables)) = Some q" "prepared 0 q" by blast
      then have "starting_parser buf first_pos last_pos variables = Some (Inr q)"
        using alloc by (simp add: starting_parser_def and_then_def)
      from same [OF this q(3)] obtain y where "k q = Some y" "finish_call (k' q) decode = Some y" by (metis not_None_eq)
      then show ?thesis
        using None alloc q pos new p enc clamp in1(1)
        by (simp add: extension_call_def host_call_def and_then_def with_parser_def)
    qed
  qed
  then show "extension_call buf first_pos last_pos variables k = host_call buf first_pos last_pos variables k' decode"
    "extension_call buf first_pos last_pos variables k \<noteq> None" by blast+
qed

lemma methods_agree:
  assumes "host_input buf last_pos variables"
    and "\<And>p. starting_parser buf first_pos last_pos variables = Some (Inr p) \<Longrightarrow> prepared 0 p \<Longrightarrow>
      k p = finish_call (k' p) decode \<and> k p \<noteq> None"
    and "extension_call buf first_pos last_pos variables k = x" and "host_call buf first_pos last_pos variables k' decode = y"
  shows "x = y \<and> x \<noteq> None"
proof
  show "x = y" unfolding assms(3,4) [symmetric] by (rule calls_agree(1) [OF assms(1)], rule assms(2))
  show "x \<noteq> None" unfolding assms(3) [symmetric] by (rule calls_agree(2) [OF assms(1)], rule assms(2))
qed

lemma prepared_ready: "prepared 0 p \<Longrightarrow> ready (Suc (bytes_left p)) p \<and> scope_open (vars p)"
  by (simp add: prepared_def ready_def roomy_def)

lemma no_token: "finish_call (Some (RBS_WASM_OK, allocate_result [])) deserialize_or_nil = Some (Inr Ruby_nil)"
  by (simp add: finish_call_def run_result_allocated deserialize_or_nil_def)

lemma parsed_some:
  assumes "run_ok q Q r"
  shows "parsed r (\<lambda>node p. unless_error buf p (translated_pointer buf p to_ruby node)) \<noteq> None"
  using assms
  by (cases r) (auto simp: parsed_def run_ok.simps unless_error_def translated_pointer_def translated_def split: option.splits)

subsection \<open>The methods\<close>

text \<open>
  What the parse of a type with its check for the end of the source leaves; a type that is sent
  with \<open>carries\<close> is looked at after that.
\<close>

definition to_end :: "bool \<Rightarrow> 'a outcome \<Rightarrow> 'a outcome" where
  "to_end require_eof r =
     (case r of
        Done node p \<Rightarrow>
          if parser_error p = None \<and> require_eof then
            advancing p (\<lambda>p. if tok_type (current_token p) \<noteq> pEOF then
                fail_with p (current_token p) True (''expected a token `'' @ rbs_token_type_str pEOF @ ''`'')
              else Done node p)
          else Done node p
      | r \<Rightarrow> r)"

lemma to_end_ok:
  assumes "run_ok p Q r"
  shows "run_ok p (\<lambda>_ _. True) (to_end require_eof r)"
proof (cases r)
  case (Done node q)
  then have q: "parser_step p q" "parser_ok q" using assms by (auto simp: run_ok.simps parser_step_def)
  obtain q' where "rbs_parser_advance q = Some q'" "parser_step q q'" using advance_ok [OF q(2)] by metis
  moreover from this q(1) have pq: "parser_step p q'" by (blast intro: step_trans)
  moreover have "parser_step p (rbs_parser_set_error q' t s m)" for t s m
    using pq set_error_step [of q'] by (auto simp: parser_step_def [of p q'] intro: step_trans [OF pq])
  ultimately show ?thesis using Done q(1) by (simp add: to_end_def advancing_def fail_with_def run_ok.simps)
qed (use assms in \<open>simp_all add: to_end_def run_ok.simps\<close>)

lemma type_try_value:
  assumes "run_ok p Q (rbs_parse_type v s c p)" and "next_type p \<noteq> pEOF"
  shows "parse_type_try buf require_eof v s c p =
    parsed (to_end require_eof (rbs_parse_type v s c p)) (\<lambda>type p. unless_error buf p (translated_pointer buf p node_to_ruby type))"
proof (cases "rbs_parse_type v s c p")
  case (Done node q)
  then have "parser_ok q" using assms(1) by (auto simp: run_ok.simps parser_step_def)
  then obtain q' where q': "rbs_parser_advance q = Some q'" "parser_error q' = parser_error q" using advance_ok by metis
  show ?thesis
    using assms(2) Done q'
    by (auto simp: parse_type_try_def parsed_def to_end_def unless_error_def raise_error_if_any_def require_end_def advancing_def
      fail_with_def and_then_def translated_pointer_def rbs_struct_to_ruby_value_def split: option.splits)
qed (use assms in \<open>auto simp: parse_type_try_def parsed_def to_end_def run_ok.simps unless_error_def raise_error_if_any_def split: option.splits\<close>)

lemma wasm_type_value:
  assumes "run_ok p Q (rbs_parse_type v s c p)"
  shows "parsed (rbs_parse_type v s c p) (\<lambda>type p.
      case (if parser_error p = None \<and> require_eof then
              map_option (\<lambda>p. if tok_type (current_token p) \<noteq> pEOF then
                  rbs_parser_set_error p (current_token p) True (''expected a token `'' @ rbs_token_type_str pEOF @ ''`'')
                else p) (rbs_parser_advance p)
            else Some p) of
        None \<Rightarrow> None
      | Some p \<Rightarrow> if parser_error p = None then set_serialized_result p (w_nullable (map_option serialize_node type)) else set_error_result p) =
    parsed (to_end require_eof (rbs_parse_type v s c p)) (\<lambda>type p.
      if parser_error p = None then set_serialized_result p (w_nullable (map_option serialize_node type)) else set_error_result p)"
proof (cases "rbs_parse_type v s c p")
  case (Done node q)
  then have "parser_ok q" using assms by (auto simp: run_ok.simps parser_step_def)
  then obtain q' where q': "rbs_parser_advance q = Some q'" "parser_error q' = parser_error q" using advance_ok by metis
  with Done show ?thesis by (auto simp: parsed_def to_end_def advancing_def fail_with_def split: option.splits)
qed (use assms in \<open>auto simp: parsed_def to_end_def run_ok.simps split: option.splits\<close>)

lemma annotation_values:
  assumes "run_ok p Q r"
  shows "parsed r (\<lambda>annotation p. unless_error buf p
        (case annotation of None \<Rightarrow> Some (Inr Ruby_nil) | Some annotation \<Rightarrow> translated buf p (\<lambda>ctx. to_ruby ctx annotation))) =
      parsed r (\<lambda>node p. unless_error buf p (translated_pointer buf p to_ruby node))"
    and "parsed r (\<lambda>annotation p. if parser_error p \<noteq> None then set_error_result p
        else (case annotation of None \<Rightarrow> Some (RBS_WASM_OK, allocate_result []) | Some annotation \<Rightarrow> set_serialized_result p (w annotation))) =
      parsed r (\<lambda>node p. if parser_error p = None then set_serialized_result p (w_nullable (map_option w node)) else set_error_result p)"
  using assms
  by (cases r; auto simp: parsed_def run_ok.simps unless_error_def raise_error_if_any_def translated_pointer_def rbs_struct_to_ruby_value_def
    w_nullable_def split: option.splits)+

text \<open>The trees that both ways to Ruby take.\<close>

definition signature_sent :: "rbs_constant_pool \<Rightarrow> rbs_signature \<Rightarrow> bool" where
  "signature_sent pool node \<longleftrightarrow> valid_signature pool node \<and> translatable_signature node"

definition type_sent :: "rbs_constant_pool \<Rightarrow> rbs_node \<Rightarrow> bool" where
  "type_sent pool node \<longleftrightarrow> valid_node pool node \<and> translatable_node node"

definition method_type_sent :: "rbs_constant_pool \<Rightarrow> rbs_method_type \<Rightarrow> bool" where
  "method_type_sent pool node \<longleftrightarrow> valid_method_type pool node \<and> translatable_method_type node"

definition annotation_sent :: "rbs_constant_pool \<Rightarrow> rbs_ruby_annotation \<Rightarrow> bool" where
  "annotation_sent pool node \<longleftrightarrow> valid_ruby_annotation pool node \<and> translatable_ruby_annotation node"

text \<open>A parse on the parser that a method starts with leaves something that can be sent.\<close>

definition sendable ::
  "ruby_buffer \<Rightarrow> int \<Rightarrow> int \<Rightarrow> byte list list option \<Rightarrow> (rbs_constant_pool \<Rightarrow> 'n \<Rightarrow> bool) \<Rightarrow> ('n \<Rightarrow> writer) \<Rightarrow>
   (rbs_parser \<Rightarrow> 'n outcome) \<Rightarrow> bool"
where
  "sendable buf first_pos last_pos variables ok w parse \<longleftrightarrow>
     (case starting_parser buf first_pos last_pos variables of Some (Inr p) \<Rightarrow> carries ok w (parse p) | _ \<Rightarrow> True)"

lemma sendableD: "sendable buf i j vs ok w parse \<Longrightarrow> starting_parser buf i j vs = Some (Inr p) \<Longrightarrow> carries ok w (parse p)"
  by (simp add: sendable_def)

lemma validated_variables: "ruby_validate_variables (variables_value variables) = None"
  by (auto simp: ruby_validate_variables_def variables_value_def list_all_iff split: option.splits)

lemma signature_agrees:
  assumes "host_input buf last_pos None"
    and "sendable buf first_pos last_pos None signature_sent serialize_signature (rbs_parse_signature uninit)"
  shows "rbsparser_parse_signature uninit buf first_pos last_pos False = wasm_parse_signature uninit buf first_pos last_pos False \<and>
    rbsparser_parse_signature uninit buf first_pos last_pos False \<noteq> None"
proof -
  let ?k' = "\<lambda>p. parsed (rbs_parse_signature uninit p) (\<lambda>signature p.
    if parser_error p = None then set_serialized_result p (w_nullable (map_option serialize_signature signature)) else set_error_result p)"
  have both: "parse_signature_try uninit buf p = finish_call (?k' p) deserialize \<and> parse_signature_try uninit buf p \<noteq> None"
    if "starting_parser buf first_pos last_pos None = Some (Inr p)" "prepared 0 p" for p
  proof -
    have run: "run_ok p (\<lambda>v q. within p q \<and> vars q = vars p \<and> signature_post uninit p v q) (rbs_parse_signature uninit p)"
      using signature_ok [of _ p uninit] prepared_ready [OF that(2)] unfolding may_read_def by blast
    have "parse_signature_try uninit buf p = finish_call (?k' p) deserialize"
      unfolding parse_signature_try_def
      by (rule results_agree [OF sendableD [OF assms(2) that(1)] run])
        (auto simp: signature_sent_def sends_signature signature_translated)
    then show ?thesis using parsed_some [OF run] unfolding parse_signature_try_def by (rule conjI)
  qed
  have ext: "extension_call buf first_pos last_pos None (parse_signature_try uninit buf) = rbsparser_parse_signature uninit buf first_pos last_pos False"
    by (simp add: extension_call_def rbsparser_parse_signature_def alloc_parser_from_buffer_def declare_type_variables_def variables_value_def
      and_then_def split: option.split sum.split)
  have host: "host_call buf first_pos last_pos None ?k' deserialize = wasm_parse_signature uninit buf first_pos last_pos False"
    by (cases "validate_position_range (rb_content buf) first_pos last_pos") (simp_all add: host_call_def wasm_parse_signature_def rbs_wasm_parse_signature_def with_variables_def variables_value_def declare_variables_def)
  show ?thesis by (rule methods_agree [OF assms(1) both ext host])
qed

lemma type_agrees:
  assumes "host_input buf last_pos variables"
    and "sendable buf first_pos last_pos variables type_sent serialize_node
      (\<lambda>p. to_end require_eof (rbs_parse_type void_allowed self_allowed classish_allowed p))"
  shows "rbsparser_parse_type buf first_pos last_pos (variables_value variables) require_eof void_allowed self_allowed classish_allowed =
      wasm_parse_type buf first_pos last_pos (variables_value variables) require_eof void_allowed self_allowed classish_allowed \<and>
    rbsparser_parse_type buf first_pos last_pos (variables_value variables) require_eof void_allowed self_allowed classish_allowed \<noteq> None"
proof -
  let ?attempt = "parse_type_try buf require_eof void_allowed self_allowed classish_allowed"
  let ?parse = "rbs_parse_type void_allowed self_allowed classish_allowed"
  let ?k' = "\<lambda>p. if tok_type (next_token p) = pEOF then Some (RBS_WASM_OK, allocate_result [])
    else parsed (?parse p) (\<lambda>type p.
      case (if parser_error p = None \<and> require_eof then
              map_option (\<lambda>p. if tok_type (current_token p) \<noteq> pEOF then
                  rbs_parser_set_error p (current_token p) True (''expected a token `'' @ rbs_token_type_str pEOF @ ''`'')
                else p) (rbs_parser_advance p)
            else Some p) of
        None \<Rightarrow> None
      | Some p \<Rightarrow> if parser_error p = None then set_serialized_result p (w_nullable (map_option serialize_node type)) else set_error_result p)"
  have both: "?attempt p = finish_call (?k' p) deserialize_or_nil \<and> ?attempt p \<noteq> None"
    if "starting_parser buf first_pos last_pos variables = Some (Inr p)" "prepared 0 p" for p
  proof (cases "tok_type (next_token p) = pEOF")
    case True
    then show ?thesis by (simp add: parse_type_try_def no_token)
  next
    case False
    have "reads p (type_post void_allowed self_allowed classish_allowed) (?parse p)"
      using parse_type_ok [of p void_allowed self_allowed classish_allowed] that(2) by (simp add: prepared_def roomy_def)
    then obtain Q where run: "run_ok p Q (?parse p)" unfolding reads_def by blast
    note ended = to_end_ok [OF run, of require_eof]
    have "parsed (to_end require_eof (?parse p)) (\<lambda>type p. unless_error buf p (translated_pointer buf p node_to_ruby type)) =
      finish_call (parsed (to_end require_eof (?parse p)) (\<lambda>type p.
        if parser_error p = None then set_serialized_result p (w_nullable (map_option serialize_node type)) else set_error_result p)) deserialize_or_nil"
      by (rule results_agree [OF sendableD [OF assms(2) that(1)] ended])
        (auto simp: type_sent_def sends_types node_translated)
    then have "?attempt p = finish_call (?k' p) deserialize_or_nil"
      using False by (simp only: type_try_value [OF run False] wasm_type_value [OF run] if_False)
    then show ?thesis using parsed_some [OF ended] unfolding type_try_value [OF run False] by (rule conjI)
  qed
  have ext: "extension_call buf first_pos last_pos variables ?attempt =
      rbsparser_parse_type buf first_pos last_pos (variables_value variables) require_eof void_allowed self_allowed classish_allowed"
    by (simp add: extension_call_def rbsparser_parse_type_def)
  have host: "host_call buf first_pos last_pos variables ?k' deserialize_or_nil =
      wasm_parse_type buf first_pos last_pos (variables_value variables) require_eof void_allowed self_allowed classish_allowed"
    by (cases "validate_position_range (rb_content buf) first_pos last_pos") (simp_all add: host_call_def wasm_parse_type_def rbs_wasm_parse_type_def validated_variables)
  show ?thesis by (rule methods_agree [OF assms(1) both ext host])
qed

lemma method_type_agrees:
  assumes "host_input buf last_pos variables"
    and "sendable buf first_pos last_pos variables method_type_sent serialize_method_type (rbs_parse_method_type require_eof True)"
  shows "rbsparser_parse_method_type buf first_pos last_pos (variables_value variables) require_eof False =
      wasm_parse_method_type buf first_pos last_pos (variables_value variables) require_eof False \<and>
    rbsparser_parse_method_type buf first_pos last_pos (variables_value variables) require_eof False \<noteq> None"
proof -
  let ?k' = "\<lambda>p. if tok_type (next_token p) = pEOF then Some (RBS_WASM_OK, allocate_result [])
    else parsed (rbs_parse_method_type require_eof True p) (\<lambda>method_type p.
      if parser_error p = None then set_serialized_result p (w_nullable (map_option serialize_method_type method_type)) else set_error_result p)"
  have both: "parse_method_type_try buf require_eof p = finish_call (?k' p) deserialize_or_nil \<and> parse_method_type_try buf require_eof p \<noteq> None"
    if "starting_parser buf first_pos last_pos variables = Some (Inr p)" "prepared 0 p" for p
  proof (cases "tok_type (next_token p) = pEOF")
    case True
    then show ?thesis by (simp add: parse_method_type_try_def no_token)
  next
    case False
    have "reads p (method_type_post True) (rbs_parse_method_type require_eof True p)"
      using method_type_ok prepared_ready [OF that(2)] by blast
    then obtain Q where run: "run_ok p Q (rbs_parse_method_type require_eof True p)" unfolding reads_def by blast
    have "parse_method_type_try buf require_eof p = finish_call (?k' p) deserialize_or_nil"
      unfolding parse_method_type_try_def if_not_P [OF False]
      by (rule results_agree [OF sendableD [OF assms(2) that(1)] run])
        (auto simp: method_type_sent_def sends_method_type method_type_translated)
    then show ?thesis using parsed_some [OF run] unfolding parse_method_type_try_def if_not_P [OF False] by (rule conjI)
  qed
  have ext: "extension_call buf first_pos last_pos variables (parse_method_type_try buf require_eof) =
      rbsparser_parse_method_type buf first_pos last_pos (variables_value variables) require_eof False"
    by (simp add: extension_call_def rbsparser_parse_method_type_def alloc_parser_from_buffer_def)
  have host: "host_call buf first_pos last_pos variables ?k' deserialize_or_nil =
      wasm_parse_method_type buf first_pos last_pos (variables_value variables) require_eof False"
    by (cases "validate_position_range (rb_content buf) first_pos last_pos") (simp_all add: host_call_def wasm_parse_method_type_def rbs_wasm_parse_method_type_def validated_variables)
  show ?thesis by (rule methods_agree [OF assms(1) both ext host])
qed

lemma annotation_agrees:
  assumes "host_input buf last_pos variables"
    and "sendable buf first_pos last_pos variables annotation_sent serialize_ruby_annotation
      (if leading then rbs_parse_inline_leading_annotation else rbs_parse_inline_trailing_annotation)"
  shows "(if leading then rbsparser_parse_inline_leading_annotation else rbsparser_parse_inline_trailing_annotation)
        buf first_pos last_pos (variables_value variables) =
      wasm_parse_inline leading buf first_pos last_pos (variables_value variables) \<and>
    (if leading then rbsparser_parse_inline_leading_annotation else rbsparser_parse_inline_trailing_annotation)
        buf first_pos last_pos (variables_value variables) \<noteq> None"
proof -
  let ?parse = "if leading then rbs_parse_inline_leading_annotation else rbs_parse_inline_trailing_annotation"
  let ?attempt = "if leading then parse_inline_leading_annotation_try buf else parse_inline_trailing_annotation_try buf"
  let ?k' = "\<lambda>p. parsed (?parse p) (\<lambda>annotation p. if parser_error p \<noteq> None then set_error_result p
    else (case annotation of None \<Rightarrow> Some (RBS_WASM_OK, allocate_result []) | Some annotation \<Rightarrow> set_serialized_result p (serialize_ruby_annotation annotation)))"
  have both: "?attempt p = finish_call (?k' p) deserialize_or_nil \<and> ?attempt p \<noteq> None"
    if "starting_parser buf first_pos last_pos variables = Some (Inr p)" "prepared 0 p" for p
  proof -
    have "\<exists>Q. run_ok p Q (?parse p)"
      using prepared_ready [OF that(2)] entry_ok [OF leading_ok] entry_ok [OF trailing_ok]
      unfolding rbs_parse_inline_leading_annotation_def rbs_parse_inline_trailing_annotation_def by (cases leading; simp only: if_True if_False; blast)
    then obtain Q where run: "run_ok p Q (?parse p)" ..
    have tried: "?attempt p = parsed (?parse p) (\<lambda>node p. unless_error buf p (translated_pointer buf p ruby_annotation_to_ruby node))"
      using annotation_values(1) [OF run, of buf ruby_annotation_to_ruby]
      by (cases leading; simp only: if_True if_False parse_inline_leading_annotation_try_def parse_inline_trailing_annotation_try_def)
    have "parsed (?parse p) (\<lambda>node p. unless_error buf p (translated_pointer buf p ruby_annotation_to_ruby node)) =
        finish_call (parsed (?parse p) (\<lambda>node p. if parser_error p = None
          then set_serialized_result p (w_nullable (map_option serialize_ruby_annotation node)) else set_error_result p)) deserialize_or_nil"
      by (rule results_agree [OF sendableD [OF assms(2) that(1)] run])
        (auto simp: annotation_sent_def sends_ruby_annotation ruby_annotation_translated)
    then have "?attempt p = finish_call (?k' p) deserialize_or_nil"
      unfolding tried annotation_values(2) [OF run] .
    then show ?thesis using parsed_some [OF run] unfolding tried by (rule conjI)
  qed
  have ext: "extension_call buf first_pos last_pos variables ?attempt =
      (if leading then rbsparser_parse_inline_leading_annotation else rbsparser_parse_inline_trailing_annotation)
        buf first_pos last_pos (variables_value variables)"
    by (simp add: extension_call_def rbsparser_parse_inline_leading_annotation_def rbsparser_parse_inline_trailing_annotation_def)
  have host: "host_call buf first_pos last_pos variables ?k' deserialize_or_nil =
      wasm_parse_inline leading buf first_pos last_pos (variables_value variables)"
    by (cases leading; cases "validate_position_range (rb_content buf) first_pos last_pos") (simp_all add: host_call_def wasm_parse_inline_def rbs_wasm_parse_inline_leading_annotation_def
      rbs_wasm_parse_inline_trailing_annotation_def wasm_parse_inline_annotation_def validated_variables cong: option.case_cong)
  show ?thesis by (rule methods_agree [OF assms(1) both ext host])
qed

subsection \<open>Tokens\<close>

text \<open>What is sent for a token.\<close>

definition token_sent :: "rbs_token \<Rightarrow> byte list" where
  "token_sent t =
     i32_bytes (int (length (rbs_token_type_str (tok_type t)))) @ bytes_of (rbs_token_type_str (tok_type t)) @
     i32_bytes (char_pos (r_start (tok_range t))) @ i32_bytes (char_pos (r_end (tok_range t)))"

definition token_fits :: "rbs_token \<Rightarrow> bool" where
  "token_fits t \<longleftrightarrow> as_i32 (char_pos (r_start (tok_range t))) = char_pos (r_start (tok_range t)) \<and>
     as_i32 (char_pos (r_end (tok_range t))) = char_pos (r_end (tok_range t)) \<and> int (length (rbs_token_type_str (tok_type t))) < 2 ^ 32"

lemma lex_u32_bytes: "w_lex_u32 b i = rbs_buffer_append_string b (i32_bytes i)"
  by (simp add: w_lex_u32_def i32_bytes_def Let_def)

lemma w_token_value:
  assumes "buffer_inv b"
  obtains b' where "w_token b t = Some b'" "buffer_inv b'" "buffer_contents b' = buffer_contents b @ token_sent t"
proof -
  obtain b1 where b1: "rbs_buffer_append_string b (i32_bytes (int (length (rbs_token_type_str (tok_type t))))) = Some b1" "buffer_inv b1"
    "buffer_contents b1 = buffer_contents b @ i32_bytes (int (length (rbs_token_type_str (tok_type t))))"
    using buffer_append_value [OF assms] by blast
  obtain b2 where b2: "rbs_buffer_append_string b1 (bytes_of (rbs_token_type_str (tok_type t))) = Some b2" "buffer_inv b2"
    "buffer_contents b2 = buffer_contents b1 @ bytes_of (rbs_token_type_str (tok_type t))"
    using buffer_append_value [OF b1(2)] by blast
  obtain b3 where b3: "rbs_buffer_append_string b2 (i32_bytes (char_pos (r_start (tok_range t)))) = Some b3" "buffer_inv b3"
    "buffer_contents b3 = buffer_contents b2 @ i32_bytes (char_pos (r_start (tok_range t)))"
    using buffer_append_value [OF b2(2)] by blast
  obtain b4 where b4: "rbs_buffer_append_string b3 (i32_bytes (char_pos (r_end (tok_range t)))) = Some b4" "buffer_inv b4"
    "buffer_contents b4 = buffer_contents b3 @ i32_bytes (char_pos (r_end (tok_range t)))"
    using buffer_append_value [OF b3(2)] by blast
  show ?thesis
    by (rule that [of b4]) (use b1 b2 b3 b4 in \<open>simp_all add: w_token_def lex_u32_bytes token_sent_def Let_def\<close>)
qed

lemma lex_loop_value:
  "buffer_inv b \<Longrightarrow> map_option buffer_contents (wasm_lex_loop fuel lx b) =
     map_option (\<lambda>toks. buffer_contents b @ concat (map token_sent toks)) (lex_tokens fuel lx)"
proof (induction fuel arbitrary: lx b)
  case (Suc fuel)
  show ?case
  proof (cases "rbs_lexer_next_token lx")
    case (Some r)
    obtain t lx' where r: "r = (t, lx')" by (cases r)
    obtain b' where b': "w_token b t = Some b'" "buffer_inv b'" "buffer_contents b' = buffer_contents b @ token_sent t"
      by (rule w_token_value [OF Suc.prems])
    from Suc.IH [OF b'(2), of lx'] b'(1,3) show ?thesis
      by (simp add: Some r option.map_comp comp_def)
  qed simp
qed simp

lemma read_token_sent:
  assumes "list_all token_fits toks"
  shows "length toks < fuel \<Longrightarrow> read_tokens fuel (concat (map token_sent toks)) = Some (map (token_pair buf) toks, [])"
  using assms
proof (induction toks arbitrary: fuel)
  case Nil
  then show ?case by (cases fuel) simp_all
next
  case (Cons t toks)
  then obtain k where k: "fuel = Suc k" by (cases fuel) auto
  with Cons have rest: "read_tokens k (concat (map token_sent toks)) = Some (map (token_pair buf) toks, [])" by simp
  let ?type = "bytes_of (rbs_token_type_str (tok_type t))"
  have "length ?type < 2 ^ 32" using Cons.prems(2) by (simp add: token_fits_def)
  note name = read_string_bytes [OF this]
  have "token_sent t \<noteq> []" by (simp add: token_sent_def i32_bytes_def Let_def)
  moreover have "location_object (rbs_new_location (rb_object buf) (tok_range t)) =
      Ruby_location (char_pos (r_start (tok_range t))) (char_pos (r_end (tok_range t))) []"
    by (simp add: rbs_new_location_def rbs_loc_init_def location_object_def location_start_pos_def location_end_pos_def loc_entries_def)
  moreover have "read_string (token_sent t @ xs) = Some (?type, i32_bytes (char_pos (r_start (tok_range t))) @ i32_bytes (char_pos (r_end (tok_range t))) @ xs)" for xs
    using name [of "i32_bytes (char_pos (r_start (tok_range t))) @ i32_bytes (char_pos (r_end (tok_range t))) @ xs"] by (simp add: token_sent_def)
  ultimately show ?case
    using Cons.prems(2) rest by (simp add: k reading_def read_i32_bytes value_read_def token_pair_def token_fits_def)
qed

definition tokens_sent :: "ruby_buffer \<Rightarrow> int \<Rightarrow> rbs_encoding \<Rightarrow> bool" where
  "tokens_sent buf last_pos e \<longleftrightarrow>
     (case rbsparser_lex (rb_content buf) e last_pos of None \<Rightarrow> True
      | Some toks \<Rightarrow> list_all token_fits toks \<and> int (length (concat (map token_sent toks))) < 2 ^ 31)"

lemma lex_agrees:
  assumes "host_input buf last_pos None" and "0 \<le> last_pos" and "rbs_encoding_find (rb_encoding_name buf) = Some e"
    and "tokens_sent buf last_pos e"
  shows "map_option Inr (rbsparser_lex_pairs buf e last_pos) = wasm_lex buf last_pos"
proof -
  have enc: "resolve_encoding (rb_encoding_name buf) = e"
    using assms(3) empty_encoding_name by (auto simp: resolve_encoding_def)
  have content: "rbs_string_new (string_bytes (rb_content buf)) 0 (length (string_bytes (rb_content buf))) = rb_content buf"
    "last_pos \<le> int (length (string_bytes (rb_content buf)))" using assms(1) by (simp_all add: host_input_def)
  then have clamp: "clamp_end_pos last_pos (int (length (string_bytes (rb_content buf)))) = last_pos" by (simp add: clamp_end_pos_def)
  show ?thesis
  proof (cases "rbs_lexer_new (rb_content buf) e 0 last_pos")
    case None
    then show ?thesis using assms(2) content enc clamp
      by (simp add: rbsparser_lex_pairs_def rbsparser_lex_def wasm_lex_def rbs_wasm_lex_def range_is_valid_def run_result_def)
  next
    case (Some lx)
    note loop = lex_loop_value [OF buffer_init_value(1), of "Suc (nat last_pos)" lx, unfolded buffer_init_value(2) append_Nil]
    have lex: "rbsparser_lex (rb_content buf) e last_pos = lex_tokens (Suc (nat last_pos)) lx"
      using assms(2) Some by (simp add: rbsparser_lex_def del: lex_tokens.simps)
    show ?thesis
    proof (cases "lex_tokens (Suc (nat last_pos)) lx")
      case none: None
      then have "wasm_lex_loop (Suc (nat last_pos)) lx rbs_buffer_init = None" using loop by simp
      then show ?thesis using none lex Some assms(2) content enc clamp
        by (simp add: rbsparser_lex_pairs_def wasm_lex_def rbs_wasm_lex_def range_is_valid_def run_result_def del: wasm_lex_loop.simps lex_tokens.simps)
    next
      case toks: (Some toks)
      then obtain b where b: "wasm_lex_loop (Suc (nat last_pos)) lx rbs_buffer_init = Some b"
        "buffer_contents b = concat (map token_sent toks)" using loop by auto
      have fits: "list_all token_fits toks" "length (concat (map token_sent toks)) < 2 ^ 31" using assms(4) lex toks by (simp_all add: tokens_sent_def)
      have "length toks \<le> length (concat (map token_sent toks))"
        by (induction toks) (auto simp: token_sent_def)
      then have "deserialize_tokens (concat (map token_sent toks)) = Some (Ruby_array (map (token_pair buf) toks))"
        using read_token_sent [OF fits(1), of "Suc (length (concat (map token_sent toks)))" buf] by (simp add: deserialize_tokens_def del: read_tokens.simps)
      then show ?thesis using b lex toks Some assms(2) content enc clamp
        by (simp add: rbsparser_lex_pairs_def wasm_lex_def rbs_wasm_lex_def range_is_valid_def buffer_to_string_value
          run_result_allocated [OF fits(2)] del: wasm_lex_loop.simps lex_tokens.simps)
    qed
  qed
qed

lemma host_input_none: "host_input buf last_pos variables \<Longrightarrow> host_input buf last_pos None"
  by (auto simp: host_input_def split: option.splits)

text \<open>
  C15. \<open>RBS::Parser\<close> is the same in both hosts: on every buffer without NUL bytes in an encoding of
  the table, for every range that does not end behind it and all type variables, each method of
  the C extension returns or raises exactly what the method on top of the WebAssembly parser does
  after its result has gone through the bytes of \<open>rbs_wasm.c\<close>: the same object, the same
  \<open>ParsingError\<close> with its location, message and token type, the same \<open>ArgumentError\<close> or \<open>nil\<close>; and no
  assertion fails in either. This is so whenever what the parser built can be sent: positions of
  32 bits, less than 2 GB, and a tree that neither host refuses.
\<close>
theorem hosts_agree:
  assumes "host_input buf last_pos variables"
  shows "(sendable buf first_pos last_pos None signature_sent serialize_signature (rbs_parse_signature uninit) \<longrightarrow>
      rbsparser_parse_signature uninit buf first_pos last_pos False = wasm_parse_signature uninit buf first_pos last_pos False \<and>
      rbsparser_parse_signature uninit buf first_pos last_pos False \<noteq> None) \<and>
    (sendable buf first_pos last_pos variables type_sent serialize_node (\<lambda>p. to_end require_eof (rbs_parse_type v s c p)) \<longrightarrow>
      rbsparser_parse_type buf first_pos last_pos (variables_value variables) require_eof v s c =
        wasm_parse_type buf first_pos last_pos (variables_value variables) require_eof v s c \<and>
      rbsparser_parse_type buf first_pos last_pos (variables_value variables) require_eof v s c \<noteq> None) \<and>
    (sendable buf first_pos last_pos variables method_type_sent serialize_method_type (rbs_parse_method_type require_eof True) \<longrightarrow>
      rbsparser_parse_method_type buf first_pos last_pos (variables_value variables) require_eof False =
        wasm_parse_method_type buf first_pos last_pos (variables_value variables) require_eof False \<and>
      rbsparser_parse_method_type buf first_pos last_pos (variables_value variables) require_eof False \<noteq> None) \<and>
    (sendable buf first_pos last_pos variables annotation_sent serialize_ruby_annotation rbs_parse_inline_leading_annotation \<longrightarrow>
      rbsparser_parse_inline_leading_annotation buf first_pos last_pos (variables_value variables) =
        wasm_parse_inline True buf first_pos last_pos (variables_value variables) \<and>
      rbsparser_parse_inline_leading_annotation buf first_pos last_pos (variables_value variables) \<noteq> None) \<and>
    (sendable buf first_pos last_pos variables annotation_sent serialize_ruby_annotation rbs_parse_inline_trailing_annotation \<longrightarrow>
      rbsparser_parse_inline_trailing_annotation buf first_pos last_pos (variables_value variables) =
        wasm_parse_inline False buf first_pos last_pos (variables_value variables) \<and>
      rbsparser_parse_inline_trailing_annotation buf first_pos last_pos (variables_value variables) \<noteq> None) \<and>
    (\<forall>e. rbs_encoding_find (rb_encoding_name buf) = Some e \<and> 0 \<le> last_pos \<and> tokens_sent buf last_pos e \<longrightarrow>
      map_option Inr (rbsparser_lex_pairs buf e last_pos) = wasm_lex buf last_pos)"
proof (intro conjI)
  note none = host_input_none [OF assms]
  show "\<forall>e. rbs_encoding_find (rb_encoding_name buf) = Some e \<and> 0 \<le> last_pos \<and> tokens_sent buf last_pos e \<longrightarrow>
      map_option Inr (rbsparser_lex_pairs buf e last_pos) = wasm_lex buf last_pos"
    using lex_agrees [OF none] by blast
qed ((rule impI, rule signature_agrees [OF host_input_none [OF assms]], assumption)
  | (rule impI, rule type_agrees [OF assms], assumption)
  | (rule impI, rule method_type_agrees [OF assms], assumption)
  | (rule impI, rule annotation_agrees [OF assms, where leading = True, unfolded if_True], assumption)
  | (rule impI, rule annotation_agrees [OF assms, where leading = False, unfolded if_False], assumption))+

text \<open>The method type \<open>()->top\<close> and the type \<open>T\<close> where there is a variable \<open>T\<close>.\<close>

definition example_buffer :: "rbs_string \<Rightarrow> ruby_buffer" where
  "example_buffer content = \<lparr>rb_object = Some 0, rb_content = content, rb_encoding_name = bytes_of ''US-ASCII''\<rparr>"

lemma example_encoding: "rbs_encoding_find (bytes_of ''US-ASCII'') = Some ascii_encoding"
proof -
  have "rbs_strncasecmp (bytes_of ''US-ASCII'') (bytes_of ''UTF-8'') 5 \<noteq> 0" by code_simp
  moreover have "List.find (\<lambda>(n, e). length (bytes_of ''US-ASCII'') = length n \<and>
      rbs_strncasecmp (bytes_of ''US-ASCII'') (bytes_of n) (length (bytes_of ''US-ASCII'')) = 0) (encoding_names (bytes_of ''US-ASCII'' ! 0)) =
    Some (''US-ASCII'', ''US-ASCII'')" by code_simp
  ultimately show ?thesis
    unfolding rbs_encoding_find_def Let_def by (simp del: bytes_of_simps) (simp add: encoding_entry_def rbs_encodings_def)
qed

lemma example_method_type:
  "(case rbs_parser_new method_type_source ascii_encoding 0 7 of
     Some (Done _ p) \<Rightarrow> carries method_type_sent serialize_method_type (rbs_parse_method_type True True p)
   | _ \<Rightarrow> False)"
  by code_simp

lemma example_lexed: "tokens_sent (example_buffer method_type_source) 7 ascii_encoding"
  by code_simp

lemma example_input: "host_input (example_buffer method_type_source) 7 None"
  by (simp add: host_input_def example_buffer_def example_encoding [simplified] method_type_source_def string_of_def rbs_string_new_def
    string_bytes_def segment_def)

lemma example_sendable:
  "sendable (example_buffer method_type_source) 0 7 None method_type_sent serialize_method_type (rbs_parse_method_type True True)"
proof -
  obtain p where p: "rbs_parser_new method_type_source ascii_encoding 0 7 = Some (Done () p)"
    "carries method_type_sent serialize_method_type (rbs_parse_method_type True True p)"
    using example_method_type by (auto split: option.splits outcome.splits)
  have "starting_parser (example_buffer method_type_source) 0 7 None = Some (Inr p)"
    using p(1) by (simp add: starting_parser_def alloc_parser_from_buffer_def alloc_parser_from_buffer_with_options_def example_buffer_def
      example_encoding [simplified] validate_position_range_def rbs_string_from_ruby_string_def rbs_parser_new_def method_type_source_def
      and_then_def declare_type_variables_def variables_value_def)
  then show ?thesis using p(2) by (simp add: sendable_def)
qed

theorem hosts_agree_witness:
  "\<exists>r. rbsparser_parse_method_type (example_buffer method_type_source) 0 7 Ruby_nil True False = Some r \<and>
     wasm_parse_method_type (example_buffer method_type_source) 0 7 Ruby_nil True False = Some r \<and>
     map_option Inr (rbsparser_lex_pairs (example_buffer method_type_source) ascii_encoding 7) = wasm_lex (example_buffer method_type_source) 7"
proof -
  note all = hosts_agree [OF example_input, of 0 NULL_RANGE True True True True, THEN conjunct2, THEN conjunct2]
  have name: "rbs_encoding_find (rb_encoding_name (example_buffer method_type_source)) = Some ascii_encoding"
    using example_encoding by (simp only: example_buffer_def ruby_buffer.simps)
  have "map_option Inr (rbsparser_lex_pairs (example_buffer method_type_source) ascii_encoding 7) = wasm_lex (example_buffer method_type_source) 7"
    using all [THEN conjunct2, THEN conjunct2, THEN conjunct2, THEN spec, of ascii_encoding] name example_lexed by simp
  moreover obtain r where "rbsparser_parse_method_type (example_buffer method_type_source) 0 7 Ruby_nil True False = Some r"
    "wasm_parse_method_type (example_buffer method_type_source) 0 7 Ruby_nil True False = Some r"
    using all [THEN conjunct1, THEN mp, OF example_sendable] unfolding variables_value_def option.case by (metis not_None_eq)
  ultimately show ?thesis by blast
qed

text \<open>Where they differ: \<open>_lex\<close> does not look at the status of a call with a negative end.\<close>

lemma wasm_lex_negative: "last_pos < 0 \<Longrightarrow> wasm_lex buf last_pos = Some (Inr (Ruby_array []))"
  by (simp add: wasm_lex_def rbs_wasm_lex_def range_is_valid_def run_result_allocated deserialize_tokens_def)

end
