(* ===== verification/UnicodeSearch.thy ===== *)
theory UnicodeSearch
  imports UnicodeTables
begin

text \<open>
  \<open>rbs_unicode_codepoint_match\<close> of \<open>src/util/rbs_encoding.c\<close>: it finds a code point in the tables of
  \<open>UnicodeTables\<close> exactly when one of the ranges has it; and what is checked of the tables.
\<close>

subsection \<open>The search in the tables of Unicode\<close>

text \<open>The loop of \<open>rbs_unicode_codepoint_match\<close>, with \<open>start\<close> and \<open>end\<close>.\<close>

definition search_middle :: "nat \<Rightarrow> nat \<Rightarrow> nat" where
  "search_middle first last' =
     (let middle = first + (last' - first) div 2 in if middle mod 2 \<noteq> 0 then middle - 1 else middle)"

lemma search_middle_bounds:
  shows "i < j \<Longrightarrow> search_middle i j < j" and "i < j \<Longrightarrow> i < search_middle i j + 2"
  by (auto simp: search_middle_def Let_def)

lemma search_middle_even: "even (search_middle i j)"
proof -
  have "even (if m mod 2 \<noteq> 0 then m - 1 else m)" for m :: nat by (cases m; simp; presburger)
  then show ?thesis by (simp only: search_middle_def Let_def)
qed

lemma search_shrinks:
  assumes "i < j"
  shows "search_middle i j - i < j - i" and "j - (search_middle i j + 2) < j - i"
  using search_middle_bounds [OF assms] assms by linarith+

function codepoint_search :: "rbs_unicode_codepoint \<Rightarrow> rbs_unicode_codepoint list \<Rightarrow> nat \<Rightarrow> nat \<Rightarrow> bool" where
  "codepoint_search codepoint codepoints first last' =
     (if first < last' then
        let middle = search_middle first last'
        in if codepoint \<ge> codepoints ! middle \<and> codepoint \<le> codepoints ! (middle + 1) then True
           else if codepoint < codepoints ! middle then codepoint_search codepoint codepoints first middle
           else codepoint_search codepoint codepoints (middle + 2) last'
      else False)"
  by pat_completeness auto
termination
  by (relation "measure (\<lambda>(c, cs, i, j). j - i)") (simp_all only: in_measure prod.case search_shrinks wf_measure)

declare codepoint_search.simps [simp del]

definition rbs_unicode_codepoint_match :: "rbs_unicode_codepoint \<Rightarrow> rbs_unicode_codepoint list \<Rightarrow> nat \<Rightarrow> bool" where
  "rbs_unicode_codepoint_match codepoint codepoints size' = codepoint_search codepoint codepoints 0 size'"

text \<open>What it is to find: a range with the code point in it.\<close>

definition in_ranges :: "rbs_unicode_codepoint \<Rightarrow> rbs_unicode_codepoint list \<Rightarrow> bool" where
  "in_ranges c cs \<longleftrightarrow> (\<exists>i<length cs div 2. cs ! (2 * i) \<le> c \<and> c \<le> cs ! (2 * i + 1))"

lemma codepoint_search_value:
  assumes "sorted cs" and "j \<le> length cs" and "even i" and "even j"
  shows "codepoint_search c cs i j \<longleftrightarrow> (\<exists>k. even k \<and> i \<le> k \<and> k < j \<and> cs ! k \<le> c \<and> c \<le> cs ! Suc k)"
  using assms
proof (induction c cs i j rule: codepoint_search.induct)
  case (1 c cs i j)
  show ?case
  proof (cases "i < j")
    case True
    define m where "m = search_middle i j"
    have mid: "i \<le> m" "m < j" "even m"
      using search_middle_bounds [OF True] search_middle_even [of i j] "1.prems"(3) unfolding m_def [symmetric] by (auto elim!: evenE)
    have next': "Suc m < j" "m + 2 \<le> j" using mid "1.prems"(4) by (auto elim!: evenE)
    note step = codepoint_search.simps [of c cs i j, folded m_def, unfolded Let_def if_P [OF True]]
    show ?thesis
    proof (cases "cs ! m \<le> c \<and> c \<le> cs ! Suc m")
      case True
      then show ?thesis using step mid by auto
    next
      case out: False
      show ?thesis
      proof (cases "c < cs ! m")
        case less: True
        have "codepoint_search c cs i m \<longleftrightarrow> (\<exists>k. even k \<and> i \<le> k \<and> k < m \<and> cs ! k \<le> c \<and> c \<le> cs ! Suc k)"
          using "1.IH"(1) [OF True refl] "1.prems" mid out less by (simp add: m_def)
        moreover have "\<not> cs ! k \<le> c" if "m \<le> k" "k < j" for k
          using sorted_nth_mono [OF "1.prems"(1) that(1)] that(2) "1.prems"(2) less by force
        moreover have "k < m \<and> k < j" if "k < j" "\<not> m \<le> k" for k using that by simp
        ultimately show ?thesis using step out less mid by (simp only: if_False if_True Suc_eq_plus1 [symmetric]) (meson order.strict_trans)
      next
        case more: False
        then have above: "cs ! Suc m < c" using out by force
        have "codepoint_search c cs (m + 2) j \<longleftrightarrow> (\<exists>k. even k \<and> m + 2 \<le> k \<and> k < j \<and> cs ! k \<le> c \<and> c \<le> cs ! Suc k)"
          using "1.IH"(2) [OF True refl] "1.prems" mid out more by (simp add: m_def)
        moreover have "\<not> c \<le> cs ! Suc k" if "k \<le> m" for k
          using sorted_nth_mono [OF "1.prems"(1), of "Suc k" "Suc m"] that next'(1) "1.prems"(2) above by force
        moreover have "m + 2 \<le> k" if "even k" "\<not> k \<le> m" for k using that mid(3) by presburger
        moreover have "i \<le> k" if "m + 2 \<le> k" for k using that mid(1) by simp
        ultimately show ?thesis using step out more by (simp only: if_False Suc_eq_plus1 [symmetric]) meson
      qed
    qed
  qed (simp add: codepoint_search.simps [of c cs i j])
qed

lemma codepoint_match_value:
  assumes "sorted cs" and "even (length cs)"
  shows "rbs_unicode_codepoint_match c cs (length cs) \<longleftrightarrow> in_ranges c cs"
proof -
  have even_only: "(\<exists>k. even k \<and> P k) \<longleftrightarrow> (\<exists>i. P (2 * i))" for P :: "nat \<Rightarrow> bool" by (metis evenE dvd_triv_left)
  have "2 * i < length cs \<longleftrightarrow> i < length cs div 2" for i using assms(2) by (auto elim!: evenE)
  with even_only [of "\<lambda>k. k < length cs \<and> cs ! k \<le> c \<and> c \<le> cs ! Suc k"]
  have "(\<exists>k. even k \<and> k < length cs \<and> cs ! k \<le> c \<and> c \<le> cs ! Suc k) \<longleftrightarrow> in_ranges c cs"
    by (simp add: in_ranges_def)
  then show ?thesis
    using codepoint_search_value [OF assms(1), of "length cs" 0 c] assms(2) by (simp add: rbs_unicode_codepoint_match_def)
qed

text \<open>The checks of the tables: they are in order, and the ranges of one lie in those of another.\<close>

fun ascending :: "rbs_unicode_codepoint list \<Rightarrow> bool" where
  "ascending (x # y # zs) \<longleftrightarrow> x \<le> y \<and> ascending (y # zs)"
| "ascending _ \<longleftrightarrow> True"

lemma ascending_sorted: "ascending cs \<Longrightarrow> sorted cs"
  by (induction cs rule: ascending.induct) auto

fun covered :: "rbs_unicode_codepoint list \<Rightarrow> rbs_unicode_codepoint list \<Rightarrow> bool" where
  "covered (a # b # cs) (c # d # ds) \<longleftrightarrow> (if d < a then covered (a # b # cs) ds else c \<le> a \<and> b \<le> d \<and> covered cs (c # d # ds))"
| "covered [] ds \<longleftrightarrow> True"
| "covered _ _ \<longleftrightarrow> False"

lemma in_ranges_simps: "in_ranges x (a # b # cs) \<longleftrightarrow> a \<le> x \<and> x \<le> b \<or> in_ranges x cs" "\<not> in_ranges x []"
proof -
  have "(\<exists>i<Suc n. P i) \<longleftrightarrow> P 0 \<or> (\<exists>i<n. P (Suc i))" for n and P :: "nat \<Rightarrow> bool" by (metis less_Suc_eq_0_disj)
  from this [where P = "\<lambda>i. (a # b # cs) ! (2 * i) \<le> x \<and> x \<le> (a # b # cs) ! (2 * i + 1)"]
  show "in_ranges x (a # b # cs) \<longleftrightarrow> a \<le> x \<and> x \<le> b \<or> in_ranges x cs" by (simp add: in_ranges_def)
qed (simp add: in_ranges_def)

lemma covered_ranges: "covered cs ds \<Longrightarrow> in_ranges x cs \<Longrightarrow> in_ranges x ds"
  by (induction cs ds rule: covered.induct) (auto simp: in_ranges_simps split: if_splits intro: order_trans)

definition ranges_within :: "rbs_unicode_codepoint list \<Rightarrow> rbs_unicode_codepoint list \<Rightarrow> bool" where
  "ranges_within cs ds \<longleftrightarrow> even (length cs) \<and> even (length ds) \<and> (\<forall>x. in_ranges x cs \<longrightarrow> in_ranges x ds)"

lemma in_ranges_append: "even (length cs) \<Longrightarrow> in_ranges x (cs @ ds) \<longleftrightarrow> in_ranges x cs \<or> in_ranges x ds"
  by (induction cs rule: induct_list012) (auto simp: in_ranges_simps)

lemma within_covered: "covered cs ds \<Longrightarrow> even (length cs) \<Longrightarrow> even (length ds) \<Longrightarrow> ranges_within cs ds"
  by (simp add: ranges_within_def covered_ranges)

text \<open>Part by part.\<close>

lemma within_append: "ranges_within cs ds \<Longrightarrow> ranges_within cs' ds' \<Longrightarrow> ranges_within (cs @ cs') (ds @ ds')"
  by (auto simp: ranges_within_def in_ranges_append)

lemma ascending_append: "ascending cs \<Longrightarrow> ascending ds \<Longrightarrow> last cs \<le> hd ds \<Longrightarrow> ascending (cs @ ds)"
  by (induction cs rule: ascending.induct) (auto split: if_splits; cases ds; auto)+

lemma ascending_append_more:
  "ascending cs \<Longrightarrow> ascending (ds @ es) \<Longrightarrow> ds \<noteq> [] \<Longrightarrow> last cs \<le> hd ds \<Longrightarrow> ascending (cs @ ds @ es)"
  using ascending_append [of cs "ds @ es"] by simp

lemma alpha_ascending: "ascending unicode_alpha_codepoints"
  unfolding unicode_alpha_codepoints_def by (intro ascending_append_more ascending_append; code_simp)

lemma alnum_ascending: "ascending unicode_alnum_codepoints"
  unfolding unicode_alnum_codepoints_def by (intro ascending_append_more ascending_append; code_simp)

lemma isupper_ascending: "ascending unicode_isupper_codepoints"
  unfolding unicode_isupper_codepoints_def by (intro ascending_append_more ascending_append; code_simp)

lemma alpha_within: "ranges_within unicode_alpha_codepoints unicode_alnum_codepoints"
  unfolding unicode_alpha_codepoints_def unicode_alnum_codepoints_def by (intro within_append; rule within_covered; code_simp)

lemma isupper_within: "ranges_within unicode_isupper_codepoints unicode_alpha_codepoints"
  unfolding unicode_alpha_codepoints_def unicode_isupper_codepoints_def by (intro within_append; rule within_covered; code_simp)

lemma unicode_lengths: "length unicode_alpha_codepoints = 1508" "length unicode_alnum_codepoints = 1598" "length unicode_isupper_codepoints = 1320"
  by (simp_all only: unicode_alpha_codepoints_def unicode_alnum_codepoints_def unicode_isupper_codepoints_def) simp_all

end
