(* ===== verification/EncodingLetters.thy ===== *)
theory EncodingLetters
  imports EncodingTables UnicodeSearch
begin

unbundle bit_operations_syntax

text \<open>
  The other functions of \<open>src/util/rbs_encoding.c\<close>: whether the next character of an encoding is a letter,
  alphanumeric or upper-case. As in \<open>Encoding\<close>, the bytes and their number are a list that is not
  empty.
\<close>

definition RBS_ENCODING_ALPHABETIC_BIT :: byte where
  "RBS_ENCODING_ALPHABETIC_BIT = push_bit 0 1"

definition RBS_ENCODING_ALPHANUMERIC_BIT :: byte where
  "RBS_ENCODING_ALPHANUMERIC_BIT = push_bit 1 1"

definition RBS_ENCODING_UPPERCASE_BIT :: byte where
  "RBS_ENCODING_UPPERCASE_BIT = push_bit 2 1"

subsection \<open>Unicode\<close>

definition rbs_encoding_utf_8_alpha_char :: "byte list \<Rightarrow> nat" where
  "rbs_encoding_utf_8_alpha_char b =
     (if b ! 0 < 0x80 then (if rbs_encoding_unicode_table ! unat (b ! 0) AND RBS_ENCODING_ALPHABETIC_BIT \<noteq> 0 then 1 else 0)
      else
        (let (codepoint, width) = rbs_utf_8_codepoint b in
         if codepoint \<le> 0xFF then (if rbs_encoding_unicode_table ! unat (ucast codepoint :: byte) AND RBS_ENCODING_ALPHABETIC_BIT \<noteq> 0 then width else 0)
         else (if rbs_unicode_codepoint_match codepoint unicode_alpha_codepoints 1508 then width else 0)))"

definition rbs_encoding_utf_8_alnum_char :: "byte list \<Rightarrow> nat" where
  "rbs_encoding_utf_8_alnum_char b =
     (if b ! 0 < 0x80 then (if rbs_encoding_unicode_table ! unat (b ! 0) AND RBS_ENCODING_ALPHANUMERIC_BIT \<noteq> 0 then 1 else 0)
      else
        (let (codepoint, width) = rbs_utf_8_codepoint b in
         if codepoint \<le> 0xFF then (if rbs_encoding_unicode_table ! unat (ucast codepoint :: byte) AND RBS_ENCODING_ALPHANUMERIC_BIT \<noteq> 0 then width else 0)
         else (if rbs_unicode_codepoint_match codepoint unicode_alnum_codepoints 1598 then width else 0)))"

definition rbs_encoding_utf_8_isupper_char :: "byte list \<Rightarrow> bool" where
  "rbs_encoding_utf_8_isupper_char b =
     (if b ! 0 < 0x80 then (rbs_encoding_unicode_table ! unat (b ! 0) AND RBS_ENCODING_UPPERCASE_BIT \<noteq> 0)
      else
        (let (codepoint, width) = rbs_utf_8_codepoint b in
         if codepoint \<le> 0xFF then (rbs_encoding_unicode_table ! unat (ucast codepoint :: byte) AND RBS_ENCODING_UPPERCASE_BIT \<noteq> 0)
         else rbs_unicode_codepoint_match codepoint unicode_isupper_codepoints 1320))"

definition rbs_encoding_cesu_8_alpha_char :: "byte list \<Rightarrow> nat" where
  "rbs_encoding_cesu_8_alpha_char b =
     (if b ! 0 < 0x80 then (if rbs_encoding_unicode_table ! unat (b ! 0) AND RBS_ENCODING_ALPHABETIC_BIT \<noteq> 0 then 1 else 0)
      else
        (let (codepoint, width) = rbs_cesu_8_codepoint b in
         if codepoint \<le> 0xFF then (if rbs_encoding_unicode_table ! unat (ucast codepoint :: byte) AND RBS_ENCODING_ALPHABETIC_BIT \<noteq> 0 then width else 0)
         else (if rbs_unicode_codepoint_match codepoint unicode_alpha_codepoints 1508 then width else 0)))"

definition rbs_encoding_cesu_8_alnum_char :: "byte list \<Rightarrow> nat" where
  "rbs_encoding_cesu_8_alnum_char b =
     (if b ! 0 < 0x80 then (if rbs_encoding_unicode_table ! unat (b ! 0) AND RBS_ENCODING_ALPHANUMERIC_BIT \<noteq> 0 then 1 else 0)
      else
        (let (codepoint, width) = rbs_cesu_8_codepoint b in
         if codepoint \<le> 0xFF then (if rbs_encoding_unicode_table ! unat (ucast codepoint :: byte) AND RBS_ENCODING_ALPHANUMERIC_BIT \<noteq> 0 then width else 0)
         else (if rbs_unicode_codepoint_match codepoint unicode_alnum_codepoints 1598 then width else 0)))"

definition rbs_encoding_cesu_8_isupper_char :: "byte list \<Rightarrow> bool" where
  "rbs_encoding_cesu_8_isupper_char b =
     (if b ! 0 < 0x80 then (rbs_encoding_unicode_table ! unat (b ! 0) AND RBS_ENCODING_UPPERCASE_BIT \<noteq> 0)
      else
        (let (codepoint, width) = rbs_cesu_8_codepoint b in
         if codepoint \<le> 0xFF then (rbs_encoding_unicode_table ! unat (ucast codepoint :: byte) AND RBS_ENCODING_UPPERCASE_BIT \<noteq> 0)
         else rbs_unicode_codepoint_match codepoint unicode_isupper_codepoints 1320))"

subsection \<open>ASCII and the encodings of one byte\<close>

text \<open>The macro \<open>RBS_ENCODING_TABLE\<close>: its three functions for a table.\<close>

definition table_alpha_char :: "byte list \<Rightarrow> byte list \<Rightarrow> nat" where
  "table_alpha_char table b = unat (table ! unat (b ! 0) AND RBS_ENCODING_ALPHABETIC_BIT)"

definition table_alnum_char :: "byte list \<Rightarrow> byte list \<Rightarrow> nat" where
  "table_alnum_char table b = (if table ! unat (b ! 0) AND RBS_ENCODING_ALPHANUMERIC_BIT \<noteq> 0 then 1 else 0)"

definition table_isupper_char :: "byte list \<Rightarrow> byte list \<Rightarrow> bool" where
  "table_isupper_char table b \<longleftrightarrow> table ! unat (b ! 0) AND RBS_ENCODING_UPPERCASE_BIT \<noteq> 0"

definition rbs_encoding_ascii_alpha_char :: "byte list \<Rightarrow> nat" where
  "rbs_encoding_ascii_alpha_char b = unat (rbs_encoding_ascii_table ! unat (b ! 0) AND RBS_ENCODING_ALPHABETIC_BIT)"

definition rbs_encoding_ascii_alpha_char_7bit :: "byte list \<Rightarrow> nat" where
  "rbs_encoding_ascii_alpha_char_7bit b = (if b ! 0 < 0x80 then rbs_encoding_ascii_alpha_char b else 0)"

definition rbs_encoding_ascii_alnum_char :: "byte list \<Rightarrow> nat" where
  "rbs_encoding_ascii_alnum_char b = (if rbs_encoding_ascii_table ! unat (b ! 0) AND RBS_ENCODING_ALPHANUMERIC_BIT \<noteq> 0 then 1 else 0)"

definition rbs_encoding_ascii_alnum_char_7bit :: "byte list \<Rightarrow> nat" where
  "rbs_encoding_ascii_alnum_char_7bit b = (if b ! 0 < 0x80 then rbs_encoding_ascii_alnum_char b else 0)"

definition rbs_encoding_ascii_isupper_char :: "byte list \<Rightarrow> bool" where
  "rbs_encoding_ascii_isupper_char b \<longleftrightarrow> rbs_encoding_ascii_table ! unat (b ! 0) AND RBS_ENCODING_UPPERCASE_BIT \<noteq> 0"

definition rbs_encoding_ascii_isupper_char_7bit :: "byte list \<Rightarrow> bool" where
  "rbs_encoding_ascii_isupper_char_7bit b \<longleftrightarrow> b ! 0 < 0x80 \<and> rbs_encoding_ascii_isupper_char b"

subsection \<open>Japanese encodings\<close>

definition rbs_encoding_euc_jp_isupper_char :: "byte list \<Rightarrow> bool" where
  "rbs_encoding_euc_jp_isupper_char b =
     (let width = rbs_encoding_euc_jp_char_width b in
      if width = 1 then rbs_encoding_ascii_isupper_char b
      else if width = 2 then
        b ! 0 = 0xA3 \<and> b ! 1 \<ge> 0xC1 \<and> b ! 1 \<le> 0xDA \<or>
        b ! 0 = 0xA6 \<and> b ! 1 \<ge> 0xA1 \<and> b ! 1 \<le> 0xB8 \<or>
        b ! 0 = 0xA7 \<and> b ! 1 \<ge> 0xA1 \<and> b ! 1 \<le> 0xC1
      else False)"

definition rbs_encoding_shift_jis_alnum_char :: "byte list \<Rightarrow> nat" where
  "rbs_encoding_shift_jis_alnum_char b =
     (let width = rbs_encoding_shift_jis_char_width b in
      if width = 1 then (if b ! 0 \<ge> 0x80 \<or> rbs_encoding_ascii_alnum_char b \<noteq> 0 then 1 else 0) else width)"

definition rbs_encoding_shift_jis_alpha_char :: "byte list \<Rightarrow> nat" where
  "rbs_encoding_shift_jis_alpha_char b =
     (let width = rbs_encoding_shift_jis_char_width b in
      if width = 1 then (if b ! 0 \<ge> 0x80 \<or> rbs_encoding_ascii_alpha_char b \<noteq> 0 then 1 else 0) else width)"

definition rbs_encoding_shift_jis_isupper_char :: "byte list \<Rightarrow> bool" where
  "rbs_encoding_shift_jis_isupper_char b =
     (let width = rbs_encoding_shift_jis_char_width b in
      if width = 1 then rbs_encoding_ascii_isupper_char b
      else if width = 2 then
        b ! 0 = 0x82 \<and> b ! 1 \<ge> 0x60 \<and> b ! 1 \<le> 0x79 \<or>
        b ! 0 = 0x83 \<and> b ! 1 \<ge> 0x9F \<and> b ! 1 \<le> 0xB6 \<or>
        b ! 0 = 0x84 \<and> b ! 1 \<ge> 0x40 \<and> b ! 1 \<le> 0x60
      else width \<noteq> 0)"

subsection \<open>The table of encodings\<close>

text \<open>The rest of the entries of \<open>rbs_encodings\<close>, in the same order.\<close>

record rbs_encoding_letters =
  letters_name :: string
  alnum_char :: "byte list \<Rightarrow> nat"
  alpha_char :: "byte list \<Rightarrow> nat"
  isupper_char :: "byte list \<Rightarrow> bool"

definition table_letters :: "string \<Rightarrow> byte list \<Rightarrow> rbs_encoding_letters" where
  "table_letters name table =
     \<lparr>letters_name = name, alnum_char = table_alnum_char table, alpha_char = table_alpha_char table,
      isupper_char = table_isupper_char table\<rparr>"

definition ascii_7bit_letters :: "string \<Rightarrow> rbs_encoding_letters" where
  "ascii_7bit_letters name =
     \<lparr>letters_name = name, alnum_char = rbs_encoding_ascii_alnum_char_7bit, alpha_char = rbs_encoding_ascii_alpha_char_7bit,
      isupper_char = rbs_encoding_ascii_isupper_char_7bit\<rparr>"

definition shift_jis_letters :: "string \<Rightarrow> rbs_encoding_letters" where
  "shift_jis_letters name =
     \<lparr>letters_name = name, alnum_char = rbs_encoding_shift_jis_alnum_char, alpha_char = rbs_encoding_shift_jis_alpha_char,
      isupper_char = rbs_encoding_shift_jis_isupper_char\<rparr>"

definition euc_jp_letters :: "string \<Rightarrow> rbs_encoding_letters" where
  "euc_jp_letters name =
     \<lparr>letters_name = name, alnum_char = rbs_encoding_ascii_alnum_char_7bit, alpha_char = rbs_encoding_ascii_alpha_char_7bit,
      isupper_char = rbs_encoding_euc_jp_isupper_char\<rparr>"

definition utf_8_letters :: "string \<Rightarrow> rbs_encoding_letters" where
  "utf_8_letters name =
     \<lparr>letters_name = name, alnum_char = rbs_encoding_utf_8_alnum_char, alpha_char = rbs_encoding_utf_8_alpha_char,
      isupper_char = rbs_encoding_utf_8_isupper_char\<rparr>"

definition ascii_letter_functions :: "string \<Rightarrow> rbs_encoding_letters" where
  "ascii_letter_functions name =
     \<lparr>letters_name = name, alnum_char = rbs_encoding_ascii_alnum_char, alpha_char = rbs_encoding_ascii_alpha_char,
      isupper_char = rbs_encoding_ascii_isupper_char\<rparr>"

definition cesu_8_letters :: "string \<Rightarrow> rbs_encoding_letters" where
  "cesu_8_letters name =
     \<lparr>letters_name = name, alnum_char = rbs_encoding_cesu_8_alnum_char, alpha_char = rbs_encoding_cesu_8_alpha_char,
      isupper_char = rbs_encoding_cesu_8_isupper_char\<rparr>"

definition rbs_encodings_letters :: "rbs_encoding_letters list" where
  "rbs_encodings_letters =
    [utf_8_letters ''UTF-8'',
     ascii_letter_functions ''US-ASCII'',
     ascii_letter_functions ''ASCII-8BIT'',
     euc_jp_letters ''EUC-JP'',
     shift_jis_letters ''Windows-31J'',
     ascii_7bit_letters ''Big5'',
     ascii_7bit_letters ''Big5-HKSCS'',
     ascii_7bit_letters ''Big5-UAO'',
     cesu_8_letters ''CESU-8'',
     euc_jp_letters ''CP51932'',
     table_letters ''CP850'' rbs_encoding_cp850_table,
     table_letters ''CP852'' rbs_encoding_cp852_table,
     table_letters ''CP855'' rbs_encoding_cp855_table,
     ascii_7bit_letters ''CP949'',
     ascii_7bit_letters ''CP950'',
     ascii_7bit_letters ''CP951'',
     ascii_7bit_letters ''Emacs-Mule'',
     euc_jp_letters ''eucJP-ms'',
     euc_jp_letters ''EUC-JIS-2004'',
     ascii_7bit_letters ''EUC-KR'',
     ascii_7bit_letters ''EUC-TW'',
     ascii_7bit_letters ''GB12345'',
     ascii_7bit_letters ''GB18030'',
     table_letters ''GB1988'' rbs_encoding_gb1988_table,
     ascii_7bit_letters ''GB2312'',
     ascii_7bit_letters ''GBK'',
     table_letters ''IBM437'' rbs_encoding_ibm437_table,
     table_letters ''IBM720'' rbs_encoding_ibm720_table,
     table_letters ''IBM737'' rbs_encoding_ibm737_table,
     table_letters ''IBM775'' rbs_encoding_ibm775_table,
     table_letters ''IBM852'' rbs_encoding_ibm852_table,
     table_letters ''IBM855'' rbs_encoding_ibm855_table,
     table_letters ''IBM857'' rbs_encoding_ibm857_table,
     table_letters ''IBM860'' rbs_encoding_ibm860_table,
     table_letters ''IBM861'' rbs_encoding_ibm861_table,
     table_letters ''IBM862'' rbs_encoding_ibm862_table,
     table_letters ''IBM863'' rbs_encoding_ibm863_table,
     table_letters ''IBM864'' rbs_encoding_ibm864_table,
     table_letters ''IBM865'' rbs_encoding_ibm865_table,
     table_letters ''IBM866'' rbs_encoding_ibm866_table,
     table_letters ''IBM869'' rbs_encoding_ibm869_table,
     table_letters ''ISO-8859-1'' rbs_encoding_iso_8859_1_table,
     table_letters ''ISO-8859-2'' rbs_encoding_iso_8859_2_table,
     table_letters ''ISO-8859-3'' rbs_encoding_iso_8859_3_table,
     table_letters ''ISO-8859-4'' rbs_encoding_iso_8859_4_table,
     table_letters ''ISO-8859-5'' rbs_encoding_iso_8859_5_table,
     table_letters ''ISO-8859-6'' rbs_encoding_iso_8859_6_table,
     table_letters ''ISO-8859-7'' rbs_encoding_iso_8859_7_table,
     table_letters ''ISO-8859-8'' rbs_encoding_iso_8859_8_table,
     table_letters ''ISO-8859-9'' rbs_encoding_iso_8859_9_table,
     table_letters ''ISO-8859-10'' rbs_encoding_iso_8859_10_table,
     table_letters ''ISO-8859-11'' rbs_encoding_iso_8859_11_table,
     table_letters ''ISO-8859-13'' rbs_encoding_iso_8859_13_table,
     table_letters ''ISO-8859-14'' rbs_encoding_iso_8859_14_table,
     table_letters ''ISO-8859-15'' rbs_encoding_iso_8859_15_table,
     table_letters ''ISO-8859-16'' rbs_encoding_iso_8859_16_table,
     table_letters ''KOI8-R'' rbs_encoding_koi8_r_table,
     table_letters ''KOI8-U'' rbs_encoding_koi8_u_table,
     table_letters ''macCentEuro'' rbs_encoding_mac_cent_euro_table,
     table_letters ''macCroatian'' rbs_encoding_mac_croatian_table,
     table_letters ''macCyrillic'' rbs_encoding_mac_cyrillic_table,
     table_letters ''macGreek'' rbs_encoding_mac_greek_table,
     table_letters ''macIceland'' rbs_encoding_mac_iceland_table,
     shift_jis_letters ''MacJapanese'',
     table_letters ''macRoman'' rbs_encoding_mac_roman_table,
     table_letters ''macRomania'' rbs_encoding_mac_romania_table,
     table_letters ''macThai'' rbs_encoding_mac_thai_table,
     table_letters ''macTurkish'' rbs_encoding_mac_turkish_table,
     table_letters ''macUkraine'' rbs_encoding_mac_ukraine_table,
     shift_jis_letters ''Shift_JIS'',
     shift_jis_letters ''SJIS-DoCoMo'',
     shift_jis_letters ''SJIS-KDDI'',
     shift_jis_letters ''SJIS-SoftBank'',
     ascii_7bit_letters ''stateless-ISO-2022-JP'',
     ascii_7bit_letters ''stateless-ISO-2022-JP-KDDI'',
     table_letters ''TIS-620'' rbs_encoding_tis_620_table,
     utf_8_letters ''UTF8-MAC'',
     utf_8_letters ''UTF8-DoCoMo'',
     utf_8_letters ''UTF8-KDDI'',
     utf_8_letters ''UTF8-SoftBank'',
     table_letters ''Windows-1250'' rbs_encoding_windows_1250_table,
     table_letters ''Windows-1251'' rbs_encoding_windows_1251_table,
     table_letters ''Windows-1252'' rbs_encoding_windows_1252_table,
     table_letters ''Windows-1253'' rbs_encoding_windows_1253_table,
     table_letters ''Windows-1254'' rbs_encoding_windows_1254_table,
     table_letters ''Windows-1255'' rbs_encoding_windows_1255_table,
     table_letters ''Windows-1256'' rbs_encoding_windows_1256_table,
     table_letters ''Windows-1257'' rbs_encoding_windows_1257_table,
     table_letters ''Windows-1258'' rbs_encoding_windows_1258_table,
     table_letters ''Windows-874'' rbs_encoding_windows_874_table]"

subsection \<open>What is promised of an encoding\<close>

definition ascii_upper :: "byte \<Rightarrow> bool" where
  "ascii_upper c \<longleftrightarrow> 65 \<le> unat c \<and> unat c \<le> 90"

definition ascii_alpha :: "byte \<Rightarrow> bool" where
  "ascii_alpha c \<longleftrightarrow> ascii_upper c \<or> 97 \<le> unat c \<and> unat c \<le> 122"

definition ascii_alnum :: "byte \<Rightarrow> bool" where
  "ascii_alnum c \<longleftrightarrow> ascii_alpha c \<or> 48 \<le> unat c \<and> unat c \<le> 57"

text \<open>
  A function gives the width of the character or 0, a letter is alphanumeric, an upper-case
  character is one, and the characters of ASCII are in the classes of ASCII.
\<close>

definition letters_ok :: "(byte list \<Rightarrow> nat) \<Rightarrow> rbs_encoding_letters \<Rightarrow> byte list \<Rightarrow> bool" where
  "letters_ok width l b \<longleftrightarrow>
     (alnum_char l b = 0 \<or> alnum_char l b = width b) \<and> (alpha_char l b = 0 \<or> alpha_char l b = width b) \<and>
     (alpha_char l b \<noteq> 0 \<longrightarrow> alnum_char l b \<noteq> 0) \<and> (isupper_char l b \<longrightarrow> width b \<noteq> 0) \<and>
     (b ! 0 < 0x80 \<longrightarrow> width b = 1 \<and> (alpha_char l b \<noteq> 0 \<longleftrightarrow> ascii_alpha (b ! 0)) \<and>
        (alnum_char l b \<noteq> 0 \<longleftrightarrow> ascii_alnum (b ! 0)) \<and> (isupper_char l b \<longleftrightarrow> ascii_upper (b ! 0)))"

definition upper_is_alpha :: "rbs_encoding_letters \<Rightarrow> byte list \<Rightarrow> bool" where
  "upper_is_alpha l b \<longleftrightarrow> (isupper_char l b \<longrightarrow> alpha_char l b \<noteq> 0)"

lemmas letter_bits = RBS_ENCODING_ALPHABETIC_BIT_def RBS_ENCODING_ALPHANUMERIC_BIT_def RBS_ENCODING_UPPERCASE_BIT_def

lemma table_entry:
  assumes "table_ok table"
  shows "table ! unat (c :: byte) = 0 \<or> table ! unat c = 2 \<or> table ! unat c = 3 \<or> table ! unat c = 7"
proof -
  have "unat c < length table" using assms unat_byte [of c] by (simp add: table_ok_def)
  then have "table ! unat c \<in> set table" by simp
  with assms show ?thesis by (auto simp: table_ok_def list_all_iff)
qed

lemma ascii_letters_checked:
  "list_all (\<lambda>n. ascii_letters ! n = (if 48 \<le> n \<and> n \<le> 57 then 2 else if 65 \<le> n \<and> n \<le> 90 then 7 else if 97 \<le> n \<and> n \<le> 122 then 3 else 0)) [0..<128]"
  by code_simp

lemma ascii_letters_value:
  "n < 128 \<Longrightarrow> ascii_letters ! n = (if 48 \<le> n \<and> n \<le> 57 then 2 else if 65 \<le> n \<and> n \<le> 90 then 7 else if 97 \<le> n \<and> n \<le> 122 then 3 else 0)"
  using ascii_letters_checked by (simp add: list_all_iff)

lemma table_ascii:
  assumes "table_ok table" and "c < 0x80"
  shows "table ! unat c = (if ascii_upper c then 7 else if ascii_alpha c then 3 else if ascii_alnum c then 2 else 0)"
proof -
  have c: "unat c < 128" using assms(2) by (simp add: word_less_nat_alt)
  have "table ! unat c = take 128 table ! unat c" using c by simp
  also have "\<dots> = ascii_letters ! unat c" using assms(1) by (simp only: table_ok_def)
  finally show ?thesis using ascii_letters_value [OF c] by (auto simp: ascii_upper_def ascii_alpha_def ascii_alnum_def)
qed

lemma table_bits:
  assumes "table_ok table"
  shows "table ! unat (c :: byte) AND RBS_ENCODING_ALPHABETIC_BIT = (if table ! unat c = 3 \<or> table ! unat c = 7 then 1 else 0)"
    and "table ! unat c AND RBS_ENCODING_ALPHANUMERIC_BIT \<noteq> 0 \<longleftrightarrow> table ! unat c \<noteq> 0"
    and "table ! unat c AND RBS_ENCODING_UPPERCASE_BIT \<noteq> 0 \<longleftrightarrow> table ! unat c = 7"
  using table_entry [OF assms, of c] by (elim disjE; simp add: letter_bits)+

lemmas letter_classes = ascii_upper_def ascii_alpha_def ascii_alnum_def

lemma table_letters_ok:
  assumes "table_ok table"
  shows "letters_ok rbs_encoding_single_char_width (table_letters name table) b \<and> upper_is_alpha (table_letters name table) b"
proof -
  have table_values: "alpha_char (table_letters name table) b = (if table ! unat (b ! 0) = 3 \<or> table ! unat (b ! 0) = 7 then 1 else 0)"
    "alnum_char (table_letters name table) b = (if table ! unat (b ! 0) = 0 then 0 else 1)"
    "isupper_char (table_letters name table) b \<longleftrightarrow> table ! unat (b ! 0) = 7"
    by (simp_all add: table_letters_def table_alpha_char_def table_alnum_char_def table_isupper_char_def table_bits [OF assms])
  have "b ! 0 < 0x80 \<Longrightarrow> (table ! unat (b ! 0) = 3 \<or> table ! unat (b ! 0) = 7 \<longleftrightarrow> ascii_alpha (b ! 0)) \<and>
      (table ! unat (b ! 0) = 0 \<longleftrightarrow> \<not> ascii_alnum (b ! 0)) \<and> (table ! unat (b ! 0) = 7 \<longleftrightarrow> ascii_upper (b ! 0))"
    using table_ascii [OF assms] by (simp add: letter_classes)
  then show ?thesis
    by (cases "b ! 0 < 0x80") (auto simp: letters_ok_def upper_is_alpha_def table_values rbs_encoding_single_char_width_def)
qed

lemma ascii_table_ok: "table_ok rbs_encoding_ascii_table" "table_ok rbs_encoding_unicode_table"
  by (simp_all only: tables_checked)

lemma ascii_table_above: "\<not> c < 0x80 \<Longrightarrow> rbs_encoding_ascii_table ! unat (c :: byte) = 0"
proof -
  assume "\<not> c < 0x80"
  then have c: "128 \<le> unat c" by (simp add: word_less_nat_alt)
  have len: "length rbs_encoding_ascii_table = 256" using ascii_table_ok(1) by (simp add: table_ok_def)
  have "rbs_encoding_ascii_table ! unat c = drop 128 rbs_encoding_ascii_table ! (unat c - 128)" using c len unat_byte [of c] by simp
  also have "\<dots> \<in> set (drop 128 rbs_encoding_ascii_table)" using c len unat_byte [of c] by (intro nth_mem) simp
  finally show ?thesis using ascii_upper_half by (simp add: list_all_iff)
qed

lemma ascii_values:
  "rbs_encoding_ascii_alpha_char b = (if b ! 0 < 0x80 \<and> ascii_alpha (b ! 0) then 1 else 0)"
  "rbs_encoding_ascii_alnum_char b = (if b ! 0 < 0x80 \<and> ascii_alnum (b ! 0) then 1 else 0)"
  "rbs_encoding_ascii_isupper_char b \<longleftrightarrow> b ! 0 < 0x80 \<and> ascii_upper (b ! 0)"
proof -
  have "rbs_encoding_ascii_table ! unat (b ! 0) = (if b ! 0 < 0x80 \<and> ascii_upper (b ! 0) then 7 else if b ! 0 < 0x80 \<and> ascii_alpha (b ! 0) then 3
    else if b ! 0 < 0x80 \<and> ascii_alnum (b ! 0) then 2 else 0)"
    using table_ascii [OF ascii_table_ok(1), of "b ! 0"] ascii_table_above [of "b ! 0"] by (cases "b ! 0 < 0x80") simp_all
  then show "rbs_encoding_ascii_alpha_char b = (if b ! 0 < 0x80 \<and> ascii_alpha (b ! 0) then 1 else 0)"
    "rbs_encoding_ascii_alnum_char b = (if b ! 0 < 0x80 \<and> ascii_alnum (b ! 0) then 1 else 0)"
    "rbs_encoding_ascii_isupper_char b \<longleftrightarrow> b ! 0 < 0x80 \<and> ascii_upper (b ! 0)"
    unfolding rbs_encoding_ascii_alpha_char_def rbs_encoding_ascii_alnum_char_def rbs_encoding_ascii_isupper_char_def table_bits [OF ascii_table_ok(1)]
    by (auto simp: letter_classes)
qed

lemma ascii_classes: "ascii_upper c \<Longrightarrow> ascii_alpha c" "ascii_alpha c \<Longrightarrow> ascii_alnum c"
  by (simp_all add: letter_classes)

lemmas letter_records = ascii_7bit_letters_def shift_jis_letters_def euc_jp_letters_def utf_8_letters_def ascii_letter_functions_def cesu_8_letters_def

lemma ascii_letters_ok:
  "letters_ok rbs_encoding_ascii_char_width (ascii_letter_functions name) b"
  "letters_ok rbs_encoding_single_char_width (ascii_letter_functions name) b"
  "upper_is_alpha (ascii_letter_functions name) b"
  by (auto simp: letters_ok_def upper_is_alpha_def letter_records ascii_values ascii_classes rbs_encoding_ascii_char_width_def
    rbs_encoding_single_char_width_def)

lemma ascii_7bit_ok:
  assumes "b ! 0 < 0x80 \<Longrightarrow> width b = 1"
  shows "letters_ok width (ascii_7bit_letters name) b \<and> upper_is_alpha (ascii_7bit_letters name) b"
  using assms
  by (auto simp: letters_ok_def upper_is_alpha_def letter_records ascii_values ascii_classes rbs_encoding_ascii_alpha_char_7bit_def
    rbs_encoding_ascii_alnum_char_7bit_def rbs_encoding_ascii_isupper_char_7bit_def)

lemma shift_jis_ok:
  "letters_ok rbs_encoding_shift_jis_char_width (shift_jis_letters name) b \<and> upper_is_alpha (shift_jis_letters name) b"
  by (auto simp: letters_ok_def upper_is_alpha_def letter_records ascii_values ascii_classes rbs_encoding_shift_jis_alnum_char_def
    rbs_encoding_shift_jis_alpha_char_def rbs_encoding_shift_jis_isupper_char_def rbs_encoding_shift_jis_char_width_def Let_def not_less)

lemma euc_jp_ok: "letters_ok rbs_encoding_euc_jp_char_width (euc_jp_letters name) b"
  by (auto simp: letters_ok_def letter_records ascii_values ascii_classes rbs_encoding_ascii_alpha_char_7bit_def
    rbs_encoding_ascii_alnum_char_7bit_def rbs_encoding_euc_jp_isupper_char_def rbs_encoding_euc_jp_char_width_def Let_def)

lemma unicode_matches:
  "rbs_unicode_codepoint_match c unicode_alpha_codepoints 1508 \<longleftrightarrow> in_ranges c unicode_alpha_codepoints"
  "rbs_unicode_codepoint_match c unicode_alnum_codepoints 1598 \<longleftrightarrow> in_ranges c unicode_alnum_codepoints"
  "rbs_unicode_codepoint_match c unicode_isupper_codepoints 1320 \<longleftrightarrow> in_ranges c unicode_isupper_codepoints"
  using codepoint_match_value [OF ascending_sorted [OF alpha_ascending], of c] codepoint_match_value [OF ascending_sorted [OF alnum_ascending], of c]
    codepoint_match_value [OF ascending_sorted [OF isupper_ascending], of c]
  by (simp_all add: unicode_lengths)

lemma unicode_classes:
  "in_ranges c unicode_isupper_codepoints \<Longrightarrow> in_ranges c unicode_alpha_codepoints"
  "in_ranges c unicode_alpha_codepoints \<Longrightarrow> in_ranges c unicode_alnum_codepoints"
  using isupper_within alpha_within by (simp_all add: ranges_within_def)

text \<open>The classes of a code point, by the table of the first 256 and the ranges of the others.\<close>

definition code_point_alpha :: "rbs_unicode_codepoint \<Rightarrow> bool" where
  "code_point_alpha c \<longleftrightarrow> (if c \<le> 0xFF then rbs_encoding_unicode_table ! unat (ucast c :: byte) \<in> {3, 7} else in_ranges c unicode_alpha_codepoints)"

definition code_point_alnum :: "rbs_unicode_codepoint \<Rightarrow> bool" where
  "code_point_alnum c \<longleftrightarrow> (if c \<le> 0xFF then rbs_encoding_unicode_table ! unat (ucast c :: byte) \<noteq> 0 else in_ranges c unicode_alnum_codepoints)"

definition code_point_upper :: "rbs_unicode_codepoint \<Rightarrow> bool" where
  "code_point_upper c \<longleftrightarrow> (if c \<le> 0xFF then rbs_encoding_unicode_table ! unat (ucast c :: byte) = 7 else in_ranges c unicode_isupper_codepoints)"

lemma code_point_classes: "code_point_upper c \<Longrightarrow> code_point_alpha c" "code_point_alpha c \<Longrightarrow> code_point_alnum c"
  by (auto simp: code_point_upper_def code_point_alpha_def code_point_alnum_def unicode_classes split: if_splits)

lemma code_point_zero: "\<not> code_point_upper 0"
proof -
  have "rbs_encoding_unicode_table ! unat (0 :: byte) = 0"
    using table_ascii [OF ascii_table_ok(2), of 0] by (simp add: letter_classes)
  then show ?thesis by (simp add: code_point_upper_def)
qed

lemma utf_8_codepoint_width: "snd (rbs_utf_8_codepoint b) = rbs_encoding_utf_8_char_width b" "snd (rbs_utf_8_codepoint b) = 0 \<Longrightarrow> fst (rbs_utf_8_codepoint b) = 0"
proof -
  have "snd (utf_8_codepoint_loop b m i s c) = utf_8_width_loop b m i s \<and>
      (snd (utf_8_codepoint_loop b m i s c) = 0 \<longrightarrow> fst (utf_8_codepoint_loop b m i s c) = 0)" for m i s c
  proof (induction b m i s c rule: utf_8_codepoint_loop.induct)
    case (1 b m i s c)
    then show ?case
      by (simp add: utf_8_codepoint_loop.simps [of b m i s c] utf_8_width_loop.simps [of b m i s] Let_def)
  qed
  then show "snd (rbs_utf_8_codepoint b) = rbs_encoding_utf_8_char_width b" "snd (rbs_utf_8_codepoint b) = 0 \<Longrightarrow> fst (rbs_utf_8_codepoint b) = 0"
    by (simp_all add: rbs_utf_8_codepoint_def rbs_encoding_utf_8_char_width_def Let_def)
qed

text \<open>The six functions by these classes.\<close>

lemma utf_8_values:
  "\<not> b ! 0 < 0x80 \<Longrightarrow> rbs_encoding_utf_8_alpha_char b =
     (if code_point_alpha (fst (rbs_utf_8_codepoint b)) then rbs_encoding_utf_8_char_width b else 0)"
  "\<not> b ! 0 < 0x80 \<Longrightarrow> rbs_encoding_utf_8_alnum_char b =
     (if code_point_alnum (fst (rbs_utf_8_codepoint b)) then rbs_encoding_utf_8_char_width b else 0)"
  "\<not> b ! 0 < 0x80 \<Longrightarrow> rbs_encoding_utf_8_isupper_char b \<longleftrightarrow> code_point_upper (fst (rbs_utf_8_codepoint b))"
  by (simp_all add: rbs_encoding_utf_8_alpha_char_def rbs_encoding_utf_8_alnum_char_def rbs_encoding_utf_8_isupper_char_def split_beta
    utf_8_codepoint_width(1) table_bits [OF ascii_table_ok(2)] unicode_matches code_point_alpha_def code_point_alnum_def code_point_upper_def)

lemma cesu_8_values:
  "\<not> b ! 0 < 0x80 \<Longrightarrow> rbs_encoding_cesu_8_alpha_char b =
     (if code_point_alpha (fst (rbs_cesu_8_codepoint b)) then rbs_encoding_cesu_8_char_width b else 0)"
  "\<not> b ! 0 < 0x80 \<Longrightarrow> rbs_encoding_cesu_8_alnum_char b =
     (if code_point_alnum (fst (rbs_cesu_8_codepoint b)) then rbs_encoding_cesu_8_char_width b else 0)"
  "\<not> b ! 0 < 0x80 \<Longrightarrow> rbs_encoding_cesu_8_isupper_char b \<longleftrightarrow> code_point_upper (fst (rbs_cesu_8_codepoint b))"
  by (simp_all add: rbs_encoding_cesu_8_alpha_char_def rbs_encoding_cesu_8_alnum_char_def rbs_encoding_cesu_8_isupper_char_def split_beta
    rbs_encoding_cesu_8_char_width_def table_bits [OF ascii_table_ok(2)] unicode_matches code_point_alpha_def code_point_alnum_def code_point_upper_def)

lemma unicode_ascii_values:
  assumes "b ! 0 < 0x80"
  shows "rbs_encoding_utf_8_alpha_char b = (if ascii_alpha (b ! 0) then 1 else 0)" "rbs_encoding_cesu_8_alpha_char b = (if ascii_alpha (b ! 0) then 1 else 0)"
    "rbs_encoding_utf_8_alnum_char b = (if ascii_alnum (b ! 0) then 1 else 0)" "rbs_encoding_cesu_8_alnum_char b = (if ascii_alnum (b ! 0) then 1 else 0)"
    "rbs_encoding_utf_8_isupper_char b = ascii_upper (b ! 0)" "rbs_encoding_cesu_8_isupper_char b = ascii_upper (b ! 0)"
proof -
  have bits: "rbs_encoding_unicode_table ! unat (b ! 0) AND RBS_ENCODING_ALPHABETIC_BIT \<noteq> 0 \<longleftrightarrow> ascii_alpha (b ! 0)"
    "rbs_encoding_unicode_table ! unat (b ! 0) AND RBS_ENCODING_ALPHANUMERIC_BIT \<noteq> 0 \<longleftrightarrow> ascii_alnum (b ! 0)"
    "rbs_encoding_unicode_table ! unat (b ! 0) AND RBS_ENCODING_UPPERCASE_BIT \<noteq> 0 \<longleftrightarrow> ascii_upper (b ! 0)"
    unfolding table_bits [OF ascii_table_ok(2)] using table_ascii [OF ascii_table_ok(2) assms] by (simp_all add: letter_classes)
  show "rbs_encoding_utf_8_alpha_char b = (if ascii_alpha (b ! 0) then 1 else 0)" "rbs_encoding_cesu_8_alpha_char b = (if ascii_alpha (b ! 0) then 1 else 0)"
    "rbs_encoding_utf_8_alnum_char b = (if ascii_alnum (b ! 0) then 1 else 0)" "rbs_encoding_cesu_8_alnum_char b = (if ascii_alnum (b ! 0) then 1 else 0)"
    "rbs_encoding_utf_8_isupper_char b = ascii_upper (b ! 0)" "rbs_encoding_cesu_8_isupper_char b = ascii_upper (b ! 0)"
    unfolding rbs_encoding_utf_8_alpha_char_def rbs_encoding_cesu_8_alpha_char_def rbs_encoding_utf_8_alnum_char_def
      rbs_encoding_cesu_8_alnum_char_def rbs_encoding_utf_8_isupper_char_def rbs_encoding_cesu_8_isupper_char_def if_P [OF assms] bits
    by (rule refl)+
qed

lemma utf_8_ascii_width: "b \<noteq> [] \<Longrightarrow> b ! 0 < 0x80 \<Longrightarrow> rbs_encoding_utf_8_char_width b = 1"
proof -
  assume b: "b \<noteq> []" "b ! 0 < 0x80"
  then have "unat (b ! 0) \<le> 0x7F" by (simp add: word_less_nat_alt)
  with b(1) show ?thesis
    by (cases b) (simp_all add: rbs_encoding_utf_8_char_width_def Let_def utf_8_width_loop_step utf_8_next_0 unat_byte)
qed

lemma utf_8_ok:
  assumes "b \<noteq> []"
  shows "letters_ok rbs_encoding_utf_8_char_width (utf_8_letters name) b \<and> upper_is_alpha (utf_8_letters name) b"
proof (cases "b ! 0 < 0x80")
  case True
  with utf_8_ascii_width [OF assms] show ?thesis
    by (auto simp: letters_ok_def upper_is_alpha_def letter_records unicode_ascii_values ascii_classes)
next
  case False
  have "code_point_upper (fst (rbs_utf_8_codepoint b)) \<Longrightarrow> rbs_encoding_utf_8_char_width b \<noteq> 0"
    using utf_8_codepoint_width [of b] code_point_zero by metis
  with False show ?thesis by (auto simp: letters_ok_def upper_is_alpha_def letter_records utf_8_values code_point_classes)
qed

lemma cesu_8_ok: "letters_ok rbs_encoding_cesu_8_char_width (cesu_8_letters name) b \<and> upper_is_alpha (cesu_8_letters name) b"
proof (cases "b ! 0 < 0x80")
  case True
  then have "rbs_encoding_cesu_8_char_width b = 1" by (simp add: rbs_encoding_cesu_8_char_width_def rbs_cesu_8_codepoint_def Let_def)
  with True show ?thesis by (auto simp: letters_ok_def upper_is_alpha_def letter_records unicode_ascii_values ascii_classes)
next
  case False
  have "snd (rbs_cesu_8_codepoint b) = 0 \<Longrightarrow> fst (rbs_cesu_8_codepoint b) = 0"
    by (auto simp: rbs_cesu_8_codepoint_def Let_def split: if_splits)
  then have "code_point_upper (fst (rbs_cesu_8_codepoint b)) \<Longrightarrow> rbs_encoding_cesu_8_char_width b \<noteq> 0"
    using code_point_zero unfolding rbs_encoding_cesu_8_char_width_def by metis
  with False show ?thesis by (auto simp: letters_ok_def upper_is_alpha_def letter_records cesu_8_values code_point_classes)
qed

lemma seven_bit_widths:
  "b ! 0 < 0x80 \<Longrightarrow> rbs_encoding_big5_char_width b = 1" "b ! 0 < 0x80 \<Longrightarrow> rbs_encoding_cp949_char_width b = 1"
  "b ! 0 < 0x80 \<Longrightarrow> rbs_encoding_emacs_mule_char_width b = 1" "b ! 0 < 0x80 \<Longrightarrow> rbs_encoding_euc_kr_char_width b = 1"
  "b ! 0 < 0x80 \<Longrightarrow> rbs_encoding_euc_tw_char_width b = 1" "b ! 0 < 0x80 \<Longrightarrow> rbs_encoding_gb18030_char_width b = 1"
  "b ! 0 < 0x80 \<Longrightarrow> rbs_encoding_gbk_char_width b = 1"
  by (auto simp: other_width_defs Let_def word_le_nat_alt word_less_nat_alt)

text \<open>
  In the encodings of the EUC-JP family, the full-width letters are upper-case but not alphabetic.
\<close>

definition euc_jp_family :: "string list" where
  "euc_jp_family = [''EUC-JP'', ''CP51932'', ''eucJP-ms'', ''EUC-JIS-2004'']"

definition entry_ok :: "rbs_encoding \<Rightarrow> rbs_encoding_letters \<Rightarrow> bool" where
  "entry_ok e l \<longleftrightarrow> enc_name e = letters_name l \<and>
     (\<forall>b. b \<noteq> [] \<longrightarrow> letters_ok (char_width e) l b \<and> (enc_name e \<in> set euc_jp_family \<or> upper_is_alpha l b))"

lemma entry_ok_intro:
  assumes "letters_name l = n"
    and "\<And>b. b \<noteq> [] \<Longrightarrow> letters_ok w l b \<and> upper_is_alpha l b"
  shows "entry_ok \<lparr>enc_name = n, char_width = w, multibyte = m\<rparr> l"
  using assms by (simp add: entry_ok_def)

lemma letter_names:
  "letters_name (table_letters n table) = n" "letters_name (utf_8_letters n) = n" "letters_name (cesu_8_letters n) = n"
  "letters_name (shift_jis_letters n) = n" "letters_name (ascii_letter_functions n) = n" "letters_name (euc_jp_letters n) = n"
  "letters_name (ascii_7bit_letters n) = n"
  by (simp_all add: table_letters_def letter_records)

lemma entries_ok:
  "table_ok table \<Longrightarrow> entry_ok \<lparr>enc_name = n, char_width = rbs_encoding_single_char_width, multibyte = m\<rparr> (table_letters n table)"
  "entry_ok \<lparr>enc_name = n, char_width = rbs_encoding_utf_8_char_width, multibyte = m\<rparr> (utf_8_letters n)"
  "entry_ok \<lparr>enc_name = n, char_width = rbs_encoding_cesu_8_char_width, multibyte = m\<rparr> (cesu_8_letters n)"
  "entry_ok \<lparr>enc_name = n, char_width = rbs_encoding_shift_jis_char_width, multibyte = m\<rparr> (shift_jis_letters n)"
  "entry_ok \<lparr>enc_name = n, char_width = rbs_encoding_ascii_char_width, multibyte = m\<rparr> (ascii_letter_functions n)"
  "entry_ok \<lparr>enc_name = n, char_width = rbs_encoding_single_char_width, multibyte = m\<rparr> (ascii_letter_functions n)"
  by (intro entry_ok_intro letter_names; simp add: table_letters_ok utf_8_ok cesu_8_ok shift_jis_ok ascii_letters_ok)+

lemma euc_jp_entry_ok:
  "n \<in> set euc_jp_family \<Longrightarrow> entry_ok \<lparr>enc_name = n, char_width = rbs_encoding_euc_jp_char_width, multibyte = m\<rparr> (euc_jp_letters n)"
  by (simp add: entry_ok_def letter_names euc_jp_ok)

lemma seven_bit_entry_ok:
  "(\<And>b. b ! 0 < 0x80 \<Longrightarrow> width b = 1) \<Longrightarrow> entry_ok \<lparr>enc_name = n, char_width = width, multibyte = m\<rparr> (ascii_7bit_letters n)"
  by (intro entry_ok_intro letter_names ascii_7bit_ok)

lemma table_entries_ok: "list_all2 entry_ok rbs_encodings rbs_encodings_letters"
  unfolding rbs_encodings_def rbs_encodings_letters_def
  by (intro list.rel_intros entries_ok euc_jp_entry_ok seven_bit_entry_ok tables_checked seven_bit_widths) (simp_all add: euc_jp_family_def)

text \<open>
  C31. The functions on letters of every encoding of the table agree with its width function and
  with each other, on all bytes: they give the width of the next character or 0, so that they
  are 0 where there is no character; a letter is alphanumeric; an upper-case character is a
  letter, but for the full-width letters of the EUC-JP family; and on the bytes of ASCII they are
  the classes of ASCII, in every encoding. For a character of UTF-8 above ASCII they are the classes of
  its code point, where the binary search finds a code point exactly when a range of the table
  has it.
\<close>

theorem letter_functions_agree:
  "length rbs_encodings = length rbs_encodings_letters \<and>
   (\<forall>(e, l)\<in>set (zip rbs_encodings rbs_encodings_letters). enc_name e = letters_name l \<and>
      (\<forall>b. b \<noteq> [] \<longrightarrow> letters_ok (char_width e) l b \<and> (enc_name e \<in> set euc_jp_family \<or> upper_is_alpha l b))) \<and>
   (\<forall>b. \<not> b ! 0 < 0x80 \<longrightarrow>
      rbs_encoding_utf_8_alpha_char b = (if code_point_alpha (fst (rbs_utf_8_codepoint b)) then rbs_encoding_utf_8_char_width b else 0) \<and>
      rbs_encoding_utf_8_alnum_char b = (if code_point_alnum (fst (rbs_utf_8_codepoint b)) then rbs_encoding_utf_8_char_width b else 0) \<and>
      (rbs_encoding_utf_8_isupper_char b \<longleftrightarrow> code_point_upper (fst (rbs_utf_8_codepoint b))))"
  using table_entries_ok utf_8_values by (auto simp: list_all2_iff entry_ok_def)

text \<open>The full-width A of Windows-31J, and the Greek capital omega (U+03A9) in UTF-8.\<close>

lemma omega_code_point: "rbs_utf_8_codepoint [0xCE, 0xA9] = (0x3A9, 2)"
  by code_simp

lemma omega_upper: "rbs_unicode_codepoint_match 0x3A9 unicode_isupper_codepoints 1320"
  by code_simp

theorem letter_functions_agree_witness:
  "letters_ok rbs_encoding_shift_jis_char_width (shift_jis_letters ''Windows-31J'') [0x82, 0x60] \<and>
   upper_is_alpha (shift_jis_letters ''Windows-31J'') [0x82, 0x60] \<and>
   isupper_char (shift_jis_letters ''Windows-31J'') [0x82, 0x60] \<and> rbs_encoding_utf_8_isupper_char [0xCE, 0xA9]"
proof -
  have member: "(\<lparr>enc_name = ''Windows-31J'', char_width = rbs_encoding_shift_jis_char_width, multibyte = True\<rparr>, shift_jis_letters ''Windows-31J'')
      \<in> set (zip rbs_encodings rbs_encodings_letters)"
    by (simp add: rbs_encodings_def rbs_encodings_letters_def)
  have windows: "letters_ok rbs_encoding_shift_jis_char_width (shift_jis_letters ''Windows-31J'') [0x82, 0x60] \<and>
      upper_is_alpha (shift_jis_letters ''Windows-31J'') [0x82, 0x60]"
    using bspec [OF letter_functions_agree [THEN conjunct2, THEN conjunct1] member] by (simp add: euc_jp_family_def)
  have "code_point_upper 0x3A9" using omega_upper by (simp add: code_point_upper_def unicode_matches)
  then have "rbs_encoding_utf_8_isupper_char [0xCE, 0xA9]"
    using letter_functions_agree [THEN conjunct2, THEN conjunct2, rule_format, of "[0xCE, 0xA9]"] by (simp add: omega_code_point)
  moreover have "isupper_char (shift_jis_letters ''Windows-31J'') [0x82, 0x60]"
    by (simp add: shift_jis_letters_def rbs_encoding_shift_jis_isupper_char_def rbs_encoding_shift_jis_char_width_def Let_def)
  ultimately show ?thesis using windows by simp
qed

end
